(* ===== verification/OAuth_Prelude.thy ===== *)
theory OAuth_Prelude
  imports Complex_Main "HOL-Library.Sublist" "HOL-Library.Word"
begin

text \<open>
  Shared vocabulary of the development: instants and durations, the result type
  of fallible operations, the string operations of the Rust standard library
  that the server uses, row-wise table operations, and the lemmas on them that
  the component theories rely on.

  Instants (chrono's \<open>DateTime<Utc>\<close> and std's \<open>Instant\<close>) are integers counting
  nanoseconds; the reading of a clock is an argument \<open>now\<close> of the operation that
  reads it.  A Rust string is the list of its characters; white space is the
  ASCII white space, the alphabet of RFC 6749 parameters being ASCII.
\<close>

section \<open>Instants, durations and results\<close>

type_synonym instant = int

definition secs :: "int \<Rightarrow> instant" where
  "secs n = n * 1000000000"

definition timestamp :: "instant \<Rightarrow> int" where
  "timestamp t = t div 1000000000"

named_theorems result_simps

definition bindR :: "('e + 'a) \<Rightarrow> ('a \<Rightarrow> 'e + 'b) \<Rightarrow> 'e + 'b" where
  "bindR r f = (case r of Inl e \<Rightarrow> Inl e | Inr x \<Rightarrow> f x)"

definition bindS :: "('e + 'a) \<times> 's \<Rightarrow> ('a \<Rightarrow> 's \<Rightarrow> ('e + 'b) \<times> 's) \<Rightarrow> ('e + 'b) \<times> 's" where
  "bindS r f = (case r of (Inl e, s) \<Rightarrow> (Inl e, s) | (Inr x, s) \<Rightarrow> f x s)"

definition ensure :: "bool \<Rightarrow> 'e \<Rightarrow> 'e + unit" where
  "ensure b e = (if b then Inr () else Inl e)"

definition ok_or :: "'a option \<Rightarrow> 'e \<Rightarrow> 'e + 'a" where
  "ok_or v e = (case v of None \<Rightarrow> Inl e | Some x \<Rightarrow> Inr x)"

definition unwrap_or :: "'a option \<Rightarrow> 'a \<Rightarrow> 'a" where
  "unwrap_or v d = (case v of None \<Rightarrow> d | Some x \<Rightarrow> x)"

section \<open>Strings\<close>

definition is_ws :: "char \<Rightarrow> bool" where
  "is_ws c = (c = CHR '' '' \<or> c = CHR 0x09 \<or> c = CHR 0x0A \<or> c = CHR 0x0B \<or> c = CHR 0x0C \<or> c = CHR 0x0D)"

definition trim_start :: "string \<Rightarrow> string" where
  "trim_start s = dropWhile is_ws s"

definition trim_end :: "string \<Rightarrow> string" where
  "trim_end s = rev (dropWhile is_ws (rev s))"

definition trim :: "string \<Rightarrow> string" where
  "trim s = trim_end (trim_start s)"

fun split_ws :: "string \<Rightarrow> string \<Rightarrow> string list" where
  "split_ws cur [] = (if cur = [] then [] else [rev cur])"
| "split_ws cur (c # cs) =
     (if is_ws c then (if cur = [] then split_ws [] cs else rev cur # split_ws [] cs)
      else split_ws (c # cur) cs)"

definition split_whitespace :: "string \<Rightarrow> string list" where
  "split_whitespace s = split_ws [] s"

text \<open>Decimal numerals, as the formatter prints them.\<close>
fun show_nat :: "nat \<Rightarrow> string" where
  "show_nat n = (if n < 10 then [char_of (48 + n)] else show_nat (n div 10) @ [char_of (48 + n mod 10)])"

declare show_nat.simps [simp del]

definition show_int :: "int \<Rightarrow> string" where
  "show_int i = (if i < 0 then CHR ''-'' # show_nat (nat (- i)) else show_nat (nat i))"

fun split_char :: "char \<Rightarrow> string \<Rightarrow> string list" where
  "split_char d [] = [[]]"
| "split_char d (c # cs) =
     (if c = d then [] # split_char d cs
      else (case split_char d cs of [] \<Rightarrow> [[c]] | p # ps \<Rightarrow> (c # p) # ps))"

fun split_once :: "char \<Rightarrow> string \<Rightarrow> (string \<times> string) option" where
  "split_once d [] = None"
| "split_once d (c # cs) =
     (if c = d then Some ([], cs)
      else (case split_once d cs of None \<Rightarrow> None | Some (a, b) \<Rightarrow> Some (c # a, b)))"

fun join :: "string \<Rightarrow> string list \<Rightarrow> string" where
  "join sep [] = []"
| "join sep [x] = x"
| "join sep (x # y # zs) = x @ sep @ join sep (y # zs)"

definition starts_with :: "string \<Rightarrow> string \<Rightarrow> bool" where
  "starts_with s p = prefix p s"

definition strip_prefix_opt :: "string \<Rightarrow> string \<Rightarrow> string option" where
  "strip_prefix_opt s p = (if prefix p s then Some (drop (length p) s) else None)"

definition to_lower_char :: "char \<Rightarrow> char" where
  "to_lower_char c = (let n = of_char c :: nat in if 65 \<le> n \<and> n \<le> 90 then char_of (n + 32) else c)"

definition to_lowercase :: "string \<Rightarrow> string" where
  "to_lowercase s = map to_lower_char s"

section \<open>Tables\<close>

definition update_where :: "('a \<Rightarrow> bool) \<Rightarrow> ('a \<Rightarrow> 'a) \<Rightarrow> 'a list \<Rightarrow> 'a list" where
  "update_where P f xs = map (\<lambda>x. if P x then f x else x) xs"

definition count_where :: "('a \<Rightarrow> bool) \<Rightarrow> 'a list \<Rightarrow> nat" where
  "count_where P xs = length (filter P xs)"

definition as_i32 :: "int \<Rightarrow> int" where
  "as_i32 n = (n + 2147483648) mod 4294967296 - 2147483648"

definition as_i64 :: "int \<Rightarrow> int" where
  "as_i64 n = (n + 9223372036854775808) mod 18446744073709551616 - 9223372036854775808"

definition as_u32 :: "int \<Rightarrow> int" where
  "as_u32 n = n mod 4294967296"

section \<open>Lemmas on results\<close>

lemma bindR_Inl [simp]: "bindR (Inl e) f = Inl e"
  by (simp add: bindR_def)

lemma bindR_Inr [simp]: "bindR (Inr x) f = f x"
  by (simp add: bindR_def)

lemma bindR_eq_Inr [result_simps]: "bindR r f = Inr y \<longleftrightarrow> (\<exists>x. r = Inr x \<and> f x = Inr y)"
  by (cases r) auto

lemma bindR_eq_Inl [result_simps]:
  "bindR r f = Inl e \<longleftrightarrow> r = Inl e \<or> (\<exists>x. r = Inr x \<and> f x = Inl e)"
  by (cases r) auto

lemma bindS_Inl [simp]: "bindS (Inl e, s) f = (Inl e, s)"
  by (simp add: bindS_def)

lemma bindS_Inr [simp]: "bindS (Inr x, s) f = f x s"
  by (simp add: bindS_def)

lemma bindS_eq_Inr [result_simps]:
  "bindS r f = (Inr y, s') \<longleftrightarrow> (\<exists>x s. r = (Inr x, s) \<and> f x s = (Inr y, s'))"
  by (cases r; cases "fst r") auto

lemma ensure_eq_Inr [result_simps]: "ensure b e = Inr u \<longleftrightarrow> b"
  by (simp add: ensure_def)

lemma ensure_eq_Inl [result_simps]: "ensure b e = Inl e' \<longleftrightarrow> \<not> b \<and> e' = e"
  by (auto simp: ensure_def)

lemma ensure_True [simp]: "ensure True e = Inr ()"
  by (simp add: ensure_def)

lemma ensure_False [simp]: "ensure False e = Inl e"
  by (simp add: ensure_def)

lemma ok_or_eq_Inr [result_simps]: "ok_or v e = Inr x \<longleftrightarrow> v = Some x"
  by (cases v) (auto simp: ok_or_def)

lemma ok_or_eq_Inl [result_simps]: "ok_or v e = Inl e' \<longleftrightarrow> v = None \<and> e' = e"
  by (cases v) (auto simp: ok_or_def)

lemma ok_or_simps [simp]: "ok_or None e = Inl e" "ok_or (Some x) e = Inr x"
  by (simp_all add: ok_or_def)

lemma unwrap_or_simps [simp]: "unwrap_or None d = d" "unwrap_or (Some x) d = x"
  by (simp_all add: unwrap_or_def)

lemma map_sum_eq_Inl: "map_sum id f r = Inl e \<longleftrightarrow> r = Inl e"
  by (cases r) auto

lemma map_sum_eq_Inr: "map_sum id f r = Inr y \<longleftrightarrow> (\<exists>x. r = Inr x \<and> y = f x)"
  by (cases r) auto

lemma secs_mono [simp]: "secs a \<le> secs b \<longleftrightarrow> a \<le> b"
  by (simp add: secs_def)

lemma secs_less [simp]: "secs a < secs b \<longleftrightarrow> a < b"
  by (simp add: secs_def)

lemma secs_add: "secs (a + b) = secs a + secs b"
  by (simp add: secs_def)

lemma timestamp_add_secs [simp]: "timestamp (t + secs n) = timestamp t + n"
  by (simp add: timestamp_def secs_def)

lemma timestamp_mono: "s \<le> t \<Longrightarrow> timestamp s \<le> timestamp t"
  by (simp add: timestamp_def zdiv_mono1)

section \<open>Lemmas on strings\<close>

lemma split_ws_append:
  assumes "\<forall>c\<in>set w. \<not> is_ws c"
  shows "split_ws cur (w @ rest) = split_ws (rev w @ cur) rest"
  using assms by (induction w arbitrary: cur) auto

lemma split_ws_tokens:
  assumes "\<forall>c\<in>set cur. \<not> is_ws c" "t \<in> set (split_ws cur s)"
  shows "t \<noteq> [] \<and> (\<forall>c\<in>set t. \<not> is_ws c)"
  using assms
proof (induction s arbitrary: cur)
  case Nil
  then show ?case by (auto split: if_splits)
next
  case (Cons c s)
  show ?case
  proof (cases "is_ws c")
    case True
    then have "t = rev cur \<and> cur \<noteq> [] \<or> t \<in> set (split_ws [] s)"
      using Cons.prems(2) by (auto split: if_splits)
    then show ?thesis using Cons.IH [of "[]"] Cons.prems(1) by auto
  next
    case False
    show ?thesis
    proof (rule Cons.IH [of "c # cur"])
      show "\<forall>d\<in>set (c # cur). \<not> is_ws d" using Cons.prems(1) False by auto
      show "t \<in> set (split_ws (c # cur) s)" using Cons.prems(2) False by auto
    qed
  qed
qed

lemma split_whitespace_tokens:
  "t \<in> set (split_whitespace s) \<Longrightarrow> t \<noteq> [] \<and> (\<forall>c\<in>set t. \<not> is_ws c)"
  using split_ws_tokens [of "[]" t s] by (simp add: split_whitespace_def)

lemma is_ws_space [simp]: "is_ws CHR '' ''"
  by (simp add: is_ws_def)

lemma split_whitespace_join:
  assumes "\<forall>t\<in>set ts. t \<noteq> [] \<and> (\<forall>c\<in>set t. \<not> is_ws c)"
  shows "split_whitespace (join '' '' ts) = ts"
proof -
  have "split_ws [] (join '' '' ts) = ts"
    using assms by (induction ts rule: induct_list012)
      (auto simp: split_ws_append split_ws_append [where rest = "[]", simplified])
  then show ?thesis by (simp add: split_whitespace_def)
qed

lemma dropWhile_hd_not: "dropWhile P s = c # cs \<Longrightarrow> \<not> P c"
  by (metis hd_dropWhile list.distinct(1) list.sel(1))

lemma split_char_not_Nil [simp]: "split_char d s \<noteq> []"
  by (induction s) (auto split: list.splits)

lemma length_split_char: "length (split_char d s) = Suc (length (filter (\<lambda>c. c = d) s))"
  by (induction s) (auto split: list.splits)

lemma split_char_single:
  "d \<notin> set s \<Longrightarrow> split_char d s = [s]"
  by (induction s) auto

lemma strip_prefix_opt_eq_Some [simp]:
  "strip_prefix_opt s p = Some r \<longleftrightarrow> s = p @ r"
  by (auto simp: strip_prefix_opt_def prefix_def)

lemma strip_prefix_opt_append [simp]: "strip_prefix_opt (p @ r) p = Some r"
  by simp

section \<open>Lemmas on tables\<close>

lemma length_update_where [simp]: "length (update_where P f xs) = length xs"
  by (simp add: update_where_def)

lemma update_where_Nil [simp]: "update_where P f [] = []"
  by (simp add: update_where_def)

lemma update_where_Cons [simp]:
  "update_where P f (x # xs) = (if P x then f x else x) # update_where P f xs"
  by (simp add: update_where_def)

lemma set_update_where: "set (update_where P f xs) = (\<lambda>x. if P x then f x else x) ` set xs"
  by (simp add: update_where_def)

lemma map_update_where:
  assumes "\<And>x. g (f x) = g x"
  shows "map g (update_where P f xs) = map g xs"
  using assms by (induction xs) auto

lemma find_Some_in: "find P xs = Some x \<Longrightarrow> x \<in> set xs \<and> P x"
  by (induction xs) (auto split: if_splits)

lemma find_None_iff_all: "find P xs = None \<longleftrightarrow> (\<forall>x\<in>set xs. \<not> P x)"
  by (auto simp: find_None_iff)

lemma find_update_where:
  assumes "\<And>x. Q (if P x then f x else x) = Q x"
  shows "find Q (update_where P f xs) = map_option (\<lambda>x. if P x then f x else x) (find Q xs)"
  using assms by (induction xs) auto

lemma find_distinct_key:
  assumes "distinct (map k xs)" "x \<in> set xs"
  shows "find (\<lambda>y. k y = k x) xs = Some x"
  using assms by (induction xs) (auto simp: image_iff)

lemma find_key_and:
  assumes "distinct (map k xs)" "find (\<lambda>y. k y = i) xs = Some x"
  shows "find (\<lambda>y. k y = i \<and> P y) xs = (if P x then Some x else None)"
  using assms
proof (induction xs)
  case (Cons a xs)
  show ?case
  proof (cases "k a = i")
    case True
    then have "\<forall>y\<in>set xs. k y \<noteq> i" using Cons.prems(1) by (auto simp: image_iff)
    then have "find (\<lambda>y. k y = i \<and> P y) xs = None" by (simp add: find_None_iff_all)
    then show ?thesis using True Cons.prems(2) by auto
  next
    case False
    then show ?thesis using Cons by auto
  qed
qed simp

lemma fold_mono_set:
  assumes "\<And>c d. c \<in> set cs \<Longrightarrow> g d \<subseteq> (g (f c d) :: 'x set)"
  shows "g d \<subseteq> g (fold f cs d)"
  using assms
proof (induction cs arbitrary: d)
  case (Cons c cs)
  have "g d \<subseteq> g (f c d)" by (rule Cons.prems) simp
  also have "\<dots> \<subseteq> g (fold f cs (f c d))" by (rule Cons.IH) (rule Cons.prems, simp)
  finally show ?case by simp
qed simp

lemma unat_of_nat_le:
  assumes "n \<le> unat (m :: 'a::len word)"
  shows "unat (of_nat n :: 'a word) = n"
proof -
  have "n < 2 ^ LENGTH('a)" using assms unsigned_less [of m] by (rule order_le_less_trans)
  then show ?thesis by (simp add: unat_of_nat)
qed

lemma of_nat_less_word: "n \<le> unat m \<Longrightarrow> (of_nat n :: 'a::len word) < m \<longleftrightarrow> n < unat m"
  by (simp add: word_less_nat_alt unat_of_nat_le)

lemma of_nat_le_word: "n \<le> unat m \<Longrightarrow> m \<le> (of_nat n :: 'a::len word) \<longleftrightarrow> unat m \<le> n"
  by (simp add: word_le_nat_alt unat_of_nat_le)

lemma as_i32_id: "- 2147483648 \<le> n \<Longrightarrow> n < 2147483648 \<Longrightarrow> as_i32 n = n"
  by (simp add: as_i32_def mod_pos_pos_trivial)

lemma as_i64_id: "- 9223372036854775808 \<le> n \<Longrightarrow> n < 9223372036854775808 \<Longrightarrow> as_i64 n = n"
  by (simp add: as_i64_def mod_pos_pos_trivial)

lemma as_i32_range: "- 2147483648 \<le> as_i32 n \<and> as_i32 n < 2147483648"
proof -
  have "0 \<le> (n + 2147483648) mod 4294967296 \<and> (n + 2147483648) mod 4294967296 < (4294967296::int)"
    by (simp add: pos_mod_bound)
  then show ?thesis by (simp add: as_i32_def)
qed

end
