(* ===== verification/Core_Basics.thy ===== *)
theory Core_Basics
  imports OAuth_Prelude
begin

text \<open>
  The leaf modules of \<open>crates/oauth2-core\<close>: OAuth errors (\<open>models/error.rs\<close>), scope
  strings (\<open>models/scope.rs\<close>), paging (\<open>models/pagination.rs\<close>), redirect safety
  (\<open>utils/redirect.rs\<close>), protected-resource URIs (\<open>models/resource.rs\<close>), JSON values
  with the \<open>aud\<close> encodings of \<open>models/token.rs\<close>, and the delegation chain of
  \<open>models/actor.rs\<close>.

  The record \<open>libs\<close> gathers the third-party functions the models call
  (\<open>serde_json\<close>, \<open>url\<close>, the SHA-256/base64url pair); it is an argument of every
  definition that calls one of them.
\<close>

section \<open>Errors\<close>

record oauth2_error =
  err_error :: string
  err_description :: "string option"
  err_uri :: "string option"

type_synonym 'a result = "oauth2_error + 'a"

definition error_new :: "string \<Rightarrow> string option \<Rightarrow> oauth2_error" where
  "error_new e d = \<lparr>err_error = e, err_description = d, err_uri = None\<rparr>"

definition invalid_request :: "string \<Rightarrow> oauth2_error" where
  "invalid_request d = error_new ''invalid_request'' (Some d)"

definition invalid_client :: "string \<Rightarrow> oauth2_error" where
  "invalid_client d = error_new ''invalid_client'' (Some d)"

definition invalid_grant :: "string \<Rightarrow> oauth2_error" where
  "invalid_grant d = error_new ''invalid_grant'' (Some d)"

definition unauthorized_client :: "string \<Rightarrow> oauth2_error" where
  "unauthorized_client d = error_new ''unauthorized_client'' (Some d)"

definition unsupported_grant_type :: "string \<Rightarrow> oauth2_error" where
  "unsupported_grant_type d = error_new ''unsupported_grant_type'' (Some d)"

definition invalid_scope :: "string \<Rightarrow> oauth2_error" where
  "invalid_scope d = error_new ''invalid_scope'' (Some d)"

definition access_denied :: "string \<Rightarrow> oauth2_error" where
  "access_denied d = error_new ''access_denied'' (Some d)"

definition too_many_requests :: "string \<Rightarrow> oauth2_error" where
  "too_many_requests d = error_new ''too_many_requests'' (Some d)"

definition status_code :: "oauth2_error \<Rightarrow> nat" where
  "status_code e =
     (if err_error e = ''invalid_client'' then 401
      else if err_error e = ''access_denied'' then 403
      else if err_error e = ''server_error'' then 500
      else if err_error e = ''too_many_requests'' then 429
      else 400)"

datatype db_error = UniqueViolation | OtherDbError string

fun from_db_error :: "db_error \<Rightarrow> oauth2_error" where
  "from_db_error UniqueViolation = invalid_request ''duplicate key''"
| "from_db_error (OtherDbError msg) = error_new ''server_error'' (Some msg)"

lemmas error_defs =
  error_new_def invalid_request_def invalid_client_def invalid_grant_def
  unauthorized_client_def unsupported_grant_type_def invalid_scope_def access_denied_def
  too_many_requests_def

section \<open>Scopes\<close>

definition validate_scopes :: "string \<Rightarrow> string \<Rightarrow> bool" where
  "validate_scopes requested available =
     list_all (\<lambda>s. s \<in> set (split_whitespace available)) (split_whitespace requested)"

definition intersect_scopes :: "string \<Rightarrow> string \<Rightarrow> string" where
  "intersect_scopes requested available =
     join '' '' (filter (\<lambda>s. s \<in> set (split_whitespace available)) (split_whitespace requested))"

section \<open>Paging\<close>

datatype sort_dir = Desc | Asc

fun sql_str :: "sort_dir \<Rightarrow> string" where
  "sql_str Asc = ''ASC''"
| "sql_str Desc = ''DESC''"

record list_query =
  lq_limit :: "32 word option"
  lq_offset :: "32 word option"
  lq_sort_by :: "string option"
  lq_sort_dir :: "sort_dir option"
  lq_search :: "string option"
  lq_status :: "string option"

definition effective_limit :: "list_query \<Rightarrow> 32 word" where
  "effective_limit q = min (unwrap_or (lq_limit q) 25) 200"

definition effective_offset :: "list_query \<Rightarrow> 32 word" where
  "effective_offset q = unwrap_or (lq_offset q) 0"

definition search_pattern :: "list_query \<Rightarrow> string" where
  "search_pattern q =
     (case lq_search q of
        Some s \<Rightarrow> if s = [] then ''%'' else ''%'' @ to_lowercase s @ ''%''
      | None \<Rightarrow> ''%'')"

definition sort_dir_sql :: "list_query \<Rightarrow> string" where
  "sort_dir_sql q = (case lq_sort_dir q of None \<Rightarrow> ''DESC'' | Some d \<Rightarrow> sql_str d)"

record 'a page =
  pg_items :: "'a list"
  pg_total :: nat
  pg_limit :: "32 word"
  pg_offset :: "32 word"

definition page_from_vec :: "'a list \<Rightarrow> list_query \<Rightarrow> 'a page" where
  "page_from_vec all q =
     \<lparr>pg_items = take (unat (effective_limit q)) (drop (unat (effective_offset q)) all),
      pg_total = length all, pg_limit = effective_limit q, pg_offset = effective_offset q\<rparr>"

section \<open>Redirect targets\<close>

definition is_safe_redirect :: "string \<Rightarrow> bool" where
  "is_safe_redirect url0 =
     (let url = trim url0 in
      if \<not> starts_with url ''/'' then False
      else if starts_with url ''//'' then False
      else if starts_with url (''/'' @ [CHR 0x5C]) then False
      else True)"

section \<open>JSON values and the third-party functions\<close>

datatype json =
    JNull
  | JBool bool
  | JInt int
  | JFloat rat
  | JStr string
  | JArr "json list"
  | JObj "(string \<times> json) list"

fun as_str :: "json \<Rightarrow> string option" where
  "as_str (JStr s) = Some s"
| "as_str _ = None"

fun as_object :: "json \<Rightarrow> (string \<times> json) list option" where
  "as_object (JObj kvs) = Some kvs"
| "as_object _ = None"

fun as_array :: "json \<Rightarrow> json list option" where
  "as_array (JArr xs) = Some xs"
| "as_array _ = None"

fun json_get :: "json \<Rightarrow> string \<Rightarrow> json option" where
  "json_get (JObj kvs) k = map_of kvs k"
| "json_get _ _ = None"

fun json_strings :: "json list \<Rightarrow> string list option" where
  "json_strings [] = Some []"
| "json_strings (v # vs) =
     (case as_str v of None \<Rightarrow> None
      | Some s \<Rightarrow> (case json_strings vs of None \<Rightarrow> None | Some ss \<Rightarrow> Some (s # ss)))"

record url =
  url_text :: string
  url_scheme :: string
  url_username :: string
  url_password :: "string option"
  url_host :: "string option"
  url_port :: "nat option"
  url_path :: string
  url_query :: "string option"
  url_fragment :: "string option"

record libs =
  json_from_str :: "string \<Rightarrow> json option"
  json_to_string :: "json \<Rightarrow> string"
  url_parse :: "string \<Rightarrow> url option"
  sha256_b64url :: "string \<Rightarrow> string"

definition parse_string_vec :: "libs \<Rightarrow> string \<Rightarrow> string list" where
  "parse_string_vec L s =
     (case json_from_str L s of
        Some (JArr vs) \<Rightarrow> unwrap_or (json_strings vs) []
      | _ \<Rightarrow> [])"

definition strings_to_json :: "libs \<Rightarrow> string list \<Rightarrow> string" where
  "strings_to_json L ss = json_to_string L (JArr (map JStr ss))"

definition validate_resource_uri :: "libs \<Rightarrow> string \<Rightarrow> unit result" where
  "validate_resource_uri L uri =
     bindR (ok_or (url_parse L uri)
              (error_new ''invalid_target'' (Some ''resource_uri must be an absolute URI''))) (\<lambda>parsed.
     if url_scheme parsed \<noteq> ''https'' \<and> url_scheme parsed \<noteq> ''http'' then
       Inl (error_new ''invalid_target'' (Some ''resource_uri must use the https or http scheme''))
     else if url_fragment parsed \<noteq> None then
       Inl (error_new ''invalid_target'' (Some ''resource_uri must not contain a fragment''))
     else Inr ())"

section \<open>Audience encodings\<close>

fun serialize_audience :: "string list \<Rightarrow> json" where
  "serialize_audience [a] = JStr a"
| "serialize_audience as = JArr (map JStr as)"

fun deserialize_audience :: "json \<Rightarrow> string list option" where
  "deserialize_audience (JStr s) = Some [s]"
| "deserialize_audience (JArr vs) = json_strings vs"
| "deserialize_audience _ = None"

fun serialize_optional_audience :: "string list option \<Rightarrow> json" where
  "serialize_optional_audience None = JNull"
| "serialize_optional_audience (Some [a]) = JStr a"
| "serialize_optional_audience (Some as) = JArr (map JStr as)"

fun deserialize_optional_audience :: "json \<Rightarrow> string list option option" where
  "deserialize_optional_audience JNull = Some None"
| "deserialize_optional_audience v = map_option Some (deserialize_audience v)"

section \<open>Delegation chains\<close>

datatype actor = Actor (actor_sub: string) (actor_iss: string)
  (actor_sub_profile: "string option") (actor_act: "actor option")

datatype actor_chain_error =
    MissingSub | MissingIss | DepthExceeded nat nat | Malformed string

fun actor_error_text :: "actor_chain_error \<Rightarrow> string" where
  "actor_error_text MissingSub = ''actor chain level is missing a string `sub` claim''"
| "actor_error_text MissingIss = ''actor chain level is missing a string `iss` claim''"
| "actor_error_text (DepthExceeded d m) = ''actor chain depth '' @ show_nat d @ '' exceeds the maximum of '' @ show_nat m"
| "actor_error_text (Malformed r) = ''malformed actor chain: '' @ r"

definition actor_new :: "string \<Rightarrow> string \<Rightarrow> actor" where
  "actor_new s i = Actor s i None None"

fun with_profile :: "actor \<Rightarrow> string \<Rightarrow> actor" where
  "with_profile (Actor s i _ a) p = Actor s i (Some p) a"

fun with_inner :: "actor \<Rightarrow> actor \<Rightarrow> actor" where
  "with_inner (Actor s i p _) inner = Actor s i p (Some inner)"

fun depth :: "actor \<Rightarrow> nat" where
  "depth (Actor _ _ _ None) = 1"
| "depth (Actor _ _ _ (Some inner)) = Suc (depth inner)"

definition actor_matches :: "actor \<Rightarrow> string \<Rightarrow> string \<Rightarrow> bool" where
  "actor_matches a iss sub = (actor_iss a = iss \<and> actor_sub a = sub)"

lemma map_of_size:
  assumes "map_of kvs k = Some v"
  shows "size v < Suc (size_list (size_prod (\<lambda>x. 0) size) kvs)"
  using assms by (induction kvs) (auto split: if_splits)

lemma size_json_get: "as_object v = Some kvs \<Longrightarrow> map_of kvs k = Some w \<Longrightarrow> size w < size v"
  using map_of_size [of kvs k w] by (cases v) auto

function collect_levels :: "json \<Rightarrow> actor_chain_error + actor list" where
  "collect_levels v =
     (case as_object v of
        None \<Rightarrow> Inl (Malformed ''actor level is not a JSON object'')
      | Some obj \<Rightarrow>
          bindR (ok_or (Option.bind (map_of obj ''sub'') as_str) MissingSub) (\<lambda>sub.
          bindR (ok_or (Option.bind (map_of obj ''iss'') as_str) MissingIss) (\<lambda>iss.
          bindR (case map_of obj ''sub_profile'' of
                   None \<Rightarrow> Inr None
                 | Some JNull \<Rightarrow> Inr None
                 | Some p \<Rightarrow> map_sum id Some (ok_or (as_str p) (Malformed ''actor sub_profile is not a string'')))
            (\<lambda>prof.
          case map_of obj ''act'' of
            None \<Rightarrow> Inr [Actor sub iss prof None]
          | Some inner \<Rightarrow>
              if inner = JNull then Inr [Actor sub iss prof None]
              else map_sum id ((#) (Actor sub iss prof None)) (collect_levels inner)))))"
  by pat_completeness auto
termination
  by (relation "measure size") (auto simp: size_json_get)

fun set_act :: "actor option \<Rightarrow> actor \<Rightarrow> actor" where
  "set_act a (Actor s i p _) = Actor s i p a"

definition rebuild_chain :: "actor list \<Rightarrow> actor option" where
  "rebuild_chain levels = fold (\<lambda>level chain. Some (set_act chain level)) (rev levels) None"

definition from_value :: "json \<Rightarrow> actor_chain_error + actor" where
  "from_value v =
     bindR (collect_levels v) (\<lambda>levels.
       ok_or (rebuild_chain levels) (Malformed ''actor chain is empty''))"

fun to_value :: "actor \<Rightarrow> json" where
  "to_value (Actor s i p a) =
     JObj ([(''sub'', JStr s), (''iss'', JStr i)] @
           (case p of None \<Rightarrow> [] | Some prof \<Rightarrow> [(''sub_profile'', JStr prof)]) @
           (case a of None \<Rightarrow> [] | Some inner \<Rightarrow> [(''act'', to_value inner)]))"

definition validate_chain :: "actor \<Rightarrow> nat \<Rightarrow> actor_chain_error + unit" where
  "validate_chain a max_depth =
     (if depth a > max_depth then Inl (DepthExceeded (depth a) max_depth) else Inr ())"

declare collect_levels.simps [simp del]

section \<open>Errors: the status of every constructor\<close>

lemma status_code_range: "status_code e \<in> {400, 401, 403, 429, 500}"
  by (simp add: status_code_def)

lemma status_code_constructors [simp]:
  "status_code (invalid_request d) = 400" "status_code (invalid_client d) = 401"
  "status_code (invalid_grant d) = 400" "status_code (unauthorized_client d) = 400"
  "status_code (unsupported_grant_type d) = 400" "status_code (invalid_scope d) = 400"
  "status_code (access_denied d) = 403" "status_code (too_many_requests d) = 429"
  by (simp_all add: status_code_def error_defs)

section \<open>Scopes: narrowing\<close>

lemma validate_scopes_subset:
  "validate_scopes requested available \<longleftrightarrow>
     set (split_whitespace requested) \<subseteq> set (split_whitespace available)"
  by (auto simp: validate_scopes_def list_all_iff)

lemma split_intersect_scopes:
  "split_whitespace (intersect_scopes requested available) =
     filter (\<lambda>s. s \<in> set (split_whitespace available)) (split_whitespace requested)"
  unfolding intersect_scopes_def
  by (rule split_whitespace_join) (auto dest: split_whitespace_tokens)

text \<open>Scope narrowing: the intersection of two scope strings always validates against
  both of them, contains every scope they share, and is a fixed point of intersecting again.\<close>
theorem intersect_scopes_greatest:
  "validate_scopes (intersect_scopes r a) r \<and> validate_scopes (intersect_scopes r a) a \<and>
   (\<forall>s. validate_scopes s r \<and> validate_scopes s a \<longrightarrow> validate_scopes s (intersect_scopes r a)) \<and>
   intersect_scopes (intersect_scopes r a) a = intersect_scopes r a"
proof -
  have "filter (\<lambda>s. s \<in> set (split_whitespace a)) (split_whitespace (intersect_scopes r a)) =
        split_whitespace (intersect_scopes r a)"
    by (simp add: split_intersect_scopes)
  then have "intersect_scopes (intersect_scopes r a) a = intersect_scopes r a"
    using split_intersect_scopes [of r a] by (metis intersect_scopes_def)
  then show ?thesis by (auto simp: validate_scopes_subset split_intersect_scopes)
qed

lemma intersect_scopes_greatest_witness:
  "validate_scopes ''read'' (intersect_scopes ''read write'' ''admin  read'')"
proof -
  have "validate_scopes ''read'' ''read write''" "validate_scopes ''read'' ''admin  read''"
    by (simp_all add: validate_scopes_def split_whitespace_def is_ws_def)
  then show ?thesis using intersect_scopes_greatest [of "''read write''" "''admin  read''"] by blast
qed

section \<open>Paging bounds\<close>

lemma effective_limit_le: "effective_limit q \<le> 200"
  by (simp add: effective_limit_def)

lemma unat_effective_limit_le: "unat (effective_limit q) \<le> 200"
  using effective_limit_le [of q] by (simp add: word_le_nat_alt)

lemma page_from_vec_items:
  "length (pg_items (page_from_vec xs q)) \<le> 200 \<and> pg_total (page_from_vec xs q) = length xs \<and>
   (\<forall>i < length (pg_items (page_from_vec xs q)).
      pg_items (page_from_vec xs q) ! i = xs ! (unat (effective_offset q) + i))"
  using unat_effective_limit_le [of q] by (auto simp: page_from_vec_def)

section \<open>Redirect safety\<close>

lemma trim_not_ws: "trim s = c # cs \<Longrightarrow> \<not> is_ws c"
proof -
  assume t: "trim s = c # cs"
  define u where "u = trim_start s"
  have "prefix (trim u) u"
    by (metis prefixI rev_append rev_rev_ident takeWhile_dropWhile_id trim_end_def u_def
        dropWhile_idem trim_def trim_start_def)
  moreover have "trim u = trim s" by (simp add: u_def trim_def trim_start_def)
  ultimately obtain r where "u = (c # cs) @ r" by (auto simp: t prefix_def)
  then have "dropWhile is_ws s = c # (cs @ r)" by (simp add: u_def trim_start_def)
  then show ?thesis by (rule dropWhile_hd_not)
qed

text \<open>An accepted target is, once trimmed, a slash that neither a slash nor a backslash
  follows.\<close>
lemma is_safe_redirect_iff:
  "is_safe_redirect url \<longleftrightarrow>
     (\<exists>rest. trim url = CHR ''/'' # rest \<and>
        (rest = [] \<or> (hd rest \<noteq> CHR ''/'' \<and> hd rest \<noteq> CHR 0x5C)))"
  unfolding is_safe_redirect_def Let_def starts_with_def
  by (cases "trim url"; cases "tl (trim url)") auto

section \<open>Audience and delegation-chain round trips\<close>

lemma json_strings_map [simp]: "json_strings (map JStr ss) = Some ss"
  by (induction ss) auto

lemma json_strings_Some: "json_strings vs = Some ss \<Longrightarrow> vs = map JStr ss"
proof (induction vs arbitrary: ss)
  case (Cons v vs)
  then show ?case by (cases v) (auto split: option.splits)
qed simp

lemma audience_roundtrip: "deserialize_audience (serialize_audience as) = Some as"
  by (cases as rule: serialize_audience.cases) simp_all

lemma optional_audience_roundtrip:
  "deserialize_optional_audience (serialize_optional_audience m) = Some m"
  by (cases m rule: serialize_optional_audience.cases) simp_all

lemma serialize_deserialize_audience:
  assumes "deserialize_audience v = Some as"
  shows "serialize_audience as = v \<or> (\<exists>s. v = JArr [JStr s] \<and> as = [s])"
  using assms json_strings_Some
  by (cases v; cases as rule: serialize_audience.cases) fastforce+

fun chain_levels :: "actor \<Rightarrow> actor list" where
  "chain_levels (Actor s i p None) = [Actor s i p None]"
| "chain_levels (Actor s i p (Some a)) = Actor s i p None # chain_levels a"

lemma length_chain_levels: "length (chain_levels a) = depth a"
  by (induction a rule: chain_levels.induct) auto

lemma rebuild_chain_Cons: "rebuild_chain (l # ls) = Some (set_act (rebuild_chain ls) l)"
  by (simp add: rebuild_chain_def)

lemma rebuild_chain_levels: "rebuild_chain (chain_levels a) = Some a"
proof (induction a rule: chain_levels.induct)
  case (1 s i p)
  then show ?case by (simp add: rebuild_chain_def)
qed (simp add: rebuild_chain_Cons)

lemma to_value_not_null [simp]: "to_value a \<noteq> JNull"
  by (cases a) simp

lemma collect_levels_to_value: "collect_levels (to_value a) = Inr (chain_levels a)"
proof (induction a rule: chain_levels.induct)
  case (1 s i p)
  then show ?case by (subst collect_levels.simps) (auto split: option.splits)
next
  case (2 s i p a)
  then show ?case by (subst collect_levels.simps) (auto split: option.splits)
qed

text \<open>Delegation chains survive the \<open>act\<close> claim: parsing the rendered value of a chain
  gives back exactly that chain, at every depth.\<close>
theorem actor_roundtrip: "from_value (to_value a) = Inr a"
  by (simp add: from_value_def collect_levels_to_value rebuild_chain_levels)

lemma collect_levels_nonempty: "collect_levels v = Inr ls \<Longrightarrow> ls \<noteq> []"
  by (subst (asm) collect_levels.simps)
    (auto simp: result_simps map_sum_eq_Inr split: option.splits if_splits json.splits)

lemma rebuild_chain_Some: "ls \<noteq> [] \<Longrightarrow> \<exists>a. rebuild_chain ls = Some a"
  by (cases ls) (auto simp: rebuild_chain_Cons)

lemma collect_levels_errors:
  "collect_levels v = Inl e \<Longrightarrow>
   e \<in> {MissingSub, MissingIss, Malformed ''actor level is not a JSON object'',
        Malformed ''actor sub_profile is not a string''}"
proof (induction v rule: collect_levels.induct)
  case (1 v)
  show ?case
    using "1.prems"
    by (subst (asm) collect_levels.simps)
      (auto simp: result_simps map_sum_eq_Inl split: option.splits if_splits json.splits
        dest: "1.IH")
qed

lemma from_value_errors:
  "from_value v = Inl e \<Longrightarrow>
   e \<in> {MissingSub, MissingIss, Malformed ''actor level is not a JSON object'',
        Malformed ''actor sub_profile is not a string''}"
proof (cases "collect_levels v")
  case (Inl e')
  then show "from_value v = Inl e \<Longrightarrow> ?thesis"
    using collect_levels_errors [OF Inl] by (simp add: from_value_def)
next
  case (Inr ls)
  then obtain a where "rebuild_chain ls = Some a"
    using collect_levels_nonempty rebuild_chain_Some by blast
  then show "from_value v = Inl e \<Longrightarrow> ?thesis" using Inr by (simp add: from_value_def)
qed

end
