(* ===== verification/Core_Models.thy ===== *)
theory Core_Models
  imports Core_Basics
begin

text \<open>
  The rows of the server's tables and their methods (\<open>crates/oauth2-core/src/models\<close>):
  clients, users, authorization codes, tokens and their claims, device
  authorizations, denylist entries and trusted issuers.  A field keeps its Rust
  name behind a two-letter prefix of its struct.  The random identifiers the
  constructors draw and the clock they read are arguments.
\<close>

section \<open>Clients\<close>

record client =
  cl_id :: string
  cl_client_id :: string
  cl_client_secret :: string
  cl_redirect_uris :: string
  cl_grant_types :: string
  cl_scope :: string
  cl_name :: string
  cl_created_at :: instant
  cl_updated_at :: instant
  cl_token_endpoint_auth_method :: string
  cl_registration_access_token :: string
  cl_response_types :: string
  cl_contacts :: string
  cl_logo_uri :: string
  cl_client_uri :: string
  cl_policy_uri :: string
  cl_tos_uri :: string
  cl_jwks :: string
  cl_jwks_uri :: string
  cl_backchannel_logout_uri :: string
  cl_backchannel_logout_session_required :: bool
  cl_frontchannel_logout_uri :: string
  cl_frontchannel_logout_session_required :: bool
  cl_post_logout_redirect_uris :: string
  cl_enabled :: bool
  cl_require_state :: bool
  cl_tls_client_certificate_subject_dn :: string
  cl_dpop_nonce_required :: bool
  cl_allowed_actors :: string
  cl_tls_client_auth_san :: string
  cl_software_id :: string
  cl_software_version :: string
  cl_cimd_managed :: bool

definition client_new ::
  "libs \<Rightarrow> instant \<Rightarrow> string \<Rightarrow> string \<Rightarrow> string \<Rightarrow> string list \<Rightarrow> string list \<Rightarrow> string \<Rightarrow> string \<Rightarrow> client" where
  "client_new L now uuid client_id client_secret redirect_uris grant_types scope name =
    \<lparr>cl_id = uuid, cl_client_id = client_id, cl_client_secret = client_secret,
     cl_redirect_uris = strings_to_json L redirect_uris,
     cl_grant_types = strings_to_json L grant_types,
     cl_scope = scope, cl_name = name, cl_created_at = now, cl_updated_at = now,
     cl_token_endpoint_auth_method = ''client_secret_basic'',
     cl_registration_access_token = [], cl_response_types = strings_to_json L [''code''],
     cl_contacts = [], cl_logo_uri = [], cl_client_uri = [], cl_policy_uri = [], cl_tos_uri = [],
     cl_jwks = [], cl_jwks_uri = [], cl_backchannel_logout_uri = [],
     cl_backchannel_logout_session_required = False, cl_frontchannel_logout_uri = [],
     cl_frontchannel_logout_session_required = False, cl_post_logout_redirect_uris = [],
     cl_enabled = True, cl_require_state = False, cl_tls_client_certificate_subject_dn = [],
     cl_dpop_nonce_required = False, cl_allowed_actors = ''[]'', cl_tls_client_auth_san = [],
     cl_software_id = [], cl_software_version = [], cl_cimd_managed = False\<rparr>"

definition is_public :: "client \<Rightarrow> bool" where
  "is_public c = (cl_token_endpoint_auth_method c = ''none'')"

definition allowed_actors_vec :: "libs \<Rightarrow> client \<Rightarrow> string list" where
  "allowed_actors_vec L c = parse_string_vec L (cl_allowed_actors c)"

definition is_ai_agent :: "libs \<Rightarrow> client \<Rightarrow> bool" where
  "is_ai_agent L c = (starts_with (cl_software_id c) ''agent:'' \<or> allowed_actors_vec L c \<noteq> [])"

definition allows_actor :: "libs \<Rightarrow> client \<Rightarrow> string \<Rightarrow> bool" where
  "allows_actor L c client_id = list_ex (\<lambda>a. a = client_id) (allowed_actors_vec L c)"

definition get_redirect_uris :: "libs \<Rightarrow> client \<Rightarrow> string list" where
  "get_redirect_uris L c = parse_string_vec L (cl_redirect_uris c)"

definition get_grant_types :: "libs \<Rightarrow> client \<Rightarrow> string list" where
  "get_grant_types L c = parse_string_vec L (cl_grant_types c)"

definition get_response_types :: "libs \<Rightarrow> client \<Rightarrow> string list" where
  "get_response_types L c = parse_string_vec L (cl_response_types c)"

definition supports_grant_type :: "libs \<Rightarrow> client \<Rightarrow> string \<Rightarrow> bool" where
  "supports_grant_type L c g = (g \<in> set (get_grant_types L c))"

definition ip_loopback :: "url \<Rightarrow> bool" where
  "ip_loopback u = (url_host u \<in> {Some ''127.0.0.1'', Some ''::1'', Some ''[::1]''})"

definition loopback_match :: "url \<Rightarrow> url \<Rightarrow> bool" where
  "loopback_match requested reg_url =
     (ip_loopback reg_url \<and> url_scheme reg_url = url_scheme requested \<and>
      url_host reg_url = url_host requested \<and> url_path reg_url = url_path requested)"

definition validate_redirect_uri :: "libs \<Rightarrow> client \<Rightarrow> string \<Rightarrow> bool" where
  "validate_redirect_uri L c redirect_uri =
     (let registered = get_redirect_uris L c in
      if redirect_uri \<in> set registered then True
      else case url_parse L redirect_uri of
        None \<Rightarrow> False
      | Some requested \<Rightarrow>
          if ip_loopback requested \<and> url_scheme requested \<in> {''http'', ''https''} then
            list_ex (\<lambda>reg. case url_parse L reg of None \<Rightarrow> False
                           | Some reg_url \<Rightarrow> loopback_match requested reg_url) registered
          else False)"

section \<open>Users, denylist entries, trusted issuers\<close>

record user =
  us_id :: string
  us_username :: string
  us_password_hash :: string
  us_email :: string
  us_enabled :: bool
  us_role :: string
  us_created_at :: instant
  us_updated_at :: instant

definition user_new :: "instant \<Rightarrow> string \<Rightarrow> string \<Rightarrow> string \<Rightarrow> string \<Rightarrow> user" where
  "user_new now uuid username password_hash email =
    \<lparr>us_id = uuid, us_username = username, us_password_hash = password_hash, us_email = email,
     us_enabled = True, us_role = ''user'', us_created_at = now, us_updated_at = now\<rparr>"

definition is_admin :: "string option \<Rightarrow> user \<Rightarrow> bool" where
  "is_admin admin_emails_var u =
     (if us_role u = ''admin'' then True
      else case admin_emails_var of
        Some admin_emails \<Rightarrow>
          list_ex (\<lambda>e. to_lowercase (trim e) = to_lowercase (us_email u))
            (split_char CHR '','' admin_emails)
      | None \<Rightarrow> False)"

record denylist_entry =
  dl_id :: string
  dl_kind :: string
  dl_value :: string
  dl_reason :: string
  dl_created_by :: string
  dl_created_at :: instant
  dl_expires_at :: "instant option"

definition denylist_is_active :: "instant \<Rightarrow> denylist_entry \<Rightarrow> bool" where
  "denylist_is_active now e = (case dl_expires_at e of Some ex \<Rightarrow> ex > now | None \<Rightarrow> True)"

record trusted_issuer =
  ti_id :: string
  ti_issuer :: string
  ti_jwks_uri :: string
  ti_allowed_audiences :: string
  ti_subject_mapping :: string
  ti_jit_provision :: bool
  ti_allowed_client_ids :: string
  ti_enabled :: bool
  ti_created_at :: instant
  ti_updated_at :: instant

definition allows_client :: "libs \<Rightarrow> trusted_issuer \<Rightarrow> string \<Rightarrow> bool" where
  "allows_client L ti client_id =
     (let allowed = parse_string_vec L (ti_allowed_client_ids ti) in
      allowed = [] \<or> list_ex (\<lambda>c. c = client_id) allowed)"

section \<open>Authorization codes\<close>

record authorization_code =
  ac_id :: string
  ac_code :: string
  ac_client_id :: string
  ac_user_id :: string
  ac_redirect_uri :: string
  ac_scope :: string
  ac_created_at :: instant
  ac_expires_at :: instant
  ac_used :: bool
  ac_code_challenge :: "string option"
  ac_code_challenge_method :: "string option"
  ac_nonce :: "string option"
  ac_resource :: "string option"
  ac_authorization_details :: "string option"
  ac_claims_request :: "string option"
  ac_token_family :: "string option"
  ac_dpop_jkt :: "string option"
  ac_requested_actor :: "string option"

definition clamp :: "int \<Rightarrow> int \<Rightarrow> int \<Rightarrow> int" where
  "clamp x lo hi = (if x < lo then lo else if x > hi then hi else x)"

definition new_with_ttl ::
  "instant \<Rightarrow> string \<Rightarrow> string \<Rightarrow> string \<Rightarrow> string \<Rightarrow> string \<Rightarrow> string \<Rightarrow> string \<Rightarrow> string option \<Rightarrow>
   string option \<Rightarrow> string option \<Rightarrow> string option \<Rightarrow> string option \<Rightarrow> string option \<Rightarrow> int \<Rightarrow>
   authorization_code" where
  "new_with_ttl now uuid family code client_id user_id redirect_uri scope challenge method nonce
     resource details claims ttl_seconds =
    \<lparr>ac_id = uuid, ac_code = code, ac_client_id = client_id, ac_user_id = user_id,
     ac_redirect_uri = redirect_uri, ac_scope = scope, ac_created_at = now,
     ac_expires_at = now + secs (clamp ttl_seconds 1 600), ac_used = False,
     ac_code_challenge = challenge, ac_code_challenge_method = method, ac_nonce = nonce,
     ac_resource = resource, ac_authorization_details = details, ac_claims_request = claims,
     ac_token_family = Some family, ac_dpop_jkt = None, ac_requested_actor = None\<rparr>"

definition code_is_expired :: "instant \<Rightarrow> authorization_code \<Rightarrow> bool" where
  "code_is_expired now a = (now > ac_expires_at a)"

definition code_is_valid :: "instant \<Rightarrow> authorization_code \<Rightarrow> bool" where
  "code_is_valid now a = (\<not> ac_used a \<and> \<not> code_is_expired now a)"

section \<open>Tokens and claims\<close>

record claims =
  cm_sub :: string
  cm_iss :: string
  cm_aud :: "string list"
  cm_exp :: int
  cm_iat :: int
  cm_scope :: string
  cm_jti :: string
  cm_client_id :: "string option"
  cm_cnf :: "json option"
  cm_authorization_details :: "json option"
  cm_act :: "json option"
  cm_may_act :: "json option"
  cm_sub_profile :: "string option"
  cm_txn :: "string option"
  cm_purp :: "string option"
  cm_req_wl :: "string option"
  cm_tctx :: "json option"
  cm_rctx :: "json option"

definition claims_new ::
  "instant \<Rightarrow> string \<Rightarrow> string \<Rightarrow> string \<Rightarrow> string \<Rightarrow> int \<Rightarrow> string \<Rightarrow> claims" where
  "claims_new now jti subject client_id scope duration_seconds issuer =
    \<lparr>cm_sub = subject, cm_iss = issuer, cm_aud = [client_id],
     cm_exp = timestamp (now + secs duration_seconds), cm_iat = timestamp now, cm_scope = scope,
     cm_jti = jti, cm_client_id = Some client_id, cm_cnf = None, cm_authorization_details = None,
     cm_act = None, cm_may_act = None, cm_sub_profile = None, cm_txn = None, cm_purp = None,
     cm_req_wl = None, cm_tctx = None, cm_rctx = None\<rparr>"

definition claims_actor :: "claims \<Rightarrow> (actor_chain_error + actor) option" where
  "claims_actor c = map_option from_value (cm_act c)"

definition with_actor :: "claims \<Rightarrow> actor \<Rightarrow> claims" where
  "with_actor c a = c\<lparr>cm_act := Some (to_value a)\<rparr>"

definition with_dpop_jkt :: "claims \<Rightarrow> string \<Rightarrow> claims" where
  "with_dpop_jkt c jkt = c\<lparr>cm_cnf := Some (JObj [(''jkt'', JStr jkt)])\<rparr>"

definition with_mtls_thumbprint :: "claims \<Rightarrow> string \<Rightarrow> claims" where
  "with_mtls_thumbprint c thumb = c\<lparr>cm_cnf := Some (JObj [(''x5t#S256'', JStr thumb)])\<rparr>"

text \<open>The payload decoder (base64url, then serde) of the JWT's middle part is the
  argument \<open>payload\<close>.\<close>
definition decode_unverified :: "(string \<Rightarrow> claims option) \<Rightarrow> string \<Rightarrow> claims option" where
  "decode_unverified payload token =
     (let parts = split_char CHR ''.'' token in
      if length parts \<noteq> 3 then None else payload (parts ! 1))"

record token =
  tk_id :: string
  tk_access_token :: string
  tk_refresh_token :: "string option"
  tk_token_type :: string
  tk_expires_in :: int
  tk_scope :: string
  tk_client_id :: string
  tk_user_id :: "string option"
  tk_created_at :: instant
  tk_expires_at :: instant
  tk_revoked :: bool
  tk_token_family :: "string option"
  tk_act :: "string option"
  tk_cnf :: "string option"
  tk_resource :: "string option"

definition token_new ::
  "instant \<Rightarrow> string \<Rightarrow> string \<Rightarrow> string option \<Rightarrow> string \<Rightarrow> string option \<Rightarrow> string \<Rightarrow> int \<Rightarrow> string option \<Rightarrow> token" where
  "token_new now uuid access_token refresh_token client_id user_id scope expires_in family =
    \<lparr>tk_id = uuid, tk_access_token = access_token, tk_refresh_token = refresh_token,
     tk_token_type = ''Bearer'', tk_expires_in = expires_in, tk_scope = scope,
     tk_client_id = client_id, tk_user_id = user_id, tk_created_at = now,
     tk_expires_at = now + secs expires_in, tk_revoked = False, tk_token_family = family,
     tk_act = None, tk_cnf = None, tk_resource = None\<rparr>"

definition token_is_expired :: "instant \<Rightarrow> token \<Rightarrow> bool" where
  "token_is_expired now t = (now > tk_expires_at t)"

definition token_is_valid :: "instant \<Rightarrow> token \<Rightarrow> bool" where
  "token_is_valid now t = (\<not> tk_revoked t \<and> \<not> token_is_expired now t)"

definition with_delegation :: "libs \<Rightarrow> token \<Rightarrow> json option \<Rightarrow> json option \<Rightarrow> string list \<Rightarrow> token" where
  "with_delegation L t act cnf resources =
     t\<lparr>tk_act := map_option (json_to_string L) act,
       tk_cnf := map_option (json_to_string L) cnf,
       tk_resource := (if resources = [] then None else Some (strings_to_json L resources))\<rparr>"

definition token_actor_value :: "libs \<Rightarrow> token \<Rightarrow> json option" where
  "token_actor_value L t = Option.bind (tk_act t) (json_from_str L)"

definition token_cnf_value :: "libs \<Rightarrow> token \<Rightarrow> json option" where
  "token_cnf_value L t = Option.bind (tk_cnf t) (json_from_str L)"

definition token_resources :: "libs \<Rightarrow> token \<Rightarrow> string list" where
  "token_resources L t = (case tk_resource t of None \<Rightarrow> [] | Some s \<Rightarrow> parse_string_vec L s)"

record token_response =
  tr_access_token :: string
  tr_refresh_token :: "string option"
  tr_token_type :: string
  tr_expires_in :: int
  tr_scope :: "string option"
  tr_id_token :: "string option"

definition token_response_from :: "token \<Rightarrow> token_response" where
  "token_response_from t =
    \<lparr>tr_access_token = tk_access_token t, tr_refresh_token = tk_refresh_token t,
     tr_token_type = tk_token_type t, tr_expires_in = tk_expires_in t,
     tr_scope = Some (tk_scope t), tr_id_token = None\<rparr>"

section \<open>Device authorizations\<close>

record device_authorization =
  da_id :: string
  da_device_code :: string
  da_user_code :: string
  da_client_id :: string
  da_scope :: string
  da_created_at :: instant
  da_expires_at :: instant
  da_interval_seconds :: int
  da_approved :: bool
  da_denied :: bool
  da_used :: bool
  da_user_id :: "string option"

definition device_new ::
  "instant \<Rightarrow> string \<Rightarrow> string \<Rightarrow> string \<Rightarrow> string \<Rightarrow> string \<Rightarrow> int \<Rightarrow> int \<Rightarrow> device_authorization" where
  "device_new now uuid device_code user_code client_id scope expires_in_seconds interval_seconds =
    \<lparr>da_id = uuid, da_device_code = device_code, da_user_code = user_code,
     da_client_id = client_id, da_scope = scope, da_created_at = now,
     da_expires_at = now + secs expires_in_seconds, da_interval_seconds = interval_seconds,
     da_approved = False, da_denied = False, da_used = False, da_user_id = None\<rparr>"

definition device_is_expired :: "instant \<Rightarrow> device_authorization \<Rightarrow> bool" where
  "device_is_expired now d = (now > da_expires_at d)"

section \<open>Transaction authorizations and protected resources\<close>

record transaction_authorization =
  ta_id :: string
  ta_transaction_authorization_id :: string
  ta_client_id :: string
  ta_user_id :: "string option"
  ta_resource_uri :: string
  ta_txn :: string
  ta_authorization_details :: string
  ta_reason :: string
  ta_reason_uri :: string
  ta_act :: "string option"
  ta_acr_values :: string
  ta_max_age :: "int option"
  ta_created_at :: instant
  ta_expires_at :: instant
  ta_interval_seconds :: int
  ta_approved :: bool
  ta_denied :: bool
  ta_used :: bool

definition transaction_authorization_new ::
  "instant \<Rightarrow> string \<Rightarrow> string \<Rightarrow> string \<Rightarrow> string \<Rightarrow> string \<Rightarrow> string \<Rightarrow> int \<Rightarrow> transaction_authorization" where
  "transaction_authorization_new now uuid handle client_id resource_uri txn details expires_in_seconds =
    \<lparr>ta_id = uuid, ta_transaction_authorization_id = handle, ta_client_id = client_id,
     ta_user_id = None, ta_resource_uri = resource_uri, ta_txn = txn,
     ta_authorization_details = details, ta_reason = [], ta_reason_uri = [], ta_act = None,
     ta_acr_values = [], ta_max_age = None, ta_created_at = now,
     ta_expires_at = now + secs expires_in_seconds, ta_interval_seconds = 5,
     ta_approved = False, ta_denied = False, ta_used = False\<rparr>"

definition ta_is_expired :: "instant \<Rightarrow> transaction_authorization \<Rightarrow> bool" where
  "ta_is_expired now t = (now > ta_expires_at t)"

text \<open>Rust's integer division of a \<open>TimeDelta\<close> truncates towards zero; negative remainders
  are cut off at zero afterwards, so only the non-negative quotient matters.\<close>
definition ta_expires_in :: "instant \<Rightarrow> transaction_authorization \<Rightarrow> int" where
  "ta_expires_in now t = max 0 (timestamp (max 0 (ta_expires_at t - now)))"

definition ta_authorization_details_value :: "libs \<Rightarrow> transaction_authorization \<Rightarrow> json" where
  "ta_authorization_details_value L t =
     unwrap_or (json_from_str L (ta_authorization_details t)) (JArr [])"

definition ta_act_value :: "libs \<Rightarrow> transaction_authorization \<Rightarrow> json option" where
  "ta_act_value L t =
     (case ta_act t of None \<Rightarrow> None
      | Some s \<Rightarrow> if trim s = [] then None else json_from_str L s)"

record protected_resource =
  pr_id :: string
  pr_resource_uri :: string
  pr_name :: string
  pr_scopes :: string
  pr_authorization_details_types :: string
  pr_txn_challenge_jwks_uri :: string
  pr_created_at :: instant
  pr_updated_at :: instant

section \<open>Lemmas\<close>

text \<open>An authorization code expires within ten minutes of its creation and never
  before one second, whatever lifetime is asked for.\<close>
lemma code_ttl_bounds:
  "ac_created_at (new_with_ttl now u f code c us r s ch m n re d cl ttl) = now \<and>
   now + secs 1 \<le> ac_expires_at (new_with_ttl now u f code c us r s ch m n re d cl ttl) \<and>
   ac_expires_at (new_with_ttl now u f code c us r s ch m n re d cl ttl) \<le> now + secs 600"
  by (simp add: new_with_ttl_def clamp_def secs_def)

text \<open>A redirect URI that was not registered verbatim is accepted only on a loopback IP
  literal, for a registered URI that agrees with it on scheme, host and path.\<close>
lemma validate_redirect_uri_cases:
  "validate_redirect_uri L c u \<longleftrightarrow>
     u \<in> set (get_redirect_uris L c) \<or>
     (\<exists>requested reg reg_url. url_parse L u = Some requested \<and> reg \<in> set (get_redirect_uris L c) \<and>
        url_parse L reg = Some reg_url \<and> loopback_match requested reg_url \<and>
        url_scheme requested \<in> {''http'', ''https''})"
proof -
  have "loopback_match requested reg_url \<Longrightarrow> ip_loopback requested" for requested reg_url
    by (auto simp: loopback_match_def ip_loopback_def)
  then show ?thesis
    unfolding validate_redirect_uri_def Let_def list_ex_iff
    by (auto split: option.splits if_splits)
qed

lemma validate_redirect_uri_hostname:
  assumes "validate_redirect_uri L c u" "url_parse L u = Some requested"
    "url_host requested = Some h" "h \<notin> {''127.0.0.1'', ''::1'', ''[::1]''}"
  shows "u \<in> set (get_redirect_uris L c)"
  using assms by (auto simp: validate_redirect_uri_cases loopback_match_def ip_loopback_def)

lemma revoked_update_id [simp]: "t\<lparr>tk_revoked := True\<rparr> = t \<longleftrightarrow> tk_revoked t"
  by (cases t) auto

lemma token_new_valid_until:
  "token_is_valid t (token_new now u acc rt c us s e f) \<longleftrightarrow> t \<le> now + secs e"
  by (auto simp: token_is_valid_def token_is_expired_def token_new_def)

lemma claims_actor_with_actor: "claims_actor (with_actor c a) = Some (Inr a)"
  by (simp add: claims_actor_def with_actor_def from_value_def collect_levels_to_value
      rebuild_chain_levels)

lemma decode_unverified_dots:
  "decode_unverified payload t = Some c \<Longrightarrow> length (filter (\<lambda>x. x = CHR ''.'') t) = 2"
  by (auto simp: decode_unverified_def Let_def length_split_char split: if_splits)

lemma with_delegation_roundtrip:
  assumes "\<And>v. v \<in> set_option act \<union> set_option cnf \<Longrightarrow> json_from_str L (json_to_string L v) = Some v"
    and "json_from_str L (json_to_string L (JArr (map JStr rs))) = Some (JArr (map JStr rs))"
  shows "token_actor_value L (with_delegation L t act cnf rs) = act"
    and "token_cnf_value L (with_delegation L t act cnf rs) = cnf"
    and "token_resources L (with_delegation L t act cnf rs) = rs"
  using assms
  by (auto simp: token_actor_value_def token_cnf_value_def token_resources_def with_delegation_def
      parse_string_vec_def strings_to_json_def split: option.splits)
    (cases act; cases cnf; simp)+

end
