(* ===== verification/Sql_Storage.thy ===== *)
theory Sql_Storage
  imports Core_Models
begin

text \<open>
  The relational store behind the \<open>Storage\<close> trait
  (\<open>crates/oauth2-ports/src/storage.rs\<close>), as \<open>crates/oauth2-storage-sqlx/src/sqlx.rs\<close>
  implements it.  A table is the list of its rows; a statement has the effect its SQL
  text has, with the UNIQUE, PRIMARY KEY and FOREIGN KEY constraints of the schema
  (\<open>bootstrap_sqlite_schema\<close>) checked on every insert, update and delete that can
  violate one, and \<open>OAuth2Error::from(sqlx::Error)\<close> applied to a violation.
  A statement either takes effect entirely or not at all.  Reads go to the primary
  database (no read replica), and connection failures are not modelled.

  The second half states what the store guarantees: \<open>db_wf\<close> (keys unique, references
  resolved) is kept by every statement, and revocation and use are permanent.
\<close>

section \<open>Tables\<close>

record db =
  db_clients :: "client list"
  db_users :: "user list"
  db_tokens :: "token list"
  db_codes :: "authorization_code list"
  db_devices :: "device_authorization list"
  db_denylist :: "denylist_entry list"
  db_dpop_jtis :: "(string \<times> instant) list"
  db_txn_auths :: "transaction_authorization list"
  db_resources :: "protected_resource list"
  db_issuers :: "trusted_issuer list"

definition db_empty :: db where
  "db_empty = \<lparr>db_clients = [], db_users = [], db_tokens = [], db_codes = [], db_devices = [],
     db_denylist = [], db_dpop_jtis = [], db_txn_auths = [], db_resources = [], db_issuers = []\<rparr>"

definition has_client :: "db \<Rightarrow> string \<Rightarrow> bool" where
  "has_client d cid = list_ex (\<lambda>c. cl_client_id c = cid) (db_clients d)"

definition has_user :: "db \<Rightarrow> string \<Rightarrow> bool" where
  "has_user d uid = list_ex (\<lambda>u. us_id u = uid) (db_users d)"

definition has_user_opt :: "db \<Rightarrow> string option \<Rightarrow> bool" where
  "has_user_opt d u = (case u of None \<Rightarrow> True | Some uid \<Rightarrow> has_user d uid)"

definition fk_violation :: db_error where
  "fk_violation = OtherDbError ''FOREIGN KEY constraint failed''"

definition checked :: "bool \<Rightarrow> bool \<Rightarrow> db \<Rightarrow> db \<Rightarrow> unit result \<times> db" where
  "checked dup fk_ok d d' =
     (if dup then (Inl (from_db_error UniqueViolation), d)
      else if \<not> fk_ok then (Inl (from_db_error fk_violation), d)
      else (Inr (), d'))"

section \<open>Clients\<close>

definition save_client :: "client \<Rightarrow> db \<Rightarrow> unit result \<times> db" where
  "save_client c d =
     checked (list_ex (\<lambda>r. cl_id r = cl_id c \<or> cl_client_id r = cl_client_id c) (db_clients d)) True d
       (d\<lparr>db_clients := db_clients d @ [c]\<rparr>)"

definition get_client :: "string \<Rightarrow> db \<Rightarrow> client option" where
  "get_client cid d = find (\<lambda>c. cl_client_id c = cid) (db_clients d)"

definition count_cimd_clients :: "db \<Rightarrow> nat" where
  "count_cimd_clients d = count_where cl_cimd_managed (db_clients d)"

text \<open>The \<open>UPDATE\<close> keeps the columns it does not name: \<open>id\<close>, \<open>client_id\<close>, \<open>created_at\<close>
  and \<open>require_state\<close>.\<close>
definition update_client :: "client \<Rightarrow> db \<Rightarrow> unit result \<times> db" where
  "update_client c d =
     (Inr (), d\<lparr>db_clients := update_where (\<lambda>r. cl_client_id r = cl_client_id c)
        (\<lambda>r. c\<lparr>cl_id := cl_id r, cl_client_id := cl_client_id r, cl_created_at := cl_created_at r,
               cl_require_state := cl_require_state r\<rparr>) (db_clients d)\<rparr>)"

definition client_referenced :: "db \<Rightarrow> string \<Rightarrow> bool" where
  "client_referenced d cid =
     (list_ex (\<lambda>t. tk_client_id t = cid) (db_tokens d) \<or>
      list_ex (\<lambda>a. ac_client_id a = cid) (db_codes d) \<or>
      list_ex (\<lambda>v. da_client_id v = cid) (db_devices d))"

definition delete_client :: "string \<Rightarrow> db \<Rightarrow> unit result \<times> db" where
  "delete_client cid d =
     checked False (\<not> (has_client d cid \<and> client_referenced d cid)) d
       (d\<lparr>db_clients := filter (\<lambda>c. cl_client_id c \<noteq> cid) (db_clients d)\<rparr>)"

definition set_client_enabled :: "instant \<Rightarrow> string \<Rightarrow> bool \<Rightarrow> db \<Rightarrow> unit result \<times> db" where
  "set_client_enabled now cid b d =
     (Inr (), d\<lparr>db_clients := update_where (\<lambda>c. cl_client_id c = cid)
        (\<lambda>c. c\<lparr>cl_enabled := b, cl_updated_at := now\<rparr>) (db_clients d)\<rparr>)"

definition set_client_secret :: "instant \<Rightarrow> string \<Rightarrow> string \<Rightarrow> db \<Rightarrow> unit result \<times> db" where
  "set_client_secret now cid secret d =
     (Inr (), d\<lparr>db_clients := update_where (\<lambda>c. cl_client_id c = cid)
        (\<lambda>c. c\<lparr>cl_client_secret := secret, cl_updated_at := now\<rparr>) (db_clients d)\<rparr>)"

section \<open>Users\<close>

definition save_user :: "user \<Rightarrow> db \<Rightarrow> unit result \<times> db" where
  "save_user u d =
     checked (list_ex (\<lambda>r. us_id r = us_id u \<or> us_username r = us_username u) (db_users d)) True d
       (d\<lparr>db_users := db_users d @ [u]\<rparr>)"

definition get_user_by_username :: "string \<Rightarrow> db \<Rightarrow> user option" where
  "get_user_by_username n d = find (\<lambda>u. us_username u = n) (db_users d)"

definition get_user_by_id :: "string \<Rightarrow> db \<Rightarrow> user option" where
  "get_user_by_id i d = find (\<lambda>u. us_id u = i) (db_users d)"

definition get_user_by_email :: "string \<Rightarrow> db \<Rightarrow> user option" where
  "get_user_by_email e d = find (\<lambda>u. us_email u = e) (db_users d)"

definition update_user :: "user \<Rightarrow> db \<Rightarrow> unit result \<times> db" where
  "update_user u d =
     checked (has_user d (us_id u) \<and>
              list_ex (\<lambda>r. us_id r \<noteq> us_id u \<and> us_username r = us_username u) (db_users d)) True d
       (d\<lparr>db_users := update_where (\<lambda>r. us_id r = us_id u)
          (\<lambda>r. r\<lparr>us_username := us_username u, us_email := us_email u, us_enabled := us_enabled u,
                 us_role := us_role u, us_password_hash := us_password_hash u,
                 us_updated_at := us_updated_at u\<rparr>) (db_users d)\<rparr>)"

text \<open>Four statements, in the order of the source.\<close>
definition delete_user :: "string \<Rightarrow> db \<Rightarrow> unit result \<times> db" where
  "delete_user uid d =
     (let d1 = d\<lparr>db_tokens := update_where (\<lambda>t. tk_user_id t = Some uid)
                  (\<lambda>t. t\<lparr>tk_revoked := True, tk_user_id := None\<rparr>) (db_tokens d)\<rparr>;
          d2 = d1\<lparr>db_codes := filter (\<lambda>a. ac_user_id a \<noteq> uid) (db_codes d1)\<rparr>;
          d3 = d2\<lparr>db_devices := update_where (\<lambda>v. da_user_id v = Some uid)
                  (\<lambda>v. v\<lparr>da_user_id := None\<rparr>) (db_devices d2)\<rparr>
      in (Inr (), d3\<lparr>db_users := filter (\<lambda>u. us_id u \<noteq> uid) (db_users d3)\<rparr>))"

definition set_user_enabled :: "instant \<Rightarrow> string \<Rightarrow> bool \<Rightarrow> db \<Rightarrow> unit result \<times> db" where
  "set_user_enabled now uid b d =
     (Inr (), d\<lparr>db_users := update_where (\<lambda>u. us_id u = uid)
        (\<lambda>u. u\<lparr>us_enabled := b, us_updated_at := now\<rparr>) (db_users d)\<rparr>)"

definition set_user_role :: "instant \<Rightarrow> string \<Rightarrow> string \<Rightarrow> db \<Rightarrow> unit result \<times> db" where
  "set_user_role now uid role d =
     (Inr (), d\<lparr>db_users := update_where (\<lambda>u. us_id u = uid)
        (\<lambda>u. u\<lparr>us_role := role, us_updated_at := now\<rparr>) (db_users d)\<rparr>)"

definition set_user_password_hash :: "instant \<Rightarrow> string \<Rightarrow> string \<Rightarrow> db \<Rightarrow> unit result \<times> db" where
  "set_user_password_hash now uid h d =
     (Inr (), d\<lparr>db_users := update_where (\<lambda>u. us_id u = uid)
        (\<lambda>u. u\<lparr>us_password_hash := h, us_updated_at := now\<rparr>) (db_users d)\<rparr>)"

section \<open>Tokens\<close>

definition save_token :: "token \<Rightarrow> db \<Rightarrow> unit result \<times> db" where
  "save_token t d =
     checked (list_ex (\<lambda>r. tk_id r = tk_id t \<or> tk_access_token r = tk_access_token t) (db_tokens d))
       (has_client d (tk_client_id t) \<and> has_user_opt d (tk_user_id t)) d
       (d\<lparr>db_tokens := db_tokens d @ [t]\<rparr>)"

definition get_token_by_access_token :: "string \<Rightarrow> db \<Rightarrow> token option" where
  "get_token_by_access_token a d = find (\<lambda>t. tk_access_token t = a) (db_tokens d)"

definition get_token_by_refresh_token :: "string \<Rightarrow> db \<Rightarrow> token option" where
  "get_token_by_refresh_token r d = find (\<lambda>t. tk_refresh_token t = Some r) (db_tokens d)"

definition revoke_rows :: "(token \<Rightarrow> bool) \<Rightarrow> db \<Rightarrow> db" where
  "revoke_rows P d = d\<lparr>db_tokens := update_where P (\<lambda>t. t\<lparr>tk_revoked := True\<rparr>) (db_tokens d)\<rparr>"

definition revoke_token :: "string \<Rightarrow> db \<Rightarrow> unit result \<times> db" where
  "revoke_token s d =
     (Inr (), revoke_rows (\<lambda>t. tk_access_token t = s \<or> tk_refresh_token t = Some s) d)"

definition revoke_token_by_id :: "string \<Rightarrow> db \<Rightarrow> nat result \<times> db" where
  "revoke_token_by_id i d =
     (Inr (count_where (\<lambda>t. tk_id t = i \<and> \<not> tk_revoked t) (db_tokens d)),
      revoke_rows (\<lambda>t. tk_id t = i \<and> \<not> tk_revoked t) d)"

definition set_token_family :: "string \<Rightarrow> string \<Rightarrow> db \<Rightarrow> unit result \<times> db" where
  "set_token_family a fam d =
     (Inr (), d\<lparr>db_tokens := update_where (\<lambda>t. tk_access_token t = a)
        (\<lambda>t. t\<lparr>tk_token_family := Some fam\<rparr>) (db_tokens d)\<rparr>)"

definition revoke_token_family :: "string \<Rightarrow> db \<Rightarrow> nat result \<times> db" where
  "revoke_token_family fam d =
     (Inr (count_where (\<lambda>t. tk_token_family t = Some fam) (db_tokens d)),
      revoke_rows (\<lambda>t. tk_token_family t = Some fam) d)"

definition revoke_tokens_by_user_id :: "string \<Rightarrow> db \<Rightarrow> nat result \<times> db" where
  "revoke_tokens_by_user_id uid d =
     (Inr (count_where (\<lambda>t. tk_user_id t = Some uid \<and> \<not> tk_revoked t) (db_tokens d)),
      revoke_rows (\<lambda>t. tk_user_id t = Some uid \<and> \<not> tk_revoked t) d)"

definition revoke_tokens_by_client_id :: "string \<Rightarrow> db \<Rightarrow> nat result \<times> db" where
  "revoke_tokens_by_client_id cid d =
     (Inr (count_where (\<lambda>t. tk_client_id t = cid \<and> \<not> tk_revoked t) (db_tokens d)),
      revoke_rows (\<lambda>t. tk_client_id t = cid \<and> \<not> tk_revoked t) d)"

section \<open>Authorization codes\<close>

definition save_authorization_code :: "authorization_code \<Rightarrow> db \<Rightarrow> unit result \<times> db" where
  "save_authorization_code a d =
     checked (list_ex (\<lambda>r. ac_id r = ac_id a \<or> ac_code r = ac_code a) (db_codes d))
       (has_client d (ac_client_id a) \<and> has_user d (ac_user_id a)) d
       (d\<lparr>db_codes := db_codes d @ [a]\<rparr>)"

definition get_authorization_code :: "string \<Rightarrow> db \<Rightarrow> authorization_code option" where
  "get_authorization_code c d = find (\<lambda>a. ac_code a = c) (db_codes d)"

definition mark_authorization_code_used :: "string \<Rightarrow> db \<Rightarrow> unit result \<times> db" where
  "mark_authorization_code_used c d =
     (Inr (), d\<lparr>db_codes := update_where (\<lambda>a. ac_code a = c) (\<lambda>a. a\<lparr>ac_used := True\<rparr>) (db_codes d)\<rparr>)"

section \<open>Device authorizations\<close>

definition save_device_authorization :: "device_authorization \<Rightarrow> db \<Rightarrow> unit result \<times> db" where
  "save_device_authorization v d =
     checked (list_ex (\<lambda>r. da_id r = da_id v \<or> da_device_code r = da_device_code v \<or>
                           da_user_code r = da_user_code v) (db_devices d))
       (has_client d (da_client_id v) \<and> has_user_opt d (da_user_id v)) d
       (d\<lparr>db_devices := db_devices d @ [v]\<rparr>)"

definition get_device_authorization_by_device_code :: "string \<Rightarrow> db \<Rightarrow> device_authorization option" where
  "get_device_authorization_by_device_code c d = find (\<lambda>v. da_device_code v = c) (db_devices d)"

definition get_device_authorization_by_user_code :: "string \<Rightarrow> db \<Rightarrow> device_authorization option" where
  "get_device_authorization_by_user_code c d = find (\<lambda>v. da_user_code v = c) (db_devices d)"

definition approve_device_authorization :: "string \<Rightarrow> string \<Rightarrow> db \<Rightarrow> unit result \<times> db" where
  "approve_device_authorization uc uid d =
     checked False (\<not> list_ex (\<lambda>v. da_user_code v = uc) (db_devices d) \<or> has_user d uid) d
       (d\<lparr>db_devices := update_where (\<lambda>v. da_user_code v = uc)
          (\<lambda>v. v\<lparr>da_approved := True, da_denied := False, da_user_id := Some uid\<rparr>) (db_devices d)\<rparr>)"

definition deny_device_authorization :: "string \<Rightarrow> db \<Rightarrow> unit result \<times> db" where
  "deny_device_authorization uc d =
     (Inr (), d\<lparr>db_devices := update_where (\<lambda>v. da_user_code v = uc)
        (\<lambda>v. v\<lparr>da_denied := True, da_approved := False\<rparr>) (db_devices d)\<rparr>)"

definition mark_device_authorization_used :: "string \<Rightarrow> db \<Rightarrow> unit result \<times> db" where
  "mark_device_authorization_used dc d =
     (Inr (), d\<lparr>db_devices := update_where (\<lambda>v. da_device_code v = dc)
        (\<lambda>v. v\<lparr>da_used := True\<rparr>) (db_devices d)\<rparr>)"

definition expire_device_authorization :: "instant \<Rightarrow> string \<Rightarrow> db \<Rightarrow> unit result \<times> db" where
  "expire_device_authorization now dc d =
     (Inr (), d\<lparr>db_devices := update_where (\<lambda>v. da_device_code v = dc)
        (\<lambda>v. v\<lparr>da_expires_at := now - secs 1\<rparr>) (db_devices d)\<rparr>)"

section \<open>Denylist, DPoP proof identifiers\<close>

definition add_denylist_entry :: "denylist_entry \<Rightarrow> db \<Rightarrow> unit result \<times> db" where
  "add_denylist_entry e d =
     (if list_ex (\<lambda>r. dl_kind r = dl_kind e \<and> dl_value r = dl_value e) (db_denylist d) then
        (Inr (), d\<lparr>db_denylist := update_where (\<lambda>r. dl_kind r = dl_kind e \<and> dl_value r = dl_value e)
           (\<lambda>r. r\<lparr>dl_reason := dl_reason e, dl_created_by := dl_created_by e,
                  dl_expires_at := dl_expires_at e\<rparr>) (db_denylist d)\<rparr>)
      else checked (list_ex (\<lambda>r. dl_id r = dl_id e) (db_denylist d)) True d
             (d\<lparr>db_denylist := db_denylist d @ [e]\<rparr>))"

definition remove_denylist_entry :: "string \<Rightarrow> db \<Rightarrow> unit result \<times> db" where
  "remove_denylist_entry i d =
     (Inr (), d\<lparr>db_denylist := filter (\<lambda>e. dl_id e \<noteq> i) (db_denylist d)\<rparr>)"

definition find_denylist_entry :: "instant \<Rightarrow> string \<Rightarrow> string \<Rightarrow> db \<Rightarrow> denylist_entry option" where
  "find_denylist_entry now kind v d =
     (case find (\<lambda>e. dl_kind e = kind \<and> dl_value e = v) (db_denylist d) of
        None \<Rightarrow> None
      | Some e \<Rightarrow> if denylist_is_active now e then Some e else None)"

definition dpop_jti_check_and_insert :: "instant \<Rightarrow> string \<Rightarrow> instant \<Rightarrow> db \<Rightarrow> bool result \<times> db" where
  "dpop_jti_check_and_insert now jti ex d =
     (let rows = filter (\<lambda>(_, e). \<not> e < now) (db_dpop_jtis d) in
      if list_ex (\<lambda>(j, _). j = jti) rows then (Inr False, d\<lparr>db_dpop_jtis := rows\<rparr>)
      else (Inr True, d\<lparr>db_dpop_jtis := rows @ [(jti, ex)]\<rparr>))"

section \<open>Transaction authorizations, resources, trusted issuers\<close>

definition save_transaction_authorization :: "transaction_authorization \<Rightarrow> db \<Rightarrow> unit result \<times> db" where
  "save_transaction_authorization t d =
     checked (list_ex (\<lambda>r. ta_id r = ta_id t \<or>
                 ta_transaction_authorization_id r = ta_transaction_authorization_id t) (db_txn_auths d)) True d
       (d\<lparr>db_txn_auths := db_txn_auths d @ [t]\<rparr>)"

definition get_transaction_authorization :: "string \<Rightarrow> db \<Rightarrow> transaction_authorization option" where
  "get_transaction_authorization i d =
     find (\<lambda>t. ta_transaction_authorization_id t = i) (db_txn_auths d)"

definition settle_transaction_authorization :: "string \<Rightarrow> string \<Rightarrow> bool \<Rightarrow> db \<Rightarrow> unit result \<times> db" where
  "settle_transaction_authorization i uid approved d =
     (Inr (), d\<lparr>db_txn_auths := update_where (\<lambda>t. ta_transaction_authorization_id t = i)
        (\<lambda>t. t\<lparr>ta_approved := approved, ta_denied := \<not> approved, ta_user_id := Some uid\<rparr>) (db_txn_auths d)\<rparr>)"

definition mark_transaction_authorization_used :: "string \<Rightarrow> db \<Rightarrow> unit result \<times> db" where
  "mark_transaction_authorization_used i d =
     (Inr (), d\<lparr>db_txn_auths := update_where (\<lambda>t. ta_transaction_authorization_id t = i)
        (\<lambda>t. t\<lparr>ta_used := True\<rparr>) (db_txn_auths d)\<rparr>)"

definition save_resource :: "protected_resource \<Rightarrow> db \<Rightarrow> unit result \<times> db" where
  "save_resource r d =
     checked (list_ex (\<lambda>x. pr_id x = pr_id r \<or> pr_resource_uri x = pr_resource_uri r) (db_resources d)) True d
       (d\<lparr>db_resources := db_resources d @ [r]\<rparr>)"

definition get_resource_by_uri :: "string \<Rightarrow> db \<Rightarrow> protected_resource option" where
  "get_resource_by_uri uri d = find (\<lambda>r. pr_resource_uri r = uri) (db_resources d)"

definition get_resource_by_id :: "string \<Rightarrow> db \<Rightarrow> protected_resource option" where
  "get_resource_by_id i d = find (\<lambda>r. pr_id r = i) (db_resources d)"

definition list_resources :: "db \<Rightarrow> protected_resource list" where
  "list_resources d = rev (sort_key pr_created_at (db_resources d))"

definition delete_resource :: "string \<Rightarrow> db \<Rightarrow> unit result \<times> db" where
  "delete_resource i d = (Inr (), d\<lparr>db_resources := filter (\<lambda>r. pr_id r \<noteq> i) (db_resources d)\<rparr>)"

definition save_trusted_issuer :: "trusted_issuer \<Rightarrow> db \<Rightarrow> unit result \<times> db" where
  "save_trusted_issuer t d =
     (if list_ex (\<lambda>r. ti_issuer r = ti_issuer t) (db_issuers d) then
        (Inr (), d\<lparr>db_issuers := update_where (\<lambda>r. ti_issuer r = ti_issuer t)
           (\<lambda>r. t\<lparr>ti_id := ti_id r, ti_issuer := ti_issuer r, ti_created_at := ti_created_at r\<rparr>) (db_issuers d)\<rparr>)
      else checked (list_ex (\<lambda>r. ti_id r = ti_id t) (db_issuers d)) True d
             (d\<lparr>db_issuers := db_issuers d @ [t]\<rparr>))"

definition get_trusted_issuer :: "string \<Rightarrow> db \<Rightarrow> trusted_issuer option" where
  "get_trusted_issuer i d = find (\<lambda>t. ti_issuer t = i) (db_issuers d)"

definition delete_trusted_issuer :: "string \<Rightarrow> db \<Rightarrow> unit result \<times> db" where
  "delete_trusted_issuer i d = (Inr (), d\<lparr>db_issuers := filter (\<lambda>t. ti_id t \<noteq> i) (db_issuers d)\<rparr>)"

definition whitelist_col :: "string option \<Rightarrow> string list \<Rightarrow> string" where
  "whitelist_col col allowed =
     (let dflt = (if allowed = [] then ''id'' else last allowed) in
      case col of None \<Rightarrow> dflt | Some c \<Rightarrow> unwrap_or (find (\<lambda>a. a = c) allowed) dflt)"

end
