(* ===== verification/Sql_Listing.thy ===== *)
theory Sql_Listing
  imports Sql_Storage "HOL-Library.List_Lexorder" "HOL-Library.Char_ord" "HOL-Library.Multiset"
begin

text \<open>
  The listings of the SQL storage (\<open>oauth2-storage-sqlx/src/sqlx.rs\<close>) and the audit log
  (\<open>models/audit.rs\<close>): the \<open>LIKE\<close> filter, the sort column with its direction, paging, and the status
  filter of the token list in both dialects.  Rows with equal keys keep the order of the table, an
  order SQL leaves open.
\<close>

section \<open>Sort keys\<close>

text \<open>Values of a sort column, in the order of SQLite: \<open>NULL\<close>, then numbers and instants, then text.\<close>
datatype sql_value = SqlNull | SqlInt int | SqlText string

instantiation sql_value :: linorder
begin

fun less_eq_sql_value :: "sql_value \<Rightarrow> sql_value \<Rightarrow> bool" where
  "less_eq_sql_value SqlNull _ = True"
| "less_eq_sql_value (SqlInt _) SqlNull = False"
| "less_eq_sql_value (SqlInt a) (SqlInt b) = (a \<le> b)"
| "less_eq_sql_value (SqlInt _) (SqlText _) = True"
| "less_eq_sql_value (SqlText a) (SqlText b) = (a \<le> b)"
| "less_eq_sql_value (SqlText _) _ = False"

definition less_sql_value :: "sql_value \<Rightarrow> sql_value \<Rightarrow> bool" where
  "less_sql_value a b = (a \<le> b \<and> \<not> b \<le> a)"

instance
proof
  fix a b c :: sql_value
  show "(a < b) = (a \<le> b \<and> \<not> b \<le> a)" by (rule less_sql_value_def)
  show "a \<le> a" by (cases a) simp_all
  show "a \<le> c" if "a \<le> b" "b \<le> c" using that by (cases a; cases b; cases c) auto
  show "a = b" if "a \<le> b" "b \<le> a" using that by (cases a; cases b) auto
  show "a \<le> b \<or> b \<le> a" by (cases a; cases b) auto
qed

end

definition sql_opt_text :: "string option \<Rightarrow> sql_value" where
  "sql_opt_text v = (case v of None \<Rightarrow> SqlNull | Some s \<Rightarrow> SqlText s)"

section \<open>Filtering, ordering, paging\<close>

text \<open>\<open>LIKE\<close> on lower-case text: \<open>%\<close> stands for any text, \<open>_\<close> for any one character.\<close>
fun sql_like :: "string \<Rightarrow> string \<Rightarrow> bool" where
  "sql_like [] s = (s = [])"
| "sql_like (p # ps) s =
     (if p = CHR ''%'' then sql_like ps s \<or> (case s of [] \<Rightarrow> False | _ # s' \<Rightarrow> sql_like (p # ps) s')
      else case s of [] \<Rightarrow> False | c # s' \<Rightarrow> (p = CHR ''_'' \<or> p = c) \<and> sql_like ps s')"

definition order_rows :: "string \<Rightarrow> ('a \<Rightarrow> sql_value) \<Rightarrow> 'a list \<Rightarrow> 'a list" where
  "order_rows dir key rows = (if dir = ''ASC'' then sort_key key rows else rev (sort_key key (rev rows)))"

definition limit_offset :: "nat \<Rightarrow> nat \<Rightarrow> 'a list \<Rightarrow> 'a list" where
  "limit_offset n off rows = take n (drop off rows)"

text \<open>Count, select, sort and cut: what the listings with a page do to their table.\<close>
definition select_page :: "list_query \<Rightarrow> ('a \<Rightarrow> bool) \<Rightarrow> ('a \<Rightarrow> sql_value) \<Rightarrow> 'a list \<Rightarrow> 'a page" where
  "select_page q keep key rows =
     (let hits = filter keep rows in
      \<lparr>pg_items = limit_offset (unat (effective_limit q)) (unat (effective_offset q)) (order_rows (sort_dir_sql q) key hits),
       pg_total = length hits, pg_limit = effective_limit q, pg_offset = effective_offset q\<rparr>)"

section \<open>Complete listings\<close>

definition list_all_clients :: "db \<Rightarrow> client list" where
  "list_all_clients d = order_rows ''DESC'' (\<lambda>c. SqlInt (cl_created_at c)) (db_clients d)"

definition list_all_users :: "db \<Rightarrow> user list" where
  "list_all_users d = order_rows ''DESC'' (\<lambda>u. SqlInt (us_created_at u)) (db_users d)"

definition list_all_tokens :: "db \<Rightarrow> token list" where
  "list_all_tokens d = limit_offset 200 0 (order_rows ''DESC'' (\<lambda>t. SqlInt (tk_created_at t)) (db_tokens d))"

definition list_all_device_authorizations :: "db \<Rightarrow> device_authorization list" where
  "list_all_device_authorizations d = limit_offset 500 0 (order_rows ''DESC'' (\<lambda>a. SqlInt (da_created_at a)) (db_devices d))"

definition list_trusted_issuers :: "db \<Rightarrow> trusted_issuer list" where
  "list_trusted_issuers d = order_rows ''DESC'' (\<lambda>t. SqlInt (ti_created_at t)) (db_issuers d)"

section \<open>Pages\<close>

definition client_column :: "string \<Rightarrow> client \<Rightarrow> sql_value" where
  "client_column col c =
     (if col = ''name'' then SqlText (cl_name c) else if col = ''client_id'' then SqlText (cl_client_id c)
      else SqlInt (cl_created_at c))"

definition list_clients_page :: "list_query \<Rightarrow> db \<Rightarrow> client page" where
  "list_clients_page q d =
     select_page q (\<lambda>c. sql_like (search_pattern q) (to_lowercase (cl_name c)) \<or> sql_like (search_pattern q) (to_lowercase (cl_client_id c)))
       (client_column (whitelist_col (lq_sort_by q) [''name'', ''client_id'', ''created_at''])) (db_clients d)"

definition user_column :: "string \<Rightarrow> user \<Rightarrow> sql_value" where
  "user_column col u =
     (if col = ''username'' then SqlText (us_username u) else if col = ''email'' then SqlText (us_email u)
      else if col = ''role'' then SqlText (us_role u) else SqlInt (us_created_at u))"

definition list_users_page :: "list_query \<Rightarrow> db \<Rightarrow> user page" where
  "list_users_page q d =
     select_page q (\<lambda>u. sql_like (search_pattern q) (to_lowercase (us_username u)) \<or> sql_like (search_pattern q) (to_lowercase (us_email u)))
       (user_column (whitelist_col (lq_sort_by q) [''username'', ''email'', ''role'', ''created_at''])) (db_users d)"

definition token_column :: "string \<Rightarrow> token \<Rightarrow> sql_value" where
  "token_column col t =
     (if col = ''client_id'' then SqlText (tk_client_id t) else if col = ''user_id'' then sql_opt_text (tk_user_id t)
      else if col = ''scope'' then SqlText (tk_scope t) else if col = ''expires_at'' then SqlInt (tk_expires_at t)
      else SqlInt (tk_created_at t))"

text \<open>Postgres compares instants.  SQLite compares text: the stored instant has the letter \<open>T\<close> between date
  and time, \<open>datetime('now')\<close> a blank, so that only the dates (UTC) decide, and on the same date the
  stored instant is the greater one.\<close>
datatype dialect = Sqlite | Postgres

definition nanos_per_day :: int where
  "nanos_per_day = secs 86400"

fun expires_later :: "dialect \<Rightarrow> instant \<Rightarrow> instant \<Rightarrow> bool" where
  "expires_later Postgres now e = (now < e)"
| "expires_later Sqlite now e = (now div nanos_per_day \<le> e div nanos_per_day)"

definition status_clause :: "dialect \<Rightarrow> instant \<Rightarrow> string \<Rightarrow> token \<Rightarrow> bool" where
  "status_clause dia now status t =
     (if status = ''active'' then \<not> tk_revoked t \<and> expires_later dia now (tk_expires_at t)
      else if status = ''revoked'' then tk_revoked t
      else if status = ''expired'' then \<not> tk_revoked t \<and> \<not> expires_later dia now (tk_expires_at t)
      else True)"

definition list_tokens_page :: "dialect \<Rightarrow> instant \<Rightarrow> list_query \<Rightarrow> db \<Rightarrow> token page" where
  "list_tokens_page dia now q d =
     select_page q (\<lambda>t. (sql_like (search_pattern q) (to_lowercase (tk_client_id t)) \<or>
           sql_like (search_pattern q) (to_lowercase (unwrap_or (tk_user_id t) []))) \<and>
         status_clause dia now (unwrap_or (lq_status q) ''all'') t)
       (token_column (whitelist_col (lq_sort_by q) [''client_id'', ''user_id'', ''scope'', ''expires_at'', ''created_at''])) (db_tokens d)"

definition denylist_column :: "string \<Rightarrow> denylist_entry \<Rightarrow> sql_value" where
  "denylist_column col e =
     (if col = ''kind'' then SqlText (dl_kind e) else if col = ''value'' then SqlText (dl_value e) else SqlInt (dl_created_at e))"

definition list_denylist :: "list_query \<Rightarrow> db \<Rightarrow> denylist_entry page" where
  "list_denylist q d =
     select_page q (\<lambda>_. True) (denylist_column (whitelist_col (lq_sort_by q) [''kind'', ''value'', ''created_at''])) (db_denylist d)"

section \<open>The audit log\<close>

record audit_log_entry =
  au_id :: string
  au_actor_id :: string
  au_actor_email :: string
  au_action :: string
  au_target_kind :: string
  au_target_id :: string
  au_ip :: string
  au_user_agent :: string
  au_metadata :: string
  au_created_at :: instant

definition audit_new :: "string \<Rightarrow> instant \<Rightarrow> string \<Rightarrow> string \<Rightarrow> string \<Rightarrow> audit_log_entry" where
  "audit_new uuid now actor_id actor_email action =
     \<lparr>au_id = uuid, au_actor_id = actor_id, au_actor_email = actor_email, au_action = action, au_target_kind = [],
      au_target_id = [], au_ip = [], au_user_agent = [], au_metadata = [], au_created_at = now\<rparr>"

definition with_target :: "string \<Rightarrow> string \<Rightarrow> audit_log_entry \<Rightarrow> audit_log_entry" where
  "with_target kind i e = e\<lparr>au_target_kind := kind, au_target_id := i\<rparr>"

definition with_request_meta :: "string \<Rightarrow> string \<Rightarrow> audit_log_entry \<Rightarrow> audit_log_entry" where
  "with_request_meta ip user_agent e = e\<lparr>au_ip := ip, au_user_agent := user_agent\<rparr>"

definition with_metadata_json :: "libs \<Rightarrow> json \<Rightarrow> audit_log_entry \<Rightarrow> audit_log_entry" where
  "with_metadata_json L metadata e = e\<lparr>au_metadata := json_to_string L metadata\<rparr>"

type_synonym audit_log = "audit_log_entry list"

definition write_audit_log :: "audit_log_entry \<Rightarrow> audit_log \<Rightarrow> unit result \<times> audit_log" where
  "write_audit_log e rows =
     (if list_ex (\<lambda>x. au_id x = au_id e) rows then (Inl (from_db_error UniqueViolation), rows) else (Inr (), rows @ [e]))"

definition audit_column :: "string \<Rightarrow> audit_log_entry \<Rightarrow> sql_value" where
  "audit_column col e =
     (if col = ''actor_id'' then SqlText (au_actor_id e) else if col = ''action'' then SqlText (au_action e)
      else if col = ''target_kind'' then SqlText (au_target_kind e) else SqlInt (au_created_at e))"

definition list_audit_log :: "list_query \<Rightarrow> audit_log \<Rightarrow> audit_log_entry page" where
  "list_audit_log q rows =
     select_page q (\<lambda>_. True) (audit_column (whitelist_col (lq_sort_by q) [''actor_id'', ''action'', ''target_kind'', ''created_at''])) rows"

end
