(* ===== verification/Listing_Laws.thy ===== *)
theory Listing_Laws
  imports Sql_Listing "HOL-Library.Sublist"
begin

text \<open>
  Properties of the listings: pages partition the matching rows in order, the search box finds
  substrings as long as it holds no wildcard, the sort column is one of a fixed list, and the status
  filter of the token list.
\<close>

section \<open>Ordering\<close>

lemma mset_order_rows [simp]: "mset (order_rows dir key rows) = mset rows"
  by (simp add: order_rows_def)

lemma length_order_rows [simp]: "length (order_rows dir key rows) = length rows"
  by (simp add: order_rows_def)

lemma set_order_rows [simp]: "set (order_rows dir key rows) = set rows"
  using mset_eq_setD [OF mset_order_rows] .

lemma order_rows_sorted:
  "if dir = ''ASC'' then sorted (map key (order_rows dir key rows)) else sorted (rev (map key (order_rows dir key rows)))"
  by (simp add: order_rows_def rev_map)

lemma whitelist_col_allowed: "allowed \<noteq> [] \<Longrightarrow> whitelist_col col allowed \<in> set allowed"
  by (auto simp: whitelist_col_def unwrap_or_def Let_def find_Some_iff split: option.split)

section \<open>Paging\<close>

definition at_offset :: "nat \<Rightarrow> list_query \<Rightarrow> list_query" where
  "at_offset i q = q\<lparr>lq_offset := Some (of_nat i)\<rparr>"

lemma page_at_offset:
  assumes "i < 2 ^ 32"
  shows "pg_items (select_page (at_offset i q) keep key rows) =
    take (unat (effective_limit q)) (drop i (order_rows (sort_dir_sql q) key (filter keep rows)))"
proof -
  have "unat (of_nat i :: 32 word) = i" using assms by (simp add: unat_of_nat take_bit_nat_eq_self)
  then show ?thesis
    by (simp add: select_page_def Let_def limit_offset_def at_offset_def effective_limit_def effective_offset_def sort_dir_sql_def)
qed

lemma concat_windows: "concat (map (\<lambda>i. take n (drop (i * n) xs)) [0..<k]) = take (k * n) xs"
proof (induction k)
  case (Suc k)
  have "take (Suc k * n) xs = take (k * n + n) xs" by (simp add: add.commute)
  with Suc show ?case by (simp add: take_add)
qed simp

text \<open>Pages partition a listing.  Walking through the pages of any query, each time \<open>limit\<close> rows further,
  yields the matching rows exactly once each, in ascending or descending order of the sort column,
  and the total on every page is the number of rows the walk yields; no page is longer than 200.\<close>
theorem pages_partition:
  fixes key :: "'a \<Rightarrow> sql_value"
  assumes "effective_limit q \<noteq> 0" "k * unat (effective_limit q) \<le> 2 ^ 32" "length (filter keep rows) \<le> k * unat (effective_limit q)"
  defines "walk \<equiv> concat (map (\<lambda>i. pg_items (select_page (at_offset (i * unat (effective_limit q)) q) keep key rows)) [0..<k])"
  shows "mset walk = mset (filter keep rows) \<and> pg_total (select_page q keep key rows) = length walk \<and>
    length (pg_items (select_page q keep key rows)) \<le> 200 \<and>
    (if sort_dir_sql q = ''ASC'' then sorted (map key walk) else sorted (rev (map key walk)))"
proof -
  let ?n = "unat (effective_limit q)" and ?all = "order_rows (sort_dir_sql q) key (filter keep rows)"
  have n: "0 < ?n" using assms(1) by (simp add: unat_gt_0)
  have "i * ?n < 2 ^ 32" if "i < k" for i
  proof -
    have "i * ?n < k * ?n" using that n by simp
    then show ?thesis using assms(2) by linarith
  qed
  then have "walk = concat (map (\<lambda>i. take ?n (drop (i * ?n) ?all)) [0..<k])"
    unfolding walk_def by (intro arg_cong [where f = concat] map_cong refl page_at_offset) simp
  also have "\<dots> = ?all" using assms(3) by (simp add: concat_windows)
  finally have w: "walk = ?all" .
  have "length (pg_items (select_page q keep key rows)) \<le> ?n" by (simp add: select_page_def Let_def limit_offset_def)
  also have "\<dots> \<le> 200" by (rule unat_effective_limit_le)
  finally have "length (pg_items (select_page q keep key rows)) \<le> 200" .
  moreover have "pg_total (select_page q keep key rows) = length walk" by (simp add: w select_page_def Let_def)
  moreover have "mset walk = mset (filter keep rows)" by (simp add: w)
  ultimately show ?thesis using order_rows_sorted [of "sort_dir_sql q" key "filter keep rows", folded w] by blast
qed

section \<open>Searching\<close>

lemma sql_like_percent [simp]:
  "sql_like (CHR ''%'' # ps) [] = sql_like ps []"
  "sql_like (CHR ''%'' # ps) (c # s) = (sql_like ps (c # s) \<or> sql_like (CHR ''%'' # ps) s)"
  by simp_all

lemma sql_like_char [simp]:
  "p \<noteq> CHR ''%'' \<Longrightarrow> \<not> sql_like (p # ps) []"
  "p \<noteq> CHR ''%'' \<Longrightarrow> sql_like (p # ps) (c # s) = ((p = CHR ''_'' \<or> p = c) \<and> sql_like ps s)"
  by simp_all

declare sql_like.simps(2) [simp del]

lemma sql_like_any [simp]: "sql_like ''%'' s"
  by (induction s) simp_all

lemma sql_like_literal_rest:
  "set ps \<inter> {CHR ''%'', CHR ''_''} = {} \<Longrightarrow> sql_like (ps @ ''%'') s \<longleftrightarrow> prefix ps s"
proof (induction ps arbitrary: s)
  case (Cons p ps)
  then have p: "p \<noteq> CHR ''%''" "p \<noteq> CHR ''_''" and ps: "sql_like (ps @ ''%'') r = prefix ps r" for r by (simp_all add: eq_commute)
  show ?case
  proof (cases s)
    case (Cons c r)
    then show ?thesis using p ps [of r] by simp
  qed (use p in simp)
qed simp

lemma sql_like_substring:
  assumes "set ps \<inter> {CHR ''%'', CHR ''_''} = {}"
  shows "sql_like (''%'' @ ps @ ''%'') s \<longleftrightarrow> sublist ps s"
proof (induction s)
  case Nil
  then show ?case using sql_like_literal_rest [OF assms, of "[]"] by simp
next
  case (Cons c s)
  then show ?case using sql_like_literal_rest [OF assms, of "c # s"] by (simp add: sublist_Cons_right)
qed

text \<open>The search box finds substrings: as long as the text holds neither percent sign nor underscore, the
  filter keeps exactly the rows whose column contains it, whatever the case; an empty box keeps all.\<close>
theorem search_finds_substring:
  assumes "lq_search q = Some s" "set (to_lowercase s) \<inter> {CHR ''%'', CHR ''_''} = {}"
  shows "sql_like (search_pattern q) (to_lowercase v) \<longleftrightarrow> sublist (to_lowercase s) (to_lowercase v)"
proof (cases "s = []")
  case True
  then show ?thesis using assms(1) by (simp add: search_pattern_def to_lowercase_def)
next
  case False
  then show ?thesis using assms sql_like_substring [OF assms(2)] by (simp add: search_pattern_def)
qed

text \<open>An underscore in the box is a wildcard: it finds every row with a non-empty column.\<close>
lemma underscore_is_wildcard: "lq_search q = Some ''_'' \<Longrightarrow> v \<noteq> [] \<Longrightarrow> sql_like (search_pattern q) (to_lowercase v)"
  by (cases v) (simp_all add: search_pattern_def to_lowercase_def to_lower_char_def)

section \<open>The status filter\<close>

text \<open>The three states are exclusive and cover every token, in both dialects.\<close>
lemma status_partition:
  "(status_clause dia now ''active'' t, status_clause dia now ''revoked'' t, status_clause dia now ''expired'' t)
     \<in> {(True, False, False), (False, True, False), (False, False, True)}"
  by (cases "tk_revoked t"; cases "expires_later dia now (tk_expires_at t)") (simp_all add: status_clause_def)

lemma postgres_active_exact: "status_clause Postgres now ''active'' t \<Longrightarrow> token_is_valid now t"
  by (simp add: status_clause_def token_is_valid_def token_is_expired_def)

text \<open>SQLite lists a token that expired earlier on the same day as active.\<close>
lemma sqlite_lists_expired_as_active:
  "tk_expires_at t < now \<Longrightarrow> now div nanos_per_day = tk_expires_at t div nanos_per_day \<Longrightarrow> \<not> tk_revoked t \<Longrightarrow>
   status_clause Sqlite now ''active'' t \<and> \<not> token_is_valid now t"
  by (simp add: status_clause_def token_is_valid_def token_is_expired_def)

section \<open>Witnesses\<close>

definition find_bo :: list_query where
  "find_bo = \<lparr>lq_limit = Some 2, lq_offset = None, lq_sort_by = None, lq_sort_dir = Some Asc, lq_search = Some ''Bo'', lq_status = None\<rparr>"

lemma pages_partition_witness:
  "concat (map (\<lambda>i. pg_items (select_page (at_offset (i * 2) find_bo) (\<lambda>n. n \<noteq> 4) SqlInt [3, 4, 1, 2])) [0..<2]) = [1, 2, 3] \<and>
   pg_total (select_page find_bo (\<lambda>n. n \<noteq> 4) SqlInt [3, 4, 1, 2]) = 3"
proof -
  have lim: "unat (effective_limit find_bo) = 2" "effective_limit find_bo \<noteq> 0"
    by (simp_all add: find_bo_def effective_limit_def min_def)
  note p = pages_partition [of find_bo 2 "\<lambda>n. n \<noteq> 4" "[3, 4, 1, 2]" SqlInt, unfolded lim(1)]
  have "length (filter (\<lambda>n. n \<noteq> 4) [3, 4, 1, 2 :: int]) = 3" by simp
  then have "pg_total (select_page find_bo (\<lambda>n. n \<noteq> 4) SqlInt [3, 4, 1, 2]) = 3" by (simp add: select_page_def)
  moreover have "concat (map (\<lambda>i. pg_items (select_page (at_offset (i * 2) find_bo) (\<lambda>n. n \<noteq> 4) SqlInt [3, 4, 1, 2])) [0..<2]) = [1, 2, 3]"
    (is "?w = _")
  proof -
    have "mset ?w = {#1, 2, 3#}" "sorted (map SqlInt ?w)"
      using p lim(2) by (simp_all add: find_bo_def sort_dir_sql_def)
    then have "mset ?w = mset [1, 2, 3]" "sorted ?w" by (simp_all add: sorted_map)
    then show ?thesis using properties_for_sort [of ?w "[1, 2, 3]"] by (simp add: sort_key_id_if_sorted)
  qed
  ultimately show ?thesis by blast
qed

lemma search_finds_substring_witness:
  "sql_like (search_pattern find_bo) (to_lowercase ''Jabo'') \<and> \<not> sql_like (search_pattern find_bo) (to_lowercase ''Alice'')"
proof -
  have s: "lq_search find_bo = Some ''Bo''" "to_lowercase ''Bo'' = ''bo''" "to_lowercase ''Jabo'' = ''jabo''" "to_lowercase ''Alice'' = ''alice''"
    by (simp add: find_bo_def, code_simp+)
  note q = search_finds_substring [OF s(1)]
  have "sublist ''bo'' ''jabo''" "\<not> sublist ''bo'' ''alice''" by (simp_all add: sublist_Cons_right)
  then show ?thesis using q [of "''Jabo''"] q [of "''Alice''"] by (simp add: s)
qed

end
