(* ===== verification/Key_Set.thy ===== *)
theory Key_Set
  imports Core_Models
begin

text \<open>
  Signing keys and their rotation (\<open>crates/oauth2-core/src/models/key_set.rs\<close>) and the
  verification of a JWT against a key set (\<open>Claims::decode_with_keyset\<close> in
  \<open>models/token.rs\<close>).  The JWT library's header reader and verifier, SHA-256 and AES-GCM
  are arguments.
\<close>

section \<open>Keys\<close>

datatype algorithm = HS256 | RS256

definition algorithm_from_str :: "string \<Rightarrow> string + algorithm" where
  "algorithm_from_str s =
     (let u = map (\<lambda>c. let n = of_char c :: nat in if 97 \<le> n \<and> n \<le> 122 then char_of (n - 32) else c) s in
      if u = ''HS256'' then Inr HS256
      else if u = ''RS256'' then Inr RS256
      else Inl (''Unknown algorithm: '' @ u))"

fun algorithm_display :: "algorithm \<Rightarrow> string" where
  "algorithm_display HS256 = ''HS256''"
| "algorithm_display RS256 = ''RS256''"

type_synonym bytes = "8 word list"

record signing_key =
  sk_kid :: string
  sk_algorithm :: algorithm
  sk_key_material :: bytes
  sk_is_current :: bool
  sk_created_at :: instant
  sk_expires_at :: "instant option"

type_synonym key_set = "signing_key list"

definition key_is_active :: "instant \<Rightarrow> signing_key \<Rightarrow> bool" where
  "key_is_active now k = (case sk_expires_at k of Some ex \<Rightarrow> now < ex | None \<Rightarrow> True)"

definition ks_current :: "instant \<Rightarrow> key_set \<Rightarrow> signing_key option" where
  "ks_current now ks = find (\<lambda>k. sk_is_current k \<and> key_is_active now k) ks"

definition ks_current_for_alg :: "instant \<Rightarrow> key_set \<Rightarrow> algorithm \<Rightarrow> signing_key option" where
  "ks_current_for_alg now ks alg =
     find (\<lambda>k. sk_is_current k \<and> sk_algorithm k = alg \<and> key_is_active now k) ks"

definition ks_find :: "instant \<Rightarrow> key_set \<Rightarrow> string \<Rightarrow> signing_key option" where
  "ks_find now ks kid = find (\<lambda>k. sk_kid k = kid \<and> key_is_active now k) ks"

definition ks_active_keys :: "instant \<Rightarrow> key_set \<Rightarrow> signing_key list" where
  "ks_active_keys now ks = filter (key_is_active now) ks"

definition ks_add :: "key_set \<Rightarrow> signing_key \<Rightarrow> key_set" where
  "ks_add ks k = ks @ [k]"

definition ks_rotate :: "instant \<Rightarrow> key_set \<Rightarrow> signing_key \<Rightarrow> int \<Rightarrow> key_set" where
  "ks_rotate now ks new_key grace =
     (let alg = sk_algorithm new_key; ex = now + grace in
      update_where (\<lambda>k. sk_algorithm k = alg \<and> sk_is_current k)
        (\<lambda>k. k\<lparr>sk_is_current := False, sk_expires_at := Some ex\<rparr>) ks @ [new_key])"

definition key_expired :: "instant \<Rightarrow> signing_key \<Rightarrow> bool" where
  "key_expired now k = (case sk_expires_at k of Some ex \<Rightarrow> now \<ge> ex | None \<Rightarrow> False)"

definition ks_prune_expired :: "instant \<Rightarrow> key_set \<Rightarrow> string list \<times> key_set" where
  "ks_prune_expired now ks =
     (map sk_kid (filter (key_expired now) ks), filter (\<lambda>k. \<not> key_expired now k) ks)"

section \<open>Verification against a key set\<close>

fun try_hs256 ::
  "(algorithm \<Rightarrow> bytes \<Rightarrow> string \<Rightarrow> 'e + claims) \<Rightarrow> string \<Rightarrow> signing_key list \<Rightarrow> 'e option \<Rightarrow> 'e \<Rightarrow> 'e + claims" where
  "try_hs256 verify tok [] last_err invalid_token = Inl (unwrap_or last_err invalid_token)"
| "try_hs256 verify tok (k # ks) last_err invalid_token =
     (if sk_algorithm k \<noteq> HS256 then try_hs256 verify tok ks last_err invalid_token
      else case verify HS256 (sk_key_material k) tok of
        Inr c \<Rightarrow> Inr c
      | Inl e \<Rightarrow> try_hs256 verify tok ks (Some e) invalid_token)"

definition decode_with_keyset ::
  "(string \<Rightarrow> 'e + string option) \<Rightarrow> (algorithm \<Rightarrow> bytes \<Rightarrow> string \<Rightarrow> 'e + claims) \<Rightarrow> 'e \<Rightarrow>
   instant \<Rightarrow> key_set \<Rightarrow> string \<Rightarrow> 'e + claims" where
  "decode_with_keyset header_kid verify invalid_token now ks tok =
     bindR (header_kid tok) (\<lambda>kid.
       case (case kid of None \<Rightarrow> None | Some i \<Rightarrow> ks_find now ks i) of
         Some key \<Rightarrow> verify (sk_algorithm key) (sk_key_material key) tok
       | None \<Rightarrow> try_hs256 verify tok (ks_active_keys now ks) None invalid_token)"

section \<open>Encryption of key material at rest\<close>

definition encrypt_key_material ::
  "(string \<Rightarrow> bytes) \<Rightarrow> (bytes \<Rightarrow> bytes \<Rightarrow> bytes \<Rightarrow> string + bytes) \<Rightarrow> bytes \<Rightarrow> bytes \<Rightarrow> string \<Rightarrow> string + bytes" where
  "encrypt_key_material sha256 aes_encrypt nonce plaintext jwt_secret =
     map_sum id (\<lambda>ct. nonce @ ct) (aes_encrypt (sha256 jwt_secret) nonce plaintext)"

definition decrypt_key_material ::
  "(string \<Rightarrow> bytes) \<Rightarrow> (bytes \<Rightarrow> bytes \<Rightarrow> bytes \<Rightarrow> string + bytes) \<Rightarrow> bytes \<Rightarrow> string \<Rightarrow> string + bytes" where
  "decrypt_key_material sha256 aes_decrypt encrypted jwt_secret =
     (if length encrypted < 13 then Inl ''Encrypted data too short''
      else aes_decrypt (sha256 jwt_secret) (take 12 encrypted) (drop 12 encrypted))"

section \<open>Invariant and lemmas\<close>

definition one_current_per_alg :: "key_set \<Rightarrow> bool" where
  "one_current_per_alg ks =
     (\<forall>alg\<in>{HS256, RS256}. count_where (\<lambda>k. sk_algorithm k = alg \<and> sk_is_current k) ks \<le> 1)"

lemma algorithm_cases_set: "alg \<in> {HS256, RS256}"
  by (cases alg) auto

lemma algorithm_roundtrip: "algorithm_from_str (algorithm_display a) = Inr a"
  by (cases a; hypsubst; code_simp)

lemma filter_current_update:
  "filter (\<lambda>k. sk_algorithm k = alg \<and> sk_is_current k)
     (update_where (\<lambda>k. sk_algorithm k = alg' \<and> sk_is_current k)
        (\<lambda>k. k\<lparr>sk_is_current := False, sk_expires_at := ex\<rparr>) ks) =
   (if alg = alg' then [] else filter (\<lambda>k. sk_algorithm k = alg \<and> sk_is_current k) ks)"
  by (induction ks) auto

lemma rotate_count:
  "count_where (\<lambda>k. sk_algorithm k = alg \<and> sk_is_current k) (ks_rotate now ks new_key grace) =
     (if alg = sk_algorithm new_key then (if sk_is_current new_key then 1 else 0)
      else count_where (\<lambda>k. sk_algorithm k = alg \<and> sk_is_current k) ks)"
  by (simp add: count_where_def ks_rotate_def Let_def filter_current_update)

lemma rotate_one_current: "one_current_per_alg ks \<Longrightarrow> one_current_per_alg (ks_rotate now ks k g)"
  by (auto simp: one_current_per_alg_def rotate_count)

lemma key_expired_active: "key_expired now k \<longleftrightarrow> \<not> key_is_active now k"
  by (auto simp: key_expired_def key_is_active_def split: option.splits)

lemma find_append_None: "find P xs = None \<Longrightarrow> find P (xs @ ys) = find P ys"
  by (induction xs) (auto split: if_splits)

lemma rotate_current_for_alg:
  assumes "sk_is_current new_key" "key_is_active t new_key"
  shows "ks_current_for_alg t (ks_rotate now ks new_key grace) (sk_algorithm new_key) = Some new_key"
  unfolding ks_current_for_alg_def ks_rotate_def Let_def
  by (subst find_append_None) (use assms in \<open>auto simp: find_None_iff_all set_update_where\<close>)

lemma find_prune:
  "(\<And>k. P k \<Longrightarrow> \<not> key_expired now k) \<Longrightarrow> find P (snd (ks_prune_expired now ks)) = find P ks"
  by (induction ks) (auto simp: ks_prune_expired_def)

lemma prune_keeps_active: "snd (ks_prune_expired now ks) = ks_active_keys now ks"
  by (simp add: ks_prune_expired_def ks_active_keys_def key_expired_active)

lemma active_antimono: "now \<le> t \<Longrightarrow> key_is_active t k \<Longrightarrow> key_is_active now k"
  by (auto simp: key_is_active_def split: option.splits)

lemma try_hs256_Inr:
  "try_hs256 verify tok ks l bad = Inr c \<Longrightarrow>
   \<exists>k\<in>set ks. sk_algorithm k = HS256 \<and> verify HS256 (sk_key_material k) tok = Inr c"
  by (induction ks arbitrary: l) (auto split: if_splits sum.splits)

text \<open>A JWT is accepted only under an active key of the set; when its \<open>kid\<close> names an
  active key, under exactly that key.\<close>
theorem decode_with_keyset_sound:
  assumes "decode_with_keyset header_kid verify bad now ks tok = Inr c"
  shows "\<exists>k\<in>set ks. key_is_active now k \<and> verify (sk_algorithm k) (sk_key_material k) tok = Inr c \<and>
     (\<forall>i key. header_kid tok = Inr (Some i) \<and> ks_find now ks i = Some key \<longrightarrow> k = key)"
proof -
  from assms obtain kid where h: "header_kid tok = Inr kid"
    by (auto simp: decode_with_keyset_def result_simps)
  show ?thesis
  proof (cases "case kid of None \<Rightarrow> None | Some i \<Rightarrow> ks_find now ks i")
    case None
    with assms h have "try_hs256 verify tok (ks_active_keys now ks) None bad = Inr c"
      by (auto simp: decode_with_keyset_def)
    from try_hs256_Inr [OF this] show ?thesis
      using h None by (auto simp: ks_active_keys_def)
  next
    case (Some key)
    then obtain i where i: "kid = Some i" "ks_find now ks i = Some key" by (auto split: option.splits)
    then have "key \<in> set ks \<and> key_is_active now key" by (auto simp: ks_find_def dest: find_Some_in)
    moreover have "verify (sk_algorithm key) (sk_key_material key) tok = Inr c"
      using assms h i by (simp add: decode_with_keyset_def)
    ultimately show ?thesis using h i by (intro bexI [of _ key]) auto
  qed
qed

definition demo_key :: "string \<Rightarrow> bool \<Rightarrow> signing_key" where
  "demo_key kid cur = \<lparr>sk_kid = kid, sk_algorithm = HS256, sk_key_material = [1, 2, 3],
     sk_is_current = cur, sk_created_at = 0, sk_expires_at = None\<rparr>"

lemma decode_with_keyset_sound_witness:
  "\<exists>k\<in>set [demo_key ''k1'' True]. key_is_active 0 k"
  using decode_with_keyset_sound
    [of "\<lambda>_. Inr (Some ''k1'') :: string + string option" "\<lambda>_ _ _. Inr (claims_new 0 ''j'' ''s'' ''c'' ''r'' 60 ''i'')"
      "''InvalidToken''" 0 "[demo_key ''k1'' True]" "''h.p.s''" "claims_new 0 ''j'' ''s'' ''c'' ''r'' 60 ''i''"]
  by (auto simp: decode_with_keyset_def ks_find_def demo_key_def key_is_active_def)

text \<open>Rotation: after a rotation the new key is the one that signs for its algorithm, at most
  one key per algorithm is current, and the replaced signing key still verifies by its \<open>kid\<close>
  strictly inside the grace period and never after it.\<close>
theorem rotate_correct:
  assumes "one_current_per_alg ks" "distinct (map sk_kid ks)" "sk_kid new_key \<notin> sk_kid ` set ks"
    "old \<in> set ks" "sk_is_current old" "sk_algorithm old = sk_algorithm new_key"
    "sk_is_current new_key" "sk_expires_at new_key = None"
  shows "one_current_per_alg (ks_rotate now ks new_key grace) \<and>
     ks_current_for_alg t (ks_rotate now ks new_key grace) (sk_algorithm new_key) = Some new_key \<and>
     (ks_find t (ks_rotate now ks new_key grace) (sk_kid old) =
        (if t < now + grace
         then Some (old\<lparr>sk_is_current := False, sk_expires_at := Some (now + grace)\<rparr>) else None))"
proof (intro conjI)
  let ?ks = "ks_rotate now ks new_key grace"
  let ?old = "old\<lparr>sk_is_current := False, sk_expires_at := Some (now + grace)\<rparr>"
  show "one_current_per_alg ?ks" using assms(1) by (rule rotate_one_current)
  show "ks_current_for_alg t ?ks (sk_algorithm new_key) = Some new_key"
    using assms(7,8) by (intro rotate_current_for_alg) (simp_all add: key_is_active_def)
  have "map sk_kid ?ks = map sk_kid ks @ [sk_kid new_key]"
    by (simp add: ks_rotate_def Let_def map_update_where)
  then have d: "distinct (map sk_kid ?ks)" using assms(2,3) by auto
  have m: "?old \<in> set ?ks"
    unfolding ks_rotate_def Let_def
    using assms(4-6) by (auto simp: set_update_where image_iff intro!: bexI [of _ old])
  have "find (\<lambda>k. sk_kid k = sk_kid old) ?ks = Some ?old"
    using find_distinct_key [OF d m] by simp
  from find_key_and [OF d this, of "key_is_active t"]
  show "ks_find t ?ks (sk_kid old) = (if t < now + grace then Some ?old else None)"
    by (simp add: ks_find_def key_is_active_def)
qed

lemma rotate_correct_witness:
  "ks_find 59 (ks_rotate 0 [demo_key ''k1'' True] (demo_key ''k2'' True) 60) ''k1'' =
     Some ((demo_key ''k1'' True)\<lparr>sk_is_current := False, sk_expires_at := Some 60\<rparr>)"
  using rotate_correct [of "[demo_key ''k1'' True]" "demo_key ''k2'' True" "demo_key ''k1'' True" 0 60 59]
  by (simp add: one_current_per_alg_def count_where_def demo_key_def)

text \<open>Pruning removes exactly the inactive keys, reports their identifiers, and changes no
  lookup at the present or any later instant.\<close>
theorem prune_expired_correct:
  assumes "now \<le> t"
  shows "ks_find t (snd (ks_prune_expired now ks)) kid = ks_find t ks kid \<and>
    ks_current_for_alg t (snd (ks_prune_expired now ks)) alg = ks_current_for_alg t ks alg \<and>
    (\<forall>k\<in>set ks. k \<in> set (snd (ks_prune_expired now ks)) \<or> sk_kid k \<in> set (fst (ks_prune_expired now ks))) \<and>
    (\<forall>k\<in>set (snd (ks_prune_expired now ks)). key_is_active now k)"
proof (intro conjI)
  show "ks_find t (snd (ks_prune_expired now ks)) kid = ks_find t ks kid"
    unfolding ks_find_def
    by (rule find_prune) (use assms active_antimono in \<open>auto simp: key_expired_active\<close>)
  show "ks_current_for_alg t (snd (ks_prune_expired now ks)) alg = ks_current_for_alg t ks alg"
    unfolding ks_current_for_alg_def
    by (rule find_prune) (use assms active_antimono in \<open>auto simp: key_expired_active\<close>)
qed (auto simp: ks_prune_expired_def key_expired_active)

lemma prune_expired_correct_witness:
  "ks_find 70 (snd (ks_prune_expired 60 [(demo_key ''k1'' False)\<lparr>sk_expires_at := Some 60\<rparr>, demo_key ''k2'' True])) ''k2'' =
     Some (demo_key ''k2'' True)"
  using prune_expired_correct [of 60 70 "[(demo_key ''k1'' False)\<lparr>sk_expires_at := Some 60\<rparr>, demo_key ''k2'' True]" "''k2''"]
  by (simp add: ks_find_def demo_key_def key_is_active_def)

text \<open>Key material decrypts to what was encrypted, for any cipher that inverts itself under
  the same key and nonce, produces at least one byte, and is given a 12-byte nonce.\<close>
theorem key_material_roundtrip:
  assumes "length nonce = 12" "enc (sha secret) nonce pt = Inr ct" "ct \<noteq> []"
    "dec (sha secret) nonce ct = Inr pt"
  shows "\<exists>blob. encrypt_key_material sha enc nonce pt secret = Inr blob \<and>
     decrypt_key_material sha dec blob secret = Inr pt \<and> length blob = 12 + length ct"
  using assms
  by (cases ct) (auto simp: encrypt_key_material_def decrypt_key_material_def)

lemma key_material_roundtrip_witness:
  "\<exists>blob. encrypt_key_material (\<lambda>_. [0]) (\<lambda>k n p. Inr (rev p)) (replicate 12 7) [1, 2] ''s'' = Inr blob \<and>
     decrypt_key_material (\<lambda>_. [0]) (\<lambda>k n c. Inr (rev c)) blob ''s'' = Inr [1, 2] \<and> length blob = 14"
  using key_material_roundtrip
    [of "replicate 12 7" "\<lambda>k n p. Inr (rev p)" "\<lambda>_. [0]" "''s''" "[1, 2]" "[2, 1]" "\<lambda>k n c. Inr (rev c)"]
  by simp

end
