(* ===== verification/Token_Actor.thy ===== *)
theory Token_Actor
  imports Storage_Laws Key_Set
begin

text \<open>
  The token actor (\<open>crates/oauth2-actix/src/actors/token_actor.rs\<close>): issue, lookup,
  validation through an LRU cache, revocation, family revocation and refresh-token
  validation, and the shard routing of \<open>token_actor_pool.rs\<close>.  One definition per message
  handler.  The Redis layer (feature \<open>redis-cache\<close>) is in \<open>Redis_Cache\<close>.

  The JWT library is the record \<open>jwt_lib\<close>; random identifiers are the record \<open>fresh\<close>.
\<close>

section \<open>The JWT library and the actor's state\<close>

record jwt_lib =
  jwt_encode :: "string \<Rightarrow> string option \<Rightarrow> algorithm \<Rightarrow> bytes \<Rightarrow> claims \<Rightarrow> string + string"
  jwt_header_kid :: "string \<Rightarrow> string + string option"
  jwt_verify :: "instant \<Rightarrow> string option \<Rightarrow> algorithm \<Rightarrow> bytes \<Rightarrow> string \<Rightarrow> string + claims"
  jwt_payload :: "string \<Rightarrow> claims option"
  secret_bytes :: "string \<Rightarrow> bytes"

record fresh =
  fr_row_id :: string
  fr_access_jti :: string
  fr_refresh_jti :: string
  fr_opaque1 :: string
  fr_opaque2 :: string

record cached_token =
  ct_token :: token
  ct_inserted_at :: instant

record token_actor =
  tka_jwt_secret :: string
  tka_issuer :: string
  tka_access_tokens_opaque :: bool
  tka_keyset :: "key_set option"
  tka_cache :: "(string \<times> cached_token) list"
  tka_access_token_ttl_secs :: int
  tka_refresh_token_ttl_secs :: int

section \<open>The LRU cache\<close>

text \<open>Most recently used entry first; \<open>put\<close> drops the least recently used entry beyond the
  capacity, \<open>get\<close> promotes.\<close>

definition cache_max :: nat where
  "cache_max = 10000"

definition cache_ttl :: instant where
  "cache_ttl = secs 60"

definition lru_pop :: "string \<Rightarrow> (string \<times> 'v) list \<Rightarrow> (string \<times> 'v) list" where
  "lru_pop k xs = filter (\<lambda>(k', _). k' \<noteq> k) xs"

definition lru_get :: "string \<Rightarrow> (string \<times> 'v) list \<Rightarrow> 'v option \<times> (string \<times> 'v) list" where
  "lru_get k xs = (case map_of xs k of None \<Rightarrow> (None, xs) | Some v \<Rightarrow> (Some v, (k, v) # lru_pop k xs))"

definition lru_put :: "nat \<Rightarrow> string \<Rightarrow> 'v \<Rightarrow> (string \<times> 'v) list \<Rightarrow> (string \<times> 'v) list" where
  "lru_put cap k v xs = take cap ((k, v) # lru_pop k xs)"

definition normalize_token_key :: "string \<Rightarrow> string" where
  "normalize_token_key raw =
     (let trimmed = trim raw in trim (unwrap_or (strip_prefix_opt trimmed ''Bearer '') trimmed))"

definition invalidate_cached_token :: "string \<Rightarrow> token_actor \<Rightarrow> token_actor" where
  "invalidate_cached_token access_token A =
     A\<lparr>tka_cache := lru_pop (normalize_token_key access_token) (tka_cache A)\<rparr>"

section \<open>Issue\<close>

record create_token_msg =
  ctm_user_id :: "string option"
  ctm_client_id :: string
  ctm_scope :: string
  ctm_include_refresh :: bool
  ctm_token_family :: "string option"
  ctm_resources :: "string list"
  ctm_cnf :: "json option"
  ctm_authorization_details :: "json option"
  ctm_act :: "json option"
  ctm_ttl_override_secs :: "64 word option"
  ctm_sub_profile :: "string option"
  ctm_txn :: "string option"

definition effective_ttl :: "token_actor \<Rightarrow> create_token_msg \<Rightarrow> int" where
  "effective_ttl A m =
     (case ctm_ttl_override_secs m of
        Some cap \<Rightarrow> min (tka_access_token_ttl_secs A) (as_i64 (uint cap))
      | None \<Rightarrow> tka_access_token_ttl_secs A)"

definition signing_key_of :: "instant \<Rightarrow> token_actor \<Rightarrow> signing_key option" where
  "signing_key_of now A =
     (case tka_keyset A of None \<Rightarrow> None
      | Some ks \<Rightarrow> (case ks_current_for_alg now ks RS256 of
                      Some k \<Rightarrow> Some k
                    | None \<Rightarrow> ks_current_for_alg now ks HS256))"

definition encode_claims ::
  "jwt_lib \<Rightarrow> token_actor \<Rightarrow> signing_key option \<Rightarrow> string \<Rightarrow> claims \<Rightarrow> string + string" where
  "encode_claims J A key typ c =
     (case key of
        Some k \<Rightarrow> jwt_encode J typ (Some (sk_kid k)) (sk_algorithm k) (sk_key_material k) c
      | None \<Rightarrow> jwt_encode J typ None HS256 (secret_bytes J (tka_jwt_secret A)) c)"

definition server_error_of :: "string + 'a \<Rightarrow> 'a result" where
  "server_error_of r = map_sum (\<lambda>e. error_new ''server_error'' (Some e)) id r"

definition access_claims :: "instant \<Rightarrow> fresh \<Rightarrow> token_actor \<Rightarrow> create_token_msg \<Rightarrow> claims" where
  "access_claims now fr A m =
     (let subject = unwrap_or (ctm_user_id m) (ctm_client_id m);
          c = claims_new now (fr_access_jti fr) subject (ctm_client_id m) (ctm_scope m)
                (effective_ttl A m) (tka_issuer A);
          c1 = (if ctm_resources m \<noteq> [] then c\<lparr>cm_aud := ctm_resources m\<rparr> else c)
      in c1\<lparr>cm_cnf := ctm_cnf m, cm_authorization_details := ctm_authorization_details m,
            cm_act := ctm_act m,
            cm_sub_profile := Some (unwrap_or (ctm_sub_profile m)
               (if ctm_user_id m \<noteq> None then ''user'' else ''service'')),
            cm_txn := ctm_txn m\<rparr>)"

definition refresh_claims :: "instant \<Rightarrow> fresh \<Rightarrow> token_actor \<Rightarrow> create_token_msg \<Rightarrow> claims" where
  "refresh_claims now fr A m =
     claims_new now (fr_refresh_jti fr) (unwrap_or (ctm_user_id m) (ctm_client_id m)) (ctm_client_id m)
       (ctm_scope m) (tka_refresh_token_ttl_secs A) (tka_issuer A)"

definition mint_access_token ::
  "jwt_lib \<Rightarrow> instant \<Rightarrow> fresh \<Rightarrow> token_actor \<Rightarrow> create_token_msg \<Rightarrow> string result" where
  "mint_access_token J now fr A m =
     (if tka_access_tokens_opaque A then Inr (''at_'' @ fr_opaque1 fr @ fr_opaque2 fr)
      else server_error_of (encode_claims J A (signing_key_of now A) ''at+JWT'' (access_claims now fr A m)))"

definition mint_refresh_token ::
  "jwt_lib \<Rightarrow> instant \<Rightarrow> fresh \<Rightarrow> token_actor \<Rightarrow> create_token_msg \<Rightarrow> string option result" where
  "mint_refresh_token J now fr A m =
     (if ctm_include_refresh m then
        map_sum id Some (server_error_of (encode_claims J A (signing_key_of now A) ''JWT'' (refresh_claims now fr A m)))
      else Inr None)"

definition create_token ::
  "libs \<Rightarrow> jwt_lib \<Rightarrow> instant \<Rightarrow> fresh \<Rightarrow> token_actor \<Rightarrow> create_token_msg \<Rightarrow> db \<Rightarrow> token result \<times> db" where
  "create_token L J now fr A m d =
     (case mint_access_token J now fr A m of
        Inl e \<Rightarrow> (Inl e, d)
      | Inr access_token \<Rightarrow>
     (case mint_refresh_token J now fr A m of
        Inl e \<Rightarrow> (Inl e, d)
      | Inr refresh_token \<Rightarrow>
          let t = with_delegation L
                    (token_new now (fr_row_id fr) access_token refresh_token (ctm_client_id m)
                       (ctm_user_id m) (ctm_scope m) (as_i32 (effective_ttl A m)) (ctm_token_family m))
                    (ctm_act m) (ctm_cnf m) (ctm_resources m)
          in bindS (save_token t d) (\<lambda>_ d'. (Inr t, d'))))"

section \<open>Lookup, validation, revocation\<close>

definition lookup_token :: "string \<Rightarrow> db \<Rightarrow> token option" where
  "lookup_token raw d = get_token_by_access_token (normalize_token_key raw) d"

definition lookup_refresh_token :: "string \<Rightarrow> db \<Rightarrow> token option" where
  "lookup_refresh_token raw d = get_token_by_refresh_token (normalize_token_key raw) d"

definition expired_or_revoked :: oauth2_error where
  "expired_or_revoked = invalid_grant ''Token is expired or revoked''"

text \<open>The synchronous part of the \<open>ValidateToken\<close> handler: the cache is consulted (and a stale
  entry dropped) before the future runs.\<close>
definition validate_token_sync :: "instant \<Rightarrow> string \<Rightarrow> token_actor \<Rightarrow> token option \<times> token_actor" where
  "validate_token_sync now raw A =
     (let key = normalize_token_key raw in
      case lru_get key (tka_cache A) of
        (Some ct, cache) \<Rightarrow>
          if now - ct_inserted_at ct < cache_ttl then (Some (ct_token ct), A\<lparr>tka_cache := cache\<rparr>)
          else (None, A\<lparr>tka_cache := lru_pop key cache\<rparr>)
      | (None, cache) \<Rightarrow> (None, A\<lparr>tka_cache := lru_pop key cache\<rparr>))"

text \<open>The future: the second component is the \<open>CacheValidatedToken\<close> message it sends back.\<close>
definition validate_token_async ::
  "instant \<Rightarrow> string \<Rightarrow> token option \<Rightarrow> db \<Rightarrow> token result \<times> (string \<times> token) option" where
  "validate_token_async now raw cached d =
     (case cached of
        Some t \<Rightarrow> (if \<not> token_is_valid now t then Inl expired_or_revoked else Inr t, None)
      | None \<Rightarrow>
          (case get_token_by_access_token (normalize_token_key raw) d of
             None \<Rightarrow> (Inl (invalid_grant ''Token not found''), None)
           | Some t \<Rightarrow> if \<not> token_is_valid now t then (Inl expired_or_revoked, None)
                       else (Inr t, Some (normalize_token_key raw, t))))"

definition cache_validated_token :: "instant \<Rightarrow> string \<Rightarrow> token \<Rightarrow> token_actor \<Rightarrow> token_actor" where
  "cache_validated_token now key t A =
     A\<lparr>tka_cache := lru_put cache_max key \<lparr>ct_token = t, ct_inserted_at = now\<rparr> (tka_cache A)\<rparr>"

text \<open>The future of the \<open>RevokeToken\<close> handler; a failing family revocation is ignored by the
  source, and cannot fail here.\<close>
definition revoke_token_async :: "string \<Rightarrow> db \<Rightarrow> unit result \<times> db" where
  "revoke_token_async raw d =
     (let key = normalize_token_key raw;
          token_info = get_token_by_access_token key d;
          token_by_refresh = (if token_info = None then get_token_by_refresh_token key d else None);
          resolved = (case token_info of Some t \<Rightarrow> Some t | None \<Rightarrow> token_by_refresh)
      in bindS (revoke_token key d) (\<lambda>_ d1.
           case resolved of
             Some t \<Rightarrow> (case tk_token_family t of
                           Some family \<Rightarrow> (Inr (), snd (revoke_token_family family d1))
                         | None \<Rightarrow> (Inr (), d1))
           | None \<Rightarrow> (Inr (), d1)))"

definition revoke_token_handler :: "string \<Rightarrow> token_actor \<Rightarrow> db \<Rightarrow> unit result \<times> token_actor \<times> db" where
  "revoke_token_handler raw A d =
     (let A1 = invalidate_cached_token (normalize_token_key raw) A;
          (r, d1) = revoke_token_async raw d
      in (r, A1, d1))"

definition revoke_token_family_handler :: "string \<Rightarrow> token_actor \<Rightarrow> db \<Rightarrow> nat result \<times> token_actor \<times> db" where
  "revoke_token_family_handler family A d =
     (let A1 = A\<lparr>tka_cache := []\<rparr>; (r, d1) = revoke_token_family family d in (r, A1, d1))"

definition set_token_family_handler :: "string \<Rightarrow> string \<Rightarrow> db \<Rightarrow> unit result \<times> db" where
  "set_token_family_handler access_token family d = set_token_family access_token family d"

text \<open>Whether the refresh token's own JWT verifies, with the client as expected audience.\<close>
definition refresh_jwt_ok :: "jwt_lib \<Rightarrow> instant \<Rightarrow> token_actor \<Rightarrow> string \<Rightarrow> string \<Rightarrow> bool" where
  "refresh_jwt_ok J now A client_id refresh_token =
     (case tka_keyset A of
        Some ks \<Rightarrow>
          (case jwt_header_kid J refresh_token of
             Inr (Some kid) \<Rightarrow>
               (case ks_find now ks kid of
                  Some key \<Rightarrow>
                    \<not> isl (jwt_verify J now (Some client_id) (sk_algorithm key) (sk_key_material key) refresh_token)
                | None \<Rightarrow> False)
           | _ \<Rightarrow> False)
      | None \<Rightarrow>
          \<not> isl (jwt_verify J now (Some client_id) HS256 (secret_bytes J (tka_jwt_secret A)) refresh_token))"

definition validate_refresh_token ::
  "jwt_lib \<Rightarrow> instant \<Rightarrow> token_actor \<Rightarrow> string \<Rightarrow> db \<Rightarrow> token result \<times> db" where
  "validate_refresh_token J now A refresh_token d =
     (case get_token_by_refresh_token refresh_token d of
        None \<Rightarrow> (Inl (invalid_grant ''Refresh token not found or revoked''), d)
      | Some t \<Rightarrow>
          if tk_revoked t then
            (Inl (invalid_grant ''Refresh token has been revoked (replay detected)''),
             case tk_token_family t of Some family \<Rightarrow> snd (revoke_token_family family d) | None \<Rightarrow> d)
          else if \<not> refresh_jwt_ok J now A (tk_client_id t) refresh_token then
            (Inl (invalid_grant ''Refresh token is expired''), d)
          else (Inr t, d))"

text \<open>\<open>timestamp_opt\<close> succeeds on the range of \<open>DateTime<Utc>\<close>; the fallback of the source to the
  present instant applies outside it.\<close>
definition datetime_of :: "instant \<Rightarrow> int \<Rightarrow> instant" where
  "datetime_of now ts = (if - 8334601228800 \<le> ts \<and> ts \<le> 8210266876799 then secs ts else now)"

definition validate_token_stateless ::
  "libs \<Rightarrow> jwt_lib \<Rightarrow> instant \<Rightarrow> token_actor \<Rightarrow> string \<Rightarrow> token result" where
  "validate_token_stateless L J now A raw0 =
     (if tka_access_tokens_opaque A then
        Inl (invalid_grant ''Stateless validation is unavailable for opaque access tokens'')
      else
        let raw = normalize_token_key raw0;
            decoded = (case tka_keyset A of
              Some ks \<Rightarrow> decode_with_keyset (jwt_header_kid J) (jwt_verify J now None) ''InvalidToken'' now ks raw
            | None \<Rightarrow> jwt_verify J now None HS256 (secret_bytes J (tka_jwt_secret A)) raw)
        in case decoded of
             Inl e \<Rightarrow> Inl (invalid_grant (''JWT decode failed: '' @ e))
           | Inr c \<Rightarrow> Inr \<lparr>tk_id = cm_jti c, tk_access_token = raw, tk_refresh_token = None,
               tk_token_type = ''Bearer'', tk_expires_in = as_i32 (cm_exp c - cm_iat c),
               tk_scope = cm_scope c, tk_client_id = unwrap_or (cm_client_id c) [],
               tk_user_id = Some (cm_sub c), tk_created_at = datetime_of now (cm_iat c),
               tk_expires_at = datetime_of now (cm_exp c), tk_revoked = False, tk_token_family = None,
               tk_act = map_option (json_to_string L) (cm_act c),
               tk_cnf = map_option (json_to_string L) (cm_cnf c), tk_resource = None\<rparr>)"

section \<open>Shards\<close>

definition pool_new :: "'a list \<Rightarrow> 'a list option" where
  "pool_new shards = (if shards = [] then None else Some shards)"

text \<open>The index of the shard a key is routed to; \<open>hash\<close> is the standard library's
  \<open>DefaultHasher\<close>, a 64-bit value.\<close>
definition route :: "(string \<Rightarrow> 64 word) \<Rightarrow> nat \<Rightarrow> string \<Rightarrow> nat" where
  "route hash n key = (if n = 1 then 0 else unat (hash key) mod n)"

end
