(* ===== verification/Storage_Invariants.thy ===== *)
theory Storage_Invariants
  imports Storage_Laws
begin

text \<open>
  The statements of the store as commands, the schema invariant \<open>db_wf\<close> (every declared key
  unique, every foreign key resolved), and the permanence of revocation and of code use along
  every sequence of commands.
\<close>

section \<open>Commands\<close>

datatype sql_cmd =
    SaveClient client | UpdateClient client | DeleteClient string
  | SetClientEnabled instant string bool | SetClientSecret instant string string
  | SaveUser user | UpdateUser user | DeleteUser string
  | SetUserEnabled instant string bool | SetUserRole instant string string
  | SetUserPasswordHash instant string string
  | SaveToken token | RevokeToken string | RevokeTokenById string | SetTokenFamily string string
  | RevokeTokenFamily string | RevokeTokensByUserId string | RevokeTokensByClientId string
  | SaveCode authorization_code | MarkCodeUsed string
  | SaveDevice device_authorization | ApproveDevice string string | DenyDevice string
  | MarkDeviceUsed string | ExpireDevice instant string
  | AddDenylist denylist_entry | RemoveDenylist string
  | DpopJti instant string instant
  | SaveTxnAuth transaction_authorization | SettleTxnAuth string string bool | MarkTxnAuthUsed string
  | SaveResource protected_resource | DeleteResource string
  | SaveIssuer trusted_issuer | DeleteIssuer string

fun exec_cmd :: "sql_cmd \<Rightarrow> db \<Rightarrow> db" where
  "exec_cmd (SaveClient c) d = snd (save_client c d)"
| "exec_cmd (UpdateClient c) d = snd (update_client c d)"
| "exec_cmd (DeleteClient i) d = snd (delete_client i d)"
| "exec_cmd (SetClientEnabled now i b) d = snd (set_client_enabled now i b d)"
| "exec_cmd (SetClientSecret now i s) d = snd (set_client_secret now i s d)"
| "exec_cmd (SaveUser u) d = snd (save_user u d)"
| "exec_cmd (UpdateUser u) d = snd (update_user u d)"
| "exec_cmd (DeleteUser i) d = snd (delete_user i d)"
| "exec_cmd (SetUserEnabled now i b) d = snd (set_user_enabled now i b d)"
| "exec_cmd (SetUserRole now i r) d = snd (set_user_role now i r d)"
| "exec_cmd (SetUserPasswordHash now i h) d = snd (set_user_password_hash now i h d)"
| "exec_cmd (SaveToken t) d = snd (save_token t d)"
| "exec_cmd (RevokeToken s) d = snd (revoke_token s d)"
| "exec_cmd (RevokeTokenById i) d = snd (revoke_token_by_id i d)"
| "exec_cmd (SetTokenFamily a f) d = snd (set_token_family a f d)"
| "exec_cmd (RevokeTokenFamily f) d = snd (revoke_token_family f d)"
| "exec_cmd (RevokeTokensByUserId u) d = snd (revoke_tokens_by_user_id u d)"
| "exec_cmd (RevokeTokensByClientId c) d = snd (revoke_tokens_by_client_id c d)"
| "exec_cmd (SaveCode a) d = snd (save_authorization_code a d)"
| "exec_cmd (MarkCodeUsed c) d = snd (mark_authorization_code_used c d)"
| "exec_cmd (SaveDevice v) d = snd (save_device_authorization v d)"
| "exec_cmd (ApproveDevice c u) d = snd (approve_device_authorization c u d)"
| "exec_cmd (DenyDevice c) d = snd (deny_device_authorization c d)"
| "exec_cmd (MarkDeviceUsed c) d = snd (mark_device_authorization_used c d)"
| "exec_cmd (ExpireDevice now c) d = snd (expire_device_authorization now c d)"
| "exec_cmd (AddDenylist e) d = snd (add_denylist_entry e d)"
| "exec_cmd (RemoveDenylist i) d = snd (remove_denylist_entry i d)"
| "exec_cmd (DpopJti now j e) d = snd (dpop_jti_check_and_insert now j e d)"
| "exec_cmd (SaveTxnAuth t) d = snd (save_transaction_authorization t d)"
| "exec_cmd (SettleTxnAuth i u b) d = snd (settle_transaction_authorization i u b d)"
| "exec_cmd (MarkTxnAuthUsed i) d = snd (mark_transaction_authorization_used i d)"
| "exec_cmd (SaveResource r) d = snd (save_resource r d)"
| "exec_cmd (DeleteResource i) d = snd (delete_resource i d)"
| "exec_cmd (SaveIssuer t) d = snd (save_trusted_issuer t d)"
| "exec_cmd (DeleteIssuer i) d = snd (delete_trusted_issuer i d)"

definition exec_all :: "sql_cmd list \<Rightarrow> db \<Rightarrow> db" where
  "exec_all cs d = fold exec_cmd cs d"

lemmas sql_client_defs = save_client_def update_client_def delete_client_def set_client_enabled_def
  set_client_secret_def
lemmas sql_user_defs = save_user_def update_user_def delete_user_def set_user_enabled_def
  set_user_role_def set_user_password_hash_def
lemmas sql_token_defs = save_token_def revoke_token_def revoke_token_by_id_def set_token_family_def
  revoke_token_family_def revoke_tokens_by_user_id_def revoke_tokens_by_client_id_def revoke_rows_def
lemmas sql_code_defs = save_authorization_code_def mark_authorization_code_used_def
lemmas sql_device_defs = save_device_authorization_def approve_device_authorization_def
  deny_device_authorization_def mark_device_authorization_used_def expire_device_authorization_def
lemmas sql_misc_defs = add_denylist_entry_def remove_denylist_entry_def
  dpop_jti_check_and_insert_def save_transaction_authorization_def
  settle_transaction_authorization_def mark_transaction_authorization_used_def save_resource_def
  delete_resource_def save_trusted_issuer_def delete_trusted_issuer_def
lemmas sql_defs = sql_client_defs sql_user_defs sql_token_defs sql_code_defs sql_device_defs sql_misc_defs

section \<open>The schema invariant\<close>

definition keys_ok :: "db \<Rightarrow> bool" where
  "keys_ok d =
     (distinct (map cl_id (db_clients d)) \<and> distinct (map cl_client_id (db_clients d)) \<and>
      distinct (map us_id (db_users d)) \<and> distinct (map us_username (db_users d)) \<and>
      distinct (map tk_id (db_tokens d)) \<and> distinct (map tk_access_token (db_tokens d)) \<and>
      distinct (map ac_id (db_codes d)) \<and> distinct (map ac_code (db_codes d)) \<and>
      distinct (map da_id (db_devices d)) \<and> distinct (map da_device_code (db_devices d)) \<and>
      distinct (map da_user_code (db_devices d)) \<and>
      distinct (map dl_id (db_denylist d)) \<and> distinct (map (\<lambda>e. (dl_kind e, dl_value e)) (db_denylist d)) \<and>
      distinct (map fst (db_dpop_jtis d)) \<and>
      distinct (map ta_id (db_txn_auths d)) \<and> distinct (map ta_transaction_authorization_id (db_txn_auths d)) \<and>
      distinct (map pr_id (db_resources d)) \<and> distinct (map pr_resource_uri (db_resources d)) \<and>
      distinct (map ti_id (db_issuers d)) \<and> distinct (map ti_issuer (db_issuers d)))"

definition refs_ok :: "db \<Rightarrow> bool" where
  "refs_ok d =
     (list_all (\<lambda>t. has_client d (tk_client_id t) \<and> has_user_opt d (tk_user_id t)) (db_tokens d) \<and>
      list_all (\<lambda>a. has_client d (ac_client_id a) \<and> has_user d (ac_user_id a)) (db_codes d) \<and>
      list_all (\<lambda>v. has_client d (da_client_id v) \<and> has_user_opt d (da_user_id v)) (db_devices d))"

definition db_wf :: "db \<Rightarrow> bool" where
  "db_wf d = (keys_ok d \<and> refs_ok d)"

lemma distinct_map_filter': "distinct (map k xs) \<Longrightarrow> distinct (map k (filter P xs))"
  by (simp add: distinct_map_filter)

lemma list_ex_update_where:
  "(\<And>x. Q (if P x then f x else x) = Q x) \<Longrightarrow> list_ex Q (update_where P f xs) = list_ex Q xs"
  by (induction xs) auto

lemma list_all_update_where:
  "list_all Q xs \<Longrightarrow> (\<And>x. Q x \<Longrightarrow> P x \<Longrightarrow> Q (f x)) \<Longrightarrow> list_all Q (update_where P f xs)"
  by (induction xs) auto

lemma distinct_map_snoc:
  "distinct (map k xs) \<Longrightarrow> \<not> list_ex (\<lambda>x. k x = k y) xs \<Longrightarrow> distinct (map k (xs @ [y]))"
  by (auto simp: list_ex_iff)

lemma distinct_username_update:
  assumes "distinct (map us_id us)" "distinct (map us_username us)"
    "\<not> list_ex (\<lambda>r. us_id r \<noteq> i \<and> us_username r = n) us"
  shows "distinct (map us_username (update_where (\<lambda>r. us_id r = i)
           (\<lambda>r. r\<lparr>us_username := n, us_email := e, us_enabled := b, us_role := ro,
                  us_password_hash := h, us_updated_at := t\<rparr>) us))"
  using assms
proof (induction us)
  case (Cons u us)
  show ?case
  proof (cases "us_id u = i")
    case True
    then have "update_where (\<lambda>r. us_id r = i) f us = us" for f
      using Cons.prems(1) by (induction us) auto
    then show ?thesis using Cons True by (auto simp: list_ex_iff) (metis imageI)
  next
    case False
    then show ?thesis using Cons by (auto simp: list_ex_iff set_update_where)
  qed
qed simp

lemma exec_cmd_keys:
  assumes "keys_ok d"
  shows "keys_ok (exec_cmd c d)"
proof (cases c)
  case (UpdateUser u)
  show ?thesis
  proof (cases "has_user d (us_id u)")
    case True
    then show ?thesis using assms UpdateUser
      by (auto simp: update_user_def checked_def keys_ok_def map_update_where distinct_username_update)
  next
    case False
    then have "update_where (\<lambda>r. us_id r = us_id u) f (db_users d) = db_users d" for f
      unfolding has_user_def update_where_def list_ex_iff by (intro map_idI) auto
    then show ?thesis using assms UpdateUser
      by (auto simp: update_user_def checked_def keys_ok_def)
  qed
qed (use assms in \<open>simp_all add: sql_defs checked_def keys_ok_def map_update_where
      distinct_map_filter' Let_def list_ex_iff case_prod_unfold, (auto simp: image_iff list_ex_iff)?\<close>)

text \<open>References only depend on which client and user identifiers exist and on the
  identifiers each row names.\<close>

definition client_ids :: "db \<Rightarrow> string set" where
  "client_ids d = set (map cl_client_id (db_clients d))"

definition user_ids :: "db \<Rightarrow> string set" where
  "user_ids d = set (map us_id (db_users d))"

definition row_refs :: "db \<Rightarrow> (string \<times> string option) list" where
  "row_refs d = map (\<lambda>t. (tk_client_id t, tk_user_id t)) (db_tokens d) @
     map (\<lambda>a. (ac_client_id a, Some (ac_user_id a))) (db_codes d) @
     map (\<lambda>v. (da_client_id v, da_user_id v)) (db_devices d)"

lemma has_client_ids: "has_client d c \<longleftrightarrow> c \<in> client_ids d"
  by (auto simp: has_client_def client_ids_def list_ex_iff)

lemma has_user_ids: "has_user d u \<longleftrightarrow> u \<in> user_ids d"
  by (auto simp: has_user_def user_ids_def list_ex_iff)

lemma has_user_opt_ids: "has_user_opt d m \<longleftrightarrow> (\<forall>u. m = Some u \<longrightarrow> u \<in> user_ids d)"
  by (auto simp: has_user_opt_def has_user_ids split: option.splits)

definition refs_in :: "string set \<Rightarrow> string set \<Rightarrow> (string \<times> string option) list \<Rightarrow> bool" where
  "refs_in C U rs = (\<forall>(c, m)\<in>set rs. c \<in> C \<and> (\<forall>u. m = Some u \<longrightarrow> u \<in> U))"

lemma refs_in_append: "refs_in C U (xs @ ys) \<longleftrightarrow> refs_in C U xs \<and> refs_in C U ys"
  by (auto simp: refs_in_def)

lemma refs_in_map: "refs_in C U (map (\<lambda>x. (f x, g x)) xs) \<longleftrightarrow>
    (\<forall>x\<in>set xs. f x \<in> C \<and> (\<forall>u. g x = Some u \<longrightarrow> u \<in> U))"
  by (auto simp: refs_in_def)

lemmas row_refs_simps = row_refs_def refs_in_append refs_in_map

lemma refs_ok_in: "refs_ok d \<longleftrightarrow> refs_in (client_ids d) (user_ids d) (row_refs d)"
  unfolding refs_ok_def refs_in_def row_refs_def has_client_ids has_user_ids has_user_opt_ids
    list_all_iff by auto

lemma refs_in_mono:
  "refs_in C U rs \<Longrightarrow> C \<subseteq> C' \<Longrightarrow> U \<subseteq> U' \<Longrightarrow> set rs' \<subseteq> set rs \<Longrightarrow> refs_in C' U' rs'"
  unfolding refs_in_def by blast

lemma exec_cmd_refs_unchanged:
  "row_refs (exec_cmd c d) = row_refs d \<and> client_ids d \<subseteq> client_ids (exec_cmd c d) \<and>
   user_ids d \<subseteq> user_ids (exec_cmd c d)"
  if "\<not> (\<exists>x. c = DeleteClient x \<or> c = DeleteUser x)" "\<not> (\<exists>x. c = SaveToken x)" "\<not> (\<exists>x. c = SaveCode x)"
    "\<not> (\<exists>x. c = SaveDevice x)" "\<not> (\<exists>x y. c = ApproveDevice x y)"
  using that
  by (cases c) (simp_all add: sql_defs checked_def row_refs_def client_ids_def user_ids_def
      map_update_where Let_def set_update_where image_image image_Un cong: if_cong, auto simp: image_iff)

lemma exec_cmd_refs:
  assumes "refs_ok d"
  shows "refs_ok (exec_cmd c d)"
proof -
  note d = assms [unfolded refs_ok_in]
  consider (save_token) t where "c = SaveToken t" | (save_code) a where "c = SaveCode a"
    | (save_device) v where "c = SaveDevice v" | (approve) uc uid where "c = ApproveDevice uc uid"
    | (del_client) i where "c = DeleteClient i" | (del_user) i where "c = DeleteUser i"
    | (other) "\<not> (\<exists>x. c = DeleteClient x \<or> c = DeleteUser x)" "\<not> (\<exists>x. c = SaveToken x)"
      "\<not> (\<exists>x. c = SaveCode x)" "\<not> (\<exists>x. c = SaveDevice x)" "\<not> (\<exists>x y. c = ApproveDevice x y)"
    by blast
  then show ?thesis
  proof cases
    case (save_token t)
    then show ?thesis using d unfolding refs_ok_in
      by (auto simp: save_token_def checked_def row_refs_simps client_ids_def user_ids_def
          has_client_ids has_user_opt_ids)
  next
    case (save_code a)
    then show ?thesis using d unfolding refs_ok_in
      by (auto simp: save_authorization_code_def checked_def row_refs_simps client_ids_def
          user_ids_def has_client_ids has_user_ids)
  next
    case (save_device v)
    then show ?thesis using d unfolding refs_ok_in
      by (auto simp: save_device_authorization_def checked_def row_refs_simps client_ids_def
          user_ids_def has_client_ids has_user_opt_ids)
  next
    case (approve uc uid)
    show ?thesis
    proof (cases "list_ex (\<lambda>v. da_user_code v = uc) (db_devices d) \<longrightarrow> has_user d uid")
      case True
      then have "\<And>v. v \<in> set (db_devices d) \<Longrightarrow> da_user_code v = uc \<Longrightarrow> uid \<in> us_id ` set (db_users d)"
        by (auto simp: has_user_ids list_ex_iff user_ids_def)
      then show ?thesis using d approve unfolding refs_ok_in
        by (auto simp: approve_device_authorization_def checked_def row_refs_simps set_update_where
            client_ids_def user_ids_def)
    qed (use assms approve in \<open>auto simp: approve_device_authorization_def checked_def\<close>)
  next
    case (del_client i)
    show ?thesis
    proof (cases "has_client d i \<and> client_referenced d i")
      case False
      have "(\<forall>t\<in>set (db_tokens d). tk_client_id t \<noteq> i) \<and> (\<forall>a\<in>set (db_codes d). ac_client_id a \<noteq> i) \<and>
            (\<forall>v\<in>set (db_devices d). da_client_id v \<noteq> i)"
        using False d unfolding client_referenced_def list_ex_iff row_refs_simps has_client_ids by blast
      then show ?thesis using d del_client False unfolding refs_ok_in
        by (simp add: delete_client_def checked_def row_refs_simps client_ids_def user_ids_def) blast
    qed (use assms del_client in \<open>auto simp: delete_client_def checked_def\<close>)
  next
    case (del_user i)
    have "us_id ` {x \<in> set (db_users d). us_id x \<noteq> i} = us_id ` set (db_users d) - {i}" by auto
    then show ?thesis using d del_user unfolding refs_ok_in
      by (auto simp: delete_user_def Let_def row_refs_simps client_ids_def user_ids_def set_update_where)
  next
    case other
    show ?thesis using refs_in_mono [OF d] exec_cmd_refs_unchanged [OF other]
      by (simp add: refs_ok_in)
  qed
qed

lemma exec_cmd_wf: "db_wf d \<Longrightarrow> db_wf (exec_cmd c d)"
  by (simp add: db_wf_def exec_cmd_keys exec_cmd_refs)

lemma exec_all_wf: "db_wf d \<Longrightarrow> db_wf (exec_all cs d)"
  unfolding exec_all_def by (induction cs arbitrary: d) (simp_all add: exec_cmd_wf)

lemma db_empty_wf: "db_wf db_empty"
  by (simp add: db_wf_def keys_ok_def refs_ok_def db_empty_def)

text \<open>Schema invariant: from the empty database, every sequence of storage statements keeps
  all declared keys unique and every foreign key resolved.\<close>
theorem db_wf_reachable: "db_wf (exec_all cs db_empty)"
  using db_empty_wf by (rule exec_all_wf)

section \<open>Revocation and use are permanent\<close>

definition revoked_ids :: "db \<Rightarrow> string set" where
  "revoked_ids d = tk_id ` set (filter tk_revoked (db_tokens d))"

lemma revoked_update_mono:
  assumes "\<And>t. g (f t) = g t" "\<And>t. tk_revoked t \<Longrightarrow> tk_revoked (f t)"
  shows "g ` set (filter tk_revoked ts) \<subseteq> g ` set (filter tk_revoked (update_where P f ts))"
  using assms by (induction ts) auto

lemma exec_cmd_revoked_mono: "revoked_ids d \<subseteq> revoked_ids (exec_cmd c d)"
  unfolding revoked_ids_def
  by (cases c) (simp_all add: sql_defs checked_def Let_def revoked_update_mono del: set_filter, auto)

lemma exec_cmd_revoked_access_mono:
  "tk_access_token ` set (filter tk_revoked (db_tokens d)) \<subseteq>
   tk_access_token ` set (filter tk_revoked (db_tokens (exec_cmd c d)))"
  by (cases c) (simp_all add: sql_defs checked_def Let_def revoked_update_mono del: set_filter, auto)

lemma exec_all_revoked_mono: "revoked_ids d \<subseteq> revoked_ids (exec_all cs d)"
  unfolding exec_all_def by (rule fold_mono_set) (rule exec_cmd_revoked_mono)

text \<open>Revocation is permanent: a revoked token row is still there and still revoked after any
  sequence of storage statements.\<close>
theorem revocation_permanent:
  assumes "t \<in> set (db_tokens d)" "tk_revoked t"
  shows "\<exists>t'\<in>set (db_tokens (exec_all cs d)). tk_id t' = tk_id t \<and> tk_revoked t'"
proof -
  have "tk_id t \<in> revoked_ids d" using assms by (auto simp: revoked_ids_def)
  then have "tk_id t \<in> revoked_ids (exec_all cs d)" using exec_all_revoked_mono by blast
  then show ?thesis by (auto simp: revoked_ids_def)
qed

lemma revocation_permanent_witness:
  defines "t \<equiv> (token_new 0 ''i'' ''a'' (Some ''r'') ''c'' None ''read'' 60 (Some ''f''))\<lparr>tk_revoked := True\<rparr>"
  shows "\<exists>t'\<in>set (db_tokens (exec_all [SetTokenFamily ''a'' ''g'', RevokeToken ''r'']
             (db_empty\<lparr>db_tokens := [t]\<rparr>))). tk_id t' = ''i'' \<and> tk_revoked t'"
  using revocation_permanent [of t "db_empty\<lparr>db_tokens := [t]\<rparr>" "[SetTokenFamily ''a'' ''g'', RevokeToken ''r'']"]
  by (simp add: t_def token_new_def)

definition used_codes :: "db \<Rightarrow> string set" where
  "used_codes d = ac_code ` set (filter ac_used (db_codes d))"

fun is_delete_user :: "sql_cmd \<Rightarrow> bool" where
  "is_delete_user (DeleteUser _) = True"
| "is_delete_user _ = False"

lemma used_update_mono:
  "(\<And>a. ac_code (f a) = ac_code a) \<Longrightarrow> (\<And>a. ac_used a \<Longrightarrow> ac_used (f a)) \<Longrightarrow>
   ac_code ` set (filter ac_used xs) \<subseteq> ac_code ` set (filter ac_used (update_where P f xs))"
  by (induction xs) auto

lemma exec_cmd_used_mono: "\<not> is_delete_user c \<Longrightarrow> used_codes d \<subseteq> used_codes (exec_cmd c d)"
  unfolding used_codes_def
  by (cases c) (simp_all add: sql_defs checked_def Let_def used_update_mono del: set_filter, auto)

lemma exec_all_used_mono:
  "list_all (\<lambda>c. \<not> is_delete_user c) cs \<Longrightarrow> used_codes d \<subseteq> used_codes (exec_all cs d)"
  unfolding exec_all_def by (rule fold_mono_set) (auto simp: list_all_iff intro!: exec_cmd_used_mono)

lemma used_code_lookup:
  assumes "db_wf d" "c \<in> used_codes d"
  shows "\<exists>a. get_authorization_code c d = Some a \<and> ac_used a"
proof -
  from assms(2) obtain a where a: "a \<in> set (db_codes d)" "ac_used a" "ac_code a = c"
    by (auto simp: used_codes_def)
  have "distinct (map ac_code (db_codes d))" using assms(1) by (simp add: db_wf_def keys_ok_def)
  from find_distinct_key [OF this a(1)] show ?thesis using a by (auto simp: get_authorization_code_def)
qed

text \<open>Use of a code is permanent: once a code is marked used, every later lookup of that code
  returns a used row, whatever statements run in between other than the deletion of a user
  (which deletes the user's codes).\<close>
theorem code_use_permanent:
  assumes "db_wf d" "get_authorization_code c d = Some a" "list_all (\<lambda>c. \<not> is_delete_user c) cs"
  shows "\<exists>a'. get_authorization_code c (exec_all (MarkCodeUsed c # cs) d) = Some a' \<and> ac_used a'"
proof -
  let ?d = "snd (mark_authorization_code_used c d)"
  have w: "db_wf ?d" using exec_cmd_wf [OF assms(1), of "MarkCodeUsed c"] by simp
  have "get_authorization_code c ?d = Some (a\<lparr>ac_used := True\<rparr>)"
    using assms(2) by (simp add: sql_codes.mark_lookup)
  then have "c \<in> used_codes ?d"
    unfolding get_authorization_code_def used_codes_def
    by (auto dest!: find_Some_in simp: image_iff intro!: exI [of _ "a\<lparr>ac_used := True\<rparr>"])
  then have "c \<in> used_codes (exec_all cs ?d)" using exec_all_used_mono [OF assms(3)] by blast
  from used_code_lookup [OF exec_all_wf [OF w] this] show ?thesis by (simp add: exec_all_def)
qed

definition demo_code :: authorization_code where
  "demo_code = new_with_ttl 0 ''i'' ''fam'' ''code'' ''c'' ''u'' ''https://app/cb'' ''read'' None None None None None None 60"

lemma code_use_permanent_witness:
  "\<exists>a'. get_authorization_code ''code''
     (exec_all [MarkCodeUsed ''code'', RevokeTokenFamily ''fam''] (db_empty\<lparr>
        db_clients := [client_new \<lparr>json_from_str = \<lambda>_. None, json_to_string = \<lambda>_. [], url_parse = \<lambda>_. None, sha256_b64url = \<lambda>s. s\<rparr> 0 ''ci'' ''c'' ''s'' [] [] ''read'' ''n''],
        db_users := [user_new 0 ''u'' ''n'' ''h'' ''e''], db_codes := [demo_code]\<rparr>)) = Some a' \<and> ac_used a'"
  by (rule code_use_permanent [where a = demo_code])
    (simp_all add: db_wf_def keys_ok_def refs_ok_def has_client_def has_user_def db_empty_def
      demo_code_def new_with_ttl_def client_new_def user_new_def get_authorization_code_def)

end
