(* ===== verification/Token_Laws.thy ===== *)
theory Token_Laws
  imports Token_Actor Storage_Invariants
begin

text \<open>
  Properties of the token actor's handlers: the contract of the LRU cache and its
  interpretation, what issuing a token stores, lifetimes and their wrap-around, revocation
  with its family cascade, and refresh-token replay detection.
\<close>

section \<open>The LRU cache\<close>

locale bounded_cache =
  fixes lookup :: "'c \<Rightarrow> 'k \<Rightarrow> 'v option"
    and get :: "'k \<Rightarrow> 'c \<Rightarrow> 'v option \<times> 'c"
    and put :: "'k \<Rightarrow> 'v \<Rightarrow> 'c \<Rightarrow> 'c"
    and pop :: "'k \<Rightarrow> 'c \<Rightarrow> 'c"
    and entries :: "'c \<Rightarrow> nat"
    and capacity :: nat
  assumes get_fst: "fst (get k c) = lookup c k"
    and get_lookup: "lookup (snd (get k c)) k' = lookup c k'"
    and pop_lookup: "lookup (pop k c) k' = (if k' = k then None else lookup c k')"
    and put_lookup_same: "lookup (put k v c) k = Some v"
    and put_lookup_other: "k' \<noteq> k \<Longrightarrow> lookup (put k v c) k' \<in> {lookup c k', None}"
    and put_bounded: "entries (put k v c) \<le> capacity"
    and pop_bounded: "entries (pop k c) \<le> entries c"
    and get_bounded: "entries (snd (get k c)) \<le> entries c"
begin

lemma lookup_after_pop: "lookup (pop k c) k = None"
  by (simp add: pop_lookup)

lemma put_never_invents:
  "lookup (put k v c) k' = Some w \<Longrightarrow> (k' = k \<and> w = v) \<or> lookup c k' = Some w"
  using put_lookup_other [of k' k v c] put_lookup_same [of k v c] by (cases "k' = k") auto

lemma bounded_after_any:
  "entries c \<le> capacity \<Longrightarrow> entries (pop k c) \<le> capacity \<and> entries (snd (get k c)) \<le> capacity"
  using pop_bounded [of k c] get_bounded [of k c] by linarith

end

lemma map_of_lru_pop [simp]: "map_of (lru_pop k xs) k' = (if k' = k then None else map_of xs k')"
  by (induction xs) (auto simp: lru_pop_def)

lemma length_lru_pop: "length (lru_pop k xs) \<le> length xs"
  by (simp add: lru_pop_def)

lemma length_lru_pop_less: "map_of xs k = Some v \<Longrightarrow> length (lru_pop k xs) < length xs"
  by (induction xs) (auto simp: lru_pop_def le_imp_less_Suc split: if_splits)

lemma map_of_take: "map_of (take n xs) k \<in> {map_of xs k, None} \<or> n < length xs"
  by (cases "n < length xs") auto

lemma map_of_take_distinct:
  "distinct (map fst xs) \<Longrightarrow> map_of (take n xs) k \<in> {map_of xs k, None}"
proof (induction xs arbitrary: n)
  case (Cons x xs)
  then show ?case
    by (cases n) (auto simp: map_of_eq_None_iff image_iff dest: in_set_takeD)
qed simp

lemma map_of_take_sub: "map_of (take n xs) k = Some v \<Longrightarrow> map_of xs k = Some v"
proof (induction xs arbitrary: n)
  case (Cons x xs)
  then show ?case by (cases n) (auto split: if_splits)
qed simp

interpretation lru: bounded_cache "\<lambda>c k. map_of c k" lru_get "lru_put cache_max" lru_pop length cache_max
proof (unfold_locales, goal_cases)
  case (1 k c)
  show ?case by (simp add: lru_get_def split: option.splits)
next
  case (2 k c k')
  show ?case by (auto simp: lru_get_def split: option.splits)
next
  case (4 k v c)
  show ?case by (simp add: lru_put_def cache_max_def)
next
  case (5 k' k v c)
  show ?case
  proof (cases "map_of (lru_put cache_max k v c) k'")
    case (Some w)
    then have "map_of ((k, v) # lru_pop k c) k' = Some w" unfolding lru_put_def by (rule map_of_take_sub)
    then show ?thesis using Some 5 by simp
  qed simp
next
  case (6 k v c)
  show ?case by (simp add: lru_put_def)
next
  case (8 k c)
  show ?case by (auto simp: lru_get_def split: option.splits dest: length_lru_pop_less)
qed (simp_all add: length_lru_pop)

section \<open>Token keys\<close>

lemma trim_end_idem: "trim_end (trim_end s) = trim_end s"
  by (simp add: trim_end_def)

lemma trim_start_trim_end: "trim_start (trim_end (trim_start s)) = trim_end (trim_start s)"
proof (cases "trim_end (trim_start s)")
  case (Cons c cs)
  then have "\<not> is_ws c" using trim_not_ws [of s c cs] by (simp add: trim_def)
  then show ?thesis unfolding Cons by (simp add: trim_start_def)
qed (simp add: trim_start_def)

lemma trim_idem [simp]: "trim (trim s) = trim s"
  by (simp add: trim_def trim_start_trim_end trim_end_idem)

lemma normalize_trimmed: "trim (normalize_token_key s) = normalize_token_key s"
  by (simp add: normalize_token_key_def Let_def)

lemma normalize_idem:
  assumes "\<not> prefix ''Bearer '' (normalize_token_key s)"
  shows "normalize_token_key (normalize_token_key s) = normalize_token_key s"
  using assms
  by (subst normalize_token_key_def) (simp add: normalize_trimmed strip_prefix_opt_def Let_def)

lemma normalize_plain: "trim s = s \<Longrightarrow> \<not> prefix ''Bearer '' s \<Longrightarrow> normalize_token_key s = s"
  by (simp add: normalize_token_key_def Let_def strip_prefix_opt_def)

lemma normalize_bearer:
  assumes "trim s = s" "s \<noteq> []"
  shows "normalize_token_key (''Bearer '' @ s) = s"
proof -
  have "trim_end s = s"
    using assms(1) trim_end_idem unfolding trim_def by metis
  then have "dropWhile is_ws (rev s) = rev s" unfolding trim_end_def by (metis rev_rev_ident)
  then have "dropWhile is_ws (rev (''Bearer '' @ s)) = rev (''Bearer '' @ s)"
    using assms(2) by (auto simp: dropWhile_eq_self_iff hd_append)
  then have "trim (''Bearer '' @ s) = ''Bearer '' @ s"
    unfolding trim_def trim_end_def trim_start_def by (simp add: is_ws_def)
  then show ?thesis using assms(1) by (simp add: normalize_token_key_def Let_def strip_prefix_opt_def)
qed

section \<open>A concrete actor for the witnesses\<close>

definition demo_jwt :: jwt_lib where
  "demo_jwt = \<lparr>jwt_encode = \<lambda>typ kid alg key c. Inr (typ @ ''.'' @ cm_jti c @ ''.sig''),
     jwt_header_kid = \<lambda>_. Inr None, jwt_verify = \<lambda>now aud alg key s. Inl ''InvalidToken'',
     jwt_payload = \<lambda>_. None, secret_bytes = \<lambda>s. []\<rparr>"

definition demo_actor :: token_actor where
  "demo_actor = \<lparr>tka_jwt_secret = ''k'', tka_issuer = ''https://as'', tka_access_tokens_opaque = False,
     tka_keyset = None, tka_cache = [], tka_access_token_ttl_secs = 3600, tka_refresh_token_ttl_secs = 2592000\<rparr>"

definition demo_fresh :: fresh where
  "demo_fresh = \<lparr>fr_row_id = ''r1'', fr_access_jti = ''j1'', fr_refresh_jti = ''j2'', fr_opaque1 = ''o1'', fr_opaque2 = ''o2''\<rparr>"

definition demo_msg :: create_token_msg where
  "demo_msg = \<lparr>ctm_user_id = Some ''u'', ctm_client_id = ''app'', ctm_scope = ''read'', ctm_include_refresh = True,
     ctm_token_family = Some ''fam'', ctm_resources = [], ctm_cnf = None, ctm_authorization_details = None,
     ctm_act = None, ctm_ttl_override_secs = Some 300, ctm_sub_profile = None, ctm_txn = None\<rparr>"

definition demo_token :: token where
  "demo_token = token_new 0 ''r1'' ''at+JWT.j1.sig'' (Some ''JWT.j2.sig'') ''app'' (Some ''u'') ''read'' 300 (Some ''fam'')"

definition demo_libs0 :: libs where
  "demo_libs0 = \<lparr>json_from_str = \<lambda>_. None, json_to_string = \<lambda>_. [], url_parse = \<lambda>_. None, sha256_b64url = \<lambda>v. v\<rparr>"

definition demo_store :: db where
  "demo_store = db_empty\<lparr>db_clients := [client_new demo_libs0 0 ''ci'' ''app'' ''s'' [] [] ''read'' ''n''],
     db_users := [user_new 0 ''u'' ''alice'' ''h'' ''e'']\<rparr>"

lemmas demo_defs = demo_jwt_def demo_actor_def demo_fresh_def demo_msg_def demo_token_def demo_libs0_def
  demo_store_def db_empty_def client_new_def user_new_def token_new_def Let_def

lemma demo_create:
  "create_token demo_libs0 demo_jwt 0 demo_fresh demo_actor demo_msg demo_store =
     (Inr demo_token, demo_store\<lparr>db_tokens := [demo_token]\<rparr>)"
  by (simp add: create_token_def mint_access_token_def mint_refresh_token_def encode_claims_def
      signing_key_of_def server_error_of_def access_claims_def refresh_claims_def claims_new_def
      effective_ttl_def as_i32_def as_i64_def with_delegation_def save_token_def checked_def
      has_client_def has_user_opt_def has_user_def demo_defs)

section \<open>Issue\<close>

lemma effective_ttl_le: "effective_ttl A m \<le> tka_access_token_ttl_secs A"
  by (simp add: effective_ttl_def split: option.splits)

lemma uint_cap_i64: "uint (cap :: 64 word) < 2 ^ 63 \<Longrightarrow> as_i64 (uint cap) = uint cap"
  using uint_ge_0 [of cap] by (intro as_i64_id) (linarith, simp)

text \<open>Lifetime override: an override never lengthens a token's life; below \<open>2^63\<close> seconds it caps
  it, and while the configured lifetime fits in 31 bits the stored row expires exactly when the
  JWT's \<open>exp\<close> claim says.\<close>
theorem ttl_override_only_shortens:
  assumes "0 \<le> tka_access_token_ttl_secs A" "tka_access_token_ttl_secs A < 2 ^ 31"
    "ctm_ttl_override_secs m = Some cap" "uint cap < 2 ^ 63"
  shows "effective_ttl A m \<le> tka_access_token_ttl_secs A \<and> effective_ttl A m \<le> uint cap \<and>
    0 \<le> effective_ttl A m \<and> as_i32 (effective_ttl A m) = effective_ttl A m \<and>
    cm_exp (access_claims now fr A m) =
      timestamp (tk_expires_at (token_new now i acc r c u s (as_i32 (effective_ttl A m)) f))"
proof -
  have e: "effective_ttl A m = min (tka_access_token_ttl_secs A) (uint cap)"
    using assms(3,4) by (simp add: effective_ttl_def uint_cap_i64)
  then have r: "0 \<le> effective_ttl A m" "effective_ttl A m < 2 ^ 31" using assms(1,2) by simp_all
  then have i: "as_i32 (effective_ttl A m) = effective_ttl A m" by (intro as_i32_id) simp_all
  then show ?thesis using e r by (simp add: access_claims_def Let_def claims_new_def token_new_def)
qed

lemma ttl_override_only_shortens_witness:
  "effective_ttl demo_actor demo_msg \<le> 300 \<and> as_i32 (effective_ttl demo_actor demo_msg) = effective_ttl demo_actor demo_msg"
  using ttl_override_only_shortens [of demo_actor demo_msg 300 0 demo_fresh] by (simp add: demo_defs)

text \<open>Beyond \<open>2^63\<close> the cast of the override wraps to a negative lifetime, and a configured lifetime
  of \<open>2^31\<close> seconds wraps the row's \<open>expires_in\<close>.\<close>
lemma ttl_casts_wrap:
  "effective_ttl A (m\<lparr>ctm_ttl_override_secs := Some (2 ^ 63)\<rparr>) = min (tka_access_token_ttl_secs A) (- (2 ^ 63))"
  "as_i32 (2 ^ 31) = - (2 ^ 31)"
  by (simp_all add: effective_ttl_def as_i64_def as_i32_def)

lemma create_token_ok:
  assumes "create_token L J now fr A m d = (Inr t, d')"
  obtains u where "save_token t d = (Inr u, d')"
    and "mint_access_token J now fr A m = Inr (tk_access_token t)"
    and "mint_refresh_token J now fr A m = Inr (tk_refresh_token t)"
    and "t = with_delegation L (token_new now (fr_row_id fr) (tk_access_token t) (tk_refresh_token t)
               (ctm_client_id m) (ctm_user_id m) (ctm_scope m) (as_i32 (effective_ttl A m)) (ctm_token_family m))
               (ctm_act m) (ctm_cnf m) (ctm_resources m)"
proof -
  let ?t = "\<lambda>a r. with_delegation L (token_new now (fr_row_id fr) a r (ctm_client_id m) (ctm_user_id m)
      (ctm_scope m) (as_i32 (effective_ttl A m)) (ctm_token_family m)) (ctm_act m) (ctm_cnf m) (ctm_resources m)"
  obtain a where a: "mint_access_token J now fr A m = Inr a"
    using assms by (cases "mint_access_token J now fr A m") (auto simp: create_token_def)
  obtain r where r: "mint_refresh_token J now fr A m = Inr r"
    using assms a by (cases "mint_refresh_token J now fr A m") (auto simp: create_token_def)
  have "bindS (save_token (?t a r) d) (\<lambda>_ d'. (Inr (?t a r), d')) = (Inr t, d')"
    using assms unfolding create_token_def a r sum.case Let_def .
  then obtain u where u: "save_token (?t a r) d = (Inr u, d')" "t = ?t a r"
    unfolding bindS_eq_Inr by blast
  then have acc: "tk_access_token t = a" "tk_refresh_token t = r"
    by (simp_all add: with_delegation_def token_new_def)
  show ?thesis
  proof (rule that [of u])
    show "save_token t d = (Inr u, d')" using u(1) unfolding u(2) .
  qed (simp_all only: acc a r u(2) [symmetric])
qed

lemma create_token_facts:
  assumes "create_token L J now fr A m d = (Inr t, d')"
  shows "get_token_by_access_token (tk_access_token t) d' = Some t \<and>
    get_token_by_access_token (tk_access_token t) d = None \<and>
    (\<forall>a. a \<noteq> tk_access_token t \<longrightarrow> get_token_by_access_token a d' = get_token_by_access_token a d) \<and>
    \<not> tk_revoked t \<and> tk_expires_at t = now + secs (as_i32 (effective_ttl A m)) \<and>
    tk_client_id t = ctm_client_id m \<and> tk_user_id t = ctm_user_id m \<and> tk_scope t = ctm_scope m \<and>
    tk_token_family t = ctm_token_family m \<and> (tk_refresh_token t \<noteq> None) = ctm_include_refresh m"
proof -
  obtain u where s: "save_token t d = (Inr u, d')"
    and r: "mint_refresh_token J now fr A m = Inr (tk_refresh_token t)"
    and t: "t = with_delegation L (token_new now (fr_row_id fr) (tk_access_token t) (tk_refresh_token t)
               (ctm_client_id m) (ctm_user_id m) (ctm_scope m) (as_i32 (effective_ttl A m)) (ctm_token_family m))
               (ctm_act m) (ctm_cnf m) (ctm_resources m)"
    using assms by (rule create_token_ok)
  have f: "tk_revoked t = False \<and> tk_expires_at t = now + secs (as_i32 (effective_ttl A m)) \<and>
    tk_client_id t = ctm_client_id m \<and> tk_user_id t = ctm_user_id m \<and> tk_scope t = ctm_scope m \<and>
    tk_token_family t = ctm_token_family m"
    by (subst (1 2 3 4 5 6) t) (simp add: with_delegation_def token_new_def)
  have "(tk_refresh_token t \<noteq> None) = ctm_include_refresh m"
    using r by (auto simp: mint_refresh_token_def map_sum_eq_Inr split: if_splits)
  with f show ?thesis
    by (simp add: sql_tokens.save_by_access [OF s] sql_tokens.save_fresh [OF s])
qed

text \<open>Issuing a token stores exactly the requested grant: the row is found under its access token,
  is not revoked, expires after the effective lifetime, and carries the requested client, user,
  scope and family, and a refresh token exactly when one was asked for; no other token changes.\<close>
theorem create_token_stores:
  assumes "create_token L J now fr A m d = (Inr t, d')"
  shows "get_token_by_access_token (tk_access_token t) d' = Some t \<and>
    get_token_by_access_token (tk_access_token t) d = None \<and>
    (\<forall>a. a \<noteq> tk_access_token t \<longrightarrow> get_token_by_access_token a d' = get_token_by_access_token a d) \<and>
    \<not> tk_revoked t \<and> tk_expires_at t = now + secs (as_i32 (effective_ttl A m)) \<and>
    tk_client_id t = ctm_client_id m \<and> tk_user_id t = ctm_user_id m \<and> tk_scope t = ctm_scope m \<and>
    tk_token_family t = ctm_token_family m \<and> (tk_refresh_token t \<noteq> None) = ctm_include_refresh m"
  using assms by (rule create_token_facts)

lemma create_token_stores_witness:
  "get_token_by_access_token (tk_access_token demo_token) (demo_store\<lparr>db_tokens := [demo_token]\<rparr>) = Some demo_token \<and>
   tk_refresh_token demo_token \<noteq> None"
  using create_token_stores [OF demo_create] by (simp add: demo_msg_def)

section \<open>Revocation\<close>

lemma revoke_token_async_ok: "\<exists>d'. revoke_token_async raw d = (Inr (), d')"
  by (simp add: revoke_token_async_def revoke_token_def Let_def split: option.splits)

lemma revoke_token_async_family:
  assumes "revoke_token_async raw d = (r, d')" "key = normalize_token_key raw"
    and "get_token_by_access_token key d = Some t \<or>
         (get_token_by_access_token key d = None \<and> get_token_by_refresh_token key d = Some t)"
  shows "d' = (case tk_token_family t of None \<Rightarrow> snd (revoke_token key d)
               | Some f \<Rightarrow> snd (revoke_token_family f (snd (revoke_token key d))))"
  using assms by (auto simp: revoke_token_async_def Let_def revoke_token_def split: option.splits)

text \<open>Revocation: whatever is presented, the handler succeeds and afterwards neither an access token
  nor a refresh token equal to it is usable; when it belongs to a family, no token of that
  family is.\<close>
theorem revoke_token_handler_revokes:
  assumes "revoke_token_handler raw A d = (r, A', d')"
  shows "r = Inr () \<and>
    (\<forall>t. get_token_by_access_token (normalize_token_key raw) d' = Some t \<longrightarrow> tk_revoked t) \<and>
    (\<forall>t. get_token_by_refresh_token (normalize_token_key raw) d' = Some t \<longrightarrow> tk_revoked t) \<and>
    (\<forall>t f a s. (get_token_by_access_token (normalize_token_key raw) d = Some t \<or>
               get_token_by_access_token (normalize_token_key raw) d = None \<and>
               get_token_by_refresh_token (normalize_token_key raw) d = Some t) \<longrightarrow>
       tk_token_family t = Some f \<longrightarrow> get_token_by_access_token a d' = Some s \<longrightarrow>
       tk_token_family s = Some f \<longrightarrow> tk_revoked s)"
proof -
  let ?k = "normalize_token_key raw"
  let ?d1 = "snd (revoke_token ?k d)"
  have r: "revoke_token_async raw d = (r, d')"
    using assms by (auto simp: revoke_token_handler_def Let_def split: prod.splits)
  have a1: "\<And>t. get_token_by_access_token ?k ?d1 = Some t \<Longrightarrow> tk_revoked t"
    using sql_tokens.by_access_key by (fastforce simp: sql_tokens.revoke_by_access)
  have r1: "\<And>t. get_token_by_refresh_token ?k ?d1 = Some t \<Longrightarrow> tk_revoked t"
    by (rule sql_tokens.revoked_refresh_invalid)
  have d': "d' = ?d1 \<or> (\<exists>f. d' = snd (revoke_token_family f ?d1))"
    using r by (auto simp: revoke_token_async_def Let_def revoke_token_def split: option.splits)
  have a: "tk_revoked t" if "get_token_by_access_token ?k d' = Some t" for t
    using d' that a1 by (auto simp: sql_tokens.family_by_access split: if_splits)
  have b: "tk_revoked t" if "get_token_by_refresh_token ?k d' = Some t" for t
    using d' that r1 by (auto simp: sql_tokens.family_by_refresh split: if_splits)
  have c: "tk_revoked s"
    if "get_token_by_access_token ?k d = Some t \<or>
        (get_token_by_access_token ?k d = None \<and> get_token_by_refresh_token ?k d = Some t)"
      "tk_token_family t = Some f" "get_token_by_access_token x d' = Some s" "tk_token_family s = Some f" for t f x s
    using revoke_token_async_family [OF r refl that(1)] that(2-4) sql_tokens.revoked_family_invalid by simp
  have "r = Inr ()" using r revoke_token_async_ok [of raw d] by auto
  with a b c show ?thesis by blast
qed

lemma revoke_token_handler_revokes_witness:
  "\<exists>r A' d'. revoke_token_handler ''Bearer at+JWT.j1.sig'' demo_actor (demo_store\<lparr>db_tokens := [demo_token]\<rparr>) = (r, A', d') \<and>
     r = Inr () \<and> (\<forall>t. get_token_by_access_token (normalize_token_key ''Bearer at+JWT.j1.sig'') d' = Some t \<longrightarrow> tk_revoked t)"
proof -
  obtain r A' d' where h: "revoke_token_handler ''Bearer at+JWT.j1.sig'' demo_actor
      (demo_store\<lparr>db_tokens := [demo_token]\<rparr>) = (r, A', d')" by (metis surj_pair)
  from revoke_token_handler_revokes [OF h] h show ?thesis by blast
qed

section \<open>Refresh tokens\<close>

text \<open>Refresh-token replay: presenting a revoked refresh token is refused as a replay and leaves
  every token of its family revoked; presenting a live one changes nothing.\<close>
theorem refresh_replay_revokes_family:
  assumes "get_token_by_refresh_token rt d = Some t"
  shows "(tk_revoked t \<longrightarrow>
      fst (validate_refresh_token J now A rt d) =
        Inl (invalid_grant ''Refresh token has been revoked (replay detected)'') \<and>
      (\<forall>f a s. tk_token_family t = Some f \<longrightarrow>
         get_token_by_access_token a (snd (validate_refresh_token J now A rt d)) = Some s \<longrightarrow>
         tk_token_family s = Some f \<longrightarrow> tk_revoked s)) \<and>
    (\<not> tk_revoked t \<longrightarrow> snd (validate_refresh_token J now A rt d) = d \<and>
      (fst (validate_refresh_token J now A rt d) = Inr t \<longleftrightarrow> refresh_jwt_ok J now A (tk_client_id t) rt))"
  using assms sql_tokens.revoked_family_invalid
  by (auto simp: validate_refresh_token_def)

lemma refresh_replay_revokes_family_witness:
  "fst (validate_refresh_token demo_jwt 5 demo_actor ''JWT.j2.sig''
      (demo_store\<lparr>db_tokens := [demo_token\<lparr>tk_revoked := True\<rparr>]\<rparr>)) =
     Inl (invalid_grant ''Refresh token has been revoked (replay detected)'')"
proof -
  have "get_token_by_refresh_token ''JWT.j2.sig'' (demo_store\<lparr>db_tokens := [demo_token\<lparr>tk_revoked := True\<rparr>]\<rparr>) =
      Some (demo_token\<lparr>tk_revoked := True\<rparr>)"
    by (simp add: get_token_by_refresh_token_def demo_token_def token_new_def)
  from refresh_replay_revokes_family [OF this, of demo_jwt 5 demo_actor] show ?thesis by simp
qed

text \<open>A refresh token minted while the key set had no current key (the fallback to the shared
  secret writes no \<open>kid\<close>) is never accepted by a server that has a key set.\<close>
theorem fallback_refresh_never_validates:
  assumes "tka_keyset A = Some ks" "jwt_header_kid J rt = Inr None"
  shows "fst (validate_refresh_token J now A rt d) \<noteq> Inr t"
  using assms by (auto simp: validate_refresh_token_def refresh_jwt_ok_def split: option.splits)

lemma fallback_refresh_never_validates_witness:
  "encode_claims demo_jwt (demo_actor\<lparr>tka_keyset := Some []\<rparr>) (signing_key_of 0 (demo_actor\<lparr>tka_keyset := Some []\<rparr>))
     ''JWT'' (refresh_claims 0 demo_fresh demo_actor demo_msg) = Inr ''JWT.j2.sig'' \<and>
   fst (validate_refresh_token demo_jwt 5 (demo_actor\<lparr>tka_keyset := Some []\<rparr>) ''JWT.j2.sig''
     (demo_store\<lparr>db_tokens := [demo_token]\<rparr>)) \<noteq> Inr demo_token"
  using fallback_refresh_never_validates [of "demo_actor\<lparr>tka_keyset := Some []\<rparr>" "[]" demo_jwt "''JWT.j2.sig''"]
  by (simp add: encode_claims_def signing_key_of_def ks_current_for_alg_def refresh_claims_def
      claims_new_def demo_jwt_def demo_fresh_def)

section \<open>Shards\<close>

lemma route_in_range: "0 < n \<Longrightarrow> route hash n key < n"
  by (auto simp: route_def)

end
