(* ===== verification/Token_Cache.thy ===== *)
theory Token_Cache
  imports Token_Laws
begin

text \<open>
  Interleavings at one token actor.  A \<open>ValidateToken\<close> request consults the cache when its
  message is handled and reads the database when its future is polled; the row it read comes
  back as a \<open>CacheValidatedToken\<close> message.  A \<open>RevokeToken\<close> request evicts when handled and
  updates the database later.  Other requests and other shards run storage statements at any
  time.  The ghost set \<open>sy_reads\<close> records which rows a validation read as valid, and when.
\<close>

section \<open>The system\<close>

record sys =
  sy_now :: instant
  sy_db :: db
  sy_actor :: token_actor
  sy_validating :: "(string \<times> token option \<times> instant) list"
  sy_messages :: "(string \<times> token) list"
  sy_revoking :: "string list"
  sy_reads :: "(string \<times> token \<times> instant) set"

inductive sys_step :: "sys \<Rightarrow> sys \<Rightarrow> bool" where
  tick: "0 \<le> dt \<Longrightarrow> sys_step s (s\<lparr>sy_now := sy_now s + dt\<rparr>)"
| statement: "sys_step s (s\<lparr>sy_db := exec_cmd c (sy_db s)\<rparr>)"
| validate_start:
    "validate_token_sync (sy_now s) raw (sy_actor s) = (cached, A) \<Longrightarrow>
     sys_step s (s\<lparr>sy_actor := A, sy_validating := (raw, cached, sy_now s) # sy_validating s\<rparr>)"
| validate_finish:
    "v \<in> set (sy_validating s) \<Longrightarrow> v = (raw, cached, started) \<Longrightarrow>
     validate_token_async (sy_now s) raw cached (sy_db s) = (r, Some (key, t)) \<Longrightarrow>
     sys_step s (s\<lparr>sy_validating := remove1 v (sy_validating s), sy_messages := (key, t) # sy_messages s,
                   sy_reads := insert (key, t, sy_now s) (sy_reads s)\<rparr>)"
| validate_finish_quiet:
    "v \<in> set (sy_validating s) \<Longrightarrow> v = (raw, cached, started) \<Longrightarrow>
     validate_token_async (sy_now s) raw cached (sy_db s) = (r, None) \<Longrightarrow>
     sys_step s (s\<lparr>sy_validating := remove1 v (sy_validating s)\<rparr>)"
| deliver:
    "(key, t) \<in> set (sy_messages s) \<Longrightarrow>
     sys_step s (s\<lparr>sy_messages := remove1 (key, t) (sy_messages s),
                   sy_actor := cache_validated_token (sy_now s) key t (sy_actor s)\<rparr>)"
| revoke_start:
    "sys_step s (s\<lparr>sy_actor := invalidate_cached_token (normalize_token_key raw) (sy_actor s),
                   sy_revoking := raw # sy_revoking s\<rparr>)"
| revoke_finish:
    "raw \<in> set (sy_revoking s) \<Longrightarrow>
     sys_step s (s\<lparr>sy_db := snd (revoke_token_async raw (sy_db s)), sy_revoking := remove1 raw (sy_revoking s)\<rparr>)"
| family:
    "revoke_token_family_handler f (sy_actor s) (sy_db s) = (r, A, d) \<Longrightarrow>
     sys_step s (s\<lparr>sy_actor := A, sy_db := d\<rparr>)"

definition sys_init :: "instant \<Rightarrow> db \<Rightarrow> token_actor \<Rightarrow> sys" where
  "sys_init now d A = \<lparr>sy_now = now, sy_db = d, sy_actor = A\<lparr>tka_cache := []\<rparr>, sy_validating = [],
     sy_messages = [], sy_revoking = [], sy_reads = {}\<rparr>"

inductive reachable :: "sys \<Rightarrow> sys \<Rightarrow> bool" for s0 where
  refl: "reachable s0 s0"
| step: "reachable s0 s \<Longrightarrow> sys_step s s' \<Longrightarrow> reachable s0 s'"

section \<open>Bounded staleness\<close>

text \<open>Every cached row was read as valid from the database no later than it was inserted; every row
  in a message was read as valid; every validation that took a row from the cache took it within
  the cache lifetime of its insertion.\<close>

type_synonym read_log = "(string \<times> token \<times> instant) set"

definition cache_ok :: "read_log \<Rightarrow> instant \<Rightarrow> (string \<times> cached_token) list \<Rightarrow> bool" where
  "cache_ok R now c =
     (\<forall>k ct. map_of c k = Some ct \<longrightarrow>
        (\<exists>r \<le> ct_inserted_at ct. (k, ct_token ct, r) \<in> R) \<and> ct_inserted_at ct \<le> now)"

definition messages_ok :: "read_log \<Rightarrow> instant \<Rightarrow> (string \<times> token) set \<Rightarrow> bool" where
  "messages_ok R now ms = (\<forall>(k, t) \<in> ms. \<exists>r \<le> now. (k, t, r) \<in> R)"

definition validating_ok :: "read_log \<Rightarrow> instant \<Rightarrow> (string \<times> token option \<times> instant) set \<Rightarrow> bool" where
  "validating_ok R now vs =
     (\<forall>(raw, cached, st) \<in> vs. st \<le> now \<and>
        (\<forall>t. cached = Some t \<longrightarrow>
           (\<exists>r i. (normalize_token_key raw, t, r) \<in> R \<and> r \<le> i \<and> i \<le> st \<and> st < i + cache_ttl)))"

definition cache_inv :: "sys \<Rightarrow> bool" where
  "cache_inv s =
     (cache_ok (sy_reads s) (sy_now s) (tka_cache (sy_actor s)) \<and>
      messages_ok (sy_reads s) (sy_now s) (set (sy_messages s)) \<and>
      validating_ok (sy_reads s) (sy_now s) (set (sy_validating s)))"

lemma cache_ok_mono:
  "cache_ok R now c \<Longrightarrow> R \<subseteq> R' \<Longrightarrow> now \<le> now' \<Longrightarrow>
   (\<And>k ct. map_of c' k = Some ct \<Longrightarrow> map_of c k = Some ct) \<Longrightarrow> cache_ok R' now' c'"
  unfolding cache_ok_def by (meson order_trans subsetD)

lemma messages_ok_mono:
  "messages_ok R now ms \<Longrightarrow> R \<subseteq> R' \<Longrightarrow> now \<le> now' \<Longrightarrow> ms' \<subseteq> ms \<Longrightarrow> messages_ok R' now' ms'"
  unfolding messages_ok_def
proof (clarify, goal_cases)
  case (1 k t)
  then obtain r where "r \<le> now" "(k, t, r) \<in> R" by blast
  then show ?case using 1(2,3) by (intro exI [of _ r]) auto
qed

lemma validating_ok_mono:
  "validating_ok R now vs \<Longrightarrow> R \<subseteq> R' \<Longrightarrow> now \<le> now' \<Longrightarrow> vs' \<subseteq> vs \<Longrightarrow> validating_ok R' now' vs'"
  unfolding validating_ok_def
proof (clarify, goal_cases)
  case (1 raw cached st)
  then have v: "st \<le> now \<and> (\<forall>t. cached = Some t \<longrightarrow>
      (\<exists>r i. (normalize_token_key raw, t, r) \<in> R \<and> r \<le> i \<and> i \<le> st \<and> st < i + cache_ttl))" by blast
  have "st \<le> now'" using v 1(3) by simp
  moreover have "\<exists>r i. (normalize_token_key raw, t, r) \<in> R' \<and> r \<le> i \<and> i \<le> st \<and> st < i + cache_ttl"
    if "cached = Some t" for t
    using v that 1(2) by blast
  ultimately show ?case by blast
qed

lemma cache_inv_init: "cache_inv (sys_init now d A)"
  by (simp add: cache_inv_def sys_init_def cache_ok_def messages_ok_def validating_ok_def)

lemma validate_sync_cases:
  assumes "validate_token_sync now raw A = (cached, A')"
  shows "map_of (tka_cache A') k = Some ct \<Longrightarrow> map_of (tka_cache A) k = Some ct"
    and "cached = Some t \<Longrightarrow> \<exists>ct. map_of (tka_cache A) (normalize_token_key raw) = Some ct \<and>
           t = ct_token ct \<and> now < ct_inserted_at ct + cache_ttl"
proof -
  note s = assms [unfolded validate_token_sync_def Let_def]
  obtain o1 c1 where g: "lru_get (normalize_token_key raw) (tka_cache A) = (o1, c1)" by fastforce
  have l: "map_of c1 k' = map_of (tka_cache A) k'" for k'
    using lru.get_lookup [of "normalize_token_key raw" "tka_cache A" k'] by (simp add: g)
  have f: "o1 = map_of (tka_cache A) (normalize_token_key raw)"
    using lru.get_fst [of "normalize_token_key raw" "tka_cache A"] by (simp add: g)
  show "map_of (tka_cache A) k = Some ct" if "map_of (tka_cache A') k = Some ct"
    using s g l that by (cases o1) (auto split: if_splits)
  show "\<exists>ct. map_of (tka_cache A) (normalize_token_key raw) = Some ct \<and>
           t = ct_token ct \<and> now < ct_inserted_at ct + cache_ttl" if "cached = Some t"
    using s g that by (cases o1) (auto simp: f [symmetric] split: if_splits)
qed

lemma cache_inv_mono:
  assumes "cache_inv s" "sy_reads s \<subseteq> sy_reads s'" "sy_now s \<le> sy_now s'"
    and "\<And>k ct. map_of (tka_cache (sy_actor s')) k = Some ct \<Longrightarrow> map_of (tka_cache (sy_actor s)) k = Some ct"
    and "set (sy_messages s') \<subseteq> set (sy_messages s)" "set (sy_validating s') \<subseteq> set (sy_validating s)"
  shows "cache_inv s'"
  using assms unfolding cache_inv_def
  by (blast intro: cache_ok_mono messages_ok_mono validating_ok_mono)

lemma cache_inv_step:
  assumes "sys_step s s'" "cache_inv s"
  shows "cache_inv s'"
  using assms
proof (induction rule: sys_step.induct)
  case (validate_start s raw cached A)
  note v = validate_sync_cases [OF validate_start.hyps]
  have "cache_ok (sy_reads s) (sy_now s) (tka_cache A)"
    using validate_start.prems v(1) unfolding cache_inv_def by (blast intro: cache_ok_mono)
  moreover have "\<exists>r i. (normalize_token_key raw, t, r) \<in> sy_reads s \<and> r \<le> i \<and> i \<le> sy_now s \<and> sy_now s < i + cache_ttl"
    if "cached = Some t" for t
    using v(2) [OF that] validate_start.prems unfolding cache_inv_def cache_ok_def by blast
  ultimately show ?case using validate_start.prems unfolding cache_inv_def validating_ok_def by simp
next
  case (validate_finish v s raw cached started r key t)
  have m: "messages_ok (insert (key, t, sy_now s) (sy_reads s)) (sy_now s) (set (sy_messages s))"
    using validate_finish.prems unfolding cache_inv_def by (blast intro: messages_ok_mono)
  have v: "validating_ok (insert (key, t, sy_now s) (sy_reads s)) (sy_now s) (set (remove1 v (sy_validating s)))"
    using validate_finish.prems set_remove1_subset [of v "sy_validating s"]
    unfolding cache_inv_def by (blast intro: validating_ok_mono)
  have c: "cache_ok (insert (key, t, sy_now s) (sy_reads s)) (sy_now s) (tka_cache (sy_actor s))"
    using validate_finish.prems unfolding cache_inv_def by (blast intro: cache_ok_mono)
  show ?case using m v c unfolding cache_inv_def messages_ok_def by auto
next
  case (deliver key t s)
  let ?c = "tka_cache (cache_validated_token (sy_now s) key t (sy_actor s))"
  obtain r where r: "r \<le> sy_now s" "(key, t, r) \<in> sy_reads s"
    using deliver unfolding cache_inv_def messages_ok_def by blast
  have "map_of ?c k = Some ct \<Longrightarrow> (k = key \<and> ct = \<lparr>ct_token = t, ct_inserted_at = sy_now s\<rparr>) \<or>
      map_of (tka_cache (sy_actor s)) k = Some ct" for k ct
    using lru.put_never_invents [of key _ "tka_cache (sy_actor s)"] by (simp add: cache_validated_token_def)
  then have "cache_ok (sy_reads s) (sy_now s) ?c"
    using deliver.prems r unfolding cache_inv_def cache_ok_def by fastforce
  moreover have "messages_ok (sy_reads s) (sy_now s) (set (remove1 (key, t) (sy_messages s)))"
    using deliver.prems set_remove1_subset [of "(key, t)" "sy_messages s"]
    unfolding cache_inv_def by (blast intro: messages_ok_mono)
  ultimately show ?case using deliver.prems unfolding cache_inv_def by simp
next
  case (validate_finish_quiet v s raw cached started r)
  then show ?case
    by (elim cache_inv_mono) (simp_all add: set_remove1_subset)
next
  case (family f s r A d)
  then have "tka_cache A = []" by (auto simp: revoke_token_family_handler_def Let_def split: prod.splits)
  then show ?case using family.prems by (elim cache_inv_mono) simp_all
next
  case (revoke_start s raw)
  then show ?case by (elim cache_inv_mono) (auto simp: invalidate_cached_token_def split: if_splits)
qed (elim cache_inv_mono; simp)+

lemma cache_inv_reachable: "reachable (sys_init now d A) s \<Longrightarrow> cache_inv s"
  by (induction rule: reachable.induct) (auto intro: cache_inv_init cache_inv_step)

text \<open>Bounded staleness: whenever a validation answers with a token, in any interleaving, that token
  has not expired, and it is either a row the database holds now, unrevoked, or a row that was read
  as valid earlier and taken from the cache less than 60 seconds after being inserted there.\<close>
theorem validation_bounded_staleness:
  assumes "reachable (sys_init t0 d A) s" "(raw, cached, started) \<in> set (sy_validating s)"
    and "fst (validate_token_async (sy_now s) raw cached (sy_db s)) = Inr t"
  shows "sy_now s \<le> tk_expires_at t \<and> \<not> tk_revoked t \<and>
     (get_token_by_access_token (normalize_token_key raw) (sy_db s) = Some t \<or>
      (\<exists>r i. (normalize_token_key raw, t, r) \<in> sy_reads s \<and> r \<le> i \<and> i \<le> started \<and> started < i + secs 60))"
proof -
  have v: "token_is_valid (sy_now s) t"
    using assms(3) by (auto simp: validate_token_async_def split: option.splits if_splits)
  have "cached = Some t \<or> get_token_by_access_token (normalize_token_key raw) (sy_db s) = Some t"
    using assms(3) by (auto simp: validate_token_async_def split: option.splits if_splits)
  moreover have "\<exists>r i. (normalize_token_key raw, t, r) \<in> sy_reads s \<and> r \<le> i \<and> i \<le> started \<and> started < i + cache_ttl"
    if "cached = Some t"
    using cache_inv_reachable [OF assms(1)] assms(2) that unfolding cache_inv_def validating_ok_def by blast
  ultimately show ?thesis using v by (auto simp: token_is_valid_def token_is_expired_def cache_ttl_def)
qed

section \<open>A settled revocation is final\<close>

text \<open>The token's row is revoked, and nothing under its key is cached, in a message, or taken from
  the cache by a validation under way.\<close>
definition settled :: "string \<Rightarrow> sys \<Rightarrow> bool" where
  "settled key s =
     (db_wf (sy_db s) \<and>
      (\<exists>t. get_token_by_access_token key (sy_db s) = Some t \<and> tk_revoked t) \<and>
      map_of (tka_cache (sy_actor s)) key = None \<and>
      (\<forall>(k, t) \<in> set (sy_messages s). k \<noteq> key) \<and>
      (\<forall>(raw, cached, st) \<in> set (sy_validating s). normalize_token_key raw = key \<longrightarrow> cached = None))"

lemma revoked_access_after_cmd:
  assumes "db_wf d" "get_token_by_access_token key d = Some t" "tk_revoked t"
  shows "\<exists>t'. get_token_by_access_token key (exec_cmd c d) = Some t' \<and> tk_revoked t'"
proof -
  have w: "db_wf (exec_cmd c d)" using assms(1) by (rule exec_cmd_wf)
  have m: "t \<in> set (db_tokens d)" and k: "tk_access_token t = key"
    using assms(2) by (auto simp: get_token_by_access_token_def dest: find_Some_in)
  have "key \<in> tk_access_token ` set (filter tk_revoked (db_tokens d))" using m k assms(3) by auto
  then have "key \<in> tk_access_token ` set (filter tk_revoked (db_tokens (exec_cmd c d)))"
    using exec_cmd_revoked_access_mono by blast
  then obtain t' where t': "t' \<in> set (db_tokens (exec_cmd c d))" "tk_access_token t' = key" "tk_revoked t'"
    by auto
  have "distinct (map tk_access_token (db_tokens (exec_cmd c d)))" using w by (simp add: db_wf_def keys_ok_def)
  from find_distinct_key [OF this t'(1)] show ?thesis using t' by (auto simp: get_token_by_access_token_def)
qed

lemma revoke_async_as_cmds: "\<exists>cs. snd (revoke_token_async raw d) = exec_all cs d"
proof -
  have "snd (revoke_token_async raw d) = exec_all [RevokeToken (normalize_token_key raw)] d \<or>
      (\<exists>f. snd (revoke_token_async raw d) = exec_all [RevokeToken (normalize_token_key raw), RevokeTokenFamily f] d)"
    by (auto simp: revoke_token_async_def Let_def exec_all_def revoke_token_def split: option.splits)
  then show ?thesis by blast
qed

lemma revoked_access_after_cmds:
  assumes "db_wf d" "get_token_by_access_token key d = Some t" "tk_revoked t"
  shows "\<exists>t'. get_token_by_access_token key (exec_all cs d) = Some t' \<and> tk_revoked t'"
  using assms
proof (induction cs arbitrary: d t)
  case (Cons c cs)
  obtain t' where "get_token_by_access_token key (exec_cmd c d) = Some t'" "tk_revoked t'"
    using revoked_access_after_cmd [OF Cons.prems] by blast
  from Cons.IH [OF exec_cmd_wf [OF Cons.prems(1)] this] show ?case by (simp add: exec_all_def)
qed (simp add: exec_all_def)

lemma settled_step:
  assumes "sys_step s s'" "settled key s"
  shows "settled key s'"
  using assms
proof (induction rule: sys_step.induct)
  case (tick dt s)
  then show ?case by (simp add: settled_def)
next
  case (statement s c)
  then show ?case using exec_cmd_wf revoked_access_after_cmd by (fastforce simp: settled_def)
next
  case (validate_start s raw cached A)
  note v = validate_sync_cases [OF validate_start.hyps]
  have "map_of (tka_cache A) key = None"
    using v(1) [of key] validate_start.prems by (cases "map_of (tka_cache A) key") (auto simp: settled_def)
  moreover have "normalize_token_key raw = key \<Longrightarrow> cached = None"
    using v(2) validate_start.prems by (cases cached) (auto simp: settled_def)
  ultimately show ?case using validate_start.prems by (simp add: settled_def)
next
  case (validate_finish v s raw cached started r k t)
  have m: "(raw, cached, started) \<in> set (sy_validating s)" using validate_finish.hyps(1,2) by simp
  obtain t0 where t0: "get_token_by_access_token key (sy_db s) = Some t0" "tk_revoked t0"
    using validate_finish.prems unfolding settled_def by blast
  have "k \<noteq> key"
  proof
    assume "k = key"
    then have "normalize_token_key raw = key" "cached = None" "get_token_by_access_token key (sy_db s) = Some t"
      "token_is_valid (sy_now s) t"
      using validate_finish.hyps(3) by (auto simp: validate_token_async_def split: option.splits if_splits)
    then show False using t0 by (auto simp: token_is_valid_def)
  qed
  moreover have "set (remove1 v (sy_validating s)) \<subseteq> set (sy_validating s)" by (rule set_remove1_subset)
  ultimately show ?case using validate_finish.prems unfolding settled_def by (simp, blast)
next
  case (validate_finish_quiet v s raw cached started r)
  have "set (remove1 v (sy_validating s)) \<subseteq> set (sy_validating s)" by (rule set_remove1_subset)
  then show ?case using validate_finish_quiet.prems unfolding settled_def by (simp, blast)
next
  case (deliver k t s)
  then have "k \<noteq> key" unfolding settled_def by blast
  then have "map_of (tka_cache (cache_validated_token (sy_now s) k t (sy_actor s))) key = None"
    using deliver.prems lru.put_never_invents [of k _ "tka_cache (sy_actor s)" key]
    by (cases "map_of (tka_cache (cache_validated_token (sy_now s) k t (sy_actor s))) key")
      (auto simp: settled_def cache_validated_token_def)
  moreover have "set (remove1 (k, t) (sy_messages s)) \<subseteq> set (sy_messages s)" by (rule set_remove1_subset)
  ultimately show ?case using deliver.prems unfolding settled_def by (simp, blast)
next
  case (revoke_start s raw)
  then show ?case by (simp add: settled_def invalidate_cached_token_def)
next
  case (revoke_finish raw s)
  obtain cs where "snd (revoke_token_async raw (sy_db s)) = exec_all cs (sy_db s)"
    using revoke_async_as_cmds by blast
  then show ?case using revoke_finish.prems exec_all_wf [of "sy_db s" cs]
    revoked_access_after_cmds [of "sy_db s" key _ cs] by (fastforce simp: settled_def)
next
  case (family f s r A d)
  then have "d = exec_cmd (RevokeTokenFamily f) (sy_db s)" "tka_cache A = []"
    by (auto simp: revoke_token_family_handler_def Let_def split: prod.splits)
  then show ?case using family.prems exec_cmd_wf [of "sy_db s" "RevokeTokenFamily f"]
    revoked_access_after_cmd [of "sy_db s" key _ "RevokeTokenFamily f"] by (fastforce simp: settled_def)
qed

lemma settled_reachable: "reachable s0 s \<Longrightarrow> settled key s0 \<Longrightarrow> settled key s"
  by (induction rule: reachable.induct) (auto intro: settled_step)

text \<open>A settled revocation is final: once a token's row is revoked and no copy of it is cached or on
  its way to the cache, no validation of that token ever answers with a token again, whatever
  else the server does.\<close>
theorem settled_revocation_final:
  assumes "settled (normalize_token_key raw) s0" "reachable s0 s" "(raw, cached, started) \<in> set (sy_validating s)"
  shows "\<exists>e. fst (validate_token_async (sy_now s) raw cached (sy_db s)) = Inl e"
proof -
  have "settled (normalize_token_key raw) s" using settled_reachable [OF assms(2,1)] .
  then have "cached = None" "\<exists>t. get_token_by_access_token (normalize_token_key raw) (sy_db s) = Some t \<and> tk_revoked t"
    using assms(3) unfolding settled_def by blast+
  then show ?thesis by (auto simp: validate_token_async_def token_is_valid_def)
qed

section \<open>Concrete runs\<close>

definition run_token :: token where
  "run_token = token_new 0 ''r1'' ''at1'' None ''app'' None ''read'' 300 None"

definition run_db :: db where
  "run_db = demo_store\<lparr>db_tokens := [run_token]\<rparr>"

lemma run_key [simp]: "normalize_token_key ''at1'' = ''at1''"
  by (simp add: normalize_token_key_def trim_def trim_start_def trim_end_def is_ws_def strip_prefix_opt_def)

lemma run_lookup: "get_token_by_access_token ''at1'' run_db = Some run_token"
  by (simp add: get_token_by_access_token_def run_db_def run_token_def token_new_def)

lemma run_valid: "token_is_valid 0 run_token"
  by (simp add: run_token_def token_is_valid_def token_is_expired_def token_new_def secs_def)

abbreviation run0 :: sys where
  "run0 \<equiv> sys_init 0 run_db demo_actor"

definition run1 :: sys where
  "run1 = run0\<lparr>sy_validating := [(''at1'', None, 0)]\<rparr>"

lemma run1_reachable: "reachable run0 run1"
proof -
  have "validate_token_sync (sy_now run0) ''at1'' (sy_actor run0) = (None, sy_actor run0)"
    by (simp add: validate_token_sync_def lru_get_def lru_pop_def sys_init_def)
  from sys_step.validate_start [OF this] have "sys_step run0 run1" by (simp add: run1_def sys_init_def)
  then show ?thesis by (rule reachable.step [OF reachable.refl])
qed

lemma validation_bounded_staleness_witness:
  "\<exists>s. reachable run0 s \<and> fst (validate_token_async (sy_now s) ''at1'' None (sy_db s)) = Inr run_token \<and>
     sy_now s \<le> tk_expires_at run_token"
proof -
  have f: "fst (validate_token_async (sy_now run1) ''at1'' None (sy_db run1)) = Inr run_token"
    by (simp add: run1_def sys_init_def validate_token_async_def run_lookup run_valid)
  have "(''at1'', None, 0) \<in> set (sy_validating run1)" by (simp add: run1_def)
  from validation_bounded_staleness [OF run1_reachable this f] f run1_reachable show ?thesis by blast
qed

definition revoked_run :: sys where
  "revoked_run = (sys_init 0 (demo_store\<lparr>db_tokens := [run_token\<lparr>tk_revoked := True\<rparr>]\<rparr>) demo_actor)
     \<lparr>sy_validating := [(''at1'', None, 0)]\<rparr>"

lemma settled_revocation_final_witness:
  "settled ''at1'' revoked_run \<and> (\<exists>e. fst (validate_token_async 0 ''at1'' None (sy_db revoked_run)) = Inl e)"
proof -
  have s: "settled (normalize_token_key ''at1'') revoked_run"
    by (simp add: settled_def revoked_run_def sys_init_def db_wf_def keys_ok_def refs_ok_def has_client_def
        has_user_opt_def get_token_by_access_token_def run_token_def demo_defs)
  have "(''at1'', None, 0) \<in> set (sy_validating revoked_run)" by (simp add: revoked_run_def)
  from settled_revocation_final [OF s reachable.refl this] s show ?thesis
    by (simp add: revoked_run_def sys_init_def)
qed

definition run2 :: sys where
  "run2 = run0\<lparr>sy_messages := [(''at1'', run_token)], sy_reads := {(''at1'', run_token, 0)}\<rparr>"

definition run3 :: sys where
  "run3 = run2\<lparr>sy_revoking := [''at1'']\<rparr>"

definition run4 :: sys where
  "run4 = run2\<lparr>sy_db := snd (revoke_token_async ''at1'' run_db)\<rparr>"

definition run5 :: sys where
  "run5 = run4\<lparr>sy_messages := [], sy_actor := cache_validated_token 0 ''at1'' run_token (sy_actor run0)\<rparr>"

definition run6 :: sys where
  "run6 = run5\<lparr>sy_validating := [(''at1'', Some run_token, 0)]\<rparr>"

lemmas run_defs = run1_def run2_def run3_def run4_def run5_def run6_def sys_init_def

lemma run_step2: "sys_step run1 run2"
proof -
  have v: "(''at1'', None, 0) \<in> set (sy_validating run1)" by (simp add: run_defs)
  have "validate_token_async (sy_now run1) ''at1'' None (sy_db run1) = (Inr run_token, Some (''at1'', run_token))"
    by (simp add: run_defs validate_token_async_def run_lookup run_valid)
  from sys_step.validate_finish [OF v HOL.refl this] show ?thesis by (simp add: run_defs)
qed

lemma run_step3: "sys_step run2 run3"
proof -
  have "invalidate_cached_token (normalize_token_key ''at1'') (sy_actor run2) = sy_actor run2"
    by (simp add: run_defs invalidate_cached_token_def lru_pop_def)
  then show ?thesis using sys_step.revoke_start [of run2 "''at1''"] by (simp add: run_defs)
qed

lemma run_step4: "sys_step run3 run4"
proof -
  have "''at1'' \<in> set (sy_revoking run3)" by (simp add: run_defs)
  from sys_step.revoke_finish [OF this] show ?thesis by (simp add: run_defs)
qed

lemma run_step5: "sys_step run4 run5"
proof -
  have "(''at1'', run_token) \<in> set (sy_messages run4)" by (simp add: run_defs)
  from sys_step.deliver [OF this] show ?thesis by (simp add: run_defs)
qed

lemma run_step6: "sys_step run5 run6"
proof -
  have "validate_token_sync (sy_now run5) ''at1'' (sy_actor run5) = (Some run_token, sy_actor run5)"
    by (simp add: run_defs validate_token_sync_def cache_validated_token_def lru_put_def lru_get_def
        lru_pop_def cache_max_def cache_ttl_def secs_def)
  from sys_step.validate_start [OF this] show ?thesis by (simp add: run_defs)
qed

text \<open>The eviction of a revoked token can lose a race: a validation that read the row before the
  revocation may deliver it to the cache after the eviction, and a validation that starts after the
  revocation has completed is then answered with the revoked token.\<close>
theorem revocation_cache_race:
  "\<exists>s t. reachable run0 s \<and> (''at1'', Some t, sy_now s) \<in> set (sy_validating s) \<and>
     (\<exists>row. get_token_by_access_token ''at1'' (sy_db s) = Some row \<and> tk_revoked row) \<and>
     fst (validate_token_async (sy_now s) ''at1'' (Some t) (sy_db s)) = Inr t"
proof -
  have "reachable run0 run6"
    by (rule reachable.step, rule reachable.step, rule reachable.step, rule reachable.step,
        rule reachable.step, rule run1_reachable)
      (rule run_step2 run_step3 run_step4 run_step5 run_step6)+
  moreover have "get_token_by_access_token ''at1'' (sy_db run6) = Some (run_token\<lparr>tk_revoked := True\<rparr>)"
    by (simp add: run_defs revoke_token_async_def run_lookup run_token_def token_new_def revoke_token_def
        revoke_rows_def run_db_def get_token_by_access_token_def)
  moreover have "fst (validate_token_async (sy_now run6) ''at1'' (Some run_token) (sy_db run6)) = Inr run_token"
    by (simp add: run_defs validate_token_async_def run_valid)
  moreover have "(''at1'', Some run_token, sy_now run6) \<in> set (sy_validating run6)" by (simp add: run_defs)
  ultimately show ?thesis by (intro exI [of _ run6] exI [of _ run_token]) simp
qed

end
