(* ===== verification/Circuit_Breaker.thy ===== *)
theory Circuit_Breaker
  imports OAuth_Prelude
begin

text \<open>
  The circuit breaker of \<open>oauth2-resilience/src/circuit_breaker.rs\<close>, with its 32-bit atomic
  counters.  Each method is one step: the interleavings modelled are those of whole method
  calls.
\<close>

section \<open>State and operations\<close>

datatype circuit_state = Closed | Open | HalfOpen

fun state_from_u8 :: "8 word \<Rightarrow> circuit_state" where
  "state_from_u8 v = (if v = 1 then Open else if v = 2 then HalfOpen else Closed)"

fun state_as_u8 :: "circuit_state \<Rightarrow> 8 word" where
  "state_as_u8 Closed = 0"
| "state_as_u8 Open = 1"
| "state_as_u8 HalfOpen = 2"

record cb_config =
  failure_threshold :: "32 word"
  success_threshold :: "32 word"
  open_duration :: instant
  half_open_max_probes :: "32 word"

definition cb_config_default :: cb_config where
  "cb_config_default = \<lparr>failure_threshold = 5, success_threshold = 2, open_duration = secs 30, half_open_max_probes = 3\<rparr>"

record breaker =
  cb_state :: circuit_state
  cb_failure_count :: "32 word"
  cb_success_count :: "32 word"
  cb_probe_count :: "32 word"
  cb_total_trips :: "32 word"
  cb_opened_at :: "instant option"

definition cb_new :: breaker where
  "cb_new = \<lparr>cb_state = Closed, cb_failure_count = 0, cb_success_count = 0, cb_probe_count = 0,
     cb_total_trips = 0, cb_opened_at = None\<rparr>"

definition transition_to :: "instant \<Rightarrow> circuit_state \<Rightarrow> breaker \<Rightarrow> breaker" where
  "transition_to now new_state b =
     (if cb_state b = new_state then b
      else let b1 = b\<lparr>cb_state := new_state\<rparr> in
        case new_state of
          Open \<Rightarrow> b1\<lparr>cb_opened_at := Some now, cb_failure_count := 0, cb_success_count := 0,
                     cb_probe_count := 0, cb_total_trips := cb_total_trips b + 1\<rparr>
        | HalfOpen \<Rightarrow> b1\<lparr>cb_success_count := 0, cb_probe_count := 0\<rparr>
        | Closed \<Rightarrow> b1\<lparr>cb_failure_count := 0, cb_success_count := 0, cb_probe_count := 0, cb_opened_at := None\<rparr>)"

definition check_transition :: "cb_config \<Rightarrow> instant \<Rightarrow> breaker \<Rightarrow> breaker" where
  "check_transition cfg now b =
     (if cb_state b \<noteq> Open then b
      else case cb_opened_at b of
        Some opened \<Rightarrow> if now - opened \<ge> open_duration cfg then transition_to now HalfOpen b else b
      | None \<Rightarrow> b)"

definition observe_state :: "cb_config \<Rightarrow> instant \<Rightarrow> breaker \<Rightarrow> circuit_state \<times> breaker" where
  "observe_state cfg now b = (let b1 = check_transition cfg now b in (cb_state b1, b1))"

definition allow_request :: "cb_config \<Rightarrow> instant \<Rightarrow> breaker \<Rightarrow> bool \<times> breaker" where
  "allow_request cfg now b =
     (let b1 = check_transition cfg now b in
      case cb_state b1 of
        Closed \<Rightarrow> (True, b1)
      | Open \<Rightarrow> (False, b1)
      | HalfOpen \<Rightarrow>
          if cb_probe_count b1 \<ge> half_open_max_probes cfg then (False, b1)
          else (True, b1\<lparr>cb_probe_count := cb_probe_count b1 + 1\<rparr>))"

definition record_success :: "cb_config \<Rightarrow> instant \<Rightarrow> breaker \<Rightarrow> breaker" where
  "record_success cfg now b =
     (case cb_state b of
        Closed \<Rightarrow> b\<lparr>cb_failure_count := 0\<rparr>
      | HalfOpen \<Rightarrow>
          (let successes = cb_success_count b + 1;
               b1 = b\<lparr>cb_probe_count := cb_probe_count b - 1, cb_success_count := successes\<rparr>
           in if successes \<ge> success_threshold cfg then transition_to now Closed b1 else b1)
      | Open \<Rightarrow> b)"

definition record_failure :: "cb_config \<Rightarrow> instant \<Rightarrow> breaker \<Rightarrow> breaker" where
  "record_failure cfg now b =
     (case cb_state b of
        Closed \<Rightarrow>
          (let failures = cb_failure_count b + 1; b1 = b\<lparr>cb_failure_count := failures\<rparr>
           in if failures \<ge> failure_threshold cfg then transition_to now Open b1 else b1)
      | HalfOpen \<Rightarrow> transition_to now Open (b\<lparr>cb_probe_count := cb_probe_count b - 1\<rparr>)
      | Open \<Rightarrow> b)"

lemmas cb_defs = allow_request_def record_success_def record_failure_def observe_state_def
  check_transition_def transition_to_def

section \<open>Runs\<close>

datatype cb_event = Allow instant | Observe instant | Success instant | Failure instant

fun cb_apply :: "cb_config \<Rightarrow> cb_event \<Rightarrow> breaker \<Rightarrow> breaker" where
  "cb_apply cfg (Allow t) b = snd (allow_request cfg t b)"
| "cb_apply cfg (Observe t) b = snd (observe_state cfg t b)"
| "cb_apply cfg (Success t) b = record_success cfg t b"
| "cb_apply cfg (Failure t) b = record_failure cfg t b"

definition cb_run :: "cb_config \<Rightarrow> cb_event list \<Rightarrow> breaker \<Rightarrow> breaker" where
  "cb_run cfg es b = fold (cb_apply cfg) es b"

section \<open>Invariant of every run\<close>

definition cb_inv :: "cb_config \<Rightarrow> breaker \<Rightarrow> bool" where
  "cb_inv cfg b =
     ((cb_state b = Open \<longrightarrow> cb_opened_at b \<noteq> None) \<and>
      (cb_state b = Closed \<longrightarrow> cb_failure_count b = 0 \<or> cb_failure_count b < failure_threshold cfg) \<and>
      (cb_state b = HalfOpen \<longrightarrow> cb_success_count b = 0 \<or> cb_success_count b < success_threshold cfg))"

lemma cb_state_cases: "cb_state b = Closed \<or> cb_state b = Open \<or> cb_state b = HalfOpen"
  by (cases "cb_state b") auto

lemma check_transition_inv: "cb_inv cfg b \<Longrightarrow> cb_inv cfg (check_transition cfg t b)"
  by (auto simp: cb_inv_def check_transition_def transition_to_def Let_def split: option.splits)

lemma cb_apply_inv:
  assumes "cb_inv cfg b"
  shows "cb_inv cfg (cb_apply cfg e b)"
proof (cases e)
  case (Allow t)
  show ?thesis using check_transition_inv [OF assms, of t] unfolding Allow
    by (cases "cb_state (check_transition cfg t b)") (auto simp: allow_request_def Let_def cb_inv_def)
next
  case (Observe t)
  show ?thesis using check_transition_inv [OF assms, of t] unfolding Observe by (simp add: observe_state_def Let_def)
next
  case (Success t)
  show ?thesis using assms unfolding Success
    by (cases "cb_state b") (auto simp: cb_inv_def record_success_def transition_to_def Let_def)
next
  case (Failure t)
  show ?thesis using assms unfolding Failure
    by (cases "cb_state b") (auto simp: cb_inv_def record_failure_def transition_to_def Let_def)
qed

lemma cb_run_inv: "cb_inv cfg b \<Longrightarrow> cb_inv cfg (cb_run cfg es b)"
  unfolding cb_run_def by (induction es arbitrary: b) (simp_all add: cb_apply_inv)

section \<open>Opening, fast failing, recovery\<close>

lemma failure_step:
  assumes "cb_state b = Closed" "cb_failure_count b = of_nat k" "Suc k < unat (failure_threshold cfg)"
  shows "record_failure cfg t b = b\<lparr>cb_failure_count := of_nat (Suc k)\<rparr>"
proof -
  have "\<not> failure_threshold cfg \<le> (of_nat (Suc k) :: 32 word)"
    using assms(3) by (subst of_nat_le_word) simp_all
  then show ?thesis using assms(1,2) by (simp add: record_failure_def Let_def add.commute)
qed

lemma failures_closed:
  assumes "cb_state b = Closed" "cb_failure_count b = 0" "length ts < unat (failure_threshold cfg)"
  shows "cb_run cfg (map Failure ts) b = b\<lparr>cb_failure_count := of_nat (length ts)\<rparr>"
  using assms(3)
proof (induction ts rule: rev_induct)
  case Nil
  then show ?case using assms(2) by (cases b) (simp add: cb_run_def)
next
  case (snoc t ts)
  then have "cb_run cfg (map Failure ts) b = b\<lparr>cb_failure_count := of_nat (length ts)\<rparr>" by simp
  then show ?case using snoc.prems assms(1)
    by (simp add: cb_run_def failure_step [where k = "length ts"])
qed

text \<open>A closed circuit with no recorded failure opens with exactly the \<open>failure_threshold\<close>-th
  consecutive failure, not before; it then refuses every request until \<open>open_duration\<close> has passed.\<close>
theorem opens_after_threshold:
  assumes "cb_state b = Closed" "cb_failure_count b = 0" "Suc (length ts) = unat (failure_threshold cfg)"
  shows "cb_state (cb_run cfg (map Failure ts) b) = Closed \<and>
    cb_state (cb_run cfg (map Failure ts @ [Failure t]) b) = Open \<and>
    (\<forall>t' < t + open_duration cfg. fst (allow_request cfg t' (cb_run cfg (map Failure ts @ [Failure t]) b)) = False)"
proof -
  let ?b = "b\<lparr>cb_failure_count := of_nat (length ts)\<rparr>"
  have r: "cb_run cfg (map Failure ts) b = ?b" using assms by (intro failures_closed) simp_all
  have "of_nat (length ts) + 1 = failure_threshold cfg"
    using assms(3) by (metis of_nat_Suc of_nat_unat ucast_id add.commute)
  then have o: "cb_run cfg (map Failure ts @ [Failure t]) b = transition_to t Open (b\<lparr>cb_failure_count := failure_threshold cfg\<rparr>)"
    using r assms(1) by (simp add: cb_run_def record_failure_def Let_def)
  show ?thesis using r assms(1) unfolding o
    by (auto simp: transition_to_def allow_request_def check_transition_def Let_def)
qed

text \<open>One probe at a time, each admitted and then successful.\<close>
fun probes :: "instant list \<Rightarrow> cb_event list" where
  "probes [] = []"
| "probes (t # ts) = Allow t # Success t # probes ts"

lemma probe_step:
  assumes "cb_state b = HalfOpen" "cb_probe_count b = 0" "half_open_max_probes cfg \<noteq> 0"
  shows "fst (allow_request cfg t b) \<and>
    record_success cfg t (snd (allow_request cfg t b)) =
      (if cb_success_count b + 1 \<ge> success_threshold cfg
       then transition_to t Closed (b\<lparr>cb_success_count := cb_success_count b + 1\<rparr>)
       else b\<lparr>cb_success_count := cb_success_count b + 1\<rparr>)"
  using assms by (cases b) (auto simp: allow_request_def check_transition_def record_success_def Let_def word_gt_0)

lemma probes_halfopen:
  assumes "cb_state b = HalfOpen" "cb_probe_count b = 0" "half_open_max_probes cfg \<noteq> 0"
    "cb_success_count b = of_nat k" "k + length ts < unat (success_threshold cfg)"
  shows "cb_run cfg (probes ts) b = b\<lparr>cb_success_count := of_nat (k + length ts)\<rparr>"
  using assms
proof (induction ts arbitrary: b k)
  case Nil
  then show ?case by (cases b) (simp add: cb_run_def)
next
  case (Cons t ts)
  let ?b = "b\<lparr>cb_success_count := of_nat (Suc k)\<rparr>"
  have "\<not> success_threshold cfg \<le> (of_nat (Suc k) :: 32 word)"
    using Cons.prems(5) by (subst of_nat_le_word) simp_all
  then have "\<not> success_threshold cfg \<le> cb_success_count b + 1"
    using Cons.prems(4) by (simp add: add.commute)
  then have "record_success cfg t (snd (allow_request cfg t b)) = ?b"
    using probe_step [OF Cons.prems(1-3), of t] Cons.prems(4) by (simp add: add.commute)
  then have "cb_run cfg (probes (t # ts)) b = cb_run cfg (probes ts) ?b" by (simp add: cb_run_def)
  also have "\<dots> = ?b\<lparr>cb_success_count := of_nat (Suc k + length ts)\<rparr>"
    using Cons.prems by (intro Cons.IH) simp_all
  finally show ?case by simp
qed


section \<open>Probes\<close>

text \<open>Runs in which every completion in the half-open state belongs to a probe admitted since the
  circuit last became half-open; the number counts the probes outstanding.\<close>
inductive disciplined :: "cb_config \<Rightarrow> breaker \<Rightarrow> nat \<Rightarrow> bool" for cfg where
  start: "disciplined cfg cb_new 0"
| allow: "disciplined cfg b n \<Longrightarrow> allow_request cfg t b = (ok, b') \<Longrightarrow>
    disciplined cfg b' (if cb_state b' \<noteq> HalfOpen then 0
                        else if cb_state b = HalfOpen then n + (if ok then 1 else 0) else (if ok then 1 else 0))"
| observe: "disciplined cfg b n \<Longrightarrow> disciplined cfg (snd (observe_state cfg t b)) (if cb_state b = HalfOpen then n else 0)"
| success: "disciplined cfg b n \<Longrightarrow> cb_state b = HalfOpen \<longrightarrow> 0 < n \<Longrightarrow>
    disciplined cfg (record_success cfg t b) (if cb_state (record_success cfg t b) = HalfOpen then n - 1 else 0)"
| failure: "disciplined cfg b n \<Longrightarrow> cb_state b = HalfOpen \<longrightarrow> 0 < n \<Longrightarrow>
    disciplined cfg (record_failure cfg t b) 0"

lemma check_transition_id: "cb_state b \<noteq> Open \<Longrightarrow> check_transition cfg t b = b"
  by (simp add: check_transition_def)

lemma check_transition_half:
  "cb_state (check_transition cfg t b) = HalfOpen \<Longrightarrow>
   (cb_state b = HalfOpen \<and> check_transition cfg t b = b) \<or> (cb_state b = Open \<and> cb_probe_count (check_transition cfg t b) = 0)"
  by (cases "cb_state b") (auto simp: check_transition_def transition_to_def Let_def split: option.splits if_splits)

lemma allow_request_half:
  assumes "allow_request cfg t b = (ok, b')" "cb_state (check_transition cfg t b) = HalfOpen"
  shows "cb_state b' = HalfOpen \<and> ok = (cb_probe_count (check_transition cfg t b) < half_open_max_probes cfg) \<and>
    cb_probe_count b' = cb_probe_count (check_transition cfg t b) + (if ok then 1 else 0)"
  using assms by (auto simp: allow_request_def Let_def not_le split: if_splits)

lemma allow_request_not_half:
  "allow_request cfg t b = (ok, b') \<Longrightarrow> cb_state (check_transition cfg t b) \<noteq> HalfOpen \<Longrightarrow> cb_state b' \<noteq> HalfOpen"
  by (cases "cb_state (check_transition cfg t b)") (auto simp: allow_request_def Let_def)

lemma outstanding_add:
  assumes "n \<le> unat (m :: 32 word)" "p = of_nat n" "ok = (p < m)" "p' = p + (if ok then 1 else 0)"
  shows "p' = of_nat (n + (if ok then 1 else 0)) \<and> n + (if ok then 1 else 0) \<le> unat m"
  using assms by (auto simp: of_nat_less_word add.commute Suc_le_eq)

text \<open>Probe limit: in a disciplined run the probe counter is exactly the number of probes
  outstanding, and never more than \<open>half_open_max_probes\<close> are.\<close>
theorem probes_bounded:
  assumes "disciplined cfg b n"
  shows "(cb_state b = HalfOpen \<longrightarrow> cb_probe_count b = of_nat n \<and> n \<le> unat (half_open_max_probes cfg)) \<and>
    (cb_state b \<noteq> HalfOpen \<longrightarrow> n = 0)"
  using assms
proof (induction rule: disciplined.induct)
  case start
  then show ?case by (simp add: cb_new_def)
next
  case (allow b n t ok b')
  let ?c = "check_transition cfg t b"
  show ?case
  proof (cases "cb_state ?c = HalfOpen")
    case True
    note h = allow_request_half [OF allow.hyps(2) True]
    consider (same) "cb_state b = HalfOpen" "?c = b" | (fresh) "cb_state b \<noteq> HalfOpen" "cb_probe_count ?c = 0"
      using check_transition_half [OF True] by fastforce
    then show ?thesis
    proof cases
      case same
      then show ?thesis using h allow.IH outstanding_add [of n "half_open_max_probes cfg" "cb_probe_count b" ok "cb_probe_count b'"]
        by simp
    next
      case fresh
      then show ?thesis using h outstanding_add [of 0 "half_open_max_probes cfg" 0 ok "cb_probe_count b'"] by simp
    qed
  next
    case False
    then show ?thesis using allow_request_not_half [OF allow.hyps(2)] by simp
  qed
next
  case (observe b n t)
  then show ?case using check_transition_half [of cfg t b] check_transition_id [of b cfg t]
    by (cases "cb_state b = Open") (auto simp: observe_state_def Let_def)
next
  case (success b n t)
  then show ?case
    by (cases "cb_state b") (auto simp: record_success_def transition_to_def Let_def of_nat_diff)
next
  case (failure b n t)
  then show ?case
    by (cases "cb_state b") (auto simp: record_failure_def transition_to_def Let_def)
qed

definition jam_events :: "cb_event list" where
  "jam_events = [Failure 0, Failure 0, Failure 0, Failure 0, Failure 0, Allow (secs 30), Allow (secs 30),
     Failure (secs 31), Observe (secs 61), Success (secs 62)]"

lemma jam_run:
  "cb_run cb_config_default jam_events cb_new =
     \<lparr>cb_state = HalfOpen, cb_failure_count = 0, cb_success_count = 1, cb_probe_count = - 1,
      cb_total_trips = 2, cb_opened_at = Some (secs 31)\<rparr>"
  by code_simp

text \<open>A stale probe jams the breaker: with the default configuration there is a run (a probe admitted
  in one half-open window completes in the next) after which the probe counter has wrapped to
  \<open>2^32 - 1\<close> and every later request is refused, at any time, with the state unchanged.\<close>
theorem stale_probe_jams:
  "\<exists>es. let b = cb_run cb_config_default es cb_new in
     cb_state b = HalfOpen \<and> cb_probe_count b = - 1 \<and>
     (\<forall>t. allow_request cb_config_default t b = (False, b) \<and> observe_state cb_config_default t b = (HalfOpen, b))"
proof (rule exI [of _ jam_events])
  show "let b = cb_run cb_config_default jam_events cb_new in
     cb_state b = HalfOpen \<and> cb_probe_count b = - 1 \<and>
     (\<forall>t. allow_request cb_config_default t b = (False, b) \<and> observe_state cb_config_default t b = (HalfOpen, b))"
    unfolding Let_def jam_run
    by (simp add: allow_request_def observe_state_def check_transition_def cb_config_default_def)
qed

lemma opens_after_threshold_witness:
  "cb_state (cb_run cb_config_default (map Failure [1, 2, 3, 4] @ [Failure 5]) cb_new) = Open"
  using opens_after_threshold [of cb_new "[1, 2, 3, 4]" cb_config_default 5]
  by (simp add: cb_new_def cb_config_default_def)


lemma probes_bounded_witness: "(0::nat) \<le> unat (half_open_max_probes cb_config_default) \<and> disciplined cb_config_default cb_new 0"
  using probes_bounded [OF disciplined.start [of cb_config_default]] disciplined.start [of cb_config_default] by simp

end
