(* ===== verification/Resilience.thy ===== *)
theory Resilience
  imports Circuit_Breaker
begin

text \<open>
  Back-pressure (\<open>oauth2-resilience/src/back_pressure.rs\<close>), bulkheads
  (\<open>oauth2-resilience/src/bulkhead.rs\<close>) and the middleware that admits requests through them
  and the circuit breaker (\<open>crates/oauth2-actix/src/middleware/resilience.rs\<close>).  A permit is
  held from admission until the request completes or its future is dropped; metrics are left
  out.
\<close>

section \<open>Concurrency limiter\<close>

record limiter =
  lim_max :: "32 word"
  lim_available :: nat
  lim_rejected :: "32 word"

definition limiter_new :: "32 word \<Rightarrow> limiter" where
  "limiter_new max_concurrent =
     (let m = max max_concurrent 1 in \<lparr>lim_max = m, lim_available = unat m, lim_rejected = 0\<rparr>)"

definition lim_in_flight :: "limiter \<Rightarrow> nat" where
  "lim_in_flight l = unat (lim_max l) - lim_available l"

definition lim_try_acquire :: "limiter \<Rightarrow> bool \<times> limiter" where
  "lim_try_acquire l =
     (if lim_available l > 0 then (True, l\<lparr>lim_available := lim_available l - 1\<rparr>)
      else (False, l\<lparr>lim_rejected := lim_rejected l + 1\<rparr>))"

text \<open>Dropping a \<open>ConcurrencyPermit\<close>.\<close>
definition lim_release :: "limiter \<Rightarrow> limiter" where
  "lim_release l = l\<lparr>lim_available := lim_available l + 1\<rparr>"

section \<open>Bulkheads\<close>

record bulkhead_config =
  bc_name :: string
  bc_path_prefix :: string
  bc_max_concurrent :: "32 word"

record registry =
  bh_bulkheads :: "(string \<times> limiter) list"
  bh_prefix_to_name :: "string \<rightharpoonup> string"

definition bulkheads_from_configs :: "bulkhead_config list \<Rightarrow> registry" where
  "bulkheads_from_configs cfgs =
     \<lparr>bh_bulkheads = map (\<lambda>c. (bc_path_prefix c, limiter_new (bc_max_concurrent c))) cfgs,
      bh_prefix_to_name = fold (\<lambda>c m. m(bc_path_prefix c \<mapsto> bc_name c)) cfgs Map.empty\<rparr>"

fun find_index :: "('a \<Rightarrow> bool) \<Rightarrow> 'a list \<Rightarrow> nat option" where
  "find_index P [] = None"
| "find_index P (x # xs) = (if P x then Some 0 else map_option Suc (find_index P xs))"

definition interned_name :: "registry \<Rightarrow> string \<Rightarrow> string" where
  "interned_name r pfx = unwrap_or (bh_prefix_to_name r pfx) pfx"

text \<open>The permit is the index of the bulkhead it belongs to.\<close>
definition bulkhead_try_acquire :: "registry \<Rightarrow> string \<Rightarrow> (string \<times> nat option) \<times> registry" where
  "bulkhead_try_acquire r path =
     (case find_index (\<lambda>(pfx, _). starts_with path pfx) (bh_bulkheads r) of
        None \<Rightarrow> ((''none'', None), r)
      | Some i \<Rightarrow>
          (let (pfx, l) = bh_bulkheads r ! i; (ok, l') = lim_try_acquire l;
               r' = r\<lparr>bh_bulkheads := (bh_bulkheads r)[i := (pfx, l')]\<rparr>
           in ((interned_name r pfx, if ok then Some i else None), r')))"

definition bulkhead_release :: "nat \<Rightarrow> registry \<Rightarrow> registry" where
  "bulkhead_release i r =
     r\<lparr>bh_bulkheads := (bh_bulkheads r)[i := map_prod id lim_release (bh_bulkheads r ! i)]\<rparr>"

record bulkhead_snapshot =
  bs_name :: string
  bs_in_flight :: nat
  bs_max :: "32 word"
  bs_rejected :: "32 word"

definition bulkhead_snapshots :: "registry \<Rightarrow> bulkhead_snapshot list" where
  "bulkhead_snapshots r =
     map (\<lambda>(pfx, l). \<lparr>bs_name = interned_name r pfx, bs_in_flight = lim_in_flight l,
                      bs_max = lim_max l, bs_rejected = lim_rejected l\<rparr>) (bh_bulkheads r)"

section \<open>The middleware\<close>

record resil =
  rs_limiter :: "limiter option"
  rs_bulkheads :: "registry option"
  rs_breaker :: "breaker option"

datatype admission =
    Exempt
  | RejectOpen
  | RejectCapacity
  | RejectBulkhead string
  | RejectProbe
  | Forward (fw_permit: bool) (fw_bulkhead: "nat option") (fw_probe: bool)

definition release_permits :: "bool \<Rightarrow> nat option \<Rightarrow> resil \<Rightarrow> resil" where
  "release_permits permit bulkhead s =
     s\<lparr>rs_limiter := (if permit then map_option lim_release (rs_limiter s) else rs_limiter s),
       rs_bulkheads := (case bulkhead of Some i \<Rightarrow> map_option (bulkhead_release i) (rs_bulkheads s)
                        | None \<Rightarrow> rs_bulkheads s)\<rparr>"

text \<open>The probe stage, after capacity has been granted.\<close>
definition admit_probe :: "cb_config \<Rightarrow> instant \<Rightarrow> bool \<Rightarrow> nat option \<Rightarrow> resil \<Rightarrow> admission \<times> resil" where
  "admit_probe cfg now permit bulkhead s =
     (case rs_breaker s of
        None \<Rightarrow> (Forward permit bulkhead False, s)
      | Some b \<Rightarrow>
          (case observe_state cfg now b of
             (HalfOpen, b1) \<Rightarrow>
               (case allow_request cfg now b1 of
                  (True, b2) \<Rightarrow> (Forward permit bulkhead True, s\<lparr>rs_breaker := Some b2\<rparr>)
                | (False, b2) \<Rightarrow> (RejectProbe, release_permits permit bulkhead (s\<lparr>rs_breaker := Some b2\<rparr>)))
           | (_, b1) \<Rightarrow> (Forward permit bulkhead False, s\<lparr>rs_breaker := Some b1\<rparr>)))"

definition admit_bulkhead :: "cb_config \<Rightarrow> instant \<Rightarrow> string \<Rightarrow> bool \<Rightarrow> resil \<Rightarrow> admission \<times> resil" where
  "admit_bulkhead cfg now path permit s =
     (case rs_bulkheads s of
        None \<Rightarrow> admit_probe cfg now permit None s
      | Some r \<Rightarrow>
          (case bulkhead_try_acquire r path of
             ((name, Some i), r') \<Rightarrow> admit_probe cfg now permit (Some i) (s\<lparr>rs_bulkheads := Some r'\<rparr>)
           | ((name, None), r') \<Rightarrow>
               if name = ''none'' then admit_probe cfg now permit None (s\<lparr>rs_bulkheads := Some r'\<rparr>)
               else (RejectBulkhead name, release_permits permit None (s\<lparr>rs_bulkheads := Some r'\<rparr>))))"

definition admit_capacity :: "cb_config \<Rightarrow> instant \<Rightarrow> string \<Rightarrow> resil \<Rightarrow> admission \<times> resil" where
  "admit_capacity cfg now path s =
     (case rs_limiter s of
        None \<Rightarrow> admit_bulkhead cfg now path False s
      | Some l \<Rightarrow>
          (case lim_try_acquire l of
             (True, l') \<Rightarrow> admit_bulkhead cfg now path True (s\<lparr>rs_limiter := Some l'\<rparr>)
           | (False, l') \<Rightarrow> (RejectCapacity, s\<lparr>rs_limiter := Some l'\<rparr>)))"

text \<open>\<open>now\<close> and \<open>now'\<close> are the two readings of the clock, before and after the capacity checks.\<close>
definition admit :: "cb_config \<Rightarrow> string list \<Rightarrow> instant \<Rightarrow> instant \<Rightarrow> string \<Rightarrow> resil \<Rightarrow> admission \<times> resil" where
  "admit cfg exempt now now' path s =
     (if list_ex (\<lambda>p. starts_with path p) exempt then (Exempt, s)
      else case rs_breaker s of
        None \<Rightarrow> admit_capacity cfg now' path s
      | Some b \<Rightarrow>
          (case observe_state cfg now b of
             (Open, b1) \<Rightarrow> (RejectOpen, s\<lparr>rs_breaker := Some b1\<rparr>)
           | (_, b1) \<Rightarrow> admit_capacity cfg now' path (s\<lparr>rs_breaker := Some b1\<rparr>)))"

text \<open>The response of a forwarded request; the permits are dropped when the future returns.\<close>
definition complete :: "cb_config \<Rightarrow> instant \<Rightarrow> admission \<Rightarrow> nat \<Rightarrow> resil \<Rightarrow> resil" where
  "complete cfg now adm status s =
     (case adm of
        Forward permit bulkhead probe \<Rightarrow>
          release_permits permit bulkhead
            (case rs_breaker s of
               None \<Rightarrow> s
             | Some b \<Rightarrow>
                 (let (track, b1) = (if probe then (True, b)
                        else (case observe_state cfg now b of (st, b') \<Rightarrow> (st = Closed, b')));
                      b2 = (if track then (if status \<ge> 500 then record_failure cfg now b1 else record_success cfg now b1)
                            else b1)
                  in s\<lparr>rs_breaker := Some (snd (observe_state cfg now b2))\<rparr>))
      | _ \<Rightarrow> s)"

text \<open>The inner service fails (\<open>svc.call(req).await?\<close>) or the future is dropped: only the permits
  are given back.\<close>
definition abort :: "admission \<Rightarrow> resil \<Rightarrow> resil" where
  "abort adm s = (case adm of Forward permit bulkhead probe \<Rightarrow> release_permits permit bulkhead s | _ \<Rightarrow> s)"

section \<open>Permits\<close>

locale permit_pool =
  fixes try_acquire :: "'p \<Rightarrow> bool \<times> 'p"
    and release :: "'p \<Rightarrow> 'p"
    and free :: "'p \<Rightarrow> nat"
    and capacity :: "'p \<Rightarrow> nat"
  assumes acquire_granted: "fst (try_acquire p) = (0 < free p)"
    and acquire_free: "free (snd (try_acquire p)) = free p - 1"
    and release_free: "free (release p) = Suc (free p)"
    and capacity_fixed: "capacity (snd (try_acquire p)) = capacity p" "capacity (release p) = capacity p"
begin

text \<open>A pool and the permits handed out and not yet dropped.\<close>
inductive uses :: "'p \<Rightarrow> nat \<Rightarrow> bool" where
  full: "free p = capacity p \<Longrightarrow> uses p 0"
| granted: "uses p n \<Longrightarrow> try_acquire p = (True, p') \<Longrightarrow> uses p' (Suc n)"
| refused: "uses p n \<Longrightarrow> try_acquire p = (False, p') \<Longrightarrow> uses p' n"
| dropped: "uses p (Suc n) \<Longrightarrow> uses (release p) n"

lemma permits_conserved: "uses p n \<Longrightarrow> free p + n = capacity p"
proof (induction rule: uses.induct)
  case (granted p n p')
  then show ?case using acquire_granted [of p] acquire_free [of p] capacity_fixed(1) [of p] by simp
next
  case (refused p n p')
  then show ?case using acquire_granted [of p] acquire_free [of p] capacity_fixed(1) [of p] by simp
qed (simp_all add: release_free capacity_fixed)

lemma never_over_capacity: "uses p n \<Longrightarrow> n \<le> capacity p"
  using permits_conserved by fastforce

lemma refused_only_when_full: "uses p n \<Longrightarrow> fst (try_acquire p) = False \<Longrightarrow> n = capacity p"
  using permits_conserved acquire_granted [of p] by fastforce

end

interpretation lim: permit_pool lim_try_acquire lim_release lim_available "\<lambda>l. unat (lim_max l)"
  by unfold_locales (auto simp: lim_try_acquire_def lim_release_def)

text \<open>Back-pressure: at most \<open>max_concurrent\<close> (at least one) requests hold a permit at any time, and a
  request is refused only when exactly that many do.\<close>
theorem limiter_bounded:
  assumes "lim.uses l n"
  shows "n \<le> unat (lim_max l) \<and> lim_in_flight l = n \<and> (fst (lim_try_acquire l) = False \<longrightarrow> n = unat (lim_max l))"
  using lim.permits_conserved [OF assms] lim.refused_only_when_full [OF assms]
  by (auto simp: lim_in_flight_def)

lemma limiter_new_uses: "lim.uses (limiter_new m) 0 \<and> 1 \<le> unat (lim_max (limiter_new m))"
proof -
  have "1 \<le> unat (max m (1 :: 32 word))" by (metis max.cobounded2 unat_1 word_le_nat_alt)
  then show ?thesis by (auto simp: limiter_new_def Let_def intro: lim.uses.full)
qed

lemma limiter_bounded_witness: "(0::nat) \<le> unat (lim_max (limiter_new 3)) \<and> lim_in_flight (limiter_new 3) = 0"
  using limiter_bounded [of "limiter_new 3" 0] limiter_new_uses [of 3] by simp

section \<open>Bulkheads are isolated\<close>

lemma find_index_Some: "find_index P xs = Some i \<Longrightarrow> i < length xs \<and> P (xs ! i) \<and> (\<forall>j < i. \<not> P (xs ! j))"
  by (induction xs arbitrary: i) (auto split: if_splits simp: less_Suc_eq_0_disj)

lemma find_index_None: "find_index P xs = None \<longleftrightarrow> (\<forall>x\<in>set xs. \<not> P x)"
  by (induction xs) auto

text \<open>Bulkhead isolation: a request only ever takes a permit from the first bulkhead whose prefix
  matches its path; every other bulkhead is untouched, and a request that matches none takes
  nothing.\<close>
theorem bulkhead_isolated:
  assumes "bulkhead_try_acquire r path = ((name, permit), r')"
  shows "length (bh_bulkheads r') = length (bh_bulkheads r) \<and>
    (\<forall>j < length (bh_bulkheads r). bh_bulkheads r' ! j \<noteq> bh_bulkheads r ! j \<longrightarrow>
       starts_with path (fst (bh_bulkheads r ! j)) \<and> (\<forall>k < j. \<not> starts_with path (fst (bh_bulkheads r ! k)))) \<and>
    (\<forall>i. permit = Some i \<longrightarrow> i < length (bh_bulkheads r) \<and>
       lim_available (snd (bh_bulkheads r' ! i)) + 1 = lim_available (snd (bh_bulkheads r ! i)))"
proof (cases "find_index (\<lambda>(pfx, _). starts_with path pfx) (bh_bulkheads r)")
  case None
  then show ?thesis using assms by (auto simp: bulkhead_try_acquire_def)
next
  case (Some i)
  note f = find_index_Some [OF this]
  obtain pfx l where pl: "bh_bulkheads r ! i = (pfx, l)" by fastforce
  obtain ok l' where ok: "lim_try_acquire l = (ok, l')" by fastforce
  have r': "r' = r\<lparr>bh_bulkheads := (bh_bulkheads r)[i := (pfx, l')]\<rparr>" "permit = (if ok then Some i else None)"
    using assms Some pl ok by (auto simp: bulkhead_try_acquire_def Let_def)
  have m: "starts_with path (fst (bh_bulkheads r ! i))" "\<forall>k < i. \<not> starts_with path (fst (bh_bulkheads r ! k))"
    using f by (auto simp: case_prod_unfold)
  have "\<forall>j < length (bh_bulkheads r). bh_bulkheads r' ! j \<noteq> bh_bulkheads r ! j \<longrightarrow> j = i"
    unfolding r' by simp (metis nth_list_update_neq)
  moreover have "ok \<Longrightarrow> lim_available l' + 1 = lim_available l"
    using ok by (auto simp: lim_try_acquire_def split: if_splits)
  ultimately show ?thesis using m f pl unfolding r' by auto
qed

section \<open>Refusals cost nothing\<close>

definition free_permits :: "resil \<Rightarrow> nat option \<times> nat list option" where
  "free_permits s = (map_option lim_available (rs_limiter s),
     map_option (\<lambda>r. map (\<lambda>(_, l). lim_available l) (bh_bulkheads r)) (rs_bulkheads s))"

fun is_forward :: "admission \<Rightarrow> bool" where
  "is_forward (Forward _ _ _) = True"
| "is_forward _ = False"

lemma lim_release_acquire: "lim_try_acquire l = (True, l') \<Longrightarrow> lim_available (lim_release l') = lim_available l"
  by (auto simp: lim_try_acquire_def lim_release_def split: if_splits)

lemma lim_acquire_refused: "lim_try_acquire l = (False, l') \<Longrightarrow> lim_available l' = lim_available l"
  by (auto simp: lim_try_acquire_def split: if_splits)

abbreviation avail :: "registry \<Rightarrow> nat list" where
  "avail r \<equiv> map (\<lambda>(_, l). lim_available l) (bh_bulkheads r)"

lemma bulkhead_refused_avail:
  "bulkhead_try_acquire r path = ((name, None), r') \<Longrightarrow> avail r' = avail r"
proof (cases "find_index (\<lambda>(pfx, _). starts_with path pfx) (bh_bulkheads r)")
  case (Some i)
  assume a: "bulkhead_try_acquire r path = ((name, None), r')"
  note f = find_index_Some [OF Some]
  obtain pfx l where pl: "bh_bulkheads r ! i = (pfx, l)" by fastforce
  obtain ok l' where ok: "lim_try_acquire l = (ok, l')" by fastforce
  have r': "r' = r\<lparr>bh_bulkheads := (bh_bulkheads r)[i := (pfx, l')]\<rparr>" "\<not> ok"
    using a Some pl ok by (auto simp: bulkhead_try_acquire_def Let_def split: if_splits)
  then have "lim_available l' = lim_available l" using ok lim_acquire_refused by simp
  then show ?thesis using f pl unfolding r' by (intro nth_equalityI) (auto simp: nth_list_update)
qed (auto simp: bulkhead_try_acquire_def)

lemma bulkhead_release_avail:
  "bulkhead_try_acquire r path = ((name, Some i), r') \<Longrightarrow> avail (bulkhead_release i r') = avail r"
proof -
  assume a: "bulkhead_try_acquire r path = ((name, Some i), r')"
  then have fi: "find_index (\<lambda>(pfx, _). starts_with path pfx) (bh_bulkheads r) = Some i"
    by (auto simp: bulkhead_try_acquire_def Let_def split: option.splits prod.splits if_splits)
  note f = find_index_Some [OF fi]
  obtain pfx l where pl: "bh_bulkheads r ! i = (pfx, l)" by fastforce
  obtain ok l' where ok: "lim_try_acquire l = (ok, l')" by fastforce
  have r': "r' = r\<lparr>bh_bulkheads := (bh_bulkheads r)[i := (pfx, l')]\<rparr>" "ok"
    using a fi pl ok by (auto simp: bulkhead_try_acquire_def Let_def split: if_splits)
  then have "lim_available (lim_release l') = lim_available l" using ok lim_release_acquire by simp
  then show ?thesis using f pl unfolding r' bulkhead_release_def
    by (intro nth_equalityI) (auto simp: nth_list_update)
qed

lemma allow_request_refused: "allow_request cfg now b = (False, b') \<Longrightarrow> b' = check_transition cfg now b"
  by (cases "cb_state (check_transition cfg now b)") (auto simp: allow_request_def Let_def split: if_splits)

lemma check_transition_idem:
  "check_transition cfg now (check_transition cfg now b) = check_transition cfg now b"
  by (cases "cb_state b") (auto simp: check_transition_def transition_to_def Let_def split: option.splits)

lemma admit_probe_rejected:
  assumes "admit_probe cfg now permit bulkhead s = (adm, s')" "\<not> is_forward adm"
  shows "s' = release_permits permit bulkhead (s\<lparr>rs_breaker := map_option (check_transition cfg now) (rs_breaker s)\<rparr>)"
proof (cases "rs_breaker s")
  case (Some b)
  obtain st b1 where o: "observe_state cfg now b = (st, b1)" by fastforce
  then have b1: "b1 = check_transition cfg now b" by (auto simp: observe_state_def Let_def)
  obtain ok b2 where al: "allow_request cfg now b1 = (ok, b2)" by fastforce
  have "st = HalfOpen \<and> \<not> ok" using assms Some o al by (cases st; cases ok) (auto simp: admit_probe_def)
  then show ?thesis using assms Some o al allow_request_refused [of cfg now b1 b2]
    by (auto simp: admit_probe_def b1 check_transition_idem)
qed (use assms in \<open>auto simp: admit_probe_def\<close>)

lemma admit_bulkhead_rejected:
  assumes "admit_bulkhead cfg now path permit s = (adm, s')" "\<not> is_forward adm"
  shows "snd (free_permits s') = snd (free_permits s) \<and>
    rs_limiter s' = (if permit then map_option lim_release (rs_limiter s) else rs_limiter s) \<and>
    rs_breaker s' \<in> {rs_breaker s, map_option (check_transition cfg now) (rs_breaker s)}"
proof (cases "rs_bulkheads s")
  case None
  then have "admit_probe cfg now permit None s = (adm, s')" using assms(1) by (simp add: admit_bulkhead_def)
  from admit_probe_rejected [OF this assms(2)] show ?thesis using None
    by (simp add: release_permits_def free_permits_def)
next
  case (Some r)
  obtain name permit' r' where b: "bulkhead_try_acquire r path = ((name, permit'), r')" by (metis surj_pair)
  show ?thesis
  proof (cases permit')
    case None
    then have av: "avail r' = avail r" using b bulkhead_refused_avail by simp
    show ?thesis
    proof (cases "name = ''none''")
      case True
      then have "admit_probe cfg now permit None (s\<lparr>rs_bulkheads := Some r'\<rparr>) = (adm, s')"
        using assms(1) Some b None by (simp add: admit_bulkhead_def)
      from admit_probe_rejected [OF this assms(2)] show ?thesis using Some av
        by (simp add: release_permits_def free_permits_def)
    next
      case False
      then show ?thesis using assms(1) Some b None av
        by (auto simp: admit_bulkhead_def release_permits_def free_permits_def)
    qed
  next
    case (Some i)
    then have av: "avail (bulkhead_release i r') = avail r" using b bulkhead_release_avail by simp
    have "admit_probe cfg now permit (Some i) (s\<lparr>rs_bulkheads := Some r'\<rparr>) = (adm, s')"
      using assms(1) \<open>rs_bulkheads s = Some r\<close> b Some by (simp add: admit_bulkhead_def)
    from admit_probe_rejected [OF this assms(2)] show ?thesis using \<open>rs_bulkheads s = Some r\<close> av
      by (simp add: release_permits_def free_permits_def)
  qed
qed

text \<open>A refused request costs nothing: whichever stage refuses it, every limiter has as many free
  permits as before, and the breaker has at most noticed that its open period is over; no probe
  slot is consumed.\<close>
theorem refusal_is_free:
  assumes "admit cfg exempt now now' path s = (adm, s')" "\<not> is_forward adm"
  shows "free_permits s' = free_permits s \<and>
    rs_breaker s' \<in> {rs_breaker s, map_option (check_transition cfg now) (rs_breaker s),
      map_option (\<lambda>b. check_transition cfg now' (check_transition cfg now b)) (rs_breaker s),
      map_option (check_transition cfg now') (rs_breaker s)}"
proof -
  have cap: "free_permits s2 = free_permits s1 \<and>
      rs_breaker s2 \<in> {rs_breaker s1, map_option (check_transition cfg now') (rs_breaker s1)}"
    if "admit_capacity cfg now' path s1 = (adm, s2)" for s1 s2
  proof (cases "rs_limiter s1")
    case None
    then have "admit_bulkhead cfg now' path False s1 = (adm, s2)" using that by (simp add: admit_capacity_def)
    from admit_bulkhead_rejected [OF this assms(2)] None show ?thesis by (auto simp: free_permits_def)
  next
    case (Some l)
    obtain ok l' where ok: "lim_try_acquire l = (ok, l')" by fastforce
    show ?thesis
    proof (cases ok)
      case True
      then have "admit_bulkhead cfg now' path True (s1\<lparr>rs_limiter := Some l'\<rparr>) = (adm, s2)"
        using that Some ok by (simp add: admit_capacity_def)
      from admit_bulkhead_rejected [OF this assms(2)] show ?thesis
        using Some ok True lim_release_acquire by (auto simp: free_permits_def)
    next
      case False
      then show ?thesis using that Some ok lim_acquire_refused by (auto simp: admit_capacity_def free_permits_def)
    qed
  qed
  show ?thesis
  proof (cases "list_ex (\<lambda>p. starts_with path p) exempt")
    case True
    then show ?thesis using assms(1) by (simp add: admit_def)
  next
    case False
    show ?thesis
    proof (cases "rs_breaker s")
      case None
      then show ?thesis using assms(1) False cap [of s s'] by (auto simp: admit_def)
    next
      case (Some b)
      obtain st b1 where o: "observe_state cfg now b = (st, b1)" by fastforce
      then have b1: "b1 = check_transition cfg now b" by (auto simp: observe_state_def Let_def)
      let ?s1 = "s\<lparr>rs_breaker := Some b1\<rparr>"
      have f: "free_permits ?s1 = free_permits s" by (simp add: free_permits_def)
      show ?thesis
      proof (cases "st = Open")
        case True
        then show ?thesis using assms(1) False Some o f by (auto simp: admit_def b1)
      next
        case False
        then have "admit_capacity cfg now' path ?s1 = (adm, s')"
          using assms(1) \<open>\<not> list_ex _ _\<close> Some o by (cases st) (auto simp: admit_def)
        from cap [OF this] show ?thesis using Some f by (auto simp: b1)
      qed
    qed
  qed
qed

text \<open>A request whose inner service fails gives its permits back but not its probe slot: after
  \<open>half_open_max_probes\<close> such requests a half-open breaker refuses every later probe, forever.\<close>
theorem aborted_probes_jam:
  assumes "rs_breaker s = Some b" "cb_state b = HalfOpen" "cb_probe_count b = half_open_max_probes cfg"
  shows "rs_breaker (abort (Forward permit bulkhead True) s) = Some b \<and>
    admit_probe cfg t permit' bulkhead' s = (RejectProbe, release_permits permit' bulkhead' s)"
proof -
  have s: "s\<lparr>rs_breaker := Some b\<rparr> = s" using assms(1) by (cases s) simp
  have "admit_probe cfg t permit' bulkhead' s = (RejectProbe, release_permits permit' bulkhead' s)"
    using assms by (simp add: s admit_probe_def observe_state_def check_transition_def allow_request_def)
  then show ?thesis using assms(1) by (simp add: abort_def release_permits_def)
qed

definition demo_resil :: resil where
  "demo_resil = \<lparr>rs_limiter = Some (limiter_new 1), rs_bulkheads = Some (bulkheads_from_configs
     [\<lparr>bc_name = ''oauth'', bc_path_prefix = ''/oauth'', bc_max_concurrent = 2\<rparr>]),
     rs_breaker = Some (cb_new\<lparr>cb_state := HalfOpen, cb_probe_count := 3\<rparr>)\<rparr>"

lemma refusal_is_free_witness:
  "case admit cb_config_default [] 5 6 ''/oauth/token'' demo_resil of (adm, s') \<Rightarrow>
     adm = RejectProbe \<and> free_permits s' = (Some 1, Some [2])"
proof -
  have a: "admit cb_config_default [] 5 6 ''/oauth/token'' demo_resil = (RejectProbe, demo_resil)"
    by (simp add: admit_def admit_capacity_def admit_bulkhead_def admit_probe_def demo_resil_def
        limiter_new_def lim_try_acquire_def bulkheads_from_configs_def bulkhead_try_acquire_def starts_with_def
        interned_name_def release_permits_def bulkhead_release_def lim_release_def observe_state_def
        check_transition_def allow_request_def cb_config_default_def cb_new_def max_def Let_def)
  from refusal_is_free [OF this] have "free_permits demo_resil = free_permits demo_resil" by simp
  with a show ?thesis
    by (simp add: demo_resil_def free_permits_def limiter_new_def bulkheads_from_configs_def)
qed

lemma bulkhead_isolated_witness:
  "\<exists>name permit r'. bulkhead_try_acquire (bulkheads_from_configs
       [\<lparr>bc_name = ''oauth'', bc_path_prefix = ''/oauth'', bc_max_concurrent = 2\<rparr>,
        \<lparr>bc_name = ''admin'', bc_path_prefix = ''/admin'', bc_max_concurrent = 2\<rparr>]) ''/admin/x'' = ((name, permit), r') \<and>
     length (bh_bulkheads r') = 2"
proof -
  let ?r = "bulkheads_from_configs [\<lparr>bc_name = ''oauth'', bc_path_prefix = ''/oauth'', bc_max_concurrent = 2\<rparr>,
        \<lparr>bc_name = ''admin'', bc_path_prefix = ''/admin'', bc_max_concurrent = 2\<rparr>]"
  obtain name permit r' where b: "bulkhead_try_acquire ?r ''/admin/x'' = ((name, permit), r')" by (metis surj_pair)
  from bulkhead_isolated [OF b] b show ?thesis by (auto simp: bulkheads_from_configs_def)
qed

lemma aborted_probes_jam_witness:
  "admit_probe cb_config_default 9 True None demo_resil = (RejectProbe, release_permits True None demo_resil)"
  using aborted_probes_jam [of demo_resil "cb_new\<lparr>cb_state := HalfOpen, cb_probe_count := 3\<rparr>" cb_config_default True None 9 True None]
  by (simp add: demo_resil_def cb_config_default_def cb_new_def)

end
