(* ===== verification/Replay_Guards.thy ===== *)
theory Replay_Guards
  imports Sql_Storage
begin

text \<open>
  The two replay guards: the process-wide guard of client-assertion identifiers
  (\<open>security/jti_replay.rs\<close>) and the DPoP proof store (\<open>handlers/dpop.rs\<close>).  Both satisfy one
  contract, the locale \<open>replay_guard\<close>: what was accepted is refused for as long as it is
  retained, unless a full guard has to make room.

  A \<open>HashMap\<close> is an association list with distinct keys.  Its iteration order is not
  specified, so the entry the full guard drops is the value of an argument \<open>first_key\<close>.
\<close>

section \<open>Client-assertion identifiers\<close>

type_synonym seen_map = "(string \<times> instant) list"

datatype observe_result = Fresh | Replay

record jti_guard =
  jg_seen :: seen_map
  jg_max_entries :: nat

definition guard_with_capacity :: "nat \<Rightarrow> jti_guard" where
  "guard_with_capacity n = \<lparr>jg_seen = [], jg_max_entries = max n 1\<rparr>"

definition guard_default :: jti_guard where
  "guard_default = guard_with_capacity 100000"

definition live_entries :: "instant \<Rightarrow> seen_map \<Rightarrow> seen_map" where
  "live_entries now xs = filter (\<lambda>(_, ex). ex > now) xs"

definition remove_key :: "string \<Rightarrow> seen_map \<Rightarrow> seen_map" where
  "remove_key k xs = filter (\<lambda>(k', _). k' \<noteq> k) xs"

definition jti_key :: "string \<Rightarrow> string \<Rightarrow> string" where
  "jti_key client_id jti = client_id @ CHR 0x00 # jti"

definition observe ::
  "(seen_map \<Rightarrow> string option) \<Rightarrow> instant \<Rightarrow> string \<Rightarrow> string \<Rightarrow> instant \<Rightarrow> jti_guard \<Rightarrow> observe_result \<times> jti_guard" where
  "observe first_key now client_id jti ttl0 g =
     (let ttl = min ttl0 (secs 300); expires_at = now + ttl; key = jti_key client_id jti;
          seen = live_entries now (jg_seen g)
      in if (case map_of seen key of Some existing \<Rightarrow> existing > now | None \<Rightarrow> False)
         then (Replay, g\<lparr>jg_seen := seen\<rparr>)
         else let seen1 = (if length seen \<ge> jg_max_entries g
                           then (case first_key seen of Some k \<Rightarrow> remove_key k seen | None \<Rightarrow> seen)
                           else seen)
              in (Fresh, g\<lparr>jg_seen := (key, expires_at) # remove_key key seen1\<rparr>))"

section \<open>DPoP proof identifiers\<close>

record dpop_store =
  ds_memory :: seen_map
  ds_storage :: bool

definition replay_error :: oauth2_error where
  "replay_error = error_new ''invalid_dpop_proof'' (Some ''DPoP proof jti has already been used (replay)'')"

definition check_and_insert_in_memory :: "instant \<Rightarrow> string \<Rightarrow> instant \<Rightarrow> seen_map \<Rightarrow> unit result \<times> seen_map" where
  "check_and_insert_in_memory now jti expiry store =
     (let s = live_entries now store in
      if list_ex (\<lambda>(k, _). k = jti) s then (Inl replay_error, s)
      else (Inr (), (jti, expiry) # s))"

text \<open>The in-memory map first, then the configured storage; the monotonic and the wall clock are
  read separately.\<close>
definition check_and_insert ::
  "instant \<Rightarrow> instant \<Rightarrow> string \<Rightarrow> instant \<Rightarrow> dpop_store \<Rightarrow> db \<Rightarrow> unit result \<times> dpop_store \<times> db" where
  "check_and_insert now wall jti ttl st d =
     (case check_and_insert_in_memory now jti (now + ttl) (ds_memory st) of
        (Inl e, mem) \<Rightarrow> (Inl e, st\<lparr>ds_memory := mem\<rparr>, d)
      | (Inr _, mem) \<Rightarrow>
          (let st1 = st\<lparr>ds_memory := mem\<rparr> in
           if ds_storage st then
             (case dpop_jti_check_and_insert wall jti (wall + ttl) d of
                (Inl e, d1) \<Rightarrow> (Inl e, st1, d1)
              | (Inr fresh, d1) \<Rightarrow> (if fresh then Inr () else Inl replay_error, st1, d1))
           else (Inr (), st1, d)))"

section \<open>The contract\<close>

locale replay_guard =
  fixes accept :: "instant \<Rightarrow> 'k \<Rightarrow> instant \<Rightarrow> 's \<Rightarrow> bool \<times> 's"
    and retention :: "instant \<Rightarrow> instant"
    and remembered :: "'s \<Rightarrow> 'k \<Rightarrow> instant \<Rightarrow> bool"
    and roomy :: "nat \<Rightarrow> 's \<Rightarrow> bool"
  assumes accepted_remembered:
      "fst (accept t k ttl s) \<Longrightarrow> u < t + retention ttl \<Longrightarrow> remembered (snd (accept t k ttl s)) k u"
    and remembered_refused: "remembered s k u \<Longrightarrow> \<not> fst (accept u k ttl s)"
    and remembered_kept:
      "remembered s k u \<Longrightarrow> t \<le> u \<Longrightarrow> roomy (Suc n) s \<Longrightarrow> remembered (snd (accept t k' ttl s)) k u"
    and room_shrinks: "roomy (Suc n) s \<Longrightarrow> roomy n (snd (accept t k' ttl s))"
begin

definition run_accepts :: "(instant \<times> 'k \<times> instant) list \<Rightarrow> 's \<Rightarrow> 's" where
  "run_accepts = fold (\<lambda>(t, k, ttl) s. snd (accept t k ttl s))"

lemma remembered_run:
  "remembered s k u \<Longrightarrow> \<forall>(t, _, _) \<in> set obs. t \<le> u \<Longrightarrow> roomy (length obs) s \<Longrightarrow> remembered (run_accepts obs s) k u"
proof (induction obs arbitrary: s)
  case (Cons ob obs)
  obtain t k' ttl where ob: "ob = (t, k', ttl)" by (cases ob)
  have "remembered (snd (accept t k' ttl s)) k u"
    using Cons.prems ob by (intro remembered_kept [where n = "length obs"]) auto
  moreover have "roomy (length obs) (snd (accept t k' ttl s))" using Cons.prems(3) room_shrinks by simp
  ultimately show ?case using Cons.IH Cons.prems(2) ob by (simp add: run_accepts_def)
qed (simp add: run_accepts_def)

lemma replay_refused:
  assumes "fst (accept t k ttl s)" "u < t + retention ttl" "\<forall>(t', _, _) \<in> set obs. t' \<le> u"
    and "roomy (length obs) (snd (accept t k ttl s))"
  shows "\<not> fst (accept u k ttl' (run_accepts obs (snd (accept t k ttl s))))"
  by (rule remembered_refused [OF remembered_run [OF accepted_remembered [OF assms(1,2)] assms(3,4)]])

end

section \<open>Both guards keep the contract\<close>

definition guard_accept ::
  "(seen_map \<Rightarrow> string option) \<Rightarrow> instant \<Rightarrow> string \<times> string \<Rightarrow> instant \<Rightarrow> jti_guard \<Rightarrow> bool \<times> jti_guard" where
  "guard_accept fk t k ttl g = (case observe fk t (fst k) (snd k) ttl g of (r, g') \<Rightarrow> (r = Fresh, g'))"

definition guard_remembers :: "jti_guard \<Rightarrow> string \<times> string \<Rightarrow> instant \<Rightarrow> bool" where
  "guard_remembers g k u = (\<exists>e. map_of (jg_seen g) (jti_key (fst k) (snd k)) = Some e \<and> u < e)"

definition guard_room :: "nat \<Rightarrow> jti_guard \<Rightarrow> bool" where
  "guard_room n g = (length (jg_seen g) + n \<le> jg_max_entries g)"

definition memory_accept :: "instant \<Rightarrow> string \<Rightarrow> instant \<Rightarrow> seen_map \<Rightarrow> bool \<times> seen_map" where
  "memory_accept t k ttl s = (case check_and_insert_in_memory t k (t + ttl) s of (r, s') \<Rightarrow> (\<not> isl r, s'))"

definition memory_remembers :: "seen_map \<Rightarrow> string \<Rightarrow> instant \<Rightarrow> bool" where
  "memory_remembers s k u = (\<exists>e. map_of s k = Some e \<and> u < e)"

lemma in_live [simp]: "(k, e) \<in> set (live_entries now xs) \<longleftrightarrow> (k, e) \<in> set xs \<and> now < e"
  by (auto simp: live_entries_def)

lemma in_remove [simp]: "(k', e) \<in> set (remove_key k xs) \<longleftrightarrow> (k', e) \<in> set xs \<and> k' \<noteq> k"
  by (auto simp: remove_key_def)

lemma map_of_live: "map_of xs k = Some e \<Longrightarrow> now < e \<Longrightarrow> map_of (live_entries now xs) k = Some e"
  by (induction xs) (auto simp: live_entries_def split: if_splits)

lemma map_of_remove: "map_of (remove_key k xs) k' = (if k' = k then None else map_of xs k')"
  by (induction xs) (auto simp: remove_key_def)

lemma length_live: "length (live_entries now xs) \<le> length xs"
  by (simp add: live_entries_def)

lemma length_remove: "length (remove_key k xs) \<le> length xs"
  by (simp add: remove_key_def)

lemma observe_replay_iff:
  "fst (observe fk t c j ttl g) = Replay \<longleftrightarrow> (\<exists>e. map_of (live_entries t (jg_seen g)) (jti_key c j) = Some e)"
proof -
  have "t < e" if "map_of (live_entries t (jg_seen g)) k = Some e" for k e
    using map_of_SomeD [OF that] by simp
  then show ?thesis by (auto simp: observe_def Let_def split: option.splits)
qed

lemma observe_fresh:
  "fst (observe fk t c j ttl g) = Fresh \<Longrightarrow>
   map_of (jg_seen (snd (observe fk t c j ttl g))) (jti_key c j) = Some (t + min ttl (secs 300))"
  by (auto simp: observe_def Let_def split: option.splits if_splits)

lemma observe_kept:
  assumes "map_of (jg_seen g) k = Some e" "t < e" "length (jg_seen g) < jg_max_entries g"
  shows "map_of (jg_seen (snd (observe fk t c j ttl g))) k = Some e"
proof -
  note m = map_of_live [OF assms(1,2)]
  have "\<not> jg_max_entries g \<le> length (live_entries t (jg_seen g))"
    using length_live [of t "jg_seen g"] assms(3) by linarith
  then show ?thesis
    using m assms(2) by (cases "jti_key c j = k") (auto simp: observe_def Let_def map_of_remove split: option.splits)
qed

lemma observe_length:
  "length (jg_seen (snd (observe fk t c j ttl g))) \<le> Suc (length (jg_seen g))"
proof -
  let ?s = "live_entries t (jg_seen g)"
  have "length (remove_key k (remove_key k' ?s)) \<le> length (jg_seen g)"
    "length (remove_key k ?s) \<le> length (jg_seen g)" for k k'
    using length_live [of t "jg_seen g"] length_remove [of k ?s] length_remove [of k' ?s]
      length_remove [of k "remove_key k' ?s"] by linarith+
  then show ?thesis using length_live [of t "jg_seen g"] by (auto simp: observe_def Let_def split: option.splits)
qed

lemma observe_max [simp]: "jg_max_entries (snd (observe fk t c j ttl g)) = jg_max_entries g"
  by (simp add: observe_def Let_def)

interpretation jti: replay_guard "guard_accept fk" "\<lambda>ttl. min ttl (secs 300)" guard_remembers guard_room
proof
  fix t k ttl s u
  assume "fst (guard_accept fk t k ttl s)" "u < t + min ttl (secs 300)"
  then show "guard_remembers (snd (guard_accept fk t k ttl s)) k u"
    using observe_fresh [of fk t "fst k" "snd k" ttl s]
    by (auto simp: guard_accept_def guard_remembers_def split: prod.splits)
next
  fix s k u ttl
  assume "guard_remembers s k u"
  then show "\<not> fst (guard_accept fk u k ttl s)"
    using observe_replay_iff [of fk u "fst k" "snd k" ttl s] map_of_live
    by (fastforce simp: guard_accept_def guard_remembers_def split: prod.splits)
next
  fix s k u t n k' ttl
  assume "guard_remembers s k u" "t \<le> u" "guard_room (Suc n) s"
  then show "guard_remembers (snd (guard_accept fk t k' ttl s)) k u"
    using observe_kept [of s "jti_key (fst k) (snd k)" _ t fk "fst k'" "snd k'" ttl]
    by (fastforce simp: guard_accept_def guard_remembers_def guard_room_def split: prod.splits)
next
  fix n s t k' ttl
  assume "guard_room (Suc n) s"
  then show "guard_room n (snd (guard_accept fk t k' ttl s))"
    using observe_length [of fk t "fst k'" "snd k'" ttl s] by (simp add: guard_accept_def guard_room_def case_prod_unfold)
qed

lemma memory_refuses: "map_of s k = Some e \<Longrightarrow> u < e \<Longrightarrow> \<not> fst (memory_accept u k ttl s)"
  using map_of_SomeD [OF map_of_live, of s k e u]
  by (auto simp: memory_accept_def check_and_insert_in_memory_def list_ex_iff Let_def)

lemma memory_keeps:
  "map_of s k = Some e \<Longrightarrow> t < e \<Longrightarrow> map_of (snd (memory_accept t k' ttl s)) k = Some e"
  using map_of_live [of s k e t] map_of_SomeD [OF map_of_live, of s k e t]
  by (fastforce simp: memory_accept_def check_and_insert_in_memory_def list_ex_iff Let_def)

interpretation mem: replay_guard memory_accept "\<lambda>ttl. ttl" memory_remembers "\<lambda>_ _. True"
proof
  fix t k ttl s u
  assume "fst (memory_accept t k ttl s)" "u < t + ttl"
  then show "memory_remembers (snd (memory_accept t k ttl s)) k u"
    by (auto simp: memory_accept_def check_and_insert_in_memory_def memory_remembers_def Let_def split: if_splits)
qed (use memory_refuses memory_keeps in \<open>fastforce simp: memory_remembers_def\<close>)+

section \<open>The assertion guard\<close>

fun observe_all ::
  "(seen_map \<Rightarrow> string option) \<Rightarrow> (instant \<times> (string \<times> string) \<times> instant) list \<Rightarrow> jti_guard \<Rightarrow> jti_guard" where
  "observe_all fk [] g = g"
| "observe_all fk ((t, (c, j), ttl) # obs) g = observe_all fk obs (snd (observe fk t c j ttl g))"

lemma observe_all_run: "observe_all fk obs g = jti.run_accepts fk obs g"
  by (induction fk obs g rule: observe_all.induct)
    (simp_all add: jti.run_accepts_def, simp add: guard_accept_def case_prod_unfold)

text \<open>C16. Replay protection of client assertions: an identifier observed as fresh is reported as a
  replay at every later instant before its lifetime (at most 300 seconds) has passed, whatever
  is observed in between, as long as the guard has room for it.\<close>
theorem assertion_replay_refused:
  assumes "observe fk t c j ttl g = (Fresh, g')" "u < t + min ttl (secs 300)"
    and "\<forall>ob \<in> set obs. fst ob \<le> u" "length (jg_seen g') + length obs \<le> jg_max_entries g'"
  shows "fst (observe fk u c j ttl' (observe_all fk obs g')) = Replay"
proof -
  have a: "guard_accept fk t (c, j) ttl g = (True, g')" using assms(1) by (simp add: guard_accept_def)
  have "\<not> fst (guard_accept fk u (c, j) ttl' (jti.run_accepts fk obs g'))"
    using jti.replay_refused [of fk t "(c, j)" ttl g u obs ttl'] a assms(2-) by (auto simp: guard_room_def case_prod_unfold)
  then have "fst (observe fk u c j ttl' (observe_all fk obs g')) \<noteq> Fresh"
    by (auto simp: guard_accept_def observe_all_run split: prod.splits)
  then show ?thesis by (cases "fst (observe fk u c j ttl' (observe_all fk obs g'))") auto
qed

lemma assertion_replay_refused_witness:
  "fst (observe (\<lambda>_. None) (secs 10) ''c'' ''j'' (secs 60)
     (observe_all (\<lambda>_. None) [(secs 5, (''d'', ''j''), secs 60)]
        (snd (observe (\<lambda>_. None) 0 ''c'' ''j'' (secs 60) guard_default)))) = Replay"
proof -
  let ?g = "snd (observe (\<lambda>_. None) 0 ''c'' ''j'' (secs 60) guard_default)"
  have o: "observe (\<lambda>_. None) 0 ''c'' ''j'' (secs 60) guard_default = (Fresh, ?g)"
    by (simp add: observe_def guard_default_def guard_with_capacity_def live_entries_def Let_def)
  show ?thesis
    by (rule assertion_replay_refused [OF o])
      (simp_all add: secs_def observe_def guard_default_def guard_with_capacity_def live_entries_def
        remove_key_def Let_def)
qed

lemma forget_head:
  "xs = (k, t) # tl xs \<Longrightarrow> map_of (tl xs) k = None \<Longrightarrow> map_of (live_entries t xs) k = None"
proof -
  assume "xs = (k, t) # tl xs" "map_of (tl xs) k = None"
  then have "\<forall>e. (k, e) \<in> set xs \<longrightarrow> e = t" by (metis map_of_eq_None_iff fst_conv image_eqI set_ConsD prod.inject)
  then have "k \<notin> fst ` set (live_entries t xs)" by auto
  then show ?thesis by (simp add: map_of_eq_None_iff)
qed

text \<open>The guard forgets too early: it caps every lifetime at 300 seconds, so the identifier of an
  assertion that is valid for longer is fresh again 300 seconds after it was used.\<close>
theorem long_assertion_replayable:
  assumes "observe fk t c j ttl g = (Fresh, g')" "secs 300 < ttl"
  shows "fst (observe fk (t + secs 300) c j (ttl - secs 300) g') = Fresh \<and> 0 < ttl - secs 300"
proof -
  have "jg_seen g' = (jti_key c j, t + secs 300) # tl (jg_seen g')" "map_of (tl (jg_seen g')) (jti_key c j) = None"
    using assms by (auto simp: observe_def Let_def map_of_remove split: option.splits if_splits)
  then have "map_of (live_entries (t + secs 300) (jg_seen g')) (jti_key c j) = None"
    by (metis (no_types, lifting) forget_head)
  then have "fst (observe fk (t + secs 300) c j (ttl - secs 300) g') \<noteq> Replay" by (simp add: observe_replay_iff)
  then show ?thesis
    using assms(2) by (cases "fst (observe fk (t + secs 300) c j (ttl - secs 300) g')") auto
qed

lemma long_assertion_replayable_witness:
  "fst (observe (\<lambda>_. None) (secs 300) ''c'' ''j'' (secs 3300)
     (snd (observe (\<lambda>_. None) 0 ''c'' ''j'' (secs 3600) guard_default))) = Fresh"
proof -
  let ?g = "snd (observe (\<lambda>_. None) 0 ''c'' ''j'' (secs 3600) guard_default)"
  have "observe (\<lambda>_. None) 0 ''c'' ''j'' (secs 3600) guard_default = (Fresh, ?g)"
    by (simp add: observe_def guard_default_def guard_with_capacity_def live_entries_def Let_def)
  from long_assertion_replayable [OF this] show ?thesis by (simp add: secs_def)
qed

section \<open>The guard's memory\<close>

lemma evict_shorter: "k \<in> fst ` set xs \<Longrightarrow> length (remove_key k xs) < length xs"
  by (auto simp: remove_key_def intro!: length_filter_less)

lemma observe_bounded:
  assumes fk: "\<forall>xs. xs \<noteq> [] \<longrightarrow> (\<exists>k. fk xs = Some k \<and> k \<in> fst ` set xs)"
    and g: "length (jg_seen g) \<le> jg_max_entries g" "1 \<le> jg_max_entries g"
  shows "length (jg_seen (snd (observe fk t c j ttl g))) \<le> jg_max_entries g"
proof -
  let ?s = "live_entries t (jg_seen g)" and ?k = "jti_key c j"
  note ls = length_live [of t "jg_seen g"]
  have "length (remove_key ?k (case fk ?s of Some k \<Rightarrow> remove_key k ?s | None \<Rightarrow> ?s)) < jg_max_entries g"
    if "jg_max_entries g \<le> length ?s"
  proof -
    have "?s \<noteq> []" using that g(2) by auto
    then obtain k where k: "fk ?s = Some k" "k \<in> fst ` set ?s" using fk by blast
    then show ?thesis
      using evict_shorter [OF k(2)] length_remove [of ?k "remove_key k ?s"] ls g(1) by simp
  qed
  moreover have "length (remove_key ?k ?s) < jg_max_entries g" if "\<not> jg_max_entries g \<le> length ?s"
    using that length_remove [of ?k ?s] by simp
  ultimately show ?thesis using ls g(1) by (auto simp: observe_def Let_def)
qed

text \<open>The guard's memory bound: it never holds more entries than its capacity, if the entry a full
  guard drops is one of its entries.\<close>
theorem guard_bounded:
  assumes "\<forall>xs. xs \<noteq> [] \<longrightarrow> (\<exists>k. fk xs = Some k \<and> k \<in> fst ` set xs)"
  shows "length (jg_seen (observe_all fk obs (guard_with_capacity n))) \<le> max n 1"
proof -
  have "length (jg_seen (observe_all fk obs g)) \<le> jg_max_entries g"
    if "length (jg_seen g) \<le> jg_max_entries g" "1 \<le> jg_max_entries g" for g
    using that assms by (induction fk obs g rule: observe_all.induct) (auto simp: observe_bounded)
  from this [of "guard_with_capacity n"] show ?thesis by (simp add: guard_with_capacity_def)
qed

lemma guard_bounded_witness:
  "length (jg_seen (observe_all (\<lambda>xs. case xs of [] \<Rightarrow> None | e # _ \<Rightarrow> Some (fst e))
     [(0, (''c'', ''j''), secs 60), (1, (''c'', ''k''), secs 60)] (guard_with_capacity 0))) \<le> max 0 1"
  by (rule guard_bounded) (auto split: list.splits)

end
