(* ===== verification/Dpop.thy ===== *)
theory Dpop
  imports Replay_Guards Key_Set
begin

text \<open>
  DPoP proof validation (\<open>handlers/dpop.rs\<close>) and the stateless nonces of \<open>handlers/dpop_nonce.rs\<close>.
  The JOSE library is the record \<open>jose\<close>, the HMAC and base64 functions are the record
  \<open>nonce_lib\<close>; JSON, SHA-256 and base64url of the thumbprints are in \<open>libs\<close>.
\<close>

section \<open>Proofs\<close>

datatype jws_alg = AHS256 | AHS384 | AHS512 | ARS256 | ARS384 | ARS512 | APS256 | APS384 | APS512
  | AES256 | AES384 | AEdDSA

datatype jose_key = RsaComponents string string | EcComponents string string

record jose_header =
  jh_alg :: jws_alg
  jh_typ :: "string option"
  jh_kid :: "string option"
  jh_jwk :: "json option"

record dpop_claims =
  dc_htm :: string
  dc_htu :: string
  dc_iat :: int
  dc_jti :: string
  dc_nonce :: "string option"
  dc_ath :: "string option"

record jose =
  jose_header_of :: "string \<Rightarrow> jose_header option"
  jose_key_ok :: "jose_key \<Rightarrow> string + unit"
  jose_dpop_decode :: "jws_alg \<Rightarrow> jose_key \<Rightarrow> string \<Rightarrow> string + dpop_claims"

record dpop_validated =
  dv_jkt :: string
  dv_nonce :: "string option"

definition invalid_dpop_proof :: "string \<Rightarrow> oauth2_error" where
  "invalid_dpop_proof d = error_new ''invalid_dpop_proof'' (Some d)"

definition build_request_url_bounded :: "string \<Rightarrow> string \<Rightarrow> string \<Rightarrow> string result" where
  "build_request_url_bounded scheme host path =
     (if length scheme > 16 then Inl (invalid_request ''Request scheme is too long'')
      else if length host > 270 then Inl (invalid_request ''Request Host header is too long'')
      else if length path > 2048 then Inl (invalid_request ''Request path is too long'')
      else Inr (scheme @ ''://'' @ host @ path))"

text \<open>The first \<open>?\<close>, or the first \<open>#\<close> when there is no \<open>?\<close>.\<close>
definition strip_query :: "string \<Rightarrow> string" where
  "strip_query url =
     (let cut = (if CHR ''?'' \<in> set url then takeWhile (\<lambda>c. c \<noteq> CHR ''?'') url
                 else takeWhile (\<lambda>c. c \<noteq> CHR ''#'') url)
      in rev (dropWhile (\<lambda>c. c = CHR ''/'') (rev cut)))"

definition compute_ath :: "libs \<Rightarrow> string \<Rightarrow> string" where
  "compute_ath L access_token = sha256_b64url L access_token"

definition jwk_member :: "json \<Rightarrow> string \<Rightarrow> string \<Rightarrow> json result" where
  "jwk_member jwk m err = ok_or (json_get jwk m) (invalid_dpop_proof err)"

definition build_jwk_canonical :: "libs \<Rightarrow> json \<Rightarrow> string result" where
  "build_jwk_canonical L jwk =
     bindR (ok_or (Option.bind (json_get jwk ''kty'') as_str) (invalid_dpop_proof ''JWK missing kty'')) (\<lambda>kty.
     map_sum id (json_to_string L)
       (if kty = ''EC'' then
          bindR (jwk_member jwk ''crv'' ''EC JWK missing crv'') (\<lambda>crv.
          bindR (jwk_member jwk ''x'' ''EC JWK missing x'') (\<lambda>x.
          bindR (jwk_member jwk ''y'' ''EC JWK missing y'') (\<lambda>y.
            Inr (JObj [(''crv'', crv), (''kty'', JStr kty), (''x'', x), (''y'', y)]))))
        else if kty = ''RSA'' then
          bindR (jwk_member jwk ''e'' ''RSA JWK missing e'') (\<lambda>e.
          bindR (jwk_member jwk ''n'' ''RSA JWK missing n'') (\<lambda>n.
            Inr (JObj [(''e'', e), (''kty'', JStr kty), (''n'', n)])))
        else if kty = ''OKP'' then
          bindR (jwk_member jwk ''crv'' ''OKP JWK missing crv'') (\<lambda>crv.
          bindR (jwk_member jwk ''x'' ''OKP JWK missing x'') (\<lambda>x.
            Inr (JObj [(''crv'', crv), (''kty'', JStr kty), (''x'', x)])))
        else Inl (invalid_dpop_proof ''Unsupported JWK key type'')))"

definition compute_jkt :: "libs \<Rightarrow> json \<Rightarrow> string result" where
  "compute_jkt L jwk = map_sum id (sha256_b64url L) (build_jwk_canonical L jwk)"

definition jwk_str :: "json \<Rightarrow> string \<Rightarrow> string \<Rightarrow> string result" where
  "jwk_str jwk m err = ok_or (Option.bind (json_get jwk m) as_str) (invalid_dpop_proof err)"

definition quoted :: "string \<Rightarrow> string" where
  "quoted s = [CHR 0x27] @ s @ [CHR 0x27]"

definition dpop_decoding_key :: "jose \<Rightarrow> jws_alg \<Rightarrow> json \<Rightarrow> jose_key result" where
  "dpop_decoding_key J alg jwk =
     (if alg \<in> {ARS256, ARS384, ARS512, APS256, APS384, APS512} then
        bindR (jwk_str jwk ''n'' (''RSA JWK missing '' @ quoted ''n'')) (\<lambda>n.
        bindR (jwk_str jwk ''e'' (''RSA JWK missing '' @ quoted ''e'')) (\<lambda>e.
        case jose_key_ok J (RsaComponents n e) of
          Inl msg \<Rightarrow> Inl (invalid_dpop_proof (''Invalid RSA key: '' @ msg))
        | Inr _ \<Rightarrow> Inr (RsaComponents n e)))
      else if alg \<in> {AES256, AES384} then
        bindR (jwk_str jwk ''x'' (''EC JWK missing '' @ quoted ''x'')) (\<lambda>x.
        bindR (jwk_str jwk ''y'' (''EC JWK missing '' @ quoted ''y'')) (\<lambda>y.
        case jose_key_ok J (EcComponents x y) of
          Inl msg \<Rightarrow> Inl (invalid_dpop_proof (''Invalid EC key: '' @ msg))
        | Inr _ \<Rightarrow> Inr (EcComponents x y)))
      else Inl (invalid_dpop_proof
        ''DPoP proof uses unsupported algorithm (only RS256/RS384/RS512/PS256/PS384/PS512/ES256/ES384 allowed)''))"

definition verify_dpop_signature :: "jose \<Rightarrow> string \<Rightarrow> jws_alg \<Rightarrow> json \<Rightarrow> dpop_claims result" where
  "verify_dpop_signature J dpop_proof alg jwk =
     bindR (dpop_decoding_key J alg jwk) (\<lambda>key.
     case jose_dpop_decode J alg key dpop_proof of
       Inl e \<Rightarrow> Inl (invalid_dpop_proof (''DPoP proof signature invalid: '' @ e))
     | Inr claims \<Rightarrow> Inr claims)"

definition eq_ignore_case :: "string \<Rightarrow> string \<Rightarrow> bool" where
  "eq_ignore_case a b = (to_lowercase a = to_lowercase b)"

definition dpop_iat_skew :: int where
  "dpop_iat_skew = 300"

text \<open>Steps 1 to 9 of \<open>validate_dpop_proof\<close>: everything before the replay store.\<close>
definition check_dpop_proof ::
  "libs \<Rightarrow> jose \<Rightarrow> instant \<Rightarrow> string \<Rightarrow> string \<Rightarrow> string \<Rightarrow> string option \<Rightarrow> (string \<times> dpop_claims) result" where
  "check_dpop_proof L J wall dpop_proof http_method url expected_ath =
     bindR (ok_or (jose_header_of J dpop_proof) (invalid_dpop_proof ''DPoP proof header is malformed'')) (\<lambda>header.
     bindR (ensure (eq_ignore_case (unwrap_or (jh_typ header) []) ''dpop+jwt'')
              (invalid_dpop_proof (''DPoP proof typ must be '' @ [CHR 0x22] @ ''dpop+jwt'' @ [CHR 0x22]))) (\<lambda>_.
     bindR (ok_or (jh_jwk header) (invalid_dpop_proof ''DPoP proof missing 'jwk' header claim'')) (\<lambda>jwk.
     bindR (compute_jkt L jwk) (\<lambda>jkt.
     bindR (verify_dpop_signature J dpop_proof (jh_alg header) jwk) (\<lambda>claims.
     bindR (ensure (eq_ignore_case (dc_htm claims) http_method)
              (invalid_dpop_proof ''DPoP proof htm does not match request method'')) (\<lambda>_.
     bindR (ensure (strip_query (dc_htu claims) = strip_query url)
              (invalid_dpop_proof ''DPoP proof htu does not match request URI'')) (\<lambda>_.
     bindR (ensure (- dpop_iat_skew \<le> timestamp wall - dc_iat claims \<and> timestamp wall - dc_iat claims \<le> dpop_iat_skew)
              (invalid_dpop_proof ''DPoP proof iat is outside the acceptance window'')) (\<lambda>_.
     bindR (case expected_ath of
              None \<Rightarrow> Inr ()
            | Some access_token \<Rightarrow>
                bindR (ok_or (dc_ath claims)
                  (invalid_dpop_proof ''DPoP proof must carry the ath claim when an access token is presented'')) (\<lambda>presented.
                ensure (presented = compute_ath L access_token)
                  (invalid_dpop_proof ''DPoP proof ath does not match the presented access token''))) (\<lambda>_.
       Inr (jkt, claims))))))))))"

definition validate_dpop_proof ::
  "libs \<Rightarrow> jose \<Rightarrow> instant \<Rightarrow> instant \<Rightarrow> string \<Rightarrow> string \<Rightarrow> string \<Rightarrow> string option \<Rightarrow> dpop_store \<Rightarrow> db \<Rightarrow>
   dpop_validated result \<times> dpop_store \<times> db" where
  "validate_dpop_proof L J now wall dpop_proof http_method url expected_ath st d =
     (case check_dpop_proof L J wall dpop_proof http_method url expected_ath of
        Inl e \<Rightarrow> (Inl e, st, d)
      | Inr (jkt, claims) \<Rightarrow>
          (case check_and_insert now wall (dc_jti claims) (secs (dpop_iat_skew * 2 + 60)) st d of
             (Inl e, st1, d1) \<Rightarrow> (Inl e, st1, d1)
           | (Inr _, st1, d1) \<Rightarrow> (Inr \<lparr>dv_jkt = jkt, dv_nonce = dc_nonce claims\<rparr>, st1, d1)))"

section \<open>A proof is accepted once\<close>

fun memory_all :: "(instant \<times> string \<times> instant) list \<Rightarrow> seen_map \<Rightarrow> seen_map" where
  "memory_all [] s = s"
| "memory_all ((t, jti, ttl) # obs) s = memory_all obs (snd (check_and_insert_in_memory t jti (t + ttl) s))"

lemma memory_all_run: "memory_all obs s = mem.run_accepts obs s"
  by (induction obs s rule: memory_all.induct)
    (simp_all add: mem.run_accepts_def, simp add: memory_accept_def case_prod_unfold)

lemma check_dpop_proof_claims:
  assumes "check_dpop_proof L J wall p m url ath = Inr (jkt, c)"
  shows "\<bar>timestamp wall - dc_iat c\<bar> \<le> 300 \<and> eq_ignore_case (dc_htm c) m \<and> strip_query (dc_htu c) = strip_query url"
    and "check_dpop_proof L J wall' p m' url' ath' = Inr (jkt', c') \<Longrightarrow> c' = c \<and> jkt' = jkt"
  using assms by (auto simp: check_dpop_proof_def dpop_iat_skew_def result_simps)

lemma check_and_insert_ok:
  assumes "check_and_insert now wall jti ttl st d = (Inr u, st', d')"
  shows "fst (memory_accept now jti ttl (ds_memory st))" "ds_memory st' = snd (memory_accept now jti ttl (ds_memory st))"
  using assms by (auto simp: check_and_insert_def memory_accept_def Let_def split: prod.splits sum.splits if_splits)

lemma check_and_insert_refused:
  assumes "\<not> fst (memory_accept now jti ttl (ds_memory st))"
  shows "fst (check_and_insert now wall jti ttl st d) = Inl replay_error"
  using assms by (auto simp: check_and_insert_def memory_accept_def check_and_insert_in_memory_def Let_def split: if_splits)

text \<open>C13. A DPoP proof is accepted at most once: after an accepted presentation at \<open>t\<close>, every later
  presentation of the same proof is refused, for whatever request, whatever other proofs were
  recorded in between and with or without shared storage.  The store keeps an identifier for
  660 seconds, longer than the 600 seconds during which the proof can pass the \<open>iat\<close> check.\<close>
theorem dpop_proof_single_use:
  assumes "validate_dpop_proof L J t t proof http_method url ath st d = (Inr v, st1, d1)"
    and "t \<le> u" "\<forall>ob \<in> set obs. fst ob \<le> u" "ds_memory st2 = memory_all obs (ds_memory st1)"
  shows "isl (fst (validate_dpop_proof L J u u proof http_method' url' ath' st2 d2))"
proof (cases "check_dpop_proof L J u proof http_method' url' ath'")
  case (Inr r)
  obtain jkt c where c: "check_dpop_proof L J t proof http_method url ath = Inr (jkt, c)"
    using assms(1) by (auto simp: validate_dpop_proof_def split: sum.splits)
  from check_dpop_proof_claims(2) [OF c, of u http_method' url' ath'] Inr
  have r: "r = (jkt, c)" by (cases r) auto
  let ?ttl = "secs (dpop_iat_skew * 2 + 60)"
  have acc: "fst (memory_accept t (dc_jti c) ?ttl (ds_memory st))"
    "ds_memory st1 = snd (memory_accept t (dc_jti c) ?ttl (ds_memory st))"
    using assms(1) c by (auto simp: validate_dpop_proof_def split: sum.splits prod.splits dest: check_and_insert_ok)
  have "timestamp u - timestamp t \<le> 600"
    using check_dpop_proof_claims(1) [OF c] check_dpop_proof_claims(1) [OF Inr [unfolded r]] by linarith
  then have "u < t + ?ttl" by (simp add: timestamp_def secs_def dpop_iat_skew_def)
  then have "\<not> fst (memory_accept u (dc_jti c) ?ttl (ds_memory st2))"
    using mem.replay_refused [OF acc(1), of u obs] acc(2) assms(3,4) by (auto simp: memory_all_run case_prod_unfold)
  from check_and_insert_refused [OF this, of u d2] Inr r show ?thesis
    by (auto simp: validate_dpop_proof_def split: prod.splits)
qed (simp add: validate_dpop_proof_def)

definition demo_dpop_claims :: dpop_claims where
  "demo_dpop_claims = \<lparr>dc_htm = ''POST'', dc_htu = ''https://as/oauth/token'', dc_iat = 0, dc_jti = ''j'',
     dc_nonce = None, dc_ath = None\<rparr>"

definition demo_jose :: jose where
  "demo_jose = \<lparr>jose_header_of = (\<lambda>_. Some \<lparr>jh_alg = ARS256, jh_typ = Some ''dpop+jwt'', jh_kid = None,
        jh_jwk = Some (JObj [(''kty'', JStr ''RSA''), (''n'', JStr ''1''), (''e'', JStr ''3'')])\<rparr>),
     jose_key_ok = (\<lambda>_. Inr ()), jose_dpop_decode = (\<lambda>_ _ _. Inr demo_dpop_claims)\<rparr>"

definition demo_dpop_libs :: libs where
  "demo_dpop_libs = \<lparr>json_from_str = (\<lambda>_. None), json_to_string = (\<lambda>_. []), url_parse = (\<lambda>_. None), sha256_b64url = id\<rparr>"

lemma demo_check: "check_dpop_proof demo_dpop_libs demo_jose 0 p ''POST'' ''https://as/oauth/token?x'' None = Inr ([], demo_dpop_claims)"
  by (simp add: check_dpop_proof_def demo_jose_def demo_dpop_libs_def demo_dpop_claims_def eq_ignore_case_def
      compute_jkt_def build_jwk_canonical_def jwk_member_def
      verify_dpop_signature_def dpop_decoding_key_def jwk_str_def strip_query_def timestamp_def
      dpop_iat_skew_def Let_def)

lemma dpop_proof_single_use_witness:
  "\<exists>st1 d1. isl (fst (validate_dpop_proof demo_dpop_libs demo_jose (secs 9) (secs 9) ''p'' ''POST'' ''https://as/oauth/token''
      None st1 d1))"
proof -
  have "\<exists>v st1 d1. validate_dpop_proof demo_dpop_libs demo_jose 0 0 ''p'' ''POST'' ''https://as/oauth/token?x'' None
      \<lparr>ds_memory = [], ds_storage = False\<rparr> db_empty = (Inr v, st1, d1)"
    by (simp add: validate_dpop_proof_def demo_check check_and_insert_def check_and_insert_in_memory_def live_entries_def)
  then obtain v st1 d1 where
    a: "validate_dpop_proof demo_dpop_libs demo_jose 0 0 ''p'' ''POST'' ''https://as/oauth/token?x'' None
      \<lparr>ds_memory = [], ds_storage = False\<rparr> db_empty = (Inr v, st1, d1)" by blast
  show ?thesis
    by (rule exI [of _ st1], rule exI [of _ d1], rule dpop_proof_single_use [OF a, where obs = "[]"]) (simp_all add: secs_def)
qed

section \<open>Nonces\<close>

record nonce_lib =
  nl_hmac :: "bytes \<Rightarrow> bytes \<Rightarrow> bytes"
  nl_b64_encode :: "bytes \<Rightarrow> string"
  nl_b64_decode :: "string \<Rightarrow> bytes option"
  nl_b64_std_decode :: "string \<Rightarrow> bytes option"

record nonce_issuer =
  ni_secret :: bytes
  ni_lifetime_secs :: "64 word"

definition nonce_issuer_new :: "bytes \<Rightarrow> 64 word \<Rightarrow> nonce_issuer" where
  "nonce_issuer_new secret lifetime = \<lparr>ni_secret = secret, ni_lifetime_secs = max lifetime 1\<rparr>"

fun be_digits :: "nat \<Rightarrow> nat \<Rightarrow> bytes" where
  "be_digits 0 n = []"
| "be_digits (Suc k) n = be_digits k (n div 256) @ [of_nat n]"

definition to_be_bytes :: "64 word \<Rightarrow> bytes" where
  "to_be_bytes w = be_digits 8 (unat w)"

definition from_be_bytes :: "bytes \<Rightarrow> 64 word" where
  "from_be_bytes bs = of_nat (foldl (\<lambda>a b. a * 256 + unat b) 0 bs)"

definition current_bucket :: "instant \<Rightarrow> nonce_issuer \<Rightarrow> 64 word" where
  "current_bucket wall i = of_int (max 0 (timestamp wall)) div ni_lifetime_secs i"

definition tag_for_bucket :: "nonce_lib \<Rightarrow> nonce_issuer \<Rightarrow> 64 word \<Rightarrow> bytes" where
  "tag_for_bucket N i bucket = take 16 (nl_hmac N (ni_secret i) (to_be_bytes bucket))"

definition encode_for_bucket :: "nonce_lib \<Rightarrow> nonce_issuer \<Rightarrow> 64 word \<Rightarrow> string" where
  "encode_for_bucket N i bucket = nl_b64_encode N (to_be_bytes bucket @ tag_for_bucket N i bucket)"

definition nonce_issue :: "nonce_lib \<Rightarrow> instant \<Rightarrow> nonce_issuer \<Rightarrow> string" where
  "nonce_issue N wall i = encode_for_bucket N i (current_bucket wall i)"

definition saturating_sub1 :: "64 word \<Rightarrow> 64 word" where
  "saturating_sub1 w = (if w = 0 then 0 else w - 1)"

definition nonce_verify :: "nonce_lib \<Rightarrow> instant \<Rightarrow> nonce_issuer \<Rightarrow> string \<Rightarrow> unit result" where
  "nonce_verify N wall i nonce =
     bindR (ok_or (nl_b64_decode N nonce) (invalid_dpop_proof ''DPoP nonce is not valid base64url'')) (\<lambda>raw.
     if length raw \<noteq> 24 then Inl (invalid_dpop_proof ''DPoP nonce has incorrect length'')
     else let bucket = from_be_bytes (take 8 raw); presented_tag = drop 8 raw; current = current_bucket wall i in
       if bucket > current \<or> bucket < saturating_sub1 current
       then Inl (invalid_dpop_proof ''DPoP nonce is expired or not yet valid'')
       else if presented_tag = tag_for_bucket N i bucket then Inr ()
       else Inl (invalid_dpop_proof ''DPoP nonce signature mismatch''))"

definition enforce_dpop_nonce :: "nonce_lib \<Rightarrow> instant \<Rightarrow> dpop_validated \<Rightarrow> nonce_issuer \<Rightarrow> unit result" where
  "enforce_dpop_nonce N wall validated i =
     bindR (ok_or (dv_nonce validated)
              (error_new ''use_dpop_nonce'' (Some ''DPoP proof must include a server-issued nonce''))) (\<lambda>nonce.
     case nonce_verify N wall i nonce of
       Inr _ \<Rightarrow> Inr ()
     | Inl e \<Rightarrow>
         let desc = unwrap_or (err_description e) [] in
         if sublist ''expired'' desc \<or> sublist ''not yet valid'' desc
         then Inl (error_new ''use_dpop_nonce'' (Some ''DPoP nonce is expired; retry with a fresh nonce''))
         else Inl e)"

definition hex_digit :: "char \<Rightarrow> nat option" where
  "hex_digit c =
     (let n = of_char c :: nat in
      if 48 \<le> n \<and> n \<le> 57 then Some (n - 48)
      else if 97 \<le> n \<and> n \<le> 102 then Some (n - 87)
      else if 65 \<le> n \<and> n \<le> 70 then Some (n - 55)
      else None)"

text \<open>\<open>u8::from_str_radix(_, 16)\<close> on a two-character slice; a leading plus sign is accepted.\<close>
definition hex_u8 :: "char \<Rightarrow> char \<Rightarrow> 8 word option" where
  "hex_u8 a b =
     (if a = CHR ''+'' then map_option of_nat (hex_digit b)
      else case (hex_digit a, hex_digit b) of
        (Some x, Some y) \<Rightarrow> Some (of_nat (16 * x + y))
      | _ \<Rightarrow> None)"

fun hex_bytes :: "string \<Rightarrow> bytes option" where
  "hex_bytes (a # b # cs) =
     (case (hex_u8 a b, hex_bytes cs) of (Some v, Some vs) \<Rightarrow> Some (v # vs) | _ \<Rightarrow> None)"
| "hex_bytes _ = Some []"

definition decode_secret :: "nonce_lib \<Rightarrow> string \<Rightarrow> bytes option" where
  "decode_secret N raw =
     (let decoded = (case nl_b64_decode N raw of
            Some b \<Rightarrow> Some b
          | None \<Rightarrow> (case nl_b64_std_decode N raw of
              Some b \<Rightarrow> Some b
            | None \<Rightarrow> if length raw = 64 then hex_bytes raw else None))
      in case decoded of None \<Rightarrow> None | Some bytes \<Rightarrow> if length bytes = 32 then Some bytes else None)"

lemma be_digits_value: "foldl (\<lambda>a b. a * 256 + unat b) 0 (be_digits k n) = n mod 256 ^ k"
proof (induction k arbitrary: n)
  case (Suc k)
  have "unat (of_nat n :: 8 word) = n mod 256" by (simp add: unat_of_nat)
  then show ?case using Suc [of "n div 256"] mod_mult2_eq [of n 256 "256 ^ k"] by simp
qed simp

lemma length_be_digits: "length (be_digits k n) = k"
  by (induction k arbitrary: n) auto

lemma from_to_be_bytes [simp]: "from_be_bytes (to_be_bytes w) = w"
proof -
  have "unat w < 256 ^ 8" using unsigned_less [of w, where 'a = nat] by simp
  then show ?thesis by (simp add: from_be_bytes_def to_be_bytes_def be_digits_value)
qed

lemma length_to_be_bytes [simp]: "length (to_be_bytes w) = 8"
  by (simp add: to_be_bytes_def length_be_digits)

definition nonce_lib_ok :: "nonce_lib \<Rightarrow> bool" where
  "nonce_lib_ok N = ((\<forall>bs. nl_b64_decode N (nl_b64_encode N bs) = Some bs) \<and> (\<forall>k m. length (nl_hmac N k m) = 32))"

lemma nonce_verify_issued:
  assumes "nonce_lib_ok N"
  shows "nonce_verify N u i (nonce_issue N t i) =
    (if current_bucket t i > current_bucket u i \<or> current_bucket t i < saturating_sub1 (current_bucket u i)
     then Inl (invalid_dpop_proof ''DPoP nonce is expired or not yet valid'') else Inr ())"
  using assms by (simp add: nonce_verify_def nonce_issue_def encode_for_bucket_def nonce_lib_ok_def
      tag_for_bucket_def Let_def)

lemma uint_current_bucket:
  assumes "0 \<le> timestamp t" "timestamp t < 2 ^ 63"
  shows "uint (current_bucket t i) = timestamp t div uint (ni_lifetime_secs i)"
proof -
  have "uint (word_of_int (timestamp t) :: 64 word) = timestamp t"
    using assms by (simp add: uint_word_of_int)
  then show ?thesis using assms by (simp add: current_bucket_def uint_div_distrib max_def)
qed

lemma uint_saturating_sub1: "uint (saturating_sub1 w) = max 0 (uint w - 1)"
proof (cases "w = 0")
  case False
  then have "uint w \<noteq> 0" by (simp add: uint_0_iff)
  then have u: "1 \<le> uint w" using uint_ge_0 [of w] by linarith
  then have "1 \<le> w" by (simp add: word_le_def)
  then have "uint (w - 1) = uint w - 1" using uint_minus_simple_alt [of 1 w] by simp
  then show ?thesis using False u by (simp add: saturating_sub1_def)
qed (simp add: saturating_sub1_def)

text \<open>The nonce window: with a bucket of \<open>l\<close> seconds, an issued nonce verifies for at least \<open>l\<close>
  seconds and never after \<open>2 * l\<close> seconds; a late nonce makes the endpoint ask for a fresh one.\<close>
theorem nonce_window:
  assumes "nonce_lib_ok N" "0 \<le> timestamp t" "t \<le> u" "timestamp u < 2 ^ 63"
    and "i = nonce_issuer_new secret l" "l' = uint (ni_lifetime_secs i)"
  shows "(timestamp u - timestamp t \<le> l' \<longrightarrow> nonce_verify N u i (nonce_issue N t i) = Inr ()) \<and>
    (timestamp u - timestamp t \<ge> 2 * l' \<longrightarrow>
       enforce_dpop_nonce N u \<lparr>dv_jkt = jkt, dv_nonce = Some (nonce_issue N t i)\<rparr> i =
         Inl (error_new ''use_dpop_nonce'' (Some ''DPoP nonce is expired; retry with a fresh nonce'')))"
proof -
  have tu: "timestamp t \<le> timestamp u" using assms(3) by (rule timestamp_mono)
  have l: "1 \<le> l'"
    using assms(5,6) uint_lt_0 [of "max l 1"] by (simp add: nonce_issuer_new_def max_def word_le_def split: if_splits)
  let ?a = "timestamp t div l'" and ?b = "timestamp u div l'"
  have ab: "uint (current_bucket t i) = ?a" "uint (current_bucket u i) = ?b"
    using assms uint_current_bucket tu by auto
  have a0: "0 \<le> ?a" "?a \<le> ?b" using l assms(2) tu by (auto simp: pos_imp_zdiv_nonneg_iff zdiv_mono1)
  have v: "nonce_verify N u i (nonce_issue N t i) =
      (if ?a < ?b - 1 then Inl (invalid_dpop_proof ''DPoP nonce is expired or not yet valid'') else Inr ())"
    unfolding nonce_verify_issued [OF assms(1)] word_less_def uint_saturating_sub1 ab using a0 by auto
  have "?b \<le> ?a + 1" if "timestamp u - timestamp t \<le> l'"
  proof -
    have "?b \<le> (timestamp t + l') div l'" using that l by (intro zdiv_mono1) auto
    then show ?thesis using l by simp
  qed
  moreover have "?a + 2 \<le> ?b" if "2 * l' \<le> timestamp u - timestamp t"
  proof -
    have "(timestamp t + 2 * l') div l' \<le> ?b" using that l by (intro zdiv_mono1) auto
    then show ?thesis using l by simp
  qed
  moreover have "sublist ''expired'' ''DPoP nonce is expired or not yet valid''"
    unfolding sublist_def by (rule exI [of _ "''DPoP nonce is ''"], rule exI [of _ "'' or not yet valid''"]) simp
  ultimately show ?thesis
    using v by (auto simp: enforce_dpop_nonce_def invalid_dpop_proof_def error_new_def)
qed

text \<open>A DPoP nonce secret given in hexadecimal is never used: a 64-digit hexadecimal string is also
  well-formed base64url (for 48 bytes), so the decoder stops there and the length check
  rejects it; the issuer then falls back to a per-process random secret.\<close>
theorem hex_secret_rejected:
  assumes "\<forall>s. length s = 64 \<and> (\<forall>c\<in>set s. hex_digit c \<noteq> None) \<longrightarrow> (\<exists>bs. nl_b64_decode N s = Some bs \<and> length bs = 48)"
    and "length raw = 64" "\<forall>c\<in>set raw. hex_digit c \<noteq> None"
  shows "decode_secret N raw = None"
  using assms by (auto simp: decode_secret_def)

definition demo_nonce_lib :: nonce_lib where
  "demo_nonce_lib = \<lparr>nl_hmac = (\<lambda>_ _. replicate 32 0), nl_b64_encode = map (\<lambda>b. char_of (unat b)),
     nl_b64_decode = (\<lambda>s. Some (map (\<lambda>c. of_nat (of_char c)) (if length s = 64 then take 48 s else s))), nl_b64_std_decode = (\<lambda>_. None)\<rparr>"

lemma hex_secret_rejected_witness: "decode_secret demo_nonce_lib (replicate 64 CHR ''a'') = None"
  by (rule hex_secret_rejected) (auto simp: demo_nonce_lib_def hex_digit_def)

definition demo_nonce_lib2 :: nonce_lib where
  "demo_nonce_lib2 = demo_nonce_lib\<lparr>nl_b64_decode := (\<lambda>s. Some (map (\<lambda>c. of_nat (of_char c)) s))\<rparr>"

lemma nonce_window_witness:
  "nonce_verify demo_nonce_lib2 (secs 100) (nonce_issuer_new [] 60) (nonce_issue demo_nonce_lib2 (secs 50) (nonce_issuer_new [] 60)) = Inr ()"
proof -
  have "unat b mod 256 = unat b" for b :: "8 word" using unsigned_less [of b, where 'a = nat] by simp
  then have ok: "nonce_lib_ok demo_nonce_lib2"
    by (simp add: nonce_lib_ok_def demo_nonce_lib2_def demo_nonce_lib_def comp_def)
  from nonce_window [OF ok, of "secs 50" "secs 100" "nonce_issuer_new [] 60" "[]" 60, OF _ _ _ refl refl] show ?thesis
    by (simp add: timestamp_def secs_def nonce_issuer_new_def)
qed

end
