(* ===== verification/Client_Auth.thy ===== *)
theory Client_Auth
  imports Replay_Guards Dpop
begin

text \<open>
  Client authentication at the token endpoint (\<open>handlers/oauth.rs\<close>, lines 50 to 390 and 1410 to
  1626): HTTP Basic credentials, the exclusion of several methods in one request, the
  per-method authenticator, JWT client assertions with their replay guard, and the scope
  check.  Base64, percent decoding and form parsing are in the record \<open>http_lib\<close>; the
  assertion verifier of the JWT library is in \<open>assertion_lib\<close>.  Where an error text of the
  source contains a section sign, the model's text omits it.
\<close>

section \<open>Requests\<close>

datatype header_value = Text string | Opaque

fun to_str :: "header_value \<Rightarrow> string option" where
  "to_str (Text s) = Some s"
| "to_str Opaque = None"

record http_lib =
  hl_b64_decode :: "string \<Rightarrow> string option"
  hl_percent_decode :: "string \<Rightarrow> string option"
  hl_form_parse :: "string \<Rightarrow> (string \<times> string) list"

record token_request =
  rq_grant_type :: string
  rq_code :: "string option"
  rq_redirect_uri :: "string option"
  rq_client_id :: string
  rq_client_secret :: "string option"
  rq_refresh_token :: "string option"
  rq_username :: "string option"
  rq_password :: "string option"
  rq_scope :: "string option"
  rq_code_verifier :: "string option"
  rq_device_code :: "string option"
  rq_client_assertion_type :: "string option"
  rq_client_assertion :: "string option"
  rq_resource :: "string list"
  rq_assertion :: "string option"
  rq_audience :: "string list"
  rq_subject_token :: "string option"
  rq_subject_token_type :: "string option"
  rq_actor_token :: "string option"
  rq_actor_token_type :: "string option"
  rq_requested_token_type :: "string option"
  rq_authorization_details :: "string option"
  rq_request_details :: "string option"
  rq_request_context :: "string option"
  rq_purp :: "string option"
  rq_transaction_authorization_id :: "string option"

record mtls =
  mt_thumbprint :: "string option"
  mt_subject_dn :: "string option"
  mt_san_uri :: "string option"
  mt_san_dns :: "string option"

section \<open>Credentials in the request\<close>

text \<open>\<open>String::from_utf8\<close>: the bytes themselves, when they are well-formed UTF-8.\<close>

definition cont_byte :: "nat \<Rightarrow> bool" where
  "cont_byte b = (128 \<le> b \<and> b \<le> 191)"

fun utf8_ok :: "nat list \<Rightarrow> bool" where
  "utf8_ok [] = True"
| "utf8_ok (a # bs) =
     (if a < 128 then utf8_ok bs
      else if 194 \<le> a \<and> a \<le> 223 then
        (case bs of b # cs \<Rightarrow> cont_byte b \<and> utf8_ok cs | _ \<Rightarrow> False)
      else if 224 \<le> a \<and> a \<le> 239 then
        (case bs of b # c # ds \<Rightarrow>
           cont_byte b \<and> cont_byte c \<and> (a = 224 \<longrightarrow> 160 \<le> b) \<and> (a = 237 \<longrightarrow> b \<le> 159) \<and> utf8_ok ds
         | _ \<Rightarrow> False)
      else if 240 \<le> a \<and> a \<le> 244 then
        (case bs of b # c # d # es \<Rightarrow>
           cont_byte b \<and> cont_byte c \<and> cont_byte d \<and> (a = 240 \<longrightarrow> 144 \<le> b) \<and> (a = 244 \<longrightarrow> b \<le> 143) \<and> utf8_ok es
         | _ \<Rightarrow> False)
      else False)"

definition from_utf8 :: "string \<Rightarrow> string option" where
  "from_utf8 s = (if utf8_ok (map of_char s) then Some s else None)"

definition form_decode :: "http_lib \<Rightarrow> string \<Rightarrow> string \<Rightarrow> string result" where
  "form_decode H v what =
     ok_or (hl_percent_decode H (map (\<lambda>c. if c = CHR ''+'' then CHR '' '' else c) v))
       (invalid_request (''Invalid '' @ what @ '' encoding''))"

definition parse_client_basic_auth :: "http_lib \<Rightarrow> header_value option \<Rightarrow> (string \<times> string) option result" where
  "parse_client_basic_auth H authorization =
     (case authorization of None \<Rightarrow> Inr None
      | Some h \<Rightarrow>
        bindR (ok_or (to_str h) (invalid_request ''Invalid Authorization header'')) (\<lambda>header.
        case strip_prefix_opt header ''Basic '' of None \<Rightarrow> Inr None
        | Some v \<Rightarrow>
          bindR (ok_or (hl_b64_decode H (trim v)) (invalid_request ''Invalid Basic auth encoding'')) (\<lambda>raw.
          bindR (ok_or (from_utf8 raw) (invalid_request ''Invalid Basic auth bytes'')) (\<lambda>decoded.
          bindR (ok_or (split_once CHR '':'' decoded) (invalid_request ''Invalid Basic auth format'')) (\<lambda>(cid, secret).
          if cid = [] then Inl (invalid_request ''Missing client_id'')
          else if secret = [] then Inl (invalid_client ''Missing client_secret'')
          else
            bindR (form_decode H cid ''client_id'') (\<lambda>cid'.
            bindR (form_decode H secret ''client_secret'') (\<lambda>secret'.
              Inr (Some (cid', secret')))))))))"

definition reject_multiple_client_auth_methods :: "bool \<Rightarrow> bool \<Rightarrow> bool \<Rightarrow> unit result" where
  "reject_multiple_client_auth_methods basic_present body_client_secret body_client_assertion =
     (if basic_present \<and> (body_client_secret \<or> body_client_assertion)
      then Inl (invalid_request ''Multiple client authentication methods in one request (RFC 6749 2.3)'')
      else Inr ())"

definition validate_scope_subset :: "string \<Rightarrow> string \<Rightarrow> unit result" where
  "validate_scope_subset requested allowed =
     (let allowed_scopes = filter (\<lambda>s. s \<noteq> []) (split_whitespace allowed);
          requested_scopes = filter (\<lambda>s. s \<noteq> []) (split_whitespace requested)
      in if requested_scopes = [] then Inl (invalid_scope ''scope must not be empty'')
         else if \<not> list_all (\<lambda>s. s \<in> set allowed_scopes) requested_scopes
         then Inl (invalid_scope ''requested scope exceeds client permissions'')
         else Inr ())"

definition client_secret_matches :: "client \<Rightarrow> string \<Rightarrow> bool" where
  "client_secret_matches c presented = (cl_client_secret c = presented)"

section \<open>JWT client assertions\<close>

datatype assertion_key = SharedSecret string | RsaKey string string

record assertion_lib =
  al_header :: "string \<Rightarrow> jose_header option"
  al_rsa_ok :: "string \<Rightarrow> string \<Rightarrow> bool"
  al_decode :: "instant \<Rightarrow> assertion_key \<Rightarrow> string list \<Rightarrow> string \<Rightarrow> string + json"

definition jwt_bearer_assertion_type :: string where
  "jwt_bearer_assertion_type = ''urn:ietf:params:oauth:client-assertion-type:jwt-bearer''"

fun as_i64_value :: "json \<Rightarrow> int option" where
  "as_i64_value (JInt n) = (if - 9223372036854775808 \<le> n \<and> n \<le> 9223372036854775807 then Some n else None)"
| "as_i64_value _ = None"

definition claim_str :: "json \<Rightarrow> string \<Rightarrow> string option" where
  "claim_str claims k = Option.bind (json_get claims k) as_str"

definition enforce_jti_replay ::
  "(seen_map \<Rightarrow> string option) \<Rightarrow> instant \<Rightarrow> instant \<Rightarrow> string \<Rightarrow> json \<Rightarrow> jti_guard \<Rightarrow> unit result \<times> jti_guard" where
  "enforce_jti_replay fk now wall subject claims g =
     (case claim_str claims ''jti'' of
        None \<Rightarrow> (Inl (invalid_client ''client_assertion missing required jti claim (RFC 7523 3)''), g)
      | Some jti \<Rightarrow>
     (case Option.bind (json_get claims ''exp'') as_i64_value of
        None \<Rightarrow> (Inl (invalid_client ''client_assertion missing exp claim''), g)
      | Some ex \<Rightarrow>
          (let ttl = secs (max (ex - timestamp wall) 0) in
           case observe fk now subject jti ttl g of
             (Fresh, g1) \<Rightarrow> (Inr (), g1)
           | (Replay, g1) \<Rightarrow> (Inl (invalid_client ''client_assertion jti has already been used''), g1))))"

text \<open>The key of a client's JWK set: the one the header's \<open>kid\<close> names, or the first RSA key.\<close>
definition assertion_rsa_key :: "assertion_lib \<Rightarrow> jose_header \<Rightarrow> json option \<Rightarrow> assertion_key result" where
  "assertion_rsa_key AL header resolved_jwks =
     bindR (ok_or resolved_jwks (invalid_client ''Client must register jwks or jwks_uri for private_key_jwt'')) (\<lambda>jwks.
     bindR (ok_or (Option.bind (json_get jwks ''keys'') as_array) (invalid_client ''Client JWKS missing 'keys' array'')) (\<lambda>keys.
     bindR (case jh_kid header of
              Some kid \<Rightarrow> ok_or (find (\<lambda>k. claim_str k ''kid'' = Some kid) keys)
                              (invalid_client ''No matching kid in client JWKS'')
            | None \<Rightarrow> ok_or (find (\<lambda>k. claim_str k ''kty'' = Some ''RSA'') keys)
                         (invalid_client ''No RSA key found in client JWKS'')) (\<lambda>key_json.
     bindR (ok_or (claim_str key_json ''n'') (invalid_client ''JWKS key missing 'n' component'')) (\<lambda>n.
     bindR (ok_or (claim_str key_json ''e'') (invalid_client ''JWKS key missing 'e' component'')) (\<lambda>e.
     bindR (ensure (al_rsa_ok AL n e) (invalid_client ''Failed to construct RSA key from client JWKS'')) (\<lambda>_.
       Inr (RsaKey n e)))))))"

definition assertion_key_of :: "assertion_lib \<Rightarrow> client \<Rightarrow> jose_header \<Rightarrow> json option \<Rightarrow> assertion_key result" where
  "assertion_key_of AL c header resolved_jwks =
     (if cl_token_endpoint_auth_method c = ''client_secret_jwt'' then
        bindR (ensure (jh_alg header = AHS256) (invalid_client ''client_secret_jwt requires HS256 algorithm'')) (\<lambda>_.
          Inr (SharedSecret (cl_client_secret c)))
      else if cl_token_endpoint_auth_method c = ''private_key_jwt'' then
        bindR (ensure (jh_alg header = ARS256) (invalid_client ''private_key_jwt requires RS256 algorithm'')) (\<lambda>_.
          assertion_rsa_key AL header resolved_jwks)
      else Inl (invalid_client ''Client is not configured for JWT authentication''))"

text \<open>Both methods verify the signature with the token endpoint or the issuer as audience, require
  \<open>iss\<close> and \<open>sub\<close> to be the client, and then consult the replay guard.\<close>
definition assertion_claims ::
  "assertion_lib \<Rightarrow> instant \<Rightarrow> client \<Rightarrow> string \<Rightarrow> string \<Rightarrow> string \<Rightarrow> json option \<Rightarrow> json result" where
  "assertion_claims AL wall c assertion token_endpoint_url issuer resolved_jwks =
     bindR (ok_or (al_header AL assertion) (invalid_client ''Malformed client_assertion JWT'')) (\<lambda>header.
     bindR (assertion_key_of AL c header resolved_jwks) (\<lambda>key.
     bindR (map_sum (\<lambda>e. invalid_client (cl_token_endpoint_auth_method c @ '' validation failed: '' @ e)) id
              (al_decode AL wall key [token_endpoint_url, issuer] assertion)) (\<lambda>claims.
     bindR (ensure (unwrap_or (claim_str claims ''iss'') [] = cl_client_id c \<and>
                    unwrap_or (claim_str claims ''sub'') [] = cl_client_id c)
              (invalid_client ''JWT iss/sub must equal client_id'')) (\<lambda>_.
       Inr claims))))"

definition validate_jwt_client_assertion ::
  "assertion_lib \<Rightarrow> (seen_map \<Rightarrow> string option) \<Rightarrow> instant \<Rightarrow> instant \<Rightarrow> client \<Rightarrow> string \<Rightarrow> string \<Rightarrow> string \<Rightarrow>
   json option \<Rightarrow> jti_guard \<Rightarrow> unit result \<times> jti_guard" where
  "validate_jwt_client_assertion AL fk now wall c assertion token_endpoint_url issuer resolved_jwks g =
     (case assertion_claims AL wall c assertion token_endpoint_url issuer resolved_jwks of
        Inl e \<Rightarrow> (Inl e, g)
      | Inr claims \<Rightarrow> enforce_jti_replay fk now wall (cl_client_id c) claims g)"

section \<open>The authenticator\<close>

definition dn_check :: "client \<Rightarrow> string option \<Rightarrow> unit result" where
  "dn_check c subject_dn =
     (if cl_tls_client_certificate_subject_dn c \<noteq> [] then
        (case subject_dn of
           Some dn \<Rightarrow> if dn = cl_tls_client_certificate_subject_dn c then Inr ()
                     else Inl (invalid_client ''tls_client_auth: client certificate Subject DN does not match'')
         | None \<Rightarrow> Inl (invalid_client
             ''tls_client_auth requires X-SSL-Client-S-DN header when Subject DN is configured''))
      else Inr ())"

definition san_check :: "client \<Rightarrow> string \<Rightarrow> mtls \<Rightarrow> unit result" where
  "san_check c method mt =
     (if mt_thumbprint mt = None then
        Inl (invalid_client (method @ '' requires a TLS client certificate (X-Client-Cert-Thumbprint header missing)''))
      else if cl_tls_client_auth_san c = [] then
        Inl (invalid_client (method @ '' requires a registered tls_client_auth_san''))
      else
        let (presented, header) = (if method = ''tls_client_auth_san_uri''
              then (mt_san_uri mt, ''X-SSL-Client-SAN-URI'') else (mt_san_dns mt, ''X-SSL-Client-SAN-DNS''))
        in case presented of
             Some san \<Rightarrow> if san = cl_tls_client_auth_san c then Inr ()
                        else Inl (invalid_client (method @ '': client certificate subjectAltName does not match''))
           | None \<Rightarrow> Inl (invalid_client (method @ '' requires the '' @ header @ '' header'')))"

definition authenticate_confidential_client ::
  "assertion_lib \<Rightarrow> (seen_map \<Rightarrow> string option) \<Rightarrow> instant \<Rightarrow> instant \<Rightarrow> client \<Rightarrow> token_request \<Rightarrow> string \<Rightarrow> string \<Rightarrow>
   json option \<Rightarrow> mtls \<Rightarrow> jti_guard \<Rightarrow> unit result \<times> jti_guard" where
  "authenticate_confidential_client AL fk now wall c req token_endpoint_url issuer resolved_jwks mt g =
     (let method = cl_token_endpoint_auth_method c in
      if method \<in> {''client_secret_basic'', ''client_secret_post''} then
        (case rq_client_secret req of
           Some secret \<Rightarrow> (if \<not> client_secret_matches c secret then Inl (invalid_client ''Invalid client_secret'') else Inr (), g)
         | None \<Rightarrow> (Inl (invalid_client ''Missing client_secret''), g))
      else if method \<in> {''client_secret_jwt'', ''private_key_jwt''} then
        (case rq_client_assertion_type req of
           None \<Rightarrow> (Inl (invalid_client ''Missing client_assertion_type''), g)
         | Some assertion_type \<Rightarrow>
             if assertion_type \<noteq> jwt_bearer_assertion_type then (Inl (invalid_client ''Unsupported client_assertion_type''), g)
             else case rq_client_assertion req of
               None \<Rightarrow> (Inl (invalid_client ''Missing client_assertion''), g)
             | Some assertion \<Rightarrow>
                 validate_jwt_client_assertion AL fk now wall c assertion token_endpoint_url issuer resolved_jwks g)
      else if method = ''tls_client_auth'' then
        (case mt_thumbprint mt of
           Some _ \<Rightarrow> (dn_check c (mt_subject_dn mt), g)
         | None \<Rightarrow> (Inl (invalid_client
             ''tls_client_auth requires a TLS client certificate (X-Client-Cert-Thumbprint header missing)''), g))
      else if method \<in> {''tls_client_auth_san_uri'', ''tls_client_auth_san_dns''} then (san_check c method mt, g)
      else if method = ''self_signed_tls_client_auth'' then
        (case mt_thumbprint mt of
           Some _ \<Rightarrow> (Inr (), g)
         | None \<Rightarrow> (Inl (invalid_client
             ''self_signed_tls_client_auth requires a TLS client certificate (X-Client-Cert-Thumbprint header missing)''), g))
      else if method = ''none'' then
        (Inl (invalid_client
           ''Public clients (token_endpoint_auth_method=none) cannot use this authentication path''), g)
      else (Inl (invalid_client (''Unsupported token_endpoint_auth_method: '' @ method)), g))"

text \<open>\<open>fetch\<close> is the shared JWKS cache, when there is one.\<close>
definition resolve_client_jwks :: "libs \<Rightarrow> client \<Rightarrow> (string \<Rightarrow> json result) option \<Rightarrow> json option result" where
  "resolve_client_jwks L c fetch =
     (if cl_token_endpoint_auth_method c \<noteq> ''private_key_jwt'' then Inr None
      else let jwks_str = trim (cl_jwks c) in
        if jwks_str \<noteq> [] then
          map_sum id Some (ok_or (json_from_str L jwks_str) (invalid_client ''Client inline JWKS is not valid JSON''))
        else let uri = trim (cl_jwks_uri c) in
          if uri \<noteq> [] then
            bindR (ok_or fetch (invalid_client ''jwks_uri is not supported in this context (no JWKS cache available)''))
              (\<lambda>f. map_sum id Some (f uri))
          else Inl (invalid_client ''Client must register jwks or jwks_uri for private_key_jwt''))"

section \<open>What a successful authentication shows\<close>

text \<open>An assertion that counts: verified under the client's own key, naming the client as issuer and
  subject, and with an identifier the replay guard has not seen.\<close>
definition assertion_good ::
  "assertion_lib \<Rightarrow> (seen_map \<Rightarrow> string option) \<Rightarrow> instant \<Rightarrow> instant \<Rightarrow> client \<Rightarrow> string \<Rightarrow> string \<Rightarrow> string \<Rightarrow> json option \<Rightarrow>
   jti_guard \<Rightarrow> bool" where
  "assertion_good AL fk now wall c a url issuer jwks g =
     (\<exists>header key claims jti ttl. al_header AL a = Some header \<and> assertion_key_of AL c header jwks = Inr key \<and>
        al_decode AL wall key [url, issuer] a = Inr claims \<and>
        claim_str claims ''iss'' = Some (cl_client_id c) \<and> claim_str claims ''sub'' = Some (cl_client_id c) \<and>
        claim_str claims ''jti'' = Some jti \<and> fst (observe fk now (cl_client_id c) jti ttl g) = Fresh)"

text \<open>The evidence each registered method demands.\<close>
definition credential_presented ::
  "assertion_lib \<Rightarrow> (seen_map \<Rightarrow> string option) \<Rightarrow> instant \<Rightarrow> instant \<Rightarrow> client \<Rightarrow> token_request \<Rightarrow> string \<Rightarrow> string \<Rightarrow>
   json option \<Rightarrow> mtls \<Rightarrow> jti_guard \<Rightarrow> bool" where
  "credential_presented AL fk now wall c req url issuer jwks mt g =
     (let m = cl_token_endpoint_auth_method c in
      (m \<in> {''client_secret_basic'', ''client_secret_post''} \<and> rq_client_secret req = Some (cl_client_secret c)) \<or>
      (m \<in> {''client_secret_jwt'', ''private_key_jwt''} \<and>
         (\<exists>a. rq_client_assertion req = Some a \<and> assertion_good AL fk now wall c a url issuer jwks g)) \<or>
      (m = ''tls_client_auth'' \<and> mt_thumbprint mt \<noteq> None \<and>
         (cl_tls_client_certificate_subject_dn c = [] \<or> mt_subject_dn mt = Some (cl_tls_client_certificate_subject_dn c))) \<or>
      (m = ''tls_client_auth_san_uri'' \<and> mt_thumbprint mt \<noteq> None \<and> cl_tls_client_auth_san c \<noteq> [] \<and>
         mt_san_uri mt = Some (cl_tls_client_auth_san c)) \<or>
      (m = ''tls_client_auth_san_dns'' \<and> mt_thumbprint mt \<noteq> None \<and> cl_tls_client_auth_san c \<noteq> [] \<and>
         mt_san_dns mt = Some (cl_tls_client_auth_san c)) \<or>
      (m = ''self_signed_tls_client_auth'' \<and> mt_thumbprint mt \<noteq> None))"

lemma claim_str_unwrap: "unwrap_or (claim_str j k) [] = s \<Longrightarrow> s \<noteq> [] \<Longrightarrow> claim_str j k = Some s"
  by (cases "claim_str j k") auto

lemma enforce_jti_replay_ok:
  assumes "enforce_jti_replay fk now wall sub claims g = (Inr u, g')"
  shows "\<exists>jti ttl. claim_str claims ''jti'' = Some jti \<and> observe fk now sub jti ttl g = (Fresh, g')"
  using assms by (auto simp: enforce_jti_replay_def Let_def split: option.splits prod.splits observe_result.splits)

lemma map_sum_Inr_iff: "map_sum f id r = Inr y \<longleftrightarrow> r = Inr y"
  by (cases r) auto

lemma assertion_claims_ok:
  "assertion_claims AL wall c a url issuer jwks = Inr claims \<longleftrightarrow>
   (\<exists>header key. al_header AL a = Some header \<and> assertion_key_of AL c header jwks = Inr key \<and>
      al_decode AL wall key [url, issuer] a = Inr claims \<and>
      unwrap_or (claim_str claims ''iss'') [] = cl_client_id c \<and> unwrap_or (claim_str claims ''sub'') [] = cl_client_id c)"
  by (auto simp: assertion_claims_def result_simps map_sum_Inr_iff)

lemma validate_assertion_good:
  assumes "validate_jwt_client_assertion AL fk now wall c a url issuer jwks g = (Inr u, g')" "cl_client_id c \<noteq> []"
  shows "assertion_good AL fk now wall c a url issuer jwks g"
proof -
  obtain claims where c: "assertion_claims AL wall c a url issuer jwks = Inr claims"
    and e: "enforce_jti_replay fk now wall (cl_client_id c) claims g = (Inr u, g')"
    using assms(1) by (auto simp: validate_jwt_client_assertion_def split: sum.splits)
  from enforce_jti_replay_ok [OF e] c [unfolded assertion_claims_ok] claim_str_unwrap assms(2)
  show ?thesis unfolding assertion_good_def by (metis fst_conv)
qed

lemma accepted_credential:
  assumes "authenticate_confidential_client AL fk now wall c req url issuer jwks mt g = (Inr (), g')" "cl_client_id c \<noteq> []"
  shows "credential_presented AL fk now wall c req url issuer jwks mt g \<and> \<not> is_public c"
proof -
  note d = authenticate_confidential_client_def credential_presented_def is_public_def
  let ?m = "cl_token_endpoint_auth_method c"
  consider (secret) "?m = ''client_secret_basic'' \<or> ?m = ''client_secret_post''"
    | (jwt) "?m = ''client_secret_jwt'' \<or> ?m = ''private_key_jwt''"
    | (san) "?m = ''tls_client_auth_san_uri'' \<or> ?m = ''tls_client_auth_san_dns''"
    | (tls) "?m = ''tls_client_auth'' \<or> ?m = ''self_signed_tls_client_auth''"
    | (other) "?m \<notin> {''client_secret_basic'', ''client_secret_post'', ''client_secret_jwt'', ''private_key_jwt'',
        ''tls_client_auth_san_uri'', ''tls_client_auth_san_dns'', ''tls_client_auth'', ''self_signed_tls_client_auth''}"
    by blast
  then show ?thesis
  proof cases
    case secret
    then show ?thesis using assms(1)
      by (elim disjE) (simp_all add: d client_secret_matches_def split: option.splits if_splits)
  next
    case jwt
    then obtain a where a: "rq_client_assertion req = Some a"
      "validate_jwt_client_assertion AL fk now wall c a url issuer jwks g = (Inr (), g')"
      using assms(1) by (elim disjE) (simp_all add: d split: option.splits if_splits)
    from jwt validate_assertion_good [OF a(2) assms(2)] a(1) show ?thesis by (elim disjE) (simp_all add: d)
  next
    case san
    then show ?thesis using assms(1) by (elim disjE) (simp_all add: d san_check_def Let_def split: option.splits if_splits)
  next
    case tls
    then show ?thesis using assms(1) by (elim disjE) (simp_all add: d dn_check_def split: option.splits if_splits)
  next
    case other
    then show ?thesis using assms(1) by (simp add: d Let_def split: if_splits)
  qed
qed

text \<open>C5. Client authentication is sound: the authenticator accepts a client only if the request carries
  the evidence that the client's registered method demands; a public client, or one with an
  unknown method, is never authenticated.\<close>
theorem authentication_sound:
  assumes "authenticate_confidential_client AL fk now wall c req url issuer jwks mt g = (Inr (), g')" "cl_client_id c \<noteq> []"
  shows "credential_presented AL fk now wall c req url issuer jwks mt g \<and> \<not> is_public c"
  using assms by (rule accepted_credential)

definition demo_secret_client :: client where
  "demo_secret_client = client_new demo_dpop_libs 0 ''id'' ''c1'' ''s3cret'' [] [] ''read'' ''demo''"

definition demo_request :: token_request where
  "demo_request = \<lparr>rq_grant_type = ''client_credentials'', rq_code = None, rq_redirect_uri = None, rq_client_id = ''c1'',
     rq_client_secret = Some ''s3cret'', rq_refresh_token = None, rq_username = None, rq_password = None, rq_scope = None,
     rq_code_verifier = None, rq_device_code = None, rq_client_assertion_type = None, rq_client_assertion = None,
     rq_resource = [], rq_assertion = None, rq_audience = [], rq_subject_token = None, rq_subject_token_type = None,
     rq_actor_token = None, rq_actor_token_type = None, rq_requested_token_type = None, rq_authorization_details = None,
     rq_request_details = None, rq_request_context = None, rq_purp = None, rq_transaction_authorization_id = None\<rparr>"

definition no_mtls :: mtls where
  "no_mtls = \<lparr>mt_thumbprint = None, mt_subject_dn = None, mt_san_uri = None, mt_san_dns = None\<rparr>"

definition no_assertions :: assertion_lib where
  "no_assertions = \<lparr>al_header = (\<lambda>_. None), al_rsa_ok = (\<lambda>_ _. False), al_decode = (\<lambda>_ _ _ _. Inl [])\<rparr>"

lemma authentication_sound_witness:
  "credential_presented no_assertions (\<lambda>_. None) 0 0 demo_secret_client demo_request [] [] None no_mtls guard_default"
proof -
  have "authenticate_confidential_client no_assertions (\<lambda>_. None) 0 0 demo_secret_client demo_request [] [] None no_mtls
      guard_default = (Inr (), guard_default)"
    by (simp add: authenticate_confidential_client_def demo_secret_client_def client_new_def demo_request_def
        client_secret_matches_def)
  from authentication_sound [OF this] show ?thesis by (simp add: demo_secret_client_def client_new_def)
qed

section \<open>Scopes\<close>

lemma validate_scope_subset_iff:
  "validate_scope_subset requested allowed = Inr () \<longleftrightarrow>
   split_whitespace requested \<noteq> [] \<and> set (split_whitespace requested) \<subseteq> set (split_whitespace allowed)"
proof -
  have "filter (\<lambda>s. s \<noteq> []) (split_whitespace x) = split_whitespace x" for x
    using split_whitespace_tokens by (intro filter_True) blast
  then show ?thesis by (auto simp: validate_scope_subset_def list_all_iff Let_def split: if_splits)
qed

end
