(* ===== verification/Auth_Actor.thy ===== *)
theory Auth_Actor
  imports Storage_Laws
begin

text \<open>
  The authorization-code actor (\<open>crates/oauth2-actix/src/actors/auth_actor.rs\<close>): creation,
  lookup, validation and consumption of authorization codes, PKCE, and the in-memory store
  of pushed authorization requests (RFC 9126).  One definition per message handler; the
  best-effort event publication and the tracing spans have no effect on the modelled state.
\<close>

section \<open>Codes\<close>

definition code_char :: "nat \<Rightarrow> char" where
  "code_char idx =
     (if idx \<le> 25 then char_of (97 + idx)
      else if idx \<le> 51 then char_of (65 + (idx - 26))
      else char_of (48 + (idx - 52)))"

text \<open>\<open>draws\<close> are the 32 numbers drawn from \<open>0..62\<close>.\<close>
definition generate_code :: "nat list \<Rightarrow> string" where
  "generate_code draws = map code_char draws"

definition validate_pkce :: "libs \<Rightarrow> string \<Rightarrow> string \<Rightarrow> string \<Rightarrow> bool" where
  "validate_pkce L challenge verifier method =
     (if length verifier < 43 \<or> length verifier > 128 then False
      else if method = ''S256'' then challenge = sha256_b64url L verifier
      else False)"

record create_code_msg =
  cc_client_id :: string
  cc_user_id :: string
  cc_redirect_uri :: string
  cc_scope :: string
  cc_code_challenge :: "string option"
  cc_code_challenge_method :: "string option"
  cc_nonce :: "string option"
  cc_resource :: "string option"
  cc_authorization_details :: "string option"
  cc_claims_request :: "string option"
  cc_requested_actor :: "string option"

definition build_code :: "int \<Rightarrow> instant \<Rightarrow> string \<Rightarrow> string \<Rightarrow> nat list \<Rightarrow> create_code_msg \<Rightarrow> authorization_code" where
  "build_code ttl now uuid family draws m =
     (new_with_ttl now uuid family (generate_code draws) (cc_client_id m) (cc_user_id m)
        (cc_redirect_uri m) (cc_scope m) (cc_code_challenge m) (cc_code_challenge_method m)
        (cc_nonce m) (cc_resource m) (cc_authorization_details m) (cc_claims_request m) ttl)
     \<lparr>ac_requested_actor := cc_requested_actor m\<rparr>"

definition create_authorization_code ::
  "int \<Rightarrow> instant \<Rightarrow> string \<Rightarrow> string \<Rightarrow> nat list \<Rightarrow> create_code_msg \<Rightarrow> db \<Rightarrow> authorization_code result \<times> db" where
  "create_authorization_code ttl now uuid family draws m d =
     (let a = build_code ttl now uuid family draws m
      in bindS (save_authorization_code a d) (\<lambda>_ d'. (Inr a, d')))"

definition lookup_authorization_code :: "string \<Rightarrow> db \<Rightarrow> authorization_code option" where
  "lookup_authorization_code code d = get_authorization_code code d"

definition validate_authorization_code ::
  "libs \<Rightarrow> instant \<Rightarrow> string \<Rightarrow> string \<Rightarrow> string option \<Rightarrow> string option \<Rightarrow> db \<Rightarrow> authorization_code result" where
  "validate_authorization_code L now code client_id redirect_uri code_verifier d =
     bindR (ok_or (get_authorization_code code d) (invalid_grant ''Authorization code not found'')) (\<lambda>a.
     if \<not> code_is_valid now a then Inl (invalid_grant ''Authorization code is expired or used'')
     else if ac_client_id a \<noteq> client_id then Inl (invalid_grant ''Client ID mismatch'')
     else if (case redirect_uri of None \<Rightarrow> False | Some r \<Rightarrow> ac_redirect_uri a \<noteq> r)
       then Inl (invalid_grant ''Redirect URI mismatch'')
     else case ac_code_challenge a of
       None \<Rightarrow> Inr a
     | Some challenge \<Rightarrow>
         bindR (ok_or code_verifier (invalid_grant ''Code verifier required'')) (\<lambda>verifier.
           if \<not> validate_pkce L challenge verifier (unwrap_or (ac_code_challenge_method a) ''S256'')
           then Inl (invalid_grant ''Invalid code verifier'')
           else Inr a))"

section \<open>Pushed authorization requests\<close>

record par_entry =
  pe_client_id :: string
  pe_params :: "(string \<times> string) list"
  pe_created_at :: instant

type_synonym par_store = "string \<rightharpoonup> par_entry"

definition par_live :: "instant \<Rightarrow> par_entry \<Rightarrow> bool" where
  "par_live now e = (timestamp (now - pe_created_at e) < 60)"

definition par_retain :: "instant \<Rightarrow> par_store \<Rightarrow> par_store" where
  "par_retain now s = (\<lambda>k. case s k of None \<Rightarrow> None | Some e \<Rightarrow> if par_live now e then Some e else None)"

definition request_uri_of :: "string \<Rightarrow> string" where
  "request_uri_of uuid = ''urn:ietf:params:oauth:request-uri:'' @ uuid"

definition store_par_request ::
  "instant \<Rightarrow> string \<Rightarrow> string \<Rightarrow> (string \<times> string) list \<Rightarrow> par_store \<Rightarrow> string result \<times> par_store" where
  "store_par_request now uuid client_id params s =
     (Inr (request_uri_of uuid),
      (par_retain now s)(request_uri_of uuid \<mapsto>
         \<lparr>pe_client_id = client_id, pe_params = params, pe_created_at = now\<rparr>))"

definition get_par_request :: "instant \<Rightarrow> string \<Rightarrow> par_store \<Rightarrow> par_entry option \<times> par_store" where
  "get_par_request now request_uri s =
     (let s' = par_retain now s in (s' request_uri, s'(request_uri := None)))"

section \<open>The contract of a store whose entries are taken once\<close>

locale one_time_store =
  fixes put :: "instant \<Rightarrow> 'k \<Rightarrow> 'v \<Rightarrow> 's \<Rightarrow> 's"
    and take_entry :: "instant \<Rightarrow> 'k \<Rightarrow> 's \<Rightarrow> 'v option \<times> 's"
    and lifetime :: instant
  assumes take_put: "take_entry t k (put now k v s) = (if t - now < lifetime then Some v else None, snd (take_entry t k (put now k v s)))"
    and take_removes: "fst (take_entry t' k (snd (take_entry t k s))) = None"
    and take_other: "k \<noteq> k' \<Longrightarrow> t \<le> t' \<Longrightarrow> fst (take_entry t' k' (snd (take_entry t k s))) = fst (take_entry t' k' s)"
    and put_other: "k \<noteq> k' \<Longrightarrow> now \<le> t \<Longrightarrow> fst (take_entry t k' (put now k v s)) = fst (take_entry t k' s)"
begin

lemma taken_at_most_once:
  "fst (take_entry t k s) = Some v \<Longrightarrow> fst (take_entry t' k (snd (take_entry t k s))) = None"
  by (rule take_removes)

lemma live_entry_taken: "t - now < lifetime \<Longrightarrow> fst (take_entry t k (put now k v s)) = Some v"
  by (subst take_put) simp

lemma expired_entry_gone: "lifetime \<le> t - now \<Longrightarrow> fst (take_entry t k (put now k v s)) = None"
  by (subst take_put) simp

lemma survives_other_take:
  assumes "k \<noteq> k'" "now \<le> t'" "t' \<le> t" "t - now < lifetime"
  shows "fst (take_entry t k (snd (take_entry t' k' (put now k v s)))) = Some v"
  using take_other [of k' k t' t "put now k v s"] live_entry_taken [of t now k v s] assms by simp

end

definition par_put :: "instant \<Rightarrow> string \<Rightarrow> string \<times> (string \<times> string) list \<Rightarrow> par_store \<Rightarrow> par_store" where
  "par_put now uuid v s = snd (store_par_request now uuid (fst v) (snd v) s)"

definition par_take ::
  "instant \<Rightarrow> string \<Rightarrow> par_store \<Rightarrow> (string \<times> (string \<times> string) list) option \<times> par_store" where
  "par_take now uuid s =
     (case get_par_request now (request_uri_of uuid) s of
        (e, s') \<Rightarrow> (map_option (\<lambda>e. (pe_client_id e, pe_params e)) e, s'))"

lemma request_uri_of_inj [simp]: "request_uri_of u = request_uri_of v \<longleftrightarrow> u = v"
  by (simp add: request_uri_of_def)

lemma par_live_iff: "par_live t e \<longleftrightarrow> t - pe_created_at e < secs 60"
  unfolding par_live_def timestamp_def secs_def by linarith

lemma par_live_mono: "par_live t' e \<Longrightarrow> t \<le> t' \<Longrightarrow> par_live t e"
  by (simp add: par_live_iff)

interpretation par: one_time_store par_put par_take "secs 60"
proof (unfold_locales, goal_cases)
  case (1 t k now v s)
  show ?case
    by (simp add: par_take_def par_put_def get_par_request_def store_par_request_def Let_def
        par_retain_def par_live_iff)
next
  case (2 t' k t s)
  show ?case
    by (simp add: par_take_def get_par_request_def Let_def par_retain_def)
next
  case (3 k k' t t' s)
  then show ?case
    by (auto simp: par_take_def get_par_request_def Let_def par_retain_def split: option.splits
        dest: par_live_mono)
next
  case (4 k k' now t v s)
  then show ?case
    by (auto simp: par_take_def par_put_def get_par_request_def store_par_request_def Let_def
        par_retain_def split: option.splits dest: par_live_mono)
qed

section \<open>Properties\<close>

lemma code_char_range:
  assumes "idx < 62"
  shows "(of_char (code_char idx) :: nat) \<in> {48..57} \<union> {65..90} \<union> {97..122}"
  using assms by (auto simp: code_char_def)

lemma code_char_inj: "i < 62 \<Longrightarrow> j < 62 \<Longrightarrow> code_char i = code_char j \<Longrightarrow> i = j"
proof -
  assume a: "i < 62" "j < 62" "code_char i = code_char j"
  have v: "(of_char (code_char n) :: nat) = (if n \<le> 25 then 97 + n else if n \<le> 51 then 39 + n else n - 4)"
    if "n < 62" for n using that by (auto simp: code_char_def)
  from a(3) have "(of_char (code_char i) :: nat) = of_char (code_char j)" by simp
  then show "i = j" using v [OF a(1)] v [OF a(2)] a(1,2) by (auto split: if_splits)
qed

text \<open>Code generation: a code has one alphanumeric character per draw, and different draws
  give different codes, so the 32 draws from 62 values are kept in full.\<close>
theorem generate_code_injective:
  assumes "set ds \<subseteq> {..<62}" "set es \<subseteq> {..<62}" "generate_code ds = generate_code es"
  shows "ds = es"
proof -
  have "inj_on code_char {..<62}" by (auto intro!: inj_onI dest: code_char_inj)
  then show ?thesis using assms unfolding generate_code_def
    by (meson inj_on_map_eq_map inj_on_subset le_sup_iff)
qed

lemma generate_code_injective_witness: "generate_code [0, 61] = generate_code [0, 61] \<and> [0, 61] = [0, 61::nat]"
  using generate_code_injective [of "[0, 61]" "[0, 61]"] by simp

lemma validate_code_cases:
  "validate_authorization_code L now code cid ruri verifier d = Inr a \<longleftrightarrow>
     get_authorization_code code d = Some a \<and> \<not> ac_used a \<and> now \<le> ac_expires_at a \<and>
     ac_client_id a = cid \<and> ruri \<in> {None, Some (ac_redirect_uri a)} \<and>
     (\<forall>ch. ac_code_challenge a = Some ch \<longrightarrow>
        (\<exists>v. verifier = Some v \<and> 43 \<le> length v \<and> length v \<le> 128 \<and>
             ac_code_challenge_method a \<in> {None, Some ''S256''} \<and> sha256_b64url L v = ch))"
proof (cases "get_authorization_code code d")
  case None
  then show ?thesis by (simp add: validate_authorization_code_def)
next
  case (Some b)
  have p: "validate_pkce L ch v (unwrap_or m ''S256'') \<longleftrightarrow>
      43 \<le> length v \<and> length v \<le> 128 \<and> m \<in> {None, Some ''S256''} \<and> sha256_b64url L v = ch" for ch v m
    by (cases m) (auto simp: validate_pkce_def)
  show ?thesis
    unfolding validate_authorization_code_def Some code_is_valid_def code_is_expired_def
    by (cases "ac_code_challenge b"; cases ruri; cases verifier)
      (auto simp: p result_simps split: if_splits)
qed

text \<open>Validation of an authorization code succeeds exactly when the code is stored, unused,
  unexpired, bound to the presenting client, presented with the recorded redirect URI (or with
  none), and, when it carries a PKCE challenge, presented with a verifier of 43 to 128
  characters whose S256 hash is that challenge.\<close>
theorem validate_authorization_code_iff:
  "validate_authorization_code L now code cid ruri verifier d = Inr a \<longleftrightarrow>
     get_authorization_code code d = Some a \<and> \<not> ac_used a \<and> now \<le> ac_expires_at a \<and>
     ac_client_id a = cid \<and> ruri \<in> {None, Some (ac_redirect_uri a)} \<and>
     (\<forall>ch. ac_code_challenge a = Some ch \<longrightarrow>
        (\<exists>v. verifier = Some v \<and> 43 \<le> length v \<and> length v \<le> 128 \<and>
             ac_code_challenge_method a \<in> {None, Some ''S256''} \<and> sha256_b64url L v = ch))"
  by (rule validate_code_cases)

lemma validate_authorization_code_iff_witness:
  "validate_authorization_code \<lparr>json_from_str = \<lambda>_. None, json_to_string = \<lambda>_. [], url_parse = \<lambda>_. None,
       sha256_b64url = \<lambda>v. take 8 v\<rparr> 5 ''c0de'' ''app'' None (Some (replicate 43 CHR ''v''))
     (db_empty\<lparr>db_codes := [new_with_ttl 0 ''i'' ''f'' ''c0de'' ''app'' ''u'' ''https://app/cb'' ''read''
        (Some (replicate 8 CHR ''v'')) (Some ''S256'') None None None None 60]\<rparr>) =
   Inr (new_with_ttl 0 ''i'' ''f'' ''c0de'' ''app'' ''u'' ''https://app/cb'' ''read''
        (Some (replicate 8 CHR ''v'')) (Some ''S256'') None None None None 60)"
  by (subst validate_authorization_code_iff)
    (simp add: get_authorization_code_def db_empty_def new_with_ttl_def clamp_def secs_def)

text \<open>A freshly created code is bound to its request: it can be redeemed only by the client it
  was issued to, at most 600 seconds after its creation, and carries a token family.\<close>
theorem created_code_redeemable:
  assumes "create_authorization_code ttl now uuid fam draws m d = (Inr a, d')"
    and "validate_authorization_code L t (generate_code draws) cid ruri verifier d' = Inr b"
  shows "b = a \<and> cid = cc_client_id m \<and> t \<le> now + secs 600 \<and> ac_token_family a = Some fam \<and>
     ac_user_id a = cc_user_id m \<and> ac_scope a = cc_scope m"
proof -
  define a0 where "a0 = build_code ttl now uuid fam draws m"
  from assms(1) have "bindS (save_authorization_code a0 d) (\<lambda>_ d'. (Inr a0, d')) = (Inr a, d')"
    by (simp only: create_authorization_code_def a0_def Let_def)
  then obtain s where s: "save_authorization_code a d = (Inr s, d')"
    and a: "a = build_code ttl now uuid fam draws m"
    unfolding bindS_eq_Inr a0_def [symmetric] by blast
  have c: "ac_code a = generate_code draws" by (simp add: a build_code_def new_with_ttl_def)
  from sql_codes.save_lookup [OF s, of "ac_code a"]
  have "get_authorization_code (generate_code draws) d' = Some a" by (simp add: c)
  with assms(2) have b: "b = a" "ac_client_id a = cid" "t \<le> ac_expires_at a"
    by (simp_all add: validate_code_cases)
  have "ac_expires_at a \<le> now + secs 600" by (simp add: a build_code_def new_with_ttl_def clamp_def)
  with b(3) have t: "t \<le> now + secs 600" by (rule order_trans)
  show ?thesis using b(1,2) t by (simp add: a build_code_def new_with_ttl_def)
qed

definition demo_libs :: libs where
  "demo_libs = \<lparr>json_from_str = \<lambda>_. None, json_to_string = \<lambda>_. [], url_parse = \<lambda>_. None, sha256_b64url = \<lambda>v. v\<rparr>"

definition demo_db :: db where
  "demo_db = db_empty\<lparr>db_clients := [client_new demo_libs 0 ''ci'' ''app'' ''s'' [] [] ''read'' ''n''],
     db_users := [user_new 0 ''u'' ''alice'' ''h'' ''e'']\<rparr>"

definition demo_code_msg :: create_code_msg where
  "demo_code_msg = \<lparr>cc_client_id = ''app'', cc_user_id = ''u'', cc_redirect_uri = ''https://app/cb'',
     cc_scope = ''read'', cc_code_challenge = None, cc_code_challenge_method = None, cc_nonce = None,
     cc_resource = None, cc_authorization_details = None, cc_claims_request = None, cc_requested_actor = None\<rparr>"

lemma created_code_redeemable_witness:
  "\<exists>a d'. create_authorization_code 60 0 ''i'' ''f'' [1, 2] demo_code_msg demo_db = (Inr a, d') \<and>
     validate_authorization_code demo_libs 5 (generate_code [1, 2]) ''app'' None None d' = Inr a \<and>
     (5::int) \<le> 0 + secs 600"
proof -
  obtain a d' where c: "create_authorization_code 60 0 ''i'' ''f'' [1, 2] demo_code_msg demo_db = (Inr a, d')"
    "validate_authorization_code demo_libs 5 (generate_code [1, 2]) ''app'' None None d' = Inr a"
    by (simp add: create_authorization_code_def build_code_def demo_code_msg_def demo_db_def demo_libs_def db_empty_def
        save_authorization_code_def checked_def has_client_def has_user_def client_new_def user_new_def
        new_with_ttl_def clamp_def validate_code_cases get_authorization_code_def secs_def Let_def)
  show ?thesis using c created_code_redeemable [OF c] by blast
qed

text \<open>A pushed authorization request is handed out at most once, only within 60 seconds of being
  pushed, with exactly the parameters that were pushed.\<close>
theorem par_request_one_time:
  "fst (par_take t uuid (par_put now uuid v s)) = (if t - now < secs 60 then Some v else None) \<and>
   fst (par_take t' uuid (snd (par_take t uuid s'))) = None"
  using par.live_entry_taken par.expired_entry_gone par.take_removes by auto

end
