(* ===== verification/Client_Actor.thy ===== *)
theory Client_Actor
  imports Token_Laws Client_Auth Auth_Actor Storage_Invariants
begin

text \<open>
  The client actor (\<open>actors/client_actor.rs\<close>): registration, lookup through an LRU cache with a
  five-minute lifetime, secret validation, update, deletion and the materialization of clients
  described by metadata documents; and the client resolver (\<open>handlers/client_resolver.rs\<close>)
  with the registration rules it shares with \<open>handlers/client.rs\<close>.  The \<open>CacheClient\<close>
  message a handler sends to its own actor is delivered at once.  The Redis layer is
  in \<open>Redis_Cache\<close>; the document fetcher of \<open>handlers/cimd.rs\<close> is an argument.
\<close>

section \<open>The cache\<close>

record cached_client =
  cch_client :: client
  cch_inserted_at :: instant

record client_actor =
  cla_cache :: "(string \<times> cached_client) list"

definition client_cache_ttl :: instant where
  "client_cache_ttl = secs 300"

definition client_cache_max :: nat where
  "client_cache_max = 10000"

definition get_cached_client :: "instant \<Rightarrow> string \<Rightarrow> client_actor \<Rightarrow> client option \<times> client_actor" where
  "get_cached_client now cid A =
     (case lru_get cid (cla_cache A) of
        (Some e, cache) \<Rightarrow>
          if now - cch_inserted_at e < client_cache_ttl then (Some (cch_client e), A\<lparr>cla_cache := cache\<rparr>)
          else (None, A\<lparr>cla_cache := lru_pop cid cache\<rparr>)
      | (None, cache) \<Rightarrow> (None, A\<lparr>cla_cache := cache\<rparr>))"

definition insert_cached_client :: "instant \<Rightarrow> client \<Rightarrow> client_actor \<Rightarrow> client_actor" where
  "insert_cached_client now c A =
     A\<lparr>cla_cache := lru_put client_cache_max (cl_client_id c) \<lparr>cch_client = c, cch_inserted_at = now\<rparr> (cla_cache A)\<rparr>"

section \<open>Lookup, validation, update, deletion\<close>

definition get_client_handler :: "instant \<Rightarrow> string \<Rightarrow> client_actor \<Rightarrow> db \<Rightarrow> client result \<times> client_actor" where
  "get_client_handler now cid A d =
     (case get_cached_client now cid A of
        (Some c, A1) \<Rightarrow> (Inr c, A1)
      | (None, A1) \<Rightarrow>
          (case get_client cid d of
             None \<Rightarrow> (Inl (invalid_client ''Client not found''), A1)
           | Some c \<Rightarrow> (Inr c, insert_cached_client now c A1)))"

definition validate_client_handler ::
  "instant \<Rightarrow> string \<Rightarrow> string \<Rightarrow> client_actor \<Rightarrow> db \<Rightarrow> bool result \<times> client_actor" where
  "validate_client_handler now cid presented_secret A d =
     (case get_client_handler now cid A d of
        (Inl e, A1) \<Rightarrow> (Inl e, A1)
      | (Inr c, A1) \<Rightarrow> (Inr (cl_client_secret c = presented_secret), A1))"

definition update_client_handler ::
  "instant \<Rightarrow> client \<Rightarrow> client_actor \<Rightarrow> db \<Rightarrow> client result \<times> client_actor \<times> db" where
  "update_client_handler now c A d =
     (case update_client c d of
        (Inl e, d1) \<Rightarrow> (Inl e, A, d1)
      | (Inr _, d1) \<Rightarrow> (Inr c, insert_cached_client now c A, d1))"

definition delete_client_handler :: "string \<Rightarrow> client_actor \<Rightarrow> db \<Rightarrow> unit result \<times> client_actor \<times> db" where
  "delete_client_handler cid A d =
     (let A1 = A\<lparr>cla_cache := lru_pop cid (cla_cache A)\<rparr>; (r, d1) = delete_client cid d in (r, A1, d1))"

section \<open>Registration\<close>

record client_registration =
  cr_client_name :: string
  cr_redirect_uris :: "string list"
  cr_grant_types :: "string list"
  cr_scope :: string
  cr_token_endpoint_auth_method :: string
  cr_response_types :: "string list"
  cr_contacts :: "string list"
  cr_logo_uri :: "string option"
  cr_client_uri :: "string option"
  cr_policy_uri :: "string option"
  cr_tos_uri :: "string option"
  cr_jwks :: "json option"
  cr_jwks_uri :: "string option"
  cr_backchannel_logout_uri :: "string option"
  cr_backchannel_logout_session_required :: "bool option"
  cr_frontchannel_logout_uri :: "string option"
  cr_frontchannel_logout_session_required :: "bool option"
  cr_post_logout_redirect_uris :: "string list option"
  cr_tls_client_certificate_subject_dn :: "string option"
  cr_allowed_actors :: "string list option"
  cr_tls_client_auth_san :: "string option"
  cr_software_id :: "string option"
  cr_software_version :: "string option"
  cr_software_statement :: "string option"

text \<open>The character draw is that of \<open>generate_code\<close>; the draws are arguments.\<close>
definition generate_secret_of_length :: "nat list \<Rightarrow> string" where
  "generate_secret_of_length draws = map code_char draws"

definition registered_client ::
  "libs \<Rightarrow> instant \<Rightarrow> string \<Rightarrow> string \<Rightarrow> nat list \<Rightarrow> nat list \<Rightarrow> client_registration \<Rightarrow> client" where
  "registered_client L now uuid client_uuid secret_draws rat_draws reg =
     (let client_secret = (if cr_token_endpoint_auth_method reg = ''none'' then [] else generate_secret_of_length secret_draws);
          c = client_new L now uuid (''client_'' @ client_uuid) client_secret (cr_redirect_uris reg) (cr_grant_types reg)
                (cr_scope reg) (cr_client_name reg)
      in c\<lparr>cl_token_endpoint_auth_method := cr_token_endpoint_auth_method reg,
           cl_response_types := (if cr_response_types reg \<noteq> [] then strings_to_json L (cr_response_types reg) else cl_response_types c),
           cl_contacts := (if cr_contacts reg \<noteq> [] then strings_to_json L (cr_contacts reg) else cl_contacts c),
           cl_logo_uri := unwrap_or (cr_logo_uri reg) (cl_logo_uri c),
           cl_client_uri := unwrap_or (cr_client_uri reg) (cl_client_uri c),
           cl_policy_uri := unwrap_or (cr_policy_uri reg) (cl_policy_uri c),
           cl_tos_uri := unwrap_or (cr_tos_uri reg) (cl_tos_uri c),
           cl_jwks := unwrap_or (map_option (json_to_string L) (cr_jwks reg)) (cl_jwks c),
           cl_jwks_uri := unwrap_or (cr_jwks_uri reg) (cl_jwks_uri c),
           cl_backchannel_logout_uri := unwrap_or (cr_backchannel_logout_uri reg) (cl_backchannel_logout_uri c),
           cl_backchannel_logout_session_required :=
             unwrap_or (cr_backchannel_logout_session_required reg) (cl_backchannel_logout_session_required c),
           cl_frontchannel_logout_uri := unwrap_or (cr_frontchannel_logout_uri reg) (cl_frontchannel_logout_uri c),
           cl_frontchannel_logout_session_required :=
             unwrap_or (cr_frontchannel_logout_session_required reg) (cl_frontchannel_logout_session_required c),
           cl_post_logout_redirect_uris :=
             unwrap_or (map_option (strings_to_json L) (cr_post_logout_redirect_uris reg)) (cl_post_logout_redirect_uris c),
           cl_tls_client_certificate_subject_dn := unwrap_or (cr_tls_client_certificate_subject_dn reg) [],
           cl_allowed_actors := unwrap_or (map_option (strings_to_json L) (cr_allowed_actors reg)) (cl_allowed_actors c),
           cl_tls_client_auth_san := unwrap_or (cr_tls_client_auth_san reg) (cl_tls_client_auth_san c),
           cl_software_id := unwrap_or (cr_software_id reg) (cl_software_id c),
           cl_software_version := unwrap_or (cr_software_version reg) (cl_software_version c),
           cl_registration_access_token := generate_secret_of_length rat_draws\<rparr>)"

definition register_client ::
  "libs \<Rightarrow> instant \<Rightarrow> string \<Rightarrow> string \<Rightarrow> nat list \<Rightarrow> nat list \<Rightarrow> client_registration \<Rightarrow> client_actor \<Rightarrow> db \<Rightarrow>
   client result \<times> client_actor \<times> db" where
  "register_client L now uuid client_uuid secret_draws rat_draws reg A d =
     (let c = registered_client L now uuid client_uuid secret_draws rat_draws reg in
      case save_client c d of
        (Inl e, d1) \<Rightarrow> (Inl e, A, d1)
      | (Inr _, d1) \<Rightarrow> (Inr c, insert_cached_client now c A, d1))"

section \<open>The rules of registration\<close>

definition valid_redirect_uri :: "string \<Rightarrow> unit result" where
  "valid_redirect_uri uri0 =
     (let uri = trim uri0; lower = to_lowercase uri in
      if uri = [] then Inl (invalid_request ''redirect_uri must not be empty'')
      else if CHR ''#'' \<in> set uri then Inl (invalid_request ''redirect_uri must not contain a fragment'')
      else if CHR 0x0D \<in> set uri \<or> CHR 0x0A \<in> set uri then Inl (invalid_request ''redirect_uri contains invalid characters'')
      else if starts_with lower ''javascript:'' \<or> starts_with lower ''data:''
        then Inl (invalid_request ''redirect_uri uses a disallowed URI scheme'')
      else if \<not> sublist ''://'' uri then Inl (invalid_request ''redirect_uri must be an absolute URI'')
      else Inr ())"

definition registrable_grant_types :: "string list" where
  "registrable_grant_types = [''authorization_code'', ''client_credentials'', ''refresh_token'',
     ''urn:ietf:params:oauth:grant-type:device_code'']"

definition validate_grant_types :: "string list \<Rightarrow> unit result" where
  "validate_grant_types gts =
     (if gts = [] then Inl (invalid_request ''grant_types must not be empty'')
      else if \<not> list_all (\<lambda>g. g \<in> set registrable_grant_types) gts
        then Inl (invalid_request ''unsupported or disabled grant_type in registration'')
      else Inr ())"

definition supported_auth_methods :: "string list" where
  "supported_auth_methods = [''client_secret_basic'', ''client_secret_post'', ''client_secret_jwt'', ''private_key_jwt'',
     ''none'', ''tls_client_auth'', ''self_signed_tls_client_auth'', ''tls_client_auth_san_uri'', ''tls_client_auth_san_dns'']"

definition validate_token_endpoint_auth_method :: "string \<Rightarrow> string list \<Rightarrow> unit result" where
  "validate_token_endpoint_auth_method method gts =
     (if method \<notin> set supported_auth_methods then Inl (invalid_request ''unsupported token_endpoint_auth_method'')
      else if method = ''none'' \<and> filter (\<lambda>g. g \<noteq> ''authorization_code'' \<and> g \<noteq> ''refresh_token'') gts \<noteq> []
        then Inl (invalid_request
          ''public clients (token_endpoint_auth_method=none) may only use authorization_code and refresh_token'')
      else Inr ())"

definition scope_contains_privileged :: "string \<Rightarrow> bool" where
  "scope_contains_privileged scope =
     list_ex (\<lambda>s. list_ex (\<lambda>p. eq_ignore_case p s) [''admin'', ''write'']) (split_whitespace scope)"

fun all_ok :: "('a \<Rightarrow> unit result) \<Rightarrow> 'a list \<Rightarrow> unit result" where
  "all_ok f [] = Inr ()"
| "all_ok f (x # xs) = bindR (f x) (\<lambda>_. all_ok f xs)"

definition validate_san_auth_method :: "client_registration \<Rightarrow> unit result" where
  "validate_san_auth_method reg =
     (if cr_token_endpoint_auth_method reg \<in> {''tls_client_auth_san_uri'', ''tls_client_auth_san_dns''} \<and>
         (case cr_tls_client_auth_san reg of None \<Rightarrow> True | Some s \<Rightarrow> trim s = [])
      then Inl (invalid_request ''tls_client_auth_san is required for tls_client_auth_san_uri / tls_client_auth_san_dns'')
      else Inr ())"

definition validate_registration :: "client_registration \<Rightarrow> unit result" where
  "validate_registration reg =
     (let gts = (if cr_grant_types reg = [] then [''authorization_code''] else cr_grant_types reg);
          no_uri = (case cr_jwks_uri reg of None \<Rightarrow> True | Some u \<Rightarrow> u = [])
      in bindR (validate_grant_types gts) (\<lambda>_.
         bindR (validate_token_endpoint_auth_method (cr_token_endpoint_auth_method reg) gts) (\<lambda>_.
         bindR (ensure (\<not> scope_contains_privileged (cr_scope reg))
            (invalid_request ''requested scope includes a privileged scope that may not be self-registered'')) (\<lambda>_.
         bindR (ensure (cr_redirect_uris reg \<noteq> []) (invalid_request ''redirect_uris must not be empty'')) (\<lambda>_.
         bindR (all_ok valid_redirect_uri (cr_redirect_uris reg)) (\<lambda>_.
         bindR (ensure (\<not> (cr_token_endpoint_auth_method reg = ''private_key_jwt'' \<and> cr_jwks reg = None \<and> no_uri))
            (invalid_request ''private_key_jwt requires jwks or jwks_uri'')) (\<lambda>_.
         bindR (ensure (\<not> (cr_jwks reg \<noteq> None \<and> \<not> no_uri)) (invalid_request ''jwks and jwks_uri are mutually exclusive'')) (\<lambda>_.
           validate_san_auth_method reg))))))))"

definition normalise_registration :: "client_registration \<Rightarrow> client_registration" where
  "normalise_registration reg =
     reg\<lparr>cr_grant_types := (if cr_grant_types reg = [] then [''authorization_code''] else cr_grant_types reg),
         cr_response_types := (if cr_response_types reg = [] then [''code''] else cr_response_types reg),
         cr_scope := (if trim (cr_scope reg) = [] then ''openid'' else cr_scope reg)\<rparr>"

end
