(* ===== verification/Client_Resolver.thy ===== *)
theory Client_Resolver
  imports Client_Actor
begin

text \<open>
  The client resolver (\<open>handlers/client_resolver.rs\<close>), the shape of client-id URLs
  (\<open>handlers/cimd.rs\<close>) and the materialization of clients described by metadata documents
  (\<open>actors/client_actor.rs\<close>).  What the fetcher of \<open>handlers/cimd.rs\<close> retrieves for a URL
  is an argument; the text of a URL parse error is not modelled.
\<close>

record agent_config =
  ag_max_delegation_depth :: nat
  ag_trust_domain :: "string option"
  ag_cimd_enabled :: bool
  ag_cimd_allowed_hosts :: "string list"
  ag_cimd_denied_hosts :: "string list"
  ag_cimd_max_clients :: nat
  ag_obo_enabled :: bool
  ag_a2a_profile_enabled :: bool
  ag_txn_token_ttl_secs :: "64 word"
  ag_txn_tokens_enabled :: bool
  ag_tac_enabled :: bool
  ag_id_jag_enabled :: bool
  ag_chaining_targets :: "string list"
  ag_ai_agent_access_token_ttl_secs :: "64 word option"

section \<open>Client-id URLs\<close>

fun after_first :: "string \<Rightarrow> string \<Rightarrow> string option" where
  "after_first p [] = (if p = [] then Some [] else None)"
| "after_first p (c # cs) = (if prefix p (c # cs) then Some (drop (length p) (c # cs)) else after_first p cs)"

definition raw_path :: "string \<Rightarrow> string" where
  "raw_path client_id =
     (let after_scheme = unwrap_or (after_first ''://'' client_id) client_id;
          path = dropWhile (\<lambda>c. c \<noteq> CHR ''/'') after_scheme
      in takeWhile (\<lambda>c. c \<noteq> CHR ''?'' \<and> c \<noteq> CHR ''#'') path)"

fun decode_dots :: "string \<Rightarrow> string" where
  "decode_dots [] = []"
| "decode_dots (c # cs) =
     (if prefix ''%2e'' (c # cs) then CHR ''.'' # decode_dots (drop 2 cs) else c # decode_dots cs)"

definition is_dot_segment :: "string \<Rightarrow> bool" where
  "is_dot_segment seg = (let decoded = decode_dots (to_lowercase seg) in decoded = ''.'' \<or> decoded = ''..'')"

definition validate_client_id_url :: "libs \<Rightarrow> string \<Rightarrow> bool \<Rightarrow> url result" where
  "validate_client_id_url L client_id allow_loopback =
     bindR (ok_or (url_parse L client_id) (invalid_client ''client_id is not a valid URL: '')) (\<lambda>url.
     bindR (ok_or (url_host url) (invalid_client ''client_id URL has no host'')) (\<lambda>host.
     let scheme_ok = (url_scheme url = ''https'' \<or>
           (allow_loopback \<and> url_scheme url = ''http'' \<and>
            to_lowercase host \<in> {''localhost'', ''127.0.0.1'', ''::1''}))
     in if \<not> scheme_ok then Inl (invalid_client ''client_id URL must use the https scheme'')
        else if url_username url \<noteq> [] \<or> url_password url \<noteq> None
          then Inl (invalid_client ''client_id URL must not contain userinfo'')
        else if url_fragment url \<noteq> None then Inl (invalid_client ''client_id URL must not contain a fragment'')
        else if url_query url \<noteq> None then Inl (invalid_client ''client_id URL must not contain a query string'')
        else if url_path url = [] \<or> url_path url = ''/''
          then Inl (invalid_client (''client_id URL must have a path other than '' @ quoted ''/''))
        else if list_ex is_dot_segment (split_char CHR ''/'' (raw_path client_id))
          then Inl (invalid_client ''client_id URL must not contain '.' or '..' path segments'')
        else Inr url))"

definition is_client_id_url :: "libs \<Rightarrow> string \<Rightarrow> bool" where
  "is_client_id_url L client_id = (\<not> isl (validate_client_id_url L client_id False))"

definition canonical_client_id :: "libs \<Rightarrow> string \<Rightarrow> string" where
  "canonical_client_id L client_id =
     (case url_parse L client_id of
        Some url \<Rightarrow> if url_scheme url \<in> {''https'', ''http''} then url_text url else client_id
      | None \<Rightarrow> client_id)"

record cimd_fetcher =
  cf_allow_loopback :: bool
  cf_resolve :: "string \<Rightarrow> client result"

definition accepts_client_id :: "libs \<Rightarrow> cimd_fetcher \<Rightarrow> string \<Rightarrow> bool" where
  "accepts_client_id L f client_id = (\<not> isl (validate_client_id_url L client_id (cf_allow_loopback f)))"

definition cimd_url_target :: "libs \<Rightarrow> string \<Rightarrow> cimd_fetcher option \<Rightarrow> string option" where
  "cimd_url_target L client_id fetcher =
     (let canonical = canonical_client_id L client_id;
          is_url = (case fetcher of Some f \<Rightarrow> accepts_client_id L f canonical | None \<Rightarrow> is_client_id_url L canonical)
      in if is_url then Some canonical else None)"

definition enabled_fetcher :: "agent_config \<Rightarrow> cimd_fetcher option \<Rightarrow> cimd_fetcher option" where
  "enabled_fetcher ag cimd = (if ag_cimd_enabled ag then cimd else None)"

definition canonical_cimd_client_id :: "libs \<Rightarrow> string \<Rightarrow> cimd_fetcher option \<Rightarrow> agent_config \<Rightarrow> string" where
  "canonical_cimd_client_id L client_id cimd ag =
     unwrap_or (cimd_url_target L client_id (enabled_fetcher ag cimd)) client_id"

definition validate_metadata_document :: "libs \<Rightarrow> client \<Rightarrow> unit result" where
  "validate_metadata_document L c =
     bindR (ensure (\<not> scope_contains_privileged (cl_scope c)) (invalid_client ''client metadata requests a privileged scope'')) (\<lambda>_.
     bindR (map_sum (\<lambda>e. invalid_client (''client metadata grant_types are not usable: '' @ unwrap_or (err_description e) ''invalid'')) id
              (validate_grant_types (get_grant_types L c))) (\<lambda>_.
       map_sum (\<lambda>e. invalid_client (''client metadata redirect_uri is not usable: '' @ unwrap_or (err_description e) ''invalid'')) id
         (all_ok valid_redirect_uri (get_redirect_uris L c))))"

section \<open>Resolution\<close>

definition resolve_client ::
  "libs \<Rightarrow> cimd_fetcher option \<Rightarrow> agent_config \<Rightarrow> instant \<Rightarrow> string \<Rightarrow> client_actor \<Rightarrow> db \<Rightarrow> client result \<times> client_actor" where
  "resolve_client L cimd ag now client_id A d =
     (let fetcher = enabled_fetcher ag cimd in
      case cimd_url_target L client_id fetcher of
        Some canonical \<Rightarrow>
          (case bindR (ok_or fetcher (invalid_client ''client_id metadata documents are not enabled'')) (\<lambda>f.
                bindR (cf_resolve f canonical) (\<lambda>c.
                bindR (validate_metadata_document L c) (\<lambda>_. Inr (c\<lparr>cl_cimd_managed := True\<rparr>)))) of
             Inl e \<Rightarrow> (Inl e, A)
           | Inr c \<Rightarrow>
               (case get_client_handler now canonical A d of
                  (Inr existing, A1) \<Rightarrow>
                    if \<not> cl_enabled existing then (Inl (invalid_client ''client is disabled''), A1) else (Inr c, A1)
                | (Inl _, A1) \<Rightarrow> (Inr c, A1)))
      | None \<Rightarrow> get_client_handler now client_id A d)"

section \<open>Materialization\<close>

definition cimd_row_matches :: "client \<Rightarrow> client \<Rightarrow> bool" where
  "cimd_row_matches stored doc =
     (cl_redirect_uris stored = cl_redirect_uris doc \<and> cl_grant_types stored = cl_grant_types doc \<and>
      cl_scope stored = cl_scope doc \<and> cl_name stored = cl_name doc \<and>
      cl_token_endpoint_auth_method stored = cl_token_endpoint_auth_method doc \<and>
      cl_response_types stored = cl_response_types doc \<and> cl_jwks stored = cl_jwks doc \<and>
      cl_jwks_uri stored = cl_jwks_uri doc \<and> cl_client_uri stored = cl_client_uri doc \<and>
      cl_logo_uri stored = cl_logo_uri doc \<and> cl_cimd_managed stored)"

definition preserve_operator_state :: "client \<Rightarrow> client \<Rightarrow> client" where
  "preserve_operator_state doc existing =
     doc\<lparr>cl_id := cl_id existing, cl_enabled := cl_enabled existing, cl_allowed_actors := cl_allowed_actors existing,
         cl_dpop_nonce_required := cl_dpop_nonce_required existing,
         cl_registration_access_token := cl_registration_access_token existing,
         cl_require_state := cl_require_state existing, cl_tls_client_auth_san := cl_tls_client_auth_san existing,
         cl_tls_client_certificate_subject_dn := cl_tls_client_certificate_subject_dn existing,
         cl_software_id := cl_software_id existing, cl_software_version := cl_software_version existing\<rparr>"

definition materialize_future ::
  "instant \<Rightarrow> client \<Rightarrow> nat \<Rightarrow> client_actor \<Rightarrow> db \<Rightarrow> unit result \<times> client_actor \<times> db" where
  "materialize_future now c0 max_clients A d =
     (let c = c0\<lparr>cl_cimd_managed := True\<rparr> in
      case get_client (cl_client_id c) d of
        Some existing \<Rightarrow>
          if cl_client_secret existing \<noteq> [] \<or> \<not> cl_cimd_managed existing
          then (Inl (invalid_client ''client_id is already registered''), A, d)
          else let c1 = preserve_operator_state c existing in
            if cimd_row_matches existing c1 then (Inr (), insert_cached_client now c1 A, d)
            else (case update_client c1 d of
                    (Inl e, d1) \<Rightarrow> (Inl e, A, d1)
                  | (Inr _, d1) \<Rightarrow> (Inr (), insert_cached_client now c1 A, d1))
      | None \<Rightarrow>
          if max_clients > 0 \<and> count_cimd_clients d \<ge> max_clients
          then (Inl (invalid_client ''client metadata registry is full''), A, d)
          else (case save_client c d of
                  (Inr _, d1) \<Rightarrow> (Inr (), insert_cached_client now c A, d1)
                | (Inl e, d1) \<Rightarrow>
                    (case get_client (cl_client_id c) d1 of
                       Some existing \<Rightarrow> (Inr (), insert_cached_client now (preserve_operator_state c existing) A, d1)
                     | None \<Rightarrow> (Inl e, A, d1))))"

definition materialize_handler ::
  "instant \<Rightarrow> client \<Rightarrow> nat \<Rightarrow> client_actor \<Rightarrow> db \<Rightarrow> unit result \<times> client_actor \<times> db" where
  "materialize_handler now c max_clients A d =
     (case get_cached_client now (cl_client_id c) A of
        (cached, A1) \<Rightarrow>
          if (case cached of Some r \<Rightarrow> cimd_row_matches r c | None \<Rightarrow> False) then (Inr (), A1, d)
          else materialize_future now c max_clients A1 d)"

definition materialize_cimd_client ::
  "instant \<Rightarrow> client \<Rightarrow> agent_config \<Rightarrow> client_actor \<Rightarrow> db \<Rightarrow> unit result \<times> client_actor \<times> db" where
  "materialize_cimd_client now c ag A d =
     (if \<not> cl_cimd_managed c then (Inr (), A, d) else materialize_handler now c (ag_cimd_max_clients ag) A d)"

section \<open>Metadata documents stay confined\<close>

definition operator_owned :: "client \<Rightarrow> bool" where
  "operator_owned r = (cl_client_secret r \<noteq> [] \<or> \<not> cl_cimd_managed r)"

definition operator_state :: "client \<Rightarrow> string \<times> string \<times> bool \<times> string \<times> bool \<times> string \<times> bool" where
  "operator_state r = (cl_id r, cl_client_id r, cl_enabled r, cl_allowed_actors r, cl_dpop_nonce_required r,
     cl_registration_access_token r, cl_require_state r)"

definition confined :: "nat \<Rightarrow> db \<Rightarrow> db \<Rightarrow> bool" where
  "confined m d d' =
     ((\<forall>r \<in> set (db_clients d). operator_owned r \<longrightarrow> r \<in> set (db_clients d')) \<and>
      (\<forall>r \<in> set (db_clients d). \<exists>r' \<in> set (db_clients d'). operator_state r' = operator_state r) \<and>
      (0 < m \<longrightarrow> count_cimd_clients d' \<le> max (count_cimd_clients d) m))"

lemma confined_refl: "confined m d d"
  by (auto simp: confined_def)

lemma count_where_update:
  assumes "\<And>x. x \<in> set xs \<Longrightarrow> P x \<Longrightarrow> Q (f x) \<longleftrightarrow> Q x"
  shows "count_where Q (update_where P f xs) = count_where Q xs"
  using assms by (induction xs) (auto simp: count_where_def)

lemma preserve_fields [simp]:
  "cl_client_id (preserve_operator_state c e) = cl_client_id c"
  "cl_cimd_managed (preserve_operator_state c e) = cl_cimd_managed c"
  by (simp_all add: preserve_operator_state_def)

lemma update_row_confined:
  assumes dist: "distinct (map cl_client_id (db_clients d))"
    and ex: "get_client (cl_client_id c) d = Some existing" "\<not> operator_owned existing" and cm: "cl_cimd_managed c"
  shows "confined m d (snd (update_client (preserve_operator_state c existing) d))"
proof -
  let ?c = "preserve_operator_state c existing" and ?P = "\<lambda>r. cl_client_id r = cl_client_id c"
  let ?f = "\<lambda>r. ?c\<lparr>cl_id := cl_id r, cl_client_id := cl_client_id r, cl_created_at := cl_created_at r,
               cl_require_state := cl_require_state r\<rparr>"
  have e: "existing \<in> set (db_clients d)" "cl_client_id existing = cl_client_id c"
    using find_Some_in [OF ex(1) [unfolded get_client_def]] by auto
  have only: "r = existing" if "r \<in> set (db_clients d)" "?P r" for r
    using that dist e by (metis distinct_map inj_onD)
  have d': "db_clients (snd (update_client ?c d)) = update_where ?P ?f (db_clients d)"
    by (simp add: update_client_def)
  have st: "operator_state (?f existing) = operator_state existing"
    by (simp add: operator_state_def preserve_operator_state_def)
  have "count_cimd_clients (snd (update_client ?c d)) = count_cimd_clients d"
    unfolding count_cimd_clients_def d' using only ex(2) cm
    by (intro count_where_update) (auto simp: operator_owned_def)
  moreover have "r \<in> set (update_where ?P ?f (db_clients d))" if "r \<in> set (db_clients d)" "operator_owned r" for r
    using that only [OF that(1)] ex(2) by (auto simp: set_update_where image_iff)
  moreover have "\<exists>r' \<in> set (update_where ?P ?f (db_clients d)). operator_state r' = operator_state r"
    if "r \<in> set (db_clients d)" for r
    using that only [OF that] st by (cases "?P r") (force simp: set_update_where)+
  ultimately show ?thesis by (simp add: confined_def d')
qed

lemma insert_row_confined:
  assumes "\<not> (0 < m \<and> m \<le> count_cimd_clients d)"
  shows "confined m d (snd (save_client c d))"
  using assms by (auto simp: confined_def save_client_def checked_def count_cimd_clients_def count_where_def)

lemma materialize_future_confined:
  assumes "distinct (map cl_client_id (db_clients d))" "materialize_future now c m A d = (r, A', d')"
  shows "confined m d d'"
proof -
  let ?c = "c\<lparr>cl_cimd_managed := True\<rparr>"
  show ?thesis
  proof (cases "get_client (cl_client_id ?c) d")
    case None
    show ?thesis
    proof (cases "0 < m \<and> m \<le> count_cimd_clients d")
      case False
      then have "d' = snd (save_client ?c d)"
        using assms(2) None by (auto simp: materialize_future_def Let_def split: prod.splits sum.splits option.splits)
      then show ?thesis using insert_row_confined [OF False] by simp
    qed (use assms(2) None in \<open>simp add: materialize_future_def confined_refl\<close>)
  next
    case (Some existing)
    have "d' = d \<or> \<not> operator_owned existing \<and> d' = snd (update_client (preserve_operator_state ?c existing) d)"
      using assms(2) Some
      by (auto simp: materialize_future_def Let_def operator_owned_def update_client_def split: if_splits)
    then show ?thesis using update_row_confined [OF assms(1) Some] confined_refl by auto
  qed
qed

text \<open>Metadata documents stay confined: persisting a client described by a document never changes a
  client that holds a secret or was registered otherwise, never reverts what an operator
  decided for a row (whether it is enabled, its actors, its nonce policy), and never grows the
  document-derived rows beyond the configured bound.\<close>
theorem materialize_confined:
  assumes "db_wf d" "materialize_cimd_client now c ag A d = (r, A', d')"
  shows "confined (ag_cimd_max_clients ag) d d'"
proof -
  have dist: "distinct (map cl_client_id (db_clients d))" using assms(1) by (simp add: db_wf_def keys_ok_def)
  show ?thesis
    using assms(2) materialize_future_confined [OF dist, of now c "ag_cimd_max_clients ag"]
    by (auto simp: materialize_cimd_client_def materialize_handler_def confined_refl split: if_splits prod.splits)
qed

section \<open>How stale a looked-up client can be\<close>

lemma lru_get_head: "fst (lru_get k (lru_put n k v xs)) = (if n = 0 then None else Some v)"
  by (cases n) (simp_all add: lru_get_def lru_put_def)

text \<open>A client row read by one lookup is served from the cache for exactly 300 seconds, whatever
  happens to the table meanwhile (an administrator's rotated secret included), and from the
  table after that.\<close>
theorem client_lookup_staleness:
  assumes "get_cached_client t cid A = (None, A0)" "get_client cid d = Some c"
    and "get_client_handler t cid A d = (Inr c, A1)" "t \<le> u"
  shows "fst (get_client_handler u cid A1 d') =
    (if u - t < secs 300 then Inr c else ok_or (get_client cid d') (invalid_client ''Client not found''))"
proof -
  have c: "cl_client_id c = cid" using find_Some_in [OF assms(2) [unfolded get_client_def]] by simp
  have A1: "A1 = insert_cached_client t c A0" using assms(1-3) by (simp add: get_client_handler_def)
  let ?e = "\<lparr>cch_client = c, cch_inserted_at = t\<rparr>"
  obtain cache where g: "lru_get cid (cla_cache A1) = (Some ?e, cache)"
    using lru_get_head [of cid client_cache_max ?e "cla_cache A0"]
    by (cases "lru_get cid (cla_cache A1)") (auto simp: A1 insert_cached_client_def c client_cache_max_def)
  show ?thesis
    by (auto simp: get_client_handler_def get_cached_client_def g client_cache_ttl_def split: option.splits)
qed

definition demo_doc_client :: client where
  "demo_doc_client = (client_new demo_dpop_libs 0 ''i'' ''https://a/x'' [] [] [] [] ''n'')\<lparr>cl_cimd_managed := True\<rparr>"

definition demo_agent :: agent_config where
  "demo_agent = \<lparr>ag_max_delegation_depth = 4, ag_trust_domain = None, ag_cimd_enabled = True, ag_cimd_allowed_hosts = [],
     ag_cimd_denied_hosts = [], ag_cimd_max_clients = 1, ag_obo_enabled = False, ag_a2a_profile_enabled = False,
     ag_txn_token_ttl_secs = 300, ag_txn_tokens_enabled = False, ag_tac_enabled = False, ag_id_jag_enabled = False,
     ag_chaining_targets = [], ag_ai_agent_access_token_ttl_secs = None\<rparr>"

lemma materialize_confined_witness:
  "\<exists>A' d'. materialize_cimd_client 0 demo_doc_client demo_agent \<lparr>cla_cache = []\<rparr> db_empty = (Inr (), A', d') \<and>
     confined 1 db_empty d' \<and> length (db_clients d') = 1"
proof -
  have m: "\<exists>A' d'. materialize_cimd_client 0 demo_doc_client demo_agent \<lparr>cla_cache = []\<rparr> db_empty = (Inr (), A', d') \<and>
      length (db_clients d') = 1"
    by (simp add: materialize_cimd_client_def materialize_handler_def materialize_future_def get_cached_client_def
        lru_get_def get_client_def save_client_def checked_def count_cimd_clients_def count_where_def demo_doc_client_def
        demo_agent_def client_new_def db_empty_def Let_def)
  then obtain A' d' where "materialize_cimd_client 0 demo_doc_client demo_agent \<lparr>cla_cache = []\<rparr> db_empty = (Inr (), A', d')"
    "length (db_clients d') = 1" by blast
  moreover have "db_wf db_empty" by (simp add: db_wf_def keys_ok_def refs_ok_def db_empty_def)
  ultimately show ?thesis using materialize_confined by (fastforce simp: demo_agent_def)
qed

lemma client_lookup_staleness_witness:
  "\<exists>A1. fst (get_client_handler (secs 299) ''c1'' A1 db_empty) = Inr demo_secret_client \<and>
        fst (get_client_handler (secs 300) ''c1'' A1 db_empty) = Inl (invalid_client ''Client not found'')"
proof -
  let ?d = "db_empty\<lparr>db_clients := [demo_secret_client]\<rparr>"
  let ?A1 = "insert_cached_client 0 demo_secret_client \<lparr>cla_cache = []\<rparr>"
  have g: "get_cached_client 0 ''c1'' \<lparr>cla_cache = []\<rparr> = (None, \<lparr>cla_cache = []\<rparr>)"
    by (simp add: get_cached_client_def lru_get_def)
  have c: "get_client ''c1'' ?d = Some demo_secret_client"
    by (simp add: get_client_def demo_secret_client_def client_new_def)
  have h: "get_client_handler 0 ''c1'' \<lparr>cla_cache = []\<rparr> ?d = (Inr demo_secret_client, ?A1)"
    by (simp add: get_client_handler_def g c)
  show ?thesis
    using client_lookup_staleness [OF g c h, of "secs 299" db_empty] client_lookup_staleness [OF g c h, of "secs 300" db_empty]
    by (intro exI [of _ ?A1]) (simp add: secs_def get_client_def db_empty_def)
qed

end
