(* ===== verification/Rate_Limit.thy ===== *)
theory Rate_Limit
  imports OAuth_Prelude
begin

text \<open>
  The in-memory rate limiter of \<open>oauth2-ratelimit\<close> (\<open>token_bucket.rs\<close>, \<open>in_memory.rs\<close>) and the
  middleware \<open>oauth2-actix/src/middleware/rate_limit.rs\<close> that consults it.  The 64-bit floats of
  a bucket are real numbers, so the statements are free of rounding error; the 32 and 64-bit
  integers are words.  All readings of the monotonic clock inside one call are one instant.
\<close>

section \<open>A token bucket\<close>

record token_bucket =
  tb_tokens :: real
  tb_last_refill :: instant
  tb_max_tokens :: "32 word"
  tb_refill_rate :: real

definition tb_new :: "instant \<Rightarrow> 32 word \<Rightarrow> 64 word \<Rightarrow> token_bucket" where
  "tb_new now max_tokens window_secs =
     (let tokens = max max_tokens 1; window = max window_secs 1 in
      \<lparr>tb_tokens = real (unat tokens), tb_last_refill = now, tb_max_tokens = tokens,
       tb_refill_rate = real (unat tokens) / real (unat window)\<rparr>)"

definition as_secs_f64 :: "instant \<Rightarrow> real" where
  "as_secs_f64 d = of_int d / 1000000000"

text \<open>\<open>duration_since\<close> saturates at zero; the casts from floats saturate at the ends of the range.\<close>

definition duration_since :: "instant \<Rightarrow> instant \<Rightarrow> instant" where
  "duration_since now earlier = max 0 (now - earlier)"

definition f64_as_u32 :: "real \<Rightarrow> 32 word" where
  "f64_as_u32 x = of_int (max 0 (min 4294967295 \<lfloor>x\<rfloor>))"

definition f64_as_u64 :: "real \<Rightarrow> 64 word" where
  "f64_as_u64 x = of_int (max 0 (min 18446744073709551615 \<lfloor>x\<rfloor>))"

definition refill :: "instant \<Rightarrow> token_bucket \<Rightarrow> token_bucket" where
  "refill now b =
     (let elapsed = as_secs_f64 (duration_since now (tb_last_refill b)) in
      b\<lparr>tb_tokens := min (tb_tokens b + elapsed * tb_refill_rate b) (real (unat (tb_max_tokens b))),
        tb_last_refill := now\<rparr>)"

definition try_consume :: "instant \<Rightarrow> token_bucket \<Rightarrow> (bool \<times> 32 word) \<times> token_bucket" where
  "try_consume now b =
     (let b1 = refill now b in
      if tb_tokens b1 \<ge> 1
      then let b2 = b1\<lparr>tb_tokens := tb_tokens b1 - 1\<rparr> in ((True, f64_as_u32 (of_int \<lfloor>tb_tokens b2\<rfloor>)), b2)
      else ((False, 0), b1))"

definition seconds_until_refill :: "token_bucket \<Rightarrow> real" where
  "seconds_until_refill b = (if tb_tokens b \<ge> 1 then 0 else (1 - tb_tokens b) / tb_refill_rate b)"

definition tb_window_secs :: "token_bucket \<Rightarrow> 64 word" where
  "tb_window_secs b = f64_as_u64 (of_int \<lceil>real (unat (tb_max_tokens b)) / tb_refill_rate b\<rceil>)"

section \<open>The keyed limiter\<close>

record rate_limit_result =
  rl_allowed :: bool
  rl_remaining :: "32 word"
  rl_limit :: "32 word"
  rl_reset_at :: instant
  rl_retry_after :: "instant option"

record bucket_entry =
  be_bucket :: token_bucket
  be_last_seen :: instant

record in_memory_limiter =
  im_buckets :: "string \<rightharpoonup> bucket_entry"
  im_max_requests :: "32 word"
  im_window_secs :: "64 word"

definition im_new :: "32 word \<Rightarrow> 64 word \<Rightarrow> in_memory_limiter" where
  "im_new max_requests window_secs =
     \<lparr>im_buckets = Map.empty, im_max_requests = max_requests, im_window_secs = window_secs\<rparr>"

text \<open>One tick of the background task started by \<open>start_cleanup_task\<close>; \<open>window_secs * 2\<close> is a 64-bit product.\<close>

definition im_cleanup :: "instant \<Rightarrow> in_memory_limiter \<Rightarrow> in_memory_limiter" where
  "im_cleanup now l =
     (let expiry = secs (uint (im_window_secs l * 2)) in
      l\<lparr>im_buckets := (\<lambda>k. case im_buckets l k of
          Some e \<Rightarrow> if duration_since now (be_last_seen e) < expiry then Some e else None
        | None \<Rightarrow> None)\<rparr>)"

definition from_secs_f64 :: "real \<Rightarrow> instant" where
  "from_secs_f64 x = round (x * 1000000000)"

definition im_check :: "instant \<Rightarrow> instant \<Rightarrow> string \<Rightarrow> in_memory_limiter \<Rightarrow> rate_limit_result \<times> in_memory_limiter" where
  "im_check now wall key l =
     (let entry = (case im_buckets l key of
            Some e \<Rightarrow> e
          | None \<Rightarrow> \<lparr>be_bucket = tb_new now (im_max_requests l) (im_window_secs l), be_last_seen = now\<rparr>);
          ((allowed, remaining), b) = try_consume now (be_bucket entry);
          reset_at = wall + secs (uint (tb_window_secs b));
          retry_after = (if allowed then None else Some (from_secs_f64 (seconds_until_refill b)))
      in (\<lparr>rl_allowed = allowed, rl_remaining = remaining, rl_limit = im_max_requests l, rl_reset_at = reset_at,
           rl_retry_after = retry_after\<rparr>,
          l\<lparr>im_buckets := (im_buckets l)(key \<mapsto> \<lparr>be_bucket = b, be_last_seen = now\<rparr>)\<rparr>))"

section \<open>The middleware\<close>

record rate_limit_service =
  rls_exempt_paths :: "string list"
  rls_trust_proxy_headers :: bool

record ip_request =
  ir_path :: string
  ir_forwarded_for :: "string option"
  ir_peer_ip :: "string option"

definition extract_client_ip :: "rate_limit_service \<Rightarrow> ip_request \<Rightarrow> string" where
  "extract_client_ip svc req =
     (case (rls_trust_proxy_headers svc, ir_forwarded_for req) of
        (True, Some v) \<Rightarrow> trim (hd (split_char (CHR '','') v))
      | _ \<Rightarrow> unwrap_or (ir_peer_ip req) ''unknown'')"

datatype rl_decision =
  Passed
| PassedWithHeaders "32 word" "32 word" int
| TooManyRequests "32 word" int int

definition as_secs :: "instant \<Rightarrow> int" where
  "as_secs d = d div 1000000000"

definition reset_unix :: "rate_limit_result \<Rightarrow> int" where
  "reset_unix r = as_secs (max 0 (rl_reset_at r))"

text \<open>\<open>check\<close> is the configured backend: it answers a result or fails, and a failure lets the request pass.\<close>

definition rate_limit_call ::
    "(string \<Rightarrow> 's \<Rightarrow> (string + rate_limit_result) \<times> 's) \<Rightarrow> rate_limit_service \<Rightarrow> ip_request \<Rightarrow> 's \<Rightarrow> rl_decision \<times> 's" where
  "rate_limit_call check svc req s =
     (if list_ex (\<lambda>p. starts_with (ir_path req) p) (rls_exempt_paths svc) then (Passed, s)
      else case check (extract_client_ip svc req) s of
        (Inr result, s1) \<Rightarrow>
          (if rl_allowed result then (PassedWithHeaders (rl_limit result) (rl_remaining result) (reset_unix result), s1)
           else (TooManyRequests (rl_limit result) (reset_unix result)
                   (unwrap_or (map_option (\<lambda>d. max (as_secs d) 1) (rl_retry_after result)) 1), s1))
      | (Inl e, s1) \<Rightarrow> (Passed, s1))"

section \<open>The contract of a metered resource\<close>

text \<open>
  What a rate limiter promises for one key: it holds a non-negative credit that grows at most at
  a fixed rate, and every admission spends one unit.
\<close>

locale metered =
  fixes take :: "instant \<Rightarrow> 'b \<Rightarrow> bool \<times> 'b"
    and credit :: "'b \<Rightarrow> instant \<Rightarrow> real"
    and rate :: real
    and okb :: "instant \<Rightarrow> 'b \<Rightarrow> bool"
  assumes credit_nonneg: "okb t b \<Longrightarrow> 0 \<le> credit b t"
    and credit_grows: "okb t b \<Longrightarrow> t \<le> t' \<Longrightarrow> credit b t' \<le> credit b t + rate * as_secs_f64 (t' - t)"
    and ok_later: "okb t b \<Longrightarrow> t \<le> t' \<Longrightarrow> okb t' b"
    and take_ok: "okb t b \<Longrightarrow> okb t (snd (take t b))"
    and take_spends: "okb t b \<Longrightarrow> credit (snd (take t b)) t + of_bool (fst (take t b)) = credit b t"
    and take_admits: "okb t b \<Longrightarrow> fst (take t b) \<longleftrightarrow> 1 \<le> credit b t"
begin

fun outcomes :: "instant list \<Rightarrow> 'b \<Rightarrow> bool list" where
  "outcomes [] b = []"
| "outcomes (t # ts) b = fst (take t b) # outcomes ts (snd (take t b))"

lemma outcomes_bounded:
  assumes "okb t b" "sorted (t # ts)" "\<forall>u\<in>set ts. u \<le> tn" "t \<le> tn"
  shows "real (count_list (outcomes ts b) True) \<le> credit b t + rate * as_secs_f64 (tn - t)"
  using assms
proof (induction ts arbitrary: t b)
  case Nil
  from credit_nonneg [OF ok_later] credit_grows Nil show ?case by fastforce
next
  case (Cons u ts)
  have u: "t \<le> u" "u \<le> tn" using Cons.prems by auto
  note ou = ok_later [OF Cons.prems(1) u(1)]
  have "real (count_list (outcomes ts (snd (take u b))) True) \<le> credit (snd (take u b)) u + rate * as_secs_f64 (tn - u)"
    using Cons.prems by (intro Cons.IH take_ok ou) auto
  moreover have "credit b u \<le> credit b t + rate * as_secs_f64 (u - t)"
    by (rule credit_grows [OF Cons.prems(1) u(1)])
  moreover have "as_secs_f64 (tn - t) = as_secs_f64 (tn - u) + as_secs_f64 (u - t)"
    by (simp add: as_secs_f64_def field_simps)
  ultimately show ?case
    using take_spends [OF ou] by (auto simp: distrib_left of_bool_def split: if_splits)
qed

end

section \<open>The bucket keeps the contract\<close>

definition bucket_take :: "instant \<Rightarrow> token_bucket \<Rightarrow> bool \<times> token_bucket" where
  "bucket_take t b = (case try_consume t b of ((a, _), b') \<Rightarrow> (a, b'))"

definition bucket_credit :: "token_bucket \<Rightarrow> instant \<Rightarrow> real" where
  "bucket_credit b t = tb_tokens (refill t b)"

definition clamped_max :: "32 word \<Rightarrow> real" where
  "clamped_max m = real (unat (max m 1))"

definition clamped_window :: "64 word \<Rightarrow> real" where
  "clamped_window w = real (unat (max w 1))"

definition bucket_rate :: "32 word \<Rightarrow> 64 word \<Rightarrow> real" where
  "bucket_rate m w = clamped_max m / clamped_window w"

definition bucket_ok :: "32 word \<Rightarrow> 64 word \<Rightarrow> instant \<Rightarrow> token_bucket \<Rightarrow> bool" where
  "bucket_ok m w t b = (tb_max_tokens b = max m 1 \<and> tb_refill_rate b = bucket_rate m w \<and>
     0 \<le> tb_tokens b \<and> tb_tokens b \<le> clamped_max m \<and> tb_last_refill b \<le> t)"

lemma unat_max_1: "1 \<le> unat (max x (1 :: 'a::len word))"
proof -
  have "1 \<le> max x 1" by simp
  then have "unat (1 :: 'a word) \<le> unat (max x 1)" by (simp only: word_le_nat_alt)
  then show ?thesis by simp
qed

lemma clamped_max_ge_1: "1 \<le> clamped_max m"
  using unat_max_1 [of m] unfolding clamped_max_def by linarith

lemma clamped_window_ge_1: "1 \<le> clamped_window w"
  using unat_max_1 [of w] unfolding clamped_window_def by linarith

lemma rate_pos: "0 < bucket_rate m w"
  unfolding bucket_rate_def using clamped_max_ge_1 [of m] clamped_window_ge_1 [of w] by (auto intro: divide_pos_pos)

lemma as_secs_nonneg: "0 \<le> d \<Longrightarrow> 0 \<le> as_secs_f64 d"
  by (simp add: as_secs_f64_def)

lemma as_secs_f64_diff: "as_secs_f64 (a - b) = as_secs_f64 a - as_secs_f64 b"
  by (simp add: as_secs_f64_def diff_divide_distrib)

lemma credit_eq:
  assumes "bucket_ok m w t b"
  shows "bucket_credit b t = min (tb_tokens b + bucket_rate m w * as_secs_f64 (t - tb_last_refill b)) (clamped_max m)"
  using assms by (simp add: bucket_credit_def refill_def bucket_ok_def duration_since_def clamped_max_def mult.commute Let_def)

lemma bucket_ok_later: "bucket_ok m w t b \<Longrightarrow> t \<le> t' \<Longrightarrow> bucket_ok m w t' b"
  by (simp add: bucket_ok_def)

lemma bucket_credit_nonneg: "bucket_ok m w t b \<Longrightarrow> 0 \<le> bucket_credit b t"
  using rate_pos [of m w] clamped_max_ge_1 [of m]
  by (simp add: credit_eq) (simp add: bucket_ok_def as_secs_nonneg)

lemma refill_ok: "bucket_ok m w t b \<Longrightarrow> bucket_ok m w t (refill t b)"
  using bucket_credit_nonneg [of m w t b]
  by (auto simp: bucket_ok_def bucket_credit_def refill_def Let_def clamped_max_def)

lemma take_eq: "bucket_take t b =
    (if 1 \<le> bucket_credit b t then (True, (refill t b)\<lparr>tb_tokens := bucket_credit b t - 1\<rparr>) else (False, refill t b))"
  by (simp add: bucket_take_def try_consume_def bucket_credit_def Let_def)

lemma bucket_take_ok: "bucket_ok m w t b \<Longrightarrow> bucket_ok m w t (snd (bucket_take t b))"
  using refill_ok [of m w t b] by (auto simp: take_eq bucket_credit_def bucket_ok_def)

lemma bucket_credit_grows:
  assumes "bucket_ok m w t b" "t \<le> t'"
  shows "bucket_credit b t' \<le> bucket_credit b t + bucket_rate m w * as_secs_f64 (t' - t)"
proof -
  let ?r = "bucket_rate m w"
  have "0 \<le> ?r * as_secs_f64 (t' - t)" using rate_pos [of m w] assms(2) by (simp add: as_secs_nonneg)
  moreover have "?r * as_secs_f64 (t' - tb_last_refill b) = ?r * as_secs_f64 (t - tb_last_refill b) + ?r * as_secs_f64 (t' - t)"
    by (simp only: as_secs_f64_diff) (simp add: algebra_simps)
  ultimately show ?thesis
    unfolding credit_eq [OF assms(1)] credit_eq [OF bucket_ok_later [OF assms]] by linarith
qed

lemma bucket_credit_refilled: "bucket_ok m w t b \<Longrightarrow> tb_last_refill b = t \<Longrightarrow> bucket_credit b t = tb_tokens b"
  by (simp add: credit_eq) (simp add: bucket_ok_def as_secs_f64_def)

lemma bucket_take_spends:
  assumes "bucket_ok m w t b"
  shows "bucket_credit (snd (bucket_take t b)) t + of_bool (fst (bucket_take t b)) = bucket_credit b t"
proof -
  have "tb_last_refill (snd (bucket_take t b)) = t" by (simp add: take_eq refill_def Let_def)
  from bucket_credit_refilled [OF bucket_take_ok [OF assms] this] show ?thesis
    by (simp add: take_eq bucket_credit_def)
qed

lemma bucket_take_admits: "bucket_ok m w t b \<Longrightarrow> fst (bucket_take t b) \<longleftrightarrow> 1 \<le> bucket_credit b t"
  by (simp add: take_eq)

interpretation tb: metered bucket_take bucket_credit "bucket_rate m w" "bucket_ok m w"
  by unfold_locales (rule bucket_credit_nonneg bucket_credit_grows bucket_ok_later bucket_take_ok
      bucket_take_spends bucket_take_admits; assumption)+

section \<open>The limiter is a family of independent, never evicted buckets\<close>

datatype rl_event = CheckKey string instant instant | CleanupTick instant

fun rl_time :: "rl_event \<Rightarrow> instant" where
  "rl_time (CheckKey _ t _) = t"
| "rl_time (CleanupTick t) = t"

type_synonym answer = "bool \<times> 32 word \<times> instant option"

definition answer_of :: "rate_limit_result \<Rightarrow> answer" where
  "answer_of r = (rl_allowed r, rl_remaining r, rl_retry_after r)"

text \<open>The answers a key gets in a run of the limiter, and those of one bucket of its own.\<close>

fun im_answers :: "string \<Rightarrow> rl_event list \<Rightarrow> in_memory_limiter \<Rightarrow> answer list" where
  "im_answers k [] l = []"
| "im_answers k (CleanupTick t # es) l = im_answers k es (im_cleanup t l)"
| "im_answers k (CheckKey k' t wall # es) l =
     (let (r, l') = im_check t wall k' l in
      (if k' = k then [answer_of r] else []) @ im_answers k es l')"

fun bucket_answers :: "instant list \<Rightarrow> token_bucket \<Rightarrow> answer list" where
  "bucket_answers [] b = []"
| "bucket_answers (t # ts) b =
     (let ((a, r), b') = try_consume t b in
      (a, r, if a then None else Some (from_secs_f64 (seconds_until_refill b'))) # bucket_answers ts b')"

fun check_times :: "string \<Rightarrow> rl_event list \<Rightarrow> instant list" where
  "check_times k [] = []"
| "check_times k (CheckKey k' t wall # es) = (if k' = k then t # check_times k es else check_times k es)"
| "check_times k (CleanupTick t # es) = check_times k es"

definition tracks :: "32 word \<Rightarrow> 64 word \<Rightarrow> string \<Rightarrow> instant \<Rightarrow> in_memory_limiter \<Rightarrow> token_bucket \<Rightarrow> bool" where
  "tracks m w k t l b = (bucket_ok m w t b \<and> im_max_requests l = m \<and> im_window_secs l = w \<and>
     (case im_buckets l k of
        Some e \<Rightarrow> be_bucket e = b \<and> be_last_seen e = tb_last_refill b
      | None \<Rightarrow> bucket_credit b t = clamped_max m))"

lemma bucket_credit_le: "bucket_ok m w t b \<Longrightarrow> bucket_credit b t \<le> clamped_max m"
  by (simp add: credit_eq)

lemma bucket_credit_mono:
  assumes "bucket_ok m w t b" "t \<le> u"
  shows "bucket_credit b t \<le> bucket_credit b u"
proof -
  have "as_secs_f64 (t - tb_last_refill b) \<le> as_secs_f64 (u - tb_last_refill b)"
    using assms(2) by (simp add: as_secs_f64_def divide_right_mono)
  then have "bucket_rate m w * as_secs_f64 (t - tb_last_refill b) \<le> bucket_rate m w * as_secs_f64 (u - tb_last_refill b)"
    using rate_pos [of m w] by simp
  then show ?thesis
    unfolding credit_eq [OF assms(1)] credit_eq [OF bucket_ok_later [OF assms]] by linarith
qed

lemma refill_full:
  assumes "bucket_ok m w t b" "bucket_credit b t = clamped_max m" "t \<le> u"
  shows "refill u b = tb_new u m w"
proof -
  have "bucket_credit b u = clamped_max m"
    using bucket_credit_mono [OF assms(1,3)] bucket_credit_le [OF bucket_ok_later [OF assms(1,3)]] assms(2) by simp
  then show ?thesis
    using assms(1) by (simp add: bucket_credit_def refill_def tb_new_def bucket_ok_def bucket_rate_def
        clamped_max_def clamped_window_def Let_def)
qed

lemma tb_new_fields [simp]:
  "tb_tokens (tb_new t m w) = clamped_max m" "tb_last_refill (tb_new t m w) = t"
  "tb_max_tokens (tb_new t m w) = max m 1" "tb_refill_rate (tb_new t m w) = bucket_rate m w"
  by (simp_all add: tb_new_def bucket_rate_def clamped_max_def clamped_window_def Let_def)

lemma tb_new_ok: "bucket_ok m w t (tb_new t m w)"
  using clamped_max_ge_1 [of m] by (simp add: bucket_ok_def)

lemma tb_new_full: "bucket_credit (tb_new t m w) t = clamped_max m"
  using bucket_credit_refilled [OF tb_new_ok, of t m w] by simp

lemma try_consume_refill: "refill t b = refill t b' \<Longrightarrow> try_consume t b = try_consume t b'"
  by (simp add: try_consume_def)

lemma tracks_later: "tracks m w k t l b \<Longrightarrow> t \<le> u \<Longrightarrow> tracks m w k u l b"
  using bucket_credit_mono [of m w t b u] bucket_credit_le [OF bucket_ok_later, of m w t b u]
  by (auto simp: tracks_def bucket_ok_later split: option.splits)

lemma tracks_check_other:
  "tracks m w k t l b \<Longrightarrow> k' \<noteq> k \<Longrightarrow> tracks m w k t (snd (im_check t wall k' l)) b"
  by (auto simp: tracks_def im_check_def Let_def case_prod_unfold)

lemma idle_bucket_full:
  assumes ok: "bucket_ok m w t b" and w: "1 \<le> w" "uint w < 2 ^ 63"
    and idle: "\<not> duration_since t (tb_last_refill b) < secs (uint (w * 2))"
  shows "bucket_credit b t = clamped_max m"
proof -
  have "uint (w * 2) = uint w * 2"
    using w(2) uint_mult_lem [of w "2 :: 64 word"] by simp
  then have "secs (uint w * 2) \<le> t - tb_last_refill b"
    using idle ok by (simp add: duration_since_def bucket_ok_def) linarith
  then have "real_of_int (secs (uint w * 2)) \<le> real_of_int (t - tb_last_refill b)" by (simp only: of_int_le_iff)
  then have "real_of_int (uint w) * 2 \<le> as_secs_f64 (t - tb_last_refill b)"
    by (simp add: secs_def as_secs_f64_def)
  moreover have cw: "clamped_window w = real_of_int (uint w)"
    using w(1) by (simp add: clamped_window_def max_def)
  ultimately have "bucket_rate m w * (clamped_window w * 2) \<le> bucket_rate m w * as_secs_f64 (t - tb_last_refill b)"
    using rate_pos [of m w] by simp
  moreover have "bucket_rate m w * (clamped_window w * 2) = clamped_max m * 2"
    using clamped_window_ge_1 [of w] by (simp add: bucket_rate_def)
  ultimately show ?thesis
    using ok clamped_max_ge_1 [of m] unfolding credit_eq [OF ok] bucket_ok_def by linarith
qed

lemma tracks_cleanup:
  assumes "tracks m w k t l b" "1 \<le> w" "uint w < 2 ^ 63"
  shows "tracks m w k t (im_cleanup t l) b"
  using assms idle_bucket_full [of m w t b]
  by (auto simp: tracks_def im_cleanup_def Let_def split: option.splits)

lemma tracks_check:
  assumes "tracks m w k t l b" "try_consume t b = ((a, rem), b')" "im_check t wall k l = (r, l')"
  shows "answer_of r = (a, rem, if a then None else Some (from_secs_f64 (seconds_until_refill b'))) \<and> tracks m w k t l' b'"
proof -
  have ok: "bucket_ok m w t b" using assms(1) by (simp add: tracks_def)
  have b': "bucket_ok m w t b'" "tb_last_refill b' = t"
    using bucket_take_ok [OF ok] assms(2)
    by (auto simp: bucket_take_def try_consume_def refill_def Let_def split: if_splits)
  have new: "try_consume t (tb_new t m w) = try_consume t b" if "bucket_credit b t = clamped_max m"
    using refill_full [OF ok that order_refl] refill_full [OF tb_new_ok tb_new_full order_refl, of t m w]
    by (intro try_consume_refill) simp
  show ?thesis
    using assms new b'
    by (cases "im_buckets l k") (auto simp: tracks_def im_check_def answer_of_def Let_def)
qed

lemma im_answers_track:
  assumes "1 \<le> w" "uint w < 2 ^ 63" "tracks m w k t l b" "sorted (t # map rl_time es)"
  shows "im_answers k es l = bucket_answers (check_times k es) b"
  using assms(3,4)
proof (induction es arbitrary: t l b)
  case (Cons ev es)
  have t: "t \<le> rl_time ev" and so: "sorted (rl_time ev # map rl_time es)" using Cons.prems(2) by auto
  note tr = tracks_later [OF Cons.prems(1) t]
  show ?case
  proof (cases ev)
    case (CleanupTick u)
    then show ?thesis using tracks_cleanup [OF tr assms(1,2)] Cons.IH so by simp
  next
    case (CheckKey k' u wall)
    obtain r l' where c: "im_check u wall k' l = (r, l')" by fastforce
    show ?thesis
    proof (cases "k' = k")
      case True
      obtain a rem b' where tc: "try_consume u b = ((a, rem), b')" by (metis surj_pair)
      have "tracks m w k u l b" using tr CheckKey by simp
      note st = tracks_check [OF this tc c [unfolded True]]
      from st have "im_answers k es l' = bucket_answers (check_times k es) b'"
        using Cons.IH [of u l' b'] so CheckKey by simp
      then show ?thesis using st CheckKey True c tc by simp
    next
      case False
      then show ?thesis using tracks_check_other [of m w k u l b k' wall] Cons.IH so tr CheckKey c by auto
    qed
  qed
qed simp

lemma bucket_answers_outcomes: "map fst (bucket_answers ts b) = tb.outcomes ts b"
  by (induction ts arbitrary: b) (auto simp: bucket_take_def Let_def case_prod_unfold)

lemma bucket_answers_new:
  assumes "t \<le> u"
  shows "bucket_answers (u # us) (tb_new t m w) = bucket_answers (u # us) (tb_new u m w)"
proof -
  have "refill u (tb_new t m w) = refill u (tb_new u m w)"
    using refill_full [OF tb_new_ok tb_new_full assms] refill_full [OF tb_new_ok tb_new_full order_refl, of u m w] by simp
  from try_consume_refill [OF this] show ?thesis by simp
qed

lemma set_check_times: "set (check_times k es) \<subseteq> set (map rl_time es)"
  by (induction k es rule: check_times.induct) auto

lemma im_answers_refine:
  assumes "1 \<le> w" "uint w < 2 ^ 63" "sorted (map rl_time es)" "check_times k es = t # ts"
  shows "im_answers k es (im_new m w) = bucket_answers (t # ts) (tb_new t m w)"
proof -
  obtain ev es' where es: "es = ev # es'" using assms(4) by (cases es) auto
  let ?t0 = "rl_time ev"
  have "tracks m w k ?t0 (im_new m w) (tb_new ?t0 m w)"
    by (simp add: tracks_def tb_new_ok tb_new_full im_new_def)
  from im_answers_track [OF assms(1,2) this, of es] assms(3,4)
  have "im_answers k es (im_new m w) = bucket_answers (t # ts) (tb_new ?t0 m w)" by (simp add: es)
  moreover have "t \<in> set (map rl_time es)" using set_check_times [of k es] assms(4) by auto
  then have "?t0 \<le> t" using assms(3) es by auto
  ultimately show ?thesis using bucket_answers_new [of ?t0 t ts m w] by simp
qed

text \<open>C17. Refinement: whatever other keys do and whenever the cleanup task runs, a key gets exactly the
  answers (admission, remaining count, retry hint) of one bucket of its own that is never
  evicted; the clock must not run backwards and the window must be at least one second.\<close>
theorem limiter_refines_buckets:
  assumes "1 \<le> w" "uint w < 2 ^ 63" "sorted (map rl_time es)" "check_times k es = t # ts"
  shows "im_answers k es (im_new m w) = bucket_answers (t # ts) (tb_new t m w)"
  using im_answers_refine [OF assms] .

lemma sorted_check_times: "sorted (map rl_time es) \<Longrightarrow> sorted (check_times k es)"
proof (induction k es rule: check_times.induct)
  case (2 k k' t wall es)
  then show ?case using set_check_times [of k es] by fastforce
qed auto

text \<open>Rate bound: in every run the requests of one key admitted up to an instant \<open>tn\<close> number at most
  the capacity plus the refill rate times the time since the key's first request.\<close>
theorem admitted_bounded:
  assumes "1 \<le> w" "uint w < 2 ^ 63" "sorted (map rl_time es)" "check_times k es = t # ts"
    and "\<forall>u\<in>set (t # ts). u \<le> tn"
  shows "real (count_list (map fst (im_answers k es (im_new m w))) True)
    \<le> clamped_max m + bucket_rate m w * as_secs_f64 (tn - t)"
proof -
  have "map fst (im_answers k es (im_new m w)) = tb.outcomes (t # ts) (tb_new t m w)"
    using bucket_answers_outcomes [of "t # ts" "tb_new t m w"] im_answers_refine [OF assms(1-4), where m = m] by simp
  moreover have "sorted (t # t # ts)" using sorted_check_times [OF assms(3), of k] assms(4) by simp
  ultimately show ?thesis
    using tb.outcomes_bounded [OF tb_new_ok [of m w t], where ts = "t # ts" and tn = tn] assms(5) tb_new_full by simp
qed

text \<open>The retry hint of a refusal is sufficient: a bucket that refuses at \<open>t\<close> admits any request made
  after the hinted duration (rounded to nanoseconds) has passed, if no other request intervenes.\<close>
theorem retry_hint_sufficient:
  assumes "bucket_ok m w t b" "try_consume t b = ((False, rem), b')"
    and "t + from_secs_f64 (seconds_until_refill b') < t'"
  shows "fst (fst (try_consume t' b'))"
proof -
  have b': "b' = refill t b" "\<not> 1 \<le> tb_tokens b'" "tb_last_refill b' = t"
    using assms(2) by (auto simp: try_consume_def refill_def Let_def split: if_splits)
  have ok: "bucket_ok m w t b'" using refill_ok [OF assms(1)] b'(1) by simp
  let ?x = "(1 - tb_tokens b') / bucket_rate m w"
  have r: "0 < bucket_rate m w" by (rule rate_pos)
  have x: "seconds_until_refill b' = ?x" using b'(2) ok by (simp add: seconds_until_refill_def bucket_ok_def)
  have x0: "0 \<le> ?x" using b'(2) r by simp
  have "round (?x * 1000000000) + 1 \<le> t' - t" using assms(3) by (simp add: x from_secs_f64_def)
  then have "real_of_int (round (?x * 1000000000) + 1) \<le> real_of_int (t' - t)" by (simp only: of_int_le_iff)
  with of_int_round_ge [of "?x * 1000000000"] have d: "?x * 1000000000 \<le> real_of_int (t' - t)" by simp
  then have e: "?x \<le> as_secs_f64 (t' - t)" by (simp add: as_secs_f64_def)
  have "0 \<le> real_of_int (t' - t)" using d x0 by (smt (verit) mult_nonneg_nonneg)
  then have tt: "t \<le> t'" by (simp only: of_int_0_le_iff)
  have "1 - tb_tokens b' \<le> bucket_rate m w * as_secs_f64 (t' - t)"
    using mult_left_mono [OF e, of "bucket_rate m w"] r by simp
  then have "1 \<le> bucket_credit b' t'"
    using clamped_max_ge_1 [of m] credit_eq [OF bucket_ok_later [OF ok tt]] b'(3) by simp
  then show ?thesis using bucket_take_admits [OF bucket_ok_later [OF ok tt]] by (simp add: bucket_take_def case_prod_unfold)
qed

definition mem_check :: "instant \<Rightarrow> string \<Rightarrow> in_memory_limiter \<Rightarrow> (string + rate_limit_result) \<times> in_memory_limiter" where
  "mem_check t k l = (case im_check t t k l of (r, l') \<Rightarrow> (Inr r, l'))"

definition demo_service :: rate_limit_service where
  "demo_service = \<lparr>rls_exempt_paths = [''/health''], rls_trust_proxy_headers = False\<rparr>"

definition demo_ip_request :: ip_request where
  "demo_ip_request = \<lparr>ir_path = ''/oauth/token'', ir_forwarded_for = None, ir_peer_ip = Some ''10.0.0.1''\<rparr>"

text \<open>The Retry-After header, unlike the hint, may be too short: the middleware truncates the hint to
  whole seconds, so a client that obeys the header of its 429 answer is refused again (one
  request per 10 seconds: refused at 0.1 s with Retry-After 9, and refused again at 9.1 s).\<close>
theorem retry_after_header_early:
  "let (d0, l0) = rate_limit_call (mem_check 0) demo_service demo_ip_request (im_new 1 10);
       (d1, l1) = rate_limit_call (mem_check 100000000) demo_service demo_ip_request l0;
       (d2, l2) = rate_limit_call (mem_check (100000000 + secs 9)) demo_service demo_ip_request l1
   in d1 = TooManyRequests 1 10 9 \<and> (\<exists>reset retry. d2 = TooManyRequests 1 reset retry)"
  by (simp add: rate_limit_call_def mem_check_def demo_service_def demo_ip_request_def extract_client_ip_def
      starts_with_def im_check_def im_new_def tb_new_def try_consume_def refill_def duration_since_def
      as_secs_f64_def seconds_until_refill_def from_secs_f64_def reset_unix_def as_secs_def tb_window_secs_def
      f64_as_u64_def f64_as_u32_def secs_def round_def Let_def)

definition demo_rl_events :: "rl_event list" where
  "demo_rl_events = [CheckKey ''a'' 0 0, CheckKey ''b'' 5 5, CleanupTick (secs 60), CheckKey ''a'' (secs 70) 0]"

lemma limiter_refines_buckets_witness:
  "im_answers ''a'' demo_rl_events (im_new 2 10) = bucket_answers [0, secs 70] (tb_new 0 2 10)"
  by (rule limiter_refines_buckets) (simp_all add: demo_rl_events_def secs_def)

lemma admitted_bounded_witness:
  "real (count_list (map fst (im_answers ''a'' demo_rl_events (im_new 2 10))) True)
    \<le> clamped_max 2 + bucket_rate 2 10 * as_secs_f64 (secs 70 - 0)"
  by (rule admitted_bounded [where ts = "[secs 70]"]) (simp_all add: demo_rl_events_def secs_def)

lemma retry_hint_sufficient_witness:
  "\<exists>b'. fst (fst (try_consume (secs 10 + 1) b'))"
proof -
  let ?b = "(tb_new 0 1 10)\<lparr>tb_tokens := 0\<rparr>"
  have ok: "bucket_ok 1 10 0 ?b" using clamped_max_ge_1 [of 1] by (simp add: bucket_ok_def)
  have t: "try_consume 0 ?b = ((False, 0), refill 0 ?b)"
    by (simp add: try_consume_def refill_def duration_since_def as_secs_f64_def Let_def)
  have h: "0 + from_secs_f64 (seconds_until_refill (refill 0 ?b)) < secs 10 + 1"
    by (simp add: from_secs_f64_def seconds_until_refill_def refill_def duration_since_def as_secs_f64_def
        bucket_rate_def clamped_max_def clamped_window_def secs_def Let_def)
  from retry_hint_sufficient [OF ok t h] show ?thesis by blast
qed

end
