(* ===== verification/Server_Core.thy ===== *)
theory Server_Core
  imports Client_Resolver Rate_Limit
begin

text \<open>
  The state the HTTP handlers share and the messages they send.  A handler is a state transformer
  on the record \<open>server\<close>: the database, the token actor's shards, the client actor, the
  assertion guard, the DPoP replay store, the penalty limiter of the token endpoint and the
  pushed authorization requests.  Configuration and libraries are the record \<open>env\<close>.  One
  request reads the clock once.  Then the pieces several grants repeat: client authentication,
  token responses and ID tokens (\<open>handlers/oauth.rs\<close>, \<open>models/token.rs\<close>).
\<close>

section \<open>State and environment\<close>

record oidc_config =
  oc_issuer :: string
  oc_jwt_secret :: string
  oc_id_token_alg :: string
  oc_id_token_kid :: "string option"
  oc_id_token_private_key_pem :: "string option"

record id_token_claims =
  it_iss :: string
  it_sub :: string
  it_aud :: string
  it_exp :: int
  it_iat :: int
  it_nonce :: "string option"
  it_at_hash :: "string option"
  it_c_hash :: "string option"
  it_email :: "string option"
  it_preferred_username :: "string option"
  it_acr :: "string option"
  it_auth_time :: "int option"

record txn_token_claims =
  tx_iss :: string
  tx_iat :: int
  tx_exp :: int
  tx_aud :: string
  tx_txn :: string
  tx_sub :: string
  tx_scope :: string
  tx_req_wl :: string
  tx_tctx :: "json option"
  tx_rctx :: "json option"
  tx_purp :: "string option"
  tx_act :: "json option"
  tx_actor :: "string option"
  tx_principal :: "string option"

text \<open>What the handlers are configured with, and the libraries they call: JSON, URLs and hashes
  (\<open>en_libs\<close>), JWT encoding and verification per claim type, base64 and form decoding, the
  metadata fetcher and the JWKS cache.\<close>
record env =
  en_libs :: libs
  en_jwt :: jwt_lib
  en_assertions :: assertion_lib
  en_first_key :: "seen_map \<Rightarrow> string option"
  en_cimd :: "cimd_fetcher option"
  en_agent :: agent_config
  en_jwks_cache :: "(string \<Rightarrow> json result) option"
  en_oidc :: oidc_config
  en_keyset :: "key_set option"
  en_hash :: "string \<Rightarrow> 64 word"
  en_verify_id :: "instant \<Rightarrow> algorithm \<Rightarrow> bytes \<Rightarrow> string \<Rightarrow> string + id_token_claims"
  en_verify_txn :: "instant \<Rightarrow> algorithm \<Rightarrow> bytes \<Rightarrow> string \<Rightarrow> string + txn_token_claims"
  en_left_hash :: "string \<Rightarrow> string"
  en_encode_id :: "string \<Rightarrow> id_token_claims \<Rightarrow> string + string"
  en_encode_id_rs256 :: "string \<Rightarrow> string option \<Rightarrow> id_token_claims \<Rightarrow> string + string"
  en_encode_json :: "string \<Rightarrow> string option \<Rightarrow> algorithm \<Rightarrow> bytes \<Rightarrow> json \<Rightarrow> string + string"
  en_rsa_pem :: "bytes \<Rightarrow> string + unit"
  en_b64_url_decode :: "string \<Rightarrow> string option"
  en_decode_ext :: "instant \<Rightarrow> jws_alg \<Rightarrow> jose_key \<Rightarrow> string \<Rightarrow> string list \<Rightarrow> string list \<Rightarrow> string \<Rightarrow> string + json"
  en_jose :: jose
  en_http :: http_lib
  en_nonce_lib :: nonce_lib
  en_nonce_issuer :: "nonce_issuer option"

record server =
  sv_db :: db
  sv_shards :: "token_actor list"
  sv_clients :: client_actor
  sv_jti :: jti_guard
  sv_dpop :: "dpop_store option"
  sv_penalty :: "in_memory_limiter option"
  sv_par :: par_store

type_synonym 'a act = "server \<Rightarrow> 'a result \<times> server"

definition andThen :: "'a act \<Rightarrow> ('a \<Rightarrow> 'b act) \<Rightarrow> 'b act" where
  "andThen m f s = bindS (m s) f"

definition ret :: "'a result \<Rightarrow> 'a act" where
  "ret r s = (r, s)"

definition shard_index :: "env \<Rightarrow> string \<Rightarrow> server \<Rightarrow> nat" where
  "shard_index E key s = route (en_hash E) (length (sv_shards s)) key"

definition shard :: "env \<Rightarrow> string \<Rightarrow> server \<Rightarrow> token_actor" where
  "shard E key s = sv_shards s ! shard_index E key s"

section \<open>Messages to the actors\<close>

definition send_resolve :: "env \<Rightarrow> instant \<Rightarrow> string \<Rightarrow> client act" where
  "send_resolve E now cid s =
     (case resolve_client (en_libs E) (en_cimd E) (en_agent E) now cid (sv_clients s) (sv_db s) of
        (r, A) \<Rightarrow> (r, s\<lparr>sv_clients := A\<rparr>))"

definition send_materialize :: "env \<Rightarrow> instant \<Rightarrow> client \<Rightarrow> unit act" where
  "send_materialize E now c s =
     (case materialize_cimd_client now c (en_agent E) (sv_clients s) (sv_db s) of
        (r, A, d) \<Rightarrow> (r, s\<lparr>sv_clients := A, sv_db := d\<rparr>))"

definition send_create :: "env \<Rightarrow> instant \<Rightarrow> fresh \<Rightarrow> string \<Rightarrow> create_token_msg \<Rightarrow> token act" where
  "send_create E now fr key m s =
     (case create_token (en_libs E) (en_jwt E) now fr (shard E key s) m (sv_db s) of (r, d) \<Rightarrow> (r, s\<lparr>sv_db := d\<rparr>))"

definition send_revoke :: "env \<Rightarrow> string \<Rightarrow> string \<Rightarrow> unit act" where
  "send_revoke E key raw s =
     (case revoke_token_handler raw (shard E key s) (sv_db s) of
        (r, A, d) \<Rightarrow> (r, s\<lparr>sv_shards := (sv_shards s)[shard_index E key s := A], sv_db := d\<rparr>))"

definition send_revoke_family :: "env \<Rightarrow> string \<Rightarrow> string \<Rightarrow> nat act" where
  "send_revoke_family E key family s =
     (case revoke_token_family_handler family (shard E key s) (sv_db s) of
        (r, A, d) \<Rightarrow> (r, s\<lparr>sv_shards := (sv_shards s)[shard_index E key s := A], sv_db := d\<rparr>))"

definition send_set_family :: "string \<Rightarrow> string \<Rightarrow> unit act" where
  "send_set_family access_token family s =
     (case set_token_family_handler access_token family (sv_db s) of (r, d) \<Rightarrow> (r, s\<lparr>sv_db := d\<rparr>))"

definition send_validate_refresh :: "env \<Rightarrow> instant \<Rightarrow> string \<Rightarrow> string \<Rightarrow> token act" where
  "send_validate_refresh E now key refresh_token s =
     (case validate_refresh_token (en_jwt E) now (shard E key s) refresh_token (sv_db s) of
        (r, d) \<Rightarrow> (r, s\<lparr>sv_db := d\<rparr>))"

definition send_mark_used :: "string \<Rightarrow> unit act" where
  "send_mark_used code s = (case mark_authorization_code_used code (sv_db s) of (r, d) \<Rightarrow> (r, s\<lparr>sv_db := d\<rparr>))"

definition send_mark_device_used :: "string \<Rightarrow> unit act" where
  "send_mark_device_used code s = (case mark_device_authorization_used code (sv_db s) of (r, d) \<Rightarrow> (r, s\<lparr>sv_db := d\<rparr>))"

text \<open>The single-use check of an assertion's \<open>jti\<close>, in the guard all handlers share.\<close>
definition send_jti :: "env \<Rightarrow> instant \<Rightarrow> string \<Rightarrow> json \<Rightarrow> unit act" where
  "send_jti E now subject claims s =
     (case enforce_jti_replay (en_first_key E) now now subject claims (sv_jti s) of (r, g) \<Rightarrow> (r, s\<lparr>sv_jti := g\<rparr>))"

text \<open>A statement of the store, run on the server's database.\<close>
definition run_db :: "(db \<Rightarrow> 'a result \<times> db) \<Rightarrow> 'a act" where
  "run_db f s = (case f (sv_db s) of (r, d) \<Rightarrow> (r, s\<lparr>sv_db := d\<rparr>))"

definition token_endpoint_url :: "oidc_config \<Rightarrow> string" where
  "token_endpoint_url oc = rev (dropWhile (\<lambda>c. c = CHR ''/'') (rev (oc_issuer oc))) @ ''/oauth/token''"

text \<open>The three lines each grant repeats: resolve the client's JWKS, then run the authenticator.\<close>
definition authenticate :: "env \<Rightarrow> instant \<Rightarrow> client \<Rightarrow> token_request \<Rightarrow> mtls \<Rightarrow> unit act" where
  "authenticate E now c req mt s =
     (case resolve_client_jwks (en_libs E) c (en_jwks_cache E) of
        Inl e \<Rightarrow> (Inl e, s)
      | Inr jwks \<Rightarrow>
          (case authenticate_confidential_client (en_assertions E) (en_first_key E) now now c req
                  (token_endpoint_url (en_oidc E)) (oc_issuer (en_oidc E)) jwks mt (sv_jti s) of
             (r, g) \<Rightarrow> (r, s\<lparr>sv_jti := g\<rparr>)))"

section \<open>Responses\<close>

definition cnf_jkt :: "json option \<Rightarrow> json option" where
  "cnf_jkt cnf = Option.bind cnf (\<lambda>c. json_get c ''jkt'')"

definition apply_dpop_token_type :: "token_response \<Rightarrow> json option \<Rightarrow> token_response" where
  "apply_dpop_token_type resp cnf = (if cnf_jkt cnf \<noteq> None then resp\<lparr>tr_token_type := ''DPoP''\<rparr> else resp)"

definition id_token_claims_new ::
  "(string \<Rightarrow> string) \<Rightarrow> instant \<Rightarrow> string \<Rightarrow> string \<Rightarrow> string \<Rightarrow> int \<Rightarrow> string option \<Rightarrow> id_token_claims" where
  "id_token_claims_new lh now issuer subject client_id duration access_token =
     \<lparr>it_iss = issuer, it_sub = subject, it_aud = client_id, it_exp = timestamp (now + secs duration),
      it_iat = timestamp now, it_nonce = None, it_at_hash = map_option lh access_token, it_c_hash = None,
      it_email = None, it_preferred_username = None, it_acr = None, it_auth_time = None\<rparr>"

definition has_scope :: "string \<Rightarrow> string \<Rightarrow> bool" where
  "has_scope scope s = (s \<in> set (split_whitespace scope))"

definition add_user_claims :: "string \<Rightarrow> string \<Rightarrow> db \<Rightarrow> id_token_claims \<Rightarrow> id_token_claims" where
  "add_user_claims scope user_id d c =
     (if (has_scope scope ''email'' \<or> has_scope scope ''profile'') \<and> user_id \<noteq> [] then
        (case get_user_by_id user_id d of
           Some u \<Rightarrow> c\<lparr>it_email := (if has_scope scope ''email'' then Some (us_email u) else it_email c),
                       it_preferred_username := (if has_scope scope ''profile'' then Some (us_username u)
                                                 else it_preferred_username c)\<rparr>
         | None \<Rightarrow> c)
      else c)"

definition sign_id_token :: "env \<Rightarrow> id_token_claims \<Rightarrow> string result" where
  "sign_id_token E c =
     (let oc = en_oidc E in
      if eq_ignore_case (oc_id_token_alg oc) ''RS256'' then
        bindR (ok_or (oc_id_token_private_key_pem oc) (error_new ''server_error'' (Some ''RS256 configured but key missing'')))
          (\<lambda>pem. server_error_of (en_encode_id_rs256 E pem (oc_id_token_kid oc) c))
      else server_error_of (en_encode_id E (oc_jwt_secret oc) c))"

text \<open>Attach the ID token when the granted scope contains \<open>openid\<close>.\<close>
definition with_id_token ::
  "env \<Rightarrow> instant \<Rightarrow> string \<Rightarrow> string \<Rightarrow> string \<Rightarrow> string option \<Rightarrow> string option \<Rightarrow> token \<Rightarrow> token_response \<Rightarrow> token_response act" where
  "with_id_token E now scope user_id client_id nonce code t resp s =
     (if has_scope scope ''openid'' then
        (let c = id_token_claims_new (en_left_hash E) now (oc_issuer (en_oidc E)) user_id client_id 3600 (Some (tk_access_token t));
             c1 = c\<lparr>it_nonce := nonce, it_c_hash := map_option (en_left_hash E) code\<rparr>
         in (map_sum id (\<lambda>tok. resp\<lparr>tr_id_token := Some tok\<rparr>) (sign_id_token E (add_user_claims scope user_id (sv_db s) c1)), s))
      else (Inr resp, s))"

record exchange_response =
  xr_access_token :: string
  xr_issued_token_type :: string
  xr_token_type :: string
  xr_expires_in :: int
  xr_scope :: "string option"
  xr_authorization_details :: "json option"

text \<open>What the token endpoint answers: a token response, one with the authorization details and resources
  it is bound to, the denial of a device code (sent with status 400), the response of a token
  exchange, or the demand for a DPoP nonce (description and fresh nonce, status 400).\<close>
datatype reply = Issued token_response | IssuedFor token_response "json option" "string list"
  | DeniedReply oauth2_error | Exchanged exchange_response | UseDpopNonce "string option" string

section \<open>Browser sessions\<close>

text \<open>A session is the map of the values the browser's cookie carries.\<close>
type_synonym session = "string \<rightharpoonup> json"

definition session_str :: "session \<Rightarrow> string \<Rightarrow> string option" where
  "session_str z k = Option.bind (z k) as_str"

definition session_int :: "session \<Rightarrow> string \<Rightarrow> int option" where
  "session_int z k = Option.bind (z k) as_i64_value"

end
