(* ===== verification/Token_Resolution.thy ===== *)
theory Token_Resolution
  imports Server_Core
begin

text \<open>
  How a presented token is resolved (\<open>handlers/token_exchange.rs\<close>, \<open>resolve_token\<close>): by its token
  type it is looked up, verified or both, and its facts are collected in one record, for the
  exchange grant and for the named-agent consent.  Transaction tokens
  (\<open>handlers/txn_token.rs\<close>) are never stored, so their signature and expiry are all there is.
\<close>

section \<open>Token resolution\<close>

record resolved_token =
  rt_sub :: string
  rt_client_id :: "string option"
  rt_user_id :: "string option"
  rt_scope :: string
  rt_aud :: "string list"
  rt_act :: "json option"
  rt_may_act :: "json option"
  rt_sub_profile :: "string option"
  rt_authorization_details :: "json option"
  rt_cnf :: "json option"
  rt_is_id_token :: bool
  rt_txn :: "json option"

definition access_token_type :: string where
  "access_token_type = ''urn:ietf:params:oauth:token-type:access_token''"

definition refresh_token_type :: string where
  "refresh_token_type = ''urn:ietf:params:oauth:token-type:refresh_token''"

definition id_token_type :: string where
  "id_token_type = ''urn:ietf:params:oauth:token-type:id_token''"

definition jwt_type :: string where
  "jwt_type = ''urn:ietf:params:oauth:token-type:jwt''"

definition txn_token_type :: string where
  "txn_token_type = ''urn:ietf:params:oauth:token-type:txn_token''"

fun first_ok :: "('e + 'a) list \<Rightarrow> 'a option" where
  "first_ok [] = None"
| "first_ok (Inr x # rs) = Some x"
| "first_ok (Inl e # rs) = first_ok rs"

definition verify_candidates :: "env \<Rightarrow> instant \<Rightarrow> string option \<Rightarrow> (algorithm \<times> bytes) list" where
  "verify_candidates E now kid =
     (case en_keyset E of
        None \<Rightarrow> []
      | Some ks \<Rightarrow>
          map (\<lambda>k. (sk_algorithm k, sk_key_material k))
            (case Option.bind kid (ks_find now ks) of Some k \<Rightarrow> [k] | None \<Rightarrow> ks_active_keys now ks))
     @ [(HS256, secret_bytes (en_jwt E) (oc_jwt_secret (en_oidc E)))]"

text \<open>\<open>check\<close> verifies a signature and decodes the claims; the audience is not checked.\<close>
definition verify_jwt :: "env \<Rightarrow> instant \<Rightarrow> (algorithm \<Rightarrow> bytes \<Rightarrow> string \<Rightarrow> string + 'c) \<Rightarrow> string \<Rightarrow> 'c option" where
  "verify_jwt E now check raw =
     (case al_header (en_assertions E) raw of
        None \<Rightarrow> None
      | Some header \<Rightarrow> first_ok (map (\<lambda>(alg, key). check alg key raw) (verify_candidates E now (jh_kid header))))"

definition row_audience :: "env \<Rightarrow> token \<Rightarrow> string list" where
  "row_audience E row = (let rs = token_resources (en_libs E) row in if rs = [] then [tk_client_id row] else rs)"

text \<open>The facts of a stored token: from its embedded claims where it is a JWT, else from its row.\<close>
definition resolved_from_row :: "env \<Rightarrow> string \<Rightarrow> token \<Rightarrow> resolved_token" where
  "resolved_from_row E raw row =
     (let claims = decode_unverified (jwt_payload (en_jwt E)) raw in
      \<lparr>rt_sub = (case claims of Some c \<Rightarrow> cm_sub c | None \<Rightarrow> unwrap_or (tk_user_id row) (tk_client_id row)),
       rt_client_id = Some (tk_client_id row), rt_user_id = tk_user_id row, rt_scope = tk_scope row,
       rt_aud = (case claims of
           Some c \<Rightarrow> if cm_aud c = [] then row_audience E row else cm_aud c
         | None \<Rightarrow> row_audience E row),
       rt_act = (case Option.bind claims cm_act of Some a \<Rightarrow> Some a | None \<Rightarrow> token_actor_value (en_libs E) row),
       rt_may_act = Option.bind claims cm_may_act, rt_sub_profile = Option.bind claims cm_sub_profile,
       rt_authorization_details = Option.bind claims cm_authorization_details,
       rt_cnf = (case Option.bind claims cm_cnf of Some c \<Rightarrow> Some c | None \<Rightarrow> token_cnf_value (en_libs E) row),
       rt_is_id_token = False, rt_txn = None\<rparr>)"

definition resolved_from_claims :: "claims \<Rightarrow> resolved_token" where
  "resolved_from_claims c =
     \<lparr>rt_sub = cm_sub c, rt_client_id = cm_client_id c,
      rt_user_id = (case cm_client_id c of Some cid \<Rightarrow> if cid = cm_sub c then None else Some (cm_sub c) | None \<Rightarrow> Some (cm_sub c)),
      rt_scope = cm_scope c,
      rt_aud = (if cm_aud c = [] then (case cm_client_id c of Some cid \<Rightarrow> [cid] | None \<Rightarrow> []) else cm_aud c),
      rt_act = cm_act c, rt_may_act = cm_may_act c, rt_sub_profile = cm_sub_profile c,
      rt_authorization_details = cm_authorization_details c, rt_cnf = cm_cnf c, rt_is_id_token = False, rt_txn = None\<rparr>"

definition resolve_access :: "env \<Rightarrow> instant \<Rightarrow> string \<Rightarrow> string \<Rightarrow> db \<Rightarrow> resolved_token result" where
  "resolve_access E now raw which d =
     bindR (ok_or (lookup_token raw d) (invalid_grant (which @ ''_token not found or expired''))) (\<lambda>row.
     bindR (ensure (token_is_valid now row) (invalid_grant (which @ ''_token is expired or revoked''))) (\<lambda>_.
       Inr (resolved_from_row E raw row)))"

definition resolve_jwt :: "env \<Rightarrow> instant \<Rightarrow> string \<Rightarrow> string \<Rightarrow> db \<Rightarrow> resolved_token result" where
  "resolve_jwt E now raw which d =
     bindR (ok_or (al_header (en_assertions E) raw) (invalid_request (which @ ''_token header is malformed''))) (\<lambda>header.
     bindR (ensure (jh_typ header = Some ''at+JWT'') (invalid_request (which @ ''_token is not an access token''))) (\<lambda>_.
     bindR (ok_or (verify_jwt E now (jwt_verify (en_jwt E) now None) raw)
              (invalid_grant (which @ ''_token signature is not valid''))) (\<lambda>claims.
     bindR (case lookup_token raw d of
              None \<Rightarrow> ensure (cm_iss claims \<noteq> oc_issuer (en_oidc E)) (invalid_grant (which @ ''_token is not a known access token''))
            | Some row \<Rightarrow> ensure (token_is_valid now row) (invalid_grant (which @ ''_token is expired or revoked''))) (\<lambda>_.
       Inr (resolved_from_claims claims)))))"

definition resolve_id_token :: "env \<Rightarrow> instant \<Rightarrow> string \<Rightarrow> string \<Rightarrow> string \<Rightarrow> db \<Rightarrow> resolved_token result" where
  "resolve_id_token E now raw which requesting_client_id d =
     bindR (ok_or (al_header (en_assertions E) raw) (invalid_request (which @ ''_token header is malformed''))) (\<lambda>header.
     bindR (ensure (jh_typ header \<noteq> Some ''at+JWT'') (invalid_request (which @ ''_token is not an ID token''))) (\<lambda>_.
     bindR (ensure (get_token_by_access_token raw d = None \<and> get_token_by_refresh_token raw d = None)
              (invalid_request (which @ ''_token is not an ID token''))) (\<lambda>_.
     bindR (ok_or (verify_jwt E now (en_verify_id E now) raw) (invalid_grant (which @ ''_token is not a valid id_token''))) (\<lambda>c.
     bindR (ensure (it_iss c = oc_issuer (en_oidc E))
              (invalid_grant (which @ ''_token was not issued by this authorization server''))) (\<lambda>_.
     bindR (ensure (it_aud c = requesting_client_id) (invalid_grant (which @ ''_token was not issued to this client''))) (\<lambda>_.
       Inr \<lparr>rt_sub = it_sub c, rt_client_id = Some (it_aud c), rt_user_id = Some (it_sub c), rt_scope = [],
            rt_aud = [it_aud c], rt_act = None, rt_may_act = None, rt_sub_profile = None,
            rt_authorization_details = None, rt_cnf = None, rt_is_id_token = True, rt_txn = None\<rparr>))))))"

definition txn_token_typ :: string where
  "txn_token_typ = ''txntoken+jwt''"

definition verify_txn_token :: "env \<Rightarrow> instant \<Rightarrow> string \<Rightarrow> txn_token_claims result" where
  "verify_txn_token E now raw =
     bindR (ok_or (al_header (en_assertions E) raw) (invalid_request ''token header is malformed'')) (\<lambda>header.
     bindR (ensure (jh_typ header = Some txn_token_typ) (invalid_request ''not a transaction token'')) (\<lambda>_.
     bindR (ok_or (verify_jwt E now (en_verify_txn E now) raw) (invalid_grant ''transaction token is not valid'')) (\<lambda>c.
     bindR (ensure (tx_iss c = oc_issuer (en_oidc E))
              (invalid_grant ''transaction token was not issued by this authorization server'')) (\<lambda>_.
     bindR (ensure (timestamp now < tx_exp c) (invalid_grant ''transaction token is expired'')) (\<lambda>_.
       Inr c)))))"

definition opt_member :: "string \<Rightarrow> ('a \<Rightarrow> json) \<Rightarrow> 'a option \<Rightarrow> (string \<times> json) list" where
  "opt_member k f v = (case v of None \<Rightarrow> [] | Some x \<Rightarrow> [(k, f x)])"

text \<open>The serialized claims; absent optional members are skipped.\<close>
definition txn_claims_to_value :: "txn_token_claims \<Rightarrow> json" where
  "txn_claims_to_value c = JObj
     ([(''iss'', JStr (tx_iss c)), (''iat'', JInt (tx_iat c)), (''exp'', JInt (tx_exp c)), (''aud'', JStr (tx_aud c)),
       (''txn'', JStr (tx_txn c)), (''sub'', JStr (tx_sub c)), (''scope'', JStr (tx_scope c)), (''req_wl'', JStr (tx_req_wl c))] @
      opt_member ''tctx'' id (tx_tctx c) @ opt_member ''rctx'' id (tx_rctx c) @ opt_member ''purp'' JStr (tx_purp c) @
      opt_member ''act'' id (tx_act c) @ opt_member ''actor'' JStr (tx_actor c) @ opt_member ''principal'' JStr (tx_principal c))"

definition resolve_txn_token :: "env \<Rightarrow> instant \<Rightarrow> string \<Rightarrow> string \<Rightarrow> string \<Rightarrow> resolved_token result" where
  "resolve_txn_token E now raw which requesting_client_id =
     bindR (ensure (which = ''subject'') (invalid_request ''a transaction token cannot be used as an actor_token'')) (\<lambda>_.
     bindR (map_sum (\<lambda>e. error_new (err_error e) (Some (which @ ''_token is not a valid transaction token: '' @
              unwrap_or (err_description e) []))) id (verify_txn_token E now raw)) (\<lambda>c.
       Inr \<lparr>rt_sub = tx_sub c, rt_client_id = Some requesting_client_id, rt_user_id = None, rt_scope = tx_scope c,
            rt_aud = [tx_aud c], rt_act = tx_act c, rt_may_act = None, rt_sub_profile = None,
            rt_authorization_details = None, rt_cnf = None, rt_is_id_token = False, rt_txn = Some (txn_claims_to_value c)\<rparr>))"

definition resolve_refresh :: "env \<Rightarrow> instant \<Rightarrow> string \<Rightarrow> string \<Rightarrow> string \<Rightarrow> resolved_token act" where
  "resolve_refresh E now raw which requesting_client_id =
     andThen (send_validate_refresh E now requesting_client_id raw) (\<lambda>row.
     andThen (ret (ensure (tk_client_id row = requesting_client_id)
                (invalid_grant (which @ ''_token was not issued to this client'')))) (\<lambda>_.
       ret (Inr (resolved_from_row E raw row))))"

definition resolve_token :: "env \<Rightarrow> instant \<Rightarrow> string \<Rightarrow> string \<Rightarrow> string \<Rightarrow> string \<Rightarrow> bool \<Rightarrow> resolved_token act" where
  "resolve_token E now raw token_type which requesting_client_id allow_refresh s =
     (if token_type = access_token_type then (resolve_access E now raw which (sv_db s), s)
      else if token_type = jwt_type then (resolve_jwt E now raw which (sv_db s), s)
      else if token_type = refresh_token_type \<and> allow_refresh then resolve_refresh E now raw which requesting_client_id s
      else if token_type = id_token_type then (resolve_id_token E now raw which requesting_client_id (sv_db s), s)
      else if token_type = txn_token_type then (resolve_txn_token E now raw which requesting_client_id, s)
      else (Inl (invalid_request (''Unsupported '' @ which @ ''_token_type '' @ quoted token_type)), s))"

end
