(* ===== verification/Token_Grants.thy ===== *)
theory Token_Grants
  imports Token_Resolution
begin

text \<open>
  The grants of the token endpoint (\<open>handlers/oauth.rs\<close>): client credentials, refresh token, device
  code and authorization code, each the whole handler.

  The authorization-code handler awaits other actors between validating a code and burning it,
  so it is given as two parts, \<open>code_grant_prepare\<close> and \<open>code_grant_commit\<close>, between which
  other requests may run.
\<close>

section \<open>Client credentials\<close>

definition client_credentials_msg :: "env \<Rightarrow> client \<Rightarrow> token_request \<Rightarrow> string \<Rightarrow> json option \<Rightarrow> json option \<Rightarrow> create_token_msg" where
  "client_credentials_msg E c req scope cnf rar =
     \<lparr>ctm_user_id = None, ctm_client_id = rq_client_id req, ctm_scope = scope, ctm_include_refresh = False,
      ctm_token_family = None, ctm_resources = rq_resource req, ctm_cnf = cnf, ctm_authorization_details = rar,
      ctm_act = None,
      ctm_ttl_override_secs = (if is_ai_agent (en_libs E) c then ag_ai_agent_access_token_ttl_secs (en_agent E) else None),
      ctm_sub_profile = (if is_ai_agent (en_libs E) c then Some ''ai_agent'' else None), ctm_txn = None\<rparr>"

definition handle_client_credentials_grant ::
  "env \<Rightarrow> instant \<Rightarrow> fresh \<Rightarrow> token_request \<Rightarrow> json option \<Rightarrow> json option \<Rightarrow> mtls \<Rightarrow> reply act" where
  "handle_client_credentials_grant E now fr req cnf rar mt =
     andThen (send_resolve E now (rq_client_id req)) (\<lambda>c.
     andThen (ret (ensure (supports_grant_type (en_libs E) c ''client_credentials'')
       (unauthorized_client ''Client is not allowed to use client_credentials''))) (\<lambda>_.
     andThen (ret (ensure (\<not> is_public c) (invalid_client ''Public clients cannot use the client_credentials grant''))) (\<lambda>_.
     andThen (authenticate E now c req mt) (\<lambda>_.
     andThen (send_materialize E now c) (\<lambda>_.
     let scope = unwrap_or (rq_scope req) ''read'' in
     andThen (ret (validate_scope_subset scope (cl_scope c))) (\<lambda>_.
     andThen (send_create E now fr (rq_client_id req) (client_credentials_msg E c req scope cnf rar)) (\<lambda>t.
       ret (Inr (Issued (apply_dpop_token_type (token_response_from t) cnf))))))))))"

section \<open>Refresh\<close>

definition refresh_msg :: "env \<Rightarrow> token_request \<Rightarrow> token \<Rightarrow> string \<Rightarrow> string \<Rightarrow> json option \<Rightarrow> create_token_msg" where
  "refresh_msg E req old scope family old_cnf =
     \<lparr>ctm_user_id = tk_user_id old, ctm_client_id = rq_client_id req, ctm_scope = scope, ctm_include_refresh = True,
      ctm_token_family = Some family, ctm_resources = rq_resource req, ctm_cnf = old_cnf, ctm_authorization_details = None,
      ctm_act = token_actor_value (en_libs E) old, ctm_ttl_override_secs = None, ctm_sub_profile = None, ctm_txn = None\<rparr>"

definition refresh_scope :: "token_request \<Rightarrow> token \<Rightarrow> string result" where
  "refresh_scope req old =
     (case rq_scope req of
        Some requested \<Rightarrow> bindR (validate_scope_subset requested (tk_scope old)) (\<lambda>_. Inr requested)
      | None \<Rightarrow> Inr (tk_scope old))"

definition refresh_family :: "string \<Rightarrow> token \<Rightarrow> string act" where
  "refresh_family new_family old s =
     (case tk_token_family old of
        Some f \<Rightarrow> (Inr f, s)
      | None \<Rightarrow> (Inr new_family, snd (send_set_family (tk_access_token old) new_family s)))"

definition refresh_old_cnf :: "env \<Rightarrow> token \<Rightarrow> json option" where
  "refresh_old_cnf E old = Option.bind (decode_unverified (jwt_payload (en_jwt E)) (tk_access_token old)) cm_cnf"

text \<open>From the validated old token on: rotate it.\<close>
definition rotate_refresh_token :: "env \<Rightarrow> instant \<Rightarrow> fresh \<Rightarrow> string \<Rightarrow> token_request \<Rightarrow> client \<Rightarrow> token \<Rightarrow> reply act" where
  "rotate_refresh_token E now fr new_family req c old =
     andThen (ret (ensure (tk_client_id old = rq_client_id req) (invalid_grant ''Refresh token does not belong to this client''))) (\<lambda>_.
     andThen (send_materialize E now c) (\<lambda>_.
     andThen (ret (refresh_scope req old)) (\<lambda>scope.
     andThen (refresh_family new_family old) (\<lambda>family.
     andThen (send_revoke E (rq_client_id req) (tk_access_token old)) (\<lambda>_.
     let old_cnf = refresh_old_cnf E old in
     andThen (send_create E now fr (rq_client_id req) (refresh_msg E req old scope family old_cnf)) (\<lambda>t.
       ret (Inr (Issued (apply_dpop_token_type (token_response_from t) old_cnf)))))))))"

definition handle_refresh_token_grant ::
  "env \<Rightarrow> instant \<Rightarrow> fresh \<Rightarrow> string \<Rightarrow> token_request \<Rightarrow> mtls \<Rightarrow> reply act" where
  "handle_refresh_token_grant E now fr new_family req mt =
     andThen (ret (ok_or (rq_refresh_token req) (invalid_request ''Missing refresh_token''))) (\<lambda>refresh_token.
     andThen (send_resolve E now (rq_client_id req)) (\<lambda>c.
     andThen (if \<not> is_public c then authenticate E now c req mt else ret (Inr ())) (\<lambda>_.
     andThen (ret (ensure (supports_grant_type (en_libs E) c ''refresh_token'')
       (unauthorized_client ''Client is not allowed to use refresh_token''))) (\<lambda>_.
     andThen (send_validate_refresh E now (rq_client_id req) refresh_token) (\<lambda>old.
       rotate_refresh_token E now fr new_family req c old)))))"

section \<open>Device codes\<close>

definition device_code_grant_type :: string where
  "device_code_grant_type = ''urn:ietf:params:oauth:grant-type:device_code''"

definition device_msg :: "env \<Rightarrow> client \<Rightarrow> token_request \<Rightarrow> device_authorization \<Rightarrow> string \<Rightarrow> create_token_msg" where
  "device_msg E c req dev user_id =
     \<lparr>ctm_user_id = Some user_id, ctm_client_id = rq_client_id req, ctm_scope = da_scope dev,
      ctm_include_refresh = supports_grant_type (en_libs E) c ''refresh_token'', ctm_token_family = None, ctm_resources = [],
      ctm_cnf = None, ctm_authorization_details = None, ctm_act = None, ctm_ttl_override_secs = None,
      ctm_sub_profile = None, ctm_txn = None\<rparr>"

text \<open>The answer to a poll that does not lead to a token: an error, or the denial that is sent as a
  400 response.\<close>
definition device_refusal :: "instant \<Rightarrow> token_request \<Rightarrow> device_authorization \<Rightarrow> reply result option" where
  "device_refusal now req dev =
     (if da_client_id dev \<noteq> rq_client_id req then Some (Inl (invalid_grant ''device_code does not belong to this client''))
      else if da_used dev then Some (Inl (invalid_grant ''device_code already used''))
      else if device_is_expired now dev then Some (Inl (error_new ''expired_token'' (Some ''device_code expired'')))
      else if da_denied dev then Some (Inr (DeniedReply (access_denied ''End-user denied device authorization'')))
      else if \<not> da_approved dev
        then Some (Inl (error_new ''authorization_pending'' (Some ''End-user authorization is pending'')))
      else None)"

text \<open>From the approved device code on: issue, then mark the code used.\<close>
definition device_issue ::
  "env \<Rightarrow> instant \<Rightarrow> fresh \<Rightarrow> token_request \<Rightarrow> client \<Rightarrow> string \<Rightarrow> device_authorization \<Rightarrow> reply act" where
  "device_issue E now fr req c device_code dev =
     andThen (send_materialize E now c) (\<lambda>_.
     andThen (ret (ok_or (da_user_id dev) (invalid_grant ''Approved device authorization missing user''))) (\<lambda>user_id.
     andThen (send_create E now fr (rq_client_id req) (device_msg E c req dev user_id)) (\<lambda>t.
     andThen (send_mark_device_used device_code) (\<lambda>_.
     andThen (with_id_token E now (da_scope dev) user_id (rq_client_id req) None None t (token_response_from t)) (\<lambda>resp.
       ret (Inr (Issued resp)))))))"

definition handle_device_code_grant :: "env \<Rightarrow> instant \<Rightarrow> fresh \<Rightarrow> token_request \<Rightarrow> mtls \<Rightarrow> reply act" where
  "handle_device_code_grant E now fr req mt =
     andThen (ret (ok_or (rq_device_code req) (invalid_request ''Missing device_code''))) (\<lambda>device_code.
     andThen (send_resolve E now (rq_client_id req)) (\<lambda>c.
     andThen (ret (ensure (\<not> is_public c) (invalid_client ''Public clients cannot use the device_code grant''))) (\<lambda>_.
     andThen (authenticate E now c req mt) (\<lambda>_.
     andThen (ret (ensure (supports_grant_type (en_libs E) c device_code_grant_type \<or>
                           supports_grant_type (en_libs E) c ''device_code'')
       (unauthorized_client ''Client is not allowed to use device_code grant''))) (\<lambda>_.
     andThen (\<lambda>s. (ok_or (get_device_authorization_by_device_code device_code (sv_db s)) (invalid_grant ''Invalid device_code''), s)) (\<lambda>dev.
     case device_refusal now req dev of
       Some r \<Rightarrow> ret r
     | None \<Rightarrow> device_issue E now fr req c device_code dev))))))"

section \<open>Authorization codes\<close>

definition nonempty :: "string option \<Rightarrow> string option" where
  "nonempty v = Option.bind v (\<lambda>x. if x = [] then None else Some x)"

text \<open>The \<open>act\<close> claim of a code that names an agent.\<close>
definition resolve_named_actor ::
  "env \<Rightarrow> instant \<Rightarrow> authorization_code \<Rightarrow> token_request \<Rightarrow> json option act" where
  "resolve_named_actor E now a req =
     (case nonempty (map_option trim (ac_requested_actor a)) of
        None \<Rightarrow> ret (Inr None)
      | Some actor_id \<Rightarrow>
          if \<not> ag_obo_enabled (en_agent E) then ret (Inr None)
          else
            andThen (ret (ok_or (nonempty (rq_actor_token req))
              (invalid_request ''actor_token is required for a code issued with requested_actor''))) (\<lambda>actor_token.
            andThen (ret (ok_or (nonempty (rq_actor_token_type req))
              (invalid_request ''actor_token_type is required when actor_token is present''))) (\<lambda>actor_token_type.
            andThen (ret (ensure (actor_token_type \<in> {access_token_type, jwt_type})
              (invalid_request ''actor_token_type must be an access-token or jwt token type''))) (\<lambda>_.
            andThen (resolve_token E now actor_token actor_token_type ''actor'' (rq_client_id req) False) (\<lambda>resolved.
            andThen (ret (ensure (rt_client_id resolved = Some actor_id)
              (invalid_grant ''actor_token was not issued to the requested_actor''))) (\<lambda>_.
              ret (Inr (Some (to_value (with_profile (actor_new actor_id (oc_issuer (en_oidc E))) ''ai_agent''))))))))))"

text \<open>The reaction to a code that fails validation: a used code cascades to its family, and the
  outcome of that revocation is ignored.\<close>
definition code_replay_cascade :: "env \<Rightarrow> token_request \<Rightarrow> string \<Rightarrow> server \<Rightarrow> server" where
  "code_replay_cascade E req code s =
     (case lookup_authorization_code code (sv_db s) of
        None \<Rightarrow> s
      | Some stale \<Rightarrow>
          if ac_used stale then
            (case ac_token_family stale of
               Some family \<Rightarrow> snd (send_revoke_family E (rq_client_id req) family s)
             | None \<Rightarrow> s)
          else s)"

definition code_client_check :: "env \<Rightarrow> instant \<Rightarrow> client \<Rightarrow> token_request \<Rightarrow> mtls \<Rightarrow> unit act" where
  "code_client_check E now c req mt =
     (if is_public c then
        ret (ensure (nonempty (rq_client_secret req) = None)
          (invalid_client ''Public clients must not present a client_secret''))
      else authenticate E now c req mt)"

definition send_validate_code :: "env \<Rightarrow> instant \<Rightarrow> string \<Rightarrow> token_request \<Rightarrow> authorization_code act" where
  "send_validate_code E now code req s =
     (case validate_authorization_code (en_libs E) now code (rq_client_id req) (rq_redirect_uri req)
             (rq_code_verifier req) (sv_db s) of
        Inr a \<Rightarrow> (Inr a, s)
      | Inl e \<Rightarrow> (Inl e, code_replay_cascade E req code s))"

text \<open>Everything up to the burning of the code.\<close>
definition code_grant_prepare ::
  "env \<Rightarrow> instant \<Rightarrow> token_request \<Rightarrow> mtls \<Rightarrow> (authorization_code \<times> client \<times> json option) act" where
  "code_grant_prepare E now req mt =
     andThen (ret (ok_or (rq_code req) (invalid_request ''Missing code''))) (\<lambda>code.
     andThen (ret (ensure (rq_redirect_uri req \<noteq> Some []) (invalid_request ''redirect_uri must not be empty''))) (\<lambda>_.
     andThen (send_validate_code E now code req) (\<lambda>a.
     andThen (send_resolve E now (rq_client_id req)) (\<lambda>c.
     andThen (ret (ensure (supports_grant_type (en_libs E) c ''authorization_code'')
       (unauthorized_client ''Client is not allowed to use authorization_code''))) (\<lambda>_.
     andThen (code_client_check E now c req mt) (\<lambda>_.
     andThen (send_materialize E now c) (\<lambda>_.
     andThen (resolve_named_actor E now a req) (\<lambda>act_claim.
       ret (Inr (a, c, act_claim))))))))))"

definition code_family :: "env \<Rightarrow> string \<Rightarrow> client \<Rightarrow> authorization_code \<Rightarrow> string option" where
  "code_family E new_family c a =
     (if supports_grant_type (en_libs E) c ''refresh_token'' then
        (case ac_token_family a of Some f \<Rightarrow> Some f | None \<Rightarrow> Some new_family)
      else None)"

definition code_details :: "env \<Rightarrow> json option \<Rightarrow> authorization_code \<Rightarrow> json option" where
  "code_details E rar a =
     (case rar of Some v \<Rightarrow> Some v | None \<Rightarrow> Option.bind (ac_authorization_details a) (json_from_str (en_libs E)))"

definition code_msg ::
  "env \<Rightarrow> string \<Rightarrow> client \<Rightarrow> authorization_code \<Rightarrow> json option \<Rightarrow> json option \<Rightarrow> json option \<Rightarrow> create_token_msg" where
  "code_msg E new_family c a cnf rar act_claim =
     \<lparr>ctm_user_id = Some (ac_user_id a), ctm_client_id = ac_client_id a, ctm_scope = ac_scope a,
      ctm_include_refresh = supports_grant_type (en_libs E) c ''refresh_token'',
      ctm_token_family = code_family E new_family c a,
      ctm_resources = (case ac_resource a of None \<Rightarrow> [] | Some r \<Rightarrow> [r]), ctm_cnf = cnf,
      ctm_authorization_details = code_details E rar a, ctm_act = act_claim, ctm_ttl_override_secs = None,
      ctm_sub_profile = None, ctm_txn = None\<rparr>"

text \<open>Burn the code, then issue.\<close>
definition code_grant_commit ::
  "env \<Rightarrow> instant \<Rightarrow> fresh \<Rightarrow> string \<Rightarrow> token_request \<Rightarrow> json option \<Rightarrow> json option \<Rightarrow>
   authorization_code \<times> client \<times> json option \<Rightarrow> reply act" where
  "code_grant_commit E now fr new_family req cnf rar p =
     (case p of (a, c, act_claim) \<Rightarrow>
     andThen (send_mark_used (unwrap_or (rq_code req) [])) (\<lambda>_.
     andThen (send_create E now fr (ac_client_id a) (code_msg E new_family c a cnf rar act_claim)) (\<lambda>t.
     andThen (with_id_token E now (ac_scope a) (ac_user_id a) (ac_client_id a) (ac_nonce a) (Some (ac_code a)) t
                (apply_dpop_token_type (token_response_from t) cnf)) (\<lambda>resp.
       ret (Inr (Issued resp))))))"

definition handle_authorization_code_grant ::
  "env \<Rightarrow> instant \<Rightarrow> fresh \<Rightarrow> string \<Rightarrow> token_request \<Rightarrow> json option \<Rightarrow> json option \<Rightarrow> mtls \<Rightarrow> reply act" where
  "handle_authorization_code_grant E now fr new_family req cnf rar mt =
     andThen (code_grant_prepare E now req mt) (code_grant_commit E now fr new_family req cnf rar)"

end
