(* ===== verification/Grant_Laws.thy ===== *)
theory Grant_Laws
  imports Token_Grants
begin

text \<open>
  What the grants of the token endpoint guarantee.  Every handler reaches the database through
  the store's statements only (\<open>stepwise\<close>), so the schema invariant, revocation and code use
  survive every grant; a token is issued only against the evidence the grant demands; an
  authorization code, a refresh token and a device code is good for one sequential
  redemption, and its second presentation revokes what the first one led to.
\<close>

section \<open>Success of a sequence of actions\<close>

lemma andThen_eq_Inr [result_simps]:
  "andThen m f s = (Inr y, s') \<longleftrightarrow> (\<exists>x s1. m s = (Inr x, s1) \<and> f x s1 = (Inr y, s'))"
  by (simp add: andThen_def bindS_eq_Inr)

lemma ret_eq_Inr [result_simps]: "ret r s = (Inr y, s') \<longleftrightarrow> r = Inr y \<and> s' = s"
  by (auto simp: ret_def)

lemma andThen_run: "m s = (Inr x, s1) \<Longrightarrow> andThen m f s = f x s1"
  by (simp add: andThen_def)

lemma andThen_fail: "m s = (Inl e, s1) \<Longrightarrow> andThen m f s = (Inl e, s1)"
  by (simp add: andThen_def)

section \<open>The database moves by the store's statements\<close>

definition evolves :: "db \<Rightarrow> db \<Rightarrow> bool" where
  "evolves d d' = (\<exists>cs. list_all (\<lambda>c. \<not> is_delete_user c) cs \<and> d' = exec_all cs d)"

lemma evolves_refl [simp]: "evolves d d"
  unfolding evolves_def exec_all_def by (rule exI [of _ "[]"]) simp

lemma evolves_trans: "evolves d1 d2 \<Longrightarrow> evolves d2 d3 \<Longrightarrow> evolves d1 d3"
  unfolding evolves_def exec_all_def by (metis fold_append comp_apply list_all_append)

lemma evolves_cmd: "\<not> is_delete_user c \<Longrightarrow> evolves d (exec_cmd c d)"
  unfolding evolves_def exec_all_def by (rule exI [of _ "[c]"]) simp

lemma evolves_wf: "evolves d d' \<Longrightarrow> db_wf d \<Longrightarrow> db_wf d'"
  by (auto simp: evolves_def exec_all_wf)

lemma evolves_revoked: "evolves d d' \<Longrightarrow> revoked_ids d \<subseteq> revoked_ids d'"
  by (auto simp: evolves_def dest: exec_all_revoked_mono [THEN subsetD])

lemma evolves_used: "evolves d d' \<Longrightarrow> used_codes d \<subseteq> used_codes d'"
  by (auto simp: evolves_def dest: exec_all_used_mono [THEN subsetD])

lemmas evolves_save_token = evolves_cmd [of "SaveToken t" for t, simplified]
lemmas evolves_revoke = evolves_cmd [of "RevokeToken s" for s, simplified]
lemmas evolves_revoke_family = evolves_cmd [of "RevokeTokenFamily f" for f, simplified]
lemmas evolves_set_family = evolves_cmd [of "SetTokenFamily a f" for a f, simplified]
lemmas evolves_mark_used = evolves_cmd [of "MarkCodeUsed c" for c, simplified]
lemmas evolves_mark_device = evolves_cmd [of "MarkDeviceUsed c" for c, simplified]
lemmas evolves_save_client = evolves_cmd [of "SaveClient c" for c, simplified]
lemmas evolves_update_client = evolves_cmd [of "UpdateClient c" for c, simplified]

definition stepwise :: "'a act \<Rightarrow> bool" where
  "stepwise m = (\<forall>s. evolves (sv_db s) (sv_db (snd (m s))))"

named_theorems stepwise_intros

lemma stepwise_ret [stepwise_intros]: "stepwise (ret r)"
  by (simp add: stepwise_def ret_def)

lemma stepwise_andThen [stepwise_intros]:
  assumes "stepwise m" "\<And>x. stepwise (f x)"
  shows "stepwise (andThen m f)"
  unfolding stepwise_def
proof
  fix s
  obtain r s1 where m: "m s = (r, s1)" by (metis surj_pair)
  have e: "evolves (sv_db s) (sv_db s1)" using assms(1) m unfolding stepwise_def by (metis snd_conv)
  show "evolves (sv_db s) (sv_db (snd (andThen m f s)))"
  proof (cases r)
    case (Inr x)
    then show ?thesis using assms(2) [of x] e m evolves_trans unfolding stepwise_def by (auto simp: andThen_run)
  qed (use m e in \<open>simp add: andThen_fail\<close>)
qed

lemma stepwise_if [stepwise_intros]: "stepwise m \<Longrightarrow> stepwise m' \<Longrightarrow> stepwise (if b then m else m')"
  by simp

lemma stepwise_keep: "(\<And>s. sv_db (snd (m s)) = sv_db s) \<Longrightarrow> stepwise m"
  by (simp add: stepwise_def)

section \<open>The actions, one by one\<close>

text \<open>Which parts of the server an action leaves alone.\<close>

lemma resolve_keeps:
  "send_resolve E now cid s = (r, s') \<Longrightarrow> sv_db s' = sv_db s"
  "send_resolve E now cid s = (r, s') \<Longrightarrow> sv_shards s' = sv_shards s"
  by (auto simp: send_resolve_def split: prod.splits)

lemma authenticate_keeps:
  "authenticate E now c req mt s = (r, s') \<Longrightarrow> sv_db s' = sv_db s"
  "authenticate E now c req mt s = (r, s') \<Longrightarrow> sv_shards s' = sv_shards s"
  by (auto simp: authenticate_def split: prod.splits sum.splits)

lemma stepwise_resolve [stepwise_intros]: "stepwise (send_resolve E now cid)"
  by (rule stepwise_keep) (simp add: send_resolve_def split: prod.splits)

lemma stepwise_authenticate [stepwise_intros]: "stepwise (authenticate E now c req mt)"
  by (rule stepwise_keep) (simp add: authenticate_def split: prod.splits sum.splits)

lemma materialize_future_db:
  assumes "materialize_future now c m A d = (r, A', d')"
  shows "\<exists>c'. d' = d \<or> d' = snd (save_client c' d) \<or> d' = snd (update_client c' d)"
  using assms by (auto simp: materialize_future_def Let_def case_prod_unfold split: if_splits option.splits sum.splits)

lemma materialize_db:
  assumes "send_materialize E now c s = (r, s')"
  shows "\<exists>c'. sv_db s' = sv_db s \<or> sv_db s' = snd (save_client c' (sv_db s)) \<or> sv_db s' = snd (update_client c' (sv_db s))"
proof -
  obtain A' d' where m: "materialize_cimd_client now c (en_agent E) (sv_clients s) (sv_db s) = (r, A', d')" "sv_db s' = d'"
    using assms by (auto simp: send_materialize_def split: prod.splits)
  show ?thesis
  proof (cases "d' = sv_db s")
    case False
    then obtain A1 where "materialize_future now c (ag_cimd_max_clients (en_agent E)) A1 (sv_db s) = (r, A', d')"
      using m by (auto simp: materialize_cimd_client_def materialize_handler_def split: prod.splits if_splits)
    from materialize_future_db [OF this] m(2) show ?thesis by simp
  qed (use m in simp)
qed

lemma materialize_keeps:
  assumes "send_materialize E now c s = (r, s')"
  shows "db_tokens (sv_db s') = db_tokens (sv_db s)" "db_codes (sv_db s') = db_codes (sv_db s)"
    "db_devices (sv_db s') = db_devices (sv_db s)" "sv_shards s' = sv_shards s"
  using materialize_db [OF assms] assms
  by (auto simp: save_client_def update_client_def checked_def send_materialize_def split: prod.splits)

lemma stepwise_materialize [stepwise_intros]: "stepwise (send_materialize E now c)"
  unfolding stepwise_def
proof
  fix s
  show "evolves (sv_db s) (sv_db (snd (send_materialize E now c s)))"
    using materialize_db [OF surjective_pairing [of "send_materialize E now c s"]]
      evolves_save_client evolves_update_client by auto
qed

lemma create_token_evolves: "evolves d (snd (create_token L J now fr A m d))"
proof (cases "\<exists>t. snd (create_token L J now fr A m d) = snd (save_token t d)")
  case True
  then show ?thesis using evolves_save_token by auto
next
  case False
  then have "snd (create_token L J now fr A m d) = d"
    by (auto simp: create_token_def Let_def bindS_def split: sum.splits prod.splits) (metis sndI)+
  then show ?thesis by simp
qed

lemma stepwise_create [stepwise_intros]: "stepwise (send_create E now fr key m)"
proof -
  have "sv_db (snd (send_create E now fr key m s)) =
      snd (create_token (en_libs E) (en_jwt E) now fr (shard E key s) m (sv_db s))" for s
    by (simp add: send_create_def split: prod.splits)
  then show ?thesis by (simp add: stepwise_def create_token_evolves)
qed

lemma revoke_async_evolves: "evolves d (snd (revoke_token_async raw d))"
proof -
  let ?d1 = "snd (revoke_token (normalize_token_key raw) d)"
  have r: "revoke_token (normalize_token_key raw) d = (Inr (), ?d1)" by (simp add: revoke_token_def)
  have "snd (revoke_token_async raw d) = ?d1 \<or> (\<exists>f. snd (revoke_token_async raw d) = snd (revoke_token_family f ?d1))"
    unfolding revoke_token_async_def Let_def by (subst (1 3) r) (auto split: option.splits)
  then show ?thesis using evolves_trans [OF evolves_revoke evolves_revoke_family] evolves_revoke by metis
qed

lemma stepwise_revoke [stepwise_intros]: "stepwise (send_revoke E key raw)"
proof -
  have "sv_db (snd (send_revoke E key raw s)) = snd (revoke_token_async raw (sv_db s))" for s
    by (simp add: send_revoke_def revoke_token_handler_def Let_def split: prod.splits)
  then show ?thesis by (simp add: stepwise_def revoke_async_evolves)
qed

lemma revoke_family_db [simp]:
  "sv_db (snd (send_revoke_family E key f s)) = snd (revoke_token_family f (sv_db s))"
  by (simp add: send_revoke_family_def revoke_token_family_handler_def Let_def split: prod.splits)

lemma stepwise_revoke_family [stepwise_intros]: "stepwise (send_revoke_family E key f)"
  by (simp add: stepwise_def evolves_revoke_family)

lemma stepwise_set_family [stepwise_intros]: "stepwise (send_set_family a f)"
  by (simp add: stepwise_def send_set_family_def set_token_family_handler_def evolves_set_family split: prod.splits)
    (metis evolves_set_family snd_conv)

lemma stepwise_validate_refresh [stepwise_intros]: "stepwise (send_validate_refresh E now key rt)"
  by (auto simp: stepwise_def send_validate_refresh_def validate_refresh_token_def evolves_revoke_family
      split: prod.splits option.splits if_splits)

lemma stepwise_mark_used [stepwise_intros]: "stepwise (send_mark_used code)"
  by (simp add: stepwise_def send_mark_used_def split: prod.splits) (metis evolves_mark_used snd_conv)

lemma stepwise_mark_device [stepwise_intros]: "stepwise (send_mark_device_used code)"
  by (simp add: stepwise_def send_mark_device_used_def split: prod.splits) (metis evolves_mark_device snd_conv)

lemma stepwise_id_token [stepwise_intros]: "stepwise (with_id_token E now sc u cid nonce code t resp)"
  by (rule stepwise_keep) (simp add: with_id_token_def Let_def)

lemma stepwise_resolve_token [stepwise_intros]: "stepwise (resolve_token E now raw ty which cid allow)"
proof -
  have "stepwise (resolve_refresh E now raw which cid)"
    unfolding resolve_refresh_def by (intro stepwise_intros)
  then show ?thesis by (auto simp: stepwise_def resolve_token_def)
qed

lemma stepwise_named_actor [stepwise_intros]: "stepwise (resolve_named_actor E now a req)"
  unfolding resolve_named_actor_def by (cases "nonempty (map_option trim (ac_requested_actor a))") (auto intro!: stepwise_intros)

lemma cascade_evolves: "evolves (sv_db s) (sv_db (code_replay_cascade E req code s))"
  by (auto simp: code_replay_cascade_def evolves_revoke_family split: option.splits)

lemma stepwise_validate_code [stepwise_intros]: "stepwise (send_validate_code E now code req)"
  by (auto simp: stepwise_def send_validate_code_def cascade_evolves split: sum.splits)

lemma stepwise_client_check [stepwise_intros]: "stepwise (code_client_check E now c req mt)"
  unfolding code_client_check_def by (intro stepwise_intros)

lemma stepwise_refresh_family [stepwise_intros]: "stepwise (refresh_family f old)"
  using stepwise_set_family [of "tk_access_token old" f]
  by (auto simp: stepwise_def refresh_family_def split: option.splits)

lemma stepwise_read [stepwise_intros]: "stepwise (\<lambda>s. (f s, s))"
  by (simp add: stepwise_def)

lemma stepwise_prepare [stepwise_intros]: "stepwise (code_grant_prepare E now req mt)"
  unfolding code_grant_prepare_def by (intro stepwise_intros)

lemma stepwise_commit [stepwise_intros]: "stepwise (code_grant_commit E now fr nf req cnf rar p)"
  unfolding code_grant_commit_def by (cases p) (auto intro!: stepwise_intros)

lemma stepwise_code_grant [stepwise_intros]: "stepwise (handle_authorization_code_grant E now fr nf req cnf rar mt)"
  unfolding handle_authorization_code_grant_def by (intro stepwise_intros)

lemma stepwise_client_credentials [stepwise_intros]: "stepwise (handle_client_credentials_grant E now fr req cnf rar mt)"
  unfolding handle_client_credentials_grant_def Let_def by (intro stepwise_intros)

lemma stepwise_refresh_grant [stepwise_intros]: "stepwise (handle_refresh_token_grant E now fr nf req mt)"
  unfolding handle_refresh_token_grant_def rotate_refresh_token_def Let_def by (intro stepwise_intros)

lemma stepwise_device_grant [stepwise_intros]: "stepwise (handle_device_code_grant E now fr req mt)"
proof -
  have [stepwise_intros]: "stepwise (case x of Some r \<Rightarrow> ret r | None \<Rightarrow> m)" if "stepwise m" for x :: "reply result option" and m
    using that by (cases x) (auto intro: stepwise_ret)
  show ?thesis unfolding handle_device_code_grant_def device_issue_def by (intro stepwise_intros)
qed

section \<open>What each action shows when it succeeds\<close>

text \<open>The client has shown what its registration demands: nothing for a public client, the evidence
  of its method for a confidential one.\<close>
definition client_evidence :: "env \<Rightarrow> instant \<Rightarrow> client \<Rightarrow> token_request \<Rightarrow> mtls \<Rightarrow> jti_guard \<Rightarrow> bool" where
  "client_evidence E now c req mt g =
     (is_public c \<or>
      (\<exists>jwks. resolve_client_jwks (en_libs E) c (en_jwks_cache E) = Inr jwks \<and>
         credential_presented (en_assertions E) (en_first_key E) now now c req (token_endpoint_url (en_oidc E))
           (oc_issuer (en_oidc E)) jwks mt g))"

lemma public_evidence: "is_public c \<Longrightarrow> client_evidence E now c req mt g"
  by (simp add: client_evidence_def)

lemma authenticate_ok:
  assumes "authenticate E now c req mt s = (Inr u, s')" "cl_client_id c \<noteq> []"
  shows "client_evidence E now c req mt (sv_jti s)" "\<not> is_public c"
proof -
  obtain jwks g where j: "resolve_client_jwks (en_libs E) c (en_jwks_cache E) = Inr jwks"
    and a: "authenticate_confidential_client (en_assertions E) (en_first_key E) now now c req
      (token_endpoint_url (en_oidc E)) (oc_issuer (en_oidc E)) jwks mt (sv_jti s) = (Inr (), g)"
    using assms(1) by (auto simp: authenticate_def split: sum.splits prod.splits)
  from accepted_credential [OF a assms(2)] j show "client_evidence E now c req mt (sv_jti s)" "\<not> is_public c"
    by (auto simp: client_evidence_def)
qed

lemma resolve_jti: "send_resolve E now cid s = (r, s') \<Longrightarrow> sv_jti s' = sv_jti s"
  by (auto simp: send_resolve_def split: prod.splits)

lemma code_client_check_ok:
  assumes "code_client_check E now c req mt s = (Inr u, s')" "cl_client_id c \<noteq> []"
  shows "client_evidence E now c req mt (sv_jti s)" "sv_db s' = sv_db s" "sv_shards s' = sv_shards s"
proof -
  have "is_public c \<and> s' = s \<or> authenticate E now c req mt s = (Inr (), s')"
    using assms(1) by (auto simp: code_client_check_def ret_def split: if_splits)
  then show "client_evidence E now c req mt (sv_jti s)" "sv_db s' = sv_db s" "sv_shards s' = sv_shards s"
    using authenticate_ok(1) [OF _ assms(2)] authenticate_keeps public_evidence by auto
qed

lemma send_create_ok:
  assumes "send_create E now fr key m s = (Inr t, s')"
  shows "sv_db s' = (sv_db s)\<lparr>db_tokens := db_tokens (sv_db s) @ [t]\<rparr>" "sv_shards s' = sv_shards s"
    "get_token_by_access_token (tk_access_token t) (sv_db s) = None"
    "get_token_by_access_token (tk_access_token t) (sv_db s') = Some t"
    "\<not> tk_revoked t" "tk_client_id t = ctm_client_id m" "tk_user_id t = ctm_user_id m" "tk_scope t = ctm_scope m"
    "tk_token_family t = ctm_token_family m" "(tk_refresh_token t \<noteq> None) = ctm_include_refresh m"
proof -
  obtain d' where c: "create_token (en_libs E) (en_jwt E) now fr (shard E key s) m (sv_db s) = (Inr t, d')"
    and s': "s' = s\<lparr>sv_db := d'\<rparr>"
    using assms by (auto simp: send_create_def split: prod.splits)
  obtain u where "save_token t (sv_db s) = (Inr u, d')" using c by (rule create_token_ok)
  from save_token_ok(1) [OF this] s'
  show "sv_db s' = (sv_db s)\<lparr>db_tokens := db_tokens (sv_db s) @ [t]\<rparr>" "sv_shards s' = sv_shards s" by simp_all
  from create_token_facts [OF c] s'
  show "get_token_by_access_token (tk_access_token t) (sv_db s) = None"
    "get_token_by_access_token (tk_access_token t) (sv_db s') = Some t"
    "\<not> tk_revoked t" "tk_client_id t = ctm_client_id m" "tk_user_id t = ctm_user_id m" "tk_scope t = ctm_scope m"
    "tk_token_family t = ctm_token_family m" "(tk_refresh_token t \<noteq> None) = ctm_include_refresh m" by simp_all
qed

lemma with_id_token_ok:
  assumes "with_id_token E now sc u cid nonce code t resp s = (Inr resp', s')"
  shows "s' = s" "tr_access_token resp' = tr_access_token resp" "tr_refresh_token resp' = tr_refresh_token resp"
    "tr_scope resp' = tr_scope resp"
  using assms by (auto simp: with_id_token_def Let_def split: if_splits) (auto simp: map_sum_eq_Inr)

lemma apply_dpop_fields [simp]:
  "tr_access_token (apply_dpop_token_type resp cnf) = tr_access_token resp"
  "tr_refresh_token (apply_dpop_token_type resp cnf) = tr_refresh_token resp"
  by (simp_all add: apply_dpop_token_type_def)

lemma response_fields [simp]:
  "tr_access_token (token_response_from t) = tk_access_token t" "tr_refresh_token (token_response_from t) = tk_refresh_token t"
  by (simp_all add: token_response_from_def)

section \<open>Authorization codes\<close>

lemma resolve_token_keeps:
  assumes "resolve_token E now raw ty which cid False s = (r, s')"
  shows "s' = s"
  using assms by (auto simp: resolve_token_def split: if_splits)

lemma named_actor_keeps:
  assumes "resolve_named_actor E now a req s = (Inr x, s')"
  shows "s' = s"
  using assms resolve_token_keeps
  by (auto simp: resolve_named_actor_def result_simps split: option.splits if_splits)

lemma prepare_ok:
  assumes "code_grant_prepare E now req mt s = (Inr (a, c, act_claim), s')"
  obtains code where "rq_code req = Some code"
    and "validate_authorization_code (en_libs E) now code (rq_client_id req) (rq_redirect_uri req) (rq_code_verifier req) (sv_db s) = Inr a"
    and "supports_grant_type (en_libs E) c ''authorization_code''"
    and "cl_client_id c \<noteq> [] \<Longrightarrow> client_evidence E now c req mt (sv_jti s)"
    and "db_codes (sv_db s') = db_codes (sv_db s)" and "db_tokens (sv_db s') = db_tokens (sv_db s)"
    and "sv_shards s' = sv_shards s"
proof -
  obtain code s1 s2 s3 where code: "rq_code req = Some code"
    and v: "send_validate_code E now code req s = (Inr a, s1)"
    and r: "send_resolve E now (rq_client_id req) s1 = (Inr c, s2)"
    and g: "supports_grant_type (en_libs E) c ''authorization_code''"
    and k: "code_client_check E now c req mt s2 = (Inr (), s3)"
    and m: "\<exists>s4. send_materialize E now c s3 = (Inr (), s4) \<and> resolve_named_actor E now a req s4 = (Inr act_claim, s')"
    using assms by (fastforce simp: code_grant_prepare_def result_simps)
  have s1: "s1 = s" "validate_authorization_code (en_libs E) now code (rq_client_id req) (rq_redirect_uri req)
      (rq_code_verifier req) (sv_db s) = Inr a"
    using v by (auto simp: send_validate_code_def split: sum.splits)
  have check: "sv_db s3 = sv_db s2" "sv_shards s3 = sv_shards s2"
    using k authenticate_keeps by (auto simp: code_client_check_def ret_def split: if_splits)
  have m': "send_materialize E now c s3 = (Inr (), s')" using m named_actor_keeps by metis
  note keep = materialize_keeps [OF m'] check resolve_keeps [OF r] resolve_jti [OF r]
  show ?thesis
    using code s1 g k code_client_check_ok(1) [OF k] keep by (intro that [of code]) auto
qed

lemma mark_used_run: "send_mark_used code s = (Inr (), s\<lparr>sv_db := snd (mark_authorization_code_used code (sv_db s))\<rparr>)"
  by (simp add: send_mark_used_def mark_authorization_code_used_def)

lemma commit_ok:
  assumes "code_grant_commit E now fr nf req cnf rar (a, c, act_claim) s = (Inr (Issued resp), s')" "rq_code req = Some code"
  obtains t where "sv_db s' = (snd (mark_authorization_code_used code (sv_db s)))\<lparr>db_tokens := db_tokens (sv_db s) @ [t]\<rparr>"
    and "get_token_by_access_token (tk_access_token t) (sv_db s') = Some t"
    and "tr_access_token resp = tk_access_token t" and "tr_refresh_token resp = tk_refresh_token t" and "\<not> tk_revoked t"
    and "tk_client_id t = ac_client_id a" and "tk_user_id t = Some (ac_user_id a)" and "tk_scope t = ac_scope a"
    and "tk_token_family t = code_family E nf c a"
    and "(tk_refresh_token t \<noteq> None) = supports_grant_type (en_libs E) c ''refresh_token''"
proof -
  obtain t s2 where c: "send_create E now fr (ac_client_id a) (code_msg E nf c a cnf rar act_claim)
      (s\<lparr>sv_db := snd (mark_authorization_code_used code (sv_db s))\<rparr>) = (Inr t, s2)"
    and w: "with_id_token E now (ac_scope a) (ac_user_id a) (ac_client_id a) (ac_nonce a) (Some (ac_code a)) t
      (apply_dpop_token_type (token_response_from t) cnf) s2 = (Inr resp, s')"
    using assms by (auto simp: code_grant_commit_def result_simps mark_used_run)
  note f = send_create_ok [OF c] with_id_token_ok [OF w]
  show ?thesis using f
    by (intro that [of t]) (simp_all add: code_msg_def mark_authorization_code_used_def)
qed


section \<open>A code is redeemed once\<close>

definition code_lineage :: "db \<Rightarrow> (string \<times> string option) set" where
  "code_lineage d = (\<lambda>a. (ac_code a, ac_token_family a)) ` set (db_codes d)"

lemma lineage_update:
  "(\<And>a. (ac_code (f a), ac_token_family (f a)) = (ac_code a, ac_token_family a)) \<Longrightarrow>
   (\<lambda>a. (ac_code a, ac_token_family a)) ` set (update_where P f xs) = (\<lambda>a. (ac_code a, ac_token_family a)) ` set xs"
  by (induction xs) auto

lemma exec_cmd_lineage: "\<not> is_delete_user c \<Longrightarrow> code_lineage d \<subseteq> code_lineage (exec_cmd c d)"
  unfolding code_lineage_def
  by (cases c) (auto simp: sql_defs checked_def Let_def lineage_update simp del: prod.inject)

lemma evolves_lineage: "evolves d d' \<Longrightarrow> code_lineage d \<subseteq> code_lineage d'"
  unfolding evolves_def exec_all_def
  by (elim exE conjE, hypsubst, rule fold_mono_set) (simp add: list_all_iff exec_cmd_lineage)

lemma used_row_after:
  assumes "db_wf d" "get_authorization_code code d = Some a" "ac_used a" "evolves d d'"
  shows "\<exists>a'. get_authorization_code code d' = Some a' \<and> ac_used a' \<and> ac_token_family a' = ac_token_family a"
proof -
  have a: "a \<in> set (db_codes d)" "ac_code a = code"
    using find_Some_in [OF assms(2) [unfolded get_authorization_code_def]] by auto
  then have "code \<in> used_codes d" "(code, ac_token_family a) \<in> code_lineage d"
    using assms(3) by (auto simp: used_codes_def code_lineage_def image_iff intro!: bexI [of _ a])
  then have u: "code \<in> used_codes d'" and l: "(code, ac_token_family a) \<in> code_lineage d'"
    using evolves_used [OF assms(4)] evolves_lineage [OF assms(4)] by blast+
  have w: "db_wf d'" by (rule evolves_wf [OF assms(4,1)])
  from used_code_lookup [OF w u] obtain a' where a': "get_authorization_code code d' = Some a'" "ac_used a'" by blast
  from l obtain b where b: "b \<in> set (db_codes d')" "ac_code b = code" "ac_token_family b = ac_token_family a"
    by (auto simp: code_lineage_def)
  have "get_authorization_code code d' = Some b"
    using find_distinct_key [of ac_code "db_codes d'" b] w b by (simp add: get_authorization_code_def db_wf_def keys_ok_def)
  with a' b show ?thesis by simp
qed

lemma used_code_refused:
  assumes "get_authorization_code code (sv_db s) = Some a" "ac_used a" "rq_code req = Some code" "rq_redirect_uri req \<noteq> Some []"
  shows "handle_authorization_code_grant E now fr nf req cnf rar mt s =
    (Inl (invalid_grant ''Authorization code is expired or used''), code_replay_cascade E req code s)"
proof -
  have "send_validate_code E now code req s =
      (Inl (invalid_grant ''Authorization code is expired or used''), code_replay_cascade E req code s)"
    using assms by (simp add: send_validate_code_def validate_authorization_code_def code_is_valid_def)
  then show ?thesis using assms(3,4)
    by (simp add: handle_authorization_code_grant_def code_grant_prepare_def andThen_def ret_def)
qed

lemma cascade_db:
  assumes "get_authorization_code code (sv_db s) = Some a" "ac_used a" "ac_token_family a = Some f"
  shows "sv_db (code_replay_cascade E req code s) = snd (revoke_token_family f (sv_db s))"
  using assms by (simp add: code_replay_cascade_def lookup_authorization_code_def)

lemma commit_uses_code:
  assumes "handle_authorization_code_grant E now fr nf req cnf rar mt s = (Inr (Issued resp), s1)"
    and "rq_code req = Some code" "get_authorization_code code (sv_db s) = Some a"
  shows "get_authorization_code code (sv_db s1) = Some (a\<lparr>ac_used := True\<rparr>)"
proof -
  obtain a' c ac s0 where p: "code_grant_prepare E now req mt s = (Inr (a', c, ac), s0)"
    and k: "code_grant_commit E now fr nf req cnf rar (a', c, ac) s0 = (Inr (Issued resp), s1)"
    using assms(1) by (auto simp: handle_authorization_code_grant_def result_simps)
  from p have codes: "db_codes (sv_db s0) = db_codes (sv_db s)" by (rule prepare_ok)
  from k assms(2) obtain t where d: "sv_db s1 = (snd (mark_authorization_code_used code (sv_db s0)))\<lparr>db_tokens := db_tokens (sv_db s0) @ [t]\<rparr>"
    by (rule commit_ok) blast
  have "get_authorization_code code (sv_db s0) = Some a" using assms(3) codes by (simp add: get_authorization_code_def)
  then have "get_authorization_code code (snd (mark_authorization_code_used code (sv_db s0))) = Some (a\<lparr>ac_used := True\<rparr>)"
    by (simp add: sql_codes.mark_lookup)
  then show ?thesis by (simp add: d get_authorization_code_def)
qed


text \<open>The replay cascade misses tokens of clients that may not refresh: such a token carries no family,
  so when its code is replayed the token itself stays valid.\<close>
theorem access_only_survives_replay:
  assumes "handle_authorization_code_grant E now fr nf req cnf rar mt s = (Inr (Issued resp), s1)" "tr_refresh_token resp = None"
    and "rq_code req2 = rq_code req" "rq_redirect_uri req2 \<noteq> Some []"
  shows "\<exists>t s2. handle_authorization_code_grant E2 now2 fr2 nf2 req2 cnf2 rar2 mt2 s1 =
      (Inl (invalid_grant ''Authorization code is expired or used''), s2) \<and>
    get_token_by_access_token (tr_access_token resp) (sv_db s2) = Some t \<and> \<not> tk_revoked t"
proof -
  obtain a c ac s0 where p: "code_grant_prepare E now req mt s = (Inr (a, c, ac), s0)"
    and k: "code_grant_commit E now fr nf req cnf rar (a, c, ac) s0 = (Inr (Issued resp), s1)"
    using assms(1) by (auto simp: handle_authorization_code_grant_def result_simps)
  from p obtain code where code: "rq_code req = Some code"
    and v: "validate_authorization_code (en_libs E) now code (rq_client_id req) (rq_redirect_uri req) (rq_code_verifier req) (sv_db s) = Inr a"
    by (rule prepare_ok) blast
  have u: "get_authorization_code code (sv_db s1) = Some (a\<lparr>ac_used := True\<rparr>)"
    using commit_uses_code [OF assms(1) code] v by (simp add: validate_code_cases)
  from k code obtain t where t: "get_token_by_access_token (tk_access_token t) (sv_db s1) = Some t" "\<not> tk_revoked t"
    "tr_access_token resp = tk_access_token t" "tr_refresh_token resp = tk_refresh_token t" "tk_token_family t = code_family E nf c a"
    "(tk_refresh_token t \<noteq> None) = supports_grant_type (en_libs E) c ''refresh_token''" by (rule commit_ok) blast
  then have f: "tk_token_family t = None" using assms(2) by (simp add: code_family_def)
  let ?s2 = "code_replay_cascade E2 req2 code s1"
  have "sv_db ?s2 = sv_db s1 \<or> (\<exists>fam. sv_db ?s2 = snd (revoke_token_family fam (sv_db s1)))"
    by (auto simp: code_replay_cascade_def split: option.splits)
  then have "get_token_by_access_token (tk_access_token t) (sv_db ?s2) = Some t"
    using t(1) f by (auto simp: sql_tokens.family_by_access)
  then show ?thesis using used_code_refused [OF u, of req2] code assms(3,4) t by auto
qed

section \<open>Refresh\<close>

lemma validate_refresh_ok:
  assumes "send_validate_refresh E now key rt s = (Inr old, s')"
  shows "s' = s" "get_token_by_refresh_token rt (sv_db s) = Some old" "\<not> tk_revoked old"
  using assms by (auto simp: send_validate_refresh_def validate_refresh_token_def split: prod.splits option.splits if_splits)

lemma set_family_lookup:
  "get_token_by_refresh_token r (snd (set_token_family a f d)) =
     map_option (\<lambda>t. if tk_access_token t = a then t\<lparr>tk_token_family := Some f\<rparr> else t) (get_token_by_refresh_token r d)"
  unfolding get_token_by_refresh_token_def set_token_family_def by (simp add: find_update_where)

lemma refresh_family_ok:
  assumes "refresh_family nf old s = (r, s')" "get_token_by_refresh_token rt (sv_db s) = Some old"
  shows "\<exists>fam. r = Inr fam \<and> fam = unwrap_or (tk_token_family old) nf \<and> sv_shards s' = sv_shards s \<and>
    get_token_by_refresh_token rt (sv_db s') = Some (old\<lparr>tk_token_family := Some fam\<rparr>)"
  using assms
  by (auto simp: refresh_family_def send_set_family_def set_token_family_handler_def split: option.splits prod.splits)
    (metis (mono_tags, lifting) option.map(2) set_family_lookup snd_conv)

lemma revoke_refresh_row:
  assumes "send_revoke E key raw s = (r, s')" "get_token_by_refresh_token rt (sv_db s) = Some old"
    and "normalize_token_key raw = tk_access_token old"
  shows "\<exists>u. r = Inr u" "get_token_by_refresh_token rt (sv_db s') = Some (old\<lparr>tk_revoked := True\<rparr>)"
proof -
  let ?d1 = "snd (revoke_token (tk_access_token old) (sv_db s))"
  have s': "sv_db s' = snd (revoke_token_async raw (sv_db s))" and r: "r = fst (revoke_token_async raw (sv_db s))"
    using assms(1) by (auto simp: send_revoke_def revoke_token_handler_def Let_def split: prod.splits)
  show "\<exists>u. r = Inr u" using r revoke_token_async_ok [of raw "sv_db s"] by auto
  have "sv_db s' = ?d1 \<or> (\<exists>f. sv_db s' = snd (revoke_token_family f ?d1))"
    unfolding s' by (auto simp: revoke_token_async_def Let_def revoke_token_def assms(3) split: option.splits)
  moreover have "get_token_by_refresh_token rt ?d1 = Some (old\<lparr>tk_revoked := True\<rparr>)"
    using assms(2) by (simp add: sql_tokens.revoke_by_refresh)
  ultimately show "get_token_by_refresh_token rt (sv_db s') = Some (old\<lparr>tk_revoked := True\<rparr>)"
    by (auto simp: sql_tokens.family_by_refresh)
qed

lemma refresh_scope_subset:
  assumes "refresh_scope req old = Inr scope"
  shows "set (split_whitespace scope) \<subseteq> set (split_whitespace (tk_scope old))"
  using assms validate_scope_subset_iff [of scope "tk_scope old"]
  by (auto simp: refresh_scope_def result_simps split: option.splits)

lemma save_keeps_refresh_row:
  assumes "d' = d\<lparr>db_tokens := db_tokens d @ [t]\<rparr>" "get_token_by_refresh_token rt d = Some old"
  shows "get_token_by_refresh_token rt d' = Some old"
  using assms by (simp add: get_token_by_refresh_token_def find_append)

lemma rotate_ok:
  assumes "rotate_refresh_token E now fr nf req c old s = (Inr rep, s')"
    and "get_token_by_refresh_token rt (sv_db s) = Some old"
  obtains t resp where "rep = Issued resp" "tr_access_token resp = tk_access_token t"
    and "tk_client_id old = rq_client_id req" "get_token_by_access_token (tk_access_token t) (sv_db s') = Some t"
    and "\<not> tk_revoked t" "tk_client_id t = rq_client_id req" "tk_user_id t = tk_user_id old"
    and "set (split_whitespace (tk_scope t)) \<subseteq> set (split_whitespace (tk_scope old))"
    and "tk_token_family t = Some (unwrap_or (tk_token_family old) nf)"
    and "normalize_token_key (tk_access_token old) = tk_access_token old \<Longrightarrow> get_token_by_refresh_token rt (sv_db s') =
      Some (old\<lparr>tk_token_family := Some (unwrap_or (tk_token_family old) nf), tk_revoked := True\<rparr>)"
proof -
  obtain s1 s2 s3 scope fam t where cid: "tk_client_id old = rq_client_id req"
    and m: "send_materialize E now c s = (Inr (), s1)" and sc: "refresh_scope req old = Inr scope"
    and f: "refresh_family nf old s1 = (Inr fam, s2)"
    and r: "send_revoke E (rq_client_id req) (tk_access_token old) s2 = (Inr (), s3)"
    and k: "send_create E now fr (rq_client_id req) (refresh_msg E req old scope fam (refresh_old_cnf E old)) s3 = (Inr t, s')"
    and rep: "rep = Issued (apply_dpop_token_type (token_response_from t) (refresh_old_cnf E old))"
    using assms(1) by (auto simp: rotate_refresh_token_def result_simps Let_def)
  have g1: "get_token_by_refresh_token rt (sv_db s1) = Some old"
    using assms(2) materialize_keeps(1) [OF m] by (simp add: get_token_by_refresh_token_def)
  from refresh_family_ok [OF f g1] have fam: "fam = unwrap_or (tk_token_family old) nf"
    and g2: "get_token_by_refresh_token rt (sv_db s2) = Some (old\<lparr>tk_token_family := Some fam\<rparr>)" by auto
  have "get_token_by_refresh_token rt (sv_db s') = Some (old\<lparr>tk_token_family := Some fam, tk_revoked := True\<rparr>)"
    if "normalize_token_key (tk_access_token old) = tk_access_token old"
    using revoke_refresh_row(2) [OF r g2] that send_create_ok(1) [OF k] save_keeps_refresh_row by simp
  then show ?thesis
    using send_create_ok [OF k] cid rep fam refresh_scope_subset [OF sc]
    by (intro that [of "apply_dpop_token_type (token_response_from t) (refresh_old_cnf E old)" t])
      (simp_all add: refresh_msg_def)
qed

lemma refresh_grant_parts:
  assumes "handle_refresh_token_grant E now fr nf req mt s = (Inr rep, s')"
  obtains rt c old s1 where "rq_refresh_token req = Some rt" "supports_grant_type (en_libs E) c ''refresh_token''"
    and "cl_client_id c \<noteq> [] \<Longrightarrow> client_evidence E now c req mt (sv_jti s)"
    and "get_token_by_refresh_token rt (sv_db s) = Some old" "\<not> tk_revoked old" "sv_db s1 = sv_db s"
    and "rotate_refresh_token E now fr nf req c old s1 = (Inr rep, s')"
proof -
  obtain rt c s1 s2 s3 old where rt: "rq_refresh_token req = Some rt"
    and r: "send_resolve E now (rq_client_id req) s = (Inr c, s1)"
    and a: "(if \<not> is_public c then authenticate E now c req mt else ret (Inr ())) s1 = (Inr (), s2)"
    and g: "supports_grant_type (en_libs E) c ''refresh_token''"
    and v: "send_validate_refresh E now (rq_client_id req) rt s2 = (Inr old, s3)"
    and k: "rotate_refresh_token E now fr nf req c old s3 = (Inr rep, s')"
    using assms by (auto simp: handle_refresh_token_grant_def result_simps)
  have e: "client_evidence E now c req mt (sv_jti s)" if "cl_client_id c \<noteq> []"
    using a authenticate_ok(1) [of E now c req mt s1 "()" s2, OF _ that] public_evidence [of c] resolve_jti [OF r]
    by (cases "is_public c") auto
  have "sv_db s2 = sv_db s"
    using a authenticate_keeps(1) resolve_keeps(1) [OF r] by (auto simp: ret_def split: if_splits)
  with validate_refresh_ok [OF v] rt g e k show ?thesis by (intro that [of rt c old s3]) auto
qed


section \<open>A refresh token is rotated once\<close>

lemma find_append_some: "find P xs = Some x \<Longrightarrow> find P (xs @ ys) = Some x"
  by (simp add: find_append)

lemma exec_cmd_refresh_revoked:
  assumes "get_token_by_refresh_token rt d = Some t" "tk_revoked t"
  shows "\<exists>t'. get_token_by_refresh_token rt (exec_cmd c d) = Some t' \<and> tk_revoked t'"
  using assms unfolding get_token_by_refresh_token_def
  by (cases c) (auto simp: sql_defs checked_def Let_def find_update_where find_append_some)

lemma evolves_refresh_revoked:
  assumes "evolves d d'" "get_token_by_refresh_token rt d = Some t" "tk_revoked t"
  shows "\<exists>t'. get_token_by_refresh_token rt d' = Some t' \<and> tk_revoked t'"
proof -
  have "\<exists>t'. get_token_by_refresh_token rt (fold exec_cmd cs d) = Some t' \<and> tk_revoked t'" for cs
    using assms(2,3)
  proof (induction cs arbitrary: d t)
    case (Cons c cs)
    from exec_cmd_refresh_revoked [OF Cons.prems, of c] Cons.IH show ?case by auto
  qed auto
  then show ?thesis using assms(1) by (auto simp: evolves_def exec_all_def)
qed

lemma revoked_refresh_refused:
  assumes "get_token_by_refresh_token rt (sv_db s) = Some t" "tk_revoked t" "rq_refresh_token req = Some rt"
  shows "isl (fst (handle_refresh_token_grant E now fr nf req mt s))"
proof (rule ccontr)
  assume "\<not> ?thesis"
  then obtain rep s' where "handle_refresh_token_grant E now fr nf req mt s = (Inr rep, s')"
    by (metis prod.collapse sum.collapse(2))
  then show False by (rule refresh_grant_parts) (use assms in auto)
qed

text \<open>C4. A refresh token is rotated once: after a rotation, and whatever statements run in between, every
  further presentation of the token is refused, whoever presents it; when it reaches the token
  actor it is reported as a replay, and every token of its row's family is revoked.\<close>
theorem refresh_rotated_once:
  assumes "handle_refresh_token_grant E now fr nf req mt s = (Inr rep, s1)" "rq_refresh_token req = Some rt"
    and "\<And>t. get_token_by_refresh_token rt (sv_db s) = Some t \<Longrightarrow> normalize_token_key (tk_access_token t) = tk_access_token t"
    and "evolves (sv_db s1) (sv_db s2)" "rq_refresh_token req2 = Some rt"
  shows "isl (fst (handle_refresh_token_grant E2 now2 fr2 nf2 req2 mt2 s2)) \<and>
    (\<exists>s3. send_validate_refresh E2 now2 key rt s2 =
       (Inl (invalid_grant ''Refresh token has been revoked (replay detected)''), s3) \<and>
     (\<forall>old f x t. get_token_by_refresh_token rt (sv_db s2) = Some old \<and> tk_token_family old = Some f \<and>
        get_token_by_access_token x (sv_db s3) = Some t \<and> tk_token_family t = Some f \<longrightarrow> tk_revoked t))"
proof -
  have "\<exists>row. get_token_by_refresh_token rt (sv_db s1) = Some row \<and> tk_revoked row"
    using assms(1)
  proof (rule refresh_grant_parts)
    fix rt' c old s0
    assume p: "rq_refresh_token req = Some rt'" "get_token_by_refresh_token rt' (sv_db s) = Some old" "sv_db s0 = sv_db s"
      "rotate_refresh_token E now fr nf req c old s0 = (Inr rep, s1)"
    have "get_token_by_refresh_token rt (sv_db s0) = Some old" using p assms(2) by simp
    with p(4) show ?thesis by (rule rotate_ok) (use p assms(2,3) in auto)
  qed
  then obtain row where "get_token_by_refresh_token rt (sv_db s1) = Some row" "tk_revoked row" by blast
  from evolves_refresh_revoked [OF assms(4) this]
  obtain row' where row': "get_token_by_refresh_token rt (sv_db s2) = Some row'" "tk_revoked row'" by blast
  have "send_validate_refresh E2 now2 key rt s2 = (Inl (invalid_grant ''Refresh token has been revoked (replay detected)''),
      s2\<lparr>sv_db := (case tk_token_family row' of Some f \<Rightarrow> snd (revoke_token_family f (sv_db s2)) | None \<Rightarrow> sv_db s2)\<rparr>)"
    using row' by (simp add: send_validate_refresh_def validate_refresh_token_def)
  then show ?thesis
    using revoked_refresh_refused [OF row' assms(5)] row'(1) sql_tokens.revoked_family_invalid by auto
qed

section \<open>Client credentials\<close>

text \<open>The client-credentials grant is sound: a token is issued only to a confidential client that may
  use the grant and has authenticated; it has no user, no refresh token, no family, and a
  non-empty scope within the client's registered one.\<close>
theorem client_credentials_sound:
  assumes "handle_client_credentials_grant E now fr req cnf rar mt s = (Inr rep, s')"
  shows "\<exists>c t resp. rep = Issued resp \<and> \<not> is_public c \<and> supports_grant_type (en_libs E) c ''client_credentials'' \<and>
    (cl_client_id c \<noteq> [] \<longrightarrow> client_evidence E now c req mt (sv_jti s)) \<and>
    get_token_by_access_token (tr_access_token resp) (sv_db s') = Some t \<and> \<not> tk_revoked t \<and>
    tk_client_id t = rq_client_id req \<and> tk_user_id t = None \<and> tk_refresh_token t = None \<and> tk_token_family t = None \<and>
    split_whitespace (tk_scope t) \<noteq> [] \<and> set (split_whitespace (tk_scope t)) \<subseteq> set (split_whitespace (cl_scope c))"
proof -
  obtain c s1 s2 s3 scope t where r: "send_resolve E now (rq_client_id req) s = (Inr c, s1)"
    and g: "supports_grant_type (en_libs E) c ''client_credentials''" "\<not> is_public c"
    and a: "authenticate E now c req mt s1 = (Inr (), s2)"
    and sc: "validate_scope_subset scope (cl_scope c) = Inr ()"
    and k: "send_create E now fr (rq_client_id req) (client_credentials_msg E c req scope cnf rar) s3 = (Inr t, s')"
    and rep: "rep = Issued (apply_dpop_token_type (token_response_from t) cnf)"
    using assms by (auto simp: handle_client_credentials_grant_def result_simps Let_def)
  have e: "client_evidence E now c req mt (sv_jti s)" if "cl_client_id c \<noteq> []"
    using authenticate_ok(1) [OF a that] resolve_jti [OF r] by simp
  have f: "tk_client_id t = rq_client_id req" "tk_user_id t = None" "tk_scope t = scope" "tk_token_family t = None"
    "tk_refresh_token t = None"
    using send_create_ok(6-10) [OF k] by (simp_all add: client_credentials_msg_def)
  show ?thesis
    using g e rep f send_create_ok(4,5) [OF k] sc [unfolded validate_scope_subset_iff]
    by (intro exI [of _ c] exI [of _ t]) auto
qed

section \<open>Device codes\<close>

lemma device_refusal_none:
  "device_refusal now req dev = None \<longleftrightarrow>
     da_client_id dev = rq_client_id req \<and> \<not> da_used dev \<and> \<not> device_is_expired now dev \<and> \<not> da_denied dev \<and> da_approved dev"
  by (auto simp: device_refusal_def)

lemma mark_device_lookup:
  "get_device_authorization_by_device_code c (snd (mark_device_authorization_used c d)) =
     map_option (\<lambda>v. v\<lparr>da_used := True\<rparr>) (get_device_authorization_by_device_code c d)"
proof -
  have "find (\<lambda>v. da_device_code v = c) (update_where (\<lambda>v. da_device_code v = c) (\<lambda>v. v\<lparr>da_used := True\<rparr>) (db_devices d)) =
      map_option (\<lambda>v. if da_device_code v = c then v\<lparr>da_used := True\<rparr> else v) (find (\<lambda>v. da_device_code v = c) (db_devices d))"
    by (rule find_update_where) simp
  then show ?thesis
    unfolding get_device_authorization_by_device_code_def mark_device_authorization_used_def
    by (cases "find (\<lambda>v. da_device_code v = c) (db_devices d)") (auto dest: find_Some_in)
qed

lemma device_grant_parts:
  assumes "handle_device_code_grant E now fr req mt s = (Inr (Issued resp), s')"
  obtains dc c dev u t s1 s2 where "rq_device_code req = Some dc" "\<not> is_public c"
    and "cl_client_id c \<noteq> [] \<Longrightarrow> client_evidence E now c req mt (sv_jti s)"
    and "get_device_authorization_by_device_code dc (sv_db s) = Some dev" "device_refusal now req dev = None"
    and "da_user_id dev = Some u" "db_devices (sv_db s1) = db_devices (sv_db s)"
    and "send_create E now fr (rq_client_id req) (device_msg E c req dev u) s1 = (Inr t, s2)"
    and "sv_db s' = snd (mark_device_authorization_used dc (sv_db s2))" "tr_access_token resp = tk_access_token t"
proof -
  obtain dc c sa sb dev where dc: "rq_device_code req = Some dc"
    and r: "send_resolve E now (rq_client_id req) s = (Inr c, sa)" and p: "\<not> is_public c"
    and a: "authenticate E now c req mt sa = (Inr (), sb)"
    and dev: "get_device_authorization_by_device_code dc (sv_db sb) = Some dev"
    and rest: "(case device_refusal now req dev of Some r \<Rightarrow> ret r | None \<Rightarrow> device_issue E now fr req c dc dev) sb = (Inr (Issued resp), s')"
    using assms by (auto simp: handle_device_code_grant_def result_simps)
  have ok: "device_refusal now req dev = None" using rest by (auto simp: device_refusal_def ret_def split: if_splits)
  obtain u s1 t s2 s3 where u: "da_user_id dev = Some u" and m: "send_materialize E now c sb = (Inr (), s1)"
    and k: "send_create E now fr (rq_client_id req) (device_msg E c req dev u) s1 = (Inr t, s2)"
    and mk: "send_mark_device_used dc s2 = (Inr (), s3)"
    and w: "with_id_token E now (da_scope dev) u (rq_client_id req) None None t (token_response_from t) s3 = (Inr resp, s')"
    using rest by (auto simp: ok device_issue_def result_simps)
  have "sv_db s' = snd (mark_device_authorization_used dc (sv_db s2))"
    using mk with_id_token_ok(1) [OF w] by (auto simp: send_mark_device_used_def split: prod.splits)
  moreover have "client_evidence E now c req mt (sv_jti s)" if "cl_client_id c \<noteq> []"
    using authenticate_ok(1) [OF a that] resolve_jti [OF r] by simp
  ultimately show ?thesis
    using dc p ok u k dev materialize_keeps(3) [OF m] with_id_token_ok(2) [OF w]
      authenticate_keeps(1) [OF a] resolve_keeps(1) [OF r]
    by (intro that [of dc c dev u s1 t s2]) auto
qed

text \<open>The device grant is sound: a token is issued only for a device code that the user approved and did
  not deny, that is unused, unexpired and bound to the requesting, authenticated client; the
  token belongs to the approving user and carries the approved scope, the code is used
  afterwards, and an immediate second poll with it is refused.\<close>
theorem device_grant_sound:
  assumes "handle_device_code_grant E now fr req mt s = (Inr (Issued resp), s')"
  shows "\<exists>dc c dev u t. rq_device_code req = Some dc \<and> get_device_authorization_by_device_code dc (sv_db s) = Some dev \<and>
    da_approved dev \<and> \<not> da_denied dev \<and> \<not> da_used dev \<and> \<not> device_is_expired now dev \<and> da_client_id dev = rq_client_id req \<and>
    \<not> is_public c \<and> (cl_client_id c \<noteq> [] \<longrightarrow> client_evidence E now c req mt (sv_jti s)) \<and>
    da_user_id dev = Some u \<and> get_token_by_access_token (tr_access_token resp) (sv_db s') = Some t \<and> \<not> tk_revoked t \<and>
    tk_user_id t = Some u \<and> tk_client_id t = rq_client_id req \<and> tk_scope t = da_scope dev \<and>
    get_device_authorization_by_device_code dc (sv_db s') = Some (dev\<lparr>da_used := True\<rparr>) \<and>
    (\<forall>E2 now2 fr2 mt2 resp2 s2. handle_device_code_grant E2 now2 fr2 req mt2 s' \<noteq> (Inr (Issued resp2), s2))"
  using assms
proof (rule device_grant_parts)
  fix dc c dev u t s1 s2
  assume p: "rq_device_code req = Some dc" "\<not> is_public c" "cl_client_id c \<noteq> [] \<Longrightarrow> client_evidence E now c req mt (sv_jti s)"
    "get_device_authorization_by_device_code dc (sv_db s) = Some dev" "device_refusal now req dev = None"
    "da_user_id dev = Some u" "db_devices (sv_db s1) = db_devices (sv_db s)"
    "send_create E now fr (rq_client_id req) (device_msg E c req dev u) s1 = (Inr t, s2)"
    "sv_db s' = snd (mark_device_authorization_used dc (sv_db s2))" "tr_access_token resp = tk_access_token t"
  note k = send_create_ok [OF p(8)]
  have d2: "get_device_authorization_by_device_code dc (sv_db s2) = Some dev"
    using p(4,7) k(1) by (simp add: get_device_authorization_by_device_code_def)
  have used: "get_device_authorization_by_device_code dc (sv_db s') = Some (dev\<lparr>da_used := True\<rparr>)"
    unfolding p(9) mark_device_lookup d2 by simp
  have tok: "get_token_by_access_token (tk_access_token t) (sv_db s') = Some t"
    using k(4) by (simp add: p(9) get_token_by_access_token_def mark_device_authorization_used_def)
  have again: "handle_device_code_grant E2 now2 fr2 req mt2 s' \<noteq> (Inr (Issued resp2), s3)" for E2 now2 fr2 mt2 resp2 s3
  proof
    assume "handle_device_code_grant E2 now2 fr2 req mt2 s' = (Inr (Issued resp2), s3)"
    then show False by (rule device_grant_parts) (use p(1) used in \<open>auto simp: device_refusal_none\<close>)
  qed
  show ?thesis
    using p(1-6,10) k(5-8) used tok again
    by (intro exI [of _ dc] exI [of _ c] exI [of _ dev] exI [of _ u] exI [of _ t]) (simp add: device_refusal_none device_msg_def)
qed

end
