(* ===== verification/Metadata_Fetch.thy ===== *)
theory Metadata_Fetch
  imports Grant_Laws
begin

text \<open>
  The fetcher of client-id metadata documents (\<open>handlers/cimd.rs\<close>): host lists, the refusal of
  special-use addresses, the bounded read of the body, the checks on the document and the cache of
  clients.  Name resolution, the HTTP exchange and JSON parsing are parameters; the text of a JSON
  error is not modelled, and the cache lock is never poisoned.
\<close>

unbundle bit_operations_syntax

section \<open>Addresses\<close>

datatype ip_addr = V4 "32 word" | V6 "128 word"

definition octet :: "nat \<Rightarrow> 32 word \<Rightarrow> nat" where
  "octet i a = unat (drop_bit (24 - 8 * i) a) mod 256"

definition segment0 :: "128 word \<Rightarrow> 128 word" where
  "segment0 a = drop_bit 112 a"

text \<open>The classification of addresses in Rust's standard library.\<close>
definition v4_is_private :: "32 word \<Rightarrow> bool" where
  "v4_is_private a = (octet 0 a = 10 \<or> octet 0 a = 172 \<and> 16 \<le> octet 1 a \<and> octet 1 a \<le> 31 \<or> octet 0 a = 192 \<and> octet 1 a = 168)"

definition to_ipv4_mapped :: "128 word \<Rightarrow> 32 word option" where
  "to_ipv4_mapped a = (if drop_bit 32 a = 0xffff then Some (ucast a) else None)"

definition v4_special_use :: "32 word \<Rightarrow> bool \<Rightarrow> bool" where
  "v4_special_use a allow_loopback =
     (octet 0 a = 127 \<and> \<not> allow_loopback \<or> v4_is_private a \<or> octet 0 a = 169 \<and> octet 1 a = 254 \<or>
      224 \<le> octet 0 a \<and> octet 0 a \<le> 239 \<or> a = 0 \<or> octet 0 a = 0 \<or> octet 0 a = 100 \<and> 64 \<le> octet 1 a \<and> octet 1 a \<le> 127)"

fun is_special_use :: "ip_addr \<Rightarrow> bool \<Rightarrow> bool" where
  "is_special_use (V4 a) allow_loopback = v4_special_use a allow_loopback"
| "is_special_use (V6 a) allow_loopback =
     (case to_ipv4_mapped a of
        Some m \<Rightarrow> v4_special_use m allow_loopback
      | None \<Rightarrow>
          a = 1 \<and> \<not> allow_loopback \<or> segment0 a AND 0xff00 = 0xff00 \<or> a = 0 \<or>
          segment0 a AND 0xfe00 = 0xfc00 \<or> segment0 a AND 0xffc0 = 0xfe80)"

section \<open>Hosts\<close>

text \<open>A fetched client is cached with the instant at which it expires.\<close>
record metadata_fetcher =
  mf_allowed_hosts :: "string list"
  mf_denied_hosts :: "string list"
  mf_allow_loopback :: bool
  mf_cache :: "(string \<times> client \<times> instant) list"

definition normalize_host :: "string \<Rightarrow> string" where
  "normalize_host host = to_lowercase (rev (dropWhile (\<lambda>c. c = CHR ''.'') (rev host)))"

definition normalize_hosts :: "string list \<Rightarrow> string list" where
  "normalize_hosts hosts = map normalize_host hosts"

definition metadata_fetcher_new :: "string list \<Rightarrow> string list \<Rightarrow> metadata_fetcher" where
  "metadata_fetcher_new allowed denied =
     \<lparr>mf_allowed_hosts = normalize_hosts allowed, mf_denied_hosts = normalize_hosts denied, mf_allow_loopback = False, mf_cache = []\<rparr>"

definition check_host_lists :: "metadata_fetcher \<Rightarrow> string \<Rightarrow> unit result" where
  "check_host_lists F host =
     (if host \<in> set (mf_denied_hosts F) then Inl (invalid_client (''client_id host '' @ quoted host @ '' is denied''))
      else if mf_allowed_hosts F \<noteq> [] \<and> host \<notin> set (mf_allowed_hosts F)
        then Inl (invalid_client (''client_id host '' @ quoted host @ '' is not allowed''))
      else Inr ())"

section \<open>The network\<close>

datatype chunk_read = EndOfBody | ReadFailed | Chunk string

record fetch_response =
  fr_status :: nat
  fr_content_type :: "header_value option"
  fr_cache_control :: "header_value option"
  fr_content_length :: "nat option"
  fr_chunk :: "nat \<Rightarrow> chunk_read"

text \<open>\<open>fn_get host addrs url\<close> is the answer to a GET of \<open>url\<close> without redirects, with \<open>host\<close> pinned to
  \<open>addrs\<close>; \<open>fr_chunk i\<close> is what the \<open>i\<close>th read of the body gives.\<close>
record fetch_net =
  fn_lookup :: "string \<Rightarrow> nat \<Rightarrow> ip_addr list option"
  fn_get :: "string \<Rightarrow> ip_addr list \<Rightarrow> string \<Rightarrow> fetch_response option"
  fn_status_text :: "nat \<Rightarrow> string"

definition max_bytes :: nat where
  "max_bytes = 5120"

definition default_ttl_secs :: nat where
  "default_ttl_secs = 300"

definition max_ttl_secs :: nat where
  "max_ttl_secs = 3600"

definition cache_max_entries :: nat where
  "cache_max_entries = 1024"

definition fetch_failed :: oauth2_error where
  "fetch_failed = invalid_client ''client_id metadata could not be retrieved''"

definition too_large :: "string \<Rightarrow> oauth2_error" where
  "too_large client_id = invalid_client (''client_id '' @ quoted client_id @ '' metadata exceeds '' @ show_nat max_bytes @ '' bytes'')"

definition resolve_host :: "fetch_net \<Rightarrow> metadata_fetcher \<Rightarrow> string \<Rightarrow> nat \<Rightarrow> ip_addr list result" where
  "resolve_host N F host port =
     bindR (ok_or (fn_lookup N host port) fetch_failed) (\<lambda>addrs.
     if addrs = [] then Inl fetch_failed
     else if list_ex (\<lambda>a. is_special_use a (mf_allow_loopback F)) addrs
       then Inl (invalid_client (''client_id host '' @ quoted host @ '' resolves to a non-public address''))
     else Inr addrs)"

definition media_type :: "header_value option \<Rightarrow> string" where
  "media_type h = to_lowercase (trim (takeWhile (\<lambda>c. c \<noteq> CHR '';'') (unwrap_or (Option.bind h to_str) [])))"

definition check_content_type :: "fetch_response \<Rightarrow> string \<Rightarrow> unit result" where
  "check_content_type r client_id =
     (let mt = media_type (fr_content_type r) in
      if mt = ''application/json'' \<or> starts_with mt ''application/'' \<and> suffix ''+json'' mt then Inr ()
      else Inl (invalid_client (''client_id '' @ quoted client_id @ '' returned content-type '' @ quoted mt @ '', expected JSON'')))"

text \<open>\<open>str::parse::<u64>\<close>.\<close>
definition parse_u64 :: "string \<Rightarrow> nat option" where
  "parse_u64 s =
     (let ds = (case s of c # r \<Rightarrow> if c = CHR ''+'' then r else s | [] \<Rightarrow> s);
          n = foldl (\<lambda>acc c. 10 * acc + (of_char c - 48)) 0 ds :: nat in
      if ds \<noteq> [] \<and> list_all (\<lambda>c. 48 \<le> (of_char c :: nat) \<and> of_char c \<le> (57 :: nat)) ds \<and> n < 2 ^ 64 then Some n else None)"

definition parse_cache_control_max_age :: "header_value option \<Rightarrow> instant" where
  "parse_cache_control_max_age h =
     (let directive = Option.bind (Option.bind h to_str) (\<lambda>s. find (\<lambda>d. starts_with d ''max-age='') (map trim (split_char (CHR '','') s)));
          s = unwrap_or (Option.bind directive (\<lambda>d. parse_u64 (drop 8 d))) default_ttl_secs
      in secs (int (min s max_ttl_secs)))"

text \<open>The loop that reads the body; \<open>None\<close> if it never ends.\<close>
partial_function (option) read_body :: "string \<Rightarrow> (nat \<Rightarrow> chunk_read) \<Rightarrow> nat \<Rightarrow> string \<Rightarrow> string result option" where
  "read_body client_id peer i body =
     (case peer i of
        EndOfBody \<Rightarrow> Some (Inr body)
      | ReadFailed \<Rightarrow> Some (Inl fetch_failed)
      | Chunk c \<Rightarrow>
          if length body + length c > max_bytes then Some (Inl (too_large client_id))
          else read_body client_id peer (Suc i) (body @ c))"

declare read_body.simps [code]

definition fetch_head :: "fetch_net \<Rightarrow> string \<Rightarrow> ip_addr list \<Rightarrow> string \<Rightarrow> fetch_response result" where
  "fetch_head N host addrs client_id =
     bindR (ok_or (fn_get N host addrs client_id) fetch_failed) (\<lambda>r.
     bindR (ensure (fr_status r = 200)
              (invalid_client (''client_id '' @ quoted client_id @ '' returned HTTP '' @ fn_status_text N (fr_status r)))) (\<lambda>_.
     bindR (check_content_type r client_id) (\<lambda>_.
     bindR (ensure (\<not> (case fr_content_length r of Some n \<Rightarrow> n > max_bytes | None \<Rightarrow> False)) (too_large client_id)) (\<lambda>_.
       Inr r))))"

definition fetch_document :: "libs \<Rightarrow> fetch_net \<Rightarrow> string \<Rightarrow> ip_addr list \<Rightarrow> string \<Rightarrow> (json \<times> instant) result option" where
  "fetch_document L N host addrs client_id =
     (case fetch_head N host addrs client_id of
        Inl e \<Rightarrow> Some (Inl e)
      | Inr r \<Rightarrow>
          map_option (\<lambda>b. bindR b (\<lambda>body.
              bindR (ok_or (json_from_str L body) (invalid_client (''client_id '' @ quoted client_id @ '' returned invalid JSON: ''))) (\<lambda>doc.
                Inr (doc, parse_cache_control_max_age (fr_cache_control r)))))
            (read_body client_id (fr_chunk r) 0 []))"

section \<open>The document\<close>

definition default_grant_types :: "string list" where
  "default_grant_types = [''authorization_code'', ''refresh_token'']"

definition allowed_auth_methods :: "string list" where
  "allowed_auth_methods = [''none'', ''private_key_jwt'']"

definition string_array :: "json option \<Rightarrow> string list option" where
  "string_array v = Option.bind (Option.bind v as_array) json_strings"

definition optional_string :: "json option \<Rightarrow> string" where
  "optional_string v = unwrap_or (Option.bind v as_str) []"

definition describe_client :: "libs \<Rightarrow> instant \<Rightarrow> string \<Rightarrow> json \<Rightarrow> string \<Rightarrow> string \<Rightarrow> string list \<Rightarrow> string \<Rightarrow> client" where
  "describe_client L now uuid doc client_id host redirect_uris auth_method =
     (let grant_types = (case string_array (json_get doc ''grant_types'') of Some (g # gs) \<Rightarrow> g # gs | _ \<Rightarrow> default_grant_types);
          name = unwrap_or (nonempty (claim_str doc ''client_name'')) host;
          c = client_new L now uuid client_id [] redirect_uris grant_types (unwrap_or (claim_str doc ''scope'') []) name in
      c\<lparr>cl_token_endpoint_auth_method := auth_method,
        cl_jwks := (case json_get doc ''jwks'' of Some v \<Rightarrow> json_to_string L v | None \<Rightarrow> []),
        cl_jwks_uri := optional_string (json_get doc ''jwks_uri''), cl_client_uri := optional_string (json_get doc ''client_uri''),
        cl_logo_uri := optional_string (json_get doc ''logo_uri''),
        cl_response_types := (case string_array (json_get doc ''response_types'') of
                                Some (r # rs) \<Rightarrow> strings_to_json L (r # rs) | _ \<Rightarrow> cl_response_types c)\<rparr>)"

definition document_to_client :: "libs \<Rightarrow> instant \<Rightarrow> string \<Rightarrow> json \<Rightarrow> string \<Rightarrow> string \<Rightarrow> client result" where
  "document_to_client L now uuid doc client_id host =
     bindR (ok_or (as_object doc) (invalid_client ''client metadata is not a JSON object'')) (\<lambda>_.
     bindR (ok_or (claim_str doc ''client_id'') (invalid_client (''client metadata has no '' @ quoted ''client_id'' @ '' string''))) (\<lambda>declared.
     bindR (ensure (declared = client_id)
              (invalid_client (''client metadata '' @ quoted ''client_id'' @ '' does not match the requested URL''))) (\<lambda>_.
     bindR (ensure (json_get doc ''client_secret'' = None)
              (invalid_client (''client metadata must not contain '' @ quoted ''client_secret''))) (\<lambda>_.
     bindR (ok_or (string_array (json_get doc ''redirect_uris''))
              (invalid_client (''client metadata '' @ quoted ''redirect_uris'' @ '' must be an array of strings''))) (\<lambda>redirect_uris.
     bindR (ensure (redirect_uris \<noteq> []) (invalid_client (''client metadata '' @ quoted ''redirect_uris'' @ '' must not be empty''))) (\<lambda>_.
     let auth_method = unwrap_or (claim_str doc ''token_endpoint_auth_method'') ''none'' in
     bindR (ensure (auth_method \<in> set allowed_auth_methods)
              (invalid_client (''client metadata '' @ quoted ''token_endpoint_auth_method'' @ '' '' @ quoted auth_method @
                 '' is not supported for client ID metadata documents''))) (\<lambda>_.
       Inr (describe_client L now uuid doc client_id host redirect_uris auth_method))))))))"

section \<open>Resolution\<close>

definition metadata_cached :: "instant \<Rightarrow> string \<Rightarrow> metadata_fetcher \<Rightarrow> client option \<times> metadata_fetcher" where
  "metadata_cached now client_id F =
     (case lru_get client_id (mf_cache F) of
        (Some (c, expires_at), cache) \<Rightarrow>
          if now < expires_at then (Some c, F\<lparr>mf_cache := cache\<rparr>) else (None, F\<lparr>mf_cache := lru_pop client_id cache\<rparr>)
      | (None, cache) \<Rightarrow> (None, F\<lparr>mf_cache := cache\<rparr>))"

definition metadata_store :: "instant \<Rightarrow> string \<Rightarrow> client \<Rightarrow> instant \<Rightarrow> metadata_fetcher \<Rightarrow> metadata_fetcher" where
  "metadata_store now client_id c ttl F = F\<lparr>mf_cache := lru_put cache_max_entries client_id (c, now + ttl) (mf_cache F)\<rparr>"

definition port_or_default :: "url \<Rightarrow> nat" where
  "port_or_default u = (case url_port u of Some p \<Rightarrow> p | None \<Rightarrow> if url_scheme u = ''http'' then 80 else 443)"

definition vetted_host :: "libs \<Rightarrow> metadata_fetcher \<Rightarrow> string \<Rightarrow> (url \<times> string \<times> string) result" where
  "vetted_host L F client_id =
     bindR (validate_client_id_url L client_id (mf_allow_loopback F)) (\<lambda>url.
     bindR (ok_or (url_host url) (invalid_client ''client_id URL has no host'')) (\<lambda>raw_host.
     let host = normalize_host raw_host in
     bindR (ensure (host \<noteq> []) (invalid_client ''client_id URL has no host'')) (\<lambda>_.
     bindR (check_host_lists F host) (\<lambda>_. Inr (url, raw_host, host)))))"

definition fetch_client :: "libs \<Rightarrow> fetch_net \<Rightarrow> instant \<Rightarrow> string \<Rightarrow> metadata_fetcher \<Rightarrow> url \<Rightarrow> string \<Rightarrow> string \<Rightarrow> string \<Rightarrow>
   (client \<times> instant) result option" where
  "fetch_client L N now uuid F url raw_host host client_id =
     (case resolve_host N F host (port_or_default url) of
        Inl e \<Rightarrow> Some (Inl e)
      | Inr addrs \<Rightarrow>
          map_option (\<lambda>f. bindR f (\<lambda>(doc, ttl). bindR (document_to_client L now uuid doc client_id host) (\<lambda>c. Inr (c, ttl))))
            (fetch_document L N raw_host addrs client_id))"

text \<open>\<open>None\<close> if the fetch never ends.\<close>
definition metadata_resolve ::
  "libs \<Rightarrow> fetch_net \<Rightarrow> instant \<Rightarrow> string \<Rightarrow> string \<Rightarrow> metadata_fetcher \<Rightarrow> (client result \<times> metadata_fetcher) option" where
  "metadata_resolve L N now uuid client_id F =
     (case vetted_host L F client_id of
        Inl e \<Rightarrow> Some (Inl e, F)
      | Inr (url, raw_host, host) \<Rightarrow>
          (case metadata_cached now client_id F of
             (Some c, F1) \<Rightarrow> Some (Inr c, F1)
           | (None, F1) \<Rightarrow>
               (case fetch_client L N now uuid F1 url raw_host host client_id of
                  None \<Rightarrow> None
                | Some (Inl e) \<Rightarrow> Some (Inl e, F1)
                | Some (Inr (c, ttl)) \<Rightarrow> Some (Inr c, metadata_store now client_id c ttl F1))))"

end
