(* ===== verification/Metadata_Laws.thy ===== *)
theory Metadata_Laws
  imports Metadata_Fetch
begin

text \<open>
  What the metadata fetcher guarantees.  Its address filter is a table of CIDR blocks; reading a body
  ends and stays within its bound; every client it hands out was described by its own URL, fetched
  from public addresses no more than an hour ago, and holds no secret; and the resolver that builds on
  it confines such clients further.
\<close>

unbundle bit_operations_syntax

section \<open>The address filter\<close>

text \<open>The blocks the filter stands for, as network and prefix length.\<close>
definition in_block4 :: "32 word \<Rightarrow> 32 word \<times> nat \<Rightarrow> bool" where
  "in_block4 a = (\<lambda>(net, n). drop_bit (32 - n) a = drop_bit (32 - n) net)"

definition in_block6 :: "128 word \<Rightarrow> 128 word \<times> nat \<Rightarrow> bool" where
  "in_block6 a = (\<lambda>(net, n). drop_bit (128 - n) a = drop_bit (128 - n) net)"

definition blocks4 :: "(32 word \<times> nat) list" where
  "blocks4 = [(0x00000000, 8), (0x0a000000, 8), (0x64400000, 10), (0x7f000000, 8), (0xa9fe0000, 16), (0xac100000, 12),
     (0xc0a80000, 16), (0xe0000000, 4)]"

definition blocks6 :: "(128 word \<times> nat) list" where
  "blocks6 = [(0, 128), (1, 128), (0xfc000000000000000000000000000000, 7), (0xfe800000000000000000000000000000, 10),
     (0xff000000000000000000000000000000, 8)]"

fun refused_address :: "ip_addr \<Rightarrow> bool" where
  "refused_address (V4 a) = list_ex (in_block4 a) blocks4"
| "refused_address (V6 a) =
     (if in_block6 a (0xffff00000000, 96) then list_ex (in_block4 (ucast a)) blocks4 else list_ex (in_block6 a) blocks6)"

lemma unat_drop32: "unat (drop_bit n (a :: 32 word)) = unat a div 2 ^ n"
proof -
  have "unat a < 2 ^ 32" using unsigned_less [of a] by simp
  then have "take_bit 32 (unat a) = unat a" by (rule take_bit_nat_eq_self)
  then show ?thesis by (simp only: unsigned_drop_bit_eq) (simp add: drop_bit_eq_div)
qed

lemma drop32_eq: "drop_bit n a = b \<longleftrightarrow> unat a div 2 ^ n = unat b" for a b :: "32 word"
  using unat_drop32 [of n a] by (metis unsigned_word_eqI)

lemma div_eq_window: "m div n = q \<longleftrightarrow> n * q \<le> m \<and> m < n * q + n" if "0 < n" for m n q :: nat
  using that div_nat_eqI [of n q m] times_div_less_eq_dividend [of n m] dividend_less_times_div [of n m] by auto

lemma v4_blocks: "v4_special_use a False \<longleftrightarrow> list_ex (in_block4 a) blocks4"
proof -
  have u: "unat a < 4294967296" using unsigned_less [of a] by simp
  define x where "x = unat a div 65536"
  have o: "octet 0 a = x div 256" "octet (Suc 0) a = x mod 256"
    using u by (simp_all add: octet_def unat_drop32 x_def div_mult2_eq [symmetric])
  have d: "unat a div 16777216 = x div 256" "unat a div 4194304 = x div 64" "unat a div 1048576 = x div 16"
    "unat a div 65536 = x" "unat a div 268435456 = x div 4096"
    by (simp_all add: x_def div_mult2_eq [symmetric])
  have z: "a = 0 \<Longrightarrow> x div 256 = 0" by (simp add: x_def)
  define q t where "q = x div 256" and "t = x mod 256"
  have x: "x = 256 * q + t" "t < 256" by (simp_all add: q_def t_def)
  have w: "q = c \<and> lo \<le> t \<and> t \<le> hi \<longleftrightarrow> 256 * c + lo \<le> x \<and> x \<le> 256 * c + hi" if "hi < 256" for c lo hi
    using x that by (cases q c rule: linorder_cases) auto
  have r: "q = 172 \<and> 16 \<le> t \<and> t \<le> 31 \<longleftrightarrow> x div 16 = 2753" using w [of 31 172 16] by (auto simp: div_eq_window)
  have r2: "q = 192 \<and> t = 168 \<longleftrightarrow> x = 49320" using w [of 168 192 168] by auto
  have r3: "q = 169 \<and> t = 254 \<longleftrightarrow> x = 43518" using w [of 254 169 254] by auto
  have r4: "224 \<le> q \<and> q \<le> 239 \<longleftrightarrow> x div 4096 = 14" using x by (auto simp: div_eq_window)
  have r5: "q = 100 \<and> 64 \<le> t \<and> t \<le> 127 \<longleftrightarrow> x div 64 = 401" using w [of 127 100 64] by (auto simp: div_eq_window)
  show ?thesis
    using z by (simp add: v4_special_use_def v4_is_private_def o q_def [symmetric] t_def [symmetric] r r2 r3 r4 r5 blocks4_def in_block4_def drop32_eq d) blast
qed

text \<open>Masking the top bits of a segment is a comparison of prefixes.\<close>
lemma mask_prefix:
  fixes a :: "128 word"
  shows "segment0 a AND 0xff00 = 0xff00 \<longleftrightarrow> drop_bit 120 a = 0xff"
    and "segment0 a AND 0xfe00 = 0xfc00 \<longleftrightarrow> drop_bit 121 a = 0x7e"
    and "segment0 a AND 0xffc0 = 0xfe80 \<longleftrightarrow> drop_bit 118 a = 0x3fa"
proof -
  have c: "segment0 a AND push_bit k (mask (16 - k)) = push_bit k b \<longleftrightarrow> drop_bit (112 + k) a = b"
    if "k \<le> 16" "take_bit (16 - k) b = b" for k and b :: "128 word"
  proof -
    have "segment0 a AND push_bit k (mask (16 - k)) = push_bit k (drop_bit (112 + k) a)"
      using that(1) by (intro bit_word_eqI) (use bit_imp_le_length [of a "112 + n" for n] in \<open>fastforce simp: segment0_def bit_simps\<close>)
    moreover have "drop_bit (112 + k) a = b" if e: "push_bit k (drop_bit (112 + k) a) = push_bit k b"
    proof (rule bit_word_eqI)
      fix n assume "n < LENGTH(128)"
      have z: "\<not> bit b n" if "\<not> n < 16 - k" using \<open>take_bit (16 - k) b = b\<close> that by (metis bit_take_bit_iff)
      have y: "\<not> bit (drop_bit (112 + k) a) n" if "\<not> n < 16 - k"
        using that \<open>k \<le> 16\<close> by (auto simp: bit_simps dest!: bit_imp_le_length)
      show "bit (drop_bit (112 + k) a) n = bit b n"
      proof (cases "n < 16 - k")
        case True
        then have "n + k < 128" by simp
        then show ?thesis using arg_cong [OF e, of "\<lambda>w. bit w (n + k)"] by (simp add: bit_push_bit_iff)
      qed (use y z in blast)
    qed
    ultimately show ?thesis by auto
  qed
  show "segment0 a AND 0xff00 = 0xff00 \<longleftrightarrow> drop_bit 120 a = 0xff" using c [of 8 "0xff"] by (simp add: push_bit_eq_mult mask_eq_exp_minus_1 take_bit_eq_mod)
  show "segment0 a AND 0xfe00 = 0xfc00 \<longleftrightarrow> drop_bit 121 a = 0x7e" using c [of 9 "0x7e"] by (simp add: push_bit_eq_mult mask_eq_exp_minus_1)
  show "segment0 a AND 0xffc0 = 0xfe80 \<longleftrightarrow> drop_bit 118 a = 0x3fa" using c [of 6 "0x3fa"] by (simp add: push_bit_eq_mult mask_eq_exp_minus_1)
qed

lemma special_use_cidr: "is_special_use ip False \<longleftrightarrow> refused_address ip"
proof (cases ip)
  case (V6 a)
  have m: "in_block6 a (0xffff00000000, 96) \<longleftrightarrow> drop_bit 32 a = 0xffff"
    by (simp add: in_block6_def)
  have b: "list_ex (in_block6 a) blocks6 \<longleftrightarrow>
      a = 0 \<or> a = 1 \<or> drop_bit 121 a = 0x7e \<or> drop_bit 118 a = 0x3fa \<or> drop_bit 120 a = 0xff"
    by (simp add: blocks6_def in_block6_def)
  show ?thesis
    unfolding V6 refused_address.simps is_special_use.simps to_ipv4_mapped_def m b mask_prefix
    by (auto simp: v4_blocks)
qed (simp add: v4_blocks)

text \<open>C33. The address filter is exactly a table of CIDR blocks: for IPv4 this network, private use, carrier-grade
  NAT, loopback, link-local and multicast; for IPv6 the unspecified and loopback addresses, unique
  local, link-local and multicast; IPv4-mapped addresses under the IPv4 table.\<close>
theorem special_use_is_cidr: "is_special_use ip False \<longleftrightarrow> refused_address ip"
  by (rule special_use_cidr)

text \<open>Addresses that translate to private IPv4 hosts, and the broadcast address, pass the filter.\<close>
lemma translated_addresses_pass:
  "\<not> is_special_use (V6 0x0064ff9b00000000000000000a000001) False"
  "\<not> is_special_use (V6 0x20020a00000100000000000000000001) False"
  "\<not> is_special_use (V4 0xffffffff) False"
  by (simp_all add: special_use_cidr blocks4_def blocks6_def in_block4_def in_block6_def)

section \<open>Reading the body\<close>

lemma read_body_returns:
  assumes "\<And>i c. peer i = Chunk c \<Longrightarrow> c \<noteq> []"
  shows "length body \<le> max_bytes \<Longrightarrow> \<exists>r. read_body client_id peer i body = Some r"
proof (induction "max_bytes - length body" arbitrary: i body rule: less_induct)
  case less
  show ?case
  proof (cases "peer i")
    case (Chunk c)
    have "c \<noteq> []" using assms Chunk by blast
    then have "0 < length c" by simp
    then have "max_bytes - length (body @ c) < max_bytes - length body" if "\<not> length body + length c > max_bytes"
      using that \<open>0 < length c\<close> unfolding length_append by linarith
    then show ?thesis using less.hyps [of "body @ c" "Suc i"] Chunk
      by (cases "length body + length c > max_bytes") (auto simp: read_body.simps [of _ _ i])
  qed (simp_all add: read_body.simps [of _ _ i])
qed

lemma read_body_bytes:
  assumes "read_body client_id peer i body = Some (Inr b)" "length body \<le> max_bytes"
  shows "length b \<le> max_bytes \<and> (\<exists>cs. peer (i + length cs) = EndOfBody \<and> (\<forall>k<length cs. peer (i + k) = Chunk (cs ! k)) \<and> b = body @ concat cs)"
proof -
  have "r = Inr b \<longrightarrow> length body \<le> max_bytes \<longrightarrow> length b \<le> max_bytes \<and>
      (\<exists>cs. peer (i + length cs) = EndOfBody \<and> (\<forall>k<length cs. peer (i + k) = Chunk (cs ! k)) \<and> b = body @ concat cs)"
    if h: "read_body client_id peer i body = Some r" for r
  proof (rule read_body.raw_induct [OF _ h])
    fix rb :: "string \<Rightarrow> (nat \<Rightarrow> chunk_read) \<Rightarrow> nat \<Rightarrow> string \<Rightarrow> string result option" and client_id peer i body and r :: "string result"
    assume step: "\<And>client_id peer i body r. rb client_id peer i body = Some r \<Longrightarrow> r = Inr b \<longrightarrow> length body \<le> max_bytes \<longrightarrow>
        length b \<le> max_bytes \<and> (\<exists>cs. peer (i + length cs) = EndOfBody \<and> (\<forall>k<length cs. peer (i + k) = Chunk (cs ! k)) \<and> b = body @ concat cs)"
      "(case peer i of EndOfBody \<Rightarrow> Some (Inr body) | ReadFailed \<Rightarrow> Some (Inl fetch_failed)
        | Chunk c \<Rightarrow> if length body + length c > max_bytes then Some (Inl (too_large client_id)) else rb client_id peer (Suc i) (body @ c)) = Some r"
    show "r = Inr b \<longrightarrow> length body \<le> max_bytes \<longrightarrow> length b \<le> max_bytes \<and>
        (\<exists>cs. peer (i + length cs) = EndOfBody \<and> (\<forall>k<length cs. peer (i + k) = Chunk (cs ! k)) \<and> b = body @ concat cs)"
    proof (cases "peer i")
      case EndOfBody
      then show ?thesis using step(2) by (auto intro!: exI [of _ "[]"])
    next
      case (Chunk c)
      show ?thesis
      proof (intro impI)
        assume r: "r = Inr b" and "length body \<le> max_bytes"
        with step(2) Chunk have l: "length (body @ c) \<le> max_bytes" and "rb client_id peer (Suc i) (body @ c) = Some r"
          by (auto split: if_splits)
        with step(1) r obtain cs where "length b \<le> max_bytes" "peer (Suc i + length cs) = EndOfBody"
          "\<forall>k<length cs. peer (Suc i + k) = Chunk (cs ! k)" "b = (body @ c) @ concat cs" by blast
        then show "length b \<le> max_bytes \<and> (\<exists>cs. peer (i + length cs) = EndOfBody \<and>
            (\<forall>k<length cs. peer (i + k) = Chunk (cs ! k)) \<and> b = body @ concat cs)"
          using Chunk by (intro conjI exI [of _ "c # cs"]) (auto simp: nth_Cons split: nat.splits)
      qed
    qed (use step(2) in auto)
  qed
  then show ?thesis using assms by blast
qed

lemma fetch_client_returns:
  assumes "\<And>h as u r i c. fn_get N h as u = Some r \<Longrightarrow> fr_chunk r i = Chunk c \<Longrightarrow> c \<noteq> []"
  shows "\<exists>x. fetch_client L N now uuid F url raw_host host client_id = Some x"
proof -
  have "\<exists>x. fetch_document L N raw_host addrs client_id = Some x" for addrs
  proof (cases "fetch_head N raw_host addrs client_id")
    case (Inr r)
    then obtain s where "fn_get N raw_host addrs client_id = Some s" "r = s"
      by (auto simp: fetch_head_def result_simps)
    then obtain b where "read_body client_id (fr_chunk r) 0 [] = Some b"
      using read_body_returns [of "fr_chunk r" "[]" client_id 0] assms by auto
    then show ?thesis by (simp add: fetch_document_def Inr)
  qed (simp add: fetch_document_def)
  then show ?thesis
    by (cases "resolve_host N F host (port_or_default url)") (auto simp: fetch_client_def)
qed

text \<open>C32. Fetching ends, whatever the other side sends.  As long as every piece of a body carries at least one
  byte, a resolution returns, even against a server whose body never ends; and a body that is
  accepted is the concatenation of the pieces sent and has at most 5120 bytes.\<close>
theorem metadata_fetch_ends:
  assumes "\<And>h as u r i c. fn_get N h as u = Some r \<Longrightarrow> fr_chunk r i = Chunk c \<Longrightarrow> c \<noteq> []"
  shows "(\<exists>r F'. metadata_resolve L N now uuid client_id F = Some (r, F')) \<and>
    (\<forall>peer b. read_body client_id peer 0 [] = Some (Inr b) \<longrightarrow>
       length b \<le> 5120 \<and> (\<exists>cs. peer (length cs) = EndOfBody \<and> map peer [0..<length cs] = map Chunk cs \<and> b = concat cs))"
proof (intro conjI allI impI)
  show "\<exists>r F'. metadata_resolve L N now uuid client_id F = Some (r, F')"
  proof (cases "vetted_host L F client_id")
    case (Inr v)
    obtain url raw_host host where v: "v = (url, raw_host, host)" by (metis prod_cases3)
    obtain c F1 where c: "metadata_cached now client_id F = (c, F1)" by (metis surj_pair)
    obtain x where "fetch_client L N now uuid F1 url raw_host host client_id = Some x"
      using fetch_client_returns [of N L now uuid F1 url raw_host host client_id] assms by blast
    then show ?thesis by (simp add: metadata_resolve_def Inr v c split: option.split sum.split prod.split)
  qed (simp add: metadata_resolve_def)
next
  fix peer b assume "read_body client_id peer 0 [] = Some (Inr b)"
  from read_body_bytes [OF this] obtain cs where "length b \<le> max_bytes" "peer (length cs) = EndOfBody"
    "\<forall>k<length cs. peer k = Chunk (cs ! k)" "b = concat cs" by auto
  then show "length b \<le> 5120" "\<exists>cs. peer (length cs) = EndOfBody \<and> map peer [0..<length cs] = map Chunk cs \<and> b = concat cs"
    by (auto simp: max_bytes_def intro!: exI [of _ cs] nth_equalityI)
qed

section \<open>Which clients are handed out\<close>

text \<open>What a metadata document can say of the client at \<open>u\<close>.\<close>
definition metadata_client :: "libs \<Rightarrow> string \<Rightarrow> client \<Rightarrow> bool" where
  "metadata_client L u c =
     (cl_client_id c = u \<and> cl_client_secret c = [] \<and> cl_token_endpoint_auth_method c \<in> {''none'', ''private_key_jwt''} \<and>
      cl_registration_access_token c = [] \<and> (\<exists>uris. uris \<noteq> [] \<and> cl_redirect_uris c = strings_to_json L uris))"

text \<open>The lists admit the host of \<open>u\<close>.\<close>
definition host_admitted :: "libs \<Rightarrow> metadata_fetcher \<Rightarrow> string \<Rightarrow> bool" where
  "host_admitted L F u =
     (\<exists>url raw. validate_client_id_url L u (mf_allow_loopback F) = Inr url \<and> url_host url = Some raw \<and>
        normalize_host raw \<notin> set (mf_denied_hosts F) \<and> (mf_allowed_hosts F = [] \<or> normalize_host raw \<in> set (mf_allowed_hosts F)))"

text \<open>The document was fetched from \<open>u\<close> with the connection pinned to addresses that are all public.\<close>
definition fetched_safely :: "libs \<Rightarrow> fetch_net \<Rightarrow> metadata_fetcher \<Rightarrow> string \<Rightarrow> bool" where
  "fetched_safely L N F u =
     (\<exists>url raw addrs resp. validate_client_id_url L u (mf_allow_loopback F) = Inr url \<and> url_host url = Some raw \<and>
        fn_lookup N (normalize_host raw) (port_or_default url) = Some addrs \<and> addrs \<noteq> [] \<and>
        (\<forall>a\<in>set addrs. \<not> is_special_use a (mf_allow_loopback F)) \<and> fn_get N raw addrs u = Some resp \<and> fr_status resp = 200)"

lemma vetted_host_ok:
  assumes "vetted_host L F u = Inr (url, raw, host)"
  shows "validate_client_id_url L u (mf_allow_loopback F) = Inr url" "url_host url = Some raw" "host = normalize_host raw" "host_admitted L F u"
  using assms
  by (auto simp: vetted_host_def result_simps Let_def host_admitted_def check_host_lists_def ensure_def ok_or_def
      split: if_splits option.splits)

lemma document_client:
  assumes "document_to_client L now uuid doc u host = Inr c"
  shows "metadata_client L u c"
proof -
  from assms obtain uris am where "uris \<noteq> []" "am \<in> set allowed_auth_methods" "c = describe_client L now uuid doc u host uris am"
    by (auto simp: document_to_client_def result_simps Let_def)
  then show ?thesis
    by (auto simp: metadata_client_def describe_client_def client_new_def Let_def allowed_auth_methods_def)
qed

lemma fetch_client_ok:
  assumes "fetch_client L N now uuid F url raw host u = Some (Inr (c, ttl))"
  shows "metadata_client L u c" "ttl \<le> secs 3600"
    "\<exists>addrs resp. fn_lookup N host (port_or_default url) = Some addrs \<and> addrs \<noteq> [] \<and>
       (\<forall>a\<in>set addrs. \<not> is_special_use a (mf_allow_loopback F)) \<and> fn_get N raw addrs u = Some resp \<and> fr_status resp = 200"
proof -
  from assms obtain addrs where a: "resolve_host N F host (port_or_default url) = Inr addrs"
    by (cases "resolve_host N F host (port_or_default url)") (auto simp: fetch_client_def)
  with assms obtain doc where d: "fetch_document L N raw addrs u = Some (Inr (doc, ttl))" "document_to_client L now uuid doc u host = Inr c"
    by (auto simp: fetch_client_def result_simps)
  then obtain r where r: "fetch_head N raw addrs u = Inr r" "ttl = parse_cache_control_max_age (fr_cache_control r)"
    by (auto simp: fetch_document_def result_simps split: sum.splits)
  show "metadata_client L u c" using d(2) by (rule document_client)
  show "ttl \<le> secs 3600" by (simp add: r(2) parse_cache_control_max_age_def Let_def max_ttl_secs_def secs_def)
  show "\<exists>addrs resp. fn_lookup N host (port_or_default url) = Some addrs \<and> addrs \<noteq> [] \<and>
       (\<forall>a\<in>set addrs. \<not> is_special_use a (mf_allow_loopback F)) \<and> fn_get N raw addrs u = Some resp \<and> fr_status resp = 200"
    using a r(1) by (auto simp: resolve_host_def fetch_head_def result_simps list_ex_iff split: if_splits)
qed

text \<open>The cache holds what was fetched (the history), under its URL and for at most an hour.\<close>
definition cache_logged :: "libs \<Rightarrow> (string \<times> client \<times> instant) set \<Rightarrow> metadata_fetcher \<Rightarrow> bool" where
  "cache_logged L hist F =
     (length (mf_cache F) \<le> cache_max_entries \<and>
      (\<forall>(u, c, e)\<in>set (mf_cache F). metadata_client L u c \<and> (\<exists>t. (u, c, t) \<in> hist \<and> e \<le> t + secs 3600)))"

lemma lru_get_hit: "lru_get u xs = (Some v, ys) \<Longrightarrow> (u, v) \<in> set xs \<and> ys = (u, v) # lru_pop u xs"
  by (auto simp: lru_get_def map_of_SomeD split: option.splits)

lemma cache_logged_pop: "cache_logged L hist F \<Longrightarrow> cache_logged L hist (F\<lparr>mf_cache := lru_pop u (mf_cache F)\<rparr>)"
  by (auto simp: cache_logged_def lru_pop_def intro: order_trans [OF length_filter_le])

lemma cache_logged_hit:
  assumes "cache_logged L hist F" "(u, v) \<in> set (mf_cache F)"
  shows "cache_logged L hist (F\<lparr>mf_cache := (u, v) # lru_pop u (mf_cache F)\<rparr>)"
proof -
  have "length (lru_pop u (mf_cache F)) < length (mf_cache F)"
    unfolding lru_pop_def by (rule length_filter_less [OF assms(2)]) simp
  then show ?thesis using assms cache_logged_pop [OF assms(1), of u] by (auto simp: cache_logged_def)
qed

lemma metadata_cached_ok:
  assumes "metadata_cached now u F = (x, F')" "cache_logged L hist F"
  shows "cache_logged L hist F' \<and> F' = F\<lparr>mf_cache := mf_cache F'\<rparr> \<and>
    (\<forall>c. x = Some c \<longrightarrow> metadata_client L u c \<and> (\<exists>t. (u, c, t) \<in> hist \<and> now < t + secs 3600))"
proof (cases "lru_get u (mf_cache F)")
  case (Pair y cache)
  show ?thesis
  proof (cases y)
    case None
    then have "cache = mf_cache F" using Pair by (auto simp: lru_get_def split: option.splits)
    then show ?thesis using None Pair assms by (auto simp: metadata_cached_def)
  next
    case (Some v)
    obtain c e where v: "v = (c, e)" by (cases v)
    note h = lru_get_hit [OF Pair [unfolded Some v]]
    have k: "lru_pop u cache = lru_pop u (mf_cache F)" using h by (simp add: lru_pop_def)
    from h assms(2) have m: "metadata_client L u c" "\<exists>t. (u, c, t) \<in> hist \<and> e \<le> t + secs 3600" by (auto simp: cache_logged_def)
    show ?thesis
      using assms Some v Pair k m h cache_logged_pop [OF assms(2), of u] cache_logged_hit [OF assms(2), of u "(c, e)"]
      by (auto simp: metadata_cached_def split: if_splits)
  qed
qed

lemma metadata_resolve_step:
  assumes "metadata_resolve L N now uuid u F = Some (r, F')" "cache_logged L hist F"
  shows "F' = F\<lparr>mf_cache := mf_cache F'\<rparr> \<and>
    (case r of
       Inl _ \<Rightarrow> cache_logged L hist F'
     | Inr c \<Rightarrow> metadata_client L u c \<and> host_admitted L F u \<and>
         (cache_logged L hist F' \<and> (\<exists>t. (u, c, t) \<in> hist \<and> now < t + secs 3600) \<or>
          fetched_safely L N F u \<and> cache_logged L (insert (u, c, now) hist) F'))"
proof (cases "vetted_host L F u")
  case (Inr v)
  obtain url raw host where v: "vetted_host L F u = Inr (url, raw, host)" using Inr by (cases v) auto
  note hv = vetted_host_ok [OF v]
  obtain x F1 where c: "metadata_cached now u F = (x, F1)" by (metis surj_pair)
  note hc = metadata_cached_ok [OF c assms(2)]
  obtain m where m: "F1 = F\<lparr>mf_cache := m\<rparr>" using hc by metis
  then have F1: "mf_allow_loopback F1 = mf_allow_loopback F" by simp
  show ?thesis
  proof (cases x)
    case (Some c0)
    then show ?thesis using assms(1) v c hc hv by (auto simp: metadata_resolve_def)
  next
    case None
    obtain y where f: "fetch_client L N now uuid F1 url raw host u = Some y"
      using assms(1) v c None by (auto simp: metadata_resolve_def split: option.splits)
    show ?thesis
    proof (cases y)
      case (Inl e)
      then show ?thesis using assms(1) v c None f hc by (auto simp: metadata_resolve_def)
    next
      case (Inr p)
      obtain c0 ttl where p: "p = (c0, ttl)" by (cases p)
      note hf = fetch_client_ok [OF f [unfolded Inr p]]
      have r: "r = Inr c0" "F' = metadata_store now u c0 ttl F1" using assms(1) v c None f Inr p by (auto simp: metadata_resolve_def)
      have s: "fetched_safely L N F u" using hf(3) hv(1-3) unfolding fetched_safely_def F1 by blast
      have l: "length (lru_put cache_max_entries u (c0, now + ttl) (mf_cache F1)) \<le> cache_max_entries" by (simp add: lru_put_def)
      have "metadata_client L u' c' \<and> (\<exists>t. (u', c', t) \<in> insert (u, c0, now) hist \<and> e \<le> t + secs 3600)"
        if m: "(u', c', e) \<in> set (lru_put cache_max_entries u (c0, now + ttl) (mf_cache F1))" for u' c' e
      proof -
        consider "u' = u" "c' = c0" "e = now + ttl" | "(u', c', e) \<in> set (mf_cache F1)"
          using in_set_takeD [OF m [unfolded lru_put_def]] by (auto simp: lru_pop_def)
        then show ?thesis
        proof cases
          case 1
          then show ?thesis using hf(1,2) by auto
        next
          case 2
          then show ?thesis using hc unfolding cache_logged_def by fastforce
        qed
      qed
      then have "cache_logged L (insert (u, c0, now) hist) F'" using l by (auto simp: cache_logged_def r metadata_store_def)
      then show ?thesis using r hf(1) s hv(4) by (simp add: metadata_store_def m)
    qed
  qed
qed (use assms in \<open>auto simp: metadata_resolve_def\<close>)

text \<open>A history of resolutions over networks that may change; the history records what was fetched.\<close>
inductive fetcher_run :: "libs \<Rightarrow> metadata_fetcher \<Rightarrow> (string \<times> client \<times> instant) set \<Rightarrow> metadata_fetcher \<Rightarrow> bool" for L F0 where
  start: "fetcher_run L F0 {} F0"
| refused: "fetcher_run L F0 hist F \<Longrightarrow> metadata_resolve L N now uuid u F = Some (Inl e, F') \<Longrightarrow> fetcher_run L F0 hist F'"
| served: "fetcher_run L F0 hist F \<Longrightarrow> metadata_resolve L N now uuid u F = Some (Inr c, F') \<Longrightarrow>
    fetcher_run L F0 (if fetched_safely L N F u then insert (u, c, now) hist else hist) F'"

lemma cache_logged_mono: "cache_logged L hist F \<Longrightarrow> hist \<subseteq> hist' \<Longrightarrow> cache_logged L hist' F"
  unfolding cache_logged_def by blast

lemma fetcher_run_logged:
  assumes "fetcher_run L F0 hist F" "mf_cache F0 = []"
  shows "cache_logged L hist F \<and> mf_allow_loopback F = mf_allow_loopback F0 \<and> mf_allowed_hosts F = mf_allowed_hosts F0 \<and>
    mf_denied_hosts F = mf_denied_hosts F0"
  using assms
proof (induction rule: fetcher_run.induct)
  case start
  then show ?case by (simp add: cache_logged_def)
next
  case (refused hist F N now uuid u e F')
  then show ?case using metadata_resolve_step [OF refused(2), of hist]
    by simp (metis metadata_fetcher.select_convs(1-3) metadata_fetcher.surjective metadata_fetcher.update_convs(4))
next
  case (served hist F N now uuid u c F')
  have w: "hist \<subseteq> insert (u, c, now) hist" by blast
  show ?case using metadata_resolve_step [OF served(2), of hist] served cache_logged_mono [OF _ w]
    by simp (metis metadata_fetcher.select_convs(1-3) metadata_fetcher.surjective metadata_fetcher.update_convs(4))
qed

text \<open>Metadata clients come from public addresses.  From an empty cache, after any history of resolutions,
  a client that is handed out for a URL describes that URL, holds no shared secret and authenticates
  with a key or not at all; the URL's host passes the operator's lists; and the document was fetched
  just now, or within the last hour, from the host of the URL over a connection pinned to addresses
  none of which is special-use.\<close>
theorem metadata_clients_guarded:
  assumes "fetcher_run L (metadata_fetcher_new allowed denied) hist F" "metadata_resolve L N now uuid u F = Some (Inr c, F')"
  shows "metadata_client L u c \<and> host_admitted L F u \<and> mf_allow_loopback F = False \<and>
    (fetched_safely L N F u \<or> (\<exists>t. (u, c, t) \<in> hist \<and> now < t + secs 3600)) \<and> length (mf_cache F') \<le> 1024"
proof -
  have "cache_logged L hist F" "\<not> mf_allow_loopback F"
    using fetcher_run_logged [OF assms(1)] by (simp_all add: metadata_fetcher_new_def)
  then show ?thesis using metadata_resolve_step [OF assms(2), of hist] by (auto simp: cache_logged_def cache_max_entries_def)
qed

section \<open>The resolver on top\<close>

text \<open>What the resolver relies on: a source of described clients with an invariant of its own.\<close>
locale metadata_source =
  fixes L :: libs
    and good :: "'f \<Rightarrow> bool"
    and fetch :: "string \<Rightarrow> 'f \<Rightarrow> (client result \<times> 'f) option"
  assumes keeps: "good f \<Longrightarrow> fetch u f = Some (r, f') \<Longrightarrow> good f'"
    and described: "good f \<Longrightarrow> fetch u f = Some (Inr c, f') \<Longrightarrow> metadata_client L u c"
begin

lemma resolved_confined:
  assumes "good f" "fetch u f = Some (r, f')" "cf_resolve g u = r" "cimd_url_target L client_id (enabled_fetcher ag (Some g)) = Some u"
    and "resolve_client L (Some g) ag now client_id A d = (Inr c, A')"
  shows "good f' \<and> cl_client_id c = u \<and> cl_client_secret c = [] \<and> cl_token_endpoint_auth_method c \<in> {''none'', ''private_key_jwt''} \<and>
    cl_cimd_managed c \<and> \<not> scope_contains_privileged (cl_scope c)"
proof -
  have "enabled_fetcher ag (Some g) = Some g"
    using assms(4,5) by (auto simp: resolve_client_def enabled_fetcher_def ok_or_def Let_def split: if_splits)
  then obtain c0 where c0: "cf_resolve g u = Inr c0" "validate_metadata_document L c0 = Inr ()" "c = c0\<lparr>cl_cimd_managed := True\<rparr>"
    using assms(4,5) by (auto simp: resolve_client_def Let_def result_simps split: sum.splits prod.splits if_splits)
  then have "fetch u f = Some (Inr c0, f')" using assms(2,3) by simp
  then have "metadata_client L u c0" "good f'" using described keeps assms(1) by blast+
  then show ?thesis using c0 by (auto simp: metadata_client_def validate_metadata_document_def result_simps)
qed

end

interpretation fetched: metadata_source L "\<lambda>F. \<exists>hist. cache_logged L hist F" "\<lambda>u F. metadata_resolve L N now uuid u F" for L N now uuid
proof unfold_locales
  fix F u r F' assume "\<exists>hist. cache_logged L hist F" "metadata_resolve L N now uuid u F = Some (r, F')"
  then show "\<exists>hist. cache_logged L hist F'" using metadata_resolve_step by (cases r) fastforce+
next
  fix F u c F' assume "\<exists>hist. cache_logged L hist F" "metadata_resolve L N now uuid u F = Some (Inr c, F')"
  then show "metadata_client L u c" using metadata_resolve_step by fastforce
qed

text \<open>C34. A client named by a URL cannot promote itself.  When the resolver asks the fetcher of this server for
  the document, the client it resolves has the canonical URL as identifier, no secret, no
  privileged scope, authenticates with a key or not at all, and is marked as managed by its document.\<close>
theorem url_client_confined:
  assumes "fetcher_run L (metadata_fetcher_new allowed denied) hist F" "metadata_resolve L N now uuid u F = Some (r, F')"
    and "cf_resolve g u = r" "cimd_url_target L client_id (enabled_fetcher ag (Some g)) = Some u"
    and "resolve_client L (Some g) ag now client_id A d = (Inr c, A')"
  shows "cl_client_id c = u \<and> cl_client_secret c = [] \<and> cl_token_endpoint_auth_method c \<in> {''none'', ''private_key_jwt''} \<and>
    cl_cimd_managed c \<and> \<not> scope_contains_privileged (cl_scope c)"
proof -
  have "\<exists>hist. cache_logged L hist F"
    using fetcher_run_logged [OF assms(1)] by (auto simp: metadata_fetcher_new_def)
  from fetched.resolved_confined [OF this assms(2-5)] show ?thesis by blast
qed

section \<open>A run\<close>

text \<open>A server at a public address that sends the document in two pieces, and one that never stops.\<close>
definition agent_url :: string where
  "agent_url = ''https://a/app''"

definition agent_libs :: libs where
  "agent_libs = \<lparr>json_from_str = (\<lambda>s. Some (if s = ''{}{}'' then
         JObj [(''client_id'', JStr agent_url), (''redirect_uris'', JArr [JStr ''https://a/cb'']), (''scope'', JStr ''read'')]
       else JArr (map JStr (split_whitespace s)))),
     json_to_string = (\<lambda>v. case v of JArr vs \<Rightarrow> join '' '' (map (\<lambda>x. unwrap_or (as_str x) []) vs) | _ \<Rightarrow> []),
     url_parse = (\<lambda>s. Some \<lparr>url_text = s, url_scheme = ''https'', url_username = [], url_password = None, url_host = Some ''a'', url_port = None,
       url_path = ''/app'', url_query = None, url_fragment = None\<rparr>), sha256_b64url = id\<rparr>"

definition agent_response :: "(nat \<Rightarrow> chunk_read) \<Rightarrow> fetch_response" where
  "agent_response peer = \<lparr>fr_status = 200, fr_content_type = Some (Text ''application/json''), fr_cache_control = None,
     fr_content_length = None, fr_chunk = peer\<rparr>"

definition agent_net :: "(nat \<Rightarrow> chunk_read) \<Rightarrow> fetch_net" where
  "agent_net peer = \<lparr>fn_lookup = (\<lambda>_ _. Some [V4 0x08080808]), fn_get = (\<lambda>_ _ _. Some (agent_response peer)), fn_status_text = show_nat\<rparr>"

definition two_pieces :: "nat \<Rightarrow> chunk_read" where
  "two_pieces i = (if i < 2 then Chunk ''{}'' else EndOfBody)"

lemma agent_read: "read_body u two_pieces 0 [] = Some (Inr ''{}{}'')"
  by (simp add: read_body.simps two_pieces_def max_bytes_def)

lemma media_json: "media_type (Some (Text ''application/json'')) = ''application/json''"
  by code_simp

lemma agent_document:
  "fetch_document agent_libs (agent_net two_pieces) ''a'' [V4 0x08080808] agent_url =
     Some (Inr (JObj [(''client_id'', JStr agent_url), (''redirect_uris'', JArr [JStr ''https://a/cb'']), (''scope'', JStr ''read'')], secs 300))"
proof -
  have "fetch_head (agent_net two_pieces) ''a'' [V4 0x08080808] agent_url = Inr (agent_response two_pieces)"
    using media_json by (simp add: fetch_head_def agent_net_def agent_response_def check_content_type_def)
  then show ?thesis
    by (simp add: fetch_document_def agent_response_def agent_read agent_libs_def parse_cache_control_max_age_def default_ttl_secs_def
        max_ttl_secs_def)
qed

definition agent_client :: client where
  "agent_client = describe_client agent_libs 0 ''i'' (JObj [(''client_id'', JStr agent_url), (''redirect_uris'', JArr [JStr ''https://a/cb'']), (''scope'', JStr ''read'')])
     agent_url ''a'' [''https://a/cb''] ''none''"

lemma agent_url_ok: "validate_client_id_url agent_libs agent_url b = Inr (the (url_parse agent_libs agent_url))"
  by (simp add: validate_client_id_url_def agent_libs_def agent_url_def) code_simp

lemma agent_fetch:
  "\<exists>F'. metadata_resolve agent_libs (agent_net two_pieces) 0 ''i'' agent_url (metadata_fetcher_new [] []) = Some (Inr agent_client, F')"
proof -
  have n: "normalize_host ''a'' = ''a''" by code_simp
  have v: "vetted_host agent_libs (metadata_fetcher_new [] []) agent_url = Inr (the (url_parse agent_libs agent_url), ''a'', ''a'')"
    by (simp add: vetted_host_def agent_url_ok) (simp add: agent_libs_def n check_host_lists_def metadata_fetcher_new_def normalize_hosts_def Let_def)
  have c: "metadata_cached 0 agent_url (metadata_fetcher_new [] []) = (None, metadata_fetcher_new [] [])"
    by (simp add: metadata_cached_def metadata_fetcher_new_def lru_get_def)
  have s: "\<not> is_special_use (V4 0x08080808) False" by (simp add: special_use_cidr blocks4_def in_block4_def)
  have r: "resolve_host (agent_net two_pieces) (metadata_fetcher_new [] []) ''a'' p = Inr [V4 0x08080808]" for p
    using s by (simp add: resolve_host_def agent_net_def metadata_fetcher_new_def)
  have d: "document_to_client agent_libs 0 ''i'' (JObj [(''client_id'', JStr agent_url), (''redirect_uris'', JArr [JStr ''https://a/cb'']), (''scope'', JStr ''read'')])
      agent_url ''a'' = Inr agent_client"
    by (simp add: document_to_client_def claim_str_def string_array_def allowed_auth_methods_def agent_client_def)
  show ?thesis by (simp add: metadata_resolve_def v c fetch_client_def r agent_document d)
qed

theorem metadata_clients_guarded_witness:
  "metadata_client agent_libs agent_url agent_client \<and> host_admitted agent_libs (metadata_fetcher_new [] []) agent_url"
  using agent_fetch metadata_clients_guarded [OF fetcher_run.start] by blast

lemma agent_target: "cimd_url_target agent_libs agent_url (enabled_fetcher ag (Some g)) = Some agent_url"
  using agent_url_ok [of "cf_allow_loopback g"] agent_url_ok [of False]
  by (simp add: cimd_url_target_def accepts_client_id_def is_client_id_url_def canonical_client_id_def enabled_fetcher_def)
    (simp add: agent_libs_def)

theorem url_client_confined_witness:
  "\<exists>c A'. resolve_client agent_libs (Some \<lparr>cf_allow_loopback = False, cf_resolve = \<lambda>_. Inr agent_client\<rparr>) (demo_agent\<lparr>ag_cimd_enabled := True\<rparr>) 0
     agent_url \<lparr>cla_cache = []\<rparr> db_empty = (Inr c, A') \<and> cl_client_id c = agent_url \<and> \<not> scope_contains_privileged (cl_scope c)"
proof -
  let ?g = "\<lparr>cf_allow_loopback = False, cf_resolve = \<lambda>_. Inr agent_client\<rparr>"
  let ?ag = "demo_agent\<lparr>ag_cimd_enabled := True\<rparr>"
  obtain F' where F': "metadata_resolve agent_libs (agent_net two_pieces) 0 ''i'' agent_url (metadata_fetcher_new [] []) = Some (Inr agent_client, F')"
    using agent_fetch by blast
  have "validate_metadata_document agent_libs agent_client = Inr ()"
    by (simp add: validate_metadata_document_def agent_client_def describe_client_def) code_simp
  then have "\<exists>c A'. resolve_client agent_libs (Some ?g) ?ag 0 agent_url \<lparr>cla_cache = []\<rparr> db_empty = (Inr c, A')"
    using agent_target [of ?ag ?g]
    by (simp add: resolve_client_def enabled_fetcher_def get_client_handler_def get_cached_client_def lru_get_def get_client_def db_empty_def)
  then obtain c A' where c: "resolve_client agent_libs (Some ?g) ?ag 0 agent_url \<lparr>cla_cache = []\<rparr> db_empty = (Inr c, A')" by blast
  from url_client_confined [OF fetcher_run.start F' _ agent_target c] c show ?thesis by auto
qed

theorem metadata_fetch_ends_witness:
  "\<exists>r F'. metadata_resolve agent_libs (agent_net (\<lambda>_. Chunk ''x'')) 0 ''i'' agent_url (metadata_fetcher_new [] []) = Some (r, F')"
proof -
  have "c \<noteq> []" if "fn_get (agent_net (\<lambda>_. Chunk ''x'')) h as u = Some r" "fr_chunk r i = Chunk c" for h as u r i c
    using that by (auto simp: agent_net_def agent_response_def)
  then show ?thesis using metadata_fetch_ends [of "agent_net (\<lambda>_. Chunk ''x'')" agent_libs 0 "''i''" agent_url "metadata_fetcher_new [] []"] by blast
qed

end
