(* ===== verification/Token_Exchange.thy ===== *)
theory Token_Exchange
  imports Grant_Laws
begin

text \<open>
  The token-exchange grant (RFC 8693, \<open>handlers/token_exchange.rs\<close>) with its three kinds of
  result: access tokens, identity-chaining assertions (\<open>handlers/id_jag.rs\<close>) and transaction
  tokens (\<open>handlers/txn_token.rs\<close>).  The handler is split as the source splits it: \<open>exchange\<close>
  authenticates the client and resolves the tokens, \<open>handle_token_exchange_grant\<close> applies the
  policy and issues.
\<close>

section \<open>The request\<close>

definition grant_token_exchange :: string where
  "grant_token_exchange = ''urn:ietf:params:oauth:grant-type:token-exchange''"

definition id_jag_type :: string where
  "id_jag_type = ''urn:ietf:params:oauth:token-type:id-jag''"

record exchange_context =
  xc_req :: token_request
  xc_client :: client
  xc_cnf_claim :: "json option"
  xc_dpop_present :: bool
  xc_subject :: resolved_token
  xc_actor :: "resolved_token option"
  xc_act :: "json option"

definition is_chaining_request :: "token_request \<Rightarrow> agent_config \<Rightarrow> bool" where
  "is_chaining_request req ag = (case rq_audience req of [a] \<Rightarrow> a \<in> set (ag_chaining_targets ag) | _ \<Rightarrow> False)"

definition is_id_jag_request :: "token_request \<Rightarrow> agent_config \<Rightarrow> bool" where
  "is_id_jag_request req ag =
     (case rq_requested_token_type req of
        None \<Rightarrow> False
      | Some ty \<Rightarrow> if ty = id_jag_type then True else if ty = jwt_type then is_chaining_request req ag else False)"

section \<open>Policy\<close>

definition json_str :: "json option \<Rightarrow> string \<Rightarrow> string option" where
  "json_str j k = Option.bind (Option.bind j (\<lambda>c. json_get c k)) as_str"

definition enforce_subject_proof_of_possession ::
  "resolved_token \<Rightarrow> json option \<Rightarrow> string option \<Rightarrow> unit result" where
  "enforce_subject_proof_of_possession subject presented_cnf mtls_thumbprint =
     bindR (case json_str (rt_cnf subject) ''jkt'' of
              None \<Rightarrow> Inr ()
            | Some expected \<Rightarrow> ensure (json_str presented_cnf ''jkt'' = Some expected)
                (invalid_grant ''subject token is sender-constrained; matching DPoP proof required'')) (\<lambda>_.
     case json_str (rt_cnf subject) ''x5t#S256'' of
       None \<Rightarrow> Inr ()
     | Some expected \<Rightarrow> ensure (mtls_thumbprint = Some expected)
         (invalid_grant ''subject token is sender-constrained; matching client certificate required''))"

text \<open>No actor token: exchanging another client's token needs that client's opt-in.\<close>
definition enforce_cross_client_exchange :: "env \<Rightarrow> exchange_context \<Rightarrow> db \<Rightarrow> unit result" where
  "enforce_cross_client_exchange E ctx d =
     (case rt_client_id (xc_subject ctx) of
        None \<Rightarrow> Inl (invalid_grant ''subject_token is not bound to a known client'')
      | Some cid \<Rightarrow>
          if cid = rq_client_id (xc_req ctx) then Inr ()
          else ensure (case get_client cid d of None \<Rightarrow> False
                       | Some issuing \<Rightarrow> allows_actor (en_libs E) issuing (rq_client_id (xc_req ctx)))
                 (invalid_grant ''client not authorized to exchange tokens issued to another client''))"

definition may_act_allows :: "string \<Rightarrow> resolved_token \<Rightarrow> resolved_token \<Rightarrow> bool" where
  "may_act_allows issuer subject actor =
     (case Option.bind (rt_may_act subject) as_object of
        None \<Rightarrow> False
      | Some m \<Rightarrow> Option.bind (map_of m ''sub'') as_str = Some (rt_sub actor) \<and>
          (case Option.bind (map_of m ''iss'') as_str of None \<Rightarrow> True | Some iss \<Rightarrow> iss = issuer))"

definition authorize_delegation :: "env \<Rightarrow> exchange_context \<Rightarrow> resolved_token \<Rightarrow> db \<Rightarrow> unit result" where
  "authorize_delegation E ctx actor d =
     ensure (may_act_allows (oc_issuer (en_oidc E)) (xc_subject ctx) actor \<or>
             (case Option.bind (rt_client_id (xc_subject ctx)) (\<lambda>cid. get_client cid d) of
                None \<Rightarrow> False
              | Some c \<Rightarrow> allows_actor (en_libs E) c (rq_client_id (xc_req ctx))))
       (invalid_grant ''actor not authorized to act for subject'')"

fun dedup_first :: "string list \<Rightarrow> string list \<Rightarrow> string list" where
  "dedup_first seen [] = []"
| "dedup_first seen (x # xs) = (if x \<in> set seen then dedup_first seen xs else x # dedup_first (x # seen) xs)"

definition resolve_requested_resources ::
  "env \<Rightarrow> string list \<Rightarrow> string list \<Rightarrow> string list \<Rightarrow> string \<Rightarrow> db \<Rightarrow> string list result" where
  "resolve_requested_resources E resource audience subject_aud subject_client_id d =
     (let unrestricted = (subject_aud = [subject_client_id]);
          requested = dedup_first [] (resource @ audience)
      in if requested = [] then Inr (if unrestricted then [] else subject_aud)
         else
           bindR (all_ok (validate_resource_uri (en_libs E)) requested) (\<lambda>_.
           bindR (ensure (list_resources d = [] \<or>
                          list_all (\<lambda>v. list_ex (\<lambda>r. pr_resource_uri r = v) (list_resources d)) requested)
             (error_new ''invalid_target'' (Some ''requested resource is not a registered protected resource''))) (\<lambda>_.
           bindR (ensure (unrestricted \<or> list_all (\<lambda>v. v \<in> set subject_aud) requested)
             (error_new ''invalid_target'' (Some (''requested resource exceeds the subject token'' @ [CHR 0x27] @ ''s audience'')))) (\<lambda>_.
             Inr requested))))"

definition details_error :: "string \<Rightarrow> oauth2_error" where
  "details_error m = error_new ''invalid_authorization_details'' (Some m)"

definition check_detail :: "json list option \<Rightarrow> json \<Rightarrow> unit result" where
  "check_detail granted element =
     bindR (ensure (Option.bind (json_get element ''type'') as_str \<noteq> None)
       (details_error ''every authorization_details element requires a string `type`'')) (\<lambda>_.
     ensure (case granted of None \<Rightarrow> False | Some g \<Rightarrow> list_ex (\<lambda>x. x = element) g)
       (details_error (''requested authorization_details exceed the subject token'' @ [CHR 0x27] @ ''s grant'')))"

definition resolve_authorization_details :: "env \<Rightarrow> string option \<Rightarrow> json option \<Rightarrow> json option result" where
  "resolve_authorization_details E requested subject =
     (case requested of
        None \<Rightarrow> Inr subject
      | Some raw \<Rightarrow>
          bindR (ok_or (json_from_str (en_libs E) raw) (details_error ''authorization_details is not valid JSON'')) (\<lambda>parsed.
          bindR (ok_or (as_array parsed) (details_error ''authorization_details must be a JSON array'')) (\<lambda>elements.
          bindR (all_ok (check_detail (Option.bind subject as_array)) elements) (\<lambda>_.
            Inr (Some parsed)))))"

text \<open>Steps 4 and 5: the delegation policy and the chain the new token records.\<close>
definition chain_error :: "actor_chain_error \<Rightarrow> oauth2_error" where
  "chain_error e = (case e of DepthExceeded _ _ \<Rightarrow> invalid_request (actor_error_text e) | _ \<Rightarrow> invalid_grant (actor_error_text e))"

definition delegation_chain :: "env \<Rightarrow> resolved_token \<Rightarrow> json option \<Rightarrow> actor result" where
  "delegation_chain E actor existing =
     (let new_actor = with_profile (actor_new (rt_sub actor) (oc_issuer (en_oidc E))) (unwrap_or (rt_sub_profile actor) ''service'') in
      bindR (case existing of
               None \<Rightarrow> Inr new_actor
             | Some v \<Rightarrow> map_sum (\<lambda>e. invalid_grant (''subject_token carries a malformed act claim: '' @ actor_error_text e))
                           (with_inner new_actor) (from_value v)) (\<lambda>chain.
      bindR (map_sum chain_error id (validate_chain chain (ag_max_delegation_depth (en_agent E)))) (\<lambda>_. Inr chain)))"

definition exchange_act :: "env \<Rightarrow> exchange_context \<Rightarrow> db \<Rightarrow> json option result" where
  "exchange_act E ctx d =
     (case xc_actor ctx of
        None \<Rightarrow> bindR (enforce_cross_client_exchange E ctx d) (\<lambda>_. Inr (rt_act (xc_subject ctx)))
      | Some actor \<Rightarrow>
          bindR (authorize_delegation E ctx actor d) (\<lambda>_.
          bindR (delegation_chain E actor (rt_act (xc_subject ctx))) (\<lambda>chain. Inr (Some (to_value chain)))))"

text \<open>Step 7.\<close>
definition exchange_scope :: "exchange_context \<Rightarrow> string result" where
  "exchange_scope ctx =
     bindR (if rt_is_id_token (xc_subject ctx)
            then ok_or (rq_scope (xc_req ctx)) (invalid_request ''scope is required when the subject is an ID token'')
            else (case rq_scope (xc_req ctx) of
                    Some requested \<Rightarrow> bindR (validate_scope_subset requested (rt_scope (xc_subject ctx))) (\<lambda>_. Inr requested)
                  | None \<Rightarrow> Inr (rt_scope (xc_subject ctx)))) (\<lambda>scope.
     bindR (validate_scope_subset scope (cl_scope (xc_client ctx))) (\<lambda>_. Inr scope))"

section \<open>Identity-chaining assertions\<close>

definition jwt_payload_value :: "env \<Rightarrow> string \<Rightarrow> json option" where
  "jwt_payload_value E tok =
     (case split_char CHR ''.'' tok of
        [_, payload, _] \<Rightarrow> Option.bind (en_b64_url_decode E payload) (json_from_str (en_libs E))
      | _ \<Rightarrow> None)"

definition str_claim :: "json option \<Rightarrow> string \<Rightarrow> string option" where
  "str_claim c k = nonempty (json_str c k)"

definition int_claim :: "json option \<Rightarrow> string \<Rightarrow> int option" where
  "int_claim c k = Option.bind (Option.bind c (\<lambda>j. json_get j k)) as_i64_value"

definition pick_signing_key :: "instant \<Rightarrow> key_set \<Rightarrow> signing_key option" where
  "pick_signing_key now ks = (case ks_current_for_alg now ks RS256 of Some k \<Rightarrow> Some k | None \<Rightarrow> ks_current now ks)"

definition id_jag_typ :: string where
  "id_jag_typ = ''oauth-id-jag+jwt''"

definition encode_assertion :: "env \<Rightarrow> json \<Rightarrow> signing_key option \<Rightarrow> string result" where
  "encode_assertion E c key =
     (case key of
        Some k \<Rightarrow>
          bindR (if sk_algorithm k = RS256 then server_error_of (en_rsa_pem E (sk_key_material k)) else Inr ()) (\<lambda>_.
            server_error_of (en_encode_json E id_jag_typ (Some (sk_kid k)) (sk_algorithm k) (sk_key_material k) c))
      | None \<Rightarrow> server_error_of (en_encode_json E id_jag_typ None HS256 (secret_bytes (en_jwt E) (oc_jwt_secret (en_oidc E))) c))"

definition id_jag_audience :: "env \<Rightarrow> token_request \<Rightarrow> string result" where
  "id_jag_audience E req =
     bindR (case rq_audience req of
              [single] \<Rightarrow> Inr single
            | [] \<Rightarrow> Inl (invalid_request ''audience is required when requesting an ID-JAG'')
            | _ \<Rightarrow> Inl (invalid_request ''an ID-JAG names exactly one audience'')) (\<lambda>audience.
     bindR (ensure (audience \<in> set (ag_chaining_targets (en_agent E)))
       (error_new ''invalid_target'' (Some ''audience is not a configured identity-chaining target''))) (\<lambda>_. Inr audience))"

definition id_jag_details :: "env \<Rightarrow> exchange_context \<Rightarrow> json option" where
  "id_jag_details E ctx =
     (case rq_authorization_details (xc_req ctx) of
        Some raw \<Rightarrow> json_from_str (en_libs E) raw
      | None \<Rightarrow> rt_authorization_details (xc_subject ctx))"

definition id_jag_lifetime :: "instant \<Rightarrow> json option \<Rightarrow> int result" where
  "id_jag_lifetime now subject_claims =
     (let lifetime = (case int_claim subject_claims ''exp'' of Some e \<Rightarrow> min (e - timestamp now) 300 | None \<Rightarrow> 300) in
      bindR (ensure (0 < lifetime) (invalid_grant ''subject_token has expired'')) (\<lambda>_. Inr lifetime))"

definition id_jag_email :: "exchange_context \<Rightarrow> json option \<Rightarrow> db \<Rightarrow> string option" where
  "id_jag_email ctx subject_claims d =
     (case str_claim subject_claims ''email'' of
        Some e \<Rightarrow> Some e
      | None \<Rightarrow> map_option us_email (Option.bind (rt_user_id (xc_subject ctx)) (\<lambda>u. get_user_by_id u d)))"

definition id_jag_claims ::
  "env \<Rightarrow> instant \<Rightarrow> string \<Rightarrow> exchange_context \<Rightarrow> string \<Rightarrow> string \<Rightarrow> int \<Rightarrow> db \<Rightarrow> json" where
  "id_jag_claims E now uuid ctx audience scope lifetime d =
     (let sc = Option.bind (rq_subject_token (xc_req ctx)) (jwt_payload_value E); subj = xc_subject ctx in
      JObj ([(''iss'', JStr (oc_issuer (en_oidc E))), (''sub'', JStr (unwrap_or (rt_user_id subj) (rt_sub subj))), (''aud'', JStr audience),
             (''client_id'', JStr (rq_client_id (xc_req ctx))), (''jti'', JStr uuid), (''iat'', JInt (timestamp now)),
             (''exp'', JInt (timestamp now + lifetime))] @
            opt_member ''scope'' JStr (if scope = [] then None else Some scope) @
            (case rq_resource (xc_req ctx) of [] \<Rightarrow> [] | [r] \<Rightarrow> [(''resource'', JStr r)] | rs \<Rightarrow> [(''resource'', JArr (map JStr rs))]) @
            opt_member ''authorization_details'' id (id_jag_details E ctx) @ opt_member ''email'' JStr (id_jag_email ctx sc d) @
            opt_member ''auth_time'' JInt (int_claim sc ''auth_time'') @ opt_member ''acr'' JStr (str_claim sc ''acr'') @
            opt_member ''act'' id (xc_act ctx) @
            opt_member ''cnf'' id (if xc_dpop_present ctx then xc_cnf_claim ctx else None)))"

definition id_jag_issue :: "env \<Rightarrow> instant \<Rightarrow> string \<Rightarrow> exchange_context \<Rightarrow> db \<Rightarrow> exchange_response result" where
  "id_jag_issue E now uuid ctx d =
     bindR (ensure (ag_id_jag_enabled (en_agent E)) (invalid_request ''ID-JAG issuance is not enabled'')) (\<lambda>_.
     bindR (id_jag_audience E (xc_req ctx)) (\<lambda>audience.
     let scope = unwrap_or (rq_scope (xc_req ctx)) (rt_scope (xc_subject ctx)) in
     bindR (id_jag_lifetime now (Option.bind (rq_subject_token (xc_req ctx)) (jwt_payload_value E))) (\<lambda>lifetime.
     bindR (encode_assertion E (id_jag_claims E now uuid ctx audience scope lifetime d)
              (Option.bind (en_keyset E) (pick_signing_key now))) (\<lambda>assertion.
       Inr \<lparr>xr_access_token = assertion,
            xr_issued_token_type = (if rq_requested_token_type (xc_req ctx) = Some id_jag_type then id_jag_type else jwt_type),
            xr_token_type = ''N_A'', xr_expires_in = lifetime, xr_scope = Some scope,
            xr_authorization_details = id_jag_details E ctx\<rparr>))))"

section \<open>Transaction tokens\<close>

fun is_object :: "json \<Rightarrow> bool" where
  "is_object (JObj _) = True"
| "is_object _ = False"

definition parse_json_object :: "env \<Rightarrow> string option \<Rightarrow> string \<Rightarrow> json option result" where
  "parse_json_object E raw name =
     (case raw of
        None \<Rightarrow> Inr None
      | Some r \<Rightarrow>
          bindR (ok_or (json_from_str (en_libs E) r) (invalid_request (name @ '' is not valid JSON''))) (\<lambda>parsed.
          bindR (ensure (is_object parsed) (invalid_request (name @ '' must be a JSON object''))) (\<lambda>_.
            Inr (Some parsed))))"

definition txn_trust_domain :: "agent_config \<Rightarrow> string result" where
  "txn_trust_domain ag =
     bindR (ok_or (nonempty (map_option trim (ag_trust_domain ag)))
       (invalid_request ''transaction tokens require a configured trust domain'')) (\<lambda>domain.
     bindR (ensure (\<not> list_ex is_ws domain)
       (error_new ''server_error'' (Some ''configured trust domain must not contain whitespace''))) (\<lambda>_. Inr domain))"

definition txn_context :: "json option \<Rightarrow> json option \<Rightarrow> json option result" where
  "txn_context request_details replaced =
     (case replaced of
        None \<Rightarrow> Inr request_details
      | Some previous \<Rightarrow>
          bindR (ensure (request_details = None \<or> json_get previous ''tctx'' = request_details)
            (invalid_request ''request_details must not change across a transaction token replacement'')) (\<lambda>_.
            Inr (json_get previous ''tctx'')))"

definition txn_scope :: "exchange_context \<Rightarrow> string result" where
  "txn_scope ctx =
     (case rq_scope (xc_req ctx) of
        Some requested \<Rightarrow> bindR (validate_scope_subset requested (rt_scope (xc_subject ctx))) (\<lambda>_. Inr requested)
      | None \<Rightarrow> Inr (rt_scope (xc_subject ctx)))"

definition txn_sign :: "env \<Rightarrow> instant \<Rightarrow> txn_token_claims \<Rightarrow> string result" where
  "txn_sign E now c =
     bindR (case Option.bind (en_keyset E) (\<lambda>ks. ks_current_for_alg now ks RS256) of
              Some k \<Rightarrow> bindR (map_sum (\<lambda>e. error_new ''server_error'' (Some (''transaction token signing key is unusable: '' @ e))) id
                                (en_rsa_pem E (sk_key_material k))) (\<lambda>_. Inr (Some (sk_kid k), RS256, sk_key_material k))
            | None \<Rightarrow> Inr (None, HS256, secret_bytes (en_jwt E) (oc_jwt_secret (en_oidc E)))) (\<lambda>(kid, alg, key).
     map_sum (\<lambda>e. error_new ''server_error'' (Some (''failed to sign transaction token: '' @ e))) id
       (en_encode_json E txn_token_typ kid alg key (txn_claims_to_value c)))"

definition txn_claims :: "env \<Rightarrow> instant \<Rightarrow> string \<Rightarrow> exchange_context \<Rightarrow> string \<Rightarrow> json option \<Rightarrow> json option \<Rightarrow> string \<Rightarrow> txn_token_claims" where
  "txn_claims E now uuid ctx domain tctx rctx scope =
     (let a2a = ag_a2a_profile_enabled (en_agent E);
          actor = (if a2a then json_str (xc_act ctx) ''sub'' else None)
      in \<lparr>tx_iss = oc_issuer (en_oidc E), tx_iat = timestamp now,
          tx_exp = timestamp now + as_i64 (uint (ag_txn_token_ttl_secs (en_agent E))), tx_aud = domain,
          tx_txn = unwrap_or (json_str (rt_txn (xc_subject ctx)) ''txn'') uuid, tx_sub = rt_sub (xc_subject ctx), tx_scope = scope,
          tx_req_wl = cl_client_id (xc_client ctx), tx_tctx = tctx, tx_rctx = rctx,
          tx_purp = (if a2a then rq_purp (xc_req ctx) else None), tx_act = xc_act ctx, tx_actor = actor,
          tx_principal = (if actor \<noteq> None then Some (rt_sub (xc_subject ctx)) else None)\<rparr>)"

definition txn_token_issue :: "env \<Rightarrow> instant \<Rightarrow> string \<Rightarrow> exchange_context \<Rightarrow> exchange_response result" where
  "txn_token_issue E now uuid ctx =
     bindR (ensure (ag_txn_tokens_enabled (en_agent E)) (invalid_request ''transaction tokens are not enabled'')) (\<lambda>_.
     bindR (txn_trust_domain (en_agent E)) (\<lambda>domain.
     bindR (ensure (cl_token_endpoint_auth_method (xc_client ctx) \<in> {''private_key_jwt'', ''tls_client_auth'', ''self_signed_tls_client_auth''})
       (invalid_client ''transaction tokens require asymmetric client authentication'')) (\<lambda>_.
     bindR (ensure (rq_audience (xc_req ctx) \<noteq> []) (invalid_request ''audience is required for a transaction token request'')) (\<lambda>_.
     bindR (ensure (rq_audience (xc_req ctx) = [domain])
       (error_new ''invalid_target'' (Some ''audience must be the configured trust domain''))) (\<lambda>_.
     bindR (parse_json_object E (rq_request_details (xc_req ctx)) ''request_details'') (\<lambda>request_details.
     bindR (parse_json_object E (rq_request_context (xc_req ctx)) ''request_context'') (\<lambda>request_context.
     bindR (txn_context request_details (rt_txn (xc_subject ctx))) (\<lambda>tctx.
     let rctx = (case request_context of Some v \<Rightarrow> Some v | None \<Rightarrow> Option.bind (rt_txn (xc_subject ctx)) (\<lambda>p. json_get p ''rctx'')) in
     bindR (txn_scope ctx) (\<lambda>scope.
     bindR (txn_sign E now (txn_claims E now uuid ctx domain tctx rctx scope)) (\<lambda>tok.
       Inr \<lparr>xr_access_token = tok, xr_issued_token_type = txn_token_type, xr_token_type = ''N_A'',
            xr_expires_in = uint (ag_txn_token_ttl_secs (en_agent E)), xr_scope = None, xr_authorization_details = None\<rparr>))))))))))"

section \<open>The grant\<close>

text \<open>Steps 10 and 11: the binding of the new token, and its creation.\<close>
definition exchange_cnf :: "exchange_context \<Rightarrow> json option" where
  "exchange_cnf ctx =
     (case xc_cnf_claim ctx of
        Some c \<Rightarrow> Some c
      | None \<Rightarrow> if rt_client_id (xc_subject ctx) = Some (rq_client_id (xc_req ctx)) then rt_cnf (xc_subject ctx) else None)"

definition exchange_msg :: "exchange_context \<Rightarrow> string \<Rightarrow> string list \<Rightarrow> json option \<Rightarrow> create_token_msg" where
  "exchange_msg ctx scope resources details =
     \<lparr>ctm_user_id = rt_user_id (xc_subject ctx), ctm_client_id = rq_client_id (xc_req ctx), ctm_scope = scope,
      ctm_include_refresh = False, ctm_token_family = None, ctm_resources = resources, ctm_cnf = exchange_cnf ctx,
      ctm_authorization_details = details, ctm_act = xc_act ctx, ctm_ttl_override_secs = None, ctm_sub_profile = None, ctm_txn = None\<rparr>"

definition exchange_access_token ::
  "env \<Rightarrow> instant \<Rightarrow> fresh \<Rightarrow> exchange_context \<Rightarrow> string \<Rightarrow> string \<Rightarrow> string list \<Rightarrow> json option \<Rightarrow> reply act" where
  "exchange_access_token E now fr ctx requested_type scope resources details =
     andThen (send_create E now fr (rq_client_id (xc_req ctx)) (exchange_msg ctx scope resources details)) (\<lambda>t.
       ret (Inr (Exchanged \<lparr>xr_access_token = tk_access_token t, xr_issued_token_type = requested_type,
         xr_token_type = (if cnf_jkt (exchange_cnf ctx) \<noteq> None then ''DPoP'' else ''Bearer''),
         xr_expires_in = tk_expires_in t, xr_scope = Some (tk_scope t), xr_authorization_details = None\<rparr>)))"

text \<open>Step 9: which kind of token is issued.\<close>
definition exchange_issue ::
  "env \<Rightarrow> instant \<Rightarrow> fresh \<Rightarrow> string \<Rightarrow> exchange_context \<Rightarrow> string \<Rightarrow> string \<Rightarrow> string list \<Rightarrow> json option \<Rightarrow> reply act" where
  "exchange_issue E now fr uuid ctx requested_type scope resources details s =
     (if requested_type = jwt_type \<and> is_chaining_request (xc_req ctx) (en_agent E) \<or> requested_type = id_jag_type
      then (map_sum id Exchanged (id_jag_issue E now uuid ctx (sv_db s)), s)
      else if requested_type \<in> {access_token_type, jwt_type}
      then exchange_access_token E now fr ctx requested_type scope resources details s
      else if requested_type = txn_token_type then (map_sum id Exchanged (txn_token_issue E now uuid ctx), s)
      else (Inl (invalid_request (''Unsupported requested_token_type '' @ quoted requested_type)), s))"

definition handle_token_exchange_grant :: "env \<Rightarrow> instant \<Rightarrow> fresh \<Rightarrow> string \<Rightarrow> exchange_context \<Rightarrow> reply act" where
  "handle_token_exchange_grant E now fr uuid ctx0 =
     andThen (\<lambda>s. (exchange_act E ctx0 (sv_db s), s)) (\<lambda>act_chain.
     let ctx = ctx0\<lparr>xc_act := act_chain\<rparr>;
         requested_type = unwrap_or (rq_requested_token_type (xc_req ctx)) access_token_type;
         no_audience = (requested_type = txn_token_type \<or> is_id_jag_request (xc_req ctx) (en_agent E))
     in
     andThen (\<lambda>s. (resolve_requested_resources E (rq_resource (xc_req ctx)) (if no_audience then [] else rq_audience (xc_req ctx))
                    (rt_aud (xc_subject ctx)) (unwrap_or (rt_client_id (xc_subject ctx)) []) (sv_db s), s)) (\<lambda>resources.
     andThen (ret (exchange_scope ctx)) (\<lambda>scope.
     andThen (ret (resolve_authorization_details E (rq_authorization_details (xc_req ctx))
                    (rt_authorization_details (xc_subject ctx)))) (\<lambda>details.
       exchange_issue E now fr uuid ctx requested_type scope resources details))))"

definition resolve_actor_token :: "env \<Rightarrow> instant \<Rightarrow> token_request \<Rightarrow> resolved_token option act" where
  "resolve_actor_token E now req =
     (case rq_actor_token req of
        None \<Rightarrow> ret (Inr None)
      | Some actor_token \<Rightarrow>
          andThen (ret (ok_or (rq_actor_token_type req) (invalid_request ''Missing actor_token_type for actor_token''))) (\<lambda>ty.
          andThen (resolve_token E now actor_token ty ''actor'' (rq_client_id req) False) (\<lambda>resolved.
          andThen (ret (ensure (rt_client_id resolved = Some (rq_client_id req))
            (invalid_grant ''actor token was not issued to this client''))) (\<lambda>_.
            ret (Inr (Some resolved))))))"

definition exchange ::
  "env \<Rightarrow> instant \<Rightarrow> fresh \<Rightarrow> string \<Rightarrow> token_request \<Rightarrow> json option \<Rightarrow> bool \<Rightarrow> mtls \<Rightarrow> reply act" where
  "exchange E now fr uuid req cnf dpop_present mt =
     andThen (send_resolve E now (rq_client_id req)) (\<lambda>c.
     andThen (ret (ensure (supports_grant_type (en_libs E) c grant_token_exchange)
       (unauthorized_client ''Client not allowed to use token-exchange''))) (\<lambda>_.
     andThen (ret (ensure (\<not> is_public c) (invalid_client ''Public clients cannot use token-exchange''))) (\<lambda>_.
     andThen (authenticate E now c req mt) (\<lambda>_.
     andThen (send_materialize E now c) (\<lambda>_.
     andThen (ret (ok_or (rq_subject_token req) (invalid_request ''Missing subject_token''))) (\<lambda>subject_token.
     andThen (ret (ok_or (rq_subject_token_type req) (invalid_request ''Missing subject_token_type''))) (\<lambda>subject_type.
     andThen (ret (ensure (subject_type = txn_token_type \<longrightarrow> rq_requested_token_type req = Some txn_token_type)
       (invalid_request ''a transaction token may only be exchanged for another transaction token''))) (\<lambda>_.
     andThen (resolve_token E now subject_token subject_type ''subject'' (rq_client_id req) (is_id_jag_request req (en_agent E))) (\<lambda>subject.
     andThen (ret (enforce_subject_proof_of_possession subject cnf (mt_thumbprint mt))) (\<lambda>_.
     andThen (resolve_actor_token E now req) (\<lambda>actor.
       handle_token_exchange_grant E now fr uuid
         \<lparr>xc_req = req, xc_client = c, xc_cnf_claim = cnf, xc_dpop_present = dpop_present, xc_subject = subject,
          xc_actor = actor, xc_act = None\<rparr>)))))))))))"

end
