(* ===== verification/Grant_Demo.thy ===== *)
theory Grant_Demo
  imports Grant_Laws
begin

text \<open>
  A small concrete server: a public client \<open>app\<close> with a stored PKCE-bound code, a confidential
  client \<open>svc\<close>, one token-actor shard and libraries that are plain functions.  It witnesses the
  theorems on the grants and carries the counterexample runs.
\<close>

section \<open>The server\<close>

definition demo_libs1 :: libs where
  "demo_libs1 = \<lparr>json_from_str = (\<lambda>s. Some (JArr (map JStr (split_whitespace s)))), json_to_string = (\<lambda>_. ''j''),
     url_parse = (\<lambda>_. None), sha256_b64url = (\<lambda>v. ''h'' @ v)\<rparr>"

definition demo_oidc :: oidc_config where
  "demo_oidc = \<lparr>oc_issuer = ''https://as'', oc_jwt_secret = ''k'', oc_id_token_alg = ''HS256'', oc_id_token_kid = None,
     oc_id_token_private_key_pem = None\<rparr>"

definition demo_env :: env where
  "demo_env = \<lparr>en_libs = demo_libs1, en_jwt = demo_jwt\<lparr>jwt_verify := \<lambda>now aud alg key s. Inr (claims_new now s s s s 60 s)\<rparr>,
     en_assertions = no_assertions, en_first_key = (\<lambda>_. None), en_cimd = None, en_agent = demo_agent, en_jwks_cache = None,
     en_oidc = demo_oidc, en_keyset = None, en_hash = (\<lambda>_. 0), en_verify_id = (\<lambda>_ _ _ _. Inl []),
     en_verify_txn = (\<lambda>_ _ _ _. Inl []), en_left_hash = id, en_encode_id = (\<lambda>_ c. Inr (it_sub c)),
     en_encode_id_rs256 = (\<lambda>_ _ c. Inr (it_sub c)),
     en_encode_json = (\<lambda>typ _ _ _ _. Inr typ), en_rsa_pem = (\<lambda>_. Inr ()), en_b64_url_decode = (\<lambda>_. None),
     en_decode_ext = (\<lambda>_ _ _ _ _ _ _. Inl []), en_jose = demo_jose,
     en_http = \<lparr>hl_b64_decode = (\<lambda>_. None), hl_percent_decode = Some, hl_form_parse = (\<lambda>b. if b = ''code form''
       then [(''grant_type'', ''authorization_code''), (''client_id'', ''app''), (''code'', ''code''), (''code_verifier'', replicate 43 CHR ''v'')]
       else [])\<rparr>, en_nonce_lib = demo_nonce_lib,
     en_nonce_issuer = None\<rparr>"

definition demo_public :: "bool \<Rightarrow> client" where
  "demo_public r = (client_new demo_libs1 0 ''i1'' ''app'' [] [] [] ''read'' ''n'')
     \<lparr>cl_token_endpoint_auth_method := ''none'', cl_grant_types := (if r then ''authorization_code refresh_token'' else ''authorization_code''), cl_allowed_actors := []\<rparr>"

definition demo_svc :: client where
  "demo_svc = (client_new demo_libs1 0 ''i2'' ''svc'' ''s3cret'' [] [] ''read write'' ''n'')
     \<lparr>cl_grant_types := ''client_credentials device_code'', cl_allowed_actors := []\<rparr>"

definition demo_auth_code :: authorization_code where
  "demo_auth_code = new_with_ttl 0 ''a1'' ''fam'' ''code'' ''app'' ''u'' ''https://app/cb'' ''read'' (Some (''h'' @ replicate 43 CHR ''v''))
     (Some ''S256'') None None None None 60"

definition grant_db :: "bool \<Rightarrow> db" where
  "grant_db r = db_empty\<lparr>db_clients := [(demo_public r), demo_svc], db_users := [user_new 0 ''u'' ''alice'' ''h'' ''e''],
     db_codes := [demo_auth_code]\<rparr>"

definition demo_server :: "bool \<Rightarrow> server" where
  "demo_server r = \<lparr>sv_db = (grant_db r), sv_shards = [demo_actor], sv_clients = \<lparr>cla_cache = []\<rparr>, sv_jti = guard_default, sv_dpop = None,
     sv_penalty = None, sv_par = Map.empty\<rparr>"

definition demo_code_request :: token_request where
  "demo_code_request = demo_request\<lparr>rq_grant_type := ''authorization_code'', rq_client_id := ''app'', rq_client_secret := None,
     rq_code := Some ''code'', rq_code_verifier := Some (replicate 43 CHR ''v'')\<rparr>"

definition other_fresh :: fresh where
  "other_fresh = \<lparr>fr_row_id = ''r2'', fr_access_jti = ''j3'', fr_refresh_jti = ''j4'', fr_opaque1 = ''o3'', fr_opaque2 = ''o4''\<rparr>"


lemma demo_grants:
  "get_grant_types demo_libs1 (demo_public r) = (if r then [''authorization_code'', ''refresh_token''] else [''authorization_code''])"
  "get_grant_types demo_libs1 demo_svc = [''client_credentials'', ''device_code'']"
  by (cases r; simp only: if_True if_False; code_simp) code_simp

lemma demo_validate:
  "validate_authorization_code demo_libs1 5 ''code'' ''app'' None (Some (replicate 43 CHR ''v'')) (grant_db r) = Inr demo_auth_code"
  by (simp add: validate_code_cases get_authorization_code_def grant_db_def demo_auth_code_def new_with_ttl_def db_empty_def demo_libs1_def secs_def clamp_def)

lemma demo_get:
  "get_client ''app'' (grant_db r) = Some (demo_public r)"
  "get_client ''svc'' (grant_db r) = Some demo_svc"
  by (simp_all add: grant_db_def get_client_def demo_public_def demo_svc_def client_new_def)

lemma demo_fields [simp]:
  "cl_client_id (demo_public r) = ''app''" "is_public (demo_public r)" "cl_cimd_managed (demo_public r) = False"
  "cl_client_id demo_svc = ''svc''" "\<not> is_public demo_svc" "cl_cimd_managed demo_svc = False"
  "rq_code demo_code_request = Some ''code''" "rq_redirect_uri demo_code_request = None" "rq_client_id demo_code_request = ''app''"
  "rq_client_secret demo_code_request = None" "rq_code_verifier demo_code_request = Some (replicate 43 CHR ''v'')"
  by (simp_all add: demo_public_def demo_svc_def client_new_def is_public_def demo_code_request_def demo_request_def)

lemma demo_env_fields [simp]:
  "en_libs demo_env = demo_libs1" "en_cimd demo_env = None" "en_agent demo_env = demo_agent" "en_oidc demo_env = demo_oidc"
  by (simp_all add: demo_env_def)

lemma no_url_ids [simp]: "\<not> is_client_id_url demo_libs1 x"
  by (simp add: is_client_id_url_def validate_client_id_url_def demo_libs1_def isl_def)

definition warm_server :: "bool \<Rightarrow> server" where
  "warm_server r = (demo_server r)\<lparr>sv_clients := insert_cached_client 5 (demo_public r) \<lparr>cla_cache = []\<rparr>\<rparr>"

lemma warm_db [simp]: "sv_db (warm_server r) = (grant_db r)" "sv_db (demo_server r) = (grant_db r)"
  by (simp_all add: warm_server_def demo_server_def)

lemma demo_resolve:
  "send_resolve demo_env 5 ''app'' (demo_server r) = (Inr (demo_public r), (warm_server r))"
  "send_resolve demo_env 5 ''app'' (warm_server r) = (Inr (demo_public r), (warm_server r))"
  by (simp_all add: send_resolve_def resolve_client_def warm_server_def enabled_fetcher_def cimd_url_target_def Let_def
      get_client_handler_def get_cached_client_def lru_get_def demo_server_def demo_get insert_cached_client_def
      lru_put_def client_cache_max_def demo_agent_def client_cache_ttl_def secs_def lru_pop_def)

lemma demo_prepare:
  assumes "s = demo_server r \<or> s = warm_server r"
  shows "code_grant_prepare demo_env 5 demo_code_request no_mtls s = (Inr (demo_auth_code, (demo_public r), None), (warm_server r))"
proof -
  have v: "send_validate_code demo_env 5 ''code'' demo_code_request s = (Inr demo_auth_code, s)"
    using assms demo_validate by (elim disjE) (simp_all add: send_validate_code_def)
  have r: "send_resolve demo_env 5 ''app'' s = (Inr (demo_public r), (warm_server r))" using assms demo_resolve by auto
  have m: "send_materialize demo_env 5 (demo_public r) (warm_server r) = (Inr (), (warm_server r))"
    by (simp add: send_materialize_def materialize_cimd_client_def)
  have a: "resolve_named_actor demo_env 5 demo_auth_code demo_code_request = ret (Inr None)"
    by (simp add: resolve_named_actor_def demo_auth_code_def new_with_ttl_def nonempty_def)
  have k: "code_client_check demo_env 5 (demo_public r) demo_code_request no_mtls = ret (Inr ())"
    by (simp add: code_client_check_def nonempty_def)
  have g: "supports_grant_type demo_libs1 (demo_public r) ''authorization_code''"
    by (simp add: supports_grant_type_def demo_grants)
  show ?thesis by (simp add: code_grant_prepare_def andThen_def ret_def v r g k a m)
qed

definition first_token :: "bool \<Rightarrow> token" where
  "first_token r = token_new 5 ''r1'' ''at+JWT.j1.sig'' (if r then Some ''JWT.j2.sig'' else None) ''app'' (Some ''u'') ''read'' 3600 (if r then Some ''fam'' else None)"

definition second_token :: "bool \<Rightarrow> token" where
  "second_token r = token_new 5 ''r2'' ''at+JWT.j3.sig'' (if r then Some ''JWT.j4.sig'' else None) ''app'' (Some ''u'') ''read'' 3600 (if r then Some ''fam'' else None)"

lemmas issue_defs = create_token_def mint_access_token_def mint_refresh_token_def encode_claims_def
  signing_key_of_def server_error_of_def access_claims_def refresh_claims_def claims_new_def
  effective_ttl_def as_i32_def as_i64_def with_delegation_def save_token_def checked_def
  has_client_def has_user_opt_def has_user_def Let_def send_create_def shard_def shard_index_def route_def
  demo_env_def demo_jwt_def demo_actor_def token_new_def

definition used_db :: "bool \<Rightarrow> db" where
  "used_db r = (grant_db r)\<lparr>db_codes := [demo_auth_code\<lparr>ac_used := True\<rparr>]\<rparr>"

definition issued_server :: "bool \<Rightarrow> server" where
  "issued_server r = (warm_server r)\<lparr>sv_db := (used_db r)\<lparr>db_tokens := [(first_token r)]\<rparr>\<rparr>"

lemmas demo_commit_defs = code_grant_commit_def andThen_def ret_def send_mark_used_def mark_authorization_code_used_def
  code_msg_def code_family_def code_details_def supports_grant_type_def demo_grants warm_server_def
  demo_server_def grant_db_def used_db_def demo_auth_code_def new_with_ttl_def db_empty_def
  first_token_def user_new_def with_id_token_def has_scope_def split_whitespace_def is_ws_def
  apply_dpop_token_type_def cnf_jkt_def issued_server_def issue_defs

lemma demo_commit:
  "code_grant_commit demo_env 5 demo_fresh ''nf'' demo_code_request None None (demo_auth_code, (demo_public r), None) (warm_server r) =
     (Inr (Issued (token_response_from (first_token r))), (issued_server r))"
  by (simp add: demo_commit_defs demo_fresh_def)

lemma demo_second_commit:
  "code_grant_commit demo_env 5 other_fresh ''nf'' demo_code_request None None (demo_auth_code, (demo_public r), None) (issued_server r) =
     (Inr (Issued (token_response_from (second_token r))), (warm_server r)\<lparr>sv_db := (used_db r)\<lparr>db_tokens := [(first_token r), (second_token r)]\<rparr>\<rparr>)"
  by (simp add: demo_commit_defs other_fresh_def second_token_def)

lemma demo_wf: "db_wf (grant_db r)"
  by (simp add: db_wf_def keys_ok_def refs_ok_def grant_db_def db_empty_def demo_public_def demo_svc_def client_new_def
      user_new_def demo_auth_code_def new_with_ttl_def has_client_def has_user_def)

lemma demo_code_grant:
  "handle_authorization_code_grant demo_env 5 demo_fresh ''nf'' demo_code_request None None no_mtls (demo_server r) =
     (Inr (Issued (token_response_from (first_token r))), (issued_server r))"
  unfolding handle_authorization_code_grant_def
  by (simp add: andThen_def demo_prepare [of _ r] demo_commit)

section \<open>Witnesses and counterexample runs\<close>


lemma demo_code_row: "get_authorization_code ''code'' (grant_db r) = Some demo_auth_code"
  by (simp add: get_authorization_code_def grant_db_def demo_auth_code_def new_with_ttl_def db_empty_def)


lemma access_only_survives_replay_witness:
  "\<exists>t s2. handle_authorization_code_grant demo_env 6 other_fresh ''nf'' demo_code_request None None no_mtls (issued_server False) =
      (Inl (invalid_grant ''Authorization code is expired or used''), s2) \<and>
    get_token_by_access_token ''at+JWT.j1.sig'' (sv_db s2) = Some t \<and> \<not> tk_revoked t"
  using access_only_survives_replay [OF demo_code_grant [of False], of demo_code_request demo_env 6 other_fresh]
  by (simp add: first_token_def token_new_def)

text \<open>Two requests that both validate a code before either burns it both obtain tokens: burning a code
  does not check that it is still unused, so a code can be redeemed twice concurrently, with two
  live access tokens and two refresh tokens as a result.\<close>
theorem code_race_double_issue:
  "\<exists>p s1 s2 s3 s4 r1 r2.
     code_grant_prepare demo_env 5 demo_code_request no_mtls (demo_server r) = (Inr p, s1) \<and>
     code_grant_prepare demo_env 5 demo_code_request no_mtls s1 = (Inr p, s2) \<and>
     code_grant_commit demo_env 5 demo_fresh ''nf'' demo_code_request None None p s2 = (Inr (Issued r1), s3) \<and>
     code_grant_commit demo_env 5 other_fresh ''nf'' demo_code_request None None p s3 = (Inr (Issued r2), s4) \<and>
     tr_access_token r1 \<noteq> tr_access_token r2 \<and>
     list_all (token_is_valid 6) (db_tokens (sv_db s4)) \<and> length (db_tokens (sv_db s4)) = 2"
  using demo_prepare [of "demo_server r" r] demo_prepare [of "warm_server r" r] demo_commit demo_second_commit
  by (intro exI conjI) (assumption | simp add: first_token_def second_token_def token_new_def token_is_valid_def token_is_expired_def secs_def)+

section \<open>The other grants\<close>

definition demo_refresh_request :: token_request where
  "demo_refresh_request = demo_request\<lparr>rq_grant_type := ''refresh_token'', rq_client_id := ''app'', rq_client_secret := None,
     rq_refresh_token := Some ''JWT.j2.sig''\<rparr>"

lemma warm_resolve: "send_resolve demo_env 6 ''app'' (issued_server r) = (Inr (demo_public r), issued_server r)"
  by (simp add: send_resolve_def resolve_client_def issued_server_def warm_server_def enabled_fetcher_def cimd_url_target_def Let_def
      get_client_handler_def get_cached_client_def lru_get_def demo_server_def demo_get insert_cached_client_def
      lru_put_def client_cache_max_def demo_agent_def client_cache_ttl_def secs_def lru_pop_def)

lemma first_row: "get_token_by_refresh_token ''JWT.j2.sig'' (sv_db (issued_server True)) = Some (first_token True)"
  by (simp add: issued_server_def get_token_by_refresh_token_def first_token_def token_new_def)

lemma normal_first: "normalize_token_key (tk_access_token (first_token True)) = tk_access_token (first_token True)"
  by (simp add: first_token_def token_new_def normalize_token_key_def trim_def trim_start_def trim_end_def is_ws_def
      strip_prefix_opt_def Let_def)

definition rotated_server :: server where
  "rotated_server = (warm_server True)\<lparr>sv_db := (used_db True)\<lparr>db_tokens := [(first_token True)\<lparr>tk_revoked := True\<rparr>]\<rparr>\<rparr>"

lemma demo_revoke:
  "send_revoke demo_env ''app'' (tk_access_token (first_token True)) (issued_server True) = (Inr (), rotated_server)"
  unfolding send_revoke_def revoke_token_handler_def revoke_token_async_def normal_first Let_def
  by (simp add: issued_server_def rotated_server_def warm_server_def demo_server_def shard_def shard_index_def route_def
      invalidate_cached_token_def demo_actor_def lru_pop_def revoke_token_def revoke_token_family_def revoke_rows_def
      get_token_by_access_token_def first_token_def token_new_def)

lemma demo_refresh:
  "\<exists>rep s'. handle_refresh_token_grant demo_env 6 other_fresh ''nf'' demo_refresh_request no_mtls (issued_server True) = (Inr rep, s')"
proof -
  let ?s = "issued_server True"
  have q: "rq_refresh_token demo_refresh_request = Some ''JWT.j2.sig''" "rq_client_id demo_refresh_request = ''app''"
    "rq_scope demo_refresh_request = None" "rq_resource demo_refresh_request = []"
    by (simp_all add: demo_refresh_request_def demo_request_def)
  have v: "send_validate_refresh demo_env 6 ''app'' ''JWT.j2.sig'' ?s = (Inr (first_token True), ?s)"
    by (simp add: send_validate_refresh_def validate_refresh_token_def first_row refresh_jwt_ok_def shard_def shard_index_def
        route_def)
      (simp add: issued_server_def warm_server_def demo_server_def demo_actor_def demo_env_def first_token_def token_new_def)
  have m: "send_materialize demo_env 6 (demo_public True) ?s = (Inr (), ?s)"
    by (simp add: send_materialize_def materialize_cimd_client_def)
  have sc: "refresh_scope demo_refresh_request (first_token True) = Inr ''read''"
    by (simp add: refresh_scope_def q first_token_def token_new_def)
  have f: "refresh_family ''nf'' (first_token True) ?s = (Inr ''fam'', ?s)" "tk_client_id (first_token True) = ''app''"
    by (simp_all add: refresh_family_def first_token_def token_new_def)
  have g: "supports_grant_type demo_libs1 (demo_public True) ''refresh_token''"
    by (simp add: supports_grant_type_def demo_grants)
  have "\<exists>t s'. send_create demo_env 6 other_fresh ''app'' (refresh_msg demo_env demo_refresh_request (first_token True)
      ''read'' ''fam'' (refresh_old_cnf demo_env (first_token True))) rotated_server = (Inr t, s')"
    by (simp add: issue_defs refresh_msg_def rotated_server_def warm_server_def demo_server_def used_db_def grant_db_def
        first_token_def db_empty_def user_new_def other_fresh_def q)
  then show ?thesis
    by (auto simp: handle_refresh_token_grant_def rotate_refresh_token_def andThen_def ret_def q v m sc f g warm_resolve demo_revoke Let_def)
qed


lemma refresh_rotated_once_witness:
  "\<exists>rep s1. handle_refresh_token_grant demo_env 6 other_fresh ''nf'' demo_refresh_request no_mtls (issued_server True) = (Inr rep, s1) \<and>
     isl (fst (handle_refresh_token_grant demo_env 7 demo_fresh ''nf'' demo_refresh_request no_mtls s1))"
proof -
  obtain rep s1 where h: "handle_refresh_token_grant demo_env 6 other_fresh ''nf'' demo_refresh_request no_mtls (issued_server True) =
     (Inr rep, s1)" using demo_refresh by blast
  have q: "rq_refresh_token demo_refresh_request = Some ''JWT.j2.sig''" by (simp add: demo_refresh_request_def)
  from refresh_rotated_once [OF h q _ evolves_refl q] first_row normal_first h show ?thesis by auto
qed

definition demo_svc_request :: token_request where
  "demo_svc_request = demo_request\<lparr>rq_client_id := ''svc'', rq_scope := Some ''write''\<rparr>"

definition demo_device :: device_authorization where
  "demo_device = \<lparr>da_id = ''d1'', da_device_code = ''dev'', da_user_code = ''UC'', da_client_id = ''svc'', da_scope = ''read'',
     da_created_at = 0, da_expires_at = secs 600, da_interval_seconds = 5, da_approved = True, da_denied = False, da_used = False,
     da_user_id = Some ''u''\<rparr>"

text \<open>The confidential client, enabled or disabled by an administrator, with an approved device code.\<close>
definition service_server :: "bool \<Rightarrow> server" where
  "service_server e = \<lparr>sv_db = db_empty\<lparr>db_clients := [demo_svc\<lparr>cl_enabled := e\<rparr>], db_users := [user_new 0 ''u'' ''alice'' ''h'' ''e''],
     db_devices := [demo_device]\<rparr>, sv_shards = [demo_actor], sv_clients = \<lparr>cla_cache = []\<rparr>, sv_jti = guard_default, sv_dpop = None,
     sv_penalty = None, sv_par = Map.empty\<rparr>"

definition served :: "bool \<Rightarrow> server" where
  "served e = (service_server e)\<lparr>sv_clients := insert_cached_client 5 (demo_svc\<lparr>cl_enabled := e\<rparr>) \<lparr>cla_cache = []\<rparr>\<rparr>"

lemma service_fields [simp]:
  "rq_client_id demo_svc_request = ''svc''" "rq_scope demo_svc_request = Some ''write''"
  "rq_resource demo_svc_request = []" "rq_client_secret demo_svc_request = Some ''s3cret''"
  "cl_client_secret demo_svc = ''s3cret''" "cl_token_endpoint_auth_method demo_svc = ''client_secret_basic''"
  "cl_scope demo_svc = ''read write''" "cl_jwks demo_svc = []" "cl_jwks_uri demo_svc = []"
  "is_public (demo_svc\<lparr>cl_enabled := e\<rparr>) = False" "get_grant_types L (demo_svc\<lparr>cl_enabled := e\<rparr>) = get_grant_types L demo_svc"
  by (simp_all add: demo_svc_request_def demo_request_def demo_svc_def client_new_def is_public_def get_grant_types_def)

lemma service_resolve:
  "send_resolve demo_env 5 ''svc'' (service_server e) = (Inr (demo_svc\<lparr>cl_enabled := e\<rparr>), served e)"
  by (simp add: send_resolve_def resolve_client_def service_server_def enabled_fetcher_def cimd_url_target_def Let_def
      get_client_handler_def get_cached_client_def lru_get_def get_client_def demo_agent_def served_def)

lemma service_authenticate:
  assumes "rq_client_secret req = Some ''s3cret''"
  shows "authenticate demo_env 5 (demo_svc\<lparr>cl_enabled := e\<rparr>) req no_mtls (served e) = (Inr (), served e)"
  using assms
  by (simp add: authenticate_def resolve_client_jwks_def authenticate_confidential_client_def client_secret_matches_def served_def
      service_server_def Let_def)

lemma service_materialize: "send_materialize demo_env 5 (demo_svc\<lparr>cl_enabled := e\<rparr>) s = (Inr (), s)"
  by (simp add: send_materialize_def materialize_cimd_client_def)

lemma demo_client_credentials:
  "\<exists>t s'. handle_client_credentials_grant demo_env 5 demo_fresh demo_svc_request None None no_mtls (service_server e) =
     (Inr (Issued (token_response_from t)), s') \<and> db_tokens (sv_db s') = [t] \<and> token_is_valid 6 t"
proof -
  let ?c = "demo_svc\<lparr>cl_enabled := e\<rparr>"
  have g: "supports_grant_type demo_libs1 ?c ''client_credentials''" by (simp add: supports_grant_type_def demo_grants)
  have sc: "validate_scope_subset ''write'' ''read write'' = Inr ()"
    by (simp add: validate_scope_subset_iff) (simp add: split_whitespace_def is_ws_def)
  have "\<exists>t s'. send_create demo_env 5 demo_fresh ''svc'' (client_credentials_msg demo_env ?c demo_svc_request ''write'' None None)
      (served e) = (Inr t, s') \<and> db_tokens (sv_db s') = [t] \<and> token_is_valid 6 t"
    by (simp add: issue_defs client_credentials_msg_def served_def service_server_def db_empty_def user_new_def demo_fresh_def
        token_is_valid_def token_is_expired_def secs_def is_ai_agent_def demo_agent_def)
  then show ?thesis
    by (auto simp: handle_client_credentials_grant_def andThen_def ret_def g sc service_resolve service_authenticate
        service_materialize apply_dpop_token_type_def cnf_jkt_def)
qed

lemma client_credentials_sound_witness:
  "\<exists>resp s' t. handle_client_credentials_grant demo_env 5 demo_fresh demo_svc_request None None no_mtls (service_server True) =
     (Inr (Issued resp), s') \<and> get_token_by_access_token (tr_access_token resp) (sv_db s') = Some t \<and>
     tk_user_id t = None \<and> tk_refresh_token t = None"
proof -
  obtain t s' where h: "handle_client_credentials_grant demo_env 5 demo_fresh demo_svc_request None None no_mtls
      (service_server True) = (Inr (Issued (token_response_from t)), s')" using demo_client_credentials by blast
  from client_credentials_sound [OF h] h show ?thesis by auto
qed

text \<open>A disabled client is still served: the token endpoint never looks at the flag an administrator
  clears, so a disabled client obtains a fresh, valid token.\<close>
theorem disabled_client_still_served:
  "\<exists>c resp t s'. get_client ''svc'' (sv_db (service_server False)) = Some c \<and> \<not> cl_enabled c \<and>
     handle_client_credentials_grant demo_env 5 demo_fresh demo_svc_request None None no_mtls (service_server False) =
       (Inr (Issued resp), s') \<and> db_tokens (sv_db s') = [t] \<and> tr_access_token resp = tk_access_token t \<and> token_is_valid 6 t"
proof -
  have "\<exists>c. get_client ''svc'' (sv_db (service_server False)) = Some c \<and> \<not> cl_enabled c"
    by (simp add: service_server_def get_client_def)
  then show ?thesis using demo_client_credentials [of False] by force
qed

definition demo_device_request :: token_request where
  "demo_device_request = demo_svc_request\<lparr>rq_device_code := Some ''dev''\<rparr>"

lemma demo_device_grant:
  "\<exists>resp s'. handle_device_code_grant demo_env 5 demo_fresh demo_device_request no_mtls (service_server True) = (Inr (Issued resp), s')"
proof -
  let ?c = "demo_svc\<lparr>cl_enabled := True\<rparr>"
  have q: "rq_device_code demo_device_request = Some ''dev''" "rq_client_id demo_device_request = ''svc''"
    "rq_client_secret demo_device_request = Some ''s3cret''"
    by (simp_all add: demo_device_request_def)
  have g: "supports_grant_type demo_libs1 ?c ''device_code''" by (simp add: supports_grant_type_def demo_grants)
  have d: "get_device_authorization_by_device_code ''dev'' (sv_db (served True)) = Some demo_device"
    by (simp add: served_def service_server_def get_device_authorization_by_device_code_def demo_device_def)
  have r: "device_refusal 5 demo_device_request demo_device = None" "da_user_id demo_device = Some ''u''" "da_scope demo_device = ''read''"
    by (simp_all add: device_refusal_none q demo_device_def device_is_expired_def secs_def)
  have k: "\<exists>t s'. send_create demo_env 5 demo_fresh ''svc'' (device_msg demo_env ?c demo_device_request demo_device ''u'') (served True) = (Inr t, s')"
    by (simp add: issue_defs device_msg_def served_def service_server_def db_empty_def user_new_def demo_fresh_def q r
        supports_grant_type_def demo_grants)
  then obtain t s' where k: "send_create demo_env 5 demo_fresh ''svc'' (device_msg demo_env ?c demo_device_request demo_device ''u'')
      (served True) = (Inr t, s')" by blast
  show ?thesis
    by (simp add: handle_device_code_grant_def device_issue_def andThen_def ret_def q g d r k service_resolve
        service_authenticate [of demo_device_request True, simplified] service_authenticate service_materialize with_id_token_def has_scope_def
        send_mark_device_used_def mark_device_authorization_used_def)
      (simp add: split_whitespace_def is_ws_def)
qed

lemma device_grant_sound_witness:
  "\<exists>resp s' t. handle_device_code_grant demo_env 5 demo_fresh demo_device_request no_mtls (service_server True) = (Inr (Issued resp), s') \<and>
     get_token_by_access_token (tr_access_token resp) (sv_db s') = Some t \<and> tk_user_id t \<noteq> None"
proof -
  obtain resp s' where h: "handle_device_code_grant demo_env 5 demo_fresh demo_device_request no_mtls (service_server True) =
      (Inr (Issued resp), s')" using demo_device_grant by blast
  from device_grant_sound [OF h] h show ?thesis by auto
qed

end
