(* ===== verification/Exchange_Laws.thy ===== *)
theory Exchange_Laws
  imports Token_Exchange Grant_Demo
begin

text \<open>
  What the token-exchange grant guarantees: it only attenuates.  A new token is issued to the
  authenticated, confidential client that asked, for the subject of a presented, verified
  token; it has no scope and no audience the subject token lacked, no refresh token, keeps the
  subject's key binding, and crosses from one client to another only with the consent of the
  first.  Transaction tokens and identity-chaining assertions are signed without touching the store.
\<close>

section \<open>The exchange moves the database by statements\<close>

lemma stepwise_exchange_issue [stepwise_intros]:
  "stepwise (exchange_issue E now fr uuid ctx ty scope resources details)"
proof -
  have "stepwise (exchange_access_token E now fr ctx ty scope resources details)"
    unfolding exchange_access_token_def by (intro stepwise_intros)
  then show ?thesis by (auto simp: stepwise_def exchange_issue_def)
qed

lemma stepwise_actor_token [stepwise_intros]: "stepwise (resolve_actor_token E now req)"
  unfolding resolve_actor_token_def by (cases "rq_actor_token req") (auto intro!: stepwise_intros)

lemma stepwise_exchange [stepwise_intros]: "stepwise (exchange E now fr uuid req cnf dpop mt)"
  unfolding exchange_def handle_token_exchange_grant_def Let_def by (intro stepwise_intros)

section \<open>Policy\<close>

lemma dedup_first_set: "set (dedup_first seen xs) = set xs - set seen"
  by (induction seen xs rule: dedup_first.induct) auto

lemma dedup_first_distinct: "distinct (dedup_first seen xs)"
  by (induction seen xs rule: dedup_first.induct) (auto simp: dedup_first_set)

lemma requested_resources_ok:
  assumes "resolve_requested_resources E rs as subject_aud cid d = Inr out" "subject_aud \<noteq> [cid]"
  shows "set out \<subseteq> set subject_aud"
  using assms by (auto simp: resolve_requested_resources_def Let_def result_simps list_all_iff split: if_splits)

lemma exchange_scope_ok:
  assumes "exchange_scope ctx = Inr scope"
  shows "set (split_whitespace scope) \<subseteq> set (split_whitespace (cl_scope (xc_client ctx)))"
    "\<not> rt_is_id_token (xc_subject ctx) \<Longrightarrow> set (split_whitespace scope) \<subseteq> set (split_whitespace (rt_scope (xc_subject ctx)))"
  using assms unfolding exchange_scope_def
  by (auto simp: result_simps validate_scope_subset_iff split: if_splits option.splits)

lemma delegation_chain_ok:
  assumes "delegation_chain E actor existing = Inr chain"
  shows "depth chain \<le> ag_max_delegation_depth (en_agent E)" "actor_sub chain = rt_sub actor"
proof -
  have 1: "validate_chain chain (ag_max_delegation_depth (en_agent E)) = Inr ()"
    using assms by (cases "validate_chain chain (ag_max_delegation_depth (en_agent E))") (auto simp: delegation_chain_def Let_def result_simps)
  then show "depth chain \<le> ag_max_delegation_depth (en_agent E)"
    by (simp add: validate_chain_def split: if_splits)
  show "actor_sub chain = rt_sub actor"
    using assms by (cases existing; cases "from_value (the existing)") (auto simp: delegation_chain_def Let_def result_simps actor_new_def)
qed

text \<open>The client the subject token was issued to lets the requesting client act: it is the same
  client, or it lists the requester, or (for an actor) the subject token names the actor itself.\<close>
definition exchange_consent :: "env \<Rightarrow> token_request \<Rightarrow> resolved_token \<Rightarrow> resolved_token option \<Rightarrow> db \<Rightarrow> bool" where
  "exchange_consent E req subject actor d =
     ((\<exists>cid c. rt_client_id subject = Some cid \<and> get_client cid d = Some c \<and> allows_actor (en_libs E) c (rq_client_id req)) \<or>
      (case actor of None \<Rightarrow> rt_client_id subject = Some (rq_client_id req)
       | Some a \<Rightarrow> may_act_allows (oc_issuer (en_oidc E)) subject a))"

lemma exchange_act_ok:
  assumes "exchange_act E ctx d = Inr act_chain"
  shows "exchange_consent E (xc_req ctx) (xc_subject ctx) (xc_actor ctx) d"
    "xc_actor ctx = None \<Longrightarrow> act_chain = rt_act (xc_subject ctx)"
    "xc_actor ctx = Some a \<Longrightarrow> \<exists>chain. act_chain = Some (to_value chain) \<and> actor_sub chain = rt_sub a \<and>
       depth chain \<le> ag_max_delegation_depth (en_agent E)"
  using assms delegation_chain_ok
  by (auto simp: exchange_act_def exchange_consent_def enforce_cross_client_exchange_def authorize_delegation_def result_simps bind_eq_Some_conv
      split: option.splits if_splits)

lemma proof_of_possession_ok:
  assumes "enforce_subject_proof_of_possession subject cnf tp = Inr ()"
  shows "json_str (rt_cnf subject) ''jkt'' = Some k \<Longrightarrow> json_str cnf ''jkt'' = Some k"
    "json_str (rt_cnf subject) ''x5t#S256'' = Some x \<Longrightarrow> tp = Some x"
  using assms by (auto simp: enforce_subject_proof_of_possession_def result_simps split: option.splits)

section \<open>A successful exchange, taken apart\<close>

lemma resolve_token_ok:
  assumes "resolve_token E now raw ty which cid allow s = (Inr r, s')"
  shows "s' = s"
proof -
  have "s1 = s" if "resolve_refresh E now raw which cid s = (Inr r, s1)" for s1
    using that validate_refresh_ok(1) by (auto simp: resolve_refresh_def result_simps)
  then show ?thesis using assms by (auto simp: resolve_token_def split: if_splits)
qed

lemma actor_token_ok:
  assumes "resolve_actor_token E now req s = (Inr actor, s')"
  shows "s' = s" "actor = Some a \<Longrightarrow> rt_client_id a = Some (rq_client_id req)"
  using assms resolve_token_ok by (auto simp: resolve_actor_token_def result_simps split: option.splits)

lemma exchange_parts:
  assumes "exchange E now fr uuid req cnf dpop mt s = (Inr rep, s')"
  obtains c st ty subject actor s1 where "supports_grant_type (en_libs E) c grant_token_exchange" "\<not> is_public c"
    and "cl_client_id c \<noteq> [] \<Longrightarrow> client_evidence E now c req mt (sv_jti s)"
    and "db_tokens (sv_db s1) = db_tokens (sv_db s)" "rq_subject_token req = Some st" "rq_subject_token_type req = Some ty"
    and "resolve_token E now st ty ''subject'' (rq_client_id req) (is_id_jag_request req (en_agent E)) s1 = (Inr subject, s1)"
    and "enforce_subject_proof_of_possession subject cnf (mt_thumbprint mt) = Inr ()"
    and "\<And>a. actor = Some a \<Longrightarrow> rt_client_id a = Some (rq_client_id req)"
    and "handle_token_exchange_grant E now fr uuid
      \<lparr>xc_req = req, xc_client = c, xc_cnf_claim = cnf, xc_dpop_present = dpop, xc_subject = subject, xc_actor = actor, xc_act = None\<rparr> s1 = (Inr rep, s')"
proof -
  obtain c st ty subject actor sa sb s1 s2 s3 where r: "send_resolve E now (rq_client_id req) s = (Inr c, sa)"
    and g: "supports_grant_type (en_libs E) c grant_token_exchange" "\<not> is_public c"
    and a: "authenticate E now c req mt sa = (Inr (), sb)" and m: "send_materialize E now c sb = (Inr (), s1)"
    and q: "rq_subject_token req = Some st" "rq_subject_token_type req = Some ty"
    and t: "resolve_token E now st ty ''subject'' (rq_client_id req) (is_id_jag_request req (en_agent E)) s1 = (Inr subject, s2)"
    and p: "enforce_subject_proof_of_possession subject cnf (mt_thumbprint mt) = Inr ()"
    and k: "resolve_actor_token E now req s2 = (Inr actor, s3)"
    and h: "handle_token_exchange_grant E now fr uuid
      \<lparr>xc_req = req, xc_client = c, xc_cnf_claim = cnf, xc_dpop_present = dpop, xc_subject = subject, xc_actor = actor, xc_act = None\<rparr> s3 = (Inr rep, s')"
    using assms by (auto simp: exchange_def result_simps)
  have same: "s2 = s1" "s3 = s1" using resolve_token_ok [OF t] actor_token_ok(1) [OF k] by simp_all
  have "client_evidence E now c req mt (sv_jti s)" if "cl_client_id c \<noteq> []"
    using authenticate_ok(1) [OF a that] resolve_jti [OF r] by simp
  moreover have "db_tokens (sv_db s1) = db_tokens (sv_db s)"
    using materialize_keeps(1) [OF m] authenticate_keeps(1) [OF a] resolve_keeps(1) [OF r] by simp
  ultimately show ?thesis
    using g q p h t actor_token_ok(2) [OF k] unfolding same by (intro that [of c s1 st ty subject actor]) auto
qed

lemma exchange_scope_act [simp]: "exchange_scope (ctx\<lparr>xc_act := a\<rparr>) = exchange_scope ctx"
  by (simp add: exchange_scope_def split: option.split)

lemma exchange_cnf_act [simp]: "exchange_cnf (ctx\<lparr>xc_act := a\<rparr>) = exchange_cnf ctx"
  by (simp add: exchange_cnf_def split: option.split)

lemma exchange_grant_parts:
  assumes "handle_token_exchange_grant E now fr uuid ctx s = (Inr rep, s')"
  obtains act_chain ty resources scope details where "exchange_act E ctx (sv_db s) = Inr act_chain"
    and "\<exists>as. resolve_requested_resources E (rq_resource (xc_req ctx)) as (rt_aud (xc_subject ctx))
      (unwrap_or (rt_client_id (xc_subject ctx)) []) (sv_db s) = Inr resources"
    and "exchange_scope ctx = Inr scope"
    and "ty = unwrap_or (rq_requested_token_type (xc_req ctx)) access_token_type"
    and "exchange_issue E now fr uuid (ctx\<lparr>xc_act := act_chain\<rparr>) ty scope resources details s = (Inr rep, s')"
  using assms by (fastforce simp: handle_token_exchange_grant_def Let_def result_simps)

section \<open>Exchanges only attenuate\<close>

lemma send_create_delegation:
  assumes "send_create E now fr key m s = (Inr t, s')"
  shows "tk_act t = map_option (json_to_string (en_libs E)) (ctm_act m)"
    "tk_cnf t = map_option (json_to_string (en_libs E)) (ctm_cnf m)"
    "tk_resource t = (if ctm_resources m = [] then None else Some (strings_to_json (en_libs E) (ctm_resources m)))"
proof -
  obtain d' where c: "create_token (en_libs E) (en_jwt E) now fr (shard E key s) m (sv_db s) = (Inr t, d')"
    using assms by (auto simp: send_create_def split: prod.splits)
  obtain t0 where t: "t = with_delegation (en_libs E) t0 (ctm_act m) (ctm_cnf m) (ctm_resources m)"
    using c by (rule create_token_ok)
  show "tk_act t = map_option (json_to_string (en_libs E)) (ctm_act m)"
    "tk_cnf t = map_option (json_to_string (en_libs E)) (ctm_cnf m)"
    "tk_resource t = (if ctm_resources m = [] then None else Some (strings_to_json (en_libs E) (ctm_resources m)))"
    unfolding t by (simp_all add: with_delegation_def)
qed

lemma exchange_issue_ok:
  assumes "exchange_issue E now fr uuid ctx ty scope resources details s = (Inr rep, s')" "db_tokens (sv_db s') \<noteq> db_tokens (sv_db s)"
  obtains t xr where "rep = Exchanged xr" "xr_access_token xr = tk_access_token t"
    and "send_create E now fr (rq_client_id (xc_req ctx)) (exchange_msg ctx scope resources details) s = (Inr t, s')"
    and "xr_token_type xr = (if cnf_jkt (exchange_cnf ctx) \<noteq> None then ''DPoP'' else ''Bearer'')"
  using assms by (auto simp: exchange_issue_def exchange_access_token_def result_simps split: if_splits)


section \<open>A run\<close>

definition exchange_client :: client where
  "exchange_client = demo_svc\<lparr>cl_grant_types := grant_token_exchange\<rparr>"

definition subject_row :: token where
  "subject_row = token_new 0 ''r0'' ''sub'' None ''svc'' (Some ''u'') ''read write'' 3600 None"

definition exchange_server :: server where
  "exchange_server = (service_server True)\<lparr>sv_db := db_empty\<lparr>db_clients := [exchange_client],
     db_users := [user_new 0 ''u'' ''alice'' ''h'' ''e''], db_tokens := [subject_row]\<rparr>\<rparr>"

definition exchange_served :: server where
  "exchange_served = exchange_server\<lparr>sv_clients := insert_cached_client 5 exchange_client \<lparr>cla_cache = []\<rparr>\<rparr>"

definition exchange_request :: token_request where
  "exchange_request = demo_svc_request\<lparr>rq_subject_token := Some ''sub'', rq_subject_token_type := Some access_token_type\<rparr>"

lemma exchange_fields [simp]:
  "cl_client_id exchange_client = ''svc''" "is_public exchange_client = False" "cl_cimd_managed exchange_client = False"
  "cl_scope exchange_client = ''read write''" "cl_client_secret exchange_client = ''s3cret''" "cl_jwks exchange_client = []"
  "cl_jwks_uri exchange_client = []" "cl_token_endpoint_auth_method exchange_client = ''client_secret_basic''"
  "rq_client_id exchange_request = ''svc''" "rq_subject_token exchange_request = Some ''sub''"
  "rq_subject_token_type exchange_request = Some access_token_type" "rq_actor_token exchange_request = None"
  "rq_requested_token_type exchange_request = None" "rq_resource exchange_request = []" "rq_audience exchange_request = []"
  "rq_scope exchange_request = Some ''write''" "rq_authorization_details exchange_request = None"
  "rq_client_secret exchange_request = Some ''s3cret''"
  by (simp_all add: exchange_client_def exchange_request_def is_public_def demo_svc_def client_new_def demo_svc_request_def demo_request_def)

lemma exchange_supported: "supports_grant_type demo_libs1 exchange_client grant_token_exchange"
  unfolding supports_grant_type_def by code_simp

lemma exchange_client_known:
  "send_resolve demo_env 5 ''svc'' exchange_server = (Inr exchange_client, exchange_served)"
  "authenticate demo_env 5 exchange_client exchange_request no_mtls exchange_served = (Inr (), exchange_served)"
  "send_materialize demo_env 5 exchange_client exchange_served = (Inr (), exchange_served)"
proof -
  show "send_resolve demo_env 5 ''svc'' exchange_server = (Inr exchange_client, exchange_served)"
    by (simp add: send_resolve_def resolve_client_def exchange_server_def service_server_def enabled_fetcher_def cimd_url_target_def
        Let_def get_client_handler_def get_cached_client_def lru_get_def get_client_def demo_agent_def exchange_served_def)
  show "authenticate demo_env 5 exchange_client exchange_request no_mtls exchange_served = (Inr (), exchange_served)"
    by (simp add: authenticate_def resolve_client_jwks_def authenticate_confidential_client_def client_secret_matches_def
        exchange_served_def exchange_server_def service_server_def Let_def)
  show "send_materialize demo_env 5 exchange_client exchange_served = (Inr (), exchange_served)"
    by (simp add: send_materialize_def materialize_cimd_client_def)
qed

definition demo_subject :: resolved_token where
  "demo_subject = \<lparr>rt_sub = ''u'', rt_client_id = Some ''svc'', rt_user_id = Some ''u'', rt_scope = ''read write'', rt_aud = [''svc''],
     rt_act = None, rt_may_act = None, rt_sub_profile = None, rt_authorization_details = None, rt_cnf = None,
     rt_is_id_token = False, rt_txn = None\<rparr>"

lemma demo_subject_resolved:
  "resolve_token demo_env 5 ''sub'' access_token_type ''subject'' ''svc'' False exchange_served = (Inr demo_subject, exchange_served)"
proof -
  have n: "normalize_token_key ''sub'' = ''sub''"
    by (simp add: normalize_token_key_def trim_def trim_start_def trim_end_def is_ws_def strip_prefix_opt_def Let_def)
  have r: "lookup_token ''sub'' (sv_db exchange_served) = Some subject_row"
    by (simp add: lookup_token_def n get_token_by_access_token_def exchange_served_def exchange_server_def subject_row_def token_new_def)
  have u: "decode_unverified f ''sub'' = None" for f by (simp add: decode_unverified_def)
  show ?thesis
    by (simp add: resolve_token_def resolve_access_def r resolved_from_row_def u demo_subject_def row_audience_def Let_def)
      (simp add: subject_row_def token_new_def token_is_valid_def token_is_expired_def secs_def token_resources_def
        token_actor_value_def token_cnf_value_def)
qed

lemma demo_exchange:
  "\<exists>rep s'. exchange demo_env 5 demo_fresh ''uu'' exchange_request None False no_mtls exchange_server = (Inr rep, s') \<and>
     db_tokens (sv_db s') \<noteq> db_tokens (sv_db exchange_server)"
proof -
  let ?ctx = "\<lparr>xc_req = exchange_request, xc_client = exchange_client, xc_cnf_claim = None, xc_dpop_present = False,
    xc_subject = demo_subject, xc_actor = None, xc_act = None\<rparr>"
  have sc: "exchange_scope ?ctx = Inr ''write''"
    by (simp add: exchange_scope_def demo_subject_def result_simps validate_scope_subset_iff) (simp add: split_whitespace_def is_ws_def)
  have k: "\<exists>t s'. send_create demo_env 5 demo_fresh ''svc'' (exchange_msg ?ctx ''write'' [] None) exchange_served = (Inr t, s') \<and>
      db_tokens (sv_db s') \<noteq> db_tokens (sv_db exchange_server)"
    by (simp add: issue_defs exchange_msg_def exchange_cnf_def demo_subject_def exchange_served_def exchange_server_def service_server_def
        db_empty_def user_new_def demo_fresh_def subject_row_def)
  have h: "\<exists>rep s'. handle_token_exchange_grant demo_env 5 demo_fresh ''uu'' ?ctx exchange_served = (Inr rep, s') \<and>
      db_tokens (sv_db s') \<noteq> db_tokens (sv_db exchange_server)"
  proof -
    obtain t s' where t: "send_create demo_env 5 demo_fresh ''svc'' (exchange_msg ?ctx ''write'' [] None) exchange_served = (Inr t, s')"
      "db_tokens (sv_db s') \<noteq> db_tokens (sv_db exchange_server)" using k by blast
    have a: "exchange_act demo_env ?ctx (sv_db exchange_served) = Inr None"
      by (simp add: exchange_act_def enforce_cross_client_exchange_def demo_subject_def)
    have r: "resolve_requested_resources demo_env [] [] [''svc''] ''svc'' (sv_db exchange_served) = Inr []"
      by (simp add: resolve_requested_resources_def)
    have f: "rt_aud demo_subject = [''svc'']" "rt_client_id demo_subject = Some ''svc''" "rt_authorization_details demo_subject = None"
      by (simp_all add: demo_subject_def)
    have i: "access_token_type \<noteq> txn_token_type" "access_token_type \<noteq> jwt_type" "access_token_type \<noteq> id_jag_type"
      by (simp_all add: access_token_type_def txn_token_type_def jwt_type_def id_jag_type_def)
    show ?thesis
      using t by (simp add: handle_token_exchange_grant_def andThen_def ret_def a r f sc resolve_authorization_details_def Let_def
          exchange_issue_def exchange_access_token_def i)
  qed
  have j: "is_id_jag_request exchange_request demo_agent = False" by (simp add: is_id_jag_request_def)
  have p: "enforce_subject_proof_of_possession demo_subject None (mt_thumbprint no_mtls) = Inr ()"
    by (simp add: enforce_subject_proof_of_possession_def demo_subject_def json_str_def)
  have n: "access_token_type \<noteq> txn_token_type" by (simp add: access_token_type_def txn_token_type_def)
  show ?thesis
    using h by (simp add: exchange_def andThen_def ret_def exchange_client_known exchange_supported demo_subject_resolved j p n
        resolve_actor_token_def)
qed


section \<open>Transaction tokens\<close>

text \<open>A transaction token is never issued for an ID token: the grant demands a scope, and the scope of
  an ID token is empty, so the subset check of the issuer refuses every one.\<close>
lemma id_token_gives_no_txn_token:
  assumes "resolve_id_token E now raw ''subject'' cid d = Inr subject" "xc_subject ctx = subject" "exchange_scope ctx = Inr scope"
  shows "isl (txn_token_issue E now uuid ctx)"
proof -
  have "rt_scope subject = [] \<and> rt_is_id_token subject"
    using assms(1) by (auto simp: resolve_id_token_def result_simps)
  then have s: "rt_scope (xc_subject ctx) = []" "rt_is_id_token (xc_subject ctx)" by (simp_all add: assms(2))
  then obtain sc where sc: "rq_scope (xc_req ctx) = Some sc" "validate_scope_subset sc (cl_scope (xc_client ctx)) = Inr ()"
    using assms(3) by (auto simp: exchange_scope_def result_simps)
  have "validate_scope_subset sc [] \<noteq> Inr ()"
    using sc(2) by (auto simp: validate_scope_subset_iff split_whitespace_def)
  then have "txn_scope ctx \<noteq> Inr x" for x using sc(1) s(1) by (auto simp: txn_scope_def result_simps)
  then show ?thesis
    by (cases "txn_token_issue E now uuid ctx") (auto simp: txn_token_issue_def result_simps)
qed

end
