(* ===== verification/Jwt_Bearer.thy ===== *)
theory Jwt_Bearer
  imports Exchange_Laws
begin

text \<open>
  The JWT authorization grant (RFC 7523, \<open>handlers/jwt_bearer.rs\<close>): an assertion of a trusted
  issuer is verified with the issuer's published key and exchanged for an access token of the
  subject it names; an assertion of type \<open>oauth-id-jag+jwt\<close> also caps scope, resources and
  authorization details and may carry a delegation chain.
\<close>

section \<open>Verifying an assertion\<close>

definition grant_jwt_bearer :: string where
  "grant_jwt_bearer = ''urn:ietf:params:oauth:grant-type:jwt-bearer''"

definition allowed_algs :: "jws_alg list" where
  "allowed_algs = [ARS256, AES256, APS256]"

definition iat_skew_secs :: int where
  "iat_skew_secs = 60"

text \<open>The payload of a JWT, unverified: only used to learn which issuer's key should verify it.\<close>
definition decode_unverified_claims :: "env \<Rightarrow> string \<Rightarrow> json result" where
  "decode_unverified_claims E assertion =
     (case split_char CHR ''.'' assertion of
        [_, payload, _] \<Rightarrow>
          bindR (ok_or (en_b64_url_decode E payload) (invalid_grant ''assertion payload is not valid base64url'')) (\<lambda>bytes.
            ok_or (json_from_str (en_libs E) bytes) (invalid_grant ''assertion payload is not valid JSON''))
      | _ \<Rightarrow> Inl (invalid_grant ''assertion is not a well-formed JWS Compact Serialization''))"

definition jwks_component :: "json \<Rightarrow> string \<Rightarrow> string result" where
  "jwks_component key name = ok_or (claim_str key name) (invalid_grant (''issuer JWKS key is missing '' @ quoted name))"

definition select_key :: "jose \<Rightarrow> json \<Rightarrow> jose_header \<Rightarrow> jose_key result" where
  "select_key J jwks header =
     bindR (ok_or (Option.bind (json_get jwks ''keys'') as_array)
       (invalid_grant (''trusted issuer JWKS has no '' @ quoted ''keys'' @ '' array''))) (\<lambda>keys.
     bindR (case jh_kid header of
              Some kid \<Rightarrow> ok_or (find (\<lambda>k. claim_str k ''kid'' = Some kid) keys)
                (invalid_grant (''no key with the assertion'' @ [CHR 0x27] @ ''s kid in the issuer JWKS''))
            | None \<Rightarrow> ok_or (find (\<lambda>k. claim_str k ''kty'' = Some (if jh_alg header = AES256 then ''EC'' else ''RSA'')) keys)
                (invalid_grant (''no usable key in the trusted issuer'' @ [CHR 0x27] @ ''s JWKS''))) (\<lambda>key.
     if claim_str key ''kty'' = Some ''RSA'' then
       bindR (jwks_component key ''n'') (\<lambda>n.
       bindR (jwks_component key ''e'') (\<lambda>e.
       bindR (ensure (\<not> isl (jose_key_ok J (RsaComponents n e))) (invalid_grant ''issuer JWKS RSA key is malformed'')) (\<lambda>_.
         Inr (RsaComponents n e))))
     else if claim_str key ''kty'' = Some ''EC'' then
       bindR (jwks_component key ''x'') (\<lambda>x.
       bindR (jwks_component key ''y'') (\<lambda>y.
       bindR (ensure (\<not> isl (jose_key_ok J (EcComponents x y))) (invalid_grant ''issuer JWKS EC key is malformed'')) (\<lambda>_.
         Inr (EcComponents x y))))
     else Inl (invalid_grant ''issuer JWKS key type is not supported'')))"

definition allowed_audiences_vec :: "libs \<Rightarrow> trusted_issuer \<Rightarrow> string list" where
  "allowed_audiences_vec L t = parse_string_vec L (ti_allowed_audiences t)"

definition verify_assertion ::
  "env \<Rightarrow> instant \<Rightarrow> string \<Rightarrow> jose_header \<Rightarrow> trusted_issuer \<Rightarrow> string \<Rightarrow> json result" where
  "verify_assertion E now assertion header trusted iss =
     bindR (ensure (jh_alg header \<in> set allowed_algs) (invalid_grant ''assertion uses an unsupported signature algorithm'')) (\<lambda>_.
     bindR (ok_or (en_jwks_cache E)
       (error_new ''server_error'' (Some ''JWKS cache is not configured; cannot verify assertions''))) (\<lambda>fetch.
     bindR (map_sum (\<lambda>e. invalid_grant (''could not fetch the trusted issuer'' @ [CHR 0x27] @ ''s JWKS: '' @
              unwrap_or (err_description e) (err_error e))) id (fetch (trim (ti_jwks_uri trusted)))) (\<lambda>jwks.
     bindR (select_key (en_jose E) jwks header) (\<lambda>key.
       map_sum (\<lambda>e. invalid_grant (''assertion validation failed: '' @ e)) id
         (en_decode_ext E now (jh_alg header) key iss
            ([oc_issuer (en_oidc E), token_endpoint_url (en_oidc E)] @ allowed_audiences_vec (en_libs E) trusted)
            [''iss'', ''sub'', ''aud'', ''exp'', ''iat'', ''jti''] assertion)))))"

text \<open>Steps 2 and 3: the trusted issuer of the unverified \<open>iss\<close>, and the verified claims.\<close>
definition trusted_issuer_for :: "env \<Rightarrow> client \<Rightarrow> string \<Rightarrow> db \<Rightarrow> (jose_header \<times> string \<times> trusted_issuer) result" where
  "trusted_issuer_for E c assertion d =
     bindR (ok_or (al_header (en_assertions E) assertion) (invalid_grant ''Malformed assertion JWT header'')) (\<lambda>header.
     bindR (decode_unverified_claims E assertion) (\<lambda>unverified.
     bindR (ok_or (claim_str unverified ''iss'') (invalid_grant ''assertion is missing the iss claim'')) (\<lambda>iss.
     bindR (ok_or (case get_trusted_issuer iss d of Some t \<Rightarrow> if ti_enabled t then Some t else None | None \<Rightarrow> None)
       (invalid_grant ''assertion iss is not a trusted issuer'')) (\<lambda>trusted.
     bindR (ensure (allows_client (en_libs E) trusted (cl_client_id c))
       (invalid_grant ''client is not allowed to use this trusted issuer'')) (\<lambda>_.
       Inr (header, iss, trusted))))))"

definition check_iat :: "instant \<Rightarrow> json \<Rightarrow> unit result" where
  "check_iat now claims =
     bindR (ok_or (Option.bind (json_get claims ''iat'') as_i64_value) (invalid_grant ''assertion iat claim is not a number'')) (\<lambda>iat.
       ensure (iat \<le> timestamp now + iat_skew_secs) (invalid_grant ''assertion iat is in the future''))"

definition grant_failure :: "oauth2_error \<Rightarrow> oauth2_error" where
  "grant_failure e = invalid_grant (unwrap_or (err_description e) [])"

definition jwt_bearer_claims :: "env \<Rightarrow> instant \<Rightarrow> client \<Rightarrow> string \<Rightarrow> (jose_header \<times> trusted_issuer \<times> json) act" where
  "jwt_bearer_claims E now c assertion =
     andThen (\<lambda>s. (trusted_issuer_for E c assertion (sv_db s), s)) (\<lambda>(header, iss, trusted).
     andThen (ret (verify_assertion E now assertion header trusted iss)) (\<lambda>claims.
     andThen (ret (check_iat now claims)) (\<lambda>_.
     andThen (\<lambda>s. apfst (map_sum grant_failure id) (send_jti E now (''jwt-bearer:'' @ iss) claims s)) (\<lambda>_.
       ret (Inr (header, trusted, claims))))))"

section \<open>What the assertion allows\<close>

text \<open>Step 4: the ceilings of an ID-JAG; a plain assertion sets none.\<close>
record assertion_limits =
  al_act :: "json option"
  al_scope_ceiling :: "string option"
  al_resource_ceiling :: "string list"
  al_rar :: "json option"

definition no_limits :: assertion_limits where
  "no_limits = \<lparr>al_act = None, al_scope_ceiling = None, al_resource_ceiling = [], al_rar = None\<rparr>"

fun string_or_array :: "json option \<Rightarrow> string list" where
  "string_or_array (Some (JStr s)) = [s]"
| "string_or_array (Some (JArr items)) = List.map_filter as_str items"
| "string_or_array _ = []"

definition id_jag_chain :: "agent_config \<Rightarrow> json option \<Rightarrow> json option result" where
  "id_jag_chain ag act_claim =
     (case act_claim of
        None \<Rightarrow> Inr None
      | Some v \<Rightarrow>
          bindR (map_sum (\<lambda>e. invalid_grant (''ID-JAG act claim: '' @ actor_error_text e)) id (from_value v)) (\<lambda>chain.
          bindR (map_sum (\<lambda>e. invalid_request (actor_error_text e)) id (validate_chain chain (ag_max_delegation_depth ag))) (\<lambda>_.
            Inr (Some (to_value chain)))))"

definition id_jag_limits :: "agent_config \<Rightarrow> client \<Rightarrow> json option \<Rightarrow> json \<Rightarrow> assertion_limits result" where
  "id_jag_limits ag c cnf claims =
     bindR (ensure (ag_id_jag_enabled ag) (invalid_grant ''ID-JAG assertions are not accepted by this authorization server'')) (\<lambda>_.
     bindR (ok_or (claim_str claims ''client_id'') (invalid_grant ''ID-JAG is missing the client_id claim'')) (\<lambda>asserted.
     bindR (ensure (asserted = cl_client_id c) (invalid_grant ''ID-JAG client_id does not match the authenticated client'')) (\<lambda>_.
     bindR (case json_str (json_get claims ''cnf'') ''jkt'' of
              None \<Rightarrow> Inr ()
            | Some expected \<Rightarrow> ensure (json_str cnf ''jkt'' = Some expected)
                (invalid_grant ''ID-JAG cnf.jkt requires a DPoP proof with a matching key thumbprint'')) (\<lambda>_.
     bindR (id_jag_chain ag (json_get claims ''act'')) (\<lambda>act_claim.
       Inr \<lparr>al_act = act_claim, al_scope_ceiling = claim_str claims ''scope'',
            al_resource_ceiling = string_or_array (json_get claims ''resource''),
            al_rar = json_get claims ''authorization_details''\<rparr>)))))"

definition assertion_limits_of :: "agent_config \<Rightarrow> client \<Rightarrow> json option \<Rightarrow> jose_header \<Rightarrow> json \<Rightarrow> assertion_limits result" where
  "assertion_limits_of ag c cnf header claims =
     (if jh_typ header = Some id_jag_typ then id_jag_limits ag c cnf claims else Inr no_limits)"

text \<open>Steps 5 and 7.\<close>
definition assertion_scope :: "client \<Rightarrow> string option \<Rightarrow> string option \<Rightarrow> string result" where
  "assertion_scope c requested limit =
     bindR (case (requested, limit) of
              (Some r, Some ceil) \<Rightarrow> bindR (validate_scope_subset r ceil) (\<lambda>_. Inr r)
            | (Some r, None) \<Rightarrow> Inr r
            | (None, Some ceil) \<Rightarrow> Inr ceil
            | (None, None) \<Rightarrow> Inr (cl_scope c)) (\<lambda>scope.
     bindR (validate_scope_subset scope (cl_scope c)) (\<lambda>_. Inr scope))"

definition assertion_details :: "json option \<Rightarrow> json option \<Rightarrow> json option result" where
  "assertion_details asserted requested =
     (case (asserted, requested) of
        (Some a, Some r) \<Rightarrow> if a \<noteq> r then Inl (details_error (''authorization_details is not a subset of the assertion'' @ [CHR 0x27] @ ''s'')) else Inr (Some a)
      | (Some a, None) \<Rightarrow> Inr (Some a)
      | (None, r) \<Rightarrow> Inr r)"

text \<open>Step 8: the local user of the subject, provisioned when the issuer allows it.\<close>
definition provision_subject :: "instant \<Rightarrow> string \<Rightarrow> string \<Rightarrow> string act" where
  "provision_subject now sub email s =
     (case run_db (save_user \<lparr>us_id = sub, us_username = sub, us_password_hash = [], us_email = email, us_enabled = True,
             us_role = ''user'', us_created_at = now, us_updated_at = now\<rparr>) s of
        (Inr _, s1) \<Rightarrow> (Inr sub, s1)
      | (Inl _, s1) \<Rightarrow>
          (case get_user_by_id sub (sv_db s1) of
             Some raced \<Rightarrow> if us_enabled raced then (Inr (us_id raced), s1) else (Inl (invalid_grant ''subject user is disabled''), s1)
           | None \<Rightarrow> (Inl (invalid_grant ''could not provision a local user for the assertion subject''), s1)))"

definition resolve_subject :: "instant \<Rightarrow> trusted_issuer \<Rightarrow> json \<Rightarrow> string act" where
  "resolve_subject now trusted claims s =
     (case claim_str claims ''sub'' of
        None \<Rightarrow> (Inl (invalid_grant ''assertion sub claim is not a string''), s)
      | Some sub \<Rightarrow>
     (let email = unwrap_or (claim_str claims ''email'') []; by_email = (ti_subject_mapping trusted = ''email'') in
      if by_email \<and> email = []
      then (Inl (invalid_grant ''trusted issuer maps subjects by email but the assertion has no email claim''), s)
      else (case (if by_email then get_user_by_email email (sv_db s) else get_user_by_id sub (sv_db s)) of
              Some u \<Rightarrow> if \<not> us_enabled u then (Inl (invalid_grant ''subject user is disabled''), s) else (Inr (us_id u), s)
            | None \<Rightarrow>
                if by_email then (Inl (invalid_grant ''unknown subject''), s)
                else if \<not> ti_jit_provision trusted
                then (Inl (invalid_grant ''assertion subject has no local user and the issuer does not allow provisioning''), s)
                else provision_subject now sub email s)))"

section \<open>The grant\<close>

definition jwt_bearer_msg ::
  "client \<Rightarrow> string \<Rightarrow> string \<Rightarrow> string list \<Rightarrow> json option \<Rightarrow> json option \<Rightarrow> json option \<Rightarrow> create_token_msg" where
  "jwt_bearer_msg c user_id scope resources cnf details act_claim =
     \<lparr>ctm_user_id = Some user_id, ctm_client_id = cl_client_id c, ctm_scope = scope, ctm_include_refresh = False,
      ctm_token_family = None, ctm_resources = resources, ctm_cnf = cnf, ctm_authorization_details = details,
      ctm_act = act_claim, ctm_ttl_override_secs = None, ctm_sub_profile = None, ctm_txn = None\<rparr>"

definition jwt_bearer_resources :: "env \<Rightarrow> client \<Rightarrow> string list \<Rightarrow> string list \<Rightarrow> db \<Rightarrow> string list result" where
  "jwt_bearer_resources E c requested limit d =
     resolve_requested_resources E requested [] (if limit = [] then [cl_client_id c] else limit) (cl_client_id c) d"

definition jwt_bearer_issue ::
  "env \<Rightarrow> instant \<Rightarrow> fresh \<Rightarrow> token_request \<Rightarrow> json option \<Rightarrow> json option \<Rightarrow> client \<Rightarrow> jose_header \<times> trusted_issuer \<times> json \<Rightarrow> reply act" where
  "jwt_bearer_issue E now fr req cnf rar c v =
     (case v of (header, trusted, claims) \<Rightarrow>
     andThen (ret (assertion_limits_of (en_agent E) c cnf header claims)) (\<lambda>bnd.
     andThen (ret (assertion_scope c (rq_scope req) (al_scope_ceiling bnd))) (\<lambda>scope.
     andThen (\<lambda>s. (jwt_bearer_resources E c (rq_resource req) (al_resource_ceiling bnd) (sv_db s), s)) (\<lambda>resources.
     andThen (ret (assertion_details (al_rar bnd) rar)) (\<lambda>details.
     andThen (resolve_subject now trusted claims) (\<lambda>user_id.
     andThen (send_create E now fr (cl_client_id c) (jwt_bearer_msg c user_id scope resources cnf details (al_act bnd))) (\<lambda>t.
       ret (Inr (IssuedFor (apply_dpop_token_type (token_response_from t) cnf) details resources)))))))))"

definition handle_jwt_bearer_grant ::
  "env \<Rightarrow> instant \<Rightarrow> fresh \<Rightarrow> token_request \<Rightarrow> json option \<Rightarrow> json option \<Rightarrow> mtls \<Rightarrow> reply act" where
  "handle_jwt_bearer_grant E now fr req cnf rar mt =
     andThen (ret (ok_or (rq_assertion req) (invalid_request ''Missing assertion''))) (\<lambda>assertion.
     andThen (send_resolve E now (rq_client_id req)) (\<lambda>c.
     andThen (ret (ensure (supports_grant_type (en_libs E) c grant_jwt_bearer)
       (unauthorized_client ''Client is not allowed to use the jwt-bearer grant''))) (\<lambda>_.
     andThen (ret (ensure (\<not> is_public c) (invalid_client ''Public clients cannot use the jwt-bearer grant''))) (\<lambda>_.
     andThen (authenticate E now c req mt) (\<lambda>_.
     andThen (send_materialize E now c) (\<lambda>_.
     andThen (jwt_bearer_claims E now c assertion) (\<lambda>v.
       jwt_bearer_issue E now fr req cnf rar c v)))))))"

section \<open>Soundness\<close>

lemma map_err_eq_Inr [result_simps]: "map_sum f id r = Inr y \<longleftrightarrow> r = Inr y"
  by (cases r) auto

lemma stepwise_db: "(\<And>d. evolves d (snd (f d))) \<Longrightarrow> stepwise (run_db f)"
  by (simp add: stepwise_def run_db_def split: prod.splits) (metis snd_conv)

lemma stepwise_jti [stepwise_intros]: "stepwise (send_jti E now subject claims)"
  by (rule stepwise_keep) (simp add: send_jti_def split: prod.splits)

lemma stepwise_apfst: "stepwise m \<Longrightarrow> stepwise (\<lambda>s. apfst f (m s))"
  by (simp add: stepwise_def)

lemmas evolves_save_user = evolves_cmd [of "SaveUser u" for u, simplified]

lemma stepwise_subject [stepwise_intros]: "stepwise (resolve_subject now trusted claims)"
proof -
  have "evolves (sv_db s) (sv_db (snd (provision_subject now sub email s)))" for sub email s
    using evolves_save_user by (simp add: provision_subject_def run_db_def split: prod.splits sum.splits option.splits) (metis snd_conv)
  then show ?thesis by (auto simp: stepwise_def resolve_subject_def Let_def split: option.splits)
qed

lemma stepwise_prod [stepwise_intros]: "(\<And>a b. stepwise (f a b)) \<Longrightarrow> stepwise (case p of (a, b) \<Rightarrow> f a b)"
  by (cases p) simp

lemma stepwise_jwt_claims [stepwise_intros]: "stepwise (jwt_bearer_claims E now c assertion)"
  unfolding jwt_bearer_claims_def by (intro stepwise_intros stepwise_apfst)

lemma stepwise_jwt_bearer [stepwise_intros]: "stepwise (handle_jwt_bearer_grant E now fr req cnf rar mt)"
  unfolding handle_jwt_bearer_grant_def jwt_bearer_issue_def by (intro stepwise_intros)

text \<open>The claims were signed by a key the trusted issuer publishes, for this server.\<close>
definition issuer_vouches :: "env \<Rightarrow> instant \<Rightarrow> client \<Rightarrow> string \<Rightarrow> db \<Rightarrow> jose_header \<Rightarrow> trusted_issuer \<Rightarrow> json \<Rightarrow> bool" where
  "issuer_vouches E now c assertion d header trusted claims =
     (\<exists>iss fetch jwks key. get_trusted_issuer iss d = Some trusted \<and> ti_enabled trusted \<and>
        allows_client (en_libs E) trusted (cl_client_id c) \<and> jh_alg header \<in> set allowed_algs \<and>
        en_jwks_cache E = Some fetch \<and> fetch (trim (ti_jwks_uri trusted)) = Inr jwks \<and> select_key (en_jose E) jwks header = Inr key \<and>
        en_decode_ext E now (jh_alg header) key iss
          ([oc_issuer (en_oidc E), token_endpoint_url (en_oidc E)] @ allowed_audiences_vec (en_libs E) trusted)
          [''iss'', ''sub'', ''aud'', ''exp'', ''iat'', ''jti''] assertion = Inr claims)"

lemma jwt_bearer_claims_ok:
  assumes "jwt_bearer_claims E now c assertion s = (Inr (header, trusted, claims), s')"
  shows "sv_db s' = sv_db s" "issuer_vouches E now c assertion (sv_db s) header trusted claims"
    "al_header (en_assertions E) assertion = Some header"
proof -
  obtain iss where t: "trusted_issuer_for E c assertion (sv_db s) = Inr (header, iss, trusted)"
    and v: "verify_assertion E now assertion header trusted iss = Inr claims"
    and j: "apfst (map_sum grant_failure id) (send_jti E now (''jwt-bearer:'' @ iss) claims s) = (Inr (), s')"
    using assms by (auto simp: jwt_bearer_claims_def result_simps)
  show "sv_db s' = sv_db s" using j by (auto simp: send_jti_def split: prod.splits)
  show "al_header (en_assertions E) assertion = Some header"
    using t by (auto simp: trusted_issuer_for_def result_simps split: option.splits if_splits)
  have i: "get_trusted_issuer iss (sv_db s) = Some trusted \<and> ti_enabled trusted \<and> allows_client (en_libs E) trusted (cl_client_id c)"
    using t by (auto simp: trusted_issuer_for_def result_simps split: option.splits if_splits)
  then show "issuer_vouches E now c assertion (sv_db s) header trusted claims"
    using v by (auto simp: issuer_vouches_def verify_assertion_def result_simps)
qed

lemma save_user_ok:
  assumes "save_user u d = (Inr x, d')"
  shows "d' = d\<lparr>db_users := db_users d @ [u]\<rparr>" "get_user_by_id (us_id u) d = None"
  using assms by (auto simp: save_user_def checked_def get_user_by_id_def find_None_iff list_ex_iff split: if_splits)

lemma resolve_subject_ok:
  assumes "resolve_subject now trusted claims s = (Inr uid, s')"
  shows "\<exists>u \<in> set (db_users (sv_db s')). us_id u = uid \<and> us_enabled u" "db_tokens (sv_db s') = db_tokens (sv_db s)"
proof -
  have p: "(\<exists>u \<in> set (db_users (sv_db s')). us_id u = uid \<and> us_enabled u) \<and> db_tokens (sv_db s') = db_tokens (sv_db s)"
    if "provision_subject now sub email s = (Inr uid, s')" for sub email
    using that
    by (auto simp: provision_subject_def run_db_def save_user_def checked_def get_user_by_id_def
        split: prod.splits sum.splits option.splits if_splits dest!: find_Some_in)
  have "(\<exists>u \<in> set (db_users (sv_db s')). us_id u = uid \<and> us_enabled u) \<and> db_tokens (sv_db s') = db_tokens (sv_db s)"
    using assms p
    by (auto simp: resolve_subject_def Let_def get_user_by_id_def get_user_by_email_def
        split: option.splits if_splits dest!: find_Some_in)
  then show "\<exists>u \<in> set (db_users (sv_db s')). us_id u = uid \<and> us_enabled u" "db_tokens (sv_db s') = db_tokens (sv_db s)" by auto
qed

lemma assertion_scope_ok:
  assumes "assertion_scope c requested limit = Inr scope"
  shows "set (split_whitespace scope) \<subseteq> set (split_whitespace (cl_scope c))"
    "limit = Some l \<Longrightarrow> set (split_whitespace scope) \<subseteq> set (split_whitespace l)"
  using assms by (auto simp: assertion_scope_def result_simps validate_scope_subset_iff split: option.splits)

lemma id_jag_limits_ok:
  assumes "id_jag_limits ag c cnf claims = Inr bnd"
  shows "claim_str claims ''client_id'' = Some (cl_client_id c)" "al_scope_ceiling bnd = claim_str claims ''scope''"
    "json_str (json_get claims ''cnf'') ''jkt'' = Some k \<Longrightarrow> json_str cnf ''jkt'' = Some k"
    "al_act bnd = Some a \<Longrightarrow> \<exists>chain. a = to_value chain \<and> depth chain \<le> ag_max_delegation_depth ag"
proof -
  have ch: "\<exists>chain. a = to_value chain \<and> depth chain \<le> ag_max_delegation_depth ag" if "id_jag_chain ag v = Inr (Some a)" for v
    using that by (cases "from_value (the v)")
      (auto simp: id_jag_chain_def result_simps validate_chain_def split: option.splits if_splits)
  show "claim_str claims ''client_id'' = Some (cl_client_id c)" "al_scope_ceiling bnd = claim_str claims ''scope''"
    "json_str (json_get claims ''cnf'') ''jkt'' = Some k \<Longrightarrow> json_str cnf ''jkt'' = Some k"
    using assms by (auto simp: id_jag_limits_def result_simps split: option.splits)
  show "al_act bnd = Some a \<Longrightarrow> \<exists>chain. a = to_value chain \<and> depth chain \<le> ag_max_delegation_depth ag"
    using assms ch by (auto simp: id_jag_limits_def result_simps)
qed

lemma jwt_bearer_parts:
  assumes "handle_jwt_bearer_grant E now fr req cnf rar mt s = (Inr rep, s')"
  obtains assertion c header trusted claims s1 s2 where "rq_assertion req = Some assertion" "\<not> is_public c"
    and "supports_grant_type (en_libs E) c grant_jwt_bearer"
    and "cl_client_id c \<noteq> [] \<Longrightarrow> client_evidence E now c req mt (sv_jti s)"
    and "jwt_bearer_claims E now c assertion s1 = (Inr (header, trusted, claims), s2)"
    and "jwt_bearer_issue E now fr req cnf rar c (header, trusted, claims) s2 = (Inr rep, s')"
proof -
  obtain assertion c sa sb s1 v s2 where p: "rq_assertion req = Some assertion" "\<not> is_public c"
      "supports_grant_type (en_libs E) c grant_jwt_bearer"
    and r: "send_resolve E now (rq_client_id req) s = (Inr c, sa)" and a: "authenticate E now c req mt sa = (Inr (), sb)"
    and j: "jwt_bearer_claims E now c assertion s1 = (Inr v, s2)" "jwt_bearer_issue E now fr req cnf rar c v s2 = (Inr rep, s')"
    using assms by (auto simp: handle_jwt_bearer_grant_def result_simps)
  have "client_evidence E now c req mt (sv_jti s)" if "cl_client_id c \<noteq> []"
    using authenticate_ok(1) [OF a that] resolve_jti [OF r] by simp
  with p j show ?thesis by (cases v) (auto intro: that)
qed


section \<open>A run\<close>

lemma cold_resolve:
  assumes "en_cimd E = None" "url_parse (en_libs E) = (\<lambda>_. None)" "get_client cid (sv_db s) = Some c" "sv_clients s = \<lparr>cla_cache = []\<rparr>"
  shows "send_resolve E now cid s = (Inr c, s\<lparr>sv_clients := insert_cached_client now c \<lparr>cla_cache = []\<rparr>\<rparr>)"
  using assms by (simp add: send_resolve_def resolve_client_def enabled_fetcher_def cimd_url_target_def Let_def
      get_client_handler_def get_cached_client_def lru_get_def is_client_id_url_def validate_client_id_url_def isl_def canonical_client_id_def)

lemma secret_authenticate:
  assumes "cl_token_endpoint_auth_method c = ''client_secret_basic''" "cl_jwks c = []" "cl_jwks_uri c = []"
    and "rq_client_secret req = Some (cl_client_secret c)" "\<not> is_public c" "cl_client_secret c \<noteq> []"
  shows "authenticate E now c req mt s = (Inr (), s)"
  using assms by (simp add: authenticate_def resolve_client_jwks_def authenticate_confidential_client_def client_secret_matches_def Let_def)

definition bearer_claims :: json where
  "bearer_claims = JObj [(''iss'', JStr ''idp''), (''sub'', JStr ''u''), (''exp'', JInt 100), (''iat'', JInt 0), (''jti'', JStr ''j1'')]"

definition bearer_libs :: libs where
  "bearer_libs = demo_libs1\<lparr>json_from_str := \<lambda>s. if s = ''claims'' then Some bearer_claims else Some (JArr (map JStr (split_whitespace s)))\<rparr>"

definition bearer_header :: jose_header where
  "bearer_header = \<lparr>jh_alg = ARS256, jh_typ = None, jh_kid = None, jh_jwk = None\<rparr>"

definition bearer_env :: env where
  "bearer_env = demo_env\<lparr>en_libs := bearer_libs, en_assertions := no_assertions\<lparr>al_header := \<lambda>_. Some bearer_header\<rparr>, en_b64_url_decode := Some,
     en_jwks_cache := Some (\<lambda>_. Inr (JObj [(''keys'', JArr [JObj [(''kty'', JStr ''RSA''), (''n'', JStr ''1''), (''e'', JStr ''3'')]])])),
     en_decode_ext := \<lambda>_ _ _ _ _ _ _. Inr bearer_claims\<rparr>"

definition bearer_client :: client where
  "bearer_client = demo_svc\<lparr>cl_grant_types := grant_jwt_bearer\<rparr>"

definition bearer_issuer :: trusted_issuer where
  "bearer_issuer = \<lparr>ti_id = ''t1'', ti_issuer = ''idp'', ti_jwks_uri = ''https://idp/jwks'', ti_allowed_audiences = [], ti_subject_mapping = ''sub'',
     ti_jit_provision = False, ti_allowed_client_ids = [], ti_enabled = True, ti_created_at = 0, ti_updated_at = 0\<rparr>"

definition bearer_server :: server where
  "bearer_server = (service_server True)\<lparr>sv_db := db_empty\<lparr>db_clients := [bearer_client],
     db_users := [user_new 0 ''u'' ''alice'' ''h'' ''e''], db_issuers := [bearer_issuer]\<rparr>\<rparr>"

definition bearer_request :: token_request where
  "bearer_request = demo_svc_request\<lparr>rq_assertion := Some ''h.claims.s''\<rparr>"

lemma bearer_fields [simp]:
  "cl_client_id bearer_client = ''svc''" "is_public bearer_client = False" "cl_cimd_managed bearer_client = False"
  "cl_scope bearer_client = ''read write''" "cl_client_secret bearer_client = ''s3cret''" "cl_jwks bearer_client = []"
  "cl_jwks_uri bearer_client = []" "cl_token_endpoint_auth_method bearer_client = ''client_secret_basic''"
  "rq_client_id bearer_request = ''svc''" "rq_assertion bearer_request = Some ''h.claims.s''" "rq_scope bearer_request = Some ''write''"
  "rq_resource bearer_request = []" "rq_client_secret bearer_request = Some ''s3cret''"
  "en_libs bearer_env = bearer_libs" "url_parse bearer_libs = (\<lambda>_. None)" "en_agent bearer_env = demo_agent" "en_cimd bearer_env = None"
  by (simp_all add: bearer_client_def bearer_request_def is_public_def demo_svc_def client_new_def demo_svc_request_def demo_request_def bearer_env_def
      bearer_libs_def demo_libs1_def)

lemma bearer_supported: "supports_grant_type bearer_libs bearer_client grant_jwt_bearer"
  unfolding supports_grant_type_def by code_simp

definition bearer_warm :: server where
  "bearer_warm = bearer_server\<lparr>sv_clients := insert_cached_client 5 bearer_client \<lparr>cla_cache = []\<rparr>\<rparr>"

lemma bearer_known:
  "send_resolve bearer_env 5 ''svc'' bearer_server = (Inr bearer_client, bearer_warm)"
  "authenticate bearer_env 5 bearer_client bearer_request no_mtls bearer_warm = (Inr (), bearer_warm)"
  "send_materialize bearer_env 5 bearer_client bearer_warm = (Inr (), bearer_warm)"
  by (simp_all add: cold_resolve bearer_warm_def bearer_server_def service_server_def get_client_def secret_authenticate
      send_materialize_def materialize_cimd_client_def)

lemma bearer_trusted:
  "trusted_issuer_for bearer_env bearer_client ''h.claims.s'' (sv_db bearer_warm) = Inr (bearer_header, ''idp'', bearer_issuer)"
proof -
  have "decode_unverified_claims bearer_env ''h.claims.s'' = Inr bearer_claims"
    by (simp add: decode_unverified_claims_def bearer_env_def bearer_libs_def)
  then show ?thesis
    by (simp add: trusted_issuer_for_def bearer_claims_def claim_str_def bearer_warm_def bearer_server_def get_trusted_issuer_def bearer_issuer_def
        allows_client_def parse_string_vec_def bearer_libs_def split_whitespace_def)
      (simp add: bearer_env_def)
qed

lemma bearer_claims_run: "\<exists>s'. jwt_bearer_claims bearer_env 5 bearer_client ''h.claims.s'' bearer_warm = (Inr (bearer_header, bearer_issuer, bearer_claims), s') \<and>
    sv_db s' = sv_db bearer_warm \<and> sv_shards s' = [demo_actor]"
proof -
  have v: "verify_assertion bearer_env 5 ''h.claims.s'' bearer_header bearer_issuer ''idp'' = Inr bearer_claims"
    by (simp add: verify_assertion_def allowed_algs_def bearer_header_def select_key_def claim_str_def jwks_component_def)
      (simp add: bearer_env_def demo_env_def demo_jose_def jwks_component_def claim_str_def)
  have i: "check_iat 5 bearer_claims = Inr ()"
    by (simp add: check_iat_def bearer_claims_def timestamp_def iat_skew_secs_def)
  have "\<exists>s'. send_jti bearer_env 5 ''jwt-bearer:idp'' bearer_claims bearer_warm = (Inr (), s') \<and> sv_db s' = sv_db bearer_warm \<and> sv_shards s' = [demo_actor]"
    by (simp add: send_jti_def enforce_jti_replay_def bearer_claims_def claim_str_def bearer_warm_def bearer_server_def service_server_def
        observe_def guard_default_def guard_with_capacity_def Let_def timestamp_def live_entries_def)
  then show ?thesis by (auto simp: jwt_bearer_claims_def andThen_def ret_def bearer_trusted v i)
qed

lemma demo_jwt_bearer:
  "\<exists>rep s'. handle_jwt_bearer_grant bearer_env 5 demo_fresh bearer_request None None no_mtls bearer_server = (Inr rep, s')"
proof -
  obtain s1 where j: "jwt_bearer_claims bearer_env 5 bearer_client ''h.claims.s'' bearer_warm = (Inr (bearer_header, bearer_issuer, bearer_claims), s1)"
    "sv_db s1 = sv_db bearer_warm" "sv_shards s1 = [demo_actor]" using bearer_claims_run by blast
  have sc: "assertion_scope bearer_client (Some ''write'') None = Inr ''write''"
    by (simp add: assertion_scope_def result_simps validate_scope_subset_iff) (simp add: split_whitespace_def is_ws_def)
  have l: "assertion_limits_of demo_agent bearer_client None bearer_header bearer_claims = Inr no_limits"
    by (simp add: assertion_limits_of_def bearer_header_def)
  have u: "resolve_subject 5 bearer_issuer bearer_claims s1 = (Inr ''u'', s1)"
    by (simp add: resolve_subject_def bearer_claims_def claim_str_def bearer_issuer_def j(2) get_user_by_id_def bearer_warm_def
        bearer_server_def user_new_def)
  have r: "jwt_bearer_resources bearer_env bearer_client [] [] d = Inr []" for d
    by (simp add: jwt_bearer_resources_def resolve_requested_resources_def)
  have "\<exists>t s'. send_create bearer_env 5 demo_fresh ''svc'' (jwt_bearer_msg bearer_client ''u'' ''write'' [] None None None) s1 = (Inr t, s')"
    by (simp add: issue_defs jwt_bearer_msg_def j bearer_warm_def bearer_server_def db_empty_def user_new_def demo_fresh_def bearer_env_def)
  then show ?thesis
    by (auto simp: handle_jwt_bearer_grant_def jwt_bearer_issue_def andThen_def ret_def bearer_known bearer_supported j(1) l sc u r
        no_limits_def assertion_details_def)
qed


end
