(* ===== verification/Jwks_Cache.thy ===== *)
theory Jwks_Cache
  imports Jwt_Bearer Metadata_Fetch
begin

text \<open>
  The cache of key documents (\<open>handlers/jwks_cache.rs\<close>) that JWT client authentication and the
  JWT-bearer grant take their keys from.  The HTTP exchange is a parameter, a function of the instant
  of the request; the lock is never poisoned and the HTTP client can always be built.
\<close>

section \<open>The network and the lifetime of a document\<close>

record jwks_response =
  jr_status :: nat
  jr_cache_control :: "header_value option"
  jr_text :: "string + string"

record jwks_net =
  jn_get :: "instant \<Rightarrow> string \<Rightarrow> string + jwks_response"
  jn_status_text :: "nat \<Rightarrow> string"
  jn_json_error :: "string \<Rightarrow> string"

definition jwks_default_ttl :: nat where
  "jwks_default_ttl = 300"

definition jwks_min_ttl :: nat where
  "jwks_min_ttl = 30"

definition jwks_max_ttl :: nat where
  "jwks_max_ttl = 86400"

text \<open>The first \<open>max-age\<close> directive, when it is a 64-bit number.\<close>
definition max_age_directive :: "header_value option \<Rightarrow> nat option" where
  "max_age_directive h =
     Option.bind (Option.bind h to_str) (\<lambda>s.
     Option.bind (find (\<lambda>d. starts_with d ''max-age='') (map trim (split_char (CHR '','') s))) (\<lambda>d. parse_u64 (drop 8 d)))"

definition jwks_ttl :: "header_value option \<Rightarrow> instant" where
  "jwks_ttl h = secs (int (min (max (unwrap_or (max_age_directive h) jwks_default_ttl) jwks_min_ttl) jwks_max_ttl))"

definition fetch_jwks_from_url :: "libs \<Rightarrow> jwks_net \<Rightarrow> instant \<Rightarrow> string \<Rightarrow> (json \<times> instant) result" where
  "fetch_jwks_from_url L N now url =
     bindR (map_sum (\<lambda>e. invalid_client (''Failed to fetch jwks_uri '' @ quoted url @ '': '' @ e)) id (jn_get N now url)) (\<lambda>r.
     bindR (ensure (200 \<le> jr_status r \<and> jr_status r < 300)
       (invalid_client (''jwks_uri '' @ quoted url @ '' returned HTTP '' @ jn_status_text N (jr_status r)))) (\<lambda>_.
     bindR (map_sum (\<lambda>e. invalid_client (''Failed to read jwks_uri '' @ quoted url @ '' response body: '' @ e)) id (jr_text r)) (\<lambda>text.
     bindR (ok_or (json_from_str L text) (invalid_client (''jwks_uri '' @ quoted url @ '' returned invalid JSON: '' @ jn_json_error N text))) (\<lambda>jwks.
     bindR (ensure (Option.bind (json_get jwks ''keys'') as_array \<noteq> None)
       (invalid_client (''jwks_uri '' @ quoted url @ '' JWKS document missing 'keys' array''))) (\<lambda>_.
       Inr (jwks, jwks_ttl (jr_cache_control r)))))))"

section \<open>The cache\<close>

record cached_jwks =
  cj_value :: json
  cj_fetched_at :: instant
  cj_ttl :: instant

type_synonym jwks_cache = "string \<rightharpoonup> cached_jwks"

definition jwks_is_fresh :: "instant \<Rightarrow> cached_jwks \<Rightarrow> bool" where
  "jwks_is_fresh now e = (now - cj_fetched_at e < cj_ttl e)"

text \<open>The slow path: a document from the network, stored with its lifetime.\<close>
definition jwks_refresh :: "libs \<Rightarrow> jwks_net \<Rightarrow> instant \<Rightarrow> string \<Rightarrow> jwks_cache \<Rightarrow> json result \<times> jwks_cache" where
  "jwks_refresh L N now url cache =
     (case fetch_jwks_from_url L N now url of
        Inl err \<Rightarrow> (Inl err, cache)
      | Inr (jwks, ttl) \<Rightarrow> (Inr jwks, cache(url \<mapsto> \<lparr>cj_value = jwks, cj_fetched_at = now, cj_ttl = ttl\<rparr>)))"

definition jwks_fetch :: "libs \<Rightarrow> jwks_net \<Rightarrow> instant \<Rightarrow> string \<Rightarrow> jwks_cache \<Rightarrow> json result \<times> jwks_cache" where
  "jwks_fetch L N now url cache =
     (case cache url of
        Some e \<Rightarrow> if jwks_is_fresh now e then (Inr (cj_value e), cache) else jwks_refresh L N now url cache
      | None \<Rightarrow> jwks_refresh L N now url cache)"

text \<open>A sequence of requests, each at its instant.\<close>
definition key_requests :: "(instant \<Rightarrow> string \<Rightarrow> 's \<Rightarrow> json result \<times> 's) \<Rightarrow> (instant \<times> string) list \<Rightarrow> 's \<Rightarrow> 's" where
  "key_requests get rqs s = fold (\<lambda>(now, url) st. snd (get now url st)) rqs s"

text \<open>The assertion verifies under the key the document holds for its header.\<close>
definition signed_under :: "env \<Rightarrow> instant \<Rightarrow> string \<Rightarrow> jose_header \<Rightarrow> trusted_issuer \<Rightarrow> json \<Rightarrow> json \<Rightarrow> bool" where
  "signed_under E now assertion header trusted claims jwks =
     (\<exists>key iss. select_key (en_jose E) jwks header = Inr key \<and>
        en_decode_ext E now (jh_alg header) key iss
          ([oc_issuer (en_oidc E), token_endpoint_url (en_oidc E)] @ allowed_audiences_vec (en_libs E) trusted)
          [''iss'', ''sub'', ''aud'', ''exp'', ''iat'', ''jti''] assertion = Inr claims)"

section \<open>The contract of a source of keys\<close>

text \<open>What the two users of the cache rely on: what they get was published at the address they asked,
  within the bound the source keeps, however many requests went before.\<close>
locale key_source =
  fixes sound :: "instant \<Rightarrow> 's \<Rightarrow> bool"
    and get :: "instant \<Rightarrow> string \<Rightarrow> 's \<Rightarrow> json result \<times> 's"
    and published :: "instant \<Rightarrow> string \<Rightarrow> json \<Rightarrow> bool"
  assumes get_sound: "sound t s \<Longrightarrow> t \<le> now \<Longrightarrow> sound now (snd (get now url s))"
    and get_published: "sound t s \<Longrightarrow> t \<le> now \<Longrightarrow> fst (get now url s) = Inr v \<Longrightarrow> published now url v"
begin

lemma replay_sound:
  "sound t s \<Longrightarrow> sorted (t # map fst rqs @ [now]) \<Longrightarrow> \<exists>t'\<le>now. sound t' (key_requests get rqs s)"
proof (induction rqs arbitrary: t s)
  case (Cons rq rqs)
  obtain u url where rq: "rq = (u, url)" by fastforce
  with Cons.prems have "sound u (snd (get u url s))" by (intro get_sound [of t]) auto
  moreover have "sorted (u # map fst rqs @ [now])" using Cons.prems rq by auto
  ultimately show ?case using Cons.IH rq by (simp add: key_requests_def)
qed (auto simp: key_requests_def)

lemma replay_published:
  "sound t s \<Longrightarrow> sorted (t # map fst rqs @ [now]) \<Longrightarrow> fst (get now url (key_requests get rqs s)) = Inr v \<Longrightarrow> published now url v"
  using replay_sound get_published by blast

lemma issuer_keys_published:
  assumes "sound t s" "sorted (t # map fst rqs @ [now])"
    and cache: "en_jwks_cache E = Some (\<lambda>url. fst (get now url (key_requests get rqs s)))"
    and vouches: "issuer_vouches E now c assertion d header trusted claims"
  shows "\<exists>jwks. published now (trim (ti_jwks_uri trusted)) jwks \<and> signed_under E now assertion header trusted claims jwks"
proof -
  obtain jwks where "fst (get now (trim (ti_jwks_uri trusted)) (key_requests get rqs s)) = Inr jwks"
    "signed_under E now assertion header trusted claims jwks"
    using vouches cache by (auto simp: issuer_vouches_def signed_under_def)
  then show ?thesis using replay_published [OF assms(1,2)] by blast
qed

lemma client_keys_published:
  assumes "sound t s" "sorted (t # map fst rqs @ [now])"
    and "resolve_client_jwks L c (Some (\<lambda>url. fst (get now url (key_requests get rqs s)))) = Inr (Some jwks)"
  shows "json_from_str L (trim (cl_jwks c)) = Some jwks \<or> published now (trim (cl_jwks_uri c)) jwks"
  using assms(3) replay_published [OF assms(1,2)]
  by (auto simp: resolve_client_jwks_def Let_def result_simps ok_or_def map_sum_eq_Inr split: if_splits option.splits)

end

section \<open>The cache keeps it\<close>

text \<open>Every entry is the answer of its address at the instant it was fetched.\<close>
definition cache_sound :: "libs \<Rightarrow> jwks_net \<Rightarrow> instant \<Rightarrow> jwks_cache \<Rightarrow> bool" where
  "cache_sound L N t cache =
     (\<forall>url e. cache url = Some e \<longrightarrow> cj_fetched_at e \<le> t \<and> fetch_jwks_from_url L N (cj_fetched_at e) url = Inr (cj_value e, cj_ttl e))"

definition published_recently :: "libs \<Rightarrow> jwks_net \<Rightarrow> instant \<Rightarrow> string \<Rightarrow> json \<Rightarrow> bool" where
  "published_recently L N now url jwks =
     (\<exists>t ttl. t \<le> now \<and> fetch_jwks_from_url L N t url = Inr (jwks, ttl) \<and> now - t < ttl)"

lemma jwks_ttl_range: "secs 30 \<le> jwks_ttl h" "jwks_ttl h \<le> secs 86400"
  by (auto simp: jwks_ttl_def jwks_min_ttl_def jwks_max_ttl_def secs_def)

lemma fetched_ttl:
  assumes "fetch_jwks_from_url L N t url = Inr (jwks, ttl)"
  shows "0 < ttl" "ttl \<le> secs 86400"
proof -
  obtain h where "ttl = jwks_ttl h"
    using assms by (auto simp: fetch_jwks_from_url_def result_simps)
  then show "0 < ttl" "ttl \<le> secs 86400" using jwks_ttl_range [of h] by (auto simp: secs_def)
qed

interpretation jwks: key_source "cache_sound L N" "jwks_fetch L N" "published_recently L N" for L N
proof unfold_locales
  fix t s now url v
  assume s: "cache_sound L N t s" and le: "t \<le> now"
  show "cache_sound L N now (snd (jwks_fetch L N now url s))"
    using s le by (fastforce simp: cache_sound_def jwks_fetch_def jwks_refresh_def split: sum.splits option.splits if_splits)
  assume v: "fst (jwks_fetch L N now url s) = Inr v"
  show "published_recently L N now url v"
  proof (cases "\<exists>e. s url = Some e \<and> jwks_is_fresh now e")
    case True
    then obtain e where e: "s url = Some e" "jwks_is_fresh now e" by blast
    then have "cj_value e = v" using v by (auto simp: jwks_fetch_def jwks_refresh_def)
    then show ?thesis
      using s le e unfolding cache_sound_def published_recently_def jwks_is_fresh_def by (metis order.trans)
  next
    case False
    then obtain ttl where "fetch_jwks_from_url L N now url = Inr (v, ttl)"
      using v by (auto simp: jwks_fetch_def jwks_refresh_def split: sum.splits option.splits)
    then show ?thesis using fetched_ttl(1) unfolding published_recently_def by (metis diff_self order.refl)
  qed
qed

lemma cache_sound_empty: "cache_sound L N t Map.empty"
  by (simp add: cache_sound_def)

text \<open>Lifetime of cached keys: whatever \<open>Cache-Control\<close> the key server sends, a document is kept
  between 30 seconds and 24 hours; a \<open>max-age\<close> in that range is obeyed to the second, and without a
  readable one the document is kept 300 seconds.\<close>
theorem jwks_ttl_bounds:
  "secs 30 \<le> jwks_ttl h \<and> jwks_ttl h \<le> secs 86400 \<and>
   (case max_age_directive h of
      Some n \<Rightarrow> 30 \<le> n \<and> n \<le> 86400 \<longrightarrow> jwks_ttl h = secs (int n)
    | None \<Rightarrow> jwks_ttl h = secs 300)"
  using jwks_ttl_range [of h]
  by (auto simp: jwks_ttl_def jwks_min_ttl_def jwks_max_ttl_def jwks_default_ttl_def split: option.splits)

lemma max_age_example: "max_age_directive (Some (Text ''public, max-age=600'')) = Some 600"
proof -
  have t: "trim ''public'' = ''public''" "trim '' max-age=600'' = ''max-age=600''" by code_simp+
  have "parse_u64 ''600'' = Some 600" by (simp add: parse_u64_def)
  then show ?thesis unfolding max_age_directive_def by (simp add: t starts_with_def)
qed

lemma jwks_ttl_bounds_witness:
  "max_age_directive (Some (Text ''public, max-age=600'')) = Some 600 \<and>
   jwks_ttl (Some (Text ''public, max-age=600'')) = secs 600"
  using jwks_ttl_bounds [of "Some (Text ''public, max-age=600'')"]
  by (simp add: max_age_example)

text \<open>Keys of trusted issuers: with the cache in front of the network, after any sequence of key
  requests at non-decreasing instants, the assertion of an accepted JWT-bearer request verifies under a
  key of a document that the issuer's registered address answered less than 24 hours before.  A key the
  issuer has withdrawn is therefore accepted for less than a day.\<close>
theorem assertion_keys_recent:
  assumes "sorted (map fst rqs @ [now])"
    and "en_jwks_cache E =
           Some (\<lambda>url. fst (jwks_fetch (en_libs E) N now url (key_requests (jwks_fetch (en_libs E) N) rqs Map.empty)))"
    and "jwt_bearer_claims E now c assertion s = (Inr (header, trusted, claims), s')"
  shows "\<exists>t jwks ttl. t \<le> now \<and> now - t < secs 86400 \<and>
     fetch_jwks_from_url (en_libs E) N t (trim (ti_jwks_uri trusted)) = Inr (jwks, ttl) \<and>
     signed_under E now assertion header trusted claims jwks"
proof -
  let ?t = "hd (map fst rqs @ [now])"
  have "sorted (?t # map fst rqs @ [now])" using assms(1) by (cases rqs) auto
  from jwks.issuer_keys_published [OF cache_sound_empty this assms(2) jwt_bearer_claims_ok(2) [OF assms(3)]]
  obtain jwks where "published_recently (en_libs E) N now (trim (ti_jwks_uri trusted)) jwks"
    "signed_under E now assertion header trusted claims jwks" by blast
  then show ?thesis unfolding published_recently_def using fetched_ttl(2) by (metis order.strict_trans2)
qed

section \<open>A run\<close>

definition idp_keys :: json where
  "idp_keys = JObj [(''keys'', JArr [JObj [(''kty'', JStr ''RSA''), (''n'', JStr ''1''), (''e'', JStr ''3'')]])]"

definition idp_libs :: libs where
  "idp_libs = bearer_libs\<lparr>json_from_str := \<lambda>s. if s = ''jwks'' then Some idp_keys else json_from_str bearer_libs s\<rparr>"

definition idp_net :: jwks_net where
  "idp_net = \<lparr>jn_get = \<lambda>_ _. Inr \<lparr>jr_status = 200, jr_cache_control = None, jr_text = Inr ''jwks''\<rparr>, jn_status_text = show_nat, jn_json_error = id\<rparr>"

definition idp_env :: env where
  "idp_env = bearer_env\<lparr>en_libs := idp_libs,
     en_jwks_cache := Some (\<lambda>url. fst (jwks_fetch idp_libs idp_net 5 url (key_requests (jwks_fetch idp_libs idp_net) [(2, ''https://idp/jwks'')] Map.empty)))\<rparr>"

lemma idp_document: "fetch_jwks_from_url idp_libs idp_net t url = Inr (idp_keys, secs 300)"
  by (simp add: fetch_jwks_from_url_def idp_net_def idp_libs_def idp_keys_def jwks_ttl_def max_age_directive_def
      jwks_default_ttl_def jwks_min_ttl_def jwks_max_ttl_def)

lemma idp_cached:
  "fst (jwks_fetch idp_libs idp_net 5 url (key_requests (jwks_fetch idp_libs idp_net) [(2, ''https://idp/jwks'')] Map.empty)) = Inr idp_keys"
  by (simp add: key_requests_def jwks_fetch_def jwks_refresh_def idp_document jwks_is_fresh_def secs_def)

lemma idp_claims_run: "\<exists>s'. jwt_bearer_claims idp_env 5 bearer_client ''h.claims.s'' bearer_warm = (Inr (bearer_header, bearer_issuer, bearer_claims), s')"
proof -
  have "decode_unverified_claims idp_env ''h.claims.s'' = Inr bearer_claims"
    by (simp add: decode_unverified_claims_def idp_env_def idp_libs_def bearer_env_def bearer_libs_def)
  then have t: "trusted_issuer_for idp_env bearer_client ''h.claims.s'' (sv_db bearer_warm) = Inr (bearer_header, ''idp'', bearer_issuer)"
    by (simp add: trusted_issuer_for_def bearer_claims_def claim_str_def bearer_warm_def bearer_server_def get_trusted_issuer_def bearer_issuer_def
        allows_client_def parse_string_vec_def idp_env_def idp_libs_def bearer_libs_def split_whitespace_def)
      (simp add: bearer_env_def)
  have v: "verify_assertion idp_env 5 ''h.claims.s'' bearer_header bearer_issuer ''idp'' = Inr bearer_claims"
    by (simp add: verify_assertion_def allowed_algs_def bearer_header_def idp_env_def idp_cached)
      (simp add: idp_keys_def select_key_def claim_str_def jwks_component_def bearer_env_def demo_env_def demo_jose_def)
  have i: "check_iat 5 bearer_claims = Inr ()"
    by (simp add: check_iat_def bearer_claims_def timestamp_def iat_skew_secs_def)
  have "\<exists>s'. send_jti idp_env 5 ''jwt-bearer:idp'' bearer_claims bearer_warm = (Inr (), s')"
    by (simp add: send_jti_def enforce_jti_replay_def bearer_claims_def claim_str_def bearer_warm_def bearer_server_def service_server_def
        observe_def guard_default_def guard_with_capacity_def Let_def timestamp_def live_entries_def)
  then show ?thesis by (auto simp: jwt_bearer_claims_def andThen_def ret_def t v i)
qed

lemma idp_uri: "trim (ti_jwks_uri bearer_issuer) = ''https://idp/jwks''"
  unfolding bearer_issuer_def by code_simp

lemma assertion_keys_recent_witness:
  "\<exists>t jwks ttl. t \<le> 5 \<and> 5 - t < secs 86400 \<and> fetch_jwks_from_url idp_libs idp_net t ''https://idp/jwks'' = Inr (jwks, ttl) \<and>
     signed_under idp_env 5 ''h.claims.s'' bearer_header bearer_issuer bearer_claims jwks"
proof -
  obtain s' where "jwt_bearer_claims idp_env 5 bearer_client ''h.claims.s'' bearer_warm = (Inr (bearer_header, bearer_issuer, bearer_claims), s')"
    using idp_claims_run by blast
  from assertion_keys_recent [OF _ _ this, of "[(2, ''https://idp/jwks'')]" idp_net]
  show ?thesis by (simp add: idp_env_def idp_uri)
qed

end
