(* ===== verification/Mongo_Storage.thy ===== *)
theory Mongo_Storage
  imports Sql_Listing Storage_Invariants
begin

text \<open>
  The document store behind the same trait (\<open>crates/oauth2-storage-mongo/src/lib.rs\<close>), with the defaults
  of the trait (\<open>crates/oauth2-ports/src/storage.rs\<close>) for the methods it does not provide.  A collection is
  the list of its documents, so the state is that of the relational model.  \<open>update_one\<close>, \<open>replace_one\<close> and
  \<open>delete_one\<close> act on the first document that matches; a unique index refuses an insert or an update that
  would repeat its key.  There are no references between collections.  Instants are stored as RFC 3339
  text, whose order is that of the instants.  Connection failures are not modelled.
\<close>

section \<open>Collections\<close>

fun update_one :: "('a \<Rightarrow> bool) \<Rightarrow> ('a \<Rightarrow> 'a) \<Rightarrow> 'a list \<Rightarrow> 'a list" where
  "update_one P f [] = []"
| "update_one P f (x # xs) = (if P x then f x # xs else x # update_one P f xs)"

fun delete_one :: "('a \<Rightarrow> bool) \<Rightarrow> 'a list \<Rightarrow> 'a list" where
  "delete_one P [] = []"
| "delete_one P (x # xs) = (if P x then xs else x # delete_one P xs)"

definition duplicate_key :: oauth2_error where
  "duplicate_key = invalid_request ''duplicate key''"

definition indexed :: "bool \<Rightarrow> db \<Rightarrow> db \<Rightarrow> unit result \<times> db" where
  "indexed dup d d' = (if dup then (Inl duplicate_key, d) else (Inr (), d'))"

section \<open>Clients\<close>

definition mongo_save_client :: "client \<Rightarrow> db \<Rightarrow> unit result \<times> db" where
  "mongo_save_client c d =
     indexed (list_ex (\<lambda>r. cl_client_id r = cl_client_id c) (db_clients d)) d (d\<lparr>db_clients := db_clients d @ [c]\<rparr>)"

definition mongo_get_client :: "string \<Rightarrow> db \<Rightarrow> client option" where
  "mongo_get_client cid d = find (\<lambda>c. cl_client_id c = cid) (db_clients d)"

definition mongo_count_cimd_clients :: "db \<Rightarrow> nat" where
  "mongo_count_cimd_clients d = length (filter cl_cimd_managed (db_clients d))"

text \<open>The whole document is replaced.\<close>
definition mongo_update_client :: "client \<Rightarrow> db \<Rightarrow> unit result \<times> db" where
  "mongo_update_client c d = (Inr (), d\<lparr>db_clients := update_one (\<lambda>r. cl_client_id r = cl_client_id c) (\<lambda>_. c) (db_clients d)\<rparr>)"

definition mongo_delete_client :: "string \<Rightarrow> db \<Rightarrow> unit result \<times> db" where
  "mongo_delete_client cid d = (Inr (), d\<lparr>db_clients := delete_one (\<lambda>c. cl_client_id c = cid) (db_clients d)\<rparr>)"

definition mongo_set_client_enabled :: "instant \<Rightarrow> string \<Rightarrow> bool \<Rightarrow> db \<Rightarrow> unit result \<times> db" where
  "mongo_set_client_enabled now cid b d =
     (Inr (), d\<lparr>db_clients := update_one (\<lambda>c. cl_client_id c = cid) (\<lambda>c. c\<lparr>cl_enabled := b, cl_updated_at := now\<rparr>) (db_clients d)\<rparr>)"

definition mongo_set_client_secret :: "instant \<Rightarrow> string \<Rightarrow> string \<Rightarrow> db \<Rightarrow> unit result \<times> db" where
  "mongo_set_client_secret now cid secret d =
     (Inr (), d\<lparr>db_clients := update_one (\<lambda>c. cl_client_id c = cid) (\<lambda>c. c\<lparr>cl_client_secret := secret, cl_updated_at := now\<rparr>) (db_clients d)\<rparr>)"

section \<open>Users\<close>

definition mongo_save_user :: "user \<Rightarrow> db \<Rightarrow> unit result \<times> db" where
  "mongo_save_user u d =
     indexed (list_ex (\<lambda>r. us_username r = us_username u) (db_users d)) d (d\<lparr>db_users := db_users d @ [u]\<rparr>)"

definition mongo_get_user_by_username :: "string \<Rightarrow> db \<Rightarrow> user option" where
  "mongo_get_user_by_username n d = find (\<lambda>u. us_username u = n) (db_users d)"

definition mongo_get_user_by_id :: "string \<Rightarrow> db \<Rightarrow> user option" where
  "mongo_get_user_by_id i d = find (\<lambda>u. us_id u = i) (db_users d)"

definition mongo_get_user_by_email :: "string \<Rightarrow> db \<Rightarrow> user option" where
  "mongo_get_user_by_email e d = find (\<lambda>u. us_email u = e) (db_users d)"

definition mongo_update_user :: "user \<Rightarrow> db \<Rightarrow> unit result \<times> db" where
  "mongo_update_user u d =
     indexed (case find (\<lambda>r. us_id r = us_id u) (db_users d) of
         None \<Rightarrow> False
       | Some old \<Rightarrow> us_username old \<noteq> us_username u \<and> list_ex (\<lambda>r. us_username r = us_username u) (db_users d)) d
       (d\<lparr>db_users := update_one (\<lambda>r. us_id r = us_id u)
          (\<lambda>r. r\<lparr>us_username := us_username u, us_email := us_email u, us_enabled := us_enabled u, us_role := us_role u,
                 us_password_hash := us_password_hash u, us_updated_at := us_updated_at u\<rparr>) (db_users d)\<rparr>)"

text \<open>The tokens, codes and device authorizations of the user stay.\<close>
definition mongo_delete_user :: "string \<Rightarrow> db \<Rightarrow> unit result \<times> db" where
  "mongo_delete_user uid d = (Inr (), d\<lparr>db_users := delete_one (\<lambda>u. us_id u = uid) (db_users d)\<rparr>)"

definition mongo_set_user_enabled :: "instant \<Rightarrow> string \<Rightarrow> bool \<Rightarrow> db \<Rightarrow> unit result \<times> db" where
  "mongo_set_user_enabled now uid b d =
     (Inr (), d\<lparr>db_users := update_one (\<lambda>u. us_id u = uid) (\<lambda>u. u\<lparr>us_enabled := b, us_updated_at := now\<rparr>) (db_users d)\<rparr>)"

definition mongo_set_user_role :: "instant \<Rightarrow> string \<Rightarrow> string \<Rightarrow> db \<Rightarrow> unit result \<times> db" where
  "mongo_set_user_role now uid role d =
     (Inr (), d\<lparr>db_users := update_one (\<lambda>u. us_id u = uid) (\<lambda>u. u\<lparr>us_role := role, us_updated_at := now\<rparr>) (db_users d)\<rparr>)"

definition mongo_set_user_password_hash :: "instant \<Rightarrow> string \<Rightarrow> string \<Rightarrow> db \<Rightarrow> unit result \<times> db" where
  "mongo_set_user_password_hash now uid h d =
     (Inr (), d\<lparr>db_users := update_one (\<lambda>u. us_id u = uid) (\<lambda>u. u\<lparr>us_password_hash := h, us_updated_at := now\<rparr>) (db_users d)\<rparr>)"

section \<open>Tokens\<close>

definition mongo_save_token :: "token \<Rightarrow> db \<Rightarrow> unit result \<times> db" where
  "mongo_save_token t d =
     indexed (list_ex (\<lambda>r. tk_access_token r = tk_access_token t) (db_tokens d)) d (d\<lparr>db_tokens := db_tokens d @ [t]\<rparr>)"

definition mongo_get_token_by_access_token :: "string \<Rightarrow> db \<Rightarrow> token option" where
  "mongo_get_token_by_access_token a d = find (\<lambda>t. tk_access_token t = a) (db_tokens d)"

definition mongo_get_token_by_refresh_token :: "string \<Rightarrow> db \<Rightarrow> token option" where
  "mongo_get_token_by_refresh_token r d = find (\<lambda>t. tk_refresh_token t = Some r) (db_tokens d)"

definition mongo_revoke_token :: "string \<Rightarrow> db \<Rightarrow> unit result \<times> db" where
  "mongo_revoke_token s d =
     (Inr (), d\<lparr>db_tokens := update_where (\<lambda>t. tk_access_token t = s \<or> tk_refresh_token t = Some s) (\<lambda>t. t\<lparr>tk_revoked := True\<rparr>) (db_tokens d)\<rparr>)"

definition mongo_revoke_token_by_id :: "string \<Rightarrow> db \<Rightarrow> nat result \<times> db" where
  "mongo_revoke_token_by_id i d =
     (Inr (if list_ex (\<lambda>t. tk_id t = i \<and> \<not> tk_revoked t) (db_tokens d) then 1 else 0),
      d\<lparr>db_tokens := update_one (\<lambda>t. tk_id t = i \<and> \<not> tk_revoked t) (\<lambda>t. t\<lparr>tk_revoked := True\<rparr>) (db_tokens d)\<rparr>)"

definition mongo_set_token_family :: "string \<Rightarrow> string \<Rightarrow> db \<Rightarrow> unit result \<times> db" where
  "mongo_set_token_family a fam d =
     (Inr (), d\<lparr>db_tokens := update_one (\<lambda>t. tk_access_token t = a) (\<lambda>t. t\<lparr>tk_token_family := Some fam\<rparr>) (db_tokens d)\<rparr>)"

definition mongo_revoke_tokens_by_client_id :: "string \<Rightarrow> db \<Rightarrow> nat result \<times> db" where
  "mongo_revoke_tokens_by_client_id cid d =
     (Inr (length (filter (\<lambda>t. tk_client_id t = cid \<and> \<not> tk_revoked t) (db_tokens d))),
      d\<lparr>db_tokens := update_where (\<lambda>t. tk_client_id t = cid \<and> \<not> tk_revoked t) (\<lambda>t. t\<lparr>tk_revoked := True\<rparr>) (db_tokens d)\<rparr>)"

text \<open>Not provided by this backend: the defaults of the trait, which report that no row was affected.\<close>
definition default_revoke_token_family :: "string \<Rightarrow> db \<Rightarrow> nat result \<times> db" where
  "default_revoke_token_family fam d = (Inr 0, d)"

definition default_revoke_tokens_by_user_id :: "string \<Rightarrow> db \<Rightarrow> nat result \<times> db" where
  "default_revoke_tokens_by_user_id uid d = (Inr 0, d)"

section \<open>Authorization codes and device authorizations\<close>

definition mongo_save_authorization_code :: "authorization_code \<Rightarrow> db \<Rightarrow> unit result \<times> db" where
  "mongo_save_authorization_code a d =
     indexed (list_ex (\<lambda>r. ac_code r = ac_code a) (db_codes d)) d (d\<lparr>db_codes := db_codes d @ [a]\<rparr>)"

definition mongo_get_authorization_code :: "string \<Rightarrow> db \<Rightarrow> authorization_code option" where
  "mongo_get_authorization_code c d = find (\<lambda>a. ac_code a = c) (db_codes d)"

definition mongo_mark_authorization_code_used :: "string \<Rightarrow> db \<Rightarrow> unit result \<times> db" where
  "mongo_mark_authorization_code_used c d =
     (Inr (), d\<lparr>db_codes := update_one (\<lambda>a. ac_code a = c) (\<lambda>a. a\<lparr>ac_used := True\<rparr>) (db_codes d)\<rparr>)"

definition mongo_save_device_authorization :: "device_authorization \<Rightarrow> db \<Rightarrow> unit result \<times> db" where
  "mongo_save_device_authorization v d =
     indexed (list_ex (\<lambda>r. da_device_code r = da_device_code v \<or> da_user_code r = da_user_code v) (db_devices d)) d
       (d\<lparr>db_devices := db_devices d @ [v]\<rparr>)"

definition mongo_get_device_by_device_code :: "string \<Rightarrow> db \<Rightarrow> device_authorization option" where
  "mongo_get_device_by_device_code c d = find (\<lambda>v. da_device_code v = c) (db_devices d)"

definition mongo_get_device_by_user_code :: "string \<Rightarrow> db \<Rightarrow> device_authorization option" where
  "mongo_get_device_by_user_code c d = find (\<lambda>v. da_user_code v = c) (db_devices d)"

definition mongo_approve_device :: "string \<Rightarrow> string \<Rightarrow> db \<Rightarrow> unit result \<times> db" where
  "mongo_approve_device uc uid d =
     (Inr (), d\<lparr>db_devices := update_one (\<lambda>v. da_user_code v = uc)
        (\<lambda>v. v\<lparr>da_approved := True, da_denied := False, da_user_id := Some uid\<rparr>) (db_devices d)\<rparr>)"

definition mongo_deny_device :: "string \<Rightarrow> db \<Rightarrow> unit result \<times> db" where
  "mongo_deny_device uc d =
     (Inr (), d\<lparr>db_devices := update_one (\<lambda>v. da_user_code v = uc) (\<lambda>v. v\<lparr>da_denied := True, da_approved := False\<rparr>) (db_devices d)\<rparr>)"

definition mongo_mark_device_used :: "string \<Rightarrow> db \<Rightarrow> unit result \<times> db" where
  "mongo_mark_device_used dc d =
     (Inr (), d\<lparr>db_devices := update_one (\<lambda>v. da_device_code v = dc) (\<lambda>v. v\<lparr>da_used := True\<rparr>) (db_devices d)\<rparr>)"

definition mongo_expire_device :: "instant \<Rightarrow> string \<Rightarrow> db \<Rightarrow> unit result \<times> db" where
  "mongo_expire_device now dc d =
     (Inr (), d\<lparr>db_devices := update_one (\<lambda>v. da_device_code v = dc) (\<lambda>v. v\<lparr>da_expires_at := now - secs 1\<rparr>) (db_devices d)\<rparr>)"

section \<open>DPoP proofs, transactions, resources, issuers, denylist\<close>

definition mongo_dpop_jti_check_and_insert :: "instant \<Rightarrow> string \<Rightarrow> instant \<Rightarrow> db \<Rightarrow> bool result \<times> db" where
  "mongo_dpop_jti_check_and_insert now jti ex d =
     (let kept = filter (\<lambda>(_, e). \<not> e < now) (db_dpop_jtis d) in
      if list_ex (\<lambda>(j, _). j = jti) kept then (Inr False, d\<lparr>db_dpop_jtis := kept\<rparr>)
      else (Inr True, d\<lparr>db_dpop_jtis := kept @ [(jti, ex)]\<rparr>))"

definition mongo_save_transaction_authorization :: "transaction_authorization \<Rightarrow> db \<Rightarrow> unit result \<times> db" where
  "mongo_save_transaction_authorization t d =
     indexed (list_ex (\<lambda>r. ta_transaction_authorization_id r = ta_transaction_authorization_id t) (db_txn_auths d)) d
       (d\<lparr>db_txn_auths := db_txn_auths d @ [t]\<rparr>)"

definition mongo_get_transaction_authorization :: "string \<Rightarrow> db \<Rightarrow> transaction_authorization option" where
  "mongo_get_transaction_authorization i d = find (\<lambda>t. ta_transaction_authorization_id t = i) (db_txn_auths d)"

definition mongo_settle_transaction_authorization :: "string \<Rightarrow> string \<Rightarrow> bool \<Rightarrow> db \<Rightarrow> unit result \<times> db" where
  "mongo_settle_transaction_authorization i uid approved d =
     (Inr (), d\<lparr>db_txn_auths := update_one (\<lambda>t. ta_transaction_authorization_id t = i)
        (\<lambda>t. t\<lparr>ta_approved := approved, ta_denied := \<not> approved, ta_user_id := Some uid\<rparr>) (db_txn_auths d)\<rparr>)"

definition mongo_mark_transaction_used :: "string \<Rightarrow> db \<Rightarrow> unit result \<times> db" where
  "mongo_mark_transaction_used i d =
     (Inr (), d\<lparr>db_txn_auths := update_one (\<lambda>t. ta_transaction_authorization_id t = i) (\<lambda>t. t\<lparr>ta_used := True\<rparr>) (db_txn_auths d)\<rparr>)"

definition mongo_save_resource :: "protected_resource \<Rightarrow> db \<Rightarrow> unit result \<times> db" where
  "mongo_save_resource r d =
     indexed (list_ex (\<lambda>x. pr_resource_uri x = pr_resource_uri r) (db_resources d)) d (d\<lparr>db_resources := db_resources d @ [r]\<rparr>)"

definition mongo_get_resource_by_uri :: "string \<Rightarrow> db \<Rightarrow> protected_resource option" where
  "mongo_get_resource_by_uri uri d = find (\<lambda>r. pr_resource_uri r = uri) (db_resources d)"

definition mongo_get_resource_by_id :: "string \<Rightarrow> db \<Rightarrow> protected_resource option" where
  "mongo_get_resource_by_id i d = find (\<lambda>r. pr_id r = i) (db_resources d)"

definition mongo_delete_resource :: "string \<Rightarrow> db \<Rightarrow> unit result \<times> db" where
  "mongo_delete_resource i d = (Inr (), d\<lparr>db_resources := delete_one (\<lambda>r. pr_id r = i) (db_resources d)\<rparr>)"

text \<open>\<open>replace_one\<close> with \<open>upsert\<close>.\<close>
definition mongo_save_trusted_issuer :: "trusted_issuer \<Rightarrow> db \<Rightarrow> unit result \<times> db" where
  "mongo_save_trusted_issuer t d =
     (Inr (), d\<lparr>db_issuers :=
        (if list_ex (\<lambda>r. ti_issuer r = ti_issuer t) (db_issuers d) then update_one (\<lambda>r. ti_issuer r = ti_issuer t) (\<lambda>_. t) (db_issuers d)
         else db_issuers d @ [t])\<rparr>)"

definition mongo_get_trusted_issuer :: "string \<Rightarrow> db \<Rightarrow> trusted_issuer option" where
  "mongo_get_trusted_issuer i d = find (\<lambda>t. ti_issuer t = i) (db_issuers d)"

definition mongo_delete_trusted_issuer :: "string \<Rightarrow> db \<Rightarrow> unit result \<times> db" where
  "mongo_delete_trusted_issuer i d = (Inr (), d\<lparr>db_issuers := delete_one (\<lambda>t. ti_id t = i) (db_issuers d)\<rparr>)"

definition default_add_denylist_entry :: "denylist_entry \<Rightarrow> db \<Rightarrow> unit result \<times> db" where
  "default_add_denylist_entry e d = (Inr (), d)"

definition default_remove_denylist_entry :: "string \<Rightarrow> db \<Rightarrow> unit result \<times> db" where
  "default_remove_denylist_entry i d = (Inr (), d)"

definition default_find_denylist_entry :: "string \<Rightarrow> string \<Rightarrow> db \<Rightarrow> denylist_entry option" where
  "default_find_denylist_entry kind v d = None"

section \<open>Listings\<close>

text \<open>\<open>sort_by_key\<close> is stable, also with \<open>Reverse\<close>.\<close>
definition newest_first :: "('a \<Rightarrow> instant) \<Rightarrow> 'a list \<Rightarrow> 'a list" where
  "newest_first created xs = rev (sort_key created (rev xs))"

definition mongo_list_all_clients :: "db \<Rightarrow> client list" where
  "mongo_list_all_clients d = newest_first cl_created_at (db_clients d)"

definition mongo_list_all_users :: "db \<Rightarrow> user list" where
  "mongo_list_all_users d = newest_first us_created_at (db_users d)"

definition mongo_list_all_tokens :: "db \<Rightarrow> token list" where
  "mongo_list_all_tokens d = take 200 (newest_first tk_created_at (db_tokens d))"

definition mongo_list_all_devices :: "db \<Rightarrow> device_authorization list" where
  "mongo_list_all_devices d = newest_first da_created_at (db_devices d)"

definition mongo_list_resources :: "db \<Rightarrow> protected_resource list" where
  "mongo_list_resources d = newest_first pr_created_at (db_resources d)"

definition mongo_list_trusted_issuers :: "db \<Rightarrow> trusted_issuer list" where
  "mongo_list_trusted_issuers d = db_issuers d"

definition by_created :: "list_query \<Rightarrow> ('a \<Rightarrow> instant) \<Rightarrow> 'a list \<Rightarrow> 'a list" where
  "by_created q created xs = (if sort_dir_sql q = ''ASC'' then sort_key created xs else newest_first created xs)"

definition trim_percent :: "string \<Rightarrow> string" where
  "trim_percent s = rev (dropWhile (\<lambda>c. c = CHR ''%'') (rev (dropWhile (\<lambda>c. c = CHR ''%'') s)))"

text \<open>The search of the listings: plain substrings of the lower-case fields.\<close>
definition mongo_search :: "list_query \<Rightarrow> ('a \<Rightarrow> string list) \<Rightarrow> 'a list \<Rightarrow> 'a list" where
  "mongo_search q texts xs =
     (let pat = search_pattern q in
      if pat \<noteq> ''%'' then filter (\<lambda>x. list_ex (\<lambda>v. sublist (to_lowercase (trim_percent pat)) (to_lowercase v)) (texts x)) xs else xs)"

definition mongo_list_clients_page :: "list_query \<Rightarrow> db \<Rightarrow> client page" where
  "mongo_list_clients_page q d =
     (let rows = (if lq_sort_by q = Some ''name''
          then (if sort_dir_sql q = ''ASC'' then sort_key cl_name (db_clients d) else rev (sort_key cl_name (rev (db_clients d))))
          else by_created q cl_created_at (db_clients d)) in
      page_from_vec (mongo_search q (\<lambda>c. [cl_name c, cl_client_id c]) rows) q)"

definition mongo_list_users_page :: "list_query \<Rightarrow> db \<Rightarrow> user page" where
  "mongo_list_users_page q d =
     page_from_vec (mongo_search q (\<lambda>u. [us_username u, us_email u]) (by_created q us_created_at (db_users d))) q"

definition mongo_status :: "instant \<Rightarrow> list_query \<Rightarrow> token list \<Rightarrow> token list" where
  "mongo_status now q xs =
     (if lq_status q = Some ''active'' then filter (token_is_valid now) xs
      else if lq_status q = Some ''revoked'' then filter tk_revoked xs
      else if lq_status q = Some ''expired'' then filter (\<lambda>t. token_is_expired now t \<and> \<not> tk_revoked t) xs
      else xs)"

definition mongo_list_tokens_page :: "instant \<Rightarrow> list_query \<Rightarrow> db \<Rightarrow> token page" where
  "mongo_list_tokens_page now q d =
     page_from_vec (mongo_search q (\<lambda>t. [tk_client_id t, unwrap_or (tk_user_id t) []])
       (mongo_status now q (by_created q tk_created_at (db_tokens d)))) q"

section \<open>The methods as commands\<close>

fun mongo_exec :: "sql_cmd \<Rightarrow> db \<Rightarrow> db" where
  "mongo_exec (SaveClient c) d = snd (mongo_save_client c d)"
| "mongo_exec (UpdateClient c) d = snd (mongo_update_client c d)"
| "mongo_exec (DeleteClient i) d = snd (mongo_delete_client i d)"
| "mongo_exec (SetClientEnabled now i b) d = snd (mongo_set_client_enabled now i b d)"
| "mongo_exec (SetClientSecret now i s) d = snd (mongo_set_client_secret now i s d)"
| "mongo_exec (SaveUser u) d = snd (mongo_save_user u d)"
| "mongo_exec (UpdateUser u) d = snd (mongo_update_user u d)"
| "mongo_exec (DeleteUser i) d = snd (mongo_delete_user i d)"
| "mongo_exec (SetUserEnabled now i b) d = snd (mongo_set_user_enabled now i b d)"
| "mongo_exec (SetUserRole now i r) d = snd (mongo_set_user_role now i r d)"
| "mongo_exec (SetUserPasswordHash now i h) d = snd (mongo_set_user_password_hash now i h d)"
| "mongo_exec (SaveToken t) d = snd (mongo_save_token t d)"
| "mongo_exec (RevokeToken s) d = snd (mongo_revoke_token s d)"
| "mongo_exec (RevokeTokenById i) d = snd (mongo_revoke_token_by_id i d)"
| "mongo_exec (SetTokenFamily a f) d = snd (mongo_set_token_family a f d)"
| "mongo_exec (RevokeTokenFamily f) d = snd (default_revoke_token_family f d)"
| "mongo_exec (RevokeTokensByUserId u) d = snd (default_revoke_tokens_by_user_id u d)"
| "mongo_exec (RevokeTokensByClientId c) d = snd (mongo_revoke_tokens_by_client_id c d)"
| "mongo_exec (SaveCode a) d = snd (mongo_save_authorization_code a d)"
| "mongo_exec (MarkCodeUsed c) d = snd (mongo_mark_authorization_code_used c d)"
| "mongo_exec (SaveDevice v) d = snd (mongo_save_device_authorization v d)"
| "mongo_exec (ApproveDevice c u) d = snd (mongo_approve_device c u d)"
| "mongo_exec (DenyDevice c) d = snd (mongo_deny_device c d)"
| "mongo_exec (MarkDeviceUsed c) d = snd (mongo_mark_device_used c d)"
| "mongo_exec (ExpireDevice now c) d = snd (mongo_expire_device now c d)"
| "mongo_exec (AddDenylist e) d = snd (default_add_denylist_entry e d)"
| "mongo_exec (RemoveDenylist i) d = snd (default_remove_denylist_entry i d)"
| "mongo_exec (DpopJti now j e) d = snd (mongo_dpop_jti_check_and_insert now j e d)"
| "mongo_exec (SaveTxnAuth t) d = snd (mongo_save_transaction_authorization t d)"
| "mongo_exec (SettleTxnAuth i u b) d = snd (mongo_settle_transaction_authorization i u b d)"
| "mongo_exec (MarkTxnAuthUsed i) d = snd (mongo_mark_transaction_used i d)"
| "mongo_exec (SaveResource r) d = snd (mongo_save_resource r d)"
| "mongo_exec (DeleteResource i) d = snd (mongo_delete_resource i d)"
| "mongo_exec (SaveIssuer t) d = snd (mongo_save_trusted_issuer t d)"
| "mongo_exec (DeleteIssuer i) d = snd (mongo_delete_trusted_issuer i d)"

end
