(* ===== verification/Mongo_Laws.thy ===== *)
theory Mongo_Laws
  imports Mongo_Storage Listing_Laws
begin

text \<open>
  How the document store compares with the relational one: the contracts it meets, the statements on which
  the two agree, the listings, and the promises of the trait it does not keep.
\<close>

section \<open>Collections with unique keys\<close>

lemma update_one_absent: "(\<And>x. x \<in> set xs \<Longrightarrow> \<not> P x) \<Longrightarrow> update_one P f xs = xs"
  by (induction xs) auto

lemma update_where_absent: "(\<And>x. x \<in> set xs \<Longrightarrow> \<not> P x) \<Longrightarrow> update_where P f xs = xs"
  by (induction xs) auto

lemma update_one_unique:
  assumes "distinct (map k xs)" "\<And>x. P x \<Longrightarrow> k x = i"
  shows "update_one P f xs = update_where P f xs"
  using assms(1)
proof (induction xs)
  case (Cons x xs)
  show ?case
  proof (cases "P x")
    case True
    then have "\<not> P y" if "y \<in> set xs" for y using Cons.prems assms(2) [of x] assms(2) [of y] that by (auto simp: image_iff)
    then show ?thesis using True by (simp add: update_where_absent)
  qed (use Cons in simp)
qed simp

lemma delete_one_unique: "distinct (map k xs) \<Longrightarrow> delete_one (\<lambda>x. k x = i) xs = filter (\<lambda>x. k x \<noteq> i) xs"
proof (induction xs)
  case (Cons x xs)
  then show ?case by (cases "k x = i") (auto simp: image_iff intro!: filter_True [symmetric])
qed simp

lemma count_unique:
  assumes "distinct (map k xs)" "\<And>x. P x \<Longrightarrow> k x = i"
  shows "count_where P xs = (if list_ex P xs then 1 else 0)"
  using assms(1)
proof (induction xs)
  case (Cons x xs)
  show ?case
  proof (cases "P x")
    case True
    then have "\<not> list_ex P xs" using Cons.prems assms(2) by (force simp: list_ex_iff image_iff)
    then show ?thesis using True Cons by (simp add: count_where_def)
  qed (use Cons in \<open>simp add: count_where_def\<close>)
qed (simp add: count_where_def)

section \<open>The contracts\<close>

lemma indexed_ok: "indexed dup d d' = (Inr u, e) \<longleftrightarrow> \<not> dup \<and> e = d'" "indexed dup d d' = (Inl err, e) \<longleftrightarrow> dup \<and> err = duplicate_key \<and> e = d"
  by (auto simp: indexed_def)

lemma find_code_update_one:
  "find (\<lambda>a. ac_code a = c) (update_one (\<lambda>a. ac_code a = c') (\<lambda>a. a\<lparr>ac_used := True\<rparr>) xs) =
   map_option (\<lambda>a. if c = c' then a\<lparr>ac_used := True\<rparr> else a) (find (\<lambda>a. ac_code a = c) xs)"
  by (induction xs) (auto simp: option.map_ident)

interpretation mongo_codes: code_store mongo_save_authorization_code mongo_get_authorization_code mongo_mark_authorization_code_used
  by unfold_locales
    (auto simp: mongo_save_authorization_code_def mongo_get_authorization_code_def mongo_mark_authorization_code_used_def indexed_ok
      find_code_update_one find_append find_None_iff find_None_iff2 list_ex_iff split: option.splits dest: find_Some_in)

interpretation mongo_tokens: basic_token_store mongo_save_token mongo_get_token_by_access_token mongo_get_token_by_refresh_token mongo_revoke_token
  by unfold_locales
    (auto simp: mongo_save_token_def mongo_get_token_by_access_token_def mongo_get_token_by_refresh_token_def mongo_revoke_token_def indexed_ok
      find_update_where find_append find_None_iff find_None_iff2 list_ex_iff split: option.splits dest: find_Some_in)

text \<open>Replay detection cannot rely on this backend: revoking a family does nothing.\<close>
lemma mongo_not_token_store:
  "\<not> token_store mongo_save_token mongo_get_token_by_access_token mongo_get_token_by_refresh_token mongo_revoke_token default_revoke_token_family"
proof
  assume s: "token_store mongo_save_token mongo_get_token_by_access_token mongo_get_token_by_refresh_token mongo_revoke_token default_revoke_token_family"
  let ?t = "(token_new 0 ''i'' ''a'' None ''c'' None [] 60 None)\<lparr>tk_token_family := Some ''f''\<rparr>"
  let ?d = "db_empty\<lparr>db_tokens := [?t]\<rparr>"
  have "mongo_get_token_by_access_token ''a'' (snd (default_revoke_token_family ''f'' ?d)) = Some ?t"
    by (simp add: mongo_get_token_by_access_token_def default_revoke_token_family_def db_empty_def token_new_def)
  then have "tk_revoked ?t" by (rule token_store.revoked_family_invalid [OF s]) simp
  then show False by (simp add: token_new_def)
qed

section \<open>Agreement with the relational store\<close>

text \<open>The statements on which the two backends can disagree: whole-document replacement of clients and
  issuers, the deletion of a user with what belongs to it, and the methods this backend does not have.\<close>
fun shared :: "sql_cmd \<Rightarrow> bool" where
  "shared (UpdateClient c) = False"
| "shared (DeleteUser u) = False"
| "shared (RevokeTokenFamily f) = False"
| "shared (RevokeTokensByUserId u) = False"
| "shared (AddDenylist e) = False"
| "shared (RemoveDenylist i) = False"
| "shared (SaveIssuer t) = False"
| "shared _ = True"

text \<open>The relational store accepts the statement: no key is repeated and every reference resolves.\<close>
fun accepted :: "sql_cmd \<Rightarrow> db \<Rightarrow> bool" where
  "accepted (SaveClient c) d = (\<not> isl (fst (save_client c d)))"
| "accepted (DeleteClient i) d = (\<not> isl (fst (delete_client i d)))"
| "accepted (SaveUser u) d = (\<not> isl (fst (save_user u d)))"
| "accepted (UpdateUser u) d = (\<not> isl (fst (update_user u d)))"
| "accepted (SaveToken t) d = (\<not> isl (fst (save_token t d)))"
| "accepted (SaveCode a) d = (\<not> isl (fst (save_authorization_code a d)))"
| "accepted (SaveDevice v) d = (\<not> isl (fst (save_device_authorization v d)))"
| "accepted (ApproveDevice c u) d = (\<not> isl (fst (approve_device_authorization c u d)))"
| "accepted (SaveTxnAuth t) d = (\<not> isl (fst (save_transaction_authorization t d)))"
| "accepted (SaveResource r) d = (\<not> isl (fst (save_resource r d)))"
| "accepted _ d = True"

fun accepted_run :: "sql_cmd list \<Rightarrow> db \<Rightarrow> bool" where
  "accepted_run [] d = True"
| "accepted_run (c # cs) d = (accepted c d \<and> accepted_run cs (exec_cmd c d))"

lemmas mongo_defs = mongo_save_client_def mongo_delete_client_def mongo_set_client_enabled_def mongo_set_client_secret_def mongo_save_user_def
  mongo_update_user_def mongo_set_user_enabled_def mongo_set_user_role_def mongo_set_user_password_hash_def mongo_save_token_def
  mongo_revoke_token_def mongo_revoke_token_by_id_def mongo_set_token_family_def mongo_revoke_tokens_by_client_id_def
  mongo_save_authorization_code_def mongo_mark_authorization_code_used_def mongo_save_device_authorization_def mongo_approve_device_def
  mongo_deny_device_def mongo_mark_device_used_def mongo_expire_device_def mongo_dpop_jti_check_and_insert_def
  mongo_save_transaction_authorization_def mongo_settle_transaction_authorization_def mongo_mark_transaction_used_def mongo_save_resource_def
  mongo_delete_resource_def mongo_delete_trusted_issuer_def

text \<open>Where the keys are unique, the first match is the only one.\<close>
lemma keys_ok_updates:
  assumes "keys_ok d"
  shows "update_one (\<lambda>c. cl_client_id c = i) f (db_clients d) = update_where (\<lambda>c. cl_client_id c = i) f (db_clients d)"
    "update_one (\<lambda>u. us_id u = i) g (db_users d) = update_where (\<lambda>u. us_id u = i) g (db_users d)"
    "update_one (\<lambda>t. tk_access_token t = i) h (db_tokens d) = update_where (\<lambda>t. tk_access_token t = i) h (db_tokens d)"
    "update_one (\<lambda>t. tk_id t = i \<and> \<not> tk_revoked t) h (db_tokens d) = update_where (\<lambda>t. tk_id t = i \<and> \<not> tk_revoked t) h (db_tokens d)"
    "update_one (\<lambda>a. ac_code a = i) k (db_codes d) = update_where (\<lambda>a. ac_code a = i) k (db_codes d)"
    "update_one (\<lambda>v. da_user_code v = i) m (db_devices d) = update_where (\<lambda>v. da_user_code v = i) m (db_devices d)"
    "update_one (\<lambda>v. da_device_code v = i) m (db_devices d) = update_where (\<lambda>v. da_device_code v = i) m (db_devices d)"
    "update_one (\<lambda>t. ta_transaction_authorization_id t = i) n (db_txn_auths d) =
       update_where (\<lambda>t. ta_transaction_authorization_id t = i) n (db_txn_auths d)"
  subgoal by (rule update_one_unique [where k = cl_client_id and i = i]; use assms in \<open>simp add: keys_ok_def\<close>)
  subgoal by (rule update_one_unique [where k = us_id and i = i]; use assms in \<open>simp add: keys_ok_def\<close>)
  subgoal by (rule update_one_unique [where k = tk_access_token and i = i]; use assms in \<open>simp add: keys_ok_def\<close>)
  subgoal by (rule update_one_unique [where k = tk_id and i = i]; use assms in \<open>simp add: keys_ok_def\<close>)
  subgoal by (rule update_one_unique [where k = ac_code and i = i]; use assms in \<open>simp add: keys_ok_def\<close>)
  subgoal by (rule update_one_unique [where k = da_user_code and i = i]; use assms in \<open>simp add: keys_ok_def\<close>)
  subgoal by (rule update_one_unique [where k = da_device_code and i = i]; use assms in \<open>simp add: keys_ok_def\<close>)
  subgoal by (rule update_one_unique [where k = ta_transaction_authorization_id and i = i]; use assms in \<open>simp add: keys_ok_def\<close>)
  done

lemma keys_ok_deletes:
  assumes "keys_ok d"
  shows "delete_one (\<lambda>c. cl_client_id c = i) (db_clients d) = filter (\<lambda>c. cl_client_id c \<noteq> i) (db_clients d)"
    "delete_one (\<lambda>r. pr_id r = i) (db_resources d) = filter (\<lambda>r. pr_id r \<noteq> i) (db_resources d)"
    "delete_one (\<lambda>t. ti_id t = i) (db_issuers d) = filter (\<lambda>t. ti_id t \<noteq> i) (db_issuers d)"
  using assms unfolding keys_ok_def by (simp_all add: delete_one_unique)

lemma update_user_agrees:
  assumes "keys_ok d" "\<not> isl (fst (update_user u d))"
  shows "snd (mongo_update_user u d) = snd (update_user u d)"
proof -
  have "\<not> (case find (\<lambda>r. us_id r = us_id u) (db_users d) of None \<Rightarrow> False
      | Some old \<Rightarrow> us_username old \<noteq> us_username u \<and> list_ex (\<lambda>r. us_username r = us_username u) (db_users d))"
  proof (cases "find (\<lambda>r. us_id r = us_id u) (db_users d)")
    case (Some old)
    then have old: "old \<in> set (db_users d)" "us_id old = us_id u" by (auto dest: find_Some_in)
    have "us_username r \<noteq> us_username u" if "r \<in> set (db_users d)" "us_username old \<noteq> us_username u" for r
    proof
      assume "us_username r = us_username u"
      then have "us_id r = us_id u"
        using assms(2) that old by (force simp: update_user_def checked_def has_user_def list_ex_iff split: if_splits)
      then have "r = old" using old that(1) assms(1) by (auto simp: keys_ok_def distinct_map inj_on_def)
      then show False using that(2) \<open>us_username r = us_username u\<close> by simp
    qed
    then show ?thesis using Some by (auto simp: list_ex_iff)
  qed simp
  then show ?thesis
    using assms by (auto simp: mongo_update_user_def indexed_def update_user_def checked_def keys_ok_updates split: if_splits)
qed

text \<open>Inserts that the relational store accepts.\<close>
lemma insert_agrees:
  "\<not> isl (fst (save_client c d)) \<Longrightarrow> mongo_save_client c d = save_client c d"
  "\<not> isl (fst (save_user u d)) \<Longrightarrow> mongo_save_user u d = save_user u d"
  "\<not> isl (fst (save_token t d)) \<Longrightarrow> mongo_save_token t d = save_token t d"
  "\<not> isl (fst (save_authorization_code a d)) \<Longrightarrow> mongo_save_authorization_code a d = save_authorization_code a d"
  "\<not> isl (fst (save_device_authorization v d)) \<Longrightarrow> mongo_save_device_authorization v d = save_device_authorization v d"
  "\<not> isl (fst (save_transaction_authorization x d)) \<Longrightarrow> mongo_save_transaction_authorization x d = save_transaction_authorization x d"
  "\<not> isl (fst (save_resource r d)) \<Longrightarrow> mongo_save_resource r d = save_resource r d"
  subgoal by (auto simp: mongo_save_client_def save_client_def indexed_def checked_def list_ex_iff split: if_splits)
  subgoal by (auto simp: mongo_save_user_def save_user_def indexed_def checked_def list_ex_iff split: if_splits)
  subgoal by (auto simp: mongo_save_token_def save_token_def indexed_def checked_def list_ex_iff split: if_splits)
  subgoal by (auto simp: mongo_save_authorization_code_def save_authorization_code_def indexed_def checked_def list_ex_iff split: if_splits)
  subgoal by (auto simp: mongo_save_device_authorization_def save_device_authorization_def indexed_def checked_def list_ex_iff split: if_splits)
  subgoal by (auto simp: mongo_save_transaction_authorization_def save_transaction_authorization_def indexed_def checked_def list_ex_iff split: if_splits)
  subgoal by (auto simp: mongo_save_resource_def save_resource_def indexed_def checked_def list_ex_iff split: if_splits)
  done

text \<open>Changes of a document named by its key.\<close>
lemma change_agrees:
  assumes "keys_ok d"
  shows "mongo_set_client_enabled now i b d = set_client_enabled now i b d" "mongo_set_client_secret now i s d = set_client_secret now i s d"
    "mongo_set_user_enabled now i b d = set_user_enabled now i b d" "mongo_set_user_role now i s d = set_user_role now i s d"
    "mongo_set_user_password_hash now i s d = set_user_password_hash now i s d" "mongo_set_token_family i s d = set_token_family i s d"
    "mongo_revoke_token s d = revoke_token s d" "mongo_revoke_tokens_by_client_id i d = revoke_tokens_by_client_id i d"
    "mongo_mark_authorization_code_used i d = mark_authorization_code_used i d" "mongo_deny_device i d = deny_device_authorization i d"
    "mongo_mark_device_used i d = mark_device_authorization_used i d" "mongo_expire_device now i d = expire_device_authorization now i d"
    "mongo_settle_transaction_authorization i s b d = settle_transaction_authorization i s b d"
    "mongo_mark_transaction_used i d = mark_transaction_authorization_used i d" "mongo_delete_resource i d = delete_resource i d"
    "mongo_delete_trusted_issuer i d = delete_trusted_issuer i d"
    "mongo_dpop_jti_check_and_insert now i e d = dpop_jti_check_and_insert now i e d"
  by (simp_all add: mongo_defs sql_defs keys_ok_updates [OF assms] keys_ok_deletes [OF assms] count_where_def Let_def)

lemma revoke_by_id_agrees:
  assumes "keys_ok d"
  shows "mongo_revoke_token_by_id i d = revoke_token_by_id i d"
proof -
  have "count_where (\<lambda>t. tk_id t = i \<and> \<not> tk_revoked t) (db_tokens d) = (if list_ex (\<lambda>t. tk_id t = i \<and> \<not> tk_revoked t) (db_tokens d) then 1 else 0)"
    by (rule count_unique [where k = tk_id and i = i]) (use assms in \<open>simp_all add: keys_ok_def\<close>)
  then show ?thesis by (simp add: mongo_revoke_token_by_id_def revoke_token_by_id_def revoke_rows_def keys_ok_updates [OF assms])
qed

lemma guarded_agrees:
  assumes "keys_ok d"
  shows "\<not> isl (fst (delete_client i d)) \<Longrightarrow> mongo_delete_client i d = delete_client i d"
    "\<not> isl (fst (approve_device_authorization i u d)) \<Longrightarrow> mongo_approve_device i u d = approve_device_authorization i u d"
  by (auto simp: mongo_delete_client_def delete_client_def mongo_approve_device_def approve_device_authorization_def checked_def
      keys_ok_updates [OF assms] keys_ok_deletes [OF assms] split: if_splits)

lemma mongo_exec_agrees:
  assumes "db_wf d" "shared c" "accepted c d"
  shows "mongo_exec c d = exec_cmd c d"
proof -
  have k: "keys_ok d" using assms(1) by (simp add: db_wf_def)
  note agrees = insert_agrees change_agrees [OF k] revoke_by_id_agrees [OF k] guarded_agrees [OF k] update_user_agrees [OF k]
  show ?thesis using assms(2,3) by (cases c) (simp_all add: agrees)
qed

text \<open>C36. The two storage backends agree: from a database whose keys are unique and whose references
  resolve, any sequence of statements that the relational store accepts leaves the document store with exactly
  the same data, as long as no client or issuer document is replaced, no user is deleted, and the methods
  the document store lacks (families, revocation by user, denylist) are not called.\<close>
theorem mongo_simulates_sql:
  assumes "db_wf d" "list_all shared cs" "accepted_run cs d"
  shows "fold mongo_exec cs d = exec_all cs d"
  using assms
proof (induction cs arbitrary: d)
  case (Cons c cs)
  then have "mongo_exec c d = exec_cmd c d" by (simp add: mongo_exec_agrees)
  then show ?case using Cons exec_cmd_wf by (simp add: exec_all_def)
qed (simp add: exec_all_def)

definition branch_ops :: "sql_cmd list" where
  "branch_ops = [SaveUser (user_new 0 ''u'' ''ann'' ''h'' ''e''), SetUserRole 5 ''u'' ''admin'']"

lemma mongo_simulates_sql_witness:
  "fold mongo_exec branch_ops db_empty = exec_all branch_ops db_empty \<and> map us_role (db_users (fold mongo_exec branch_ops db_empty)) = [''admin'']"
proof -
  have "fold mongo_exec branch_ops db_empty = exec_all branch_ops db_empty"
    by (rule mongo_simulates_sql [OF db_empty_wf]) (simp_all add: branch_ops_def save_user_def checked_def db_empty_def)
  moreover have "map us_role (db_users (exec_all branch_ops db_empty)) = [''admin'']"
    by (simp add: exec_all_def branch_ops_def save_user_def set_user_role_def checked_def db_empty_def user_new_def)
  ultimately show ?thesis by simp
qed

section \<open>Listings\<close>

lemma lower_char_idem [simp]: "to_lower_char (to_lower_char c) = to_lower_char c"
  by (simp add: to_lower_char_def Let_def of_char_of)

lemma lowercase_idem [simp]: "to_lowercase (to_lowercase s) = to_lowercase s"
  by (simp add: to_lowercase_def)

lemma dropWhile_clean: "CHR ''%'' \<notin> set s \<Longrightarrow> dropWhile (\<lambda>c. c = CHR ''%'') (s @ ''%'') = (if s = [] then [] else s @ ''%'')"
  by (cases s) auto

lemma trim_percent_pattern: "CHR ''%'' \<notin> set s \<Longrightarrow> trim_percent (''%'' @ s @ ''%'') = s"
proof -
  assume s: "CHR ''%'' \<notin> set s"
  have "dropWhile (\<lambda>c. c = CHR ''%'') r = r" if "CHR ''%'' \<notin> set r" for r using that by (cases r) auto
  from this [of "rev s"] show ?thesis using s by (simp add: trim_percent_def dropWhile_clean)
qed

lemma mongo_search_like:
  assumes "\<And>s. lq_search q = Some s \<Longrightarrow> set (to_lowercase s) \<inter> {CHR ''%'', CHR ''_''} = {}" "\<And>x. texts x \<noteq> []"
  shows "mongo_search q texts xs = filter (\<lambda>x. list_ex (\<lambda>v. sql_like (search_pattern q) (to_lowercase v)) (texts x)) xs"
proof (cases "\<exists>s. lq_search q = Some s \<and> s \<noteq> []")
  case True
  then obtain s where s: "lq_search q = Some s" "s \<noteq> []" by blast
  then have p: "search_pattern q = ''%'' @ to_lowercase s @ ''%''" by (simp add: search_pattern_def)
  have c: "set (to_lowercase s) \<inter> {CHR ''%'', CHR ''_''} = {}" using assms(1) s(1) by blast
  show ?thesis unfolding mongo_search_def Let_def p
    using c trim_percent_pattern [of "to_lowercase s"] by (simp only: sql_like_substring [OF c]) (simp add: s(2) to_lowercase_def comp_def)
next
  case False
  then have p: "search_pattern q = ''%''" by (auto simp: search_pattern_def split: option.splits)
  have "list_ex (\<lambda>v. True) (texts x)" for x using assms(2) [of x] by (cases "texts x") auto
  then show ?thesis unfolding mongo_search_def p by (simp only: sql_like_any) simp
qed

lemma insort_sql: "insort_key (\<lambda>x. SqlInt (f x)) x xs = insort_key f x xs" "insort_key (\<lambda>x. SqlText (g x)) x xs = insort_key g x xs"
  by (induction xs) auto

lemma sort_sql: "sort_key (\<lambda>x. SqlInt (f x)) xs = sort_key f xs" "sort_key (\<lambda>x. SqlText (g x)) xs = sort_key g xs"
  by (induction xs) (simp_all add: insort_sql)

lemma created_order: "order_rows (sort_dir_sql q) (\<lambda>x. SqlInt (f x)) xs = by_created q f xs"
  by (simp add: order_rows_def by_created_def newest_first_def sort_sql)

lemma filter_by_created: "filter P (by_created q f xs) = by_created q f (filter P xs)"
  by (simp add: by_created_def newest_first_def filter_sort rev_filter [symmetric])

lemma select_page_vec: "select_page q keep key rows = page_from_vec (order_rows (sort_dir_sql q) key (filter keep rows)) q"
  by (simp add: select_page_def page_from_vec_def Let_def limit_offset_def)

text \<open>For search terms without wildcards and the orders both offer, the console shows the same page of users
  and of clients on either backend.\<close>
lemma mongo_pages_agree:
  assumes "\<And>s. lq_search q = Some s \<Longrightarrow> set (to_lowercase s) \<inter> {CHR ''%'', CHR ''_''} = {}"
  shows "lq_sort_by q \<notin> Some ` {''username'', ''email'', ''role''} \<Longrightarrow> mongo_list_users_page q d = list_users_page q d"
    and "lq_sort_by q \<notin> Some ` {''name'', ''client_id''} \<Longrightarrow> mongo_list_clients_page q d = list_clients_page q d"
proof -
  assume "lq_sort_by q \<notin> Some ` {''username'', ''email'', ''role''}"
  then have "user_column (whitelist_col (lq_sort_by q) [''username'', ''email'', ''role'', ''created_at'']) = (\<lambda>u. SqlInt (us_created_at u))"
    by (auto simp: whitelist_col_def user_column_def Let_def split: option.splits)
  then show "mongo_list_users_page q d = list_users_page q d"
    by (simp add: mongo_list_users_page_def list_users_page_def select_page_vec created_order mongo_search_like [OF assms] filter_by_created)
next
  assume c: "lq_sort_by q \<notin> Some ` {''name'', ''client_id''}"
  then have "client_column (whitelist_col (lq_sort_by q) [''name'', ''client_id'', ''created_at'']) = (\<lambda>c. SqlInt (cl_created_at c))"
    by (auto simp: whitelist_col_def client_column_def Let_def split: option.splits)
  then show "mongo_list_clients_page q d = list_clients_page q d"
    using c by (auto simp: mongo_list_clients_page_def list_clients_page_def select_page_vec created_order mongo_search_like [OF assms] filter_by_created)
qed

section \<open>Promises not kept\<close>

text \<open>Deleting or logging out a user leaves every token of the user as it was.\<close>
lemma mongo_keeps_user_tokens:
  "db_tokens (snd (mongo_delete_user u d)) = db_tokens d" "snd (default_revoke_tokens_by_user_id u d) = d"
  by (simp_all add: mongo_delete_user_def default_revoke_tokens_by_user_id_def)

text \<open>An entry of the denylist is accepted and never found.\<close>
lemma mongo_denylist_forgets: "default_find_denylist_entry k v (snd (default_add_denylist_entry e d)) = None"
  by (simp add: default_find_denylist_entry_def)

end
