(* ===== verification/Transaction_Approval.thy ===== *)
theory Transaction_Approval
  imports Jwt_Bearer
begin

text \<open>
  Transaction authorization (\<open>handlers/transaction_authorization.rs\<close>): a protected resource signs a
  challenge, the client submits it, a person approves or denies it in the browser, and the client
  polls the token endpoint.  The three entry points are \<open>transaction_authorization\<close>,
  \<open>approve_page\<close> with \<open>approve_submit\<close>, and \<open>handle_transaction_authorization_grant\<close>.  The HTML of
  the approval page is rendered elsewhere; here the page is the record it shows.
\<close>

section \<open>The challenge\<close>

definition grant_transaction_authorization :: string where
  "grant_transaction_authorization = ''urn:ietf:params:oauth:grant-type:transaction-authorization''"

definition max_pending_secs :: int where
  "max_pending_secs = 600"

definition token_ttl_cap_secs :: "64 word" where
  "token_ttl_cap_secs = 300"

record challenge_form =
  cf_transaction_challenge :: string
  cf_client_id :: "string option"
  cf_client_secret :: "string option"
  cf_client_assertion :: "string option"
  cf_client_assertion_type :: "string option"

record verified_challenge =
  vc_resource :: protected_resource
  vc_txn :: string
  vc_authorization_details :: json
  vc_reason :: string
  vc_reason_uri :: string
  vc_act :: "json option"
  vc_acr_values :: string
  vc_max_age :: "int option"
  vc_exp :: int

definition require_tac_enabled :: "agent_config \<Rightarrow> unit result" where
  "require_tac_enabled ag = ensure (ag_tac_enabled ag)
     (invalid_request ''transaction authorization is not enabled on this authorization server'')"

definition client_auth_request :: "string \<Rightarrow> string option \<Rightarrow> string option \<Rightarrow> string option \<Rightarrow> token_request" where
  "client_auth_request client_id client_secret client_assertion client_assertion_type =
     \<lparr>rq_grant_type = grant_transaction_authorization, rq_code = None, rq_redirect_uri = None, rq_client_id = client_id,
      rq_client_secret = client_secret, rq_refresh_token = None, rq_username = None, rq_password = None, rq_scope = None,
      rq_code_verifier = None, rq_device_code = None, rq_client_assertion_type = client_assertion_type,
      rq_client_assertion = client_assertion, rq_resource = [], rq_assertion = None, rq_audience = [], rq_subject_token = None,
      rq_subject_token_type = None, rq_actor_token = None, rq_actor_token_type = None, rq_requested_token_type = None,
      rq_authorization_details = None, rq_request_details = None, rq_request_context = None, rq_purp = None,
      rq_transaction_authorization_id = None\<rparr>"

definition request_failure :: "oauth2_error \<Rightarrow> oauth2_error" where
  "request_failure e = invalid_request (unwrap_or (err_description e) [])"

text \<open>Up to the verified claims: the issuing resource, its published keys, the signature, and the
  single-use check of the challenge.\<close>
definition challenge_resource :: "env \<Rightarrow> string \<Rightarrow> db \<Rightarrow> (jose_header \<times> string \<times> protected_resource) result" where
  "challenge_resource E challenge d =
     bindR (ok_or (al_header (en_assertions E) challenge) (invalid_request ''malformed transaction_challenge JWT header'')) (\<lambda>header.
     bindR (ensure (jh_alg header \<in> set allowed_algs) (invalid_request ''transaction_challenge uses an unsupported signature algorithm'')) (\<lambda>_.
     bindR (map_sum request_failure id (decode_unverified_claims E challenge)) (\<lambda>unverified.
     bindR (ok_or (claim_str unverified ''iss'') (invalid_request ''transaction_challenge is missing the iss claim'')) (\<lambda>iss.
     bindR (ok_or (case get_resource_by_uri iss d of
                     Some r \<Rightarrow> if trim (pr_txn_challenge_jwks_uri r) \<noteq> [] then Some r else None
                   | None \<Rightarrow> None)
       (invalid_request ''transaction_challenge iss is not a known protected resource'')) (\<lambda>resource.
       Inr (header, iss, resource))))))"

definition challenge_signature :: "env \<Rightarrow> instant \<Rightarrow> string \<Rightarrow> jose_header \<Rightarrow> string \<Rightarrow> protected_resource \<Rightarrow> json result" where
  "challenge_signature E now challenge header iss resource =
     bindR (ok_or (en_jwks_cache E)
       (error_new ''server_error'' (Some ''JWKS cache is not configured; cannot verify transaction challenges''))) (\<lambda>fetch.
     bindR (map_sum (\<lambda>e. invalid_request (''could not fetch the protected resource'' @ [CHR 0x27] @ ''s challenge JWKS: '' @
              unwrap_or (err_description e) (err_error e))) id (fetch (trim (pr_txn_challenge_jwks_uri resource)))) (\<lambda>jwks.
     bindR (map_sum request_failure id (select_key (en_jose E) jwks header)) (\<lambda>key.
       map_sum (\<lambda>e. invalid_request (''transaction_challenge validation failed: '' @ e)) id
         (en_decode_ext E now (jh_alg header) key iss [oc_issuer (en_oidc E)] [''iss'', ''aud'', ''exp'', ''iat'', ''jti''] challenge))))"

fun join_space :: "string list \<Rightarrow> string" where
  "join_space [] = []"
| "join_space [x] = x"
| "join_space (x # xs) = x @ '' '' @ join_space xs"

definition challenge_acr :: "json option \<Rightarrow> string result" where
  "challenge_acr v =
     (case v of
        None \<Rightarrow> Inr []
      | Some (JStr x) \<Rightarrow> Inr (join_space (split_whitespace x))
      | Some (JArr xs) \<Rightarrow>
          if list_all (\<lambda>x. as_str x \<noteq> None) xs then Inr (join_space (List.map_filter as_str xs))
          else Inl (invalid_request ''transaction_challenge acr_values must contain strings'')
      | Some _ \<Rightarrow> Inl (invalid_request ''transaction_challenge acr_values must be a string or array''))"

definition challenge_max_age :: "json option \<Rightarrow> int option result" where
  "challenge_max_age v =
     (case v of
        None \<Rightarrow> Inr None
      | Some j \<Rightarrow>
          (case as_i64_value j of
             Some age \<Rightarrow> if 0 \<le> age then Inr (Some age)
                         else Inl (invalid_request ''transaction_challenge max_age must be a non-negative integer'')
           | None \<Rightarrow> Inl (invalid_request ''transaction_challenge max_age must be a non-negative integer'')))"

definition challenge_act :: "agent_config \<Rightarrow> json option \<Rightarrow> json option result" where
  "challenge_act ag v =
     (let bad = (\<lambda>e. invalid_request (''transaction_challenge act claim: '' @ actor_error_text e)) in
      case v of
        None \<Rightarrow> Inr None
      | Some j \<Rightarrow>
          bindR (map_sum bad id (from_value j)) (\<lambda>chain.
          bindR (map_sum bad id (validate_chain chain (ag_max_delegation_depth ag))) (\<lambda>_. Inr (Some (to_value chain)))))"

definition is_json_array :: "json \<Rightarrow> bool" where
  "is_json_array v = (as_array v \<noteq> None)"

text \<open>The claims this server requires of a verified challenge.\<close>
definition challenge_claims :: "agent_config \<Rightarrow> protected_resource \<Rightarrow> json \<Rightarrow> verified_challenge result" where
  "challenge_claims ag resource claims =
     bindR (ok_or (str_claim (Some claims) ''txn'') (invalid_request ''transaction_challenge is missing the txn claim'')) (\<lambda>txn.
     bindR (ok_or (Option.bind (json_get claims ''authorization_details'') (\<lambda>v. if is_json_array v then Some v else None))
       (invalid_request ''transaction_challenge authorization_details must be a JSON array'')) (\<lambda>details.
     bindR (ok_or (claim_str claims ''reason'') (invalid_request ''transaction_challenge reason must be a string'')) (\<lambda>reason.
     bindR (challenge_act ag (json_get claims ''act'')) (\<lambda>act_claim.
     bindR (ok_or (Option.bind (json_get claims ''exp'') as_i64_value)
       (invalid_request ''transaction_challenge exp claim is not a number'')) (\<lambda>ex.
     bindR (challenge_acr (json_get claims ''acr_values'')) (\<lambda>acr.
     bindR (challenge_max_age (json_get claims ''max_age'')) (\<lambda>max_age.
       Inr \<lparr>vc_resource = resource, vc_txn = txn, vc_authorization_details = details, vc_reason = reason,
            vc_reason_uri = unwrap_or (claim_str claims ''reason_uri'') [], vc_act = act_claim, vc_acr_values = acr,
            vc_max_age = max_age, vc_exp = ex\<rparr>)))))))"

definition verify_challenge :: "env \<Rightarrow> instant \<Rightarrow> string \<Rightarrow> verified_challenge act" where
  "verify_challenge E now challenge =
     andThen (\<lambda>s. (challenge_resource E challenge (sv_db s), s)) (\<lambda>(header, iss, resource).
     andThen (ret (challenge_signature E now challenge header iss resource)) (\<lambda>claims.
     andThen (\<lambda>s. apfst (map_sum request_failure id) (send_jti E now (''txn-challenge:'' @ iss) claims s)) (\<lambda>_.
       ret (challenge_claims (en_agent E) resource claims))))"

section \<open>Opening an approval\<close>

definition challenge_client_id :: "string option \<Rightarrow> string option \<Rightarrow> string result" where
  "challenge_client_id body basic =
     (case (body, basic) of
        (Some b, Some i) \<Rightarrow> if b \<noteq> i then Inl (invalid_request ''client_id mismatch between body and Basic auth'') else Inr b
      | (Some b, None) \<Rightarrow> Inr b
      | (None, Some i) \<Rightarrow> Inr i
      | (None, None) \<Rightarrow> Inl (invalid_client ''Missing client_id''))"

definition pending_secs :: "instant \<Rightarrow> int \<Rightarrow> int" where
  "pending_secs now ex = max (min ex (timestamp now + max_pending_secs) - timestamp now) 1"

definition pending_record :: "libs \<Rightarrow> instant \<Rightarrow> string \<Rightarrow> string \<Rightarrow> string \<Rightarrow> verified_challenge \<Rightarrow> transaction_authorization" where
  "pending_record L now uuid handle client_id v =
     (transaction_authorization_new now uuid handle client_id (pr_resource_uri (vc_resource v)) (vc_txn v)
        (json_to_string L (vc_authorization_details v)) (pending_secs now (vc_exp v)))
     \<lparr>ta_reason := vc_reason v, ta_reason_uri := vc_reason_uri v, ta_act := map_option (json_to_string L) (vc_act v),
      ta_acr_values := vc_acr_values v, ta_max_age := vc_max_age v\<rparr>"

text \<open>The answer: the handle, its lifetime and the polling interval.\<close>
definition transaction_authorization_endpoint ::
  "env \<Rightarrow> instant \<Rightarrow> string \<Rightarrow> string \<Rightarrow> header_value option \<Rightarrow> mtls \<Rightarrow> challenge_form \<Rightarrow> (string \<times> int \<times> int) act" where
  "transaction_authorization_endpoint E now uuid handle authorization mt form =
     andThen (ret (require_tac_enabled (en_agent E))) (\<lambda>_.
     andThen (ret (parse_client_basic_auth (en_http E) authorization)) (\<lambda>basic.
     andThen (ret (challenge_client_id (cf_client_id form) (map_option fst basic))) (\<lambda>client_id.
     andThen (send_resolve E now client_id) (\<lambda>c.
     andThen (ret (ensure (\<not> is_public c) (invalid_client ''Public clients cannot use transaction authorization''))) (\<lambda>_.
     andThen (authenticate E now c
       (client_auth_request (cl_client_id c)
          (case cf_client_secret form of Some x \<Rightarrow> Some x | None \<Rightarrow> map_option snd basic)
          (cf_client_assertion form) (cf_client_assertion_type form)) mt) (\<lambda>_.
     andThen (verify_challenge E now (cf_transaction_challenge form)) (\<lambda>v.
     let record = pending_record (en_libs E) now uuid handle (cl_client_id c) v in
     andThen (run_db (save_transaction_authorization record)) (\<lambda>_.
       ret (Inr (ta_transaction_authorization_id record, pending_secs now (vc_exp v), ta_interval_seconds record))))))))))"

section \<open>The human decision\<close>

definition safe_reason_link :: "libs \<Rightarrow> string \<Rightarrow> string option" where
  "safe_reason_link L reason_uri =
     (let trimmed = trim reason_uri in
      if trimmed = [] then None
      else (case url_parse L trimmed of
              Some u \<Rightarrow> if url_scheme u \<in> {''http'', ''https''} then Some trimmed else None
            | None \<Rightarrow> None))"

definition load_actionable :: "instant \<Rightarrow> string \<Rightarrow> db \<Rightarrow> transaction_authorization result" where
  "load_actionable now i d =
     bindR (ok_or (get_transaction_authorization i d) (invalid_request ''Unknown transaction_authorization_id'')) (\<lambda>r.
     bindR (ensure (\<not> ta_is_expired now r) (invalid_request ''transaction authorization expired'')) (\<lambda>_.
     bindR (ensure (\<not> ta_used r) (invalid_request ''transaction authorization already used'')) (\<lambda>_.
     bindR (ensure (\<not> (ta_approved r \<or> ta_denied r)) (invalid_request ''transaction authorization has already been decided'')) (\<lambda>_.
       Inr r))))"

definition i64_min :: int where
  "i64_min = - 9223372036854775808"

definition i64_max :: int where
  "i64_max = 9223372036854775807"

definition saturating_sub :: "int \<Rightarrow> int \<Rightarrow> int" where
  "saturating_sub a b = max i64_min (min i64_max (a - b))"

definition step_up_requirements_satisfied :: "instant \<Rightarrow> string \<Rightarrow> int option \<Rightarrow> string option \<Rightarrow> int option \<Rightarrow> bool" where
  "step_up_requirements_satisfied now acr_values max_age actual_acr auth_time =
     ((trim acr_values = [] \<or> (case actual_acr of None \<Rightarrow> False | Some acr \<Rightarrow> acr \<in> set (split_whitespace acr_values))) \<and>
      (case max_age of
         None \<Rightarrow> True
       | Some age \<Rightarrow> (case auth_time of None \<Rightarrow> False | Some t \<Rightarrow> saturating_sub (timestamp now) t \<le> age)))"

definition step_up_satisfied :: "instant \<Rightarrow> transaction_authorization \<Rightarrow> session \<Rightarrow> bool" where
  "step_up_satisfied now r z =
     step_up_requirements_satisfied now (ta_acr_values r) (ta_max_age r) (session_str z ''acr'') (session_int z ''auth_time'')"

definition insufficient_authentication :: oauth2_error where
  "insufficient_authentication = error_new ''insufficient_user_authentication''
     (Some ''the transaction requires additional user authentication'')"

text \<open>What the browser gets: a redirect to the login page (asking for a fresh login or not), or the page
  with the pending record, the client's name and the acting agent.\<close>
datatype approval_page = ToLogin | ToFreshLogin | ApprovalPage transaction_authorization string "string option"

definition approval_return :: "string option \<Rightarrow> string" where
  "approval_return i = ''/oauth/transaction_authorization/approve'' @
     (case i of None \<Rightarrow> [] | Some x \<Rightarrow> ''?transaction_authorization_id='' @ x)"

definition acting_agent :: "libs \<Rightarrow> transaction_authorization \<Rightarrow> string option" where
  "acting_agent L r = json_str (ta_act_value L r) ''sub''"

definition send_get_client :: "instant \<Rightarrow> string \<Rightarrow> client act" where
  "send_get_client now client_id s =
     (case get_client_handler now client_id (sv_clients s) (sv_db s) of (r, A) \<Rightarrow> (r, s\<lparr>sv_clients := A\<rparr>))"

definition approve_page ::
  "env \<Rightarrow> instant \<Rightarrow> string option \<Rightarrow> session \<Rightarrow> server \<Rightarrow> approval_page result \<times> session \<times> server" where
  "approve_page E now i z s =
     (case require_tac_enabled (en_agent E) of
        Inl e \<Rightarrow> (Inl e, z, s)
      | Inr _ \<Rightarrow>
     if session_str z ''user_id'' = None then (Inr ToLogin, z(''return_to'' \<mapsto> JStr (approval_return i)), s)
     else
       (case bindR (ok_or (nonempty i) (invalid_request ''Missing transaction_authorization_id''))
               (\<lambda>h. load_actionable now h (sv_db s)) of
          Inl e \<Rightarrow> (Inl e, z, s)
        | Inr r \<Rightarrow>
            if \<not> step_up_satisfied now r z
            then (Inr ToFreshLogin, (z(''user_id'' := None, ''authenticated'' := None))(''return_to'' \<mapsto> JStr (approval_return i)), s)
            else (case send_get_client now (ta_client_id r) s of
                    (c, s1) \<Rightarrow>
                      (Inr (ApprovalPage r (case c of Inr cl \<Rightarrow> cl_name cl | Inl _ \<Rightarrow> ta_client_id r) (acting_agent (en_libs E) r)), z, s1))))"

text \<open>The result tells whether the operation was approved.\<close>
definition approve_submit :: "env \<Rightarrow> instant \<Rightarrow> string \<Rightarrow> string option \<Rightarrow> session \<Rightarrow> bool act" where
  "approve_submit E now i action z =
     andThen (ret (require_tac_enabled (en_agent E))) (\<lambda>_.
     andThen (ret (ok_or (session_str z ''user_id'') (access_denied ''Authentication required''))) (\<lambda>user_id.
     andThen (\<lambda>s. (load_actionable now i (sv_db s), s)) (\<lambda>r.
     andThen (ret (ensure (step_up_satisfied now r z) insufficient_authentication)) (\<lambda>_.
     let approved = (action = Some ''approve'') in
     andThen (run_db (settle_transaction_authorization (ta_transaction_authorization_id r) user_id approved)) (\<lambda>_.
       ret (Inr approved))))))"

section \<open>Polling\<close>

definition txn_refusal :: "instant \<Rightarrow> client \<Rightarrow> transaction_authorization \<Rightarrow> unit result" where
  "txn_refusal now c r =
     bindR (ensure (ta_client_id r = cl_client_id c) (invalid_grant ''transaction_authorization_id does not belong to this client'')) (\<lambda>_.
     bindR (ensure (\<not> ta_used r) (invalid_grant ''transaction_authorization_id already used'')) (\<lambda>_.
     bindR (ensure (\<not> ta_is_expired now r) (error_new ''expired_token'' (Some ''transaction authorization expired''))) (\<lambda>_.
     bindR (ensure (\<not> ta_denied r) (access_denied ''End-user denied the transaction'')) (\<lambda>_.
       ensure (ta_approved r) (error_new ''authorization_pending'' (Some ''End-user approval is pending''))))))"

definition txn_msg :: "libs \<Rightarrow> client \<Rightarrow> json option \<Rightarrow> transaction_authorization \<Rightarrow> string \<Rightarrow> create_token_msg" where
  "txn_msg L c cnf r user_id =
     \<lparr>ctm_user_id = Some user_id, ctm_client_id = cl_client_id c, ctm_scope = [], ctm_include_refresh = False,
      ctm_token_family = None, ctm_resources = [ta_resource_uri r], ctm_cnf = cnf,
      ctm_authorization_details = Some (ta_authorization_details_value L r), ctm_act = ta_act_value L r,
      ctm_ttl_override_secs = Some token_ttl_cap_secs, ctm_sub_profile = None, ctm_txn = Some (ta_txn r)\<rparr>"

definition handle_transaction_authorization_grant ::
  "env \<Rightarrow> instant \<Rightarrow> fresh \<Rightarrow> token_request \<Rightarrow> json option \<Rightarrow> mtls \<Rightarrow> reply act" where
  "handle_transaction_authorization_grant E now fr req cnf mt =
     andThen (ret (require_tac_enabled (en_agent E))) (\<lambda>_.
     andThen (ret (ok_or (rq_transaction_authorization_id req) (invalid_request ''Missing transaction_authorization_id''))) (\<lambda>i.
     andThen (send_resolve E now (rq_client_id req)) (\<lambda>c.
     andThen (ret (ensure (\<not> is_public c) (invalid_client ''Public clients cannot use transaction authorization''))) (\<lambda>_.
     andThen (authenticate E now c req mt) (\<lambda>_.
     andThen (ret (ensure (supports_grant_type (en_libs E) c grant_transaction_authorization)
       (unauthorized_client ''Client is not allowed to use the transaction-authorization grant''))) (\<lambda>_.
     andThen (send_materialize E now c) (\<lambda>_.
     andThen (\<lambda>s. (ok_or (get_transaction_authorization i (sv_db s)) (invalid_grant ''Invalid transaction_authorization_id''), s)) (\<lambda>r.
     andThen (ret (txn_refusal now c r)) (\<lambda>_.
     andThen (ret (ok_or (ta_user_id r) (invalid_grant ''Approved transaction authorization is missing its approver''))) (\<lambda>user_id.
     andThen (send_create E now fr (cl_client_id c) (txn_msg (en_libs E) c cnf r user_id)) (\<lambda>t.
     andThen (run_db (mark_transaction_authorization_used (ta_transaction_authorization_id r))) (\<lambda>_.
       ret (Inr (IssuedFor (apply_dpop_token_type (token_response_from t) cnf) (Some (ta_authorization_details_value (en_libs E) r))
         [ta_resource_uri r]))))))))))))))"

end
