(* ===== verification/Transaction_Laws.thy ===== *)
theory Transaction_Laws
  imports Transaction_Approval
begin

text \<open>
  Transaction authorization as a state machine.  The abstract machine knows, per handle, whether a
  transaction is pending, approved by whom, denied or used; the handlers simulate it, and every
  run of it grants a token at most once, after exactly one decision, which approved.
\<close>

section \<open>The abstract machine\<close>

datatype txn_phase = Pending | Approved "string option" | Denied | Used

datatype txn_event = Opened string | Decided string string bool | Granted string "string option" | Internal

type_synonym txn_state = "string \<rightharpoonup> txn_phase"

inductive txn_step :: "txn_state \<Rightarrow> txn_event \<Rightarrow> txn_state \<Rightarrow> bool" where
  opened: "m i = None \<Longrightarrow> txn_step m (Opened i) (m(i \<mapsto> Pending))"
| approved: "m i = Some Pending \<Longrightarrow> txn_step m (Decided i u True) (m(i \<mapsto> Approved (Some u)))"
| denied: "m i = Some Pending \<Longrightarrow> txn_step m (Decided i u False) (m(i \<mapsto> Denied))"
| granted: "m i = Some (Approved u) \<Longrightarrow> txn_step m (Granted i u) (m(i \<mapsto> Used))"
| internal: "txn_step m Internal m"

inductive_cases opened_step: "txn_step m (Opened i) m'"
inductive_cases decided_step: "txn_step m (Decided i u b) m'"
inductive_cases granted_step: "txn_step m (Granted i u) m'"
inductive_cases internal_step: "txn_step m Internal m'"

text \<open>Runs, the latest event first.\<close>
inductive txn_run :: "txn_event list \<Rightarrow> txn_state \<Rightarrow> bool" where
  start: "txn_run [] Map.empty"
| step: "txn_run evs m \<Longrightarrow> txn_step m ev m' \<Longrightarrow> txn_run (ev # evs) m'"

fun about :: "string \<Rightarrow> txn_event \<Rightarrow> bool" where
  "about i (Opened j) = (i = j)"
| "about i (Decided j _ _) = (i = j)"
| "about i (Granted j _) = (i = j)"
| "about i Internal = False"

text \<open>The whole history of a handle is determined by its phase.\<close>
lemma txn_history:
  assumes "txn_run evs m"
  shows "case m i of
      None \<Rightarrow> filter (about i) evs = []
    | Some Pending \<Rightarrow> filter (about i) evs = [Opened i]
    | Some (Approved u) \<Rightarrow> (\<exists>v. u = Some v \<and> filter (about i) evs = [Decided i v True, Opened i])
    | Some Denied \<Rightarrow> (\<exists>v. filter (about i) evs = [Decided i v False, Opened i])
    | Some Used \<Rightarrow> (\<exists>v. filter (about i) evs = [Granted i (Some v), Decided i v True, Opened i])"
  using assms
proof (induction rule: txn_run.induct)
  case (step evs m ev m')
  from step.hyps(2) step.IH show ?case
    by (cases rule: txn_step.cases) (auto split: option.splits txn_phase.splits)
qed simp

section \<open>The handlers simulate it\<close>

definition txn_phase_of :: "transaction_authorization \<Rightarrow> txn_phase" where
  "txn_phase_of r = (if ta_used r then Used else if ta_denied r then Denied else if ta_approved r then Approved (ta_user_id r) else Pending)"

definition txn_abs :: "db \<Rightarrow> txn_state" where
  "txn_abs d = (\<lambda>i. map_option txn_phase_of (get_transaction_authorization i d))"

lemma get_settled:
  "get_transaction_authorization j (d\<lparr>db_txn_auths := update_where (\<lambda>t. ta_transaction_authorization_id t = i) f (db_txn_auths d)\<rparr>) =
     (if j = i then map_option f (get_transaction_authorization j d) else get_transaction_authorization j d)"
  if "\<And>t. ta_transaction_authorization_id (f t) = ta_transaction_authorization_id t"
proof -
  have "find (\<lambda>t. ta_transaction_authorization_id t = j)
      (update_where (\<lambda>t. ta_transaction_authorization_id t = i) f (db_txn_auths d)) =
    map_option (\<lambda>t. if ta_transaction_authorization_id t = i then f t else t)
      (find (\<lambda>t. ta_transaction_authorization_id t = j) (db_txn_auths d))"
    by (rule find_update_where) (simp add: that)
  then show ?thesis
    by (cases "find (\<lambda>t. ta_transaction_authorization_id t = j) (db_txn_auths d)")
      (auto simp: get_transaction_authorization_def dest: find_Some_in)
qed

lemma txn_auths_cong: "db_txn_auths d' = db_txn_auths d \<Longrightarrow> txn_abs d' = txn_abs d"
  by (simp add: txn_abs_def get_transaction_authorization_def)

lemma load_actionable_ok:
  assumes "load_actionable now i d = Inr r"
  shows "get_transaction_authorization i d = Some r" "ta_transaction_authorization_id r = i" "txn_phase_of r = Pending"
    "\<not> ta_is_expired now r"
  using assms
  by (auto simp: load_actionable_def result_simps txn_phase_of_def get_transaction_authorization_def dest!: find_Some_in)

lemma approve_submit_simulates:
  assumes "approve_submit E now i action z s = (Inr b, s')"
  shows "\<exists>u. session_str z ''user_id'' = Some u \<and> b = (action = Some ''approve'') \<and>
    txn_step (txn_abs (sv_db s)) (Decided i u b) (txn_abs (sv_db s'))"
proof -
  obtain u r where u: "session_str z ''user_id'' = Some u" and l: "load_actionable now i (sv_db s) = Inr r"
    and b: "b = (action = Some ''approve'')"
    and d: "run_db (settle_transaction_authorization (ta_transaction_authorization_id r) u b) s = (Inr (), s')"
    using assms by (auto simp: approve_submit_def result_simps Let_def)
  note r = load_actionable_ok [OF l]
  have "sv_db s' = (sv_db s)\<lparr>db_txn_auths := update_where (\<lambda>t. ta_transaction_authorization_id t = i)
      (\<lambda>t. t\<lparr>ta_approved := b, ta_denied := \<not> b, ta_user_id := Some u\<rparr>) (db_txn_auths (sv_db s))\<rparr>"
    using d r(2) by (auto simp: run_db_def settle_transaction_authorization_def)
  then have "txn_abs (sv_db s') = (txn_abs (sv_db s))(i \<mapsto> (if b then Approved (Some u) else Denied))"
    using r by (auto simp: txn_abs_def get_settled txn_phase_of_def fun_eq_iff split: if_splits)
  moreover have "txn_abs (sv_db s) i = Some Pending" using r by (simp add: txn_abs_def)
  ultimately show ?thesis using u b txn_step.approved txn_step.denied by (cases b) auto
qed

lemma verify_challenge_keeps:
  assumes "verify_challenge E now challenge s = (Inr v, s')"
  shows "sv_db s' = sv_db s"
proof -
  obtain iss claims where "apfst (map_sum request_failure id) (send_jti E now (''txn-challenge:'' @ iss) claims s) = (Inr (), s')"
    using assms by (auto simp: verify_challenge_def result_simps)
  then show ?thesis by (auto simp: send_jti_def split: prod.splits)
qed

lemma endpoint_simulates:
  assumes "transaction_authorization_endpoint E now uuid handle authorization mt form s = (Inr (i, ttl, iv), s')"
  shows "txn_step (txn_abs (sv_db s)) (Opened i) (txn_abs (sv_db s'))"
    "\<exists>r. get_transaction_authorization i (sv_db s') = Some r \<and> ta_expires_at r = now + secs ttl \<and> 1 \<le> ttl \<and> ttl \<le> 600 \<and> txn_phase_of r = Pending"
proof -
  obtain cid c req s1 s2 s3 v where r: "send_resolve E now cid s = (Inr c, s1)" and a: "authenticate E now c req mt s1 = (Inr (), s2)"
    and v: "verify_challenge E now (cf_transaction_challenge form) s2 = (Inr v, s3)"
    and d: "run_db (save_transaction_authorization (pending_record (en_libs E) now uuid handle (cl_client_id c) v)) s3 = (Inr (), s')"
    and i: "i = handle" "ttl = pending_secs now (vc_exp v)"
    using assms by (auto simp: transaction_authorization_endpoint_def result_simps Let_def pending_record_def transaction_authorization_new_def)
  let ?r = "pending_record (en_libs E) now uuid handle (cl_client_id c) v"
  have db: "sv_db s3 = sv_db s" using resolve_keeps(1) [OF r] authenticate_keeps(1) [OF a] verify_challenge_keeps [OF v] by simp
  have f: "ta_transaction_authorization_id ?r = i" "txn_phase_of ?r = Pending" "ta_expires_at ?r = now + secs ttl"
    by (simp_all add: pending_record_def transaction_authorization_new_def i txn_phase_of_def)
  have n: "get_transaction_authorization i (sv_db s) = None" and s': "sv_db s' = (sv_db s)\<lparr>db_txn_auths := db_txn_auths (sv_db s) @ [?r]\<rparr>"
    using d f(1) by (auto simp: run_db_def db save_transaction_authorization_def checked_def get_transaction_authorization_def
        find_None_iff list_ex_iff split: if_splits)
  have g: "get_transaction_authorization j (sv_db s') = (if j = i then Some ?r else get_transaction_authorization j (sv_db s))" for j
    using n f(1) by (auto simp: s' get_transaction_authorization_def find_append split: option.splits)
  have "txn_abs (sv_db s') = (txn_abs (sv_db s))(i \<mapsto> Pending)" using f(2) by (auto simp: txn_abs_def g fun_eq_iff)
  then show "txn_step (txn_abs (sv_db s)) (Opened i) (txn_abs (sv_db s'))" using n by (simp add: txn_abs_def txn_step.opened)
  show "\<exists>r. get_transaction_authorization i (sv_db s') = Some r \<and> ta_expires_at r = now + secs ttl \<and> 1 \<le> ttl \<and> ttl \<le> 600 \<and> txn_phase_of r = Pending"
    using g [of i] f(2,3) by (auto simp: i pending_secs_def max_pending_secs_def)
qed

lemma txn_refusal_ok:
  "txn_refusal now c r = Inr () \<longleftrightarrow> ta_client_id r = cl_client_id c \<and> \<not> ta_used r \<and> \<not> ta_is_expired now r \<and> \<not> ta_denied r \<and> ta_approved r"
  by (auto simp: txn_refusal_def result_simps)

lemma txn_grant_parts:
  assumes "handle_transaction_authorization_grant E now fr req cnf mt s = (Inr rep, s')"
  obtains i c r u t s1 s2 where "rq_transaction_authorization_id req = Some i" "\<not> is_public c"
    and "supports_grant_type (en_libs E) c grant_transaction_authorization"
    and "cl_client_id c \<noteq> [] \<Longrightarrow> client_evidence E now c req mt (sv_jti s)"
    and "get_transaction_authorization i (sv_db s) = Some r" "txn_refusal now c r = Inr ()" "ta_user_id r = Some u"
    and "db_txn_auths (sv_db s1) = db_txn_auths (sv_db s)" "sv_shards s1 = sv_shards s"
    and "send_create E now fr (cl_client_id c) (txn_msg (en_libs E) c cnf r u) s1 = (Inr t, s2)"
    and "sv_db s' = snd (mark_transaction_authorization_used i (sv_db s2))"
    and "rep = IssuedFor (apply_dpop_token_type (token_response_from t) cnf) (Some (ta_authorization_details_value (en_libs E) r)) [ta_resource_uri r]"
proof -
  obtain i c sa sb s1 r u t s2 s3 where i: "rq_transaction_authorization_id req = Some i" "\<not> is_public c"
      "supports_grant_type (en_libs E) c grant_transaction_authorization"
    and res: "send_resolve E now (rq_client_id req) s = (Inr c, sa)" and a: "authenticate E now c req mt sa = (Inr (), sb)"
    and m: "send_materialize E now c sb = (Inr (), s1)" and r: "get_transaction_authorization i (sv_db s1) = Some r"
    and k: "txn_refusal now c r = Inr ()" "ta_user_id r = Some u"
    and t: "send_create E now fr (cl_client_id c) (txn_msg (en_libs E) c cnf r u) s1 = (Inr t, s2)"
    and d: "run_db (mark_transaction_authorization_used (ta_transaction_authorization_id r)) s2 = (Inr (), s')"
    and rep: "rep = IssuedFor (apply_dpop_token_type (token_response_from t) cnf) (Some (ta_authorization_details_value (en_libs E) r)) [ta_resource_uri r]"
    using assms by (auto simp: handle_transaction_authorization_grant_def result_simps)
  have "db_txn_auths (sv_db s1) = db_txn_auths (sv_db sb)"
    using materialize_db [OF m] by (auto simp: save_client_def update_client_def checked_def)
  then have same: "db_txn_auths (sv_db s1) = db_txn_auths (sv_db s)" "sv_shards s1 = sv_shards s"
    using authenticate_keeps [OF a] resolve_keeps [OF res] materialize_keeps(4) [OF m] by simp_all
  have "client_evidence E now c req mt (sv_jti s)" if "cl_client_id c \<noteq> []"
    using authenticate_ok(1) [OF a that] resolve_jti [OF res] by simp
  moreover have "ta_transaction_authorization_id r = i" "get_transaction_authorization i (sv_db s) = Some r"
    using r same(1) by (auto simp: get_transaction_authorization_def dest: find_Some_in)
  ultimately show ?thesis using i k t d rep same by (intro that [of i c r u s1 t s2]) (auto simp: run_db_def split: prod.splits)
qed

lemma grant_simulates:
  assumes "handle_transaction_authorization_grant E now fr req cnf mt s = (Inr rep, s')"
  shows "\<exists>i u. rq_transaction_authorization_id req = Some i \<and> txn_step (txn_abs (sv_db s)) (Granted i (Some u)) (txn_abs (sv_db s'))"
  using assms
proof (rule txn_grant_parts)
  fix i c r u t s1 s2
  assume p: "rq_transaction_authorization_id req = Some i" "get_transaction_authorization i (sv_db s) = Some r"
    "txn_refusal now c r = Inr ()" "ta_user_id r = Some u" "db_txn_auths (sv_db s1) = db_txn_auths (sv_db s)"
    "send_create E now fr (cl_client_id c) (txn_msg (en_libs E) c cnf r u) s1 = (Inr t, s2)"
    "sv_db s' = snd (mark_transaction_authorization_used i (sv_db s2))"
  have d: "db_txn_auths (sv_db s2) = db_txn_auths (sv_db s)" using send_create_ok(1) [OF p(6)] p(5) by simp
  have "get_transaction_authorization i (sv_db s2) = Some r" using p(2) by (simp add: get_transaction_authorization_def d)
  then have "txn_abs (sv_db s') = (txn_abs (sv_db s2))(i \<mapsto> Used)"
    by (auto simp: p(7) mark_transaction_authorization_used_def txn_abs_def get_settled txn_phase_of_def fun_eq_iff)
  moreover have "txn_abs (sv_db s) i = Some (Approved (Some u))"
    using p(2-4) by (simp add: txn_abs_def txn_phase_of_def txn_refusal_ok)
  ultimately show ?thesis using p(1) txn_auths_cong [OF d] txn_step.granted by metis
qed

lemmas evolves_txn = evolves_cmd [of "SaveTxnAuth t" for t, simplified] evolves_cmd [of "SettleTxnAuth i u b" for i u b, simplified]
  evolves_cmd [of "MarkTxnAuthUsed i" for i, simplified]

lemma stepwise_verify_challenge [stepwise_intros]: "stepwise (verify_challenge E now challenge)"
  unfolding verify_challenge_def by (intro stepwise_intros stepwise_apfst)

lemma stepwise_txn_endpoint [stepwise_intros]: "stepwise (transaction_authorization_endpoint E now uuid h authorization mt form)"
  unfolding transaction_authorization_endpoint_def Let_def by (intro stepwise_intros stepwise_db evolves_txn)

lemma stepwise_approve_submit [stepwise_intros]: "stepwise (approve_submit E now i action z)"
  unfolding approve_submit_def Let_def by (intro stepwise_intros stepwise_db evolves_txn)

lemma stepwise_txn_grant [stepwise_intros]: "stepwise (handle_transaction_authorization_grant E now fr req cnf mt)"
  unfolding handle_transaction_authorization_grant_def by (intro stepwise_intros stepwise_db evolves_txn)

section \<open>Runs of the handlers\<close>

text \<open>One completed request: a challenge is accepted, a decision is recorded, a token is granted, or
  anything else happens that leaves the table of transactions alone.\<close>
inductive txn_request :: "env \<Rightarrow> server \<Rightarrow> txn_event \<Rightarrow> server \<Rightarrow> bool" for E where
  challenge: "transaction_authorization_endpoint E now uuid handle authorization mt form s = (Inr (i, ttl, iv), s') \<Longrightarrow>
    txn_request E s (Opened i) s'"
| decision: "approve_submit E now i action z s = (Inr b, s') \<Longrightarrow> session_str z ''user_id'' = Some u \<Longrightarrow>
    txn_request E s (Decided i u b) s'"
| poll: "handle_transaction_authorization_grant E now fr req cnf mt s = (Inr rep, s') \<Longrightarrow>
    rq_transaction_authorization_id req = Some i \<Longrightarrow>
    map_option ta_user_id (get_transaction_authorization i (sv_db s)) = Some (Some u) \<Longrightarrow> txn_request E s (Granted i (Some u)) s'"
| other: "db_txn_auths (sv_db s') = db_txn_auths (sv_db s) \<Longrightarrow> txn_request E s Internal s'"

inductive txn_requests :: "env \<Rightarrow> server \<Rightarrow> txn_event list \<Rightarrow> server \<Rightarrow> bool" for E s0 where
  nil: "txn_requests E s0 [] s0"
| cons: "txn_requests E s0 evs s \<Longrightarrow> txn_request E s ev s' \<Longrightarrow> txn_requests E s0 (ev # evs) s'"

lemma granted_user: "txn_step m (Granted i u) m' \<Longrightarrow> m i = Some (Approved u)"
  by (erule granted_step) simp

lemma txn_request_simulates:
  assumes "txn_request E s ev s'"
  shows "txn_step (txn_abs (sv_db s)) ev (txn_abs (sv_db s'))"
  using assms
proof (cases rule: txn_request.cases)
  case (challenge now uuid handle authorization mt form i ttl iv)
  then show ?thesis using endpoint_simulates(1) by simp
next
  case (decision now i action z b u)
  then show ?thesis using approve_submit_simulates [OF decision(2)] by auto
next
  case (poll now fr req cnf mt rep i u)
  from grant_simulates [OF poll(2)] poll(3) obtain v where v: "txn_step (txn_abs (sv_db s)) (Granted i (Some v)) (txn_abs (sv_db s'))" by auto
  from granted_user [OF v] poll(4) have "v = u" by (auto simp: txn_abs_def txn_phase_of_def split: if_splits)
  with v poll(1) show ?thesis by simp
next
  case other
  then show ?thesis using txn_auths_cong txn_step.internal by metis
qed

lemma txn_requests_run:
  assumes "txn_requests E s0 evs s" "db_txn_auths (sv_db s0) = []"
  shows "txn_run evs (txn_abs (sv_db s))"
  using assms
proof (induction rule: txn_requests.induct)
  case nil
  then have "txn_abs (sv_db s0) = Map.empty" by (simp add: txn_abs_def get_transaction_authorization_def)
  then show ?case by (simp add: txn_run.start)
qed (auto intro: txn_run.step txn_request_simulates)

text \<open>C8. In every run of the server that starts without transactions, a token is granted for a transaction at
  most once, to the user who approved it: the history of a granted handle is exactly one accepted
  challenge, one decision, which approved, and one grant, in this order.\<close>
theorem transaction_single_grant:
  assumes "txn_requests E s0 evs s" "db_txn_auths (sv_db s0) = []" "Granted i u \<in> set evs"
  shows "\<exists>v. u = Some v \<and> filter (about i) evs = [Granted i (Some v), Decided i v True, Opened i]"
proof -
  define own where "own = filter (about i) evs"
  have "Granted i u \<in> set own" using assms(3) by (simp add: own_def)
  with txn_history [OF txn_requests_run [OF assms(1,2)], of i, folded own_def] show ?thesis
    unfolding own_def [symmetric] by (auto split: option.splits txn_phase.splits)
qed


section \<open>A run\<close>

definition txn_challenge_claims :: json where
  "txn_challenge_claims = JObj [(''iss'', JStr ''rs''), (''exp'', JInt 100), (''jti'', JStr ''j1''), (''txn'', JStr ''t''),
     (''authorization_details'', JArr []), (''reason'', JStr ''r'')]"

definition txn_env :: env where
  "txn_env = bearer_env\<lparr>en_libs := bearer_libs\<lparr>json_from_str := \<lambda>s. if s = ''claims'' then Some txn_challenge_claims
       else Some (JArr (map JStr (split_whitespace s)))\<rparr>,
     en_agent := demo_agent\<lparr>ag_tac_enabled := True\<rparr>, en_decode_ext := \<lambda>_ _ _ _ _ _ _. Inr txn_challenge_claims\<rparr>"

definition txn_client :: client where
  "txn_client = demo_svc\<lparr>cl_grant_types := grant_transaction_authorization\<rparr>"

definition txn_resource :: protected_resource where
  "txn_resource = \<lparr>pr_id = ''p1'', pr_resource_uri = ''rs'', pr_name = ''n'', pr_scopes = [], pr_authorization_details_types = [],
     pr_txn_challenge_jwks_uri = ''https://rs/jwks'', pr_created_at = 0, pr_updated_at = 0\<rparr>"

definition txn_db :: "transaction_authorization list \<Rightarrow> db" where
  "txn_db rs = db_empty\<lparr>db_clients := [txn_client], db_users := [user_new 0 ''u'' ''alice'' ''h'' ''e''], db_resources := [txn_resource],
     db_txn_auths := rs\<rparr>"

definition txn_server :: "transaction_authorization list \<Rightarrow> server" where
  "txn_server rs = (service_server True)\<lparr>sv_db := txn_db rs\<rparr>"

definition challenge_form_demo :: challenge_form where
  "challenge_form_demo = \<lparr>cf_transaction_challenge = ''h.claims.s'', cf_client_id = Some ''svc'', cf_client_secret = Some ''s3cret'',
     cf_client_assertion = None, cf_client_assertion_type = None\<rparr>"

lemma txn_fields [simp]:
  "cl_client_id txn_client = ''svc''" "is_public txn_client = False" "cl_cimd_managed txn_client = False"
  "cl_client_secret txn_client = ''s3cret''" "cl_jwks txn_client = []"
  "cl_jwks_uri txn_client = []" "cl_token_endpoint_auth_method txn_client = ''client_secret_basic''"
  "en_cimd txn_env = None" "url_parse (en_libs txn_env) = (\<lambda>_. None)" "require_tac_enabled (en_agent txn_env) = Inr ()"
  "sv_clients (txn_server rs) = \<lparr>cla_cache = []\<rparr>" "sv_db (txn_server rs) = txn_db rs" "get_client ''svc'' (txn_db rs) = Some txn_client"
  by (simp_all add: txn_client_def is_public_def demo_svc_def client_new_def txn_env_def require_tac_enabled_def bearer_env_def demo_env_def
      bearer_libs_def demo_libs1_def txn_server_def service_server_def txn_db_def get_client_def)

definition txn_pending :: transaction_authorization where
  "txn_pending = pending_record (en_libs txn_env) 5 ''i1'' ''h1'' ''svc''
     \<lparr>vc_resource = txn_resource, vc_txn = ''t'', vc_authorization_details = JArr [], vc_reason = ''r'', vc_reason_uri = [], vc_act = None,
      vc_acr_values = [], vc_max_age = None, vc_exp = 100\<rparr>"

lemma demo_challenge_resource:
  "challenge_resource txn_env ''h.claims.s'' (txn_db rs) = Inr (bearer_header, ''rs'', txn_resource)"
proof -
  have "decode_unverified_claims txn_env ''h.claims.s'' = Inr txn_challenge_claims"
    by (simp add: decode_unverified_claims_def txn_env_def bearer_env_def)
  moreover have "al_header (en_assertions txn_env) x = Some bearer_header" for x by (simp add: txn_env_def bearer_env_def)
  ultimately show ?thesis
    by (simp add: challenge_resource_def bearer_header_def allowed_algs_def txn_challenge_claims_def claim_str_def get_resource_by_uri_def
        txn_db_def txn_resource_def trim_def trim_start_def trim_end_def is_ws_def)
qed

lemma demo_challenge:
  "\<exists>s'. verify_challenge txn_env 5 ''h.claims.s'' (txn_server rs\<lparr>sv_clients := A\<rparr>) = (Inr \<lparr>vc_resource = txn_resource, vc_txn = ''t'',
      vc_authorization_details = JArr [], vc_reason = ''r'', vc_reason_uri = [], vc_act = None, vc_acr_values = [], vc_max_age = None,
      vc_exp = 100\<rparr>, s') \<and> sv_db s' = txn_db rs"
proof -
  have v: "challenge_signature txn_env 5 ''h.claims.s'' bearer_header ''rs'' txn_resource = Inr txn_challenge_claims"
    by (simp add: challenge_signature_def bearer_header_def select_key_def claim_str_def)
      (simp add: txn_env_def bearer_env_def demo_env_def demo_jose_def jwks_component_def claim_str_def)
  have c: "challenge_claims ag txn_resource txn_challenge_claims = Inr \<lparr>vc_resource = txn_resource, vc_txn = ''t'',
      vc_authorization_details = JArr [], vc_reason = ''r'', vc_reason_uri = [], vc_act = None, vc_acr_values = [], vc_max_age = None,
      vc_exp = 100\<rparr>" for ag
    by (simp add: challenge_claims_def txn_challenge_claims_def str_claim_def json_str_def nonempty_def claim_str_def is_json_array_def
        challenge_act_def challenge_acr_def challenge_max_age_def)
  have "\<exists>s'. send_jti txn_env 5 ''txn-challenge:rs'' txn_challenge_claims (txn_server rs\<lparr>sv_clients := A\<rparr>) = (Inr (), s') \<and> sv_db s' = txn_db rs"
    by (simp add: send_jti_def enforce_jti_replay_def txn_challenge_claims_def claim_str_def txn_server_def service_server_def
        observe_def guard_default_def guard_with_capacity_def Let_def timestamp_def live_entries_def)
  then show ?thesis by (auto simp: verify_challenge_def andThen_def ret_def demo_challenge_resource v c)
qed

lemma demo_open:
  "\<exists>ttl iv s'. transaction_authorization_endpoint txn_env 5 ''i1'' ''h1'' None no_mtls challenge_form_demo (txn_server []) = (Inr (''h1'', ttl, iv), s') \<and>
     sv_db s' = txn_db [txn_pending]"
proof -
  obtain s1 where v: "verify_challenge txn_env 5 ''h.claims.s'' (txn_server []\<lparr>sv_clients := insert_cached_client 5 txn_client \<lparr>cla_cache = []\<rparr>\<rparr>) =
      (Inr \<lparr>vc_resource = txn_resource, vc_txn = ''t'', vc_authorization_details = JArr [], vc_reason = ''r'', vc_reason_uri = [],
        vc_act = None, vc_acr_values = [], vc_max_age = None, vc_exp = 100\<rparr>, s1)" "sv_db s1 = txn_db []"
    using demo_challenge by blast
  have "ta_transaction_authorization_id txn_pending = ''h1''" by (simp add: txn_pending_def pending_record_def transaction_authorization_new_def)
  then show ?thesis
    by (simp add: transaction_authorization_endpoint_def andThen_def ret_def parse_client_basic_auth_def challenge_client_id_def
        challenge_form_demo_def cold_resolve secret_authenticate client_auth_request_def v txn_pending_def [symmetric] Let_def run_db_def
        save_transaction_authorization_def checked_def)
      (simp add: txn_db_def)
qed

definition txn_approved :: transaction_authorization where
  "txn_approved = txn_pending\<lparr>ta_approved := True, ta_denied := False, ta_user_id := Some ''u''\<rparr>"

lemma txn_pending_fields [simp]:
  "ta_transaction_authorization_id txn_pending = ''h1''" "ta_used txn_pending = False" "ta_approved txn_pending = False"
  "ta_denied txn_pending = False" "ta_is_expired 6 txn_pending = False" "ta_acr_values txn_pending = []" "ta_max_age txn_pending = None"
  "ta_client_id txn_pending = ''svc''" "ta_is_expired 7 txn_approved = False"
  by (simp_all add: txn_pending_def txn_approved_def pending_record_def transaction_authorization_new_def ta_is_expired_def pending_secs_def max_pending_secs_def
      timestamp_def secs_def)

lemma demo_approve:
  assumes "sv_db s = txn_db [txn_pending]"
  shows "\<exists>s'. approve_submit txn_env 6 ''h1'' (Some ''approve'') [''user_id'' \<mapsto> JStr ''u''] s = (Inr True, s') \<and>
    s' = s\<lparr>sv_db := txn_db [txn_approved]\<rparr>"
proof -
  have "load_actionable 6 ''h1'' (txn_db [txn_pending]) = Inr txn_pending"
    by (simp add: load_actionable_def get_transaction_authorization_def txn_db_def)
  moreover have "step_up_satisfied 6 txn_pending z" for z
    by (simp add: step_up_satisfied_def step_up_requirements_satisfied_def trim_def trim_start_def trim_end_def)
  ultimately show ?thesis using assms
    by (simp add: approve_submit_def andThen_def ret_def session_str_def run_db_def settle_transaction_authorization_def)
      (simp add: txn_db_def txn_approved_def)
qed

definition txn_request_demo :: token_request where
  "txn_request_demo = demo_svc_request\<lparr>rq_transaction_authorization_id := Some ''h1''\<rparr>"

lemma txn_supported: "supports_grant_type (en_libs txn_env) txn_client grant_transaction_authorization"
proof -
  have "supports_grant_type L txn_client grant_transaction_authorization"
    if "json_from_str L grant_transaction_authorization = Some (JArr (map JStr (split_whitespace grant_transaction_authorization)))" for L
    using that by (simp add: supports_grant_type_def get_grant_types_def txn_client_def parse_string_vec_def) code_simp
  then show ?thesis by (simp add: txn_env_def grant_transaction_authorization_def)
qed

lemma demo_poll:
  "\<exists>rep s'. handle_transaction_authorization_grant txn_env 7 demo_fresh txn_request_demo None no_mtls (txn_server [txn_approved]) = (Inr rep, s')"
proof -
  let ?s = "txn_server [txn_approved]\<lparr>sv_clients := insert_cached_client 7 txn_client \<lparr>cla_cache = []\<rparr>\<rparr>"
  have q: "rq_transaction_authorization_id txn_request_demo = Some ''h1''" "rq_client_id txn_request_demo = ''svc''"
    "rq_client_secret txn_request_demo = Some ''s3cret''"
    by (simp_all add: txn_request_demo_def)
  have m: "send_materialize txn_env 7 txn_client ?s = (Inr (), ?s)"
    by (simp add: send_materialize_def materialize_cimd_client_def)
  have g: "get_transaction_authorization ''h1'' (txn_db [txn_approved]) = Some txn_approved"
    by (simp add: get_transaction_authorization_def txn_db_def txn_approved_def)
  have f: "txn_refusal 7 txn_client txn_approved = Inr ()" "ta_user_id txn_approved = Some ''u''"
    by (simp_all add: txn_refusal_ok) (simp_all add: txn_approved_def)
  have "\<exists>t s'. send_create txn_env 7 demo_fresh ''svc'' (txn_msg (en_libs txn_env) txn_client None txn_approved ''u'') ?s = (Inr t, s')"
    by (simp add: issue_defs txn_msg_def txn_server_def txn_db_def service_server_def db_empty_def user_new_def demo_fresh_def txn_env_def bearer_env_def)
  then show ?thesis
    by (auto simp: handle_transaction_authorization_grant_def andThen_def ret_def q cold_resolve secret_authenticate txn_supported m g f
        run_db_def mark_transaction_authorization_used_def)
qed


lemma demo_txn_run:
  "\<exists>s. txn_requests txn_env (txn_server []) [Granted ''h1'' (Some ''u''), Internal, Decided ''h1'' ''u'' True, Opened ''h1''] s"
proof -
  obtain ttl iv s1 where o1: "transaction_authorization_endpoint txn_env 5 ''i1'' ''h1'' None no_mtls challenge_form_demo (txn_server []) =
      (Inr (''h1'', ttl, iv), s1)" "sv_db s1 = txn_db [txn_pending]" using demo_open by blast
  obtain s2 where d: "approve_submit txn_env 6 ''h1'' (Some ''approve'') [''user_id'' \<mapsto> JStr ''u''] s1 = (Inr True, s2)"
    "sv_db s2 = txn_db [txn_approved]" using demo_approve [OF o1(2)] by auto
  obtain rep s4 where p: "handle_transaction_authorization_grant txn_env 7 demo_fresh txn_request_demo None no_mtls
      (txn_server [txn_approved]) = (Inr rep, s4)" using demo_poll by blast
  have 1: "txn_request txn_env (txn_server []) (Opened ''h1'') s1" using o1(1) by (rule txn_request.challenge)
  have 2: "txn_request txn_env s1 (Decided ''h1'' ''u'' True) s2"
    using d(1) by (rule txn_request.decision) (simp add: session_str_def)
  have 3: "txn_request txn_env s2 Internal (txn_server [txn_approved])"
    by (rule txn_request.other) (simp add: d(2))
  have 4: "txn_request txn_env (txn_server [txn_approved]) (Granted ''h1'' (Some ''u'')) s4"
    using p by (rule txn_request.poll)
      (simp_all add: txn_request_demo_def get_transaction_authorization_def txn_db_def txn_approved_def)
  show ?thesis
    by (rule exI, rule txn_requests.cons [OF txn_requests.cons [OF txn_requests.cons [OF txn_requests.cons [OF txn_requests.nil 1] 2] 3] 4])
qed

lemma transaction_single_grant_witness:
  "\<exists>s evs. txn_requests txn_env (txn_server []) evs s \<and> Granted ''h1'' (Some ''u'') \<in> set evs \<and>
     filter (about ''h1'') evs = [Granted ''h1'' (Some ''u''), Decided ''h1'' ''u'' True, Opened ''h1'']"
proof -
  obtain s where r: "txn_requests txn_env (txn_server []) [Granted ''h1'' (Some ''u''), Internal, Decided ''h1'' ''u'' True, Opened ''h1''] s"
    using demo_txn_run by blast
  have "db_txn_auths (sv_db (txn_server [])) = []" by (simp add: txn_db_def)
  from transaction_single_grant [OF r this] r show ?thesis by (intro exI conjI) auto
qed

end
