(* ===== verification/Token_Endpoint.thy ===== *)
theory Token_Endpoint
  imports Transaction_Laws
begin

text \<open>
  The token endpoint itself (\<open>handlers/oauth.rs\<close>, \<open>token\<close>) and the endpoint of pushed authorization
  requests (\<open>par\<close>): duplicate parameters, where the client's credentials come from, DPoP proofs and
  nonces, certificate headers, the dispatch on the grant type, and the penalty bucket that turns
  repeated authentication failures into 429 answers.
\<close>

section \<open>Requests\<close>

record http_request =
  hr_method :: string
  hr_scheme :: string
  hr_host :: string
  hr_path :: string
  hr_query :: string
  hr_header :: "string \<Rightarrow> header_value option"
  hr_body :: string

fun no_duplicates :: "string set \<Rightarrow> (string \<times> string) list \<Rightarrow> bool" where
  "no_duplicates seen [] = True"
| "no_duplicates seen ((k, v) # ps) = (if k \<in> seen then False else no_duplicates (insert k seen) ps)"

definition ensure_no_duplicate_query_params :: "http_lib \<Rightarrow> http_request \<Rightarrow> unit result" where
  "ensure_no_duplicate_query_params H r =
     ensure (no_duplicates {} (hl_form_parse H (hr_query r))) (invalid_request ''Duplicate query parameters are not allowed'')"

definition repeatable_form_params :: "string list" where
  "repeatable_form_params = [''resource'', ''audience'']"

record parsed_form =
  pf_single :: "string \<rightharpoonup> string"
  pf_repeated :: "string \<Rightarrow> string list"

fun parse_pairs :: "(string \<times> string) list \<Rightarrow> parsed_form \<Rightarrow> parsed_form result" where
  "parse_pairs [] f = Inr f"
| "parse_pairs ((k, v) # ps) f =
     (if k \<in> set repeatable_form_params then parse_pairs ps (f\<lparr>pf_repeated := (pf_repeated f)(k := pf_repeated f k @ [v])\<rparr>)
      else if pf_single f k \<noteq> None then Inl (invalid_request ''Duplicate form parameters are not allowed'')
      else parse_pairs ps (f\<lparr>pf_single := (pf_single f)(k \<mapsto> v)\<rparr>))"

definition parse_form_no_dupes :: "http_lib \<Rightarrow> string \<Rightarrow> parsed_form result" where
  "parse_form_no_dupes H body = parse_pairs (hl_form_parse H body) \<lparr>pf_single = Map.empty, pf_repeated = (\<lambda>_. [])\<rparr>"

definition header_text :: "http_request \<Rightarrow> string \<Rightarrow> string option" where
  "header_text r k = Option.bind (hr_header r k) to_str"

definition mtls_of :: "http_request \<Rightarrow> mtls" where
  "mtls_of r = \<lparr>mt_thumbprint = header_text r ''X-Client-Cert-Thumbprint'', mt_subject_dn = header_text r ''X-SSL-Client-S-DN'',
     mt_san_uri = header_text r ''X-SSL-Client-SAN-URI'', mt_san_dns = header_text r ''X-SSL-Client-SAN-DNS''\<rparr>"

section \<open>The client's credentials\<close>

definition opt_or :: "'a option \<Rightarrow> 'a option \<Rightarrow> 'a option" where
  "opt_or a b = (case a of Some x \<Rightarrow> Some x | None \<Rightarrow> b)"

definition mismatch :: "string option \<Rightarrow> string option \<Rightarrow> bool" where
  "mismatch a b = (case (a, b) of (Some x, Some y) \<Rightarrow> x \<noteq> y | _ \<Rightarrow> False)"

definition check_credentials :: "parsed_form \<Rightarrow> (string \<times> string) option \<Rightarrow> unit result" where
  "check_credentials f basic =
     bindR (reject_multiple_client_auth_methods (basic \<noteq> None) (pf_single f ''client_secret'' \<noteq> None) (pf_single f ''client_assertion'' \<noteq> None)) (\<lambda>_.
     bindR (ensure (\<not> mismatch (pf_single f ''client_id'') (map_option fst basic))
       (invalid_request ''client_id mismatch between body and Basic auth'')) (\<lambda>_.
     ensure (\<not> mismatch (pf_single f ''client_secret'') (map_option snd basic))
       (invalid_client ''client_secret mismatch between body and Basic auth'')))"

definition token_client_id :: "string \<Rightarrow> parsed_form \<Rightarrow> (string \<times> string) option \<Rightarrow> string result" where
  "token_client_id grant_type f basic =
     (case opt_or (pf_single f ''client_id'') (map_option fst basic) of
        Some i \<Rightarrow> Inr i
      | None \<Rightarrow> if grant_type \<in> {''client_credentials'', ''refresh_token''} then Inr []
                else Inl (invalid_request ''Missing client_id''))"

definition build_token_request :: "string \<Rightarrow> string \<Rightarrow> (string \<times> string) option \<Rightarrow> parsed_form \<Rightarrow> token_request" where
  "build_token_request grant_type client_id basic f =
     \<lparr>rq_grant_type = grant_type, rq_code = pf_single f ''code'', rq_redirect_uri = pf_single f ''redirect_uri'', rq_client_id = client_id,
      rq_client_secret = opt_or (pf_single f ''client_secret'') (map_option snd basic), rq_refresh_token = pf_single f ''refresh_token'',
      rq_username = pf_single f ''username'', rq_password = pf_single f ''password'', rq_scope = pf_single f ''scope'',
      rq_code_verifier = pf_single f ''code_verifier'', rq_device_code = pf_single f ''device_code'',
      rq_client_assertion_type = pf_single f ''client_assertion_type'', rq_client_assertion = pf_single f ''client_assertion'',
      rq_resource = pf_repeated f ''resource'', rq_assertion = pf_single f ''assertion'', rq_audience = pf_repeated f ''audience'',
      rq_subject_token = pf_single f ''subject_token'', rq_subject_token_type = pf_single f ''subject_token_type'',
      rq_actor_token = pf_single f ''actor_token'', rq_actor_token_type = pf_single f ''actor_token_type'',
      rq_requested_token_type = pf_single f ''requested_token_type'', rq_authorization_details = pf_single f ''authorization_details'',
      rq_request_details = pf_single f ''request_details'', rq_request_context = pf_single f ''request_context'',
      rq_purp = pf_single f ''purp'', rq_transaction_authorization_id = pf_single f ''transaction_authorization_id''\<rparr>"

text \<open>Everything before the DPoP proof: a well-formed request, or the error it is answered with.\<close>
definition read_token_request :: "env \<Rightarrow> http_request \<Rightarrow> token_request result" where
  "read_token_request E r =
     bindR (ensure_no_duplicate_query_params (en_http E) r) (\<lambda>_.
     bindR (parse_form_no_dupes (en_http E) (hr_body r)) (\<lambda>f.
     bindR (parse_client_basic_auth (en_http E) (hr_header r ''Authorization'')) (\<lambda>basic.
     bindR (check_credentials f basic) (\<lambda>_.
     bindR (ok_or (pf_single f ''grant_type'') (invalid_request ''Missing grant_type'')) (\<lambda>grant_type.
     bindR (token_client_id grant_type f basic) (\<lambda>client_id.
       Inr (build_token_request grant_type (canonical_cimd_client_id (en_libs E) client_id (en_cimd E) (en_agent E)) basic f)))))))"

section \<open>DPoP\<close>

text \<open>Without a configured replay store each request gets a fresh one.\<close>
definition send_dpop :: "env \<Rightarrow> instant \<Rightarrow> http_request \<Rightarrow> string \<Rightarrow> string \<Rightarrow> dpop_validated act" where
  "send_dpop E now r url proof s =
     (case validate_dpop_proof (en_libs E) (en_jose E) now now proof (hr_method r) url None
             (case sv_dpop s of Some st \<Rightarrow> st | None \<Rightarrow> \<lparr>ds_memory = [], ds_storage = False\<rparr>) (sv_db s) of
        (v, st, d) \<Rightarrow> (v, s\<lparr>sv_dpop := map_option (\<lambda>_. st) (sv_dpop s), sv_db := d\<rparr>))"

definition dpop_of :: "env \<Rightarrow> instant \<Rightarrow> http_request \<Rightarrow> dpop_validated option act" where
  "dpop_of E now r =
     (case hr_header r ''DPoP'' of
        None \<Rightarrow> ret (Inr None)
      | Some h \<Rightarrow>
          andThen (ret (ok_or (to_str h) (invalid_request ''DPoP header is not valid UTF-8''))) (\<lambda>proof.
          andThen (ret (build_request_url_bounded (hr_scheme r) (hr_host r) (hr_path r))) (\<lambda>url.
          andThen (send_dpop E now r url proof) (\<lambda>v. ret (Inr (Some v))))))"

definition use_dpop_nonce_response :: "env \<Rightarrow> instant \<Rightarrow> nonce_issuer \<Rightarrow> string option \<Rightarrow> reply" where
  "use_dpop_nonce_response E now i description =
     UseDpopNonce (Some (unwrap_or description ''DPoP proof requires a server-issued nonce'')) (nonce_issue (en_nonce_lib E) now i)"

text \<open>The early answer that demands a nonce, if one is due.\<close>
definition nonce_check :: "env \<Rightarrow> instant \<Rightarrow> token_request \<Rightarrow> dpop_validated option \<Rightarrow> reply option act" where
  "nonce_check E now req validated s =
     (case (validated, en_nonce_issuer E) of
        (Some v, Some i) \<Rightarrow>
          (case send_resolve E now (rq_client_id req) s of
             (Inl _, s1) \<Rightarrow> (Inr None, s1)
           | (Inr c, s1) \<Rightarrow>
               if cl_dpop_nonce_required c then
                 (case enforce_dpop_nonce (en_nonce_lib E) now v i of
                    Inr _ \<Rightarrow> (Inr None, s1)
                  | Inl e \<Rightarrow> if err_error e = ''use_dpop_nonce''
                             then (Inr (Some (use_dpop_nonce_response E now i (err_description e))), s1) else (Inl e, s1))
               else (Inr None, s1))
      | _ \<Rightarrow> (Inr None, s))"

definition cnf_claim_of :: "dpop_validated option \<Rightarrow> string option \<Rightarrow> json option" where
  "cnf_claim_of validated thumbprint =
     (case validated of
        Some v \<Rightarrow> Some (JObj [(''jkt'', JStr (dv_jkt v))])
      | None \<Rightarrow> (case thumbprint of Some tb \<Rightarrow> Some (JObj [(''x5t#S256'', JStr tb)]) | None \<Rightarrow> None))"

definition rar_details :: "env \<Rightarrow> token_request \<Rightarrow> json option result" where
  "rar_details E req =
     (case rq_authorization_details req of
        None \<Rightarrow> Inr None
      | Some raw \<Rightarrow> bindR (ok_or (json_from_str (en_libs E) raw) (invalid_request ''authorization_details is not valid JSON'')) (\<lambda>v. Inr (Some v)))"

section \<open>Dispatch\<close>

record drawn =
  dr_fresh :: fresh
  dr_family :: string
  dr_uuid :: string

definition dispatch ::
  "env \<Rightarrow> instant \<Rightarrow> drawn \<Rightarrow> token_request \<Rightarrow> json option \<Rightarrow> bool \<Rightarrow> json option \<Rightarrow> mtls \<Rightarrow> reply act" where
  "dispatch E now dr req cnf dpop_present rar mt =
     (let g = rq_grant_type req; fr = dr_fresh dr in
      if g = ''authorization_code'' then handle_authorization_code_grant E now fr (dr_family dr) req cnf rar mt
      else if g = ''client_credentials'' then handle_client_credentials_grant E now fr req cnf rar mt
      else if g = ''refresh_token'' then handle_refresh_token_grant E now fr (dr_family dr) req mt
      else if g = device_code_grant_type \<or> g = ''device_code'' then handle_device_code_grant E now fr req mt
      else if g = grant_jwt_bearer then handle_jwt_bearer_grant E now fr req cnf rar mt
      else if g = grant_transaction_authorization then handle_transaction_authorization_grant E now fr req cnf mt
      else if g = grant_token_exchange then exchange E now fr (dr_uuid dr) req cnf dpop_present mt
      else if g = ''password'' then ret (Inl (unsupported_grant_type ''Grant type disabled''))
      else ret (Inl (unsupported_grant_type (''Grant type '' @ quoted g @ '' not supported''))))"

text \<open>An \<open>invalid_client\<close> answer costs a token of the client's penalty bucket; an empty bucket turns it
  into 429.\<close>
definition penalty :: "instant \<Rightarrow> string \<Rightarrow> reply result \<times> server \<Rightarrow> reply result \<times> server" where
  "penalty now client_id out =
     (case out of
        (Inr rep, s) \<Rightarrow> (Inr rep, s)
      | (Inl e, s) \<Rightarrow>
          if err_error e = ''invalid_client'' then
            (case sv_penalty s of
               None \<Rightarrow> (Inl e, s)
             | Some l \<Rightarrow>
                 (case im_check now now client_id l of
                    (rl, l1) \<Rightarrow>
                      (if rl_allowed rl then Inl e
                       else Inl (too_many_requests (''Too many failed authentication attempts. Retry after '' @
                              show_int (case rl_retry_after rl of Some d \<Rightarrow> max (timestamp d) 1 | None \<Rightarrow> 1) @ ''s.'')),
                       s\<lparr>sv_penalty := Some l1\<rparr>)))
          else (Inl e, s))"

definition grant_with_penalty ::
  "env \<Rightarrow> instant \<Rightarrow> drawn \<Rightarrow> token_request \<Rightarrow> dpop_validated option \<Rightarrow> json option \<Rightarrow> mtls \<Rightarrow> reply act" where
  "grant_with_penalty E now dr req validated rar mt s =
     penalty now (rq_client_id req)
       (dispatch E now dr req (cnf_claim_of validated (mt_thumbprint mt)) (validated \<noteq> None) rar mt s)"

definition token_endpoint :: "env \<Rightarrow> instant \<Rightarrow> drawn \<Rightarrow> http_request \<Rightarrow> reply act" where
  "token_endpoint E now dr r =
     andThen (ret (read_token_request E r)) (\<lambda>req.
     andThen (dpop_of E now r) (\<lambda>validated.
     andThen (nonce_check E now req validated) (\<lambda>early.
     case early of
       Some rep \<Rightarrow> ret (Inr rep)
     | None \<Rightarrow> andThen (ret (rar_details E req)) (\<lambda>rar. grant_with_penalty E now dr req validated rar (mtls_of r)))))"

section \<open>Pushed authorization requests\<close>

text \<open>The parameters in the order they were sent.\<close>
definition par_params :: "http_lib \<Rightarrow> string \<Rightarrow> (string \<times> string) list result" where
  "par_params H body =
     bindR (ok_or (from_utf8 body) (invalid_request ''Invalid PAR request body encoding'')) (\<lambda>raw.
     bindR (ensure (no_duplicates {} (hl_form_parse H raw)) (invalid_request ''Duplicate parameter in PAR request'')) (\<lambda>_.
       Inr (hl_form_parse H raw)))"

definition par_secret :: "env \<Rightarrow> http_request \<Rightarrow> (string \<times> string) list \<Rightarrow> string option" where
  "par_secret E r params =
     (let basic = (case parse_client_basic_auth (en_http E) (hr_header r ''Authorization'') of Inr b \<Rightarrow> b | Inl _ \<Rightarrow> None) in
      case nonempty (map_option snd basic) of
        Some x \<Rightarrow> Some x
      | None \<Rightarrow> nonempty (map_of params ''client_secret''))"

definition par_assertion :: "env \<Rightarrow> instant \<Rightarrow> http_request \<Rightarrow> client \<Rightarrow> (string \<times> string) list \<Rightarrow> unit act" where
  "par_assertion E now r c params =
     (case (map_of params ''client_assertion_type'', map_of params ''client_assertion'') of
        (Some ty, Some v) \<Rightarrow>
          if ty = jwt_bearer_assertion_type then
            andThen (ret (resolve_client_jwks (en_libs E) c (en_jwks_cache E))) (\<lambda>jwks s.
              (let host = unwrap_or (header_text r ''Host'') ''localhost'' in
               case validate_jwt_client_assertion (en_assertions E) (en_first_key E) now now c v (''https://'' @ host @ ''/oauth/par'')
                      (''https://'' @ host) jwks (sv_jti s) of (x, g) \<Rightarrow> (x, s\<lparr>sv_jti := g\<rparr>)))
          else ret (Inl (invalid_client ''Unsupported client_assertion_type''))
      | _ \<Rightarrow> ret (Inl (invalid_client ''Missing client authentication in PAR request'')))"

definition par_authenticate :: "env \<Rightarrow> instant \<Rightarrow> http_request \<Rightarrow> client \<Rightarrow> (string \<times> string) list \<Rightarrow> unit act" where
  "par_authenticate E now r c params =
     (if is_public c then ret (Inr ())
      else (case par_secret E r params of
              Some secret \<Rightarrow> ret (ensure (cl_client_secret c = secret) (invalid_client ''Invalid client_secret in PAR''))
            | None \<Rightarrow> par_assertion E now r c params))"

text \<open>The answer is the request URI; it is good for 60 seconds.\<close>
definition par :: "env \<Rightarrow> instant \<Rightarrow> string \<Rightarrow> http_request \<Rightarrow> (string \<times> int) act" where
  "par E now uuid r =
     andThen (ret (par_params (en_http E) (hr_body r))) (\<lambda>params.
     andThen (ret (ok_or (map_of params ''client_id'') (invalid_request ''Missing client_id in PAR request''))) (\<lambda>client_id.
     andThen (ret (ensure (map_of params ''response_type'' \<noteq> None) (invalid_request ''Missing response_type in PAR request''))) (\<lambda>_.
     andThen (send_resolve E now client_id) (\<lambda>c.
     andThen (par_authenticate E now r c params) (\<lambda>_ s.
       case store_par_request now uuid client_id params (sv_par s) of
         (uri, p) \<Rightarrow> (map_sum id (\<lambda>u. (u, 60)) uri, s\<lparr>sv_par := p\<rparr>))))))"

end
