(* ===== verification/Endpoint_Laws.thy ===== *)
theory Endpoint_Laws
  imports Token_Endpoint
begin

text \<open>
  What the token endpoint adds to its grants: parameters have one value each, every answer leaves
  the database reachable by the store's statements, an issued token is stored for the client of the
  request, a DPoP proof binds the token to its key, and failed authentications are rationed.
\<close>

section \<open>Parameters\<close>

lemma no_duplicates_iff: "no_duplicates seen ps \<longleftrightarrow> distinct (map fst ps) \<and> seen \<inter> fst ` set ps = {}"
  by (induction seen ps rule: no_duplicates.induct) auto

definition single_pairs :: "(string \<times> string) list \<Rightarrow> (string \<times> string) list" where
  "single_pairs ps = filter (\<lambda>p. fst p \<notin> set repeatable_form_params) ps"

lemma parse_pairs_spec:
  "parse_pairs ps f =
     (if distinct (map fst (single_pairs ps)) \<and> (\<forall>k \<in> fst ` set (single_pairs ps). pf_single f k = None)
      then Inr (f\<lparr>pf_single := pf_single f ++ map_of (single_pairs ps),
        pf_repeated := (\<lambda>k. pf_repeated f k @ (if k \<in> set repeatable_form_params then map snd (filter (\<lambda>p. fst p = k) ps) else []))\<rparr>)
      else Inl (invalid_request ''Duplicate form parameters are not allowed''))"
proof (induction ps f rule: parse_pairs.induct)
  case (2 k v ps f)
  show ?case
  proof (cases "k \<in> set repeatable_form_params")
    case True
    then show ?thesis using 2(1) by (auto simp: single_pairs_def fun_eq_iff)
  next
    case False
    then have sp: "single_pairs ((k, v) # ps) = (k, v) # single_pairs ps" by (simp add: single_pairs_def)
    show ?thesis
    proof (cases "pf_single f k = None")
      case None: True
      let ?keys = "fst ` set (single_pairs ps)"
      let ?rep = "\<lambda>j. pf_repeated f j @ (if j \<in> set repeatable_form_params then map snd (filter (\<lambda>p. fst p = j) ps) else [])"
      have c: "(\<forall>j \<in> ?keys. ((pf_single f)(k \<mapsto> v)) j = None) \<longleftrightarrow> k \<notin> ?keys \<and> (\<forall>j \<in> ?keys. pf_single f j = None)" by auto
      have m: "(pf_single f)(k \<mapsto> v) ++ map_of (single_pairs ps) = pf_single f ++ map_of ((k, v) # single_pairs ps)" if "k \<notin> ?keys"
        using that by (simp add: map_add_upd_left dom_map_of_conv_image_fst)
      have r: "(\<lambda>j. pf_repeated f j @ (if j \<in> set repeatable_form_params then map snd (filter (\<lambda>p. fst p = j) ((k, v) # ps)) else [])) = ?rep"
        using False by (auto simp: fun_eq_iff)
      have ih: "parse_pairs ps (f\<lparr>pf_single := (pf_single f)(k \<mapsto> v)\<rparr>) =
          (if distinct (map fst (single_pairs ps)) \<and> k \<notin> ?keys \<and> (\<forall>j \<in> ?keys. pf_single f j = None)
           then Inr (f\<lparr>pf_single := (pf_single f)(k \<mapsto> v) ++ map_of (single_pairs ps), pf_repeated := ?rep\<rparr>)
           else Inl (invalid_request ''Duplicate form parameters are not allowed''))"
        using 2(2) [OF False] None unfolding c [symmetric] by simp
      have e: "distinct (map fst ((k, v) # single_pairs ps)) \<and> (\<forall>j \<in> fst ` set ((k, v) # single_pairs ps). pf_single f j = None) \<longleftrightarrow>
          distinct (map fst (single_pairs ps)) \<and> k \<notin> ?keys \<and> (\<forall>j \<in> ?keys. pf_single f j = None)"
        using None by auto
      have l: "parse_pairs ((k, v) # ps) f = parse_pairs ps (f\<lparr>pf_single := (pf_single f)(k \<mapsto> v)\<rparr>)" using False None by simp
      show ?thesis
      proof (cases "k \<in> ?keys")
        case True
        then show ?thesis unfolding sp r e l ih by (simp only: simp_thms if_False)
      next
        case False
        show ?thesis unfolding sp r e l ih m [OF False] by (rule refl)
      qed
    qed (use False in \<open>simp add: sp\<close>)
  qed
qed (simp add: single_pairs_def fun_eq_iff)

text \<open>Form parsing is equivalent to its specification: a body is refused exactly when a parameter other
  than \<open>resource\<close> and \<open>audience\<close> occurs twice; otherwise every single-valued parameter has the
  one value sent and the repeatable ones keep all their values in order.\<close>
theorem form_parse_correct:
  "parse_form_no_dupes H body =
     (let ps = hl_form_parse H body in
      if distinct (map fst (single_pairs ps))
      then Inr \<lparr>pf_single = map_of (single_pairs ps),
        pf_repeated = (\<lambda>k. if k \<in> set repeatable_form_params then map snd (filter (\<lambda>p. fst p = k) ps) else [])\<rparr>
      else Inl (invalid_request ''Duplicate form parameters are not allowed''))"
  by (simp add: parse_form_no_dupes_def parse_pairs_spec Let_def)

section \<open>Every answer is a sequence of statements\<close>

lemmas evolves_dpop = evolves_cmd [of "DpopJti t j e" for t j e, simplified]

lemma evolves_validate_dpop: "evolves d (snd (snd (validate_dpop_proof L J t w p m u a st d)))"
  using evolves_dpop
  by (auto simp: validate_dpop_proof_def check_and_insert_def Let_def split: sum.splits prod.splits) (metis snd_conv)+

lemma stepwise_send_dpop [stepwise_intros]: "stepwise (send_dpop E now r url p)"
  using evolves_validate_dpop by (simp add: stepwise_def send_dpop_def split: prod.splits) (metis snd_conv)

lemma stepwise_dpop [stepwise_intros]: "stepwise (dpop_of E now r)"
proof (cases "hr_header r ''DPoP''")
  case (Some h)
  then show ?thesis unfolding dpop_of_def by (simp only: option.case) (intro stepwise_intros)
qed (simp add: dpop_of_def stepwise_ret)

lemma stepwise_nonce_check [stepwise_intros]: "stepwise (nonce_check E now req v)"
  using stepwise_resolve [of E now "rq_client_id req"]
  by (auto simp: stepwise_def nonce_check_def split: option.splits prod.splits sum.splits) (metis snd_conv)+

lemma stepwise_dispatch [stepwise_intros]: "stepwise (dispatch E now dr req cnf dp rar mt)"
  unfolding dispatch_def Let_def by (intro stepwise_intros)

lemma penalty_db [simp]: "sv_db (snd (penalty now cid out)) = sv_db (snd out)"
  by (cases out) (auto simp: penalty_def split: sum.splits option.splits prod.splits)

lemma stepwise_penalty [stepwise_intros]: "stepwise (grant_with_penalty E now dr req v rar mt)"
  using stepwise_dispatch by (simp add: stepwise_def grant_with_penalty_def)

lemma stepwise_token_endpoint [stepwise_intros]: "stepwise (token_endpoint E now dr r)"
proof -
  have [stepwise_intros]: "stepwise (case x of Some rep \<Rightarrow> ret (Inr rep) | None \<Rightarrow> m)" if "stepwise m" for x :: "reply option" and m
    using that by (cases x) (auto intro: stepwise_ret)
  show ?thesis unfolding token_endpoint_def by (intro stepwise_intros)
qed

lemma stepwise_par [stepwise_intros]: "stepwise (par E now uuid r)"
proof -
  have "stepwise (par_authenticate E now r c params)" for c params
    by (rule stepwise_keep)
      (auto simp: par_authenticate_def par_assertion_def andThen_def ret_def Let_def bindS_def split: option.splits prod.splits sum.splits)
  note [stepwise_intros] = this
  have [stepwise_intros]: "stepwise (\<lambda>s. case store_par_request now uuid cid ps (sv_par s) of
      (uri, p) \<Rightarrow> (map_sum id (\<lambda>u. (u, 60 :: int)) uri, s\<lparr>sv_par := p\<rparr>))" for cid ps
    by (rule stepwise_keep) (simp split: prod.splits)
  show ?thesis unfolding par_def by (intro stepwise_intros)
qed

section \<open>Issued tokens\<close>

lemma code_grant_issues:
  assumes "handle_authorization_code_grant E now fr nf req cnf rar mt s = (Inr (Issued resp), s')"
  obtains t where "get_token_by_access_token (tr_access_token resp) (sv_db s') = Some t" "\<not> tk_revoked t" "tk_client_id t = rq_client_id req"
    and "tk_cnf t = map_option (json_to_string (en_libs E)) cnf" "cnf_jkt cnf \<noteq> None \<Longrightarrow> tr_token_type resp = ''DPoP''"
proof -
  obtain a c ac s1 where p: "code_grant_prepare E now req mt s = (Inr (a, c, ac), s1)"
    and k: "code_grant_commit E now fr nf req cnf rar (a, c, ac) s1 = (Inr (Issued resp), s')"
    using assms by (auto simp: handle_authorization_code_grant_def result_simps)
  from p obtain code where code: "rq_code req = Some code" and v: "validate_authorization_code (en_libs E) now code (rq_client_id req)
      (rq_redirect_uri req) (rq_code_verifier req) (sv_db s) = Inr a" by (rule prepare_ok) blast
  obtain t s2 s3 where c: "send_create E now fr (ac_client_id a) (code_msg E nf c a cnf rar ac) s2 = (Inr t, s3)"
    and w: "with_id_token E now (ac_scope a) (ac_user_id a) (ac_client_id a) (ac_nonce a) (Some (ac_code a)) t
      (apply_dpop_token_type (token_response_from t) cnf) s3 = (Inr resp, s')"
    using k by (auto simp: code_grant_commit_def result_simps)
  have "cnf_jkt cnf \<noteq> None \<Longrightarrow> tr_token_type resp = ''DPoP''"
    using w by (auto simp: with_id_token_def Let_def map_sum_eq_Inr apply_dpop_token_type_def split: if_splits)
  then show ?thesis
    using send_create_ok(4-6) [OF c] send_create_delegation(2) [OF c] with_id_token_ok(1,2) [OF w] v
    by (intro that [of t]) (simp_all add: validate_code_cases code_msg_def)
qed

lemma client_credentials_issues:
  assumes "handle_client_credentials_grant E now fr req cnf rar mt s = (Inr (Issued resp), s')"
  obtains t where "get_token_by_access_token (tr_access_token resp) (sv_db s') = Some t" "\<not> tk_revoked t" "tk_client_id t = rq_client_id req"
    and "tk_cnf t = map_option (json_to_string (en_libs E)) cnf" "cnf_jkt cnf \<noteq> None \<Longrightarrow> tr_token_type resp = ''DPoP''"
proof -
  obtain c scope t s3 where k: "send_create E now fr (rq_client_id req) (client_credentials_msg E c req scope cnf rar) s3 = (Inr t, s')"
    and rep: "resp = apply_dpop_token_type (token_response_from t) cnf"
    using assms by (auto simp: handle_client_credentials_grant_def result_simps Let_def)
  show ?thesis
    using send_create_ok(4-6) [OF k] send_create_delegation(2) [OF k] rep
    by (intro that [of t]) (simp_all add: client_credentials_msg_def apply_dpop_token_type_def)
qed

lemma dispatch_issues:
  assumes "dispatch E now dr req cnf dp rar mt s = (Inr (Issued resp), s')"
  shows "rq_grant_type req \<in> {''authorization_code'', ''client_credentials'', ''refresh_token'', device_code_grant_type, ''device_code''}"
    "\<exists>t. get_token_by_access_token (tr_access_token resp) (sv_db s') = Some t \<and> \<not> tk_revoked t \<and> tk_client_id t = rq_client_id req"
proof -
  let ?P = "\<exists>t. get_token_by_access_token (tr_access_token resp) (sv_db s') = Some t \<and> \<not> tk_revoked t \<and> tk_client_id t = rq_client_id req"
  have r: ?P if "handle_refresh_token_grant E now fr nf req mt s = (Inr (Issued resp), s')" for fr nf
    using that
  proof (rule refresh_grant_parts)
    fix rt c old s1
    assume p: "get_token_by_refresh_token rt (sv_db s) = Some old" "sv_db s1 = sv_db s"
      "rotate_refresh_token E now fr nf req c old s1 = (Inr (Issued resp), s')"
    have "get_token_by_refresh_token rt (sv_db s1) = Some old" using p by simp
    with p(3) show ?P by (rule rotate_ok) auto
  qed
  have d: ?P if "handle_device_code_grant E now fr req mt s = (Inr (Issued resp), s')" for fr
    using that
  proof (rule device_grant_parts)
    fix dc c dev u t s1 s2
    assume k: "send_create E now fr (rq_client_id req) (device_msg E c req dev u) s1 = (Inr t, s2)"
      and q: "sv_db s' = snd (mark_device_authorization_used dc (sv_db s2))" "tr_access_token resp = tk_access_token t"
    show ?P using send_create_ok(4-6) [OF k] q
      by (auto simp: device_msg_def mark_device_authorization_used_def get_token_by_access_token_def)
  qed
  have no: "handle_jwt_bearer_grant E now fr req cnf rar mt s \<noteq> (Inr (Issued resp), s')"
    "handle_transaction_authorization_grant E now fr req cnf mt s \<noteq> (Inr (Issued resp), s')"
    "exchange E now fr uuid req cnf dp mt s \<noteq> (Inr (Issued resp), s')" for fr uuid
    by (auto simp: handle_jwt_bearer_grant_def jwt_bearer_issue_def result_simps handle_transaction_authorization_grant_def exchange_def
        handle_token_exchange_grant_def exchange_issue_def exchange_access_token_def Let_def map_sum_eq_Inr split: if_splits prod.splits)
  have c: ?P if "handle_authorization_code_grant E now fr nf req cnf rar mt s = (Inr (Issued resp), s')" for fr nf
    using that by (rule code_grant_issues) auto
  have cc: ?P if "handle_client_credentials_grant E now fr req cnf rar mt s = (Inr (Issued resp), s')" for fr
    using that by (rule client_credentials_issues) auto
  show "rq_grant_type req \<in> {''authorization_code'', ''client_credentials'', ''refresh_token'', device_code_grant_type, ''device_code''}" ?P
    using assms r d no c cc by (auto simp: dispatch_def Let_def ret_def split: if_splits)
qed

lemma penalty_Inr: "penalty now cid out = (Inr rep, s') \<longleftrightarrow> out = (Inr rep, s')"
  by (cases out) (auto simp: penalty_def split: sum.splits option.splits prod.splits if_splits)

lemma stepwise_run: "stepwise m \<Longrightarrow> m s = (x, s') \<Longrightarrow> evolves (sv_db s) (sv_db s')"
  unfolding stepwise_def by (metis snd_conv)

lemma token_endpoint_parts:
  assumes "token_endpoint E now dr r s = (Inr rep, s')" "\<And>d n. rep \<noteq> UseDpopNonce d n"
  obtains req validated rar s1 where "read_token_request E r = Inr req" "rar_details E req = Inr rar"
    and "\<exists>s0. dpop_of E now r s = (Inr validated, s0)"
    and "dispatch E now dr req (cnf_claim_of validated (mt_thumbprint (mtls_of r))) (validated \<noteq> None) rar (mtls_of r) s1 = (Inr rep, s')"
    and "evolves (sv_db s) (sv_db s1)"
proof -
  obtain req validated early s0 s1 where q: "read_token_request E r = Inr req" "dpop_of E now r s = (Inr validated, s0)"
    and e: "nonce_check E now req validated s0 = (Inr early, s1)"
    and k: "(case early of Some rep \<Rightarrow> ret (Inr rep)
      | None \<Rightarrow> andThen (ret (rar_details E req)) (\<lambda>rar. grant_with_penalty E now dr req validated rar (mtls_of r))) s1 = (Inr rep, s')"
    using assms(1) by (auto simp: token_endpoint_def result_simps)
  have "early = None"
    using e k assms(2) by (auto simp: nonce_check_def use_dpop_nonce_response_def ret_def split: option.splits prod.splits sum.splits if_splits)
  moreover have "evolves (sv_db s) (sv_db s1)"
    using stepwise_run [OF stepwise_dpop q(2)] stepwise_run [OF stepwise_nonce_check e] by (rule evolves_trans)
  ultimately show ?thesis using q k by (auto simp: result_simps grant_with_penalty_def penalty_Inr intro: that)
qed


lemma dpop_of_ok:
  assumes "dpop_of E now r s = (Inr v, s')" "hr_header r ''DPoP'' = Some h"
  obtains p url jkt c where "h = Text p" "build_request_url_bounded (hr_scheme r) (hr_host r) (hr_path r) = Inr url"
    and "check_dpop_proof (en_libs E) (en_jose E) now p (hr_method r) url None = Inr (jkt, c)" "v = Some \<lparr>dv_jkt = jkt, dv_nonce = dc_nonce c\<rparr>"
proof -
  obtain p url w where p: "to_str h = Some p" "build_request_url_bounded (hr_scheme r) (hr_host r) (hr_path r) = Inr url"
    and d: "send_dpop E now r url p s = (Inr w, s')" and v: "v = Some w"
    using assms by (auto simp: dpop_of_def result_simps)
  have "h = Text p" using p(1) by (cases h) auto
  moreover obtain jkt c where "check_dpop_proof (en_libs E) (en_jose E) now p (hr_method r) url None = Inr (jkt, c)"
    "w = \<lparr>dv_jkt = jkt, dv_nonce = dc_nonce c\<rparr>"
    using d by (auto simp: send_dpop_def validate_dpop_proof_def split: prod.splits sum.splits)
  ultimately show ?thesis using p v by (intro that) auto
qed

text \<open>C11. A DPoP proof binds: when a request of the code or client-credentials grant carries a DPoP header and
  is answered with a token, the proof verified for this method and URL, the stored token is bound
  to the thumbprint of the proof's key, and the response says so.\<close>
theorem dpop_proof_binds_token:
  assumes "token_endpoint E now dr r s = (Inr (Issued resp), s')" "hr_header r ''DPoP'' = Some h"
    and "read_token_request E r = Inr req" "rq_grant_type req \<in> {''authorization_code'', ''client_credentials''}"
  shows "\<exists>p url jkt c t. h = Text p \<and> build_request_url_bounded (hr_scheme r) (hr_host r) (hr_path r) = Inr url \<and>
    check_dpop_proof (en_libs E) (en_jose E) now p (hr_method r) url None = Inr (jkt, c) \<and>
    get_token_by_access_token (tr_access_token resp) (sv_db s') = Some t \<and>
    tk_cnf t = Some (json_to_string (en_libs E) (JObj [(''jkt'', JStr jkt)])) \<and> tr_token_type resp = ''DPoP''"
  using assms(1)
proof (rule token_endpoint_parts)
  fix req' validated rar s1
  assume q: "read_token_request E r = Inr req'" "\<exists>s0. dpop_of E now r s = (Inr validated, s0)"
    and d: "dispatch E now dr req' (cnf_claim_of validated (mt_thumbprint (mtls_of r))) (validated \<noteq> None) rar (mtls_of r) s1 = (Inr (Issued resp), s')"
  obtain s0 where "dpop_of E now r s = (Inr validated, s0)" using q(2) by blast
  then obtain p url jkt c where p: "h = Text p" "build_request_url_bounded (hr_scheme r) (hr_host r) (hr_path r) = Inr url"
    "check_dpop_proof (en_libs E) (en_jose E) now p (hr_method r) url None = Inr (jkt, c)" and v: "validated = Some \<lparr>dv_jkt = jkt, dv_nonce = dc_nonce c\<rparr>"
    using assms(2) by (rule dpop_of_ok)
  let ?cnf = "cnf_claim_of validated (mt_thumbprint (mtls_of r))"
  have c: "?cnf = Some (JObj [(''jkt'', JStr jkt)])" "cnf_jkt ?cnf \<noteq> None" by (simp_all add: cnf_claim_of_def v cnf_jkt_def)
  have "\<exists>t. get_token_by_access_token (tr_access_token resp) (sv_db s') = Some t \<and> tk_cnf t = map_option (json_to_string (en_libs E)) ?cnf \<and>
      tr_token_type resp = ''DPoP''"
  proof (cases "rq_grant_type req = ''authorization_code''")
    case True
    then have "handle_authorization_code_grant E now (dr_fresh dr) (dr_family dr) req' ?cnf rar (mtls_of r) s1 = (Inr (Issued resp), s')"
      using d q(1) assms(3) by (simp add: dispatch_def)
    then show ?thesis by (rule code_grant_issues) (use c(2) in auto)
  next
    case False
    then have "handle_client_credentials_grant E now (dr_fresh dr) req' ?cnf rar (mtls_of r) s1 = (Inr (Issued resp), s')"
      using d q(1) assms(3,4) by (simp add: dispatch_def)
    then show ?thesis by (rule client_credentials_issues) (use c(2) in auto)
  qed
  then show ?thesis using p c(1) by auto
qed auto

section \<open>A run\<close>

definition endpoint_env :: env where
  "endpoint_env = demo_env\<lparr>en_http := \<lparr>hl_b64_decode = (\<lambda>_. None), hl_percent_decode = Some, hl_form_parse = (\<lambda>b. if b = ''body''
     then [(''grant_type'', ''client_credentials''), (''client_id'', ''svc''), (''client_secret'', ''s3cret''), (''scope'', ''write'')] else [])\<rparr>\<rparr>"

definition endpoint_request :: http_request where
  "endpoint_request = \<lparr>hr_method = ''POST'', hr_scheme = ''https'', hr_host = ''as'', hr_path = ''/oauth/token'', hr_query = [],
     hr_header = (\<lambda>k. if k = ''DPoP'' then Some (Text ''p'') else None), hr_body = ''body''\<rparr>"

definition endpoint_draw :: drawn where
  "endpoint_draw = \<lparr>dr_fresh = demo_fresh, dr_family = ''nf'', dr_uuid = ''uu''\<rparr>"

definition endpoint_form :: token_request where
  "endpoint_form = demo_svc_request\<lparr>rq_grant_type := ''client_credentials''\<rparr>"

lemma endpoint_read: "read_token_request endpoint_env endpoint_request = Inr endpoint_form"
  by (simp add: read_token_request_def ensure_no_duplicate_query_params_def parse_form_no_dupes_def endpoint_env_def endpoint_request_def
      repeatable_form_params_def parse_client_basic_auth_def check_credentials_def reject_multiple_client_auth_methods_def mismatch_def
      token_client_id_def opt_or_def build_token_request_def canonical_cimd_client_id_def cimd_url_target_def enabled_fetcher_def)
    (simp add: endpoint_form_def demo_svc_request_def demo_request_def demo_env_def cimd_url_target_def enabled_fetcher_def)

lemma endpoint_dpop: "dpop_of endpoint_env 5 endpoint_request (service_server True) = (Inr (Some \<lparr>dv_jkt = ''hj'', dv_nonce = None\<rparr>), service_server True)"
proof -
  have "check_dpop_proof demo_libs1 demo_jose 5 p ''POST'' ''https://as/oauth/token'' None = Inr (''hj'', demo_dpop_claims)" for p
    by (simp add: check_dpop_proof_def demo_jose_def demo_libs1_def demo_dpop_claims_def eq_ignore_case_def compute_jkt_def
        build_jwk_canonical_def jwk_member_def verify_dpop_signature_def dpop_decoding_key_def jwk_str_def strip_query_def timestamp_def
        dpop_iat_skew_def Let_def)
  moreover have "en_libs endpoint_env = demo_libs1" "en_jose endpoint_env = demo_jose" by (simp_all add: endpoint_env_def demo_env_def)
  moreover have "sv_dpop (service_server True) = None" by (simp add: service_server_def)
  moreover have "service_server True\<lparr>sv_dpop := None, sv_db := sv_db (service_server True)\<rparr> = service_server True"
    by (simp add: service_server_def)
  ultimately show ?thesis
    by (simp add: dpop_of_def endpoint_request_def andThen_def ret_def build_request_url_bounded_def send_dpop_def validate_dpop_proof_def
        check_and_insert_def check_and_insert_in_memory_def live_entries_def demo_dpop_claims_def)
qed

lemma endpoint_grant:
  "\<exists>resp s'. dispatch endpoint_env 5 endpoint_draw endpoint_form (Some (JObj [(''jkt'', JStr ''hj'')])) True None no_mtls
     (service_server True) = (Inr (Issued resp), s')"
proof -
  let ?c = "demo_svc\<lparr>cl_enabled := True\<rparr>"
  let ?s = "service_server True\<lparr>sv_clients := insert_cached_client 5 ?c \<lparr>cla_cache = []\<rparr>\<rparr>"
  have e: "en_libs endpoint_env = demo_libs1" "en_cimd endpoint_env = None" "url_parse demo_libs1 = (\<lambda>_. None)"
    by (simp_all add: endpoint_env_def demo_libs1_def)
  have q: "rq_client_id endpoint_form = ''svc''" "rq_scope endpoint_form = Some ''write''" "rq_client_secret endpoint_form = Some ''s3cret''"
    "rq_grant_type endpoint_form = ''client_credentials''" "rq_resource endpoint_form = []"
    by (simp_all add: endpoint_form_def)
  have r: "send_resolve endpoint_env 5 ''svc'' (service_server True) = (Inr ?c, ?s)"
    by (rule cold_resolve) (simp_all add: e service_server_def get_client_def)
  have a: "authenticate endpoint_env 5 ?c endpoint_form no_mtls ?s = (Inr (), ?s)"
    by (rule secret_authenticate) (simp_all add: q)
  have m: "send_materialize endpoint_env 5 ?c ?s = (Inr (), ?s)" by (simp add: send_materialize_def materialize_cimd_client_def)
  have g: "supports_grant_type demo_libs1 ?c ''client_credentials''" by (simp add: supports_grant_type_def demo_grants)
  have sc: "validate_scope_subset ''write'' ''read write'' = Inr ()"
    by (simp add: validate_scope_subset_iff) (simp add: split_whitespace_def is_ws_def)
  have "\<exists>t s'. send_create endpoint_env 5 demo_fresh ''svc'' (client_credentials_msg endpoint_env ?c endpoint_form ''write''
      (Some (JObj [(''jkt'', JStr ''hj'')])) None) ?s = (Inr t, s')"
    by (simp add: issue_defs client_credentials_msg_def service_server_def db_empty_def user_new_def demo_fresh_def is_ai_agent_def demo_agent_def
        endpoint_env_def q)
  then show ?thesis
    by (auto simp: dispatch_def Let_def q handle_client_credentials_grant_def andThen_def ret_def r a m e g sc endpoint_draw_def)
qed

lemma endpoint_run:
  "\<exists>resp s'. token_endpoint endpoint_env 5 endpoint_draw endpoint_request (service_server True) = (Inr (Issued resp), s')"
proof -
  have n: "nonce_check endpoint_env 5 endpoint_form v s = (Inr None, s)" for v s
    by (simp add: nonce_check_def endpoint_env_def demo_env_def split: option.split)
  have m: "mtls_of endpoint_request = no_mtls" by (simp add: mtls_of_def header_text_def endpoint_request_def no_mtls_def)
  have a: "rar_details endpoint_env endpoint_form = Inr None"
    by (simp add: rar_details_def endpoint_form_def demo_svc_request_def demo_request_def)
  obtain resp s' where d: "dispatch endpoint_env 5 endpoint_draw endpoint_form (Some (JObj [(''jkt'', JStr ''hj'')])) True None no_mtls
     (service_server True) = (Inr (Issued resp), s')" using endpoint_grant by blast
  show ?thesis
    by (simp add: token_endpoint_def andThen_def ret_def endpoint_read endpoint_dpop n m a grant_with_penalty_def cnf_claim_of_def d penalty_def)
qed


lemma dpop_proof_binds_token_witness:
  "\<exists>resp s' t jkt. token_endpoint endpoint_env 5 endpoint_draw endpoint_request (service_server True) = (Inr (Issued resp), s') \<and>
     get_token_by_access_token (tr_access_token resp) (sv_db s') = Some t \<and>
     tk_cnf t = Some (json_to_string (en_libs endpoint_env) (JObj [(''jkt'', JStr jkt)])) \<and> tr_token_type resp = ''DPoP''"
proof -
  obtain resp s' where h: "token_endpoint endpoint_env 5 endpoint_draw endpoint_request (service_server True) = (Inr (Issued resp), s')"
    using endpoint_run by blast
  have "hr_header endpoint_request ''DPoP'' = Some (Text ''p'')" "rq_grant_type endpoint_form \<in> {''authorization_code'', ''client_credentials''}"
    by (simp_all add: endpoint_request_def endpoint_form_def)
  from dpop_proof_binds_token [OF h this(1) endpoint_read this(2)] h show ?thesis by auto
qed

end
