(* ===== verification/Token_Handlers.thy ===== *)
theory Token_Handlers
  imports Endpoint_Laws
begin

text \<open>
  The endpoints a resource server or client asks about a token (\<open>handlers/token.rs\<close>, and \<open>userinfo\<close>
  of \<open>handlers/wellknown.rs\<close>): introspection with its transaction-token branch, DPoP-bound tokens,
  the caller's view and the signed answer of RFC 9701; revocation; the user's claims.
\<close>

section \<open>Configuration and libraries of the browser-facing handlers\<close>

text \<open>\<open>wl_decode_claims now secret token\<close> is \<open>Claims::decode\<close> with the default validation; the other
  libraries are percent encoding, \<open>query_pairs_mut\<close> on a parsed URL, base64url with padding, the
  verification of a signed request object for one audience, and Argon2.\<close>
record web =
  wb_jwt_secret :: string
  wb_stateless :: bool
  wb_opaque :: bool
  wb_public_introspection :: bool
  wb_code_ttl :: int
  wl_decode_claims :: "instant \<Rightarrow> string \<Rightarrow> string \<Rightarrow> claims option"
  wl_percent_encode :: "string \<Rightarrow> string"
  wl_append_pairs :: "url \<Rightarrow> (string \<times> string) list \<Rightarrow> string"
  wl_b64_url_pad :: "string \<Rightarrow> string option"
  wl_decode_request :: "instant \<Rightarrow> assertion_key \<Rightarrow> string \<Rightarrow> string \<Rightarrow> string + json"
  wl_hash_parses :: "string \<Rightarrow> bool"
  wl_password_ok :: "string \<Rightarrow> string \<Rightarrow> bool"

definition str_contains :: "string \<Rightarrow> string \<Rightarrow> bool" where
  "str_contains s p = list_ex (\<lambda>i. take (length p) (drop i s) = p) [0..<Suc (length s)]"

section \<open>The caller\<close>

definition authenticate_client ::
  "env \<Rightarrow> instant \<Rightarrow> http_request \<Rightarrow> string option \<Rightarrow> string option \<Rightarrow> bool \<Rightarrow> client option act" where
  "authenticate_client E now r form_client_id form_client_secret require_auth =
     andThen (ret (parse_client_basic_auth (en_http E) (hr_header r ''Authorization''))) (\<lambda>basic.
     andThen (ret (reject_multiple_client_auth_methods (basic \<noteq> None) (form_client_secret \<noteq> None) False)) (\<lambda>_.
     andThen (ret (ensure (\<not> mismatch form_client_id (map_option fst basic))
                (invalid_request ''client_id mismatch between body and Basic auth''))) (\<lambda>_.
     andThen (ret (ensure (\<not> mismatch form_client_secret (map_option snd basic))
                (invalid_client ''client_secret mismatch between body and Basic auth''))) (\<lambda>_.
     case (opt_or form_client_id (map_option fst basic), opt_or form_client_secret (map_option snd basic)) of
       (None, None) \<Rightarrow> ret (if \<not> require_auth then Inr None else Inl (invalid_client ''Missing client authentication''))
     | (Some _, None) \<Rightarrow> ret (Inl (invalid_client ''Missing client_secret''))
     | (None, Some _) \<Rightarrow> ret (Inl (invalid_request ''Missing client_id''))
     | (Some client_id, Some client_secret) \<Rightarrow>
         andThen (send_get_client now client_id) (\<lambda>c.
         andThen (ret (ensure (client_secret_matches c client_secret) (invalid_client ''Invalid client credentials''))) (\<lambda>_.
           ret (Inr (Some c))))))))"

section \<open>Messages\<close>

text \<open>\<open>ValidateToken\<close>: the cache lookup, the future, and the message that caches its result, on the
  shard the token is routed to.\<close>
definition send_validate :: "env \<Rightarrow> instant \<Rightarrow> string \<Rightarrow> token act" where
  "send_validate E now raw s =
     (case validate_token_sync now raw (shard E raw s) of
        (cached, A) \<Rightarrow>
          (case validate_token_async now raw cached (sv_db s) of
             (r, msg) \<Rightarrow>
               (r, s\<lparr>sv_shards := (sv_shards s)[shard_index E raw s :=
                      (case msg of None \<Rightarrow> A | Some (k, t) \<Rightarrow> cache_validated_token now k t A)]\<rparr>)))"

definition send_validate_stateless :: "env \<Rightarrow> instant \<Rightarrow> string \<Rightarrow> token act" where
  "send_validate_stateless E now raw s = (validate_token_stateless (en_libs E) (en_jwt E) now (shard E raw s) raw, s)"

text \<open>A DPoP proof that accompanies an access token must hash it.\<close>
definition send_dpop_for :: "env \<Rightarrow> instant \<Rightarrow> http_request \<Rightarrow> string \<Rightarrow> string \<Rightarrow> string \<Rightarrow> dpop_validated act" where
  "send_dpop_for E now r url dpop access_token s =
     (case validate_dpop_proof (en_libs E) (en_jose E) now now dpop (hr_method r) url (Some access_token)
             (case sv_dpop s of Some st \<Rightarrow> st | None \<Rightarrow> \<lparr>ds_memory = [], ds_storage = False\<rparr>) (sv_db s) of
        (v, st, d) \<Rightarrow> (v, s\<lparr>sv_dpop := map_option (\<lambda>_. st) (sv_dpop s), sv_db := d\<rparr>))"

section \<open>Introspection\<close>

record introspection_response =
  nr_active :: bool
  nr_scope :: "string option"
  nr_client_id :: "string option"
  nr_username :: "string option"
  nr_token_type :: "string option"
  nr_exp :: "int option"
  nr_iat :: "int option"
  nr_nbf :: "int option"
  nr_sub :: "string option"
  nr_aud :: "string list option"
  nr_jti :: "string option"
  nr_iss :: "string option"
  nr_cnf :: "json option"
  nr_act :: "json option"
  nr_txn :: "string option"
  nr_purp :: "string option"
  nr_req_wl :: "string option"

text \<open>The serialized answer; absent members are skipped.\<close>
definition introspection_value :: "introspection_response \<Rightarrow> json" where
  "introspection_value n = JObj ((''active'', JBool (nr_active n)) #
     opt_member ''scope'' JStr (nr_scope n) @ opt_member ''client_id'' JStr (nr_client_id n) @
     opt_member ''username'' JStr (nr_username n) @ opt_member ''token_type'' JStr (nr_token_type n) @
     opt_member ''exp'' JInt (nr_exp n) @ opt_member ''iat'' JInt (nr_iat n) @ opt_member ''nbf'' JInt (nr_nbf n) @
     opt_member ''sub'' JStr (nr_sub n) @ opt_member ''aud'' (\<lambda>a. serialize_optional_audience (Some a)) (nr_aud n) @
     opt_member ''jti'' JStr (nr_jti n) @ opt_member ''iss'' JStr (nr_iss n) @ opt_member ''cnf'' id (nr_cnf n) @
     opt_member ''act'' id (nr_act n) @ opt_member ''txn'' JStr (nr_txn n) @ opt_member ''purp'' JStr (nr_purp n) @
     opt_member ''req_wl'' JStr (nr_req_wl n))"

definition inactive_introspection_response :: introspection_response where
  "inactive_introspection_response = \<lparr>nr_active = False, nr_scope = None, nr_client_id = None, nr_username = None,
     nr_token_type = None, nr_exp = None, nr_iat = None, nr_nbf = None, nr_sub = None, nr_aud = None, nr_jti = None,
     nr_iss = None, nr_cnf = None, nr_act = None, nr_txn = None, nr_purp = None, nr_req_wl = None\<rparr>"

datatype introspection_reply = PlainAnswer introspection_response | SignedAnswer string

definition is_transaction_token :: "env \<Rightarrow> string \<Rightarrow> bool" where
  "is_transaction_token E raw = (Option.bind (al_header (en_assertions E) raw) jh_typ = Some txn_token_typ)"

definition introspect_txn_token :: "env \<Rightarrow> instant \<Rightarrow> client option \<Rightarrow> string \<Rightarrow> introspection_response" where
  "introspect_txn_token E now caller raw =
     (case verify_txn_token E now raw of
        Inl _ \<Rightarrow> inactive_introspection_response
      | Inr c \<Rightarrow>
          \<lparr>nr_active = True, nr_scope = Some (tx_scope c), nr_client_id = None, nr_username = None,
           nr_token_type = Some ''N_A'', nr_exp = Some (tx_exp c), nr_iat = Some (tx_iat c), nr_nbf = Some (tx_iat c),
           nr_sub = (if caller \<noteq> None then Some (tx_sub c) else None), nr_aud = Some [tx_aud c], nr_jti = None,
           nr_iss = Some (tx_iss c), nr_cnf = None, nr_act = (if caller \<noteq> None then tx_act c else None),
           nr_txn = Some (tx_txn c), nr_purp = tx_purp c, nr_req_wl = Some (tx_req_wl c)\<rparr>)"

text \<open>The claims embedded in the stored token.\<close>
definition token_claims :: "env \<Rightarrow> web \<Rightarrow> instant \<Rightarrow> token \<Rightarrow> claims option" where
  "token_claims E W now t =
     opt_or (decode_unverified (jwt_payload (en_jwt E)) (tk_access_token t))
       (wl_decode_claims W now (wb_jwt_secret W) (tk_access_token t))"

text \<open>Whether a token bound to a DPoP key comes with a proof of that key.\<close>
definition introspection_proof :: "env \<Rightarrow> instant \<Rightarrow> http_request \<Rightarrow> string \<Rightarrow> claims option \<Rightarrow> bool act" where
  "introspection_proof E now r raw claims =
     (case json_str (Option.bind claims cm_cnf) ''jkt'' of
        None \<Rightarrow> ret (Inr True)
      | Some jkt \<Rightarrow>
          (case hr_header r ''DPoP'' of
             None \<Rightarrow> ret (Inr False)
           | Some h \<Rightarrow>
               andThen (ret (ok_or (to_str h) (invalid_request ''DPoP header is not valid UTF-8''))) (\<lambda>dpop.
               andThen (ret (build_request_url_bounded (hr_scheme r) (hr_host r) (hr_path r))) (\<lambda>url s.
                 case send_dpop_for E now r url dpop raw s of
                   (Inl _, s1) \<Rightarrow> (Inr False, s1)
                 | (Inr v, s1) \<Rightarrow> (Inr (dv_jkt v = jkt), s1)))))"

definition introspection_of :: "env \<Rightarrow> instant \<Rightarrow> client option \<Rightarrow> claims option \<Rightarrow> token \<Rightarrow> introspection_response" where
  "introspection_of E now caller claims t =
     (let owner = (caller \<noteq> None); of_claims = (\<lambda>f d. Some (case claims of Some c \<Rightarrow> f c | None \<Rightarrow> d)) in
      \<lparr>nr_active = token_is_valid now t, nr_scope = Some (tk_scope t), nr_client_id = Some (tk_client_id t),
       nr_username = (if owner then tk_user_id t else None), nr_token_type = Some (tk_token_type t),
       nr_exp = Some (case claims of Some c \<Rightarrow> cm_exp c | None \<Rightarrow> timestamp (tk_expires_at t)),
       nr_iat = Some (case claims of Some c \<Rightarrow> cm_iat c | None \<Rightarrow> timestamp (tk_created_at t)),
       nr_nbf = Some (case claims of Some c \<Rightarrow> cm_iat c | None \<Rightarrow> timestamp (tk_created_at t)),
       nr_sub = (if owner then opt_or (map_option cm_sub claims) (tk_user_id t) else None),
       nr_aud = Some (case claims of Some c \<Rightarrow> cm_aud c | None \<Rightarrow> [tk_client_id t]),
       nr_jti = of_claims cm_jti (tk_id t), nr_iss = of_claims cm_iss (oc_issuer (en_oidc E)),
       nr_cnf = opt_or (Option.bind claims cm_cnf) (token_cnf_value (en_libs E) t),
       nr_act = (if owner then opt_or (Option.bind claims cm_act) (token_actor_value (en_libs E) t) else None),
       nr_txn = Option.bind claims cm_txn, nr_purp = Option.bind claims cm_purp, nr_req_wl = Option.bind claims cm_req_wl\<rparr>)"

text \<open>The key the signed answer is made with: the configured RSA key when it is usable.\<close>
definition introspection_key :: "env \<Rightarrow> web \<Rightarrow> algorithm \<times> bytes" where
  "introspection_key E W =
     (let oc = en_oidc E; fallback = (HS256, secret_bytes (en_jwt E) (wb_jwt_secret W)) in
      if eq_ignore_case (oc_id_token_alg oc) ''RS256'' then
        (case oc_id_token_private_key_pem oc of
           Some pem \<Rightarrow>
             (case en_rsa_pem E (secret_bytes (en_jwt E) pem) of
                Inr _ \<Rightarrow> (RS256, secret_bytes (en_jwt E) pem)
              | Inl _ \<Rightarrow> fallback)
         | None \<Rightarrow> fallback)
      else fallback)"

definition introspection_reply_of ::
  "env \<Rightarrow> web \<Rightarrow> instant \<Rightarrow> http_request \<Rightarrow> client option \<Rightarrow> introspection_response \<Rightarrow> introspection_reply result" where
  "introspection_reply_of E W now r caller n =
     (if str_contains (unwrap_or (header_text r ''Accept'') []) ''application/token-introspection+jwt'' then
        (case introspection_key E W of (alg, key) \<Rightarrow>
           map_sum (\<lambda>e. error_new ''server_error'' (Some e)) SignedAnswer
             (en_encode_json E ''token-introspection+jwt'' (oc_id_token_kid (en_oidc E)) alg key
                (JObj ((''iss'', JStr (oc_issuer (en_oidc E))) # opt_member ''aud'' JStr (map_option cl_client_id caller) @
                   [(''iat'', JInt (timestamp now)), (''token_introspection'', introspection_value n)]))))
      else Inr (PlainAnswer n))"

definition introspect_stored ::
  "env \<Rightarrow> web \<Rightarrow> instant \<Rightarrow> http_request \<Rightarrow> client option \<Rightarrow> string \<Rightarrow> token \<Rightarrow> introspection_reply act" where
  "introspect_stored E W now r caller raw t =
     (if (case caller of Some c \<Rightarrow> tk_client_id t \<noteq> cl_client_id c | None \<Rightarrow> False)
      then ret (Inr (PlainAnswer inactive_introspection_response))
      else
        (let claims = token_claims E W now t in
         andThen (introspection_proof E now r raw claims) (\<lambda>proven.
           if \<not> proven then ret (Inr (PlainAnswer inactive_introspection_response))
           else ret (introspection_reply_of E W now r caller (introspection_of E now caller claims t)))))"

definition introspect ::
  "env \<Rightarrow> web \<Rightarrow> instant \<Rightarrow> http_request \<Rightarrow> string \<Rightarrow> string option \<Rightarrow> string option \<Rightarrow> introspection_reply act" where
  "introspect E W now r raw form_client_id form_client_secret =
     andThen (authenticate_client E now r form_client_id form_client_secret (\<not> wb_public_introspection W)) (\<lambda>caller.
     if ag_txn_tokens_enabled (en_agent E) \<and> is_transaction_token E raw
     then ret (Inr (PlainAnswer (introspect_txn_token E now caller raw)))
     else (\<lambda>s.
       case (if wb_stateless W \<and> \<not> wb_opaque W then send_validate_stateless E now raw s else send_validate E now raw s) of
         (Inl _, s1) \<Rightarrow> (Inr (PlainAnswer inactive_introspection_response), s1)
       | (Inr t, s1) \<Rightarrow> introspect_stored E W now r caller raw t s1))"

section \<open>Revocation\<close>

text \<open>Outside the owner's case the outcome of \<open>RevokeToken\<close> is ignored: it only clears caches.\<close>
definition revoke :: "env \<Rightarrow> instant \<Rightarrow> http_request \<Rightarrow> string \<Rightarrow> string option \<Rightarrow> string option \<Rightarrow> unit act" where
  "revoke E now r raw form_client_id form_client_secret =
     andThen (authenticate_client E now r form_client_id form_client_secret True) (\<lambda>caller s.
       case opt_or (lookup_token raw (sv_db s)) (lookup_refresh_token raw (sv_db s)) of
         Some t \<Rightarrow>
           if Some (tk_client_id t) = map_option cl_client_id caller then send_revoke E raw raw s
           else (Inl (invalid_request ''Token was not issued to this client''), s)
       | None \<Rightarrow> (Inr (), snd (send_revoke E raw raw s)))"

section \<open>The user's claims\<close>

datatype userinfo_reply = UserClaims json | Unauthorized string

definition bearer_token :: "http_request \<Rightarrow> string option" where
  "bearer_token r = nonempty (map_option trim (Option.bind (header_text r ''Authorization'') (\<lambda>v. strip_prefix_opt v ''Bearer '')))"

definition userinfo_value :: "env \<Rightarrow> token \<Rightarrow> string \<Rightarrow> user option \<Rightarrow> json" where
  "userinfo_value E t subject u =
     JObj ([(''sub'', JStr subject), (''iss'', JStr (oc_issuer (en_oidc E))), (''aud'', JStr (tk_client_id t))] @
       (case u of
          None \<Rightarrow> []
        | Some u \<Rightarrow> (if has_scope (tk_scope t) ''email'' then [(''email'', JStr (us_email u))] else []) @
                    (if has_scope (tk_scope t) ''profile'' then [(''preferred_username'', JStr (us_username u))] else [])))"

definition userinfo :: "env \<Rightarrow> instant \<Rightarrow> http_request \<Rightarrow> userinfo_reply act" where
  "userinfo E now r s =
     (case bearer_token r of
        None \<Rightarrow> (Inr (Unauthorized ''Missing access token''), s)
      | Some raw \<Rightarrow>
          (case send_validate E now raw s of
             (Inl _, s1) \<Rightarrow> (Inr (Unauthorized ''Invalid or expired access token''), s1)
           | (Inr t, s1) \<Rightarrow>
               (Inr (case tk_user_id t of
                       None \<Rightarrow> Unauthorized ''Access token does not represent an authenticated user''
                     | Some subject \<Rightarrow> UserClaims (userinfo_value E t subject (get_user_by_id subject (sv_db s1)))), s1)))"

end
