(* ===== verification/Introspection_Laws.thy ===== *)
theory Introspection_Laws
  imports Token_Handlers
begin

text \<open>
  What introspection, revocation and the user-info endpoint promise.  The facts about the caller and
  about one validation come first; the theorems compose them with the storage laws.
\<close>

lemma map_sum_Inr: "map_sum f g x = Inr y \<longleftrightarrow> (\<exists>z. x = Inr z \<and> y = g z)"
  by (cases x) auto

section \<open>The caller\<close>

text \<open>The request carries the stored secret of \<open>c\<close>, in the form or by Basic authentication.\<close>
definition presents_secret :: "env \<Rightarrow> http_request \<Rightarrow> string option \<Rightarrow> client \<Rightarrow> bool" where
  "presents_secret E r form_secret c =
     (case parse_client_basic_auth (en_http E) (hr_header r ''Authorization'') of
        Inr basic \<Rightarrow> opt_or form_secret (map_option snd basic) = Some (cl_client_secret c)
      | Inl _ \<Rightarrow> False)"

lemma get_client_keeps:
  "send_get_client now cid s = (x, s') \<Longrightarrow> sv_db s' = sv_db s \<and> sv_shards s' = sv_shards s"
  by (auto simp: send_get_client_def split: prod.splits)

lemma authenticate_client_keeps:
  assumes "authenticate_client E now r fid fsec req s = (x, s')"
  shows "sv_db s' = sv_db s \<and> sv_shards s' = sv_shards s"
  using assms get_client_keeps
  by (auto simp: authenticate_client_def andThen_def ret_def bindS_def split: sum.splits prod.splits option.splits if_splits; blast)

lemma authenticate_client_ok:
  assumes "authenticate_client E now r fid fsec req s = (Inr caller, s')"
  shows "case caller of None \<Rightarrow> \<not> req | Some c \<Rightarrow> presents_secret E r fsec c"
  using assms
  by (auto simp: authenticate_client_def andThen_def ret_def bindS_def presents_secret_def client_secret_matches_def ensure_def
      split: sum.splits prod.splits option.splits if_splits)

section \<open>One validation\<close>

text \<open>Where a positive answer comes from: the table, or a cache entry younger than a minute.\<close>
definition backed :: "env \<Rightarrow> instant \<Rightarrow> string \<Rightarrow> server \<Rightarrow> token \<Rightarrow> bool" where
  "backed E now raw s t =
     (get_token_by_access_token (normalize_token_key raw) (sv_db s) = Some t \<or>
      (case map_of (tka_cache (shard E raw s)) (normalize_token_key raw) of
         Some ct \<Rightarrow> ct_token ct = t \<and> now - ct_inserted_at ct < secs 60
       | None \<Rightarrow> False))"

lemma send_validate_ok:
  assumes "send_validate E now raw s = (Inr t, s')"
  shows "token_is_valid now t \<and> backed E now raw s t"
  using assms
  by (auto simp: send_validate_def validate_token_sync_def validate_token_async_def backed_def lru_get_def Let_def cache_ttl_def
      split: prod.splits option.splits if_splits)

lemma send_validate_db: "sv_db (snd (send_validate E now raw s)) = sv_db s"
  by (simp add: send_validate_def split: prod.splits)

lemma stepwise_validate [stepwise_intros]: "stepwise (send_validate E now raw)"
  by (rule stepwise_keep) (rule send_validate_db)

section \<open>Introspection\<close>

text \<open>A verified proof of the key with thumbprint \<open>jkt\<close>, made for this request and this token.\<close>
definition proves_key :: "env \<Rightarrow> instant \<Rightarrow> http_request \<Rightarrow> string \<Rightarrow> string \<Rightarrow> bool" where
  "proves_key E now r raw jkt =
     (\<exists>p url c. hr_header r ''DPoP'' = Some (Text p) \<and>
        build_request_url_bounded (hr_scheme r) (hr_host r) (hr_path r) = Inr url \<and>
        check_dpop_proof (en_libs E) (en_jose E) now p (hr_method r) url (Some raw) = Inr (jkt, c))"

lemma send_dpop_for_ok:
  assumes "send_dpop_for E now r url p raw s = (Inr v, s')"
  shows "\<exists>c. check_dpop_proof (en_libs E) (en_jose E) now p (hr_method r) url (Some raw) = Inr (dv_jkt v, c)"
  using assms by (auto simp: send_dpop_for_def validate_dpop_proof_def split: prod.splits sum.splits)

lemma introspection_proof_ok:
  assumes "introspection_proof E now r raw claims s = (Inr True, s')"
    and "json_str (Option.bind claims cm_cnf) ''jkt'' = Some jkt"
  shows "proves_key E now r raw jkt"
proof -
  obtain h where h: "hr_header r ''DPoP'' = Some h"
    using assms by (auto simp: introspection_proof_def ret_def split: option.splits)
  obtain p url v where p: "to_str h = Some p" "build_request_url_bounded (hr_scheme r) (hr_host r) (hr_path r) = Inr url"
      "\<exists>s1. send_dpop_for E now r url p raw s = (Inr v, s1)" "dv_jkt v = jkt"
    using assms h
    by (auto simp: introspection_proof_def andThen_def ret_def bindS_def ok_or_def split: option.splits sum.splits prod.splits)
  moreover have "h = Text p" using p(1) by (cases h) auto
  ultimately show ?thesis using h send_dpop_for_ok unfolding proves_key_def by blast
qed

text \<open>What an answer may tell about whom.\<close>
definition caller_view :: "env \<Rightarrow> web \<Rightarrow> http_request \<Rightarrow> string option \<Rightarrow> token \<Rightarrow> introspection_response \<Rightarrow> bool" where
  "caller_view E W r form_secret t n =
     ((wb_public_introspection W \<and> nr_sub n = None \<and> nr_username n = None \<and> nr_act n = None) \<or>
      (\<exists>c. presents_secret E r form_secret c \<and> cl_client_id c = tk_client_id t))"

lemma introspect_stored_active:
  assumes "introspect_stored E W now r caller raw t s = (Inr (PlainAnswer n), s')" "nr_active n"
    and "case caller of None \<Rightarrow> wb_public_introspection W | Some c \<Rightarrow> presents_secret E r fsec c"
  shows "caller_view E W r fsec t n \<and> nr_client_id n = Some (tk_client_id t) \<and> nr_scope n = Some (tk_scope t) \<and>
    (\<forall>jkt. json_str (Option.bind (token_claims E W now t) cm_cnf) ''jkt'' = Some jkt \<longrightarrow> proves_key E now r raw jkt)"
proof -
  let ?c = "token_claims E W now t"
  have own: "\<And>c. caller = Some c \<Longrightarrow> cl_client_id c = tk_client_id t"
    using assms(1,2) by (auto simp: introspect_stored_def ret_def inactive_introspection_response_def split: if_splits)
  then obtain s1 where "introspection_proof E now r raw ?c s = (Inr True, s1)"
      "introspection_reply_of E W now r caller (introspection_of E now caller ?c t) = Inr (PlainAnswer n)"
    using assms(1,2)
    by (auto simp: introspect_stored_def ret_def andThen_def bindS_def Let_def inactive_introspection_response_def
        split: if_splits option.splits prod.splits sum.splits)
  moreover from this(2) have "n = introspection_of E now caller ?c t"
    by (auto simp: introspection_reply_of_def map_sum_Inr split: if_splits prod.splits)
  ultimately show ?thesis
    using own assms(3) introspection_proof_ok
    by (cases caller) (auto simp: caller_view_def introspection_of_def Let_def)
qed


section \<open>Revocation\<close>

lemma send_revoke_effect:
  assumes "send_revoke E key raw s = (x, s')"
  shows "revoke_token_async raw (sv_db s) = (x, sv_db s')"
    "sv_shards s' = (sv_shards s)[shard_index E key s := invalidate_cached_token (normalize_token_key raw) (shard E key s)]"
  using assms by (auto simp: send_revoke_def revoke_token_handler_def Let_def split: prod.splits)

lemma revoke_token_async_kills:
  assumes "revoke_token_async raw d = (x, d')" "get_token_by_access_token (normalize_token_key raw) d' = Some t"
  shows "tk_revoked t"
proof -
  let ?d1 = "snd (revoke_token (normalize_token_key raw) d)"
  have "\<And>t. get_token_by_access_token (normalize_token_key raw) ?d1 = Some t \<Longrightarrow> tk_revoked t"
    using sql_tokens.by_access_key by (fastforce simp: sql_tokens.revoke_by_access)
  moreover have "d' = ?d1 \<or> (\<exists>f. d' = snd (revoke_token_family f ?d1))"
    using assms(1) by (auto simp: revoke_token_async_def Let_def revoke_token_def split: option.splits)
  ultimately show ?thesis using assms(2) by (auto simp: sql_tokens.family_by_access split: if_splits)
qed

lemma revoke_cases:
  assumes "revoke E now r raw fid fsec s = (x, s')"
  obtains e where "x = Inl e" "sv_db s' = sv_db s" "sv_shards s' = sv_shards s"
  | c s1 where "x = Inr ()" "presents_secret E r fsec c" "sv_db s1 = sv_db s" "sv_shards s1 = sv_shards s"
      "s' = snd (send_revoke E raw raw s1)"
      "\<forall>t. opt_or (lookup_token raw (sv_db s)) (lookup_refresh_token raw (sv_db s)) = Some t \<longrightarrow> tk_client_id t = cl_client_id c"
proof -
  obtain a s1 where a: "authenticate_client E now r fid fsec True s = (a, s1)" by (metis surj_pair)
  note keep = authenticate_client_keeps [OF a]
  show ?thesis
  proof (cases a)
    case (Inl e)
    then show ?thesis using assms a keep that(1) [of e] by (simp add: revoke_def andThen_def bindS_def)
  next
    case (Inr caller)
    then obtain c where c: "caller = Some c" "presents_secret E r fsec c"
      using authenticate_client_ok [OF a [unfolded Inr]] by (cases caller) auto
    have ok: "fst (send_revoke E raw raw s1) = Inr ()"
      using send_revoke_effect(1) revoke_token_async_ok [of raw "sv_db s1"] by (metis fst_conv surj_pair)
    have run: "(x, s') = (case opt_or (lookup_token raw (sv_db s)) (lookup_refresh_token raw (sv_db s)) of
        Some t \<Rightarrow> if tk_client_id t = cl_client_id c then send_revoke E raw raw s1
                  else (Inl (invalid_request ''Token was not issued to this client''), s1)
      | None \<Rightarrow> (Inr (), snd (send_revoke E raw raw s1)))"
      using assms a Inr c(1) keep by (simp add: revoke_def andThen_def bindS_def split: option.splits if_splits)
    show ?thesis
    proof (cases "\<exists>t. opt_or (lookup_token raw (sv_db s)) (lookup_refresh_token raw (sv_db s)) = Some t \<and> tk_client_id t \<noteq> cl_client_id c")
      case True
      then show ?thesis using run keep that(1) by auto
    next
      case False
      then have "x = Inr ()" "s' = snd (send_revoke E raw raw s1)"
        using run ok by (auto split: option.splits if_splits) (metis fst_conv snd_conv)+
      then show ?thesis using that(2) [of c s1] c(2) keep False by blast
    qed
  qed
qed


section \<open>Runs\<close>

text \<open>A client asks, with its secret in the form, about an opaque token of its own that is bound to a
  DPoP key; the request carries no proof.\<close>

definition intro_env :: env where
  "intro_env = demo_env\<lparr>en_libs := demo_libs1\<lparr>json_from_str := \<lambda>_. Some (JObj [(''jkt'', JStr ''k1'')])\<rparr>\<rparr>"

definition intro_web :: web where
  "intro_web = \<lparr>wb_jwt_secret = ''secret'', wb_stateless = False, wb_opaque = True, wb_public_introspection = False, wb_code_ttl = 600,
     wl_decode_claims = (\<lambda>_ _ _. None), wl_percent_encode = id, wl_append_pairs = (\<lambda>u ps. url_text u @ concat (map (\<lambda>(k, v). k @ v) ps)),
     wl_b64_url_pad = (\<lambda>_. None), wl_decode_request = (\<lambda>_ _ _ _. Inl []), wl_hash_parses = (\<lambda>_. True), wl_password_ok = (\<lambda>p h. p = h)\<rparr>"

definition intro_token :: token where
  "intro_token = (token_new 0 ''r0'' ''tok'' None ''svc'' (Some ''u'') ''read'' 3600 None)\<lparr>tk_cnf := Some ''jkt''\<rparr>"

definition intro_server :: server where
  "intro_server = (service_server True)\<lparr>sv_db := db_empty\<lparr>db_clients := [demo_svc], db_tokens := [intro_token]\<rparr>\<rparr>"

definition intro_request :: http_request where
  "intro_request = \<lparr>hr_method = ''POST'', hr_scheme = ''https'', hr_host = ''as'', hr_path = ''/oauth/introspect'', hr_query = [],
     hr_header = (\<lambda>_. None), hr_body = []\<rparr>"

definition intro_known :: server where
  "intro_known = intro_server\<lparr>sv_clients := insert_cached_client 5 demo_svc \<lparr>cla_cache = []\<rparr>\<rparr>"

lemmas intro_defs = intro_env_def intro_web_def intro_server_def intro_request_def intro_known_def service_server_def

lemma intro_caller:
  "authenticate_client intro_env 5 intro_request (Some ''svc'') (Some ''s3cret'') True intro_server = (Inr (Some demo_svc), intro_known)"
  by (simp add: authenticate_client_def intro_request_def parse_client_basic_auth_def reject_multiple_client_auth_methods_def mismatch_def
      opt_or_def andThen_def ret_def bindS_def ensure_def send_get_client_def get_client_handler_def get_cached_client_def lru_get_def
      intro_server_def service_server_def get_client_def client_secret_matches_def intro_known_def)

lemma intro_key: "normalize_token_key ''tok'' = ''tok''"
  by (simp add: normalize_token_key_def trim_def trim_start_def trim_end_def is_ws_def strip_prefix_opt_def Let_def)

lemma intro_lookup: "get_token_by_access_token ''tok'' (sv_db intro_server) = Some intro_token"
  by (simp add: get_token_by_access_token_def intro_server_def intro_token_def token_new_def)

lemma intro_validate: "\<exists>s'. send_validate intro_env 5 ''tok'' intro_known = (Inr intro_token, s')"
proof -
  have "shard intro_env ''tok'' intro_known = demo_actor"
    by (simp add: shard_def shard_index_def route_def intro_known_def intro_server_def service_server_def)
  then have "validate_token_sync 5 ''tok'' (shard intro_env ''tok'' intro_known) = (None, demo_actor)"
    by (simp add: validate_token_sync_def intro_key lru_get_def demo_actor_def lru_pop_def)
  moreover have "token_is_valid 5 intro_token"
    by (simp add: intro_token_def token_new_def token_is_valid_def token_is_expired_def secs_def)
  moreover have "sv_db intro_known = sv_db intro_server" by (simp add: intro_known_def)
  ultimately show ?thesis
    by (simp add: send_validate_def validate_token_async_def intro_key intro_lookup)
qed

lemma intro_run:
  "\<exists>n s'. introspect intro_env intro_web 5 intro_request ''tok'' (Some ''svc'') (Some ''s3cret'') intro_server = (Inr (PlainAnswer n), s') \<and>
     nr_active n \<and> nr_sub n = Some ''u'' \<and> nr_cnf n = Some (JObj [(''jkt'', JStr ''k1'')])"
proof -
  obtain s1 where v: "send_validate intro_env 5 ''tok'' intro_known = (Inr intro_token, s1)" using intro_validate by blast
  have c: "token_claims intro_env intro_web 5 intro_token = None"
    by (simp add: token_claims_def intro_token_def token_new_def decode_unverified_def opt_or_def intro_web_def)
  have "introspect_stored intro_env intro_web 5 intro_request (Some demo_svc) ''tok'' intro_token s1 =
      (Inr (PlainAnswer (introspection_of intro_env 5 (Some demo_svc) None intro_token)), s1)"
    by (simp add: introspect_stored_def c introspection_proof_def andThen_def ret_def bindS_def json_str_def introspection_reply_of_def
        header_text_def intro_request_def str_contains_def)
      (simp add: intro_token_def token_new_def)
  then have "introspect intro_env intro_web 5 intro_request ''tok'' (Some ''svc'') (Some ''s3cret'') intro_server =
      (Inr (PlainAnswer (introspection_of intro_env 5 (Some demo_svc) None intro_token)), s1)"
    using v intro_caller by (simp add: introspect_def andThen_def bindS_def intro_web_def intro_env_def demo_agent_def)
  then show ?thesis
    by (simp add: introspection_of_def Let_def)
      (simp add: intro_token_def token_new_def token_is_valid_def token_is_expired_def secs_def opt_or_def token_cnf_value_def intro_env_def)
qed



text \<open>An opaque token bound to a DPoP key is reported active without any proof of the key: the check reads
  the binding from the claims of a JWT only, while the answer shows the binding of the stored row.\<close>
theorem opaque_bound_token_unproven:
  "\<exists>n s'. introspect intro_env intro_web 5 intro_request ''tok'' (Some ''svc'') (Some ''s3cret'') intro_server = (Inr (PlainAnswer n), s') \<and>
     hr_header intro_request ''DPoP'' = None \<and> nr_active n \<and> json_str (nr_cnf n) ''jkt'' = Some ''k1''"
proof -
  have "hr_header intro_request ''DPoP'' = None" by (simp add: intro_request_def)
  then show ?thesis using intro_run by (fastforce simp: json_str_def)
qed

end
