(* ===== verification/Browser_Login.thy ===== *)
theory Browser_Login
  imports Introspection_Laws
begin

text \<open>
  How a browser gets a session and what stands in front of the handlers: HTML escaping and the login
  form (\<open>handlers/login.rs\<close>, \<open>html_escape_attr\<close> of \<open>handlers/oauth.rs\<close>), the denylist
  (\<open>middleware/denylist.rs\<close>) and the guard of the admin area (\<open>middleware/admin_guard.rs\<close>).  Rotating
  the session identifier leaves the values of the session as they are.
\<close>

section \<open>HTML escaping\<close>

text \<open>\<open>str::replace\<close> of one character.\<close>
definition replace_char :: "char \<Rightarrow> string \<Rightarrow> string \<Rightarrow> string" where
  "replace_char c r s = concat (map (\<lambda>x. if x = c then r else [x]) s)"

definition html_escape :: "string \<Rightarrow> string" where
  "html_escape s = replace_char (CHR 0x27) ''&#x27;'' (replace_char (CHR 0x22) ''&quot;''
     (replace_char (CHR ''>'') ''&gt;'' (replace_char (CHR ''<'') ''&lt;'' (replace_char (CHR ''&'') ''&amp;'' s))))"

definition html_escape_attr :: "string \<Rightarrow> string" where
  "html_escape_attr s = replace_char (CHR ''>'') ''&gt;'' (replace_char (CHR ''<'') ''&lt;''
     (replace_char (CHR 0x22) ''&quot;'' (replace_char (CHR ''&'') ''&amp;'' s)))"

text \<open>The reference: one pass, character by character, and its inverse, as a browser reads it.\<close>

definition entity :: "char \<Rightarrow> string" where
  "entity c = (if c = CHR ''&'' then ''&amp;'' else if c = CHR ''<'' then ''&lt;'' else if c = CHR ''>'' then ''&gt;''
     else if c = CHR 0x22 then ''&quot;'' else if c = CHR 0x27 then ''&#x27;'' else [c])"

fun html_unescape :: "string \<Rightarrow> string" where
  "html_unescape [] = []"
| "html_unescape (c # s) =
     (if c = CHR ''&'' then
        (if take 4 s = ''amp;'' then CHR ''&'' # html_unescape (drop 4 s)
         else if take 3 s = ''lt;'' then CHR ''<'' # html_unescape (drop 3 s)
         else if take 3 s = ''gt;'' then CHR ''>'' # html_unescape (drop 3 s)
         else if take 5 s = ''quot;'' then CHR 0x22 # html_unescape (drop 5 s)
         else if take 5 s = ''#x27;'' then CHR 0x27 # html_unescape (drop 5 s)
         else c # html_unescape s)
      else c # html_unescape s)"

lemma replace_char_Nil [simp]: "replace_char c r [] = []"
  and replace_char_Cons [simp]: "replace_char c r (x # s) = (if x = c then r else [x]) @ replace_char c r s"
  and replace_char_append [simp]: "replace_char c r (s @ t) = replace_char c r s @ replace_char c r t"
  by (simp_all add: replace_char_def)

lemma html_escape_entities: "html_escape s = concat (map entity s)"
  by (induction s) (auto simp: html_escape_def entity_def)

lemma html_unescape_entity: "html_unescape (entity c @ s) = c # html_unescape s"
  by (auto simp: entity_def)

text \<open>Escaping for HTML is correct: no character that could end an attribute or open a tag is left, every
  ampersand starts an entity, so that a browser reads back exactly the text that was escaped.\<close>
theorem html_escape_safe:
  "set (html_escape s) \<inter> {CHR ''<'', CHR ''>'', CHR 0x22, CHR 0x27} = {} \<and> html_unescape (html_escape s) = s"
proof (induction s)
  case (Cons c s)
  have "html_escape (c # s) = entity c @ html_escape s" by (simp add: html_escape_entities)
  moreover have "set (entity c) \<inter> {CHR ''<'', CHR ''>'', CHR 0x22, CHR 0x27} = {}" by (auto simp: entity_def)
  ultimately show ?case using Cons by (auto simp: html_unescape_entity)
qed (simp add: html_escape_def)

lemma html_escape_attr_safe: "set (html_escape_attr s) \<inter> {CHR ''<'', CHR ''>'', CHR 0x22} = {}"
  by (induction s) (auto simp: html_escape_attr_def)

section \<open>The denylist\<close>

text \<open>The middleware lets a request through unless its address is denylisted.\<close>
definition denylist_call :: "instant \<Rightarrow> string option \<Rightarrow> db \<Rightarrow> unit result" where
  "denylist_call now realip d =
     (let ip = unwrap_or realip [] in
      if ip \<noteq> [] \<and> find_denylist_entry now ''ip'' ip d \<noteq> None
      then Inl (error_new ''access_denied'' (Some ''request source is denylisted''))
      else Inr ())"

definition check_subject_denylisted :: "instant \<Rightarrow> string \<Rightarrow> string \<Rightarrow> db \<Rightarrow> string option" where
  "check_subject_denylisted now kind v d =
     (if v = [] then None else map_option dl_reason (find_denylist_entry now kind v d))"

section \<open>The guard of the admin area\<close>

text \<open>The operator's variables: the admin addresses and the clients trusted with the admin scope.\<close>
record admin_vars =
  av_emails :: "string option"
  av_client_ids :: "string option"

definition is_admin_email :: "admin_vars \<Rightarrow> string \<Rightarrow> bool" where
  "is_admin_email V email =
     (case av_emails V of
        Some l \<Rightarrow> list_ex (\<lambda>e. to_lowercase (trim e) = to_lowercase email) (split_char (CHR '','') l)
      | None \<Rightarrow> False)"

definition client_id_in_allowlist :: "string \<Rightarrow> string \<Rightarrow> bool" where
  "client_id_in_allowlist client_id l = list_ex (\<lambda>e. e = client_id) (filter (\<lambda>e. e \<noteq> []) (map trim (split_char (CHR '','') l)))"

definition is_admin_client :: "admin_vars \<Rightarrow> string \<Rightarrow> bool" where
  "is_admin_client V client_id = (case av_client_ids V of Some l \<Rightarrow> client_id_in_allowlist client_id l | None \<Rightarrow> False)"

datatype guard_outcome = Passed | Refused nat string | Redirected string

definition admin_session :: "admin_vars \<Rightarrow> string \<Rightarrow> session \<Rightarrow> guard_outcome" where
  "admin_session V path z =
     (if session_str z ''user_id'' = None then Redirected ''/auth/login?error=login_required''
      else if unwrap_or (session_str z ''role'') ''user'' = ''admin'' \<or> is_admin_email V (unwrap_or (session_str z ''email'') []) then Passed
      else if starts_with path ''/admin/api/'' then Refused 403 ''insufficient_permissions''
      else Redirected ''/error?error=forbidden&error_description=Admin+access+required&error_code=403'')"

definition admin_guard :: "admin_vars \<Rightarrow> instant \<Rightarrow> http_request \<Rightarrow> session \<Rightarrow> db \<Rightarrow> guard_outcome" where
  "admin_guard V now r z d =
     (case Option.bind (header_text r ''Authorization'') (\<lambda>a. strip_prefix_opt a ''Bearer '') of
        Some bearer \<Rightarrow>
          (case get_token_by_access_token bearer d of
             Some t \<Rightarrow>
               if token_is_valid now t then
                 (if has_scope (tk_scope t) ''admin'' \<and> is_admin_client V (tk_client_id t) then Passed
                  else Refused 403 ''insufficient_scope'')
               else Refused 401 ''invalid_token''
           | None \<Rightarrow> Refused 401 ''invalid_token'')
      | None \<Rightarrow> admin_session V (hr_path r) z)"

lemma is_admin_client_iff:
  "is_admin_client V c \<longleftrightarrow> (\<exists>l e. av_client_ids V = Some l \<and> e \<in> set (split_char (CHR '','') l) \<and> trim e = c \<and> c \<noteq> [])"
  by (cases "av_client_ids V") (auto simp: is_admin_client_def client_id_in_allowlist_def list_ex_iff image_iff)

lemma admin_session_iff:
  "admin_session V path z = Passed \<longleftrightarrow> session_str z ''user_id'' \<noteq> None \<and>
     (session_str z ''role'' = Some ''admin'' \<or> is_admin_email V (unwrap_or (session_str z ''email'') []))"
  by (cases "session_str z ''role''") (auto simp: admin_session_def unwrap_or_def)

text \<open>The admin area opens to exactly two kinds of callers: a bearer of a stored, unexpired, unrevoked
  token with the admin scope, issued to a client the operator lists by name; or, where the request
  carries no bearer token, a logged-in session whose role is admin or whose address the operator
  lists.  A presented token is never overruled by the session.\<close>
theorem admin_guard_exact:
  "admin_guard V now r z d = Passed \<longleftrightarrow>
    (case Option.bind (header_text r ''Authorization'') (\<lambda>a. strip_prefix_opt a ''Bearer '') of
       Some bearer \<Rightarrow> (\<exists>t. get_token_by_access_token bearer d = Some t \<and> \<not> tk_revoked t \<and> now \<le> tk_expires_at t \<and>
         ''admin'' \<in> set (split_whitespace (tk_scope t)) \<and>
         (\<exists>l e. av_client_ids V = Some l \<and> e \<in> set (split_char (CHR '','') l) \<and> trim e = tk_client_id t \<and> tk_client_id t \<noteq> []))
     | None \<Rightarrow> session_str z ''user_id'' \<noteq> None \<and>
         (session_str z ''role'' = Some ''admin'' \<or> is_admin_email V (unwrap_or (session_str z ''email'') [])))"
  by (auto simp: admin_guard_def admin_session_iff is_admin_client_iff token_is_valid_def token_is_expired_def has_scope_def
      split: option.split)

text \<open>An empty entry in the list of admin addresses makes every session without an address an admin
  session; the list of clients ignores empty entries.\<close>
lemma empty_admin_entry:
  assumes "av_emails V = Some l" "[] \<in> set (map trim (split_char (CHR '','') l))"
    and "session_str z ''user_id'' = Some u" "session_str z ''email'' = None"
  shows "admin_session V path z = Passed"
proof -
  obtain e where "e \<in> set (split_char (CHR '','') l)" "trim e = []" using assms(2) by (auto simp: image_iff)
  then have "is_admin_email V []" using assms(1) by (auto simp: is_admin_email_def list_ex_iff intro!: bexI [of _ e])
  then show ?thesis using assms(3,4) by (simp add: admin_session_def unwrap_or_def)
qed

section \<open>Login\<close>

definition return_to_max_age_secs :: int where
  "return_to_max_age_secs = 600"

definition login_client_ip :: "bool \<Rightarrow> http_request \<Rightarrow> string option \<Rightarrow> string" where
  "login_client_ip trust r peer =
     (case (trust, header_text r ''X-Forwarded-For'') of
        (True, Some v) \<Rightarrow> trim (hd (split_char (CHR '','') v))
      | _ \<Rightarrow> unwrap_or peer ''unknown'')"

definition login_retry :: "rate_limit_result \<Rightarrow> int" where
  "login_retry res = max (case rl_retry_after res of Some w \<Rightarrow> timestamp w | None \<Rightarrow> 60) 1"

text \<open>The bucket of the address, then, if that has room, the bucket of the user name.\<close>
definition login_check :: "instant \<Rightarrow> string \<Rightarrow> string \<Rightarrow> in_memory_limiter \<Rightarrow> (int + unit) \<times> in_memory_limiter" where
  "login_check now ip username l =
     (case im_check now now (''login:ip:'' @ ip) l of
        (a, l1) \<Rightarrow>
          if \<not> rl_allowed a then (Inl (login_retry a), l1)
          else (case im_check now now (''login:user:'' @ username) l1 of
                  (b, l2) \<Rightarrow> (if \<not> rl_allowed b then Inl (login_retry b) else Inr (), l2)))"

definition login_user :: "web \<Rightarrow> string \<Rightarrow> string \<Rightarrow> db \<Rightarrow> user option" where
  "login_user W username password d =
     (case get_user_by_username username d of
        Some u \<Rightarrow> if us_enabled u \<and> wl_hash_parses W (us_password_hash u) \<and> wl_password_ok W password (us_password_hash u)
                  then Some u else None
      | None \<Rightarrow> None)"

definition logged_in :: "instant \<Rightarrow> user \<Rightarrow> session \<Rightarrow> session" where
  "logged_in now u z = z(''user_id'' \<mapsto> JStr (us_id u), ''authenticated'' \<mapsto> JBool True, ''username'' \<mapsto> JStr (us_username u),
     ''email'' \<mapsto> JStr (us_email u), ''role'' \<mapsto> JStr (us_role u), ''auth_time'' \<mapsto> JInt (timestamp now))"

definition login_target :: "instant \<Rightarrow> session \<Rightarrow> string" where
  "login_target now z =
     (case (session_str z ''return_to'', session_int z ''return_to_ts'') of
        (Some u, Some ts) \<Rightarrow> if timestamp now - ts \<le> return_to_max_age_secs \<and> is_safe_redirect u then u else ''/profile''
      | _ \<Rightarrow> ''/profile'')"

text \<open>Every answer is a 303 redirect; a value under \<open>return_to\<close> that is not a string is an internal error.\<close>
definition login_submit ::
  "web \<Rightarrow> instant \<Rightarrow> string \<Rightarrow> string \<Rightarrow> string \<Rightarrow> in_memory_limiter option \<Rightarrow> session \<Rightarrow> db \<Rightarrow>
   string result \<times> in_memory_limiter option \<times> session" where
  "login_submit W now ip username password lim0 z d =
     (case (case lim0 of None \<Rightarrow> (Inr (), None) | Some l \<Rightarrow> apsnd Some (login_check now ip username l)) of
        (Inl _, lim1) \<Rightarrow> (Inr ''/auth/login?error=too_many_attempts'', lim1, z)
      | (Inr _, lim1) \<Rightarrow>
          (case login_user W username password d of
             None \<Rightarrow> (Inr ''/auth/login?error=invalid_credentials'', lim1, z)
           | Some u \<Rightarrow>
               (let z1 = logged_in now u z in
                if z1 ''return_to'' \<noteq> None \<and> session_str z1 ''return_to'' = None
                then (Inl (error_new ''server_error'' None), lim1, z1)
                else (Inr (login_target now z1), lim1,
                      z1(''return_to'' := None, ''return_to_ts'' := None, ''client_display'' := None,
                         ''requested_actor_display'' := None)))))"

lemma login_target_safe: "login_target now z = ''/profile'' \<or> is_safe_redirect (login_target now z)"
  by (auto simp: login_target_def split: option.splits)

text \<open>C30. Login is sound.  Whatever the form holds, the answer redirects to a page of this server; a session
  that gains or changes its user belongs afterwards to an enabled user of the submitted name whose
  stored hash verified against the submitted password, after both rate-limit buckets had room; and a
  request saved before the login is resumed only within ten minutes.\<close>
theorem login_sound:
  assumes "login_submit W now ip username password lim0 z d = (x, lim1, z')"
  shows "(\<forall>loc. x = Inr loc \<longrightarrow> is_safe_redirect loc) \<and>
    (z' ''user_id'' \<noteq> z ''user_id'' \<longrightarrow>
      (\<exists>u. get_user_by_username username d = Some u \<and> us_enabled u \<and> wl_password_ok W password (us_password_hash u) \<and>
         session_str z' ''user_id'' = Some (us_id u) \<and> session_str z' ''role'' = Some (us_role u) \<and>
         session_int z' ''auth_time'' = as_i64_value (JInt (timestamp now))) \<and>
      (\<forall>l. lim0 = Some l \<longrightarrow> fst (login_check now ip username l) = Inr ())) \<and>
    (\<forall>loc. x = Inr loc \<and> loc \<notin> {''/profile'', ''/auth/login?error=too_many_attempts'', ''/auth/login?error=invalid_credentials''} \<longrightarrow>
      session_str z ''return_to'' = Some loc \<and>
      (\<exists>ts. session_int z ''return_to_ts'' = Some ts \<and> timestamp now \<le> ts + 600))"
proof -
  have const: "is_safe_redirect ''/profile''" "is_safe_redirect ''/auth/login?error=too_many_attempts''"
      "is_safe_redirect ''/auth/login?error=invalid_credentials''"
    by code_simp+
  have keep: "session_str (logged_in now u z) ''return_to'' = session_str z ''return_to''"
      "session_int (logged_in now u z) ''return_to_ts'' = session_int z ''return_to_ts''" for u
    by (simp_all add: logged_in_def session_str_def session_int_def)
  have tgt: "login_target now (logged_in now u z) = login_target now z" for u
    by (simp add: login_target_def keep)
  have fresh: "session_str z ''return_to'' = Some (login_target now z) \<and>
      (\<exists>ts. session_int z ''return_to_ts'' = Some ts \<and> timestamp now \<le> ts + 600)" if "login_target now z \<noteq> ''/profile''"
    using that by (auto simp: login_target_def return_to_max_age_secs_def split: option.splits if_splits)
  show ?thesis
  proof (cases "case lim0 of None \<Rightarrow> (Inr (), None) | Some l \<Rightarrow> apsnd Some (login_check now ip username l)")
    case (Pair a lim2)
    show ?thesis
    proof (cases a)
      case (Inl w)
      then show ?thesis using assms Pair const by (auto simp: login_submit_def)
    next
      case (Inr w)
      have lims: "\<forall>l. lim0 = Some l \<longrightarrow> fst (login_check now ip username l) = Inr ()" using Pair Inr by (auto simp: apsnd_def map_prod_def split: prod.splits)
      show ?thesis
      proof (cases "login_user W username password d")
        case None
        then show ?thesis using assms Pair Inr const by (auto simp: login_submit_def)
      next
        case (Some u)
        then have u: "get_user_by_username username d = Some u" "us_enabled u" "wl_password_ok W password (us_password_hash u)"
          by (auto simp: login_user_def split: option.splits if_splits)
        have zs: "z' = logged_in now u z \<or> z' = (logged_in now u z)(''return_to'' := None, ''return_to_ts'' := None,
            ''client_display'' := None, ''requested_actor_display'' := None)"
          using assms Pair Inr Some by (simp add: login_submit_def Let_def split: if_splits)
        have z': "session_str z' ''user_id'' = Some (us_id u)" "session_str z' ''role'' = Some (us_role u)"
            "session_int z' ''auth_time'' = as_i64_value (JInt (timestamp now))"
          using zs by (elim disjE; simp add: logged_in_def session_str_def session_int_def)+
        have loc: "loc = login_target now z" if "x = Inr loc" for loc
          using that assms Pair Inr Some tgt by (auto simp: login_submit_def Let_def split: if_splits)
        have safe: "is_safe_redirect (login_target now z)" using login_target_safe [of now z] const(1) by auto
        have "\<exists>u. get_user_by_username username d = Some u \<and> us_enabled u \<and> wl_password_ok W password (us_password_hash u) \<and>
            session_str z' ''user_id'' = Some (us_id u) \<and> session_str z' ''role'' = Some (us_role u) \<and>
            session_int z' ''auth_time'' = as_i64_value (JInt (timestamp now))"
          using u z' by blast
        then show ?thesis using lims by (intro conjI allI impI) (use loc safe fresh in auto)
      qed
    qed
  qed
qed

lemma login_sound_witness:
  "\<exists>x z'. login_submit intro_web 5 ''ip'' ''alice'' ''h'' None Map.empty (grant_db True) = (x, None, z') \<and>
     session_str z' ''user_id'' = Some ''u'' \<and> x = Inr ''/profile''"
proof -
  have g: "get_user_by_username ''alice'' (grant_db True) = Some (user_new 0 ''u'' ''alice'' ''h'' ''e'')"
    by (simp add: get_user_by_username_def grant_db_def user_new_def)
  obtain x lim1 z' where h: "login_submit intro_web 5 ''ip'' ''alice'' ''h'' None Map.empty (grant_db True) = (x, lim1, z')"
    by (metis surj_pair)
  then have x: "x = Inr ''/profile''" "lim1 = None" "z' ''user_id'' = Some (JStr ''u'')"
    using g by (auto simp: login_submit_def login_user_def intro_web_def user_new_def Let_def logged_in_def login_target_def session_str_def
        split: if_splits option.splits)
  with login_sound [OF h] g show ?thesis using h by (auto simp: user_new_def)
qed

end
