(* ===== verification/Device_Flow.thy ===== *)
theory Device_Flow
  imports Browser_Login
begin

text \<open>
  The device flow (\<open>handlers/device.rs\<close>): the device asks for a code pair, a person with a browser
  session approves or denies it by the user code, and the device redeems it at the token endpoint.
  The handlers are related to an abstract machine, over which every run is examined: a token is
  granted at most once per code, to the person whose decision came last before it.
\<close>

section \<open>Codes\<close>

definition device_expires_in_seconds :: int where
  "device_expires_in_seconds = 600"

definition device_poll_interval_seconds :: int where
  "device_poll_interval_seconds = 5"

definition user_code_alphabet :: string where
  "user_code_alphabet = ''ABCDEFGHJKLMNPQRSTUVWXYZ23456789''"

definition device_code_alphabet :: string where
  "device_code_alphabet = ''abcdefghijklmnopqrstuvwxyzABCDEFGHIJKLMNOPQRSTUVWXYZ0123456789''"

text \<open>\<open>draws\<close> are the indices drawn, 8 for a user code and 48 for a device code; a dash follows the fourth.\<close>
definition generate_user_code :: "nat list \<Rightarrow> string" where
  "generate_user_code draws = (let cs = map (\<lambda>i. user_code_alphabet ! i) draws in take 4 cs @ ''-'' @ drop 4 cs)"

definition generate_device_code :: "nat list \<Rightarrow> string" where
  "generate_device_code draws = map (\<lambda>i. device_code_alphabet ! i) draws"

section \<open>Handlers\<close>

record device_response =
  dp_device_code :: string
  dp_user_code :: string
  dp_verification_uri :: string
  dp_verification_uri_complete :: string
  dp_expires_in :: int
  dp_interval :: int

definition device_client_id :: "string option \<Rightarrow> string option \<Rightarrow> string result" where
  "device_client_id body basic =
     (case (body, basic) of
        (Some b, Some h) \<Rightarrow> if b \<noteq> h then Inl (invalid_request ''client_id mismatch between body and Basic auth'') else Inr b
      | (Some b, None) \<Rightarrow> Inr b
      | (None, Some h) \<Rightarrow> Inr h
      | (None, None) \<Rightarrow> Inl (invalid_client ''Missing client_id''))"

definition device_response_of :: "oidc_config \<Rightarrow> string \<Rightarrow> string \<Rightarrow> device_response" where
  "device_response_of oc device_code user_code =
     (let uri = rev (dropWhile (\<lambda>c. c = CHR ''/'') (rev (oc_issuer oc))) @ ''/oauth/device/verify'' in
      \<lparr>dp_device_code = device_code, dp_user_code = user_code, dp_verification_uri = uri,
       dp_verification_uri_complete = uri @ ''?user_code='' @ user_code,
       dp_expires_in = device_expires_in_seconds, dp_interval = device_poll_interval_seconds\<rparr>)"

definition device_authorization_endpoint ::
  "env \<Rightarrow> instant \<Rightarrow> string \<Rightarrow> nat list \<Rightarrow> nat list \<Rightarrow> http_request \<Rightarrow> string option \<Rightarrow> string option \<Rightarrow> string option \<Rightarrow>
   device_response act" where
  "device_authorization_endpoint E now uuid code_draws user_draws r form_client_id form_client_secret form_scope =
     andThen (ret (parse_client_basic_auth (en_http E) (hr_header r ''Authorization''))) (\<lambda>basic.
     andThen (ret (device_client_id form_client_id (map_option fst basic))) (\<lambda>client_id.
     andThen (ret (ok_or (opt_or form_client_secret (map_option snd basic)) (invalid_client ''Missing client_secret''))) (\<lambda>client_secret.
     andThen (send_get_client now client_id) (\<lambda>c.
     andThen (ret (ensure (client_secret_matches c client_secret) (invalid_client ''Invalid client_secret''))) (\<lambda>_.
     andThen (ret (ensure (supports_grant_type (en_libs E) c device_code_grant_type \<or> supports_grant_type (en_libs E) c ''device_code'')
                (unauthorized_client ''Client is not allowed to use device_code grant''))) (\<lambda>_.
     (let device_code = generate_device_code code_draws; user_code = generate_user_code user_draws in
      andThen (run_db (save_device_authorization
                (device_new now uuid device_code user_code client_id (unwrap_or form_scope ''read'')
                   device_expires_in_seconds device_poll_interval_seconds))) (\<lambda>_.
        ret (Inr (device_response_of (en_oidc E) device_code user_code))))))))))"

text \<open>The page with the code filled in; a newline is \<open>CHR 0x0A\<close>.\<close>
definition render_device_verify_page :: "string \<Rightarrow> string" where \<open>
  render_device_verify_page user_code =
    concat (map (\<lambda>l. l @ [CHR 0x0A])
     [''<!DOCTYPE html>'', ''<html>'', ''<head><title>Device Verification</title></head>'', ''<body>'',
      ''  <h1>Authorize Device</h1>'', ''  <p>Enter the code shown on your device.</p>'',
      ''  <form method="post" action="/oauth/device/verify">'', ''    <label for="user_code">User code</label>'']) @
    ''    <input id="user_code" name="user_code" value="'' @ html_escape user_code @ ''" required />'' @ [CHR 0x0A] @
    concat (map (\<lambda>l. l @ [CHR 0x0A])
     [''    <button type="submit" name="action" value="approve">Approve</button>'',
      ''    <button type="submit" name="action" value="deny">Deny</button>'', ''  </form>'', ''</body>'']) @ ''</html>''\<close>

datatype verify_reply = VerifyLogin | VerifyPage string

definition verify_page :: "string option \<Rightarrow> session \<Rightarrow> verify_reply \<times> session" where
  "verify_page user_code z =
     (case session_str z ''user_id'' of
        None \<Rightarrow>
          (VerifyLogin, z(''return_to'' \<mapsto> JStr (''/oauth/device/verify'' @
             (case user_code of Some c \<Rightarrow> ''?user_code='' @ c | None \<Rightarrow> []))))
      | Some _ \<Rightarrow> (VerifyPage (render_device_verify_page (unwrap_or user_code [])), z))"

text \<open>The result tells whether the device was approved; any action but \<open>deny\<close> approves.\<close>
definition verify_submit :: "instant \<Rightarrow> string \<Rightarrow> string option \<Rightarrow> session \<Rightarrow> bool act" where
  "verify_submit now user_code action z =
     andThen (ret (ok_or (session_str z ''user_id'') (access_denied ''Authentication required''))) (\<lambda>user_id.
     andThen (\<lambda>s. (ok_or (get_device_authorization_by_user_code user_code (sv_db s)) (invalid_request ''Unknown user_code''), s)) (\<lambda>v.
     andThen (ret (ensure (\<not> device_is_expired now v) (invalid_request ''user_code expired''))) (\<lambda>_.
     andThen (ret (ensure (\<not> da_used v) (invalid_request ''user_code already used''))) (\<lambda>_.
     if unwrap_or action ''approve'' = ''deny''
     then andThen (run_db (deny_device_authorization user_code)) (\<lambda>_. ret (Inr False))
     else andThen (run_db (approve_device_authorization user_code user_id)) (\<lambda>_. ret (Inr True))))))"

section \<open>The abstract machine\<close>

datatype device_phase = DevPending | DevApproved "string option" | DevDenied | DevUsed

datatype device_event = DevOpened string | DevDecided string string bool | DevGranted string "string option" | DevOther

inductive device_step :: "(string \<rightharpoonup> device_phase) \<Rightarrow> device_event \<Rightarrow> (string \<rightharpoonup> device_phase) \<Rightarrow> bool" where
  opened: "m i = None \<Longrightarrow> device_step m (DevOpened i) (m(i \<mapsto> DevPending))"
| decided: "m i = Some p \<Longrightarrow> p \<noteq> DevUsed \<Longrightarrow>
    device_step m (DevDecided i u b) (m(i \<mapsto> (if b then DevApproved (Some u) else DevDenied)))"
| granted: "m i = Some (DevApproved u) \<Longrightarrow> device_step m (DevGranted i u) (m(i \<mapsto> DevUsed))"
| other: "device_step m DevOther m"

inductive_cases granted_device_step: "device_step m (DevGranted i u) m'"

inductive device_run :: "device_event list \<Rightarrow> (string \<rightharpoonup> device_phase) \<Rightarrow> bool" where
  start: "device_run [] Map.empty"
| step: "device_run evs m \<Longrightarrow> device_step m ev m' \<Longrightarrow> device_run (ev # evs) m'"

fun concerns :: "string \<Rightarrow> device_event \<Rightarrow> bool" where
  "concerns i (DevOpened j) = (i = j)"
| "concerns i (DevDecided j _ _) = (i = j)"
| "concerns i (DevGranted j _) = (i = j)"
| "concerns i DevOther = False"

fun is_decision :: "device_event \<Rightarrow> bool" where
  "is_decision (DevDecided _ _ _) = True"
| "is_decision _ = False"

text \<open>What a phase tells about the events of a code, the latest first: decisions on top of the opening.\<close>
lemma device_history:
  assumes "device_run evs m"
  shows "case m i of
      None \<Rightarrow> filter (concerns i) evs = []
    | Some DevPending \<Rightarrow> filter (concerns i) evs = [DevOpened i]
    | Some (DevApproved u) \<Rightarrow> (\<exists>v ds. u = Some v \<and> (\<forall>e \<in> set ds. is_decision e) \<and>
        filter (concerns i) evs = DevDecided i v True # ds @ [DevOpened i])
    | Some DevDenied \<Rightarrow> (\<exists>v ds. (\<forall>e \<in> set ds. is_decision e) \<and> filter (concerns i) evs = DevDecided i v False # ds @ [DevOpened i])
    | Some DevUsed \<Rightarrow> (\<exists>v ds. (\<forall>e \<in> set ds. is_decision e) \<and>
        filter (concerns i) evs = DevGranted i (Some v) # DevDecided i v True # ds @ [DevOpened i])"
  using assms
proof (induction rule: device_run.induct)
  case (step evs m ev m')
  from step.hyps(2) show ?case
  proof (cases rule: device_step.cases)
    case (decided j p u b)
    show ?thesis
    proof (cases "i = j")
      case True
      with step.IH decided have "\<exists>ds. (\<forall>e \<in> set ds. is_decision e) \<and> filter (concerns i) evs = ds @ [DevOpened i]"
        by (cases p) (auto intro: exI [of _ "[]"] exI [of _ "DevDecided _ _ _ # _"])
      then show ?thesis using True decided by auto
    next
      case False
      then have "filter (concerns i) (ev # evs) = filter (concerns i) evs" "m' i = m i" using decided by simp_all
      then show ?thesis using step.IH by (simp only:)
    qed
  qed (use step.IH in \<open>auto split: option.splits device_phase.splits\<close>)
qed simp

section \<open>The handlers simulate it\<close>

definition device_phase_of :: "device_authorization \<Rightarrow> device_phase" where
  "device_phase_of v = (if da_used v then DevUsed else if da_denied v then DevDenied else if da_approved v then DevApproved (da_user_id v) else DevPending)"

definition device_abs :: "db \<Rightarrow> string \<rightharpoonup> device_phase" where
  "device_abs d = (\<lambda>i. map_option device_phase_of (get_device_authorization_by_device_code i d))"

definition device_keys :: "db \<Rightarrow> bool" where
  "device_keys d = (distinct (map da_device_code (db_devices d)) \<and> distinct (map da_user_code (db_devices d)))"

lemma device_cong: "db_devices d' = db_devices d \<Longrightarrow> device_abs d' = device_abs d \<and> device_keys d' = device_keys d"
  by (simp add: device_abs_def device_keys_def get_device_authorization_by_device_code_def)

lemma update_keys: "(\<And>x. k (f x) = k x) \<Longrightarrow> map k (update_where P f xs) = map k xs"
  by (induction xs) (auto simp: update_where_def)

lemma device_update:
  assumes f: "\<And>v. da_device_code (f v) = da_device_code v" "\<And>v. da_user_code (f v) = da_user_code v"
    and P: "\<And>v. v \<in> set (db_devices d) \<Longrightarrow> P v \<longleftrightarrow> v = v0"
    and v0: "get_device_authorization_by_device_code i d = Some v0"
  shows "device_abs (d\<lparr>db_devices := update_where P f (db_devices d)\<rparr>) = (device_abs d)(i \<mapsto> device_phase_of (f v0))"
    and "device_keys (d\<lparr>db_devices := update_where P f (db_devices d)\<rparr>) = device_keys d"
proof -
  show "device_keys (d\<lparr>db_devices := update_where P f (db_devices d)\<rparr>) = device_keys d"
    by (simp add: device_keys_def update_keys f)
  have i: "da_device_code v0 = i" using v0 by (auto simp: get_device_authorization_by_device_code_def dest: find_Some_in)
  have "find (\<lambda>v. da_device_code v = j) (update_where P f (db_devices d)) =
      map_option (\<lambda>v. if P v then f v else v) (find (\<lambda>v. da_device_code v = j) (db_devices d))" for j
    by (rule find_update_where) (simp add: f)
  then have upd: "get_device_authorization_by_device_code j (d\<lparr>db_devices := update_where P f (db_devices d)\<rparr>) =
      map_option (\<lambda>v. if P v then f v else v) (get_device_authorization_by_device_code j d)" for j
    by (simp add: get_device_authorization_by_device_code_def)
  have row: "P w = (w = v0) \<and> da_device_code w = j" if "get_device_authorization_by_device_code j d = Some w" for j w
    using that P by (auto simp: get_device_authorization_by_device_code_def dest: find_Some_in)
  show "device_abs (d\<lparr>db_devices := update_where P f (db_devices d)\<rparr>) = (device_abs d)(i \<mapsto> device_phase_of (f v0))"
  proof
    fix j
    show "device_abs (d\<lparr>db_devices := update_where P f (db_devices d)\<rparr>) j = ((device_abs d)(i \<mapsto> device_phase_of (f v0))) j"
      using upd [of j] row [of j] v0 i by (cases "get_device_authorization_by_device_code j d") (auto simp: device_abs_def)
  qed
qed

lemma key_row:
  assumes "distinct (map k xs)" "find (\<lambda>v. k v = i) xs = Some v0" "v \<in> set xs"
  shows "k v = i \<longleftrightarrow> v = v0"
  using assms by (auto dest: find_Some_in simp: distinct_map inj_on_def)

lemma verify_submit_simulates:
  assumes "verify_submit now uc action z s = (Inr b, s')" "get_device_authorization_by_user_code uc (sv_db s) = Some v"
    and "session_str z ''user_id'' = Some u" "device_keys (sv_db s)"
  shows "device_step (device_abs (sv_db s)) (DevDecided (da_device_code v) u b) (device_abs (sv_db s')) \<and> device_keys (sv_db s')"
proof -
  define f where "f = (\<lambda>v. if b then v\<lparr>da_approved := True, da_denied := False, da_user_id := Some u\<rparr>
    else v\<lparr>da_denied := True, da_approved := False\<rparr> :: device_authorization)"
  have used: "\<not> da_used v" and d: "sv_db s' = (sv_db s)\<lparr>db_devices := update_where (\<lambda>v. da_user_code v = uc) f (db_devices (sv_db s))\<rparr>"
    using assms(1-3) unfolding f_def
    by (auto simp: verify_submit_def result_simps run_db_def deny_device_authorization_def approve_device_authorization_def checked_def
        split: if_splits prod.splits)
  have row: "get_device_authorization_by_device_code (da_device_code v) (sv_db s) = Some v"
  proof -
    have "v \<in> set (db_devices (sv_db s))" using assms(2) by (auto simp: get_device_authorization_by_user_code_def dest: find_Some_in)
    then obtain w where w: "get_device_authorization_by_device_code (da_device_code v) (sv_db s) = Some w"
      unfolding get_device_authorization_by_device_code_def by (metis (mono_tags, lifting) find_None_iff not_None_eq)
    then have "w = v" using key_row [of da_device_code "db_devices (sv_db s)" "da_device_code v" w v] assms(4) \<open>v \<in> _\<close>
      by (simp add: device_keys_def get_device_authorization_by_device_code_def)
    then show ?thesis using w by simp
  qed
  have P: "da_user_code w = uc \<longleftrightarrow> w = v" if "w \<in> set (db_devices (sv_db s))" for w
    using key_row [of da_user_code "db_devices (sv_db s)" uc v w] assms(2,4) that
    by (simp add: device_keys_def get_device_authorization_by_user_code_def)
  have keep: "\<And>w. da_device_code (f w) = da_device_code w" "\<And>w. da_user_code (f w) = da_user_code w" by (simp_all add: f_def)
  have "device_abs (sv_db s') = (device_abs (sv_db s))(da_device_code v \<mapsto> device_phase_of (f v))"
    "device_keys (sv_db s')" using device_update [OF keep P row] assms(4) d by simp_all
  moreover have "device_phase_of (f v) = (if b then DevApproved (Some u) else DevDenied)" using used by (simp add: f_def device_phase_of_def)
  moreover have "device_abs (sv_db s) (da_device_code v) = Some (device_phase_of v)" "device_phase_of v \<noteq> DevUsed"
    using row used by (simp_all add: device_abs_def device_phase_of_def)
  ultimately show ?thesis using device_step.decided by metis
qed

lemma device_endpoint_simulates:
  assumes "device_authorization_endpoint E now uuid cd ud r fid fsec scope s = (Inr resp, s')" "device_keys (sv_db s)"
  shows "device_step (device_abs (sv_db s)) (DevOpened (dp_device_code resp)) (device_abs (sv_db s')) \<and> device_keys (sv_db s')"
proof -
  obtain cid sc s1 c where g: "send_get_client now cid s = (Inr c, s1)"
    and d: "run_db (save_device_authorization (device_new now uuid (generate_device_code cd) (generate_user_code ud) cid sc
        device_expires_in_seconds device_poll_interval_seconds)) s1 = (Inr (), s')"
    and resp: "resp = device_response_of (en_oidc E) (generate_device_code cd) (generate_user_code ud)"
    using assms(1) by (auto simp: device_authorization_endpoint_def result_simps Let_def)
  let ?v = "device_new now uuid (generate_device_code cd) (generate_user_code ud) cid sc device_expires_in_seconds device_poll_interval_seconds"
  have i: "dp_device_code resp = da_device_code ?v" by (simp add: resp device_response_of_def device_new_def Let_def)
  have p: "device_phase_of ?v = DevPending" by (simp add: device_phase_of_def device_new_def)
  have fresh: "\<forall>w \<in> set (db_devices (sv_db s)). da_device_code w \<noteq> da_device_code ?v \<and> da_user_code w \<noteq> da_user_code ?v"
    and s': "sv_db s' = (sv_db s)\<lparr>db_devices := db_devices (sv_db s) @ [?v]\<rparr>"
    using d get_client_keeps [OF g] by (auto simp: run_db_def save_device_authorization_def checked_def list_ex_iff split: if_splits)
  have n: "get_device_authorization_by_device_code (da_device_code ?v) (sv_db s) = None"
    using fresh by (auto simp: get_device_authorization_by_device_code_def find_None_iff)
  have "get_device_authorization_by_device_code j (sv_db s') =
      (if j = da_device_code ?v then Some ?v else get_device_authorization_by_device_code j (sv_db s))" for j
    using n by (auto simp: s' get_device_authorization_by_device_code_def find_append split: option.splits)
  then have "device_abs (sv_db s') = (device_abs (sv_db s))(da_device_code ?v \<mapsto> DevPending)" using p by (auto simp: device_abs_def fun_eq_iff)
  moreover have "device_keys (sv_db s')" using fresh assms(2) by (auto simp: device_keys_def s')
  ultimately show ?thesis using n i device_step.opened [of "device_abs (sv_db s)"] by (simp add: device_abs_def)
qed

lemma device_grant_simulates:
  assumes "handle_device_code_grant E now fr req mt s = (Inr (Issued resp), s')" "device_keys (sv_db s)"
    and "rq_device_code req = Some i" "get_token_by_access_token (tr_access_token resp) (sv_db s') = Some t"
  shows "device_step (device_abs (sv_db s)) (DevGranted i (tk_user_id t)) (device_abs (sv_db s')) \<and> device_keys (sv_db s')"
  using assms(1)
proof (rule device_grant_parts)
  fix dc c dev u tk s1 s2
  assume p: "rq_device_code req = Some dc" "get_device_authorization_by_device_code dc (sv_db s) = Some dev" "device_refusal now req dev = None"
    "da_user_id dev = Some u" "db_devices (sv_db s1) = db_devices (sv_db s)"
    "send_create E now fr (rq_client_id req) (device_msg E c req dev u) s1 = (Inr tk, s2)"
    "sv_db s' = snd (mark_device_authorization_used dc (sv_db s2))" "tr_access_token resp = tk_access_token tk"
  note k = send_create_ok [OF p(6)]
  have dv: "db_devices (sv_db s2) = db_devices (sv_db s)" using k(1) p(5) by simp
  have "get_token_by_access_token (tk_access_token tk) (sv_db s') = Some tk"
    using k(4) by (simp add: p(7) get_token_by_access_token_def mark_device_authorization_used_def)
  then have t: "tk_user_id t = Some u" using assms(4) p(8) k(5-8) by (simp add: device_msg_def)
  have row: "get_device_authorization_by_device_code dc (sv_db s2) = Some dev"
    using p(2) dv by (simp add: get_device_authorization_by_device_code_def)
  have P: "da_device_code w = dc \<longleftrightarrow> w = dev" if "w \<in> set (db_devices (sv_db s2))" for w
    using key_row [of da_device_code "db_devices (sv_db s)" dc dev w] assms(2) that p(2) dv
    by (simp add: device_keys_def get_device_authorization_by_device_code_def)
  have "device_abs (sv_db s') = (device_abs (sv_db s2))(dc \<mapsto> device_phase_of (dev\<lparr>da_used := True\<rparr>))" "device_keys (sv_db s') = device_keys (sv_db s2)"
    using device_update [OF _ _ P row, of "\<lambda>v. v\<lparr>da_used := True\<rparr>"] by (simp_all add: p(7) mark_device_authorization_used_def)
  moreover have "device_phase_of (dev\<lparr>da_used := True\<rparr>) = DevUsed" "device_abs (sv_db s) dc = Some (DevApproved (Some u))"
    using p(2-4) by (simp_all add: device_phase_of_def device_abs_def device_refusal_none)
  ultimately show ?thesis
    using device_step.granted [of "device_abs (sv_db s)" dc "Some u"] device_cong [OF dv] t p(1) assms(2,3) by simp
qed

section \<open>Runs\<close>

text \<open>One completed request: a code pair is handed out, a person decides, a token is issued for a device
  code, or anything else happens that leaves the table of device codes alone.\<close>
inductive device_request :: "env \<Rightarrow> server \<Rightarrow> device_event \<Rightarrow> server \<Rightarrow> bool" for E where
  ask: "device_authorization_endpoint E now uuid cd ud r fid fsec scope s = (Inr resp, s') \<Longrightarrow>
    device_request E s (DevOpened (dp_device_code resp)) s'"
| decide: "verify_submit now uc action z s = (Inr b, s') \<Longrightarrow> get_device_authorization_by_user_code uc (sv_db s) = Some v \<Longrightarrow>
    session_str z ''user_id'' = Some u \<Longrightarrow> device_request E s (DevDecided (da_device_code v) u b) s'"
| redeem: "handle_device_code_grant E now fr req mt s = (Inr (Issued resp), s') \<Longrightarrow> rq_device_code req = Some i \<Longrightarrow>
    get_token_by_access_token (tr_access_token resp) (sv_db s') = Some t \<Longrightarrow> device_request E s (DevGranted i (tk_user_id t)) s'"
| other: "db_devices (sv_db s') = db_devices (sv_db s) \<Longrightarrow> device_request E s DevOther s'"

inductive device_requests :: "env \<Rightarrow> server \<Rightarrow> device_event list \<Rightarrow> server \<Rightarrow> bool" for E s0 where
  nil: "device_requests E s0 [] s0"
| cons: "device_requests E s0 evs s \<Longrightarrow> device_request E s ev s' \<Longrightarrow> device_requests E s0 (ev # evs) s'"

lemma device_request_simulates:
  assumes "device_request E s ev s'" "device_keys (sv_db s)"
  shows "device_step (device_abs (sv_db s)) ev (device_abs (sv_db s')) \<and> device_keys (sv_db s')"
  using assms(1)
proof (cases rule: device_request.cases)
  case (ask now uuid cd ud r fid fsec scope resp)
  then show ?thesis using device_endpoint_simulates assms(2) by simp
next
  case (decide now uc action z b v u)
  then show ?thesis using verify_submit_simulates assms(2) by simp
next
  case (redeem now fr req mt resp i t)
  then show ?thesis using device_grant_simulates assms(2) by simp
next
  case other
  then show ?thesis using device_cong [OF other(2)] device_step.other assms(2) by simp
qed

lemma device_requests_run:
  assumes "device_requests E s0 evs s" "db_devices (sv_db s0) = []"
  shows "device_run evs (device_abs (sv_db s)) \<and> device_keys (sv_db s)"
  using assms
proof (induction rule: device_requests.induct)
  case nil
  then have "device_abs (sv_db s0) = Map.empty" by (simp add: device_abs_def get_device_authorization_by_device_code_def)
  then show ?case using nil by (simp add: device_run.start device_keys_def)
next
  case (cons evs s ev s')
  then show ?case using device_request_simulates device_run.step by blast
qed

lemma grant_is_no_decision: "\<forall>e \<in> set ds. is_decision e \<Longrightarrow> DevGranted i u \<notin> set ds"
  by auto

text \<open>C31. The device flow needs consent.  In every run of the server that starts without device codes, a token
  issued for a device code belongs to a person who approved that code in a browser session, and
  that approval is the last decision anybody took about the code before the token; the code was
  handed out once and yields no second token.\<close>
theorem device_grant_consent:
  assumes "device_requests E s0 evs s" "db_devices (sv_db s0) = []" "DevGranted i u \<in> set evs"
  shows "\<exists>v ds. u = Some v \<and> (\<forall>e \<in> set ds. is_decision e) \<and>
    filter (concerns i) evs = DevGranted i (Some v) # DevDecided i v True # ds @ [DevOpened i]"
proof -
  define own where "own = filter (concerns i) evs"
  have "DevGranted i u \<in> set own" using assms(3) by (simp add: own_def)
  moreover have "device_run evs (device_abs (sv_db s))" using device_requests_run [OF assms(1,2)] by blast
  note device_history [OF this, of i, folded own_def]
  ultimately show ?thesis
    unfolding own_def [symmetric] by (auto split: option.splits device_phase.splits dest: grant_is_no_decision)
qed

text \<open>The page saves where the visitor came from without a time stamp, and the login form resumes only
  stamped requests: after logging in, the visitor lands on the profile page.\<close>
lemma device_login_not_resumed:
  assumes "session_str z ''user_id'' = None" "session_int z ''return_to_ts'' = None"
  shows "login_target now (logged_in now u (snd (verify_page user_code z))) = ''/profile''"
  using assms by (simp add: verify_page_def login_target_def logged_in_def session_int_def session_str_def split: option.splits)

section \<open>A run\<close>

text \<open>The service client, registered for \<open>read write\<close>, asks for \<open>admin\<close>; alice approves.\<close>

definition flow_start :: server where
  "flow_start = (service_server True)\<lparr>sv_db := (sv_db (service_server True))\<lparr>db_devices := []\<rparr>\<rparr>"

definition flow_row :: device_authorization where
  "flow_row = device_new 5 ''d1'' ''ab'' ''AAAA-AAAA'' ''svc'' ''admin'' 600 5"

definition flow_opened :: server where
  "flow_opened = flow_start\<lparr>sv_clients := insert_cached_client 5 demo_svc \<lparr>cla_cache = []\<rparr>, sv_db := (sv_db flow_start)\<lparr>db_devices := [flow_row]\<rparr>\<rparr>"

definition flow_approved :: server where
  "flow_approved = flow_opened\<lparr>sv_db := (sv_db flow_opened)\<lparr>db_devices := [flow_row\<lparr>da_approved := True, da_denied := False, da_user_id := Some ''u''\<rparr>]\<rparr>\<rparr>"

definition flow_request :: token_request where
  "flow_request = demo_svc_request\<lparr>rq_device_code := Some ''ab''\<rparr>"

lemma demo_svc_enabled: "demo_svc\<lparr>cl_enabled := True\<rparr> = demo_svc"
  by (simp add: demo_svc_def client_new_def)

lemma flow_resolve:
  assumes "en_cimd E = None" "url_parse (en_libs E) = (\<lambda>_. None)" "sv_clients s = insert_cached_client t c \<lparr>cla_cache = []\<rparr>"
    and "cl_client_id c = cid" "now - t < client_cache_ttl"
  shows "send_resolve E now cid s = (Inr c, s)"
proof -
  have "get_client_handler now cid (sv_clients s) (sv_db s) = (Inr c, sv_clients s)"
    using assms(3-5) by (simp add: get_client_handler_def get_cached_client_def insert_cached_client_def lru_put_def lru_get_def
        lru_pop_def client_cache_max_def)
  then show ?thesis using assms(1,2)
    by (simp add: send_resolve_def resolve_client_def enabled_fetcher_def cimd_url_target_def Let_def is_client_id_url_def
        validate_client_id_url_def isl_def canonical_client_id_def)
qed

lemma flow_ask:
  "device_authorization_endpoint demo_env 5 ''d1'' [0, 1] (replicate 8 0) intro_request (Some ''svc'') (Some ''s3cret'') (Some ''admin'') flow_start =
     (Inr (device_response_of demo_oidc ''ab'' ''AAAA-AAAA''), flow_opened)"
proof -
  have c: "generate_device_code [0, Suc 0] = ''ab''" "generate_user_code (replicate 8 0) = ''AAAA-AAAA''" by code_simp+
  have g: "send_get_client 5 ''svc'' flow_start = (Inr demo_svc, flow_start\<lparr>sv_clients := insert_cached_client 5 demo_svc \<lparr>cla_cache = []\<rparr>\<rparr>)"
    by (simp add: send_get_client_def get_client_handler_def get_cached_client_def lru_get_def flow_start_def service_server_def get_client_def
        demo_svc_enabled)
  have "supports_grant_type demo_libs1 demo_svc ''device_code''" by (simp add: supports_grant_type_def demo_grants)
  then show ?thesis
    by (simp add: device_authorization_endpoint_def intro_request_def parse_client_basic_auth_def device_client_id_def andThen_def ret_def
        bindS_def opt_or_def g c client_secret_matches_def run_db_def save_device_authorization_def checked_def Let_def ensure_def)
      (simp add: flow_start_def service_server_def has_client_def has_user_opt_def flow_opened_def flow_row_def device_new_def
        device_expires_in_seconds_def device_poll_interval_seconds_def demo_svc_enabled demo_svc_def client_new_def db_empty_def)
qed

lemma flow_decide: "verify_submit 5 ''AAAA-AAAA'' None [''user_id'' \<mapsto> JStr ''u''] flow_opened = (Inr True, flow_approved)"
  by (simp add: verify_submit_def session_str_def get_device_authorization_by_user_code_def flow_opened_def flow_row_def device_new_def
      andThen_def ret_def bindS_def device_is_expired_def secs_def run_db_def approve_device_authorization_def checked_def update_where_def
      has_user_def flow_start_def service_server_def user_new_def flow_approved_def unwrap_or_def)

lemma flow_redeem:
  "\<exists>resp s' t. handle_device_code_grant demo_env 5 demo_fresh flow_request no_mtls flow_approved = (Inr (Issued resp), s') \<and>
     get_token_by_access_token (tr_access_token resp) (sv_db s') = Some t \<and> tk_user_id t = Some ''u'' \<and> tk_scope t = ''admin'' \<and>
     tk_client_id t = ''svc'' \<and> get_client ''svc'' (sv_db s') = Some demo_svc"
proof -
  let ?v = "flow_row\<lparr>da_approved := True, da_denied := False, da_user_id := Some ''u''\<rparr>"
  have q: "rq_device_code flow_request = Some ''ab''" "rq_client_id flow_request = ''svc''" "rq_client_secret flow_request = Some ''s3cret''"
    by (simp_all add: flow_request_def demo_svc_request_def demo_request_def)
  have r: "send_resolve demo_env 5 ''svc'' flow_approved = (Inr demo_svc, flow_approved)"
    by (rule flow_resolve [where t = 5]) (simp_all add: demo_env_def demo_libs1_def flow_approved_def flow_opened_def client_cache_ttl_def secs_def)
  have a: "authenticate demo_env 5 demo_svc flow_request no_mtls flow_approved = (Inr (), flow_approved)"
    by (rule secret_authenticate) (simp_all add: q demo_svc_def client_new_def is_public_def)
  have m: "send_materialize demo_env 5 demo_svc flow_approved = (Inr (), flow_approved)"
    by (simp add: send_materialize_def materialize_cimd_client_def)
  have g: "supports_grant_type demo_libs1 demo_svc ''device_code''" by (simp add: supports_grant_type_def demo_grants)
  have d: "get_device_authorization_by_device_code ''ab'' (sv_db flow_approved) = Some ?v"
    by (simp add: flow_approved_def get_device_authorization_by_device_code_def flow_row_def device_new_def)
  have f: "device_refusal 5 flow_request ?v = None" "da_user_id ?v = Some ''u''" "da_scope ?v = ''admin''"
    by (simp_all add: device_refusal_none q flow_row_def device_new_def device_is_expired_def secs_def)
  obtain t s' where k: "send_create demo_env 5 demo_fresh ''svc'' (device_msg demo_env demo_svc flow_request ?v ''u'') flow_approved = (Inr t, s')"
    by (simp add: issue_defs device_msg_def flow_approved_def flow_opened_def flow_start_def service_server_def db_empty_def user_new_def
        demo_fresh_def q f supports_grant_type_def demo_grants demo_svc_enabled)
  have t: "get_token_by_access_token (tk_access_token t) (sv_db s') = Some t" "tk_user_id t = Some ''u''" "tk_scope t = ''admin''" "tk_client_id t = ''svc''"
    using send_create_ok(4,5-8) [OF k] f(3) q by (simp_all add: device_msg_def)
  have c: "get_client ''svc'' (sv_db s'\<lparr>db_devices := x\<rparr>) = Some demo_svc" for x
    using send_create_ok(1) [OF k]
    by (simp add: get_client_def flow_approved_def flow_opened_def flow_start_def service_server_def demo_svc_enabled)
  show ?thesis
    using t c by (simp add: handle_device_code_grant_def device_issue_def andThen_def ret_def q g d f r a m k bindS_def with_id_token_def has_scope_def
        send_mark_device_used_def mark_device_authorization_used_def split_whitespace_def is_ws_def get_token_by_access_token_def token_response_from_def)
qed

lemma flow_run:
  "\<exists>s. device_requests demo_env flow_start
     [DevGranted ''ab'' (Some ''u''), DevDecided ''ab'' ''u'' True, DevOpened ''ab''] s"
proof -
  obtain resp s' t where h: "handle_device_code_grant demo_env 5 demo_fresh flow_request no_mtls flow_approved = (Inr (Issued resp), s')"
      "get_token_by_access_token (tr_access_token resp) (sv_db s') = Some t" "tk_user_id t = Some ''u''"
    using flow_redeem by blast
  have o1: "device_request demo_env flow_start (DevOpened ''ab'') flow_opened"
    using device_request.ask [OF flow_ask] by (simp add: device_response_of_def Let_def)
  have v: "get_device_authorization_by_user_code ''AAAA-AAAA'' (sv_db flow_opened) = Some flow_row" "da_device_code flow_row = ''ab''"
    by (simp_all add: get_device_authorization_by_user_code_def flow_opened_def flow_row_def device_new_def)
  have o2: "device_request demo_env flow_opened (DevDecided ''ab'' ''u'' True) flow_approved"
    using device_request.decide [OF flow_decide v(1), of "''u''"] v(2) by (simp add: session_str_def)
  have "rq_device_code flow_request = Some ''ab''" by (simp add: flow_request_def)
  from device_request.redeem [OF h(1) this h(2)] h(3) have o3: "device_request demo_env flow_approved (DevGranted ''ab'' (Some ''u'')) s'" by simp
  show ?thesis using device_requests.cons [OF device_requests.cons [OF device_requests.cons [OF device_requests.nil o1] o2] o3] by blast
qed

lemma device_grant_consent_witness:
  "\<exists>s evs v ds. device_requests demo_env flow_start evs s \<and> DevGranted ''ab'' (Some v) \<in> set evs \<and>
     filter (concerns ''ab'') evs = DevGranted ''ab'' (Some v) # DevDecided ''ab'' v True # ds @ [DevOpened ''ab'']"
proof -
  obtain s where h: "device_requests demo_env flow_start [DevGranted ''ab'' (Some ''u''), DevDecided ''ab'' ''u'' True, DevOpened ''ab''] s"
    using flow_run by blast
  have "db_devices (sv_db flow_start) = []" by (simp add: flow_start_def)
  from device_grant_consent [OF h this, of "''ab''" "Some ''u''"] h show ?thesis by fastforce
qed

text \<open>The device flow does not check scopes: a client registered for \<open>read write\<close> asks for the scope
  \<open>admin\<close>, a user approves the code, and the token endpoint issues a token with that scope.\<close>
theorem device_scope_unchecked:
  "\<exists>resp s' t. device_authorization_endpoint demo_env 5 ''d1'' [0, 1] (replicate 8 0) intro_request (Some ''svc'') (Some ''s3cret'')
       (Some ''admin'') flow_start = (Inr (device_response_of demo_oidc ''ab'' ''AAAA-AAAA''), flow_opened) \<and>
     verify_submit 5 ''AAAA-AAAA'' None [''user_id'' \<mapsto> JStr ''u''] flow_opened = (Inr True, flow_approved) \<and>
     handle_device_code_grant demo_env 5 demo_fresh flow_request no_mtls flow_approved = (Inr (Issued resp), s') \<and>
     get_token_by_access_token (tr_access_token resp) (sv_db s') = Some t \<and>
     get_client (tk_client_id t) (sv_db s') = Some demo_svc \<and> \<not> set (split_whitespace (tk_scope t)) \<subseteq> set (split_whitespace (cl_scope demo_svc))"
proof -
  obtain resp s' t where h: "handle_device_code_grant demo_env 5 demo_fresh flow_request no_mtls flow_approved = (Inr (Issued resp), s')"
      "get_token_by_access_token (tr_access_token resp) (sv_db s') = Some t" "tk_scope t = ''admin''" "tk_client_id t = ''svc''"
      "get_client ''svc'' (sv_db s') = Some demo_svc"
    using flow_redeem by blast
  have "\<not> set (split_whitespace ''admin'') \<subseteq> set (split_whitespace (cl_scope demo_svc))" by code_simp
  then show ?thesis using h flow_ask flow_decide by auto
qed

end
