(* ===== verification/Authorize.thy ===== *)
theory Authorize
  imports Device_Flow
begin

text \<open>
  The authorization endpoint (\<open>handlers/oauth.rs\<close>, \<open>authorize\<close>): pushed parameters, the signed request
  object, the redirect URI, PKCE, the named agent, the login gate with its \<open>prompt\<close> and \<open>max_age\<close>, step-up,
  the code itself, the ID token of the hybrid flow, and the three ways an answer is delivered.  The
  handler is given in the order of the source: \<open>authorize_front\<close> up to the choice of the response mode,
  \<open>authorize_checks\<close> whose refusals go to the redirect URI, \<open>authorize_gate\<close> on the browser's session, and
  \<open>authorize_grant\<close>.
\<close>

section \<open>Requests\<close>

record authorize_query =
  aq_response_type :: "string option"
  aq_client_id :: string
  aq_redirect_uri :: "string option"
  aq_scope :: "string option"
  aq_state :: "string option"
  aq_code_challenge :: "string option"
  aq_code_challenge_method :: "string option"
  aq_nonce :: "string option"
  aq_login_hint :: "string option"
  aq_prompt :: "string option"
  aq_max_age :: "64 word option"
  aq_response_mode :: "string option"
  aq_resource :: "string option"
  aq_request_uri :: "string option"
  aq_acr_values :: "string option"
  aq_claims :: "string option"
  aq_authorization_details :: "string option"
  aq_request :: "string option"
  aq_requested_actor :: "string option"

text \<open>The parameters in effect, after the pushed request and the request object.\<close>
record effective =
  ef_redirect_uri :: "string option"
  ef_scope :: "string option"
  ef_code_challenge :: "string option"
  ef_code_challenge_method :: "string option"
  ef_nonce :: "string option"
  ef_resource :: "string option"
  ef_state :: "string option"
  ef_authorization_details :: "string option"
  ef_claims :: "string option"
  ef_acr_values :: "string option"
  ef_requested_actor :: "string option"

text \<open>\<open>get\<close> answers before the query does.\<close>
definition merge_params :: "(string \<rightharpoonup> string) \<Rightarrow> authorize_query \<Rightarrow> effective" where
  "merge_params get q =
     \<lparr>ef_redirect_uri = opt_or (get ''redirect_uri'') (aq_redirect_uri q), ef_scope = opt_or (get ''scope'') (aq_scope q),
      ef_code_challenge = opt_or (get ''code_challenge'') (aq_code_challenge q),
      ef_code_challenge_method = opt_or (get ''code_challenge_method'') (aq_code_challenge_method q),
      ef_nonce = opt_or (get ''nonce'') (aq_nonce q), ef_resource = opt_or (get ''resource'') (aq_resource q),
      ef_state = opt_or (get ''state'') (aq_state q),
      ef_authorization_details = opt_or (get ''authorization_details'') (aq_authorization_details q),
      ef_claims = opt_or (get ''claims'') (aq_claims q), ef_acr_values = opt_or (get ''acr_values'') (aq_acr_values q),
      ef_requested_actor = opt_or (get ''requested_actor'') (aq_requested_actor q)\<rparr>"

definition authorize_params :: "instant \<Rightarrow> authorize_query \<Rightarrow> effective act" where
  "authorize_params now q s =
     (case aq_request_uri q of
        None \<Rightarrow> (Inr (merge_params Map.empty q), s)
      | Some request_uri \<Rightarrow>
          (case get_par_request now request_uri (sv_par s) of
             (entry, p) \<Rightarrow>
               (bindR (ok_or entry (invalid_request ''Unknown or expired request_uri'')) (\<lambda>e.
                if pe_client_id e \<noteq> aq_client_id q then Inl (invalid_client ''request_uri client_id mismatch'')
                else Inr (merge_params (map_of (pe_params e)) q)), s\<lparr>sv_par := p\<rparr>)))"

section \<open>The signed request object\<close>

text \<open>\<open>splitn(3, '.')\<close>.\<close>
definition split_jwt :: "string \<Rightarrow> (string \<times> string \<times> string) option" where
  "split_jwt s = Option.bind (split_once (CHR ''.'') s) (\<lambda>(a, r). map_option (\<lambda>(b, c). (a, b, c)) (split_once (CHR ''.'') r))"

definition jar_segment :: "env \<Rightarrow> web \<Rightarrow> string \<Rightarrow> string \<Rightarrow> json result" where
  "jar_segment E W what seg =
     bindR (ok_or (opt_or (en_b64_url_decode E seg) (wl_b64_url_pad W seg)) (invalid_request (''JAR JWT '' @ what @ '' is not valid base64url''))) (\<lambda>bytes.
       ok_or (json_from_str (en_libs E) bytes) (invalid_request (''JAR JWT '' @ what @ '' is not valid JSON'')))"

text \<open>Without a signature: only for public clients, and only when the header says so.\<close>
definition jar_unsigned :: "env \<Rightarrow> web \<Rightarrow> string \<times> string \<times> string \<Rightarrow> json result" where
  "jar_unsigned E W parts =
     (case parts of (h, p, sig) \<Rightarrow>
        bindR (jar_segment E W ''header'' h) (\<lambda>header.
        bindR (ensure (unwrap_or (claim_str header ''alg'') [] = ''none'')
                 (invalid_request ''JAR from public client must use alg=none; signed JARs require a confidential client authentication method'')) (\<lambda>_.
        bindR (ensure (sig = []) (invalid_request ''JAR with alg=none must have an empty signature'')) (\<lambda>_.
          jar_segment E W ''payload'' p))))"

definition jar_verified :: "web \<Rightarrow> instant \<Rightarrow> client \<Rightarrow> string \<Rightarrow> assertion_key \<Rightarrow> string \<Rightarrow> string \<Rightarrow> json result" where
  "jar_verified W now c alg key endpoint_url jar =
     bindR (map_sum (\<lambda>e. invalid_request (''JAR '' @ alg @ '' verification failed: '' @ e)) id (wl_decode_request W now key endpoint_url jar)) (\<lambda>claims.
     bindR (ensure (unwrap_or (claim_str claims ''iss'') [] = cl_client_id c) (invalid_request ''JAR 'iss' claim must equal client_id'')) (\<lambda>_.
       Inr claims))"

definition jar_rsa_key :: "assertion_lib \<Rightarrow> jose_header \<Rightarrow> json option \<Rightarrow> assertion_key result" where
  "jar_rsa_key AL header resolved_jwks =
     bindR (ok_or resolved_jwks (invalid_request ''JAR requires client to have jwks or jwks_uri registered'')) (\<lambda>jwks.
     bindR (ok_or (Option.bind (json_get jwks ''keys'') as_array) (invalid_request ''Client JWKS missing 'keys' array'')) (\<lambda>keys.
     bindR (case jh_kid header of
              Some kid \<Rightarrow> ok_or (find (\<lambda>k. claim_str k ''kid'' = Some kid) keys) (invalid_request ''No matching kid in client JWKS for JAR'')
            | None \<Rightarrow> ok_or (find (\<lambda>k. claim_str k ''kty'' = Some ''RSA'') keys)
                         (invalid_request ''No RSA key found in client JWKS for JAR'')) (\<lambda>key_json.
     bindR (ok_or (claim_str key_json ''n'') (invalid_request ''JWKS key missing 'n' component'')) (\<lambda>n.
     bindR (ok_or (claim_str key_json ''e'') (invalid_request ''JWKS key missing 'e' component'')) (\<lambda>e.
     bindR (ensure (al_rsa_ok AL n e) (invalid_request ''Failed to construct RSA key from client JWKS'')) (\<lambda>_.
       Inr (RsaKey n e)))))))"

definition process_jar :: "env \<Rightarrow> web \<Rightarrow> instant \<Rightarrow> client \<Rightarrow> string \<Rightarrow> string \<Rightarrow> json option \<Rightarrow> json result" where
  "process_jar E W now c jar endpoint_url resolved_jwks =
     bindR (ok_or (split_jwt jar) (invalid_request ''JAR request is not a valid JWT (expected header.payload.signature)'')) (\<lambda>parts.
     (let meth = cl_token_endpoint_auth_method c in
      if meth = ''none'' then jar_unsigned E W parts
      else if meth \<in> {''client_secret_basic'', ''client_secret_post'', ''client_secret_jwt''}
        then jar_verified W now c ''HS256'' (SharedSecret (cl_client_secret c)) endpoint_url jar
      else if meth = ''private_key_jwt'' then
        bindR (ok_or (al_header (en_assertions E) jar) (invalid_request ''JAR JWT header is malformed'')) (\<lambda>header.
        bindR (jar_rsa_key (en_assertions E) header resolved_jwks) (\<lambda>key.
          jar_verified W now c ''RS256'' key endpoint_url jar))
      else Inl (invalid_request (''Unsupported token_endpoint_auth_method '' @ quoted meth @ '' for JAR signing''))))"

definition overlay :: "json \<Rightarrow> effective \<Rightarrow> effective" where
  "overlay claims ef =
     (let jar = (\<lambda>k v. opt_or (claim_str claims k) v) in
      \<lparr>ef_redirect_uri = jar ''redirect_uri'' (ef_redirect_uri ef), ef_scope = jar ''scope'' (ef_scope ef),
       ef_code_challenge = jar ''code_challenge'' (ef_code_challenge ef),
       ef_code_challenge_method = jar ''code_challenge_method'' (ef_code_challenge_method ef),
       ef_nonce = jar ''nonce'' (ef_nonce ef), ef_resource = jar ''resource'' (ef_resource ef), ef_state = jar ''state'' (ef_state ef),
       ef_authorization_details = jar ''authorization_details'' (ef_authorization_details ef), ef_claims = jar ''claims'' (ef_claims ef),
       ef_acr_values = jar ''acr_values'' (ef_acr_values ef), ef_requested_actor = ef_requested_actor ef\<rparr>)"

section \<open>Answers\<close>

text \<open>A redirect, the page that posts the parameters to the redirect URI, or the way to the login form.\<close>
datatype authorize_reply = Found string | FormPost string "(string \<times> string) list" | ToLoginForm

fun join_with :: "string \<Rightarrow> string list \<Rightarrow> string" where
  "join_with sep [] = []"
| "join_with sep [x] = x"
| "join_with sep (x # xs) = x @ sep @ join_with sep xs"

text \<open>The page a \<open>FormPost\<close> stands for.\<close>
definition form_post_response :: "string \<Rightarrow> (string \<times> string) list \<Rightarrow> string" where \<open>
  form_post_response redirect_uri params =
    ''<!DOCTYPE html>'' @ [CHR 0x0A] @ ''<html><body onload="document.forms[0].submit()">'' @ [CHR 0x0A] @
    ''<form method="post" action="'' @ html_escape_attr redirect_uri @ ''">'' @ [CHR 0x0A] @
    join_with [CHR 0x0A] (map (\<lambda>(k, v). ''<input type="hidden" name="'' @ html_escape_attr k @ ''" value="'' @ html_escape_attr v @ ''"/>'') params) @
    [CHR 0x0A] @ ''</form></body></html>''\<close>

definition fragment_location :: "web \<Rightarrow> string \<Rightarrow> (string \<times> string) list \<Rightarrow> string" where
  "fragment_location W redirect_uri params =
     redirect_uri @ ''#'' @ join_with ''&'' (map (\<lambda>(k, v). k @ ''='' @ wl_percent_encode W v) params)"

definition query_location :: "env \<Rightarrow> web \<Rightarrow> string \<Rightarrow> (string \<times> string) list \<Rightarrow> authorize_reply result" where
  "query_location E W redirect_uri params =
     bindR (ok_or (url_parse (en_libs E) redirect_uri) (invalid_request ''Invalid redirect_uri'')) (\<lambda>u.
       Inr (Found (wl_append_pairs W u params)))"

definition opt_pair :: "string \<Rightarrow> string option \<Rightarrow> (string \<times> string) list" where
  "opt_pair k v = (case v of Some x \<Rightarrow> [(k, x)] | None \<Rightarrow> [])"

definition build_authorize_error_redirect ::
  "env \<Rightarrow> web \<Rightarrow> string \<Rightarrow> string \<Rightarrow> string \<Rightarrow> string option \<Rightarrow> string \<Rightarrow> authorize_reply result" where
  "build_authorize_error_redirect E W code description redirect_uri state response_mode =
     (let iss = oc_issuer (en_oidc E);
          head = [(''error'', code), (''error_description'', description)] in
      if response_mode = ''form_post'' then Inr (FormPost redirect_uri (head @ [(''iss'', iss)] @ opt_pair ''state'' state))
      else if response_mode = ''fragment'' then Inr (Found (fragment_location W redirect_uri (head @ [(''iss'', iss)] @ opt_pair ''state'' state)))
      else query_location E W redirect_uri (head @ opt_pair ''state'' state @ [(''iss'', iss)]))"

section \<open>Up to the response mode\<close>

record authorize_request =
  ar_client :: client
  ar_redirect_uri :: string
  ar_effective :: effective
  ar_hybrid :: bool
  ar_mode :: string

text \<open>The redirect URI, parameters, flow and response mode that the request object leaves in effect.\<close>
definition authorize_jar ::
  "env \<Rightarrow> web \<Rightarrow> instant \<Rightarrow> authorize_query \<Rightarrow> client \<Rightarrow> string \<Rightarrow> effective \<Rightarrow> (string \<times> effective \<times> bool \<times> string option) result" where
  "authorize_jar E W now q c redirect_uri ef =
     (case aq_request q of
        None \<Rightarrow> Inr (redirect_uri, ef, aq_response_type q = Some ''code id_token'', None)
      | Some jar \<Rightarrow>
          bindR (resolve_client_jwks (en_libs E) c (en_jwks_cache E)) (\<lambda>jwks.
          bindR (process_jar E W now c jar (oc_issuer (en_oidc E) @ ''/oauth/authorize'') jwks) (\<lambda>claims.
          (let rt = unwrap_or (opt_or (claim_str claims ''response_type'') (aq_response_type q)) [];
               hybrid = (rt = ''code id_token'') in
           bindR (ensure (rt = ''code'' \<or> hybrid)
                    (invalid_request ''Unsupported response_type in JAR; supported values: code, code id_token'')) (\<lambda>_.
             Inr (unwrap_or (claim_str claims ''redirect_uri'') redirect_uri, overlay claims ef, hybrid, claim_str claims ''response_mode''))))))"

definition response_mode_of :: "authorize_query \<Rightarrow> bool \<Rightarrow> string option \<Rightarrow> string result" where
  "response_mode_of q hybrid jar_mode =
     (let mode = unwrap_or (opt_or jar_mode (aq_response_mode q)) (if hybrid then ''fragment'' else ''query'') in
      if mode \<in> {''query'', ''form_post'', ''fragment''} then Inr mode
      else Inl (invalid_request ''Unsupported response_mode; supported values: query, form_post, fragment''))"

definition authorize_front :: "env \<Rightarrow> web \<Rightarrow> instant \<Rightarrow> http_request \<Rightarrow> authorize_query \<Rightarrow> authorize_request act" where
  "authorize_front E W now r q =
     andThen (ret (ensure_no_duplicate_query_params (en_http E) r)) (\<lambda>_.
     andThen (authorize_params now q) (\<lambda>ef.
     andThen (ret (ok_or (ef_redirect_uri ef) (invalid_request ''Missing redirect_uri''))) (\<lambda>redirect_uri.
     andThen (send_resolve E now (aq_client_id q)) (\<lambda>c.
     andThen (ret (ensure (supports_grant_type (en_libs E) c ''authorization_code'')
                (unauthorized_client ''Client is not allowed to use authorization_code''))) (\<lambda>_.
     andThen (ret (ensure (\<not> (cl_require_state c \<and> aq_state q = None))
                (invalid_request ''state parameter is required for this client (RFC 9700 4.7)''))) (\<lambda>_.
     andThen (ret (authorize_jar E W now q c redirect_uri ef)) (\<lambda>(uri, ef', hybrid, jar_mode).
     andThen (ret (ensure (validate_redirect_uri (en_libs E) c uri) (invalid_request ''Invalid redirect_uri''))) (\<lambda>_.
     andThen (ret (response_mode_of q hybrid jar_mode)) (\<lambda>mode.
       ret (Inr \<lparr>ar_client = c, ar_redirect_uri = uri, ar_effective = ef', ar_hybrid = hybrid, ar_mode = mode\<rparr>))))))))))"

section \<open>Refusals on the redirect URI\<close>

definition redirect_error :: "env \<Rightarrow> web \<Rightarrow> authorize_request \<Rightarrow> string \<Rightarrow> string \<Rightarrow> authorize_reply result" where
  "redirect_error E W ar code description =
     build_authorize_error_redirect E W code description (ar_redirect_uri ar) (ef_state (ar_effective ar)) (ar_mode ar)"

text \<open>Error code and description, unless the request passes.\<close>
definition request_flaw :: "authorize_query \<Rightarrow> authorize_request \<Rightarrow> (string \<times> string) option" where
  "request_flaw q ar =
     (let ef = ar_effective ar; bad = (\<lambda>d. Some (''invalid_request'', d)) in
      if aq_request q = None \<and> aq_response_type q \<in> {None, Some []} then bad ''Missing response_type''
      else if aq_request q = None \<and> aq_response_type q \<notin> {Some ''code'', Some ''code id_token''}
        then Some (''unsupported_response_type'', ''Unsupported response_type; supported values: code, code id_token'')
      else if ef_code_challenge ef = None then bad ''Missing code_challenge''
      else if trim (the (ef_code_challenge ef)) = [] then bad ''code_challenge must not be empty''
      else if ef_code_challenge_method ef = None then bad ''Missing code_challenge_method''
      else if ef_code_challenge_method ef \<noteq> Some ''S256'' then bad ''Only S256 code_challenge_method is supported''
      else None)"

text \<open>The agent the user is asked to let act; an unknown one is refused on the redirect URI.\<close>
definition requested_agent :: "env \<Rightarrow> instant \<Rightarrow> authorize_request \<Rightarrow> (unit + client option) act" where
  "requested_agent E now ar s =
     (case nonempty (map_option trim (ef_requested_actor (ar_effective ar))) of
        None \<Rightarrow> (Inr (Inr None), s)
      | Some actor_id \<Rightarrow>
          if \<not> ag_obo_enabled (en_agent E) then (Inr (Inr None), s)
          else (case send_resolve E now actor_id s of
                  (Inr c, s1) \<Rightarrow> (Inr (Inr (Some c)), s1)
                | (Inl _, s1) \<Rightarrow> (Inr (Inl ()), s1)))"

section \<open>The login gate\<close>

definition max_display_name_chars :: nat where
  "max_display_name_chars = 40"

text \<open>The mark of a cut is the ellipsis, three bytes in UTF-8; a character of a name is one byte here.\<close>
definition truncate_chars :: "string \<Rightarrow> nat \<Rightarrow> string" where
  "truncate_chars v m = (if length v \<le> m then v else take (m - 1) v @ [CHR 0xE2, CHR 0x80, CHR 0xA6])"

definition metadata_host :: "libs \<Rightarrow> string \<Rightarrow> string option" where
  "metadata_host L client_id =
     Option.bind (url_parse L client_id) (\<lambda>u. if url_scheme u \<in> {''https'', ''http''} then url_host u else None)"

definition client_display_name :: "libs \<Rightarrow> client \<Rightarrow> string" where
  "client_display_name L c =
     (let name = truncate_chars (cl_name c) max_display_name_chars in
      case metadata_host L (cl_client_id c) of Some host \<Rightarrow> name @ '' ('' @ host @ '')'' | None \<Rightarrow> name)"

definition prompt_values :: "authorize_query \<Rightarrow> string list" where
  "prompt_values q = split_whitespace (unwrap_or (aq_prompt q) [])"

text \<open>\<open>at + max_age as i64\<close>, at 64 bits.\<close>
definition auth_expired :: "instant \<Rightarrow> authorize_query \<Rightarrow> session \<Rightarrow> bool" where
  "auth_expired now q z =
     (case aq_max_age q of
        None \<Rightarrow> False
      | Some max_age \<Rightarrow>
          (case session_int z ''auth_time'' of
             Some auth_time \<Rightarrow> timestamp now > as_i64 (auth_time + as_i64 (uint max_age))
           | None \<Rightarrow> True))"

definition login_required :: "env \<Rightarrow> web \<Rightarrow> authorize_request \<Rightarrow> authorize_reply result" where
  "login_required E W ar =
     (let iss = oc_issuer (en_oidc E); state = ef_state (ar_effective ar);
          head = [(''error'', ''login_required''), (''error_description'', ''User is not authenticated and prompt=none was requested'')] in
      if ar_mode ar = ''form_post'' then Inr (FormPost (ar_redirect_uri ar) (head @ [(''iss'', iss)] @ opt_pair ''state'' state))
      else query_location E W (ar_redirect_uri ar) (head @ opt_pair ''state'' state @ [(''iss'', iss)]))"

text \<open>What the login form will need, and the forgetting of the old login when a new one is forced.\<close>
definition pending_login ::
  "env \<Rightarrow> instant \<Rightarrow> http_request \<Rightarrow> authorize_query \<Rightarrow> client \<Rightarrow> client option \<Rightarrow> bool \<Rightarrow> session \<Rightarrow> session" where
  "pending_login E now r q c actor forget z =
     (let z1 = z(''return_to'' \<mapsto> JStr (''/oauth/authorize?'' @ hr_query r), ''return_to_ts'' \<mapsto> JInt (timestamp now));
          z2 = (case aq_login_hint q of Some hint \<Rightarrow> z1(''login_hint'' \<mapsto> JStr hint) | None \<Rightarrow> z1);
          z3 = z2(''client_display'' \<mapsto> JStr (client_display_name (en_libs E) c));
          z4 = (case actor of
                  Some a \<Rightarrow> z3(''requested_actor_display'' \<mapsto> JStr (client_display_name (en_libs E) c @ '' wants '' @
                                client_display_name (en_libs E) a @ '' to access your account on your behalf.''))
                | None \<Rightarrow> z3(''requested_actor_display'' := None)) in
      if forget then z4(''user_id'' := None, ''authenticated'' := None) else z4)"

text \<open>The user to issue the code for, or the final answer.\<close>
definition authorize_gate ::
  "env \<Rightarrow> web \<Rightarrow> instant \<Rightarrow> http_request \<Rightarrow> authorize_query \<Rightarrow> authorize_request \<Rightarrow> client option \<Rightarrow> session \<Rightarrow>
   (authorize_reply result + string) \<times> session" where
  "authorize_gate E W now r q ar actor z =
     (let prompts = prompt_values q; user = session_str z ''user_id'';
          forget = (''login'' \<in> set prompts \<or> ''select_account'' \<in> set prompts \<or> auth_expired now q z) in
      if ''none'' \<in> set prompts \<and> length prompts > 1
        then (Inl (Inl (invalid_request ''prompt value 'none' must not be combined with other values'')), z)
      else if ''none'' \<in> set prompts \<and> user = None then (Inl (login_required E W ar), z)
      else (case user of
              Some uid \<Rightarrow>
                if \<not> forget then (Inr uid, z) else (Inl (Inr ToLoginForm), pending_login E now r q (ar_client ar) actor forget z)
            | None \<Rightarrow> (Inl (Inr ToLoginForm), pending_login E now r q (ar_client ar) actor forget z)))"

section \<open>The code\<close>

record code_draw =
  dw_uuid :: string
  dw_family :: string
  dw_code :: "nat list"

definition consent_key :: "client \<Rightarrow> string \<Rightarrow> string" where
  "consent_key c scope = ''consent:'' @ cl_client_id c @ '':'' @ scope"

definition record_consent :: "authorize_query \<Rightarrow> client \<Rightarrow> string \<Rightarrow> session \<Rightarrow> session" where
  "record_consent q c scope z =
     (if ''consent'' \<in> set (prompt_values q) \<and> z (consent_key c scope) \<noteq> Some (JBool True)
      then z(consent_key c scope \<mapsto> JBool True) else z)"

definition acr_satisfied :: "authorize_request \<Rightarrow> session \<Rightarrow> bool" where
  "acr_satisfied ar z =
     (case ef_acr_values (ar_effective ar) of
        None \<Rightarrow> True
      | Some vs \<Rightarrow> (case session_str z ''acr'' of Some v \<Rightarrow> v \<in> set (split_whitespace vs) | None \<Rightarrow> False))"

definition code_msg_of :: "authorize_request \<Rightarrow> client option \<Rightarrow> string \<Rightarrow> string \<Rightarrow> create_code_msg" where
  "code_msg_of ar actor user_id scope =
     (let ef = ar_effective ar in
      \<lparr>cc_client_id = cl_client_id (ar_client ar), cc_user_id = user_id, cc_redirect_uri = ar_redirect_uri ar, cc_scope = scope,
       cc_code_challenge = ef_code_challenge ef, cc_code_challenge_method = ef_code_challenge_method ef, cc_nonce = ef_nonce ef,
       cc_resource = ef_resource ef, cc_authorization_details = ef_authorization_details ef, cc_claims_request = ef_claims ef,
       cc_requested_actor = map_option cl_client_id actor\<rparr>)"

definition send_create_code :: "web \<Rightarrow> instant \<Rightarrow> code_draw \<Rightarrow> create_code_msg \<Rightarrow> authorization_code act" where
  "send_create_code W now dw m = run_db (create_authorization_code (wb_code_ttl W) now (dw_uuid dw) (dw_family dw) (dw_code dw) m)"

text \<open>The ID token that accompanies the code in the hybrid flow.\<close>
definition hybrid_id_token :: "env \<Rightarrow> instant \<Rightarrow> authorize_request \<Rightarrow> authorization_code \<Rightarrow> string option result" where
  "hybrid_id_token E now ar a =
     (if ar_hybrid ar \<and> has_scope (ac_scope a) ''openid'' then
        (let oc = en_oidc E;
             c = (id_token_claims_new (en_left_hash E) now (oc_issuer oc) (ac_user_id a) (ac_client_id a) 3600 None)
                   \<lparr>it_nonce := ac_nonce a, it_c_hash := Some (en_left_hash E (ac_code a))\<rparr> in
         map_sum id Some
           (if eq_ignore_case (oc_id_token_alg oc) ''RS256'' then
              bindR (ok_or (oc_id_token_private_key_pem oc) (error_new ''server_error'' (Some ''RS256 configured but private key is missing'')))
                (\<lambda>pem. server_error_of (en_encode_id_rs256 E pem (oc_id_token_kid oc) c))
            else server_error_of (en_encode_id E (oc_jwt_secret oc) c)))
      else Inr None)"

definition deliver_code :: "env \<Rightarrow> web \<Rightarrow> authorize_request \<Rightarrow> authorization_code \<Rightarrow> string option \<Rightarrow> authorize_reply result" where
  "deliver_code E W ar a id_token =
     (let uri = ar_redirect_uri ar; iss = (''iss'', oc_issuer (en_oidc E)); code = (''code'', ac_code a);
          state = opt_pair ''state'' (ef_state (ar_effective ar)); idt = opt_pair ''id_token'' id_token in
      if ar_mode ar = ''form_post'' then Inr (FormPost uri ([code, iss] @ state @ idt))
      else if ar_mode ar = ''fragment'' then Inr (Found (fragment_location W uri ([code, iss] @ state @ idt)))
      else bindR (ok_or (url_parse (en_libs E) uri) (invalid_request ''Invalid redirect_uri'')) (\<lambda>u.
           bindR (ensure (url_fragment u = None) (invalid_request ''redirect_uri must not contain a fragment'')) (\<lambda>_.
             Inr (Found (wl_append_pairs W u ([code] @ state @ [iss] @ idt))))))"

definition authorize_issue ::
  "env \<Rightarrow> web \<Rightarrow> instant \<Rightarrow> code_draw \<Rightarrow> authorize_request \<Rightarrow> client option \<Rightarrow> string \<Rightarrow> string \<Rightarrow> authorize_reply act" where
  "authorize_issue E W now dw ar actor user_id scope =
     andThen (send_materialize E now (ar_client ar)) (\<lambda>_.
     andThen (send_create_code W now dw (code_msg_of ar actor user_id scope)) (\<lambda>a.
     andThen (ret (hybrid_id_token E now ar a)) (\<lambda>id_token.
       ret (deliver_code E W ar a id_token))))"

definition authorize_grant ::
  "env \<Rightarrow> web \<Rightarrow> instant \<Rightarrow> code_draw \<Rightarrow> authorize_query \<Rightarrow> authorize_request \<Rightarrow> client option \<Rightarrow> string \<Rightarrow> session \<Rightarrow> server \<Rightarrow>
   authorize_reply result \<times> session \<times> server" where
  "authorize_grant E W now dw q ar actor user_id z s =
     (let scope = unwrap_or (ef_scope (ar_effective ar)) ''read'' in
      case validate_scope_subset scope (cl_scope (ar_client ar)) of
        Inl e \<Rightarrow> (redirect_error E W ar (err_error e) (unwrap_or (err_description e) []), z, s)
      | Inr _ \<Rightarrow>
          (let z1 = record_consent q (ar_client ar) scope z in
           if \<not> acr_satisfied ar z1 then
             (query_location E W (ar_redirect_uri ar)
                ([(''error'', ''insufficient_user_authentication''),
                  (''error_description'', ''Authentication Context Class does not satisfy acr_values'')] @
                 opt_pair ''state'' (ef_state (ar_effective ar)) @ [(''iss'', oc_issuer (en_oidc E))]), z1, s)
           else (case authorize_issue E W now dw ar actor user_id scope s of (x, s1) \<Rightarrow> (x, z1, s1))))"

definition authorize ::
  "env \<Rightarrow> web \<Rightarrow> instant \<Rightarrow> code_draw \<Rightarrow> http_request \<Rightarrow> authorize_query \<Rightarrow> session \<Rightarrow> server \<Rightarrow>
   authorize_reply result \<times> session \<times> server" where
  "authorize E W now dw r q z s =
     (case authorize_front E W now r q s of
        (Inl e, s1) \<Rightarrow> (Inl e, z, s1)
      | (Inr ar, s1) \<Rightarrow>
          (case request_flaw q ar of
             Some (code, description) \<Rightarrow> (redirect_error E W ar code description, z, s1)
           | None \<Rightarrow>
               (case requested_agent E now ar s1 of
                  (Inl e, s2) \<Rightarrow> (Inl e, z, s2)
                | (Inr (Inl _), s2) \<Rightarrow> (redirect_error E W ar ''invalid_request'' ''unknown requested_actor'', z, s2)
                | (Inr (Inr actor), s2) \<Rightarrow>
                    (case authorize_gate E W now r q ar actor z of
                       (Inl x, z1) \<Rightarrow> (x, z1, s2)
                     | (Inr user_id, z1) \<Rightarrow> authorize_grant E W now dw q ar actor user_id z1 s2))))"

end
