(* ===== verification/Client_Registration.thy ===== *)
theory Client_Registration
  imports Introspection_Laws
begin

text \<open>
  Client registration and management (\<open>handlers/client.rs\<close>): software statements, the admin
  endpoint, dynamic registration (RFC 7591) and the configuration endpoint (RFC 7592), with the
  response they share (\<open>models/client.rs\<close>).  The verification of a software statement and the
  environment variable that opens registration are arguments.
\<close>

text \<open>\<open>rl_decode_statement now alg key iss statement\<close> verifies a software statement: the signature, the issuer,
  and \<open>exp\<close> when present.\<close>
record registrar =
  rg_enabled_var :: "string option"
  rl_decode_statement :: "instant \<Rightarrow> jws_alg \<Rightarrow> jose_key \<Rightarrow> string \<Rightarrow> string \<Rightarrow> string + json"

text \<open>The random values of a registration.\<close>
record client_draw =
  dr_uuid :: string
  dr_client_uuid :: string
  dr_secret :: "nat list"
  dr_token :: "nat list"

definition parse_registration_enabled :: "string option \<Rightarrow> bool" where
  "parse_registration_enabled val = (val = Some ''true'')"

definition invalid_software_statement :: "string \<Rightarrow> oauth2_error" where
  "invalid_software_statement detail = error_new ''invalid_software_statement'' (Some detail)"

definition clear_self_asserted_software_metadata :: "client_registration \<Rightarrow> client_registration" where
  "clear_self_asserted_software_metadata reg = reg\<lparr>cr_software_id := None, cr_software_version := None\<rparr>"

section \<open>Software statements\<close>

definition decode_unverified_iss :: "env \<Rightarrow> string \<Rightarrow> string result" where
  "decode_unverified_iss E statement =
     bindR (case split_char (CHR ''.'') statement of
              _ # payload # _ \<Rightarrow> Inr payload
            | _ \<Rightarrow> Inl (invalid_software_statement ''software_statement is not a JWT'')) (\<lambda>payload.
     bindR (ok_or (en_b64_url_decode E payload) (invalid_software_statement ''software_statement payload is not base64url'')) (\<lambda>bytes.
     bindR (ok_or (json_from_str (en_libs E) bytes) (invalid_software_statement ''software_statement payload is not JSON'')) (\<lambda>claims.
       ok_or (claim_str claims ''iss'') (invalid_software_statement ''software_statement is missing the iss claim''))))"

definition string_list_claim :: "json \<Rightarrow> string \<Rightarrow> string list option" where
  "string_list_claim claims name = map_option (List.map_filter as_str) (Option.bind (json_get claims name) as_array)"

definition merge_software_statement_claims :: "json \<Rightarrow> client_registration \<Rightarrow> client_registration" where
  "merge_software_statement_claims claims reg =
     (let reg1 = reg\<lparr>cr_software_id := opt_or (claim_str claims ''software_id'') (cr_software_id reg),
            cr_software_version := opt_or (claim_str claims ''software_version'') (cr_software_version reg),
            cr_client_name := unwrap_or (claim_str claims ''client_name'') (cr_client_name reg),
            cr_redirect_uris := unwrap_or (string_list_claim claims ''redirect_uris'') (cr_redirect_uris reg),
            cr_grant_types := unwrap_or (string_list_claim claims ''grant_types'') (cr_grant_types reg),
            cr_scope := unwrap_or (claim_str claims ''scope'') (cr_scope reg),
            cr_token_endpoint_auth_method := unwrap_or (claim_str claims ''token_endpoint_auth_method'') (cr_token_endpoint_auth_method reg)\<rparr> in
      case json_get claims ''jwks'' of
        Some v \<Rightarrow> reg1\<lparr>cr_jwks := Some v, cr_jwks_uri := None\<rparr>
      | None \<Rightarrow> (case claim_str claims ''jwks_uri'' of Some v \<Rightarrow> reg1\<lparr>cr_jwks_uri := Some v, cr_jwks := None\<rparr> | None \<Rightarrow> reg1))"

text \<open>The claims of a statement that an enabled trusted issuer has signed.\<close>
definition verify_statement :: "env \<Rightarrow> registrar \<Rightarrow> instant \<Rightarrow> string \<Rightarrow> db \<Rightarrow> json result" where
  "verify_statement E R now statement d =
     bindR (ok_or (al_header (en_assertions E) statement) (invalid_software_statement ''software_statement is not a JWT'')) (\<lambda>header.
     bindR (ensure (jh_alg header \<in> set allowed_algs)
              (invalid_software_statement ''software_statement uses an unsupported signature algorithm'')) (\<lambda>_.
     bindR (decode_unverified_iss E statement) (\<lambda>iss.
     bindR (ok_or (case get_trusted_issuer iss d of Some t \<Rightarrow> if ti_enabled t then Some t else None | None \<Rightarrow> None)
              (invalid_software_statement ''software_statement iss is not a trusted issuer'')) (\<lambda>trusted.
     bindR (ok_or (en_jwks_cache E)
              (error_new ''server_error'' (Some ''JWKS cache is not configured; cannot verify software statements''))) (\<lambda>fetch.
     bindR (map_sum (\<lambda>e. invalid_software_statement (''could not fetch the trusted issuer'' @ [CHR 0x27] @ ''s JWKS: '' @
                unwrap_or (err_description e) (err_error e))) id (fetch (trim (ti_jwks_uri trusted)))) (\<lambda>jwks.
     bindR (map_sum (\<lambda>e. invalid_software_statement (unwrap_or (err_description e) (err_error e))) id (select_key (en_jose E) jwks header)) (\<lambda>key.
       map_sum (\<lambda>e. invalid_software_statement (''software_statement validation failed: '' @ e)) id
         (rl_decode_statement R now (jh_alg header) key iss statement))))))))"

definition apply_software_statement :: "env \<Rightarrow> registrar \<Rightarrow> instant \<Rightarrow> client_registration \<Rightarrow> db \<Rightarrow> client_registration result" where
  "apply_software_statement E R now reg d =
     (case nonempty (map_option trim (cr_software_statement reg)) of
        None \<Rightarrow> Inr reg
      | Some statement \<Rightarrow> bindR (verify_statement E R now statement d) (\<lambda>claims. Inr (merge_software_statement_claims claims reg)))"

section \<open>Messages\<close>

definition send_register :: "env \<Rightarrow> instant \<Rightarrow> client_draw \<Rightarrow> client_registration \<Rightarrow> client act" where
  "send_register E now dr reg s =
     (case register_client (en_libs E) now (dr_uuid dr) (dr_client_uuid dr) (dr_secret dr) (dr_token dr) reg (sv_clients s) (sv_db s) of
        (r, A, d) \<Rightarrow> (r, s\<lparr>sv_clients := A, sv_db := d\<rparr>))"

definition send_update_client :: "instant \<Rightarrow> client \<Rightarrow> client act" where
  "send_update_client now c s =
     (case update_client_handler now c (sv_clients s) (sv_db s) of (r, A, d) \<Rightarrow> (r, s\<lparr>sv_clients := A, sv_db := d\<rparr>))"

definition send_delete_client :: "string \<Rightarrow> unit act" where
  "send_delete_client cid s =
     (case delete_client_handler cid (sv_clients s) (sv_db s) of (r, A, d) \<Rightarrow> (r, s\<lparr>sv_clients := A, sv_db := d\<rparr>))"

section \<open>The response\<close>

record registration_response =
  rr_client_id :: string
  rr_client_secret :: "string option"
  rr_client_secret_expires_at :: "int option"
  rr_registration_access_token :: string
  rr_registration_client_uri :: string
  rr_client_name :: string
  rr_redirect_uris :: "string list"
  rr_grant_types :: "string list"
  rr_scope :: string
  rr_token_endpoint_auth_method :: string
  rr_response_types :: "string list"
  rr_contacts :: "string list"
  rr_logo_uri :: "string option"
  rr_client_uri :: "string option"
  rr_policy_uri :: "string option"
  rr_tos_uri :: "string option"
  rr_jwks :: "json option"
  rr_jwks_uri :: "string option"
  rr_backchannel_logout_uri :: "string option"
  rr_backchannel_logout_session_required :: "bool option"
  rr_frontchannel_logout_uri :: "string option"
  rr_frontchannel_logout_session_required :: "bool option"
  rr_post_logout_redirect_uris :: "string list option"
  rr_tls_client_certificate_subject_dn :: "string option"
  rr_tls_client_auth_san :: "string option"
  rr_software_id :: "string option"
  rr_software_version :: "string option"
  rr_client_id_issued_at :: int

definition from_client :: "libs \<Rightarrow> client \<Rightarrow> string \<Rightarrow> registration_response" where
  "from_client L c issuer_base =
     (let base = rev (dropWhile (\<lambda>x. x = CHR ''/'') (rev issuer_base));
          secret = (if is_public c then None else Some (cl_client_secret c));
          some = (\<lambda>v. if v = [] then None else Some v);
          flag = (\<lambda>b. if b then Some True else None);
          logout_uris = parse_string_vec L (cl_post_logout_redirect_uris c) in
      \<lparr>rr_client_id = cl_client_id c, rr_client_secret = secret, rr_client_secret_expires_at = map_option (\<lambda>_. 0) secret,
       rr_registration_access_token = cl_registration_access_token c,
       rr_registration_client_uri = base @ ''/connect/register/'' @ cl_client_id c, rr_client_name = cl_name c,
       rr_redirect_uris = get_redirect_uris L c, rr_grant_types = get_grant_types L c, rr_scope = cl_scope c,
       rr_token_endpoint_auth_method = cl_token_endpoint_auth_method c, rr_response_types = get_response_types L c,
       rr_contacts = parse_string_vec L (cl_contacts c), rr_logo_uri = some (cl_logo_uri c), rr_client_uri = some (cl_client_uri c),
       rr_policy_uri = some (cl_policy_uri c), rr_tos_uri = some (cl_tos_uri c),
       rr_jwks = Option.bind (some (cl_jwks c)) (json_from_str L), rr_jwks_uri = some (cl_jwks_uri c),
       rr_backchannel_logout_uri = some (cl_backchannel_logout_uri c),
       rr_backchannel_logout_session_required = flag (cl_backchannel_logout_session_required c),
       rr_frontchannel_logout_uri = some (cl_frontchannel_logout_uri c),
       rr_frontchannel_logout_session_required = flag (cl_frontchannel_logout_session_required c),
       rr_post_logout_redirect_uris = (if logout_uris = [] then None else Some logout_uris),
       rr_tls_client_certificate_subject_dn = some (cl_tls_client_certificate_subject_dn c),
       rr_tls_client_auth_san = some (cl_tls_client_auth_san c), rr_software_id = some (cl_software_id c),
       rr_software_version = some (cl_software_version c), rr_client_id_issued_at = timestamp (cl_created_at c)\<rparr>)"

section \<open>The endpoints\<close>

text \<open>\<open>POST /admin/clients/register\<close>: identifier and secret of the new client.\<close>
definition register_client_endpoint ::
  "env \<Rightarrow> registrar \<Rightarrow> instant \<Rightarrow> client_draw \<Rightarrow> client_registration \<Rightarrow> (string \<times> string) act" where
  "register_client_endpoint E R now dr reg0 s =
     andThen (\<lambda>s. (apply_software_statement E R now reg0 (sv_db s), s)) (\<lambda>reg.
     andThen (ret (validate_grant_types (cr_grant_types reg))) (\<lambda>_.
     andThen (ret (validate_token_endpoint_auth_method (cr_token_endpoint_auth_method reg) (cr_grant_types reg))) (\<lambda>_.
     andThen (ret (ensure (cr_redirect_uris reg \<noteq> []) (invalid_request ''redirect_uris must not be empty''))) (\<lambda>_.
     andThen (ret (all_ok valid_redirect_uri (cr_redirect_uris reg))) (\<lambda>_.
     andThen (ret (ensure (trim (cr_scope reg) \<noteq> []) (invalid_request ''scope must not be empty''))) (\<lambda>_.
     andThen (ret (validate_san_auth_method reg)) (\<lambda>_.
     andThen (send_register E now dr reg) (\<lambda>c. ret (Inr (cl_client_id c, cl_client_secret c)))))))))) s"

definition dynamic_register ::
  "env \<Rightarrow> registrar \<Rightarrow> instant \<Rightarrow> client_draw \<Rightarrow> client_registration \<Rightarrow> registration_response act" where
  "dynamic_register E R now dr reg0 =
     andThen (ret (ensure (parse_registration_enabled (rg_enabled_var R)) (access_denied ''Dynamic client registration is disabled''))) (\<lambda>_.
     andThen (\<lambda>s. (apply_software_statement E R now (clear_self_asserted_software_metadata (reg0\<lparr>cr_allowed_actors := None\<rparr>)) (sv_db s), s)) (\<lambda>reg1.
     let reg = normalise_registration reg1 in
     andThen (ret (validate_registration reg)) (\<lambda>_.
     andThen (send_register E now dr reg) (\<lambda>c. ret (Inr (from_client (en_libs E) c (oc_issuer (en_oidc E))))))))"

definition authenticate_registration_token :: "instant \<Rightarrow> http_request \<Rightarrow> string \<Rightarrow> client act" where
  "authenticate_registration_token now r client_id =
     andThen (ret (ok_or (bearer_token r) (invalid_client ''Missing registration_access_token''))) (\<lambda>token.
     andThen (send_get_client now client_id) (\<lambda>c.
     andThen (ret (ensure (cl_registration_access_token c \<noteq> []) (invalid_client ''Client has no registration_access_token''))) (\<lambda>_.
     andThen (ret (ensure (cl_registration_access_token c = token) (invalid_client ''Invalid registration_access_token''))) (\<lambda>_.
       ret (Inr c)))))"

definition read_client_configuration :: "env \<Rightarrow> instant \<Rightarrow> http_request \<Rightarrow> string \<Rightarrow> registration_response act" where
  "read_client_configuration E now r client_id =
     andThen (authenticate_registration_token now r client_id) (\<lambda>c. ret (Inr (from_client (en_libs E) c (oc_issuer (en_oidc E)))))"

definition updated_client :: "libs \<Rightarrow> instant \<Rightarrow> client_registration \<Rightarrow> client \<Rightarrow> client" where
  "updated_client L now body c =
     c\<lparr>cl_name := cr_client_name body, cl_redirect_uris := strings_to_json L (cr_redirect_uris body),
       cl_grant_types := strings_to_json L (cr_grant_types body), cl_scope := cr_scope body,
       cl_token_endpoint_auth_method := cr_token_endpoint_auth_method body,
       cl_response_types := strings_to_json L (cr_response_types body), cl_contacts := strings_to_json L (cr_contacts body),
       cl_logo_uri := unwrap_or (cr_logo_uri body) [], cl_client_uri := unwrap_or (cr_client_uri body) [],
       cl_policy_uri := unwrap_or (cr_policy_uri body) [], cl_tos_uri := unwrap_or (cr_tos_uri body) [],
       cl_jwks := unwrap_or (map_option (json_to_string L) (cr_jwks body)) [], cl_jwks_uri := unwrap_or (cr_jwks_uri body) [],
       cl_backchannel_logout_uri := unwrap_or (cr_backchannel_logout_uri body) [],
       cl_backchannel_logout_session_required := unwrap_or (cr_backchannel_logout_session_required body) False,
       cl_frontchannel_logout_uri := unwrap_or (cr_frontchannel_logout_uri body) [],
       cl_frontchannel_logout_session_required := unwrap_or (cr_frontchannel_logout_session_required body) False,
       cl_post_logout_redirect_uris := unwrap_or (map_option (strings_to_json L) (cr_post_logout_redirect_uris body)) [],
       cl_tls_client_certificate_subject_dn := unwrap_or (cr_tls_client_certificate_subject_dn body) [],
       cl_tls_client_auth_san := unwrap_or (cr_tls_client_auth_san body) [],
       cl_software_id := unwrap_or (cr_software_id body) (cl_software_id c),
       cl_software_version := unwrap_or (cr_software_version body) (cl_software_version c), cl_updated_at := now\<rparr>"

definition update_client_configuration ::
  "env \<Rightarrow> registrar \<Rightarrow> instant \<Rightarrow> http_request \<Rightarrow> string \<Rightarrow> client_registration \<Rightarrow> registration_response act" where
  "update_client_configuration E R now r client_id body0 =
     andThen (authenticate_registration_token now r client_id) (\<lambda>c.
     andThen (\<lambda>s. (apply_software_statement E R now (clear_self_asserted_software_metadata body0) (sv_db s), s)) (\<lambda>body1.
     let body = normalise_registration body1 in
     andThen (ret (validate_registration body)) (\<lambda>_.
     andThen (send_update_client now (updated_client (en_libs E) now body c)) (\<lambda>u.
       ret (Inr (from_client (en_libs E) u (oc_issuer (en_oidc E))))))))"

definition delete_client_configuration :: "instant \<Rightarrow> http_request \<Rightarrow> string \<Rightarrow> unit act" where
  "delete_client_configuration now r client_id =
     andThen (authenticate_registration_token now r client_id) (\<lambda>_. send_delete_client client_id)"

end
