(* ===== verification/Recent_Events.thy ===== *)
theory Recent_Events
  imports Token_Handlers
begin

text \<open>
  The in-memory stores behind the event endpoints (\<open>handlers/events.rs\<close>): the idempotency store, the
  ring buffer of recent events, and the ingestion endpoint in front of them.  The event bus is a
  list of published envelopes; the Redis backend of the ring buffer is in \<open>Redis_Cache\<close>.
\<close>

section \<open>The ring buffer\<close>

record recent_events_store =
  rs_capacity :: nat
  rs_inner :: "json list"

definition recent_push :: "json \<Rightarrow> recent_events_store \<Rightarrow> recent_events_store" where
  "recent_push v st =
     (let kept = (if rs_capacity st \<le> length (rs_inner st) then tl (rs_inner st) else rs_inner st) in st\<lparr>rs_inner := kept @ [v]\<rparr>)"

definition recent_snapshot :: "recent_events_store \<Rightarrow> json list" where
  "recent_snapshot st = rev (rs_inner st)"

definition recent_events :: "list_query \<Rightarrow> recent_events_store \<Rightarrow> json page" where
  "recent_events q st = page_from_vec (recent_snapshot st) q"

section \<open>Idempotency\<close>

record idempotency_store =
  id_ttl :: instant
  id_max_entries :: nat
  id_inner :: "string \<rightharpoonup> instant"

definition idempotency_new :: "instant \<Rightarrow> idempotency_store" where
  "idempotency_new ttl = \<lparr>id_ttl = ttl, id_max_entries = 100000, id_inner = Map.empty\<rparr>"

definition with_max_entries :: "nat \<Rightarrow> idempotency_store \<Rightarrow> idempotency_store" where
  "with_max_entries n st = st\<lparr>id_max_entries := n\<rparr>"

definition live_keys :: "instant \<Rightarrow> idempotency_store \<Rightarrow> string \<rightharpoonup> instant" where
  "live_keys now st = (\<lambda>k. case id_inner st k of Some ts \<Rightarrow> if now - ts \<le> id_ttl st then Some ts else None | None \<Rightarrow> None)"

text \<open>\<open>True\<close> for a key that is already there; otherwise the key is recorded, after a full store is cleared.\<close>
definition is_duplicate_and_record :: "instant \<Rightarrow> string \<Rightarrow> idempotency_store \<Rightarrow> bool \<times> idempotency_store" where
  "is_duplicate_and_record now key st =
     (let live = live_keys now st in
      if live key \<noteq> None then (True, st\<lparr>id_inner := live\<rparr>)
      else let room = (if id_max_entries st \<le> card (dom live) then Map.empty else live) in
        (False, st\<lparr>id_inner := room(key \<mapsto> now)\<rparr>))"

section \<open>Ingestion\<close>

record ingest_config =
  ig_public_ingest :: bool
  ig_bearer_token :: "string option"

text \<open>The parts of an event envelope the endpoint reads, with the value it serializes to.\<close>
record event_envelope =
  ee_event_id :: string
  ee_idempotency_key :: "string option"
  ee_value :: json

definition effective_idempotency_key :: "event_envelope \<Rightarrow> string" where
  "effective_idempotency_key e =
     (case ee_idempotency_key e of Some k \<Rightarrow> if trim k \<noteq> [] then k else ee_event_id e | None \<Rightarrow> ee_event_id e)"

datatype ingest_reply = IngestRefused nat string | IngestDuplicate string string | IngestAccepted string string

record event_side =
  ev_idempotency :: idempotency_store
  ev_recent :: "recent_events_store option"
  ev_published :: "event_envelope list"

definition ingest_authorized :: "ingest_config option \<Rightarrow> http_request \<Rightarrow> ingest_reply option" where
  "ingest_authorized cfg r =
     (if (case cfg of Some c \<Rightarrow> ig_public_ingest c | None \<Rightarrow> False) then None
      else case nonempty (map_option trim (Option.bind cfg ig_bearer_token)) of
        None \<Rightarrow> Some (IngestRefused 503 ''event_ingest_auth_not_configured'')
      | Some expected \<Rightarrow> (if bearer_token r = Some expected then None else Some (IngestRefused 401 ''invalid_token'')))"

definition ingest ::
  "bool \<Rightarrow> ingest_config option \<Rightarrow> instant \<Rightarrow> http_request \<Rightarrow> event_envelope \<Rightarrow> event_side \<Rightarrow> ingest_reply \<times> event_side" where
  "ingest bus cfg now r e0 S =
     (case ingest_authorized cfg r of
        Some refusal \<Rightarrow> (refusal, S)
      | None \<Rightarrow>
          if \<not> bus then (IngestRefused 503 ''eventing_disabled'', S)
          else
            let e = (case nonempty (map_option trim (header_text r ''Idempotency-Key'')) of
                       Some k \<Rightarrow> e0\<lparr>ee_idempotency_key := Some k\<rparr> | None \<Rightarrow> e0);
                key = effective_idempotency_key e in
            (case is_duplicate_and_record now key (ev_idempotency S) of
               (True, st) \<Rightarrow> (IngestDuplicate key (ee_event_id e), S\<lparr>ev_idempotency := st\<rparr>)
             | (False, st) \<Rightarrow>
                 (IngestAccepted key (ee_event_id e),
                  S\<lparr>ev_idempotency := st, ev_recent := map_option (recent_push (ee_value e)) (ev_recent S),
                    ev_published := ev_published S @ [e]\<rparr>)))"

section \<open>Properties\<close>

lemma nonempty_trim: "nonempty (map_option trim v) = Some y \<longleftrightarrow> (\<exists>x. v = Some x \<and> y = trim x \<and> y \<noteq> [])"
  by (cases v) (auto simp: nonempty_def)

lemma nonempty_None [simp]: "nonempty None = None"
  by (simp add: nonempty_def)

lemma recent_push_bounded: "length (rs_inner st) \<le> max 1 (rs_capacity st) \<Longrightarrow> length (rs_inner (recent_push v st)) \<le> max 1 (rs_capacity st)"
  by (auto simp: recent_push_def Let_def)

lemma recent_push_suffix: "0 < rs_capacity st \<Longrightarrow> length (rs_inner st) \<le> rs_capacity st \<Longrightarrow>
   rs_inner (recent_push v st) = drop (Suc (length (rs_inner st)) - rs_capacity st) (rs_inner st @ [v])"
  by (cases "rs_inner st") (auto simp: recent_push_def Let_def)

lemma live_keys_sub: "live_keys now st k = Some ts \<Longrightarrow> id_inner st k = Some ts \<and> now - ts \<le> id_ttl st"
  by (auto simp: live_keys_def split: option.splits if_splits)

lemma duplicate_iff: "fst (is_duplicate_and_record now key st) \<longleftrightarrow> (\<exists>ts. id_inner st key = Some ts \<and> now - ts \<le> id_ttl st)"
  by (auto simp: is_duplicate_and_record_def live_keys_def Let_def split: option.splits)

lemma duplicate_keeps:
  assumes "id_inner st key = Some ts" "now - ts \<le> id_ttl st" "is_duplicate_and_record now k st = (b, st')"
    and "k = key \<or> card (dom (live_keys now st)) < id_max_entries st"
  shows "id_inner st' key = Some ts \<and> id_ttl st' = id_ttl st \<and> id_max_entries st' = id_max_entries st"
  using assms by (auto simp: is_duplicate_and_record_def live_keys_def Let_def split: if_splits)

lemma finite_live: "finite (dom (id_inner st)) \<Longrightarrow> finite (dom (live_keys now st))"
  by (rule finite_subset [of _ "dom (id_inner st)"]) (auto dest: live_keys_sub)

lemma record_bounded:
  assumes "finite (dom (id_inner st))" "card (dom (id_inner st)) \<le> max 1 (id_max_entries st)"
  shows "finite (dom (id_inner (snd (is_duplicate_and_record now k st)))) \<and>
    card (dom (id_inner (snd (is_duplicate_and_record now k st)))) \<le> max 1 (id_max_entries st)"
proof -
  let ?live = "live_keys now st"
  have f: "finite (dom ?live)" using assms(1) by (rule finite_live)
  have "dom ?live \<subseteq> dom (id_inner st)" by (auto dest: live_keys_sub)
  then have c: "card (dom ?live) \<le> max 1 (id_max_entries st)" using card_mono [OF assms(1)] assms(2) by (meson order_trans)
  show ?thesis
  proof (cases "?live k")
    case None
    then have "k \<notin> dom ?live" by auto
    show ?thesis
    proof (cases "id_max_entries st \<le> card (dom ?live)")
      case True
      then show ?thesis using None by (simp add: is_duplicate_and_record_def Let_def)
    next
      case False
      then show ?thesis using None f \<open>k \<notin> dom ?live\<close> by (simp add: is_duplicate_and_record_def Let_def)
    qed
  next
    case (Some ts)
    then show ?thesis using f c by (simp add: is_duplicate_and_record_def Let_def)
  qed
qed

text \<open>Ingestion publishes nothing unasked and nothing twice.  An envelope reaches the bus only when
  ingestion is public or the request carries the configured, non-empty bearer token; and after an
  accepted envelope, the next one with the same key is answered as a duplicate and not published, as
  long as the time to live has not passed.\<close>
theorem ingest_once:
  assumes "ingest bus cfg now r e S = (IngestAccepted key i, S')"
    and "ingest bus cfg t r' e' S' = (rep, S'')" "t - now \<le> id_ttl (ev_idempotency S)" "nonempty (map_option trim (header_text r' ''Idempotency-Key'')) = Some key"
  shows "(\<exists>c. cfg = Some c \<and> (ig_public_ingest c \<or> (\<exists>tok. ig_bearer_token c = Some tok \<and> trim tok \<noteq> [] \<and> bearer_token r = Some (trim tok)))) \<and>
    ev_published S'' = ev_published S'"
proof -
  have auth: "ingest_authorized cfg r = None"
    using assms(1) by (auto simp: ingest_def ingest_authorized_def split: option.splits if_splits)
  then have "\<exists>c. cfg = Some c \<and> (ig_public_ingest c \<or> (\<exists>tok. ig_bearer_token c = Some tok \<and> trim tok \<noteq> [] \<and> bearer_token r = Some (trim tok)))"
    by (cases cfg) (auto simp: ingest_authorized_def nonempty_trim split: if_splits option.splits)
  moreover have st: "id_inner (ev_idempotency S') key = Some now" "id_ttl (ev_idempotency S') = id_ttl (ev_idempotency S)"
    using assms(1) auth
    by (auto simp: ingest_def Let_def is_duplicate_and_record_def split: if_splits prod.splits bool.splits)
  then have dup: "fst (is_duplicate_and_record t key (ev_idempotency S'))" using assms(3) by (simp add: duplicate_iff)
  have key: "effective_idempotency_key (e'\<lparr>ee_idempotency_key := Some key\<rparr>) = key"
    using assms(4) by (auto simp: effective_idempotency_key_def nonempty_trim)
  have "ev_published S'' = ev_published S'"
  proof (cases "ingest_authorized cfg r' = None \<and> bus")
    case True
    then show ?thesis using assms(2,4) dup key
      by (cases "is_duplicate_and_record t key (ev_idempotency S')") (auto simp: ingest_def Let_def)
  next
    case False
    then show ?thesis using assms(2) by (auto simp: ingest_def split: option.splits if_splits)
  qed
  ultimately show ?thesis by blast
qed

definition feed_config :: ingest_config where
  "feed_config = \<lparr>ig_public_ingest = False, ig_bearer_token = Some ''tok''\<rparr>"

definition feed_request :: http_request where
  "feed_request = \<lparr>hr_method = ''POST'', hr_scheme = ''https'', hr_host = ''as'', hr_path = ''/events/ingest'', hr_query = [],
     hr_header = (\<lambda>k. if k = ''Authorization'' then Some (Text ''Bearer tok'') else if k = ''Idempotency-Key'' then Some (Text ''k1'') else None), hr_body = []\<rparr>"

definition feed_side :: event_side where
  "feed_side = \<lparr>ev_idempotency = idempotency_new (secs 60), ev_recent = None, ev_published = []\<rparr>"

definition feed_event :: event_envelope where
  "feed_event = \<lparr>ee_event_id = ''e1'', ee_idempotency_key = None, ee_value = JNull\<rparr>"

lemma ingest_once_witness:
  "\<exists>S' rep S''. ingest True (Some feed_config) 0 feed_request feed_event feed_side = (IngestAccepted ''k1'' ''e1'', S') \<and>
     ingest True (Some feed_config) 5 feed_request feed_event S' = (rep, S'') \<and> length (ev_published S'') = 1"
proof -
  have hdr: "bearer_token feed_request = Some ''tok''" "nonempty (map_option trim (header_text feed_request ''Idempotency-Key'')) = Some ''k1''"
    "trim ''tok'' = ''tok''" "trim ''k1'' = ''k1''" by (simp_all add: feed_request_def, code_simp+)
  have auth: "ingest_authorized (Some feed_config) feed_request = None"
    by (simp add: ingest_authorized_def feed_config_def nonempty_def hdr)
  obtain rep0 S' where run: "ingest True (Some feed_config) 0 feed_request feed_event feed_side = (rep0, S')" by (metis surj_pair)
  then have first: "rep0 = IngestAccepted ''k1'' ''e1''" "length (ev_published S') = 1"
    by (auto simp: ingest_def auth hdr Let_def effective_idempotency_key_def is_duplicate_and_record_def live_keys_def feed_side_def idempotency_new_def feed_event_def)
  obtain rep S'' where again: "ingest True (Some feed_config) 5 feed_request feed_event S' = (rep, S'')" by (metis surj_pair)
  have "ev_published S'' = ev_published S'"
    using ingest_once [OF run [unfolded first(1)] again _ hdr(2)] by (simp add: feed_side_def idempotency_new_def secs_def)
  then show ?thesis using run again first by auto
qed

end
