(* ===== verification/Admin_Console.thy ===== *)
theory Admin_Console
  imports Sql_Listing Recent_Events
begin

text \<open>
  The admin console (\<open>handlers/admin.rs\<close>, \<open>handlers/admin_extra.rs\<close>): users, clients, tokens, device
  codes, the denylist and the audit log.  Every handler works on the storage directly, writes one
  audit entry after the change, and mirrors it into the ring buffer of recent events.  Password
  hashing and the rendering of instants are parameters.
\<close>

record admin_env =
  ad_libs :: libs
  ad_rfc3339 :: "instant \<Rightarrow> string"
  ad_hash_password :: "string \<Rightarrow> string option"

text \<open>The request of an administrator: session, source address, headers, and the identifier drawn for
  the audit entry.\<close>
record admin_call =
  ax_session :: session
  ax_realip :: "string option"
  ax_request :: http_request
  ax_uuid :: string

record admin_store =
  ads_db :: db
  ads_log :: audit_log
  ads_events :: recent_events_store

text \<open>Status and JSON body; failures of the storage are answered with status 500.\<close>
datatype admin_answer = Answer nat json

type_synonym admin_act = "admin_store \<Rightarrow> admin_answer result \<times> admin_store"

definition on_db :: "(db \<Rightarrow> 'a result \<times> db) \<Rightarrow> ('a \<Rightarrow> admin_act) \<Rightarrow> admin_act" where
  "on_db op k S = (case op (ads_db S) of (r, d) \<Rightarrow> (case r of Inl e \<Rightarrow> (Inl e, S\<lparr>ads_db := d\<rparr>) | Inr x \<Rightarrow> k x (S\<lparr>ads_db := d\<rparr>)))"

definition answer :: "nat \<Rightarrow> json \<Rightarrow> admin_act" where
  "answer status body S = (Inr (Answer status body), S)"

definition refusal :: "nat \<Rightarrow> string \<Rightarrow> string \<Rightarrow> admin_act" where
  "refusal status err desc = answer status (JObj [(''error'', JStr err), (''error_description'', JStr desc)])"

definition not_found :: "string \<Rightarrow> admin_act" where
  "not_found what = answer 404 (JObj [(''error'', JStr (what @ '' not found''))])"

section \<open>The audit trail\<close>

definition build_audit :: "admin_env \<Rightarrow> admin_call \<Rightarrow> instant \<Rightarrow> string \<Rightarrow> string \<Rightarrow> string \<Rightarrow> json \<Rightarrow> audit_log_entry" where
  "build_audit V C now action kind target metadata =
     with_metadata_json (ad_libs V) metadata (with_request_meta (unwrap_or (ax_realip C) []) (unwrap_or (header_text (ax_request C) ''User-Agent'') [])
       (with_target kind target (audit_new (ax_uuid C) now (unwrap_or (session_str (ax_session C) ''user_id'') [])
         (unwrap_or (session_str (ax_session C) ''email'') []) action)))"

definition audit_envelope :: "admin_env \<Rightarrow> audit_log_entry \<Rightarrow> json" where
  "audit_envelope V e =
     JObj [(''event_type'', JStr (au_action e)), (''source'', JStr ''admin''), (''idempotency_key'', JStr (au_id e)),
       (''received_at'', JStr (ad_rfc3339 V (au_created_at e))), (''actor_id'', JStr (au_actor_id e)), (''actor_email'', JStr (au_actor_email e)),
       (''target_kind'', JStr (au_target_kind e)), (''target_id'', JStr (au_target_id e)),
       (''metadata'', unwrap_or (json_from_str (ad_libs V) (au_metadata e)) (JStr (au_metadata e)))]"

definition record_audit :: "admin_env \<Rightarrow> audit_log_entry \<Rightarrow> admin_store \<Rightarrow> admin_store" where
  "record_audit V e S =
     S\<lparr>ads_log := snd (write_audit_log e (ads_log S)), ads_events := recent_push (audit_envelope V e) (ads_events S)\<rparr>"

text \<open>The end of every handler: the entry, then the answer.\<close>
definition audited :: "admin_env \<Rightarrow> admin_call \<Rightarrow> instant \<Rightarrow> string \<Rightarrow> string \<Rightarrow> string \<Rightarrow> json \<Rightarrow> nat \<Rightarrow> json \<Rightarrow> admin_act" where
  "audited V C now action kind target metadata status body S =
     answer status body (record_audit V (build_audit V C now action kind target metadata) S)"

section \<open>Users\<close>

record create_user_request =
  cu_username :: string
  cu_email :: string
  cu_password :: string
  cu_role :: "string option"
  cu_enabled :: "bool option"

definition user_value :: "admin_env \<Rightarrow> user \<Rightarrow> json" where
  "user_value V u =
     JObj [(''id'', JStr (us_id u)), (''username'', JStr (us_username u)), (''email'', JStr (us_email u)), (''role'', JStr (us_role u)),
       (''enabled'', JBool (us_enabled u)), (''created_at'', JStr (ad_rfc3339 V (us_created_at u))), (''updated_at'', JStr (ad_rfc3339 V (us_updated_at u)))]"

definition known_role :: "string \<Rightarrow> bool" where
  "known_role r = (r = ''admin'' \<or> r = ''user'')"

definition with_role :: "string option \<Rightarrow> user \<Rightarrow> user" where
  "with_role r u = (case r of Some v \<Rightarrow> if known_role v then u\<lparr>us_role := v\<rparr> else u | None \<Rightarrow> u)"

definition with_enabled :: "bool option \<Rightarrow> user \<Rightarrow> user" where
  "with_enabled b u = (case b of Some v \<Rightarrow> u\<lparr>us_enabled := v\<rparr> | None \<Rightarrow> u)"

definition json_opt_str :: "string option \<Rightarrow> json" where
  "json_opt_str v = (case v of Some s \<Rightarrow> JStr s | None \<Rightarrow> JNull)"

definition json_opt_bool :: "bool option \<Rightarrow> json" where
  "json_opt_bool v = (case v of Some b \<Rightarrow> JBool b | None \<Rightarrow> JNull)"

definition admin_create_user :: "admin_env \<Rightarrow> admin_call \<Rightarrow> instant \<Rightarrow> string \<Rightarrow> create_user_request \<Rightarrow> admin_act" where
  "admin_create_user V C now uuid b S =
     (if cu_username b = [] \<or> cu_email b = [] \<or> cu_password b = [] then
        refusal 400 ''invalid_request'' ''username, email, password are required'' S
      else if get_user_by_username (cu_username b) (ads_db S) \<noteq> None then
        refusal 409 ''already_exists'' ''username already registered'' S
      else case ad_hash_password V (cu_password b) of
        None \<Rightarrow> (Inl (error_new ''internal'' (Some ''failed to hash password'')), S)
      | Some h \<Rightarrow>
          let u = with_enabled (cu_enabled b) (with_role (cu_role b) (user_new now uuid (cu_username b) h (cu_email b))) in
          on_db (save_user u) (\<lambda>_.
            audited V C now ''user.create'' ''user'' (us_id u)
              (JObj [(''username'', JStr (us_username u)), (''email'', JStr (us_email u)), (''role'', JStr (us_role u)), (''enabled'', JBool (us_enabled u))])
              201 (user_value V u)) S)"

record update_user_request =
  uu_email :: "string option"
  uu_role :: "string option"
  uu_enabled :: "bool option"

definition admin_update_user :: "admin_env \<Rightarrow> admin_call \<Rightarrow> instant \<Rightarrow> string \<Rightarrow> update_user_request \<Rightarrow> admin_act" where
  "admin_update_user V C now uid b S =
     (case get_user_by_id uid (ads_db S) of
        None \<Rightarrow> not_found ''user'' S
      | Some u0 \<Rightarrow>
          let u = (with_enabled (uu_enabled b) (with_role (uu_role b) (u0\<lparr>us_email := unwrap_or (uu_email b) (us_email u0)\<rparr>)))\<lparr>us_updated_at := now\<rparr> in
          on_db (update_user u) (\<lambda>_.
            audited V C now ''user.update'' ''user'' (us_id u)
              (JObj [(''email'', json_opt_str (uu_email b)), (''role'', json_opt_str (uu_role b)), (''enabled'', json_opt_bool (uu_enabled b))])
              200 (user_value V u)) S)"

definition admin_delete_user :: "admin_env \<Rightarrow> admin_call \<Rightarrow> instant \<Rightarrow> string \<Rightarrow> admin_act" where
  "admin_delete_user V C now uid S =
     (if get_user_by_id uid (ads_db S) = None then not_found ''user'' S
      else on_db (delete_user uid) (\<lambda>_.
        on_db (revoke_tokens_by_user_id uid) (\<lambda>_.
          audited V C now ''user.delete'' ''user'' uid (JObj []) 200 (JObj [(''message'', JStr ''User deleted'')]))) S)"

text \<open>Revocations whose outcome the handler ignores.\<close>
definition also_revoke :: "bool \<Rightarrow> (db \<Rightarrow> nat result \<times> db) \<Rightarrow> admin_act \<Rightarrow> admin_act" where
  "also_revoke b op k S = k (if b then S\<lparr>ads_db := snd (op (ads_db S))\<rparr> else S)"

definition admin_set_user_enabled :: "admin_env \<Rightarrow> admin_call \<Rightarrow> instant \<Rightarrow> string \<Rightarrow> bool \<Rightarrow> admin_act" where
  "admin_set_user_enabled V C now uid b =
     on_db (set_user_enabled now uid b) (\<lambda>_.
       also_revoke (\<not> b) (revoke_tokens_by_user_id uid)
         (audited V C now (if b then ''user.enable'' else ''user.disable'') ''user'' uid (JObj [(''enabled'', JBool b)]) 200 (JObj [(''enabled'', JBool b)])))"

definition admin_set_user_role :: "admin_env \<Rightarrow> admin_call \<Rightarrow> instant \<Rightarrow> string \<Rightarrow> string \<Rightarrow> admin_act" where
  "admin_set_user_role V C now uid role =
     (if \<not> known_role role then refusal 400 ''invalid_request'' (''role must be '' @ [CHR 0x27] @ ''admin'' @ [CHR 0x27] @ '' or '' @ [CHR 0x27] @ ''user'' @ [CHR 0x27])
      else on_db (set_user_role now uid role) (\<lambda>_.
        audited V C now ''user.set_role'' ''user'' uid (JObj [(''role'', JStr role)]) 200 (JObj [(''role'', JStr role)])))"

definition admin_reset_password :: "admin_env \<Rightarrow> admin_call \<Rightarrow> instant \<Rightarrow> string \<Rightarrow> string \<Rightarrow> admin_act" where
  "admin_reset_password V C now uid password S =
     (if length password < 8 then refusal 400 ''weak_password'' ''password must be at least 8 characters'' S
      else case ad_hash_password V password of
        None \<Rightarrow> (Inl (error_new ''internal'' (Some ''failed to hash password'')), S)
      | Some h \<Rightarrow>
          on_db (set_user_password_hash now uid h) (\<lambda>_.
            also_revoke True (revoke_tokens_by_user_id uid)
              (audited V C now ''user.reset_password'' ''user'' uid (JObj []) 200 (JObj [(''message'', JStr ''Password reset'')]))) S)"

section \<open>Clients\<close>

record create_client_request =
  cq_name :: string
  cq_client_id :: "string option"
  cq_client_secret :: "string option"
  cq_redirect_uris :: "string list"
  cq_grant_types :: "string list"
  cq_scope :: string
  cq_token_endpoint_auth_method :: string

definition uuid_secret :: "string \<Rightarrow> string" where
  "uuid_secret uuid = filter (\<lambda>c. c \<noteq> CHR ''-'') uuid"

text \<open>\<open>uuid\<close> is the row identifier; \<open>uuid1\<close> and \<open>uuid2\<close> stand in for a missing identifier and secret.\<close>
definition created_client :: "libs \<Rightarrow> instant \<Rightarrow> string \<Rightarrow> string \<Rightarrow> string \<Rightarrow> create_client_request \<Rightarrow> client" where
  "created_client L now uuid uuid1 uuid2 b =
     (let cid = unwrap_or (nonempty (cq_client_id b)) (''client-'' @ take 12 uuid1);
          secret = (if cq_token_endpoint_auth_method b = ''none'' then [] else unwrap_or (nonempty (cq_client_secret b)) (uuid_secret uuid2));
          grants = (if cq_grant_types b = [] then [''authorization_code'', ''refresh_token''] else cq_grant_types b) in
      (client_new L now uuid cid secret (cq_redirect_uris b) grants (cq_scope b) (cq_name b))
        \<lparr>cl_token_endpoint_auth_method := cq_token_endpoint_auth_method b\<rparr>)"

definition json_strs :: "string list \<Rightarrow> json" where
  "json_strs ss = JArr (map JStr ss)"

definition created_client_value :: "admin_env \<Rightarrow> client \<Rightarrow> json" where
  "created_client_value V c =
     JObj [(''id'', JStr (cl_id c)), (''client_id'', JStr (cl_client_id c)),
       (''client_secret'', if is_public c then JNull else JStr (cl_client_secret c)), (''name'', JStr (cl_name c)),
       (''redirect_uris'', json_strs (get_redirect_uris (ad_libs V) c)), (''grant_types'', json_strs (get_grant_types (ad_libs V) c)),
       (''scope'', JStr (cl_scope c)), (''token_endpoint_auth_method'', JStr (cl_token_endpoint_auth_method c)),
       (''enabled'', JBool (cl_enabled c)), (''created_at'', JStr (ad_rfc3339 V (cl_created_at c)))]"

definition admin_create_client ::
  "admin_env \<Rightarrow> admin_call \<Rightarrow> instant \<Rightarrow> string \<Rightarrow> string \<Rightarrow> string \<Rightarrow> create_client_request \<Rightarrow> admin_act" where
  "admin_create_client V C now uuid uuid1 uuid2 b =
     (if cq_name b = [] then refusal 400 ''invalid_request'' ''name is required''
      else let c = created_client (ad_libs V) now uuid uuid1 uuid2 b in
        on_db (save_client c) (\<lambda>_.
          audited V C now ''client.create'' ''client'' (cl_client_id c)
            (JObj [(''name'', JStr (cl_name c)), (''token_endpoint_auth_method'', JStr (cl_token_endpoint_auth_method c)),
               (''grant_types'', json_strs (get_grant_types (ad_libs V) c))])
            201 (created_client_value V c)))"

definition client_by_row_id :: "string \<Rightarrow> db \<Rightarrow> client option" where
  "client_by_row_id i d = find (\<lambda>c. cl_id c = i) (list_all_clients d)"

record update_client_request =
  uc_name :: "string option"
  uc_redirect_uris :: "string list option"
  uc_grant_types :: "string list option"
  uc_scope :: "string option"
  uc_token_endpoint_auth_method :: "string option"
  uc_enabled :: "bool option"

definition edited_client :: "libs \<Rightarrow> instant \<Rightarrow> update_client_request \<Rightarrow> client \<Rightarrow> client" where
  "edited_client L now b c =
     c\<lparr>cl_name := unwrap_or (uc_name b) (cl_name c),
       cl_redirect_uris := unwrap_or (map_option (strings_to_json L) (uc_redirect_uris b)) (cl_redirect_uris c),
       cl_grant_types := unwrap_or (map_option (strings_to_json L) (uc_grant_types b)) (cl_grant_types c),
       cl_scope := unwrap_or (uc_scope b) (cl_scope c),
       cl_token_endpoint_auth_method := unwrap_or (uc_token_endpoint_auth_method b) (cl_token_endpoint_auth_method c),
       cl_enabled := unwrap_or (uc_enabled b) (cl_enabled c), cl_updated_at := now\<rparr>"

definition admin_update_client :: "admin_env \<Rightarrow> admin_call \<Rightarrow> instant \<Rightarrow> string \<Rightarrow> update_client_request \<Rightarrow> admin_act" where
  "admin_update_client V C now i b S =
     (case client_by_row_id i (ads_db S) of
        None \<Rightarrow> not_found ''client'' S
      | Some c0 \<Rightarrow>
          let c = edited_client (ad_libs V) now b c0 in
          on_db (update_client c) (\<lambda>_.
            audited V C now ''client.update'' ''client'' (cl_client_id c)
              (JObj [(''name'', json_opt_str (uc_name b)), (''enabled'', json_opt_bool (uc_enabled b))])
              200 (JObj [(''id'', JStr (cl_id c)), (''client_id'', JStr (cl_client_id c)), (''name'', JStr (cl_name c)),
                 (''enabled'', JBool (cl_enabled c)), (''updated_at'', JStr (ad_rfc3339 V (cl_updated_at c)))])) S)"

definition admin_delete_client :: "string \<Rightarrow> admin_act" where
  "admin_delete_client i S =
     (case client_by_row_id i (ads_db S) of
        None \<Rightarrow> not_found ''client'' S
      | Some c \<Rightarrow> on_db (delete_client (cl_client_id c)) (\<lambda>_. answer 200 (JObj [(''message'', JStr ''Client deleted'')])) S)"

definition admin_set_client_enabled :: "admin_env \<Rightarrow> admin_call \<Rightarrow> instant \<Rightarrow> string \<Rightarrow> bool \<Rightarrow> admin_act" where
  "admin_set_client_enabled V C now i b S =
     (case client_by_row_id i (ads_db S) of
        None \<Rightarrow> not_found ''client'' S
      | Some c \<Rightarrow>
          on_db (set_client_enabled now (cl_client_id c) b) (\<lambda>_.
            also_revoke (\<not> b) (revoke_tokens_by_client_id (cl_client_id c))
              (audited V C now (if b then ''client.enable'' else ''client.disable'') ''client'' (cl_client_id c)
                 (JObj [(''enabled'', JBool b)]) 200 (JObj [(''enabled'', JBool b)]))) S)"

definition admin_regenerate_secret :: "admin_env \<Rightarrow> admin_call \<Rightarrow> instant \<Rightarrow> string \<Rightarrow> string \<Rightarrow> admin_act" where
  "admin_regenerate_secret V C now uuid i S =
     (case client_by_row_id i (ads_db S) of
        None \<Rightarrow> not_found ''client'' S
      | Some c \<Rightarrow>
          if is_public c then refusal 400 ''invalid_request'' ''public clients have no secret'' S
          else on_db (set_client_secret now (cl_client_id c) (uuid_secret uuid)) (\<lambda>_.
            audited V C now ''client.regenerate_secret'' ''client'' (cl_client_id c) (JObj []) 200
              (JObj [(''client_id'', JStr (cl_client_id c)), (''client_secret'', JStr (uuid_secret uuid))])) S)"

section \<open>Tokens and device codes\<close>

definition admin_revoke_token :: "string \<Rightarrow> admin_act" where
  "admin_revoke_token i =
     on_db (revoke_token_by_id i) (\<lambda>n.
       if n = 0 then answer 404 (JObj [(''error'', JStr ''token not found or already revoked'')])
       else answer 200 (JObj [(''message'', JStr ''Token revoked'')]))"

definition bulk_revoke_by_user :: "admin_env \<Rightarrow> admin_call \<Rightarrow> instant \<Rightarrow> string \<Rightarrow> admin_act" where
  "bulk_revoke_by_user V C now uid =
     on_db (revoke_tokens_by_user_id uid) (\<lambda>n.
       audited V C now ''token.bulk_revoke_by_user'' ''user'' uid (JObj [(''revoked'', JInt (int n))]) 200 (JObj [(''revoked'', JInt (int n))]))"

definition bulk_revoke_by_client :: "admin_env \<Rightarrow> admin_call \<Rightarrow> instant \<Rightarrow> string \<Rightarrow> admin_act" where
  "bulk_revoke_by_client V C now cid =
     on_db (revoke_tokens_by_client_id cid) (\<lambda>n.
       audited V C now ''token.bulk_revoke_by_client'' ''client'' cid (JObj [(''revoked'', JInt (int n))]) 200 (JObj [(''revoked'', JInt (int n))]))"

definition expire_device_code :: "instant \<Rightarrow> string \<Rightarrow> admin_act" where
  "expire_device_code now code = on_db (expire_device_authorization now code) (\<lambda>_. answer 200 (JObj [(''message'', JStr ''Device code expired'')]))"

definition token_value :: "admin_env \<Rightarrow> instant \<Rightarrow> token \<Rightarrow> json" where
  "token_value V now t =
     JObj [(''id'', JStr (tk_id t)), (''client_id'', JStr (tk_client_id t)), (''user_id'', JStr (unwrap_or (tk_user_id t) [])), (''scope'', JStr (tk_scope t)),
       (''expires_at'', JStr (ad_rfc3339 V (tk_expires_at t))), (''created_at'', JStr (ad_rfc3339 V (tk_created_at t))),
       (''revoked'', JBool (tk_revoked t)), (''expired'', JBool (token_is_expired now t))]"

definition admin_get_token :: "admin_env \<Rightarrow> instant \<Rightarrow> string \<Rightarrow> admin_act" where
  "admin_get_token V now i S =
     (case find (\<lambda>t. tk_id t = i) (list_all_tokens (ads_db S)) of
        None \<Rightarrow> not_found ''token'' S
      | Some t \<Rightarrow> answer 200 (token_value V now t) S)"

definition admin_get_user :: "admin_env \<Rightarrow> string \<Rightarrow> admin_act" where
  "admin_get_user V uid S =
     (case get_user_by_id uid (ads_db S) of
        None \<Rightarrow> not_found ''user'' S
      | Some u \<Rightarrow> answer 200 (JObj [(''id'', JStr (us_id u)), (''username'', JStr (us_username u)), (''email'', JStr (us_email u)),
          (''role'', JStr (us_role u)), (''enabled'', JBool (us_enabled u)), (''created_at'', JStr (ad_rfc3339 V (us_created_at u)))]) S)"

section \<open>The dashboard\<close>

record dashboard_summary =
  ds_total_clients :: nat
  ds_public_clients :: nat
  ds_confidential_clients :: nat
  ds_total_users :: nat
  ds_enabled_users :: nat
  ds_total_tokens :: nat
  ds_active_tokens :: nat
  ds_revoked_tokens :: nat
  ds_expired_tokens :: nat
  ds_pending_device_codes :: nat

definition dashboard :: "instant \<Rightarrow> db \<Rightarrow> dashboard_summary" where
  "dashboard now d =
     (let clients = list_all_clients d; users = list_all_users d; tokens = list_all_tokens d; devices = list_all_device_authorizations d;
          public = length (filter is_public clients) in
      \<lparr>ds_total_clients = length clients, ds_public_clients = public, ds_confidential_clients = length clients - public,
       ds_total_users = length users, ds_enabled_users = length (filter us_enabled users), ds_total_tokens = length tokens,
       ds_active_tokens = length (filter (token_is_valid now) tokens), ds_revoked_tokens = length (filter tk_revoked tokens),
       ds_expired_tokens = length (filter (\<lambda>t. token_is_expired now t \<and> \<not> tk_revoked t) tokens),
       ds_pending_device_codes = length (filter (\<lambda>v. \<not> da_approved v \<and> \<not> da_denied v \<and> \<not> device_is_expired now v) devices)\<rparr>)"

section \<open>The denylist\<close>

definition allowed_denylist_kinds :: "string list" where
  "allowed_denylist_kinds = [''ip'', ''user_id'', ''username'', ''email'', ''client_id'']"

record add_denylist_request =
  dq_kind :: string
  dq_value :: string
  dq_reason :: string
  dq_expires_at :: "instant option"

definition denylist_entry_new :: "instant \<Rightarrow> string \<Rightarrow> string \<Rightarrow> string \<Rightarrow> string \<Rightarrow> string \<Rightarrow> denylist_entry" where
  "denylist_entry_new now uuid kind v reason created_by =
     \<lparr>dl_id = uuid, dl_kind = kind, dl_value = v, dl_reason = reason, dl_created_by = created_by, dl_created_at = now, dl_expires_at = None\<rparr>"

definition denylist_value :: "admin_env \<Rightarrow> instant \<Rightarrow> denylist_entry \<Rightarrow> json" where
  "denylist_value V now e =
     JObj [(''id'', JStr (dl_id e)), (''kind'', JStr (dl_kind e)), (''value'', JStr (dl_value e)), (''reason'', JStr (dl_reason e)),
       (''created_by'', JStr (dl_created_by e)), (''created_at'', JStr (ad_rfc3339 V (dl_created_at e))),
       (''expires_at'', json_opt_str (map_option (ad_rfc3339 V) (dl_expires_at e))), (''active'', JBool (denylist_is_active now e))]"

definition add_denylist :: "admin_env \<Rightarrow> admin_call \<Rightarrow> instant \<Rightarrow> string \<Rightarrow> add_denylist_request \<Rightarrow> admin_act" where
  "add_denylist V C now uuid b =
     (let kind = to_lowercase (dq_kind b) in
      if kind \<notin> set allowed_denylist_kinds then
        refusal 400 ''invalid_request'' ''kind must be one of: ip, user_id, username, email, client_id''
      else if trim (dq_value b) = [] then refusal 400 ''invalid_request'' ''value is required''
      else let e = (denylist_entry_new now uuid kind (trim (dq_value b)) (dq_reason b) (unwrap_or (session_str (ax_session C) ''email'') []))
                     \<lparr>dl_expires_at := dq_expires_at b\<rparr> in
        on_db (add_denylist_entry e) (\<lambda>_.
          audited V C now ''denylist.add'' ''denylist'' (dl_id e)
            (JObj [(''kind'', JStr (dl_kind e)), (''value'', JStr (dl_value e)), (''reason'', JStr (dl_reason e))]) 201 (denylist_value V now e)))"

definition remove_denylist :: "admin_env \<Rightarrow> admin_call \<Rightarrow> instant \<Rightarrow> string \<Rightarrow> admin_act" where
  "remove_denylist V C now i =
     on_db (remove_denylist_entry i) (\<lambda>_.
       audited V C now ''denylist.remove'' ''denylist'' i (JObj []) 200 (JObj [(''message'', JStr ''Denylist entry removed'')]))"

section \<open>Listings\<close>

definition page_value :: "('a \<Rightarrow> json) \<Rightarrow> 'a page \<Rightarrow> json" where
  "page_value f p =
     JObj [(''items'', JArr (map f (pg_items p))), (''total'', JInt (int (pg_total p))), (''limit'', JInt (uint (pg_limit p))),
       (''offset'', JInt (uint (pg_offset p)))]"

definition client_info_value :: "admin_env \<Rightarrow> client \<Rightarrow> json" where
  "client_info_value V c =
     JObj [(''id'', JStr (cl_id c)), (''client_id'', JStr (cl_client_id c)), (''name'', JStr (cl_name c)), (''scope'', JStr (cl_scope c)),
       (''grant_types'', JStr (cl_grant_types c)), (''token_endpoint_auth_method'', JStr (cl_token_endpoint_auth_method c)),
       (''redirect_uris'', JStr (cl_redirect_uris c)), (''created_at'', JStr (ad_rfc3339 V (cl_created_at c)))]"

definition client_detail_value :: "admin_env \<Rightarrow> client \<Rightarrow> json" where
  "client_detail_value V c =
     JObj [(''id'', JStr (cl_id c)), (''client_id'', JStr (cl_client_id c)), (''name'', JStr (cl_name c)), (''scope'', JStr (cl_scope c)),
       (''grant_types'', JStr (cl_grant_types c)), (''redirect_uris'', JStr (cl_redirect_uris c)),
       (''token_endpoint_auth_method'', JStr (cl_token_endpoint_auth_method c)), (''response_types'', JStr (cl_response_types c)),
       (''contacts'', JStr (cl_contacts c)), (''logo_uri'', JStr (cl_logo_uri c)), (''client_uri'', JStr (cl_client_uri c)),
       (''policy_uri'', JStr (cl_policy_uri c)), (''tos_uri'', JStr (cl_tos_uri c)), (''created_at'', JStr (ad_rfc3339 V (cl_created_at c))),
       (''updated_at'', JStr (ad_rfc3339 V (cl_updated_at c)))]"

definition user_info_value :: "admin_env \<Rightarrow> user \<Rightarrow> json" where
  "user_info_value V u =
     JObj [(''id'', JStr (us_id u)), (''username'', JStr (us_username u)), (''email'', JStr (us_email u)), (''role'', JStr (us_role u)),
       (''enabled'', JBool (us_enabled u)), (''created_at'', JStr (ad_rfc3339 V (us_created_at u)))]"

definition device_info_value :: "admin_env \<Rightarrow> instant \<Rightarrow> device_authorization \<Rightarrow> json" where
  "device_info_value V now v =
     JObj [(''id'', JStr (da_id v)), (''device_code'', JStr (da_device_code v)), (''user_code'', JStr (da_user_code v)),
       (''client_id'', JStr (da_client_id v)), (''scope'', JStr (da_scope v)), (''created_at'', JStr (ad_rfc3339 V (da_created_at v))),
       (''expires_at'', JStr (ad_rfc3339 V (da_expires_at v))), (''approved'', JBool (da_approved v)), (''denied'', JBool (da_denied v)),
       (''used'', JBool (da_used v)), (''expired'', JBool (device_is_expired now v)), (''user_id'', json_opt_str (da_user_id v))]"

definition audit_value :: "admin_env \<Rightarrow> audit_log_entry \<Rightarrow> json" where
  "audit_value V e =
     JObj [(''id'', JStr (au_id e)), (''actor_id'', JStr (au_actor_id e)), (''actor_email'', JStr (au_actor_email e)), (''action'', JStr (au_action e)),
       (''target_kind'', JStr (au_target_kind e)), (''target_id'', JStr (au_target_id e)), (''ip'', JStr (au_ip e)),
       (''user_agent'', JStr (au_user_agent e)), (''metadata'', JStr (au_metadata e)), (''created_at'', JStr (ad_rfc3339 V (au_created_at e)))]"

definition admin_list_clients :: "admin_env \<Rightarrow> list_query \<Rightarrow> admin_act" where
  "admin_list_clients V q S = answer 200 (page_value (client_info_value V) (list_clients_page q (ads_db S))) S"

definition admin_get_client :: "admin_env \<Rightarrow> string \<Rightarrow> admin_act" where
  "admin_get_client V i S =
     (case client_by_row_id i (ads_db S) of None \<Rightarrow> not_found ''client'' S | Some c \<Rightarrow> answer 200 (client_detail_value V c) S)"

definition admin_list_tokens :: "admin_env \<Rightarrow> dialect \<Rightarrow> instant \<Rightarrow> list_query \<Rightarrow> admin_act" where
  "admin_list_tokens V dia now q S = answer 200 (page_value (token_value V now) (list_tokens_page dia now q (ads_db S))) S"

definition admin_list_users :: "admin_env \<Rightarrow> list_query \<Rightarrow> admin_act" where
  "admin_list_users V q S = answer 200 (page_value (user_info_value V) (list_users_page q (ads_db S))) S"

definition admin_list_devices :: "admin_env \<Rightarrow> instant \<Rightarrow> list_query \<Rightarrow> admin_act" where
  "admin_list_devices V now q S =
     answer 200 (page_value (device_info_value V now) (page_from_vec (list_all_device_authorizations (ads_db S)) q)) S"

definition admin_list_denylist :: "admin_env \<Rightarrow> instant \<Rightarrow> list_query \<Rightarrow> admin_act" where
  "admin_list_denylist V now q S = answer 200 (page_value (denylist_value V now) (list_denylist q (ads_db S))) S"

definition admin_list_audit_log :: "admin_env \<Rightarrow> list_query \<Rightarrow> admin_act" where
  "admin_list_audit_log V q S = answer 200 (page_value (audit_value V) (list_audit_log q (ads_log S))) S"

section \<open>The routes\<close>

text \<open>The requests of the console that can change something, as the server routes them.\<close>
datatype admin_request =
    CreateUserRq string create_user_request
  | UpdateUserRq string update_user_request
  | DeleteUserRq string
  | SetUserEnabledRq string bool
  | SetUserRoleRq string string
  | ResetPasswordRq string string
  | CreateClientRq string string string create_client_request
  | UpdateClientRq string update_client_request
  | DeleteClientRq string
  | SetClientEnabledRq string bool
  | RegenerateSecretRq string string
  | RevokeTokenRq string
  | BulkRevokeUserRq string
  | BulkRevokeClientRq string
  | ExpireDeviceRq string
  | AddDenylistRq string add_denylist_request
  | RemoveDenylistRq string

fun admin_serve :: "admin_env \<Rightarrow> admin_call \<Rightarrow> instant \<Rightarrow> admin_request \<Rightarrow> admin_act" where
  "admin_serve V C now (CreateUserRq uuid b) = admin_create_user V C now uuid b"
| "admin_serve V C now (UpdateUserRq uid b) = admin_update_user V C now uid b"
| "admin_serve V C now (DeleteUserRq uid) = admin_delete_user V C now uid"
| "admin_serve V C now (SetUserEnabledRq uid b) = admin_set_user_enabled V C now uid b"
| "admin_serve V C now (SetUserRoleRq uid role) = admin_set_user_role V C now uid role"
| "admin_serve V C now (ResetPasswordRq uid p) = admin_reset_password V C now uid p"
| "admin_serve V C now (CreateClientRq uuid uuid1 uuid2 b) = admin_create_client V C now uuid uuid1 uuid2 b"
| "admin_serve V C now (UpdateClientRq i b) = admin_update_client V C now i b"
| "admin_serve V C now (DeleteClientRq i) = admin_delete_client i"
| "admin_serve V C now (SetClientEnabledRq i b) = admin_set_client_enabled V C now i b"
| "admin_serve V C now (RegenerateSecretRq uuid i) = admin_regenerate_secret V C now uuid i"
| "admin_serve V C now (RevokeTokenRq i) = admin_revoke_token i"
| "admin_serve V C now (BulkRevokeUserRq uid) = bulk_revoke_by_user V C now uid"
| "admin_serve V C now (BulkRevokeClientRq cid) = bulk_revoke_by_client V C now cid"
| "admin_serve V C now (ExpireDeviceRq code) = expire_device_code now code"
| "admin_serve V C now (AddDenylistRq uuid b) = add_denylist V C now uuid b"
| "admin_serve V C now (RemoveDenylistRq i) = remove_denylist V C now i"

end
