(* ===== verification/Admin_Registry.thy ===== *)
theory Admin_Registry
  imports Admin_Console Key_Set
begin

text \<open>
  The registries of the administration interface: signing keys (\<open>handlers/admin_keys.rs\<close>), protected
  resources (\<open>handlers/admin_resources.rs\<close>) and trusted issuers
  (\<open>handlers/admin_trusted_issuers.rs\<close>).  Key generation, the last representable instant of the clock
  type and the rendering of instants are arguments.
\<close>

section \<open>Rotation of signing keys\<close>

record rotate_request =
  rt_algorithm :: "string option"
  rt_grace_period_hours :: "64 word option"

datatype rotate_answer = Rotated string algorithm instant "64 word" | RotateError nat string

text \<open>\<open>chrono::Duration::from_std\<close> refuses more than \<open>i64::MAX\<close> milliseconds; \<open>unwrap_or_default\<close> then
  gives the zero duration.\<close>
definition chrono_from_std :: "nat \<Rightarrow> instant" where
  "chrono_from_std s = (if s \<le> 9223372036854775 then secs (int s) else 0)"

definition rotate_kid :: "algorithm \<Rightarrow> instant \<Rightarrow> string" where
  "rotate_kid alg now = to_lowercase (algorithm_display alg) @ ''-'' @ show_int (timestamp now)"

text \<open>The answer, or \<open>None\<close> when adding the grace period overflows the clock type and the request
  panics before the key set is touched.\<close>
definition rotate_key ::
  "instant \<Rightarrow> (algorithm \<Rightarrow> bytes option) \<Rightarrow> 64 word \<Rightarrow> instant \<Rightarrow> rotate_request \<Rightarrow> key_set \<Rightarrow> rotate_answer option \<times> key_set" where
  "rotate_key last_instant generate configured now rq ks =
     (case (case rt_algorithm rq of Some s \<Rightarrow> algorithm_from_str s | None \<Rightarrow> Inr RS256) of
        Inl e \<Rightarrow> (Some (RotateError 400 e), ks)
      | Inr alg \<Rightarrow>
          let hours = unwrap_or (rt_grace_period_hours rq) configured in
          if 2 ^ 64 \<le> unat hours * 3600 then (Some (RotateError 400 ''grace_period_hours is too large''), ks)
          else (case generate alg of
              None \<Rightarrow> (Some (RotateError 500 ''Key generation failed''), ks)
            | Some material \<Rightarrow>
                let grace = chrono_from_std (unat hours * 3600);
                    new_key = \<lparr>sk_kid = rotate_kid alg now, sk_algorithm = alg, sk_key_material = material, sk_is_current = True,
                               sk_created_at = now, sk_expires_at = None\<rparr> in
                if last_instant < now + grace then (None, ks)
                else (Some (Rotated (rotate_kid alg now) alg now hours), snd (ks_prune_expired now (ks_rotate now ks new_key grace)))))"

definition key_value :: "(instant \<Rightarrow> string) \<Rightarrow> signing_key \<Rightarrow> json" where
  "key_value rfc3339 k =
     JObj [(''kid'', JStr (sk_kid k)), (''algorithm'', JStr (algorithm_display (sk_algorithm k))), (''is_current'', JBool (sk_is_current k)),
       (''created_at'', JStr (rfc3339 (sk_created_at k))),
       (''expires_at'', case sk_expires_at k of Some e \<Rightarrow> JStr (rfc3339 e) | None \<Rightarrow> JNull)]"

definition list_keys :: "(instant \<Rightarrow> string) \<Rightarrow> instant \<Rightarrow> key_set \<Rightarrow> json" where
  "list_keys rfc3339 now ks = JObj [(''keys'', JArr (map (key_value rfc3339) (ks_active_keys now ks)))]"

section \<open>Protected resources\<close>

definition protected_resource_new :: "libs \<Rightarrow> instant \<Rightarrow> string \<Rightarrow> string \<Rightarrow> string \<Rightarrow> string list \<Rightarrow> protected_resource" where
  "protected_resource_new L now uuid uri name scopes =
     \<lparr>pr_id = uuid, pr_resource_uri = uri, pr_name = name, pr_scopes = strings_to_json L scopes, pr_authorization_details_types = ''[]'',
      pr_txn_challenge_jwks_uri = [], pr_created_at = now, pr_updated_at = now\<rparr>"

record create_resource_request =
  cr_resource_uri :: string
  cr_name :: string
  cr_scopes :: "string list"
  cr_authorization_details_types :: "string list"
  cr_txn_challenge_jwks_uri :: string

definition resource_value :: "admin_env \<Rightarrow> protected_resource \<Rightarrow> json" where
  "resource_value V r =
     JObj [(''id'', JStr (pr_id r)), (''resource_uri'', JStr (pr_resource_uri r)), (''name'', JStr (pr_name r)),
       (''scopes'', json_strs (parse_string_vec (ad_libs V) (pr_scopes r))),
       (''authorization_details_types'', json_strs (parse_string_vec (ad_libs V) (pr_authorization_details_types r))),
       (''txn_challenge_jwks_uri'', JStr (pr_txn_challenge_jwks_uri r)), (''created_at'', JStr (ad_rfc3339 V (pr_created_at r))),
       (''updated_at'', JStr (ad_rfc3339 V (pr_updated_at r)))]"

definition error_value :: "oauth2_error \<Rightarrow> json" where
  "error_value e =
     JObj [(''error'', JStr (err_error e)), (''error_description'', json_opt_str (err_description e)), (''error_uri'', json_opt_str (err_uri e))]"

definition admin_list_resources :: "admin_env \<Rightarrow> admin_act" where
  "admin_list_resources V S = answer 200 (JObj [(''resources'', JArr (map (resource_value V) (list_resources (ads_db S))))]) S"

definition requested_resource :: "libs \<Rightarrow> instant \<Rightarrow> string \<Rightarrow> create_resource_request \<Rightarrow> protected_resource" where
  "requested_resource L now uuid b =
     (protected_resource_new L now uuid (cr_resource_uri b) (cr_name b) (cr_scopes b))
       \<lparr>pr_authorization_details_types := strings_to_json L (cr_authorization_details_types b),
        pr_txn_challenge_jwks_uri := cr_txn_challenge_jwks_uri b\<rparr>"

definition create_resource :: "admin_env \<Rightarrow> instant \<Rightarrow> string \<Rightarrow> create_resource_request \<Rightarrow> admin_act" where
  "create_resource V now uuid b =
     (case validate_resource_uri (ad_libs V) (cr_resource_uri b) of
        Inl e \<Rightarrow> answer 400 (error_value e)
      | Inr _ \<Rightarrow>
          if trim (cr_name b) = [] then refusal 400 ''invalid_request'' ''name is required''
          else on_db (save_resource (requested_resource (ad_libs V) now uuid b)) (\<lambda>_.
                 answer 201 (resource_value V (requested_resource (ad_libs V) now uuid b))))"

definition admin_delete_resource :: "string \<Rightarrow> admin_act" where
  "admin_delete_resource i = on_db (delete_resource i) (\<lambda>_. answer 204 JNull)"

section \<open>Trusted issuers\<close>

definition trusted_issuer_new :: "instant \<Rightarrow> string \<Rightarrow> string \<Rightarrow> string \<Rightarrow> trusted_issuer" where
  "trusted_issuer_new now uuid issuer jwks_uri =
     \<lparr>ti_id = uuid, ti_issuer = issuer, ti_jwks_uri = jwks_uri, ti_allowed_audiences = ''[]'', ti_subject_mapping = ''sub'',
      ti_jit_provision = False, ti_allowed_client_ids = ''[]'', ti_enabled = True, ti_created_at = now, ti_updated_at = now\<rparr>"

definition allowed_subject_mappings :: "string list" where
  "allowed_subject_mappings = [''sub'', ''email'']"

definition validate_jwks_uri :: "libs \<Rightarrow> string \<Rightarrow> string + unit" where
  "validate_jwks_uri L uri =
     bindR (ok_or (url_parse L uri) ''jwks_uri must be a valid URL'') (\<lambda>parsed.
     bindR (ensure (url_scheme parsed = ''https'') ''jwks_uri must use the https scheme'') (\<lambda>_.
     bindR (ensure (unwrap_or (url_host parsed) [] \<noteq> []) ''jwks_uri must include a host'') (\<lambda>_.
       ensure (url_fragment parsed = None) ''jwks_uri must not contain a fragment'')))"

record create_trusted_issuer_request =
  ci_issuer :: string
  ci_jwks_uri :: string
  ci_allowed_audiences :: "string list option"
  ci_subject_mapping :: "string option"
  ci_jit_provision :: "bool option"
  ci_allowed_client_ids :: "string list option"

definition requested_issuer :: "libs \<Rightarrow> instant \<Rightarrow> string \<Rightarrow> create_trusted_issuer_request \<Rightarrow> trusted_issuer" where
  "requested_issuer L now uuid b =
     (let t = trusted_issuer_new now uuid (ci_issuer b) (ci_jwks_uri b) in
      t\<lparr>ti_subject_mapping := unwrap_or (ci_subject_mapping b) ''sub'',
        ti_allowed_audiences := (case ci_allowed_audiences b of Some a \<Rightarrow> strings_to_json L a | None \<Rightarrow> ti_allowed_audiences t),
        ti_jit_provision := unwrap_or (ci_jit_provision b) (ti_jit_provision t),
        ti_allowed_client_ids := (case ci_allowed_client_ids b of Some a \<Rightarrow> strings_to_json L a | None \<Rightarrow> ti_allowed_client_ids t)\<rparr>)"

text \<open>\<open>serde_ts\<close> is how the serializer renders an instant.\<close>
definition trusted_issuer_value :: "(instant \<Rightarrow> string) \<Rightarrow> trusted_issuer \<Rightarrow> json" where
  "trusted_issuer_value serde_ts t =
     JObj [(''id'', JStr (ti_id t)), (''issuer'', JStr (ti_issuer t)), (''jwks_uri'', JStr (ti_jwks_uri t)),
       (''allowed_audiences'', JStr (ti_allowed_audiences t)), (''subject_mapping'', JStr (ti_subject_mapping t)),
       (''jit_provision'', JBool (ti_jit_provision t)), (''allowed_client_ids'', JStr (ti_allowed_client_ids t)),
       (''enabled'', JBool (ti_enabled t)), (''created_at'', JStr (serde_ts (ti_created_at t))), (''updated_at'', JStr (serde_ts (ti_updated_at t)))]"

definition admin_list_trusted_issuers :: "(instant \<Rightarrow> string) \<Rightarrow> admin_act" where
  "admin_list_trusted_issuers serde_ts S =
     answer 200 (JObj [(''trusted_issuers'', JArr (map (trusted_issuer_value serde_ts) (list_trusted_issuers (ads_db S))))]) S"

definition create_trusted_issuer ::
  "admin_env \<Rightarrow> (instant \<Rightarrow> string) \<Rightarrow> instant \<Rightarrow> string \<Rightarrow> create_trusted_issuer_request \<Rightarrow> admin_act" where
  "create_trusted_issuer V serde_ts now uuid b =
     (if trim (ci_issuer b) = [] \<or> trim (ci_jwks_uri b) = [] then refusal 400 ''invalid_request'' ''issuer and jwks_uri are required''
      else case validate_jwks_uri (ad_libs V) (ci_jwks_uri b) of
          Inl desc \<Rightarrow> refusal 400 ''invalid_request'' desc
        | Inr _ \<Rightarrow>
            if unwrap_or (ci_subject_mapping b) ''sub'' \<notin> set allowed_subject_mappings
            then refusal 400 ''invalid_request'' (''subject_mapping must be one of: '' @ ''sub, email'')
            else on_db (save_trusted_issuer (requested_issuer (ad_libs V) now uuid b)) (\<lambda>_.
                   answer 201 (trusted_issuer_value serde_ts (requested_issuer (ad_libs V) now uuid b))))"

definition admin_delete_trusted_issuer :: "string \<Rightarrow> admin_act" where
  "admin_delete_trusted_issuer i = on_db (delete_trusted_issuer i) (\<lambda>_. answer 200 (JObj [(''message'', JStr ''Trusted issuer deleted'')]))"

text \<open>The requests that change a registry.\<close>
datatype registry_request =
    RegisterResourceRq string create_resource_request
  | RemoveResourceRq string
  | TrustIssuerRq string create_trusted_issuer_request
  | DistrustIssuerRq string

fun registry_serve :: "admin_env \<Rightarrow> (instant \<Rightarrow> string) \<Rightarrow> instant \<Rightarrow> registry_request \<Rightarrow> admin_act" where
  "registry_serve V ts now (RegisterResourceRq uuid b) = create_resource V now uuid b"
| "registry_serve V ts now (RemoveResourceRq i) = admin_delete_resource i"
| "registry_serve V ts now (TrustIssuerRq uuid b) = create_trusted_issuer V ts now uuid b"
| "registry_serve V ts now (DistrustIssuerRq i) = admin_delete_trusted_issuer i"

end
