(* ===== verification/Discovery.thy ===== *)
theory Discovery
  imports Authorize Client_Registration Admin_Registry
begin

text \<open>
  What the server publishes about itself (\<open>crates/oauth2-actix/src/handlers/wellknown.rs\<close>): the discovery
  document, the verification keys, the metadata of protected resources and the token status list.  Parsing a PEM
  private key and encoding its public components are parameters.
\<close>

section \<open>The discovery document\<close>

definition trim_slashes :: "string \<Rightarrow> string" where
  "trim_slashes s = rev (dropWhile (\<lambda>c. c = CHR ''/'') (rev s))"

definition base_url :: "oidc_config \<Rightarrow> string" where
  "base_url oc = trim_slashes (oc_issuer oc)"

definition grant_types_supported :: "agent_config \<Rightarrow> string list" where
  "grant_types_supported ag =
     [''authorization_code'', ''client_credentials'', ''refresh_token'', ''urn:ietf:params:oauth:grant-type:device_code'',
      ''urn:ietf:params:oauth:grant-type:token-exchange'', grant_jwt_bearer] @
     (if ag_tac_enabled ag then [grant_transaction_authorization] else [])"

definition push_new :: "string list \<Rightarrow> string \<Rightarrow> string list" where
  "push_new acc ty = (if ty \<in> set acc then acc else acc @ [ty])"

definition authorization_details_types_supported :: "libs \<Rightarrow> db \<Rightarrow> string list" where
  "authorization_details_types_supported L d =
     foldl (\<lambda>acc r. foldl push_new acc (parse_string_vec L (pr_authorization_details_types r))) [''openid''] (list_resources d)"

definition id_token_algs :: "oidc_config \<Rightarrow> string list" where
  "id_token_algs oc = (if eq_ignore_case (oc_id_token_alg oc) ''RS256'' then [''RS256''] else [''HS256''])"

definition introspection_auth_methods :: "bool \<Rightarrow> string list" where
  "introspection_auth_methods public =
     (if public then [''none'', ''client_secret_basic'', ''client_secret_post''] else [''client_secret_basic'', ''client_secret_post''])"

text \<open>The members only a server with the agent profile has.\<close>
definition agent_members :: "agent_config \<Rightarrow> string \<Rightarrow> (string \<times> json) list" where
  "agent_members ag base =
     (if ag_cimd_enabled ag then [(''client_id_metadata_document_supported'', JBool True)] else []) @
     (if ag_id_jag_enabled ag
      then [(''identity_chaining_requested_token_types_supported'', json_strs [jwt_type, id_jag_type]),
            (''authorization_grant_profiles_supported'', json_strs [''urn:ietf:params:oauth:grant-profile:id-jag''])] else []) @
     (if ag_tac_enabled ag then [(''transaction_authorization_endpoint'', JStr (base @ ''/oauth/transaction_authorization''))] else []) @
     (if ag_obo_enabled ag then [(''requested_actor_parameter_supported'', JBool True)] else []) @
     (if ag_txn_tokens_enabled ag then [(''transaction_token_supported'', JBool True)] else [])"

definition openid_configuration :: "env \<Rightarrow> web \<Rightarrow> db \<Rightarrow> json" where
  "openid_configuration E W d =
     (let base = base_url (en_oidc E); ag = en_agent E in
      JObj ([(''issuer'', JStr base), (''authorization_endpoint'', JStr (base @ ''/oauth/authorize'')),
        (''token_endpoint'', JStr (base @ ''/oauth/token'')), (''end_session_endpoint'', JStr (base @ ''/oauth/logout'')),
        (''introspection_endpoint'', JStr (base @ ''/oauth/introspect'')),
        (''introspection_endpoint_auth_methods_supported'', json_strs (introspection_auth_methods (wb_public_introspection W))),
        (''revocation_endpoint'', JStr (base @ ''/oauth/revoke'')),
        (''revocation_endpoint_auth_methods_supported'', json_strs [''client_secret_basic'', ''client_secret_post'']),
        (''token_introspection_endpoint'', JStr (base @ ''/oauth/introspect'')), (''token_revocation_endpoint'', JStr (base @ ''/oauth/revoke'')),
        (''userinfo_endpoint'', JStr (base @ ''/oauth/userinfo'')), (''device_authorization_endpoint'', JStr (base @ ''/oauth/device_authorization'')),
        (''jwks_uri'', JStr (base @ ''/.well-known/jwks.json'')), (''registration_endpoint'', JStr (base @ ''/connect/register'')),
        (''scopes_supported'', json_strs [''openid'', ''profile'', ''email'', ''read'', ''write'', ''admin'']),
        (''response_types_supported'', json_strs [''code'', ''code id_token'']),
        (''grant_types_supported'', json_strs (grant_types_supported ag)),
        (''subject_types_supported'', json_strs [''public'']),
        (''id_token_signing_alg_values_supported'', json_strs (id_token_algs (en_oidc E))),
        (''token_endpoint_auth_methods_supported'', json_strs [''client_secret_basic'', ''client_secret_post'', ''client_secret_jwt'',
           ''private_key_jwt'', ''tls_client_auth'', ''self_signed_tls_client_auth'', ''tls_client_auth_san_uri'', ''tls_client_auth_san_dns'', ''none'']),
        (''claims_supported'', json_strs [''sub'', ''iss'', ''aud'', ''exp'', ''iat'', ''nonce'', ''at_hash'', ''c_hash'', ''email'',
           ''preferred_username'', ''acr'', ''amr'', ''auth_time'']),
        (''code_challenge_methods_supported'', json_strs [''S256'']), (''authorization_response_iss_parameter_supported'', JBool True),
        (''prompt_values_supported'', json_strs [''none'', ''login'', ''consent'', ''select_account'']),
        (''check_session_iframe'', JStr (base @ ''/oauth/check_session'')),
        (''backchannel_logout_supported'', JBool True), (''backchannel_logout_session_supported'', JBool True),
        (''frontchannel_logout_supported'', JBool True), (''frontchannel_logout_session_supported'', JBool True),
        (''response_modes_supported'', json_strs [''query'', ''form_post'', ''fragment'']),
        (''pushed_authorization_request_endpoint'', JStr (base @ ''/oauth/par'')), (''require_pushed_authorization_requests'', JBool False),
        (''request_parameter_supported'', JBool True), (''request_uri_parameter_supported'', JBool True),
        (''request_object_signing_alg_values_supported'', json_strs [''RS256'', ''ES256'', ''HS256'']),
        (''resource_indicators_supported'', JBool True), (''service_documentation'', JStr (base @ ''/docs'')),
        (''dpop_signing_alg_values_supported'', json_strs [''ES256'', ''RS256'']), (''tls_client_certificate_bound_access_tokens'', JBool True),
        (''mtls_endpoint_aliases'', JObj [(''token_endpoint'', JStr (base @ ''/oauth/token'')),
           (''introspection_endpoint'', JStr (base @ ''/oauth/introspect'')), (''revocation_endpoint'', JStr (base @ ''/oauth/revoke''))]),
        (''authorization_details_types_supported'', json_strs (authorization_details_types_supported (en_libs E) d)),
        (''acr_values_supported'', json_strs [''urn:mace:incommon:iap:silver'', ''urn:mace:incommon:iap:bronze''])] @ agent_members ag base))"

section \<open>The keys\<close>

text \<open>\<open>pl_utf8\<close> reads stored key material as text; \<open>pl_public\<close> gives the encoded modulus and exponent of a PEM
  private key, if it is one.\<close>
record pem_lib =
  pl_utf8 :: "bytes \<Rightarrow> string option"
  pl_public :: "string \<Rightarrow> (string \<times> string) option"

definition rsa_members :: "string \<times> string \<Rightarrow> (string \<times> json) list" where
  "rsa_members ne = [(''kty'', JStr ''RSA''), (''use'', JStr ''sig''), (''alg'', JStr ''RS256''), (''n'', JStr (fst ne)), (''e'', JStr (snd ne))]"

text \<open>The public components of a key; the messages are those of an answer 500.\<close>
definition jwk_components :: "pem_lib \<Rightarrow> signing_key \<Rightarrow> string + string \<times> string" where
  "jwk_components K k =
     bindR (ok_or (pl_utf8 K (sk_key_material k)) ''Invalid key encoding'') (\<lambda>pem.
       ok_or (pl_public K pem) ''Invalid RSA private key PEM'')"

fun jwk_entries :: "pem_lib \<Rightarrow> signing_key list \<Rightarrow> string + json list" where
  "jwk_entries K [] = Inr []"
| "jwk_entries K (k # ks) =
     (if sk_algorithm k \<noteq> RS256 then jwk_entries K ks
      else bindR (jwk_components K k) (\<lambda>ne. bindR (jwk_entries K ks) (\<lambda>es.
        Inr (JObj ((''kid'', JStr (sk_kid k)) # rsa_members ne) # es))))"

text \<open>The key of the settings, for a key set without an RSA key.\<close>
definition configured_jwk :: "pem_lib \<Rightarrow> oidc_config \<Rightarrow> string + json list" where
  "configured_jwk K oc =
     (if \<not> eq_ignore_case (oc_id_token_alg oc) ''RS256'' then Inr []
      else case oc_id_token_private_key_pem oc of
        None \<Rightarrow> Inr []
      | Some pem \<Rightarrow>
          if trim pem = [] then Inr []
          else bindR (ok_or (pl_public K pem) ''Invalid RSA private key PEM'') (\<lambda>ne.
            Inr [JObj (rsa_members ne @
              (case oc_id_token_kid oc of Some kid \<Rightarrow> if trim kid = [] then [] else [(''kid'', JStr kid)] | None \<Rightarrow> []))]))"

definition jwks :: "pem_lib \<Rightarrow> instant \<Rightarrow> key_set \<Rightarrow> oidc_config \<Rightarrow> string + json" where
  "jwks K now ks oc =
     bindR (jwk_entries K (ks_active_keys now ks)) (\<lambda>es.
     bindR (if es = [] then configured_jwk K oc else Inr es) (\<lambda>keys.
       Inr (JObj [(''keys'', JArr keys)])))"

section \<open>The keys at start-up\<close>

text \<open>Values of the environment; a PEM may spell its line breaks as a backslash and an n.\<close>
record id_token_vars =
  iv_private_key_pem :: "string option"
  iv_kid :: "string option"
  iv_alg :: "string option"

fun unescape_newlines :: "string \<Rightarrow> string" where
  "unescape_newlines (a # b # s) =
     (if a = CHR 0x5C \<and> b = CHR ''n'' then CHR 0x0A # unescape_newlines s else a # unescape_newlines (b # s))"
| "unescape_newlines s = s"

definition nonblank :: "string option \<Rightarrow> string option" where
  "nonblank v = Option.bind v (\<lambda>s. if trim s = [] then None else Some s)"

definition id_token_settings :: "id_token_vars \<Rightarrow> string \<Rightarrow> string \<Rightarrow> oidc_config" where
  "id_token_settings v issuer jwt_secret =
     (let pem = nonblank (map_option unescape_newlines (iv_private_key_pem v)) in
      \<lparr>oc_issuer = issuer, oc_jwt_secret = jwt_secret,
       oc_id_token_alg = unwrap_or (nonblank (map_option trim (iv_alg v))) (if pem \<noteq> None then ''RS256'' else ''HS256''),
       oc_id_token_kid = nonblank (map_option trim (iv_kid v)), oc_id_token_private_key_pem = pem\<rparr>)"

definition initial_keyset :: "instant \<Rightarrow> (string \<Rightarrow> bytes) \<Rightarrow> oidc_config \<Rightarrow> key_set" where
  "initial_keyset now as_bytes oc =
     \<lparr>sk_kid = ''hs256-initial'', sk_algorithm = HS256, sk_key_material = as_bytes (oc_jwt_secret oc), sk_is_current = True,
      sk_created_at = now, sk_expires_at = None\<rparr> #
     (case oc_id_token_private_key_pem oc of
        None \<Rightarrow> []
      | Some pem \<Rightarrow>
          [\<lparr>sk_kid = unwrap_or (oc_id_token_kid oc) ''rs256-initial'', sk_algorithm = RS256, sk_key_material = as_bytes pem, sk_is_current = True,
            sk_created_at = now, sk_expires_at = None\<rparr>])"

section \<open>Protected resources and token status\<close>

definition protected_resource_metadata :: "oidc_config \<Rightarrow> json" where
  "protected_resource_metadata oc =
     (let base = base_url oc in
      JObj [(''resource'', JStr base), (''authorization_servers'', json_strs [base]), (''bearer_methods_supported'', json_strs [''header'']),
        (''dpop_signing_alg_values_supported'', json_strs [''ES256'', ''RS256'']), (''tls_client_certificate_bound_access_tokens'', JBool True),
        (''token_introspection_endpoint'', JStr (base @ ''/oauth/introspect'')), (''jwks_uri'', JStr (base @ ''/.well-known/jwks.json'')),
        (''scopes_supported'', json_strs [''openid'', ''profile'', ''email'', ''read'', ''write'', ''admin''])])"

text \<open>No answer stands for 404.\<close>
definition protected_resource_metadata_for_resource :: "libs \<Rightarrow> oidc_config \<Rightarrow> string \<Rightarrow> db \<Rightarrow> json option" where
  "protected_resource_metadata_for_resource L oc i d =
     map_option (\<lambda>r. JObj ([(''resource'', JStr (pr_resource_uri r)), (''authorization_servers'', json_strs [base_url oc]),
         (''scopes_supported'', json_strs (parse_string_vec L (pr_scopes r))), (''bearer_methods_supported'', json_strs [''header'']),
         (''dpop_signing_alg_values_supported'', json_strs [''ES256'', ''RS256'']), (''tls_client_certificate_bound_access_tokens'', JBool True),
         (''authorization_details_types_supported'', json_strs (parse_string_vec L (pr_authorization_details_types r))),
         (''resource_name'', JStr (pr_name r))] @
        (if trim (pr_txn_challenge_jwks_uri r) \<noteq> []
         then [(''txn_challenge_jwks_uri'', JStr (pr_txn_challenge_jwks_uri r)),
               (''txn_challenge_signing_alg_values_supported'', json_strs [''RS256'', ''ES256''])] else [])))
       (get_resource_by_id i d)"

text \<open>The list is a constant: it does not look at the tokens.\<close>
definition token_status_list :: "oidc_config \<Rightarrow> json" where
  "token_status_list oc =
     JObj [(''status_list'', JObj [(''bits'', JInt 1), (''lst'', JStr ''eNrb2FgAAQABAAE'')]), (''issuer'', JStr (base_url oc)),
       (''status_list_uri'', JStr (base_url oc @ ''/.well-known/oauth-authorization-server/status''))]"

section \<open>The document tells what the endpoints do\<close>

text \<open>The strings a document lists under a name.\<close>
definition advertised :: "json \<Rightarrow> string \<Rightarrow> string set" where
  "advertised doc name = (case Option.bind (json_get doc name) as_array of Some vs \<Rightarrow> set (List.map_filter as_str vs) | None \<Rightarrow> {})"

lemma as_str_strs [simp]: "List.map_filter as_str (map JStr ss) = ss"
  by (induction ss) (simp_all add: List.map_filter_simps)

lemma advertised_strs: "json_get doc name = Some (json_strs ss) \<Longrightarrow> advertised doc name = set ss"
  by (simp add: advertised_def json_strs_def)

lemma configuration_members:
  "json_get (openid_configuration E W d) ''grant_types_supported'' = Some (json_strs (grant_types_supported (en_agent E)))"
  "json_get (openid_configuration E W d) ''response_modes_supported'' = Some (json_strs [''query'', ''form_post'', ''fragment''])"
  "json_get (openid_configuration E W d) ''response_types_supported'' = Some (json_strs [''code'', ''code id_token''])"
  "json_get (openid_configuration E W d) ''code_challenge_methods_supported'' = Some (json_strs [''S256''])"
  "json_get (openid_configuration E W d) ''token_endpoint_auth_methods_supported'' = Some (json_strs [''client_secret_basic'', ''client_secret_post'',
     ''client_secret_jwt'', ''private_key_jwt'', ''tls_client_auth'', ''self_signed_tls_client_auth'', ''tls_client_auth_san_uri'',
     ''tls_client_auth_san_dns'', ''none''])"
  "json_get (openid_configuration E W d) ''authorization_details_types_supported'' =
     Some (json_strs (authorization_details_types_supported (en_libs E) d))"
  by (simp_all add: openid_configuration_def Let_def)

lemmas advertised_members = configuration_members [THEN advertised_strs]

lemma dispatch_advertised:
  assumes "dispatch E now dr req cnf dp rar mt s = (Inr rep, s')"
  shows "rq_grant_type req = ''device_code'' \<or> rq_grant_type req \<in> set (grant_types_supported (en_agent E))"
proof (rule ccontr)
  assume n: "\<not> ?thesis"
  then have "rq_grant_type req = grant_transaction_authorization \<and> \<not> ag_tac_enabled (en_agent E) \<or>
    rq_grant_type req \<notin> {''authorization_code'', ''client_credentials'', ''refresh_token'', device_code_grant_type, ''device_code'', grant_jwt_bearer,
      grant_transaction_authorization, grant_token_exchange}"
    by (auto simp: grant_types_supported_def device_code_grant_type_def grant_token_exchange_def)
  then show False
  proof
    assume "rq_grant_type req = grant_transaction_authorization \<and> \<not> ag_tac_enabled (en_agent E)"
    with assms show False
      by (simp add: dispatch_def Let_def grant_transaction_authorization_def device_code_grant_type_def grant_jwt_bearer_def
          handle_transaction_authorization_grant_def require_tac_enabled_def result_simps ensure_def)
  next
    assume "rq_grant_type req \<notin> {''authorization_code'', ''client_credentials'', ''refresh_token'', device_code_grant_type, ''device_code'',
      grant_jwt_bearer, grant_transaction_authorization, grant_token_exchange}"
    with assms show False by (auto simp: dispatch_def Let_def ret_def split: if_splits)
  qed
qed

lemma set_push_new: "set (foldl push_new acc ts) = set acc \<union> set ts"
  by (induction ts arbitrary: acc) (auto simp: push_new_def)

lemma details_types_set:
  "set (authorization_details_types_supported L d) =
     {''openid''} \<union> (\<Union>r\<in>set (db_resources d). set (parse_string_vec L (pr_authorization_details_types r)))"
proof -
  have "set (foldl (\<lambda>acc r. foldl push_new acc (f r)) acc rs) = set acc \<union> (\<Union>r\<in>set rs. set (f r))" for f :: "protected_resource \<Rightarrow> string list" and acc rs
    by (induction rs arbitrary: acc) (auto simp: set_push_new)
  then show ?thesis by (simp add: authorization_details_types_supported_def list_resources_def)
qed

text \<open>The discovery document covers the service.  A grant the token endpoint answers is listed, apart from the
  short alias of the device grant; so are the response mode of every authorization request that gets past its
  redirect URI, the response type and the PKCE method of every one that is not refused on it, every authentication
  method a client can register, and every detail type a registered resource declares.\<close>
theorem discovery_covers_service:
  "(token_endpoint E now dr r s = (Inr rep, s') \<and> (\<forall>d n. rep \<noteq> UseDpopNonce d n) \<longrightarrow>
     (\<exists>req. read_token_request E r = Inr req \<and>
        (rq_grant_type req = ''device_code'' \<or> rq_grant_type req \<in> advertised (openid_configuration E W d) ''grant_types_supported''))) \<and>
   (authorize_front E W now r q s1 = (Inr ar, s2) \<longrightarrow>
     ar_mode ar \<in> advertised (openid_configuration E W d) ''response_modes_supported'') \<and>
   (request_flaw q ar = None \<and> aq_request q = None \<longrightarrow>
     (\<exists>ty. aq_response_type q = Some ty \<and> ty \<in> advertised (openid_configuration E W d) ''response_types_supported'')) \<and>
   (request_flaw q ar = None \<longrightarrow>
     (\<exists>m. ef_code_challenge_method (ar_effective ar) = Some m \<and> m \<in> advertised (openid_configuration E W d) ''code_challenge_methods_supported'')) \<and>
   (validate_token_endpoint_auth_method meth gts = Inr () \<longrightarrow>
     meth \<in> advertised (openid_configuration E W d) ''token_endpoint_auth_methods_supported'') \<and>
   (\<forall>res\<in>set (db_resources d). set (parse_string_vec (en_libs E) (pr_authorization_details_types res)) \<subseteq>
     advertised (openid_configuration E W d) ''authorization_details_types_supported'')"
proof (intro conjI impI ballI)
  assume t: "token_endpoint E now dr r s = (Inr rep, s') \<and> (\<forall>d n. rep \<noteq> UseDpopNonce d n)"
  then have e: "token_endpoint E now dr r s = (Inr rep, s')" "\<And>d n. rep \<noteq> UseDpopNonce d n" by auto
  from e show "\<exists>req. read_token_request E r = Inr req \<and>
      (rq_grant_type req = ''device_code'' \<or> rq_grant_type req \<in> advertised (openid_configuration E W d) ''grant_types_supported'')"
    unfolding advertised_members by (rule token_endpoint_parts) (auto dest: dispatch_advertised)
next
  assume "authorize_front E W now r q s1 = (Inr ar, s2)"
  then show "ar_mode ar \<in> advertised (openid_configuration E W d) ''response_modes_supported''"
    unfolding advertised_members
    by (auto simp: authorize_front_def result_simps response_mode_of_def Let_def split: if_splits prod.splits)
next
  assume "request_flaw q ar = None \<and> aq_request q = None"
  then show "\<exists>ty. aq_response_type q = Some ty \<and> ty \<in> advertised (openid_configuration E W d) ''response_types_supported''"
    unfolding advertised_members by (auto simp: request_flaw_def Let_def split: if_splits)
next
  assume "request_flaw q ar = None"
  then show "\<exists>m. ef_code_challenge_method (ar_effective ar) = Some m \<and>
      m \<in> advertised (openid_configuration E W d) ''code_challenge_methods_supported''"
    unfolding advertised_members by (auto simp: request_flaw_def Let_def split: if_splits)
next
  assume "validate_token_endpoint_auth_method meth gts = Inr ()"
  then show "meth \<in> advertised (openid_configuration E W d) ''token_endpoint_auth_methods_supported''"
    unfolding advertised_members by (auto simp: validate_token_endpoint_auth_method_def supported_auth_methods_def split: if_splits)
next
  fix res
  assume "res \<in> set (db_resources d)"
  then show "set (parse_string_vec (en_libs E) (pr_authorization_details_types res)) \<subseteq>
      advertised (openid_configuration E W d) ''authorization_details_types_supported''"
    unfolding advertised_members details_types_set by blast
qed

text \<open>The token request of the demonstration run, and a client that registers with a certificate.\<close>
lemma discovery_covers_service_witness:
  "\<forall>W. \<exists>rep s'. token_endpoint endpoint_env 5 endpoint_draw endpoint_request (service_server True) = (Inr rep, s') \<and>
     (\<exists>req. read_token_request endpoint_env endpoint_request = Inr req \<and>
        (rq_grant_type req = ''device_code'' \<or>
         rq_grant_type req \<in> advertised (openid_configuration endpoint_env W db_empty) ''grant_types_supported'')) \<and>
     ''tls_client_auth'' \<in> advertised (openid_configuration endpoint_env W db_empty) ''token_endpoint_auth_methods_supported''"
proof
  fix W
  obtain resp s' where t: "token_endpoint endpoint_env 5 endpoint_draw endpoint_request (service_server True) = (Inr (Issued resp), s')"
    using endpoint_run by blast
  moreover have "validate_token_endpoint_auth_method ''tls_client_auth'' [] = Inr ()"
    by (simp add: validate_token_endpoint_auth_method_def supported_auth_methods_def)
  ultimately show "\<exists>rep s'. token_endpoint endpoint_env 5 endpoint_draw endpoint_request (service_server True) = (Inr rep, s') \<and>
     (\<exists>req. read_token_request endpoint_env endpoint_request = Inr req \<and>
        (rq_grant_type req = ''device_code'' \<or>
         rq_grant_type req \<in> advertised (openid_configuration endpoint_env W db_empty) ''grant_types_supported'')) \<and>
     ''tls_client_auth'' \<in> advertised (openid_configuration endpoint_env W db_empty) ''token_endpoint_auth_methods_supported''"
    using discovery_covers_service [of endpoint_env 5 endpoint_draw endpoint_request "service_server True" "Issued resp" s' W db_empty
        undefined undefined undefined undefined "''tls_client_auth''" "[]"] by auto
qed

end
