(* ===== verification/Admin_Laws.thy ===== *)
theory Admin_Laws
  imports Admin_Console Browser_Login Introspection_Laws
begin

text \<open>
  Properties of the admin console: what the audit log records, that every request is a sequence of
  storage statements, which requests take tokens away, and that listings show no credential.
\<close>

section \<open>The audit trail\<close>

text \<open>The action under which a request is recorded; three requests are not recorded at all.\<close>
fun trail_action :: "admin_request \<Rightarrow> string option" where
  "trail_action (CreateUserRq _ _) = Some ''user.create''"
| "trail_action (UpdateUserRq _ _) = Some ''user.update''"
| "trail_action (DeleteUserRq _) = Some ''user.delete''"
| "trail_action (SetUserEnabledRq _ b) = Some (if b then ''user.enable'' else ''user.disable'')"
| "trail_action (SetUserRoleRq _ _) = Some ''user.set_role''"
| "trail_action (ResetPasswordRq _ _) = Some ''user.reset_password''"
| "trail_action (CreateClientRq _ _ _ _) = Some ''client.create''"
| "trail_action (UpdateClientRq _ _) = Some ''client.update''"
| "trail_action (DeleteClientRq _) = None"
| "trail_action (SetClientEnabledRq _ b) = Some (if b then ''client.enable'' else ''client.disable'')"
| "trail_action (RegenerateSecretRq _ _) = Some ''client.regenerate_secret''"
| "trail_action (RevokeTokenRq _) = None"
| "trail_action (BulkRevokeUserRq _) = Some ''token.bulk_revoke_by_user''"
| "trail_action (BulkRevokeClientRq _) = Some ''token.bulk_revoke_by_client''"
| "trail_action (ExpireDeviceRq _) = None"
| "trail_action (AddDenylistRq _ _) = Some ''denylist.add''"
| "trail_action (RemoveDenylistRq _) = Some ''denylist.remove''"

definition names_actor :: "admin_call \<Rightarrow> instant \<Rightarrow> string \<Rightarrow> audit_log_entry \<Rightarrow> bool" where
  "names_actor C now action e =
     (au_id e = ax_uuid C \<and> au_action e = action \<and> au_created_at e = now \<and>
      au_actor_id e = unwrap_or (session_str (ax_session C) ''user_id'') [] \<and>
      au_actor_email e = unwrap_or (session_str (ax_session C) ''email'') [] \<and> au_ip e = unwrap_or (ax_realip C) [])"

definition fresh_entry :: "admin_call \<Rightarrow> admin_store \<Rightarrow> bool" where
  "fresh_entry C S = (ax_uuid C \<notin> au_id ` set (ads_log S))"

text \<open>The action succeeds and leaves one entry.\<close>
definition one_entry :: "admin_call \<Rightarrow> instant \<Rightarrow> string \<Rightarrow> audit_log \<Rightarrow> admin_answer result \<times> admin_store \<Rightarrow> bool" where
  "one_entry C now a rows out =
     (\<exists>st b e. fst out = Inr (Answer st b) \<and> st < 300 \<and> ads_log (snd out) = rows @ [e] \<and> names_actor C now a e)"

definition closing :: "admin_call \<Rightarrow> instant \<Rightarrow> string \<Rightarrow> admin_act \<Rightarrow> bool" where
  "closing C now a act = (\<forall>S. fresh_entry C S \<longrightarrow> one_entry C now a (ads_log S) (act S))"

text \<open>It leaves one entry if it succeeds; a refusal or failure changes neither tables nor log.\<close>
definition untouched :: "admin_store \<Rightarrow> admin_answer result \<times> admin_store \<Rightarrow> bool" where
  "untouched S out = ((\<forall>st b. fst out = Inr (Answer st b) \<longrightarrow> 300 \<le> st) \<and> ads_log (snd out) = ads_log S \<and> ads_db (snd out) = ads_db S)"

definition traced :: "admin_call \<Rightarrow> instant \<Rightarrow> string \<Rightarrow> admin_store \<Rightarrow> admin_answer result \<times> admin_store \<Rightarrow> bool" where
  "traced C now a S out = (fresh_entry C S \<longrightarrow> one_entry C now a (ads_log S) out \<or> untouched S out)"

named_theorems trail_intros

lemma closing_audited [trail_intros]:
  assumes "st < 300"
  shows "closing C now a (audited V C now a kind target m st b)"
  unfolding closing_def
proof (intro allI impI)
  fix S
  let ?e = "build_audit V C now a kind target m"
  have e: "names_actor C now a ?e" "au_id ?e = ax_uuid C"
    by (simp_all add: build_audit_def audit_new_def with_target_def with_request_meta_def with_metadata_json_def names_actor_def)
  assume "fresh_entry C S"
  then have "snd (write_audit_log ?e (ads_log S)) = ads_log S @ [?e]"
    using e(2) by (force simp: write_audit_log_def fresh_entry_def list_ex_iff)
  then show "one_entry C now a (ads_log S) (audited V C now a kind target m st b S)"
    using assms e(1) by (simp add: one_entry_def audited_def answer_def record_audit_def)
qed

lemma closing_also [trail_intros]:
  assumes "closing C now a k"
  shows "closing C now a (also_revoke b op k)"
  unfolding closing_def
proof (intro allI impI)
  fix S
  assume "fresh_entry C S"
  then show "one_entry C now a (ads_log S) (also_revoke b op k S)"
    using assms [unfolded closing_def, rule_format, of S] assms [unfolded closing_def, rule_format, of "S\<lparr>ads_db := snd (op (ads_db S))\<rparr>"]
    by (simp add: also_revoke_def fresh_entry_def)
qed

lemma closing_on_db:
  assumes "\<And>d. \<exists>x d'. op d = (Inr x, d')" "\<And>x. closing C now a (k x)"
  shows "closing C now a (on_db op k)"
  unfolding closing_def
proof (intro allI impI)
  fix S
  assume "fresh_entry C S"
  moreover obtain x d where "op (ads_db S) = (Inr x, d)" using assms(1) by blast
  ultimately show "one_entry C now a (ads_log S) (on_db op k S)"
    using assms(2) [of x, unfolded closing_def, rule_format, of "S\<lparr>ads_db := d\<rparr>"] by (simp add: on_db_def fresh_entry_def)
qed

definition keeps_on_failure :: "(db \<Rightarrow> 'a result \<times> db) \<Rightarrow> bool" where
  "keeps_on_failure op = (\<forall>d e d'. op d = (Inl e, d') \<longrightarrow> d' = d)"

lemma traced_on_db [trail_intros]:
  assumes "keeps_on_failure op" "\<And>x. closing C now a (k x)"
  shows "traced C now a S (on_db op k S)"
  unfolding traced_def
proof (intro impI)
  assume f: "fresh_entry C S"
  obtain y d where op: "op (ads_db S) = (y, d)" by (metis surj_pair)
  show "one_entry C now a (ads_log S) (on_db op k S) \<or> untouched S (on_db op k S)"
  proof (cases y)
    case (Inl e)
    then show ?thesis using assms(1) op by (simp add: on_db_def keeps_on_failure_def untouched_def)
  next
    case (Inr x)
    then show ?thesis
      using assms(2) [of x, unfolded closing_def, rule_format, of "S\<lparr>ads_db := d\<rparr>"] op f by (simp add: on_db_def fresh_entry_def)
  qed
qed

lemma traced_refusal [trail_intros]: "300 \<le> st \<Longrightarrow> traced C now a S (refusal st err desc S)"
  by (simp add: traced_def untouched_def refusal_def answer_def)

lemma traced_not_found [trail_intros]: "traced C now a S (not_found what S)"
  by (simp add: traced_def untouched_def not_found_def answer_def)

lemma traced_failure [trail_intros]: "traced C now a S (Inl e, S)"
  by (simp add: traced_def untouched_def)

lemma revocation_succeeds [trail_intros]: "\<exists>x d'. revoke_tokens_by_user_id u d = (Inr x, d')"
  by (simp add: revoke_tokens_by_user_id_def)

lemma keeps_on_failure_storage [trail_intros]:
  "keeps_on_failure (save_user u)" "keeps_on_failure (update_user u)" "keeps_on_failure (save_client c)" "keeps_on_failure (update_client c)"
  "keeps_on_failure (delete_user i)" "keeps_on_failure (set_user_enabled now i b)" "keeps_on_failure (set_user_role now i r)"
  "keeps_on_failure (set_user_password_hash now i h)" "keeps_on_failure (set_client_enabled now i b)" "keeps_on_failure (set_client_secret now i s)"
  "keeps_on_failure (add_denylist_entry e)" "keeps_on_failure (remove_denylist_entry i)" "keeps_on_failure (revoke_tokens_by_user_id i)"
  "keeps_on_failure (revoke_tokens_by_client_id i)"
  by (simp_all add: keeps_on_failure_def save_user_def update_user_def save_client_def update_client_def delete_user_def set_user_enabled_def
      set_user_role_def set_user_password_hash_def set_client_enabled_def set_client_secret_def add_denylist_entry_def remove_denylist_entry_def
      revoke_tokens_by_user_id_def revoke_tokens_by_client_id_def checked_def Let_def)

lemmas console_defs = admin_create_user_def admin_update_user_def admin_delete_user_def admin_set_user_enabled_def admin_set_user_role_def
  admin_reset_password_def admin_create_client_def admin_update_client_def admin_set_client_enabled_def admin_regenerate_secret_def
  bulk_revoke_by_user_def bulk_revoke_by_client_def add_denylist_def remove_denylist_def

lemma serve_traced:
  assumes "trail_action rq = Some a"
  shows "traced C now a S (admin_serve V C now rq S)"
  using assms
  by (cases rq; clarsimp simp: console_defs Let_def split: option.split)
     (intro conjI impI allI trail_intros closing_on_db; simp)+

lemma serve_unrecorded: "trail_action rq = None \<Longrightarrow> ads_log (snd (admin_serve V C now rq S)) = ads_log S"
  by (cases rq) (auto simp: admin_delete_client_def admin_revoke_token_def expire_device_code_def on_db_def answer_def not_found_def
      split: option.split prod.split sum.split)

text \<open>The console leaves a trail.  Every recorded request that succeeds appends exactly one entry to the audit
  log, with the action, the instant, and the session's user as actor; a refused or failed one changes
  neither the log nor a table; the three requests without an action never touch the log.\<close>
theorem console_audited:
  assumes "admin_serve V C now rq S = (r, S')" "ax_uuid C \<notin> au_id ` set (ads_log S)"
  shows "case trail_action rq of
      None \<Rightarrow> ads_log S' = ads_log S
    | Some a \<Rightarrow> (case r of
        Inl e \<Rightarrow> ads_log S' = ads_log S \<and> ads_db S' = ads_db S
      | Inr (Answer st body) \<Rightarrow>
          if st < 300 then \<exists>e. ads_log S' = ads_log S @ [e] \<and> au_action e = a \<and> au_created_at e = now \<and>
            au_actor_id e = unwrap_or (session_str (ax_session C) ''user_id'') [] \<and>
            au_actor_email e = unwrap_or (session_str (ax_session C) ''email'') []
          else ads_log S' = ads_log S \<and> ads_db S' = ads_db S)"
proof (cases "trail_action rq")
  case None
  then show ?thesis using serve_unrecorded [of rq V C now S] assms(1) by simp
next
  case (Some a)
  have "one_entry C now a (ads_log S) (r, S') \<or> untouched S (r, S')"
    using serve_traced [OF Some, of C now S V] assms by (simp add: traced_def fresh_entry_def)
  then show ?thesis
    using Some by (auto simp: one_entry_def untouched_def names_actor_def split: sum.splits admin_answer.splits)
qed

section \<open>Storage statements\<close>

text \<open>Every state the console produces is reached by statements of the storage that satisfy \<open>P\<close>.  Deleting a
  user is the one statement that removes authorization codes, so \<open>mild\<close> predicates admit all others.\<close>
definition mild :: "(sql_cmd \<Rightarrow> bool) \<Rightarrow> bool" where
  "mild P = (\<forall>c. \<not> is_delete_user c \<longrightarrow> P c)"

definition scripted :: "(sql_cmd \<Rightarrow> bool) \<Rightarrow> admin_act \<Rightarrow> bool" where
  "scripted P act = (\<forall>S. \<exists>cs. list_all P cs \<and> ads_db (snd (act S)) = exec_all cs (ads_db S))"

definition reaches :: "(sql_cmd \<Rightarrow> bool) \<Rightarrow> admin_store \<Rightarrow> admin_answer result \<times> admin_store \<Rightarrow> bool" where
  "reaches P S out = (\<exists>cs. list_all P cs \<and> ads_db (snd out) = exec_all cs (ads_db S))"

named_theorems script_intros

text \<open>The operation is one statement of the storage.\<close>
definition statement :: "(sql_cmd \<Rightarrow> bool) \<Rightarrow> (db \<Rightarrow> 'a result \<times> db) \<Rightarrow> bool" where
  "statement P op = (\<exists>c. P c \<and> (\<forall>d. snd (op d) = exec_cmd c d))"

lemma exec_all_Cons: "exec_all (c # cs) d = exec_all cs (exec_cmd c d)"
  by (simp add: exec_all_def)

lemma reaches_same: "ads_db (snd out) = ads_db S \<Longrightarrow> reaches P S out"
  unfolding reaches_def by (rule exI [of _ "[]"]) (simp add: exec_all_def)

lemma scripted_answer [script_intros]:
  "scripted P (answer st b)" "scripted P (refusal st e desc)" "scripted P (not_found w)" "scripted P (audited V C now a kind target m st b)"
  unfolding scripted_def refusal_def not_found_def audited_def answer_def record_audit_def
  by (auto intro!: exI [of _ "[]"] simp: exec_all_def)

lemma scripted_on_db [script_intros]:
  assumes "statement P op" "\<And>x. scripted P (k x)"
  shows "scripted P (on_db op k)"
  unfolding scripted_def
proof
  fix S :: admin_store
  obtain c where c: "P c" "\<And>d. snd (op d) = exec_cmd c d" using assms(1) by (auto simp: statement_def)
  obtain y d where op: "op (ads_db S) = (y, d)" by (metis surj_pair)
  then have d: "d = exec_cmd c (ads_db S)" using c(2) [of "ads_db S"] by simp
  show "\<exists>cs. list_all P cs \<and> ads_db (snd (on_db op k S)) = exec_all cs (ads_db S)"
  proof (cases y)
    case (Inl e)
    then show ?thesis using op d c(1) by (auto simp: on_db_def exec_all_def intro!: exI [of _ "[c]"])
  next
    case (Inr x)
    obtain cs where "list_all P cs" "ads_db (snd (k x (S\<lparr>ads_db := d\<rparr>))) = exec_all cs d"
      using assms(2) [of x, unfolded scripted_def, rule_format, of "S\<lparr>ads_db := d\<rparr>"] by auto
    then show ?thesis using op Inr d c(1) by (auto simp: on_db_def exec_all_Cons intro!: exI [of _ "c # cs"])
  qed
qed

lemma scripted_also [script_intros]:
  assumes "statement P op" "scripted P k"
  shows "scripted P (also_revoke b op k)"
  unfolding scripted_def
proof
  fix S :: admin_store
  obtain c where c: "P c" "\<And>d. snd (op d) = exec_cmd c d" using assms(1) by (auto simp: statement_def)
  let ?d = "exec_cmd c (ads_db S)"
  obtain cs1 where c1: "list_all P cs1" "ads_db (snd (k S)) = exec_all cs1 (ads_db S)" using assms(2) by (auto simp: scripted_def)
  obtain cs2 where c2: "list_all P cs2" "ads_db (snd (k (S\<lparr>ads_db := ?d\<rparr>))) = exec_all cs2 ?d"
    using assms(2) [unfolded scripted_def, rule_format, of "S\<lparr>ads_db := ?d\<rparr>"] by auto
  show "\<exists>cs. list_all P cs \<and> ads_db (snd (also_revoke b op k S)) = exec_all cs (ads_db S)"
  proof (cases b)
    case True
    then show ?thesis using c c2 by (auto simp: also_revoke_def exec_all_Cons intro!: exI [of _ "c # cs2"])
  next
    case False
    then show ?thesis using c1 by (auto simp: also_revoke_def)
  qed
qed

lemma scripted_reaches: "scripted P act \<Longrightarrow> reaches P S (act S)"
  by (simp add: scripted_def reaches_def)

lemmas reaches_intros [script_intros] = scripted_reaches [OF scripted_on_db] scripted_answer(1-3) [THEN scripted_reaches]

lemma reaches_failure [script_intros]: "reaches P S (Inl e, S)"
  by (rule reaches_same) simp

lemma storage_statements [script_intros]:
  assumes "mild P"
  shows "statement P (save_user u)" "statement P (update_user u)" "statement P (set_user_enabled now i b)"
    "statement P (set_user_role now i r)" "statement P (set_user_password_hash now i h)" "statement P (save_client c)" "statement P (update_client c)"
    "statement P (delete_client i)" "statement P (set_client_enabled now i b)" "statement P (set_client_secret now i s)" "statement P (revoke_token_by_id i)"
    "statement P (revoke_tokens_by_user_id i)" "statement P (revoke_tokens_by_client_id i)" "statement P (expire_device_authorization now i)"
    "statement P (add_denylist_entry e)" "statement P (remove_denylist_entry i)" "statement P (save_resource rs)" "statement P (delete_resource i)"
    "statement P (save_trusted_issuer ti)" "statement P (delete_trusted_issuer i)"
  using assms unfolding statement_def mild_def by (metis exec_cmd.simps is_delete_user.simps)+

lemma delete_user_statement [script_intros]: "P (DeleteUser i) \<Longrightarrow> statement P (delete_user i)"
  unfolding statement_def by (metis exec_cmd.simps)

lemma scripted_if [script_intros]: "scripted P a \<Longrightarrow> scripted P b \<Longrightarrow> scripted P (if c then a else b)"
  by simp

lemma serve_reaches:
  assumes "mild P" "\<And>u. rq = DeleteUserRq u \<Longrightarrow> P (DeleteUser u)"
  shows "reaches P S (admin_serve V C now rq S)"
  using assms
  by (cases rq; clarsimp simp: console_defs admin_delete_client_def admin_revoke_token_def expire_device_code_def Let_def split: option.split)
     (intro conjI impI allI script_intros; assumption?)+

fun serve_all :: "admin_env \<Rightarrow> (admin_call \<times> instant \<times> admin_request) list \<Rightarrow> admin_store \<Rightarrow> admin_store" where
  "serve_all V [] S = S"
| "serve_all V ((C, now, rq) # rqs) S = serve_all V rqs (snd (admin_serve V C now rq S))"

lemma serve_all_reaches: "\<exists>cs. ads_db (serve_all V rqs S) = exec_all cs (ads_db S)"
proof (induction rqs arbitrary: S)
  case Nil
  show ?case by (rule exI [of _ "[]"]) (simp add: exec_all_def)
next
  case (Cons x rqs)
  obtain C now rq where x: "x = (C, now, rq)" by (cases x)
  obtain c1 where c1: "ads_db (snd (admin_serve V C now rq S)) = exec_all c1 (ads_db S)" using serve_reaches [of "\<lambda>_. True" rq S V C now] by (auto simp: reaches_def mild_def)
  obtain c2 where "ads_db (serve_all V rqs (snd (admin_serve V C now rq S))) = exec_all c2 (ads_db (snd (admin_serve V C now rq S)))"
    using Cons by blast
  then show ?case using x c1 by (auto simp: exec_all_def intro!: exI [of _ "c1 @ c2"])
qed

text \<open>No administrator breaks the tables.  Whatever requests the console serves, in whatever order, keys stay
  unique and references resolved, and a revoked token stays revoked.\<close>
theorem console_keeps_storage:
  assumes "db_wf (ads_db S)"
  shows "db_wf (ads_db (serve_all V rqs S)) \<and> revoked_ids (ads_db S) \<subseteq> revoked_ids (ads_db (serve_all V rqs S))"
proof -
  obtain cs where "ads_db (serve_all V rqs S) = exec_all cs (ads_db S)" using serve_all_reaches by blast
  then show ?thesis using assms exec_all_wf exec_all_revoked_mono by metis
qed

section \<open>Taking access away\<close>

text \<open>The tokens a request is meant to take away.\<close>
fun withdraws :: "admin_request \<Rightarrow> db \<Rightarrow> token \<Rightarrow> bool" where
  "withdraws (DeleteUserRq u) d t = (tk_user_id t = Some u)"
| "withdraws (SetUserEnabledRq u False) d t = (tk_user_id t = Some u)"
| "withdraws (ResetPasswordRq u p) d t = (tk_user_id t = Some u)"
| "withdraws (BulkRevokeUserRq u) d t = (tk_user_id t = Some u)"
| "withdraws (BulkRevokeClientRq c) d t = (tk_client_id t = c)"
| "withdraws (SetClientEnabledRq i False) d t = (\<exists>c. client_by_row_id i d = Some c \<and> tk_client_id t = cl_client_id c)"
| "withdraws (RevokeTokenRq i) d t = (tk_id t = i)"
| "withdraws _ d t = False"

lemma revoked_idsI: "x \<in> set (db_tokens d) \<Longrightarrow> tk_revoked x \<Longrightarrow> tk_id x = i \<Longrightarrow> i \<in> revoked_ids d"
  unfolding revoked_ids_def by auto

lemma revoke_rows_ids:
  assumes "t \<in> set (db_tokens d)" "P t \<or> tk_revoked t"
  shows "tk_id t \<in> revoked_ids (revoke_rows P d)"
proof -
  let ?t = "if P t then t\<lparr>tk_revoked := True\<rparr> else t"
  have "?t \<in> set (db_tokens (revoke_rows P d))" using assms(1) by (auto simp: revoke_rows_def update_where_def)
  moreover have "tk_revoked ?t" "tk_id ?t = tk_id t" using assms(2) by auto
  ultimately show ?thesis by (rule revoked_idsI)
qed

lemma revoke_rows_mono: "revoked_ids d \<subseteq> revoked_ids (revoke_rows P d)"
proof
  fix i
  assume "i \<in> revoked_ids d"
  then obtain x where "x \<in> set (db_tokens d)" "tk_revoked x" "i = tk_id x" by (auto simp: revoked_ids_def)
  then show "i \<in> revoked_ids (revoke_rows P d)" using revoke_rows_ids by blast
qed

lemma delete_user_ids:
  assumes "t \<in> set (db_tokens d)" "tk_user_id t = Some u"
  shows "tk_id t \<in> revoked_ids (snd (delete_user u d))"
proof -
  have "t\<lparr>tk_revoked := True, tk_user_id := None\<rparr> \<in> set (db_tokens (snd (delete_user u d)))"
    using assms by (force simp: delete_user_def Let_def update_where_def)
  then show ?thesis by (rule revoked_idsI) simp_all
qed

lemmas withdraw_defs = on_db_def also_revoke_def audited_def answer_def refusal_def not_found_def record_audit_def
  revoke_tokens_by_user_id_def revoke_tokens_by_client_id_def revoke_token_by_id_def set_user_enabled_def set_user_password_hash_def set_client_enabled_def

text \<open>Withdrawal takes hold.  After a successful request that deletes or disables a user, resets a password,
  disables a client or revokes tokens, every token it is about is revoked in the table.\<close>
theorem withdrawal_revokes:
  assumes "admin_serve V C now rq S = (Inr (Answer st body), S')" "st < 300"
    and "t \<in> set (db_tokens (ads_db S))" "withdraws rq (ads_db S) t"
  shows "tk_id t \<in> revoked_ids (ads_db S')"
proof (cases rq)
  case (DeleteUserRq u)
  let ?d = "snd (delete_user u (ads_db S))"
  have "ads_db S' = revoke_rows (\<lambda>t. tk_user_id t = Some u \<and> \<not> tk_revoked t) ?d"
    using assms(1,2) DeleteUserRq by (auto simp: admin_delete_user_def withdraw_defs delete_user_def Let_def split: if_splits)
  moreover have "tk_id t \<in> revoked_ids ?d" using assms(3,4) DeleteUserRq by (auto intro: delete_user_ids)
  ultimately show ?thesis using revoke_rows_mono by auto
next
  case (SetUserEnabledRq u b)
  then show ?thesis using assms by (cases b) (auto simp: admin_set_user_enabled_def withdraw_defs intro!: revoke_rows_ids)
next
  case (ResetPasswordRq u p)
  then show ?thesis using assms by (auto simp: admin_reset_password_def withdraw_defs intro!: revoke_rows_ids split: if_splits option.splits)
next
  case (SetClientEnabledRq i b)
  then show ?thesis using assms by (cases b) (auto simp: admin_set_client_enabled_def withdraw_defs intro!: revoke_rows_ids)
next
  case (RevokeTokenRq i)
  then show ?thesis using assms by (auto simp: admin_revoke_token_def withdraw_defs intro!: revoke_rows_ids split: if_splits)
qed (use assms in \<open>auto simp: bulk_revoke_by_user_def bulk_revoke_by_client_def withdraw_defs intro!: revoke_rows_ids\<close>)

text \<open>The general update can disable a user as well, but then the tokens stay alive.\<close>
lemma update_disables_without_revoking:
  "db_tokens (ads_db (snd (admin_serve V C now (UpdateUserRq u b) S))) = db_tokens (ads_db S)"
  by (simp add: admin_update_user_def withdraw_defs update_user_def checked_def Let_def split: option.split)

text \<open>An administrator's browser session is not looked up again: whatever the console does to the account,
  the guard goes on admitting the session.\<close>
lemma guard_ignores_account:
  assumes "Option.bind (header_text r ''Authorization'') (\<lambda>a. strip_prefix_opt a ''Bearer '') = None"
  shows "admin_guard G now r z (ads_db (serve_all V rqs S)) = admin_guard G now r z (ads_db S)"
  using assms by (simp add: admin_guard_def)

section \<open>What the listings show\<close>

lemma listings_hide_credentials:
  "token_value V now (t\<lparr>tk_access_token := a, tk_refresh_token := r\<rparr>) = token_value V now t"
  "client_info_value V (c\<lparr>cl_client_secret := s, cl_registration_access_token := g\<rparr>) = client_info_value V c"
  "client_detail_value V (c\<lparr>cl_client_secret := s, cl_registration_access_token := g\<rparr>) = client_detail_value V c"
  "user_info_value V (u\<lparr>us_password_hash := h\<rparr>) = user_info_value V u" "user_value V (u\<lparr>us_password_hash := h\<rparr>) = user_value V u"
  by (simp_all add: token_value_def client_info_value_def client_detail_value_def user_info_value_def user_value_def token_is_expired_def)

text \<open>The detail page of a token knows only the 200 newest tokens.\<close>
lemma old_token_not_found:
  assumes "\<forall>t \<in> set (list_all_tokens (ads_db S)). tk_id t \<noteq> i"
  shows "fst (admin_get_token V now i S) = Inr (Answer 404 (JObj [(''error'', JStr ''token not found'')]))"
proof -
  have "find (\<lambda>t. tk_id t = i) (list_all_tokens (ads_db S)) = None" using assms by (simp add: find_None_iff)
  then show ?thesis by (simp add: admin_get_token_def not_found_def answer_def)
qed

section \<open>A run\<close>

definition office_env :: admin_env where
  "office_env = \<lparr>ad_libs = demo_libs1, ad_rfc3339 = (\<lambda>_. []), ad_hash_password = Some\<rparr>"

definition office_call :: admin_call where
  "office_call = \<lparr>ax_session = [''user_id'' \<mapsto> JStr ''boss'', ''email'' \<mapsto> JStr ''b@e''], ax_realip = None, ax_request = intro_request, ax_uuid = ''a1''\<rparr>"

definition office_store :: admin_store where
  "office_store = \<lparr>ads_db = db_empty\<lparr>db_users := [user_new 0 ''u'' ''alice'' ''h'' ''e''], db_tokens := [intro_token]\<rparr>, ads_log = [],
     ads_events = \<lparr>rs_capacity = 10, rs_inner = []\<rparr>\<rparr>"

lemma office_disable: "\<exists>S'. admin_serve office_env office_call 5 (SetUserEnabledRq ''u'' False) office_store = (Inr (Answer 200 (JObj [(''enabled'', JBool False)])), S')"
  by (simp add: admin_set_user_enabled_def on_db_def also_revoke_def audited_def answer_def set_user_enabled_def)

lemma console_audited_witness:
  "\<exists>r S'. admin_serve office_env office_call 5 (SetUserEnabledRq ''u'' False) office_store = (r, S') \<and>
     map au_action (ads_log S') = [''user.disable''] \<and> map au_actor_id (ads_log S') = [''boss'']"
proof -
  obtain S' where run: "admin_serve office_env office_call 5 (SetUserEnabledRq ''u'' False) office_store = (Inr (Answer 200 (JObj [(''enabled'', JBool False)])), S')"
    using office_disable by blast
  have "ax_uuid office_call \<notin> au_id ` set (ads_log office_store)" by (simp add: office_store_def)
  from console_audited [OF run this] show ?thesis
    using run by (auto simp: office_store_def office_call_def session_str_def unwrap_or_def)
qed

lemma console_keeps_storage_witness:
  "db_wf (ads_db (serve_all office_env [(office_call, 5, DeleteUserRq ''u''), (office_call, 6, SetUserRoleRq ''u'' ''admin'')]
     (office_store\<lparr>ads_db := db_empty\<rparr>)))"
  using console_keeps_storage [of "office_store\<lparr>ads_db := db_empty\<rparr>" office_env "[(office_call, 5, DeleteUserRq ''u''), (office_call, 6, SetUserRoleRq ''u'' ''admin'')]"]
  by (simp add: db_empty_wf)

lemma withdrawal_revokes_witness:
  "\<exists>r S'. admin_serve office_env office_call 5 (SetUserEnabledRq ''u'' False) office_store = (r, S') \<and> ''r0'' \<in> revoked_ids (ads_db S')"
proof -
  obtain S' where run: "admin_serve office_env office_call 5 (SetUserEnabledRq ''u'' False) office_store = (Inr (Answer 200 (JObj [(''enabled'', JBool False)])), S')"
    using office_disable by blast
  have t: "intro_token \<in> set (db_tokens (ads_db office_store))" "tk_user_id intro_token = Some ''u''" "tk_id intro_token = ''r0''"
    by (simp_all add: office_store_def intro_token_def token_new_def)
  show ?thesis using withdrawal_revokes [OF run _ t(1)] t run by auto
qed

end
