(* ===== verification/Registry_Laws.thy ===== *)
theory Registry_Laws
  imports Admin_Registry Admin_Laws
begin

text \<open>
  Key rotation as the console offers it, and what the registries of resources and issuers can contain.
\<close>

section \<open>Rotation\<close>

lemma rotate_key_ok:
  assumes "rotate_key last_instant generate configured now rq ks = (Some (Rotated kid alg t hours), ks')"
  obtains new_key where "sk_kid new_key = kid" "sk_algorithm new_key = alg" "sk_is_current new_key" "sk_expires_at new_key = None"
    "kid = rotate_kid alg now" "ks' = ks_active_keys now (ks_rotate now ks new_key (chrono_from_std (unat hours * 3600)))"
proof -
  from assms obtain material where
    "kid = rotate_kid alg now" and
    "ks' = snd (ks_prune_expired now (ks_rotate now ks \<lparr>sk_kid = rotate_kid alg now, sk_algorithm = alg, sk_key_material = material,
       sk_is_current = True, sk_created_at = now, sk_expires_at = None\<rparr> (chrono_from_std (unat hours * 3600))))"
    by (auto simp: rotate_key_def Let_def split: sum.splits option.splits if_splits)
  then show ?thesis by (intro that) (auto simp: prune_keeps_active)
qed

lemma find_active_later:
  assumes "now \<le> t"
  shows "ks_find t (ks_active_keys now ks) kid = ks_find t ks kid"
    "ks_current_for_alg t (ks_active_keys now ks) alg = ks_current_for_alg t ks alg"
  using prune_expired_correct [OF assms, of ks kid alg] by (simp_all add: prune_keeps_active)

lemma count_where_filter_le: "count_where P (filter Q xs) \<le> count_where P xs"
  by (simp add: count_where_def) (induction xs, auto)

lemma active_one_current: "one_current_per_alg ks \<Longrightarrow> one_current_per_alg (ks_active_keys now ks)"
  unfolding one_current_per_alg_def ks_active_keys_def by (meson count_where_filter_le order_trans)

text \<open>Other keys are not touched.\<close>
lemma rotate_keeps_others:
  "k \<in> set ks \<Longrightarrow> sk_algorithm k \<noteq> sk_algorithm new_key \<Longrightarrow> k \<in> set (ks_rotate now ks new_key grace)"
  by (force simp: ks_rotate_def Let_def set_update_where)

lemma rotate_kids: "map sk_kid (ks_rotate now ks new_key grace) = map sk_kid ks @ [sk_kid new_key]"
  by (simp add: ks_rotate_def Let_def map_update_where)

lemma chrono_from_std_hours: "unat h \<le> 2562047788015 \<Longrightarrow> chrono_from_std (unat h * 3600) = secs (3600 * int (unat h))"
  by (simp add: chrono_from_std_def secs_def)

text \<open>C39. Key rotation by an administrator: when the answer reports a new key whose identifier is not in use
  yet, that key signs for its algorithm from then on, no algorithm has two signing keys, the replaced key
  still verifies by its identifier strictly inside the requested grace period and never after it, keys of
  the other algorithm are untouched, and identifiers stay unique.  The grace period is at most the
  2562047788015 hours the clock library can represent.\<close>
theorem rotate_key_correct:
  assumes "rotate_key last_instant generate configured now rq ks = (Some (Rotated kid alg t hours), ks')"
    and "one_current_per_alg ks" "distinct (map sk_kid ks)" "kid \<notin> sk_kid ` set ks"
    and "old \<in> set ks" "sk_is_current old" "sk_algorithm old = alg"
    and "unat hours \<le> 2562047788015" "now \<le> later"
  shows "one_current_per_alg ks' \<and> distinct (map sk_kid ks') \<and>
     (\<exists>new. ks_current_for_alg later ks' alg = Some new \<and> sk_kid new = kid) \<and>
     ks_find later ks' (sk_kid old) =
       (if later < now + secs (3600 * int (unat hours))
        then Some (old\<lparr>sk_is_current := False, sk_expires_at := Some (now + secs (3600 * int (unat hours)))\<rparr>) else None) \<and>
     (\<forall>k\<in>set ks. sk_algorithm k \<noteq> alg \<and> key_is_active now k \<longrightarrow> k \<in> set ks')"
proof -
  define grace where "grace = secs (3600 * int (unat hours))"
  from assms(1) obtain new_key where n: "sk_kid new_key = kid" "sk_algorithm new_key = alg" "sk_is_current new_key" "sk_expires_at new_key = None"
    and ks': "ks' = ks_active_keys now (ks_rotate now ks new_key (chrono_from_std (unat hours * 3600)))" by (rule rotate_key_ok)
  let ?ks = "ks_rotate now ks new_key grace"
  have k: "ks' = ks_active_keys now ?ks" using ks' assms(8) by (simp add: chrono_from_std_hours grace_def)
  note correct = rotate_correct [of ks new_key old now grace later, OF assms(2,3) _ assms(5,6)]
  have c: "one_current_per_alg ?ks" "ks_current_for_alg later ?ks alg = Some new_key"
    "ks_find later ?ks (sk_kid old) = (if later < now + grace then Some (old\<lparr>sk_is_current := False, sk_expires_at := Some (now + grace)\<rparr>) else None)"
    using correct n assms(4,7) by simp_all
  have "distinct (map sk_kid ?ks)" using assms(3,4) n(1) by (auto simp: rotate_kids)
  then have d: "distinct (map sk_kid ks')" unfolding k ks_active_keys_def by (rule distinct_map_filter)
  have others: "\<forall>k\<in>set ks. sk_algorithm k \<noteq> alg \<and> key_is_active now k \<longrightarrow> k \<in> set ks'"
    using n(2) by (auto simp: k ks_active_keys_def intro: rotate_keeps_others)
  show ?thesis
    using c d others n(1) unfolding k grace_def by (simp add: find_active_later [OF assms(9)] active_one_current)
qed

definition vault :: key_set where
  "vault = [\<lparr>sk_kid = ''rs256-0'', sk_algorithm = RS256, sk_key_material = [1], sk_is_current = True, sk_created_at = 0, sk_expires_at = None\<rparr>]"

definition rotate_now :: "64 word \<Rightarrow> rotate_request" where
  "rotate_now h = \<lparr>rt_algorithm = None, rt_grace_period_hours = Some h\<rparr>"

lemma kid_at:
  "rotate_kid RS256 (secs 7) = ''rs256-7''" "rotate_kid RS256 0 = ''rs256-0''"
  by code_simp+

lemma rotate_key_correct_witness:
  "\<exists>ks'. rotate_key (secs 9000) (\<lambda>_. Some [2]) 24 (secs 7) (rotate_now 1) vault = (Some (Rotated ''rs256-7'' RS256 (secs 7) 1), ks') \<and>
     ks_find (secs 100) ks' ''rs256-0'' = Some ((hd vault)\<lparr>sk_is_current := False, sk_expires_at := Some (secs 3607)\<rparr>)"
proof -
  have early: "\<not> secs 9000 < secs 7 + secs 3600" by (simp add: secs_def)
  obtain ks' where r: "rotate_key (secs 9000) (\<lambda>_. Some [2]) 24 (secs 7) (rotate_now 1) vault = (Some (Rotated ''rs256-7'' RS256 (secs 7) 1), ks')"
    by (simp add: rotate_key_def rotate_now_def Let_def kid_at chrono_from_std_def early)
  from rotate_key_correct [OF r, of "hd vault" "secs 100"]
  have "ks_find (secs 100) ks' ''rs256-0'' = Some ((hd vault)\<lparr>sk_is_current := False, sk_expires_at := Some (secs 3607)\<rparr>)"
    by (simp add: vault_def one_current_per_alg_def count_where_def secs_def)
  with r show ?thesis by blast
qed

lemma rotate_over_last:
  assumes "kid \<notin> sk_kid ` set rest" "sk_kid n1 = kid" "sk_algorithm n1 = sk_algorithm n2" "sk_is_current n1" "0 < grace"
  shows "ks_find now (ks_rotate now (rest @ [n1]) n2 grace) kid = Some (n1\<lparr>sk_is_current := False, sk_expires_at := Some (now + grace)\<rparr>)"
proof -
  have "find (\<lambda>k. sk_kid k = kid \<and> key_is_active now k) (update_where (\<lambda>k. sk_algorithm k = sk_algorithm n2 \<and> sk_is_current k)
      (\<lambda>k. k\<lparr>sk_is_current := False, sk_expires_at := Some (now + grace)\<rparr>) rest) = None"
    using assms(1) by (auto simp: find_None_iff set_update_where)
  then show ?thesis
    using assms(2-5) by (simp add: ks_find_def ks_rotate_def Let_def update_where_def find_append_None key_is_active_def)
qed

text \<open>The identifier is unique only per second: after a second rotation within the same second, the
  identifier of the new signing key finds the key before it, as long as that is in its grace period.\<close>
lemma same_second_rotation_shadows:
  assumes "rotate_key l1 g1 c1 now rq1 ks = (Some (Rotated kid alg t h1), ks1)" "kid \<notin> sk_kid ` set ks"
    and "rotate_key l2 g2 c2 now rq2 ks1 = (Some (Rotated kid2 alg t2 h2), ks2)" "0 < chrono_from_std (unat h2 * 3600)"
  shows "kid2 = kid \<and> (\<exists>k. ks_find now ks2 kid = Some k \<and> \<not> sk_is_current k)"
proof -
  let ?g1 = "chrono_from_std (unat h1 * 3600)" and ?g2 = "chrono_from_std (unat h2 * 3600)"
  from assms(1) obtain n1 where n1: "sk_kid n1 = kid" "sk_algorithm n1 = alg" "sk_is_current n1" "sk_expires_at n1 = None" "kid = rotate_kid alg now"
    "ks1 = ks_active_keys now (ks_rotate now ks n1 ?g1)" by (rule rotate_key_ok)
  from assms(3) obtain n2 where n2: "sk_algorithm n2 = alg" "kid2 = rotate_kid alg now"
    "ks2 = ks_active_keys now (ks_rotate now ks1 n2 ?g2)" by (rule rotate_key_ok)
  have "\<exists>rest. ks1 = rest @ [n1] \<and> kid \<notin> sk_kid ` set rest"
    using n1 assms(2) by (auto simp: ks_active_keys_def ks_rotate_def Let_def key_is_active_def set_update_where)
  then obtain rest where "ks1 = rest @ [n1]" "kid \<notin> sk_kid ` set rest" by blast
  then have "ks_find now (ks_rotate now ks1 n2 ?g2) kid = Some (n1\<lparr>sk_is_current := False, sk_expires_at := Some (now + ?g2)\<rparr>)"
    using n1 n2 assms(4) by (simp add: rotate_over_last)
  then show ?thesis using n1(5) n2 by (simp add: find_active_later)
qed

text \<open>A grace period beyond what the clock library can represent is treated as none: the replaced key is
  gone at once, although the answer repeats the requested period.\<close>
lemma huge_grace_is_no_grace:
  assumes "rotate_key last_instant generate configured now rq ks = (Some (Rotated kid alg t hours), ks')"
    and "9223372036854775 < unat hours * 3600" "k \<in> set ks'" "sk_algorithm k = alg"
  shows "sk_kid k = kid \<or> k \<in> set ks \<and> \<not> sk_is_current k"
proof -
  from assms(1) obtain n where n: "sk_kid n = kid" "sk_algorithm n = alg"
    "ks' = ks_active_keys now (ks_rotate now ks n (chrono_from_std (unat hours * 3600)))" by (rule rotate_key_ok)
  have z: "chrono_from_std (unat hours * 3600) = 0" unfolding chrono_from_std_def by (rule if_not_P) (use assms(2) in linarith)
  have "k \<in> set (ks_active_keys now (ks_rotate now ks n 0))" using assms(3) n(3) unfolding z by (simp only:)
  then consider "k = n" | k0 where "k0 \<in> set ks" "key_is_active now k"
      "k = (if sk_algorithm k0 = alg \<and> sk_is_current k0 then k0\<lparr>sk_is_current := False, sk_expires_at := Some now\<rparr> else k0)"
    using n(2) by (auto simp: ks_active_keys_def ks_rotate_def Let_def set_update_where split: if_split_asm)
  then show ?thesis
  proof cases
    case 2
    then show ?thesis using assms(4) by (cases "sk_algorithm k0 = alg \<and> sk_is_current k0") (auto simp: key_is_active_def)
  qed (simp add: n(1))
qed

section \<open>Resources and issuers\<close>

text \<open>Keys are only ever fetched over https from a named host, subjects only mapped by \<open>sub\<close> or \<open>email\<close>.\<close>
definition issuer_vetted :: "libs \<Rightarrow> trusted_issuer \<Rightarrow> bool" where
  "issuer_vetted L t =
     ((\<exists>u h. url_parse L (ti_jwks_uri t) = Some u \<and> url_scheme u = ''https'' \<and> url_host u = Some h \<and> h \<noteq> [] \<and> url_fragment u = None) \<and>
      (ti_subject_mapping t = ''sub'' \<or> ti_subject_mapping t = ''email'') \<and> trim (ti_issuer t) \<noteq> [])"

definition resource_vetted :: "libs \<Rightarrow> protected_resource \<Rightarrow> bool" where
  "resource_vetted L r =
     ((\<exists>u. url_parse L (pr_resource_uri r) = Some u \<and> (url_scheme u = ''https'' \<or> url_scheme u = ''http'') \<and> url_fragment u = None) \<and>
      trim (pr_name r) \<noteq> [])"

definition registry_vetted :: "libs \<Rightarrow> db \<Rightarrow> bool" where
  "registry_vetted L d = ((\<forall>t\<in>set (db_issuers d). issuer_vetted L t) \<and> (\<forall>r\<in>set (db_resources d). resource_vetted L r))"

lemma validate_jwks_uri_ok:
  "validate_jwks_uri L uri = Inr x \<Longrightarrow>
   \<exists>u h. url_parse L uri = Some u \<and> url_scheme u = ''https'' \<and> url_host u = Some h \<and> h \<noteq> [] \<and> url_fragment u = None"
  by (auto simp: validate_jwks_uri_def result_simps unwrap_or_def split: option.splits)

lemma validate_resource_uri_ok:
  "validate_resource_uri L uri = Inr x \<Longrightarrow>
   \<exists>u. url_parse L uri = Some u \<and> (url_scheme u = ''https'' \<or> url_scheme u = ''http'') \<and> url_fragment u = None"
  by (auto simp: validate_resource_uri_def result_simps split: if_splits)

lemma requested_issuer_vetted:
  assumes "trim (ci_issuer b) \<noteq> []" "validate_jwks_uri L (ci_jwks_uri b) = Inr x" "unwrap_or (ci_subject_mapping b) ''sub'' \<in> set allowed_subject_mappings"
  shows "issuer_vetted L (requested_issuer L now uuid b)"
  using assms validate_jwks_uri_ok [OF assms(2)]
  by (auto simp: issuer_vetted_def requested_issuer_def trusted_issuer_new_def allowed_subject_mappings_def Let_def)

lemma requested_resource_vetted:
  assumes "validate_resource_uri L (cr_resource_uri b) = Inr x" "trim (cr_name b) \<noteq> []"
  shows "resource_vetted L (requested_resource L now uuid b)"
  using assms(2) validate_resource_uri_ok [OF assms(1)]
  by (simp add: resource_vetted_def requested_resource_def protected_resource_new_def)

lemma save_issuer_vetted:
  assumes "registry_vetted L d" "issuer_vetted L t"
  shows "registry_vetted L (snd (save_trusted_issuer t d))"
  using assms by (auto simp: registry_vetted_def save_trusted_issuer_def checked_def set_update_where issuer_vetted_def)

lemma save_resource_vetted:
  assumes "registry_vetted L d" "resource_vetted L r"
  shows "registry_vetted L (snd (save_resource r d))"
  using assms by (auto simp: registry_vetted_def save_resource_def checked_def)

lemma on_db_result: "ads_db (snd (on_db op (\<lambda>_. answer st b) S)) = snd (op (ads_db S))"
  by (auto simp: on_db_def answer_def split: prod.splits sum.splits)

lemmas registry_defs = create_resource_def admin_delete_resource_def create_trusted_issuer_def admin_delete_trusted_issuer_def

lemma registry_serve_vetted:
  assumes "registry_vetted (ad_libs V) (ads_db S)"
  shows "registry_vetted (ad_libs V) (ads_db (snd (registry_serve V ts now rq S)))"
proof (cases rq)
  case (RegisterResourceRq uuid b)
  then show ?thesis using assms
    by (auto simp: create_resource_def on_db_result answer_def refusal_def split: sum.splits intro: save_resource_vetted requested_resource_vetted)
next
  case (TrustIssuerRq uuid b)
  then show ?thesis using assms
    by (auto simp: create_trusted_issuer_def on_db_result answer_def refusal_def split: sum.splits
        intro: save_issuer_vetted requested_issuer_vetted)
qed (use assms in \<open>auto simp: registry_defs on_db_result delete_resource_def delete_trusted_issuer_def registry_vetted_def\<close>)

lemma registry_statements:
  assumes "db_wf d"
  shows "db_wf (snd (save_resource r d))" "db_wf (snd (delete_resource i d))" "db_wf (snd (save_trusted_issuer t d))"
    "db_wf (snd (delete_trusted_issuer j d))"
  using exec_cmd_wf [OF assms] by (metis exec_cmd.simps)+

fun registry_serve_all :: "admin_env \<Rightarrow> (instant \<Rightarrow> string) \<Rightarrow> (instant \<times> registry_request) list \<Rightarrow> admin_store \<Rightarrow> admin_store" where
  "registry_serve_all V ts [] S = S"
| "registry_serve_all V ts ((now, rq) # rqs) S = registry_serve_all V ts rqs (snd (registry_serve V ts now rq S))"

text \<open>What the registries can hold: starting from empty or vetted tables, whatever administrators create
  and delete, every trusted issuer has a key address that is an https URL with a host and no fragment and maps
  subjects by \<open>sub\<close> or \<open>email\<close>, every protected resource is a fragment-free http or https URL with a name, and
  all keys of the tables stay unique.\<close>
theorem registry_stays_vetted:
  assumes "registry_vetted (ad_libs V) (ads_db S)" "db_wf (ads_db S)"
  shows "registry_vetted (ad_libs V) (ads_db (registry_serve_all V ts rqs S)) \<and> db_wf (ads_db (registry_serve_all V ts rqs S))"
  using assms
proof (induction rqs arbitrary: S)
  case (Cons x rqs)
  obtain now rq where x: "x = (now, rq)" by fastforce
  have "db_wf (ads_db (snd (registry_serve V ts now rq S)))"
    by (cases rq) (use Cons.prems(2) in \<open>auto simp: registry_defs on_db_result answer_def refusal_def registry_statements split: sum.splits\<close>)
  then show ?case using Cons.IH Cons.prems registry_serve_vetted x by simp
qed simp

text \<open>The address of the keys that verify transaction challenges is not looked at.\<close>
lemma challenge_address_unchecked:
  assumes "validate_resource_uri (ad_libs V) (cr_resource_uri b) = Inr x" "trim (cr_name b) \<noteq> []" "db_resources (ads_db S) = []"
  shows "\<exists>r\<in>set (db_resources (ads_db (snd (create_resource V now uuid b S)))). pr_txn_challenge_jwks_uri r = cr_txn_challenge_jwks_uri b"
  using assms by (simp add: create_resource_def on_db_result save_resource_def checked_def requested_resource_def)

definition idp_url :: url where
  "idp_url = \<lparr>url_text = ''https://idp/jwks'', url_scheme = ''https'', url_username = [], url_password = None, url_host = Some ''idp'', url_port = None,
     url_path = ''/jwks'', url_query = None, url_fragment = None\<rparr>"

definition registry_env :: admin_env where
  "registry_env = office_env\<lparr>ad_libs := (ad_libs office_env)\<lparr>url_parse := \<lambda>s. if s = ''https://idp/jwks'' then Some idp_url else None\<rparr>\<rparr>"

definition trust_idp :: create_trusted_issuer_request where
  "trust_idp = \<lparr>ci_issuer = ''idp'', ci_jwks_uri = ''https://idp/jwks'', ci_allowed_audiences = None, ci_subject_mapping = None, ci_jit_provision = None,
     ci_allowed_client_ids = None\<rparr>"

definition blank_store :: admin_store where
  "blank_store = \<lparr>ads_db = db_empty, ads_log = [], ads_events = \<lparr>rs_capacity = 10, rs_inner = []\<rparr>\<rparr>"

lemma idp_names: "trim ''idp'' \<noteq> []" "trim ''https://idp/jwks'' \<noteq> []"
  by code_simp+

lemma registry_stays_vetted_witness:
  "\<exists>t. db_issuers (ads_db (registry_serve_all registry_env (\<lambda>_. []) [(0, TrustIssuerRq ''i'' trust_idp)] blank_store)) = [t] \<and>
     ti_issuer t = ''idp'' \<and> issuer_vetted (ad_libs registry_env) t"
proof -
  let ?S = "registry_serve_all registry_env (\<lambda>_. []) [(0, TrustIssuerRq ''i'' trust_idp)] blank_store"
  have "registry_vetted (ad_libs registry_env) (ads_db ?S)"
    using registry_stays_vetted [of registry_env blank_store "\<lambda>_. []" "[(0, TrustIssuerRq ''i'' trust_idp)]"] db_empty_wf
    by (simp add: blank_store_def registry_vetted_def db_empty_def)
  moreover have "validate_jwks_uri (ad_libs registry_env) ''https://idp/jwks'' = Inr ()"
    by (simp add: validate_jwks_uri_def registry_env_def idp_url_def)
  then have "db_issuers (ads_db ?S) = [requested_issuer (ad_libs registry_env) 0 ''i'' trust_idp]"
    by (simp add: create_trusted_issuer_def trust_idp_def idp_names allowed_subject_mappings_def on_db_result blank_store_def
        save_trusted_issuer_def checked_def db_empty_def)
  ultimately show ?thesis by (simp add: registry_vetted_def requested_issuer_def trust_idp_def trusted_issuer_new_def Let_def)
qed

end
