(* ===== verification/Discovery_Laws.thy ===== *)
theory Discovery_Laws
  imports Discovery Registry_Laws
begin

text \<open>
  What holds of the published keys: the document lists exactly the active RSA keys of the set, never depends on
  a shared secret, and lists every RSA key a token can be verified under by its identifier.  Key rotation and
  the signing of ID tokens do not agree, which the last section shows.
\<close>

section \<open>The entries\<close>

definition rsa_keys :: "instant \<Rightarrow> key_set \<Rightarrow> signing_key list" where
  "rsa_keys now ks = filter (\<lambda>k. sk_algorithm k = RS256) (ks_active_keys now ks)"

text \<open>The entry of a key, from its public components.\<close>
definition publishes :: "pem_lib \<Rightarrow> signing_key \<Rightarrow> json \<Rightarrow> bool" where
  "publishes K k e = (\<exists>ne. jwk_components K k = Inr ne \<and> e = JObj ((''kid'', JStr (sk_kid k)) # rsa_members ne))"

lemma jwk_entries_filter: "jwk_entries K ks = jwk_entries K (filter (\<lambda>k. sk_algorithm k = RS256) ks)"
  by (induction ks) auto

lemma jwk_entries_list:
  "jwk_entries K ks = Inr es \<Longrightarrow> list_all2 (publishes K) (filter (\<lambda>k. sk_algorithm k = RS256) ks) es"
  by (induction ks arbitrary: es) (auto simp: publishes_def result_simps split: if_splits)

lemma jwks_rsa: "jwks K now ks oc = jwks K now (filter (\<lambda>k. sk_algorithm k = RS256) ks) oc"
  unfolding jwks_def by (subst jwk_entries_filter) (simp add: ks_active_keys_def conj_commute)

lemma jwks_entries:
  assumes "jwks K now ks oc = Inr doc" "rsa_keys now ks \<noteq> []"
  obtains es where "list_all2 (publishes K) (rsa_keys now ks) es" "doc = JObj [(''keys'', JArr es)]"
proof -
  from assms(1) obtain es where e: "jwk_entries K (ks_active_keys now ks) = Inr es" by (auto simp: jwks_def result_simps)
  then have p: "list_all2 (publishes K) (rsa_keys now ks) es" using jwk_entries_list by (simp add: rsa_keys_def)
  then have "es \<noteq> []" using assms(2) by auto
  then show ?thesis using assms(1) e p by (intro that [of es]) (simp_all add: jwks_def)
qed

lemma published_key:
  assumes "list_all2 (publishes K) ks es" "k \<in> set ks"
  shows "\<exists>e\<in>set es. publishes K k e"
  using assms by (induction rule: list_all2_induct) auto

text \<open>C40. The published keys are the verifying keys.  While the key set has an active RSA key, the document has
  one entry per active RSA key, in order, with its identifier and its public components; the document is the same
  whatever shared secrets the set holds; and a token that is accepted under an RSA key by its identifier is
  accepted under a key the document lists.\<close>
theorem jwks_publishes_verifying_keys:
  assumes "jwks K now ks oc = Inr doc" "rsa_keys now ks \<noteq> []"
  shows "\<exists>es. doc = JObj [(''keys'', JArr es)] \<and> list_all2 (publishes K) (rsa_keys now ks) es \<and>
     (\<forall>ks'. filter (\<lambda>k. sk_algorithm k = RS256) ks' = filter (\<lambda>k. sk_algorithm k = RS256) ks \<longrightarrow> jwks K now ks' oc = Inr doc) \<and>
     (\<forall>i key c. header_kid tok = Inr (Some i) \<and> ks_find now ks i = Some key \<and> sk_algorithm key = RS256 \<and>
        decode_with_keyset header_kid verify bad now ks tok = Inr c \<longrightarrow>
        verify RS256 (sk_key_material key) tok = Inr c \<and> (\<exists>e\<in>set es. publishes K key e))"
proof -
  from assms obtain es where p: "list_all2 (publishes K) (rsa_keys now ks) es" and doc: "doc = JObj [(''keys'', JArr es)]"
    by (rule jwks_entries)
  have m: "key \<in> set (rsa_keys now ks)" if "ks_find now ks i = Some key" "sk_algorithm key = RS256" for i key
    using that by (auto simp: ks_find_def rsa_keys_def ks_active_keys_def dest!: find_Some_in)
  have same: "jwks K now ks' oc = Inr doc" if "filter (\<lambda>k. sk_algorithm k = RS256) ks' = filter (\<lambda>k. sk_algorithm k = RS256) ks" for ks'
    using assms(1) that jwks_rsa by metis
  have "verify RS256 (sk_key_material key) tok = Inr c \<and> (\<exists>e\<in>set es. publishes K key e)"
    if "header_kid tok = Inr (Some i)" "ks_find now ks i = Some key" "sk_algorithm key = RS256"
      "decode_with_keyset header_kid verify bad now ks tok = Inr c" for i key c
    using that published_key [OF p m [OF that(2,3)]] by (simp add: decode_with_keyset_def)
  with doc p same show ?thesis by blast
qed

definition pem_demo :: pem_lib where
  "pem_demo = \<lparr>pl_utf8 = (\<lambda>b. if b = [1] then Some ''pem'' else None), pl_public = (\<lambda>s. if s = ''pem'' then Some (''nn'', ''AQAB'') else None)\<rparr>"

definition shared_and_rsa :: "bytes \<Rightarrow> key_set" where
  "shared_and_rsa secret =
     [\<lparr>sk_kid = ''h'', sk_algorithm = HS256, sk_key_material = secret, sk_is_current = True, sk_created_at = 0, sk_expires_at = None\<rparr>,
      \<lparr>sk_kid = ''r'', sk_algorithm = RS256, sk_key_material = [1], sk_is_current = True, sk_created_at = 0, sk_expires_at = None\<rparr>]"

text \<open>Two sets with different shared secrets publish the same document, and a token under the RSA key is covered.\<close>
lemma jwks_publishes_verifying_keys_witness:
  "\<exists>doc es. doc = JObj [(''keys'', JArr es)] \<and> jwks pem_demo 0 (shared_and_rsa [7]) demo_oidc = Inr doc \<and>
     jwks pem_demo 0 (shared_and_rsa [9]) demo_oidc = Inr doc \<and> (\<exists>e\<in>set es. publishes pem_demo (shared_and_rsa [7] ! 1) e)"
proof -
  obtain doc where doc: "jwks pem_demo 0 (shared_and_rsa [7]) demo_oidc = Inr doc"
    by (simp add: jwks_def shared_and_rsa_def ks_active_keys_def key_is_active_def jwk_components_def pem_demo_def)
  have k: "rsa_keys 0 (shared_and_rsa [7]) = [shared_and_rsa [7] ! 1]" "ks_find 0 (shared_and_rsa [7]) ''r'' = Some (shared_and_rsa [7] ! 1)"
    "sk_algorithm (shared_and_rsa [7] ! 1) = RS256"
    by (simp_all add: rsa_keys_def shared_and_rsa_def ks_active_keys_def key_is_active_def ks_find_def)
  let ?c = "claims_new 0 ''j'' ''s'' ''c'' ''r'' 60 ''i''"
  have t: "decode_with_keyset (\<lambda>_. Inr (Some ''r'') :: string + string option) (\<lambda>_ _ _. Inr ?c) ''bad'' 0 (shared_and_rsa [7]) ''tok'' = Inr ?c"
    by (simp add: decode_with_keyset_def k(2))
  have f: "filter (\<lambda>k. sk_algorithm k = RS256) (shared_and_rsa [9]) = filter (\<lambda>k. sk_algorithm k = RS256) (shared_and_rsa [7])"
    by (simp add: shared_and_rsa_def)
  have "rsa_keys 0 (shared_and_rsa [7]) \<noteq> []" by (simp add: k(1))
  from jwks_publishes_verifying_keys [OF doc this, of "\<lambda>_. Inr (Some ''r'') :: string + string option" "''tok''" "\<lambda>_ _ _. Inr ?c" "''bad''"]
  obtain es where es: "doc = JObj [(''keys'', JArr es)]" "jwks pem_demo 0 (shared_and_rsa [9]) demo_oidc = Inr doc"
    "\<exists>e\<in>set es. publishes pem_demo (shared_and_rsa [7] ! 1) e"
    using f k(2,3) t by (elim exE conjE) (metis (no_types, lifting))
  with doc show ?thesis by blast
qed

section \<open>Rotation leaves ID tokens behind\<close>

text \<open>ID tokens are signed with the key of the settings, whatever the key set says.\<close>
lemma id_token_ignores_keyset: "with_id_token (E\<lparr>en_keyset := ks\<rparr>) now sc u cid nonce code t resp = with_id_token E now sc u cid nonce code t resp"
  by (simp add: with_id_token_def sign_id_token_def Let_def fun_eq_iff)

text \<open>Rotation orphans ID tokens.  The key set starts with that key.  After an administrator rotates the RSA key and the grace period is over, the
  published keys no longer contain it, although every ID token is still signed with it under its identifier.\<close>
theorem rotation_orphans_id_tokens:
  assumes "oc_id_token_private_key_pem oc = Some pem" "oc_id_token_kid oc = Some kid"
    and "rotate_key last_instant generate configured now rq (initial_keyset t0 as_bytes oc) = (Some (Rotated new_kid RS256 t hours), ks')"
    and "new_kid \<noteq> kid" "unat hours \<le> 2562047788015" "now + secs (3600 * int (unat hours)) \<le> later"
    and "jwks K later ks' oc' = Inr (JObj [(''keys'', JArr es)])" "e \<in> set es"
  shows "json_get e ''kid'' \<noteq> Some (JStr kid)"
proof -
  let ?g = "secs (3600 * int (unat hours))"
  obtain new_key where n: "sk_kid new_key = new_kid" "sk_algorithm new_key = RS256" "sk_expires_at new_key = None"
    and ks': "ks' = ks_active_keys now (ks_rotate now (initial_keyset t0 as_bytes oc) new_key ?g)"
    using rotate_key_ok [OF assms(3)] chrono_from_std_hours [OF assms(5)] by metis
  have "0 \<le> ?g" by (simp add: secs_def)
  then have r: "rsa_keys later ks' = [new_key]"
    using n assms(1,6) by (auto simp: ks' rsa_keys_def ks_active_keys_def ks_rotate_def initial_keyset_def update_where_def key_is_active_def)
  obtain es' where "list_all2 (publishes K) [new_key] es'" "es' = es"
    using assms(7) r by (elim jwks_entries) auto
  then have "e = hd es" "publishes K new_key (hd es)" using assms(8) by (auto simp: list_all2_Cons1)
  then show ?thesis using n assms(4) by (auto simp: publishes_def)
qed

definition hour_later :: "key_set \<Rightarrow> rotate_answer option \<times> key_set" where
  "hour_later = rotate_key (secs 9000) (\<lambda>_. Some [1]) 24 (secs 7) (rotate_now 1)"

definition pem_oidc :: oidc_config where
  "pem_oidc = demo_oidc\<lparr>oc_id_token_private_key_pem := Some ''pem'', oc_id_token_kid := Some ''main''\<rparr>"

text \<open>A one-hour rotation: an hour later the document lists the new key, not the one ID tokens are signed with.\<close>
lemma rotation_orphans_id_tokens_witness:
  "\<exists>ks' e. hour_later (initial_keyset 0 (\<lambda>_. [1]) pem_oidc) = (Some (Rotated ''rs256-7'' RS256 (secs 7) 1), ks') \<and>
     jwks pem_demo (secs 3607) ks' pem_oidc = Inr (JObj [(''keys'', JArr [e])]) \<and> json_get e ''kid'' \<noteq> Some (JStr ''main'')"
proof -
  have early: "\<not> secs 9000 < secs 7 + secs 3600" by (simp add: secs_def)
  obtain ks' where r: "hour_later (initial_keyset 0 (\<lambda>_. [1]) pem_oidc) = (Some (Rotated ''rs256-7'' RS256 (secs 7) 1), ks')"
    and ks': "ks' = snd (ks_prune_expired (secs 7) (ks_rotate (secs 7) (initial_keyset 0 (\<lambda>_. [1]) pem_oidc)
      \<lparr>sk_kid = ''rs256-7'', sk_algorithm = RS256, sk_key_material = [1], sk_is_current = True, sk_created_at = secs 7, sk_expires_at = None\<rparr>
      (secs 3600)))"
    by (simp add: hour_later_def rotate_key_def rotate_now_def Let_def kid_at chrono_from_std_def early)
  have j: "jwks pem_demo (secs 3607) ks' pem_oidc = Inr (JObj [(''keys'', JArr [JObj ((''kid'', JStr ''rs256-7'') # rsa_members (''nn'', ''AQAB''))])])"
    by (simp add: ks' ks_prune_expired_def ks_rotate_def Let_def initial_keyset_def pem_oidc_def update_where_def key_expired_def jwks_def
        ks_active_keys_def key_is_active_def jwk_components_def pem_demo_def secs_def)
  have "oc_id_token_private_key_pem pem_oidc = Some ''pem''" "oc_id_token_kid pem_oidc = Some ''main''" by (simp_all add: pem_oidc_def)
  from rotation_orphans_id_tokens [OF this r [unfolded hour_later_def] _ _ _ j] have
    "json_get (JObj ((''kid'', JStr ''rs256-7'') # rsa_members (''nn'', ''AQAB''))) ''kid'' \<noteq> Some (JStr ''main'')"
    by (simp add: secs_def)
  with r j show ?thesis by blast
qed

end
