(* ===== verification/Authorize_Laws.thy ===== *)
theory Authorize_Laws
  imports Authorize
begin

text \<open>
  What the authorization endpoint promises: codes only for the logged-in user, bound to a registered
  redirect URI and an S256 challenge, within the client's scope; answers only to registered
  redirect URIs; and a code that its client can redeem.
\<close>

section \<open>The stages\<close>

lemma params_keep: "authorize_params now q s = (x, s') \<Longrightarrow> sv_db s' = sv_db s"
  by (auto simp: authorize_params_def split: option.splits prod.splits)

lemma front_ok:
  assumes "authorize_front E W now r q s = (Inr ar, s1)"
  shows "validate_redirect_uri (en_libs E) (ar_client ar) (ar_redirect_uri ar)"
    "supports_grant_type (en_libs E) (ar_client ar) ''authorization_code''"
    "ar_mode ar \<in> {''query'', ''form_post'', ''fragment''}" "sv_db s1 = sv_db s"
    "\<exists>s0. send_resolve E now (aq_client_id q) s0 = (Inr (ar_client ar), s1)"
proof -
  obtain ef sa uri0 c uri ef' hybrid jm mode where p: "authorize_params now q s = (Inr ef, sa)"
    and c: "send_resolve E now (aq_client_id q) sa = (Inr c, s1)" "supports_grant_type (en_libs E) c ''authorization_code''"
    and v: "validate_redirect_uri (en_libs E) c uri" "response_mode_of q hybrid jm = Inr mode"
    and ar: "ar = \<lparr>ar_client = c, ar_redirect_uri = uri, ar_effective = ef', ar_hybrid = hybrid, ar_mode = mode\<rparr>"
    using assms by (auto simp: authorize_front_def result_simps split: prod.splits)
  show "validate_redirect_uri (en_libs E) (ar_client ar) (ar_redirect_uri ar)"
    "supports_grant_type (en_libs E) (ar_client ar) ''authorization_code''"
    "\<exists>s0. send_resolve E now (aq_client_id q) s0 = (Inr (ar_client ar), s1)" using c v ar by auto
  show "ar_mode ar \<in> {''query'', ''form_post'', ''fragment''}"
    using v(2) ar by (auto simp: response_mode_of_def Let_def split: if_splits)
  show "sv_db s1 = sv_db s" using params_keep [OF p] resolve_keeps(1) [OF c(1)] by simp
qed

lemma front_keeps: "sv_db (snd (authorize_front E W now r q s)) = sv_db s"
proof (cases "authorize_params now q s")
  case (Pair x sa)
  then have "sv_db sa = sv_db s" by (rule params_keep)
  moreover have "sv_db (snd (send_resolve E now (aq_client_id q) sa)) = sv_db sa"
    using resolve_keeps(1) by (metis prod.collapse)
  ultimately show ?thesis using Pair
    by (auto simp: authorize_front_def andThen_def ret_def bindS_def split: sum.splits prod.splits)
qed

lemma agent_keeps: "requested_agent E now ar s = (x, s') \<Longrightarrow> sv_db s' = sv_db s"
  using resolve_keeps(1)
  by (auto simp: requested_agent_def split: option.splits if_splits prod.splits sum.splits)

lemma gate_user:
  assumes "authorize_gate E W now r q ar actor z = (Inr uid, z')"
  shows "session_str z ''user_id'' = Some uid" "\<not> auth_expired now q z" "z' = z"
    "set (prompt_values q) \<inter> {''login'', ''select_account''} = {}"
  using assms by (auto simp: authorize_gate_def Let_def split: if_splits option.splits)

lemma no_flaw:
  assumes "request_flaw q ar = None"
  shows "\<exists>ch. ef_code_challenge (ar_effective ar) = Some ch \<and> trim ch \<noteq> []" "ef_code_challenge_method (ar_effective ar) = Some ''S256''"
  using assms by (auto simp: request_flaw_def Let_def split: if_splits)

lemma send_create_code_ok:
  assumes "send_create_code W now dw m s = (Inr a, s')"
  shows "a = build_code (wb_code_ttl W) now (dw_uuid dw) (dw_family dw) (dw_code dw) m"
    "sv_db s' = (sv_db s)\<lparr>db_codes := db_codes (sv_db s) @ [a]\<rparr>"
    "get_authorization_code (ac_code a) (sv_db s) = None"
proof -
  obtain d' where c: "create_authorization_code (wb_code_ttl W) now (dw_uuid dw) (dw_family dw) (dw_code dw) m (sv_db s) = (Inr a, d')"
    "sv_db s' = d'" using assms by (auto simp: send_create_code_def run_db_def split: prod.splits)
  then show a: "a = build_code (wb_code_ttl W) now (dw_uuid dw) (dw_family dw) (dw_code dw) m"
    by (auto simp: create_authorization_code_def Let_def result_simps bindS_def split: prod.splits sum.splits)
  with c have "save_authorization_code a (sv_db s) = (Inr (), sv_db s')"
    by (auto simp: create_authorization_code_def Let_def bindS_def split: prod.splits sum.splits)
  then show "sv_db s' = (sv_db s)\<lparr>db_codes := db_codes (sv_db s) @ [a]\<rparr>" "get_authorization_code (ac_code a) (sv_db s) = None"
    by (auto simp: save_authorization_code_def checked_def get_authorization_code_def find_None_iff list_ex_iff split: if_splits)
qed

lemma send_create_code_fail: "send_create_code W now dw m s = (Inl e, s') \<Longrightarrow> sv_db s' = sv_db s"
  by (auto simp: send_create_code_def run_db_def create_authorization_code_def Let_def bindS_def save_authorization_code_def checked_def
      split: prod.splits sum.splits if_splits)

lemma materialize_codes: "db_codes (sv_db (snd (send_materialize E now c s))) = db_codes (sv_db s)"
  using materialize_db [of E now c s] by (cases "send_materialize E now c s") (auto simp: save_client_def update_client_def checked_def)

lemma issue_codes:
  assumes "authorize_issue E W now dw ar actor uid scope s = (x, s')" "db_codes (sv_db s') \<noteq> db_codes (sv_db s)"
  shows "\<exists>a s1. send_create_code W now dw (code_msg_of ar actor uid scope) s1 = (Inr a, s') \<and> db_codes (sv_db s1) = db_codes (sv_db s)"
proof -
  obtain y s1 where m: "send_materialize E now (ar_client ar) s = (y, s1)" by (metis surj_pair)
  then have c1: "db_codes (sv_db s1) = db_codes (sv_db s)" using materialize_codes by (metis snd_conv)
  with assms m have "\<exists>u. y = Inr u" by (cases y) (auto simp: authorize_issue_def andThen_def bindS_def)
  moreover obtain w s2 where k: "send_create_code W now dw (code_msg_of ar actor uid scope) s1 = (w, s2)" by (metis surj_pair)
  ultimately have w: "\<exists>a. w = Inr a"
    using assms m c1 send_create_code_fail [of W now dw _ s1]
    by (cases w) (auto simp: authorize_issue_def andThen_def bindS_def)
  then have "s' = s2" using assms(1) m k \<open>\<exists>u. y = Inr u\<close>
    by (auto simp: authorize_issue_def andThen_def bindS_def ret_def split: sum.splits prod.splits)
  then show ?thesis using k w c1 by blast
qed

section \<open>Codes\<close>

text \<open>The stages a request passed when it led to a new code.\<close>
lemma authorize_code_parts:
  assumes "authorize E W now dw r q z s = (x, z', s')" "db_codes (sv_db s') \<noteq> db_codes (sv_db s)"
  obtains ar s1 actor s2 uid s3 a scope where "authorize_front E W now r q s = (Inr ar, s1)" "request_flaw q ar = None"
    and "authorize_gate E W now r q ar actor z = (Inr uid, z)" "db_codes (sv_db s2) = db_codes (sv_db s)"
    and "validate_scope_subset scope (cl_scope (ar_client ar)) = Inr ()" "scope = unwrap_or (ef_scope (ar_effective ar)) ''read''"
    and "acr_satisfied ar (record_consent q (ar_client ar) scope z)"
    and "send_create_code W now dw (code_msg_of ar actor uid scope) s3 = (Inr a, s')" "db_codes (sv_db s3) = db_codes (sv_db s)"
    and "authorize_issue E W now dw ar actor uid scope s2 = (x, s')"
proof -
  obtain y s1 where f: "authorize_front E W now r q s = (y, s1)" by (metis surj_pair)
  then have d1: "sv_db s1 = sv_db s" using front_keeps by (metis snd_conv)
  with assms f obtain ar where y: "y = Inr ar" and fl: "request_flaw q ar = None"
    by (auto simp: authorize_def split: sum.splits option.splits prod.splits)
  obtain w s2 where g: "requested_agent E now ar s1 = (w, s2)" by (metis surj_pair)
  then have d2: "sv_db s2 = sv_db s" using agent_keeps d1 by simp
  with assms f y fl g d1 obtain actor where w: "w = Inr (Inr actor)"
    by (auto simp: authorize_def split: sum.splits)
  obtain v z1 where gate: "authorize_gate E W now r q ar actor z = (v, z1)" by (metis surj_pair)
  with assms f y fl g w d2 obtain uid where v: "v = Inr uid"
    by (auto simp: authorize_def split: sum.splits)
  have z1: "z1 = z" using gate v gate_user(3) by blast
  define scope where "scope = unwrap_or (ef_scope (ar_effective ar)) ''read''"
  have run: "authorize_grant E W now dw q ar actor uid z s2 = (x, z', s')"
    using assms(1) f y fl g w gate v z1 by (simp add: authorize_def)
  with assms(2) d2 have "validate_scope_subset scope (cl_scope (ar_client ar)) = Inr ()"
      "acr_satisfied ar (record_consent q (ar_client ar) scope z)" and i: "authorize_issue E W now dw ar actor uid scope s2 = (x, s')"
    by (auto simp: authorize_grant_def Let_def scope_def split: sum.splits if_splits prod.splits)
  moreover obtain a s3 where "send_create_code W now dw (code_msg_of ar actor uid scope) s3 = (Inr a, s')" "db_codes (sv_db s3) = db_codes (sv_db s2)"
    using issue_codes [OF i] assms(2) d2 by auto
  ultimately show ?thesis using that [of ar s1 actor uid s2 scope s3 a] f y fl gate v z1 d2 scope_def by simp
qed


text \<open>C26. What the endpoint issues, the token endpoint accepts: the new code validates for its client, with or
  without its redirect URI, for every verifier of proper length that hashes to the challenge in
  effect, up to its expiry; before, no such code existed.\<close>
theorem authorized_code_validates:
  assumes "authorize E W now dw r q z s = (x, z', s')" "db_codes (sv_db s') = db_codes (sv_db s) @ [a]"
    and "ac_code_challenge a = Some (sha256_b64url (en_libs E) v)" "43 \<le> length v" "length v \<le> 128" "t \<le> ac_expires_at a"
    and "uri \<in> {None, Some (ac_redirect_uri a)}"
  shows "validate_authorization_code (en_libs E) t (generate_code (dw_code dw)) (ac_client_id a) uri (Some v) (sv_db s') = Inr a \<and>
    get_authorization_code (generate_code (dw_code dw)) (sv_db s) = None"
proof -
  have "db_codes (sv_db s') \<noteq> db_codes (sv_db s)" using assms(2) by simp
  with assms(1) show ?thesis
  proof (rule authorize_code_parts)
    fix ar s1 actor s2 uid s3 b scope
    assume p: "request_flaw q ar = None" "send_create_code W now dw (code_msg_of ar actor uid scope) s3 = (Inr b, s')"
      "db_codes (sv_db s3) = db_codes (sv_db s)"
    note k = send_create_code_ok [OF p(2)]
    have ba: "b = a" using k(2) p(3) assms(2) by simp
    have f: "ac_code a = generate_code (dw_code dw)" "\<not> ac_used a" "ac_code_challenge_method a = Some ''S256''"
      using no_flaw(2) [OF p(1)] by (simp_all add: k(1) [unfolded ba] build_code_def new_with_ttl_def code_msg_of_def Let_def)
    have n: "get_authorization_code (generate_code (dw_code dw)) (sv_db s) = None"
      using k(3) p(3) f(1) ba by (simp add: get_authorization_code_def)
    have g: "get_authorization_code (generate_code (dw_code dw)) (sv_db s') = Some a"
      using n assms(2) f(1) by (simp add: get_authorization_code_def find_append)
    show ?thesis using g n f assms(3-7) by (simp add: validate_code_cases)
  qed
qed

section \<open>Where answers go\<close>

text \<open>An answer is addressed to \<open>uri\<close>.\<close>
definition addressed :: "env \<Rightarrow> web \<Rightarrow> string \<Rightarrow> authorize_reply \<Rightarrow> bool" where
  "addressed E W uri rep =
     (\<exists>ps. rep = FormPost uri ps \<or> rep = Found (fragment_location W uri ps) \<or>
           (\<exists>u. url_parse (en_libs E) uri = Some u \<and> rep = Found (wl_append_pairs W u ps)))"

lemma addressed_intros:
  "query_location E W uri ps = Inr rep \<Longrightarrow> addressed E W uri rep"
  "build_authorize_error_redirect E W code d uri st mode = Inr rep \<Longrightarrow> addressed E W uri rep"
  "redirect_error E W ar code d = Inr rep \<Longrightarrow> addressed E W (ar_redirect_uri ar) rep"
  "login_required E W ar = Inr rep \<Longrightarrow> addressed E W (ar_redirect_uri ar) rep"
  "deliver_code E W ar a idt = Inr rep \<Longrightarrow> addressed E W (ar_redirect_uri ar) rep"
proof -
  show q: "addressed E W uri rep" if "query_location E W uri ps = Inr rep" for uri ps rep
    using that by (auto simp: query_location_def result_simps addressed_def)
  show b: "addressed E W uri rep" if "build_authorize_error_redirect E W code d uri st mode = Inr rep" for uri code d st mode rep
    using that q by (auto simp: build_authorize_error_redirect_def Let_def split: if_splits) (auto simp: addressed_def)
  show "addressed E W (ar_redirect_uri ar) rep" if "redirect_error E W ar code d = Inr rep" for ar code d rep
    using that b by (simp add: redirect_error_def)
  show "addressed E W (ar_redirect_uri ar) rep" if "login_required E W ar = Inr rep"
    using that q by (auto simp: login_required_def Let_def split: if_splits) (auto simp: addressed_def)
  show "addressed E W (ar_redirect_uri ar) rep" if "deliver_code E W ar a idt = Inr rep"
    using that by (auto simp: deliver_code_def Let_def result_simps addressed_def split: if_splits)
qed

lemma grant_addressed:
  assumes "authorize_grant E W now dw q ar actor uid z s = (Inr rep, z', s')"
  shows "addressed E W (ar_redirect_uri ar) rep"
proof -
  have "addressed E W (ar_redirect_uri ar) rep" if "authorize_issue E W now dw ar actor uid scope s = (Inr rep, s')" for scope
    using that addressed_intros(5) by (auto simp: authorize_issue_def result_simps)
  then show ?thesis
    using assms addressed_intros(1,3)
    by (auto simp: authorize_grant_def Let_def split: sum.splits if_splits prod.splits)
qed


section \<open>What does not fit together\<close>

text \<open>A pushed \<open>response_type\<close> is ignored.  The request a client pushes must carry \<open>response_type\<close>, but the
  endpoint reads it only from the query: whatever was pushed, a browser sent there with just
  \<open>client_id\<close> and \<open>request_uri\<close>, and without a request object, never gets a code.\<close>
theorem pushed_response_type_ignored:
  assumes "aq_response_type q = None" "aq_request q = None" "authorize E W now dw r q z s = (x, z', s')"
  shows "db_codes (sv_db s') = db_codes (sv_db s)"
proof (rule ccontr)
  assume "db_codes (sv_db s') \<noteq> db_codes (sv_db s)"
  with assms(3) show False
    by (rule authorize_code_parts) (use assms(1,2) in \<open>auto simp: request_flaw_def Let_def split: if_splits\<close>)
qed

text \<open>\<open>prompt=none\<close> must show nothing, but a session older than \<open>max_age\<close> is sent to the login form.\<close>
lemma prompt_none_shows_login:
  assumes "prompt_values q = [''none'']" "session_str z ''user_id'' = Some uid" "auth_expired now q z"
  shows "fst (authorize_gate E W now r q ar actor z) = Inl (Inr ToLoginForm)"
  using assms by (simp add: authorize_gate_def Let_def)

text \<open>No login sets the authentication context of the session, so a request with \<open>acr_values\<close> is always
  refused.\<close>
lemma acr_never_set:
  assumes "login_submit W now ip username password lim0 z d = (x, lim1, z')" "session_str z ''acr'' = None"
  shows "session_str z' ''acr'' = None"
  using assms
  by (auto simp: login_submit_def Let_def logged_in_def session_str_def split: prod.splits sum.splits option.splits if_splits)

lemma acr_unsatisfied: "session_str z ''acr'' = None \<Longrightarrow> ef_acr_values (ar_effective ar) = Some vs \<Longrightarrow> \<not> acr_satisfied ar z"
  by (simp add: acr_satisfied_def)

section \<open>A run\<close>

text \<open>Alice, logged in, authorizes the public client.\<close>

definition visit_client :: client where
  "visit_client = (demo_public True)\<lparr>cl_redirect_uris := ''https://app/cb''\<rparr>"

definition visit_env :: env where
  "visit_env = demo_env\<lparr>en_libs := demo_libs1\<lparr>json_from_str := \<lambda>s. Some (JArr (map JStr (split_whitespace s)))\<rparr>\<rparr>"

definition visit_server :: server where
  "visit_server = (demo_server True)\<lparr>sv_db := db_empty\<lparr>db_clients := [visit_client], db_users := [user_new 0 ''u'' ''alice'' ''h'' ''e'']\<rparr>\<rparr>"

definition visit_query :: authorize_query where
  "visit_query = \<lparr>aq_response_type = Some ''code'', aq_client_id = ''app'', aq_redirect_uri = Some ''https://app/cb'', aq_scope = None,
     aq_state = Some ''st'', aq_code_challenge = Some (''h'' @ replicate 43 CHR ''v''), aq_code_challenge_method = Some ''S256'', aq_nonce = None,
     aq_login_hint = None, aq_prompt = None, aq_max_age = None, aq_response_mode = Some ''form_post'', aq_resource = None, aq_request_uri = None,
     aq_acr_values = None, aq_claims = None, aq_authorization_details = None, aq_request = None, aq_requested_actor = None\<rparr>"

definition visit_session :: session where
  "visit_session = [''user_id'' \<mapsto> JStr ''u'']"

definition visit_draw :: code_draw where
  "visit_draw = \<lparr>dw_uuid = ''c1'', dw_family = ''f1'', dw_code = [2, 3]\<rparr>"

definition visit_known :: server where
  "visit_known = visit_server\<lparr>sv_clients := insert_cached_client 5 visit_client \<lparr>cla_cache = []\<rparr>\<rparr>"

definition visit_request :: authorize_request where
  "visit_request = \<lparr>ar_client = visit_client, ar_redirect_uri = ''https://app/cb'', ar_effective = merge_params Map.empty visit_query,
     ar_hybrid = False, ar_mode = ''form_post''\<rparr>"

definition visit_code :: authorization_code where
  "visit_code = build_code 600 5 ''c1'' ''f1'' [2, 3] (code_msg_of visit_request None ''u'' ''read'')"

lemma visit_fields [simp]:
  "cl_client_id visit_client = ''app''" "cl_scope visit_client = ''read''" "cl_cimd_managed visit_client = False"
  "en_cimd visit_env = None" "en_agent visit_env = demo_agent" "en_oidc visit_env = demo_oidc"
  by (simp_all add: visit_client_def demo_public_def client_new_def visit_env_def)

lemma visit_uris: "get_redirect_uris (en_libs visit_env) visit_client = [''https://app/cb'']"
  "supports_grant_type (en_libs visit_env) visit_client ''authorization_code''"
  by (simp_all add: get_redirect_uris_def parse_string_vec_def supports_grant_type_def get_grant_types_def visit_env_def visit_client_def
      demo_public_def client_new_def) code_simp+

lemma visit_query_fields [simp]:
  "aq_response_type visit_query = Some ''code''" "aq_client_id visit_query = ''app''" "aq_state visit_query = Some ''st''"
  "aq_request visit_query = None" "aq_request_uri visit_query = None" "aq_response_mode visit_query = Some ''form_post''"
  "aq_prompt visit_query = None" "aq_max_age visit_query = None"
  by (simp_all add: visit_query_def)

lemma visit_effective [simp]:
  "ef_redirect_uri (merge_params Map.empty visit_query) = Some ''https://app/cb''" "ef_scope (merge_params Map.empty visit_query) = None"
  "ef_code_challenge (merge_params Map.empty visit_query) = Some (''h'' @ replicate 43 CHR ''v'')"
  "ef_code_challenge_method (merge_params Map.empty visit_query) = Some ''S256''" "ef_state (merge_params Map.empty visit_query) = Some ''st''"
  "ef_acr_values (merge_params Map.empty visit_query) = None" "ef_requested_actor (merge_params Map.empty visit_query) = None"
  by (simp_all add: merge_params_def visit_query_def opt_or_def)

lemma visit_front: "authorize_front visit_env intro_web 5 intro_request visit_query visit_server = (Inr visit_request, visit_known)"
proof -
  have r: "send_resolve visit_env 5 ''app'' visit_server = (Inr visit_client, visit_known)"
    unfolding visit_known_def by (subst cold_resolve [where c = visit_client])
      (simp_all add: visit_server_def demo_server_def get_client_def visit_env_def demo_libs1_def)
  have e: "ensure_no_duplicate_query_params (en_http visit_env) intro_request = Inr ()"
    by (simp add: ensure_no_duplicate_query_params_def visit_env_def demo_env_def)
  show ?thesis
    by (simp add: authorize_front_def andThen_def ret_def bindS_def e authorize_params_def r visit_uris authorize_jar_def
        validate_redirect_uri_def response_mode_of_def opt_or_def visit_request_def)
qed

lemma visit_stages:
  "request_flaw visit_query visit_request = None"
  "requested_agent visit_env 5 visit_request visit_known = (Inr (Inr None), visit_known)"
  "authorize_gate visit_env intro_web 5 intro_request visit_query visit_request None visit_session = (Inr ''u'', visit_session)"
proof -
  show "request_flaw visit_query visit_request = None"
    by (simp add: request_flaw_def visit_request_def) code_simp
  show "requested_agent visit_env 5 visit_request visit_known = (Inr (Inr None), visit_known)"
    by (simp add: requested_agent_def visit_request_def nonempty_def)
  have p: "prompt_values visit_query = []" by (simp add: prompt_values_def) code_simp
  show "authorize_gate visit_env intro_web 5 intro_request visit_query visit_request None visit_session = (Inr ''u'', visit_session)"
    by (simp add: authorize_gate_def p visit_session_def session_str_def auth_expired_def)
qed

lemma visit_code_fields [simp]:
  "ac_client_id visit_code = ''app''" "ac_user_id visit_code = ''u''" "ac_redirect_uri visit_code = ''https://app/cb''"
  "ac_code_challenge visit_code = Some (''h'' @ replicate 43 CHR ''v'')" "ac_expires_at visit_code = 5 + secs 600"
  "ac_code visit_code = generate_code [2, 3]"
  by (simp_all add: visit_code_def build_code_def new_with_ttl_def code_msg_of_def visit_request_def Let_def clamp_def)

lemma visit_issue:
  "\<exists>s'. authorize_issue visit_env intro_web 5 visit_draw visit_request None ''u'' ''read'' visit_known =
     (Inr (FormPost ''https://app/cb'' [(''code'', ac_code visit_code), (''iss'', oc_issuer demo_oidc), (''state'', ''st'')]), s') \<and>
     db_codes (sv_db s') = [visit_code]"
proof -
  have m: "send_materialize visit_env 5 visit_client visit_known = (Inr (), visit_known)"
    by (simp add: send_materialize_def materialize_cimd_client_def)
  have d: "db_codes (sv_db visit_known) = []" "has_client (sv_db visit_known) ''app''" "has_user (sv_db visit_known) ''u''"
    by (simp_all add: visit_known_def visit_server_def has_client_def has_user_def user_new_def db_empty_def)
  have b: "build_code 600 5 (dw_uuid visit_draw) (dw_family visit_draw) (dw_code visit_draw) (code_msg_of visit_request None ''u'' ''read'') = visit_code"
    by (simp add: visit_code_def visit_draw_def)
  have s: "send_create_code intro_web 5 visit_draw (code_msg_of visit_request None ''u'' ''read'') visit_known =
      (Inr visit_code, visit_known\<lparr>sv_db := (sv_db visit_known)\<lparr>db_codes := [visit_code]\<rparr>\<rparr>)"
    using d by (simp add: send_create_code_def run_db_def create_authorization_code_def intro_web_def b Let_def save_authorization_code_def
        checked_def bindS_def)
  have v: "ar_client visit_request = visit_client" "ar_mode visit_request = ''form_post''" "\<not> ar_hybrid visit_request"
    "ar_redirect_uri visit_request = ''https://app/cb''" "ef_state (ar_effective visit_request) = Some ''st''"
    by (simp_all add: visit_request_def)
  show ?thesis
    by (simp add: authorize_issue_def andThen_def bindS_def ret_def v m s hybrid_id_token_def deliver_code_def opt_pair_def)
qed

lemma visit_run:
  "\<exists>z' s'. authorize visit_env intro_web 5 visit_draw intro_request visit_query visit_session visit_server =
     (Inr (FormPost ''https://app/cb'' [(''code'', ac_code visit_code), (''iss'', oc_issuer demo_oidc), (''state'', ''st'')]), z', s') \<and>
     db_codes (sv_db s') = [visit_code]"
proof -
  have sc: "validate_scope_subset ''read'' ''read'' = Inr ()" by code_simp
  have a: "acr_satisfied visit_request z" for z by (simp add: acr_satisfied_def visit_request_def)
  have f: "ar_client visit_request = visit_client" "ef_scope (ar_effective visit_request) = None" by (simp_all add: visit_request_def)
  show ?thesis using visit_issue
    by (auto simp: authorize_def visit_front visit_stages authorize_grant_def f sc a)
qed



theorem authorized_code_validates_witness:
  "\<exists>d. validate_authorization_code (en_libs visit_env) 9 ''cd'' ''app'' None (Some (replicate 43 CHR ''v'')) d = Inr visit_code"
proof -
  obtain x z' s' where r: "authorize visit_env intro_web 5 visit_draw intro_request visit_query visit_session visit_server = (x, z', s')"
    "db_codes (sv_db s') = db_codes (sv_db visit_server) @ [visit_code]"
    using visit_run by (auto simp: visit_server_def db_empty_def)
  have "generate_code (dw_code visit_draw) = ''cd''" by code_simp
  then show ?thesis
    using authorized_code_validates [OF r, of "replicate 43 CHR ''v''" 9 None] by (auto simp: visit_env_def demo_libs1_def secs_def)
qed


theorem pushed_response_type_ignored_witness:
  "db_codes (sv_db (snd (snd (authorize visit_env intro_web 5 visit_draw intro_request (visit_query\<lparr>aq_response_type := None\<rparr>) visit_session
     visit_server)))) = []"
proof -
  obtain x z' s' where "authorize visit_env intro_web 5 visit_draw intro_request (visit_query\<lparr>aq_response_type := None\<rparr>) visit_session
     visit_server = (x, z', s')" by (metis surj_pair)
  moreover have "db_codes (sv_db visit_server) = []" by (simp add: visit_server_def db_empty_def)
  ultimately show ?thesis using pushed_response_type_ignored [of "visit_query\<lparr>aq_response_type := None\<rparr>"] by fastforce
qed

end
