(* ===== verification/Registration_Laws.thy ===== *)
theory Registration_Laws
  imports Client_Registration
begin

text \<open>
  What registration guarantees: a self-registered client cannot give itself a privileged scope,
  delegation trust or agent status; only the holder of a client's registration access token changes
  or deletes it, and only it; what was registered can be read back.  And what an update overwrites.
\<close>

section \<open>Software statements\<close>

definition attested :: "env \<Rightarrow> registrar \<Rightarrow> instant \<Rightarrow> db \<Rightarrow> json \<Rightarrow> bool" where
  "attested E R now d claims =
     (\<exists>statement (header :: jose_header) iss t fetch jwks key. get_trusted_issuer iss d = Some t \<and> ti_enabled t \<and>
        en_jwks_cache E = Some fetch \<and> fetch (trim (ti_jwks_uri t)) = Inr jwks \<and> select_key (en_jose E) jwks header = Inr key \<and>
        jh_alg header \<in> set allowed_algs \<and> rl_decode_statement R now (jh_alg header) key iss statement = Inr claims)"

lemma enabled_issuer: "(case x of Some t \<Rightarrow> if ti_enabled t then Some t else None | None \<Rightarrow> None) = Some t \<longleftrightarrow> x = Some t \<and> ti_enabled t"
  by (auto split: option.splits)

lemma verify_statement_attested: "verify_statement E R now st d = Inr claims \<Longrightarrow> attested E R now d claims"
  unfolding attested_def by (simp add: verify_statement_def result_simps map_sum_Inr enabled_issuer) blast

lemma merge_keeps:
  "cr_allowed_actors (merge_software_statement_claims claims reg) = cr_allowed_actors reg"
  "cr_software_id (merge_software_statement_claims claims reg) = opt_or (claim_str claims ''software_id'') (cr_software_id reg)"
  by (simp_all add: merge_software_statement_claims_def Let_def split: option.splits)

lemma apply_statement:
  assumes "apply_software_statement E R now reg d = Inr reg'"
  shows "cr_allowed_actors reg' = cr_allowed_actors reg"
    "cr_software_id reg' = cr_software_id reg \<or> (\<exists>claims. attested E R now d claims \<and> claim_str claims ''software_id'' = cr_software_id reg')"
proof -
  have "reg' = reg \<or> (\<exists>claims. attested E R now d claims \<and> reg' = merge_software_statement_claims claims reg)"
    using assms by (auto simp: apply_software_statement_def result_simps dest: verify_statement_attested split: option.splits)
  then show "cr_allowed_actors reg' = cr_allowed_actors reg"
    "cr_software_id reg' = cr_software_id reg \<or> (\<exists>claims. attested E R now d claims \<and> claim_str claims ''software_id'' = cr_software_id reg')"
    by (auto simp: merge_keeps opt_or_def split: option.splits)
qed

section \<open>Dynamic registration\<close>

lemma all_ok_iff: "all_ok f xs = Inr () \<longleftrightarrow> (\<forall>x\<in>set xs. f x = Inr ())"
  by (induction xs) (auto simp: result_simps)

lemma validated_registration:
  assumes "validate_registration reg = Inr ()"
  shows "\<not> scope_contains_privileged (cr_scope reg)" "cr_redirect_uris reg \<noteq> []"
    "\<forall>u\<in>set (cr_redirect_uris reg). valid_redirect_uri u = Inr ()" "cr_token_endpoint_auth_method reg \<in> set supported_auth_methods"
  using assms
  by (auto simp: validate_registration_def result_simps Let_def all_ok_iff validate_token_endpoint_auth_method_def split: if_splits)

lemma send_register_ok:
  assumes "send_register E now dr reg s = (Inr c, s')"
  shows "c = registered_client (en_libs E) now (dr_uuid dr) (dr_client_uuid dr) (dr_secret dr) (dr_token dr) reg"
    "sv_db s' = (sv_db s)\<lparr>db_clients := db_clients (sv_db s) @ [c]\<rparr>" "get_client (cl_client_id c) (sv_db s) = None"
    "sv_clients s' = insert_cached_client now c (sv_clients s)"
  using assms
  by (auto simp: send_register_def register_client_def save_client_def checked_def get_client_def Let_def find_None_iff list_ex_iff
      split: prod.splits sum.splits if_splits)

lemma dynamic_register_parts:
  assumes "dynamic_register E R now dr reg0 s = (Inr resp, s')"
  obtains reg1 c where "rg_enabled_var R = Some ''true''"
    "apply_software_statement E R now (clear_self_asserted_software_metadata (reg0\<lparr>cr_allowed_actors := None\<rparr>)) (sv_db s) = Inr reg1"
    "validate_registration (normalise_registration reg1) = Inr ()" "send_register E now dr (normalise_registration reg1) s = (Inr c, s')"
    "resp = from_client (en_libs E) c (oc_issuer (en_oidc E))"
  using assms by (auto simp: dynamic_register_def result_simps Let_def parse_registration_enabled_def)

text \<open>C35. Self-registration is confined.  Dynamic registration succeeds only while the operator has opened it;
  it then adds one client and changes nothing else of the database.  The client has no privileged
  scope, trusts no other actor, uses a supported authentication method and absolute redirect URIs
  without fragments or script schemes, has no secret if it is public, and has a software identifier
  only if an enabled trusted issuer attested it.\<close>
theorem self_registration_confined:
  assumes "dynamic_register E R now dr reg s = (Inr resp, s')"
  shows "rg_enabled_var R = Some ''true'' \<and>
    (\<exists>c uris. sv_db s' = (sv_db s)\<lparr>db_clients := db_clients (sv_db s) @ [c]\<rparr> \<and> rr_client_id resp = cl_client_id c \<and>
       rr_client_secret resp = (if is_public c then None else Some (cl_client_secret c)) \<and> (is_public c \<longrightarrow> cl_client_secret c = []) \<and>
       \<not> scope_contains_privileged (cl_scope c) \<and> cl_allowed_actors c = ''[]'' \<and> \<not> cl_cimd_managed c \<and>
       cl_token_endpoint_auth_method c \<in> set supported_auth_methods \<and>
       cl_redirect_uris c = strings_to_json (en_libs E) uris \<and> uris \<noteq> [] \<and> (\<forall>u\<in>set uris. valid_redirect_uri u = Inr ()) \<and>
       (cl_software_id c \<noteq> [] \<longrightarrow> (\<exists>claims. attested E R now (sv_db s) claims \<and> claim_str claims ''software_id'' = Some (cl_software_id c))))"
  using assms
proof (rule dynamic_register_parts)
  fix reg1 c assume e: "rg_enabled_var R = Some ''true''"
    and a: "apply_software_statement E R now (clear_self_asserted_software_metadata (reg\<lparr>cr_allowed_actors := None\<rparr>)) (sv_db s) = Inr reg1"
    and v: "validate_registration (normalise_registration reg1) = Inr ()" and r: "send_register E now dr (normalise_registration reg1) s = (Inr c, s')"
    and p: "resp = from_client (en_libs E) c (oc_issuer (en_oidc E))"
  note k = send_register_ok [OF r]
  have f: "cl_scope c = cr_scope (normalise_registration reg1)" "cl_redirect_uris c = strings_to_json (en_libs E) (cr_redirect_uris (normalise_registration reg1))"
    "cl_token_endpoint_auth_method c = cr_token_endpoint_auth_method (normalise_registration reg1)" "\<not> cl_cimd_managed c"
    "cl_allowed_actors c = unwrap_or (map_option (strings_to_json (en_libs E)) (cr_allowed_actors reg1)) ''[]''"
    "cl_software_id c = unwrap_or (cr_software_id reg1) []" "is_public c \<longrightarrow> cl_client_secret c = []"
    by (simp_all add: k(1) registered_client_def client_new_def Let_def normalise_registration_def is_public_def)
  have w: "cr_allowed_actors reg1 = None"
    "cr_software_id reg1 = None \<or> (\<exists>claims. attested E R now (sv_db s) claims \<and> claim_str claims ''software_id'' = cr_software_id reg1)"
    using apply_statement [OF a] by (simp_all add: clear_self_asserted_software_metadata_def)
  have "cl_software_id c \<noteq> [] \<longrightarrow> (\<exists>claims. attested E R now (sv_db s) claims \<and> claim_str claims ''software_id'' = Some (cl_software_id c))"
    using w(2) f(6) by (cases "cr_software_id reg1") (auto simp: unwrap_or_def)
  then show ?thesis
    using e f w(1) validated_registration [OF v] k(2) p
    by (intro conjI exI [of _ c] exI [of _ "cr_redirect_uris (normalise_registration reg1)"]) (simp_all add: from_client_def Let_def unwrap_or_def)
qed

section \<open>The configuration endpoint\<close>

text \<open>Every cached client sits under its own identifier.\<close>
definition cache_keyed :: "client_actor \<Rightarrow> bool" where
  "cache_keyed A = (\<forall>(k, e)\<in>set (cla_cache A). cl_client_id (cch_client e) = k)"

lemma cache_keyed_sub: "set (cla_cache B) \<subseteq> set (cla_cache A) \<Longrightarrow> cache_keyed A \<Longrightarrow> cache_keyed B"
  unfolding cache_keyed_def by blast

lemma cache_keyed_pop: "cache_keyed A \<Longrightarrow> cache_keyed (A\<lparr>cla_cache := lru_pop k (cla_cache A)\<rparr>)"
  by (erule cache_keyed_sub [rotated]) (auto simp: lru_pop_def)

lemma cache_keyed_insert: "cache_keyed A \<Longrightarrow> cache_keyed (insert_cached_client now c A)"
  unfolding cache_keyed_def insert_cached_client_def lru_put_def lru_pop_def by (auto dest!: in_set_takeD)

lemma get_cached_keyed:
  assumes "get_cached_client now cid A = (x, A')" "cache_keyed A"
  shows "cache_keyed A' \<and> (\<forall>c. x = Some c \<longrightarrow> cl_client_id c = cid)"
proof -
  have "set (cla_cache A') \<subseteq> set (cla_cache A)"
    using assms(1) by (auto simp: get_cached_client_def lru_get_def lru_pop_def split: option.splits if_splits dest: map_of_SomeD)
  moreover have "cl_client_id c = cid" if "x = Some c" for c
    using assms that by (auto simp: get_cached_client_def lru_get_def cache_keyed_def split: option.splits if_splits dest!: map_of_SomeD)
  ultimately show ?thesis using assms(2) cache_keyed_sub by blast
qed

lemma get_client_keyed:
  assumes "get_client_handler now cid A d = (x, A')" "cache_keyed A"
  shows "cache_keyed A' \<and> (\<forall>c. x = Inr c \<longrightarrow> cl_client_id c = cid)"
proof (cases "get_cached_client now cid A")
  case (Pair y A1)
  note k = get_cached_keyed [OF Pair assms(2)]
  show ?thesis
  proof (cases y)
    case (Some c)
    then show ?thesis using assms(1) Pair k by (auto simp: get_client_handler_def)
  next
    case None
    then show ?thesis using assms(1) Pair k cache_keyed_insert
      by (auto simp: get_client_handler_def get_client_def find_Some_iff split: option.splits)
  qed
qed

lemma registration_token_ok:
  assumes "authenticate_registration_token now r cid s = (Inr c, s1)"
  shows "bearer_token r = Some (cl_registration_access_token c)" "cl_registration_access_token c \<noteq> []"
    "get_client_handler now cid (sv_clients s) (sv_db s) = (Inr c, sv_clients s1)" "sv_db s1 = sv_db s"
  using assms
  by (auto simp: authenticate_registration_token_def result_simps send_get_client_def split: prod.splits)

lemma registration_token_fail:
  "authenticate_registration_token now r cid s = (Inl e, s1) \<Longrightarrow> sv_db s1 = sv_db s"
  by (auto simp: authenticate_registration_token_def andThen_def bindS_def ret_def send_get_client_def split: prod.splits sum.splits)

lemma send_update_run:
  "send_update_client now c z = (Inr c, z\<lparr>sv_clients := insert_cached_client now c (sv_clients z), sv_db := snd (update_client c (sv_db z))\<rparr>)"
  by (simp add: send_update_client_def update_client_handler_def update_client_def)

lemma update_configuration_parts:
  assumes "update_client_configuration E R now r cid body s = (x, s')" "sv_db s' \<noteq> sv_db s \<or> x = Inr resp"
  obtains c s1 b where "authenticate_registration_token now r cid s = (Inr c, s1)"
    "validate_registration (normalise_registration b) = Inr ()"
    "send_update_client now (updated_client (en_libs E) now (normalise_registration b) c) s1 =
       (Inr (updated_client (en_libs E) now (normalise_registration b) c), s')"
proof -
  obtain y s1 where a: "authenticate_registration_token now r cid s = (y, s1)" by (metis surj_pair)
  have db: "sv_db s1 = sv_db s" using a registration_token_ok(4) registration_token_fail by (cases y) blast+
  show ?thesis
    using assms a db that
    by (cases y) (auto simp: update_client_configuration_def andThen_def bindS_def ret_def Let_def send_update_run split: sum.splits)
qed

lemma in_update_where: "y \<in> set (update_where P f xs) \<Longrightarrow> (\<exists>x\<in>set xs. P x \<and> y = f x) \<or> y \<in> set xs \<and> \<not> P y"
  by (auto simp: update_where_def split: if_splits)

lemma updated_row:
  assumes "send_update_client now u s1 = (Inr u, s')"
  shows "sv_db s' = (sv_db s1)\<lparr>db_clients := db_clients (sv_db s')\<rparr>"
    "filter (\<lambda>r. cl_client_id r \<noteq> cl_client_id u) (db_clients (sv_db s')) = filter (\<lambda>r. cl_client_id r \<noteq> cl_client_id u) (db_clients (sv_db s1))"
    "sv_clients s' = insert_cached_client now u (sv_clients s1)"
    "row \<in> set (db_clients (sv_db s')) \<Longrightarrow> cl_client_id row = cl_client_id u \<Longrightarrow>
       \<exists>r :: client. row = u\<lparr>cl_id := cl_id r, cl_client_id := cl_client_id r, cl_created_at := cl_created_at r, cl_require_state := cl_require_state r\<rparr>"
proof -
  let ?f = "\<lambda>r :: client. u\<lparr>cl_id := cl_id r, cl_client_id := cl_client_id r, cl_created_at := cl_created_at r, cl_require_state := cl_require_state r\<rparr>"
  have d: "sv_db s' = (sv_db s1)\<lparr>db_clients := update_where (\<lambda>r. cl_client_id r = cl_client_id u) ?f (db_clients (sv_db s1))\<rparr>"
    and c: "sv_clients s' = insert_cached_client now u (sv_clients s1)"
    using assms by (auto simp: send_update_client_def update_client_handler_def update_client_def)
  show "sv_db s' = (sv_db s1)\<lparr>db_clients := db_clients (sv_db s')\<rparr>" by (simp add: d)
  show "sv_clients s' = insert_cached_client now u (sv_clients s1)" by (rule c)
  have "filter (\<lambda>r. cl_client_id r \<noteq> cl_client_id u) (update_where (\<lambda>r. cl_client_id r = cl_client_id u) ?f xs) =
      filter (\<lambda>r. cl_client_id r \<noteq> cl_client_id u) xs" for xs
    by (induction xs) (auto simp: update_where_def)
  then show "filter (\<lambda>r. cl_client_id r \<noteq> cl_client_id u) (db_clients (sv_db s')) = filter (\<lambda>r. cl_client_id r \<noteq> cl_client_id u) (db_clients (sv_db s1))"
    by (simp add: d)
  show "\<exists>r. row = ?f r" if m: "row \<in> set (db_clients (sv_db s'))" and i: "cl_client_id row = cl_client_id u"
  proof -
    have "row \<in> set (update_where (\<lambda>r. cl_client_id r = cl_client_id u) ?f (db_clients (sv_db s1)))" using m by (simp add: d)
    from in_update_where [OF this] show ?thesis using i by blast
  qed
qed

lemma deleted_row:
  assumes "send_delete_client cid s1 = (x, s')"
  shows "sv_db s' = (sv_db s1)\<lparr>db_clients := db_clients (sv_db s')\<rparr>"
    "filter (\<lambda>r. cl_client_id r \<noteq> cid) (db_clients (sv_db s')) = filter (\<lambda>r. cl_client_id r \<noteq> cid) (db_clients (sv_db s1))"
    "sv_clients s' = (sv_clients s1)\<lparr>cla_cache := lru_pop cid (cla_cache (sv_clients s1))\<rparr>"
    "sv_db s' \<noteq> sv_db s1 \<Longrightarrow> row \<in> set (db_clients (sv_db s')) \<Longrightarrow> cl_client_id row \<noteq> cid"
  using assms by (auto simp: send_delete_client_def delete_client_handler_def delete_client_def checked_def Let_def split: prod.splits if_splits)

text \<open>A registration that changed belongs to the holder of the token that was presented.\<close>
definition managed_by_token :: "instant \<Rightarrow> http_request \<Rightarrow> string \<Rightarrow> server \<Rightarrow> server \<Rightarrow> bool" where
  "managed_by_token now r cid s s' =
     (\<exists>c. fst (get_client_handler now cid (sv_clients s) (sv_db s)) = Inr c \<and> cl_client_id c = cid \<and>
        bearer_token r = Some (cl_registration_access_token c) \<and> cl_registration_access_token c \<noteq> [] \<and>
        sv_db s' = (sv_db s)\<lparr>db_clients := db_clients (sv_db s')\<rparr> \<and>
        filter (\<lambda>row. cl_client_id row \<noteq> cid) (db_clients (sv_db s')) = filter (\<lambda>row. cl_client_id row \<noteq> cid) (db_clients (sv_db s)) \<and>
        (\<forall>row\<in>set (db_clients (sv_db s')). cl_client_id row = cid \<longrightarrow>
           \<not> scope_contains_privileged (cl_scope row) \<and> cl_allowed_actors row = cl_allowed_actors c \<and>
           cl_client_secret row = cl_client_secret c \<and> cl_registration_access_token row = cl_registration_access_token c))"

lemma update_managed:
  assumes "update_client_configuration E R now r cid body s = (x, s')" "sv_db s' \<noteq> sv_db s" "cache_keyed (sv_clients s)"
  shows "managed_by_token now r cid s s'"
  using assms(1) disjI1 [OF assms(2)]
proof (rule update_configuration_parts)
  fix c s1 b
  assume a: "authenticate_registration_token now r cid s = (Inr c, s1)" and v: "validate_registration (normalise_registration b) = Inr ()"
    and u: "send_update_client now (updated_client (en_libs E) now (normalise_registration b) c) s1 =
       (Inr (updated_client (en_libs E) now (normalise_registration b) c), s')"
  note t = registration_token_ok [OF a]
  have c: "cl_client_id c = cid" using get_client_keyed [OF t(3) assms(3)] by blast
  have i: "cl_client_id (updated_client (en_libs E) now (normalise_registration b) c) = cid" by (simp add: updated_client_def c)
  note k = updated_row [OF u, unfolded i t(4)]
  have "\<not> scope_contains_privileged (cl_scope row) \<and> cl_allowed_actors row = cl_allowed_actors c \<and>
      cl_client_secret row = cl_client_secret c \<and> cl_registration_access_token row = cl_registration_access_token c"
    if "row \<in> set (db_clients (sv_db s'))" "cl_client_id row = cid" for row
    using k(4) [OF that] validated_registration(1) [OF v] by (auto simp: updated_client_def)
  then show ?thesis unfolding managed_by_token_def using t(1-3) c k(1,2) by (intro exI [of _ c]) simp
qed

lemma delete_managed:
  assumes "delete_client_configuration now r cid s = (x, s')" "sv_db s' \<noteq> sv_db s" "cache_keyed (sv_clients s)"
  shows "managed_by_token now r cid s s'"
proof -
  obtain y s1 where a: "authenticate_registration_token now r cid s = (y, s1)" by (metis surj_pair)
  with assms registration_token_fail obtain c where y: "y = Inr c"
    by (cases y) (auto simp: delete_client_configuration_def andThen_def)
  note t = registration_token_ok [OF a [unfolded y]]
  have c: "cl_client_id c = cid" using get_client_keyed [OF t(3) assms(3)] by blast
  have d: "send_delete_client cid s1 = (x, s')" using assms(1) a y by (simp add: delete_client_configuration_def andThen_def)
  show ?thesis unfolding managed_by_token_def
    using t c deleted_row [OF d] assms(2) by (intro exI [of _ c]) auto
qed

text \<open>Only the holder of a registration access token manages a registration.  If a request to the
  configuration endpoint changes the database, it carried the client's own non-empty token; no other
  client's row and no other table changed; and the client's row, unless it is gone, has no privileged
  scope and kept its secret, its token and the actors it trusts.\<close>
theorem registration_token_guards:
  assumes "update_client_configuration E R now r cid body s = (x, s1) \<and> s' = s1 \<or> delete_client_configuration now r cid s = (y, s2) \<and> s' = s2"
    and "cache_keyed (sv_clients s)" "sv_db s' \<noteq> sv_db s"
  shows "managed_by_token now r cid s s'"
  using assms update_managed delete_managed by blast

section \<open>Reading back\<close>

text \<open>A registration can be read back: with the registration access token of the response, the configuration
  endpoint returns exactly the response of the registration, from the cache or from the table.\<close>
theorem registration_readable:
  assumes "dynamic_register E R now dr reg s = (Inr resp, s')"
    and "bearer_token r = Some (rr_registration_access_token resp)" "rr_registration_access_token resp \<noteq> []"
  shows "\<exists>s''. read_client_configuration E t r (rr_client_id resp) s' = (Inr resp, s'') \<and> sv_db s'' = sv_db s'"
  using assms(1)
proof (rule dynamic_register_parts)
  fix reg1 c assume r: "send_register E now dr (normalise_registration reg1) s = (Inr c, s')"
    and p: "resp = from_client (en_libs E) c (oc_issuer (en_oidc E))"
  note k = send_register_ok [OF r]
  have g: "get_client (cl_client_id c) (sv_db s') = Some c"
    using k(2,3) by (simp add: get_client_def find_append)
  have c: "fst (get_client_handler t (cl_client_id c) (sv_clients s') (sv_db s')) = Inr c"
    using g by (simp add: get_client_handler_def get_cached_client_def k(4) insert_cached_client_def lru_get_def lru_put_def client_cache_max_def)
  have f: "rr_client_id resp = cl_client_id c" "rr_registration_access_token resp = cl_registration_access_token c"
    by (simp_all add: p from_client_def Let_def)
  obtain A where A: "get_client_handler t (cl_client_id c) (sv_clients s') (sv_db s') = (Inr c, A)"
    using c by (metis prod.collapse)
  have "authenticate_registration_token t r (cl_client_id c) s' = (Inr c, s'\<lparr>sv_clients := A\<rparr>)"
    using assms(2,3) f by (simp add: authenticate_registration_token_def andThen_def ret_def send_get_client_def A ensure_def)
  then show ?thesis unfolding f(1) by (simp add: read_client_configuration_def andThen_def ret_def p)
qed

section \<open>What an update overwrites\<close>

text \<open>An update starts from the cached client and writes its secret and its enabled flag back, whatever the
  operator did to the row in the meantime.\<close>
lemma update_writes_cache_back:
  assumes "get_cached_client now cid (sv_clients s) = (Some c, A)" "update_client_configuration E R now r cid body s = (Inr resp, s')"
    and "row \<in> set (db_clients (sv_db s'))" "cl_client_id row = cl_client_id c"
  shows "cl_enabled row = cl_enabled c \<and> cl_client_secret row = cl_client_secret c"
  using assms(2) disjI2 [OF refl]
proof (rule update_configuration_parts)
  fix c' s1 b
  assume a: "authenticate_registration_token now r cid s = (Inr c', s1)"
    and u: "send_update_client now (updated_client (en_libs E) now (normalise_registration b) c') s1 =
       (Inr (updated_client (en_libs E) now (normalise_registration b) c'), s')"
  have "c' = c" using registration_token_ok(3) [OF a] assms(1) by (simp add: get_client_handler_def)
  then show ?thesis using updated_row(4) [OF u assms(3)] assms(4) by (auto simp: updated_client_def)
qed

text \<open>A public client that switches to a secret-based method keeps its empty secret, with which anybody then
  authenticates.\<close>
lemma upgraded_public_client_open:
  assumes "cl_client_secret c = []" "cr_token_endpoint_auth_method body = ''client_secret_post''" "rq_client_secret req = Some []"
  shows "fst (authenticate_confidential_client AL fk t w (updated_client L now body c) req url iss jwks mt g) = Inr ()"
  using assms by (simp add: authenticate_confidential_client_def updated_client_def client_secret_matches_def)

section \<open>A run\<close>

definition desk_registrar :: registrar where
  "desk_registrar = \<lparr>rg_enabled_var = Some ''true'', rl_decode_statement = (\<lambda>_ _ _ _ _. Inl [])\<rparr>"

definition desk_registration :: client_registration where
  "desk_registration = \<lparr>cr_client_name = ''app'', cr_redirect_uris = [''https://a/cb''], cr_grant_types = [], cr_scope = ''read'',
     cr_token_endpoint_auth_method = ''client_secret_post'', cr_response_types = [], cr_contacts = [], cr_logo_uri = None, cr_client_uri = None,
     cr_policy_uri = None, cr_tos_uri = None, cr_jwks = None, cr_jwks_uri = None, cr_backchannel_logout_uri = None,
     cr_backchannel_logout_session_required = None, cr_frontchannel_logout_uri = None, cr_frontchannel_logout_session_required = None,
     cr_post_logout_redirect_uris = None, cr_tls_client_certificate_subject_dn = None, cr_allowed_actors = Some [''evil''],
     cr_tls_client_auth_san = None, cr_software_id = Some ''agent:x'', cr_software_version = None, cr_software_statement = None\<rparr>"

definition desk_draw :: client_draw where
  "desk_draw = \<lparr>dr_uuid = ''i'', dr_client_uuid = ''u'', dr_secret = [1], dr_token = [2]\<rparr>"

definition desk_server :: server where
  "desk_server = (demo_server True)\<lparr>sv_db := db_empty, sv_clients := \<lparr>cla_cache = []\<rparr>\<rparr>"

definition desk_body :: client_registration where
  "desk_body = normalise_registration (clear_self_asserted_software_metadata (desk_registration\<lparr>cr_allowed_actors := None\<rparr>))"

definition desk_client :: client where
  "desk_client = registered_client demo_libs1 0 ''i'' ''u'' [1] [2] desk_body"

definition desk_registered :: server where
  "desk_registered = desk_server\<lparr>sv_clients := insert_cached_client 0 desk_client \<lparr>cla_cache = []\<rparr>, sv_db := db_empty\<lparr>db_clients := [desk_client]\<rparr>\<rparr>"

lemma desk_valid: "validate_registration desk_body = Inr ()"
  by code_simp

lemma desk_registers:
  "dynamic_register demo_env desk_registrar 0 desk_draw desk_registration desk_server =
     (Inr (from_client demo_libs1 desk_client (oc_issuer demo_oidc)), desk_registered)"
proof -
  have a: "apply_software_statement demo_env desk_registrar 0 (clear_self_asserted_software_metadata (desk_registration\<lparr>cr_allowed_actors := None\<rparr>)) d =
      Inr (clear_self_asserted_software_metadata (desk_registration\<lparr>cr_allowed_actors := None\<rparr>))" for d
    by (simp add: apply_software_statement_def clear_self_asserted_software_metadata_def desk_registration_def nonempty_def)
  have r: "send_register demo_env 0 desk_draw desk_body desk_server = (Inr desk_client, desk_registered)"
    by (simp add: send_register_def register_client_def desk_draw_def desk_client_def Let_def save_client_def checked_def desk_server_def
        db_empty_def desk_registered_def)
  show ?thesis
    by (simp add: dynamic_register_def andThen_def ret_def desk_registrar_def [of] parse_registration_enabled_def a [unfolded desk_registrar_def]
        desk_body_def [symmetric] desk_valid r)
qed

theorem self_registration_confined_witness:
  "\<exists>c. db_clients (sv_db desk_registered) = [c] \<and> \<not> scope_contains_privileged (cl_scope c) \<and> cl_allowed_actors c = ''[]''"
proof -
  have "db_clients (sv_db desk_server) = []" by (simp add: desk_server_def db_empty_def)
  then show ?thesis using self_registration_confined [OF desk_registers] by auto
qed

definition desk_request :: http_request where
  "desk_request = intro_request\<lparr>hr_header := (\<lambda>k. if k = ''Authorization'' then Some (Text ''Bearer c'') else None)\<rparr>"

lemma desk_token: "bearer_token desk_request = Some ''c''" "cl_registration_access_token desk_client = ''c''"
proof -
  have "trim ''c'' = ''c''" by code_simp
  then show "bearer_token desk_request = Some ''c''"
    by (simp add: bearer_token_def desk_request_def header_text_def strip_prefix_opt_def nonempty_def)
  show "cl_registration_access_token desk_client = ''c''"
    by (simp add: desk_client_def registered_client_def Let_def generate_secret_of_length_def) code_simp
qed

theorem registration_readable_witness:
  "\<exists>s. read_client_configuration demo_env 9 desk_request (cl_client_id desk_client) desk_registered =
     (Inr (from_client demo_libs1 desk_client (oc_issuer demo_oidc)), s)"
proof -
  have "rr_client_id (from_client demo_libs1 desk_client (oc_issuer demo_oidc)) = cl_client_id desk_client"
    "rr_registration_access_token (from_client demo_libs1 desk_client (oc_issuer demo_oidc)) = ''c''"
    by (simp_all add: from_client_def Let_def desk_token)
  then show ?thesis using registration_readable [OF desk_registers, of desk_request 9] desk_token(1) by auto
qed

theorem registration_token_guards_witness:
  "managed_by_token 9 desk_request (cl_client_id desk_client) desk_registered (snd (delete_client_configuration 9 desk_request (cl_client_id desk_client) desk_registered))"
proof -
  let ?x = "delete_client_configuration 9 desk_request (cl_client_id desk_client) desk_registered"
  have k: "cache_keyed (sv_clients desk_registered)" using cache_keyed_insert [of "\<lparr>cla_cache = []\<rparr>" 0 desk_client] by (simp add: desk_registered_def cache_keyed_def)
  have "db_clients (sv_db (snd ?x)) = []"
    by (simp add: delete_client_configuration_def authenticate_registration_token_def andThen_def ret_def desk_token send_get_client_def
        get_client_handler_def get_cached_client_def lru_get_def desk_registered_def insert_cached_client_def lru_put_def client_cache_max_def
        client_cache_ttl_def secs_def send_delete_client_def delete_client_handler_def delete_client_def checked_def client_referenced_def db_empty_def
        Let_def)
  then have "sv_db (snd ?x) \<noteq> sv_db desk_registered" by (auto simp: desk_registered_def)
  moreover have "?x = (fst ?x, snd ?x)" by simp
  ultimately show ?thesis
    using registration_token_guards [of demo_env desk_registrar 9 desk_request "cl_client_id desk_client" desk_registration desk_registered _ _
        "snd ?x" "fst ?x" "snd ?x"] k by blast
qed

end
