(* ===== verification/Logout.thy ===== *)
theory Logout
  imports Browser_Login Sql_Listing Introspection_Laws
begin

text \<open>
  Logout at the provider (\<open>handlers/oidc_logout.rs\<close>): the verified ID-token hint, the revocation of
  the user's tokens, the tokens sent to the back channels of the clients, the page that calls their
  front channels, and the redirect afterwards.  Verification of the hint, URL handling and the HTTP
  client are parameters; what is sent over the back channel is a list of address and token.
\<close>

record logout_query =
  lo_id_token_hint :: "string option"
  lo_post_logout_redirect_uri :: "string option"
  lo_state :: "string option"
  lo_sid :: "string option"

text \<open>\<open>ll_decode_hint now alg key issuer hint\<close> verifies signature, expiry and issuer of the hint.\<close>
record logout_lib =
  ll_decode_hint :: "instant \<Rightarrow> algorithm \<Rightarrow> bytes \<Rightarrow> string \<Rightarrow> string \<Rightarrow> json option"

datatype logout_reply = LogoutPage string | LogoutRedirect string | LoggedOut

section \<open>Redirect targets\<close>

definition validate_post_logout_redirect_uri_shape :: "libs \<Rightarrow> string \<Rightarrow> url result" where
  "validate_post_logout_redirect_uri_shape L uri =
     bindR (ok_or (url_parse L uri) (invalid_request ''Invalid post_logout_redirect_uri'')) (\<lambda>parsed.
     bindR (ensure (url_scheme parsed \<in> {''http'', ''https''}) (invalid_request ''post_logout_redirect_uri must use http or https'')) (\<lambda>_.
     bindR (ensure (url_fragment parsed = None) (invalid_request ''post_logout_redirect_uri must not contain a fragment'')) (\<lambda>_.
       Inr parsed)))"

definition is_registered_post_logout_redirect :: "libs \<Rightarrow> string \<Rightarrow> db \<Rightarrow> bool" where
  "is_registered_post_logout_redirect L candidate d =
     list_ex (\<lambda>c. list_ex (\<lambda>u. u = candidate) (parse_string_vec L (cl_post_logout_redirect_uris c)) \<or>
                  list_ex (\<lambda>u. u = candidate) (get_redirect_uris L c)) (list_all_clients d)"

text \<open>Where the browser goes after the logout, if anywhere.\<close>
definition post_logout_target :: "libs \<Rightarrow> web \<Rightarrow> logout_query \<Rightarrow> db \<Rightarrow> string option result" where
  "post_logout_target L W q d =
     (case lo_post_logout_redirect_uri q of
        None \<Rightarrow> Inr None
      | Some uri \<Rightarrow>
          bindR (validate_post_logout_redirect_uri_shape L uri) (\<lambda>parsed.
          bindR (ensure (is_registered_post_logout_redirect L uri d) (invalid_request ''Unregistered post_logout_redirect_uri'')) (\<lambda>_.
            Inr (Some (case lo_state q of None \<Rightarrow> url_text parsed | Some st \<Rightarrow> wl_append_pairs W parsed [(''state'', st)])))))"

section \<open>The hint\<close>

fun extract_audiences :: "json \<Rightarrow> string list" where
  "extract_audiences (JObj kvs) =
     (case map_of kvs ''aud'' of
        Some (JStr a) \<Rightarrow> [a]
      | Some (JArr vs) \<Rightarrow> List.map_filter as_str vs
      | _ \<Rightarrow> [])"
| "extract_audiences _ = []"

text \<open>The header only selects among the configured keys.\<close>
definition hint_claims :: "env \<Rightarrow> logout_lib \<Rightarrow> instant \<Rightarrow> string \<Rightarrow> json option" where
  "hint_claims E X now hint =
     (let oc = en_oidc E in
      Option.bind (al_header (en_assertions E) hint) (\<lambda>header.
      case jh_alg header of
        AHS256 \<Rightarrow> ll_decode_hint X now HS256 (secret_bytes (en_jwt E) (oc_jwt_secret oc)) (oc_issuer oc) hint
      | ARS256 \<Rightarrow>
          Option.bind (oc_id_token_private_key_pem oc) (\<lambda>pem.
          case en_rsa_pem E (secret_bytes (en_jwt E) pem) of
            Inl _ \<Rightarrow> None
          | Inr _ \<Rightarrow> ll_decode_hint X now RS256 (secret_bytes (en_jwt E) pem) (oc_issuer oc) hint)
      | _ \<Rightarrow> None))"

definition logout_hint :: "env \<Rightarrow> logout_lib \<Rightarrow> instant \<Rightarrow> logout_query \<Rightarrow> db \<Rightarrow> string option result \<times> db" where
  "logout_hint E X now q d =
     (case Option.bind (lo_id_token_hint q) (hint_claims E X now) of
        None \<Rightarrow> (Inr None, d)
      | Some claims \<Rightarrow>
          (let audiences = extract_audiences claims in
           if audiences \<noteq> [] \<and> \<not> list_ex (\<lambda>a. get_client a d \<noteq> None) audiences then
             (Inl (invalid_request ''id_token_hint audience does not match a registered client''), d)
           else case claim_str claims ''sub'' of
             None \<Rightarrow> (Inr None, d)
           | Some s \<Rightarrow> (Inr (Some s), snd (revoke_tokens_by_user_id s d))))"

section \<open>The back channel\<close>

definition logout_claims :: "instant \<Rightarrow> string \<Rightarrow> string \<Rightarrow> string \<Rightarrow> string option \<Rightarrow> string option \<Rightarrow> json" where
  "logout_claims now jti issuer audience sub sid =
     JObj ([(''iss'', JStr issuer), (''aud'', JStr audience), (''iat'', JInt (timestamp now)), (''exp'', JInt (timestamp now + 120)),
            (''jti'', JStr jti), (''events'', JObj [(''http://schemas.openid.net/event/backchannel-logout'', JObj [])])] @
           (case sub of None \<Rightarrow> [] | Some v \<Rightarrow> [(''sub'', JStr v)]) @ (case sid of None \<Rightarrow> [] | Some v \<Rightarrow> [(''sid'', JStr v)]))"

definition build_logout_token :: "env \<Rightarrow> instant \<Rightarrow> string \<Rightarrow> string \<Rightarrow> string option \<Rightarrow> string option \<Rightarrow> string result" where
  "build_logout_token E now jti audience sub sid =
     bindR (ensure (sub \<noteq> None \<or> sid \<noteq> None) (error_new ''server_error'' (Some ''logout token requires at least one of sub or sid''))) (\<lambda>_.
       server_error_of (en_encode_json E ''logout+JWT'' None HS256 (secret_bytes (en_jwt E) (oc_jwt_secret (en_oidc E)))
         (logout_claims now jti (oc_issuer (en_oidc E)) audience sub sid)))"

text \<open>What one client is sent; \<open>jti\<close> is the random identifier of its token.\<close>
definition backchannel_message ::
  "env \<Rightarrow> instant \<Rightarrow> string option \<Rightarrow> string option \<Rightarrow> string \<Rightarrow> client \<Rightarrow> (string \<times> string) option" where
  "backchannel_message E now sub sid jti c =
     (if cl_backchannel_logout_uri c = [] then None
      else case build_logout_token E now jti (cl_client_id c) sub (if cl_backchannel_logout_session_required c then sid else None) of
        Inl _ \<Rightarrow> None
      | Inr token \<Rightarrow> Some (cl_backchannel_logout_uri c, ''logout_token='' @ token))"

definition send_backchannel_logout_tokens ::
  "env \<Rightarrow> instant \<Rightarrow> (nat \<Rightarrow> string) \<Rightarrow> string option \<Rightarrow> string option \<Rightarrow> db \<Rightarrow> (string \<times> string) list" where
  "send_backchannel_logout_tokens E now jtis sub sid d =
     (if sub = None \<and> sid = None then []
      else List.map_filter (\<lambda>(i, c). backchannel_message E now sub sid (jtis i) c) (enumerate 0 (list_all_clients d)))"

section \<open>The front channel\<close>

definition frontchannel_uri :: "libs \<Rightarrow> web \<Rightarrow> string \<Rightarrow> string option \<Rightarrow> client \<Rightarrow> string option" where
  "frontchannel_uri L W issuer sid c =
     (if cl_frontchannel_logout_uri c = [] then None
      else map_option (\<lambda>u. wl_append_pairs W u ((''iss'', issuer) #
             (if cl_frontchannel_logout_session_required c then (case sid of Some v \<Rightarrow> [(''sid'', v)] | None \<Rightarrow> []) else [])))
           (url_parse L (cl_frontchannel_logout_uri c)))"

definition iframe :: "string \<Rightarrow> string" where \<open>
  iframe uri = ''<iframe src="'' @ uri @ ''" style="display:none;" sandbox="allow-scripts allow-same-origin"></iframe>'' @ [CHR 0x0A]\<close>

text \<open>The target as a script literal, with the characters escaped that could close the element.\<close>
definition script_literal :: "libs \<Rightarrow> string \<Rightarrow> string" where
  "script_literal L uri =
     replace_char (CHR ''/'') ([CHR 0x5C] @ ''/'') (replace_char (CHR ''<'') ([CHR 0x5C] @ ''u003C'') (json_to_string L (JStr uri)))"

definition redirect_script :: "libs \<Rightarrow> string option \<Rightarrow> string" where
  "redirect_script L target =
     (case target of
        None \<Rightarrow> []
      | Some uri \<Rightarrow> ''<script>setTimeout(function(){ window.location.href = '' @ script_literal L uri @ ''; }, 2000);</script>'')"

definition build_frontchannel_logout_page :: "libs \<Rightarrow> web \<Rightarrow> client list \<Rightarrow> string \<Rightarrow> string option \<Rightarrow> string option \<Rightarrow> string" where
  "build_frontchannel_logout_page L W clients issuer sid target =
     ''<!DOCTYPE html>'' @ [CHR 0x0A] @ ''<html>'' @ [CHR 0x0A] @ ''<head><title>Logging out...</title></head>'' @ [CHR 0x0A] @ ''<body>'' @ [CHR 0x0A] @
     ''<p>Logging out...</p>'' @ [CHR 0x0A] @ concat (map iframe (List.map_filter (frontchannel_uri L W issuer sid) clients)) @ [CHR 0x0A] @
     redirect_script L target @ [CHR 0x0A] @ ''</body>'' @ [CHR 0x0A] @ ''</html>''"

section \<open>The endpoint\<close>

text \<open>The answer, once tokens are revoked and the session is gone.\<close>
definition logout_answer :: "env \<Rightarrow> web \<Rightarrow> logout_query \<Rightarrow> string option \<Rightarrow> db \<Rightarrow> logout_reply result" where
  "logout_answer E W q sid d =
     bindR (post_logout_target (en_libs E) W q d) (\<lambda>target.
       Inr (if list_ex (\<lambda>c. cl_frontchannel_logout_uri c \<noteq> []) (list_all_clients d)
            then LogoutPage (build_frontchannel_logout_page (en_libs E) W (list_all_clients d) (oc_issuer (en_oidc E)) sid target)
            else case target of None \<Rightarrow> LoggedOut | Some uri \<Rightarrow> LogoutRedirect uri))"

definition logout ::
  "env \<Rightarrow> web \<Rightarrow> logout_lib \<Rightarrow> instant \<Rightarrow> (nat \<Rightarrow> string) \<Rightarrow> logout_query \<Rightarrow> session \<Rightarrow> db \<Rightarrow>
     logout_reply result \<times> session \<times> (string \<times> string) list \<times> db" where
  "logout E W X now jtis q z d =
     (let sid = opt_or (lo_sid q) (session_str z ''session_id'') in
      case logout_hint E X now q d of
        (Inl e, d1) \<Rightarrow> (Inl e, z, [], d1)
      | (Inr sub, d1) \<Rightarrow>
          (logout_answer E W q sid d1, Map.empty, send_backchannel_logout_tokens E now jtis sub sid d1, d1))"

section \<open>Properties\<close>

lemma in_list_all_clients [simp]: "set (list_all_clients d) = set (db_clients d)"
  by (simp add: list_all_clients_def order_rows_def)

lemma revoke_rows_clients [simp]: "db_clients (revoke_rows p d) = db_clients d"
  by (simp add: revoke_rows_def)

text \<open>A hint that names a registered client, or no client at all, and a user.\<close>
definition hinted_user :: "env \<Rightarrow> logout_lib \<Rightarrow> instant \<Rightarrow> logout_query \<Rightarrow> db \<Rightarrow> string \<Rightarrow> bool" where
  "hinted_user E X now q d u =
     (\<exists>hint claims. lo_id_token_hint q = Some hint \<and> hint_claims E X now hint = Some claims \<and> claim_str claims ''sub'' = Some u \<and>
        (extract_audiences claims = [] \<or> (\<exists>a \<in> set (extract_audiences claims). get_client a d \<noteq> None)))"

lemma logout_hint_cases:
  assumes "logout_hint E X now q d = (r, d1)"
  obtains e where "r = Inl e" "d1 = d"
    | "r = Inr None" "d1 = d"
    | u where "r = Inr (Some u)" "hinted_user E X now q d u" "d1 = revoke_rows (\<lambda>t. tk_user_id t = Some u \<and> \<not> tk_revoked t) d"
proof (cases "Option.bind (lo_id_token_hint q) (hint_claims E X now)")
  case None
  then show thesis using assms that(2) by (simp add: logout_hint_def)
next
  case (Some claims)
  then obtain hint where h: "lo_id_token_hint q = Some hint" "hint_claims E X now hint = Some claims" by (cases "lo_id_token_hint q") auto
  show thesis
  proof (cases "claim_str claims ''sub''")
    case None
    then show thesis using assms Some that(1,2) by (auto simp: logout_hint_def Let_def split: if_splits)
  next
    case (Some u)
    then show thesis
      using assms \<open>Option.bind _ _ = Some claims\<close> that(1) that(3) [of u] h
      by (auto simp: logout_hint_def Let_def hinted_user_def revoke_tokens_by_user_id_def list_ex_iff split: if_splits)
  qed
qed

lemma post_logout_target_ok:
  assumes "post_logout_target L W q d = Inr (Some uri)"
  obtains u c parsed where "lo_post_logout_redirect_uri q = Some u" "c \<in> set (db_clients d)"
    "u \<in> set (parse_string_vec L (cl_post_logout_redirect_uris c)) \<union> set (get_redirect_uris L c)"
    "url_parse L u = Some parsed" "url_scheme parsed \<in> {''http'', ''https''}" "url_fragment parsed = None"
    "uri = (case lo_state q of None \<Rightarrow> url_text parsed | Some st \<Rightarrow> wl_append_pairs W parsed [(''state'', st)])"
proof -
  obtain u parsed where u: "lo_post_logout_redirect_uri q = Some u" "validate_post_logout_redirect_uri_shape L u = Inr parsed"
      "is_registered_post_logout_redirect L u d" "uri = (case lo_state q of None \<Rightarrow> url_text parsed | Some st \<Rightarrow> wl_append_pairs W parsed [(''state'', st)])"
    using assms by (auto simp: post_logout_target_def result_simps split: option.splits)
  moreover obtain c where "c \<in> set (db_clients d)" "u \<in> set (parse_string_vec L (cl_post_logout_redirect_uris c)) \<union> set (get_redirect_uris L c)"
    using u(3) by (auto simp: is_registered_post_logout_redirect_def list_ex_iff)
  moreover have "url_parse L u = Some parsed" "url_scheme parsed \<in> {''http'', ''https''}" "url_fragment parsed = None"
    using u(2) by (auto simp: validate_post_logout_redirect_uri_shape_def result_simps)
  ultimately show thesis using that by blast
qed

text \<open>Whatever URL is rendered, the script literal cannot close its element.\<close>
lemma script_literal_inert: "CHR ''<'' \<notin> set (script_literal L uri)"
  by (auto simp: script_literal_def replace_char_def)

lemma backchannel_message_ok:
  assumes "backchannel_message E now sub sid jti c = Some (uri, body)"
  shows "uri = cl_backchannel_logout_uri c \<and> uri \<noteq> [] \<and>
    (\<exists>sid' token. (sub \<noteq> None \<or> sid' \<noteq> None) \<and> body = ''logout_token='' @ token \<and>
       en_encode_json E ''logout+JWT'' None HS256 (secret_bytes (en_jwt E) (oc_jwt_secret (en_oidc E)))
         (logout_claims now jti (oc_issuer (en_oidc E)) (cl_client_id c) sub sid') = Inr token)"
proof -
  let ?sid = "if cl_backchannel_logout_session_required c then sid else None"
  obtain token where t: "build_logout_token E now jti (cl_client_id c) sub ?sid = Inr token" "uri = cl_backchannel_logout_uri c" "uri \<noteq> []"
      "body = ''logout_token='' @ token"
    using assms by (auto simp: backchannel_message_def split: if_splits sum.splits)
  then show ?thesis by (auto simp: build_logout_token_def server_error_of_def result_simps intro!: exI [of _ ?sid])
qed

text \<open>A logout token for \<open>c\<close> about the user, the session, or both.\<close>
definition logout_notice :: "env \<Rightarrow> instant \<Rightarrow> string option \<Rightarrow> client \<Rightarrow> string \<Rightarrow> bool" where
  "logout_notice E now sub c body =
     (\<exists>jti sid token. (sub \<noteq> None \<or> sid \<noteq> None) \<and> body = ''logout_token='' @ token \<and>
        en_encode_json E ''logout+JWT'' None HS256 (secret_bytes (en_jwt E) (oc_jwt_secret (en_oidc E)))
          (logout_claims now jti (oc_issuer (en_oidc E)) (cl_client_id c) sub sid) = Inr token)"

lemma sent_notices:
  assumes "(uri, body) \<in> set (send_backchannel_logout_tokens E now jtis sub sid d)"
  shows "\<exists>c \<in> set (db_clients d). uri = cl_backchannel_logout_uri c \<and> uri \<noteq> [] \<and> logout_notice E now sub c body"
proof -
  obtain i c where "(i, c) \<in> set (enumerate 0 (list_all_clients d))" "backchannel_message E now sub sid (jtis i) c = Some (uri, body)"
    using assms by (auto simp: send_backchannel_logout_tokens_def List.map_filter_def split: if_splits)
  then have "c \<in> set (db_clients d)" "backchannel_message E now sub sid (jtis i) c = Some (uri, body)"
    by (auto simp: in_set_enumerate_eq in_list_all_clients [symmetric] simp del: in_list_all_clients)
  then show ?thesis using backchannel_message_ok unfolding logout_notice_def by fastforce
qed

text \<open>The browser is sent to a URI that a client registered, in its registered spelling plus the state.\<close>
definition registered_target :: "libs \<Rightarrow> web \<Rightarrow> logout_query \<Rightarrow> db \<Rightarrow> string \<Rightarrow> bool" where
  "registered_target L W q d uri =
     (\<exists>u c parsed. c \<in> set (db_clients d) \<and> u \<in> set (parse_string_vec L (cl_post_logout_redirect_uris c)) \<union> set (get_redirect_uris L c) \<and>
        url_parse L u = Some parsed \<and> url_scheme parsed \<in> {''http'', ''https''} \<and>
        uri = (case lo_state q of None \<Rightarrow> url_text parsed | Some st \<Rightarrow> wl_append_pairs W parsed [(''state'', st)]))"

text \<open>Redirect or page, the browser goes nowhere else.\<close>
definition reply_confined :: "env \<Rightarrow> web \<Rightarrow> logout_query \<Rightarrow> db \<Rightarrow> logout_reply \<Rightarrow> bool" where
  "reply_confined E W q d rep =
     (case rep of
        LoggedOut \<Rightarrow> True
      | LogoutRedirect uri \<Rightarrow> registered_target (en_libs E) W q d uri
      | LogoutPage page \<Rightarrow>
          (\<exists>cs sid target. (\<forall>uri. target = Some uri \<longrightarrow> registered_target (en_libs E) W q d uri) \<and>
             page = build_frontchannel_logout_page (en_libs E) W cs (oc_issuer (en_oidc E)) sid target))"

lemma reply_confined_clients: "db_clients d1 = db_clients d \<Longrightarrow> reply_confined E W q d1 rep = reply_confined E W q d rep"
  by (cases rep) (simp_all add: reply_confined_def registered_target_def)

lemma logout_answer_ok:
  assumes "logout_answer E W q sid d = Inr rep"
  shows "reply_confined E W q d rep"
proof -
  obtain target where t: "post_logout_target (en_libs E) W q d = Inr target"
    using assms by (auto simp: logout_answer_def result_simps)
  have r: "\<forall>uri. target = Some uri \<longrightarrow> registered_target (en_libs E) W q d uri"
    using t by (auto simp: registered_target_def elim!: post_logout_target_ok)
  show ?thesis
  proof (cases "list_ex (\<lambda>c. cl_frontchannel_logout_uri c \<noteq> []) (list_all_clients d)")
    case True
    then have rep: "rep = LogoutPage (build_frontchannel_logout_page (en_libs E) W (list_all_clients d) (oc_issuer (en_oidc E)) sid target)"
      using assms t by (simp add: logout_answer_def)
    show ?thesis unfolding reply_confined_def rep logout_reply.case using r by blast
  next
    case False
    then show ?thesis using assms t r by (auto simp: logout_answer_def reply_confined_def split: option.splits)
  qed
qed


text \<open>The caches of the token actors are not told: a cached copy of a token that a logout revoked keeps
  validating until it is a minute old.\<close>
lemma logout_misses_caches:
  assumes "lru_get (normalize_token_key raw) (tka_cache (shard E raw s)) = (Some ct, cache)" "now - ct_inserted_at ct < cache_ttl"
    and "token_is_valid now (ct_token ct)"
  shows "fst (send_validate E now raw (s\<lparr>sv_db := snd (snd (snd (logout E W X t jtis q z (sv_db s))))\<rparr>)) = Inr (ct_token ct)"
  using assms by (simp add: send_validate_def validate_token_sync_def validate_token_async_def shard_def shard_index_def Let_def)

section \<open>A run\<close>

definition leave_env :: env where
  "leave_env = demo_env\<lparr>en_assertions := no_assertions\<lparr>al_header := \<lambda>_. Some \<lparr>jh_alg = AHS256, jh_typ = None, jh_kid = None, jh_jwk = None\<rparr>\<rparr>\<rparr>"

definition leave_lib :: logout_lib where
  "leave_lib = \<lparr>ll_decode_hint = (\<lambda>_ _ _ _ _. Some (JObj [(''sub'', JStr ''u''), (''aud'', JStr ''svc'')]))\<rparr>"

definition leave_query :: logout_query where
  "leave_query = \<lparr>lo_id_token_hint = Some ''hint'', lo_post_logout_redirect_uri = None, lo_state = None, lo_sid = None\<rparr>"

definition leave_db :: db where
  "leave_db = db_empty\<lparr>db_clients := [demo_svc\<lparr>cl_backchannel_logout_uri := ''https://rp/out''\<rparr>], db_tokens := [intro_token]\<rparr>"

lemma leave_hint: "logout_hint leave_env leave_lib 5 leave_query leave_db = (Inr (Some ''u''), snd (revoke_tokens_by_user_id ''u'' leave_db))"
  by (simp add: logout_hint_def hint_claims_def leave_env_def leave_lib_def leave_query_def leave_db_def claim_str_def get_client_def
      demo_env_def demo_svc_def client_new_def)


end
