(* ===== verification/Social_Login.thy ===== *)
theory Social_Login
  imports Browser_Login
begin

text \<open>
  Login through an external identity provider (\<open>crates/oauth2-social-login\<close>): provider settings, the
  circuit breaker in front of each provider, the redirect to the provider, the callback and the local user it
  finds or creates.  The providers, the OAuth client library that talks to them, URL parsing, random values and
  password hashing are parameters.
\<close>

section \<open>Provider settings\<close>

record provider_config =
  pc_enabled :: bool
  pc_client_id :: "string option"
  pc_client_secret :: "string option"
  pc_redirect_uri :: "string option"
  pc_tenant_id :: "string option"
  pc_domain :: "string option"

record social_config =
  so_google :: "provider_config option"
  so_microsoft :: "provider_config option"
  so_github :: "provider_config option"
  so_azure :: "provider_config option"
  so_okta :: "provider_config option"
  so_auth0 :: "provider_config option"

text \<open>\<open>vars\<close> are the variables of the process.\<close>
definition provider_from_env :: "(string \<rightharpoonup> string) \<Rightarrow> string \<Rightarrow> provider_config option" where
  "provider_from_env vars pre =
     (let var = (\<lambda>name. vars (''OAUTH2_'' @ pre @ ''_'' @ name)) in
      if var ''CLIENT_ID'' \<noteq> None \<and> var ''CLIENT_SECRET'' \<noteq> None then
        Some \<lparr>pc_enabled = True, pc_client_id = var ''CLIENT_ID'', pc_client_secret = var ''CLIENT_SECRET'',
          pc_redirect_uri = opt_or (var ''REDIRECT_URI'') (Some (''http://localhost:8080/auth/callback/'' @ to_lowercase pre)),
          pc_tenant_id = var ''TENANT_ID'', pc_domain = var ''DOMAIN''\<rparr>
      else None)"

definition social_from_env :: "(string \<rightharpoonup> string) \<Rightarrow> social_config" where
  "social_from_env vars =
     \<lparr>so_google = provider_from_env vars ''GOOGLE'', so_microsoft = provider_from_env vars ''MICROSOFT'',
      so_github = provider_from_env vars ''GITHUB'', so_azure = provider_from_env vars ''AZURE'', so_okta = provider_from_env vars ''OKTA'',
      so_auth0 = provider_from_env vars ''AUTH0''\<rparr>"

section \<open>The breaker of a provider\<close>

datatype probe_state = ProbeClosed | ProbeOpen instant | ProbeHalfOpen

record provider_breaker =
  pb_state :: probe_state
  pb_consecutive_failures :: "32 word"

definition pb_failure_threshold :: "32 word" where
  "pb_failure_threshold = 5"

definition pb_cooldown :: instant where
  "pb_cooldown = secs 30"

definition pb_new :: provider_breaker where
  "pb_new = \<lparr>pb_state = ProbeClosed, pb_consecutive_failures = 0\<rparr>"

definition pb_allow_request :: "instant \<Rightarrow> provider_breaker \<Rightarrow> bool \<times> provider_breaker" where
  "pb_allow_request now b =
     (case pb_state b of
        ProbeClosed \<Rightarrow> (True, b)
      | ProbeOpen since \<Rightarrow> if pb_cooldown \<le> now - since then (True, b\<lparr>pb_state := ProbeHalfOpen\<rparr>) else (False, b)
      | ProbeHalfOpen \<Rightarrow> (False, b))"

definition pb_on_success :: "provider_breaker \<Rightarrow> provider_breaker" where
  "pb_on_success b = b\<lparr>pb_consecutive_failures := 0, pb_state := ProbeClosed\<rparr>"

text \<open>The counter wraps at 32 bits.\<close>
definition pb_on_failure :: "instant \<Rightarrow> provider_breaker \<Rightarrow> provider_breaker" where
  "pb_on_failure now b =
     (let b1 = b\<lparr>pb_consecutive_failures := pb_consecutive_failures b + 1\<rparr> in
      if pb_failure_threshold \<le> pb_consecutive_failures b1 \<or> pb_state b1 = ProbeHalfOpen then b1\<lparr>pb_state := ProbeOpen now\<rparr> else b1)"

section \<open>Clients of the providers\<close>

record social_client =
  sc_client_id :: string
  sc_client_secret :: string
  sc_auth_uri :: string
  sc_token_uri :: string
  sc_redirect_uri :: string

text \<open>\<open>sn_url_error\<close> gives the complaint of the URL parser, if it has one; \<open>sn_exchange\<close> redeems a code,
  with the PKCE verifier if there is one; \<open>sn_get\<close> reads a JSON document with a bearer token;
  \<open>sn_shape_error\<close> is the complaint about a document of another shape.\<close>
record social_net =
  sn_url_error :: "string \<Rightarrow> string option"
  sn_authorize_url :: "social_client \<Rightarrow> string list \<Rightarrow> string option \<Rightarrow> string \<Rightarrow> string"
  sn_pkce_challenge :: "string \<Rightarrow> string"
  sn_exchange :: "social_client \<Rightarrow> string \<Rightarrow> string option \<Rightarrow> string + string"
  sn_get :: "string \<Rightarrow> string \<Rightarrow> string + json"
  sn_shape_error :: "json \<Rightarrow> string"
  sn_session_error :: "json \<Rightarrow> string"
  sn_hash_password :: "string \<Rightarrow> string + string"
  sn_to_json :: "json \<Rightarrow> string"

definition server_fault :: "string \<Rightarrow> string \<Rightarrow> oauth2_error" where
  "server_fault kind text = error_new kind (Some text)"

definition validate_provider_config :: "provider_config \<Rightarrow> string \<Rightarrow> (string \<times> string \<times> string) result" where
  "validate_provider_config c name =
     bindR (ok_or (pc_client_id c) (server_fault ''invalid_configuration'' (name @ '' client_id not set''))) (\<lambda>i.
     bindR (ok_or (pc_client_secret c) (server_fault ''invalid_configuration'' (name @ '' client_secret not set''))) (\<lambda>s.
     bindR (ok_or (pc_redirect_uri c) (server_fault ''invalid_configuration'' (name @ '' redirect_uri not set''))) (\<lambda>r.
       Inr (i, s, r))))"

definition checked_url :: "social_net \<Rightarrow> string \<Rightarrow> string result" where
  "checked_url N u = (case sn_url_error N u of Some e \<Rightarrow> Inl (server_fault ''invalid_configuration'' e) | None \<Rightarrow> Inr u)"

definition configured_client :: "social_net \<Rightarrow> provider_config \<Rightarrow> string \<Rightarrow> string \<Rightarrow> string \<Rightarrow> social_client result" where
  "configured_client N c name auth_uri token_uri =
     bindR (validate_provider_config c name) (\<lambda>(i, s, r).
     bindR (checked_url N auth_uri) (\<lambda>a.
     bindR (checked_url N token_uri) (\<lambda>t.
     bindR (checked_url N r) (\<lambda>r'.
       Inr \<lparr>sc_client_id = i, sc_client_secret = s, sc_auth_uri = a, sc_token_uri = t, sc_redirect_uri = r'\<rparr>))))"

definition get_google_client :: "social_net \<Rightarrow> provider_config \<Rightarrow> social_client result" where
  "get_google_client N c =
     configured_client N c ''Google'' ''https://accounts.google.com/o/oauth2/v2/auth'' ''https://oauth2.googleapis.com/token''"

definition get_microsoft_client :: "social_net \<Rightarrow> provider_config \<Rightarrow> social_client result" where
  "get_microsoft_client N c =
     (let tenant = unwrap_or (pc_tenant_id c) ''common'' in
      configured_client N c ''Microsoft'' (''https://login.microsoftonline.com/'' @ tenant @ ''/oauth2/v2.0/authorize'')
        (''https://login.microsoftonline.com/'' @ tenant @ ''/oauth2/v2.0/token''))"

definition get_github_client :: "social_net \<Rightarrow> provider_config \<Rightarrow> social_client result" where
  "get_github_client N c =
     configured_client N c ''GitHub'' ''https://github.com/login/oauth/authorize'' ''https://github.com/login/oauth/access_token''"

section \<open>What the provider says about the user\<close>

record social_user_info =
  su_provider :: string
  su_provider_user_id :: string
  su_email :: string
  su_name :: "string option"
  su_picture :: "string option"

definition provider_get :: "social_net \<Rightarrow> string \<Rightarrow> string \<Rightarrow> json result" where
  "provider_get N url tok = map_sum (server_fault ''provider_error'') id (sn_get N url tok)"

definition shaped :: "social_net \<Rightarrow> json \<Rightarrow> 'a option \<Rightarrow> 'a result" where
  "shaped N v x = ok_or x (server_fault ''provider_error'' (sn_shape_error N v))"

text \<open>An optional field: absent, null or a string.\<close>
definition opt_field :: "json \<Rightarrow> string \<Rightarrow> string option option" where
  "opt_field v k = (case json_get v k of None \<Rightarrow> Some None | Some JNull \<Rightarrow> Some None | Some (JStr s) \<Rightarrow> Some (Some s) | Some _ \<Rightarrow> None)"

definition do_fetch_google :: "social_net \<Rightarrow> string \<Rightarrow> social_user_info result" where
  "do_fetch_google N tok =
     bindR (provider_get N ''https://www.googleapis.com/oauth2/v2/userinfo'' tok) (\<lambda>v.
     bindR (shaped N v (claim_str v ''id'')) (\<lambda>i.
     bindR (shaped N v (claim_str v ''email'')) (\<lambda>e.
     bindR (shaped N v (opt_field v ''name'')) (\<lambda>n.
     bindR (shaped N v (opt_field v ''picture'')) (\<lambda>p.
       Inr \<lparr>su_provider = ''google'', su_provider_user_id = i, su_email = e, su_name = n, su_picture = p\<rparr>)))))"

definition do_fetch_microsoft :: "social_net \<Rightarrow> string \<Rightarrow> social_user_info result" where
  "do_fetch_microsoft N tok =
     bindR (provider_get N ''https://graph.microsoft.com/v1.0/me'' tok) (\<lambda>v.
     bindR (shaped N v (claim_str v ''id'')) (\<lambda>i.
     bindR (shaped N v (claim_str v ''userPrincipalName'')) (\<lambda>e.
     bindR (shaped N v (opt_field v ''displayName'')) (\<lambda>n.
       Inr \<lparr>su_provider = ''microsoft'', su_provider_user_id = i, su_email = e, su_name = n, su_picture = None\<rparr>))))"

fun github_email :: "json \<Rightarrow> (string \<times> bool) option" where
  "github_email v = (case (claim_str v ''email'', json_get v ''primary'') of (Some e, Some (JBool b)) \<Rightarrow> Some (e, b) | _ \<Rightarrow> None)"

definition github_primary :: "social_net \<Rightarrow> string \<Rightarrow> string result" where
  "github_primary N tok =
     bindR (provider_get N ''https://api.github.com/user/emails'' tok) (\<lambda>v.
     bindR (shaped N v (Option.bind (as_array v) (\<lambda>vs. those (map github_email vs)))) (\<lambda>es.
       ok_or (map_option fst (find snd es)) (server_fault ''provider_error'' ''No email found'')))"

definition do_fetch_github :: "social_net \<Rightarrow> string \<Rightarrow> social_user_info result" where
  "do_fetch_github N tok =
     bindR (provider_get N ''https://api.github.com/user'' tok) (\<lambda>v.
     bindR (shaped N v (Option.bind (json_get v ''id'') as_i64_value)) (\<lambda>i.
     bindR (shaped N v (opt_field v ''email'')) (\<lambda>e0.
     bindR (shaped N v (opt_field v ''name'')) (\<lambda>n.
     bindR (shaped N v (opt_field v ''avatar_url'')) (\<lambda>p.
     bindR (case e0 of Some e \<Rightarrow> Inr e | None \<Rightarrow> github_primary N tok) (\<lambda>e.
       Inr \<lparr>su_provider = ''github'', su_provider_user_id = show_int i, su_email = e, su_name = n, su_picture = p\<rparr>))))))"

text \<open>The request to the provider, behind its breaker.\<close>
definition fetch_guarded :: "instant \<Rightarrow> string \<Rightarrow> social_user_info result \<Rightarrow> provider_breaker \<Rightarrow> social_user_info result \<times> provider_breaker" where
  "fetch_guarded now name outcome b =
     (case pb_allow_request now b of
        (False, b1) \<Rightarrow> (Inl (server_fault ''provider_unavailable'' (name @ '' circuit breaker open'')), b1)
      | (True, b1) \<Rightarrow> (outcome, if isl outcome then pb_on_failure now b1 else pb_on_success b1))"

record social_service =
  ss_google :: provider_breaker
  ss_microsoft :: provider_breaker
  ss_github :: provider_breaker

definition social_service_new :: social_service where
  "social_service_new = \<lparr>ss_google = pb_new, ss_microsoft = pb_new, ss_github = pb_new\<rparr>"

definition fetch_google_user_info :: "social_net \<Rightarrow> instant \<Rightarrow> string \<Rightarrow> social_service \<Rightarrow> social_user_info result \<times> social_service" where
  "fetch_google_user_info N now tok s = (case fetch_guarded now ''Google'' (do_fetch_google N tok) (ss_google s) of (x, b) \<Rightarrow> (x, s\<lparr>ss_google := b\<rparr>))"

definition fetch_microsoft_user_info :: "social_net \<Rightarrow> instant \<Rightarrow> string \<Rightarrow> social_service \<Rightarrow> social_user_info result \<times> social_service" where
  "fetch_microsoft_user_info N now tok s =
     (case fetch_guarded now ''Microsoft'' (do_fetch_microsoft N tok) (ss_microsoft s) of (x, b) \<Rightarrow> (x, s\<lparr>ss_microsoft := b\<rparr>))"

definition fetch_github_user_info :: "social_net \<Rightarrow> instant \<Rightarrow> string \<Rightarrow> social_service \<Rightarrow> social_user_info result \<times> social_service" where
  "fetch_github_user_info N now tok s = (case fetch_guarded now ''GitHub'' (do_fetch_github N tok) (ss_github s) of (x, b) \<Rightarrow> (x, s\<lparr>ss_github := b\<rparr>))"

section \<open>The way to the provider\<close>

text \<open>\<open>csrf\<close> and \<open>verifier\<close> are the fresh random values.\<close>
definition google_login :: "social_net \<Rightarrow> social_config \<Rightarrow> string \<Rightarrow> string \<Rightarrow> session \<Rightarrow> string result \<times> session" where
  "google_login N cfg csrf verifier z =
     (case bindR (ok_or (so_google cfg) (server_fault ''provider_not_configured'' ''Google login not configured'')) (get_google_client N) of
        Inl e \<Rightarrow> (Inl e, z)
      | Inr c \<Rightarrow> (Inr (sn_authorize_url N c [''openid'', ''email'', ''profile''] (Some (sn_pkce_challenge N verifier)) csrf),
                  z(''csrf_token'' \<mapsto> JStr csrf, ''pkce_verifier'' \<mapsto> JStr verifier, ''provider'' \<mapsto> JStr ''google'')))"

definition plain_login :: "social_net \<Rightarrow> social_client result \<Rightarrow> string \<Rightarrow> string list \<Rightarrow> string \<Rightarrow> session \<Rightarrow> string result \<times> session" where
  "plain_login N client provider scopes csrf z =
     (case client of
        Inl e \<Rightarrow> (Inl e, z)
      | Inr c \<Rightarrow> (Inr (sn_authorize_url N c scopes None csrf), z(''csrf_token'' \<mapsto> JStr csrf, ''provider'' \<mapsto> JStr provider)))"

definition microsoft_login :: "social_net \<Rightarrow> social_config \<Rightarrow> string \<Rightarrow> session \<Rightarrow> string result \<times> session" where
  "microsoft_login N cfg csrf z =
     plain_login N (bindR (ok_or (so_microsoft cfg) (server_fault ''provider_not_configured'' ''Microsoft login not configured'')) (get_microsoft_client N))
       ''microsoft'' [''openid'', ''email'', ''profile''] csrf z"

definition azure_login :: "social_net \<Rightarrow> social_config \<Rightarrow> string \<Rightarrow> session \<Rightarrow> string result \<times> session" where
  "azure_login N cfg csrf z =
     plain_login N (bindR (ok_or (opt_or (so_azure cfg) (so_microsoft cfg)) (server_fault ''provider_not_configured'' ''Azure login not configured''))
       (get_microsoft_client N)) ''azure'' [''openid'', ''email'', ''profile''] csrf z"

definition github_login :: "social_net \<Rightarrow> social_config \<Rightarrow> string \<Rightarrow> session \<Rightarrow> string result \<times> session" where
  "github_login N cfg csrf z =
     plain_login N (bindR (ok_or (so_github cfg) (server_fault ''provider_not_configured'' ''GitHub login not configured'')) (get_github_client N))
       ''github'' [''user:email''] csrf z"

section \<open>The callback\<close>

definition session_get :: "social_net \<Rightarrow> session \<Rightarrow> string \<Rightarrow> string option result" where
  "session_get N z k =
     (case z k of
        None \<Rightarrow> Inr None
      | Some v \<Rightarrow> (case session_str z k of Some s \<Rightarrow> Inr (Some s) | None \<Rightarrow> Inl (server_fault ''session_error'' (sn_session_error N v))))"

definition redeem :: "social_net \<Rightarrow> social_client \<Rightarrow> string \<Rightarrow> string option \<Rightarrow> string result" where
  "redeem N c code verifier = map_sum (server_fault ''token_exchange_failed'') id (sn_exchange N c code verifier)"

definition google_token :: "social_net \<Rightarrow> social_config \<Rightarrow> string \<Rightarrow> session \<Rightarrow> string result" where
  "google_token N cfg code z =
     bindR (ok_or (so_google cfg) (server_fault ''provider_not_configured'' ''Google not configured'')) (\<lambda>pc.
     bindR (get_google_client N pc) (\<lambda>c.
     bindR (session_get N z ''pkce_verifier'') (\<lambda>v.
     bindR (ok_or v (server_fault ''session_error'' ''PKCE verifier missing from session'')) (\<lambda>verifier.
       redeem N c code (Some verifier)))))"

definition microsoft_token :: "social_net \<Rightarrow> provider_config option \<Rightarrow> string \<Rightarrow> string \<Rightarrow> string result" where
  "microsoft_token N pc0 name code =
     bindR (ok_or pc0 (server_fault ''provider_not_configured'' (name @ '' not configured''))) (\<lambda>pc.
     bindR (get_microsoft_client N pc) (\<lambda>c. redeem N c code None))"

definition github_token :: "social_net \<Rightarrow> social_config \<Rightarrow> string \<Rightarrow> string result" where
  "github_token N cfg code =
     bindR (ok_or (so_github cfg) (server_fault ''provider_not_configured'' ''GitHub not configured'')) (\<lambda>pc.
     bindR (get_github_client N pc) (\<lambda>c. redeem N c code None))"

definition provider_token :: "social_net \<Rightarrow> social_config \<Rightarrow> string \<Rightarrow> string \<Rightarrow> session \<Rightarrow> string result" where
  "provider_token N cfg provider code z =
     (if provider = ''google'' then google_token N cfg code z
      else if provider = ''microsoft'' then microsoft_token N (so_microsoft cfg) ''Microsoft'' code
      else if provider = ''azure'' then microsoft_token N (opt_or (so_azure cfg) (so_microsoft cfg)) ''Azure'' code
      else if provider = ''github'' then github_token N cfg code
      else Inl (invalid_request ''Unsupported provider''))"

definition provider_user :: "social_net \<Rightarrow> instant \<Rightarrow> string \<Rightarrow> string \<Rightarrow> social_service \<Rightarrow> social_user_info result \<times> social_service" where
  "provider_user N now provider tok s =
     (if provider = ''google'' then fetch_google_user_info N now tok s
      else if provider = ''github'' then fetch_github_user_info N now tok s
      else fetch_microsoft_user_info N now tok s)"

definition find_or_create_social_user ::
  "social_net \<Rightarrow> instant \<Rightarrow> string \<Rightarrow> string \<Rightarrow> string \<Rightarrow> social_user_info \<Rightarrow> db \<Rightarrow> user result \<times> db" where
  "find_or_create_social_user N now uuid secret username info d =
     (case get_user_by_username username d of
        Some u \<Rightarrow> (Inr u, d)
      | None \<Rightarrow>
          (case sn_hash_password N secret of
             Inl e \<Rightarrow> (Inl (server_fault ''server_error'' e), d)
           | Inr h \<Rightarrow>
               let u = user_new now uuid username h (su_email info) in
               (case save_user u d of (Inl e, d1) \<Rightarrow> (Inl e, d1) | (Inr _, d1) \<Rightarrow> (Inr u, d1))))"

definition social_info_value :: "social_user_info \<Rightarrow> json" where
  "social_info_value i =
     JObj [(''provider'', JStr (su_provider i)), (''provider_user_id'', JStr (su_provider_user_id i)), (''email'', JStr (su_email i)),
       (''name'', case su_name i of Some n \<Rightarrow> JStr n | None \<Rightarrow> JNull), (''picture'', case su_picture i of Some p \<Rightarrow> JStr p | None \<Rightarrow> JNull)]"

definition social_session :: "social_net \<Rightarrow> social_user_info \<Rightarrow> user \<Rightarrow> session \<Rightarrow> session" where
  "social_session N info u z =
     z(''user_info'' \<mapsto> JStr (sn_to_json N (social_info_value info)), ''user_id'' \<mapsto> JStr (us_id u), ''authenticated'' \<mapsto> JBool True,
       ''username'' \<mapsto> JStr (us_username u), ''email'' \<mapsto> JStr (us_email u), ''role'' \<mapsto> JStr (us_role u))"

definition callback_gate :: "social_net \<Rightarrow> string option \<Rightarrow> string \<Rightarrow> session \<Rightarrow> unit result" where
  "callback_gate N state provider z =
     bindR (session_get N z ''csrf_token'') (\<lambda>stored.
     bindR (case (state, stored) of
         (Some s, Some t) \<Rightarrow> if s = t then Inr () else Inl (access_denied ''CSRF token mismatch'')
       | (None, _) \<Rightarrow> Inl (access_denied ''CSRF state parameter is required'')
       | (Some _, None) \<Rightarrow> Inl (access_denied ''CSRF token mismatch'')) (\<lambda>_.
     bindR (session_get N z ''provider'') (\<lambda>p.
       ensure (p = Some provider) (invalid_request ''Provider mismatch''))))"

text \<open>The session, the database and the breakers after the callback; the answer is a redirect.\<close>
definition auth_callback ::
  "social_net \<Rightarrow> social_config \<Rightarrow> instant \<Rightarrow> string \<Rightarrow> string \<Rightarrow> string \<Rightarrow> string option \<Rightarrow> string \<Rightarrow> session \<Rightarrow> db \<Rightarrow> social_service \<Rightarrow>
   string result \<times> session \<times> db \<times> social_service" where
  "auth_callback N cfg now uuid secret code state provider z d s =
     (case bindR (callback_gate N state provider z) (\<lambda>_. provider_token N cfg provider code z) of
        Inl e \<Rightarrow> (Inl e, z, d, s)
      | Inr tok \<Rightarrow>
          (case provider_user N now provider tok s of
             (Inl e, s1) \<Rightarrow> (Inl e, z, d, s1)
           | (Inr info, s1) \<Rightarrow>
               (case find_or_create_social_user N now uuid secret (su_provider info @ '':'' @ su_provider_user_id info) info d of
                  (Inl e, d1) \<Rightarrow> (Inl e, z, d1, s1)
                | (Inr u, d1) \<Rightarrow>
                    let z1 = social_session N info u z in
                    (case session_get N z1 ''return_to'' of
                       Inl e \<Rightarrow> (Inl e, z1, d1, s1)
                     | Inr return_to \<Rightarrow>
                         (Inr (case return_to of Some r \<Rightarrow> if is_safe_redirect r then r else ''/profile'' | None \<Rightarrow> ''/profile''),
                          z1(''return_to'' := None), d1, s1)))))"

text \<open>The page after the login shows what the provider said, as it is, between the constant texts \<open>before\<close> and
  \<open>after\<close> of the page; without a login it redirects.\<close>
definition auth_success :: "string \<Rightarrow> string \<Rightarrow> session \<Rightarrow> string + string" where
  "auth_success before after z =
     (if z ''authenticated'' \<noteq> Some (JBool True) then Inl ''/auth/login''
      else Inr (before @ unwrap_or (session_str z ''user_info'') ''No user info'' @ after))"

definition social_logout :: "session \<Rightarrow> string \<times> session" where
  "social_logout z = (''/auth/login'', Map.empty)"

end
