(* ===== verification/Social_Laws.thy ===== *)
theory Social_Laws
  imports Social_Login
begin

text \<open>
  What a login through a provider shows, how the breakers in front of the providers behave, and what the
  callback leaves unchecked.
\<close>

section \<open>The breaker of a provider\<close>

lemma breaker_trips:
  "fold pb_on_failure [t1, t2, t3, t4, t5] pb_new = \<lparr>pb_state = ProbeOpen t5, pb_consecutive_failures = 5\<rparr>"
  by (simp add: pb_on_failure_def pb_new_def pb_failure_threshold_def Let_def)

lemma breaker_tolerates: "length ts < 5 \<Longrightarrow> pb_state (fold pb_on_failure ts pb_new) = ProbeClosed"
proof -
  have "pb_state (fold pb_on_failure ts b) = ProbeClosed"
    if "pb_state b = ProbeClosed" "unat (pb_consecutive_failures b) + length ts < 5" for b
    using that
  proof (induction ts arbitrary: b)
    case (Cons t ts)
    have u: "unat (pb_consecutive_failures b + 1) = unat (pb_consecutive_failures b) + 1"
      using Cons.prems(2) by (simp add: unat_word_ariths)
    moreover have "\<not> pb_failure_threshold \<le> pb_consecutive_failures b + 1"
      using Cons.prems(2) u by (simp add: pb_failure_threshold_def word_le_nat_alt)
    ultimately have "pb_state (pb_on_failure t b) = ProbeClosed" "pb_consecutive_failures (pb_on_failure t b) = pb_consecutive_failures b + 1"
      using Cons.prems(1) by (simp_all add: pb_on_failure_def Let_def)
    then show ?case using Cons u by simp
  qed simp
  then show "length ts < 5 \<Longrightarrow> pb_state (fold pb_on_failure ts pb_new) = ProbeClosed" by (simp add: pb_new_def)
qed

lemma breaker_cools_down: "pb_state b = ProbeOpen t \<Longrightarrow> fst (pb_allow_request now b) \<longleftrightarrow> secs 30 \<le> now - t"
  by (simp add: pb_allow_request_def pb_cooldown_def)

lemma breaker_single_probe:
  "pb_state b \<noteq> ProbeClosed \<Longrightarrow> fst (pb_allow_request now b) \<Longrightarrow> \<not> fst (pb_allow_request later (snd (pb_allow_request now b)))"
  by (auto simp: pb_allow_request_def split: probe_state.splits if_splits)

text \<open>A probe that never reports back leaves the provider unreachable for good.\<close>
lemma lost_probe_locks_out:
  assumes "pb_state b = ProbeHalfOpen"
  shows "fold (\<lambda>t b. snd (pb_allow_request t b)) ts b = b \<and> \<not> fst (pb_allow_request now b)"
  using assms by (induction ts) (simp_all add: pb_allow_request_def)

section \<open>The callback\<close>

text \<open>What the provider answered to the token, by the provider's own address.\<close>
definition vouched :: "social_net \<Rightarrow> string \<Rightarrow> string \<Rightarrow> social_user_info \<Rightarrow> bool" where
  "vouched N provider tok info =
     (if provider = ''google'' then do_fetch_google N tok = Inr info
      else if provider = ''github'' then do_fetch_github N tok = Inr info
      else do_fetch_microsoft N tok = Inr info)"

lemma fetch_guarded_ok: "fetch_guarded now name x b = (Inr info, b') \<Longrightarrow> x = Inr info"
  by (auto simp: fetch_guarded_def split: prod.splits bool.splits)

lemma provider_user_ok: "provider_user N now provider tok s = (Inr info, s') \<Longrightarrow> vouched N provider tok info"
  by (auto simp: provider_user_def vouched_def fetch_google_user_info_def fetch_github_user_info_def fetch_microsoft_user_info_def
      split: prod.splits if_splits dest: fetch_guarded_ok)

lemma session_get_ok: "session_get N z k = Inr v \<Longrightarrow> session_str z k = v"
  by (auto simp: session_get_def session_str_def split: option.splits)

lemma session_get_cong: "z k = z' k \<Longrightarrow> session_get N z k = session_get N z' k"
  unfolding session_get_def session_str_def by (simp only:)

lemma callback_gate_ok:
  assumes "callback_gate N state provider z = Inr x"
  shows "\<exists>csrf. state = Some csrf \<and> session_str z ''csrf_token'' = Some csrf" "session_str z ''provider'' = Some provider"
  using assms by (auto simp: callback_gate_def result_simps dest!: session_get_ok split: option.splits if_splits)

lemma find_or_create_ok:
  assumes "find_or_create_social_user N now uuid secret name info d = (Inr u, d')"
  shows "get_user_by_username name d' = Some u" "us_username u = name"
proof -
  have "get_user_by_username name d' = Some u"
  proof (cases "get_user_by_username name d")
    case None
    then obtain h where u: "u = user_new now uuid name h (su_email info)" and s: "save_user u d = (Inr (), d')"
      using assms by (auto simp: find_or_create_social_user_def Let_def split: sum.splits prod.splits)
    from save_user_ok(1) [OF s] None show ?thesis by (simp add: get_user_by_username_def find_append u user_new_def)
  qed (use assms in \<open>simp add: find_or_create_social_user_def\<close>)
  then show "get_user_by_username name d' = Some u" "us_username u = name" by (auto simp: get_user_by_username_def dest: find_Some_in)
qed

lemma auth_callback_cases:
  assumes "auth_callback N cfg now uuid secret code state provider z d s = (x, z', d', s')"
  obtains (refused) e where "x = Inl e" "z' = z"
  | (entered) tok info u where "callback_gate N state provider z = Inr ()" "provider_token N cfg provider code z = Inr tok"
      "vouched N provider tok info"
      "find_or_create_social_user N now uuid secret (su_provider info @ '':'' @ su_provider_user_id info) info d = (Inr u, d')"
      "z' = social_session N info u z \<or> z' = (social_session N info u z)(''return_to'' := None)"
      "\<And>loc. x = Inr loc \<Longrightarrow> loc = ''/profile'' \<or> is_safe_redirect loc"
proof (cases "bindR (callback_gate N state provider z) (\<lambda>_. provider_token N cfg provider code z)")
  case (Inl e)
  then show ?thesis using assms by (intro refused [of e]) (auto simp: auth_callback_def)
next
  case (Inr tok)
  then have t: "callback_gate N state provider z = Inr ()" "provider_token N cfg provider code z = Inr tok" by (auto simp: result_simps)
  obtain y s1 where p: "provider_user N now provider tok s = (y, s1)" by (metis surj_pair)
  show ?thesis
  proof (cases y)
    case (Inl e)
    then show ?thesis using assms Inr p by (intro refused [of e]) (auto simp: auth_callback_def)
  next
    case info: (Inr info)
    obtain w d1 where f: "find_or_create_social_user N now uuid secret (su_provider info @ '':'' @ su_provider_user_id info) info d = (w, d1)"
      by (metis surj_pair)
    show ?thesis
    proof (cases w)
      case (Inl e)
      then show ?thesis using assms Inr p info f by (intro refused [of e]) (auto simp: auth_callback_def)
    next
      case u: (Inr u)
      have "d' = d1" "z' = social_session N info u z \<or> z' = (social_session N info u z)(''return_to'' := None)"
        and "\<And>loc. x = Inr loc \<Longrightarrow> loc = ''/profile'' \<or> is_safe_redirect loc"
        using assms Inr p info f u by (auto simp: auth_callback_def Let_def split: sum.splits option.splits if_splits)
      then show ?thesis using entered t f u info provider_user_ok [OF p [unfolded info]] by blast
    qed
  qed
qed

text \<open>C37. Login through a provider is sound.  The answer redirects to a page of this server; a session that
  gains or changes its user came back with the state this session had sent out, for the provider it had chosen,
  with a code that provider's token endpoint redeemed (for Google under the PKCE verifier of the session), and
  belongs afterwards to the local user named after the provider and the identity the provider reported for the
  redeemed token.\<close>
theorem social_login_sound:
  assumes "auth_callback N cfg now uuid secret code state provider z d s = (x, z', d', s')"
  shows "(\<forall>loc. x = Inr loc \<longrightarrow> is_safe_redirect loc) \<and>
    (z' ''user_id'' \<noteq> z ''user_id'' \<longrightarrow>
      (\<exists>csrf tok info u. state = Some csrf \<and> session_str z ''csrf_token'' = Some csrf \<and> session_str z ''provider'' = Some provider \<and>
         provider_token N cfg provider code z = Inr tok \<and> vouched N provider tok info \<and>
         (provider = ''google'' \<longrightarrow> (\<exists>c v. session_str z ''pkce_verifier'' = Some v \<and> sn_exchange N c code (Some v) = Inr tok)) \<and>
         get_user_by_username (su_provider info @ '':'' @ su_provider_user_id info) d' = Some u \<and>
         session_str z' ''user_id'' = Some (us_id u) \<and> session_str z' ''role'' = Some (us_role u)))"
  using assms
proof (cases rule: auth_callback_cases)
  case (entered tok info u)
  have home: "is_safe_redirect ''/profile''" by code_simp
  have ids: "session_str z' ''user_id'' = Some (us_id u)" "session_str z' ''role'' = Some (us_role u)"
    using entered(5) by (auto simp: social_session_def session_str_def)
  have "\<exists>c v. session_str z ''pkce_verifier'' = Some v \<and> sn_exchange N c code (Some v) = Inr tok" if "provider = ''google''"
    using entered(2) that session_get_ok
    by (fastforce simp: provider_token_def google_token_def redeem_def result_simps map_sum_eq_Inr split: sum.splits)
  then show ?thesis
    using callback_gate_ok [OF entered(1)] find_or_create_ok [OF entered(4)] ids entered(2,3,6) home by blast
qed simp

definition hub_net :: social_net where
  "hub_net = \<lparr>sn_url_error = (\<lambda>_. None), sn_authorize_url = (\<lambda>_ _ _ _. []), sn_pkce_challenge = id, sn_exchange = (\<lambda>_ code _. Inr code),
     sn_get = (\<lambda>_ _. Inr (JObj [(''id'', JInt 42), (''email'', JStr ''a@b'')])), sn_shape_error = (\<lambda>_. []), sn_session_error = (\<lambda>_. []),
     sn_hash_password = Inr, sn_to_json = (\<lambda>_. [])\<rparr>"

definition hub_config :: social_config where
  "hub_config = \<lparr>so_google = None, so_microsoft = None,
     so_github = Some \<lparr>pc_enabled = True, pc_client_id = Some ''i'', pc_client_secret = Some ''s'', pc_redirect_uri = Some ''u'', pc_tenant_id = None, pc_domain = None\<rparr>,
     so_azure = None, so_okta = None, so_auth0 = None\<rparr>"

definition hub_session :: session where
  "hub_session = [''csrf_token'' \<mapsto> JStr ''r'', ''provider'' \<mapsto> JStr ''github'']"

lemma hub_token: "provider_token hub_net hub_config ''github'' ''code'' hub_session = Inr ''code''"
  by (simp add: provider_token_def github_token_def hub_config_def get_github_client_def configured_client_def validate_provider_config_def
      checked_url_def hub_net_def redeem_def)

lemma hub_run:
  "\<exists>loc z' d' s'. auth_callback hub_net hub_config 5 ''i'' ''p'' ''code'' (Some ''r'') ''github'' hub_session db_empty social_service_new = (Inr loc, z', d', s') \<and>
     z' ''user_id'' \<noteq> hub_session ''user_id''"
proof -
  have g: "callback_gate hub_net (Some ''r'') ''github'' hub_session = Inr ()"
    by (simp add: callback_gate_def session_get_def session_str_def hub_session_def)
  have i: "do_fetch_github hub_net ''code'' = Inr \<lparr>su_provider = ''github'', su_provider_user_id = show_int 42, su_email = ''a@b'', su_name = None, su_picture = None\<rparr>"
    by (simp add: do_fetch_github_def provider_get_def hub_net_def shaped_def opt_field_def)
  obtain s1 where p: "provider_user hub_net 5 ''github'' ''code'' social_service_new =
      (Inr \<lparr>su_provider = ''github'', su_provider_user_id = show_int 42, su_email = ''a@b'', su_name = None, su_picture = None\<rparr>, s1)"
    by (simp add: provider_user_def fetch_github_user_info_def fetch_guarded_def i social_service_new_def pb_new_def pb_allow_request_def)
  have f: "\<exists>u d1. find_or_create_social_user hub_net 5 ''i'' ''p'' name info db_empty = (Inr u, d1)" for name info
    by (simp add: find_or_create_social_user_def get_user_by_username_def db_empty_def hub_net_def Let_def save_user_def checked_def)
  have z: "session_get hub_net (social_session hub_net info u hub_session) ''return_to'' = Inr None" for info u
    by (simp add: session_get_def social_session_def hub_session_def)
  from f obtain u d1 where "find_or_create_social_user hub_net 5 ''i'' ''p'' (''github'' @ '':'' @ show_int 42)
      \<lparr>su_provider = ''github'', su_provider_user_id = show_int 42, su_email = ''a@b'', su_name = None, su_picture = None\<rparr> db_empty = (Inr u, d1)" by blast
  then have "auth_callback hub_net hub_config 5 ''i'' ''p'' ''code'' (Some ''r'') ''github'' hub_session db_empty social_service_new =
      (Inr ''/profile'', (social_session hub_net \<lparr>su_provider = ''github'', su_provider_user_id = show_int 42, su_email = ''a@b'', su_name = None, su_picture = None\<rparr>
        u hub_session)(''return_to'' := None), d1, s1)"
    by (simp add: auth_callback_def g hub_token p z Let_def)
  then show ?thesis by (simp add: social_session_def hub_session_def)
qed

lemma social_login_sound_witness:
  "\<exists>loc z' d' s' info u. auth_callback hub_net hub_config 5 ''i'' ''p'' ''code'' (Some ''r'') ''github'' hub_session db_empty social_service_new = (Inr loc, z', d', s') \<and>
     is_safe_redirect loc \<and> vouched hub_net ''github'' ''code'' info \<and>
     get_user_by_username (su_provider info @ '':'' @ su_provider_user_id info) d' = Some u \<and> session_str z' ''user_id'' = Some (us_id u)"
proof -
  obtain loc z' d' s' where h: "auth_callback hub_net hub_config 5 ''i'' ''p'' ''code'' (Some ''r'') ''github'' hub_session db_empty social_service_new = (Inr loc, z', d', s')"
    "z' ''user_id'' \<noteq> hub_session ''user_id''" using hub_run by blast
  from social_login_sound [OF h(1)] h(2) hub_token
  obtain info u where "is_safe_redirect loc" "vouched hub_net ''github'' ''code'' info"
    "get_user_by_username (su_provider info @ '':'' @ su_provider_user_id info) d' = Some u" "session_str z' ''user_id'' = Some (us_id u)" by auto
  then show ?thesis using h(1) by blast
qed

text \<open>The local names of different identities differ.\<close>
lemma social_names_differ:
  assumes "p @ '':'' @ i = q @ '':'' @ j" "CHR '':'' \<notin> set p" "CHR '':'' \<notin> set q"
  shows "p = q \<and> i = j"
proof -
  have name: "takeWhile (\<lambda>c. c \<noteq> CHR '':'') (r @ '':'' @ k) = r" if "CHR '':'' \<notin> set r" for r k
    using that by (induction r) auto
  have "p = q" using name [OF assms(2), of i] name [OF assms(3), of j] assms(1) by simp
  then show ?thesis using assms(1) by simp
qed

section \<open>What the callback does not check\<close>

text \<open>A disabled user logs in through the provider: only the password form looks at the flag.\<close>
lemma disabled_user_enters:
  assumes "callback_gate N state provider z = Inr ()" "provider_token N cfg provider code z = Inr tok"
    and "provider_user N now provider tok s = (Inr info, s1)"
    and "get_user_by_username (su_provider info @ '':'' @ su_provider_user_id info) d = Some u" "\<not> us_enabled u"
    and "session_get N z ''return_to'' = Inr v"
  shows "\<exists>loc z' d' s'. auth_callback N cfg now uuid secret code state provider z d s = (Inr loc, z', d', s') \<and>
    session_str z' ''user_id'' = Some (us_id u) \<and> z' ''authenticated'' = Some (JBool True)"
proof -
  have "session_get N (social_session N info u z) ''return_to'' = Inr v"
    unfolding assms(6) [symmetric] by (rule session_get_cong) (simp add: social_session_def)
  then show ?thesis
    using assms(1-4) by (simp add: auth_callback_def find_or_create_social_user_def Let_def) (simp add: social_session_def session_str_def)
qed

text \<open>The state stays in the session, so the same callback address is accepted again.\<close>
lemma callback_state_stays:
  assumes "auth_callback N cfg now uuid secret code state provider z d s = (Inr loc, z', d', s')"
  shows "callback_gate N state provider z' = Inr ()"
  using assms
proof (cases rule: auth_callback_cases)
  case (entered tok info u)
  then have "z' ''csrf_token'' = z ''csrf_token''" "z' ''provider'' = z ''provider''" by (auto simp: social_session_def)
  then have "session_get N z' ''csrf_token'' = session_get N z ''csrf_token''" "session_get N z' ''provider'' = session_get N z ''provider''"
    by (auto intro: session_get_cong)
  then show ?thesis using entered(1) by (simp add: callback_gate_def)
qed simp

text \<open>The page after the login shows the user's name as the provider sent it, with no escaping.\<close>
lemma success_page_unescaped:
  assumes "session_str z ''user_info'' = Some info" "z ''authenticated'' = Some (JBool True)"
  shows "auth_success before after z = Inr (before @ info @ after)"
  using assms by (simp add: auth_success_def)

end
