(* ===== verification/Service.thy ===== *)
theory Service
  imports Authorize_Laws Introspection_Laws Registration_Laws Device_Flow Endpoint_Laws Logout Registry_Laws Social_Laws
begin

text \<open>
  The running service: the endpoints of \<open>crates/oauth2-server/src/lib.rs\<close> over one shared state, with the
  admin area behind its guard.  A step of the service is one completed request; what a client, a browser or an
  administrator sends, the session it carries, the clock and the random draws are unconstrained.  The laws here are
  those no single handler can promise: they hold over every history of requests.
\<close>

section \<open>Every handler runs statements of the storage\<close>

lemma stepwise_case_option [stepwise_intros]:
  "stepwise m \<Longrightarrow> (\<And>x. stepwise (f x)) \<Longrightarrow> stepwise (case v of None \<Rightarrow> m | Some x \<Rightarrow> f x)"
  by (cases v) auto

lemma stepwise_get_client [stepwise_intros]: "stepwise (send_get_client now cid)"
  by (rule stepwise_keep) (simp add: send_get_client_def split: prod.splits)

lemma stepwise_dpop_for [stepwise_intros]: "stepwise (send_dpop_for E now r url p raw)"
  using evolves_validate_dpop by (simp add: stepwise_def send_dpop_for_def split: prod.splits) (metis snd_conv)

lemma stepwise_stateless [stepwise_intros]: "stepwise (send_validate_stateless E now raw)"
  by (rule stepwise_keep) (simp add: send_validate_stateless_def)

lemma stepwise_authenticate_client [stepwise_intros]: "stepwise (authenticate_client E now r cid sec need)"
proof -
  have "stepwise (case p of (None, None) \<Rightarrow> ret x | (Some (_::string), None) \<Rightarrow> ret y | (None, Some (_::string)) \<Rightarrow> ret z | (Some i, Some j) \<Rightarrow> m i j)"
    if "\<And>i j. stepwise (m i j)" for p and x y z :: "client option result" and m
    using that by (auto intro: stepwise_ret split: prod.splits option.splits)
  note [stepwise_intros] = this
  show ?thesis unfolding authenticate_client_def by (intro stepwise_intros)
qed

text \<open>A handler that looks at the outcome of an action, whether it failed or not.\<close>
lemma stepwise_outcome:
  assumes "stepwise m" "\<And>x s1. evolves (sv_db s1) (sv_db (snd (f x s1)))"
  shows "stepwise (\<lambda>s. case m s of (x, s1) \<Rightarrow> f x s1)"
  unfolding stepwise_def
proof
  fix s
  obtain x s1 where m: "m s = (x, s1)" by (metis surj_pair)
  then have "evolves (sv_db s) (sv_db s1)" using assms(1) unfolding stepwise_def by (metis snd_conv)
  then show "evolves (sv_db s) (sv_db (snd (case m s of (x, s1) \<Rightarrow> f x s1)))" using assms(2) [of s1 x] m evolves_trans by auto
qed

lemma stepwise_introspect_stored [stepwise_intros]: "stepwise (introspect_stored E W now r caller raw t)"
proof -
  have "stepwise (\<lambda>s. case send_dpop_for E now r url p raw s of (x, s1) \<Rightarrow>
      (case x of Inl _ \<Rightarrow> (Inr False, s1) | Inr v \<Rightarrow> (Inr (dv_jkt v = jkt), s1)))" for url p jkt
    by (rule stepwise_outcome) (auto intro: stepwise_dpop_for split: sum.splits)
  then have [stepwise_intros]: "stepwise (\<lambda>s. case send_dpop_for E now r url p raw s of
      (Inl _, s1) \<Rightarrow> (Inr False, s1) | (Inr v, s1) \<Rightarrow> (Inr (dv_jkt v = jkt), s1))" for url p jkt
    by (simp add: stepwise_def case_prod_beta split: sum.splits)
  have [stepwise_intros]: "stepwise (introspection_proof E now r raw claims)" for claims
    unfolding introspection_proof_def by (intro stepwise_intros)
  show ?thesis unfolding introspect_stored_def Let_def by (intro stepwise_intros)
qed

lemma stepwise_introspect: "stepwise (introspect E W now r raw cid sec)"
proof -
  let ?v = "\<lambda>s. if wb_stateless W \<and> \<not> wb_opaque W then send_validate_stateless E now raw s else send_validate E now raw s"
  have v: "stepwise ?v" using stepwise_stateless stepwise_validate by (auto simp: stepwise_def)
  have [stepwise_intros]: "stepwise (\<lambda>s. case ?v s of
      (Inl _, s1) \<Rightarrow> (Inr (PlainAnswer inactive_introspection_response), s1) | (Inr t, s1) \<Rightarrow> introspect_stored E W now r caller raw t s1)" for caller
  proof -
    have "stepwise (\<lambda>s. case ?v s of (x, s1) \<Rightarrow>
        (case x of Inl _ \<Rightarrow> (Inr (PlainAnswer inactive_introspection_response), s1) | Inr t \<Rightarrow> introspect_stored E W now r caller raw t s1))"
      using stepwise_introspect_stored [unfolded stepwise_def] by (intro stepwise_outcome v) (simp split: sum.splits)
    then show ?thesis by (simp add: stepwise_def case_prod_beta split: sum.splits)
  qed
  show ?thesis unfolding introspect_def by (intro stepwise_intros)
qed

lemma stepwise_revoke_endpoint: "stepwise (revoke E now r raw cid sec)"
proof -
  have "stepwise (\<lambda>s. case opt_or (lookup_token raw (sv_db s)) (lookup_refresh_token raw (sv_db s)) of
      Some t \<Rightarrow> if Some (tk_client_id t) = map_option cl_client_id caller then send_revoke E raw raw s
                else (Inl (invalid_request ''Token was not issued to this client''), s)
    | None \<Rightarrow> (Inr (), snd (send_revoke E raw raw s)))" for caller :: "client option"
    using stepwise_revoke [of E raw raw] by (auto simp: stepwise_def split: option.splits)
  note [stepwise_intros] = this
  show ?thesis unfolding revoke_def by (intro stepwise_intros)
qed

lemma stepwise_userinfo: "stepwise (userinfo E now r)"
  by (rule stepwise_keep)
    (use send_validate_db in \<open>auto simp: userinfo_def split: option.splits prod.splits sum.splits\<close>, (metis snd_conv)+)

lemma stepwise_register [stepwise_intros]: "stepwise (send_register E now dr reg)"
  using evolves_save_client
  by (auto simp: stepwise_def send_register_def register_client_def Let_def split: prod.splits sum.splits) (metis snd_conv)+

lemma stepwise_update_client [stepwise_intros]: "stepwise (send_update_client now c)"
  using evolves_update_client
  by (auto simp: stepwise_def send_update_client_def update_client_handler_def Let_def split: prod.splits sum.splits) (metis snd_conv)+

lemmas evolves_delete_client = evolves_cmd [of "DeleteClient c" for c, simplified]

lemma stepwise_delete_client [stepwise_intros]: "stepwise (send_delete_client cid)"
  using evolves_delete_client
  by (auto simp: stepwise_def send_delete_client_def delete_client_handler_def Let_def split: prod.splits sum.splits) (metis snd_conv)+

lemma stepwise_registration_token [stepwise_intros]: "stepwise (authenticate_registration_token now r cid)"
  unfolding authenticate_registration_token_def by (intro stepwise_intros)

lemma stepwise_registration:
  "stepwise (register_client_endpoint E R now dr reg)" "stepwise (dynamic_register E R now dr reg)"
  "stepwise (update_client_configuration E R now r cid reg)" "stepwise (read_client_configuration E now r cid)"
  "stepwise (delete_client_configuration now r cid)"
  unfolding register_client_endpoint_def dynamic_register_def update_client_configuration_def read_client_configuration_def
    delete_client_configuration_def Let_def
  by (intro stepwise_intros)+

lemmas evolves_device = evolves_cmd [of "SaveDevice v" for v, simplified] evolves_cmd [of "ApproveDevice c u" for c u, simplified]
  evolves_cmd [of "DenyDevice c" for c, simplified]

lemma stepwise_device: "stepwise (device_authorization_endpoint E now uuid cd ud r cid sec sc)" "stepwise (verify_submit now uc a z)"
  unfolding device_authorization_endpoint_def verify_submit_def Let_def by (intro stepwise_intros stepwise_db evolves_device)+

lemmas evolves_save_code = evolves_cmd [of "SaveCode a" for a, simplified]

lemma stepwise_create_code [stepwise_intros]: "stepwise (send_create_code W now dw m)"
  unfolding send_create_code_def using evolves_save_code
  by (intro stepwise_db) (auto simp: create_authorization_code_def Let_def bindS_def split: prod.splits sum.splits, (metis snd_conv)+)

lemma authorize_evolves: "evolves (sv_db s) (sv_db (snd (snd (authorize E W now dw r q z s))))"
proof -
  have issue: "stepwise (authorize_issue E W now dw ar actor uid scope)" for ar actor uid scope
    unfolding authorize_issue_def by (intro stepwise_intros)
  have grant: "evolves (sv_db s) (sv_db (snd (snd (authorize_grant E W now dw q ar actor uid z s))))" for ar actor uid z s
    using issue [unfolded stepwise_def]
    by (auto simp: authorize_grant_def Let_def split: sum.splits prod.splits) (metis snd_conv)
  obtain y s1 where f: "authorize_front E W now r q s = (y, s1)" by (metis surj_pair)
  then have d1: "sv_db s1 = sv_db s" using front_keeps by (metis snd_conv)
  show ?thesis
  proof (cases y)
    case (Inr ar)
    obtain v s2 where g: "requested_agent E now ar s1 = (v, s2)" by (metis surj_pair)
    then have d2: "sv_db s2 = sv_db s" using agent_keeps d1 by simp
    show ?thesis using f g d1 d2 Inr grant [of s2]
      by (auto simp: authorize_def split: option.splits sum.splits prod.splits)
  qed (use f d1 in \<open>simp add: authorize_def\<close>)
qed

lemmas evolves_revoke_user = evolves_cmd [of "RevokeTokensByUserId u" for u, simplified]

lemma logout_evolves: "evolves d (snd (snd (snd (logout E W X now jtis q z d))))"
proof -
  have "evolves d (snd (logout_hint E X now q d))" using evolves_revoke_user
    by (auto simp: logout_hint_def revoke_tokens_by_user_id_def Let_def split: option.splits if_splits prod.splits)
  then show ?thesis by (auto simp: logout_def Let_def split: prod.splits sum.splits)
qed

lemmas evolves_new_user = evolves_cmd [of "SaveUser u" for u, simplified]

lemma social_evolves: "evolves d (fst (snd (snd (auth_callback N cfg now uuid secret code state provider z d sv))))"
proof -
  have u: "evolves d (snd (find_or_create_social_user N now uuid secret name info d))" for name info
    using evolves_new_user
    by (auto simp: find_or_create_social_user_def Let_def split: option.splits sum.splits prod.splits) (metis snd_conv)+
  show ?thesis
    using u by (auto simp: auth_callback_def Let_def split: sum.splits prod.splits) (metis snd_conv)+
qed

lemma registry_reaches: "mild P \<Longrightarrow> reaches P S (registry_serve V ts now rq S)"
  by (cases rq; clarsimp simp: registry_defs Let_def split: sum.split)
     (intro conjI impI allI script_intros; assumption?)+

text \<open>In the console every statement but the deletion of a user is mild.\<close>
lemma console_evolves:
  assumes "\<And>u. rq \<noteq> DeleteUserRq u" "admin_serve V C now rq S = (x, S')"
  shows "evolves (ads_db S) (ads_db S')"
  using serve_reaches [of "\<lambda>c. \<not> is_delete_user c" rq S V C now] assms by (auto simp: reaches_def evolves_def mild_def)

lemma registry_evolves: "registry_serve V ts now rq S = (x, S') \<Longrightarrow> evolves (ads_db S) (ads_db S')"
  using registry_reaches [of "\<lambda>c. \<not> is_delete_user c" S V ts now rq] by (auto simp: reaches_def evolves_def mild_def)

section \<open>Histories of requests\<close>

text \<open>What an observer of the service notes about a request.\<close>
datatype service_event = Redeemed string | Answered | Administered admin_request

text \<open>A token request that is answered with a token for an authorization code.\<close>
definition token_event :: "env \<Rightarrow> http_request \<Rightarrow> reply result \<Rightarrow> service_event" where
  "token_event E r x =
     (case (read_token_request E r, x) of
        (Inr req, Inr (Issued _)) \<Rightarrow>
          if rq_grant_type req = ''authorization_code'' then (case rq_code req of Some code \<Rightarrow> Redeemed code | None \<Rightarrow> Answered)
          else Answered
      | _ \<Rightarrow> Answered)"

text \<open>One request.  The last rule is for what leaves this state alone: refusals by the middleware, pages, the
  password login and the published metadata.\<close>
inductive serves :: "server \<Rightarrow> service_event \<Rightarrow> server \<Rightarrow> bool" where
  token_rq: "token_endpoint E now dr r s = (x, s') \<Longrightarrow> serves s (token_event E r x) s'"
| par_rq: "par E now uuid r s = (p, s') \<Longrightarrow> serves s Answered s'"
| authorize_rq: "authorize E W now dw r q z s = (a, z', s') \<Longrightarrow> serves s Answered s'"
| introspect_rq: "introspect E W now r raw cid sec s = (n, s') \<Longrightarrow> serves s Answered s'"
| revoke_rq: "revoke E now r raw cid sec s = (u, s') \<Longrightarrow> serves s Answered s'"
| userinfo_rq: "userinfo E now r s = (i, s') \<Longrightarrow> serves s Answered s'"
| device_rq: "device_authorization_endpoint E now uuid cd ud r cid sec sc s = (v, s') \<Longrightarrow> serves s Answered s'"
| verify_rq: "verify_submit now uc act z s = (b, s') \<Longrightarrow> serves s Answered s'"
| challenge_rq: "transaction_authorization_endpoint E now uuid h authorization mt form s = (c, s') \<Longrightarrow> serves s Answered s'"
| approve_rq: "approve_submit E now i act z s = (b, s') \<Longrightarrow> serves s Answered s'"
| register_rq: "dynamic_register E R now cw reg s = (y, s') \<Longrightarrow> serves s Answered s'"
| read_registration_rq: "read_client_configuration E now r cid s = (y, s') \<Longrightarrow> serves s Answered s'"
| update_registration_rq: "update_client_configuration E R now r cid reg s = (y, s') \<Longrightarrow> serves s Answered s'"
| delete_registration_rq: "delete_client_configuration now r cid s = (u, s') \<Longrightarrow> serves s Answered s'"
| logout_rq: "logout E W X now jtis q z (sv_db s) = (l, z', msgs, d') \<Longrightarrow> serves s Answered (s\<lparr>sv_db := d'\<rparr>)"
| social_rq: "auth_callback N cfg now uuid secret code state provider z (sv_db s) sv = (t, z', d', sv') \<Longrightarrow>
    serves s Answered (s\<lparr>sv_db := d'\<rparr>)"
| console_rq: "admin_guard AV now r z (sv_db s) = Passed \<Longrightarrow> ads_db S = sv_db s \<Longrightarrow> admin_serve V C now rq S = (y, S') \<Longrightarrow>
    serves s (Administered rq) (s\<lparr>sv_db := ads_db S'\<rparr>)"
| registry_rq: "admin_guard AV now r z (sv_db s) = Passed \<Longrightarrow> ads_db S = sv_db s \<Longrightarrow> registry_serve V ts now rg S = (y, S') \<Longrightarrow>
    serves s Answered (s\<lparr>sv_db := ads_db S'\<rparr>)"
| admin_register_rq: "admin_guard AV now r z (sv_db s) = Passed \<Longrightarrow> register_client_endpoint E R now cw reg s = (y', s') \<Longrightarrow>
    serves s Answered s'"
| other_rq: "serves s Answered s"

inductive service_run :: "server \<Rightarrow> service_event list \<Rightarrow> server \<Rightarrow> bool" where
  start: "service_run s [] s"
| further: "service_run s evs s1 \<Longrightarrow> serves s1 e s2 \<Longrightarrow> service_run s (evs @ [e]) s2"

fun deletes_user :: "service_event \<Rightarrow> bool" where
  "deletes_user (Administered (DeleteUserRq u)) = True"
| "deletes_user e = False"

section \<open>What every history keeps\<close>

lemmas handler_runs = stepwise_token_endpoint [THEN stepwise_run] stepwise_par [THEN stepwise_run] stepwise_introspect [THEN stepwise_run]
  stepwise_revoke_endpoint [THEN stepwise_run] stepwise_userinfo [THEN stepwise_run] stepwise_device [THEN stepwise_run]
  stepwise_txn_endpoint [THEN stepwise_run] stepwise_approve_submit [THEN stepwise_run] stepwise_registration [THEN stepwise_run]

lemma serves_evolves:
  assumes "serves s e s'" "\<not> deletes_user e"
  shows "evolves (sv_db s) (sv_db s')"
  using assms(1)
proof cases
  case (authorize_rq E W now dw r q z a z')
  then show ?thesis using authorize_evolves by (metis snd_conv)
next
  case (logout_rq E W X now jtis q z l z' msgs d')
  then show ?thesis using logout_evolves [of "sv_db s" E W X now jtis q z] by simp
next
  case (social_rq N cfg now uuid secret code state provider z sv t z' d' sv')
  then show ?thesis using social_evolves [of "sv_db s" N cfg now uuid secret code state provider z sv] by simp
next
  case (console_rq AV now r z S V C rq y S')
  moreover have "rq \<noteq> DeleteUserRq u" for u using assms(2) console_rq(1) by auto
  ultimately show ?thesis using console_evolves [of rq V C now S y S'] by simp
next
  case (registry_rq AV now r z S V ts rg y S')
  then show ?thesis using registry_evolves [of V ts now rg S y S'] by simp
qed (simp_all add: handler_runs)

lemma serves_statements:
  assumes "serves s e s'"
  shows "\<exists>cs. sv_db s' = exec_all cs (sv_db s)"
proof (cases "deletes_user e")
  case True
  with assms show ?thesis
  proof cases
    case (console_rq AV now r z S V C rq y S')
    then show ?thesis using serve_reaches [of "\<lambda>_. True" rq S V C now] by (auto simp: reaches_def mild_def)
  qed (auto simp: token_event_def split: sum.splits reply.splits if_splits option.splits)
next
  case False
  from serves_evolves [OF assms this] show ?thesis by (auto simp: evolves_def)
qed

lemma service_run_statements: "service_run s evs s' \<Longrightarrow> \<exists>cs. sv_db s' = exec_all cs (sv_db s)"
proof (induction rule: service_run.induct)
  case (start s)
  show ?case by (rule exI [of _ "[]"]) (simp add: exec_all_def)
next
  case (further s evs s1 e s2)
  then show ?case using serves_statements [OF further.hyps(2)] by (auto simp: exec_all_def intro: exI [of _ "_ @ _"])
qed

lemma service_run_evolves: "service_run s evs s' \<Longrightarrow> list_all (\<lambda>e. \<not> deletes_user e) evs \<Longrightarrow> evolves (sv_db s) (sv_db s')"
  by (induction rule: service_run.induct) (auto intro: evolves_trans serves_evolves)

lemma revoked_access_kept:
  "tk_access_token ` set (filter tk_revoked (db_tokens d)) \<subseteq> tk_access_token ` set (filter tk_revoked (db_tokens (exec_all cs d)))"
  unfolding exec_all_def by (rule fold_mono_set) (rule exec_cmd_revoked_access_mono)

lemma revoked_access_found:
  assumes "db_wf d" "a \<in> tk_access_token ` set (filter tk_revoked (db_tokens d))"
  shows "\<exists>t. get_token_by_access_token a d = Some t \<and> tk_revoked t"
proof -
  from assms(2) obtain t where t: "t \<in> set (db_tokens d)" "tk_revoked t" "tk_access_token t = a" by auto
  have "distinct (map tk_access_token (db_tokens d))" using assms(1) by (simp add: db_wf_def keys_ok_def)
  from find_distinct_key [OF this t(1)] show ?thesis using t by (auto simp: get_token_by_access_token_def)
qed

text \<open>C14. The records survive every history.  Whatever clients, browsers, identity providers and administrators
  request of the service, in whatever order, the tables keep unique keys and resolved references, and a token
  that was revoked is found revoked by every later look-up.\<close>
theorem service_keeps_records:
  assumes "service_run s evs s'" "db_wf (sv_db s)"
  shows "db_wf (sv_db s') \<and>
    (\<forall>a t. get_token_by_access_token a (sv_db s) = Some t \<and> tk_revoked t \<longrightarrow>
       (\<exists>t'. get_token_by_access_token a (sv_db s') = Some t' \<and> tk_revoked t'))"
proof -
  obtain cs where d: "sv_db s' = exec_all cs (sv_db s)" using service_run_statements [OF assms(1)] by blast
  then have w: "db_wf (sv_db s')" using exec_all_wf assms(2) by metis
  have "\<exists>t'. get_token_by_access_token a (sv_db s') = Some t' \<and> tk_revoked t'"
    if "get_token_by_access_token a (sv_db s) = Some t" "tk_revoked t" for a t
  proof -
    have "a \<in> tk_access_token ` set (filter tk_revoked (db_tokens (sv_db s)))"
      using that by (auto simp: get_token_by_access_token_def dest!: find_Some_in)
    then have "a \<in> tk_access_token ` set (filter tk_revoked (db_tokens (sv_db s')))" unfolding d by (rule subsetD [OF revoked_access_kept])
    then show ?thesis by (rule revoked_access_found [OF w])
  qed
  with w show ?thesis by blast
qed

section \<open>An authorization code is redeemed once\<close>

lemma redeemed_uses_code:
  assumes "serves s (Redeemed code) s'"
  shows "code \<in> used_codes (sv_db s')" "db_wf (sv_db s) \<Longrightarrow> code \<notin> used_codes (sv_db s)"
proof -
  obtain E now dr r resp where t: "token_endpoint E now dr r s = (Inr (Issued resp), s')" and "token_event E r (Inr (Issued resp)) = Redeemed code"
    using assms by cases (auto simp: token_event_def split: sum.splits reply.splits if_splits option.splits)
  then obtain req where q: "read_token_request E r = Inr req" "rq_grant_type req = ''authorization_code''" "rq_code req = Some code"
    by (auto simp: token_event_def split: sum.splits if_splits option.splits)
  obtain cnf dp rar s1 where "dispatch E now dr req cnf dp rar (mtls_of r) s1 = (Inr (Issued resp), s')" and ev: "evolves (sv_db s) (sv_db s1)"
    using t q(1) by (elim token_endpoint_parts) auto
  then have h: "handle_authorization_code_grant E now (dr_fresh dr) (dr_family dr) req cnf rar (mtls_of r) s1 = (Inr (Issued resp), s')"
    using q(2) by (simp add: dispatch_def Let_def)
  then obtain a where a: "get_authorization_code code (sv_db s1) = Some a" "\<not> ac_used a"
    using q(3) by (auto simp: handle_authorization_code_grant_def result_simps validate_code_cases elim!: prepare_ok)
  show "code \<in> used_codes (sv_db s')"
    using commit_uses_code [OF h q(3) a(1)]
    by (auto simp: get_authorization_code_def used_codes_def image_iff dest!: find_Some_in)
  show "code \<notin> used_codes (sv_db s)" if "db_wf (sv_db s)"
  proof
    assume "code \<in> used_codes (sv_db s)"
    then have "code \<in> used_codes (sv_db s1)" using evolves_used [OF ev] by blast
    from used_code_lookup [OF evolves_wf [OF ev that] this] a show False by simp
  qed
qed

text \<open>C15. Single use over whole histories.  Whatever else the service is asked in between, and as long as requests are
  served one after the other and no user is deleted, a token is handed out for an authorization code at most once;
  once it has been, the code is used for good.\<close>
theorem service_redeems_once:
  assumes "service_run s evs s'" "db_wf (sv_db s)" "list_all (\<lambda>e. \<not> deletes_user e) evs"
  shows "count_list evs (Redeemed code) \<le> 1 \<and> (Redeemed code \<in> set evs \<longrightarrow> code \<in> used_codes (sv_db s'))"
  using assms
proof (induction rule: service_run.induct)
  case (further s evs s1 e s2)
  have ih: "count_list evs (Redeemed code) \<le> 1" "Redeemed code \<in> set evs \<Longrightarrow> code \<in> used_codes (sv_db s1)"
    and e: "evolves (sv_db s) (sv_db s1)" "\<not> deletes_user e"
    using further service_run_evolves by auto
  have w: "db_wf (sv_db s1)" by (rule evolves_wf [OF e(1) further.prems(1)])
  have kept: "used_codes (sv_db s1) \<subseteq> used_codes (sv_db s2)" using evolves_used serves_evolves [OF further.hyps(2) e(2)] by blast
  show ?case
  proof (cases "e = Redeemed code")
    case True
    with redeemed_uses_code [of s1 code s2] further.hyps(2) w have u: "code \<in> used_codes (sv_db s2)" "code \<notin> used_codes (sv_db s1)" by auto
    then have "Redeemed code \<notin> set evs" using ih(2) by blast
    then show ?thesis using True u by (simp add: count_notin)
  next
    case False
    then show ?thesis using ih kept by auto
  qed
qed simp

section \<open>A history\<close>

definition code_form :: http_request where
  "code_form = endpoint_request\<lparr>hr_header := (\<lambda>_. None), hr_body := ''code form''\<rparr>"

definition code_draws :: drawn where
  "code_draws = \<lparr>dr_fresh = demo_fresh, dr_family = ''nf'', dr_uuid = ''uu''\<rparr>"

lemma code_form_read: "read_token_request demo_env code_form = Inr demo_code_request"
  by (simp add: read_token_request_def ensure_no_duplicate_query_params_def parse_form_no_dupes_def demo_env_def code_form_def endpoint_request_def
      repeatable_form_params_def parse_client_basic_auth_def check_credentials_def reject_multiple_client_auth_methods_def mismatch_def
      token_client_id_def opt_or_def build_token_request_def canonical_cimd_client_id_def cimd_url_target_def enabled_fetcher_def)
    (simp add: demo_code_request_def demo_request_def)

lemma code_form_run:
  "token_endpoint demo_env 5 code_draws code_form (demo_server True) = (Inr (Issued (token_response_from (first_token True))), issued_server True)"
proof -
  have d: "dpop_of demo_env 5 code_form s = (Inr None, s)" for s by (simp add: dpop_of_def code_form_def ret_def)
  have n: "nonce_check demo_env 5 demo_code_request None s = (Inr None, s)" for s
    by (simp add: nonce_check_def demo_env_def split: option.split)
  have m: "mtls_of code_form = no_mtls" by (simp add: mtls_of_def header_text_def code_form_def no_mtls_def)
  have a: "rar_details demo_env demo_code_request = Inr None" by (simp add: rar_details_def demo_code_request_def demo_request_def)
  have c: "cnf_claim_of None (mt_thumbprint no_mtls) = None" by (simp add: cnf_claim_of_def no_mtls_def)
  have g: "rq_grant_type demo_code_request = ''authorization_code''" by (simp add: demo_code_request_def)
  show ?thesis
    by (simp add: token_endpoint_def andThen_def ret_def code_form_read d n m a c grant_with_penalty_def dispatch_def g code_draws_def
        demo_code_grant penalty_def)
qed

lemma redeem_step: "serves (demo_server True) (Redeemed ''code'') (issued_server True)"
proof -
  have "token_event demo_env code_form (Inr (Issued resp)) = Redeemed ''code''" for resp
    by (simp add: token_event_def code_form_read) (simp add: demo_code_request_def)
  with token_rq [OF code_form_run] show ?thesis by simp
qed

text \<open>The code is redeemed; then it is presented again.\<close>
lemma service_redeems_once_witness:
  "\<exists>e s'. service_run (demo_server True) [Redeemed ''code'', e] s' \<and> e \<noteq> Redeemed ''code'' \<and> ''code'' \<in> used_codes (sv_db s')"
proof -
  obtain x s' where x: "token_endpoint demo_env 6 code_draws code_form (issued_server True) = (x, s')" by (metis surj_pair)
  let ?e = "token_event demo_env code_form x"
  have r: "service_run (demo_server True) ([] @ [Redeemed ''code''] @ [?e]) s'"
    using further [OF further [OF start redeem_step] token_rq [OF x]] by simp
  have "\<not> deletes_user ?e" by (auto simp: token_event_def split: sum.splits reply.splits if_splits option.splits)
  with service_redeems_once [OF r, of "''code''"] have "?e \<noteq> Redeemed ''code''" "''code'' \<in> used_codes (sv_db s')"
    by (auto simp: demo_wf)
  with r show ?thesis by auto
qed

text \<open>A rotated token stays revoked while its code is replayed.\<close>
lemma service_keeps_records_witness:
  "\<exists>e s' t. service_run rotated_server [e] s' \<and> db_wf (sv_db s') \<and>
     get_token_by_access_token (tk_access_token (first_token True)) (sv_db s') = Some t \<and> tk_revoked t"
proof -
  obtain x s' where x: "token_endpoint demo_env 7 code_draws code_form rotated_server = (x, s')" by (metis surj_pair)
  have r: "service_run rotated_server ([] @ [token_event demo_env code_form x]) s'" by (rule further [OF start token_rq [OF x]])
  have "db_wf (sv_db rotated_server)"
    by (simp add: rotated_server_def used_db_def db_wf_def keys_ok_def refs_ok_def grant_db_def db_empty_def demo_public_def demo_svc_def client_new_def
      user_new_def demo_auth_code_def new_with_ttl_def has_client_def has_user_def has_user_opt_def first_token_def token_new_def)
  moreover have "get_token_by_access_token (tk_access_token (first_token True)) (sv_db rotated_server) = Some ((first_token True)\<lparr>tk_revoked := True\<rparr>)"
    by (simp add: rotated_server_def get_token_by_access_token_def)
  ultimately show ?thesis using service_keeps_records [OF r] r by fastforce
qed

end
