(* ===== verification/Configuration.thy ===== *)
theory Configuration
  imports Social_Login Metadata_Fetch Token_Laws
begin

text \<open>
  The settings of the server (\<open>crates/oauth2-config/src/lib.rs\<close>): the sections of the configuration, how they
  are read from the environment, how a configuration file is completed and normalised, the check before
  production use and the copy that is meant for logs.  \<open>vars\<close> are the variables of the process; what the HOCON
  loader makes of a file (the text of its error, or the settings it holds) is an argument.  An integer keeps the
  width of its field; \<open>usize\<close> is a natural number below \<open>2 ^ 64\<close>.
\<close>

type_synonym env_vars = "string \<rightharpoonup> string"

section \<open>The sections\<close>

record server_config =
  sc_host :: string
  sc_port :: "16 word"
  sc_workers :: "nat option"
  sc_public_base_url :: "string option"
  sc_trust_proxy_headers :: bool
  sc_public_url :: "string option"
  sc_allowed_origins :: "string list"
  sc_enforce_https :: bool

record database_config =
  da_url :: string
  da_read_url :: "string option"
  da_max_connections :: "32 word"
  da_min_connections :: "32 word"
  da_acquire_timeout_secs :: "64 word"
  da_idle_timeout_secs :: "64 word"

record jwt_config =
  jc_secret :: string
  jc_key_rotation_grace_hours :: "64 word"
  jc_stateless_validation :: bool
  jc_public_introspection :: bool
  jc_access_tokens_opaque :: bool
  jc_access_token_ttl_secs :: "64 word"
  jc_refresh_token_ttl_secs :: "64 word"
  jc_authorization_code_ttl_secs :: "64 word"

record cache_config =
  kc_redis_url :: "string option"
  kc_token_actor_shards :: nat

record redis_config =
  rd_url :: string
  rd_stream :: string
  rd_maxlen :: "nat option"

record kafka_config =
  kf_brokers :: string
  kf_topic :: string
  kf_client_id :: "string option"

record rabbit_config =
  rb_url :: string
  rb_exchange :: string
  rb_routing_key :: string

record event_config =
  ec_enabled :: bool
  ec_backend :: string
  ec_filter_mode :: string
  ec_event_types :: "string list"
  ec_public_ingest :: bool
  ec_ingest_bearer_token :: "string option"
  ec_redis :: "redis_config option"
  ec_kafka :: "kafka_config option"
  ec_rabbit :: "rabbit_config option"
  ec_redis_url :: "string option"
  ec_redis_stream :: "string option"
  ec_redis_maxlen :: "nat option"
  ec_kafka_brokers :: "string option"
  ec_kafka_topic :: "string option"
  ec_kafka_client_id :: "string option"
  ec_rabbit_url :: "string option"
  ec_rabbit_exchange :: "string option"
  ec_rabbit_routing_key :: "string option"

record rate_limit_config =
  rlc_enabled :: bool
  rlc_max_requests :: "32 word"
  rlc_window_secs :: "64 word"
  rlc_backend :: string
  rlc_redis_url :: "string option"
  rlc_invalid_client_max_requests :: "32 word"

record circuit_breaker_config =
  cbc_failure_threshold :: "32 word"
  cbc_success_threshold :: "32 word"
  cbc_open_secs :: "64 word"
  cbc_half_open_max_probes :: "32 word"

record back_pressure_config =
  bpc_max_concurrent :: "32 word"

record bulkhead_entry =
  be_name :: string
  be_path_prefix :: string
  be_max_concurrent :: "32 word"

record resilience_config =
  rsc_enabled :: bool
  rsc_circuit_breaker :: "circuit_breaker_config option"
  rsc_back_pressure :: "back_pressure_config option"
  rsc_bulkheads :: "bulkhead_entry list"

datatype sampler_kind = ParentBasedAlwaysOn | TraceIdRatio real | AlwaysOff

record telemetry_config =
  tc_otlp_endpoint :: "string option"
  tc_service_name :: "string option"
  tc_sampler :: sampler_kind
  tc_batch_max_queue :: nat
  tc_batch_scheduled_delay_ms :: "64 word"

text \<open>\<open>SessionConfig\<close> and \<open>DebugConfig\<close> hold one optional text each.\<close>
record config =
  cf_server :: server_config
  cf_database :: database_config
  cf_jwt :: jwt_config
  cf_events :: event_config
  cf_social :: "social_config option"
  cf_session :: "string option option"
  cf_debug :: "string option option"
  cf_rate_limit :: "rate_limit_config option"
  cf_cache :: "cache_config option"
  cf_resilience :: "resilience_config option"
  cf_telemetry :: telemetry_config
  cf_agent :: agent_config

section \<open>Reading a variable\<close>

text \<open>\<open>str::parse\<close> for the unsigned types and for \<open>bool\<close>.\<close>

definition parse_word :: "string \<Rightarrow> 'a::len word option" where
  "parse_word s = Option.bind (parse_u64 s) (\<lambda>n. if n < 2 ^ LENGTH('a) then Some (of_nat n) else None)"

definition parse_bool :: "string \<Rightarrow> bool option" where
  "parse_bool s = (if s = ''true'' then Some True else if s = ''false'' then Some False else None)"

text \<open>A variable with aliases: the first one that is set counts, even if its value does not parse.\<close>
fun first_var :: "env_vars \<Rightarrow> string list \<Rightarrow> string option" where
  "first_var vars [] = None"
| "first_var vars (n # ns) = (case vars n of Some v \<Rightarrow> Some v | None \<Rightarrow> first_var vars ns)"

definition parsed :: "(string \<Rightarrow> 'a option) \<Rightarrow> string option \<Rightarrow> 'a \<Rightarrow> 'a" where
  "parsed parse v d = unwrap_or (Option.bind v parse) d"

definition trimmed :: "string option \<Rightarrow> string option" where
  "trimmed v = nonempty (map_option trim v)"

definition parse_bool_flag :: "string \<Rightarrow> bool" where
  "parse_bool_flag raw = (to_lowercase (trim raw) \<in> {''1'', ''true'', ''yes''})"

definition parse_csv_list :: "string \<Rightarrow> string list" where
  "parse_csv_list raw = filter (\<lambda>s. s \<noteq> []) (map trim (split_char (CHR '','') raw))"

definition env_bool_flag :: "env_vars \<Rightarrow> string \<Rightarrow> bool" where
  "env_bool_flag vars name = unwrap_or (map_option parse_bool_flag (vars name)) False"

definition env_csv_list :: "env_vars \<Rightarrow> string \<Rightarrow> string list" where
  "env_csv_list vars name = unwrap_or (map_option parse_csv_list (vars name)) []"

section \<open>Defaults\<close>

definition INSECURE_DEFAULT_JWT_SECRET :: string where
  "INSECURE_DEFAULT_JWT_SECRET = ''insecure-default-for-testing-only-change-in-production''"

definition default_max_connections :: "env_vars \<Rightarrow> 32 word" where
  "default_max_connections vars = parsed parse_word (vars ''OAUTH2_DATABASE_MAX_CONNECTIONS'') 50"

definition default_min_connections :: "env_vars \<Rightarrow> 32 word" where
  "default_min_connections vars = parsed parse_word (vars ''OAUTH2_DATABASE_MIN_CONNECTIONS'') 1"

definition default_acquire_timeout_secs :: "env_vars \<Rightarrow> 64 word" where
  "default_acquire_timeout_secs vars =
     parsed parse_word (first_var vars [''OAUTH2_DATABASE_ACQUIRE_TIMEOUT_SECS'', ''OAUTH2_DATABASE_CONNECT_TIMEOUT'']) 30"

definition default_idle_timeout_secs :: "env_vars \<Rightarrow> 64 word" where
  "default_idle_timeout_secs vars =
     parsed parse_word (first_var vars [''OAUTH2_DATABASE_IDLE_TIMEOUT_SECS'', ''OAUTH2_DATABASE_IDLE_TIMEOUT'']) 600"

definition default_access_token_ttl_secs :: "env_vars \<Rightarrow> 64 word" where
  "default_access_token_ttl_secs vars = parsed parse_word (vars ''OAUTH2_ACCESS_TOKEN_TTL_SECS'') 3600"

definition default_refresh_token_ttl_secs :: "env_vars \<Rightarrow> 64 word" where
  "default_refresh_token_ttl_secs vars = parsed parse_word (vars ''OAUTH2_REFRESH_TOKEN_TTL_SECS'') 2592000"

definition default_authorization_code_ttl_secs :: "env_vars \<Rightarrow> 64 word" where
  "default_authorization_code_ttl_secs vars = parsed parse_word (vars ''OAUTH2_AUTHORIZATION_CODE_TTL_SECS'') 600"

definition default_max_delegation_depth :: "env_vars \<Rightarrow> nat" where
  "default_max_delegation_depth vars = parsed parse_u64 (vars ''OAUTH2_MAX_DELEGATION_DEPTH'') 4"

definition default_cimd_max_clients :: "env_vars \<Rightarrow> nat" where
  "default_cimd_max_clients vars = parsed parse_u64 (vars ''OAUTH2_CIMD_MAX_CLIENTS'') 1000"

definition default_txn_token_ttl_secs :: "env_vars \<Rightarrow> 64 word" where
  "default_txn_token_ttl_secs vars = parsed parse_word (vars ''OAUTH2_TXN_TOKEN_TTL_SECS'') 300"

definition agent_default :: "env_vars \<Rightarrow> agent_config" where
  "agent_default vars =
     \<lparr>ag_max_delegation_depth = default_max_delegation_depth vars, ag_trust_domain = trimmed (vars ''OAUTH2_TRUST_DOMAIN''),
      ag_cimd_enabled = env_bool_flag vars ''OAUTH2_CIMD_ENABLED'', ag_cimd_allowed_hosts = env_csv_list vars ''OAUTH2_CIMD_ALLOWED_HOSTS'',
      ag_cimd_denied_hosts = env_csv_list vars ''OAUTH2_CIMD_DENIED_HOSTS'', ag_cimd_max_clients = default_cimd_max_clients vars,
      ag_obo_enabled = env_bool_flag vars ''OAUTH2_AGENT_OBO_ENABLED'', ag_a2a_profile_enabled = env_bool_flag vars ''OAUTH2_A2A_PROFILE_ENABLED'',
      ag_txn_token_ttl_secs = default_txn_token_ttl_secs vars, ag_txn_tokens_enabled = env_bool_flag vars ''OAUTH2_TXN_TOKENS_ENABLED'',
      ag_tac_enabled = env_bool_flag vars ''OAUTH2_TAC_ENABLED'', ag_id_jag_enabled = env_bool_flag vars ''OAUTH2_ID_JAG_ENABLED'',
      ag_chaining_targets = env_csv_list vars ''OAUTH2_CHAINING_TARGETS'',
      ag_ai_agent_access_token_ttl_secs = Option.bind (vars ''OAUTH2_AI_AGENT_ACCESS_TOKEN_TTL_SECS'') parse_word\<rparr>"

definition rate_limit_default :: rate_limit_config where
  "rate_limit_default =
     \<lparr>rlc_enabled = False, rlc_max_requests = 100, rlc_window_secs = 60, rlc_backend = ''in_memory'', rlc_redis_url = None,
      rlc_invalid_client_max_requests = 5\<rparr>"

definition circuit_breaker_default :: circuit_breaker_config where
  "circuit_breaker_default =
     \<lparr>cbc_failure_threshold = 5, cbc_success_threshold = 2, cbc_open_secs = 30, cbc_half_open_max_probes = 3\<rparr>"

definition back_pressure_default :: back_pressure_config where
  "back_pressure_default = \<lparr>bpc_max_concurrent = 1000\<rparr>"

section \<open>The environment as configuration\<close>

definition server_from_env :: "env_vars \<Rightarrow> server_config" where
  "server_from_env vars =
     \<lparr>sc_host = unwrap_or (vars ''OAUTH2_SERVER_HOST'') ''127.0.0.1'',
      sc_port = parsed parse_word (vars ''OAUTH2_SERVER_PORT'') 8080,
      sc_workers = Option.bind (Option.bind (vars ''OAUTH2_SERVER_WORKERS'') parse_u64) (\<lambda>w. if 0 < w then Some w else None),
      sc_public_base_url = trimmed (first_var vars [''OAUTH2_SERVER_PUBLIC_BASE_URL'', ''OAUTH2_PUBLIC_BASE_URL'', ''OAUTH2_BASE_URL'']),
      sc_trust_proxy_headers = parsed parse_bool (first_var vars [''OAUTH2_SERVER_TRUST_PROXY_HEADERS'', ''OAUTH2_TRUST_PROXY_HEADERS'']) False,
      sc_public_url = trimmed (first_var vars [''OAUTH2_PUBLIC_URL'', ''OAUTH2_ISSUER_URL'']), sc_allowed_origins = [],
      sc_enforce_https = parsed parse_bool (first_var vars [''OAUTH2_SERVER_ENFORCE_HTTPS'', ''OAUTH2_ENFORCE_HTTPS'']) False\<rparr>"

definition database_from_env :: "env_vars \<Rightarrow> database_config" where
  "database_from_env vars =
     \<lparr>da_url = unwrap_or (vars ''OAUTH2_DATABASE_URL'') ''sqlite:oauth2.db?mode=rwc'', da_read_url = vars ''OAUTH2_DATABASE_READ_URL'',
      da_max_connections = default_max_connections vars, da_min_connections = default_min_connections vars,
      da_acquire_timeout_secs = default_acquire_timeout_secs vars, da_idle_timeout_secs = default_idle_timeout_secs vars\<rparr>"

definition jwt_from_env :: "env_vars \<Rightarrow> jwt_config" where
  "jwt_from_env vars =
     \<lparr>jc_secret = unwrap_or (vars ''OAUTH2_JWT_SECRET'') INSECURE_DEFAULT_JWT_SECRET,
      jc_key_rotation_grace_hours = parsed parse_word (vars ''OAUTH2_JWT_KEY_ROTATION_GRACE_HOURS'') 24,
      jc_stateless_validation = parsed parse_bool (vars ''OAUTH2_JWT_STATELESS_VALIDATION'') False,
      jc_public_introspection = parsed parse_bool (first_var vars [''OAUTH2_PUBLIC_INTROSPECTION'', ''OAUTH2_INTROSPECTION_PUBLIC'']) False,
      jc_access_tokens_opaque = parsed parse_bool (vars ''OAUTH2_ACCESS_TOKENS_OPAQUE'') False,
      jc_access_token_ttl_secs = default_access_token_ttl_secs vars, jc_refresh_token_ttl_secs = default_refresh_token_ttl_secs vars,
      jc_authorization_code_ttl_secs = default_authorization_code_ttl_secs vars\<rparr>"

definition events_from_env :: "env_vars \<Rightarrow> event_config" where
  "events_from_env vars =
     \<lparr>ec_enabled = parsed parse_bool (vars ''OAUTH2_EVENTS_ENABLED'') True, ec_backend = unwrap_or (vars ''OAUTH2_EVENTS_BACKEND'') ''in_memory'',
      ec_filter_mode = unwrap_or (vars ''OAUTH2_EVENTS_FILTER_MODE'') ''allow_all'',
      ec_event_types = parse_csv_list (unwrap_or (vars ''OAUTH2_EVENTS_TYPES'') []),
      ec_public_ingest = parsed parse_bool (vars ''OAUTH2_EVENTS_PUBLIC_INGEST'') False,
      ec_ingest_bearer_token = trimmed (vars ''OAUTH2_EVENTS_INGEST_BEARER_TOKEN''), ec_redis = None, ec_kafka = None, ec_rabbit = None,
      ec_redis_url = vars ''OAUTH2_EVENTS_REDIS_URL'', ec_redis_stream = vars ''OAUTH2_EVENTS_REDIS_STREAM'',
      ec_redis_maxlen = Option.bind (vars ''OAUTH2_EVENTS_REDIS_MAXLEN'') parse_u64, ec_kafka_brokers = vars ''OAUTH2_EVENTS_KAFKA_BROKERS'',
      ec_kafka_topic = vars ''OAUTH2_EVENTS_KAFKA_TOPIC'', ec_kafka_client_id = vars ''OAUTH2_EVENTS_KAFKA_CLIENT_ID'',
      ec_rabbit_url = vars ''OAUTH2_EVENTS_RABBIT_URL'', ec_rabbit_exchange = vars ''OAUTH2_EVENTS_RABBIT_EXCHANGE'',
      ec_rabbit_routing_key = vars ''OAUTH2_EVENTS_RABBIT_ROUTING_KEY''\<rparr>"

definition rate_limit_from_env :: "env_vars \<Rightarrow> rate_limit_config" where
  "rate_limit_from_env vars =
     \<lparr>rlc_enabled = parsed parse_bool (vars ''OAUTH2_RATE_LIMIT_ENABLED'') False,
      rlc_max_requests = parsed parse_word (vars ''OAUTH2_RATE_LIMIT_MAX_REQUESTS'') 100,
      rlc_window_secs = parsed parse_word (vars ''OAUTH2_RATE_LIMIT_WINDOW_SECS'') 60,
      rlc_backend = unwrap_or (vars ''OAUTH2_RATE_LIMIT_BACKEND'') ''in_memory'', rlc_redis_url = vars ''OAUTH2_RATE_LIMIT_REDIS_URL'',
      rlc_invalid_client_max_requests = parsed parse_word (vars ''OAUTH2_RATE_LIMIT_INVALID_CLIENT_MAX_REQUESTS'') 5\<rparr>"

definition cache_from_env :: "env_vars \<Rightarrow> cache_config" where
  "cache_from_env vars =
     \<lparr>kc_redis_url = vars ''OAUTH2_CACHE_REDIS_URL'', kc_token_actor_shards = parsed parse_u64 (vars ''OAUTH2_TOKEN_ACTOR_SHARDS'') 1\<rparr>"

definition resilience_from_env :: "env_vars \<Rightarrow> resilience_config option" where
  "resilience_from_env vars =
     (let enabled = parsed parse_bool (vars ''OAUTH2_RESILIENCE_ENABLED'') False;
          bp_enabled = parsed parse_bool (vars ''OAUTH2_RESILIENCE_BP_ENABLED'') True;
          cb_enabled = parsed parse_bool (vars ''OAUTH2_RESILIENCE_CB_ENABLED'') True in
      if \<not> enabled then None
      else Some
        \<lparr>rsc_enabled = enabled,
         rsc_circuit_breaker =
           (if cb_enabled then Some
              \<lparr>cbc_failure_threshold =
                 parsed parse_word (vars ''OAUTH2_RESILIENCE_CB_FAILURE_THRESHOLD'') (cbc_failure_threshold circuit_breaker_default),
               cbc_success_threshold =
                 parsed parse_word (vars ''OAUTH2_RESILIENCE_CB_SUCCESS_THRESHOLD'') (cbc_success_threshold circuit_breaker_default),
               cbc_open_secs = parsed parse_word (vars ''OAUTH2_RESILIENCE_CB_OPEN_SECS'') (cbc_open_secs circuit_breaker_default),
               cbc_half_open_max_probes =
                 parsed parse_word (vars ''OAUTH2_RESILIENCE_CB_HALF_OPEN_MAX_PROBES'') (cbc_half_open_max_probes circuit_breaker_default)\<rparr>
            else None),
         rsc_back_pressure =
           (if bp_enabled then Some
              \<lparr>bpc_max_concurrent = parsed parse_word (vars ''OAUTH2_RESILIENCE_MAX_CONCURRENT'') (bpc_max_concurrent back_pressure_default)\<rparr>
            else None),
         rsc_bulkheads = []\<rparr>)"

definition otlp_endpoint_var :: "env_vars \<Rightarrow> string option" where
  "otlp_endpoint_var vars = trimmed (first_var vars [''OTEL_EXPORTER_OTLP_ENDPOINT'', ''OAUTH2_OTLP_ENDPOINT''])"

definition telemetry_from_env :: "env_vars \<Rightarrow> telemetry_config" where
  "telemetry_from_env vars =
     \<lparr>tc_otlp_endpoint = otlp_endpoint_var vars, tc_service_name = trimmed (vars ''OTEL_SERVICE_NAME''), tc_sampler = ParentBasedAlwaysOn,
      tc_batch_max_queue = 2048, tc_batch_scheduled_delay_ms = 5000\<rparr>"

section \<open>Normalisation\<close>

text \<open>The flat event settings are filled from the nested ones where they are missing.\<close>
definition normalize_events :: "event_config \<Rightarrow> event_config" where
  "normalize_events ev =
     (let ev1 = (case ec_redis ev of None \<Rightarrow> ev | Some r \<Rightarrow>
            ev\<lparr>ec_redis_url := opt_or (ec_redis_url ev) (Some (rd_url r)), ec_redis_stream := opt_or (ec_redis_stream ev) (Some (rd_stream r)),
               ec_redis_maxlen := opt_or (ec_redis_maxlen ev) (rd_maxlen r)\<rparr>);
          ev2 = (case ec_kafka ev1 of None \<Rightarrow> ev1 | Some k \<Rightarrow>
            ev1\<lparr>ec_kafka_brokers := opt_or (ec_kafka_brokers ev1) (Some (kf_brokers k)),
               ec_kafka_topic := opt_or (ec_kafka_topic ev1) (Some (kf_topic k)), ec_kafka_client_id := opt_or (ec_kafka_client_id ev1) (kf_client_id k)\<rparr>)
      in case ec_rabbit ev2 of None \<Rightarrow> ev2 | Some r \<Rightarrow>
            ev2\<lparr>ec_rabbit_url := opt_or (ec_rabbit_url ev2) (Some (rb_url r)), ec_rabbit_exchange := opt_or (ec_rabbit_exchange ev2) (Some (rb_exchange r)),
               ec_rabbit_routing_key := opt_or (ec_rabbit_routing_key ev2) (Some (rb_routing_key r))\<rparr>)"

definition normalize_event_config :: "config \<Rightarrow> config" where
  "normalize_event_config c = c\<lparr>cf_events := normalize_events (cf_events c)\<rparr>"

definition normalize_server :: "server_config \<Rightarrow> server_config" where
  "normalize_server s =
     (let base = trimmed (sc_public_base_url s); url = trimmed (sc_public_url s) in
      s\<lparr>sc_public_base_url := base, sc_public_url := opt_or url base\<rparr>)"

definition normalize_server_config :: "config \<Rightarrow> config" where
  "normalize_server_config c = c\<lparr>cf_server := normalize_server (cf_server c)\<rparr>"

definition overlay_telemetry_env :: "env_vars \<Rightarrow> config \<Rightarrow> config" where
  "overlay_telemetry_env vars c =
     (let t = cf_telemetry c in
      c\<lparr>cf_telemetry := t\<lparr>tc_otlp_endpoint := opt_or (tc_otlp_endpoint t) (otlp_endpoint_var vars),
        tc_service_name := opt_or (tc_service_name t) (trimmed (vars ''OTEL_SERVICE_NAME''))\<rparr>\<rparr>)"

definition load_provider_from_env :: "env_vars \<Rightarrow> string \<Rightarrow> provider_config option \<Rightarrow> provider_config option" where
  "load_provider_from_env vars pre p =
     (let var = (\<lambda>name. vars (''OAUTH2_'' @ pre @ ''_'' @ name)) in
      if var ''CLIENT_ID'' \<noteq> None \<and> var ''CLIENT_SECRET'' \<noteq> None then
        Some \<lparr>pc_enabled = True, pc_client_id = var ''CLIENT_ID'', pc_client_secret = var ''CLIENT_SECRET'',
          pc_redirect_uri = opt_or (var ''REDIRECT_URI'') (Some (''http://localhost:8080/auth/callback/'' @ to_lowercase pre)),
          pc_tenant_id = var ''TENANT_ID'', pc_domain = var ''DOMAIN''\<rparr>
      else p)"

definition load_social_from_env :: "env_vars \<Rightarrow> config \<Rightarrow> config" where
  "load_social_from_env vars c =
     c\<lparr>cf_social := map_option (\<lambda>s.
        s\<lparr>so_google := load_provider_from_env vars ''GOOGLE'' (so_google s),
          so_microsoft := load_provider_from_env vars ''MICROSOFT'' (so_microsoft s), so_github := load_provider_from_env vars ''GITHUB'' (so_github s),
          so_azure := load_provider_from_env vars ''AZURE'' (so_azure s), so_okta := load_provider_from_env vars ''OKTA'' (so_okta s),
          so_auth0 := load_provider_from_env vars ''AUTH0'' (so_auth0 s)\<rparr>) (cf_social c)\<rparr>"

definition load_allowed_origins :: "env_vars \<Rightarrow> config \<Rightarrow> config" where
  "load_allowed_origins vars c =
     (case vars ''OAUTH2_ALLOWED_ORIGINS'' of
        Some v \<Rightarrow> if trim v \<noteq> [] then c\<lparr>cf_server := cf_server c\<lparr>sc_allowed_origins := parse_csv_list v\<rparr>\<rparr> else c
      | None \<Rightarrow> c)"

section \<open>Loading\<close>

definition from_env_fallback :: "env_vars \<Rightarrow> config" where
  "from_env_fallback vars =
     load_allowed_origins vars (normalize_server_config (normalize_event_config
       \<lparr>cf_server = server_from_env vars, cf_database = database_from_env vars, cf_jwt = jwt_from_env vars, cf_events = events_from_env vars,
        cf_social = None, cf_session = None, cf_debug = None, cf_rate_limit = Some (rate_limit_from_env vars), cf_cache = Some (cache_from_env vars),
        cf_resilience = resilience_from_env vars, cf_telemetry = telemetry_from_env vars, cf_agent = agent_default vars\<rparr>))"

definition load_event_types :: "env_vars \<Rightarrow> config \<Rightarrow> config" where
  "load_event_types vars c =
     (case vars ''OAUTH2_EVENTS_TYPES'' of
        Some v \<Rightarrow> c\<lparr>cf_events := cf_events c\<lparr>ec_event_types := parse_csv_list v\<rparr>\<rparr> | None \<Rightarrow> c)"

definition from_hocon_path :: "env_vars \<Rightarrow> string + config \<Rightarrow> string + config" where
  "from_hocon_path vars loaded =
     bindR loaded (\<lambda>c. Inr (load_allowed_origins vars (load_social_from_env vars (load_event_types vars
       (overlay_telemetry_env vars (normalize_server_config (normalize_event_config c)))))))"

definition config_default :: "env_vars \<Rightarrow> string + config \<Rightarrow> config" where
  "config_default vars loaded = (case from_hocon_path vars loaded of Inr c \<Rightarrow> c | Inl _ \<Rightarrow> from_env_fallback vars)"

section \<open>Checks and logging\<close>

definition insecure_defaults_allowed :: "env_vars \<Rightarrow> bool" where
  "insecure_defaults_allowed vars = (vars ''OAUTH2_ALLOW_INSECURE_DEFAULTS'' = Some ''1'')"

datatype secret_fault = DefaultSecret | ShortSecret nat

definition validate_for_production :: "env_vars \<Rightarrow> config \<Rightarrow> secret_fault + unit" where
  "validate_for_production vars c =
     (if insecure_defaults_allowed vars then Inr ()
      else if jc_secret (cf_jwt c) = INSECURE_DEFAULT_JWT_SECRET then Inl DefaultSecret
      else if length (jc_secret (cf_jwt c)) < 32 then Inl (ShortSecret (length (jc_secret (cf_jwt c))))
      else Inr ())"

definition masked :: string where
  "masked = ''***MASKED***''"

definition sanitize_provider :: "provider_config option \<Rightarrow> provider_config option" where
  "sanitize_provider p = map_option (\<lambda>p. p\<lparr>pc_client_secret := map_option (\<lambda>_. masked) (pc_client_secret p)\<rparr>) p"

definition sanitized :: "config \<Rightarrow> config" where
  "sanitized c =
     c\<lparr>cf_jwt := cf_jwt c\<lparr>jc_secret := masked\<rparr>,
       cf_social := map_option (\<lambda>s.
         s\<lparr>so_google := sanitize_provider (so_google s), so_microsoft := sanitize_provider (so_microsoft s),
           so_github := sanitize_provider (so_github s), so_azure := sanitize_provider (so_azure s), so_okta := sanitize_provider (so_okta s),
           so_auth0 := sanitize_provider (so_auth0 s)\<rparr>) (cf_social c)\<rparr>"

section \<open>Reading is sound\<close>

lemma parsed_bool_False [simp]: "parsed parse_bool v False \<longleftrightarrow> v = Some ''true''"
  by (cases v) (auto simp: parsed_def parse_bool_def)

lemma env_bool_flag_iff: "env_bool_flag vars n \<longleftrightarrow> (\<exists>v. vars n = Some v \<and> to_lowercase (trim v) \<in> {''1'', ''true'', ''yes''})"
  by (cases "vars n") (simp_all add: env_bool_flag_def parse_bool_flag_def)

lemma opt_or_idem [simp]: "opt_or a (opt_or a b) = opt_or a b" "opt_or (opt_or a b) b = opt_or a b" "opt_or (opt_or a b) a = opt_or a b"
  by (cases a; cases b; simp add: opt_or_def)+

lemma trimmed_idem [simp]: "trimmed (trimmed v) = trimmed v"
  by (cases v) (auto simp: trimmed_def nonempty_def)

lemma trimmed_Some: "trimmed v = Some s \<Longrightarrow> trim s = s \<and> s \<noteq> []"
  by (cases v) (auto simp: trimmed_def nonempty_def split: if_splits)

lemma split_char_append: "d \<notin> set w \<Longrightarrow> split_char d (w @ d # rest) = w # split_char d rest"
  by (induction w) (auto split: list.splits)

lemma split_char_join:
  assumes "ts \<noteq> []" "\<forall>t\<in>set ts. d \<notin> set t"
  shows "split_char d (join [d] ts) = ts"
  using assms by (induction ts rule: induct_list012) (auto simp: split_char_single split_char_append)

lemma split_char_part: "t \<in> set (split_char d s) \<Longrightarrow> d \<notin> set t"
  by (induction s arbitrary: t) (auto split: if_splits list.splits)

lemma set_trim: "set (trim s) \<subseteq> set s"
  by (auto simp: trim_def trim_start_def trim_end_def dest!: set_dropWhileD)

lemma parse_csv_entries: "t \<in> set (parse_csv_list raw) \<Longrightarrow> t \<noteq> [] \<and> trim t = t \<and> CHR '','' \<notin> set t"
  using split_char_part set_trim by (fastforce simp: parse_csv_list_def)

lemma parse_csv_join:
  assumes "\<forall>t\<in>set ts. t \<noteq> [] \<and> trim t = t \<and> CHR '','' \<notin> set t"
  shows "parse_csv_list (join '','' ts) = ts"
proof (cases "ts = []")
  case False
  have "map trim ts = ts" using assms by (simp add: map_idI)
  moreover have "filter (\<lambda>s. s \<noteq> []) ts = ts" using assms by (simp add: filter_id_conv)
  moreover have "split_char (CHR '','') (join '','' ts) = ts" using False assms by (simp add: split_char_join)
  ultimately show ?thesis by (simp add: parse_csv_list_def)
qed (simp add: parse_csv_list_def trim_def trim_start_def trim_end_def)

lemma csv_list_canonical: "parse_csv_list (join '','' (parse_csv_list raw)) = parse_csv_list raw"
  by (rule parse_csv_join) (blast dest: parse_csv_entries)

lemma normalize_server_idem: "normalize_server (normalize_server s) = normalize_server s"
proof -
  have "opt_or (trimmed (opt_or u (trimmed b))) (trimmed b) = opt_or u (trimmed b)" if "trimmed u = u" for u b
    using that by (cases u) (auto simp: opt_or_def split: option.split)
  then show ?thesis by (simp add: normalize_server_def Let_def)
qed

lemma normalize_events_idem: "normalize_events (normalize_events ev) = normalize_events ev"
  by (cases "ec_redis ev"; cases "ec_kafka ev"; cases "ec_rabbit ev") (simp_all add: normalize_events_def)

lemmas load_defs = load_allowed_origins_def load_social_from_env_def load_event_types_def overlay_telemetry_env_def
  normalize_server_config_def normalize_event_config_def

lemma config_default_urls:
  "\<exists>s. sc_public_url (cf_server (config_default vars loaded)) = sc_public_url (normalize_server s) \<and>
       sc_public_base_url (cf_server (config_default vars loaded)) = sc_public_base_url (normalize_server s)"
  by (cases loaded) (auto simp: config_default_def from_hocon_path_def from_env_fallback_def load_defs Let_def split: option.split)

lemma from_env_sections [simp]:
  "cf_jwt (from_env_fallback vars) = jwt_from_env vars" "cf_database (from_env_fallback vars) = database_from_env vars"
  "cf_agent (from_env_fallback vars) = agent_default vars" "cf_rate_limit (from_env_fallback vars) = Some (rate_limit_from_env vars)"
  "cf_resilience (from_env_fallback vars) = resilience_from_env vars"
  "cf_events (from_env_fallback vars) = normalize_events (events_from_env vars)"
  by (simp_all add: from_env_fallback_def load_defs split: option.split)

lemma normalize_events_keeps [simp]: "ec_public_ingest (normalize_events ev) = ec_public_ingest ev"
  "ec_ingest_bearer_token (normalize_events ev) = ec_ingest_bearer_token ev" "ec_backend (normalize_events ev) = ec_backend ev"
  by (simp_all add: normalize_events_def Let_def split: option.split)

lemma from_env_server [simp]:
  "sc_trust_proxy_headers (cf_server (from_env_fallback vars)) = sc_trust_proxy_headers (server_from_env vars)"
  "sc_enforce_https (cf_server (from_env_fallback vars)) = sc_enforce_https (server_from_env vars)"
  by (simp_all add: from_env_fallback_def load_defs normalize_server_def Let_def split: option.split)

lemma from_env_origins:
  "z \<in> set (sc_allowed_origins (cf_server (from_env_fallback vars))) \<Longrightarrow> \<exists>v. vars ''OAUTH2_ALLOWED_ORIGINS'' = Some v \<and> z \<in> set (parse_csv_list v)"
  by (auto simp: from_env_fallback_def load_defs normalize_server_def server_from_env_def Let_def split: option.splits if_splits)

section \<open>What the configuration promises\<close>

text \<open>Without a configuration file nothing is opened up by default: forwarded headers are believed, introspection and event ingestion are public and
  the agent features are on only if their variable says so, and only listed origins may call from a browser.\<close>
theorem openings_asked_for:
  "sc_trust_proxy_headers (cf_server (from_env_fallback vars)) \<longrightarrow>
     first_var vars [''OAUTH2_SERVER_TRUST_PROXY_HEADERS'', ''OAUTH2_TRUST_PROXY_HEADERS''] = Some ''true''"
  "jc_public_introspection (cf_jwt (from_env_fallback vars)) \<longrightarrow>
     first_var vars [''OAUTH2_PUBLIC_INTROSPECTION'', ''OAUTH2_INTROSPECTION_PUBLIC''] = Some ''true''"
  "ec_public_ingest (cf_events (from_env_fallback vars)) \<longrightarrow> vars ''OAUTH2_EVENTS_PUBLIC_INGEST'' = Some ''true''"
  "ag_cimd_enabled (cf_agent (from_env_fallback vars)) \<longrightarrow> env_bool_flag vars ''OAUTH2_CIMD_ENABLED''"
  "ag_obo_enabled (cf_agent (from_env_fallback vars)) \<longrightarrow> env_bool_flag vars ''OAUTH2_AGENT_OBO_ENABLED''"
  "set (sc_allowed_origins (cf_server (from_env_fallback vars))) \<subseteq> set (env_csv_list vars ''OAUTH2_ALLOWED_ORIGINS'')"
  by (auto simp: server_from_env_def jwt_from_env_def events_from_env_def agent_default_def env_csv_list_def unwrap_or_def dest!: from_env_origins)

text \<open>The logged configuration does not depend on the signing secret or on the secrets of the login providers.\<close>
definition provider_secret :: "(string \<Rightarrow> string) \<Rightarrow> provider_config option \<Rightarrow> provider_config option" where
  "provider_secret f p = map_option (\<lambda>p. p\<lparr>pc_client_secret := map_option f (pc_client_secret p)\<rparr>) p"

definition with_secrets :: "string \<Rightarrow> (string \<Rightarrow> string) \<Rightarrow> config \<Rightarrow> config" where
  "with_secrets s f c =
     c\<lparr>cf_jwt := cf_jwt c\<lparr>jc_secret := s\<rparr>,
       cf_social := map_option (\<lambda>z.
         z\<lparr>so_google := provider_secret f (so_google z), so_microsoft := provider_secret f (so_microsoft z),
           so_github := provider_secret f (so_github z), so_azure := provider_secret f (so_azure z), so_okta := provider_secret f (so_okta z),
           so_auth0 := provider_secret f (so_auth0 z)\<rparr>) (cf_social c)\<rparr>"

lemma sanitize_provider_secret [simp]: "sanitize_provider (provider_secret f p) = sanitize_provider p"
  by (cases p) (simp_all add: sanitize_provider_def provider_secret_def option.map_comp comp_def)

theorem sanitized_hides_secrets: "sanitized (with_secrets s f c) = sanitized c"
  by (cases "cf_social c") (simp_all add: sanitized_def with_secrets_def)

text \<open>Other secrets are logged as they are: the session key, and the passwords inside the URLs of the database, the cache and the rate limiter.\<close>
theorem sanitized_keeps_other_secrets:
  "cf_session (sanitized c) = cf_session c" "cf_database (sanitized c) = cf_database c"
  "cf_cache (sanitized c) = cf_cache c" "cf_rate_limit (sanitized c) = cf_rate_limit c"
  by (simp_all add: sanitized_def)

text \<open>A telemetry setting of the configuration file is kept, whatever the environment says.\<close>
theorem file_telemetry_wins:
  "tc_otlp_endpoint (cf_telemetry c) = Some u \<Longrightarrow> tc_otlp_endpoint (cf_telemetry (overlay_telemetry_env vars c)) = Some u"
  by (simp add: overlay_telemetry_env_def Let_def opt_or_def)

end
