(* ===== verification/Event_Bus.thy ===== *)
theory Event_Bus
  imports Recent_Events Configuration
begin

text \<open>
  The event bus (\<open>crates/oauth2-events/src\<close>): events and envelopes, the filter, the plugins, the actor that
  distributes an envelope to them, the header carriers of the brokers, and the wiring of all this at start-up
  (\<open>crates/oauth2-server/src/lib.rs\<close>).  Serialization and the brokers are arguments; what a plugin sends to a
  broker or prints is recorded in the record \<open>event_world\<close>.  The plugins of an actor run concurrently on disjoint
  states, so one order stands for all.
\<close>

section \<open>Events\<close>

datatype event_type =
    AuthorizationCodeCreated | AuthorizationCodeValidated | AuthorizationCodeExpired | TokenCreated | TokenValidated | TokenRevoked
  | TokenExpired | ClientRegistered | ClientValidated | ClientDeleted | UserAuthenticated | UserAuthenticationFailed | UserLogout

fun event_as_str :: "event_type \<Rightarrow> string" where
  "event_as_str AuthorizationCodeCreated = ''authorization_code_created''"
| "event_as_str AuthorizationCodeValidated = ''authorization_code_validated''"
| "event_as_str AuthorizationCodeExpired = ''authorization_code_expired''"
| "event_as_str TokenCreated = ''token_created''"
| "event_as_str TokenValidated = ''token_validated''"
| "event_as_str TokenRevoked = ''token_revoked''"
| "event_as_str TokenExpired = ''token_expired''"
| "event_as_str ClientRegistered = ''client_registered''"
| "event_as_str ClientValidated = ''client_validated''"
| "event_as_str ClientDeleted = ''client_deleted''"
| "event_as_str UserAuthenticated = ''user_authenticated''"
| "event_as_str UserAuthenticationFailed = ''user_authentication_failed''"
| "event_as_str UserLogout = ''user_logout''"

datatype event_severity = InfoEvent | WarningEvent | ErrorEvent

record auth_event =
  ae_id :: string
  ae_event_type :: event_type
  ae_timestamp :: instant
  ae_severity :: event_severity
  ae_user_id :: "string option"
  ae_client_id :: "string option"
  ae_metadata :: "string \<rightharpoonup> string"
  ae_error :: "string option"

definition auth_event_new ::
  "instant \<Rightarrow> string \<Rightarrow> event_type \<Rightarrow> event_severity \<Rightarrow> string option \<Rightarrow> string option \<Rightarrow> auth_event" where
  "auth_event_new now uuid ty severity user_id client_id =
     \<lparr>ae_id = uuid, ae_event_type = ty, ae_timestamp = now, ae_severity = severity, ae_user_id = user_id, ae_client_id = client_id,
      ae_metadata = Map.empty, ae_error = None\<rparr>"

definition with_metadata :: "string \<Rightarrow> string \<Rightarrow> auth_event \<Rightarrow> auth_event" where
  "with_metadata key value e = e\<lparr>ae_metadata := (ae_metadata e)(key \<mapsto> value)\<rparr>"

definition with_error :: "string \<Rightarrow> auth_event \<Rightarrow> auth_event" where
  "with_error msg e = e\<lparr>ae_error := Some msg\<rparr>"

record envelope =
  nv_event :: auth_event
  nv_idempotency_key :: "string option"
  nv_traceparent :: "string option"
  nv_tracestate :: "string option"
  nv_correlation_id :: string
  nv_producer :: string
  nv_produced_at :: instant
  nv_attributes :: "string \<rightharpoonup> string"

text \<open>\<open>headers\<close> is what the propagator writes for the span; blank values are dropped.\<close>
definition extract_w3c_trace_context :: "(string \<rightharpoonup> string) \<Rightarrow> string option \<times> string option" where
  "extract_w3c_trace_context headers =
     (let pick = (\<lambda>k. Option.bind (headers k) (\<lambda>v. if trim v = [] then None else Some v)) in (pick ''traceparent'', pick ''tracestate''))"

definition envelope_from_span :: "instant \<Rightarrow> string \<Rightarrow> auth_event \<Rightarrow> (string \<rightharpoonup> string) \<Rightarrow> string \<Rightarrow> envelope" where
  "envelope_from_span now uuid e headers producer =
     (let (tp, ts) = extract_w3c_trace_context headers in
      \<lparr>nv_event = e, nv_idempotency_key = None, nv_traceparent = tp, nv_tracestate = ts, nv_correlation_id = uuid, nv_producer = producer,
       nv_produced_at = now, nv_attributes = Map.empty\<rparr>)"

definition with_attribute :: "string \<Rightarrow> string \<Rightarrow> envelope \<Rightarrow> envelope" where
  "with_attribute key value e = e\<lparr>nv_attributes := (nv_attributes e)(key \<mapsto> value)\<rparr>"

definition with_idempotency_key :: "string \<Rightarrow> envelope \<Rightarrow> envelope" where
  "with_idempotency_key key e = e\<lparr>nv_idempotency_key := Some key\<rparr>"

text \<open>The view of an envelope that the ingestion endpoint has.\<close>
definition ingest_view :: "(envelope \<Rightarrow> json) \<Rightarrow> envelope \<Rightarrow> event_envelope" where
  "ingest_view val_of e =
     \<lparr>ee_event_id = ae_id (nv_event e), ee_idempotency_key = nv_idempotency_key e, ee_value = val_of e\<rparr>"

definition envelope_key :: "envelope \<Rightarrow> string" where
  "envelope_key e =
     unwrap_or (Option.bind (nv_idempotency_key e) (\<lambda>v. if trim v = [] then None else Some v)) (ae_id (nv_event e))"

section \<open>The filter\<close>

record event_filter =
  fi_use_include_list :: bool
  fi_include :: "event_type set"
  fi_exclude :: "event_type set"

definition allow_all :: event_filter where
  "allow_all = \<lparr>fi_use_include_list = False, fi_include = {}, fi_exclude = {}\<rparr>"

definition include_only :: "event_type list \<Rightarrow> event_filter" where
  "include_only events = \<lparr>fi_use_include_list = True, fi_include = set events, fi_exclude = {}\<rparr>"

definition exclude_events :: "event_type list \<Rightarrow> event_filter" where
  "exclude_events events = \<lparr>fi_use_include_list = False, fi_include = {}, fi_exclude = set events\<rparr>"

definition should_emit :: "event_filter \<Rightarrow> event_type \<Rightarrow> bool" where
  "should_emit f ty = (if fi_use_include_list f then ty \<in> fi_include f else ty \<notin> fi_exclude f)"

section \<open>Header carriers\<close>

text \<open>Kafka headers are a list in which a key may recur; values are bytes, \<open>utf8\<close> reads them as text.  An AMQP
  table has one value per key.\<close>

definition bytes_of_text :: "string \<Rightarrow> bytes" where
  "bytes_of_text s = map (\<lambda>c. of_nat (of_char c)) s"

type_synonym kafka_headers = "(string \<times> bytes option) list"

definition kafka_set :: "(string \<Rightarrow> bytes) \<Rightarrow> string \<Rightarrow> string \<Rightarrow> kafka_headers \<Rightarrow> kafka_headers" where
  "kafka_set as_bytes key value hs = hs @ [(key, Some (as_bytes value))]"

fun kafka_get :: "(bytes \<Rightarrow> string option) \<Rightarrow> string \<Rightarrow> kafka_headers \<Rightarrow> string option" where
  "kafka_get utf8 key [] = None"
| "kafka_get utf8 key ((k, v) # hs) =
     (if eq_ignore_case k key then (case v of Some b \<Rightarrow> utf8 b | None \<Rightarrow> kafka_get utf8 key hs) else kafka_get utf8 key hs)"

definition kafka_keys :: "kafka_headers \<Rightarrow> string list" where
  "kafka_keys hs = map fst hs"

datatype amqp_value = LongString bytes | ShortString string | OtherValue

type_synonym field_table = "string \<rightharpoonup> amqp_value"

definition rabbit_set :: "(string \<Rightarrow> bytes) \<Rightarrow> string \<Rightarrow> string \<Rightarrow> field_table \<Rightarrow> field_table" where
  "rabbit_set as_bytes key value t = t(key \<mapsto> LongString (as_bytes value))"

fun value_as_str :: "(bytes \<Rightarrow> string option) \<Rightarrow> amqp_value \<Rightarrow> string option" where
  "value_as_str utf8 (LongString b) = utf8 b"
| "value_as_str utf8 (ShortString s) = Some s"
| "value_as_str utf8 OtherValue = None"

definition rabbit_get :: "(bytes \<Rightarrow> string option) \<Rightarrow> string \<Rightarrow> field_table \<Rightarrow> string option" where
  "rabbit_get utf8 key t = Option.bind (t key) (value_as_str utf8)"

section \<open>The plugins\<close>

text \<open>The in-memory logger keeps the envelopes itself; the bridge feeds the ring of recent events; a publisher
  hands them to a broker.\<close>
datatype plugin =
    InMemoryLogger nat "envelope list" | ConsoleLogger | RecentEventsBridge
  | RedisStreams string "nat option" | KafkaPublisher string | RabbitPublisher string string

text \<open>What a publisher sends: a command, a record with topic, key, payload and headers, or a message with exchange, routing key, content type,
  message identifier, correlation identifier, headers and payload.\<close>
datatype broker_message =
    StreamEntry "string list"
  | KafkaRecord string string string kafka_headers
  | RabbitMessage string string string string string field_table string

record event_world =
  ew_recent :: recent_events_store
  ew_console :: "string list"
  ew_sent :: "broker_message list"

text \<open>The serialisers, the brokers, and the trace headers that the propagator injects.\<close>
record event_lib =
  el_to_string :: "envelope \<Rightarrow> string option"
  el_to_value :: "envelope \<Rightarrow> json option"
  el_send :: "broker_message \<Rightarrow> string + unit"
  el_confirm :: "broker_message \<Rightarrow> string + unit"
  el_context :: "(string \<times> string) list"
  el_ping :: "string \<Rightarrow> bool"

fun plugin_name :: "plugin \<Rightarrow> string" where
  "plugin_name (InMemoryLogger _ _) = ''in_memory''"
| "plugin_name ConsoleLogger = ''console''"
| "plugin_name RecentEventsBridge = ''recent_events_store''"
| "plugin_name (RedisStreams _ _) = ''redis_streams''"
| "plugin_name (KafkaPublisher _) = ''kafka''"
| "plugin_name (RabbitPublisher _ _) = ''rabbit''"

definition log_envelope :: "nat \<Rightarrow> envelope list \<Rightarrow> envelope \<Rightarrow> envelope list" where
  "log_envelope max_events events e =
     (let events1 = events @ [e] in
      if length events1 > max_events then drop (length events1 - max_events) events1 else events1)"

definition get_recent_events :: "nat \<Rightarrow> envelope list \<Rightarrow> envelope list" where
  "get_recent_events limit events =
     (let start = (if length events > limit then length events - limit else 0) in drop start events)"

definition xadd_cmd :: "string \<Rightarrow> nat option \<Rightarrow> envelope \<Rightarrow> string \<Rightarrow> string list" where
  "xadd_cmd stream maxlen e payload =
     [''XADD'', stream] @ (case maxlen of Some n \<Rightarrow> [''MAXLEN'', ''~'', show_nat n] | None \<Rightarrow> []) @
     [''*'', ''idempotency_key'', envelope_key e, ''event_type'', event_as_str (ae_event_type (nv_event e)), ''event_id'', ae_id (nv_event e),
      ''correlation_id'', nv_correlation_id e, ''producer'', nv_producer e, ''payload'', payload]"

definition deliver :: "event_lib \<Rightarrow> string \<Rightarrow> broker_message \<Rightarrow> event_world \<Rightarrow> (string + unit) \<times> event_world" where
  "deliver EL what msg w =
     (case el_send EL msg of
        Inl err \<Rightarrow> (Inl (what @ '': '' @ err), w)
      | Inr _ \<Rightarrow> (Inr (), w\<lparr>ew_sent := ew_sent w @ [msg]\<rparr>))"

definition with_payload ::
  "event_lib \<Rightarrow> envelope \<Rightarrow> event_world \<Rightarrow> (string \<Rightarrow> (string + unit) \<times> event_world) \<Rightarrow> (string + unit) \<times> event_world" where
  "with_payload EL e w send = (case el_to_string EL e of None \<Rightarrow> (Inl ''serialize envelope'', w) | Some payload \<Rightarrow> send payload)"

definition redis_emit :: "event_lib \<Rightarrow> string \<Rightarrow> nat option \<Rightarrow> envelope \<Rightarrow> event_world \<Rightarrow> (string + unit) \<times> event_world" where
  "redis_emit EL stream maxlen e w =
     with_payload EL e w (\<lambda>payload. deliver EL ''redis XADD'' (StreamEntry (xadd_cmd stream maxlen e payload)) w)"

definition kafka_emit :: "event_lib \<Rightarrow> string \<Rightarrow> envelope \<Rightarrow> event_world \<Rightarrow> (string + unit) \<times> event_world" where
  "kafka_emit EL topic e w =
     with_payload EL e w (\<lambda>payload.
       let headers = fold (\<lambda>(k, v). kafka_set bytes_of_text k v) (el_context EL) [] in
       deliver EL ''kafka send'' (KafkaRecord topic (envelope_key e) payload headers) w)"

definition rabbit_emit :: "event_lib \<Rightarrow> string \<Rightarrow> string \<Rightarrow> envelope \<Rightarrow> event_world \<Rightarrow> (string + unit) \<times> event_world" where
  "rabbit_emit EL xchg key e w =
     with_payload EL e w (\<lambda>payload.
       let headers = fold (\<lambda>(k, v). rabbit_set bytes_of_text k v) (el_context EL) Map.empty;
           msg = RabbitMessage xchg key ''application/json'' (ae_id (nv_event e)) (nv_correlation_id e) headers payload in
       bindS (deliver EL ''rabbit basic_publish'' msg w) (\<lambda>_ w.
         (map_sum (\<lambda>err. ''rabbit publish_confirm: '' @ err) id (el_confirm EL msg), w)))"

definition console_emit :: "event_lib \<Rightarrow> envelope \<Rightarrow> event_world \<Rightarrow> (string + unit) \<times> event_world" where
  "console_emit EL e w =
     (case el_to_string EL e of
        Some json \<Rightarrow> (Inr (), w\<lparr>ew_console := ew_console w @ [json]\<rparr>)
      | None \<Rightarrow> (Inl ''Failed to serialize event'', w))"

definition bridge_emit :: "event_lib \<Rightarrow> envelope \<Rightarrow> event_world \<Rightarrow> event_world" where
  "bridge_emit EL e w = (case el_to_value EL e of Some v \<Rightarrow> w\<lparr>ew_recent := recent_push v (ew_recent w)\<rparr> | None \<Rightarrow> w)"

fun plugin_emit :: "event_lib \<Rightarrow> envelope \<Rightarrow> plugin \<Rightarrow> event_world \<Rightarrow> (string + unit) \<times> plugin \<times> event_world" where
  "plugin_emit EL e (InMemoryLogger n events) w = (Inr (), InMemoryLogger n (log_envelope n events e), w)"
| "plugin_emit EL e ConsoleLogger w = (case console_emit EL e w of (r, w') \<Rightarrow> (r, ConsoleLogger, w'))"
| "plugin_emit EL e RecentEventsBridge w = (Inr (), RecentEventsBridge, bridge_emit EL e w)"
| "plugin_emit EL e (RedisStreams stream maxlen) w = (case redis_emit EL stream maxlen e w of (r, w') \<Rightarrow> (r, RedisStreams stream maxlen, w'))"
| "plugin_emit EL e (KafkaPublisher topic) w = (case kafka_emit EL topic e w of (r, w') \<Rightarrow> (r, KafkaPublisher topic, w'))"
| "plugin_emit EL e (RabbitPublisher xchg key) w = (case rabbit_emit EL xchg key e w of (r, w') \<Rightarrow> (r, RabbitPublisher xchg key, w'))"

fun health_check :: "event_lib \<Rightarrow> plugin \<Rightarrow> bool" where
  "health_check EL (RedisStreams stream maxlen) = el_ping EL ''redis_streams''"
| "health_check EL (RabbitPublisher xchg key) = el_ping EL ''rabbit''"
| "health_check EL _ = True"

section \<open>The actor and the bus\<close>

record event_actor =
  ea_plugins :: "plugin list"
  ea_filter :: event_filter

fun emit_to_all :: "event_lib \<Rightarrow> envelope \<Rightarrow> plugin list \<Rightarrow> event_world \<Rightarrow> plugin list \<times> event_world" where
  "emit_to_all EL e [] w = ([], w)"
| "emit_to_all EL e (p # ps) w =
     (case plugin_emit EL e p w of (_, p', w1) \<Rightarrow> case emit_to_all EL e ps w1 of (ps', w2) \<Rightarrow> (p' # ps', w2))"

definition handle_emit :: "event_lib \<Rightarrow> envelope \<Rightarrow> event_actor \<times> event_world \<Rightarrow> event_actor \<times> event_world" where
  "handle_emit EL e = (\<lambda>(A, w).
     if \<not> should_emit (ea_filter A) (ae_event_type (nv_event e)) then (A, w)
     else case emit_to_all EL e (ea_plugins A) w of (ps, w') \<Rightarrow> (A\<lparr>ea_plugins := ps\<rparr>, w'))"

definition get_plugin_health :: "event_lib \<Rightarrow> event_actor \<Rightarrow> (string \<times> bool) list" where
  "get_plugin_health EL A = map (\<lambda>p. (plugin_name p, health_check EL p)) (ea_plugins A)"

text \<open>\<open>ActixEventBus::publish\<close> sends the message and reports success in any case; the actor takes its
  messages one after the other.\<close>
definition bus_publish :: "event_lib \<Rightarrow> envelope \<Rightarrow> event_actor \<times> event_world \<Rightarrow> (string + unit) \<times> event_actor \<times> event_world" where
  "bus_publish EL e S = (Inr (), handle_emit EL e S)"

definition publish_all :: "event_lib \<Rightarrow> envelope list \<Rightarrow> event_actor \<times> event_world \<Rightarrow> event_actor \<times> event_world" where
  "publish_all EL es S = fold (\<lambda>e S. snd (bus_publish EL e S)) es S"

section \<open>Wiring\<close>

definition parse_event_type :: "string \<Rightarrow> event_type option" where
  "parse_event_type s =
     (if s = ''authorization_code_created'' then Some AuthorizationCodeCreated
      else if s = ''authorization_code_validated'' then Some AuthorizationCodeValidated
      else if s = ''authorization_code_expired'' then Some AuthorizationCodeExpired
      else if s = ''token_created'' then Some TokenCreated else if s = ''token_validated'' then Some TokenValidated
      else if s = ''token_revoked'' then Some TokenRevoked else if s = ''token_expired'' then Some TokenExpired
      else if s = ''client_registered'' then Some ClientRegistered else if s = ''client_validated'' then Some ClientValidated
      else if s = ''client_deleted'' then Some ClientDeleted else if s = ''user_authenticated'' then Some UserAuthenticated
      else if s = ''user_authentication_failed'' then Some UserAuthenticationFailed
      else if s = ''user_logout'' then Some UserLogout else None)"

definition parse_event_types :: "string list \<Rightarrow> event_type list" where
  "parse_event_types ss = List.map_filter parse_event_type ss"

definition filter_of :: "event_config \<Rightarrow> event_filter" where
  "filter_of ev =
     (if ec_filter_mode ev = ''include'' then include_only (parse_event_types (ec_event_types ev))
      else if ec_filter_mode ev = ''exclude'' then exclude_events (parse_event_types (ec_event_types ev))
      else allow_all)"

text \<open>Which broker backends the binary was built with, and whether a connection to a broker (its address and names) succeeds.\<close>
record event_build =
  eb_redis :: bool
  eb_kafka :: bool
  eb_rabbit :: bool
  eb_connect :: "string list \<Rightarrow> bool"

definition connected_or_memory :: "bool \<Rightarrow> plugin \<Rightarrow> plugin list" where
  "connected_or_memory ok p = (if ok then [p, RecentEventsBridge] else [InMemoryLogger 1000 [], RecentEventsBridge])"

definition plugins_of :: "event_build \<Rightarrow> event_config \<Rightarrow> plugin list" where
  "plugins_of B ev =
     (if ec_backend ev = ''console'' then [ConsoleLogger, RecentEventsBridge]
      else if ec_backend ev = ''in_memory'' then [InMemoryLogger 1000 [], RecentEventsBridge]
      else if ec_backend ev = ''both'' then [InMemoryLogger 1000 [], ConsoleLogger, RecentEventsBridge]
      else if ec_backend ev = ''redis'' \<or> ec_backend ev = ''redis_streams'' then
        (if eb_redis B then
           let url = unwrap_or (ec_redis_url ev) ''redis://127.0.0.1:6379''; stream = unwrap_or (ec_redis_stream ev) ''oauth2_events'' in
           connected_or_memory (eb_connect B [url, stream]) (RedisStreams stream (ec_redis_maxlen ev))
         else [InMemoryLogger 1000 []])
      else if ec_backend ev = ''kafka'' then
        (if eb_kafka B then
           let brokers = unwrap_or (ec_kafka_brokers ev) ''127.0.0.1:9092''; topic = unwrap_or (ec_kafka_topic ev) ''oauth2_events'' in
           connected_or_memory (eb_connect B ([brokers, topic] @ case_option [] (\<lambda>c. [c]) (ec_kafka_client_id ev))) (KafkaPublisher topic)
         else [InMemoryLogger 1000 []])
      else if ec_backend ev = ''rabbit'' \<or> ec_backend ev = ''rabbitmq'' then
        (if eb_rabbit B then
           let url = unwrap_or (ec_rabbit_url ev) ''amqp://127.0.0.1:5672/%2f''; xchg = unwrap_or (ec_rabbit_exchange ev) ''oauth2.events'';
               key = unwrap_or (ec_rabbit_routing_key ev) ''oauth2.event'' in
           connected_or_memory (eb_connect B [url, xchg, key]) (RabbitPublisher xchg key)
         else [InMemoryLogger 1000 []])
      else [InMemoryLogger 1000 []])"

definition event_actor_of :: "event_build \<Rightarrow> event_config \<Rightarrow> event_actor option" where
  "event_actor_of B ev = (if ec_enabled ev then Some \<lparr>ea_plugins = plugins_of B ev, ea_filter = filter_of ev\<rparr> else None)"

text \<open>What a propagator needs of a carrier: a key written into an empty place is read back, and it hides no other key.\<close>
locale header_carrier =
  fixes put :: "string \<Rightarrow> string \<Rightarrow> 'h \<Rightarrow> 'h" and get :: "string \<Rightarrow> 'h \<Rightarrow> string option" and free :: "'h \<Rightarrow> string \<Rightarrow> bool" and blank :: 'h
  assumes blank_free: "free blank k"
    and put_free: "eq_ignore_case k k' = False \<Longrightarrow> free h k' \<Longrightarrow> free (put k v h) k'"
    and get_put: "free h k \<Longrightarrow> get k (put k v h) = Some v"
    and get_other: "eq_ignore_case k k' = False \<Longrightarrow> get k' (put k v h) = get k' h"
begin

text \<open>The W3C headers survive the broker.\<close>
lemma trace_context_roundtrip:
  "get ''traceparent'' (put ''tracestate'' ts (put ''traceparent'' tp blank)) = Some tp \<and>
   get ''tracestate'' (put ''tracestate'' ts (put ''traceparent'' tp blank)) = Some ts"
  by (simp add: get_other get_put put_free blank_free eq_ignore_case_def to_lowercase_def)

end

lemma kafka_get_append: "(\<forall>k\<in>fst ` set hs. \<not> eq_ignore_case k key) \<Longrightarrow> kafka_get utf8 key (hs @ hs') = kafka_get utf8 key hs'"
  by (induction hs) auto

lemma kafka_get_snoc: "\<not> eq_ignore_case k key \<Longrightarrow> kafka_get utf8 key (hs @ [(k, v)]) = kafka_get utf8 key hs"
  by (induction hs) (auto split: option.splits)

lemma eq_ignore_case_refl [simp]: "eq_ignore_case s s"
  by (simp add: eq_ignore_case_def)

section \<open>Delivery\<close>

lemma event_type_roundtrip: "parse_event_type (event_as_str ty) = Some ty"
  by (cases ty) (simp_all add: parse_event_type_def)

lemma parse_event_type_inv: "parse_event_type s = Some ty \<Longrightarrow> s = event_as_str ty"
  by (auto simp: parse_event_type_def split: if_splits)

lemma parse_event_types_set: "set (parse_event_types ss) = {ty. event_as_str ty \<in> set ss}"
proof -
  have "set (List.map_filter f ss) = {ty. \<exists>s\<in>set ss. f s = Some ty}" for f :: "string \<Rightarrow> event_type option"
    by (induction ss) (auto simp: map_filter_simps split: option.splits)
  moreover have "(\<exists>s\<in>set ss. parse_event_type s = Some ty) \<longleftrightarrow> event_as_str ty \<in> set ss" for ty
    using event_type_roundtrip parse_event_type_inv by blast
  ultimately show ?thesis by (simp add: parse_event_types_def)
qed

lemma should_emit_of:
  "should_emit (filter_of ev) ty \<longleftrightarrow>
     (if ec_filter_mode ev = ''include'' then event_as_str ty \<in> set (ec_event_types ev)
      else if ec_filter_mode ev = ''exclude'' then event_as_str ty \<notin> set (ec_event_types ev) else True)"
  by (simp add: filter_of_def should_emit_def include_only_def exclude_events_def allow_all_def parse_event_types_set)

lemma envelope_key_view: "envelope_key e = effective_idempotency_key (ingest_view f e)"
  by (cases "nv_idempotency_key e") (auto simp: envelope_key_def effective_idempotency_key_def ingest_view_def)

lemma log_envelope_eq: "log_envelope n events e = drop (Suc (length events) - n) (events @ [e])"
  by (simp add: log_envelope_def Let_def)

lemma drop_drop_suffix: "drop (Suc (length (drop (length xs - n) xs)) - n) (drop (length xs - n) xs @ [x]) = drop (Suc (length xs) - n) (xs @ [x])"
proof (cases "length xs \<le> n")
  case False
  then have "drop (length xs - n) xs @ [x] = drop (length xs - n) (xs @ [x])" by simp
  then show ?thesis using False by (simp add: Suc_diff_le del: drop_append)
qed simp

lemma emit_logger:
  assumes "i < length ps" "ps ! i = InMemoryLogger n events"
  shows "fst (emit_to_all EL e ps w) ! i = InMemoryLogger n (log_envelope n events e) \<and> length (fst (emit_to_all EL e ps w)) = length ps"
  using assms
proof (induction ps arbitrary: i w)
  case (Cons p ps)
  obtain r p' w1 where p: "plugin_emit EL e p w = (r, p', w1)" by (cases "plugin_emit EL e p w")
  have len: "length (fst (emit_to_all EL e ps w1)) = length ps"
    by (induction ps arbitrary: w1) (auto split: prod.split simp: prod.case_eq_if)
  show ?case
  proof (cases i)
    case 0
    then show ?thesis using Cons.prems p len by (auto simp: prod.case_eq_if)
  next
    case (Suc j)
    then show ?thesis using Cons.IH [of j w1] Cons.prems p len by (auto simp: prod.case_eq_if)
  qed
qed simp

lemma emit_bridge [simp]: "fst (snd (plugin_emit EL e p w)) = RecentEventsBridge \<longleftrightarrow> p = RecentEventsBridge"
  by (cases p) (auto split: option.splits prod.splits)

lemma emit_recent_kept:
  "ew_recent (snd (redis_emit EL stream maxlen e w)) = ew_recent w" "ew_recent (snd (kafka_emit EL topic e w)) = ew_recent w"
  "ew_recent (snd (rabbit_emit EL xchg key e w)) = ew_recent w" "ew_recent (snd (console_emit EL e w)) = ew_recent w"
  by (simp_all add: redis_emit_def kafka_emit_def rabbit_emit_def console_emit_def with_payload_def deliver_def Let_def split: option.split sum.split)

lemma plugin_emit_recent:
  "ew_recent (snd (snd (plugin_emit EL e p w))) =
     (if p = RecentEventsBridge then case_option id recent_push (el_to_value EL e) (ew_recent w) else ew_recent w)"
  by (cases p) (simp_all add: bridge_emit_def emit_recent_kept prod.case_eq_if split: option.split)

lemma emit_to_all_Cons: "emit_to_all EL e (p # ps) w =
   (fst (snd (plugin_emit EL e p w)) # fst (emit_to_all EL e ps (snd (snd (plugin_emit EL e p w)))),
    snd (emit_to_all EL e ps (snd (snd (plugin_emit EL e p w)))))"
  by (simp add: prod.case_eq_if)

lemma emit_bridges: "count_list (fst (emit_to_all EL e ps w)) RecentEventsBridge = count_list ps RecentEventsBridge"
  by (induction ps arbitrary: w) (simp_all add: emit_to_all_Cons del: emit_to_all.simps(2))

lemma emit_recent:
  "ew_recent (snd (emit_to_all EL e ps w)) =
     (case_option id recent_push (el_to_value EL e) ^^ count_list ps RecentEventsBridge) (ew_recent w)"
  by (induction ps arbitrary: w) (simp_all add: emit_to_all_Cons plugin_emit_recent funpow_swap1 del: emit_to_all.simps(2))

definition accepted_events :: "event_actor \<Rightarrow> envelope list \<Rightarrow> envelope list" where
  "accepted_events A es = filter (\<lambda>e. should_emit (ea_filter A) (ae_event_type (nv_event e))) es"

lemma handle_emit_filter: "ea_filter (fst (handle_emit EL e S)) = ea_filter (fst S)"
  by (cases S) (simp add: handle_emit_def prod.case_eq_if)

lemma publish_all_snoc: "publish_all EL (es @ [e]) S = handle_emit EL e (publish_all EL es S)"
  by (simp add: publish_all_def bus_publish_def)

lemma publish_all_filter [simp]: "ea_filter (fst (publish_all EL es S)) = ea_filter (fst S)"
  by (induction es rule: rev_induct) (simp_all add: publish_all_snoc handle_emit_filter publish_all_def [of _ "[]"])

lemma handle_emit_cases:
  "handle_emit EL e (A, w) =
     (if should_emit (ea_filter A) (ae_event_type (nv_event e))
      then (A\<lparr>ea_plugins := fst (emit_to_all EL e (ea_plugins A) w)\<rparr>, snd (emit_to_all EL e (ea_plugins A) w)) else (A, w))"
  by (simp add: handle_emit_def prod.case_eq_if)

lemma publish_all_logger:
  assumes "i < length (ea_plugins A)" "ea_plugins A ! i = InMemoryLogger n events" "length events \<le> n"
  shows "i < length (ea_plugins (fst (publish_all EL es (A, w)))) \<and> ea_plugins (fst (publish_all EL es (A, w))) ! i =
    InMemoryLogger n (drop (length (events @ accepted_events A es) - n) (events @ accepted_events A es))"
proof (induction es rule: rev_induct)
  case Nil
  then show ?case using assms by (simp add: publish_all_def accepted_events_def)
next
  case (snoc e es)
  let ?S = "publish_all EL es (A, w)"
  have "handle_emit EL e ?S = handle_emit EL e (fst ?S, snd ?S)" by simp
  then show ?case using snoc emit_logger [of i "ea_plugins (fst ?S)"] drop_drop_suffix [of "events @ accepted_events A es" n e]
    by (auto simp: publish_all_snoc handle_emit_cases accepted_events_def log_envelope_eq simp del: prod.collapse)
qed

lemma publish_all_bridges: "count_list (ea_plugins (fst (publish_all EL es (A, w)))) RecentEventsBridge = count_list (ea_plugins A) RecentEventsBridge"
proof (induction es rule: rev_induct)
  case (snoc e es)
  then show ?case using handle_emit_cases [of EL e "fst (publish_all EL es (A, w))" "snd (publish_all EL es (A, w))"]
    by (simp add: publish_all_snoc emit_bridges)
qed (simp add: publish_all_def)

lemma recent_push_last:
  assumes "0 < rs_capacity st" "rs_inner st = drop (length xs - rs_capacity st) xs"
  shows "rs_inner (recent_push v st) = drop (length (xs @ [v]) - rs_capacity st) (xs @ [v])"
proof -
  have "length (rs_inner st) \<le> rs_capacity st" using assms(2) by simp
  from recent_push_suffix [OF assms(1) this, of v] show ?thesis
    using drop_drop_suffix [of xs "rs_capacity st" v] assms(2) by simp
qed

lemma recent_push_capacity [simp]: "rs_capacity (recent_push v st) = rs_capacity st"
  by (simp add: recent_push_def Let_def)

lemma publish_all_recent:
  assumes "count_list (ea_plugins A) RecentEventsBridge = 1" "\<And>e. el_to_value EL e = Some (val_of e)"
    and "0 < rs_capacity (ew_recent w)" "rs_inner (ew_recent w) = []"
  shows "rs_capacity (ew_recent (snd (publish_all EL es (A, w)))) = rs_capacity (ew_recent w) \<and>
    rs_inner (ew_recent (snd (publish_all EL es (A, w)))) =
      drop (length (accepted_events A es) - rs_capacity (ew_recent w)) (map val_of (accepted_events A es))"
proof (induction es rule: rev_induct)
  case (snoc e es)
  let ?S = "publish_all EL es (A, w)"
  have h: "handle_emit EL e ?S = handle_emit EL e (fst ?S, snd ?S)" by simp
  have push: "ew_recent (snd (emit_to_all EL e (ea_plugins (fst ?S)) (snd ?S))) = recent_push (val_of e) (ew_recent (snd ?S))"
    using publish_all_bridges [of EL es A w] assms(1,2) by (simp add: emit_recent)
  have "rs_inner (recent_push (val_of e) (ew_recent (snd ?S))) =
      drop (length (map val_of (accepted_events A es) @ [val_of e]) - rs_capacity (ew_recent w)) (map val_of (accepted_events A es) @ [val_of e])"
    using recent_push_last [of "ew_recent (snd ?S)" "map val_of (accepted_events A es)" "val_of e"] snoc assms(3) by simp
  then show ?case using snoc push
    by (simp add: publish_all_snoc h [unfolded handle_emit_cases] accepted_events_def del: prod.collapse)
qed (simp add: publish_all_def accepted_events_def assms(4))

text \<open>The events the settings ask for.\<close>
definition passes :: "event_config \<Rightarrow> envelope \<Rightarrow> bool" where
  "passes ev e = (let name = event_as_str (ae_event_type (nv_event e)) in
     if ec_filter_mode ev = ''include'' then name \<in> set (ec_event_types ev)
     else if ec_filter_mode ev = ''exclude'' then name \<notin> set (ec_event_types ev) else True)"

text \<open>C23. The bus loses nothing it should keep.  With the settings \<open>in_memory\<close> or \<open>both\<close> for the backend, whatever is published, the logger
  holds the last 1000 events that pass the configured filter, and the ring of recent events the last ones of them up to its
  capacity, both in the order of publication; an event passes exactly if its name is in an include list, not in an exclude list, or
  the mode is neither.\<close>
theorem published_events_kept:
  assumes "event_actor_of B ev = Some A" "ec_backend ev = ''in_memory'' \<or> ec_backend ev = ''both''"
    and "\<And>e. el_to_value EL e = Some (val_of e)" "0 < rs_capacity (ew_recent w)" "rs_inner (ew_recent w) = []"
  shows "case publish_all EL es (A, w) of (A', w') \<Rightarrow>
     let kept = filter (passes ev) es in
     ea_plugins A' ! 0 = InMemoryLogger 1000 (drop (length kept - 1000) kept) \<and>
     rs_inner (ew_recent w') = map val_of (drop (length kept - rs_capacity (ew_recent w)) kept)"
proof -
  have A: "ea_filter A = filter_of ev" "ea_plugins A \<noteq> []" "ea_plugins A ! 0 = InMemoryLogger 1000 []"
    "count_list (ea_plugins A) RecentEventsBridge = 1"
    using assms(1,2) by (auto simp: event_actor_of_def plugins_of_def split: if_splits)
  have acc: "accepted_events A es = filter (passes ev) es" by (simp add: accepted_events_def passes_def A(1) should_emit_of Let_def cong: filter_cong)
  show ?thesis
    using publish_all_logger [of 0 A 1000 "[]" EL es w] publish_all_recent [OF A(4) assms(3-5), of es] A(2,3) acc
    by (auto simp: drop_map Let_def split: prod.split)
qed

definition demo_bus_lib :: event_lib where
  "demo_bus_lib = \<lparr>el_to_string = (\<lambda>_. None), el_to_value = (\<lambda>e. Some (JStr (ae_id (nv_event e)))), el_send = (\<lambda>_. Inl ''down''),
     el_confirm = (\<lambda>_. Inl ''down''), el_context = [], el_ping = (\<lambda>_. False)\<rparr>"

definition demo_envelope :: "event_type \<Rightarrow> envelope" where
  "demo_envelope ty = envelope_from_span 3 ''c1'' (auth_event_new 2 ''e1'' ty InfoEvent None (Some ''web'')) Map.empty ''server''"

definition demo_event_config :: event_config where
  "demo_event_config = events_from_env [''OAUTH2_EVENTS_FILTER_MODE'' \<mapsto> ''exclude'', ''OAUTH2_EVENTS_TYPES'' \<mapsto> ''token_validated'']"

lemma demo_event_settings: "ec_enabled demo_event_config" "ec_backend demo_event_config = ''in_memory''"
  "ec_filter_mode demo_event_config = ''exclude''" "ec_event_types demo_event_config = [''token_validated'']"
  by (simp_all add: demo_event_config_def events_from_env_def parsed_def parse_csv_list_def trim_def trim_start_def trim_end_def is_ws_def)

lemma published_events_kept_witness:
  "\<exists>B A w A' w'. event_actor_of B demo_event_config = Some A \<and>
     publish_all demo_bus_lib [demo_envelope TokenCreated, demo_envelope TokenValidated] (A, w) = (A', w') \<and>
     ea_plugins A' ! 0 = InMemoryLogger 1000 [demo_envelope TokenCreated] \<and> rs_inner (ew_recent w') = [JStr ''e1'']"
proof -
  let ?B = "\<lparr>eb_redis = False, eb_kafka = False, eb_rabbit = False, eb_connect = (\<lambda>_. False)\<rparr>"
  let ?w = "\<lparr>ew_recent = \<lparr>rs_capacity = 500, rs_inner = []\<rparr>, ew_console = [], ew_sent = []\<rparr>"
  obtain A where A: "event_actor_of ?B demo_event_config = Some A" using demo_event_settings(1) by (simp add: event_actor_of_def)
  have "filter (passes demo_event_config) [demo_envelope TokenCreated, demo_envelope TokenValidated] = [demo_envelope TokenCreated]"
    by (simp add: passes_def demo_event_settings demo_envelope_def envelope_from_span_def auth_event_new_def extract_w3c_trace_context_def Let_def)
  then show ?thesis
    using published_events_kept [OF A, of demo_bus_lib "\<lambda>e. JStr (ae_id (nv_event e))" ?w "[demo_envelope TokenCreated, demo_envelope TokenValidated]"]
      A demo_event_settings(2)
    by (fastforce simp: demo_bus_lib_def demo_envelope_def envelope_from_span_def auth_event_new_def extract_w3c_trace_context_def Let_def)
qed

text \<open>A backend the binary does not have, or does not know, leaves the page of recent events empty.\<close>
theorem unknown_backend_shows_nothing:
  assumes "event_actor_of B ev = Some A" "ec_backend ev = ''redis''" "\<not> eb_redis B"
  shows "ew_recent (snd (publish_all EL es (A, w))) = ew_recent w"
proof -
  have none: "count_list (ea_plugins A) RecentEventsBridge = 0" using assms by (auto simp: event_actor_of_def plugins_of_def split: if_splits)
  show ?thesis
  proof (induction es rule: rev_induct)
    case (snoc e es)
    have "handle_emit EL e (publish_all EL es (A, w)) = handle_emit EL e (fst (publish_all EL es (A, w)), snd (publish_all EL es (A, w)))" by simp
    then show ?case using snoc publish_all_bridges [of EL es A w] none
      by (auto simp: publish_all_snoc handle_emit_cases emit_recent simp del: prod.collapse)
  qed (simp add: publish_all_def)
qed

section \<open>Carriers of the brokers\<close>

definition text_of_bytes :: "bytes \<Rightarrow> string" where
  "text_of_bytes b = map (\<lambda>w. char_of (unat w)) b"

lemma text_bytes: "text_of_bytes (bytes_of_text s) = s"
proof -
  have "char_of (unat (of_nat (of_char c) :: 8 word)) = c" for c :: char
    using nat_of_char_less_256 [of c] by (simp add: unat_of_nat take_bit_nat_eq_self)
  then show ?thesis by (simp add: text_of_bytes_def bytes_of_text_def comp_def map_idI)
qed

interpretation kafka: header_carrier "kafka_set bytes_of_text" "kafka_get (\<lambda>b. Some (text_of_bytes b))"
  "\<lambda>hs k. \<forall>x\<in>fst ` set hs. \<not> eq_ignore_case x k" "[]"
  by unfold_locales (auto simp: kafka_set_def kafka_get_append kafka_get_snoc text_bytes)

interpretation rabbit: header_carrier "rabbit_set bytes_of_text" "rabbit_get (\<lambda>b. Some (text_of_bytes b))" "\<lambda>_ _. True" Map.empty
  by unfold_locales (auto simp: rabbit_set_def rabbit_get_def text_bytes eq_ignore_case_def)

text \<open>A consumer of either broker finds the trace context of the producer in the message it gets.\<close>
theorem kafka_message_traced:
  assumes "el_context EL = [(''traceparent'', tp), (''tracestate'', ts)]" "el_to_string EL e = Some payload" "\<And>m. el_send EL m = Inr ()"
  shows "\<exists>hs. kafka_emit EL topic e w = (Inr (), w\<lparr>ew_sent := ew_sent w @ [KafkaRecord topic (envelope_key e) payload hs]\<rparr>) \<and>
    kafka_get (\<lambda>b. Some (text_of_bytes b)) ''traceparent'' hs = Some tp \<and> kafka_get (\<lambda>b. Some (text_of_bytes b)) ''tracestate'' hs = Some ts"
  using kafka.trace_context_roundtrip [of ts tp] assms by (simp add: kafka_emit_def with_payload_def deliver_def Let_def) blast

theorem rabbit_message_traced:
  assumes "el_context EL = [(''traceparent'', tp), (''tracestate'', ts)]" "el_to_string EL e = Some payload"
    and "\<And>m. el_send EL m = Inr ()" "\<And>m. el_confirm EL m = Inr ()"
  shows "\<exists>hs. rabbit_emit EL xchg key e w =
      (Inr (), w\<lparr>ew_sent := ew_sent w @
        [RabbitMessage xchg key ''application/json'' (ae_id (nv_event e)) (nv_correlation_id e) hs payload]\<rparr>) \<and>
    rabbit_get (\<lambda>b. Some (text_of_bytes b)) ''traceparent'' hs = Some tp \<and> rabbit_get (\<lambda>b. Some (text_of_bytes b)) ''tracestate'' hs = Some ts"
  using rabbit.trace_context_roundtrip [of ts tp] assms by (simp add: rabbit_emit_def with_payload_def deliver_def Let_def) blast

end
