(* ===== verification/Conformance.thy ===== *)
theory Conformance
  imports Key_Set Sql_Storage
begin

text \<open>
  The conformance mode (\<open>crates/oauth2-server/src/conformance.rs\<close>): the switch, the guard against production
  settings, the seed file with its validation, and the application of the seed to the storage.  The JSON, YAML
  and URL parsers, the deserialization of the seed's schema, the random number and key generators and the
  password hash are arguments; the errors are values that name the message and carry its parameters.
\<close>

section \<open>The seed\<close>

record seed_signing_key =
  ssk_kid :: string
  ssk_alg :: string
  ssk_use :: "string option"

record seed_client =
  sd_client_id :: string
  sd_name :: "string option"
  sd_client_secret :: "string option"
  sd_token_endpoint_auth_method :: "string option"
  sd_public :: "bool option"
  sd_redirect_uris :: "string list"
  sd_scopes :: "string list option"
  sd_grant_types :: "string list option"

record seed_user =
  su_username :: string
  su_password :: string
  su_email :: "string option"
  su_scopes :: "string list option"
  su_auto_approve_clients :: "string list option"

record seed =
  se_issuer :: string
  se_signing_keys :: "seed_signing_key list"
  se_clients :: "seed_client list"
  se_users :: "seed_user list"

definition sd_is_public :: "seed_client \<Rightarrow> bool" where
  "sd_is_public c = (sd_public c = Some True \<or> sd_token_endpoint_auth_method c = Some ''none'')"

text \<open>What stops the start: the messages of the mode switch, the guard, the parser and the validation.\<close>
datatype seed_error =
    UnrecognizedMode string | SeedPathMissing | ProfileRefused string string | NotInMemory | ReadReplicaConfigured
  | Unreadable string | NeitherJsonNorYaml string | EmptyFile | SeveralDocuments | BadNumber string | NonStringKey | DuplicateKey string
  | UnsupportedNode | SchemaViolation string | MustNotBeEmpty string | IssuerInvalid string | IssuerScheme | IssuerSlash | NoClients | NoUsers
  | DuplicateKid string | KeyUse string | KeyAlgMalformed string string | KeyAlgUnsupported string string | DuplicateClient string
  | DuplicateUser string | PasswordEmpty string | EmailTooShort string | UnknownApproved string string | ClientNameEmpty string | ClientMethod string string
  | ClientSecretEmpty string | PublicWithSecret string | PublicMethod string | ConfidentialWithoutSecret string | NoRedirects string
  | RedirectInvalid string string | RedirectFragment string string | ScopeInvalid string string | GrantUnsupported string string
  | KeyGeneration string string | StoringClient string oauth2_error | HashingPassword string | StoringUser string oauth2_error

section \<open>The switch and the guard\<close>

definition mode_from_env :: "(string \<rightharpoonup> string) \<Rightarrow> seed_error + string option" where
  "mode_from_env vars =
     (let mode = unwrap_or (map_option (\<lambda>v. to_lowercase (trim v)) (vars ''OAUTH2_CONFORMANCE_MODE'')) [] in
      if mode \<in> {[], ''0'', ''false''} then Inr None
      else if mode \<in> {''1'', ''true''} then
        (case map_option trim (vars ''OAUTH2_CONFORMANCE_SEED'') of
           Some path \<Rightarrow> if path = [] then Inl SeedPathMissing else Inr (Some path)
         | None \<Rightarrow> Inl SeedPathMissing)
      else Inl (UnrecognizedMode mode))"

definition PROFILE_ENV_VARS :: "string list" where
  "PROFILE_ENV_VARS = [''OAUTH2_ENV'', ''OAUTH2_ENVIRONMENT'', ''OAUTH2_PROFILE'', ''APP_ENV'', ''ENVIRONMENT'', ''RUST_ENV'']"

definition NON_PRODUCTION_ENV_NAMES :: "string list" where
  "NON_PRODUCTION_ENV_NAMES = [''test'', ''testing'', ''conformance'', ''dev'', ''development'', ''local'', ''ci'']"

text \<open>\<open>str::contains\<close> for a text, and \<open>trim_start_matches\<close> for a slash.\<close>
definition contains :: "string \<Rightarrow> string \<Rightarrow> bool" where
  "contains s p = sublist p s"

definition skip_slashes :: "string \<Rightarrow> string" where
  "skip_slashes s = dropWhile (\<lambda>c. c = CHR ''/'') s"

definition before_query :: "string \<Rightarrow> string" where
  "before_query s = takeWhile (\<lambda>c. c \<noteq> CHR ''?'') s"

definition is_in_memory_sqlite :: "string \<Rightarrow> bool" where
  "is_in_memory_sqlite database_url =
     (case strip_prefix_opt database_url ''sqlite:'' of
        None \<Rightarrow> False
      | Some after \<Rightarrow>
          let rest = skip_slashes after; path = before_query rest in
          path = '':memory:'' \<or> starts_with path ''file:'' \<and> contains rest ''mode=memory'')"

fun check_profiles :: "(string \<rightharpoonup> string) \<Rightarrow> string list \<Rightarrow> seed_error + unit" where
  "check_profiles vars [] = Inr ()"
| "check_profiles vars (var # rest) =
     (case vars var of
        Some value \<Rightarrow>
          let name = to_lowercase (trim value) in
          if name \<noteq> [] \<and> name \<notin> set NON_PRODUCTION_ENV_NAMES then Inl (ProfileRefused var value) else check_profiles vars rest
      | None \<Rightarrow> check_profiles vars rest)"

definition check_not_production :: "(string \<rightharpoonup> string) \<Rightarrow> string \<Rightarrow> string option \<Rightarrow> seed_error + unit" where
  "check_not_production vars database_url read_url =
     bindR (check_profiles vars PROFILE_ENV_VARS) (\<lambda>_.
     bindR (ensure (is_in_memory_sqlite database_url) NotInMemory) (\<lambda>_.
       ensure (case read_url of Some u \<Rightarrow> trim u = [] | None \<Rightarrow> True) ReadReplicaConfigured))"

section \<open>Parsing\<close>

text \<open>The document tree of the YAML library; a real is kept as its text.\<close>
datatype yaml =
    YNull | YBoolean bool | YInteger int | YReal string | YString string | YArray "yaml list" | YHash "(yaml \<times> yaml) list" | YAlias | YBadValue

text \<open>\<open>rd\<close> reads a finite float.  A member whose key has occurred before is an error.\<close>
fun yaml_to_json :: "(string \<Rightarrow> rat option) \<Rightarrow> yaml \<Rightarrow> seed_error + json"
  and yaml_items :: "(string \<Rightarrow> rat option) \<Rightarrow> yaml list \<Rightarrow> seed_error + json list"
  and yaml_members :: "(string \<Rightarrow> rat option) \<Rightarrow> (string \<times> json) list \<Rightarrow> (yaml \<times> yaml) list \<Rightarrow> seed_error + (string \<times> json) list" where
  "yaml_to_json rd YNull = Inr JNull"
| "yaml_to_json rd (YBoolean b) = Inr (JBool b)"
| "yaml_to_json rd (YInteger i) = Inr (JInt i)"
| "yaml_to_json rd (YReal r) = map_sum id JFloat (ok_or (rd r) (BadNumber r))"
| "yaml_to_json rd (YString s) = Inr (JStr s)"
| "yaml_to_json rd (YArray items) = map_sum id JArr (yaml_items rd items)"
| "yaml_to_json rd (YHash m) = map_sum id JObj (yaml_members rd [] m)"
| "yaml_to_json rd YAlias = Inl UnsupportedNode"
| "yaml_to_json rd YBadValue = Inl UnsupportedNode"
| "yaml_items rd [] = Inr []"
| "yaml_items rd (y # ys) = bindR (yaml_to_json rd y) (\<lambda>v. bindR (yaml_items rd ys) (\<lambda>vs. Inr (v # vs)))"
| "yaml_members rd out [] = Inr out"
| "yaml_members rd out ((k, y) # rest) =
     (case k of
        YString key \<Rightarrow> bindR (yaml_to_json rd y) (\<lambda>v.
          if key \<in> fst ` set out then Inl (DuplicateKey key) else yaml_members rd (out @ [(key, v)]) rest)
      | _ \<Rightarrow> Inl NonStringKey)"

record seed_lib =
  sl_libs :: libs
  sl_real :: "string \<Rightarrow> rat option"
  sl_yaml :: "string \<Rightarrow> string + yaml list"
  sl_from_value :: "json \<Rightarrow> string + seed"

definition seed_value :: "seed_lib \<Rightarrow> string \<Rightarrow> seed_error + json" where
  "seed_value Y text =
     (case json_from_str (sl_libs Y) text of
        Some v \<Rightarrow> Inr v
      | None \<Rightarrow>
          (case sl_yaml Y text of
             Inl e \<Rightarrow> Inl (NeitherJsonNorYaml e)
           | Inr [] \<Rightarrow> Inl EmptyFile
           | Inr [doc] \<Rightarrow> yaml_to_json (sl_real Y) doc
           | Inr _ \<Rightarrow> Inl SeveralDocuments))"

section \<open>Validation\<close>

definition alg_well_formed :: "string \<Rightarrow> bool" where
  "alg_well_formed alg =
     (length alg = 5 \<and> list_all (\<lambda>c. (of_char c :: nat) < 128) alg \<and> take 2 alg \<in> {''RS'', ''ES'', ''PS'', ''HS''} \<and>
      list_all (\<lambda>c. 48 \<le> (of_char c :: nat) \<and> of_char c \<le> (57 :: nat)) (drop 2 alg))"

definition check_seed_key :: "seed_signing_key \<Rightarrow> seed_error + unit" where
  "check_seed_key k =
     bindR (ensure (ssk_use k = None \<or> ssk_use k = Some ''sig'') (KeyUse (ssk_kid k))) (\<lambda>_.
     bindR (ensure (alg_well_formed (ssk_alg k)) (KeyAlgMalformed (ssk_kid k) (ssk_alg k))) (\<lambda>_.
       case algorithm_from_str (ssk_alg k) of Inl _ \<Rightarrow> Inl (KeyAlgUnsupported (ssk_kid k) (ssk_alg k)) | Inr _ \<Rightarrow> Inr ()))"

fun check_seed_keys :: "string list \<Rightarrow> seed_signing_key list \<Rightarrow> seed_error + unit" where
  "check_seed_keys kids [] = Inr ()"
| "check_seed_keys kids (k # ks) =
     bindR (ensure (ssk_kid k \<noteq> []) (MustNotBeEmpty ''signingKeys[].kid'')) (\<lambda>_.
     bindR (ensure (ssk_kid k \<notin> set kids) (DuplicateKid (ssk_kid k))) (\<lambda>_.
     bindR (check_seed_key k) (\<lambda>_. check_seed_keys (ssk_kid k # kids) ks)))"

definition GRANT_TYPES :: "string list" where
  "GRANT_TYPES = [''authorization_code'', ''refresh_token'', ''client_credentials'', ''urn:ietf:params:oauth:grant-type:device_code'']"

fun check_redirects :: "libs \<Rightarrow> string \<Rightarrow> string list \<Rightarrow> seed_error + unit" where
  "check_redirects L i [] = Inr ()"
| "check_redirects L i (uri # rest) =
     (case url_parse L uri of
        None \<Rightarrow> Inl (RedirectInvalid i uri)
      | Some u \<Rightarrow> if url_fragment u \<noteq> None then Inl (RedirectFragment i uri) else check_redirects L i rest)"

fun check_all :: "('a \<Rightarrow> bool) \<Rightarrow> ('a \<Rightarrow> seed_error) \<Rightarrow> 'a list \<Rightarrow> seed_error + unit" where
  "check_all P e [] = Inr ()"
| "check_all P e (x # xs) = (if P x then check_all P e xs else Inl (e x))"

definition validate_client :: "libs \<Rightarrow> seed_client \<Rightarrow> seed_error + unit" where
  "validate_client L c =
     (let i = sd_client_id c; m = sd_token_endpoint_auth_method c in
      bindR (ensure (sd_name c \<noteq> Some []) (ClientNameEmpty i)) (\<lambda>_.
      bindR (ensure (m = None \<or> the m \<in> {''none'', ''client_secret_basic'', ''client_secret_post''}) (ClientMethod i (the m))) (\<lambda>_.
      bindR (ensure (sd_client_secret c \<noteq> Some []) (ClientSecretEmpty i)) (\<lambda>_.
      bindR (if sd_is_public c then
               bindR (ensure (sd_client_secret c = None) (PublicWithSecret i)) (\<lambda>_. ensure (m = None \<or> m = Some ''none'') (PublicMethod i))
             else ensure (sd_client_secret c \<noteq> None) (ConfidentialWithoutSecret i)) (\<lambda>_.
      bindR (ensure (sd_redirect_uris c \<noteq> []) (NoRedirects i)) (\<lambda>_.
      bindR (check_redirects L i (sd_redirect_uris c)) (\<lambda>_.
      bindR (check_all (\<lambda>s. s \<noteq> [] \<and> list_all (\<lambda>ch. \<not> is_ws ch) s) (ScopeInvalid i) (unwrap_or (sd_scopes c) [])) (\<lambda>_.
        check_all (\<lambda>g. g \<in> set GRANT_TYPES) (GrantUnsupported i) (unwrap_or (sd_grant_types c) [])))))))))"

fun check_seed_clients :: "libs \<Rightarrow> string list \<Rightarrow> seed_client list \<Rightarrow> seed_error + unit" where
  "check_seed_clients L ids [] = Inr ()"
| "check_seed_clients L ids (c # cs) =
     bindR (ensure (sd_client_id c \<noteq> []) (MustNotBeEmpty ''clients[].client_id'')) (\<lambda>_.
     bindR (ensure (sd_client_id c \<notin> set ids) (DuplicateClient (sd_client_id c))) (\<lambda>_.
     bindR (validate_client L c) (\<lambda>_. check_seed_clients L (sd_client_id c # ids) cs)))"

fun check_seed_users :: "string list \<Rightarrow> string list \<Rightarrow> seed_user list \<Rightarrow> seed_error + unit" where
  "check_seed_users ids names [] = Inr ()"
| "check_seed_users ids names (u # us) =
     bindR (ensure (su_username u \<noteq> []) (MustNotBeEmpty ''users[].username'')) (\<lambda>_.
     bindR (ensure (su_password u \<noteq> []) (PasswordEmpty (su_username u))) (\<lambda>_.
     bindR (ensure (su_username u \<notin> set names) (DuplicateUser (su_username u))) (\<lambda>_.
     bindR (ensure (case su_email u of Some e \<Rightarrow> 3 \<le> length e | None \<Rightarrow> True) (EmailTooShort (su_username u))) (\<lambda>_.
     bindR (check_all (\<lambda>a. a \<in> set ids) (UnknownApproved (su_username u)) (unwrap_or (su_auto_approve_clients u) [])) (\<lambda>_.
       check_seed_users ids (su_username u # names) us)))))"

definition validate_seed :: "libs \<Rightarrow> seed \<Rightarrow> seed_error + unit" where
  "validate_seed L s =
     bindR (ok_or (url_parse L (se_issuer s)) (IssuerInvalid (se_issuer s))) (\<lambda>issuer.
     bindR (ensure (url_scheme issuer \<in> {''http'', ''https''}) IssuerScheme) (\<lambda>_.
     bindR (ensure (\<not> suffix ''/'' (se_issuer s)) IssuerSlash) (\<lambda>_.
     bindR (ensure (se_clients s \<noteq> []) NoClients) (\<lambda>_.
     bindR (ensure (se_users s \<noteq> []) NoUsers) (\<lambda>_.
     bindR (check_seed_keys [] (se_signing_keys s)) (\<lambda>_.
     bindR (check_seed_clients L [] (se_clients s)) (\<lambda>_.
       check_seed_users (map sd_client_id (se_clients s)) [] (se_users s))))))))"

definition seed_parse :: "seed_lib \<Rightarrow> string \<Rightarrow> seed_error + seed" where
  "seed_parse Y text =
     bindR (seed_value Y text) (\<lambda>v.
     bindR (map_sum SchemaViolation id (sl_from_value Y v)) (\<lambda>s.
     bindR (validate_seed (sl_libs Y) s) (\<lambda>_. Inr s)))"

text \<open>\<open>read\<close> gives the contents of the file.\<close>
definition seed_load :: "seed_lib \<Rightarrow> (string \<Rightarrow> string option) \<Rightarrow> string \<Rightarrow> seed_error + seed" where
  "seed_load Y read path = bindR (ok_or (read path) (Unreadable path)) (seed_parse Y)"

section \<open>Applying the seed\<close>

text \<open>\<open>dw_material\<close> draws the key material: random bytes for HS256, a new RSA key, if one can be generated,
  for RS256.\<close>
record seed_draw =
  dw_material :: "algorithm \<Rightarrow> string \<Rightarrow> string + bytes"
  dw_client_uuid :: "string \<Rightarrow> string"
  dw_user_uuid :: "string \<Rightarrow> string"
  dw_hash :: "string \<Rightarrow> string option"

record applied =
  ap_clients :: nat
  ap_users :: nat
  ap_signing_keys :: "signing_key list"

definition generate_signing_key :: "seed_draw \<Rightarrow> instant \<Rightarrow> seed_signing_key \<Rightarrow> seed_error + signing_key" where
  "generate_signing_key W now k =
     bindR (map_sum (KeyGeneration (ssk_kid k)) id (algorithm_from_str (ssk_alg k))) (\<lambda>alg.
     bindR (map_sum (KeyGeneration (ssk_kid k)) id (dw_material W alg (ssk_kid k))) (\<lambda>material.
       Inr \<lparr>sk_kid = ssk_kid k, sk_algorithm = alg, sk_key_material = material, sk_is_current = True, sk_created_at = now,
            sk_expires_at = None\<rparr>))"

fun generate_keys :: "seed_draw \<Rightarrow> instant \<Rightarrow> seed_signing_key list \<Rightarrow> seed_error + signing_key list" where
  "generate_keys W now [] = Inr []"
| "generate_keys W now (k # ks) =
     bindR (generate_signing_key W now k) (\<lambda>g. bindR (generate_keys W now ks) (\<lambda>gs. Inr (g # gs)))"

definition default_rs256 :: seed_signing_key where
  "default_rs256 = \<lparr>ssk_kid = ''seed-rs256'', ssk_alg = ''RS256'', ssk_use = Some ''sig''\<rparr>"

definition seed_keys :: "seed_draw \<Rightarrow> instant \<Rightarrow> seed \<Rightarrow> seed_error + signing_key list" where
  "seed_keys W now s =
     bindR (generate_keys W now (se_signing_keys s)) (\<lambda>ks.
       if list_ex (\<lambda>k. sk_algorithm k = RS256) ks then Inr ks
       else bindR (generate_signing_key W now default_rs256) (\<lambda>k. Inr (ks @ [k])))"

definition seeded_client :: "libs \<Rightarrow> seed_draw \<Rightarrow> instant \<Rightarrow> seed_client \<Rightarrow> client" where
  "seeded_client L W now c =
     (let scope = (case sd_scopes c of Some ss \<Rightarrow> if ss \<noteq> [] then join '' '' ss else ''openid read'' | None \<Rightarrow> ''openid read'');
          grants = (case sd_grant_types c of Some gs \<Rightarrow> if gs \<noteq> [] then gs else [''authorization_code''] | None \<Rightarrow> [''authorization_code'']) in
      (client_new L now (dw_client_uuid W (sd_client_id c)) (sd_client_id c) (unwrap_or (sd_client_secret c) []) (sd_redirect_uris c)
         grants scope (unwrap_or (sd_name c) (sd_client_id c)))
      \<lparr>cl_token_endpoint_auth_method :=
         (if sd_is_public c then ''none'' else unwrap_or (sd_token_endpoint_auth_method c) ''client_secret_basic'')\<rparr>)"

fun apply_clients :: "libs \<Rightarrow> seed_draw \<Rightarrow> instant \<Rightarrow> seed_client list \<Rightarrow> db \<Rightarrow> (seed_error + unit) \<times> db" where
  "apply_clients L W now [] d = (Inr (), d)"
| "apply_clients L W now (c # cs) d =
     (case save_client (seeded_client L W now c) d of
        (Inl e, d') \<Rightarrow> (Inl (StoringClient (sd_client_id c) e), d')
      | (Inr _, d') \<Rightarrow> apply_clients L W now cs d')"

definition seeded_user :: "seed_draw \<Rightarrow> instant \<Rightarrow> string \<Rightarrow> seed_user \<Rightarrow> user" where
  "seeded_user W now hash u =
     user_new now (dw_user_uuid W (su_username u)) (su_username u) hash
       (unwrap_or (su_email u) (su_username u @ ''@conformance.invalid''))"

fun apply_users :: "seed_draw \<Rightarrow> instant \<Rightarrow> seed_user list \<Rightarrow> db \<Rightarrow> (seed_error + unit) \<times> db" where
  "apply_users W now [] d = (Inr (), d)"
| "apply_users W now (u # us) d =
     (case dw_hash W (su_password u) of
        None \<Rightarrow> (Inl (HashingPassword (su_username u)), d)
      | Some h \<Rightarrow>
          (case save_user (seeded_user W now h u) d of
             (Inl e, d') \<Rightarrow> (Inl (StoringUser (su_username u) e), d')
           | (Inr _, d') \<Rightarrow> apply_users W now us d'))"

definition apply_seed :: "libs \<Rightarrow> seed_draw \<Rightarrow> instant \<Rightarrow> seed \<Rightarrow> db \<Rightarrow> (seed_error + applied) \<times> db" where
  "apply_seed L W now s d =
     bindS (seed_keys W now s, d) (\<lambda>keys d.
     bindS (apply_clients L W now (se_clients s) d) (\<lambda>_ d.
     bindS (apply_users W now (se_users s) d) (\<lambda>_ d.
       (Inr \<lparr>ap_clients = length (se_clients s), ap_users = length (se_users s), ap_signing_keys = keys\<rparr>, d))))"

definition install_signing_keys :: "instant \<Rightarrow> key_set \<Rightarrow> signing_key list \<Rightarrow> key_set" where
  "install_signing_keys now ks keys = fold (\<lambda>k ks. ks_rotate now ks k 0) keys ks"

text \<open>What \<open>/ready\<close> reports: the counts and the key identifiers.\<close>
definition readiness :: "applied \<Rightarrow> nat \<times> nat \<times> string list" where
  "readiness a = (ap_clients a, ap_users a, map sk_kid (ap_signing_keys a))"

section \<open>A validated seed\<close>

lemma check_all_ok [result_simps]: "check_all P e xs = Inr u \<longleftrightarrow> (\<forall>x\<in>set xs. P x)"
  by (induction xs) auto

lemma check_redirects_ok [result_simps]:
  "check_redirects L i uris = Inr u \<longleftrightarrow> (\<forall>uri\<in>set uris. \<exists>p. url_parse L uri = Some p \<and> url_fragment p = None)"
  by (induction uris) (auto split: option.splits)

lemma check_seed_keys_ok [result_simps]:
  "check_seed_keys kids ks = Inr u \<longleftrightarrow>
   (\<forall>k\<in>set ks. ssk_kid k \<noteq> [] \<and> ssk_kid k \<notin> set kids \<and> check_seed_key k = Inr ()) \<and> distinct (map ssk_kid ks)"
  by (induction ks arbitrary: kids) (auto simp: result_simps image_iff)

lemma check_seed_clients_ok [result_simps]:
  "check_seed_clients L ids cs = Inr u \<longleftrightarrow>
   (\<forall>c\<in>set cs. sd_client_id c \<noteq> [] \<and> sd_client_id c \<notin> set ids \<and> validate_client L c = Inr ()) \<and> distinct (map sd_client_id cs)"
  by (induction cs arbitrary: ids) (auto simp: result_simps image_iff)

definition user_valid :: "string list \<Rightarrow> seed_user \<Rightarrow> bool" where
  "user_valid ids u = (su_username u \<noteq> [] \<and> su_password u \<noteq> [] \<and> (\<forall>e. su_email u = Some e \<longrightarrow> 3 \<le> length e) \<and>
     set (unwrap_or (su_auto_approve_clients u) []) \<subseteq> set ids)"

lemma check_seed_users_ok [result_simps]:
  "check_seed_users ids names us = Inr r \<longleftrightarrow>
   (\<forall>u\<in>set us. user_valid ids u \<and> su_username u \<notin> set names) \<and> distinct (map su_username us)"
  by (induction us arbitrary: names) (auto simp: result_simps user_valid_def image_iff split: option.splits)

lemma seed_parse_valid: "seed_parse Y text = Inr s \<Longrightarrow> validate_seed (sl_libs Y) s = Inr ()"
  by (auto simp: seed_parse_def result_simps)

lemma validate_seed_keyed:
  assumes "validate_seed L s = Inr ()"
  shows "distinct (map sd_client_id (se_clients s))" "distinct (map su_username (se_users s))" "se_clients s \<noteq> []" "se_users s \<noteq> []"
    "\<And>c. c \<in> set (se_clients s) \<Longrightarrow> sd_client_id c \<noteq> [] \<and> validate_client L c = Inr ()"
    "\<And>k. k \<in> set (se_signing_keys s) \<Longrightarrow> check_seed_key k = Inr ()"
  using assms by (auto simp: validate_seed_def result_simps)

lemma validate_client_secret:
  assumes "validate_client L c = Inr ()"
  shows "if sd_is_public c then sd_client_secret c = None else \<exists>w. sd_client_secret c = Some w \<and> w \<noteq> []"
  using assms by (auto simp: validate_client_def Let_def result_simps split: if_splits)

lemma check_seed_key_alg: "check_seed_key k = Inr () \<Longrightarrow> \<exists>alg. algorithm_from_str (ssk_alg k) = Inr alg"
  by (auto simp: check_seed_key_def result_simps split: sum.splits)

section \<open>Application\<close>

lemma apply_clients_ok:
  assumes "distinct (map sd_client_id cs)" "inj_on (dw_client_uuid W) (sd_client_id ` set cs)"
    and "\<forall>r\<in>set (db_clients d). \<forall>c\<in>set cs. cl_client_id r \<noteq> sd_client_id c \<and> cl_id r \<noteq> dw_client_uuid W (sd_client_id c)"
  shows "apply_clients L W now cs d = (Inr (), d\<lparr>db_clients := db_clients d @ map (seeded_client L W now) cs\<rparr>)"
  using assms
proof (induction cs arbitrary: d)
  case (Cons c cs)
  let ?c = "seeded_client L W now c"
  have ids: "cl_id ?c = dw_client_uuid W (sd_client_id c)" "cl_client_id ?c = sd_client_id c"
    by (simp_all add: seeded_client_def client_new_def Let_def)
  then have "save_client ?c d = (Inr (), d\<lparr>db_clients := db_clients d @ [?c]\<rparr>)"
    using Cons.prems(3) by (auto simp: save_client_def checked_def list_ex_iff)
  moreover have "apply_clients L W now cs (d\<lparr>db_clients := db_clients d @ [?c]\<rparr>) =
    (Inr (), d\<lparr>db_clients := (db_clients d @ [?c]) @ map (seeded_client L W now) cs\<rparr>)"
    using Cons.IH [of "d\<lparr>db_clients := db_clients d @ [?c]\<rparr>"] Cons.prems ids by (force simp: inj_on_def image_iff)
  ultimately show ?case by simp
qed simp

lemma apply_users_ok:
  assumes "distinct (map su_username us)" "inj_on (dw_user_uuid W) (su_username ` set us)" "\<forall>u\<in>set us. dw_hash W (su_password u) \<noteq> None"
    and "\<forall>r\<in>set (db_users d). \<forall>u\<in>set us. us_username r \<noteq> su_username u \<and> us_id r \<noteq> dw_user_uuid W (su_username u)"
  shows "apply_users W now us d =
    (Inr (), d\<lparr>db_users := db_users d @ map (\<lambda>u. seeded_user W now (the (dw_hash W (su_password u))) u) us\<rparr>)"
  using assms
proof (induction us arbitrary: d)
  case (Cons u us)
  obtain h where h: "dw_hash W (su_password u) = Some h" using Cons.prems(3) by auto
  let ?u = "seeded_user W now h u"
  have ids: "us_id ?u = dw_user_uuid W (su_username u)" "us_username ?u = su_username u" by (simp_all add: seeded_user_def user_new_def)
  then have "save_user ?u d = (Inr (), d\<lparr>db_users := db_users d @ [?u]\<rparr>)"
    using Cons.prems(4) by (auto simp: save_user_def checked_def list_ex_iff)
  moreover have "apply_users W now us (d\<lparr>db_users := db_users d @ [?u]\<rparr>) =
    (Inr (), d\<lparr>db_users := (db_users d @ [?u]) @ map (\<lambda>u. seeded_user W now (the (dw_hash W (su_password u))) u) us\<rparr>)"
    using Cons.IH [of "d\<lparr>db_users := db_users d @ [?u]\<rparr>"] Cons.prems ids by (force simp: inj_on_def image_iff)
  ultimately show ?case using h by simp
qed simp

lemma generate_keys_ok:
  assumes "\<forall>k\<in>set ks. \<exists>g. generate_signing_key W now k = Inr g"
  shows "\<exists>gs. generate_keys W now ks = Inr gs \<and> map sk_kid gs = map ssk_kid ks"
  using assms by (induction ks) (auto simp: generate_signing_key_def result_simps)

lemma generated_key: "generate_signing_key W now k = Inr g \<Longrightarrow> sk_is_current g \<and> sk_expires_at g = None \<and> sk_kid g = ssk_kid k"
  by (auto simp: generate_signing_key_def result_simps)

lemma generate_keys_current: "generate_keys W now ks = Inr gs \<Longrightarrow> g \<in> set gs \<Longrightarrow> sk_is_current g \<and> sk_expires_at g = None"
  by (induction ks arbitrary: gs) (auto simp: result_simps dest: generated_key)

lemma generate_signing_key_ok:
  assumes "check_seed_key k = Inr () \<or> k = default_rs256" "\<And>alg kid. \<exists>b. dw_material W alg kid = Inr b"
  shows "\<exists>g. generate_signing_key W now k = Inr g"
proof -
  have "\<exists>alg. algorithm_from_str (ssk_alg k) = Inr alg"
    using assms(1) check_seed_key_alg by (auto simp: default_rs256_def algorithm_from_str_def)
  then obtain alg where "algorithm_from_str (ssk_alg k) = Inr alg" by blast
  moreover obtain b where "dw_material W alg (ssk_kid k) = Inr b" using assms(2) by blast
  ultimately show ?thesis by (simp add: generate_signing_key_def)
qed

lemma seed_keys_ok:
  assumes "validate_seed L s = Inr ()" "\<And>alg kid. \<exists>b. dw_material W alg kid = Inr b"
  shows "\<exists>ks. seed_keys W now s = Inr ks \<and> map ssk_kid (se_signing_keys s) = take (length (se_signing_keys s)) (map sk_kid ks) \<and>
    (\<exists>k\<in>set ks. sk_algorithm k = RS256) \<and> (\<forall>k\<in>set ks. sk_is_current k \<and> sk_expires_at k = None)"
proof -
  have "\<forall>k\<in>set (se_signing_keys s). \<exists>g. generate_signing_key W now k = Inr g"
    using validate_seed_keyed(6) [OF assms(1)] generate_signing_key_ok assms(2) by blast
  from generate_keys_ok [OF this] obtain gs where g: "generate_keys W now (se_signing_keys s) = Inr gs" "map sk_kid gs = map ssk_kid (se_signing_keys s)"
    by blast
  then have len: "length gs = length (se_signing_keys s)" by (metis length_map)
  obtain r where r: "generate_signing_key W now default_rs256 = Inr r" using generate_signing_key_ok assms(2) by blast
  then have "sk_algorithm r = RS256"
    by (auto simp: generate_signing_key_def default_rs256_def algorithm_from_str_def result_simps)
  then show ?thesis using g r len generate_keys_current [OF g(1)] generated_key [OF r]
    by (cases "list_ex (\<lambda>k. sk_algorithm k = RS256) gs") (auto simp: seed_keys_def list_ex_iff take_map)
qed

lemma install_snoc: "install_signing_keys now ks (gs @ [g]) = ks_rotate now (install_signing_keys now ks gs) g 0"
  by (simp add: install_signing_keys_def)

lemma rotate_other_alg:
  assumes "sk_algorithm g \<noteq> alg"
  shows "ks_current_for_alg t (ks_rotate now ks g grace) alg = ks_current_for_alg t ks alg"
  using assms by (induction ks) (auto simp: ks_current_for_alg_def ks_rotate_def Let_def key_is_active_def)

text \<open>Of several keys for one algorithm the last one signs.\<close>
lemma install_current:
  assumes "\<forall>g\<in>set gs. sk_is_current g \<and> sk_expires_at g = None" "filter (\<lambda>g. sk_algorithm g = alg) gs \<noteq> []"
  shows "ks_current_for_alg t (install_signing_keys now ks gs) alg = Some (last (filter (\<lambda>g. sk_algorithm g = alg) gs))"
  using assms
proof (induction gs rule: rev_induct)
  case (snoc g gs)
  then have g: "sk_is_current g" "key_is_active t g" by (simp_all add: key_is_active_def)
  show ?case
  proof (cases "sk_algorithm g = alg")
    case True
    then show ?thesis using rotate_current_for_alg [OF g] by (simp add: install_snoc)
  next
    case False
    then show ?thesis using snoc by (simp add: install_snoc rotate_other_alg)
  qed
qed simp

lemma seeded_client_fields:
  assumes "validate_client L c = Inr ()"
  shows "cl_client_id (seeded_client L W now c) = sd_client_id c"
    "cl_token_endpoint_auth_method (seeded_client L W now c) = ''none'' \<longleftrightarrow> sd_is_public c"
    "cl_client_secret (seeded_client L W now c) = unwrap_or (sd_client_secret c) []"
    "cl_client_secret (seeded_client L W now c) = [] \<longleftrightarrow> sd_is_public c"
  using validate_client_secret [OF assms]
  by (cases "sd_token_endpoint_auth_method c"; auto simp: seeded_client_def client_new_def Let_def sd_is_public_def split: if_splits)+

lemma find_map_key:
  assumes "distinct (map k xs)" "x \<in> set xs" "\<And>y. key (f y) = k y"
  shows "find (\<lambda>r. key r = k x) (map f xs) = Some (f x)"
  using find_distinct_key [of key "map f xs" "f x"] assms by (simp add: comp_def)

definition with_seed :: "libs \<Rightarrow> seed_draw \<Rightarrow> instant \<Rightarrow> seed \<Rightarrow> db \<Rightarrow> db" where
  "with_seed L W now s d = d\<lparr>db_clients := map (seeded_client L W now) (se_clients s),
     db_users := map (\<lambda>u. seeded_user W now (the (dw_hash W (su_password u))) u) (se_users s)\<rparr>"

lemma seeded_tables:
  shows "map cl_client_id (db_clients (with_seed L W now s d)) = map sd_client_id (se_clients s)"
    and "map us_username (db_users (with_seed L W now s d)) = map su_username (se_users s)"
    and "validate_seed L s = Inr () \<Longrightarrow> c \<in> set (se_clients s) \<Longrightarrow>
      \<exists>r. get_client (sd_client_id c) (with_seed L W now s d) = Some r \<and> cl_client_secret r = unwrap_or (sd_client_secret c) [] \<and>
        (cl_client_secret r = [] \<longleftrightarrow> sd_is_public c) \<and> (cl_token_endpoint_auth_method r = ''none'' \<longleftrightarrow> sd_is_public c)"
    and "validate_seed L s = Inr () \<Longrightarrow> u \<in> set (se_users s) \<Longrightarrow> \<forall>u\<in>set (se_users s). dw_hash W (su_password u) \<noteq> None \<Longrightarrow>
      \<exists>r. get_user_by_username (su_username u) (with_seed L W now s d) = Some r \<and> Some (us_password_hash r) = dw_hash W (su_password u) \<and>
        us_role r = ''user''"
proof -
  show "map cl_client_id (db_clients (with_seed L W now s d)) = map sd_client_id (se_clients s)"
    "map us_username (db_users (with_seed L W now s d)) = map su_username (se_users s)"
    by (simp_all add: with_seed_def comp_def seeded_user_def user_new_def seeded_client_def client_new_def Let_def)
next
  assume v: "validate_seed L s = Inr ()" and c: "c \<in> set (se_clients s)"
  note keyed = validate_seed_keyed [OF v]
  have "get_client (sd_client_id c) (with_seed L W now s d) = Some (seeded_client L W now c)"
    unfolding get_client_def with_seed_def by (simp, rule find_map_key) (use keyed(1) c in \<open>simp_all add: seeded_client_def client_new_def Let_def\<close>)
  then show "\<exists>r. get_client (sd_client_id c) (with_seed L W now s d) = Some r \<and> cl_client_secret r = unwrap_or (sd_client_secret c) [] \<and>
      (cl_client_secret r = [] \<longleftrightarrow> sd_is_public c) \<and> (cl_token_endpoint_auth_method r = ''none'' \<longleftrightarrow> sd_is_public c)"
    using keyed(5) [OF c] seeded_client_fields by blast
next
  assume v: "validate_seed L s = Inr ()" and u: "u \<in> set (se_users s)" and h: "\<forall>u\<in>set (se_users s). dw_hash W (su_password u) \<noteq> None"
  have "get_user_by_username (su_username u) (with_seed L W now s d) = Some (seeded_user W now (the (dw_hash W (su_password u))) u)"
    unfolding get_user_by_username_def with_seed_def
    by (simp, rule find_map_key) (use validate_seed_keyed(2) [OF v] u in \<open>simp_all add: seeded_user_def user_new_def\<close>)
  then show "\<exists>r. get_user_by_username (su_username u) (with_seed L W now s d) = Some r \<and> Some (us_password_hash r) = dw_hash W (su_password u) \<and>
      us_role r = ''user''"
    using h u by (auto simp: seeded_user_def user_new_def)
qed

text \<open>C21. A seed is applied completely.  If the seed file is accepted, the passwords can be hashed, the keys generated and the identifiers
  drawn are distinct, then applying it to a storage without clients and users succeeds; afterwards the storage holds exactly the seed's
  clients and users, every client can be looked up with its secret, and has none exactly if it is public, every user with the hash of its
  password and without administrator rights; and an RSA key of the seed signs from then on, whatever keys the server had.\<close>
theorem seed_applied:
  assumes "seed_parse Y text = Inr s" "inj_on (dw_client_uuid W) (sd_client_id ` set (se_clients s))"
    and "inj_on (dw_user_uuid W) (su_username ` set (se_users s))" "\<forall>u\<in>set (se_users s). dw_hash W (su_password u) \<noteq> None"
    and "\<And>alg kid. \<exists>b. dw_material W alg kid = Inr b" "db_clients d = []" "db_users d = []"
  shows "\<exists>a d'. apply_seed (sl_libs Y) W now s d = (Inr a, d') \<and>
    map cl_client_id (db_clients d') = map sd_client_id (se_clients s) \<and> map us_username (db_users d') = map su_username (se_users s) \<and>
    (\<forall>c\<in>set (se_clients s). \<exists>r. get_client (sd_client_id c) d' = Some r \<and> cl_client_secret r = unwrap_or (sd_client_secret c) [] \<and>
       (cl_client_secret r = [] \<longleftrightarrow> sd_is_public c) \<and> (cl_token_endpoint_auth_method r = ''none'' \<longleftrightarrow> sd_is_public c)) \<and>
    (\<forall>u\<in>set (se_users s). \<exists>r. get_user_by_username (su_username u) d' = Some r \<and> Some (us_password_hash r) = dw_hash W (su_password u) \<and>
       us_role r = ''user'') \<and>
    (\<forall>ks t. \<exists>k\<in>set (ap_signing_keys a). ks_current_for_alg t (install_signing_keys now ks (ap_signing_keys a)) RS256 = Some k)"
proof -
  let ?L = "sl_libs Y"
  have v: "validate_seed ?L s = Inr ()" using seed_parse_valid assms(1) by blast
  note keyed = validate_seed_keyed [OF v]
  obtain ks where ks: "seed_keys W now s = Inr ks" "\<exists>k\<in>set ks. sk_algorithm k = RS256" "\<forall>k\<in>set ks. sk_is_current k \<and> sk_expires_at k = None"
    using seed_keys_ok [OF v assms(5)] by blast
  let ?d = "with_seed ?L W now s d"
  have run: "apply_seed ?L W now s d = (Inr \<lparr>ap_clients = length (se_clients s), ap_users = length (se_users s), ap_signing_keys = ks\<rparr>, ?d)"
    using apply_clients_ok [OF keyed(1) assms(2), of d ?L now] apply_users_ok [OF keyed(2) assms(3,4), of _ now] assms(6,7)
    by (simp add: apply_seed_def with_seed_def ks(1))
  let ?a = "\<lparr>ap_clients = length (se_clients s), ap_users = length (se_users s), ap_signing_keys = ks\<rparr>"
  have "filter (\<lambda>g. sk_algorithm g = RS256) ks \<noteq> []" using ks(2) by (auto simp: filter_empty_conv)
  then have "\<exists>k\<in>set (ap_signing_keys ?a). ks_current_for_alg t (install_signing_keys now z (ap_signing_keys ?a)) RS256 = Some k" for t z
    using install_current [OF ks(3)] last_in_set by fastforce
  then show ?thesis using run seeded_tables(1,2) [of ?L W now s d] seeded_tables(3) [OF v] seeded_tables(4) [OF v _ assms(4)] by blast
qed

definition demo_seed :: seed where
  "demo_seed = \<lparr>se_issuer = ''http://sut'', se_signing_keys = [\<lparr>ssk_kid = ''k1'', ssk_alg = ''HS256'', ssk_use = None\<rparr>],
     se_clients = [\<lparr>sd_client_id = ''web'', sd_name = None, sd_client_secret = Some ''s3'', sd_token_endpoint_auth_method = None, sd_public = None,
        sd_redirect_uris = [''http://rp/cb''], sd_scopes = Some [''openid''], sd_grant_types = None\<rparr>,
       \<lparr>sd_client_id = ''spa'', sd_name = None, sd_client_secret = None, sd_token_endpoint_auth_method = None, sd_public = Some True,
        sd_redirect_uris = [''http://spa/cb''], sd_scopes = None, sd_grant_types = None\<rparr>],
     se_users = [\<lparr>su_username = ''ann'', su_password = ''pw'', su_email = None, su_scopes = None, su_auto_approve_clients = Some [''web'']\<rparr>]\<rparr>"

definition demo_seed_lib :: seed_lib where
  "demo_seed_lib = \<lparr>sl_libs = \<lparr>json_from_str = (\<lambda>s. None), json_to_string = (\<lambda>v. []),
       url_parse = (\<lambda>s. Some \<lparr>url_text = s, url_scheme = ''http'', url_username = [], url_password = None, url_host = None, url_port = None,
         url_path = [], url_query = None, url_fragment = None\<rparr>), sha256_b64url = id\<rparr>,
     sl_real = (\<lambda>_. None), sl_yaml = (\<lambda>s. Inr [YHash [(YString ''doc'', YString s)]]), sl_from_value = (\<lambda>v. Inr demo_seed)\<rparr>"

definition demo_seed_draw :: seed_draw where
  "demo_seed_draw = \<lparr>dw_material = (\<lambda>a k. Inr []), dw_client_uuid = (\<lambda>i. CHR ''c'' # i), dw_user_uuid = (\<lambda>i. CHR ''u'' # i), dw_hash = Some\<rparr>"

lemma demo_seed_parses: "seed_parse demo_seed_lib ''seed'' = Inr demo_seed"
  by (simp add: seed_parse_def demo_seed_lib_def seed_value_def demo_seed_def validate_seed_def check_seed_key_def alg_well_formed_def
    algorithm_from_str_def validate_client_def sd_is_public_def GRANT_TYPES_def is_ws_def Let_def suffix_def)

lemma seed_applied_witness:
  "\<exists>a d'. apply_seed (sl_libs demo_seed_lib) demo_seed_draw 7 demo_seed db_empty = (Inr a, d') \<and> length (db_clients d') = 2"
proof -
  have "\<exists>a d'. apply_seed (sl_libs demo_seed_lib) demo_seed_draw 7 demo_seed db_empty = (Inr a, d') \<and>
      map cl_client_id (db_clients d') = map sd_client_id (se_clients demo_seed)"
    using seed_applied [OF demo_seed_parses, of demo_seed_draw db_empty 7] by (auto simp: demo_seed_draw_def db_empty_def inj_on_def)
  then show ?thesis by (metis (no_types, lifting) length_map demo_seed_def seed.select_convs(3) length_Cons list.size(3) numeral_2_eq_2)
qed

section \<open>Limits of the mode\<close>

text \<open>Two keys for one algorithm: the first one is installed expired.\<close>
theorem seeded_kid_unpublished:
  "let k = \<lambda>i. \<lparr>sk_kid = i, sk_algorithm = RS256, sk_key_material = [], sk_is_current = True, sk_created_at = 0, sk_expires_at = None\<rparr> in
   \<forall>ks t. 5 \<le> t \<and> (\<forall>z\<in>set ks. sk_kid z \<noteq> ''first'') \<longrightarrow> ks_find t (install_signing_keys 5 ks [k ''first'', k ''second'']) ''first'' = None"
  by (auto simp: install_signing_keys_def ks_rotate_def ks_find_def find_None_iff_all set_update_where key_is_active_def Let_def)

text \<open>The guard takes a database file with the right name for memory.\<close>
theorem file_named_like_memory: "is_in_memory_sqlite ''sqlite:file:mode=memory.db''"
  by (simp add: is_in_memory_sqlite_def strip_prefix_opt_def skip_slashes_def before_query_def starts_with_def contains_def sublist_code)

lemma check_profiles_ok [result_simps]:
  "check_profiles vars ns = Inr u \<longleftrightarrow>
   (\<forall>n\<in>set ns. \<forall>v. vars n = Some v \<longrightarrow> to_lowercase (trim v) = [] \<or> to_lowercase (trim v) \<in> set NON_PRODUCTION_ENV_NAMES)"
  by (induction ns) (auto simp: Let_def split: option.splits)

fun unique_keys :: "json \<Rightarrow> bool" where
  "unique_keys (JArr vs) = list_all unique_keys vs"
| "unique_keys (JObj ms) = (distinct (map fst ms) \<and> list_all (\<lambda>m. unique_keys (snd m)) ms)"
| "unique_keys _ = True"

lemma yaml_unique_keys:
  "yaml_to_json rd y = Inr v \<Longrightarrow> unique_keys v"
  "yaml_items rd ys = Inr vs \<Longrightarrow> list_all unique_keys vs"
  "yaml_members rd out ms = Inr ms' \<Longrightarrow> distinct (map fst out) \<Longrightarrow> list_all (\<lambda>m. unique_keys (snd m)) out \<Longrightarrow>
     distinct (map fst ms') \<and> list_all (\<lambda>m. unique_keys (snd m)) ms'"
proof (induction rd y and rd ys and rd out ms arbitrary: v and vs and ms' rule: yaml_to_json_yaml_items_yaml_members.induct)
qed (fastforce simp: result_simps map_sum_eq_Inr split: yaml.splits if_splits)+

end
