(* ===== verification/Startup.thy ===== *)
theory Startup
  imports Service Discovery Resilience Event_Bus Conformance
begin

text \<open>
  The start of the server (\<open>run\<close> in \<open>crates/oauth2-server/src/lib.rs\<close>) up to the point where it accepts requests:
  loading and checking the settings, the conformance mode, the choice of the storage backend
  (\<open>crates/oauth2-storage-factory/src/lib.rs\<close>), the first administrator, and the state and the middleware the
  application starts with.  The variables, the file contents, the HOCON loader, the storage that a backend opens,
  the password hash and the random values are arguments; a panic is an error of the start.
\<close>

section \<open>Database addresses\<close>

fun split_at_text :: "string \<Rightarrow> string \<Rightarrow> (string \<times> string) option" where
  "split_at_text p [] = (if p = [] then Some ([], []) else None)"
| "split_at_text p (c # cs) =
     (if prefix p (c # cs) then Some ([], drop (length p) (c # cs))
      else map_option (\<lambda>(a, b). (c # a, b)) (split_at_text p cs))"

definition rsplit_once :: "char \<Rightarrow> string \<Rightarrow> (string \<times> string) option" where
  "rsplit_once d s = map_option (\<lambda>(a, b). (rev b, rev a)) (split_once d (rev s))"

definition redact_db_url :: "string \<Rightarrow> string" where
  "redact_db_url url =
     (case split_at_text ''://'' url of
        None \<Rightarrow> url
      | Some (scheme, rest) \<Rightarrow>
          (case split_once (CHR ''@'') rest of
             None \<Rightarrow> url
           | Some (ui, host) \<Rightarrow>
               if list_ex (\<lambda>c. c \<in> {CHR ''/'', CHR ''?'', CHR ''#''}) ui then url else scheme @ ''://***@'' @ host))"

text \<open>\<open>Path::file_name\<close> for a Unix path.\<close>
definition file_name :: "string \<Rightarrow> string option" where
  "file_name path =
     (case rev (filter (\<lambda>c. c \<noteq> [] \<and> c \<noteq> ''.'') (split_char (CHR ''/'') path)) of
        [] \<Rightarrow> None | c # _ \<Rightarrow> if c = ''..'' then None else Some c)"

definition sqlite_db_name :: "string \<Rightarrow> string" where
  "sqlite_db_name rest =
     (if rest = '':memory:'' \<or> rest = [] then '':memory:''
      else let path = before_query (skip_slashes rest) in unwrap_or (file_name path) path)"

definition network_db_attrs :: "string \<Rightarrow> string option \<times> string option" where
  "network_db_attrs rest =
     (let after_auth = (case rsplit_once (CHR ''@'') rest of Some (_, r) \<Rightarrow> r | None \<Rightarrow> rest);
          (hostport, tail) = (case split_once (CHR ''/'') after_auth of Some hp \<Rightarrow> hp | None \<Rightarrow> (after_auth, []));
          host = takeWhile (\<lambda>c. c \<noteq> CHR '':'') hostport;
          name = trim_slashes (before_query tail)
      in (if name = [] then None else Some name, if host = [] then None else Some host))"

definition derive_db_span_attrs :: "string \<Rightarrow> string option \<times> string option" where
  "derive_db_span_attrs url =
     (case opt_or (strip_prefix_opt url ''sqlite://'') (strip_prefix_opt url ''sqlite:'') of
        Some rest \<Rightarrow> (Some (sqlite_db_name rest), None)
      | None \<Rightarrow> (case split_at_text ''://'' url of Some (_, rest) \<Rightarrow> network_db_attrs rest | None \<Rightarrow> (None, None)))"

section \<open>The storage backend\<close>

record pool_config =
  po_max_connections :: "32 word"
  po_min_connections :: "32 word"
  po_acquire_timeout :: instant
  po_idle_timeout :: instant

datatype storage_choice =
    MongoBackend string | SqlReplica string string pool_config | SqlPool string pool_config | SqlPlain string

record storage_build =
  sb_sqlx :: bool
  sb_mongo :: bool

definition is_mongo :: "string \<Rightarrow> bool" where
  "is_mongo url = (starts_with url ''mongodb://'' \<or> starts_with url ''mongodb+srv://'')"

definition db_system :: "string \<Rightarrow> string" where
  "db_system url =
     (if is_mongo url then ''mongodb''
      else if starts_with url ''postgres://'' \<or> starts_with url ''postgresql://'' then ''postgresql''
      else if starts_with url ''sqlite:'' \<or> starts_with url ''sqlite://'' then ''sqlite'' else ''sql'')"

text \<open>The backend that is opened, with the attributes of its spans: the kind of database, its name and its host.\<close>
definition create_storage_with_pool_config ::
  "storage_build \<Rightarrow> string \<Rightarrow> pool_config option \<Rightarrow> string option \<Rightarrow> (storage_choice \<times> string \<times> string option \<times> string option) result" where
  "create_storage_with_pool_config B url pool read_url =
     (if is_mongo url then
        (if sb_mongo B then Inr (MongoBackend url, db_system url, derive_db_span_attrs url)
         else Inl (error_new ''server_error'' (Some ''MongoDB backend requested but the binary was built without the `mongo` feature'')))
      else if \<not> sb_sqlx B then
        Inl (error_new ''server_error'' (Some ''SQL backend requested but the binary was built without SQL support (feature `sqlx` disabled)''))
      else Inr (case (pool, read_url) of
            (Some pc, Some ru) \<Rightarrow> SqlReplica url ru pc | (Some pc, None) \<Rightarrow> SqlPool url pc | (None, _) \<Rightarrow> SqlPlain url,
          db_system url, derive_db_span_attrs url))"

definition create_storage :: "storage_build \<Rightarrow> string \<Rightarrow> (storage_choice \<times> string \<times> string option \<times> string option) result" where
  "create_storage B url = create_storage_with_pool_config B url None None"

definition pool_of :: "database_config \<Rightarrow> pool_config" where
  "pool_of da = \<lparr>po_max_connections = da_max_connections da, po_min_connections = da_min_connections da,
     po_acquire_timeout = secs (uint (da_acquire_timeout_secs da)), po_idle_timeout = secs (uint (da_idle_timeout_secs da))\<rparr>"

definition storage_of :: "storage_build \<Rightarrow> database_config \<Rightarrow> (storage_choice \<times> string \<times> string option \<times> string option) result" where
  "storage_of B da =
     (if sb_sqlx B then create_storage_with_pool_config B (da_url da) (Some (pool_of da)) (da_read_url da)
      else create_storage_with_pool_config B (da_url da) None None)"

section \<open>Limiters and resilience\<close>

record rl_enablement =
  rle_ip :: bool
  rle_invalid_client :: bool

definition rate_limit_enablement :: "bool \<Rightarrow> rate_limit_config \<Rightarrow> rl_enablement" where
  "rate_limit_enablement conformance_active rl =
     (if conformance_active then \<lparr>rle_ip = False, rle_invalid_client = False\<rparr>
      else \<lparr>rle_ip = rlc_enabled rl, rle_invalid_client = 0 < rlc_invalid_client_max_requests rl\<rparr>)"

datatype limiter_choice = InMemoryBuckets in_memory_limiter | RedisWindows string "32 word" "64 word"

text \<open>\<open>connects\<close>: the binary has the Redis limiter and the address answers.\<close>
definition redis_or_memory :: "(string \<Rightarrow> bool) \<Rightarrow> rate_limit_config \<Rightarrow> 32 word \<Rightarrow> limiter_choice" where
  "redis_or_memory connects rl max_requests =
     (case trimmed (rlc_redis_url rl) of
        Some url \<Rightarrow> if connects url then RedisWindows url max_requests (rlc_window_secs rl) else InMemoryBuckets (im_new max_requests (rlc_window_secs rl))
      | None \<Rightarrow> InMemoryBuckets (im_new max_requests (rlc_window_secs rl)))"

definition ip_limiter :: "(string \<Rightarrow> bool) \<Rightarrow> bool \<Rightarrow> config \<Rightarrow> limiter_choice option" where
  "ip_limiter connects conformance_active c =
     (let rl = unwrap_or (cf_rate_limit c) rate_limit_default in
      if rle_ip (rate_limit_enablement conformance_active rl) then
        Some (if rlc_backend rl = ''redis'' then redis_or_memory connects rl (rlc_max_requests rl)
              else InMemoryBuckets (im_new (rlc_max_requests rl) (rlc_window_secs rl)))
      else None)"

definition penalty_limiter :: "(string \<Rightarrow> bool) \<Rightarrow> bool \<Rightarrow> config \<Rightarrow> limiter_choice option" where
  "penalty_limiter connects conformance_active c =
     (let rl = unwrap_or (cf_rate_limit c) rate_limit_default in
      if rle_invalid_client (rate_limit_enablement conformance_active rl) then
        Some (if rlc_backend rl = ''redis'' \<and> rlc_enabled rl then redis_or_memory connects rl (rlc_invalid_client_max_requests rl)
              else InMemoryBuckets (im_new (rlc_invalid_client_max_requests rl) (rlc_window_secs rl)))
      else None)"

text \<open>The limiter, the bulkheads and the settings of the circuit breaker the middleware gets.\<close>
definition resilience_of :: "config \<Rightarrow> limiter option \<times> registry option \<times> cb_config option" where
  "resilience_of c =
     (case cf_resilience c of
        None \<Rightarrow> (None, None, None)
      | Some rs \<Rightarrow>
          if \<not> rsc_enabled rs then (None, None, None)
          else let cb = unwrap_or (rsc_circuit_breaker rs) circuit_breaker_default in
            (map_option (\<lambda>bp. limiter_new (bpc_max_concurrent bp)) (rsc_back_pressure rs),
             if rsc_bulkheads rs = [] then None
             else Some (bulkheads_from_configs
               (map (\<lambda>e. \<lparr>bc_name = be_name e, bc_path_prefix = be_path_prefix e, bc_max_concurrent = be_max_concurrent e\<rparr>) (rsc_bulkheads rs))),
             Some \<lparr>failure_threshold = cbc_failure_threshold cb, success_threshold = cbc_success_threshold cb,
                   open_duration = secs (uint (cbc_open_secs cb)), half_open_max_probes = cbc_half_open_max_probes cb\<rparr>))"

section \<open>Issuer, keys and actors\<close>

definition issuer_of :: "server_config \<Rightarrow> string" where
  "issuer_of sc =
     trim_slashes (unwrap_or (opt_or (sc_public_url sc) (sc_public_base_url sc))
       (''http://'' @ sc_host sc @ '':'' @ show_nat (unat (sc_port sc))))"

definition oidc_of :: "env_vars \<Rightarrow> config \<Rightarrow> oidc_config" where
  "oidc_of vars c =
     id_token_settings \<lparr>iv_private_key_pem = vars ''OAUTH2_ID_TOKEN_PRIVATE_KEY_PEM'', iv_kid = vars ''OAUTH2_ID_TOKEN_KID'',
       iv_alg = vars ''OAUTH2_ID_TOKEN_ALG''\<rparr> (issuer_of (cf_server c)) (jc_secret (cf_jwt c))"

definition keyset_of :: "instant \<Rightarrow> oidc_config \<Rightarrow> applied option \<Rightarrow> key_set" where
  "keyset_of now oc seeded =
     (let ks = initial_keyset now bytes_of_text oc in
      case seeded of Some a \<Rightarrow> install_signing_keys now ks (ap_signing_keys a) | None \<Rightarrow> ks)"

definition shard_count :: "config \<Rightarrow> nat" where
  "shard_count c = (case cf_cache c of Some k \<Rightarrow> max (kc_token_actor_shards k) 1 | None \<Rightarrow> 1)"

definition token_shard :: "config \<Rightarrow> oidc_config \<Rightarrow> key_set \<Rightarrow> token_actor" where
  "token_shard c oc ks =
     \<lparr>tka_jwt_secret = jc_secret (cf_jwt c), tka_issuer = oc_issuer oc, tka_access_tokens_opaque = jc_access_tokens_opaque (cf_jwt c),
      tka_keyset = Some ks, tka_cache = [], tka_access_token_ttl_secs = as_i64 (uint (jc_access_token_ttl_secs (cf_jwt c))),
      tka_refresh_token_ttl_secs = as_i64 (uint (jc_refresh_token_ttl_secs (cf_jwt c)))\<rparr>"

text \<open>The cross-origin requests the server admits: none, all, or those from the listed origins.\<close>
definition origin_allowed :: "string list \<Rightarrow> string \<Rightarrow> bool" where
  "origin_allowed origins z = (if origins = [] then False else if ''*'' \<in> set origins then True else z \<in> set origins)"

section \<open>The first administrator\<close>

datatype start_error = InsecureConfiguration secret_fault | ConformanceRefused seed_error | InsecureSeedPassword | Panicked string

definition INSECURE_DEFAULT_SEED_PASSWORD :: string where
  "INSECURE_DEFAULT_SEED_PASSWORD = ''changeme''"

definition validate_seed_password_for_production :: "env_vars \<Rightarrow> string \<Rightarrow> start_error + unit" where
  "validate_seed_password_for_production vars password =
     ensure (insecure_defaults_allowed vars \<or> password \<noteq> INSECURE_DEFAULT_SEED_PASSWORD) InsecureSeedPassword"

definition seed_password :: "env_vars \<Rightarrow> string" where
  "seed_password vars = unwrap_or (vars ''OAUTH2_SEED_PASSWORD'') INSECURE_DEFAULT_SEED_PASSWORD"

definition seed_admin :: "env_vars \<Rightarrow> (string \<Rightarrow> string option) \<Rightarrow> instant \<Rightarrow> string \<Rightarrow> db \<Rightarrow> (start_error + unit) \<times> db" where
  "seed_admin vars hash now uuid d =
     bindS (validate_seed_password_for_production vars (seed_password vars), d) (\<lambda>_ d.
       let username = unwrap_or (vars ''OAUTH2_SEED_USERNAME'') ''admin''; email = unwrap_or (vars ''OAUTH2_SEED_EMAIL'') ''admin@example.com'' in
       case get_user_by_username username d of
         Some _ \<Rightarrow> (Inr (), d)
       | None \<Rightarrow>
           (case hash (seed_password vars) of
              None \<Rightarrow> (Inl (Panicked ''Failed to hash seed password''), d)
            | Some h \<Rightarrow>
                (case save_user ((user_new now uuid username h email)\<lparr>us_role := ''admin''\<rparr>) d of
                   (Inl _, d') \<Rightarrow> (Inl (Panicked ''Failed to save seed user''), d')
                 | (Inr _, d') \<Rightarrow> (Inr (), d'))))"

section \<open>The start\<close>

text \<open>What the process finds: its variables and files, the storage behind an address, and its random values.\<close>
record host =
  ho_vars :: env_vars
  ho_hocon :: "string + config"
  ho_read :: "string \<Rightarrow> string option"
  ho_seed :: seed_lib
  ho_draw :: seed_draw
  ho_admin_uuid :: string
  ho_build :: storage_build
  ho_open :: "storage_choice \<Rightarrow> db result"
  ho_hex_decode :: "string \<Rightarrow> bytes option"
  ho_cookie_key :: "bytes \<Rightarrow> bytes option"
  ho_events :: event_build
  ho_redis :: "string \<Rightarrow> bool"

record started =
  st_config :: config
  st_server :: server
  st_oidc :: oidc_config
  st_keyset :: key_set
  st_applied :: "applied option"
  st_session_key :: "bytes option"
  st_events :: "event_actor option"
  st_ip_limiter :: "limiter_choice option"
  st_penalty :: "limiter_choice option"
  st_resilience :: "limiter option \<times> registry option \<times> cb_config option"

definition conformance_seed_from_env :: "host \<Rightarrow> config \<Rightarrow> seed_error + seed option" where
  "conformance_seed_from_env H c =
     bindR (mode_from_env (ho_vars H)) (\<lambda>mode.
       case mode of
         None \<Rightarrow> Inr None
       | Some path \<Rightarrow>
           bindR (check_not_production (ho_vars H) (da_url (cf_database c)) (da_read_url (cf_database c))) (\<lambda>_.
             map_sum id Some (seed_load (ho_seed H) (ho_read H) path)))"

text \<open>No key stands for one that is generated.\<close>
definition session_key_of :: "host \<Rightarrow> config \<Rightarrow> start_error + bytes option" where
  "session_key_of H c =
     (case opt_or (ho_vars H ''OAUTH2_SESSION_KEY'') (trimmed (Option.bind (cf_session c) id)) of
        None \<Rightarrow> Inr None
      | Some k \<Rightarrow>
          if length k < 64 then Inl (Panicked ''OAUTH2_SESSION_KEY must be at least 64 characters (128 hex digits)'')
          else
            bindR (ok_or (ho_hex_decode H k) (Panicked ''OAUTH2_SESSION_KEY must be valid hexadecimal'')) (\<lambda>b.
              map_sum id Some (ok_or (ho_cookie_key H b) (Panicked ''OAUTH2_SESSION_KEY must be exactly 64 bytes''))))"

definition open_storage :: "host \<Rightarrow> config \<Rightarrow> start_error + db" where
  "open_storage H c =
     bindR (map_sum (\<lambda>_. Panicked ''Failed to create storage backend'') fst (storage_of (ho_build H) (cf_database c))) (\<lambda>choice.
       map_sum (\<lambda>_. Panicked ''Failed to create storage backend'') id (ho_open H choice))"

definition with_issuer :: "seed option \<Rightarrow> config \<Rightarrow> config" where
  "with_issuer seeding c =
     (case seeding of Some s \<Rightarrow> c\<lparr>cf_server := cf_server c\<lparr>sc_public_url := Some (se_issuer s)\<rparr>\<rparr> | None \<Rightarrow> c)"

text \<open>Either the seed or the first administrator, never both.\<close>
definition provision :: "host \<Rightarrow> instant \<Rightarrow> seed option \<Rightarrow> db \<Rightarrow> (start_error + applied option) \<times> db" where
  "provision H now seeding d =
     (case seeding of
        Some s \<Rightarrow>
          (case apply_seed (sl_libs (ho_seed H)) (ho_draw H) now s d of
             (Inl e, d') \<Rightarrow> (Inl (ConformanceRefused e), d') | (Inr a, d') \<Rightarrow> (Inr (Some a), d'))
      | None \<Rightarrow> bindS (seed_admin (ho_vars H) (dw_hash (ho_draw H)) now (ho_admin_uuid H) d) (\<lambda>_ d. (Inr None, d)))"

definition in_memory_part :: "limiter_choice option \<Rightarrow> in_memory_limiter option" where
  "in_memory_part l = Option.bind l (\<lambda>l. case l of InMemoryBuckets b \<Rightarrow> Some b | RedisWindows _ _ _ \<Rightarrow> None)"

definition application :: "host \<Rightarrow> instant \<Rightarrow> config \<Rightarrow> applied option \<Rightarrow> bytes option \<Rightarrow> db \<Rightarrow> started" where
  "application H now c seeded key d =
     (let oc = oidc_of (ho_vars H) c; ks = keyset_of now oc seeded; penalty = penalty_limiter (ho_redis H) (seeded \<noteq> None) c in
      \<lparr>st_config = c,
       st_server = \<lparr>sv_db = d, sv_shards = replicate (shard_count c) (token_shard c oc ks), sv_clients = \<lparr>cla_cache = []\<rparr>, sv_jti = guard_default,
          sv_dpop = Some \<lparr>ds_memory = [], ds_storage = True\<rparr>, sv_penalty = in_memory_part penalty, sv_par = Map.empty\<rparr>,
       st_oidc = oc, st_keyset = ks, st_applied = seeded, st_session_key = key, st_events = event_actor_of (ho_events H) (cf_events c),
       st_ip_limiter = ip_limiter (ho_redis H) (seeded \<noteq> None) c, st_penalty = penalty, st_resilience = resilience_of c\<rparr>)"

text \<open>The storage may have been written when the start fails; the result shows the storage of a start that succeeds.\<close>
definition start_server :: "host \<Rightarrow> instant \<Rightarrow> start_error + started" where
  "start_server H now =
     (let c0 = config_default (ho_vars H) (ho_hocon H) in
      bindR (map_sum InsecureConfiguration id (validate_for_production (ho_vars H) c0)) (\<lambda>_.
      bindR (map_sum ConformanceRefused id (conformance_seed_from_env H c0)) (\<lambda>seeding.
      let c = with_issuer seeding c0 in
      bindR (open_storage H c) (\<lambda>d0.
      case provision H now seeding d0 of
        (Inl e, _) \<Rightarrow> Inl e
      | (Inr seeded, d) \<Rightarrow> bindR (session_key_of H c) (\<lambda>key. Inr (application H now c seeded key d))))))"

section \<open>What provisioning writes\<close>

lemma save_client_shape: "save_client c d = (Inr u, d') \<Longrightarrow> d' = d\<lparr>db_clients := db_clients d @ [c]\<rparr>"
  by (auto simp: save_client_def checked_def split: if_splits)

lemma save_user_shape: "save_user v d = (Inr u, d') \<Longrightarrow> d' = d\<lparr>db_users := db_users d @ [v]\<rparr>"
  by (auto simp: save_user_def checked_def split: if_splits)

lemma apply_clients_shape:
  "apply_clients L W now cs d = (Inr u, d') \<Longrightarrow> d' = d\<lparr>db_clients := db_clients d @ map (seeded_client L W now) cs\<rparr>"
proof (induction cs arbitrary: d)
  case (Cons c cs)
  then obtain d1 where h: "save_client (seeded_client L W now c) d = (Inr (), d1)" "apply_clients L W now cs d1 = (Inr u, d')"
    by (auto split: prod.splits sum.splits)
  from Cons.IH [OF h(2)] save_client_shape [OF h(1)] show ?case by simp
qed simp

lemma apply_users_shape:
  "apply_users W now us d = (Inr u, d') \<Longrightarrow> \<exists>vs. d' = d\<lparr>db_users := db_users d @ vs\<rparr> \<and> map us_username vs = map su_username us \<and> (\<forall>v\<in>set vs. us_role v = ''user'')"
proof (induction us arbitrary: d)
  case (Cons x us)
  then obtain h d1 where h: "save_user (seeded_user W now h x) d = (Inr (), d1)" "apply_users W now us d1 = (Inr u, d')"
    by (auto split: option.splits prod.splits sum.splits)
  from Cons.IH [OF h(2)] obtain vs where vs: "d' = d1\<lparr>db_users := db_users d1 @ vs\<rparr>" "map us_username vs = map su_username us"
    "\<forall>v\<in>set vs. us_role v = ''user''" by blast
  have "us_username (seeded_user W now h x) = su_username x" "us_role (seeded_user W now h x) = ''user''"
    by (simp_all add: seeded_user_def user_new_def)
  then show ?case using vs save_user_shape [OF h(1)] by (intro exI [of _ "seeded_user W now h x # vs"]) simp
qed (auto intro: exI [of _ "[]"])

lemma apply_seed_shape:
  assumes "apply_seed L W now s d = (Inr a, d')"
  shows "\<exists>vs. d' = d\<lparr>db_clients := db_clients d @ map (seeded_client L W now) (se_clients s), db_users := db_users d @ vs\<rparr> \<and>
     map us_username vs = map su_username (se_users s) \<and> (\<forall>v\<in>set vs. us_role v = ''user'')"
proof -
  obtain d1 where "apply_clients L W now (se_clients s) d = (Inr (), d1)" "apply_users W now (se_users s) d1 = (Inr (), d')"
    using assms by (auto simp: apply_seed_def result_simps)
  then show ?thesis by (auto dest!: apply_clients_shape apply_users_shape)
qed

lemma seed_admin_shape:
  assumes "seed_admin vars hash now uuid d = (Inr u, d')"
  shows "(insecure_defaults_allowed vars \<or> seed_password vars \<noteq> INSECURE_DEFAULT_SEED_PASSWORD) \<and>
    (\<exists>vs. d' = d\<lparr>db_users := db_users d @ vs\<rparr> \<and> length vs \<le> 1 \<and> (\<forall>v\<in>set vs. us_role v = ''admin'' \<and> Some (us_password_hash v) = hash (seed_password vars)))"
proof -
  from assms have p: "insecure_defaults_allowed vars \<or> seed_password vars \<noteq> INSECURE_DEFAULT_SEED_PASSWORD"
    by (auto simp: seed_admin_def validate_seed_password_for_production_def result_simps)
  have "\<exists>vs. d' = d\<lparr>db_users := db_users d @ vs\<rparr> \<and> length vs \<le> 1 \<and> (\<forall>v\<in>set vs. us_role v = ''admin'' \<and> Some (us_password_hash v) = hash (seed_password vars))"
  proof (cases "d' = d")
    case True
    then show ?thesis by (intro exI [of _ "[]"]) simp
  next
    case False
    then show ?thesis using assms
      by (auto simp: seed_admin_def result_simps Let_def user_new_def split: option.splits prod.splits sum.splits
        dest!: save_user_shape intro!: exI [of _ "[_]"])
  qed
  with p show ?thesis by blast
qed

section \<open>A secure start\<close>

lemma start_parts:
  assumes "start_server H now = Inr S"
  obtains seeding d0 seeded d key where "validate_for_production (ho_vars H) (config_default (ho_vars H) (ho_hocon H)) = Inr ()"
    and "conformance_seed_from_env H (config_default (ho_vars H) (ho_hocon H)) = Inr seeding"
    and "open_storage H (with_issuer seeding (config_default (ho_vars H) (ho_hocon H))) = Inr d0"
    and "provision H now seeding d0 = (Inr seeded, d)"
    and "S = application H now (with_issuer seeding (config_default (ho_vars H) (ho_hocon H))) seeded key d"
proof -
  let ?c0 = "config_default (ho_vars H) (ho_hocon H)"
  obtain seeding d0 where a: "validate_for_production (ho_vars H) ?c0 = Inr ()" "conformance_seed_from_env H ?c0 = Inr seeding"
      "open_storage H (with_issuer seeding ?c0) = Inr d0"
    and b: "(case provision H now seeding d0 of (Inl e, _) \<Rightarrow> Inl e
       | (Inr seeded, d) \<Rightarrow> bindR (session_key_of H (with_issuer seeding ?c0)) (\<lambda>key. Inr (application H now (with_issuer seeding ?c0) seeded key d))) = Inr S"
    using assms by (cases "validate_for_production (ho_vars H) ?c0"; cases "conformance_seed_from_env H ?c0")
      (auto simp: start_server_def Let_def result_simps)
  from b obtain seeded d key where "provision H now seeding d0 = (Inr seeded, d)" "S = application H now (with_issuer seeding ?c0) seeded key d"
    by (auto simp: result_simps split: prod.splits sum.splits)
  with a show thesis by (rule that)
qed

lemma mode_on: "mode_from_env vars = Inr (Some path) \<Longrightarrow> \<exists>v. vars ''OAUTH2_CONFORMANCE_MODE'' = Some v \<and> to_lowercase (trim v) \<in> {''1'', ''true''}"
  by (cases "vars ''OAUTH2_CONFORMANCE_MODE''") (auto simp: mode_from_env_def Let_def split: if_splits option.splits)

lemma seeding_guarded:
  assumes "conformance_seed_from_env H c = Inr (Some s)"
  shows "\<exists>v. ho_vars H ''OAUTH2_CONFORMANCE_MODE'' = Some v \<and> to_lowercase (trim v) \<in> {''1'', ''true''}"
    and "is_in_memory_sqlite (da_url (cf_database c))"
    and "\<And>n v. n \<in> set PROFILE_ENV_VARS \<Longrightarrow> ho_vars H n = Some v \<Longrightarrow> to_lowercase (trim v) \<in> {[]} \<union> set NON_PRODUCTION_ENV_NAMES"
    and "validate_seed (sl_libs (ho_seed H)) s = Inr ()"
proof -
  obtain path where p: "mode_from_env (ho_vars H) = Inr (Some path)"
    "check_not_production (ho_vars H) (da_url (cf_database c)) (da_read_url (cf_database c)) = Inr ()"
    "seed_load (ho_seed H) (ho_read H) path = Inr s"
    using assms by (auto simp: conformance_seed_from_env_def result_simps map_sum_eq_Inr split: option.splits)
  show "\<exists>v. ho_vars H ''OAUTH2_CONFORMANCE_MODE'' = Some v \<and> to_lowercase (trim v) \<in> {''1'', ''true''}" using mode_on p(1) by blast
  show "is_in_memory_sqlite (da_url (cf_database c))" using p(2) by (auto simp: check_not_production_def result_simps)
  show "validate_seed (sl_libs (ho_seed H)) s = Inr ()" using p(3) seed_parse_valid by (auto simp: seed_load_def result_simps)
  show "to_lowercase (trim v) \<in> {[]} \<union> set NON_PRODUCTION_ENV_NAMES" if "n \<in> set PROFILE_ENV_VARS" "ho_vars H n = Some v" for n v
    using p(2) that by (auto simp: check_not_production_def result_simps)
qed

lemma provision_shape:
  assumes "provision H now seeding d0 = (Inr seeded, d)"
  shows "seeding = None \<longleftrightarrow> seeded = None"
    and "seeding = None \<Longrightarrow> (insecure_defaults_allowed (ho_vars H) \<or> seed_password (ho_vars H) \<noteq> INSECURE_DEFAULT_SEED_PASSWORD) \<and>
      (\<exists>vs. d = d0\<lparr>db_users := db_users d0 @ vs\<rparr> \<and> length vs \<le> 1 \<and>
        (\<forall>v\<in>set vs. us_role v = ''admin'' \<and> Some (us_password_hash v) = dw_hash (ho_draw H) (seed_password (ho_vars H))))"
    and "seeding = Some s \<Longrightarrow> \<exists>vs. d = d0\<lparr>db_clients := db_clients d0 @ map (seeded_client (sl_libs (ho_seed H)) (ho_draw H) now) (se_clients s),
      db_users := db_users d0 @ vs\<rparr> \<and> map us_username vs = map su_username (se_users s) \<and> (\<forall>v\<in>set vs. us_role v = ''user'')"
proof -
  show "seeding = None \<longleftrightarrow> seeded = None"
    using assms by (auto simp: provision_def result_simps split: option.splits prod.splits sum.splits)
  show "(insecure_defaults_allowed (ho_vars H) \<or> seed_password (ho_vars H) \<noteq> INSECURE_DEFAULT_SEED_PASSWORD) \<and>
      (\<exists>vs. d = d0\<lparr>db_users := db_users d0 @ vs\<rparr> \<and> length vs \<le> 1 \<and>
        (\<forall>v\<in>set vs. us_role v = ''admin'' \<and> Some (us_password_hash v) = dw_hash (ho_draw H) (seed_password (ho_vars H))))" if "seeding = None"
    using assms that by (auto simp: provision_def result_simps dest!: seed_admin_shape)
  show "\<exists>vs. d = d0\<lparr>db_clients := db_clients d0 @ map (seeded_client (sl_libs (ho_seed H)) (ho_draw H) now) (se_clients s),
      db_users := db_users d0 @ vs\<rparr> \<and> map us_username vs = map su_username (se_users s) \<and> (\<forall>v\<in>set vs. us_role v = ''user'')" if "seeding = Some s"
    using assms that by (auto simp: provision_def split: prod.splits sum.splits dest!: apply_seed_shape)
qed

lemma application_fields [simp]:
  "st_config (application H now c seeded key d) = c" "sv_db (st_server (application H now c seeded key d)) = d"
  "st_applied (application H now c seeded key d) = seeded"
  "st_ip_limiter (application H now c seeded key d) = ip_limiter (ho_redis H) (seeded \<noteq> None) c"
  "st_penalty (application H now c seeded key d) = penalty_limiter (ho_redis H) (seeded \<noteq> None) c"
  "st_resilience (application H now c seeded key d) = resilience_of c"
  "oc_issuer (st_oidc (application H now c seeded key d)) = issuer_of (cf_server c)"
  by (simp_all add: application_def Let_def oidc_of_def id_token_settings_def)

lemma with_issuer_fields [simp]: "cf_jwt (with_issuer seeding c) = cf_jwt c" "cf_database (with_issuer seeding c) = cf_database c"
  "cf_resilience (with_issuer seeding c) = cf_resilience c"
  by (simp_all add: with_issuer_def split: option.split)

lemma validated_secret:
  "validate_for_production vars c = Inr () \<Longrightarrow> \<not> insecure_defaults_allowed vars \<Longrightarrow>
   jc_secret (cf_jwt c) \<noteq> INSECURE_DEFAULT_JWT_SECRET \<and> 32 \<le> length (jc_secret (cf_jwt c))"
  by (auto simp: validate_for_production_def split: if_splits)

lemma open_storage_opened: "open_storage H c = Inr d \<Longrightarrow> \<exists>ch. ho_open H ch = Inr d"
  by (cases "storage_of (ho_build H) (cf_database c)"; cases "ho_open H (fst (projr (storage_of (ho_build H) (cf_database c))))")
    (auto simp: open_storage_def)

text \<open>An ordinary start from the storage \<open>d0\<close>, and one in conformance mode.\<close>
definition plain_start :: "host \<Rightarrow> started \<Rightarrow> db \<Rightarrow> bool" where
  "plain_start H S d0 =
     (seed_password (ho_vars H) \<noteq> INSECURE_DEFAULT_SEED_PASSWORD \<and>
      (\<exists>vs. sv_db (st_server S) = d0\<lparr>db_users := db_users d0 @ vs\<rparr> \<and> length vs \<le> 1 \<and>
         (\<forall>v\<in>set vs. us_role v = ''admin'' \<and> Some (us_password_hash v) = dw_hash (ho_draw H) (seed_password (ho_vars H)))))"

definition conformance_start :: "host \<Rightarrow> started \<Rightarrow> db \<Rightarrow> bool" where
  "conformance_start H S d0 =
     ((\<exists>v. ho_vars H ''OAUTH2_CONFORMANCE_MODE'' = Some v \<and> to_lowercase (trim v) \<in> {''1'', ''true''}) \<and>
      (\<forall>n\<in>set PROFILE_ENV_VARS. \<forall>v. ho_vars H n = Some v \<longrightarrow> to_lowercase (trim v) \<in> {[]} \<union> set NON_PRODUCTION_ENV_NAMES) \<and>
      is_in_memory_sqlite (da_url (cf_database (st_config S))) \<and> st_ip_limiter S = None \<and> st_penalty S = None \<and>
      (\<exists>s cs vs. sv_db (st_server S) = d0\<lparr>db_clients := db_clients d0 @ cs, db_users := db_users d0 @ vs\<rparr> \<and>
         validate_seed (sl_libs (ho_seed H)) s = Inr () \<and> map cl_client_id cs = map sd_client_id (se_clients s) \<and>
         map us_username vs = map su_username (se_users s) \<and> (\<forall>v\<in>set vs. us_role v = ''user'') \<and>
         oc_issuer (st_oidc S) = trim_slashes (se_issuer s)))"

lemma seeded_start:
  assumes g: "conformance_seed_from_env H c = Inr (Some s)" and p: "provision H now (Some s) d0 = (Inr seeded, d)"
    and S: "S = application H now (with_issuer (Some s) c) seeded key d"
  shows "conformance_start H S d0"
proof -
  note shape = provision_shape [OF p] and guard = seeding_guarded [OF g]
  from shape(1) obtain a where a: "seeded = Some a" by auto
  let ?cs = "map (seeded_client (sl_libs (ho_seed H)) (ho_draw H) now) (se_clients s)"
  obtain vs where d: "d = d0\<lparr>db_clients := db_clients d0 @ ?cs, db_users := db_users d0 @ vs\<rparr>"
    "map us_username vs = map su_username (se_users s)" "\<forall>v\<in>set vs. us_role v = ''user''"
    using shape(3) [OF refl] by blast
  have ids: "map cl_client_id ?cs = map sd_client_id (se_clients s)" by (simp add: seeded_client_def client_new_def Let_def)
  have issuer: "oc_issuer (st_oidc S) = trim_slashes (se_issuer s)" by (simp add: S with_issuer_def issuer_of_def opt_or_def)
  have "st_ip_limiter S = None" "st_penalty S = None" "is_in_memory_sqlite (da_url (cf_database (st_config S)))"
    using guard(2) by (simp_all add: S a ip_limiter_def penalty_limiter_def rate_limit_enablement_def Let_def)
  moreover have "\<exists>s cs vs. sv_db (st_server S) = d0\<lparr>db_clients := db_clients d0 @ cs, db_users := db_users d0 @ vs\<rparr> \<and>
         validate_seed (sl_libs (ho_seed H)) s = Inr () \<and> map cl_client_id cs = map sd_client_id (se_clients s) \<and>
         map us_username vs = map su_username (se_users s) \<and> (\<forall>v\<in>set vs. us_role v = ''user'') \<and>
         oc_issuer (st_oidc S) = trim_slashes (se_issuer s)"
    by (intro exI [of _ s] exI [of _ ?cs] exI [of _ vs] conjI guard(4) ids d(2,3) issuer) (simp add: S d(1))
  ultimately show ?thesis using guard(1,3) unfolding conformance_start_def by blast
qed


definition demo_host :: host where
  "demo_host = \<lparr>ho_vars = [''OAUTH2_JWT_SECRET'' \<mapsto> ''0123456789abcdef0123456789abcdef'', ''OAUTH2_SEED_PASSWORD'' \<mapsto> ''pw''],
     ho_hocon = Inl ''Configuration file not found'', ho_read = (\<lambda>_. None), ho_seed = demo_seed_lib, ho_draw = demo_seed_draw, ho_admin_uuid = ''a'',
     ho_build = \<lparr>sb_sqlx = True, sb_mongo = False\<rparr>, ho_open = (\<lambda>_. Inr db_empty), ho_hex_decode = (\<lambda>_. None), ho_cookie_key = Some,
     ho_events = \<lparr>eb_redis = False, eb_kafka = False, eb_rabbit = False, eb_connect = (\<lambda>_. False)\<rparr>, ho_redis = (\<lambda>_. False)\<rparr>"

lemma demo_host_starts: "\<exists>S. start_server demo_host 5 = Inr S \<and> st_applied S = None"
proof -
  let ?vars = "[''OAUTH2_JWT_SECRET'' \<mapsto> ''0123456789abcdef0123456789abcdef'', ''OAUTH2_SEED_PASSWORD'' \<mapsto> ''pw'']"
  let ?c = "from_env_fallback ?vars"
  have c: "config_default (ho_vars demo_host) (ho_hocon demo_host) = ?c" by (simp add: config_default_def from_hocon_path_def demo_host_def)
  have v: "validate_for_production (ho_vars demo_host) ?c = Inr ()"
    by (simp add: validate_for_production_def insecure_defaults_allowed_def jwt_from_env_def INSECURE_DEFAULT_JWT_SECRET_def demo_host_def)
  have g: "conformance_seed_from_env demo_host ?c = Inr None"
    by (simp add: conformance_seed_from_env_def mode_from_env_def demo_host_def)
  have o: "open_storage demo_host ?c = Inr db_empty"
    by (simp add: open_storage_def storage_of_def create_storage_with_pool_config_def is_mongo_def starts_with_def database_from_env_def demo_host_def)
  have "cf_session ?c = None" by (simp add: from_env_fallback_def load_defs)
  then have k: "session_key_of demo_host ?c = Inr None" by (simp add: session_key_of_def opt_or_def trimmed_def nonempty_def demo_host_def)
  obtain d where "provision demo_host 5 None db_empty = (Inr None, d)"
    by (simp add: provision_def seed_admin_def validate_seed_password_for_production_def seed_password_def INSECURE_DEFAULT_SEED_PASSWORD_def
      get_user_by_username_def save_user_def checked_def db_empty_def demo_host_def demo_seed_draw_def Let_def)
  then have "start_server demo_host 5 = Inr (application demo_host 5 ?c None None d)"
    unfolding start_server_def c Let_def by (simp add: v g o k with_issuer_def)
  then show ?thesis by simp
qed


section \<open>From the start on\<close>

lemma exec_all_Nil [simp]: "exec_all [] d = d"
  by (simp add: exec_all_def)

lemma apply_clients_statements: "apply_clients L W now cs d = (Inr u, d') \<Longrightarrow> \<exists>ops. d' = exec_all ops d"
proof (induction cs arbitrary: d)
  case (Cons c cs)
  then obtain d1 where h: "save_client (seeded_client L W now c) d = (Inr (), d1)" "apply_clients L W now cs d1 = (Inr u, d')"
    by (auto split: prod.splits sum.splits)
  from Cons.IH [OF h(2)] obtain ops where "d' = exec_all ops d1" by blast
  then show ?case using h(1) by (intro exI [of _ "SaveClient (seeded_client L W now c) # ops"]) (simp add: exec_all_Cons)
qed (auto intro: exI [of _ "[]"])

lemma apply_users_statements: "apply_users W now us d = (Inr u, d') \<Longrightarrow> \<exists>ops. d' = exec_all ops d"
proof (induction us arbitrary: d)
  case (Cons x us)
  then obtain h d1 where h: "save_user (seeded_user W now h x) d = (Inr (), d1)" "apply_users W now us d1 = (Inr u, d')"
    by (auto split: option.splits prod.splits sum.splits)
  from Cons.IH [OF h(2)] obtain ops where "d' = exec_all ops d1" by blast
  then show ?case using h(1) by (intro exI [of _ "SaveUser (seeded_user W now h x) # ops"]) (simp add: exec_all_Cons)
qed (auto intro: exI [of _ "[]"])

lemma provision_wf:
  assumes "provision H now seeding d0 = (Inr seeded, d)" "db_wf d0"
  shows "db_wf d"
proof (cases seeding)
  case None
  then have a: "seed_admin (ho_vars H) (dw_hash (ho_draw H)) now (ho_admin_uuid H) d0 = (Inr (), d)"
    using assms(1) by (auto simp: provision_def result_simps)
  have "d = d0 \<or> (\<exists>v. save_user v d0 = (Inr (), d))"
    using a by (auto simp: seed_admin_def result_simps Let_def split: option.splits prod.splits sum.splits)
  moreover have "db_wf (snd (save_user v d0))" for v using exec_all_wf [OF assms(2), of "[SaveUser v]"] by (simp add: exec_all_Cons)
  ultimately show ?thesis using assms(2) by (metis snd_conv)
next
  case (Some s)
  then obtain d1 where "apply_clients (sl_libs (ho_seed H)) (ho_draw H) now (se_clients s) d0 = (Inr (), d1)"
    "apply_users (ho_draw H) now (se_users s) d1 = (Inr (), d)"
    using assms(1) by (auto simp: provision_def apply_seed_def result_simps split: prod.splits sum.splits)
  then show ?thesis using apply_clients_statements apply_users_statements exec_all_wf assms(2) by metis
qed

text \<open>A key that signs for an algorithm and does not expire.\<close>
definition signs :: "key_set \<Rightarrow> algorithm \<Rightarrow> bool" where
  "signs ks alg = (\<exists>k\<in>set ks. sk_is_current k \<and> sk_algorithm k = alg \<and> sk_expires_at k = None)"

lemma rotate_signs:
  assumes "signs ks alg" "sk_is_current g \<and> sk_expires_at g = None"
  shows "signs (ks_rotate now ks g grace) alg"
proof (cases "sk_algorithm g = alg")
  case True
  then show ?thesis using assms(2) by (auto simp: signs_def ks_rotate_def Let_def)
next
  case False
  then show ?thesis using assms(1) by (force simp: signs_def ks_rotate_def Let_def set_update_where)
qed

lemma install_signs:
  "signs ks alg \<Longrightarrow> \<forall>g\<in>set gs. sk_is_current g \<and> sk_expires_at g = None \<Longrightarrow> signs (install_signing_keys now ks gs) alg"
  by (induction gs rule: rev_induct) (auto simp: install_snoc rotate_signs install_signing_keys_def [of _ _ "[]"])

lemma install_one_current: "one_current_per_alg ks \<Longrightarrow> one_current_per_alg (install_signing_keys now ks gs)"
  by (induction gs rule: rev_induct) (auto simp: install_snoc rotate_one_current install_signing_keys_def [of _ _ "[]"])

lemma seed_keys_current: "seed_keys W now s = Inr ks \<Longrightarrow> \<forall>k\<in>set ks. sk_is_current k \<and> sk_expires_at k = None"
  by (auto simp: seed_keys_def result_simps split: if_splits dest: generate_keys_current generated_key)

lemma initial_keyset_ok: "one_current_per_alg (initial_keyset now b oc)" "signs (initial_keyset now b oc) HS256"
  by (auto simp: initial_keyset_def one_current_per_alg_def count_where_def signs_def split: option.split)

lemma signs_current: "signs ks alg \<Longrightarrow> ks_current_for_alg t ks alg \<noteq> None"
  by (auto simp: signs_def ks_current_for_alg_def find_None_iff_all key_is_active_def)

lemma provision_keys:
  assumes "provision H now seeding d0 = (Inr seeded, d)"
  shows "one_current_per_alg (keyset_of now oc seeded) \<and> signs (keyset_of now oc seeded) HS256"
proof (cases seeded)
  case None
  then show ?thesis using initial_keyset_ok by (simp add: keyset_of_def)
next
  case (Some a)
  then obtain s where "apply_seed (sl_libs (ho_seed H)) (ho_draw H) now s d0 = (Inr a, d)"
    using assms by (auto simp: provision_def result_simps split: option.splits prod.splits sum.splits)
  then have "seed_keys (ho_draw H) now s = Inr (ap_signing_keys a)" by (auto simp: apply_seed_def result_simps)
  from seed_keys_current [OF this] show ?thesis
    using Some initial_keyset_ok by (simp add: keyset_of_def install_one_current install_signs)
qed



section \<open>Settings with unexpected effects\<close>

text \<open>The variable that should switch the circuit breaker off has no effect.\<close>
theorem breaker_not_disabled:
  assumes "start_server H now = Inr S" "ho_hocon H = Inl e" "ho_vars H ''OAUTH2_RESILIENCE_ENABLED'' = Some ''true''"
    and "ho_vars H ''OAUTH2_RESILIENCE_CB_ENABLED'' = Some ''false''"
  shows "\<exists>lim. st_resilience S = (lim, None, Some cb_config_default)"
  using assms(1)
proof (rule start_parts)
  fix seeding d0 seeded d k
  assume S: "S = application H now (with_issuer seeding (config_default (ho_vars H) (ho_hocon H))) seeded k d"
  have "config_default (ho_vars H) (ho_hocon H) = from_env_fallback (ho_vars H)" by (simp add: assms(2) config_default_def from_hocon_path_def)
  then show ?thesis using assms(3,4)
    by (simp add: S resilience_of_def resilience_from_env_def parsed_def parse_bool_def circuit_breaker_default_def cb_config_default_def Let_def)
qed

text \<open>The address in the log shows nothing of the credentials, as long as they have no separator in them ...\<close>
theorem redaction_hides_credentials:
  assumes "CHR '':'' \<notin> set scheme" "set credentials \<inter> {CHR ''@'', CHR ''/'', CHR ''?'', CHR ''#''} = {}"
  shows "redact_db_url (scheme @ ''://'' @ credentials @ ''@'' @ host) = scheme @ ''://***@'' @ host"
proof -
  have a: "split_at_text ''://'' (scheme @ ''://'' @ r) = Some (scheme, r)" for r using assms(1) by (induction scheme) auto
  have b: "CHR ''@'' \<notin> set w \<Longrightarrow> split_once (CHR ''@'') (w @ CHR ''@'' # r) = Some (w, r)" for w r by (induction w) auto
  have "redact_db_url (scheme @ ''://'' @ credentials @ CHR ''@'' # host) = scheme @ ''://***@'' @ host"
    unfolding redact_db_url_def a using b [of credentials host] assms(2) by (auto simp: list_ex_iff)
  then show ?thesis by simp
qed

text \<open>... but a password with an at sign shows its end, and one with a slash shows entirely.\<close>
theorem redaction_leaks:
  "redact_db_url ''postgres://u:p@ss@db/app'' = ''postgres://***@ss@db/app''"
  "redact_db_url ''postgres://u:p/ss@db/app'' = ''postgres://u:p/ss@db/app''"
  by (simp_all add: redact_db_url_def)

text \<open>An at sign after the host is taken for the end of the credentials.\<close>
theorem span_host_wrong: "derive_db_span_attrs ''mongodb://host/app?appName=a@b'' = (None, Some ''b'')"
  by (simp add: derive_db_span_attrs_def strip_prefix_opt_def opt_or_def network_db_attrs_def rsplit_once_def before_query_def trim_slashes_def)

end
