(* ===== verification/Redis_Limiter.thy ===== *)
theory Redis_Limiter
  imports Rate_Limit
begin

text \<open>
  The rate limiter on Redis (\<open>oauth2-ratelimit/src/redis.rs\<close>): one counter per key, with an expiry that is the
  end of a fixed window, changed by one atomic script.  The commands of Redis are the record \<open>redis\<close>; what
  their documentation says of them is the predicate \<open>redis_documented\<close>, stated for the entry that a key has at an
  instant, its value and its deadline.
\<close>

section \<open>The script and the check\<close>

record 'r redis =
  re_incr :: "instant \<Rightarrow> string \<Rightarrow> 'r \<Rightarrow> int \<times> 'r"
  re_expire :: "instant \<Rightarrow> string \<Rightarrow> int \<Rightarrow> 'r \<Rightarrow> 'r"
  re_ttl :: "instant \<Rightarrow> string \<Rightarrow> 'r \<Rightarrow> int"
  re_conversion_error :: "int \<Rightarrow> string"

record redis_limiter =
  rw_max_requests :: "32 word"
  rw_window_secs :: "64 word"

definition window_script :: "'r redis \<Rightarrow> instant \<Rightarrow> string \<Rightarrow> int \<Rightarrow> 'r \<Rightarrow> (int \<times> int) \<times> 'r" where
  "window_script R now key window st =
     (let (n, st1) = re_incr R now key st;
          st2 = (if n = 1 then re_expire R now key window st1 else st1);
          ttl = re_ttl R now key st2
      in if ttl < 0 then ((n, window), re_expire R now key window st2) else ((n, ttl), st2))"

definition redis_key :: "string \<Rightarrow> string" where
  "redis_key key = ''ratelimit:'' @ key"

text \<open>\<open>failure\<close> is the error of a script that could not run.  A counter that does not fit 32 bits is an error too,
  with the message \<open>re_conversion_error\<close> of the client library.\<close>
definition redis_check ::
  "redis_limiter \<Rightarrow> 'r redis \<Rightarrow> string option \<Rightarrow> instant \<Rightarrow> instant \<Rightarrow> string \<Rightarrow> 'r \<Rightarrow> (string + rate_limit_result) \<times> 'r" where
  "redis_check l R failure now wall key st =
     (case failure of
        Some e \<Rightarrow> (Inl (''Redis Lua script error: '' @ e), st)
      | None \<Rightarrow>
          (case window_script R now (redis_key key) (as_i64 (uint (rw_window_secs l))) st of
             ((n, ttl), st') \<Rightarrow>
               if n < 0 \<or> 2 ^ 32 \<le> n then (Inl (''Redis Lua script error: '' @ re_conversion_error R n), st')
               else
                 let allowed = n \<le> uint (rw_max_requests l) in
                 (Inr \<lparr>rl_allowed = allowed, rl_remaining = (if allowed then rw_max_requests l - of_int n else 0), rl_limit = rw_max_requests l,
                    rl_reset_at = wall + secs (max ttl 0), rl_retry_after = (if allowed then None else Some (secs (max ttl 1)))\<rparr>, st')))"

section \<open>What Redis promises\<close>

type_synonym entry = "(int \<times> instant option) option"

definition expire_entry :: "instant \<Rightarrow> int \<Rightarrow> entry \<Rightarrow> entry" where
  "expire_entry now s v = (if s \<le> 0 then None else map_option (\<lambda>(n, _). (n, Some (now + secs s))) v)"

text \<open>\<open>look st t k\<close> is the entry of \<open>k\<close> at \<open>t\<close> if no command intervenes.  \<open>INCR\<close> starts at one and keeps the deadline, \<open>EXPIRE\<close> sets it, or
  deletes the key if the time is not positive, \<open>TTL\<close> is negative exactly for a key that is missing or has no deadline, and a key
  disappears at its deadline.\<close>
definition redis_documented :: "'r redis \<Rightarrow> ('r \<Rightarrow> instant \<Rightarrow> string \<Rightarrow> entry) \<Rightarrow> bool" where
  "redis_documented R look =
     ((\<forall>now k st. let v = look st now k; n = (case v of None \<Rightarrow> 1 | Some (m, _) \<Rightarrow> m + 1) in
         fst (re_incr R now k st) = n \<and> look (snd (re_incr R now k st)) now k = Some (n, Option.bind v snd) \<and>
         (\<forall>k'. k' \<noteq> k \<longrightarrow> look (snd (re_incr R now k st)) now k' = look st now k')) \<and>
      (\<forall>now k s st. look (re_expire R now k s st) now k = expire_entry now s (look st now k) \<and>
         (\<forall>k'. k' \<noteq> k \<longrightarrow> look (re_expire R now k s st) now k' = look st now k')) \<and>
      (\<forall>now k st. re_ttl R now k st < 0 \<longleftrightarrow> Option.bind (look st now k) snd = None) \<and>
      (\<forall>st now t k. now \<le> t \<longrightarrow> look st t k =
         (case look st now k of Some (n, Some dl) \<Rightarrow> if t < dl then Some (n, Some dl) else None | v \<Rightarrow> v)))"

section \<open>Runs\<close>

text \<open>A request: when, for which key, and whether Redis fails.\<close>
record redis_event =
  rv_time :: instant
  rv_key :: string
  rv_failure :: "string option"

fun redis_admitted :: "redis_limiter \<Rightarrow> 'r redis \<Rightarrow> string \<Rightarrow> redis_event list \<Rightarrow> 'r \<Rightarrow> nat" where
  "redis_admitted l R k [] st = 0"
| "redis_admitted l R k (e # es) st =
     (case redis_check l R (rv_failure e) (rv_time e) (rv_time e) (rv_key e) st of
        (r, st') \<Rightarrow> (if rv_key e = k \<and> (case r of Inr a \<Rightarrow> rl_allowed a | Inl _ \<Rightarrow> False) then 1 else 0) + redis_admitted l R k es st')"

section \<open>The window of a key\<close>

lemma redis_incr:
  assumes "redis_documented R look"
  shows "fst (re_incr R now k st) = (case look st now k of None \<Rightarrow> 1 | Some (m, _) \<Rightarrow> m + 1)"
    "look (snd (re_incr R now k st)) now k = Some (fst (re_incr R now k st), Option.bind (look st now k) snd)"
    "k' \<noteq> k \<Longrightarrow> look (snd (re_incr R now k st)) now k' = look st now k'"
  using assms unfolding redis_documented_def Let_def by metis+

lemma redis_expire:
  assumes "redis_documented R look"
  shows "look (re_expire R now k s st) now k = expire_entry now s (look st now k)"
    "k' \<noteq> k \<Longrightarrow> look (re_expire R now k s st) now k' = look st now k'"
  using assms unfolding redis_documented_def by metis+

lemma redis_ttl: "redis_documented R look \<Longrightarrow> re_ttl R now k st < 0 \<longleftrightarrow> Option.bind (look st now k) snd = None"
  unfolding redis_documented_def by metis

lemma redis_later:
  "redis_documented R look \<Longrightarrow> now \<le> t \<Longrightarrow>
   look st t k = (case look st now k of Some (n, Some dl) \<Rightarrow> if t < dl then Some (n, Some dl) else None | v \<Rightarrow> v)"
  unfolding redis_documented_def by blast

text \<open>One script: a missing key opens a window, a present one counts on.\<close>
lemma script_opens:
  assumes D: "redis_documented R look" and "look st now k = None" "0 < w"
  shows "fst (fst (window_script R now k w st)) = 1 \<and> look (snd (window_script R now k w st)) now k = Some (1, Some (now + secs w))"
proof -
  obtain st1 where i: "re_incr R now k st = (1, st1)" "look st1 now k = Some (1, None)"
    using redis_incr(1,2) [OF D, where now = now and k = k and st = st] assms(2) by (cases "re_incr R now k st") auto
  then have e: "look (re_expire R now k w st1) now k = Some (1, Some (now + secs w))"
    using redis_expire(1) [OF D, where now = now and k = k and s = w and st = st1] assms(3) by (simp add: expire_entry_def)
  then have "\<not> re_ttl R now k (re_expire R now k w st1) < 0" using redis_ttl [OF D] by simp
  with i e show ?thesis by (simp add: window_script_def Let_def)
qed

lemma script_counts:
  assumes D: "redis_documented R look" and "look st now k = Some (n, Some dl)" "0 < n"
  shows "fst (fst (window_script R now k w st)) = n + 1 \<and> look (snd (window_script R now k w st)) now k = Some (n + 1, Some dl)"
proof -
  obtain st1 where i: "re_incr R now k st = (n + 1, st1)" "look st1 now k = Some (n + 1, Some dl)"
    using redis_incr(1,2) [OF D, where now = now and k = k and st = st] assms(2) by (cases "re_incr R now k st") auto
  then have "\<not> re_ttl R now k st1 < 0" using redis_ttl [OF D] by simp
  with i assms(3) show ?thesis by (simp add: window_script_def Let_def)
qed

lemma script_other:
  assumes D: "redis_documented R look" and "k' \<noteq> k"
  shows "look (snd (window_script R now k w st)) now k' = look st now k'"
proof -
  obtain n st1 where i: "re_incr R now k st = (n, st1)" by (cases "re_incr R now k st")
  then have "look st1 now k' = look st now k'" using redis_incr(3) [OF D assms(2), where now = now and st = st] by simp
  then show ?thesis using redis_expire(2) [OF D assms(2)] by (simp add: window_script_def Let_def i)
qed

text \<open>The state of a key after \<open>j\<close> windows, the last one ending at \<open>L\<close>, with \<open>a\<close> admissions in all.\<close>
definition window_state :: "('r \<Rightarrow> instant \<Rightarrow> string \<Rightarrow> entry) \<Rightarrow> string \<Rightarrow> int \<Rightarrow> int \<Rightarrow> instant \<Rightarrow> instant \<Rightarrow> int \<Rightarrow> int \<Rightarrow> 'r \<Rightarrow> bool" where
  "window_state look k m w t0 t j a st =
     (\<exists>L n. look st t (redis_key k) = (if t < L then Some (n, Some L) else None) \<and> 0 < n \<and> 0 \<le> j \<and>
        t0 + j * secs w \<le> L \<and> (j = 0 \<longrightarrow> L = t0) \<and> (0 < j \<longrightarrow> L - secs w \<le> t) \<and> a \<le> j * m \<and> (t < L \<longrightarrow> a \<le> (j - 1) * m + n))"

lemma window_state_later:
  assumes D: "redis_documented R look" and "window_state look k m w t0 t j a st" "t \<le> t'" 
  shows "window_state look k m w t0 t' j a st"
proof -
  from assms(2) obtain L n where s: "look st t (redis_key k) = (if t < L then Some (n, Some L) else None)" "0 < n" "0 \<le> j"
    "t0 + j * secs w \<le> L" "j = 0 \<longrightarrow> L = t0" "0 < j \<longrightarrow> L - secs w \<le> t" "a \<le> j * m" "t < L \<longrightarrow> a \<le> (j - 1) * m + n"
    by (auto simp: window_state_def)
  have "look st t' (redis_key k) = (if t' < L then Some (n, Some L) else None)"
    using redis_later [OF D assms(3), of st "redis_key k"] s(1) assms(3) by (auto split: if_splits)
  with s assms(3) show ?thesis unfolding window_state_def by (intro exI [of _ L] exI [of _ n]) auto
qed

text \<open>The number of windows is bounded by the time.\<close>
lemma window_state_bound:
  assumes "window_state look k m w t0 t j a st" "0 < w" "0 \<le> m" "t0 \<le> t"
  shows "a \<le> m * (1 + (t - t0) div secs w)"
proof -
  have w: "0 < secs w" using assms(2) by (simp add: secs_def)
  from assms(1) have j: "0 \<le> j" "a \<le> j * m" "0 < j \<longrightarrow> t0 + j * secs w - secs w \<le> t" by (auto simp: window_state_def)
  have "j \<le> 1 + (t - t0) div secs w"
  proof (cases "0 < j")
    case True
    then have le: "(j - 1) * secs w \<le> t - t0" using j(3) by (simp add: algebra_simps)
    have "j - 1 \<le> (t - t0) div secs w" using zdiv_mono1 [OF le w] w by simp
    then show ?thesis by simp
  next
    case False
    moreover have "0 \<le> (t - t0) div secs w" using w assms(4) by (simp add: pos_imp_zdiv_nonneg_iff)
    ultimately show ?thesis using j(1) by simp
  qed
  then have "j * m \<le> m * (1 + (t - t0) div secs w)" using assms(3) by (metis mult.commute mult_left_mono)
  with j(2) show ?thesis by simp
qed

lemma redis_check_script:
  assumes "window_script R now (redis_key key) (as_i64 (uint (rw_window_secs l))) st = ((n, t), st')" "0 < n"
  shows "\<exists>r. redis_check l R None now wall key st = (r, st') \<and> ((case r of Inr b \<Rightarrow> rl_allowed b | Inl _ \<Rightarrow> False) \<longrightarrow> n \<le> uint (rw_max_requests l))"
  using assms by (auto simp: redis_check_def Let_def)

lemma window_step:
  assumes D: "redis_documented R look" and st: "window_state look k (uint (rw_max_requests l)) w t0 t j a st"
    and w: "w = as_i64 (uint (rw_window_secs l))" "0 < w" and c: "redis_check l R None t wall k st = (r, st')" and le: "t0 \<le> t"
  defines "x \<equiv> (if (case r of Inr b \<Rightarrow> rl_allowed b | Inl _ \<Rightarrow> False) then 1 else 0 :: int)"
  shows "\<exists>j'. window_state look k (uint (rw_max_requests l)) w t0 t j' (a + x) st'"
proof -
  let ?m = "uint (rw_max_requests l)"
  obtain L n where s: "look st t (redis_key k) = (if t < L then Some (n, Some L) else None)" "0 < n" "0 \<le> j" "t0 + j * secs w \<le> L"
    "j = 0 \<longrightarrow> L = t0" "0 < j \<longrightarrow> L - secs w \<le> t" "a \<le> j * ?m" "t < L \<longrightarrow> a \<le> (j - 1) * ?m + n"
    using st by (auto simp: window_state_def)
  show ?thesis
  proof (cases "t < L")
    case True
    obtain ttl st1 where sc: "window_script R t (redis_key k) w st = ((n + 1, ttl), st1)" "look st1 t (redis_key k) = Some (n + 1, Some L)"
      using script_counts [OF D, of st t "redis_key k" n L w] s(1,2) True by (cases "window_script R t (redis_key k) w st") auto
    then have "st' = st1" "x = 1 \<longrightarrow> n + 1 \<le> ?m" using redis_check_script [of R t k l st "n + 1" ttl st1 wall] s(2) w(1) c by (auto simp: x_def)
    moreover have "0 < j" using s(3,5) True le by (cases "j = 0") auto
    ultimately show ?thesis using s sc(2) True unfolding window_state_def
      by (intro exI [of _ j] exI [of _ L] exI [of _ "n + 1"]) (auto simp: x_def algebra_simps)
  next
    case False
    obtain ttl st1 where sc: "window_script R t (redis_key k) w st = ((1, ttl), st1)" "look st1 t (redis_key k) = Some (1, Some (t + secs w))"
      using script_opens [OF D, of st t "redis_key k" w] s(1) w(2) False by (cases "window_script R t (redis_key k) w st") auto
    then have "st' = st1" "x = 1 \<longrightarrow> 1 \<le> ?m" using redis_check_script [of R t k l st 1 ttl st1 wall] w(1) c by (auto simp: x_def)
    moreover from this have "0 \<le> x" "x \<le> 1" "x \<le> ?m" by (auto simp: x_def)
    moreover have "0 < secs w" using w(2) by (simp add: secs_def)
    moreover have "t0 + (j + 1) * secs w \<le> t + secs w" "a + x \<le> (j + 1) * ?m" "a + x \<le> (j + 1 - 1) * ?m + 1"
      using s(4,7) False calculation by (simp_all add: distrib_right)
    ultimately show ?thesis using s(3) sc(2) unfolding window_state_def
      by (intro exI [of _ "j + 1"] exI [of _ "t + secs w"] exI [of _ 1]) simp
  qed
qed

text \<open>A request for another key, or one that Redis did not answer, leaves the window alone.\<close>
lemma window_other:
  assumes D: "redis_documented R look" and st: "window_state look k m w t0 t j a st"
    and c: "redis_check l R failure t wall k' st = (r, st')" "failure \<noteq> None \<or> k' \<noteq> k"
  shows "window_state look k m w t0 t j a st'"
proof (cases failure)
  case None
  let ?s = "window_script R t (redis_key k') (as_i64 (uint (rw_window_secs l))) st"
  from c(1) None have "st' = snd ?s" by (auto simp: redis_check_def Let_def split: prod.splits if_splits)
  moreover have "redis_key k \<noteq> redis_key k'" using c(2) None by (simp add: redis_key_def)
  ultimately have "look st' t (redis_key k) = look st t (redis_key k)" using script_other [OF D] by simp
  with st show ?thesis by (simp add: window_state_def)
next
  case (Some e)
  with c(1) st show ?thesis by (simp add: redis_check_def)
qed

lemma window_event:
  assumes D: "redis_documented R look" and st: "window_state look k (uint (rw_max_requests l)) w t0 (rv_time e) j a st"
    and w: "w = as_i64 (uint (rw_window_secs l))" "0 < w" and le: "t0 \<le> rv_time e"
    and c: "redis_check l R (rv_failure e) (rv_time e) (rv_time e) (rv_key e) st = (r, st')"
  shows "\<exists>j'. window_state look k (uint (rw_max_requests l)) w t0 (rv_time e) j'
           (a + (if rv_key e = k \<and> (case r of Inr b \<Rightarrow> rl_allowed b | Inl _ \<Rightarrow> False) then 1 else 0)) st'"
proof (cases "rv_failure e = None \<and> rv_key e = k")
  case True
  with c have "redis_check l R None (rv_time e) (rv_time e) k st = (r, st')" by simp
  from window_step [OF D st w this le] True show ?thesis by simp
next
  case False
  then have "\<not> (rv_key e = k \<and> (case r of Inr b \<Rightarrow> rl_allowed b | Inl _ \<Rightarrow> False))"
    using c by (auto simp: redis_check_def split: option.splits)
  moreover have "window_state look k (uint (rw_max_requests l)) w t0 (rv_time e) j a st'"
    using window_other [OF D st c] False by (cases "rv_failure e") auto
  ultimately show ?thesis by (intro exI [of _ j]) auto
qed

lemma window_run:
  assumes D: "redis_documented R look" and w: "w = as_i64 (uint (rw_window_secs l))" "0 < w"
  shows "window_state look k (uint (rw_max_requests l)) w t0 t j a st \<Longrightarrow> t0 \<le> t \<Longrightarrow> sorted_wrt (\<le>) (t # map rv_time es @ [tn]) \<Longrightarrow>
    a + int (redis_admitted l R k es st) \<le> uint (rw_max_requests l) * (1 + (tn - t0) div secs w)"
proof (induction es arbitrary: t j a st)
  case Nil
  then have "window_state look k (uint (rw_max_requests l)) w t0 tn j a st" using window_state_later [OF D] by simp
  from window_state_bound [OF this w(2)] Nil(2,3) show ?case by simp
next
  case (Cons e es)
  obtain r st' where c: "redis_check l R (rv_failure e) (rv_time e) (rv_time e) (rv_key e) st = (r, st')"
    by (cases "redis_check l R (rv_failure e) (rv_time e) (rv_time e) (rv_key e) st")
  let ?x = "if rv_key e = k \<and> (case r of Inr b \<Rightarrow> rl_allowed b | Inl _ \<Rightarrow> False) then 1 else 0 :: nat"
  have le: "t \<le> rv_time e" "t0 \<le> rv_time e" using Cons.prems(2,3) by auto
  obtain j' where "window_state look k (uint (rw_max_requests l)) w t0 (rv_time e) j' (a + int ?x) st'"
    using window_event [OF D window_state_later [OF D Cons.prems(1) le(1)] w le(2) c] by (auto split: if_splits)
  then have "a + int ?x + int (redis_admitted l R k es st') \<le> uint (rw_max_requests l) * (1 + (tn - t0) div secs w)"
    using Cons.IH le(2) Cons.prems(3) by simp
  then show ?case by (simp add: c)
qed

text \<open>C22. The Redis limiter admits at most \<open>max_requests\<close> per window: if the key \<open>k\<close> is absent at \<open>t0\<close>, then over any sequence of requests
  between \<open>t0\<close> and \<open>tn\<close>, for \<open>k\<close> and for other keys, answered by Redis or failed, at most \<open>max_requests\<close> times the number of windows that can
  have begun are admitted for \<open>k\<close>.  The window is positive as an \<open>i64\<close>, and Redis does what its documentation says.\<close>
theorem redis_admitted_bounded:
  assumes "redis_documented R look" "0 < as_i64 (uint (rw_window_secs l))" "look st t0 (redis_key k) = None"
    and "sorted_wrt (\<le>) (t0 # map rv_time es @ [tn])"
  shows "int (redis_admitted l R k es st) \<le> uint (rw_max_requests l) * (1 + (tn - t0) div secs (as_i64 (uint (rw_window_secs l))))"
proof -
  have "window_state look k (uint (rw_max_requests l)) (as_i64 (uint (rw_window_secs l))) t0 t0 0 0 st"
    unfolding window_state_def using assms(3) by (intro exI [of _ t0] exI [of _ 1]) simp
  from window_run [OF assms(1) refl assms(2) this _ assms(4)] show ?thesis by simp
qed

text \<open>A key that is left over without a deadline gets one.\<close>
theorem script_repairs:
  assumes D: "redis_documented R look" and "look st now k = Some (n, None)" "0 < n" "0 < w"
  shows "look (snd (window_script R now k w st)) now k = Some (n + 1, Some (now + secs w))"
proof -
  obtain st1 where i: "re_incr R now k st = (n + 1, st1)" "look st1 now k = Some (n + 1, None)"
    using redis_incr(1,2) [OF D, where now = now and k = k and st = st] assms(2) by (cases "re_incr R now k st") auto
  then have "re_ttl R now k st1 < 0" using redis_ttl [OF D] by simp
  with i assms(3,4) redis_expire(1) [OF D, where now = now and k = k and s = w and st = st1]
  show ?thesis by (simp add: window_script_def Let_def expire_entry_def)
qed

text \<open>With a window of zero seconds \<open>EXPIRE\<close> deletes the counter at once: every request is admitted, however many there are.\<close>
theorem zero_window_unlimited:
  assumes D: "redis_documented R look" and l: "rw_window_secs l = 0" "0 < rw_max_requests l" and st: "look st now (redis_key k) = None"
  shows "(\<exists>r. fst (redis_check l R None now wall k st) = Inr r \<and> rl_allowed r) \<and>
    look (snd (redis_check l R None now wall k st)) now (redis_key k) = None"
proof -
  obtain st1 where i: "re_incr R now (redis_key k) st = (1, st1)"
    using redis_incr(1) [OF D, where now = now and k = "redis_key k" and st = st] st by (cases "re_incr R now (redis_key k) st") auto
  have gone: "look (re_expire R now (redis_key k) 0 s) now (redis_key k) = None" for s
    using redis_expire(1) [OF D, where now = now and k = "redis_key k" and s = 0] by (simp add: expire_entry_def)
  then have "re_ttl R now (redis_key k) (re_expire R now (redis_key k) 0 st1) < 0" using redis_ttl [OF D] by simp
  moreover have "1 \<le> uint (rw_max_requests l)" using l(2) by (metis word_less_def uint_0_eq zless_imp_add1_zle add_0)
  ultimately show ?thesis using i l(1) gone by (simp add: redis_check_def window_script_def Let_def as_i64_def)
qed

section \<open>An instance\<close>

text \<open>A store that keeps a value and a deadline per key, with every command as documented.\<close>
type_synonym redis_store = "string \<Rightarrow> entry"

definition store_look :: "redis_store \<Rightarrow> instant \<Rightarrow> string \<Rightarrow> entry" where
  "store_look st t k = (case st k of Some (n, Some dl) \<Rightarrow> if t < dl then Some (n, Some dl) else None | v \<Rightarrow> v)"

definition store_redis :: "redis_store redis" where
  "store_redis =
     \<lparr>re_incr = (\<lambda>now k st. let v = store_look st now k; n = (case v of None \<Rightarrow> 1 | Some (m, _) \<Rightarrow> m + 1) in
        (n, st(k := Some (n, Option.bind v snd)))),
      re_expire = (\<lambda>now k s st. st(k := expire_entry now s (store_look st now k))),
      re_ttl = (\<lambda>now k st. case store_look st now k of None \<Rightarrow> - 2 | Some (_, None) \<Rightarrow> - 1 | Some (_, Some dl) \<Rightarrow> (dl - now) div secs 1),
      re_conversion_error = (\<lambda>_. [])\<rparr>"

lemma store_look_alive: "store_look st now k = Some (n, Some dl) \<Longrightarrow> now < dl"
  by (auto simp: store_look_def split: option.splits if_splits)

lemma store_look_at: "st k = v \<Longrightarrow> (\<And>n dl. v = Some (n, Some dl) \<Longrightarrow> now < dl) \<Longrightarrow> store_look st now k = v"
  by (auto simp: store_look_def split: option.splits)

lemma store_documented: "redis_documented store_redis store_look"
  unfolding redis_documented_def
proof (intro conjI allI)
  fix now k and st :: redis_store
  let ?n = "case store_look st now k of None \<Rightarrow> 1 | Some (m, _) \<Rightarrow> m + 1"
  have "store_look (st(k := Some (?n, Option.bind (store_look st now k) snd))) now k = Some (?n, Option.bind (store_look st now k) snd)"
    by (rule store_look_at) (auto simp: bind_eq_Some_conv dest: store_look_alive)
  then show "let v = store_look st now k; n = (case v of None \<Rightarrow> 1 | Some (m, _) \<Rightarrow> m + 1) in
      fst (re_incr store_redis now k st) = n \<and> store_look (snd (re_incr store_redis now k st)) now k = Some (n, Option.bind v snd) \<and>
      (\<forall>k'. k' \<noteq> k \<longrightarrow> store_look (snd (re_incr store_redis now k st)) now k' = store_look st now k')"
    by (simp add: store_redis_def Let_def store_look_def [where k = "_ :: string" and st = "st(_ := _)"] del: fun_upd_apply)
      (simp add: store_look_def)
next
  fix now k s and st :: redis_store
  show "store_look (re_expire store_redis now k s st) now k = expire_entry now s (store_look st now k)"
    by (auto simp: store_redis_def expire_entry_def secs_def intro!: store_look_at)
next
  fix now k s k' and st :: redis_store
  show "k' \<noteq> k \<longrightarrow> store_look (re_expire store_redis now k s st) now k' = store_look st now k'"
    by (simp add: store_redis_def store_look_def)
next
  fix now k and st :: redis_store
  show "(re_ttl store_redis now k st < 0) = (Option.bind (store_look st now k) snd = None)"
    using store_look_alive [of st now k]
    by (auto simp: store_redis_def secs_def pos_imp_zdiv_nonneg_iff not_less less_imp_le split: option.splits)
next
  fix st :: redis_store and now t k
  show "now \<le> t \<longrightarrow> store_look st t k =
      (case store_look st now k of Some (n, Some dl) \<Rightarrow> if t < dl then Some (n, Some dl) else None | v \<Rightarrow> v)"
    by (auto simp: store_look_def split: option.splits)
qed

theorem redis_admitted_bounded_witness:
  "int (redis_admitted \<lparr>rw_max_requests = 2, rw_window_secs = 60\<rparr> store_redis ''k''
      (map (\<lambda>t. \<lparr>rv_time = secs t, rv_key = ''k'', rv_failure = None\<rparr>) [0, 10, 20, 70]) Map.empty) \<le>
     2 * (1 + (secs 100 - 0) div secs 60) \<and>
   redis_admitted \<lparr>rw_max_requests = 2, rw_window_secs = 60\<rparr> store_redis ''k''
      (map (\<lambda>t. \<lparr>rv_time = secs t, rv_key = ''k'', rv_failure = None\<rparr>) [0, 10, 20, 70]) Map.empty = 3"
proof (rule conjI)
  let ?l = "\<lparr>rw_max_requests = 2, rw_window_secs = 60\<rparr>"
  have w: "as_i64 (uint (rw_window_secs ?l)) = 60" by (simp add: as_i64_def)
  show "int (redis_admitted ?l store_redis ''k''
      (map (\<lambda>t. \<lparr>rv_time = secs t, rv_key = ''k'', rv_failure = None\<rparr>) [0, 10, 20, 70]) Map.empty) \<le> 2 * (1 + (secs 100 - 0) div secs 60)"
    using redis_admitted_bounded [OF store_documented, of ?l Map.empty 0 "''k''"
      "map (\<lambda>t. \<lparr>rv_time = secs t, rv_key = ''k'', rv_failure = None\<rparr>) [0, 10, 20, 70]" "secs 100"]
    unfolding w by (simp add: store_look_def secs_def)
qed code_simp

end
