(* ===== verification/Middleware_Stack.thy ===== *)
theory Middleware_Stack
  imports Startup Redis_Limiter
begin

text \<open>
  The layers every request passes before it reaches a handler, in the order in which \<open>run\<close> of
  \<open>oauth2-server/src/lib.rs\<close> wraps them: HTTPS enforcement (\<open>middleware/https_redirect.rs\<close>), resilience, the denylist
  and the rate limiter.  The last three are those of the theories \<open>Resilience\<close>, \<open>Browser_Login\<close> and \<open>Rate_Limit\<close>; here they are
  composed, and the permits a request holds are followed until its response.
\<close>

section \<open>HTTPS enforcement\<close>

text \<open>A request as the layers see it: the parts of its URI, the headers that are text, and the two addresses the framework offers, the one of
  the connection and the one that \<open>realip_remote_addr\<close> takes from forwarding headers.\<close>
record web_request =
  wr_scheme :: "string option"
  wr_authority :: "string option"
  wr_path :: string
  wr_path_and_query :: "string option"
  wr_host :: "string option"
  wr_forwarded_proto :: "string option"
  wr_forwarded_for :: "string option"
  wr_peer_ip :: "string option"
  wr_realip :: "string option"

definition request_is_secure :: "bool \<Rightarrow> web_request \<Rightarrow> bool" where
  "request_is_secure trust_proxy q =
     (case (trust_proxy, wr_forwarded_proto q) of
        (True, Some v) \<Rightarrow> eq_ignore_case (trim (hd (split_char (CHR '','') v))) ''https''
      | _ \<Rightarrow> (case wr_scheme q of Some scheme \<Rightarrow> eq_ignore_case scheme ''https'' | None \<Rightarrow> False))"

definition to_https_url :: "web_request \<Rightarrow> string option" where
  "to_https_url q =
     map_option (\<lambda>host. ''https://'' @ host @ unwrap_or (wr_path_and_query q) ''/'')
       (opt_or (nonempty (wr_host q)) (nonempty (wr_authority q)))"

text \<open>The address to which a request is sent back, if it is.\<close>
definition https_redirect :: "bool \<Rightarrow> bool \<Rightarrow> web_request \<Rightarrow> string option" where
  "https_redirect enforce trust_proxy q = (if enforce \<and> \<not> request_is_secure trust_proxy q then to_https_url q else None)"

section \<open>The layers\<close>

record stack_config =
  sg_enforce_https :: bool
  sg_trust_proxy :: bool
  sg_breaker :: cb_config
  sg_limiting :: bool

definition exempt_paths :: "string list" where
  "exempt_paths = [''/health'', ''/ready'', ''/metrics'']"

text \<open>What comes of a request on its way in; the admission is what it holds of the resilience layer.\<close>
datatype entry_outcome =
    SentToHttps string
  | Shed admission
  | Denied admission oauth2_error
  | Throttled admission rl_decision
  | Reached admission rl_decision

definition limit_layer ::
  "stack_config \<Rightarrow> (string \<Rightarrow> 'l \<Rightarrow> (string + rate_limit_result) \<times> 'l) \<Rightarrow> web_request \<Rightarrow> 'l \<Rightarrow> rl_decision \<times> 'l" where
  "limit_layer G check q lm =
     (if sg_limiting G then
        rate_limit_call check \<lparr>rls_exempt_paths = exempt_paths, rls_trust_proxy_headers = sg_trust_proxy G\<rparr>
          \<lparr>ir_path = wr_path q, ir_forwarded_for = wr_forwarded_for q, ir_peer_ip = wr_peer_ip q\<rparr> lm
      else (Rate_Limit.Passed, lm))"

fun is_throttled :: "rl_decision \<Rightarrow> bool" where
  "is_throttled (TooManyRequests _ _ _) = True"
| "is_throttled _ = False"

definition enter ::
  "stack_config \<Rightarrow> (string \<Rightarrow> 'l \<Rightarrow> (string + rate_limit_result) \<times> 'l) \<Rightarrow> instant \<Rightarrow> instant \<Rightarrow> web_request \<Rightarrow> db \<Rightarrow> resil \<Rightarrow> 'l \<Rightarrow>
    entry_outcome \<times> resil \<times> 'l" where
  "enter G check now now' q d rs lm =
     (case https_redirect (sg_enforce_https G) (sg_trust_proxy G) q of
        Some url \<Rightarrow> (SentToHttps url, rs, lm)
      | None \<Rightarrow>
          (case admit (sg_breaker G) exempt_paths now now' (wr_path q) rs of
             (adm, rs1) \<Rightarrow>
               if adm \<noteq> Exempt \<and> \<not> is_forward adm then (Shed adm, rs1, lm)
               else case denylist_call now' (wr_realip q) d of
                   Inl e \<Rightarrow> (Denied adm e, rs1, lm)
                 | Inr _ \<Rightarrow>
                     (case limit_layer G check q lm of
                        (dec, lm1) \<Rightarrow> (if is_throttled dec then Throttled adm dec else Reached adm dec, rs1, lm1))))"

text \<open>The way out: the resilience layer learns the status and takes its permits back.\<close>
definition leave :: "stack_config \<Rightarrow> instant \<Rightarrow> entry_outcome \<Rightarrow> nat \<Rightarrow> resil \<Rightarrow> resil" where
  "leave G now x status rs =
     (case x of
        Denied adm _ \<Rightarrow> complete (sg_breaker G) now adm status rs
      | Throttled adm _ \<Rightarrow> complete (sg_breaker G) now adm status rs
      | Reached adm _ \<Rightarrow> complete (sg_breaker G) now adm status rs
      | _ \<Rightarrow> rs)"

text \<open>One request from its arrival at \<open>now\<close> to its response at \<open>now2\<close>; \<open>handler\<close> answers a status and changes the state behind the layers.\<close>
definition answer_request ::
  "stack_config \<Rightarrow> (string \<Rightarrow> 'l \<Rightarrow> (string + rate_limit_result) \<times> 'l) \<Rightarrow> instant \<Rightarrow> instant \<Rightarrow> instant \<Rightarrow> ('s \<Rightarrow> nat \<times> 's) \<Rightarrow> web_request \<Rightarrow> db \<Rightarrow>
    's \<Rightarrow> resil \<Rightarrow> 'l \<Rightarrow> nat \<times> 's \<times> resil \<times> 'l" where
  "answer_request G check now now' now2 handler q d z rs lm =
     (case enter G check now now' q d rs lm of
        (x, rs1, lm1) \<Rightarrow>
          let (status, z') = (case x of
                SentToHttps _ \<Rightarrow> (308, z) | Shed _ \<Rightarrow> (503, z) | Denied _ _ \<Rightarrow> (403, z) | Throttled _ _ \<Rightarrow> (429, z) | Reached _ _ \<Rightarrow> handler z)
          in (status, z', leave G now2 x status rs1, lm1))"

section \<open>HTTPS\<close>

lemma insecure_redirected:
  assumes "enforce" "\<not> request_is_secure trust q" "wr_host q = Some h" "h \<noteq> []"
  shows "https_redirect enforce trust q = Some (''https://'' @ h @ unwrap_or (wr_path_and_query q) ''/'')"
  using assms by (simp add: https_redirect_def to_https_url_def nonempty_def opt_or_def)

text \<open>A redirect goes to HTTPS, to the path that was asked for, and to the host the request itself named.\<close>
lemma redirect_target:
  assumes "https_redirect enforce trust q = Some url"
  shows "\<exists>h. h \<noteq> [] \<and> (wr_host q = Some h \<or> wr_authority q = Some h) \<and> url = ''https://'' @ h @ unwrap_or (wr_path_and_query q) ''/''"
  using assms by (auto simp: https_redirect_def to_https_url_def nonempty_def opt_or_def bind_eq_Some_conv split: if_splits option.splits)

text \<open>Without trust in the proxy, a forwarding header cannot make a request look secure.\<close>
lemma forwarding_untrusted: "request_is_secure False q = request_is_secure False (q\<lparr>wr_forwarded_proto := v\<rparr>)"
  by (simp add: request_is_secure_def)

text \<open>A request with neither host nor authority is let in over plain HTTP.\<close>
theorem hostless_not_redirected:
  assumes "nonempty (wr_host q) = None" "nonempty (wr_authority q) = None"
  shows "https_redirect enforce trust q = None"
  using assms by (simp add: https_redirect_def to_https_url_def opt_or_def)

section \<open>Permits\<close>

text \<open>An admitted request holds exactly the permits that its completion gives back.\<close>
lemma admit_probe_forward:
  assumes "admit_probe cfg now permit bulkhead s = (adm, s')" "is_forward adm"
  shows "\<exists>probe b. adm = Forward permit bulkhead probe \<and> s' = s\<lparr>rs_breaker := b\<rparr>"
  using assms by (auto simp: admit_probe_def split: option.splits prod.splits circuit_state.splits bool.splits intro: exI [of _ "rs_breaker s"])

lemma release_free:
  "free_permits (release_permits permit bulkhead (s\<lparr>rs_breaker := b\<rparr>)) = free_permits (release_permits permit bulkhead s)"
  by (simp add: free_permits_def release_permits_def split: option.split)

lemma admit_bulkhead_forward:
  assumes "admit_bulkhead cfg now path permit s = (adm, s')" "is_forward adm"
  shows "\<exists>bulkhead probe. adm = Forward permit bulkhead probe \<and> rs_limiter s' = rs_limiter s \<and>
    snd (free_permits (release_permits permit bulkhead s')) = snd (free_permits s)"
proof (cases "rs_bulkheads s")
  case None
  then have "admit_probe cfg now permit None s = (adm, s')" using assms(1) by (simp add: admit_bulkhead_def)
  from admit_probe_forward [OF this assms(2)] None show ?thesis by (auto simp: free_permits_def release_permits_def)
next
  case (Some r)
  obtain name got r' where b: "bulkhead_try_acquire r path = ((name, got), r')" by (metis surj_pair)
  have p: "admit_probe cfg now permit got (s\<lparr>rs_bulkheads := Some r'\<rparr>) = (adm, s')"
    using assms Some b by (cases got) (auto simp: admit_bulkhead_def split: if_splits)
  have "snd (free_permits (release_permits permit got (s\<lparr>rs_bulkheads := Some r'\<rparr>))) = snd (free_permits s)"
    using Some b bulkhead_refused_avail [of r path name r'] bulkhead_release_avail [of r path name _ r']
    by (cases got) (auto simp: free_permits_def release_permits_def)
  with admit_probe_forward [OF p assms(2)] show ?thesis by (auto simp: release_free)
qed

lemma admit_capacity_forward:
  assumes "admit_capacity cfg now path s = (adm, s')" "is_forward adm"
  shows "\<exists>permit bulkhead probe. adm = Forward permit bulkhead probe \<and> free_permits (release_permits permit bulkhead s') = free_permits s"
proof (cases "rs_limiter s")
  case None
  then have "admit_bulkhead cfg now path False s = (adm, s')" using assms(1) by (simp add: admit_capacity_def)
  from admit_bulkhead_forward [OF this assms(2)] None show ?thesis by (auto simp: free_permits_def release_permits_def)
next
  case (Some l)
  obtain ok l' where ok: "lim_try_acquire l = (ok, l')" by fastforce
  with assms Some have t: "ok" by (cases ok) (auto simp: admit_capacity_def)
  with assms(1) Some ok have b: "admit_bulkhead cfg now path True (s\<lparr>rs_limiter := Some l'\<rparr>) = (adm, s')" by (simp add: admit_capacity_def)
  have "lim_available (lim_release l') = lim_available l" using ok t lim_release_acquire by simp
  with admit_bulkhead_forward [OF b assms(2)] Some show ?thesis by (auto simp: free_permits_def release_permits_def)
qed

lemma admit_forward:
  assumes "admit cfg exempt now now' path s = (adm, s')" "is_forward adm"
  shows "\<exists>permit bulkhead probe. adm = Forward permit bulkhead probe \<and> free_permits (release_permits permit bulkhead s') = free_permits s"
proof -
  have free: "free_permits (s\<lparr>rs_breaker := b\<rparr>) = free_permits s" for b by (simp add: free_permits_def)
  have "\<exists>b. admit_capacity cfg now' path (s\<lparr>rs_breaker := b\<rparr>) = (adm, s')"
  proof (cases "rs_breaker s")
    case None
    then have "s\<lparr>rs_breaker := None\<rparr> = s" by (cases s) simp
    moreover have "admit_capacity cfg now' path s = (adm, s')" using assms None by (auto simp: admit_def split: if_splits)
    ultimately show ?thesis by metis
  next
    case (Some b)
    then show ?thesis using assms by (auto simp: admit_def split: if_splits prod.splits circuit_state.splits)
  qed
  then show ?thesis using admit_capacity_forward [OF _ assms(2)] free by metis
qed

lemma complete_free: "free_permits (complete cfg now adm status s) = free_permits (case adm of Forward p b _ \<Rightarrow> release_permits p b s | _ \<Rightarrow> s)"
  by (cases adm) (auto simp: complete_def release_free Let_def case_prod_unfold split: option.split)

lemma admitted_returns:
  assumes "admit cfg exempt now now' path s = (adm, s')"
  shows "free_permits (complete cfg now2 adm status s') = free_permits s"
proof (cases "is_forward adm")
  case True
  from admit_forward [OF assms True] show ?thesis by (auto simp: complete_free)
next
  case False
  then have "complete cfg now2 adm status s' = s'" by (cases adm) (simp_all add: complete_def)
  then show ?thesis using refusal_is_free [OF assms False] by simp
qed

section \<open>The stack\<close>

lemma leave_free:
  assumes "enter G check now now' q d rs lm = (x, rs1, lm1)"
  shows "free_permits (leave G now2 x status rs1) = free_permits rs"
  using assms admitted_returns refusal_is_free [of "sg_breaker G" exempt_paths now now' "wr_path q" rs]
  by (auto simp: enter_def leave_def split: option.splits prod.splits if_splits sum.splits)

lemma enter_reached:
  assumes "enter G check now now' q d rs lm = (Reached adm dec, rs1, lm1)"
  shows "https_redirect (sg_enforce_https G) (sg_trust_proxy G) q = None \<and> denylist_call now' (wr_realip q) d = Inr () \<and>
    (adm = Exempt \<or> is_forward adm) \<and> limit_layer G check q lm = (dec, lm1) \<and> \<not> is_throttled dec"
  using assms by (auto simp: enter_def split: option.splits prod.splits if_splits sum.splits)

lemma enter_limit:
  assumes "enter G check now now' q d rs lm = (x, rs1, lm1)" "denylist_call now' (wr_realip q) d = Inl e"
  shows "lm1 = lm \<and> (\<nexists>adm dec. x = Reached adm dec)"
  using assms by (auto simp: enter_def split: option.splits prod.splits if_splits)

text \<open>C18. The layers in front of the handlers.  With HTTPS enforced, a plain request that names its host is sent back and changes nothing at all.
  A request from a denylisted address costs no quota and reaches no handler.  A handler runs only for a request that was secure, where that is enforced
  and the request names a host, whose address is not denylisted, and that the limiter, if it is on, did not refuse.  And whatever becomes of a request, once it is
  answered the pool and every bulkhead have as many free permits as before.\<close>
theorem stack_layers:
  assumes "answer_request G check now now' now2 handler q d z rs lm = (status, z', rs', lm')"
  shows "(sg_enforce_https G \<and> \<not> request_is_secure (sg_trust_proxy G) q \<and> nonempty (wr_host q) \<noteq> None \<longrightarrow>
       status = 308 \<and> z' = z \<and> rs' = rs \<and> lm' = lm) \<and>
     (\<forall>ip. wr_realip q = Some ip \<and> ip \<noteq> [] \<and> find_denylist_entry now' ''ip'' ip d \<noteq> None \<longrightarrow> z' = z \<and> lm' = lm) \<and>
     (z' \<noteq> z \<longrightarrow> status = fst (handler z) \<and> z' = snd (handler z) \<and> \<not> is_throttled (fst (limit_layer G check q lm)) \<and>
       denylist_call now' (wr_realip q) d = Inr () \<and>
       (sg_enforce_https G \<and> nonempty (wr_host q) \<noteq> None \<longrightarrow> request_is_secure (sg_trust_proxy G) q)) \<and>
     free_permits rs' = free_permits rs"
proof -
  obtain x rs1 lm1 where e: "enter G check now now' q d rs lm = (x, rs1, lm1)" by (metis surj_pair)
  then have out: "rs' = leave G now2 x status rs1" "lm' = lm1" using assms by (auto simp: answer_request_def Let_def split: prod.splits)
  have z: "z' \<noteq> z \<Longrightarrow> \<exists>adm dec. x = Reached adm dec \<and> handler z = (status, z')"
    using assms e by (cases x) (auto simp: answer_request_def Let_def split: prod.splits)
  have "status = 308 \<and> z' = z \<and> rs' = rs \<and> lm' = lm"
    if "sg_enforce_https G" "\<not> request_is_secure (sg_trust_proxy G) q" "nonempty (wr_host q) \<noteq> None"
  proof -
    from that obtain url where "https_redirect (sg_enforce_https G) (sg_trust_proxy G) q = Some url"
      by (auto simp: https_redirect_def to_https_url_def opt_or_def)
    then show ?thesis using assms by (simp add: answer_request_def enter_def leave_def)
  qed
  moreover have "z' = z \<and> lm' = lm" if "wr_realip q = Some ip" "ip \<noteq> []" "find_denylist_entry now' ''ip'' ip d \<noteq> None" for ip
    using enter_limit [OF e] z out(2) that by (fastforce simp: denylist_call_def)
  moreover have "free_permits rs' = free_permits rs" using leave_free [OF e] out(1) by simp
  ultimately show ?thesis using z enter_reached [of G check now now' q d rs lm] e by fastforce
qed

definition demo_stack :: stack_config where
  "demo_stack = \<lparr>sg_enforce_https = True, sg_trust_proxy = False, sg_breaker = cb_config_default, sg_limiting = True\<rparr>"

definition demo_check :: "string \<Rightarrow> redis_store \<Rightarrow> (string + rate_limit_result) \<times> redis_store" where
  "demo_check = redis_check \<lparr>rw_max_requests = 2, rw_window_secs = 60\<rparr> store_redis None 5 5"

definition demo_web_request :: "string \<Rightarrow> web_request" where
  "demo_web_request scheme = \<lparr>wr_scheme = Some scheme, wr_authority = None, wr_path = ''/t'', wr_path_and_query = Some ''/t'', wr_host = Some ''h'',
     wr_forwarded_proto = Some ''https'', wr_forwarded_for = None, wr_peer_ip = Some ''p'', wr_realip = Some ''p''\<rparr>"

definition demo_pool :: resil where
  "demo_pool = \<lparr>rs_limiter = Some (limiter_new 1), rs_bulkheads = None, rs_breaker = None\<rparr>"

lemma stack_layers_witness:
  "(case answer_request demo_stack demo_check 5 5 6 (\<lambda>n. (200, Suc n)) (demo_web_request ''http'') db_empty 0 demo_pool Map.empty of
      (status, z', rs', lm') \<Rightarrow> status = 308 \<and> z' = 0 \<and> free_permits rs' = free_permits demo_pool) \<and>
   (case answer_request demo_stack demo_check 5 5 6 (\<lambda>n. (200, Suc n)) (demo_web_request ''https'') db_empty 0 demo_pool Map.empty of
      (status, z', rs', lm') \<Rightarrow> status = 200 \<and> z' = 1 \<and> free_permits rs' = free_permits demo_pool)"
proof -
  have s: "\<not> request_is_secure False (demo_web_request ''http'')" by code_simp
  let ?run = "\<lambda>scheme. answer_request demo_stack demo_check 5 5 6 (\<lambda>n. (200, Suc n)) (demo_web_request scheme) db_empty 0 demo_pool Map.empty"
  obtain a b c d where h: "?run ''http'' = (a, b, c, d)" by (metis surj_pair)
  obtain a' b' c' d' where t: "?run ''https'' = (a', b', c', d')" by (metis surj_pair)
  have "case ?run ''https'' of (status, z', _) \<Rightarrow> status = 200 \<and> z' = 1" by code_simp
  with t have "a' = 200 \<and> b' = 1" by simp
  then show ?thesis using stack_layers [OF h] stack_layers [OF t] h t s by (simp add: demo_stack_def demo_web_request_def nonempty_def)
qed

end
