(* ===== verification/Routing.thy ===== *)
theory Routing
  imports Middleware_Stack
begin

text \<open>
  The route table at the end of \<open>run\<close> (\<open>oauth2-server/src/lib.rs\<close>): which handler answers which method and path, and which of them stand behind the
  guard of the admin area.  Routes and scopes are tried in order, and a scope whose prefix matches is final, as the web framework documents;
  a parameter \<open>{name}\<close> stands for one non-empty segment.  The API documentation and the static files, which follow the
  table, are services of other packages and left out.
\<close>

section \<open>The table\<close>

datatype http_method = GET | POST | PUT | DELETE

datatype segment = Lit string | Param

datatype service =
    Route string http_method string
  | Scope string bool "service list"

definition segments :: "string \<Rightarrow> string list" where
  "segments path = (case path of [] \<Rightarrow> [] | _ # rest \<Rightarrow> split_char (CHR ''/'') rest)"

definition pattern_of :: "string \<Rightarrow> segment list" where
  "pattern_of s = map (\<lambda>t. if starts_with t ''{'' then Param else Lit t) (segments s)"

definition auth_routes :: "service list" where
  "auth_routes = [
     Route ''/login'' GET ''login::login_page'',
     Route ''/login'' POST ''login::login_submit'',
     Route ''/logout'' POST ''social::auth::logout'',
     Route ''/success'' GET ''social::auth::auth_success'',
     Scope ''/login'' False [
       Route ''/google'' GET ''social::auth::google_login'',
       Route ''/microsoft'' GET ''social::auth::microsoft_login'',
       Route ''/github'' GET ''social::auth::github_login'',
       Route ''/azure'' GET ''social::auth::azure_login'',
       Route ''/okta'' GET ''okta_unavailable'',
       Route ''/auth0'' GET ''auth0_unavailable''],
     Route ''/callback/{provider}'' GET ''social::auth::auth_callback'']"

definition oauth_routes :: "service list" where
  "oauth_routes = [
     Route ''/authorize'' GET ''oauth::authorize'',
     Route ''/par'' POST ''oauth::par'',
     Route ''/token'' POST ''oauth::token'',
     Route ''/logout'' GET ''oidc_logout::logout'',
     Route ''/device_authorization'' POST ''device::device_authorization'',
     Route ''/device/verify'' GET ''device::verify_page'',
     Route ''/device/verify'' POST ''device::verify_submit'',
     Route ''/transaction_authorization'' POST ''transaction_authorization::transaction_authorization'',
     Route ''/transaction_authorization/approve'' GET ''transaction_authorization::approve_page'',
     Route ''/transaction_authorization/approve'' POST ''transaction_authorization::approve_submit'',
     Route ''/introspect'' POST ''token::introspect'',
     Route ''/revoke'' POST ''token::revoke'',
     Route ''/userinfo'' GET ''wellknown::userinfo'',
     Route ''/userinfo'' POST ''wellknown::userinfo'',
     Route ''/check_session'' GET ''session::check_session_iframe'']"

definition well_known_routes :: "service list" where
  "well_known_routes = [
     Route ''/openid-configuration'' GET ''wellknown::openid_configuration'',
     Route ''/oauth-authorization-server'' GET ''wellknown::openid_configuration'',
     Route ''/jwks.json'' GET ''wellknown::jwks'',
     Route ''/oauth-protected-resource'' GET ''wellknown::protected_resource_metadata'',
     Route ''/oauth-protected-resource/{id}'' GET ''wellknown::protected_resource_metadata_for_resource'',
     Route ''/oauth-authorization-server/status'' GET ''wellknown::token_status_list'']"

definition registration_routes :: "service list" where
  "registration_routes = [
     Route ''/register'' POST ''client::dynamic_register'',
     Route ''/register/{client_id}'' GET ''client::read_client_configuration'',
     Route ''/register/{client_id}'' PUT ''client::update_client_configuration'',
     Route ''/register/{client_id}'' DELETE ''client::delete_client_configuration'']"

definition admin_api_routes :: "service list" where
  "admin_api_routes = [
     Route ''/dashboard'' GET ''admin::dashboard'',
     Route ''/capabilities'' GET ''admin::capabilities'',
     Route ''/clients'' GET ''admin::list_clients'',
     Route ''/clients'' POST ''admin_extra::create_client'',
     Route ''/clients/{id}'' GET ''admin::get_client'',
     Route ''/clients/{id}'' PUT ''admin_extra::update_client'',
     Route ''/clients/{id}'' DELETE ''admin::delete_client'',
     Route ''/clients/{id}/enabled'' POST ''admin_extra::set_client_enabled'',
     Route ''/clients/{id}/regenerate-secret'' POST ''admin_extra::regenerate_client_secret'',
     Route ''/tokens'' GET ''admin::list_tokens'',
     Route ''/tokens/{id}'' GET ''admin::get_token'',
     Route ''/tokens/{id}/revoke'' POST ''admin::admin_revoke_token'',
     Route ''/tokens/revoke-by-user'' POST ''admin_extra::bulk_revoke_by_user'',
     Route ''/tokens/revoke-by-client'' POST ''admin_extra::bulk_revoke_by_client'',
     Route ''/users'' GET ''admin::list_users'',
     Route ''/users'' POST ''admin_extra::create_user'',
     Route ''/users/{id}'' GET ''admin::get_user'',
     Route ''/users/{id}'' PUT ''admin_extra::update_user'',
     Route ''/users/{id}'' DELETE ''admin_extra::delete_user'',
     Route ''/users/{id}/enabled'' POST ''admin_extra::set_user_enabled'',
     Route ''/users/{id}/role'' POST ''admin_extra::set_user_role'',
     Route ''/users/{id}/password'' POST ''admin_extra::reset_user_password'',
     Route ''/denylist'' GET ''admin_extra::list_denylist'',
     Route ''/denylist'' POST ''admin_extra::add_denylist'',
     Route ''/denylist/{id}'' DELETE ''admin_extra::remove_denylist'',
     Route ''/audit'' GET ''admin_extra::list_audit_log'',
     Route ''/device'' GET ''admin::list_device_authorizations'',
     Route ''/device/{code}/expire'' POST ''admin::expire_device_code'',
     Scope ''/keys'' False [
       Route ''/rotate'' POST ''admin_keys::rotate_key'',
       Route '''' GET ''admin_keys::list_keys''],
     Route ''/events/recent'' GET ''events::recent_events'']"

definition admin_routes :: "service list" where
  "admin_routes = [
     Route '''' GET ''admin_dashboard'',
     Route ''/clients'' GET ''admin_dashboard'',
     Route ''/tokens'' GET ''admin_dashboard'',
     Route ''/users'' GET ''admin_dashboard'',
     Route ''/device'' GET ''admin_dashboard'',
     Route ''/keys'' GET ''admin_dashboard'',
     Route ''/metrics'' GET ''admin_dashboard'',
     Route ''/events'' GET ''admin_dashboard'',
     Route ''/denylist'' GET ''admin_dashboard'',
     Route ''/audit'' GET ''admin_dashboard'',
     Route ''/clients/register'' POST ''client::register_client'',
     Route ''/resources'' GET ''admin_resources::list_resources'',
     Route ''/resources'' POST ''admin_resources::create_resource'',
     Route ''/resources/{id}'' DELETE ''admin_resources::delete_resource'',
     Route ''/trusted-issuers'' GET ''admin_trusted_issuers::list_trusted_issuers'',
     Route ''/trusted-issuers'' POST ''admin_trusted_issuers::create_trusted_issuer'',
     Route ''/trusted-issuers/{id}'' DELETE ''admin_trusted_issuers::delete_trusted_issuer'',
     Scope ''/api'' False admin_api_routes]"

definition event_routes :: "service list" where
  "event_routes = [
     Route ''/ingest'' POST ''events::ingest'',
     Route ''/health'' GET ''events::health'']"

definition app_routes :: "service list" where
  "app_routes = [
     Route ''/'' GET ''redirect_to_profile'',
     Scope ''/auth'' False auth_routes,
     Scope ''/oauth'' False oauth_routes,
     Scope ''/.well-known'' False well_known_routes,
     Scope ''/connect'' False registration_routes,
     Scope ''/admin'' True admin_routes,
     Route ''/profile'' GET ''profile::profile_page'',
     Route ''/error'' GET ''error_page'',
     Route ''/health'' GET ''admin::health'',
     Route ''/ready'' GET ''admin::readiness'',
     Route ''/metrics'' GET ''admin::system_metrics'',
     Scope ''/events'' False event_routes]"

section \<open>Matching\<close>

fun pattern_matches :: "segment list \<Rightarrow> string list \<Rightarrow> bool" where
  "pattern_matches [] [] = True"
| "pattern_matches (Lit s # ps) (t # ts) = (s = t \<and> pattern_matches ps ts)"
| "pattern_matches (Param # ps) (t # ts) = (t \<noteq> [] \<and> pattern_matches ps ts)"
| "pattern_matches _ _ = False"

text \<open>The handler of a request and whether the guard stands before it.\<close>
fun lookup_route :: "service list \<Rightarrow> bool \<Rightarrow> http_method \<Rightarrow> string list \<Rightarrow> (string \<times> bool) option" where
  "lookup_route [] g m p = None"
| "lookup_route (Route pat m' h # ss) g m p = (if m = m' \<and> pattern_matches (pattern_of pat) p then Some (h, g) else lookup_route ss g m p)"
| "lookup_route (Scope pre guarded subs # ss) g m p =
     (let n = length (pattern_of pre) in
      if n \<le> length p \<and> pattern_matches (pattern_of pre) (take n p) then lookup_route subs (g \<or> guarded) m (drop n p) else lookup_route ss g m p)"

definition served_by :: "http_method \<Rightarrow> string \<Rightarrow> (string \<times> bool) option" where
  "served_by m path = lookup_route app_routes False m (segments path)"

section \<open>The table as a set\<close>

text \<open>All routes with their full patterns.\<close>
fun endpoints :: "service list \<Rightarrow> bool \<Rightarrow> (segment list \<times> http_method \<times> string \<times> bool) list" where
  "endpoints [] g = []"
| "endpoints (Route pat m h # ss) g = (pattern_of pat, m, h, g) # endpoints ss g"
| "endpoints (Scope pre guarded subs # ss) g = map (\<lambda>(pat, x). (pattern_of pre @ pat, x)) (endpoints subs (g \<or> guarded)) @ endpoints ss g"

fun overlap :: "segment list \<Rightarrow> segment list \<Rightarrow> bool" where
  "overlap [] [] = True"
| "overlap (a # ps) (b # qs) = ((case (a, b) of (Lit s, Lit t) \<Rightarrow> s = t | _ \<Rightarrow> True) \<and> overlap ps qs)"
| "overlap _ _ = False"

text \<open>No earlier entry of a list of services takes a request away from a later one.\<close>
fun unshadowed :: "service list \<Rightarrow> bool" where
  "unshadowed [] = True"
| "unshadowed (Route pat m h # ss) =
     (list_all (\<lambda>(pat', m', _). m' = m \<longrightarrow> \<not> overlap (pattern_of pat) pat') (endpoints ss False) \<and> unshadowed ss)"
| "unshadowed (Scope pre guarded subs # ss) =
     (list_all (\<lambda>(pat', _). \<not> overlap (pattern_of pre) (take (length (pattern_of pre)) pat')) (endpoints ss False) \<and> unshadowed subs \<and> unshadowed ss)"

lemma pattern_matches_length: "pattern_matches ps p \<Longrightarrow> length p = length ps"
  by (induction ps p rule: pattern_matches.induct) auto

lemma pattern_matches_append:
  "pattern_matches (ps @ qs) p \<longleftrightarrow> length ps \<le> length p \<and> pattern_matches ps (take (length ps) p) \<and> pattern_matches qs (drop (length ps) p)"
proof (induction ps arbitrary: p)
  case (Cons a ps)
  then show ?case by (cases p; cases a) auto
qed simp

lemma pattern_matches_take: "pattern_matches ps p \<Longrightarrow> pattern_matches (take n ps) (take n p)"
  by (induction ps p arbitrary: n rule: pattern_matches.induct) (auto simp: take_Cons' )

lemma matches_overlap: "pattern_matches ps p \<Longrightarrow> pattern_matches qs p \<Longrightarrow> overlap ps qs"
proof (induction ps p arbitrary: qs rule: pattern_matches.induct)
  case (1)
  then show ?case by (cases qs) auto
next
  case (2 s ps t ts)
  then show ?case by (cases qs; cases "hd qs") auto
next
  case (3 ps t ts)
  then show ?case by (cases qs; cases "hd qs") auto
qed auto

lemma endpoints_guard: "(pat, m, h, b) \<in> set (endpoints ss g) \<Longrightarrow> \<exists>b'. (pat, m, h, b') \<in> set (endpoints ss g')"
proof (induction ss g arbitrary: pat g' rule: endpoints.induct)
  case (3 pre guarded subs ss g)
  show ?case
  proof (cases "(pat, m, h, b) \<in> set (endpoints ss g)")
    case True
    then show ?thesis using 3(2) by fastforce
  next
    case False
    then obtain q where "pat = pattern_of pre @ q" "(q, m, h, b) \<in> set (endpoints subs (g \<or> guarded))" using 3(3) by auto
    then show ?thesis using 3(1) [of q "g' \<or> guarded"] by fastforce
  qed
qed auto

lemma lookup_sound: "lookup_route ss g m p = Some (h, b) \<Longrightarrow> \<exists>pat. (pat, m, h, b) \<in> set (endpoints ss g) \<and> pattern_matches pat p"
proof (induction ss g m p rule: lookup_route.induct)
  case (3 pre guarded subs ss g m p)
  show ?case
  proof (cases "length (pattern_of pre) \<le> length p \<and> pattern_matches (pattern_of pre) (take (length (pattern_of pre)) p)")
    case True
    then obtain q where "(q, m, h, b) \<in> set (endpoints subs (g \<or> guarded))" "pattern_matches q (drop (length (pattern_of pre)) p)"
      using 3 by (auto simp: Let_def)
    then show ?thesis using True by (fastforce simp: pattern_matches_append intro!: exI [of _ "pattern_of pre @ q"])
  next
    case False
    then show ?thesis using 3(2,3) by (fastforce simp: Let_def)
  qed
qed (auto split: if_splits)

lemma lookup_complete:
  "unshadowed ss \<Longrightarrow> (pat, m, h, b) \<in> set (endpoints ss g) \<Longrightarrow> pattern_matches pat p \<Longrightarrow> lookup_route ss g m p = Some (h, b)"
proof (induction ss g m p arbitrary: pat rule: lookup_route.induct)
  case (2 pat' m' h' ss g m p)
  show ?case
  proof (cases "m = m' \<and> pattern_matches (pattern_of pat') p")
    case True
    then have o: "overlap (pattern_of pat') pat" using matches_overlap 2(4) by blast
    have "(pat, m, h, b) \<notin> set (endpoints ss g)"
    proof
      assume "(pat, m, h, b) \<in> set (endpoints ss g)"
      then obtain b' where "(pat, m, h, b') \<in> set (endpoints ss False)" using endpoints_guard by blast
      with 2(2) o True show False by (fastforce simp: list_all_iff)
    qed
    with 2(3) True show ?thesis by auto
  next
    case False
    with 2 show ?thesis by auto
  qed
next
  case (3 pre guarded subs ss g m p)
  let ?n = "length (pattern_of pre)"
  show ?case
  proof (cases "?n \<le> length p \<and> pattern_matches (pattern_of pre) (take ?n p)")
    case True
    have "(pat, m, h, b) \<notin> set (endpoints ss g)"
    proof
      assume "(pat, m, h, b) \<in> set (endpoints ss g)"
      then obtain b' where "(pat, m, h, b') \<in> set (endpoints ss False)" using endpoints_guard by blast
      moreover have "overlap (pattern_of pre) (take ?n pat)" using matches_overlap True pattern_matches_take [OF 3(5)] by blast
      ultimately show False using 3(3) by (fastforce simp: list_all_iff)
    qed
    then obtain q where q: "pat = pattern_of pre @ q" "(q, m, h, b) \<in> set (endpoints subs (g \<or> guarded))" using 3(4) by auto
    then have "lookup_route subs (g \<or> guarded) m (drop ?n p) = Some (h, b)" using 3(1) [of ?n q] 3(3,5) True by (simp add: pattern_matches_append)
    then show ?thesis using True by (simp add: Let_def)
  next
    case False
    then have "(pat, m, h, b) \<in> set (endpoints ss g)" using 3(4,5) by (auto simp: pattern_matches_append)
    then show ?thesis using False 3(2) [of ?n pat] 3(3,5) by (auto simp: Let_def)
  qed
qed simp

lemma app_unshadowed: "unshadowed app_routes"
  by code_simp

text \<open>The order of the table does not matter: a request is answered by the one route whose method and pattern it has, and by none otherwise.\<close>
theorem served_by_table:
  "served_by m path = Some (h, g) \<longleftrightarrow> (\<exists>pat. (pat, m, h, g) \<in> set (endpoints app_routes False) \<and> pattern_matches pat (segments path))"
  unfolding served_by_def using lookup_sound lookup_complete [OF app_unshadowed] by blast

section \<open>The guard\<close>

text \<open>The handlers of the administration; \<open>health\<close>, \<open>readiness\<close> and \<open>system_metrics\<close> of the same module are for everybody.\<close>
definition administrative :: "string \<Rightarrow> bool" where
  "administrative h =
     (list_ex (starts_with h) [''admin_dashboard'', ''admin_extra::'', ''admin_keys::'', ''admin_resources::'', ''admin_trusted_issuers::''] \<or>
      h \<in> {''client::register_client'', ''events::recent_events''} \<or>
      starts_with h ''admin::'' \<and> h \<notin> {''admin::health'', ''admin::readiness'', ''admin::system_metrics''})"

definition guard_in_order :: "segment list \<times> http_method \<times> string \<times> bool \<Rightarrow> bool" where
  "guard_in_order = (\<lambda>(pat, m, h, g). (administrative h \<longleftrightarrow> g) \<and> (case pat of Lit s # _ \<Rightarrow> g \<longleftrightarrow> s = ''admin'' | _ \<Rightarrow> False))"

lemma app_guarded: "list_all guard_in_order (endpoints app_routes False)"
  by code_simp

text \<open>Every administrative handler, and no other, stands behind the guard of the admin area, and that is exactly what is served under the path
  \<open>/admin\<close>.\<close>
theorem admin_routes_guarded:
  assumes "served_by m path = Some (h, g)"
  shows "(administrative h \<longleftrightarrow> g) \<and> (g \<longleftrightarrow> hd (segments path) = ''admin'')"
proof -
  obtain pat where p: "(pat, m, h, g) \<in> set (endpoints app_routes False)" "pattern_matches pat (segments path)"
    using assms served_by_table by blast
  then have "guard_in_order (pat, m, h, g)" using app_guarded by (simp add: list_all_iff)
  then obtain s ps where s: "pat = Lit s # ps" "administrative h \<longleftrightarrow> g" "g \<longleftrightarrow> s = ''admin''"
    by (auto simp: guard_in_order_def split: list.splits segment.splits)
  then have "hd (segments path) = s" using p(2) by (cases "segments path") auto
  with s show ?thesis by simp
qed

lemma admin_routes_guarded_witness:
  "served_by POST ''/admin/api/users/u1/role'' = Some (''admin_extra::set_user_role'', True) \<and>
   (administrative ''admin_extra::set_user_role'' \<longleftrightarrow> True) \<and> (True \<longleftrightarrow> hd (segments ''/admin/api/users/u1/role'') = ''admin'')"
proof -
  have s: "served_by POST ''/admin/api/users/u1/role'' = Some (''admin_extra::set_user_role'', True)" by code_simp
  from admin_routes_guarded [OF s] s show ?thesis by blast
qed

section \<open>The advertised endpoints\<close>

lemma documentation_unserved: "served_by m ''/docs'' = None"
proof -
  have "\<forall>m \<in> set [GET, POST, PUT, DELETE]. served_by m ''/docs'' = None" by code_simp
  then show ?thesis by (cases m) auto
qed

text \<open>The paths of the endpoints with a method each.\<close>
definition endpoint_paths :: "(http_method \<times> string) list" where
  "endpoint_paths = [(GET, ''/oauth/authorize''), (POST, ''/oauth/token''), (GET, ''/oauth/logout''), (POST, ''/oauth/introspect''),
     (POST, ''/oauth/revoke''), (GET, ''/oauth/userinfo''), (POST, ''/oauth/device_authorization''), (GET, ''/.well-known/jwks.json''),
     (POST, ''/connect/register''), (GET, ''/oauth/check_session''), (POST, ''/oauth/par''), (POST, ''/oauth/transaction_authorization'')]"

lemma endpoints_answered: "list_all (\<lambda>(m, path). map_option snd (served_by m path) = Some False) endpoint_paths"
  by code_simp

definition text_members :: "json \<Rightarrow> (string \<times> string) list" where
  "text_members j = (case j of JObj ms \<Rightarrow> concat (map (\<lambda>(k, v). case v of JStr u \<Rightarrow> [(k, u)] | _ \<Rightarrow> []) ms) | _ \<Rightarrow> [])"

lemma text_members_discovery:
  "text_members (openid_configuration E W d) = (let base = base_url (en_oidc E) in
     [(''issuer'', base), (''authorization_endpoint'', base @ ''/oauth/authorize''), (''token_endpoint'', base @ ''/oauth/token''),
      (''end_session_endpoint'', base @ ''/oauth/logout''), (''introspection_endpoint'', base @ ''/oauth/introspect''),
      (''revocation_endpoint'', base @ ''/oauth/revoke''), (''token_introspection_endpoint'', base @ ''/oauth/introspect''),
      (''token_revocation_endpoint'', base @ ''/oauth/revoke''), (''userinfo_endpoint'', base @ ''/oauth/userinfo''),
      (''device_authorization_endpoint'', base @ ''/oauth/device_authorization''), (''jwks_uri'', base @ ''/.well-known/jwks.json''),
      (''registration_endpoint'', base @ ''/connect/register''), (''check_session_iframe'', base @ ''/oauth/check_session''),
      (''pushed_authorization_request_endpoint'', base @ ''/oauth/par''), (''service_documentation'', base @ ''/docs'')] @
     (if ag_tac_enabled (en_agent E) then [(''transaction_authorization_endpoint'', base @ ''/oauth/transaction_authorization'')] else []))"
  by (simp add: text_members_def openid_configuration_def agent_members_def json_strs_def Let_def)

text \<open>Every address the discovery document names is answered, without the admin guard, by a route of the table, but for the one of the
  documentation, which no route answers.\<close>
theorem advertised_endpoints_served:
  assumes "(name, url) \<in> set (text_members (openid_configuration E W d))" "name \<noteq> ''issuer''" "name \<noteq> ''service_documentation''"
  shows "\<exists>path m h. url = base_url (en_oidc E) @ path \<and> served_by m path = Some (h, False)"
proof -
  have "\<forall>(k, u)\<in>set (text_members (openid_configuration E W d)). k = ''issuer'' \<or> k = ''service_documentation'' \<or>
      (\<exists>(m, p)\<in>set endpoint_paths. u = base_url (en_oidc E) @ p)"
    by (simp add: text_members_discovery Let_def endpoint_paths_def)
  with assms obtain m path where p: "url = base_url (en_oidc E) @ path" "(m, path) \<in> set endpoint_paths" by blast
  then have "map_option snd (served_by m path) = Some False" using endpoints_answered by (auto simp: list_all_iff)
  then obtain h where "served_by m path = Some (h, False)" by auto
  with p(1) show ?thesis by blast
qed

end
