(* ===== verification/Redis_Cache.thy ===== *)
theory Redis_Cache
  imports Token_Cache Client_Actor Recent_Events
begin

text \<open>
  The second layer of the caches, in Redis (feature \<open>redis-cache\<close>): the parts of \<open>actors/token_actor.rs\<close> and
  \<open>actors/client_actor.rs\<close> that read, write and evict entries shared by all shards and instances, and the list that
  replaces the ring of \<open>handlers/events.rs\<close>.  The commands are arguments; \<open>kv_documented\<close> and \<open>list_documented\<close> say what
  Redis documents of them.  A command may fail: its reply is lost, and it may have taken effect or not.
\<close>

section \<open>The connection\<close>

record 'r redis_kv =
  kv_get :: "instant \<Rightarrow> string \<Rightarrow> 'r \<Rightarrow> string option"
  kv_set_ex :: "instant \<Rightarrow> string \<Rightarrow> string \<Rightarrow> int \<Rightarrow> 'r \<Rightarrow> 'r"
  kv_del :: "instant \<Rightarrow> string \<Rightarrow> 'r \<Rightarrow> 'r"

text \<open>\<open>SET key v EX s\<close> holds for \<open>s\<close> seconds from now and replaces what was there, \<open>DEL\<close> removes the key; both leave the
  other keys alone.\<close>
definition kv_documented :: "'r redis_kv \<Rightarrow> bool" where
  "kv_documented R =
     ((\<forall>now t k v s st. 0 < s \<longrightarrow> now \<le> t \<longrightarrow> kv_get R t k (kv_set_ex R now k v s st) = (if t < now + secs s then Some v else None)) \<and>
      (\<forall>now t k k' v s st. now \<le> t \<longrightarrow> k' \<noteq> k \<longrightarrow> kv_get R t k' (kv_set_ex R now k v s st) = kv_get R t k' st) \<and>
      (\<forall>now t k st. now \<le> t \<longrightarrow> kv_get R t k (kv_del R now k st) = None) \<and>
      (\<forall>now t k k' st. now \<le> t \<longrightarrow> k' \<noteq> k \<longrightarrow> kv_get R t k' (kv_del R now k st) = kv_get R t k' st))"

text \<open>Reading and writing a row as text.\<close>
record 'a codec =
  jc_to :: "'a \<Rightarrow> string option"
  jc_from :: "string \<Rightarrow> 'a option"

definition codec_faithful :: "'a codec \<Rightarrow> bool" where
  "codec_faithful J = (\<forall>v j. jc_to J v = Some j \<longrightarrow> jc_from J j = Some v)"

text \<open>The manager of \<open>build_cache_redis_manager\<close>: no address, an address that does not parse or a server that does not answer leave
  the caches in the process.\<close>
definition build_cache_redis_manager ::
  "(string \<Rightarrow> string + 'c) \<Rightarrow> ('c \<Rightarrow> string + 'k) \<Rightarrow> string option \<Rightarrow> 'k option" where
  "build_cache_redis_manager client_open connect redis_url =
     (case nonempty (map_option trim redis_url) of
        None \<Rightarrow> None
      | Some url \<Rightarrow> (case client_open url of
            Inl _ \<Rightarrow> None
          | Inr client \<Rightarrow> (case connect client of Inl _ \<Rightarrow> None | Inr conn \<Rightarrow> Some conn)))"

definition l2_lookup :: "'a codec \<Rightarrow> 'r redis_kv option \<Rightarrow> bool \<Rightarrow> instant \<Rightarrow> string \<Rightarrow> 'r \<Rightarrow> 'a option" where
  "l2_lookup J conn heard now key st =
     (case conn of None \<Rightarrow> None | Some R \<Rightarrow> if heard then Option.bind (kv_get R now key st) (jc_from J) else None)"

definition l2_write :: "'a codec \<Rightarrow> 'r redis_kv option \<Rightarrow> bool \<Rightarrow> instant \<Rightarrow> string \<Rightarrow> int \<Rightarrow> 'a \<Rightarrow> 'r \<Rightarrow> 'r" where
  "l2_write J conn took now key ttl v st =
     (case conn of
        None \<Rightarrow> st
      | Some R \<Rightarrow> (case jc_to J v of None \<Rightarrow> st | Some j \<Rightarrow> if took then kv_set_ex R now key j ttl st else st))"

definition l2_evict :: "'r redis_kv option \<Rightarrow> bool \<Rightarrow> instant \<Rightarrow> string \<Rightarrow> 'r \<Rightarrow> 'r" where
  "l2_evict conn took now key st = (case conn of None \<Rightarrow> st | Some R \<Rightarrow> if took then kv_del R now key st else st)"

section \<open>The token actor over two layers\<close>

definition token_redis_key :: "string \<Rightarrow> string" where
  "token_redis_key key = ''oauth2:token:'' @ key"

definition token_redis_ttl :: int where
  "token_redis_ttl = max (cache_ttl div secs 1) 1"

text \<open>Where the future of a validation stands: with a row from the process's cache, before \<open>GET\<close>, before the query, before \<open>SET\<close>.\<close>
datatype stage = AtCache token | AskRedis | ReadTable | WriteRedis token

text \<open>One step of it: it goes on, or answers and sends the message that fills the process's cache.\<close>
datatype progress = Goes stage | Answers "token result" "(string \<times> token) option"

definition answer_cached :: "instant \<Rightarrow> token \<Rightarrow> token result" where
  "answer_cached now t = (if \<not> token_is_valid now t then Inl expired_or_revoked else Inr t)"

fun validate_stage ::
  "token codec \<Rightarrow> 'r redis_kv option \<Rightarrow> bool \<Rightarrow> instant \<Rightarrow> string \<Rightarrow> stage \<Rightarrow> 'r \<Rightarrow> db \<Rightarrow> progress \<times> 'r" where
  "validate_stage J conn ok now key (AtCache t) st d = (Answers (answer_cached now t) None, st)"
| "validate_stage J conn ok now key AskRedis st d =
     (case l2_lookup J conn ok now (token_redis_key key) st of
        Some t \<Rightarrow> Answers (answer_cached now t) (Some (key, t))
      | None \<Rightarrow> Goes ReadTable, st)"
| "validate_stage J conn ok now key ReadTable st d =
     (case get_token_by_access_token key d of
        None \<Rightarrow> Answers (Inl (invalid_grant ''Token not found'')) None
      | Some t \<Rightarrow> if \<not> token_is_valid now t then Answers (Inl expired_or_revoked) None else Goes (WriteRedis t), st)"
| "validate_stage J conn ok now key (WriteRedis t) st d =
     (Answers (Inr t) (Some (key, t)), l2_write J conn ok now (token_redis_key key) token_redis_ttl t st)"

definition start_stage :: "token option \<Rightarrow> stage" where
  "start_stage cached = (case cached of Some t \<Rightarrow> AtCache t | None \<Rightarrow> AskRedis)"

text \<open>The future without interruption; \<open>ok\<close> tells of each stage whether its command succeeds.\<close>
definition stage_rank :: "stage \<Rightarrow> nat" where
  "stage_rank s = (case s of AskRedis \<Rightarrow> 2 | ReadTable \<Rightarrow> 1 | _ \<Rightarrow> 0)"

lemma validate_stage_rank: "fst (validate_stage J conn ok now key s st d) = Goes s' \<Longrightarrow> stage_rank s' < stage_rank s"
  by (cases s) (auto simp: stage_rank_def split: option.splits if_splits)

function run_stages ::
  "token codec \<Rightarrow> 'r redis_kv option \<Rightarrow> (stage \<Rightarrow> bool) \<Rightarrow> instant \<Rightarrow> string \<Rightarrow> stage \<Rightarrow> 'r \<Rightarrow> db \<Rightarrow>
   token result \<times> (string \<times> token) option \<times> 'r" where
  "run_stages J conn ok now key s st d =
     (case validate_stage J conn (ok s) now key s st d of
        (Goes s', st') \<Rightarrow> run_stages J conn ok now key s' st' d
      | (Answers r m, st') \<Rightarrow> (r, m, st'))"
  by pat_completeness auto
termination
  by (relation "measure (\<lambda>(J, conn, ok, now, key, s, st, d). stage_rank s)") (auto dest!: arg_cong [of _ _ fst] intro: validate_stage_rank)

declare run_stages.simps [simp del]

definition validate_token_l2 ::
  "token codec \<Rightarrow> 'r redis_kv option \<Rightarrow> (stage \<Rightarrow> bool) \<Rightarrow> instant \<Rightarrow> string \<Rightarrow> token option \<Rightarrow> 'r \<Rightarrow> db \<Rightarrow>
   token result \<times> (string \<times> token) option \<times> 'r" where
  "validate_token_l2 J conn ok now raw cached st d =
     run_stages J conn ok now (normalize_token_key raw) (start_stage cached) st d"

text \<open>The future of a revocation evicts the shared entry before it touches the table.\<close>
definition revoke_token_l2 :: "'r redis_kv option \<Rightarrow> bool \<Rightarrow> instant \<Rightarrow> string \<Rightarrow> 'r \<Rightarrow> db \<Rightarrow> unit result \<times> 'r \<times> db" where
  "revoke_token_l2 conn took now raw st d =
     (let st1 = l2_evict conn took now (token_redis_key (normalize_token_key raw)) st; (r, d1) = revoke_token_async raw d in (r, st1, d1))"

section \<open>The client actor over two layers\<close>

definition client_redis_key :: "string \<Rightarrow> string" where
  "client_redis_key cid = ''oauth2:client:'' @ cid"

definition client_redis_ttl :: int where
  "client_redis_ttl = max (client_cache_ttl div secs 1) 1"

definition get_client_l2 ::
  "client codec \<Rightarrow> 'r redis_kv option \<Rightarrow> bool \<Rightarrow> bool \<Rightarrow> instant \<Rightarrow> string \<Rightarrow> client_actor \<Rightarrow> 'r \<Rightarrow> db \<Rightarrow>
   client result \<times> client_actor \<times> 'r" where
  "get_client_l2 J conn heard took now cid A st d =
     (case get_cached_client now cid A of
        (Some c, A1) \<Rightarrow> (Inr c, A1, st)
      | (None, A1) \<Rightarrow>
          (case l2_lookup J conn heard now (client_redis_key cid) st of
             Some c \<Rightarrow> (Inr c, insert_cached_client now c A1, st)
           | None \<Rightarrow>
               (case get_client cid d of
                  None \<Rightarrow> (Inl (invalid_client ''Client not found''), A1, st)
                | Some c \<Rightarrow> (Inr c, insert_cached_client now c A1, l2_write J conn took now (client_redis_key cid) client_redis_ttl c st))))"

definition validate_client_l2 ::
  "client codec \<Rightarrow> 'r redis_kv option \<Rightarrow> bool \<Rightarrow> bool \<Rightarrow> instant \<Rightarrow> string \<Rightarrow> string \<Rightarrow> client_actor \<Rightarrow> 'r \<Rightarrow> db \<Rightarrow>
   bool result \<times> client_actor \<times> 'r" where
  "validate_client_l2 J conn heard took now cid presented_secret A st d =
     (case get_client_l2 J conn heard took now cid A st d of
        (Inl e, A1, st1) \<Rightarrow> (Inl e, A1, st1)
      | (Inr c, A1, st1) \<Rightarrow> (Inr (cl_client_secret c = presented_secret), A1, st1))"

section \<open>Laws of the layer\<close>

lemma kv_set:
  assumes "kv_documented R" "now \<le> t"
  shows "0 < s \<Longrightarrow> kv_get R t k (kv_set_ex R now k v s st) = (if t < now + secs s then Some v else None)"
    "k' \<noteq> k \<Longrightarrow> kv_get R t k' (kv_set_ex R now k v s st) = kv_get R t k' st"
  using assms by (simp_all add: kv_documented_def)

lemma kv_del:
  assumes "kv_documented R" "now \<le> t"
  shows "kv_get R t k (kv_del R now k st) = None"
    "k' \<noteq> k \<Longrightarrow> kv_get R t k' (kv_del R now k st) = kv_get R t k' st"
  using assms by (simp_all add: kv_documented_def)

lemma token_redis_ttl_secs [simp]: "token_redis_ttl = 60"
  by (simp add: token_redis_ttl_def cache_ttl_def secs_def)

lemma client_redis_ttl_secs [simp]: "client_redis_ttl = 300"
  by (simp add: client_redis_ttl_def client_cache_ttl_def secs_def)

lemma token_redis_key_inject [simp]: "token_redis_key k = token_redis_key k' \<longleftrightarrow> k = k'"
  by (simp add: token_redis_key_def)

lemma token_client_keys [simp]: "token_redis_key k \<noteq> client_redis_key c"
  by (simp add: token_redis_key_def client_redis_key_def)

lemma client_redis_key_inject [simp]: "client_redis_key k = client_redis_key k' \<longleftrightarrow> k = k'"
  by (simp add: client_redis_key_def)

lemma l2_no_connection [simp]:
  "l2_lookup J None heard now key st = None" "l2_write J None took now key ttl v st = st" "l2_evict None took now key st = st"
  by (simp_all add: l2_lookup_def l2_write_def l2_evict_def)

lemma run_stages_rules:
  "run_stages J conn ok now key (AtCache t) st d = (answer_cached now t, None, st)"
  "run_stages J conn ok now key (WriteRedis t) st d =
     (Inr t, Some (key, t), l2_write J conn (ok (WriteRedis t)) now (token_redis_key key) token_redis_ttl t st)"
  "run_stages J conn ok now key ReadTable st d =
     (case get_token_by_access_token key d of
        None \<Rightarrow> (Inl (invalid_grant ''Token not found''), None, st)
      | Some t \<Rightarrow> if \<not> token_is_valid now t then (Inl expired_or_revoked, None, st)
          else run_stages J conn ok now key (WriteRedis t) st d)"
  "run_stages J conn ok now key AskRedis st d =
     (case l2_lookup J conn (ok AskRedis) now (token_redis_key key) st of
        Some t \<Rightarrow> (answer_cached now t, Some (key, t), st)
      | None \<Rightarrow> run_stages J conn ok now key ReadTable st d)"
  by (subst run_stages.simps, simp split: option.split)+

text \<open>Without a connection the two-layer handlers are the handlers of the process's caches.\<close>
theorem validate_token_l2_plain:
  "validate_token_l2 J None ok now raw cached st d = (case validate_token_async now raw cached d of (r, m) \<Rightarrow> (r, m, st))"
  by (simp add: validate_token_l2_def run_stages_rules validate_token_async_def start_stage_def answer_cached_def split: option.splits)

theorem get_client_l2_plain:
  "get_client_l2 J None heard took now cid A st d = (case get_client_handler now cid A d of (r, A') \<Rightarrow> (r, A', st))"
  by (simp add: get_client_l2_def get_client_handler_def split: option.splits prod.splits)

theorem validate_client_l2_plain:
  "validate_client_l2 J None heard took now cid secret A st d = (case validate_client_handler now cid secret A d of (r, A') \<Rightarrow> (r, A', st))"
  by (simp add: validate_client_l2_def validate_client_handler_def get_client_l2_plain split: sum.splits prod.splits)

section \<open>Interleavings of token requests\<close>

text \<open>One actor, the shared store, and everybody else: other shards and instances read rows, copy what they read and evict, and
  foreign programs write other keys.  The ghost sets record which valid row was read when, and when it was copied to Redis.\<close>

record 'r sys2 =
  s2_now :: instant
  s2_db :: db
  s2_redis :: 'r
  s2_actor :: token_actor
  s2_validating :: "(string \<times> stage \<times> instant) list"
  s2_messages :: "(string \<times> token) list"
  s2_evicting :: "string list"
  s2_revoking :: "string list"
  s2_reads :: "(string \<times> token \<times> instant) set"
  s2_copies :: "(string \<times> token \<times> instant) set"

definition stage_reads :: "string \<Rightarrow> instant \<Rightarrow> stage \<Rightarrow> (string \<times> token \<times> instant) set" where
  "stage_reads key now s = (case s of WriteRedis t \<Rightarrow> {(key, t, now)} | _ \<Rightarrow> {})"

inductive l2_step :: "token codec \<Rightarrow> 'r redis_kv \<Rightarrow> 'r sys2 \<Rightarrow> 'r sys2 \<Rightarrow> bool" for J R where
  tick: "0 \<le> dt \<Longrightarrow> l2_step J R s (s\<lparr>s2_now := s2_now s + dt\<rparr>)"
| statement: "l2_step J R s (s\<lparr>s2_db := exec_cmd c (s2_db s)\<rparr>)"
| validate_start:
    "validate_token_sync (s2_now s) raw (s2_actor s) = (cached, A) \<Longrightarrow>
     l2_step J R s (s\<lparr>s2_actor := A, s2_validating := (normalize_token_key raw, start_stage cached, s2_now s) # s2_validating s\<rparr>)"
| stage_goes:
    "(key, g, started) \<in> set (s2_validating s) \<Longrightarrow>
     validate_stage J (Some R) ok (s2_now s) key g (s2_redis s) (s2_db s) = (Goes g', st') \<Longrightarrow>
     l2_step J R s (s\<lparr>s2_validating := (key, g', started) # remove1 (key, g, started) (s2_validating s), s2_redis := st',
        s2_reads := stage_reads key (s2_now s) g' \<union> s2_reads s\<rparr>)"
| stage_answers:
    "(key, g, started) \<in> set (s2_validating s) \<Longrightarrow>
     validate_stage J (Some R) ok (s2_now s) key g (s2_redis s) (s2_db s) = (Answers r m, st') \<Longrightarrow>
     l2_step J R s (s\<lparr>s2_validating := remove1 (key, g, started) (s2_validating s), s2_redis := st',
        s2_messages := (case m of Some x \<Rightarrow> [x] | None \<Rightarrow> []) @ s2_messages s, s2_copies := stage_reads key (s2_now s) g \<union> s2_copies s\<rparr>)"
| deliver:
    "(key, t) \<in> set (s2_messages s) \<Longrightarrow>
     l2_step J R s (s\<lparr>s2_messages := remove1 (key, t) (s2_messages s), s2_actor := cache_validated_token (s2_now s) key t (s2_actor s)\<rparr>)"
| revoke_start:
    "l2_step J R s (s\<lparr>s2_actor := invalidate_cached_token (normalize_token_key raw) (s2_actor s), s2_evicting := raw # s2_evicting s\<rparr>)"
| revoke_evict:
    "raw \<in> set (s2_evicting s) \<Longrightarrow>
     l2_step J R s (s\<lparr>s2_redis := l2_evict (Some R) took (s2_now s) (token_redis_key (normalize_token_key raw)) (s2_redis s),
        s2_evicting := remove1 raw (s2_evicting s), s2_revoking := raw # s2_revoking s\<rparr>)"
| revoke_finish:
    "raw \<in> set (s2_revoking s) \<Longrightarrow>
     l2_step J R s (s\<lparr>s2_db := snd (revoke_token_async raw (s2_db s)), s2_revoking := remove1 raw (s2_revoking s)\<rparr>)"
| family:
    "revoke_token_family_handler f (s2_actor s) (s2_db s) = (r, A, d) \<Longrightarrow> l2_step J R s (s\<lparr>s2_actor := A, s2_db := d\<rparr>)"
| other_read:
    "get_token_by_access_token key (s2_db s) = Some t \<Longrightarrow> token_is_valid (s2_now s) t \<Longrightarrow>
     l2_step J R s (s\<lparr>s2_reads := insert (key, t, s2_now s) (s2_reads s)\<rparr>)"
| other_copy:
    "(key, t, r) \<in> s2_reads s \<Longrightarrow>
     l2_step J R s (s\<lparr>s2_redis := l2_write J (Some R) took (s2_now s) (token_redis_key key) token_redis_ttl t (s2_redis s),
        s2_copies := insert (key, t, s2_now s) (s2_copies s)\<rparr>)"
| other_evict:
    "l2_step J R s (s\<lparr>s2_redis := l2_evict (Some R) took (s2_now s) key (s2_redis s)\<rparr>)"
| foreign:
    "(\<And>t k. kv_get R t (token_redis_key k) st' = kv_get R t (token_redis_key k) (s2_redis s)) \<Longrightarrow> l2_step J R s (s\<lparr>s2_redis := st'\<rparr>)"

definition l2_init :: "instant \<Rightarrow> db \<Rightarrow> token_actor \<Rightarrow> 'r \<Rightarrow> 'r sys2" where
  "l2_init now d A st = \<lparr>s2_now = now, s2_db = d, s2_redis = st, s2_actor = A\<lparr>tka_cache := []\<rparr>, s2_validating = [],
     s2_messages = [], s2_evicting = [], s2_revoking = [], s2_reads = {}, s2_copies = {}\<rparr>"

inductive l2_reachable :: "token codec \<Rightarrow> 'r redis_kv \<Rightarrow> 'r sys2 \<Rightarrow> 'r sys2 \<Rightarrow> bool" for J R s0 where
  refl: "l2_reachable J R s0 s0"
| step: "l2_reachable J R s0 s \<Longrightarrow> l2_step J R s s' \<Longrightarrow> l2_reachable J R s0 s'"

text \<open>At \<open>f\<close> the row was at hand: read from the table, or found in Redis within the lifetime of a copy.\<close>
definition obtained :: "read_log \<Rightarrow> read_log \<Rightarrow> string \<Rightarrow> token \<Rightarrow> instant \<Rightarrow> bool" where
  "obtained Rd C k t f = ((\<exists>r \<le> f. (k, t, r) \<in> Rd) \<or> (\<exists>w \<le> f. (k, t, w) \<in> C \<and> f < w + secs 60))"

definition copies_ok :: "read_log \<Rightarrow> read_log \<Rightarrow> bool" where
  "copies_ok Rd C = (\<forall>(k, t, w) \<in> C. \<exists>r \<le> w. (k, t, r) \<in> Rd)"

definition redis_ok :: "token codec \<Rightarrow> 'r redis_kv \<Rightarrow> read_log \<Rightarrow> instant \<Rightarrow> 'r \<Rightarrow> bool" where
  "redis_ok J R C now st =
     (\<forall>t' k j t. now \<le> t' \<longrightarrow> kv_get R t' (token_redis_key k) st = Some j \<longrightarrow> jc_from J j = Some t \<longrightarrow>
        (\<exists>w \<le> now. (k, t, w) \<in> C \<and> t' < w + secs 60))"

definition filled_ok :: "read_log \<Rightarrow> read_log \<Rightarrow> instant \<Rightarrow> (string \<times> cached_token) list \<Rightarrow> bool" where
  "filled_ok Rd C now c =
     (\<forall>k ct. map_of c k = Some ct \<longrightarrow> (\<exists>f \<le> ct_inserted_at ct. obtained Rd C k (ct_token ct) f) \<and> ct_inserted_at ct \<le> now)"

definition sent_ok :: "read_log \<Rightarrow> read_log \<Rightarrow> instant \<Rightarrow> (string \<times> token) set \<Rightarrow> bool" where
  "sent_ok Rd C now ms = (\<forall>(k, t) \<in> ms. \<exists>f \<le> now. obtained Rd C k t f)"

definition stage_ok :: "read_log \<Rightarrow> read_log \<Rightarrow> instant \<Rightarrow> string \<times> stage \<times> instant \<Rightarrow> bool" where
  "stage_ok Rd C now v =
     (case v of (k, g, started) \<Rightarrow> started \<le> now \<and>
        (case g of
           AtCache t \<Rightarrow> \<exists>f i. obtained Rd C k t f \<and> f \<le> i \<and> i \<le> started \<and> started < i + secs 60
         | WriteRedis t \<Rightarrow> \<exists>r. (k, t, r) \<in> Rd \<and> started \<le> r \<and> r \<le> now
         | _ \<Rightarrow> True))"

definition l2_inv :: "token codec \<Rightarrow> 'r redis_kv \<Rightarrow> 'r sys2 \<Rightarrow> bool" where
  "l2_inv J R s =
     (copies_ok (s2_reads s) (s2_copies s) \<and> redis_ok J R (s2_copies s) (s2_now s) (s2_redis s) \<and>
      filled_ok (s2_reads s) (s2_copies s) (s2_now s) (tka_cache (s2_actor s)) \<and>
      sent_ok (s2_reads s) (s2_copies s) (s2_now s) (set (s2_messages s)) \<and>
      Ball (set (s2_validating s)) (stage_ok (s2_reads s) (s2_copies s) (s2_now s)) \<and>
      (\<forall>(k, t, r) \<in> s2_reads s. r \<le> s2_now s \<and> token_is_valid r t))"

lemma obtained_mono: "obtained Rd C k t f \<Longrightarrow> Rd \<subseteq> Rd' \<Longrightarrow> C \<subseteq> C' \<Longrightarrow> obtained Rd' C' k t f"
  unfolding obtained_def by blast

lemma stage_ok_mono: "stage_ok Rd C now v \<Longrightarrow> Rd \<subseteq> Rd' \<Longrightarrow> C \<subseteq> C' \<Longrightarrow> now \<le> now' \<Longrightarrow> stage_ok Rd' C' now' v"
  unfolding stage_ok_def by (fastforce intro: obtained_mono split: stage.splits)

lemma redis_ok_mono:
  assumes "redis_ok J R C now st" "C \<subseteq> C'" "now \<le> now'"
    and "\<And>t k. now' \<le> t \<Longrightarrow> kv_get R t (token_redis_key k) st' = kv_get R t (token_redis_key k) st \<or> kv_get R t (token_redis_key k) st' = None"
  shows "redis_ok J R C' now' st'"
  unfolding redis_ok_def
proof (intro allI impI)
  fix t' k j t
  assume h: "now' \<le> t'" "kv_get R t' (token_redis_key k) st' = Some j" "jc_from J j = Some t"
  then have "kv_get R t' (token_redis_key k) st = Some j" using assms(4) [of t' k] by auto
  moreover have "now \<le> t'" using h(1) assms(3) by simp
  ultimately obtain w where "w \<le> now" "(k, t, w) \<in> C" "t' < w + secs 60" using assms(1) h(3) unfolding redis_ok_def by blast
  then show "\<exists>w \<le> now'. (k, t, w) \<in> C' \<and> t' < w + secs 60" using assms(2,3) by (intro exI [of _ w]) auto
qed

lemma redis_ok_write:
  assumes D: "kv_documented R" and F: "codec_faithful J" and ok: "redis_ok J R C now st"
  shows "redis_ok J R (insert (key, t, now) C) now (l2_write J (Some R) took now (token_redis_key key) token_redis_ttl t st)"
proof (cases "jc_to J t = None \<or> \<not> took")
  case True
  then have "l2_write J (Some R) took now (token_redis_key key) token_redis_ttl t st = st" by (auto simp: l2_write_def split: option.split)
  then show ?thesis using ok by (auto elim!: redis_ok_mono)
next
  case False
  then obtain j where j: "jc_to J t = Some j" "jc_from J j = Some t" using F unfolding codec_faithful_def by (cases "jc_to J t") auto
  show ?thesis unfolding redis_ok_def
  proof (intro allI impI)
    fix t' k j' u
    assume h: "now \<le> t'" "kv_get R t' (token_redis_key k) (l2_write J (Some R) took now (token_redis_key key) token_redis_ttl t st) = Some j'"
      "jc_from J j' = Some u"
    have w: "kv_get R t' (token_redis_key k) (kv_set_ex R now (token_redis_key key) j 60 st) = Some j'" using h(2) False j(1) by (simp add: l2_write_def)
    show "\<exists>w \<le> now. (k, u, w) \<in> insert (key, t, now) C \<and> t' < w + secs 60"
    proof (cases "k = key")
      case True
      then have "t' < now + secs 60 \<and> j' = j" using w kv_set(1) [OF D h(1), of 60] by (simp split: if_splits)
      then show ?thesis using True j(2) h(3) by (intro exI [of _ now]) simp
    next
      case False
      then have "kv_get R t' (token_redis_key k) st = Some j'" using w kv_set(2) [OF D h(1)] by simp
      then show ?thesis using ok h(1,3) unfolding redis_ok_def by blast
    qed
  qed
qed

lemma redis_ok_evict:
  assumes "kv_documented R" "redis_ok J R C now st"
  shows "redis_ok J R C now (l2_evict (Some R) took now key st)"
proof (rule redis_ok_mono [OF assms(2) subset_refl order_refl])
  fix t k
  assume "now \<le> t"
  then show "kv_get R t (token_redis_key k) (l2_evict (Some R) took now key st) = kv_get R t (token_redis_key k) st \<or>
      kv_get R t (token_redis_key k) (l2_evict (Some R) took now key st) = None"
    using kv_del [OF assms(1), of now t] by (cases "token_redis_key k = key") (simp_all add: l2_evict_def)
qed

text \<open>A step keeps the invariant if its new reads are not in the future, its new copies are of rows read, and whatever it adds to a
  cache, a message or a stage is accounted for.\<close>
lemma l2_inv_update:
  assumes "l2_inv J R s" "s2_reads s \<subseteq> s2_reads s'" "s2_copies s \<subseteq> s2_copies s'" "s2_now s \<le> s2_now s'"
    and "\<And>k t r. (k, t, r) \<in> s2_reads s' \<Longrightarrow> (k, t, r) \<in> s2_reads s \<or> r \<le> s2_now s' \<and> token_is_valid r t"
    and "\<And>k t w. (k, t, w) \<in> s2_copies s' \<Longrightarrow> (k, t, w) \<in> s2_copies s \<or> (\<exists>r \<le> w. (k, t, r) \<in> s2_reads s')"
    and "redis_ok J R (s2_copies s') (s2_now s') (s2_redis s')"
    and "\<And>k ct. map_of (tka_cache (s2_actor s')) k = Some ct \<Longrightarrow> map_of (tka_cache (s2_actor s)) k = Some ct \<or>
      (\<exists>f \<le> ct_inserted_at ct. obtained (s2_reads s') (s2_copies s') k (ct_token ct) f) \<and> ct_inserted_at ct \<le> s2_now s'"
    and "\<And>k t. (k, t) \<in> set (s2_messages s') \<Longrightarrow> (k, t) \<in> set (s2_messages s) \<or> (\<exists>f \<le> s2_now s'. obtained (s2_reads s') (s2_copies s') k t f)"
    and "\<And>v. v \<in> set (s2_validating s') \<Longrightarrow> v \<in> set (s2_validating s) \<or> stage_ok (s2_reads s') (s2_copies s') (s2_now s') v"
  shows "l2_inv J R s'"
proof -
  have c: "copies_ok (s2_reads s') (s2_copies s')"
    unfolding copies_ok_def
  proof (clarify, goal_cases)
    case (1 k t w)
    have "copies_ok (s2_reads s) (s2_copies s)" using assms(1) by (simp add: l2_inv_def)
    then show ?case using assms(6) [OF 1] assms(2) unfolding copies_ok_def by blast
  qed
  have f: "filled_ok (s2_reads s') (s2_copies s') (s2_now s') (tka_cache (s2_actor s'))"
    unfolding filled_ok_def
  proof (intro allI impI)
    fix k ct
    assume "map_of (tka_cache (s2_actor s')) k = Some ct"
    from assms(8) [OF this] show "(\<exists>f \<le> ct_inserted_at ct. obtained (s2_reads s') (s2_copies s') k (ct_token ct) f) \<and> ct_inserted_at ct \<le> s2_now s'"
    proof
      assume "map_of (tka_cache (s2_actor s)) k = Some ct"
      then have "(\<exists>f \<le> ct_inserted_at ct. obtained (s2_reads s) (s2_copies s) k (ct_token ct) f) \<and> ct_inserted_at ct \<le> s2_now s"
        using assms(1) by (simp add: l2_inv_def filled_ok_def)
      then show ?thesis using assms(2-4) obtained_mono order_trans by blast
    qed
  qed
  have m: "sent_ok (s2_reads s') (s2_copies s') (s2_now s') (set (s2_messages s'))"
    unfolding sent_ok_def
  proof (clarify, goal_cases)
    case (1 k t)
    have "sent_ok (s2_reads s) (s2_copies s) (s2_now s) (set (s2_messages s))" using assms(1) by (simp add: l2_inv_def)
    then have "(k, t) \<in> set (s2_messages s) \<Longrightarrow> \<exists>f \<le> s2_now s. obtained (s2_reads s) (s2_copies s) k t f" by (auto simp: sent_ok_def)
    then show ?case using assms(9) [OF 1] assms(2-4) obtained_mono order_trans by blast
  qed
  have v: "stage_ok (s2_reads s') (s2_copies s') (s2_now s') x" if "x \<in> set (s2_validating s')" for x
    using assms(10) [OF that] assms(1-4) stage_ok_mono unfolding l2_inv_def by blast
  have r: "r \<le> s2_now s' \<and> token_is_valid r t" if "(k, t, r) \<in> s2_reads s'" for k t r
    using assms(5) [OF that] assms(1,4) unfolding l2_inv_def by fastforce
  show ?thesis unfolding l2_inv_def using c f m v r assms(7) by blast
qed

lemma l2_inv_redis [simp]: "l2_inv J R s \<Longrightarrow> redis_ok J R (s2_copies s) (s2_now s) (s2_redis s)"
  by (simp add: l2_inv_def)

lemma l2_inv_stage: "l2_inv J R s \<Longrightarrow> (k, g, started) \<in> set (s2_validating s) \<Longrightarrow> stage_ok (s2_reads s) (s2_copies s) (s2_now s) (k, g, started)"
  by (simp add: l2_inv_def)

lemma l2_inv_found:
  assumes "l2_inv J R s" "l2_lookup J (Some R) ok (s2_now s) (token_redis_key key) (s2_redis s) = Some t"
  shows "\<exists>w \<le> s2_now s. (key, t, w) \<in> s2_copies s \<and> s2_now s < w + secs 60"
proof -
  obtain j where "kv_get R (s2_now s) (token_redis_key key) (s2_redis s) = Some j" "jc_from J j = Some t"
    using assms(2) by (auto simp: l2_lookup_def bind_eq_Some_conv split: if_splits)
  moreover have "redis_ok J R (s2_copies s) (s2_now s) (s2_redis s)" using assms(1) by simp
  ultimately show ?thesis unfolding redis_ok_def by blast
qed

lemma l2_stage_step:
  assumes D: "kv_documented R" and F: "codec_faithful J" and I: "l2_inv J R s" and v: "(key, g, started) \<in> set (s2_validating s)"
  shows "validate_stage J (Some R) ok (s2_now s) key g (s2_redis s) (s2_db s) = (Answers r m, st') \<Longrightarrow>
      l2_inv J R (s\<lparr>s2_validating := remove1 (key, g, started) (s2_validating s), s2_redis := st',
        s2_messages := (case m of Some x \<Rightarrow> [x] | None \<Rightarrow> []) @ s2_messages s, s2_copies := stage_reads key (s2_now s) g \<union> s2_copies s\<rparr>)"
    "validate_stage J (Some R) ok (s2_now s) key g (s2_redis s) (s2_db s) = (Goes g', st') \<Longrightarrow>
      l2_inv J R (s\<lparr>s2_validating := (key, g', started) # remove1 (key, g, started) (s2_validating s), s2_redis := st',
        s2_reads := stage_reads key (s2_now s) g' \<union> s2_reads s\<rparr>)"
proof -
  note sub = set_mp [OF set_remove1_subset]
  note ok = l2_inv_stage [OF I v]
  { assume a: "validate_stage J (Some R) ok (s2_now s) key g (s2_redis s) (s2_db s) = (Answers r m, st')"
    show "l2_inv J R (s\<lparr>s2_validating := remove1 (key, g, started) (s2_validating s), s2_redis := st',
        s2_messages := (case m of Some x \<Rightarrow> [x] | None \<Rightarrow> []) @ s2_messages s, s2_copies := stage_reads key (s2_now s) g \<union> s2_copies s\<rparr>)"
    proof (cases g)
      case (WriteRedis t)
      then obtain rd where rd: "(key, t, rd) \<in> s2_reads s" "rd \<le> s2_now s" using ok by (auto simp: stage_ok_def)
      then have "obtained (s2_reads s) (insert (key, t, s2_now s) (s2_copies s)) key t (s2_now s)" by (auto simp: obtained_def)
      then show ?thesis using I a rd WriteRedis redis_ok_write [OF D F l2_inv_redis [OF I], of key t ok]
        by (intro l2_inv_update [OF I]) (auto simp: stage_reads_def dest: sub)
    next
      case AskRedis
      have "obtained (s2_reads s) (s2_copies s) k t (s2_now s)" if "m = Some (k, t)" for k t
        using a AskRedis that l2_inv_found [OF I] by (auto simp: obtained_def split: option.splits)
      then show ?thesis using I a AskRedis
        by (intro l2_inv_update [OF I]) (auto simp: stage_reads_def dest: sub split: option.splits)
    qed (use I a in \<open>auto intro!: l2_inv_update [OF I] simp: stage_reads_def dest: sub split: option.splits if_splits\<close>) }
  { assume a: "validate_stage J (Some R) ok (s2_now s) key g (s2_redis s) (s2_db s) = (Goes g', st')"
    have "started \<le> s2_now s" using ok by (simp add: stage_ok_def)
    then have "stage_ok (stage_reads key (s2_now s) g' \<union> s2_reads s) (s2_copies s) (s2_now s) (key, g', started)"
      using a by (cases g) (auto simp: stage_ok_def stage_reads_def split: option.splits if_splits)
    then show "l2_inv J R (s\<lparr>s2_validating := (key, g', started) # remove1 (key, g, started) (s2_validating s), s2_redis := st',
        s2_reads := stage_reads key (s2_now s) g' \<union> s2_reads s\<rparr>)"
      using I a by (cases g) (auto intro!: l2_inv_update [OF I] simp: stage_reads_def dest: sub split: option.splits if_splits) }
qed

lemma l2_inv_step:
  assumes "l2_step J R s s'" "kv_documented R" "codec_faithful J" "l2_inv J R s"
  shows "l2_inv J R s'"
  using assms(1,4)
proof (induction rule: l2_step.induct)
  case (tick dt s)
  have "redis_ok J R (s2_copies s) (s2_now s + dt) (s2_redis s)"
    by (rule redis_ok_mono [OF l2_inv_redis [OF tick.prems] subset_refl]) (use tick.hyps in simp_all)
  then show ?case using tick.hyps by (intro l2_inv_update [OF tick.prems]) simp_all
next
  case (validate_start s raw cached A)
  note v = validate_sync_cases [OF validate_start.hyps]
  have "stage_ok (s2_reads s) (s2_copies s) (s2_now s) (normalize_token_key raw, start_stage cached, s2_now s)"
  proof (cases cached)
    case (Some t)
    then obtain ct where "map_of (tka_cache (s2_actor s)) (normalize_token_key raw) = Some ct" "t = ct_token ct" "s2_now s < ct_inserted_at ct + secs 60"
      using v(2) by (auto simp: cache_ttl_def)
    moreover have "filled_ok (s2_reads s) (s2_copies s) (s2_now s) (tka_cache (s2_actor s))" using validate_start.prems by (simp add: l2_inv_def)
    ultimately show ?thesis unfolding filled_ok_def stage_ok_def start_stage_def Some by simp blast
  qed (simp add: stage_ok_def start_stage_def)
  then show ?case using validate_start.prems v(1) by (intro l2_inv_update [OF validate_start.prems]) auto
next
  case (stage_goes key g started s ok g' st')
  then show ?case by (intro l2_stage_step(2) [OF assms(2,3)])
next
  case (stage_answers key g started s ok r m st')
  then show ?case by (intro l2_stage_step(1) [OF assms(2,3)])
next
  case (deliver key t s)
  obtain f where f: "f \<le> s2_now s" "obtained (s2_reads s) (s2_copies s) key t f"
    using deliver by (auto simp: l2_inv_def sent_ok_def)
  have "map_of (tka_cache (cache_validated_token (s2_now s) key t (s2_actor s))) k = Some ct \<Longrightarrow>
      (k = key \<and> ct = \<lparr>ct_token = t, ct_inserted_at = s2_now s\<rparr>) \<or> map_of (tka_cache (s2_actor s)) k = Some ct" for k ct
    using lru.put_never_invents [of key _ "tka_cache (s2_actor s)"] by (simp add: cache_validated_token_def)
  then show ?case using deliver.prems f set_remove1_subset [of "(key, t)" "s2_messages s"]
    by (intro l2_inv_update [OF deliver.prems]) fastforce+
next
  case (revoke_start s raw)
  then show ?case by (intro l2_inv_update [OF revoke_start.prems]) (auto simp: invalidate_cached_token_def split: if_splits)
next
  case (revoke_evict raw s took)
  then show ?case using redis_ok_evict [OF assms(2) l2_inv_redis] by (intro l2_inv_update [OF revoke_evict.prems]) simp_all
next
  case (family f s r A d)
  then have "tka_cache A = []" by (auto simp: revoke_token_family_handler_def Let_def split: prod.splits)
  then show ?case using family.prems by (intro l2_inv_update [OF family.prems]) simp_all
next
  case (other_copy key t r s took)
  then have "r \<le> s2_now s" by (auto simp: l2_inv_def)
  then show ?case using other_copy redis_ok_write [OF assms(2,3) l2_inv_redis [OF other_copy.prems]]
    by (intro l2_inv_update [OF other_copy.prems]) auto
next
  case (other_evict s took key)
  then show ?case using redis_ok_evict [OF assms(2) l2_inv_redis] by (intro l2_inv_update [OF other_evict.prems]) simp_all
next
  case (foreign st' s)
  then have "redis_ok J R (s2_copies s) (s2_now s) st'" by (intro redis_ok_mono [OF l2_inv_redis [OF foreign.prems]]) simp_all
  then show ?case by (intro l2_inv_update [OF foreign.prems]) simp_all
next
  case (other_read key s t)
  then show ?case by (intro l2_inv_update [OF other_read.prems]) auto
next
  case (statement s c)
  then show ?case by (intro l2_inv_update [OF statement.prems]) simp_all
next
  case (revoke_finish raw s)
  then show ?case by (intro l2_inv_update [OF revoke_finish.prems]) simp_all
qed

lemma l2_inv_reachable:
  assumes "l2_reachable J R s0 s" "kv_documented R" "codec_faithful J" "l2_inv J R s0"
  shows "l2_inv J R s"
  using assms by (induction rule: l2_reachable.induct) (auto intro: l2_inv_step)

lemma l2_inv_init: "(\<And>t k. now \<le> t \<Longrightarrow> kv_get R t (token_redis_key k) st = None) \<Longrightarrow> l2_inv J R (l2_init now d A st)"
  by (simp add: l2_inv_def l2_init_def copies_ok_def redis_ok_def filled_ok_def sent_ok_def)


section \<open>What the shared layer keeps\<close>

text \<open>The revocation of a family clears the process's cache and the rows, not the copies in Redis: until a copy expires, a validation of
  a token of the family succeeds.\<close>
theorem family_revocation_misses_redis:
  assumes "l2_lookup J (Some R) True now (token_redis_key (normalize_token_key raw)) st = Some t" "token_is_valid now t"
    and "get_token_by_access_token (normalize_token_key raw) d = Some row" "tk_token_family row = Some f"
    and "revoke_token_family_handler f A d = (r, A', d')"
  shows "(\<exists>row'. get_token_by_access_token (normalize_token_key raw) d' = Some row' \<and> tk_revoked row') \<and>
    fst (validate_token_l2 J (Some R) (\<lambda>_. True) now raw (fst (validate_token_sync now raw A')) st d') = Inr t"
proof -
  have d': "d' = snd (revoke_token_family f d)" and A': "tka_cache A' = []"
    using assms(5) by (auto simp: revoke_token_family_handler_def Let_def split: prod.splits)
  have "fst (validate_token_sync now raw A') = None" by (simp add: validate_token_sync_def A' lru_get_def Let_def)
  then have "fst (validate_token_l2 J (Some R) (\<lambda>_. True) now raw (fst (validate_token_sync now raw A')) st d') = Inr t"
    using assms(1,2) by (simp add: validate_token_l2_def start_stage_def run_stages_rules answer_cached_def)
  moreover have "\<exists>row'. get_token_by_access_token (normalize_token_key raw) d' = Some row' \<and> tk_revoked row'"
    using assms(3,4) by (simp add: d' revoke_token_family_def revoke_rows_def get_token_by_access_token_def find_update_where)
  ultimately show ?thesis by blast
qed

text \<open>The deletion of a client, and a change of its secret, leave the copy in Redis too.\<close>
theorem deleted_client_authenticates:
  assumes "l2_lookup J (Some R) True now (client_redis_key cid) st = Some c" "delete_client_handler cid A d = (Inr (), A', d')"
  shows "get_client cid d' = None \<and> fst (validate_client_l2 J (Some R) True took now cid (cl_client_secret c) A' st d') = Inr True"
proof -
  have "map_of (cla_cache A') cid = None" using assms(2) by (auto simp: delete_client_handler_def Let_def split: prod.splits)
  then have "get_cached_client now cid A' = (None, A')" by (simp add: get_cached_client_def lru_get_def)
  moreover have "get_client cid d' = None" using assms(2)
    by (auto simp: delete_client_handler_def delete_client_def checked_def get_client_def find_None_iff Let_def split: if_splits)
  ultimately show ?thesis using assms(1) by (simp add: validate_client_l2_def get_client_l2_def)
qed

section \<open>How old a client can be\<close>

text \<open>The client actor beside other instances.  The ghost set records which row the table held for a client when somebody read it, and
  which row an update put into the cache.\<close>

record 'r clsys =
  ls_now :: instant
  ls_db :: db
  ls_redis :: 'r
  ls_actor :: client_actor
  ls_seen :: "(string \<times> client \<times> instant) set"

definition table_row :: "string \<Rightarrow> 'r clsys \<Rightarrow> (string \<times> client \<times> instant) set" where
  "table_row cid s = (case get_client cid (ls_db s) of Some c \<Rightarrow> {(cid, c, ls_now s)} | None \<Rightarrow> {})"

inductive client_step :: "client codec \<Rightarrow> 'r redis_kv \<Rightarrow> 'r clsys \<Rightarrow> 'r clsys \<Rightarrow> bool" for J R where
  tick: "0 \<le> dt \<Longrightarrow> client_step J R s (s\<lparr>ls_now := ls_now s + dt\<rparr>)"
| statement: "client_step J R s (s\<lparr>ls_db := exec_cmd c (ls_db s)\<rparr>)"
| fetch:
    "get_client_l2 J (Some R) heard took (ls_now s) cid (ls_actor s) (ls_redis s) (ls_db s) = (r, A, st') \<Longrightarrow>
     client_step J R s (s\<lparr>ls_actor := A, ls_redis := st', ls_seen := table_row cid s \<union> ls_seen s\<rparr>)"
| update:
    "update_client_handler (ls_now s) c (ls_actor s) (ls_db s) = (r, A, d) \<Longrightarrow>
     client_step J R s (s\<lparr>ls_actor := A, ls_db := d, ls_seen := insert (cl_client_id c, c, ls_now s) (ls_seen s)\<rparr>)"
| delete:
    "delete_client_handler cid (ls_actor s) (ls_db s) = (r, A, d) \<Longrightarrow> client_step J R s (s\<lparr>ls_actor := A, ls_db := d\<rparr>)"
| other_copy:
    "get_client cid (ls_db s) = Some c \<Longrightarrow>
     client_step J R s (s\<lparr>ls_redis := l2_write J (Some R) took (ls_now s) (client_redis_key cid) client_redis_ttl c (ls_redis s),
        ls_seen := table_row cid s \<union> ls_seen s\<rparr>)"
| foreign:
    "(\<And>t k. kv_get R t (client_redis_key k) st' = kv_get R t (client_redis_key k) (ls_redis s)) \<Longrightarrow> client_step J R s (s\<lparr>ls_redis := st'\<rparr>)"

inductive client_reachable :: "client codec \<Rightarrow> 'r redis_kv \<Rightarrow> 'r clsys \<Rightarrow> 'r clsys \<Rightarrow> bool" for J R s0 where
  refl: "client_reachable J R s0 s0"
| step: "client_reachable J R s0 s \<Longrightarrow> client_step J R s s' \<Longrightarrow> client_reachable J R s0 s'"

definition client_init :: "instant \<Rightarrow> db \<Rightarrow> 'r \<Rightarrow> 'r clsys" where
  "client_init now d st = \<lparr>ls_now = now, ls_db = d, ls_redis = st, ls_actor = \<lparr>cla_cache = []\<rparr>, ls_seen = {}\<rparr>"

type_synonym seen_log = "(string \<times> client \<times> instant) set"

definition shared_ok :: "client codec \<Rightarrow> 'r redis_kv \<Rightarrow> seen_log \<Rightarrow> instant \<Rightarrow> 'r \<Rightarrow> bool" where
  "shared_ok J R S now st =
     (\<forall>t' k j c. now \<le> t' \<longrightarrow> kv_get R t' (client_redis_key k) st = Some j \<longrightarrow> jc_from J j = Some c \<longrightarrow>
        (\<exists>w \<le> now. (k, c, w) \<in> S \<and> t' < w + secs 300))"

definition kept_ok :: "seen_log \<Rightarrow> instant \<Rightarrow> (string \<times> cached_client) list \<Rightarrow> bool" where
  "kept_ok S now cache =
     (\<forall>k e. map_of cache k = Some e \<longrightarrow>
        (\<exists>w. (k, cch_client e, w) \<in> S \<and> cch_inserted_at e < w + secs 300) \<and> cch_inserted_at e \<le> now)"

definition client_inv :: "client codec \<Rightarrow> 'r redis_kv \<Rightarrow> 'r clsys \<Rightarrow> bool" where
  "client_inv J R s =
     (shared_ok J R (ls_seen s) (ls_now s) (ls_redis s) \<and> kept_ok (ls_seen s) (ls_now s) (cla_cache (ls_actor s)) \<and>
      (\<forall>(k, c, w) \<in> ls_seen s. cl_client_id c = k \<and> w \<le> ls_now s))"

lemma shared_ok_mono:
  assumes "shared_ok J R S now st" "S \<subseteq> S'" "now \<le> now'"
    and "\<And>t k. now' \<le> t \<Longrightarrow> kv_get R t (client_redis_key k) st' = kv_get R t (client_redis_key k) st"
  shows "shared_ok J R S' now' st'"
  unfolding shared_ok_def
proof (intro allI impI)
  fix t' k j c
  assume h: "now' \<le> t'" "kv_get R t' (client_redis_key k) st' = Some j" "jc_from J j = Some c"
  then have "kv_get R t' (client_redis_key k) st = Some j" "now \<le> t'" using assms(3) assms(4) [of t' k] by auto
  then obtain w where "w \<le> now" "(k, c, w) \<in> S" "t' < w + secs 300" using assms(1) h(3) unfolding shared_ok_def by blast
  then show "\<exists>w \<le> now'. (k, c, w) \<in> S' \<and> t' < w + secs 300" using assms(2,3) by (intro exI [of _ w]) auto
qed

lemma kept_ok_mono: "kept_ok S now c \<Longrightarrow> S \<subseteq> S' \<Longrightarrow> now \<le> now' \<Longrightarrow> (\<And>k e. map_of c' k = Some e \<Longrightarrow> map_of c k = Some e) \<Longrightarrow> kept_ok S' now' c'"
  unfolding kept_ok_def by (meson order_trans subsetD)

lemma shared_ok_write:
  assumes D: "kv_documented R" and F: "codec_faithful J" and ok: "shared_ok J R S now st" and c: "(cid, c, now) \<in> S"
  shows "shared_ok J R S now (l2_write J (Some R) took now (client_redis_key cid) client_redis_ttl c st)"
proof (cases "jc_to J c = None \<or> \<not> took")
  case True
  then have "l2_write J (Some R) took now (client_redis_key cid) client_redis_ttl c st = st" by (auto simp: l2_write_def split: option.split)
  then show ?thesis using ok by simp
next
  case False
  then obtain j where j: "jc_to J c = Some j" "jc_from J j = Some c" using F unfolding codec_faithful_def by (cases "jc_to J c") auto
  show ?thesis unfolding shared_ok_def
  proof (intro allI impI)
    fix t' k j' u
    assume h: "now \<le> t'" "kv_get R t' (client_redis_key k) (l2_write J (Some R) took now (client_redis_key cid) client_redis_ttl c st) = Some j'"
      "jc_from J j' = Some u"
    have w: "kv_get R t' (client_redis_key k) (kv_set_ex R now (client_redis_key cid) j 300 st) = Some j'" using h(2) False j(1) by (simp add: l2_write_def)
    show "\<exists>w \<le> now. (k, u, w) \<in> S \<and> t' < w + secs 300"
    proof (cases "k = cid")
      case True
      then have "t' < now + secs 300 \<and> j' = j" using w kv_set(1) [OF D h(1), of 300] by (simp split: if_splits)
      then show ?thesis using True j(2) h(3) c by (intro exI [of _ now]) simp
    next
      case False
      then have "kv_get R t' (client_redis_key k) st = Some j'" using w kv_set(2) [OF D h(1)] by simp
      then show ?thesis using ok h(1,3) unfolding shared_ok_def by blast
    qed
  qed
qed

lemma table_row_iff: "(k, c, w) \<in> table_row cid s \<longleftrightarrow> k = cid \<and> w = ls_now s \<and> get_client cid (ls_db s) = Some c"
  by (auto simp: table_row_def split: option.split)

lemma insert_cached_lookup:
  "map_of (cla_cache (insert_cached_client now c A)) k = Some e \<Longrightarrow>
   (k = cl_client_id c \<and> e = \<lparr>cch_client = c, cch_inserted_at = now\<rparr>) \<or> map_of (cla_cache A) k = Some e"
  by (auto simp: insert_cached_client_def lru_put_def dest!: map_of_take_sub split: if_splits)

lemma get_cached_lookup:
  assumes "get_cached_client now cid A = (x, A')"
  shows "map_of (cla_cache A') k = Some e \<Longrightarrow> map_of (cla_cache A) k = Some e"
    "x = Some c \<Longrightarrow> \<exists>e. map_of (cla_cache A) cid = Some e \<and> cch_client e = c \<and> now < cch_inserted_at e + secs 300"
  using assms by (auto simp: get_cached_client_def lru_get_def client_cache_ttl_def split: option.splits if_splits)

text \<open>The three sources of an answer, with what they leave in the caches.\<close>
lemma get_client_l2_cases:
  assumes "get_client_l2 J conn heard took now cid A st d = (r, A', st')" "get_cached_client now cid A = (x, A1)"
  obtains (cached) c where "x = Some c" "r = Inr c" "A' = A1" "st' = st"
  | (shared) c where "x = None" "l2_lookup J conn heard now (client_redis_key cid) st = Some c" "r = Inr c" "A' = insert_cached_client now c A1" "st' = st"
  | (missing) "x = None" "get_client cid d = None" "r = Inl (invalid_client ''Client not found'')" "A' = A1" "st' = st"
  | (row) c where "x = None" "get_client cid d = Some c" "r = Inr c" "A' = insert_cached_client now c A1"
      "st' = l2_write J conn took now (client_redis_key cid) client_redis_ttl c st"
  using assms by (auto simp: get_client_l2_def split: option.splits)

lemma kept_ok_insert:
  assumes "kept_ok S now (cla_cache A)" "(cl_client_id c, c, w) \<in> S" "now < w + secs 300"
  shows "kept_ok S now (cla_cache (insert_cached_client now c A))"
  unfolding kept_ok_def
proof (intro allI impI)
  fix k e
  assume "map_of (cla_cache (insert_cached_client now c A)) k = Some e"
  from insert_cached_lookup [OF this] show "(\<exists>w. (k, cch_client e, w) \<in> S \<and> cch_inserted_at e < w + secs 300) \<and> cch_inserted_at e \<le> now"
    using assms unfolding kept_ok_def by auto
qed

lemma client_inv_found:
  assumes "client_inv J R s" "l2_lookup J (Some R) heard (ls_now s) (client_redis_key cid) (ls_redis s) = Some c"
  shows "\<exists>w. (cid, c, w) \<in> ls_seen s \<and> ls_now s < w + secs 300" "cl_client_id c = cid"
proof -
  obtain j where "kv_get R (ls_now s) (client_redis_key cid) (ls_redis s) = Some j" "jc_from J j = Some c"
    using assms(2) by (auto simp: l2_lookup_def bind_eq_Some_conv split: if_splits)
  moreover have "shared_ok J R (ls_seen s) (ls_now s) (ls_redis s)" using assms(1) by (simp add: client_inv_def)
  ultimately show w: "\<exists>w. (cid, c, w) \<in> ls_seen s \<and> ls_now s < w + secs 300" unfolding shared_ok_def by blast
  then show "cl_client_id c = cid" using assms(1) by (auto simp: client_inv_def)
qed

lemma get_client_id: "get_client cid d = Some c \<Longrightarrow> cl_client_id c = cid"
  by (auto simp: get_client_def dest: find_Some_in)

lemma client_inv_fetch:
  assumes D: "kv_documented R" and F: "codec_faithful J" and I: "client_inv J R s"
    and g: "get_client_l2 J (Some R) heard took (ls_now s) cid (ls_actor s) (ls_redis s) (ls_db s) = (r, A, st')"
  shows "client_inv J R (s\<lparr>ls_actor := A, ls_redis := st', ls_seen := table_row cid s \<union> ls_seen s\<rparr>)"
proof -
  let ?S = "table_row cid s \<union> ls_seen s"
  obtain x A1 where x: "get_cached_client (ls_now s) cid (ls_actor s) = (x, A1)" by fastforce
  have sh: "shared_ok J R ?S (ls_now s) (ls_redis s)" using I unfolding client_inv_def by (elim conjE shared_ok_mono) simp_all
  have k1: "kept_ok ?S (ls_now s) (cla_cache A1)"
    using I get_cached_lookup(1) [OF x] unfolding client_inv_def by (elim conjE kept_ok_mono) auto
  have ids: "\<forall>(k, c, w) \<in> ?S. cl_client_id c = k \<and> w \<le> ls_now s"
    using I get_client_id by (auto simp: client_inv_def table_row_iff)
  from g x have "shared_ok J R ?S (ls_now s) st' \<and> kept_ok ?S (ls_now s) (cla_cache A)"
  proof (cases rule: get_client_l2_cases)
    case (shared c)
    from client_inv_found [OF I shared(2)] obtain w where "(cl_client_id c, c, w) \<in> ?S" "ls_now s < w + secs 300" by auto
    then show ?thesis using shared sh kept_ok_insert [OF k1] by simp
  next
    case (row c)
    then have m: "(cid, c, ls_now s) \<in> ?S" "cl_client_id c = cid" using get_client_id by (auto simp: table_row_iff)
    then show ?thesis using row shared_ok_write [OF D F sh m(1)] kept_ok_insert [OF k1, of c "ls_now s"] by (simp add: secs_def)
  qed (use sh k1 in simp_all)
  then show ?thesis using ids by (simp add: client_inv_def)
qed

lemma client_inv_step:
  assumes "client_step J R s s'" "kv_documented R" "codec_faithful J" "client_inv J R s"
  shows "client_inv J R s'"
  using assms(1,4)
proof (induction rule: client_step.induct)
  case (tick dt s)
  then have "shared_ok J R (ls_seen s) (ls_now s + dt) (ls_redis s)" "kept_ok (ls_seen s) (ls_now s + dt) (cla_cache (ls_actor s))"
    by (auto simp: client_inv_def elim!: shared_ok_mono kept_ok_mono)
  then show ?case using tick by (fastforce simp: client_inv_def)
next
  case (fetch heard took s cid r A st')
  then show ?case using client_inv_fetch [OF assms(2,3)] by blast
next
  case (update s c r A d)
  let ?S = "insert (cl_client_id c, c, ls_now s) (ls_seen s)"
  have A: "A = insert_cached_client (ls_now s) c (ls_actor s)" using update.hyps by (auto simp: update_client_handler_def update_client_def)
  have "kept_ok ?S (ls_now s) (cla_cache (ls_actor s))" "shared_ok J R ?S (ls_now s) (ls_redis s)"
    using update.prems by (auto simp: client_inv_def elim!: kept_ok_mono shared_ok_mono)
  then show ?case using update.prems kept_ok_insert [of ?S "ls_now s" "ls_actor s" c "ls_now s"] by (simp add: client_inv_def A secs_def)
next
  case (delete cid s r A d)
  then have "cla_cache A = lru_pop cid (cla_cache (ls_actor s))" by (auto simp: delete_client_handler_def Let_def split: prod.splits)
  then show ?case using delete.prems by (auto simp: client_inv_def elim!: kept_ok_mono split: if_splits)
next
  case (other_copy cid s c took)
  have ids: "cl_client_id c = cid" using other_copy.hyps by (rule get_client_id)
  let ?S = "table_row cid s \<union> ls_seen s"
  have "shared_ok J R ?S (ls_now s) (ls_redis s)" "kept_ok ?S (ls_now s) (cla_cache (ls_actor s))"
    using other_copy.prems by (auto simp: client_inv_def elim!: kept_ok_mono shared_ok_mono)
  then show ?case using other_copy ids shared_ok_write [OF assms(2,3), of ?S "ls_now s" "ls_redis s" cid c took]
    by (auto simp: client_inv_def table_row_iff)
next
  case (foreign st' s)
  then have "shared_ok J R (ls_seen s) (ls_now s) (ls_redis s)" by (simp add: client_inv_def)
  then have "shared_ok J R (ls_seen s) (ls_now s) st'" by (rule shared_ok_mono) (simp_all add: foreign.hyps)
  then show ?case using foreign.prems by (simp add: client_inv_def)
qed (simp add: client_inv_def)

text \<open>However the instances, the caches and Redis interleave, the client a lookup answers with is a row that the table held, or that an
  update stored, less than ten minutes ago: five minutes in Redis and five in the process.\<close>
theorem client_staleness_bounded:
  assumes "kv_documented R" "codec_faithful J" "\<And>t k. t0 \<le> t \<Longrightarrow> kv_get R t (client_redis_key k) st0 = None"
    and "client_reachable J R (client_init t0 d st0) s"
    and "get_client_l2 J (Some R) heard took (ls_now s) cid (ls_actor s) (ls_redis s) (ls_db s) = (Inr c, A', st')"
  shows "\<exists>r. (cid, c, r) \<in> table_row cid s \<union> ls_seen s \<and> ls_now s < r + secs 600"
proof -
  have "client_inv J R (client_init t0 d st0)" using assms(3) by (simp add: client_inv_def client_init_def shared_ok_def kept_ok_def)
  with assms(4) have I: "client_inv J R s"
    by (induction rule: client_reachable.induct) (auto intro: client_inv_step [OF _ assms(1,2)])
  obtain x A1 where x: "get_cached_client (ls_now s) cid (ls_actor s) = (x, A1)" by fastforce
  from assms(5) x show ?thesis
  proof (cases rule: get_client_l2_cases)
    case (cached c')
    from get_cached_lookup(2) [OF x cached(1)] obtain e where e: "map_of (cla_cache (ls_actor s)) cid = Some e" "cch_client e = c"
      "ls_now s < cch_inserted_at e + secs 300" using cached(2) by auto
    moreover have "kept_ok (ls_seen s) (ls_now s) (cla_cache (ls_actor s))" using I by (simp add: client_inv_def)
    ultimately obtain w where "(cid, c, w) \<in> ls_seen s" "cch_inserted_at e < w + secs 300" unfolding kept_ok_def by blast
    then show ?thesis using e(3) by (intro exI [of _ w]) (simp add: secs_def)
  next
    case (shared c')
    then obtain w where "(cid, c, w) \<in> ls_seen s" "ls_now s < w + secs 300" using client_inv_found(1) [OF I shared(2)] by auto
    then show ?thesis by (intro exI [of _ w]) (simp add: secs_def)
  next
    case (row c')
    then show ?thesis by (intro exI [of _ "ls_now s"]) (simp add: table_row_iff secs_def)
  qed simp
qed

section \<open>Recent events in Redis\<close>

record 'r redis_list =
  kl_lpush :: "instant \<Rightarrow> string \<Rightarrow> string \<Rightarrow> 'r \<Rightarrow> 'r"
  kl_ltrim :: "instant \<Rightarrow> string \<Rightarrow> int \<Rightarrow> int \<Rightarrow> 'r \<Rightarrow> 'r"
  kl_expire :: "instant \<Rightarrow> string \<Rightarrow> int \<Rightarrow> 'r \<Rightarrow> 'r"
  kl_lrange :: "instant \<Rightarrow> string \<Rightarrow> int \<Rightarrow> int \<Rightarrow> 'r \<Rightarrow> string list"

text \<open>The elements from one index to another, both included; a negative index counts from the end.\<close>
definition redis_range :: "int \<Rightarrow> int \<Rightarrow> 'a list \<Rightarrow> 'a list" where
  "redis_range a b xs =
     (let n = int (length xs); i = (if a < 0 then max 0 (a + n) else a); j = (if b < 0 then b + n else b) in drop (nat i) (take (nat (j + 1)) xs))"

text \<open>\<open>look st t k\<close> is the list of \<open>k\<close> at \<open>t\<close>, empty for a missing key.\<close>
definition list_documented :: "'r redis_list \<Rightarrow> ('r \<Rightarrow> instant \<Rightarrow> string \<Rightarrow> string list) \<Rightarrow> bool" where
  "list_documented Q look =
     ((\<forall>now k v st. look (kl_lpush Q now k v st) now k = v # look st now k) \<and>
      (\<forall>now k a b st. look (kl_ltrim Q now k a b st) now k = redis_range a b (look st now k)) \<and>
      (\<forall>now k s st t. 0 < s \<longrightarrow> now \<le> t \<longrightarrow> look (kl_expire Q now k s st) t k = (if t < now + secs s then look st now k else [])) \<and>
      (\<forall>now k a b st. kl_lrange Q now k a b st = redis_range a b (look st now k)))"

definition REDIS_KEY :: string where
  "REDIS_KEY = ''oauth2:recent_events''"

text \<open>\<open>RecentEventsStore::push\<close> and \<open>snapshot\<close> with a connection; \<open>took\<close> tells of each of the three commands whether it took effect.\<close>
definition recent_push_redis ::
  "'r redis_list \<Rightarrow> json codec \<Rightarrow> (nat \<Rightarrow> bool) \<Rightarrow> nat \<Rightarrow> instant \<Rightarrow> json \<Rightarrow> 'r \<Rightarrow> 'r" where
  "recent_push_redis Q J took capacity now value st =
     (case jc_to J value of
        None \<Rightarrow> st
      | Some j \<Rightarrow>
          let cap = int capacity - 1;
              st1 = (if took 0 then kl_lpush Q now REDIS_KEY j st else st);
              st2 = (if took 1 then kl_ltrim Q now REDIS_KEY 0 cap st1 else st1)
          in if took 2 then kl_expire Q now REDIS_KEY 86400 st2 else st2)"

definition recent_snapshot_redis :: "'r redis_list \<Rightarrow> json codec \<Rightarrow> bool \<Rightarrow> nat \<Rightarrow> instant \<Rightarrow> 'r \<Rightarrow> json list" where
  "recent_snapshot_redis Q J heard capacity now st =
     List.map_filter (jc_from J) (if heard then kl_lrange Q now REDIS_KEY 0 (int capacity - 1) st else [])"

definition recent_push_all :: "'r redis_list \<Rightarrow> json codec \<Rightarrow> nat \<Rightarrow> (instant \<times> json) list \<Rightarrow> 'r \<Rightarrow> 'r" where
  "recent_push_all Q J capacity es st = fold (\<lambda>(now, v). recent_push_redis Q J (\<lambda>_. True) capacity now v) es st"

text \<open>Each event comes less than a day after the one before; the result is the instant of the last.\<close>
fun paced :: "instant \<Rightarrow> (instant \<times> 'v) list \<Rightarrow> instant option" where
  "paced t [] = Some t"
| "paced t ((u, v) # es) = (if t \<le> u \<and> u < t + secs 86400 then paced u es else None)"

lemma redis_range_first: "redis_range 0 (int n - 1) xs = (if n = 0 then xs else take n xs)"
  by (simp add: redis_range_def Let_def)

lemma redis_range_map: "redis_range a b (map f xs) = map f (redis_range a b xs)"
  by (simp add: redis_range_def Let_def drop_map take_map)

definition list_state :: "('r \<Rightarrow> instant \<Rightarrow> string \<Rightarrow> string list) \<Rightarrow> 'r \<Rightarrow> instant \<Rightarrow> string list \<Rightarrow> bool" where
  "list_state look st t xs = (\<forall>u \<ge> t. look st u REDIS_KEY = (if u < t + secs 86400 then xs else []))"

lemma list_state_push:
  assumes "list_documented Q look" "list_state look st t xs" "t \<le> u" "u < t + secs 86400" "jc_to J v = Some j"
  shows "list_state look (recent_push_redis Q J (\<lambda>_. True) cap u v st) u (redis_range 0 (int cap - 1) (j # xs))"
proof -
  have "look st u REDIS_KEY = xs" using assms(2-4) by (simp add: list_state_def)
  then show ?thesis using assms(1,5) by (simp add: list_state_def list_documented_def recent_push_redis_def Let_def)
qed

lemma recent_push_newest_first:
  "0 < rs_capacity M \<Longrightarrow> length (rs_inner M) \<le> rs_capacity M \<Longrightarrow> rev (rs_inner (recent_push v M)) = take (rs_capacity M) (v # rev (rs_inner M))"
  by (cases "rs_inner M" rule: rev_cases; cases "rs_inner M") (auto simp: recent_push_def Let_def take_Cons' rev_take drop_Suc)

lemma list_state_push_all:
  assumes "list_documented Q look" "codec_faithful J" "\<And>v. jc_to J v \<noteq> None" "0 < rs_capacity M"
    and "list_state look st t (map (the \<circ> jc_to J) (rev (rs_inner M)))" "length (rs_inner M) \<le> rs_capacity M" "paced t es = Some t'"
  shows "list_state look (recent_push_all Q J (rs_capacity M) es st) t' (map (the \<circ> jc_to J) (rev (rs_inner (fold recent_push (map snd es) M))))
    \<and> rs_capacity (fold recent_push (map snd es) M) = rs_capacity M"
  using assms(4-)
proof (induction es arbitrary: st t M)
  case (Cons e es)
  obtain u v where e: "e = (u, v)" by fastforce
  let ?M = "recent_push v M" and ?enc = "the \<circ> jc_to J"
  have u: "t \<le> u" "u < t + secs 86400" "paced u es = Some t'" using Cons.prems(4) by (auto simp: e split: if_splits)
  obtain j where j: "jc_to J v = Some j" using assms(3) [of v] by auto
  have M: "rs_capacity ?M = rs_capacity M" by (simp add: recent_push_def Let_def)
  have r: "rev (rs_inner ?M) = take (rs_capacity M) (v # rev (rs_inner M))" using Cons.prems by (simp add: recent_push_newest_first)
  have l: "length (rs_inner ?M) \<le> rs_capacity M" using arg_cong [OF r, of length] by simp
  have "list_state look (recent_push_redis Q J (\<lambda>_. True) (rs_capacity M) u v st) u (map ?enc (rev (rs_inner ?M)))"
    using list_state_push [OF assms(1) Cons.prems(2) u(1,2) j, of "rs_capacity M"] Cons.prems(1)
    by (simp only: r redis_range_first take_map [symmetric]) (simp add: j)
  from Cons.IH [OF _ this _ u(3)] M l Cons.prems(1) show ?case by (simp add: e recent_push_all_def)
qed (simp add: recent_push_all_def)

lemma map_filter_decode:
  assumes "codec_faithful J" "\<And>v. jc_to J v \<noteq> None"
  shows "List.map_filter (jc_from J) (map (the \<circ> jc_to J) vs) = vs"
proof (induction vs)
  case (Cons v vs)
  obtain j where "jc_to J v = Some j" using assms(2) [of v] by auto
  then show ?case using Cons assms(1) by (simp add: List.map_filter_def codec_faithful_def)
qed (simp add: List.map_filter_def)

text \<open>The list in Redis refines the ring: as long as commands succeed and no day passes without an event, a snapshot shows the same events in
  the same order.  After a day without events the list is gone.\<close>
theorem recent_redis_refines:
  assumes "list_documented Q look" "codec_faithful J" "\<And>v. jc_to J v \<noteq> None" "0 < capacity"
    and "\<And>u. t0 \<le> u \<Longrightarrow> look st0 u REDIS_KEY = []" "paced t0 es = Some t1" "t1 \<le> now"
  shows "recent_snapshot_redis Q J True capacity now (recent_push_all Q J capacity es st0) =
    (if now < t1 + secs 86400 then recent_snapshot (fold recent_push (map snd es) \<lparr>rs_capacity = capacity, rs_inner = []\<rparr>) else [])"
proof -
  let ?M = "\<lparr>rs_capacity = capacity, rs_inner = []\<rparr>" and ?st = "recent_push_all Q J capacity es st0"
  let ?vs = "rev (rs_inner (fold recent_push (map snd es) ?M))"
  have "list_state look st0 t0 (map (the \<circ> jc_to J) (rev (rs_inner ?M)))" using assms(5) by (simp add: list_state_def)
  from list_state_push_all [OF assms(1-3) _ this _ assms(6)] assms(4)
  have "list_state look ?st t1 (map (the \<circ> jc_to J) ?vs)" by simp
  then have L: "look ?st now REDIS_KEY = (if now < t1 + secs 86400 then map (the \<circ> jc_to J) ?vs else [])"
    using assms(7) by (simp add: list_state_def)
  have "length (rs_inner (fold recent_push vs M)) \<le> max 1 (rs_capacity M)" if "length (rs_inner M) \<le> max 1 (rs_capacity M)" for vs M
    using that
  proof (induction vs arbitrary: M)
    case (Cons v vs)
    have "rs_capacity (recent_push v M) = rs_capacity M" by (simp add: recent_push_def Let_def)
    with Cons.IH [of "recent_push v M"] recent_push_bounded [OF Cons.prems, of v] show ?case by simp
  qed simp
  from this [of ?M "map snd es"] assms(4) have n: "length (rs_inner (fold recent_push (map snd es) ?M)) \<le> capacity" by simp
  have "kl_lrange Q now REDIS_KEY 0 (int capacity - 1) ?st = (if now < t1 + secs 86400 then map (the \<circ> jc_to J) ?vs else [])"
    using assms(1,4) by (simp add: list_documented_def redis_range_first L take_map n)
  then show ?thesis using map_filter_decode [OF assms(2,3)] by (simp add: recent_snapshot_redis_def recent_snapshot_def List.map_filter_def)
qed

text \<open>With capacity zero \<open>LTRIM 0 -1\<close> keeps everything, where the ring keeps one event.\<close>
theorem recent_redis_zero_capacity:
  assumes "list_documented Q look" "list_state look st t xs" "t \<le> u" "u < t + secs 86400" "jc_to J v = Some j"
  shows "list_state look (recent_push_redis Q J (\<lambda>_. True) 0 u v st) u (j # xs)"
  using list_state_push [OF assms, of 0] redis_range_first [of 0 "j # xs"] by simp

section \<open>An instance and a run\<close>

type_synonym kv_store = "string \<Rightarrow> (string \<times> instant) option"

text \<open>A value and a deadline per key.\<close>
definition store_kv :: "kv_store redis_kv" where
  "store_kv =
     \<lparr>kv_get = (\<lambda>t k st. case st k of Some (v, dl) \<Rightarrow> if t < dl then Some v else None | None \<Rightarrow> None),
      kv_set_ex = (\<lambda>now k v s st. st(k := Some (v, now + secs s))),
      kv_del = (\<lambda>now k st. st(k := None))\<rparr>"

lemma store_kv_documented: "kv_documented store_kv"
  by (simp add: kv_documented_def store_kv_def)

text \<open>A text for one row only.\<close>
definition row_codec :: "'a \<Rightarrow> 'a codec" where
  "row_codec x = \<lparr>jc_to = (\<lambda>y. if y = x then Some ''row'' else None), jc_from = (\<lambda>j. if j = ''row'' then Some x else None)\<rparr>"

lemma row_codec_faithful: "codec_faithful (row_codec x)"
  by (simp add: codec_faithful_def row_codec_def)

abbreviation shared0 :: "kv_store sys2" where
  "shared0 \<equiv> l2_init 0 Token_Cache.run_db demo_actor Map.empty"

definition shared3 :: "kv_store sys2" where
  "shared3 = shared0\<lparr>s2_validating := [(''at1'', WriteRedis run_token, 0)], s2_reads := {(''at1'', run_token, 0)}\<rparr>"

lemma shared3_reachable: "l2_reachable (row_codec run_token) store_kv shared0 shared3"
proof -
  let ?J = "row_codec run_token"
  let ?s1 = "shared0\<lparr>s2_validating := [(''at1'', AskRedis, 0)]\<rparr>" and ?s2 = "shared0\<lparr>s2_validating := [(''at1'', ReadTable, 0)]\<rparr>"
  have "validate_token_sync 0 ''at1'' (s2_actor shared0) = (None, s2_actor shared0)"
    by (simp add: validate_token_sync_def lru_get_def lru_pop_def l2_init_def)
  with l2_step.validate_start [of shared0 "''at1''" None "s2_actor shared0" ?J store_kv] have 1: "l2_step ?J store_kv shared0 ?s1"
    by (simp add: l2_init_def start_stage_def)
  have "l2_lookup ?J (Some store_kv) True 0 (token_redis_key ''at1'') Map.empty = None" by (simp add: l2_lookup_def store_kv_def)
  with l2_step.stage_goes [of "''at1''" AskRedis 0 ?s1 ?J store_kv True ReadTable Map.empty] have 2: "l2_step ?J store_kv ?s1 ?s2"
    by (simp add: l2_init_def stage_reads_def)
  from l2_step.stage_goes [of "''at1''" ReadTable 0 ?s2 ?J store_kv True "WriteRedis run_token" Map.empty] have 3: "l2_step ?J store_kv ?s2 shared3"
    by (simp add: l2_init_def stage_reads_def shared3_def run_lookup run_valid)
  show ?thesis by (rule l2_reachable.step [OF l2_reachable.step [OF l2_reachable.step [OF l2_reachable.refl 1] 2] 3])
qed


end
