(* ===== verification/Observed_Storage.thy ===== *)
theory Observed_Storage
  imports Startup
begin

text \<open>
  The decorator that puts a tracing span around every storage call (\<open>oauth2-observability/src/storage.rs\<close>) and the address that the traced
  Redis connection reports (\<open>oauth2-observability/src/redis.rs\<close>).  A call is a value of \<open>storage_call\<close>, grouped as the
  entities are; its span is the list of fields the code records.  The trace and span identifiers come from the tracing library and
  are left out.
\<close>

section \<open>Calls and their fields\<close>

definition token_prefix :: "string \<Rightarrow> string" where
  "token_prefix t = take 12 t"

definition show_flag :: "bool \<Rightarrow> string" where
  "show_flag b = (if b then ''true'' else ''false'')"

datatype client_call =
    SaveClientCall client | GetClientCall string | CountCimdClientsCall | UpdateClientCall client | DeleteClientCall string
  | ListAllClientsCall | ListClientsPageCall list_query | SetClientEnabledCall string bool | SetClientSecretCall string string

fun client_span :: "client_call \<Rightarrow> string \<times> (string \<times> string) list" where
  "client_span (SaveClientCall c) = (''save_client'', [(''client_id'', cl_client_id c)])"
| "client_span (GetClientCall i) = (''get_client'', [(''client_id'', i)])"
| "client_span CountCimdClientsCall = (''count_cimd_clients'', [])"
| "client_span (UpdateClientCall c) = (''update_client'', [(''client_id'', cl_client_id c)])"
| "client_span (DeleteClientCall i) = (''delete_client'', [(''client_id'', i)])"
| "client_span ListAllClientsCall = (''list_all_clients'', [])"
| "client_span (ListClientsPageCall q) = (''list_clients_page'', [])"
| "client_span (SetClientEnabledCall i b) = (''set_client_enabled'', [])"
| "client_span (SetClientSecretCall i s) = (''set_client_secret'', [])"

datatype user_call =
    SaveUserCall user | GetUserByUsernameCall string | GetUserByIdCall string | GetUserByEmailCall string | ListAllUsersCall
  | ListUsersPageCall list_query | UpdateUserCall user | DeleteUserCall string | SetUserEnabledCall string bool | SetUserRoleCall string string
  | SetUserPasswordHashCall string string

fun user_span :: "user_call \<Rightarrow> string \<times> (string \<times> string) list" where
  "user_span (SaveUserCall u) = (''save_user'', [(''user_id'', us_id u), (''username'', us_username u)])"
| "user_span (GetUserByUsernameCall n) = (''get_user_by_username'', [(''username'', n)])"
| "user_span (GetUserByIdCall i) = (''get_user_by_id'', [(''user_id'', i)])"
| "user_span (GetUserByEmailCall e) = (''get_user_by_email'', [])"
| "user_span ListAllUsersCall = (''list_all_users'', [])"
| "user_span (ListUsersPageCall q) = (''list_users_page'', [])"
| "user_span (UpdateUserCall u) = (''update_user'', [])"
| "user_span (DeleteUserCall i) = (''delete_user'', [])"
| "user_span (SetUserEnabledCall i b) = (''set_user_enabled'', [])"
| "user_span (SetUserRoleCall i r) = (''set_user_role'', [])"
| "user_span (SetUserPasswordHashCall i h) = (''set_user_password_hash'', [])"

datatype token_call =
    SaveTokenCall token | GetTokenByAccessTokenCall string | GetTokenByRefreshTokenCall string | RevokeTokenCall string | RevokeTokenByIdCall string
  | SetTokenFamilyCall string string | RevokeTokenFamilyCall string | RevokeTokensByUserIdCall string | RevokeTokensByClientIdCall string
  | ListAllTokensCall | ListTokensPageCall list_query | DpopJtiCheckAndInsertCall string instant

fun token_span :: "token_call \<Rightarrow> string \<times> (string \<times> string) list" where
  "token_span (SaveTokenCall t) = (''save_token'', [(''token_prefix'', token_prefix (tk_access_token t)), (''client_id'', tk_client_id t),
     (''user_id'', unwrap_or (tk_user_id t) []), (''revoked'', show_flag (tk_revoked t))])"
| "token_span (GetTokenByAccessTokenCall t) =
     (''get_token_by_access_token'', [(''token_prefix'', token_prefix t), (''token_len'', show_nat (length t))])"
| "token_span (GetTokenByRefreshTokenCall t) =
     (''get_token_by_refresh_token'', [(''token_prefix'', token_prefix t), (''token_len'', show_nat (length t))])"
| "token_span (RevokeTokenCall t) = (''revoke_token'', [(''token_prefix'', token_prefix t), (''token_len'', show_nat (length t))])"
| "token_span (RevokeTokenByIdCall i) = (''revoke_token_by_id'', [])"
| "token_span (SetTokenFamilyCall t f) = (''set_token_family'', [(''token_prefix'', token_prefix t), (''token_family'', f)])"
| "token_span (RevokeTokenFamilyCall f) = (''revoke_token_family'', [(''token_family'', f)])"
| "token_span (RevokeTokensByUserIdCall u) = (''revoke_tokens_by_user_id'', [(''user_id'', u)])"
| "token_span (RevokeTokensByClientIdCall c) = (''revoke_tokens_by_client_id'', [])"
| "token_span ListAllTokensCall = (''list_all_tokens'', [])"
| "token_span (ListTokensPageCall q) = (''list_tokens_page'', [])"
| "token_span (DpopJtiCheckAndInsertCall j e) = (''dpop_jti_check_and_insert'', [])"

datatype code_call =
    SaveAuthorizationCodeCall authorization_code | GetAuthorizationCodeCall string | MarkAuthorizationCodeUsedCall string

fun code_span :: "code_call \<Rightarrow> string \<times> (string \<times> string) list" where
  "code_span (SaveAuthorizationCodeCall a) = (''save_authorization_code'', [(''client_id'', ac_client_id a), (''user_id'', ac_user_id a)])"
| "code_span (GetAuthorizationCodeCall c) = (''get_authorization_code'', [(''code_prefix'', take 12 c), (''code_len'', show_nat (length c))])"
| "code_span (MarkAuthorizationCodeUsedCall c) =
     (''mark_authorization_code_used'', [(''code_prefix'', take 12 c), (''code_len'', show_nat (length c))])"

datatype device_call =
    SaveDeviceAuthorizationCall device_authorization | GetDeviceByDeviceCodeCall string | GetDeviceByUserCodeCall string
  | ApproveDeviceCall string string | DenyDeviceCall string | MarkDeviceUsedCall string | ListDevicesPageCall list_query | ListAllDevicesCall
  | ExpireDeviceCall string

fun device_span :: "device_call \<Rightarrow> string \<times> (string \<times> string) list" where
  "device_span (SaveDeviceAuthorizationCall v) =
     (''save_device_authorization'', [(''client_id'', da_client_id v), (''user_code'', da_user_code v)])"
| "device_span (GetDeviceByDeviceCodeCall c) =
     (''get_device_authorization_by_device_code'', [(''code_prefix'', take 12 c), (''code_len'', show_nat (length c))])"
| "device_span (GetDeviceByUserCodeCall c) = (''get_device_authorization_by_user_code'', [(''user_code'', c)])"
| "device_span (ApproveDeviceCall c u) = (''approve_device_authorization'', [(''user_code'', c), (''user_id'', u)])"
| "device_span (DenyDeviceCall c) = (''deny_device_authorization'', [(''user_code'', c)])"
| "device_span (MarkDeviceUsedCall c) =
     (''mark_device_authorization_used'', [(''code_prefix'', take 12 c), (''code_len'', show_nat (length c))])"
| "device_span (ListDevicesPageCall q) = (''list_device_authorizations_page'', [])"
| "device_span ListAllDevicesCall = (''list_all_device_authorizations'', [])"
| "device_span (ExpireDeviceCall c) = (''expire_device_authorization'', [])"

datatype registry_call =
    AddDenylistEntryCall denylist_entry | RemoveDenylistEntryCall string | ListDenylistCall list_query | FindDenylistEntryCall string string
  | WriteAuditLogCall audit_log_entry | ListAuditLogCall list_query | SaveTrustedIssuerCall trusted_issuer | GetTrustedIssuerCall string
  | ListTrustedIssuersCall | DeleteTrustedIssuerCall string | SaveResourceCall protected_resource | GetResourceByUriCall string
  | GetResourceByIdCall string | ListResourcesCall | DeleteResourceCall string

fun registry_span :: "registry_call \<Rightarrow> string \<times> (string \<times> string) list" where
  "registry_span (AddDenylistEntryCall e) = (''add_denylist_entry'', [])"
| "registry_span (RemoveDenylistEntryCall i) = (''remove_denylist_entry'', [])"
| "registry_span (ListDenylistCall q) = (''list_denylist'', [])"
| "registry_span (FindDenylistEntryCall k v) = (''find_denylist_entry'', [])"
| "registry_span (WriteAuditLogCall e) = (''write_audit_log'', [])"
| "registry_span (ListAuditLogCall q) = (''list_audit_log'', [])"
| "registry_span (SaveTrustedIssuerCall t) = (''save_trusted_issuer'', [])"
| "registry_span (GetTrustedIssuerCall i) = (''get_trusted_issuer'', [])"
| "registry_span ListTrustedIssuersCall = (''list_trusted_issuers'', [])"
| "registry_span (DeleteTrustedIssuerCall i) = (''delete_trusted_issuer'', [])"
| "registry_span (SaveResourceCall r) = (''save_resource'', [])"
| "registry_span (GetResourceByUriCall u) = (''get_resource_by_uri'', [])"
| "registry_span (GetResourceByIdCall i) = (''get_resource_by_id'', [])"
| "registry_span ListResourcesCall = (''list_resources'', [])"
| "registry_span (DeleteResourceCall i) = (''delete_resource'', [])"

datatype transaction_call =
    SaveTransactionAuthorizationCall transaction_authorization | GetTransactionAuthorizationCall string
  | SettleTransactionAuthorizationCall string string bool | MarkTransactionAuthorizationUsedCall string

fun transaction_span :: "transaction_call \<Rightarrow> string \<times> (string \<times> string) list" where
  "transaction_span (SaveTransactionAuthorizationCall t) = (''save_transaction_authorization'', [])"
| "transaction_span (GetTransactionAuthorizationCall i) = (''get_transaction_authorization'', [])"
| "transaction_span (SettleTransactionAuthorizationCall i u b) = (''settle_transaction_authorization'', [])"
| "transaction_span (MarkTransactionAuthorizationUsedCall i) = (''mark_transaction_authorization_used'', [])"

text \<open>The two capability questions get no span.\<close>
datatype storage_call =
    InitCall | HealthcheckCall | SupportsDenylistCall | SupportsAuditLogCall | ClientCall client_call | UserCall user_call | TokenCall token_call
  | CodeCall code_call | DeviceCall device_call | RegistryCall registry_call | TransactionCall transaction_call

fun call_span :: "storage_call \<Rightarrow> (string \<times> (string \<times> string) list) option" where
  "call_span InitCall = Some (''init'', [])"
| "call_span HealthcheckCall = Some (''healthcheck'', [])"
| "call_span SupportsDenylistCall = None"
| "call_span SupportsAuditLogCall = None"
| "call_span (ClientCall c) = Some (client_span c)"
| "call_span (UserCall c) = Some (user_span c)"
| "call_span (TokenCall c) = Some (token_span c)"
| "call_span (CodeCall c) = Some (code_span c)"
| "call_span (DeviceCall c) = Some (device_span c)"
| "call_span (RegistryCall c) = Some (registry_span c)"
| "call_span (TransactionCall c) = Some (transaction_span c)"

section \<open>The decorator\<close>

record observed_storage =
  ob_db_system :: string
  ob_db_name :: string
  ob_net_peer_name :: string

definition observed_new :: "string \<Rightarrow> string option \<Rightarrow> string option \<Rightarrow> observed_storage" where
  "observed_new system db_name peer = \<lparr>ob_db_system = system, ob_db_name = unwrap_or db_name [], ob_net_peer_name = unwrap_or peer []\<rparr>"

definition storage_span :: "observed_storage \<Rightarrow> string \<times> (string \<times> string) list \<Rightarrow> (string \<times> string) list" where
  "storage_span OS op =
     [(''db.system'', ob_db_system OS), (''db.operation'', fst op), (''db.name'', ob_db_name OS), (''net.peer.name'', ob_net_peer_name OS),
      (''otel.kind'', ''client'')] @ snd op"

text \<open>\<open>inner\<close> is the storage behind the decorator.\<close>
definition observed_call ::
  "observed_storage \<Rightarrow> (storage_call \<Rightarrow> 'w \<Rightarrow> 'r \<times> 'w) \<Rightarrow> storage_call \<Rightarrow> 'w \<times> (string \<times> string) list list \<Rightarrow> 'r \<times> 'w \<times> (string \<times> string) list list" where
  "observed_call OS inner c = (\<lambda>(w, spans). case inner c w of
     (r, w') \<Rightarrow> (r, w', case call_span c of Some op \<Rightarrow> spans @ [storage_span OS op] | None \<Rightarrow> spans))"

fun observed_run ::
  "observed_storage \<Rightarrow> (storage_call \<Rightarrow> 'w \<Rightarrow> 'r \<times> 'w) \<Rightarrow> storage_call list \<Rightarrow> 'w \<times> (string \<times> string) list list \<Rightarrow> 'r list \<times> 'w \<times> (string \<times> string) list list" where
  "observed_run OS inner [] s = ([], s)"
| "observed_run OS inner (c # cs) s = (case observed_call OS inner c s of (r, s') \<Rightarrow> case observed_run OS inner cs s' of (rs, s'') \<Rightarrow> (r # rs, s''))"

section \<open>The address of the traced Redis connection\<close>

definition parse_i64 :: "string \<Rightarrow> int option" where
  "parse_i64 s =
     (case s of
        [] \<Rightarrow> None
      | c # cs \<Rightarrow>
          let (neg, ds) = (if c = CHR ''-'' then (True, cs) else if c = CHR ''+'' then (False, cs) else (False, s)) in
          if ds = [] \<or> \<not> set ds \<subseteq> set ''0123456789'' then None
          else let v = (if neg then - 1 else 1) * int (foldl (\<lambda>a d. 10 * a + (of_char d - 48)) 0 ds) in
            if - (2 ^ 63) \<le> v \<and> v < 2 ^ 63 then Some v else None)"

definition parse_peer_and_db :: "string \<Rightarrow> string \<times> int" where
  "parse_peer_and_db url =
     (let after_scheme = (case split_at_text ''://'' url of Some (_, rest) \<Rightarrow> rest | None \<Rightarrow> url);
          host_and_rest = (case split_once (CHR ''@'') after_scheme of Some (_, rest) \<Rightarrow> rest | None \<Rightarrow> after_scheme);
          (hostport, path) = (case split_once (CHR ''/'') host_and_rest of Some hp \<Rightarrow> hp | None \<Rightarrow> (host_and_rest, []));
          peer = (if hostport = [] then [] else if CHR '':'' \<in> set hostport then hostport else hostport @ '':6379'');
          db_part = (case split_once (CHR ''?'') path of Some (p, _) \<Rightarrow> p | None \<Rightarrow> path)
      in (peer, unwrap_or (parse_i64 db_part) 0))"

section \<open>Transparency\<close>

lemma observed_call_split:
  "observed_call OS inner c (w, spans) =
     (fst (inner c w), snd (inner c w), spans @ (case call_span c of Some op \<Rightarrow> [storage_span OS op] | None \<Rightarrow> []))"
  by (simp add: observed_call_def case_prod_unfold split: option.split)

fun plain_run :: "(storage_call \<Rightarrow> 'w \<Rightarrow> 'r \<times> 'w) \<Rightarrow> storage_call list \<Rightarrow> 'w \<Rightarrow> 'r list \<times> 'w" where
  "plain_run inner [] w = ([], w)"
| "plain_run inner (c # cs) w = (case inner c w of (r, w') \<Rightarrow> case plain_run inner cs w' of (rs, w'') \<Rightarrow> (r # rs, w''))"

text \<open>The decorator changes no answer and no state, and every call but a capability question leaves exactly one span.\<close>
theorem observation_transparent:
  "observed_run OS inner cs (w, spans) =
     (fst (plain_run inner cs w), snd (plain_run inner cs w), spans @ map (storage_span OS) (List.map_filter call_span cs))"
  by (induction cs arbitrary: w spans) (auto simp: observed_call_split map_filter_simps case_prod_unfold split: option.split)

section \<open>Secrets\<close>

text \<open>A secret of which only the first twelve characters and the length are left.\<close>
definition mask :: "string \<Rightarrow> string" where
  "mask s = take 12 s @ replicate (length s - 12) (CHR ''*'')"

lemma mask_simps [simp]: "take 12 (mask s) = take 12 s" "length (mask s) = length s"
  by (simp_all add: mask_def)

fun mask_client :: "client_call \<Rightarrow> client_call" where
  "mask_client (SaveClientCall c) = SaveClientCall (c\<lparr>cl_client_secret := [], cl_registration_access_token := []\<rparr>)"
| "mask_client (UpdateClientCall c) = UpdateClientCall (c\<lparr>cl_client_secret := [], cl_registration_access_token := []\<rparr>)"
| "mask_client (SetClientSecretCall i s) = SetClientSecretCall i []"
| "mask_client c = c"

fun mask_user :: "user_call \<Rightarrow> user_call" where
  "mask_user (SaveUserCall u) = SaveUserCall (u\<lparr>us_password_hash := []\<rparr>)"
| "mask_user (UpdateUserCall u) = UpdateUserCall (u\<lparr>us_password_hash := []\<rparr>)"
| "mask_user (SetUserPasswordHashCall i h) = SetUserPasswordHashCall i []"
| "mask_user c = c"

fun mask_token :: "token_call \<Rightarrow> token_call" where
  "mask_token (SaveTokenCall t) = SaveTokenCall (t\<lparr>tk_access_token := mask (tk_access_token t), tk_refresh_token := None\<rparr>)"
| "mask_token (GetTokenByAccessTokenCall t) = GetTokenByAccessTokenCall (mask t)"
| "mask_token (GetTokenByRefreshTokenCall t) = GetTokenByRefreshTokenCall (mask t)"
| "mask_token (RevokeTokenCall t) = RevokeTokenCall (mask t)"
| "mask_token (SetTokenFamilyCall t f) = SetTokenFamilyCall (mask t) f"
| "mask_token c = c"

fun mask_code :: "code_call \<Rightarrow> code_call" where
  "mask_code (SaveAuthorizationCodeCall a) = SaveAuthorizationCodeCall (a\<lparr>ac_code := []\<rparr>)"
| "mask_code (GetAuthorizationCodeCall c) = GetAuthorizationCodeCall (mask c)"
| "mask_code (MarkAuthorizationCodeUsedCall c) = MarkAuthorizationCodeUsedCall (mask c)"

fun mask_device :: "device_call \<Rightarrow> device_call" where
  "mask_device (SaveDeviceAuthorizationCall v) = SaveDeviceAuthorizationCall (v\<lparr>da_device_code := []\<rparr>)"
| "mask_device (GetDeviceByDeviceCodeCall c) = GetDeviceByDeviceCodeCall (mask c)"
| "mask_device (MarkDeviceUsedCall c) = MarkDeviceUsedCall (mask c)"
| "mask_device (ExpireDeviceCall c) = ExpireDeviceCall []"
| "mask_device c = c"

fun mask_call :: "storage_call \<Rightarrow> storage_call" where
  "mask_call (ClientCall c) = ClientCall (mask_client c)"
| "mask_call (UserCall c) = UserCall (mask_user c)"
| "mask_call (TokenCall c) = TokenCall (mask_token c)"
| "mask_call (CodeCall c) = CodeCall (mask_code c)"
| "mask_call (DeviceCall c) = DeviceCall (mask_device c)"
| "mask_call c = c"

lemma mask_spans:
  "client_span (mask_client cc) = client_span cc" "user_span (mask_user uc) = user_span uc" "token_span (mask_token tc) = token_span tc"
  "code_span (mask_code oc) = code_span oc" "device_span (mask_device dc) = device_span dc"
  subgoal by (cases cc) simp_all
  subgoal by (cases uc) simp_all
  subgoal by (cases tc) (simp_all add: token_prefix_def)
  subgoal by (cases oc) simp_all
  subgoal by (cases dc) simp_all
  done

lemma mask_call_span: "call_span (mask_call c) = call_span c"
  by (cases c) (simp_all add: mask_spans)

text \<open>Traces reveal no secret.  Whatever sequence of calls the storage answers, its spans are those of the same calls with every client
  secret, password hash, refresh token and stored code removed, and every presented token and code cut to its first twelve characters and its length.\<close>
theorem spans_hide_secrets:
  "snd (snd (observed_run OS inner cs (w, spans))) = snd (snd (observed_run OS inner' (map mask_call cs) (w', spans)))"
proof -
  have "List.map_filter call_span (map mask_call cs) = List.map_filter call_span cs"
    by (induction cs) (simp_all add: map_filter_simps mask_call_span split: option.split)
  then show ?thesis by (simp add: observation_transparent)
qed

text \<open>The code that a user types on the verification page is recorded in full.\<close>
lemma user_code_recorded: "(''user_code'', c) \<in> set (snd (device_span (GetDeviceByUserCodeCall c)))"
  by simp

section \<open>The reported address\<close>

lemma split_once_append: "d \<notin> set a \<Longrightarrow> split_once d (a @ d # b) = Some (a, b)"
  by (induction a) auto

lemma split_once_absent: "d \<notin> set a \<Longrightarrow> split_once d a = None"
  by (induction a) auto

lemma split_scheme: "split_at_text ''://'' (''redis://'' @ rest) = Some (''redis'', rest)"
  by (simp add: prefix_def)

text \<open>Credentials without an at sign are not part of the reported address.\<close>
theorem peer_hides_credentials:
  assumes "CHR ''@'' \<notin> set credentials" "host \<noteq> []" "CHR ''/'' \<notin> set host" "CHR ''@'' \<notin> set host"
  shows "fst (parse_peer_and_db (''redis://'' @ credentials @ ''@'' @ host)) = (if CHR '':'' \<in> set host then host else host @ '':6379'')"
proof -
  have "split_once (CHR ''@'') (credentials @ CHR ''@'' # host) = Some (credentials, host)" "split_once (CHR ''/'') host = None"
    using assms by (simp_all add: split_once_append split_once_absent)
  then show ?thesis using split_scheme [of "credentials @ CHR ''@'' # host"] assms(2) by (simp add: parse_peer_and_db_def)
qed

text \<open>Of a password with an at sign, what follows the first one is reported.\<close>
theorem peer_leaks_password: "fst (parse_peer_and_db ''redis://:se@cret@cache:6380/3'') = ''cret@cache:6380''"
  by code_simp

end
