(* ===== verification/Chrono_Serde.thy ===== *)
theory Chrono_Serde
  imports Observed_Storage
begin

text \<open>
  Reading instants of the document store (\<open>crates/oauth2-core/src/chrono_serde.rs\<close>).  Different writers left an RFC 3339 text, a
  number of milliseconds, or one of two shapes of an extended-JSON date; the visitors accept them all.  What a format hands to a
  visitor is a \<open>content\<close>; the readings of RFC 3339 and of the calendar's range are arguments.
\<close>

section \<open>The visitors\<close>

datatype content =
    CStr string
  | CI64 int
  | CU64 int
  | CI128 int
  | CU128 int
  | CMap "(string \<times> content) list"
  | CNull
  | COther

record chrono_lib =
  ch_parse_rfc3339 :: "string \<Rightarrow> string + instant"
  ch_in_range :: "int \<Rightarrow> bool"
  ch_type_error :: "content \<Rightarrow> string"
  ch_parse_error :: "string \<Rightarrow> string"

definition timestamp_millis_opt :: "chrono_lib \<Rightarrow> int \<Rightarrow> instant option" where
  "timestamp_millis_opt C ms = (if ch_in_range C ms then Some (ms * 1000000) else None)"

definition visit_i64 :: "chrono_lib \<Rightarrow> int \<Rightarrow> string + instant" where
  "visit_i64 C v = (case timestamp_millis_opt C v of Some t \<Rightarrow> Inr t | None \<Rightarrow> Inl ''invalid millis'')"

text \<open>The entry of a map that decides: the first one with the key; entries before it are skipped.\<close>
definition next_entry :: "string \<Rightarrow> (string \<times> 'v) list \<Rightarrow> 'v option" where
  "next_entry key es = map_of es key"

text \<open>\<open>DateValueVisitor\<close>.\<close>
fun date_value :: "chrono_lib \<Rightarrow> content \<Rightarrow> string + instant" where
  "date_value C (CI64 v) = visit_i64 C v"
| "date_value C (CU64 v) = visit_i64 C (as_i64 v)"
| "date_value C (CStr s) = ch_parse_rfc3339 C s"
| "date_value C (CMap es) =
     (case next_entry ''$numberLong'' es of
        None \<Rightarrow> Inl ''missing $numberLong inside $date''
      | Some (CStr s) \<Rightarrow> (case parse_i64 s of None \<Rightarrow> Inl (ch_parse_error C s) | Some ms \<Rightarrow> visit_i64 C ms)
      | Some v \<Rightarrow> Inl (ch_type_error C v))"
| "date_value C v = Inl (ch_type_error C v)"

text \<open>\<open>DtVisitor\<close>, used by \<open>deserialize\<close>.\<close>
fun deserialize :: "chrono_lib \<Rightarrow> content \<Rightarrow> string + instant" where
  "deserialize C (CStr s) = ch_parse_rfc3339 C s"
| "deserialize C (CI64 v) = visit_i64 C v"
| "deserialize C (CU64 v) = visit_i64 C (as_i64 v)"
| "deserialize C (CI128 v) = visit_i64 C (as_i64 v)"
| "deserialize C (CU128 v) = visit_i64 C (as_i64 v)"
| "deserialize C (CMap es) =
     (case next_entry ''$date'' es of
        None \<Rightarrow> Inl ''missing $date key in BSON Date object''
      | Some v \<Rightarrow> date_value C v)"
| "deserialize C v = Inl (ch_type_error C v)"

text \<open>\<open>OptDtVisitor\<close>, used by \<open>deserialize_opt\<close>.\<close>
fun deserialize_opt :: "chrono_lib \<Rightarrow> content \<Rightarrow> string + instant option" where
  "deserialize_opt C CNull = Inr None"
| "deserialize_opt C v = map_sum id Some (deserialize C v)"

section \<open>Round trips\<close>

lemma digit_char: "k < 10 \<Longrightarrow> (char_of (48 + k :: nat) :: char) \<in> set ''0123456789'' \<and> (of_char (char_of (48 + k :: nat) :: char) :: nat) - 48 = k"
proof -
  assume "k < 10"
  then have "k \<in> {0, 1, 2, 3, 4, 5, 6, 7, 8, 9}" by auto
  then show ?thesis by (auto simp: char_of_def bit_0)
qed

lemma show_nat_read:
  "show_nat n \<noteq> [] \<and> set (show_nat n) \<subseteq> set ''0123456789'' \<and> foldl (\<lambda>a d. 10 * a + (of_char d - 48)) (0 :: nat) (show_nat n) = n"
proof (induction n rule: show_nat.induct)
  case (1 n)
  show ?case
  proof (cases "n < 10")
    case True
    then show ?thesis using digit_char [OF True] by (subst (1 2 3) show_nat.simps) simp
  next
    case False
    have "n mod 10 < 10" by simp
    then show ?thesis using 1 [OF False] digit_char [of "n mod 10"] False by (subst (1 2 3) show_nat.simps) simp
  qed
qed

lemma show_nat_head: "show_nat n = c # cs \<Longrightarrow> c \<noteq> CHR ''-'' \<and> c \<noteq> CHR ''+''"
  using show_nat_read [of n] by auto

lemma parse_show_int: "- (2 ^ 63) \<le> v \<Longrightarrow> v < 2 ^ 63 \<Longrightarrow> parse_i64 (show_int v) = Some v"
proof (cases "v < 0")
  case True
  assume "- (2 ^ 63) \<le> v" "v < 2 ^ 63"
  then show ?thesis using True show_nat_read [of "nat (- v)"] by (simp add: parse_i64_def show_int_def Let_def)
next
  case False
  assume b: "- (2 ^ 63) \<le> v" "v < 2 ^ 63"
  obtain c cs where d: "show_nat (nat v) = c # cs" using show_nat_read [of "nat v"] by (cases "show_nat (nat v)") auto
  show ?thesis using False b show_nat_head [OF d] show_nat_read [of "nat v"] by (simp add: parse_i64_def show_int_def Let_def d)
qed

text \<open>The shapes in which the code base and its drivers have written an instant of \<open>ms\<close> milliseconds.\<close>
definition written_forms :: "(instant \<Rightarrow> string) \<Rightarrow> int \<Rightarrow> content set" where
  "written_forms fmt ms =
     {CStr (fmt (ms * 1000000)), CI64 ms, CMap [(''$date'', CI64 ms)], CMap [(''$date'', CStr (fmt (ms * 1000000)))],
      CMap [(''$date'', CMap [(''$numberLong'', CStr (show_int ms))])]} \<union>
     (if 0 \<le> ms then {CU64 ms, CMap [(''$date'', CU64 ms)]} else {})"

text \<open>Whatever shape an instant was written in, it is read back as the same instant, by both readers.\<close>
theorem instants_read_back:
  assumes "ch_parse_rfc3339 C (fmt (ms * 1000000)) = Inr (ms * 1000000)" "ch_in_range C ms" "- (2 ^ 63) \<le> ms" "ms < 2 ^ 63"
    and "c \<in> written_forms fmt ms"
  shows "deserialize C c = Inr (ms * 1000000) \<and> deserialize_opt C c = Inr (Some (ms * 1000000))"
proof -
  have "visit_i64 C ms = Inr (ms * 1000000)" using assms(2) by (simp add: visit_i64_def timestamp_millis_opt_def)
  moreover have "as_i64 ms = ms" using assms(3,4) by (intro as_i64_id) simp_all
  ultimately show ?thesis using assms(1,5) parse_show_int [OF assms(3,4)]
    by (auto simp: written_forms_def next_entry_def split: if_splits)
qed

text \<open>The readers agree, except that one reads a missing value.\<close>
theorem readers_agree: "c \<noteq> CNull \<Longrightarrow> deserialize_opt C c = map_sum id Some (deserialize C c)"
  by (cases c) simp_all

text \<open>A number beyond 64 bits is not refused but reduced: it is read as another instant.\<close>
theorem wide_number_wraps:
  assumes "ch_in_range C 5"
  shows "deserialize C (CU128 (2 ^ 64 + 5)) = Inr 5000000"
  using assms by (simp add: visit_i64_def timestamp_millis_opt_def as_i64_def)

end
