(* ===== verification/Profile.thy ===== *)
theory Profile
  imports Browser_Login "HOL-Library.Monad_Syntax"
begin

text \<open>
  The page a user lands on (\<open>handlers/profile.rs\<close>): the redirect of anonymous visitors, the card of the social login, the link
  to the admin area, and the template with its placeholders, which are replaced one after the other.  Texts are bytes; the
  template file and the reader of JSON are arguments.
\<close>

section \<open>The pieces of the page\<close>

abbreviation nl :: string where
  "nl \<equiv> [CHR 0x0A]"

text \<open>\<open>str::replace\<close> of a text that is not empty.\<close>
fun replace_text :: "string \<Rightarrow> string \<Rightarrow> string \<Rightarrow> string" where
  "replace_text pat r [] = []"
| "replace_text pat r (c # s) =
     (if pat \<noteq> [] \<and> take (length pat) (c # s) = pat then r @ replace_text pat r (drop (length pat - 1) s)
      else c # replace_text pat r s)"

definition admin_link_html :: "string" where
  \<open>admin_link_html = ''<a href="/admin" class="flex items-center gap-3 p-3 rounded-lg border border-gray-200 hover:bg-gray-50 transition-colors">'' @ nl @
     ''            <div class="flex items-center justify-center w-8 h-8 bg-purple-100 rounded-lg">'' @ nl @
     ''              <svg class="w-4 h-4 text-purple-600" fill="none" stroke="currentColor" viewBox="0 0 24 24">'' @ nl @
     ''                <path stroke-linecap="round" stroke-linejoin="round" stroke-width="2" d="M10.325 4.317c.426-1.756 2.924-1.756 3.35 0a1.724 1.724 0 002.573 1.066c1.543-.94 3.31.826 2.37 2.37a1.724 1.724 0 001.066 2.573c1.756.426 1.756 2.924 0 3.35a1.724 1.724 0 00-1.066 2.573c.94 1.543-.826 3.31-2.37 2.37a1.724 1.724 0 00-2.573 1.066c-.426 1.756-2.924 1.756-3.35 0a1.724 1.724 0 00-2.573-1.066c-1.543.94-3.31-.826-2.37-2.37a1.724 1.724 0 00-1.066-2.573c-1.756-.426-1.756-2.924 0-3.35a1.724 1.724 0 001.066-2.573c-.94-1.543.826-3.31 2.37-2.37.996.608 2.296.07 2.572-1.065z"></path>'' @ nl @
     ''                <path stroke-linecap="round" stroke-linejoin="round" stroke-width="2" d="M15 12a3 3 0 11-6 0 3 3 0 016 0z"></path>'' @ nl @
     ''              </svg>'' @ nl @
     ''            </div>'' @ nl @
     ''            <span class="text-sm font-medium text-gray-700">Admin Dashboard</span>'' @ nl @
     ''          </a>''\<close>

section \<open>The social login\<close>

record social_info =
  si_provider :: "string option"
  si_provider_user_id :: "string option"
  si_email :: "string option"
  si_name :: "string option"
  si_picture :: "string option"

text \<open>An optional text among the fields of an object: missing or null, a text, or an error; a field given twice is an error.\<close>
definition social_field :: "string \<Rightarrow> (string \<times> json) list \<Rightarrow> string option option" where
  "social_field k fs =
     (case filter (\<lambda>e. fst e = k) fs of
        [] \<Rightarrow> Some None
      | [(_, JNull)] \<Rightarrow> Some None
      | [(_, JStr s)] \<Rightarrow> Some (Some s)
      | _ \<Rightarrow> None)"

definition social_fields :: "(string \<times> json) list \<Rightarrow> social_info option" where
  "social_fields fs =
     do { p \<leftarrow> social_field ''provider'' fs; i \<leftarrow> social_field ''provider_user_id'' fs; e \<leftarrow> social_field ''email'' fs;
          n \<leftarrow> social_field ''name'' fs; u \<leftarrow> social_field ''picture'' fs;
          Some \<lparr>si_provider = p, si_provider_user_id = i, si_email = e, si_name = n, si_picture = u\<rparr> }"

text \<open>The derived reader, which takes an object, or an array with the fields in order.\<close>
fun social_info_of :: "json \<Rightarrow> social_info option" where
  "social_info_of (JObj fs) = social_fields fs"
| "social_info_of (JArr [p, i, e, n, u]) =
     social_fields [(''provider'', p), (''provider_user_id'', i), (''email'', e), (''name'', n), (''picture'', u)]"
| "social_info_of _ = None"

definition provider_display :: "string \<Rightarrow> string" where
  "provider_display p =
     (if p = ''github'' then ''GitHub'' else if p = ''google'' then ''Google'' else if p = ''microsoft'' then ''Microsoft''
      else if p = ''azure'' then ''Azure AD'' else p)"

definition icon_colours :: "string \<Rightarrow> string \<times> string" where
  "icon_colours p =
     (if p = ''github'' then (''bg-gray-800'', ''text-white'') else if p = ''google'' then (''bg-red-100'', ''text-red-600'')
      else if p = ''microsoft'' \<or> p = ''azure'' then (''bg-blue-100'', ''text-blue-600'') else (''bg-gray-100'', ''text-gray-600''))"

definition picture_html :: "string \<Rightarrow> string" where
  \<open>picture_html url = ''<img src="'' @ html_escape url @ ''" alt="avatar" class="w-10 h-10 rounded-full border-2 border-white shadow" />''\<close>

definition name_row :: "string \<Rightarrow> string" where
  \<open>name_row n = ''<div class="flex items-center justify-between py-3 border-b border-gray-100">'' @ nl @
     ''                <span class="text-sm font-medium text-gray-500">Display Name</span>'' @ nl @
     ''                <span class="text-sm font-semibold text-gray-900">'' @ html_escape n @ ''</span>'' @ nl @
     ''              </div>''\<close>

definition social_email_row :: "string \<Rightarrow> string" where
  \<open>social_email_row e = ''<div class="flex items-center justify-between py-3 border-b border-gray-100">'' @ nl @
     ''                <span class="text-sm font-medium text-gray-500">Provider Email</span>'' @ nl @
     ''                <span class="text-sm font-semibold text-gray-900">'' @ html_escape e @ ''</span>'' @ nl @
     ''              </div>''\<close>

definition provider_id_row :: "string \<Rightarrow> string" where
  \<open>provider_id_row i = ''<div class="flex items-center justify-between py-3">'' @ nl @
     ''                <span class="text-sm font-medium text-gray-500">Provider ID</span>'' @ nl @
     ''                <span class="text-xs font-mono text-gray-600">'' @ html_escape i @ ''</span>'' @ nl @
     ''              </div>''\<close>

definition social_card :: "string \<Rightarrow> string \<Rightarrow> string \<Rightarrow> string \<Rightarrow> string \<Rightarrow> string \<Rightarrow> string \<Rightarrow> string" where
  \<open>social_card icon_bg icon_text display picture rows_name rows_email rows_id = ''<div class="bg-white rounded-2xl shadow-xl p-8 mb-6">'' @ nl @
     ''        <h2 class="text-lg font-semibold text-gray-900 mb-6 flex items-center gap-2">'' @ nl @
     ''          <div class="flex items-center justify-center w-6 h-6 '' @ icon_bg @ '' rounded '' @ icon_text @ ''">'' @ nl @
     ''            <svg class="w-4 h-4" fill="currentColor" viewBox="0 0 24 24">'' @ nl @
     ''              <path d="M12 0C5.37 0 0 5.37 0 12c0 5.31 3.435 9.795 8.205 11.385.6.105.825-.255.825-.57 0-.285-.015-1.23-.015-2.235-3.015.555-3.795-.735-4.035-1.41-.135-.345-.72-1.41-1.23-1.695-.42-.225-1.02-.78-.015-.795.945-.015 1.62.87 1.845 1.23 1.08 1.815 2.805 1.305 3.495.99.105-.78.42-1.305.765-1.605-2.67-.3-5.46-1.335-5.46-5.925 0-1.305.465-2.385 1.23-3.225-.12-.3-.54-1.53.12-3.18 0 0 1.005-.315 3.3 1.23.96-.27 1.98-.405 3-.405s2.04.135 3 .405c2.295-1.56 3.3-1.23 3.3-1.23.66 1.65.24 2.88.12 3.18.765.84 1.23 1.905 1.23 3.225 0 4.605-2.805 5.625-5.475 5.925.435.375.81 1.095.81 2.22 0 1.605-.015 2.895-.015 3.3 0 .315.225.69.825.57A12.02 12.02 0 0024 12c0-6.63-5.37-12-12-12z"/>'' @ nl @
     ''            </svg>'' @ nl @
     ''          </div>'' @ nl @
     ''          Signed in via '' @ display @ '' '' @ picture @ nl @
     ''        </h2>'' @ nl @
     ''        <div class="space-y-4">'' @ nl @
     ''          '' @ rows_name @ nl @
     ''          '' @ rows_email @ nl @
     ''          '' @ rows_id @ nl @
     ''        </div>'' @ nl @
     ''      </div>''\<close>

definition social_section :: "social_info \<Rightarrow> string" where
  "social_section info =
     (let provider = unwrap_or (si_provider info) []; (icon_bg, icon_text) = icon_colours provider in
      social_card icon_bg icon_text (provider_display provider) (case_option [] picture_html (si_picture info))
        (case_option [] name_row (si_name info)) (case_option [] social_email_row (si_email info))
        (case_option [] provider_id_row (si_provider_user_id info)))"

definition build_social_section :: "(string \<Rightarrow> json option) \<Rightarrow> string \<Rightarrow> string" where
  "build_social_section parse txt = case_option [] social_section (Option.bind (parse txt) social_info_of)"

section \<open>The page\<close>

definition fallback_profile_html :: "string" where
  \<open>fallback_profile_html = ''<!DOCTYPE html>'' @ nl @
     ''<html>'' @ nl @
     ''<head><title>My Profile</title></head>'' @ nl @
     ''<body>'' @ nl @
     ''    <h1>My Profile</h1>'' @ nl @
     ''    <p>Username: {{USERNAME}}</p>'' @ nl @
     ''    <p>Email: {{EMAIL}}</p>'' @ nl @
     ''    <p>Role: {{ROLE}}</p>'' @ nl @
     ''    <a href="/auth/logout">Logout</a>'' @ nl @
     ''</body>'' @ nl @
     ''</html>''\<close>

datatype profile_reply = ProfileRedirect string | ProfileHtml string

definition session_flag :: "session \<Rightarrow> string \<Rightarrow> bool" where
  "session_flag z k = (z k = Some (JBool True))"

text \<open>The dash shown for a missing address, in UTF-8.\<close>
definition no_email :: string where
  "no_email = [CHR 0xE2, CHR 0x80, CHR 0x94]"

text \<open>The texts about the user, before the card and the link.\<close>
definition profile_texts :: "string \<Rightarrow> string \<Rightarrow> string \<Rightarrow> string \<Rightarrow> string \<Rightarrow> string" where
  "profile_texts template username email role user_id =
     replace_text ''{{USER_ID}}'' (html_escape user_id)
       (replace_text ''{{ROLE_CLASS}}'' (if role = ''admin'' then ''bg-purple-100 text-purple-800'' else ''bg-blue-100 text-blue-800'')
         (replace_text ''{{ROLE}}'' (html_escape role)
           (replace_text ''{{EMAIL}}'' (html_escape email) (replace_text ''{{USERNAME}}'' (html_escape username) template))))"

definition admin_link :: "admin_vars \<Rightarrow> string \<Rightarrow> string \<Rightarrow> string" where
  "admin_link V role email = (if role = ''admin'' \<or> is_admin_email V email then admin_link_html else [])"

definition profile_page :: "admin_vars \<Rightarrow> (string \<Rightarrow> json option) \<Rightarrow> string option \<Rightarrow> session \<Rightarrow> profile_reply" where
  "profile_page V parse template z =
     (if \<not> session_flag z ''authenticated'' then ProfileRedirect ''/auth/login''
      else
        let user_id = unwrap_or (session_str z ''user_id'') []; username = unwrap_or (session_str z ''username'') [];
            email = unwrap_or (session_str z ''email'') no_email; role = unwrap_or (session_str z ''role'') ''user'';
            social = case_option [] (build_social_section parse) (session_str z ''user_info'')
        in ProfileHtml (replace_text ''{{ADMIN_LINK}}'' (admin_link V role email)
             (replace_text ''{{SOCIAL_SECTION}}'' social
               (profile_texts (unwrap_or template fallback_profile_html) username email role user_id))))"

section \<open>Markup\<close>

text \<open>The characters that can open or close a tag or an attribute.\<close>
definition marks :: "string \<Rightarrow> string" where
  "marks s = filter (\<lambda>c. c \<in> {CHR ''<'', CHR ''>'', CHR 0x22, CHR 0x27}) s"

lemma marks_append: "marks (s @ t) = marks s @ marks t"
  by (simp add: marks_def)

lemma marks_escape [simp]: "marks (html_escape s) = []"
  using html_escape_safe [of s] by (auto simp: marks_def filter_empty_conv)

text \<open>Replacing a text without markup by a text without markup leaves the markup of a page as it is, wherever the text occurs.\<close>
lemma marks_replace: "marks pat = [] \<Longrightarrow> marks r = [] \<Longrightarrow> marks (replace_text pat r s) = marks s"
proof (induction pat r s rule: replace_text.induct)
  case (2 pat r c s)
  show ?case
  proof (cases "pat \<noteq> [] \<and> take (length pat) (c # s) = pat")
    case True
    then have "c # s = pat @ drop (length pat - 1) s" by (cases pat) (metis append_take_drop_id drop_Suc_Cons diff_Suc_1 length_Cons)+
    then have "marks (c # s) = marks (drop (length pat - 1) s)" using 2(3) marks_append [of pat] by simp
    then show ?thesis using True 2 by (simp add: marks_append)
  next
    case False
    then have "replace_text pat r (c # s) = c # replace_text pat r s" by auto
    then show ?thesis using 2(2) [OF False 2(3,4)] by (simp add: marks_def)
  qed
qed simp

text \<open>The values of a session cannot add markup: with whatever name, address, role and identifier, the texts are the
  template with its tags and attributes as they are.\<close>
theorem profile_texts_markup: "marks (profile_texts template username email role user_id) = marks template"
proof -
  have "marks ''{{USER_ID}}'' = []" "marks ''{{ROLE_CLASS}}'' = []" "marks ''{{ROLE}}'' = []" "marks ''{{EMAIL}}'' = []" "marks ''{{USERNAME}}'' = []"
    "marks (if role = ''admin'' then ''bg-purple-100 text-purple-800'' else ''bg-blue-100 text-blue-800'') = []"
    by (simp_all add: marks_def)
  then show ?thesis by (simp add: profile_texts_def marks_replace)
qed

lemma social_card_markup:
  assumes "marks p = marks p'" "marks n = marks n'" "marks e = marks e'" "marks d = marks d'"
  shows "marks (social_card bg tx disp p n e d) = marks (social_card bg tx disp p' n' e' d')"
  by (simp only: social_card_def marks_append assms)

lemma rows_markup:
  "marks (picture_html a) = marks (picture_html b)" "marks (name_row a) = marks (name_row b)"
  "marks (social_email_row a) = marks (social_email_row b)" "marks (provider_id_row a) = marks (provider_id_row b)"
  by (simp_all only: picture_html_def name_row_def social_email_row_def provider_id_row_def marks_append marks_escape)

lemma row_markup: "(x = None) = (y = None) \<Longrightarrow> (\<And>a b. marks (f a) = marks (f b)) \<Longrightarrow> marks (case_option [] f x) = marks (case_option [] f y)"
  by (cases x; cases y) simp_all

text \<open>The markup of the card depends on the provider and on which fields there are, not on what is in them.\<close>
theorem social_markup_fixed:
  assumes "si_provider i = si_provider i'" "(si_picture i = None) = (si_picture i' = None)" "(si_name i = None) = (si_name i' = None)"
    and "(si_email i = None) = (si_email i' = None)" "(si_provider_user_id i = None) = (si_provider_user_id i' = None)"
  shows "marks (social_section i) = marks (social_section i')"
  unfolding social_section_def assms(1) Let_def case_prod_unfold
  by (intro social_card_markup row_markup assms rows_markup)

text \<open>The name of a provider that is not one of the four is inserted as it is.\<close>
theorem unknown_provider_unescaped: "p \<notin> {''github'', ''google'', ''microsoft'', ''azure''} \<Longrightarrow> provider_display p = p"
  by (simp add: provider_display_def)

text \<open>Placeholders are replaced in the result of the replacements before: a name that looks like one is replaced in turn.\<close>
theorem placeholder_in_name:
  "profile_texts ''Username: {{USERNAME}}'' ''{{USER_ID}}'' e r ''42'' = ''Username: 42''"
proof -
  have "replace_text ''{{USERNAME}}'' (html_escape ''{{USER_ID}}'') ''Username: {{USERNAME}}'' = ''Username: {{USER_ID}}''"
    by (simp add: html_escape_def)
  then show ?thesis by (simp add: profile_texts_def html_escape_def)
qed

section \<open>Who sees what\<close>

theorem anonymous_redirected: "\<not> session_flag z ''authenticated'' \<Longrightarrow> profile_page V parse template z = ProfileRedirect ''/auth/login''"
  by (simp add: profile_page_def)

text \<open>The link to the admin area is offered to the sessions for which the guard of that area opens, if they have an address.\<close>
theorem admin_link_matches_guard:
  assumes "session_str z ''user_id'' \<noteq> None" "session_str z ''email'' = Some email"
  shows "admin_link V (unwrap_or (session_str z ''role'') ''user'') email =
    (if admin_session V path z = Passed then admin_link_html else [])"
  using assms by (cases "session_str z ''role''") (simp_all add: admin_link_def admin_session_iff unwrap_or_def)

end
