(* ===== verification/Compliance_Report.thy ===== *)
theory Compliance_Report
  imports Metadata_Fetch Startup Browser_Login "HOL-Library.Product_Lexorder" "HOL-Library.Monad_Syntax"
begin

text \<open>
  The generator of the compliance reports (\<open>src/bin/compliance_report.rs\<close>): it collects annotated tests from source texts, folds in the
  results of a test run and counts them.  Files, arguments and JSON text are parameters; of the three reports the counts of the
  JSON report, the score and the JUnit text are modelled, the Markdown text is not.
\<close>

section \<open>Annotations in source texts\<close>

record annotation =
  an_test_name :: string
  an_source_file :: string
  an_source_line :: nat
  an_test_target :: string
  an_rfc :: string
  an_section :: string
  an_requirement :: string
  an_level :: string
  an_url :: string
  an_ignored :: bool
  an_ignore_reason :: "string option"
  an_status :: string

text \<open>\<open>str::lines\<close>.\<close>
definition strip_cr :: "string \<Rightarrow> string" where
  "strip_cr s = (if s \<noteq> [] \<and> last s = CHR 0x0D then butlast s else s)"

definition str_lines :: "string \<Rightarrow> string list" where
  "str_lines s = (let ps = split_char (CHR 0x0A) s in map strip_cr (if last ps = [] then butlast ps else ps))"

definition is_ident :: "char \<Rightarrow> bool" where
  "is_ident c = (let n = of_char c :: nat in 48 \<le> n \<and> n \<le> 57 \<or> 65 \<le> n \<and> n \<le> 90 \<or> 97 \<le> n \<and> n \<le> 122 \<or> c = CHR ''_'')"

definition extract_fn_name :: "string \<Rightarrow> string option" where
  "extract_fn_name line =
     (case opt_or (strip_prefix_opt line ''async fn '') (strip_prefix_opt line ''fn '') of
        None \<Rightarrow> None
      | Some after_keyword \<Rightarrow> let name = takeWhile is_ident after_keyword in if name = [] then None else Some name)"

definition to_upper_char :: "char \<Rightarrow> char" where
  "to_upper_char c = (let n = of_char c :: nat in if 97 \<le> n \<and> n \<le> 122 then char_of (n - 32) else c)"

text \<open>A tag line of a comment: the key behind the at sign and the rest behind the first white space.\<close>
definition tag_of :: "string \<Rightarrow> (string \<times> string) option" where
  "tag_of line =
     (case strip_prefix_opt (trim line) ''@'' of
        None \<Rightarrow> None
      | Some rest \<Rightarrow>
          (case dropWhile (\<lambda>c. \<not> is_ws c) rest of
             [] \<Rightarrow> None
           | _ # v \<Rightarrow> Some (takeWhile (\<lambda>c. \<not> is_ws c) rest, trim v)))"

text \<open>The last value given for a key.\<close>
definition tag_value :: "string list \<Rightarrow> string \<Rightarrow> string option" where
  "tag_value doc key = map_of (rev (List.map_filter tag_of doc)) key"

definition build_annotation ::
  "string list \<Rightarrow> string \<Rightarrow> nat \<Rightarrow> string \<Rightarrow> string \<Rightarrow> bool \<Rightarrow> string option \<Rightarrow> annotation option" where
  "build_annotation doc fn_name fn_line source_file test_target ignored ignore_reason =
     (case (tag_value doc ''rfc'', tag_value doc ''section'') of
        (Some rfc, Some sec) \<Rightarrow>
          Some \<lparr>an_test_name = fn_name, an_source_file = source_file, an_source_line = fn_line, an_test_target = test_target,
            an_rfc = rfc, an_section = sec, an_requirement = unwrap_or (tag_value doc ''requirement'') [],
            an_level = unwrap_or (map_option (map to_upper_char) (tag_value doc ''level'')) ''MUST'', an_url = unwrap_or (tag_value doc ''url'') [],
            an_ignored = ignored, an_ignore_reason = ignore_reason, an_status = ''unknown''\<rparr>
      | _ \<Rightarrow> None)"

text \<open>What the scanner has seen since the last item.\<close>
record scan =
  sc_doc :: "string list"
  sc_test :: bool
  sc_ignored :: bool
  sc_reason :: "string option"

definition scan_reset :: scan where
  "scan_reset = \<lparr>sc_doc = [], sc_test = False, sc_ignored = False, sc_reason = None\<rparr>"

definition ignore_text :: "string \<Rightarrow> string option" where
  "ignore_text line =
     do { (_, after_eq) \<leftarrow> split_once (CHR ''='') line; (_, q) \<leftarrow> split_once (CHR 0x22) after_eq; (r, _) \<leftarrow> split_once (CHR 0x22) q; Some r }"

definition scan_attribute :: "string \<Rightarrow> scan \<Rightarrow> scan" where
  "scan_attribute line s =
     (let s1 = (if starts_with line ''#[test]'' \<or> starts_with line ''#[actix_web::test]'' \<or> starts_with line ''#[tokio::test'' then s\<lparr>sc_test := True\<rparr> else s)
      in if starts_with line ''#[ignore'' then s1\<lparr>sc_ignored := True, sc_reason := opt_or (ignore_text line) (sc_reason s1)\<rparr> else s1)"

text \<open>One line: the new state and the annotation it completes.\<close>
definition scan_line :: "string \<Rightarrow> string \<Rightarrow> nat \<Rightarrow> string \<Rightarrow> scan \<Rightarrow> annotation option \<times> scan" where
  "scan_line source_file test_target idx raw s =
     (let line = trim_start raw in
      case strip_prefix_opt line ''///'' of
        Some rest \<Rightarrow> (None, s\<lparr>sc_doc := sc_doc s @ [trim_start rest]\<rparr>)
      | None \<Rightarrow>
          if starts_with line ''#['' then (None, scan_attribute line s)
          else if starts_with line ''fn '' \<or> starts_with line ''async fn '' then
            (if sc_test s then
               Option.bind (extract_fn_name line) (\<lambda>name.
                 build_annotation (sc_doc s) name (idx + 1) source_file test_target (sc_ignored s) (sc_reason s))
             else None, scan_reset)
          else (None, if line = [] then s else scan_reset))"

fun scan_lines :: "string \<Rightarrow> string \<Rightarrow> nat \<Rightarrow> string list \<Rightarrow> scan \<Rightarrow> annotation list" where
  "scan_lines f t idx [] s = []"
| "scan_lines f t idx (l # ls) s =
     (case scan_line f t idx l s of (a, s') \<Rightarrow> (case a of Some x \<Rightarrow> [x] | None \<Rightarrow> []) @ scan_lines f t (idx + 1) ls s')"

definition parse_source_file :: "string option \<Rightarrow> string \<Rightarrow> string \<Rightarrow> annotation list" where
  "parse_source_file contents source_file test_target =
     (case contents of None \<Rightarrow> [] | Some c \<Rightarrow> scan_lines source_file test_target 0 (str_lines c) scan_reset)"

section \<open>Results of a test run\<close>

type_synonym results = "string \<rightharpoonup> string"

text \<open>One event of the harness, or a line that is something else.\<close>
definition event_status :: "json \<Rightarrow> (string \<times> string) option" where
  "event_status j =
     (let field = (\<lambda>k. Option.bind (json_get j k) as_str) in
      if field ''type'' \<noteq> Some ''test'' then None
      else do { name \<leftarrow> field ''name''; event \<leftarrow> field ''event'';
                if event = ''ok'' then Some (name, ''passed'') else if event = ''failed'' then Some (name, ''failed'')
                else if event = ''ignored'' then Some (name, ''ignored'') else None })"

fun parse_results_jsonl :: "(string \<Rightarrow> json option) \<Rightarrow> string list \<Rightarrow> results \<Rightarrow> results" where
  "parse_results_jsonl parse [] m = m"
| "parse_results_jsonl parse (l # ls) m =
     (let line = trim l in
      parse_results_jsonl parse ls
        (if line = [] then m
         else case Option.bind (parse line) event_status of Some (name, status) \<Rightarrow> m(name \<mapsto> status) | None \<Rightarrow> m))"

definition match_status_token :: "string \<Rightarrow> string option" where
  "match_status_token token =
     (let t = to_lowercase token in
      if t = ''ok'' then Some ''passed'' else if t = ''failed'' then Some ''failed'' else if t = ''ignored'' then Some ''ignored'' else None)"

text \<open>The first word without the commas at its end.\<close>
definition first_token :: "string \<Rightarrow> string" where
  "first_token s = (case split_whitespace s of [] \<Rightarrow> [] | w # _ \<Rightarrow> rev (dropWhile (\<lambda>c. c = CHR '','') (rev w)))"

text \<open>A line read on its own: a result, a name whose result is still to come, or neither.\<close>
definition pretty_line :: "string \<Rightarrow> results \<Rightarrow> string option \<times> results" where
  "pretty_line line m =
     (case Option.bind (strip_prefix_opt line ''test '') (split_at_text '' ... '') of
        None \<Rightarrow> (None, m)
      | Some (name, after) \<Rightarrow>
          (case match_status_token (first_token after) of
             Some status \<Rightarrow> (None, m(trim name \<mapsto> status))
           | None \<Rightarrow> (Some (trim name), m)))"

fun parse_results_pretty :: "string list \<Rightarrow> string option \<Rightarrow> results \<Rightarrow> results" where
  "parse_results_pretty [] pending m = m"
| "parse_results_pretty (l # ls) pending m =
     (let line = trim l in
      case Option.bind pending (\<lambda>name. map_option (Pair name) (match_status_token (first_token line))) of
        Some (name, status) \<Rightarrow> parse_results_pretty ls None (m(name \<mapsto> status))
      | None \<Rightarrow> (case pretty_line line m of (pending', m') \<Rightarrow> parse_results_pretty ls pending' m'))"

definition parse_results_file :: "(string \<Rightarrow> json option) \<Rightarrow> string option \<Rightarrow> results" where
  "parse_results_file parse contents =
     (case contents of
        None \<Rightarrow> Map.empty
      | Some c \<Rightarrow>
          let ls = str_lines c in
          if (case find (\<lambda>l. trim l \<noteq> []) ls of Some l \<Rightarrow> starts_with (trim_start l) ''{'' | None \<Rightarrow> False)
          then parse_results_jsonl parse ls Map.empty else parse_results_pretty ls None Map.empty)"

definition fill_status :: "results \<Rightarrow> annotation \<Rightarrow> annotation" where
  "fill_status m a =
     (case m (an_test_target a @ ''::'' @ an_test_name a) of
        Some s \<Rightarrow> a\<lparr>an_status := s\<rparr>
      | None \<Rightarrow> (case m (an_test_name a) of
            Some s \<Rightarrow> a\<lparr>an_status := s\<rparr>
          | None \<Rightarrow> if an_ignored a then a\<lparr>an_status := ''ignored''\<rparr> else a))"

section \<open>Order and counts\<close>

text \<open>\<open>str::parse::<u32>\<close>.\<close>
definition parse_u32 :: "string \<Rightarrow> nat option" where
  "parse_u32 s = (case parse_u64 s of Some n \<Rightarrow> if n < 2 ^ 32 then Some n else None | None \<Rightarrow> None)"

definition rfc_sort_key :: "string \<Rightarrow> nat \<times> nat \<times> string" where
  "rfc_sort_key rfc =
     (case parse_u32 rfc of
        Some n \<Rightarrow> (0, n, [])
      | None \<Rightarrow>
          let lower = to_lowercase rfc in
          if starts_with lower ''oidc-'' then (1, 0, lower) else if starts_with lower ''draft-'' then (2, 0, lower) else (3, 0, lower))"

definition section_sort_key :: "string \<Rightarrow> nat list" where
  "section_sort_key s =
     map (\<lambda>part. unwrap_or (parse_u32 (takeWhile (\<lambda>c. 48 \<le> (of_char c :: nat) \<and> of_char c \<le> (57 :: nat)) part)) (2 ^ 32 - 1)) (split_char (CHR ''.'') s)"

record rfc_summary =
  rf_total :: nat
  rf_passed :: nat
  rf_failed :: nat
  rf_ignored :: nat
  rf_unknown :: nat

definition rfc_zero :: rfc_summary where
  "rfc_zero = \<lparr>rf_total = 0, rf_passed = 0, rf_failed = 0, rf_ignored = 0, rf_unknown = 0\<rparr>"

definition count_in :: "string \<Rightarrow> rfc_summary \<Rightarrow> rfc_summary" where
  "count_in status e =
     (let e1 = e\<lparr>rf_total := rf_total e + 1\<rparr> in
      if status = ''passed'' then e1\<lparr>rf_passed := rf_passed e + 1\<rparr> else if status = ''failed'' then e1\<lparr>rf_failed := rf_failed e + 1\<rparr>
      else if status = ''ignored'' then e1\<lparr>rf_ignored := rf_ignored e + 1\<rparr> else e1\<lparr>rf_unknown := rf_unknown e + 1\<rparr>)"

definition summarize_by_rfc :: "annotation list \<Rightarrow> string \<rightharpoonup> rfc_summary" where
  "summarize_by_rfc as = fold (\<lambda>a m. m(an_rfc a \<mapsto> count_in (an_status a) (unwrap_or (m (an_rfc a)) rfc_zero))) as Map.empty"

definition with_status :: "string \<Rightarrow> annotation list \<Rightarrow> nat" where
  "with_status st as = length (filter (\<lambda>a. an_status a = st) as)"

text \<open>The totals of the report and its score in percent.\<close>
definition json_summary :: "annotation list \<Rightarrow> rfc_summary" where
  "json_summary as =
     \<lparr>rf_total = length as, rf_passed = with_status ''passed'' as, rf_failed = with_status ''failed'' as, rf_ignored = with_status ''ignored'' as,
      rf_unknown = with_status ''unknown'' as\<rparr>"

definition score :: "annotation list \<Rightarrow> nat" where
  "score as = with_status ''passed'' as * 100 div max (with_status ''passed'' as + with_status ''failed'' as + with_status ''ignored'' as) 1"

text \<open>The groups of the reports: one per RFC, in the order of \<open>rfc_sort_key\<close>, equal keys in the order of the texts.\<close>
definition rfc_groups :: "annotation list \<Rightarrow> (string \<times> annotation list) list" where
  "rfc_groups as = map (\<lambda>r. (r, filter (\<lambda>a. an_rfc a = r) as)) (sort_key rfc_sort_key (sort (remdups (map an_rfc as))))"

section \<open>The JUnit text\<close>

definition rfc_heading :: "string \<Rightarrow> string" where
  "rfc_heading rfc =
     (if parse_u32 rfc \<noteq> None then ''RFC '' @ rfc
      else unwrap_or (map_of
        [(''oidc-core-1.0'', ''OpenID Connect Core 1.0''), (''oidc-discovery-1.0'', ''OpenID Connect Discovery 1.0''),
         (''oidc-session-1.0'', ''OpenID Connect Session Management 1.0''), (''oidc-frontchannel-1.0'', ''OpenID Connect Front-Channel Logout 1.0''),
         (''oidc-backchannel-1.0'', ''OpenID Connect Back-Channel Logout 1.0''), (''oidc-rpinit-1.0'', ''OpenID Connect RP-Initiated Logout 1.0''),
         (''oidc-mrt-1.0'', ''OAuth 2.0 Multiple Response Type Encoding Practices''),
         (''oidc-registration-1.0'', ''OpenID Connect Dynamic Client Registration 1.0''),
         (''draft-ietf-oauth-status-list'', ''OAuth 2.0 Token Status List (draft-ietf-oauth-status-list)'')] rfc) rfc)"

definition xml_entity :: "char \<Rightarrow> string" where
  "xml_entity c = (if c = CHR ''&'' then ''&amp;'' else if c = CHR ''<'' then ''&lt;'' else if c = CHR ''>'' then ''&gt;''
     else if c = CHR 0x22 then ''&quot;'' else if c = CHR 0x27 then ''&apos;'' else [c])"

definition xml_escape :: "string \<Rightarrow> string" where
  "xml_escape s = concat (map xml_entity s)"

definition junit_attr :: "string \<Rightarrow> string \<Rightarrow> string" where
  "junit_attr name v = name @ ''='' @ [CHR 0x22] @ xml_escape v @ [CHR 0x22]"

text \<open>The outcome of a test; the sign of a section is in UTF-8.\<close>
definition junit_outcome :: "annotation \<Rightarrow> string" where
  "junit_outcome a =
     (if an_status a = ''failed'' then
        ''      <failure '' @ junit_attr ''message'' (''RFC '' @ an_rfc a @ '' '' @ [CHR 0xC2, CHR 0xA7] @ an_section a @ '' failing: '' @ an_requirement a) @ ''>'' @
          xml_escape (an_url a) @ ''</failure>'' @ [CHR 0x0A]
      else if an_status a = ''ignored'' then
        ''      <skipped '' @ junit_attr ''message'' (unwrap_or (an_ignore_reason a) ''test marked #[ignore]'') @ ''/>'' @ [CHR 0x0A]
      else if an_status a = ''unknown'' then
        ''      <skipped '' @ junit_attr ''message'' ''no test results provided to compliance_report'' @ ''/>'' @ [CHR 0x0A]
      else [])"

definition junit_case :: "annotation \<Rightarrow> string" where
  "junit_case a =
     (let class_prefix = (if parse_u32 (an_rfc a) \<noteq> None then ''rfc'' @ an_rfc a else an_rfc a);
          classname = class_prefix @ ''.section_'' @ replace_char (CHR ''.'') ''_'' (an_section a) in
      ''    <testcase '' @ junit_attr ''classname'' classname @ '' '' @ junit_attr ''name'' (an_test_name a) @ ''>'' @ [CHR 0x0A] @ junit_outcome a @
      (if an_url a \<noteq> [] then ''      <system-out>'' @ xml_escape (an_url a) @ ''</system-out>'' @ [CHR 0x0A] else []) @
      ''    </testcase>'' @ [CHR 0x0A])"

definition junit_suite :: "string \<times> annotation list \<Rightarrow> string" where
  "junit_suite g = (case g of (rfc, tests) \<Rightarrow>
     ''  <testsuite '' @ junit_attr ''name'' (rfc_heading rfc) @ '' '' @ junit_attr ''tests'' (show_nat (length tests)) @ '' '' @
     junit_attr ''failures'' (show_nat (with_status ''failed'' tests)) @ '' '' @ junit_attr ''skipped'' (show_nat (with_status ''ignored'' tests)) @ ''>'' @ [CHR 0x0A] @
     concat (map junit_case tests) @ ''  </testsuite>'' @ [CHR 0x0A])"

definition render_junit :: "annotation list \<Rightarrow> string" where
  "render_junit as =
     ''<?xml '' @ junit_attr ''version'' ''1.0'' @ '' '' @ junit_attr ''encoding'' ''UTF-8'' @ ''?>'' @ [CHR 0x0A] @
     ''<testsuites '' @ junit_attr ''name'' ''rfc-compliance'' @ ''>'' @ [CHR 0x0A] @
     concat (map junit_suite (rfc_groups as)) @ ''</testsuites>'' @ [CHR 0x0A]"

section \<open>The command line and the run\<close>

record report_args =
  ra_results :: "string option"
  ra_markdown_out :: string
  ra_json_out :: string
  ra_junit_out :: string

definition default_args :: "string \<Rightarrow> report_args" where
  "default_args repo = \<lparr>ra_results = None, ra_markdown_out = repo @ ''/docs/compliance/RFC_COMPLIANCE.md'',
     ra_json_out = repo @ ''/target/compliance-report.json'', ra_junit_out = repo @ ''/target/compliance-junit.xml''\<rparr>"

text \<open>\<open>None\<close> if help was asked for.  An option without a value is ignored, and so is an argument that is no option.\<close>
fun parse_args :: "string list \<Rightarrow> report_args \<Rightarrow> report_args option" where
  "parse_args [] r = Some r"
| "parse_args (a # argv) r =
     (if a = ''--help'' \<or> a = ''-h'' then None
      else if a \<in> {''--results'', ''--markdown'', ''--json'', ''--junit''} then
        (case argv of
           [] \<Rightarrow> Some r
         | v # argv' \<Rightarrow> parse_args argv'
             (if a = ''--results'' then r\<lparr>ra_results := Some v\<rparr> else if a = ''--markdown'' then r\<lparr>ra_markdown_out := v\<rparr>
              else if a = ''--json'' then r\<lparr>ra_json_out := v\<rparr> else r\<lparr>ra_junit_out := v\<rparr>))
      else parse_args argv r)"

definition compliance_like :: "string \<Rightarrow> bool" where
  "compliance_like name =
     (suffix ''.rs'' name \<and>
      (starts_with name ''compliance_'' \<or> starts_with name ''rfc'' \<or> name = ''rfc_compliance.rs'' \<or>
       starts_with name ''phase'' \<and> split_at_text ''_rfc_'' name \<noteq> None))"

text \<open>The names of the files in the directory of tests, as far as they may hold annotations.\<close>
definition discover_test_files :: "string list \<Rightarrow> string list" where
  "discover_test_files names = sort (filter compliance_like names)"

text \<open>The annotations the reports are made of; \<open>read\<close> gives the text of a file.\<close>
definition collect :: "(string \<Rightarrow> string option) \<Rightarrow> string list \<Rightarrow> results option \<Rightarrow> annotation list" where
  "collect read names m =
     (let as = concat (map (\<lambda>name. parse_source_file (read name) (''tests/'' @ name) (take (length name - 3) name)) (discover_test_files names)) in
      case m of
        Some m' \<Rightarrow> map (fill_status m') as
      | None \<Rightarrow> map (\<lambda>a. if an_ignored a then a\<lparr>an_status := ''ignored''\<rparr> else a) as)"

section \<open>What is collected\<close>

lemma build_annotation_Some:
  assumes "build_annotation doc n l f t ig r = Some a"
  shows "an_test_name a = n" "an_source_line a = l" "an_status a = ''unknown''"
    "tag_value doc ''rfc'' = Some (an_rfc a)" "tag_value doc ''section'' = Some (an_section a)"
  using assms by (cases "tag_value doc ''rfc''"; cases "tag_value doc ''section''"; auto simp: build_annotation_def)+

lemma scan_line_annotation:
  assumes "scan_line f t idx raw s = (Some a, s')"
  shows "sc_test s \<and> s' = scan_reset \<and> an_source_line a = idx + 1 \<and> an_status a = ''unknown'' \<and>
    tag_value (sc_doc s) ''rfc'' = Some (an_rfc a) \<and> tag_value (sc_doc s) ''section'' = Some (an_section a) \<and>
    extract_fn_name (trim_start raw) = Some (an_test_name a)"
proof -
  from assms have h: "sc_test s" "s' = scan_reset"
    "Option.bind (extract_fn_name (trim_start raw)) (\<lambda>name.
       build_annotation (sc_doc s) name (idx + 1) f t (sc_ignored s) (sc_reason s)) = Some a"
    by (simp_all add: scan_line_def Let_def split: option.splits if_splits)
  then obtain n where n: "extract_fn_name (trim_start raw) = Some n"
    "build_annotation (sc_doc s) n (idx + 1) f t (sc_ignored s) (sc_reason s) = Some a" by (auto simp: bind_eq_Some_conv)
  from build_annotation_Some [OF n(2)] n(1) h(1,2) show ?thesis by simp
qed

text \<open>Every annotation names a function declared on the line it gives, and nothing has a status before results are folded in.\<close>
lemma scan_lines_sound:
  "a \<in> set (scan_lines f t idx ls s) \<Longrightarrow>
   idx < an_source_line a \<and> an_source_line a \<le> idx + length ls \<and> an_status a = ''unknown'' \<and>
   extract_fn_name (trim_start (ls ! (an_source_line a - idx - 1))) = Some (an_test_name a)"
proof (induction f t idx ls s rule: scan_lines.induct)
  case (2 f t idx l ls s)
  obtain x s' where x: "scan_line f t idx l s = (x, s')" by fastforce
  then consider "x = Some a" | "a \<in> set (scan_lines f t (idx + 1) ls s')" using 2(2) by (auto split: option.splits)
  then show ?case
  proof cases
    case 1
    then show ?thesis using scan_line_annotation x by fastforce
  next
    case 2
    with "2.IH" [OF x [symmetric]] have h: "idx + 1 < an_source_line a" "an_source_line a \<le> idx + 1 + length ls" "an_status a = ''unknown''"
      "extract_fn_name (trim_start (ls ! (an_source_line a - (idx + 1) - 1))) = Some (an_test_name a)" by auto
    obtain k where "an_source_line a = idx + 2 + k" using h(1) by (metis add.assoc less_iff_Suc_add add_Suc_right add_Suc one_add_one plus_1_eq_Suc add.commute)
    then show ?thesis using h by simp
  qed
qed simp

theorem annotations_located:
  assumes "a \<in> set (parse_source_file (Some c) f t)"
  shows "1 \<le> an_source_line a \<and> an_source_line a \<le> length (str_lines c) \<and> an_status a = ''unknown'' \<and>
    extract_fn_name (trim_start (str_lines c ! (an_source_line a - 1))) = Some (an_test_name a)"
  using scan_lines_sound [of a f t 0 "str_lines c" scan_reset] assms by (auto simp: parse_source_file_def)

text \<open>Folding in results changes the status only.\<close>
lemma fill_status_only: "\<exists>s. fill_status m a = a\<lparr>an_status := s\<rparr>"
  by (auto simp: fill_status_def intro: exI [of _ "an_status a"] split: option.splits)

section \<open>What is counted\<close>

lemma summarize_snoc:
  "summarize_by_rfc (as @ [a]) = (summarize_by_rfc as)(an_rfc a \<mapsto> count_in (an_status a) (unwrap_or (summarize_by_rfc as (an_rfc a)) rfc_zero))"
  by (simp add: summarize_by_rfc_def)

lemma count_in_total:
  "rf_total (count_in st e) = rf_total e + 1"
  "rf_passed e + rf_failed e + rf_ignored e + rf_unknown e = rf_total e \<Longrightarrow>
   rf_passed (count_in st e) + rf_failed (count_in st e) + rf_ignored (count_in st e) + rf_unknown (count_in st e) = rf_total (count_in st e)"
  by (simp_all add: count_in_def Let_def)

text \<open>Per RFC the report counts exactly the annotations of that RFC, and its four classes partition them.\<close>
theorem by_rfc_counts:
  "summarize_by_rfc as r = (let own = filter (\<lambda>a. an_rfc a = r) as in
     if own = [] then None
     else Some \<lparr>rf_total = length own, rf_passed = with_status ''passed'' own, rf_failed = with_status ''failed'' own,
       rf_ignored = with_status ''ignored'' own,
       rf_unknown = length own - with_status ''passed'' own - with_status ''failed'' own - with_status ''ignored'' own\<rparr>)"
proof (induction as rule: rev_induct)
  case (snoc a as)
  have le: "with_status ''passed'' xs + with_status ''failed'' xs + with_status ''ignored'' xs \<le> length xs" for xs
    by (induction xs) (auto simp: with_status_def)
  show ?case
  proof (cases "an_rfc a = r")
    case True
    then show ?thesis using snoc le [of "filter (\<lambda>a. an_rfc a = r) as"]
      by (auto simp: summarize_snoc count_in_def rfc_zero_def unwrap_or_def with_status_def Let_def)
  qed (use snoc in \<open>simp add: summarize_snoc\<close>)
qed (simp add: summarize_by_rfc_def)

text \<open>The totals per RFC add up to the total of the report.\<close>
theorem totals_add_up: "(\<Sum>r \<in> dom (summarize_by_rfc as). rf_total (the (summarize_by_rfc as r))) = rf_total (json_summary as)"
proof -
  have d: "dom (summarize_by_rfc as) = set (map an_rfc as)" by (auto simp: dom_def by_rfc_counts Let_def filter_empty_conv)
  have "(\<Sum>r \<in> set (map an_rfc as). rf_total (the (summarize_by_rfc as r))) = (\<Sum>r \<in> set (map an_rfc as). count_list (map an_rfc as) r)"
  proof (rule sum.cong)
    fix r
    assume "r \<in> set (map an_rfc as)"
    then have "filter (\<lambda>a. an_rfc a = r) as \<noteq> []" by (auto simp: filter_empty_conv)
    then show "rf_total (the (summarize_by_rfc as r)) = count_list (map an_rfc as) r"
      by (simp add: by_rfc_counts Let_def count_list_eq_length_filter filter_map comp_def eq_commute [of r])
  qed simp
  then show ?thesis unfolding d by (simp add: json_summary_def sum_count_set)
qed

text \<open>The score is a percentage; tests without a result do not lower it.\<close>
theorem score_bounded: "score as \<le> 100 \<and> score (as @ [a\<lparr>an_status := ''unknown''\<rparr>]) = score as"
proof -
  have "n * 100 div max (n + k) 1 \<le> 100" for n k :: nat
  proof -
    have "n * 100 div max (n + k) 1 \<le> 100 * max (n + k) 1 div max (n + k) 1" by (rule div_le_mono) simp
    then show ?thesis by simp
  qed
  then show ?thesis by (simp add: score_def with_status_def add.assoc)
qed

section \<open>What is written\<close>

text \<open>Every annotation stands in exactly one suite of the JUnit text, the one of its RFC, and no RFC has two suites.\<close>
theorem groups_partition:
  "distinct (map fst (rfc_groups as)) \<and> mset (concat (map snd (rfc_groups as))) = mset as"
proof
  let ?rs = "sort_key rfc_sort_key (sort (remdups (map an_rfc as)))"
  show "distinct (map fst (rfc_groups as))" by (simp add: rfc_groups_def comp_def)
  have part: "set rs \<supseteq> an_rfc ` set xs \<Longrightarrow> distinct rs \<Longrightarrow> mset (concat (map (\<lambda>r. filter (\<lambda>a. an_rfc a = r) xs) rs)) = mset xs" for rs xs
  proof (induction rs arbitrary: xs)
    case (Cons r rs)
    let ?ys = "filter (\<lambda>a. an_rfc a \<noteq> r) xs"
    have "map (\<lambda>q. filter (\<lambda>a. an_rfc a = q) xs) rs = map (\<lambda>q. filter (\<lambda>a. an_rfc a = q) ?ys) rs"
      using Cons.prems(2) by (auto intro!: filter_cong)
    moreover have "mset (concat (map (\<lambda>q. filter (\<lambda>a. an_rfc a = q) ?ys) rs)) = mset ?ys" using Cons by (intro Cons.IH) auto
    ultimately have "mset (concat (map (\<lambda>q. filter (\<lambda>a. an_rfc a = q) xs) rs)) = {#a \<in># mset xs. an_rfc a \<noteq> r#}" by (simp only: mset_filter)
    then show ?case by (simp add: multiset_partition [of "mset xs" "\<lambda>a. an_rfc a = r", symmetric])
  qed simp
  show "mset (concat (map snd (rfc_groups as))) = mset as" using part [of as ?rs] by (simp add: rfc_groups_def comp_def)
qed

text \<open>Values in the JUnit text cannot leave their attribute or element.\<close>
theorem xml_escape_safe: "set (xml_escape s) \<inter> {CHR ''<'', CHR ''>'', CHR 0x22, CHR 0x27} = {}"
  by (induction s) (auto simp: xml_escape_def xml_entity_def)

section \<open>Results that get lost or mixed up\<close>

text \<open>A result that comes more than one line after its name is lost, although the comment promises a later line.\<close>
theorem deferred_result_lost:
  "parse_results_pretty [''test a ... first line'', ''second line'', ''ok''] None Map.empty = Map.empty"
  "parse_results_pretty [''test a ... first line'', ''ok''] None Map.empty = [''a'' \<mapsto> ''passed'']"
  by (simp_all add: pretty_line_def strip_prefix_opt_def first_token_def match_status_token_def split_whitespace_def is_ws_def
      trim_def trim_start_def trim_end_def to_lowercase_def to_lower_char_def Let_def)

text \<open>In the plain format tests of two targets share a result when they share a name.\<close>
theorem same_name_same_status:
  assumes "m (an_test_target a @ ''::'' @ an_test_name a) = None" "m (an_test_target b @ ''::'' @ an_test_name b) = None"
    and "an_test_name a = an_test_name b" "m (an_test_name a) = Some st"
  shows "an_status (fill_status m a) = st \<and> an_status (fill_status m b) = st"
  using assms by (simp add: fill_status_def)

end
