(* ===== verification/Spec2Isabelle.thy ===== *)
theory Spec2Isabelle
  imports Listing_Laws Token_Cache Resilience Metadata_Laws
    Jwks_Cache Mongo_Laws Discovery_Laws Service Routing Redis_Cache Chrono_Serde Profile
    Compliance_Report
begin

text \<open>
  A verification library for the OAuth 2.0 / OpenID Connect authorization server rust-oauth2-server.

  \<^bold>\<open>The program.\<close>  Clients, browsers and administrators talk HTTP to one process, which reads its settings, refuses
  to start on insecure ones, opens the storage and seeds it.  A request passes a stack of middleware (the redirect to
  HTTPS, the circuit breaker, concurrency limits, bulkheads, the address denylist, the rate limiter and, under
  \<open>/admin\<close>, the admin guard); then a handler runs.  Handlers send messages to three kinds of actors, which own
  authorization codes and pushed requests, tokens (in shards, with a cache), and clients (with a cache); the actors and
  some handlers use a storage backend behind one trait.  Tokens are signed with a rotating key set.  Agents add token
  exchange, assertions of other issuers, transaction tokens and transaction approvals.

  \<^bold>\<open>Theories and sources\<close> (paths under \<open>src/\<close>; a record field keeps its Rust name behind a short prefix, a definition
  the name of its function, with a prefix or suffix where names clash).

  \<^item> \<open>OAuth_Prelude\<close>: instants, results, strings, table operations, the collection \<open>result_simps\<close>.
    \<open>Core_Basics\<close>, \<open>Core_Models\<close>, \<open>Key_Set\<close>: \<open>crates/oauth2-core/src/models\<close> and \<open>utils\<close>: errors, scopes, paging,
    delegation chains, rows, claims, signing keys.
  \<^item> \<open>Sql_Storage\<close>, \<open>Sql_Listing\<close>: \<open>crates/oauth2-storage-sqlx/src/sqlx.rs\<close>, one definition per statement, with
    the constraints of the schema.  \<open>Storage_Laws\<close>: the contracts \<open>basic_token_store\<close>, \<open>token_store\<close>, \<open>code_store\<close>.
    \<open>Storage_Invariants\<close>: keys and references, permanence of revocation and of code use.  \<open>Listing_Laws\<close>: pages, search.
    \<open>Mongo_Storage\<close>, \<open>Mongo_Laws\<close>: \<open>crates/oauth2-storage-mongo/src/lib.rs\<close>, its agreement with the SQL backend, and
    where the defaults of \<open>crates/oauth2-ports/src/storage.rs\<close> break the contract.
  \<^item> \<open>Auth_Actor\<close>, \<open>Token_Actor\<close>, \<open>Client_Actor\<close>: \<open>crates/oauth2-actix/src/actors\<close>.  \<open>Token_Laws\<close>: the handlers of the
    token actor.  \<open>Token_Cache\<close>: every interleaving of validations and revocations at one actor.
  \<^item> \<open>Server_Core\<close>: the record \<open>server\<close> of the shared state, the record \<open>env\<close> of settings and libraries, actions
    \<open>'a act\<close> with \<open>andThen\<close>.  All further handler theories are from \<open>crates/oauth2-actix/src/handlers\<close>:
    \<open>Client_Auth\<close>, \<open>Dpop\<close>, \<open>Replay_Guards\<close>, \<open>Jwks_Cache\<close> (how a request proves who sends it), \<open>Token_Grants\<close>,
    \<open>Token_Resolution\<close>, \<open>Token_Exchange\<close>, \<open>Jwt_Bearer\<close>, \<open>Transaction_Approval\<close>, \<open>Token_Endpoint\<close> (the token endpoint and its seven
    grants, pushed requests), \<open>Token_Handlers\<close> (introspection, revocation, user info), \<open>Authorize\<close>, \<open>Browser_Login\<close>,
    \<open>Device_Flow\<close>, \<open>Logout\<close>, \<open>Client_Resolver\<close>, \<open>Metadata_Fetch\<close>, \<open>Client_Registration\<close>, \<open>Admin_Console\<close>, \<open>Admin_Registry\<close>,
    \<open>Recent_Events\<close>, \<open>Discovery\<close>.  A theory \<open>X_Laws\<close> holds the properties of \<open>X\<close>; \<open>Grant_Laws\<close> those of the grants and
    the lemmas on \<open>evolves\<close> and \<open>stepwise\<close> that later proofs share; \<open>Grant_Demo\<close> the concrete server of the witnesses.
  \<^item> \<open>Social_Login\<close>, \<open>Social_Laws\<close>: \<open>crates/oauth2-social-login\<close>.
  \<^item> \<open>Rate_Limit\<close>, \<open>Redis_Limiter\<close>, \<open>Circuit_Breaker\<close>, \<open>Resilience\<close>: \<open>oauth2-ratelimit\<close> (in memory, and the script
    that Redis runs), \<open>oauth2-resilience\<close> and their middleware.  \<open>Middleware_Stack\<close>: the layers around the handlers in the
    order \<open>crates/oauth2-server/src/lib.rs\<close> wraps them, and the redirect to HTTPS.
  \<^item> \<open>Configuration\<close>: \<open>crates/oauth2-config/src/lib.rs\<close>, from file and environment to a validated configuration.
    \<open>Conformance\<close>: \<open>crates/oauth2-server/src/conformance.rs\<close>, the conformance profile and its seeding.  \<open>Startup\<close>: the
    sequence of checks and seeds of \<open>crates/oauth2-server/src/lib.rs\<close> before the first request.
  \<^item> \<open>Event_Bus\<close>: \<open>crates/oauth2-events\<close>, filters, the actor, the brokers' messages and their trace headers.
    \<open>Observed_Storage\<close>: \<open>crates/oauth2-observability/src/storage.rs\<close>, the spans around each storage call.
  \<^item> \<open>Redis_Cache\<close>: the second layer of the token and client caches in Redis, with the interleavings of several instances.
    \<open>Chrono_Serde\<close>: \<open>crates/oauth2-core/src/chrono_serde.rs\<close>, reading instants of the document store.  \<open>Profile\<close>:
    \<open>handlers/profile.rs\<close>.  \<open>Compliance_Report\<close>: \<open>src/bin/compliance_report.rs\<close>, the generator of the test reports.
  \<^item> \<open>Routing\<close>: the route table of \<open>crates/oauth2-server/src/lib.rs\<close>.  \<open>Service\<close>: the same routes as a step relation
    over the shared state.

  \<^bold>\<open>State and effects.\<close>  A table is the list of its rows; a statement returns a result and the new database.  A
  handler is a state transformer that returns \<open>Inl\<close> of an \<open>oauth2_error\<close> or \<open>Inr\<close> of its answer; every early return of
  the source is a branch.  Handlers that await between reading and writing are given in the parts between which other
  requests may run (\<open>code_grant_prepare\<close> and \<open>code_grant_commit\<close>; the four phases of \<open>Token_Cache\<close>).  Counters, bucket
  sizes and lifetimes that can wrap are words of their width.  Random draws, fresh identifiers and the clock are
  arguments.  Settings read from the environment are arguments too.

  \<^bold>\<open>Interfaces.\<close>  Locales state what one part relies on in another and are interpreted on the model's definitions:
  the storage contracts (SQL; the document store for the weaker one), \<open>bounded_cache\<close> (LRU), \<open>one_time_store\<close> (pushed
  requests), \<open>replay_guard\<close> (assertion identifiers and DPoP proofs), \<open>metered\<close> (token buckets), \<open>permit_pool\<close>
  (concurrency limits), \<open>key_source\<close> (remote keys), \<open>metadata_source\<close> (client metadata documents), \<open>header_carrier\<close>
  (trace headers of the message brokers).

  \<^bold>\<open>What is shown.\<close>
  \<^item> Grants: a token is issued only against the evidence the grant demands, within the scope, user and family of that
    evidence; codes, refresh tokens, device codes and transactions are good for one sequential redemption and their
    replay revokes what they led to; exchanged tokens only lose power; DPoP proofs bind tokens and are single use.
  \<^item> Authorization endpoint: codes only for the logged-in user, a registered redirect URI and an S256 challenge; no answer
    to any other address.  Login, social login and logout: whose session, whose tokens, which redirect.
  \<^item> Storage: unique keys and resolved references in every reachable state; revocation and use are permanent; the two
    backends agree on the statements both implement; pages partition the rows that match.
  \<^item> Introspection and revocation are backed by the tables; cached validations are stale for a bounded time only, with
    one layer of caches or two.
  \<^item> Clients: registration and metadata documents cannot obtain privileges; the address filter is a table of CIDR blocks; a
    fetch ends and is bounded.
  \<^item> Administration: rotation keeps one signing key per algorithm and honours the grace period; the registries hold checked
    entries only; withdrawal revokes; changes are audited.
  \<^item> Publication: the discovery document covers what the endpoints accept, the key document is exactly the set of
    active RSA keys and independent of shared secrets.
  \<^item> Protection: the limiter is a refinement of one bucket per key and admits a bounded number of requests, in memory as in
    Redis; the circuit breaker recovers; a refused request leaves no trace; the layers answer in the order they are wrapped.
  \<^item> Start-up and settings: a server that starts outside the insecure mode has checked secrets and no accidental openings,
    and the service it starts is sound from its first request; the conformance seed writes what the profile says.
  \<^item> Events, spans and routes: the logger and the ring keep the last accepted events in order, observation changes no
    result and records no secret of a call, instants are read back from every shape they were written in, values of a
    session add no markup to the profile page, the table serves each advertised endpoint and guards the admin routes.
  \<^item> The whole service: over every history of requests records stay well formed, revoked tokens stay revoked, and a code is
    redeemed at most once as long as requests do not overlap.
  \<^item> Counterexample runs for what does not hold, among them: two overlapping redemptions of one code, a revoked token
    served from the cache, a deleted client that authenticates from Redis, an abandoned probe that jams the breaker, ID tokens orphaned by key rotation, a backend
    on which revocation does nothing.

  \<^bold>\<open>Loops and termination.\<close>  Recursions over lists and JSON are structural or by size.  Reading a remote body is a
  \<open>partial_function (option)\<close> over a stream that may never end; that it returns within its bound is a theorem.  No
  fuel is used elsewhere.

  \<^bold>\<open>Parameters.\<close>  JWT coding, JSON text, URL parsing, base64, hashing, password hashing, RSA and AES, name
  resolution and HTTP exchanges are functions in the records \<open>libs\<close>, \<open>jwt_lib\<close>, \<open>jose\<close>, \<open>web\<close>, \<open>http_lib\<close> and
  the like; no theorem assumes more of them than it states, and every witness instantiates them.

  \<^bold>\<open>Not modelled.\<close>  The connections to the brokers and to Redis; the registration
  of metrics, the telemetry exporters and log lines (no effect on the modelled state); the read replica and connection
  failures of the storage; rounding of the limiter's floating-point numbers (reals instead); Unicode beyond single
  bytes; the several readings of the clock within one request (one instant); the rotation of the session identifier;
  HTML pages other than those whose escaping matters; the parsers of configuration text (a parameter); the
  Markdown text of the compliance report; the generated OpenAPI document; the vendored \<open>utoipa-swagger-ui\<close>; the MCP server, the examples and the tools in other
  languages.
\<close>

end
